(* ===== verification/Prelude.thy ===== *)
theory Prelude
  imports Main "HOL-Library.Char_ord" "HOL-Library.List_Lexorder"
begin

text \<open>
  Shared vocabulary of the development: the collections the component theories put their
  simplification and inversion facts into, the error-or-value results that stand for Go's
  \<open>(value, error)\<close> pairs, the early-return loop over a slice, and the few facts about lists
  and association lists that more than one component needs.
\<close>

named_theorems inv_intros \<open>preservation facts of the component invariants\<close>
named_theorems go_eval \<open>unfolding rules for evaluating a model function on a concrete input\<close>

section \<open>Results: a value or an error\<close>

text \<open>
  A Go function with the result \<open>(T, error)\<close> is modelled with the result type
  \<open>'e + 'a\<close>: \<open>Inl e\<close> is a non-nil error, \<open>Inr x\<close> a nil error with the value.
  \<open>rbind\<close> is the \<open>if err != nil { return ..., err }\<close> that follows almost every call.
\<close>

definition rbind :: "'e + 'a \<Rightarrow> ('a \<Rightarrow> 'e + 'b) \<Rightarrow> 'e + 'b" where
  "rbind r f = (case r of Inl e \<Rightarrow> Inl e | Inr x \<Rightarrow> f x)"

lemma rbind_Inl [simp]: "rbind (Inl e) f = Inl e"
  by (simp add: rbind_def)

lemma rbind_Inr [simp]: "rbind (Inr x) f = f x"
  by (simp add: rbind_def)

lemma rbind_eq_Inr [simp]: "rbind r f = Inr y \<longleftrightarrow> (\<exists>x. r = Inr x \<and> f x = Inr y)"
  by (cases r) auto

lemma rbind_eq_Inl: "rbind r f = Inl e \<longleftrightarrow> r = Inl e \<or> (\<exists>x. r = Inr x \<and> f x = Inl e)"
  by (cases r) auto

definition is_ok :: "'e + 'a \<Rightarrow> bool" where
  "is_ok r = (case r of Inl _ \<Rightarrow> False | Inr _ \<Rightarrow> True)"

lemma is_ok_simps [simp]: "\<not> is_ok (Inl e)" "is_ok (Inr x)"
  by (simp_all add: is_ok_def)

lemma is_ok_iff: "is_ok r \<longleftrightarrow> (\<exists>x. r = Inr x)"
  by (cases r) auto

definition map_err :: "('e \<Rightarrow> 'f) \<Rightarrow> 'e + 'a \<Rightarrow> 'f + 'a" where
  "map_err g r = (case r of Inl e \<Rightarrow> Inl (g e) | Inr x \<Rightarrow> Inr x)"

lemma map_err_simps [simp]: "map_err g (Inl e) = Inl (g e)" "map_err g (Inr x) = Inr x"
  by (simp_all add: map_err_def)

lemma map_err_eq_Inr [simp]: "map_err g r = Inr x \<longleftrightarrow> r = Inr x"
  by (cases r) auto

section \<open>Loops that can return early\<close>

text \<open>
  \<open>for _, x := range xs { s, err = step(s, x); if err != nil { return err } }\<close>.
\<close>

fun rfold :: "('s \<Rightarrow> 'a \<Rightarrow> 'e + 's) \<Rightarrow> 's \<Rightarrow> 'a list \<Rightarrow> 'e + 's" where
  "rfold f s [] = Inr s"
| "rfold f s (x # xs) = rbind (f s x) (\<lambda>s'. rfold f s' xs)"

lemma rfold_invariant:
  assumes "rfold f s xs = Inr t" and "P s"
    and "\<And>u x v. x \<in> set xs \<Longrightarrow> P u \<Longrightarrow> f u x = Inr v \<Longrightarrow> P v"
  shows "P t"
  using assms
proof (induction xs arbitrary: s)
  case Nil
  then show ?case by simp
next
  case (Cons x xs)
  from Cons.prems(1) obtain u where u: "f s x = Inr u" "rfold f u xs = Inr t" by auto
  have "P u" by (rule Cons.prems(3) [OF _ Cons.prems(2) u(1)]) simp
  show ?case
  proof (rule Cons.IH [OF u(2) \<open>P u\<close>])
    fix a b c assume "b \<in> set xs" "P a" "f a b = Inr c"
    then show "P c" by (intro Cons.prems(3) [of b a c]) simp_all
  qed
qed

text \<open>The same loop when every element only has to pass a test.\<close>

lemma rfold_append: "rfold f s (xs @ ys) = rbind (rfold f s xs) (\<lambda>t. rfold f t ys)"
proof (induction xs arbitrary: s)
  case (Cons x xs)
  then show ?case by (cases "f s x") auto
qed simp

section \<open>Association lists as Go maps\<close>

text \<open>
  A Go map is an association list with distinct keys: \<open>map_of\<close> looks a key up and
  \<open>put\<close> stores one. Iteration order is the one thing a Go map does not promise, so the
  model only iterates where the code sorts the keys or where the order cannot be seen.
\<close>

fun put :: "'k \<Rightarrow> 'v \<Rightarrow> ('k \<times> 'v) list \<Rightarrow> ('k \<times> 'v) list" where
  "put k v [] = [(k, v)]"
| "put k v ((k', v') # m) = (if k = k' then (k, v) # m else (k', v') # put k v m)"

lemma map_of_put [simp]: "map_of (put k v m) = (map_of m)(k \<mapsto> v)"
  by (induction k v m rule: put.induct) (auto simp: fun_eq_iff)

lemma keys_put [simp]: "fst ` set (put k v m) = insert k (fst ` set m)"
  by (induction k v m rule: put.induct) auto

lemma put_distinct [inv_intros]: "distinct (map fst m) \<Longrightarrow> distinct (map fst (put k v m))"
  by (induction k v m rule: put.induct) auto

lemma set_put_subset: "set (put k v m) \<subseteq> insert (k, v) (set m)"
  by (induction k v m rule: put.induct) auto

definition del :: "'k \<Rightarrow> ('k \<times> 'v) list \<Rightarrow> ('k \<times> 'v) list" where
  "del k m = filter (\<lambda>p. fst p \<noteq> k) m"

lemma map_of_del [simp]: "map_of (del k m) = (map_of m)(k := None)"
  by (induction m) (auto simp: del_def fun_eq_iff)

lemma keys_del [simp]: "fst ` set (del k m) = fst ` set m - {k}"
  by (auto simp: del_def)

lemma del_distinct [inv_intros]: "distinct (map fst m) \<Longrightarrow> distinct (map fst (del k m))"
  by (simp add: del_def distinct_map_filter)

lemma set_del_subset: "set (del k m) \<subseteq> set m"
  by (auto simp: del_def)

section \<open>Time\<close>

type_synonym time = int \<comment> \<open>a \<open>time.Time\<close> or \<open>time.Duration\<close>, in nanoseconds\<close>

definition seconds :: "nat \<Rightarrow> time" where
  "seconds n = int n * 1000000000"

lemma seconds_mono [simp]: "seconds m \<le> seconds n \<longleftrightarrow> m \<le> n" "seconds m < seconds n \<longleftrightarrow> m < n"
  by (simp_all add: seconds_def)

lemma seconds_nonneg [simp]: "0 \<le> seconds n" "0 < seconds n \<longleftrightarrow> 0 < n"
  by (simp_all add: seconds_def)

section \<open>Lists\<close>

definition last_n :: "nat \<Rightarrow> 'a list \<Rightarrow> 'a list" where
  "last_n n xs = drop (length xs - n) xs"

lemma length_last_n [simp]: "length (last_n n xs) = min n (length xs)"
  by (simp add: last_n_def)

lemma last_n_all [simp]: "length xs \<le> n \<Longrightarrow> last_n n xs = xs"
  by (simp add: last_n_def)

lemma last_n_append_last_n: "last_n n (last_n n xs @ ys) = last_n n (xs @ ys)"
proof (cases "length xs \<le> n")
  case True
  then show ?thesis by simp
next
  case False
  then show ?thesis by (simp add: last_n_def add.commute)
qed

lemma last_n_suffix: "xs = take (length xs - n) xs @ last_n n xs"
  by (simp add: last_n_def)

end
