(* ===== verification/Go_Strings.thy ===== *)
theory Go_Strings
  imports Prelude "HOL-Library.Word"
begin

text \<open>
  The parts of Go's \<open>strings\<close>, \<open>strconv\<close>, \<open>sort\<close> and \<open>fmt\<close> packages the modelled code
  uses. A Go string is a sequence of bytes, and so is an Isabelle \<open>string\<close> here: every
  \<open>char\<close> is one byte of the UTF-8 text.
\<close>

type_synonym bytes = string

abbreviation byte :: "char \<Rightarrow> nat" where
  "byte c \<equiv> of_char c"

section \<open>Character classes of the regular expressions\<close>

definition is_digit :: "char \<Rightarrow> bool" where
  "is_digit c \<longleftrightarrow> 48 \<le> byte c \<and> byte c \<le> 57"

definition is_upper :: "char \<Rightarrow> bool" where
  "is_upper c \<longleftrightarrow> 65 \<le> byte c \<and> byte c \<le> 90"

definition is_lower :: "char \<Rightarrow> bool" where
  "is_lower c \<longleftrightarrow> 97 \<le> byte c \<and> byte c \<le> 122"

definition is_alnum :: "char \<Rightarrow> bool" where
  "is_alnum c \<longleftrightarrow> is_digit c \<or> is_upper c \<or> is_lower c"

lemmas char_class_defs = is_digit_def is_upper_def is_lower_def is_alnum_def

text \<open>
  \<open>^[A][B]{0,n}$\<close>: a first character of one class, at most \<open>n\<close> more of another. Go's
  \<open>$\<close> without the multi-line flag matches at the end of the text only.
\<close>

definition re_head_rest :: "(char \<Rightarrow> bool) \<Rightarrow> (char \<Rightarrow> bool) \<Rightarrow> nat \<Rightarrow> string \<Rightarrow> bool" where
  "re_head_rest a b n s = (case s of [] \<Rightarrow> False | c # cs \<Rightarrow> a c \<and> list_all b cs \<and> length cs \<le> n)"

lemma re_head_rest_props:
  assumes "re_head_rest a b n s"
  shows "s \<noteq> []" "a (hd s)" "\<forall>c \<in> set s. a c \<or> b c" "length s \<le> Suc n"
  using assms by (auto simp: re_head_rest_def list_all_iff split: list.splits)

section \<open>strings\<close>

definition has_prefix :: "string \<Rightarrow> string \<Rightarrow> bool" where
  "has_prefix p s \<longleftrightarrow> take (length p) s = p"

definition has_suffix :: "string \<Rightarrow> string \<Rightarrow> bool" where
  "has_suffix p s \<longleftrightarrow> length p \<le> length s \<and> drop (length s - length p) s = p"

text \<open>\<open>strings.TrimPrefix\<close> and \<open>strings.Contains\<close>.\<close>

definition trim_prefix :: "string \<Rightarrow> string \<Rightarrow> string" where
  "trim_prefix p s = (if has_prefix p s then drop (length p) s else s)"

fun contains :: "string \<Rightarrow> string \<Rightarrow> bool" where
  "contains p [] = (p = [])"
| "contains p (c # cs) = (has_prefix p (c # cs) \<or> contains p cs)"

text \<open>
  \<open>strings.TrimSpace\<close> removes the characters of \<open>unicode.IsSpace\<close> at both ends. On bytes
  these are the UTF-8 encodings below; UTF-8 is self-synchronizing, so the last rune of a
  string is white space exactly when the string ends in one of them.
\<close>

definition space_runes :: "string list" where
  "space_runes =
     [[CHR 0x09], [CHR 0x0A], [CHR 0x0B], [CHR 0x0C], [CHR 0x0D], [CHR 0x20],
      [CHR 0xC2, CHR 0x85], [CHR 0xC2, CHR 0xA0], [CHR 0xE1, CHR 0x9A, CHR 0x80],
      [CHR 0xE2, CHR 0x80, CHR 0x80], [CHR 0xE2, CHR 0x80, CHR 0x81],
      [CHR 0xE2, CHR 0x80, CHR 0x82], [CHR 0xE2, CHR 0x80, CHR 0x83],
      [CHR 0xE2, CHR 0x80, CHR 0x84], [CHR 0xE2, CHR 0x80, CHR 0x85],
      [CHR 0xE2, CHR 0x80, CHR 0x86], [CHR 0xE2, CHR 0x80, CHR 0x87],
      [CHR 0xE2, CHR 0x80, CHR 0x88], [CHR 0xE2, CHR 0x80, CHR 0x89],
      [CHR 0xE2, CHR 0x80, CHR 0x8A], [CHR 0xE2, CHR 0x80, CHR 0xA8],
      [CHR 0xE2, CHR 0x80, CHR 0xA9], [CHR 0xE2, CHR 0x80, CHR 0xAF],
      [CHR 0xE2, CHR 0x81, CHR 0x9F], [CHR 0xE3, CHR 0x80, CHR 0x80]]"

function trim_prefixes :: "string list \<Rightarrow> string \<Rightarrow> string" where
  "trim_prefixes ps s =
     (case find (\<lambda>p. p \<noteq> [] \<and> has_prefix p s) ps of
        None \<Rightarrow> s
      | Some p \<Rightarrow> trim_prefixes ps (drop (length p) s))"
  by pat_completeness auto
termination
proof (relation "measure (\<lambda>(ps, s). length s)", simp)
  fix ps and s p :: string
  assume "find (\<lambda>p. p \<noteq> [] \<and> has_prefix p s) ps = Some p"
  then have "p \<noteq> []" "has_prefix p s" by (auto simp: find_Some_iff)
  then show "((ps, drop (length p) s), (ps, s)) \<in> measure (\<lambda>(ps, s). length s)"
    by (cases s) (auto simp: has_prefix_def)
qed

declare trim_prefixes.simps [simp del]

definition trim_space :: "string \<Rightarrow> string" where
  "trim_space s = rev (trim_prefixes (map rev space_runes) (rev (trim_prefixes space_runes s)))"

lemma trim_prefixes_fixed:
  "find (\<lambda>p. p \<noteq> [] \<and> has_prefix p s) ps = None \<Longrightarrow> trim_prefixes ps s = s"
  by (simp add: trim_prefixes.simps [of ps s])

lemma trim_prefixes_done: "find (\<lambda>p. p \<noteq> [] \<and> has_prefix p (trim_prefixes ps s)) ps = None"
proof (induction ps s rule: trim_prefixes.induct)
  case (1 ps s)
  show ?case
  proof (cases "find (\<lambda>p. p \<noteq> [] \<and> has_prefix p s) ps")
    case None
    then show ?thesis by (simp add: trim_prefixes_fixed)
  next
    case (Some p)
    then show ?thesis using "1.IH" [OF Some] by (simp add: trim_prefixes.simps [of ps s])
  qed
qed

lemma trim_space_Nil [simp]: "trim_space [] = []"
  by (simp add: trim_space_def trim_prefixes.simps has_prefix_def space_runes_def)

text \<open>
  A string whose first and last byte are plain ASCII graphic characters is its own trimming:
  the fact the round trips need.
\<close>

lemma space_runes_heads:
  "p \<in> set space_runes \<Longrightarrow> p \<noteq> [] \<and> (byte (hd p) \<le> 32 \<or> 128 \<le> byte (hd p))
     \<and> (byte (last p) \<le> 32 \<or> 128 \<le> byte (last p))"
  by (auto simp: space_runes_def)

lemma has_prefix_hd: "has_prefix p s \<Longrightarrow> p \<noteq> [] \<Longrightarrow> s \<noteq> [] \<and> hd s = hd p"
  by (cases p; cases s) (auto simp: has_prefix_def)

lemma trim_prefixes_graphic:
  assumes "\<forall>p \<in> set ps. p \<noteq> [] \<longrightarrow> byte (hd p) \<le> 32 \<or> 128 \<le> byte (hd p)"
    and "s = [] \<or> 32 < byte (hd s) \<and> byte (hd s) < 128"
  shows "trim_prefixes ps s = s"
proof (rule trim_prefixes_fixed)
  have "\<not> (p \<noteq> [] \<and> has_prefix p s)" if "p \<in> set ps" for p
  proof
    assume h: "p \<noteq> [] \<and> has_prefix p s"
    then have "s \<noteq> []" "hd s = hd p" using has_prefix_hd by blast+
    then show False using assms h that by auto
  qed
  then show "find (\<lambda>p. p \<noteq> [] \<and> has_prefix p s) ps = None" by (auto simp: find_None_iff)
qed

lemma trim_space_graphic:
  assumes "s = [] \<or> 32 < byte (hd s) \<and> byte (hd s) < 128 \<and> 32 < byte (last s) \<and> byte (last s) < 128"
  shows "trim_space s = s"
proof -
  have "trim_prefixes space_runes s = s"
    using assms space_runes_heads by (intro trim_prefixes_graphic) auto
  moreover have "trim_prefixes (map rev space_runes) (rev s) = rev s"
    using assms space_runes_heads by (intro trim_prefixes_graphic) (auto simp: hd_rev)
  ultimately show ?thesis by (simp add: trim_space_def)
qed

lemma trim_space_all_graphic:
  assumes "\<forall>c \<in> set s. 32 < byte c \<and> byte c < 128"
  shows "trim_space s = s"
  using assms by (intro trim_space_graphic) (cases s; simp)

text \<open>
  \<open>strings.ToLower\<close> on the ASCII letters, and on the two runes outside ASCII whose lower
  case is an ASCII letter (the Kelvin sign and the dotted capital I). Every other rune outside
  ASCII keeps a form outside ASCII and is left as it is: the code only compares the result
  with ASCII words.
\<close>

definition lower_char :: "char \<Rightarrow> char" where
  "lower_char c = (if is_upper c then char_of (byte c + 32) else c)"

fun to_lower :: "string \<Rightarrow> string" where
  "to_lower [] = []"
| "to_lower (c # s) =
     (if has_prefix [CHR 0xE2, CHR 0x84, CHR 0xAA] (c # s) then CHR ''k'' # to_lower (drop 2 s)
      else if has_prefix [CHR 0xC4, CHR 0xB0] (c # s) then CHR ''i'' # to_lower (drop 1 s)
      else lower_char c # to_lower s)"

text \<open>\<open>strings.Split(s, sep)\<close> for a separator of one byte: always at least one part.\<close>

fun split_on :: "char \<Rightarrow> string \<Rightarrow> string list" where
  "split_on d [] = [[]]"
| "split_on d (c # s) =
     (if c = d then [] # split_on d s
      else (case split_on d s of [] \<Rightarrow> [[c]] | p # ps \<Rightarrow> (c # p) # ps))"

fun join_with :: "string \<Rightarrow> string list \<Rightarrow> string" where
  "join_with d [] = []"
| "join_with d [p] = p"
| "join_with d (p # ps) = p @ d @ join_with d ps"

lemma split_on_nonempty [simp]: "split_on d s \<noteq> []"
  by (cases s) (auto split: list.splits)

lemma split_on_no_sep: "p \<in> set (split_on d s) \<Longrightarrow> d \<notin> set p"
proof (induction s arbitrary: p)
  case (Cons c s)
  then show ?case by (cases "split_on d s") (auto split: if_splits)
qed simp

lemma join_split [simp]: "join_with [d] (split_on d s) = s"
proof (induction s)
  case (Cons c s)
  obtain p ps where "split_on d s = p # ps" by (cases "split_on d s") auto
  with Cons show ?case by (cases ps) auto
qed simp

lemma split_on_simple: "d \<notin> set s \<Longrightarrow> split_on d s = [s]"
  by (induction s) auto

lemma split_on_append_sep:
  assumes "d \<notin> set p"
  shows "split_on d (p @ d # s) = p # split_on d s"
  using assms by (induction p) auto

lemma split_join:
  assumes "ps \<noteq> []" "\<forall>p \<in> set ps. d \<notin> set p"
  shows "split_on d (join_with [d] ps) = ps"
  using assms
proof (induction "[d]" ps rule: join_with.induct)
  case (2 p)
  then show ?case by (simp add: split_on_simple)
next
  case (3 p q ps)
  then show ?case by (simp add: split_on_append_sep)
qed simp

lemma set_split_on: "p \<in> set (split_on d s) \<Longrightarrow> set p \<subseteq> set s"
proof (induction s arbitrary: p)
  case (Cons c s)
  then show ?case by (cases "split_on d s") (fastforce split: if_splits)+
qed simp

lemma set_join_with: "set (join_with d ps) \<subseteq> set d \<union> \<Union> (set ` set ps)"
  by (induction d ps rule: join_with.induct) auto

section \<open>strconv\<close>

text \<open>
  \<open>strconv.Atoi\<close> on a 64-bit platform: an optional sign, at least one decimal digit, and a
  range error past the bounds of \<open>int64\<close>.
\<close>

definition digit_val :: "char \<Rightarrow> nat" where
  "digit_val c = byte c - 48"

definition dec_val :: "string \<Rightarrow> nat" where
  "dec_val s = foldl (\<lambda>v c. 10 * v + digit_val c) 0 s"

definition atoi :: "string \<Rightarrow> int option" where
  "atoi s =
     (let neg = has_prefix ''-'' s;
          ds = (if has_prefix ''-'' s \<or> has_prefix ''+'' s then tl s else s)
      in if ds = [] \<or> \<not> list_all is_digit ds then None
         else let v = (if neg then - int (dec_val ds) else int (dec_val ds))
              in if v < - (2 ^ 63) \<or> v \<ge> 2 ^ 63 then None else Some v)"

section \<open>fmt\<close>

text \<open>\<open>%04o\<close> of an unsigned value: octal digits, padded with zeros to four.\<close>

fun octal_digits :: "nat \<Rightarrow> string" where
  "octal_digits n = (if n < 8 then [char_of (48 + n)] else octal_digits (n div 8) @ [char_of (48 + n mod 8)])"

declare octal_digits.simps [simp del]

definition fmt_04o :: "nat \<Rightarrow> string" where
  "fmt_04o n = (let d = octal_digits n in replicate (4 - length d) CHR ''0'' @ d)"

fun dec_digits :: "nat \<Rightarrow> string" where
  "dec_digits n = (if n < 10 then [char_of (48 + n)] else dec_digits (n div 10) @ [char_of (48 + n mod 10)])"

declare dec_digits.simps [simp del]

text \<open>\<open>%q\<close> of a string without quotes, backslashes or unprintable characters.\<close>

definition fmt_q :: "string \<Rightarrow> string" where
  "fmt_q s = CHR 0x22 # s @ [CHR 0x22]"

end
