(* ===== verification/Go_Path.thy ===== *)
theory Go_Path
  imports Go_Strings
begin

text \<open>
  The lexical path functions of Go's \<open>path/filepath\<close> (Unix separators) and the part of the
  host's file system the helper sees: a tree of regular files, directories and symbolic
  links, with the link-following walk behind \<open>os.Stat\<close> and \<open>filepath.EvalSymlinks\<close>, and the
  confined walk of \<open>os.Root\<close>.
\<close>

abbreviation slash :: char where
  "slash \<equiv> CHR ''/''"

section \<open>Lexical paths\<close>

definition is_abs :: "string \<Rightarrow> bool" where
  "is_abs s \<longleftrightarrow> has_prefix ''/'' s"

text \<open>\<open>filepath.Clean\<close>: the stack holds the components kept so far, the last one first.\<close>

fun clean_comps :: "bool \<Rightarrow> string list \<Rightarrow> string list \<Rightarrow> string list" where
  "clean_comps rooted st [] = rev st"
| "clean_comps rooted st (c # cs) =
     (if c = [] \<or> c = ''.'' then clean_comps rooted st cs
      else if c = ''..'' then
        (case st of
           [] \<Rightarrow> clean_comps rooted (if rooted then [] else [''..'']) cs
         | t # ts \<Rightarrow> clean_comps rooted (if t = ''..'' then ''..'' # st else ts) cs)
      else clean_comps rooted (c # st) cs)"

definition clean :: "string \<Rightarrow> string" where
  "clean s =
     (let cs = clean_comps (is_abs s) [] (split_on slash s)
      in if is_abs s then slash # join_with ''/'' cs
         else if cs = [] then ''.'' else join_with ''/'' cs)"

text \<open>\<open>filepath.Dir\<close> and \<open>filepath.Join\<close> of two non-empty elements.\<close>

definition path_dir :: "string \<Rightarrow> string" where
  "path_dir s = clean (rev (dropWhile (\<lambda>c. c \<noteq> slash) (rev s)))"

definition path_join :: "string \<Rightarrow> string \<Rightarrow> string" where
  "path_join a b = clean (a @ slash # b)"

text \<open>An ordinary component: one that names an entry of a directory.\<close>

definition normal :: "string \<Rightarrow> bool" where
  "normal c \<longleftrightarrow> c \<noteq> [] \<and> c \<noteq> ''.'' \<and> c \<noteq> ''..'' \<and> slash \<notin> set c"

lemma normalD [dest]: "normal c \<Longrightarrow> c \<noteq> []" "normal c \<Longrightarrow> slash \<notin> set c"
  by (auto simp: normal_def)

text \<open>
  Cleaning a relative path leaves some \<open>..\<close> components followed by ordinary ones.
\<close>

lemma clean_comps_shape:
  assumes "\<forall>c \<in> set cs. slash \<notin> set c"
    and "st = ns @ replicate k ''..''" "list_all normal ns"
  shows "\<exists>j ms. clean_comps False st cs = replicate j ''..'' @ ms \<and> list_all normal ms"
  using assms
proof (induction cs arbitrary: st ns k)
  case Nil
  then show ?case
    by (intro exI [of _ k] exI [of _ "rev ns"]) (auto simp: list_all_iff)
next
  case (Cons c cs)
  note cs = Cons.prems(1) and st = Cons.prems(2) and ns = Cons.prems(3)
  have tl: "\<forall>c \<in> set cs. slash \<notin> set c" using cs by simp
  consider (skip) "c = [] \<or> c = ''.''" | (up) "c = ''..''" | (name) "normal c"
    using cs by (auto simp: normal_def)
  then show ?case
  proof cases
    case skip
    then show ?thesis using Cons.IH [OF tl st ns] by auto
  next
    case up
    show ?thesis
    proof (cases ns)
      case Nil
      have "''..'' # replicate k ''..'' = [] @ replicate (Suc k) ''..''" by simp
      from Cons.IH [OF tl this] show ?thesis using up st Nil by (cases k) auto
    next
      case (Cons t ts)
      have "normal t" "list_all normal ts" using ns Cons by auto
      then have "t \<noteq> ''..''" by (simp add: normal_def)
      note this \<open>list_all normal ts\<close>
      with Cons.IH [OF tl refl \<open>list_all normal ts\<close>, of k] show ?thesis using up st Cons by auto
    qed
  next
    case name
    have "c # st = (c # ns) @ replicate k ''..''" "list_all normal (c # ns)" using st ns name by auto
    from Cons.IH [OF tl this] show ?thesis using name by (auto simp: normal_def)
  qed
qed

lemma set_clean_comps: "set (clean_comps b st ps) \<subseteq> insert ''..'' (set st \<union> set ps)"
proof (induction b st ps rule: clean_comps.induct)
  case (2 rooted st c cs)
  then show ?case by (cases st) (auto split: if_splits)
qed auto

lemma set_clean: "set (clean s) \<subseteq> set s \<union> set ''/.''"
proof -
  let ?cs = "clean_comps (is_abs s) [] (split_on slash s)"
  have "\<Union> (set ` set ?cs) \<subseteq> set s \<union> set ''..''"
    using set_clean_comps [of "is_abs s" "[]" "split_on slash s"] set_split_on [of _ slash s] by fastforce
  then have "set ''/'' \<union> \<Union> (set ` set ?cs) \<subseteq> set s \<union> set ''/.''" by auto
  then have "set (join_with ''/'' ?cs) \<subseteq> set s \<union> set ''/.''" by (rule order_trans [OF set_join_with])
  moreover have "set (clean s) \<subseteq> set (join_with ''/'' ?cs) \<union> set ''/.''"
    unfolding clean_def Let_def by (cases "is_abs s") auto
  ultimately show ?thesis by blast
qed

lemma clean_comps_normal: "list_all normal cs \<Longrightarrow> clean_comps r st cs = rev st @ cs"
  by (induction cs arbitrary: st) (auto simp: normal_def)

lemma clean_comps_skip_last: "list_all normal cs \<Longrightarrow> clean_comps r st (cs @ [[]]) = rev st @ cs"
  by (induction cs arbitrary: st) (auto simp: normal_def)

lemma join_with_snoc: "cs \<noteq> [] \<Longrightarrow> join_with d (cs @ [c]) = join_with d cs @ d @ c"
  by (induction d cs rule: join_with.induct) auto

lemma split_join_normal:
  "cs \<noteq> [] \<Longrightarrow> list_all normal cs \<Longrightarrow> split_on slash (join_with ''/'' cs) = cs"
  by (intro split_join) (auto simp: list_all_iff normal_def)

lemma join_normal_nonempty:
  assumes "cs \<noteq> []" "list_all normal cs"
  shows "join_with ''/'' cs \<noteq> []" "hd (join_with ''/'' cs) \<noteq> slash"
proof -
  obtain c ds where cs: "cs = c # ds" using assms(1) by (cases cs) auto
  then obtain x xs where "c = x # xs" "x \<noteq> slash" using assms(2) by (cases c) (auto simp: normal_def)
  then show "join_with ''/'' cs \<noteq> []" "hd (join_with ''/'' cs) \<noteq> slash" using cs by (cases ds; simp)+
qed

lemma join_normal_not_abs: "cs \<noteq> [] \<Longrightarrow> list_all normal cs \<Longrightarrow> \<not> is_abs (join_with ''/'' cs)"
  using join_normal_nonempty [of cs] by (cases "join_with ''/'' cs") (auto simp: is_abs_def has_prefix_def)

lemma clean_join_normal: "cs \<noteq> [] \<Longrightarrow> list_all normal cs \<Longrightarrow> clean (join_with ''/'' cs) = join_with ''/'' cs"
  by (simp add: clean_def join_normal_not_abs split_join_normal clean_comps_normal)

lemma clean_relative:
  assumes "\<not> is_abs s"
  obtains j ms where "list_all normal ms" "replicate j ''..'' @ ms = clean_comps False [] (split_on slash s)"
    "clean s = (if replicate j ''..'' @ ms = [] then ''.'' else join_with ''/'' (replicate j ''..'' @ ms))"
proof -
  have "\<forall>c \<in> set (split_on slash s). slash \<notin> set c" using split_on_no_sep by blast
  from clean_comps_shape [OF this, of "[]" "[]" 0] obtain j ms
    where jm: "clean_comps False [] (split_on slash s) = replicate j ''..'' @ ms" "list_all normal ms" by auto
  then show ?thesis using assms by (intro that [of ms j]) (auto simp: clean_def)
qed

section \<open>The host's file system\<close>

text \<open>
  A path from the root of the host is its list of components. A directory entry is a regular
  file with its mode and content, a directory with its mode, or a symbolic link with its
  target. Modes are Go's \<open>fs.FileMode\<close> permission bits, 32 bits wide.
\<close>

type_synonym path = "string list"
type_synonym fmode = "32 word"

datatype node = RegF fmode bytes | DirF fmode | LinkF string

type_synonym host = "path \<Rightarrow> node option"

datatype os_error =
    ErrNotExist | ErrExist | ErrNotDir | ErrIsDir | ErrEscapes | ErrTooManyLinks | ErrPermission
  | ErrNotEmpty | ErrInvalid | ErrCrossDevice | ErrIO string

fun is_dir :: "node \<Rightarrow> bool" where
  "is_dir (DirF _) = True"
| "is_dir _ = False"

fun is_regular :: "node \<Rightarrow> bool" where
  "is_regular (RegF _ _) = True"
| "is_regular _ = False"

fun is_link :: "node \<Rightarrow> bool" where
  "is_link (LinkF _) = True"
| "is_link _ = False"

fun perm_of :: "node \<Rightarrow> fmode" where
  "perm_of (RegF m _) = m"
| "perm_of (DirF m) = m"
| "perm_of (LinkF _) = 511"

text \<open>
  \<open>follow\<close> resolves every component of an absolute path, following symbolic links, with a
  budget of links to follow: what \<open>os.Stat\<close> and \<open>filepath.EvalSymlinks\<close> do. A directory is
  entered by pushing its name, \<open>..\<close> leaves it (and stays at the root), a link's target is
  spliced in front of the components still to come. Only the last component may name
  something other than a directory.
\<close>

fun follow :: "host \<Rightarrow> nat \<Rightarrow> path \<Rightarrow> string list \<Rightarrow> os_error + path" where
  "follow h n st [] = Inr st"
| "follow h n st (c # cs) =
     (if c = [] \<or> c = ''.'' then follow h n st cs
      else if c = ''..'' then follow h n (butlast st) cs
      else (case h (st @ [c]) of
              None \<Rightarrow> Inl ErrNotExist
            | Some (DirF m) \<Rightarrow> follow h n (st @ [c]) cs
            | Some (RegF m d) \<Rightarrow> (if cs = [] then Inr (st @ [c]) else Inl ErrNotDir)
            | Some (LinkF t) \<Rightarrow>
                (case n of 0 \<Rightarrow> Inl ErrTooManyLinks
                 | Suc k \<Rightarrow> follow h k (if is_abs t then [] else st) (split_on slash t @ cs))))"

definition max_links :: nat where
  "max_links = 255"

definition eval_symlinks :: "host \<Rightarrow> string \<Rightarrow> os_error + path" where
  "eval_symlinks h s = follow h max_links [] (split_on slash s)"

definition lstat_abs :: "host \<Rightarrow> string \<Rightarrow> os_error + node" where
  "lstat_abs h s =
     (let cs = filter (\<lambda>c. c \<noteq> []) (split_on slash s) in
      if cs = [] then Inr (DirF 493)
      else rbind (follow h max_links [] (butlast cs)) (\<lambda>d.
        (case h (d @ [last cs]) of None \<Rightarrow> Inl ErrNotExist | Some nd \<Rightarrow> Inr nd)))"

text \<open>The root directory itself has no entry: it is always a directory.\<close>

definition node_at :: "host \<Rightarrow> path \<Rightarrow> node option" where
  "node_at h p = (if p = [] then Some (DirF 493) else h p)"

definition stat_abs :: "host \<Rightarrow> string \<Rightarrow> os_error + node" where
  "stat_abs h s = rbind (eval_symlinks h s) (\<lambda>p.
     (case node_at h p of None \<Rightarrow> Inl ErrNotExist | Some nd \<Rightarrow> Inr nd))"

text \<open>
  \<open>walk_root\<close> is the walk of \<open>os.Root\<close>: the same, but below an opened directory. A \<open>..\<close> that
  would leave it and a link with an absolute target are refused. The result is the directory
  reached, as the components below the root; every component has to be a directory.
\<close>

fun walk_root :: "host \<Rightarrow> path \<Rightarrow> nat \<Rightarrow> path \<Rightarrow> string list \<Rightarrow> os_error + path" where
  "walk_root h root n st [] = Inr st"
| "walk_root h root n st (c # cs) =
     (if c = [] \<or> c = ''.'' then walk_root h root n st cs
      else if c = ''..'' then
        (if st = [] then Inl ErrEscapes else walk_root h root n (butlast st) cs)
      else (case h (root @ st @ [c]) of
              None \<Rightarrow> Inl ErrNotExist
            | Some (DirF m) \<Rightarrow> walk_root h root n (st @ [c]) cs
            | Some (RegF m d) \<Rightarrow> Inl ErrNotDir
            | Some (LinkF t) \<Rightarrow>
                (case n of 0 \<Rightarrow> Inl ErrTooManyLinks
                 | Suc k \<Rightarrow> if is_abs t then Inl ErrEscapes
                            else walk_root h root k st (split_on slash t @ cs))))"

text \<open>
  The absolute path of the entry a cleaned relative name denotes below a root: the parent is
  walked, the last component is not followed. (\<open>Lstat\<close>, \<open>OpenFile\<close> with \<open>O_EXCL\<close>, \<open>Rename\<close>
  and \<open>Remove\<close> of \<open>os.Root\<close> all address the entry itself.)
\<close>

definition root_max_links :: nat where
  "root_max_links = 8"

definition root_entry :: "host \<Rightarrow> path \<Rightarrow> string \<Rightarrow> os_error + path" where
  "root_entry h root rel =
     (let cs = split_on slash rel
      in map_sum id (\<lambda>d. root @ d @ [last cs]) (walk_root h root root_max_links [] (butlast cs)))"

lemma map_sum_eq_Inr [simp]: "map_sum f g r = Inr y \<longleftrightarrow> (\<exists>x. r = Inr x \<and> y = g x)"
  by (cases r) auto

text \<open>Confinement: an entry addressed through a root lies strictly below it.\<close>

lemma root_entry_below: "root_entry h root rel = Inr p \<Longrightarrow> \<exists>q. q \<noteq> [] \<and> p = root @ q"
  by (auto simp: root_entry_def Let_def)

lemma root_entry_last: "root_entry h root rel = Inr p \<Longrightarrow> last p = last (split_on slash rel)"
  by (auto simp: root_entry_def Let_def)

end
