(* ===== verification/Priv_Grants.thy ===== *)
theory Priv_Grants
  imports Go_Path
begin

text \<open>
  \<open>internal/privfs/privfs.go\<close>: the permission modes a profile may grant, the systemd unit
  grants, and the contract every verb grant of the helper shares (units here, packages and
  firewall in their own theories), stated as the locale \<open>verb_grant\<close>.
\<close>

section \<open>Errors of the helper\<close>

text \<open>
  One constructor per message of the package, grouped by the part that reports it; the
  arguments are the values the message formats.
\<close>

datatype mode_error =
    ModeBadLength string | ModeNoLeadingZero string | ModeNotOctal string
  | ModeForbidden string | ModeBitsForbidden fmode | ModeNotGranted fmode string string

datatype grant_error =
    UnitBadName string | UnitNotGranted string "string list" | NoUnitsGranted string
  | NameRequired | NameUnknown string | NoVerbs string | BadVerb string string
  | VerbUnknown string | VerbNotGranted string string "string list"
  | PackageNameBad string | VerbTakesNoName string | FirewalldNeedsProtocol
  | BinaryNotFound string "string list" | BinaryUnknown string

section \<open>Modes\<close>

definition allowed_modes :: "fmode list" where
  "allowed_modes = [384, 416, 420, 448, 488, 493]"
  \<comment> \<open>0o600, 0o640, 0o644, 0o700, 0o750, 0o755\<close>

definition render_modes :: "fmode list \<Rightarrow> string" where
  "render_modes ms = join_with '', '' (map fmt_04o (sort (map unat ms)))"

definition ModeList :: string where
  "ModeList = render_modes allowed_modes"

text \<open>
  The loop of \<open>parseOctal\<close> works on \<open>uint32\<close>: \<open>value << 3\<close> drops the bits it shifts out.
  The bytes of a rune outside ASCII are outside \<open>'0'..'7'\<close>, as the rune itself is.
\<close>

definition octal_step :: "fmode \<Rightarrow> char \<Rightarrow> unit + fmode" where
  "octal_step v c =
     (if byte c < 48 \<or> 55 < byte c then Inl ()
      else Inr (or (push_bit 3 v) (of_nat (byte c - 48))))"

definition parseOctal :: "string \<Rightarrow> unit + fmode" where
  "parseOctal text = rbind (rfold octal_step 0 text) (\<lambda>v. if v > 4095 then Inl () else Inr v)"

definition ParseMode :: "string \<Rightarrow> mode_error + fmode" where
  "ParseMode raw =
     (let text = trim_space raw in
      if length text \<noteq> 3 \<and> length text \<noteq> 4 then Inl (ModeBadLength raw)
      else if length text = 4 \<and> hd text \<noteq> CHR ''0'' then Inl (ModeNoLeadingZero raw)
      else (case parseOctal text of
              Inl _ \<Rightarrow> Inl (ModeNotOctal raw)
            | Inr v \<Rightarrow> if v \<notin> set allowed_modes then Inl (ModeForbidden raw) else Inr v))"

lemma ParseMode_allowed: "ParseMode raw = Inr m \<Longrightarrow> m \<in> set allowed_modes"
  by (auto simp: ParseMode_def Let_def split: if_splits sum.splits)

text \<open>
  No permitted mode has a setuid, setgid or sticky bit, or a group or other write bit
  (0o7022), and every one is readable and writable by its owner (0o600).
\<close>

lemma allowed_modes_safe: "m \<in> set allowed_modes \<Longrightarrow> and m 3602 = 0 \<and> and m 384 = 384 \<and> m < 512"
  by (auto simp: allowed_modes_def)

section \<open>The contract of a verb grant\<close>

text \<open>
  A grant is built from a configured name and a list of verbs, all of them from a fixed
  table; a request's verb is checked against the grant; the commands of a verb are only
  built when the check passes. The three grants of the helper share this interface.
\<close>

locale verb_grant =
  fixes allowed :: "string list"
    and build :: "string \<Rightarrow> string list \<Rightarrow> 'e + 'g"
    and verbs :: "'g \<Rightarrow> string list"
    and check :: "'g \<Rightarrow> string \<Rightarrow> 'e + unit"
    and commands :: "'g \<Rightarrow> string \<Rightarrow> 'o \<Rightarrow> 'e + 'c"
  assumes build_verbs: "build k vs = Inr g \<Longrightarrow> verbs g \<noteq> [] \<and> set (verbs g) \<subseteq> set allowed"
    and check_iff: "check g v = Inr () \<longleftrightarrow> v \<in> set allowed \<and> v \<in> set (verbs g)"
    and commands_check: "commands g v a = Inr c \<Longrightarrow> check g v = Inr ()"
begin

definition sound :: "'g \<Rightarrow> bool" where
  "sound g \<longleftrightarrow> verbs g \<noteq> [] \<and> set (verbs g) \<subseteq> set allowed"

lemma build_sound: "build k vs = Inr g \<Longrightarrow> sound g"
  using build_verbs by (simp add: sound_def)

lemma check_sound: "sound g \<Longrightarrow> check g v = Inr () \<longleftrightarrow> v \<in> set (verbs g)"
  using check_iff by (auto simp: sound_def)

lemma commands_granted: "commands g v a = Inr c \<Longrightarrow> v \<in> set (verbs g) \<and> v \<in> set allowed"
  using commands_check check_iff by blast

lemma ungranted_refused:
  assumes "v \<notin> set (verbs g)"
  shows "\<exists>e. commands g v a = Inl e"
  using assms commands_granted by (cases "commands g v a") blast+

lemma some_verb_passes: "sound g \<Longrightarrow> \<exists>v. check g v = Inr ()"
  using check_sound by (cases "verbs g") (auto simp: sound_def)

end

section \<open>Finding the external commands\<close>

definition executable :: "host \<Rightarrow> string \<Rightarrow> bool" where
  "executable h p =
     (case stat_abs h p of
        Inl _ \<Rightarrow> False
      | Inr nd \<Rightarrow> \<not> is_dir nd \<and> and (perm_of nd) 73 \<noteq> 0)" \<comment> \<open>0o111\<close>

definition findExecutable :: "host \<Rightarrow> string list \<Rightarrow> string \<Rightarrow> grant_error + string" where
  "findExecutable h candidates name =
     (case find (executable h) candidates of
        Some c \<Rightarrow> Inr c
      | None \<Rightarrow> Inl (BinaryNotFound name candidates))"

lemma findExecutable_candidate:
  "findExecutable h cs n = Inr p \<Longrightarrow> p \<in> set cs \<and> executable h p"
  by (auto simp: findExecutable_def find_Some_iff split: option.splits)

definition systemctlPaths :: "string list" where
  "systemctlPaths = [''/usr/bin/systemctl'', ''/bin/systemctl'']"

definition FindSystemctl :: "host \<Rightarrow> grant_error + string" where
  "FindSystemctl h = findExecutable h systemctlPaths ''systemctl''"

section \<open>Systemd unit grants\<close>

record unit_grant =
  ug_unit :: string
  ug_verbs :: "string list"

definition unit_head :: "char \<Rightarrow> bool" where
  "unit_head c \<longleftrightarrow> is_alnum c \<or> c \<in> set '':._@''"

definition unit_rest :: "char \<Rightarrow> bool" where
  "unit_rest c \<longleftrightarrow> unit_head c \<or> c = CHR ''-''"

definition systemdUnitPattern :: "string \<Rightarrow> bool" where
  "systemdUnitPattern u \<longleftrightarrow>
     has_suffix ''.service'' u \<and>
     (case take (length u - 8) u of [] \<Rightarrow> False | c # cs \<Rightarrow> unit_head c \<and> list_all unit_rest cs)"

definition allowedSystemdVerbs :: "string list" where
  "allowedSystemdVerbs = [''start'', ''stop'', ''restart'', ''reload'', ''enable'', ''disable'']"

definition validSystemdVerb :: "string \<Rightarrow> bool" where
  "validSystemdVerb v \<longleftrightarrow> v \<in> set allowedSystemdVerbs"

definition verb_list :: "string \<Rightarrow> string list \<Rightarrow> string" where
  "verb_list sep vs = join_with sep (sort vs)"

definition SystemdVerbs :: string where
  "SystemdVerbs = verb_list '', '' allowedSystemdVerbs"

definition add_unit_verb :: "string \<Rightarrow> string list \<Rightarrow> string \<Rightarrow> grant_error + string list" where
  "add_unit_verb u vs v = (if \<not> validSystemdVerb v then Inl (BadVerb u v) else Inr (List.insert v vs))"

definition buildUnitGrant :: "string \<Rightarrow> string list \<Rightarrow> grant_error + unit_grant" where
  "buildUnitGrant u vs =
     (if \<not> systemdUnitPattern u then Inl (UnitBadName u)
      else if vs = [] then Inl (NoVerbs u)
      else rbind (rfold (add_unit_verb u) [] vs) (\<lambda>allowed. Inr \<lparr>ug_unit = u, ug_verbs = allowed\<rparr>))"

definition unit_CheckVerb :: "unit_grant \<Rightarrow> string \<Rightarrow> grant_error + unit" where
  "unit_CheckVerb g v =
     (if \<not> validSystemdVerb v then Inl (VerbUnknown v)
      else if v \<notin> set (ug_verbs g) then Inl (VerbNotGranted v (ug_unit g) (sort (ug_verbs g)))
      else Inr ())"

definition systemdArgv :: "unit_grant \<Rightarrow> string \<Rightarrow> string \<Rightarrow> grant_error + string list" where
  "systemdArgv g v systemctl = rbind (unit_CheckVerb g v) (\<lambda>_.
     Inr [systemctl, ''--no-ask-password'', ''--no-pager'', v, ''--'', ug_unit g])"

definition SystemdArgv :: "host \<Rightarrow> unit_grant \<Rightarrow> string \<Rightarrow> grant_error + string list" where
  "SystemdArgv h g v = rbind (FindSystemctl h) (\<lambda>systemctl. systemdArgv g v systemctl)"

text \<open>
  The verb loops of the three \<open>build...Grant\<close> functions: what is collected is what was
  configured, and every verb passed the table.
\<close>

lemma collect_verbs:
  assumes step: "\<And>acc v acc'. f acc v = Inr acc' \<Longrightarrow> ok (g v) \<and> acc' = List.insert (g v) acc"
    and "rfold f acc vs = Inr out"
  shows "set out = set acc \<union> g ` set vs \<and> (\<forall>v \<in> set vs. ok (g v))"
  using assms(2)
proof (induction vs arbitrary: acc)
  case (Cons v vs)
  then obtain acc' where a: "f acc v = Inr acc'" "rfold f acc' vs = Inr out" by auto
  with step [OF a(1)] Cons.IH [OF a(2)] show ?case by auto
qed simp

lemma collect_unit_verbs:
  assumes "rfold (add_unit_verb u) [] vs = Inr out"
  shows "set out = set vs \<and> (\<forall>v \<in> set vs. validSystemdVerb v)"
proof -
  have "validSystemdVerb v \<and> acc' = List.insert v acc" if "add_unit_verb u acc v = Inr acc'" for acc v acc'
    using that by (simp add: add_unit_verb_def split: if_splits)
  from collect_verbs [of "add_unit_verb u" validSystemdVerb "\<lambda>v. v", OF this assms] show ?thesis by simp
qed

lemma buildUnitGrant_props:
  assumes "buildUnitGrant u vs = Inr g"
  shows "systemdUnitPattern u" "ug_unit g = u" "set (ug_verbs g) = set vs" "vs \<noteq> []"
    "\<forall>v \<in> set vs. validSystemdVerb v"
  using assms by (auto simp: buildUnitGrant_def dest: collect_unit_verbs split: if_splits)

interpretation units: verb_grant allowedSystemdVerbs buildUnitGrant ug_verbs unit_CheckVerb systemdArgv
proof
  fix k vs and g :: unit_grant
  assume "buildUnitGrant k vs = Inr g"
  from buildUnitGrant_props [OF this]
  show "ug_verbs g \<noteq> [] \<and> set (ug_verbs g) \<subseteq> set allowedSystemdVerbs"
    by (auto simp: validSystemdVerb_def)
qed (auto simp: unit_CheckVerb_def systemdArgv_def validSystemdVerb_def split: if_splits)

text \<open>A unit name never starts with a dash, and never contains a slash or a space.\<close>

lemma unit_shape:
  assumes "systemdUnitPattern u"
  obtains c cs where "u = c # cs @ ''.service''" "unit_head c" "list_all unit_rest cs"
proof -
  let ?n = "length u - 8"
  have "drop ?n u = ''.service''" using assms by (simp add: systemdUnitPattern_def has_suffix_def numeral_eq_Suc)
  then have u: "u = take ?n u @ ''.service''" using append_take_drop_id [of ?n u] by argo
  obtain c cs where "take ?n u = c # cs" "unit_head c" "list_all unit_rest cs"
    using assms by (auto simp: systemdUnitPattern_def split: list.splits)
  with u show thesis by (intro that [of c cs]) auto
qed

lemma unit_chars: "systemdUnitPattern u \<Longrightarrow> list_all unit_rest u"
  by (erule unit_shape) (simp add: unit_rest_def unit_head_def char_class_defs)

lemma unit_first: "systemdUnitPattern u \<Longrightarrow> u \<noteq> [] \<and> hd u \<noteq> CHR ''-''"
  by (erule unit_shape) (auto simp: unit_head_def char_class_defs)

end
