(* ===== verification/Priv_Packages.thy ===== *)
theory Priv_Packages
  imports Priv_Grants
begin

text \<open>
  \<open>internal/privfs/packages.go\<close>: the package grant, the grammar of a package name and the one
  table of package-manager invocations the helper and the daemon share.
\<close>

definition packageManagers :: "(string \<times> string) list" where
  "packageManagers =
     [(''apt'', ''apt-get''), (''dnf'', ''dnf''), (''yum'', ''yum''), (''pacman'', ''pacman''),
      (''zypper'', ''zypper''), (''apk'', ''apk''), (''xbps'', ''xbps-install'')]"

definition allowedPackageVerbs :: "string list" where
  "allowedPackageVerbs = [''refresh'', ''upgrade'', ''install'', ''remove'']"

definition package_rest :: "char \<Rightarrow> bool" where
  "package_rest c \<longleftrightarrow> is_alnum c \<or> c \<in> set ''._+-''"

definition ValidPackageName :: "string \<Rightarrow> bool" where
  "ValidPackageName name \<longleftrightarrow> re_head_rest is_alnum package_rest 127 name"

record package_grant =
  pg_manager :: string
  pg_verbs :: "string list"

definition PackageManagers :: string where
  "PackageManagers = verb_list '', '' (map fst packageManagers)"

definition PackageVerbs :: string where
  "PackageVerbs = verb_list '', '' allowedPackageVerbs"

definition ValidPackageVerb :: "string \<Rightarrow> bool" where
  "ValidPackageVerb v \<longleftrightarrow> v \<in> set allowedPackageVerbs"

definition ValidPackageManager :: "string \<Rightarrow> bool" where
  "ValidPackageManager m \<longleftrightarrow> map_of packageManagers m \<noteq> None"

definition add_package_verb :: "string list \<Rightarrow> string \<Rightarrow> grant_error + string list" where
  "add_package_verb vs raw =
     (let v = to_lower (trim_space raw) in
      if \<not> ValidPackageVerb v then Inl (BadVerb [] v) else Inr (List.insert v vs))"

definition buildPackageGrant :: "string \<Rightarrow> string list \<Rightarrow> grant_error + package_grant" where
  "buildPackageGrant raw vs =
     (let manager = to_lower (trim_space raw) in
      if manager = [] then Inl NameRequired
      else if \<not> ValidPackageManager manager then Inl (NameUnknown manager)
      else if vs = [] then Inl (NoVerbs manager)
      else rbind (rfold add_package_verb [] vs) (\<lambda>allowed.
             Inr \<lparr>pg_manager = manager, pg_verbs = allowed\<rparr>))"

definition package_CheckVerb :: "package_grant \<Rightarrow> string \<Rightarrow> grant_error + unit" where
  "package_CheckVerb g v =
     (if \<not> ValidPackageVerb v then Inl (VerbUnknown v)
      else if v \<notin> set (pg_verbs g) then Inl (VerbNotGranted v (pg_manager g) (sort (pg_verbs g)))
      else Inr ())"

definition managerBinary :: "string \<Rightarrow> string \<Rightarrow> string" where
  "managerBinary manager verb =
     (if manager = ''xbps'' \<and> verb = ''remove'' then ''xbps-remove''
      else (case map_of packageManagers manager of None \<Rightarrow> [] | Some b \<Rightarrow> b))"

definition packageArgs :: "string \<Rightarrow> string \<Rightarrow> string \<Rightarrow> string list" where
  "packageArgs manager verb name =
     (if manager = ''apt'' then
        (if verb = ''refresh'' then [''update'']
         else if verb = ''upgrade'' then [''-y'', ''upgrade'']
         else [''-y'', verb, ''--'', name])
      else if manager = ''dnf'' \<or> manager = ''yum'' then
        (if verb = ''refresh'' then [''makecache'']
         else if verb = ''upgrade'' then [''-y'', ''upgrade'']
         else [''-y'', verb, ''--'', name])
      else if manager = ''pacman'' then
        (if verb = ''refresh'' then [''-Sy'']
         else if verb = ''upgrade'' then [''--noconfirm'', ''-Syu'']
         else if verb = ''install'' then [''--noconfirm'', ''-S'', ''--'', name]
         else [''--noconfirm'', ''-R'', ''--'', name])
      else if manager = ''zypper'' then
        (if verb = ''refresh'' then [''--non-interactive'', ''refresh'']
         else if verb = ''upgrade'' then [''--non-interactive'', ''update'']
         else [''--non-interactive'', verb, ''--'', name])
      else if manager = ''apk'' then
        (if verb = ''refresh'' then [''update'']
         else if verb = ''upgrade'' then [''upgrade'']
         else if verb = ''install'' then [''add'', ''--'', name]
         else [''del'', ''--'', name])
      else if manager = ''xbps'' then
        (if verb = ''refresh'' then [''-S'']
         else if verb = ''upgrade'' then [''-yu'']
         else [''-y'', ''--'', name])
      else [])"

definition PackageCommand :: "string \<Rightarrow> string \<Rightarrow> string \<Rightarrow> grant_error + string list" where
  "PackageCommand manager verb name =
     (if \<not> ValidPackageManager manager then Inl (NameUnknown manager)
      else if \<not> ValidPackageVerb verb then Inl (VerbUnknown verb)
      else if (verb = ''install'' \<or> verb = ''remove'') \<and> \<not> ValidPackageName name
        then Inl (PackageNameBad name)
      else if (verb = ''refresh'' \<or> verb = ''upgrade'') \<and> name \<noteq> [] then Inl (VerbTakesNoName verb)
      else Inr (managerBinary manager verb # packageArgs manager verb name))"

definition PackageArgv :: "package_grant \<Rightarrow> string \<Rightarrow> string \<Rightarrow> grant_error + string list" where
  "PackageArgv g verb name = rbind (package_CheckVerb g verb) (\<lambda>_. PackageCommand (pg_manager g) verb name)"

definition PackageEnv :: "string \<Rightarrow> string list" where
  "PackageEnv manager = (if manager = ''apt'' then [''DEBIAN_FRONTEND=noninteractive''] else [])"

definition managerPaths :: "(string \<times> string list) list" where
  "managerPaths =
     [(''apt-get'', [''/usr/bin/apt-get'', ''/bin/apt-get'']),
      (''dnf'', [''/usr/bin/dnf'', ''/bin/dnf'']),
      (''yum'', [''/usr/bin/yum'', ''/bin/yum'']),
      (''pacman'', [''/usr/bin/pacman'', ''/bin/pacman'']),
      (''zypper'', [''/usr/bin/zypper'', ''/sbin/zypper'']),
      (''apk'', [''/sbin/apk'', ''/usr/sbin/apk'']),
      (''xbps-install'', [''/usr/bin/xbps-install'', ''/bin/xbps-install'']),
      (''xbps-remove'', [''/usr/bin/xbps-remove'', ''/bin/xbps-remove''])]"

definition FindManager :: "host \<Rightarrow> string \<Rightarrow> grant_error + string" where
  "FindManager h binary =
     (case map_of managerPaths binary of
        None \<Rightarrow> Inl (BinaryUnknown binary)
      | Some candidates \<Rightarrow> findExecutable h candidates binary)"

text \<open>The order the daemon probes managers in when it builds its own command.\<close>

definition PackageManagerPreference :: "string list" where
  "PackageManagerPreference = [''apt'', ''dnf'', ''yum'', ''pacman'', ''zypper'', ''apk'', ''xbps'']"

section \<open>The grant\<close>

lemma collect_package_verbs:
  assumes "rfold add_package_verb [] vs = Inr out"
  shows "set out = (\<lambda>v. to_lower (trim_space v)) ` set vs
    \<and> (\<forall>v \<in> set vs. ValidPackageVerb (to_lower (trim_space v)))"
proof -
  have "ValidPackageVerb (to_lower (trim_space v)) \<and> acc' = List.insert (to_lower (trim_space v)) acc"
    if "add_package_verb acc v = Inr acc'" for acc v acc'
    using that by (simp add: add_package_verb_def Let_def split: if_splits)
  from collect_verbs [of add_package_verb ValidPackageVerb "\<lambda>v. to_lower (trim_space v)", OF this assms]
  show ?thesis by simp
qed

lemma buildPackageGrant_props:
  assumes "buildPackageGrant m vs = Inr g"
  shows "ValidPackageManager (pg_manager g)" "pg_manager g = to_lower (trim_space m)" "vs \<noteq> []"
    "set (pg_verbs g) = (\<lambda>v. to_lower (trim_space v)) ` set vs"
    "\<forall>v \<in> set (pg_verbs g). ValidPackageVerb v"
  using assms by (auto simp: buildPackageGrant_def Let_def dest!: collect_package_verbs split: if_splits)

interpretation packages: verb_grant allowedPackageVerbs buildPackageGrant pg_verbs package_CheckVerb PackageArgv
proof
  fix k vs and g :: package_grant
  assume "buildPackageGrant k vs = Inr g"
  from buildPackageGrant_props [OF this]
  show "pg_verbs g \<noteq> [] \<and> set (pg_verbs g) \<subseteq> set allowedPackageVerbs"
    by (auto simp: ValidPackageVerb_def)
qed (auto simp: package_CheckVerb_def PackageArgv_def ValidPackageVerb_def split: if_splits)

section \<open>The commands\<close>

lemma package_name_chars:
  assumes "ValidPackageName n"
  shows "n \<noteq> []" "is_alnum (hd n)" "list_all package_rest n" "length n \<le> 128"
  using assms re_head_rest_props [of is_alnum package_rest 127 n]
  by (auto simp: ValidPackageName_def package_rest_def list_all_iff)

lemma alnum_not_dash: "is_alnum c \<Longrightarrow> c \<noteq> CHR ''-''"
  by (auto simp: char_class_defs)

text \<open>
  The argument tail of a verb with an operand ends in \<open>--\<close> and the operand, and what
  precedes it is a table entry that does not depend on the operand.
\<close>

lemma packageArgs_operand:
  assumes "ValidPackageManager m" "v = ''install'' \<or> v = ''remove''"
  shows "\<exists>opts. packageArgs m v n = opts @ [''--'', n] \<and> (\<forall>n'. packageArgs m v n' = opts @ [''--'', n'])"
proof -
  have "m \<in> fst ` set packageManagers" using assms(1)
    by (metis ValidPackageManager_def map_of_eq_None_iff)
  then show ?thesis using assms(2)
    by (elim disjE) (auto simp: packageManagers_def packageArgs_def)
qed

lemma packageArgs_no_operand:
  assumes "v = ''refresh'' \<or> v = ''upgrade''"
  shows "packageArgs m v n = packageArgs m v n'"
  using assms by (auto simp: packageArgs_def)

lemma managerBinary_known:
  assumes "ValidPackageManager m"
  shows "\<exists>paths. map_of managerPaths (managerBinary m v) = Some paths"
proof -
  have "m \<in> fst ` set packageManagers" using assms
    by (metis ValidPackageManager_def map_of_eq_None_iff)
  then show ?thesis by (auto simp: packageManagers_def managerBinary_def managerPaths_def)
qed

text \<open>Every manager the daemon probes for is one the helper can be granted, and no other is.\<close>

lemma preference_complete: "set PackageManagerPreference = fst ` set packageManagers"
  by (simp add: PackageManagerPreference_def packageManagers_def)

end
