(* ===== verification/Go_Net.thy ===== *)
theory Go_Net
  imports Go_Strings
begin

text \<open>
  Go's \<open>net.ParseIP\<close>, \<open>net.ParseCIDR\<close> and \<open>IP.To4\<close>, as far as the firewall grammar and the
  terminal and CORS policies use them. An address is its bytes: 16 of them for what
  \<open>ParseIP\<close> returns (an IPv4 address is stored in its mapped form).
\<close>

section \<open>IPv4\<close>

definition v4_field :: "string \<Rightarrow> nat option" where
  "v4_field s =
     (if s = [] \<or> \<not> list_all is_digit s \<or> 3 < length s then None
      else if 1 < length s \<and> hd s = CHR ''0'' then None
      else if 255 < dec_val s then None
      else Some (dec_val s))"

definition parse_v4 :: "string \<Rightarrow> nat list option" where
  "parse_v4 s =
     (case map v4_field (split_on (CHR ''.'') s) of
        [Some a, Some b, Some c, Some d] \<Rightarrow> Some [a, b, c, d]
      | _ \<Rightarrow> None)"

section \<open>IPv6\<close>

definition is_hex :: "char \<Rightarrow> bool" where
  "is_hex c \<longleftrightarrow> is_digit c \<or> (97 \<le> byte c \<and> byte c \<le> 102) \<or> (65 \<le> byte c \<and> byte c \<le> 70)"

definition hex_val :: "string \<Rightarrow> nat" where
  "hex_val s = foldl (\<lambda>v c. 16 * v +
     (if is_digit c then byte c - 48 else if 97 \<le> byte c then byte c - 87 else byte c - 55)) 0 s"

text \<open>
  The loop over the groups of a textual IPv6 address: the bytes so far, the position of the
  \<open>::\<close> if it was seen, and the text left. The first argument counts the groups that still fit.
\<close>

fun v6_groups :: "nat \<Rightarrow> string \<Rightarrow> nat list \<Rightarrow> nat option \<Rightarrow> (nat list \<times> nat option \<times> string) option" where
  "v6_groups 0 s acc ell = Some (acc, ell, s)"
| "v6_groups (Suc k) s acc ell =
     (let ds = takeWhile is_hex s; rest = dropWhile is_hex s in
      if ds = [] \<or> 4 < length ds then None
      else if rest \<noteq> [] \<and> hd rest = CHR ''.'' then
        (if ell = None \<and> length acc \<noteq> 12 then None
         else if 16 < length acc + 4 then None
         else (case parse_v4 s of None \<Rightarrow> None | Some bs \<Rightarrow> Some (acc @ bs, ell, [])))
      else
        (let acc' = acc @ [hex_val ds div 256, hex_val ds mod 256] in
         case rest of
           [] \<Rightarrow> Some (acc', ell, [])
         | c # r \<Rightarrow>
             if c \<noteq> CHR '':'' \<or> r = [] then None
             else if hd r = CHR '':'' then
               (if ell \<noteq> None then None
                else if tl r = [] then Some (acc', Some (length acc'), [])
                else v6_groups k (tl r) acc' (Some (length acc')))
             else v6_groups k r acc' ell))"

definition parse_v6 :: "string \<Rightarrow> nat list option" where
  "parse_v6 s =
     (if CHR ''%'' \<in> set s then None
      else if s = ''::'' then Some (replicate 16 0)
      else (case (if has_prefix ''::'' s then v6_groups 8 (drop 2 s) [] (Some 0)
                  else v6_groups 8 s [] None) of
              None \<Rightarrow> None
            | Some (bs, ell, rest) \<Rightarrow>
                if rest \<noteq> [] then None
                else (case ell of
                        None \<Rightarrow> if length bs < 16 then None else Some bs
                      | Some e \<Rightarrow>
                          if length bs < 16
                          then Some (take e bs @ replicate (16 - length bs) 0 @ drop e bs)
                          else None)))"

section \<open>ParseIP, ParseCIDR, To4\<close>

definition v4_mapped :: "nat list \<Rightarrow> nat list" where
  "v4_mapped bs = replicate 10 0 @ [255, 255] @ bs"

text \<open>
  \<open>netip.ParseAddr\<close>: the first dot or colon decides the family. \<open>True\<close> marks an IPv4 address.
\<close>

definition parse_addr :: "string \<Rightarrow> (bool \<times> nat list) option" where
  "parse_addr s =
     (case dropWhile (\<lambda>c. c \<notin> set ''.:%'') s of
        c # _ \<Rightarrow> if c = CHR ''.'' then map_option (\<lambda>bs. (True, v4_mapped bs)) (parse_v4 s)
                 else if c = CHR '':'' then map_option (\<lambda>bs. (False, bs)) (parse_v6 s)
                 else None
      | [] \<Rightarrow> None)"

definition ParseIP :: "string \<Rightarrow> nat list option" where
  "ParseIP s = map_option snd (parse_addr s)"

definition mask_byte :: "nat \<Rightarrow> nat \<Rightarrow> nat" where
  "mask_byte k b = (let d = 2 ^ (8 - min 8 k) in b div d * d)"

fun mask_bytes :: "nat \<Rightarrow> nat list \<Rightarrow> nat list" where
  "mask_bytes n [] = []"
| "mask_bytes n (b # bs) = mask_byte n b # mask_bytes (n - 8) bs"

text \<open>\<open>ParseCIDR\<close>, reduced to the network's masked address: 4 bytes for IPv4, 16 for IPv6.\<close>

definition ParseCIDR :: "string \<Rightarrow> nat list option" where
  "ParseCIDR s =
     (let addr = takeWhile (\<lambda>c. c \<noteq> CHR ''/'') s; rest = dropWhile (\<lambda>c. c \<noteq> CHR ''/'') s in
      case rest of
        [] \<Rightarrow> None
      | _ # bits \<Rightarrow>
          (case parse_addr addr of
             None \<Rightarrow> None
           | Some (v4, bs) \<Rightarrow>
               if bits = [] \<or> \<not> list_all is_digit bits then None
               else if (if v4 then 32 else 128) < dec_val bits then None
               else Some (mask_bytes (dec_val bits) (if v4 then drop 12 bs else bs))))"

definition to4_nil :: "nat list \<Rightarrow> bool" where
  "to4_nil bs \<longleftrightarrow> \<not> (length bs = 4 \<or> (length bs = 16 \<and> take 12 bs = replicate 10 0 @ [255, 255]))"

section \<open>The characters of an address\<close>

definition addr_char :: "char \<Rightarrow> bool" where
  "addr_char c \<longleftrightarrow> is_hex c \<or> c = CHR '':'' \<or> c = CHR ''.''"

lemma parse_v4_chars:
  assumes "parse_v4 s = Some bs"
  shows "list_all addr_char s"
proof -
  obtain a b c d where sp: "split_on (CHR ''.'') s = [a, b, c, d]"
    and v: "v4_field a \<noteq> None" "v4_field b \<noteq> None" "v4_field c \<noteq> None" "v4_field d \<noteq> None"
    using assms by (auto simp: parse_v4_def split: list.splits option.splits)
  have digits: "list_all is_digit x" if "v4_field x \<noteq> None" for x
    using that by (auto simp: v4_field_def split: if_splits)
  have "s = join_with ''.'' [a, b, c, d]" using sp join_split [of "CHR ''.''" s] by simp
  with v digits show ?thesis by (auto simp: list_all_iff addr_char_def is_hex_def)
qed

lemma v6_groups_chars:
  "v6_groups k s acc ell = Some (bs, e, []) \<Longrightarrow> list_all addr_char s"
proof (induction k s acc ell rule: v6_groups.induct)
  case (2 k s acc ell)
  define ds rest where dr: "ds = takeWhile is_hex s" "rest = dropWhile is_hex s"
  have s: "s = ds @ rest" by (simp add: dr)
  have ds: "list_all addr_char ds" by (auto simp: dr list_all_iff addr_char_def dest: set_takeWhileD)
  show ?case
  proof (cases "rest \<noteq> [] \<and> hd rest = CHR ''.''")
    case True
    then show ?thesis using "2.prems" parse_v4_chars
      by (auto simp: dr [symmetric] Let_def split: if_splits option.splits)
  next
    case False
    have "list_all addr_char rest"
      using "2.prems" False "2.IH" [OF dr(1) dr(2)]
      by (auto simp: dr [symmetric] Let_def addr_char_def list_all_iff neq_Nil_conv
          split: if_splits option.splits list.splits)
    with ds s show ?thesis by (metis list_all_append)
  qed
qed simp

lemma parse_v6_chars:
  assumes "parse_v6 s = Some bs"
  shows "list_all addr_char s"
proof (cases "has_prefix ''::'' s")
  case True
  then have s: "s = ''::'' @ drop 2 s"
    by (metis append_take_drop_id has_prefix_def length_Cons list.size(3) numeral_2_eq_2)
  have "list_all addr_char (drop 2 s)"
    using assms True v6_groups_chars by (auto simp: parse_v6_def split: if_splits option.splits)
  then show ?thesis by (subst s) (simp add: addr_char_def)
next
  case False
  then show ?thesis using assms v6_groups_chars
    by (auto simp: parse_v6_def addr_char_def split: if_splits option.splits)
qed

lemma parse_addr_chars: "parse_addr s = Some r \<Longrightarrow> s \<noteq> [] \<and> list_all addr_char s"
  by (auto simp: parse_addr_def dest: parse_v4_chars parse_v6_chars split: list.splits if_splits)

lemma ParseIP_chars: "ParseIP s = Some r \<Longrightarrow> s \<noteq> [] \<and> list_all addr_char s"
  by (auto simp: ParseIP_def dest: parse_addr_chars)

lemma ParseCIDR_chars:
  assumes "ParseCIDR s = Some r"
  shows "s \<noteq> [] \<and> addr_char (hd s) \<and> list_all (\<lambda>c. addr_char c \<or> c = CHR ''/'') s"
proof -
  define a where "a = takeWhile (\<lambda>c. c \<noteq> CHR ''/'') s"
  obtain c bits where r: "dropWhile (\<lambda>c. c \<noteq> CHR ''/'') s = c # bits" "parse_addr a \<noteq> None" "list_all is_digit bits"
    using assms by (auto simp: ParseCIDR_def a_def Let_def split: list.splits option.splits if_splits)
  have s: "s = a @ c # bits" using r(1) by (metis a_def takeWhile_dropWhile_id)
  have "c = CHR ''/''" using r(1) hd_dropWhile [of "\<lambda>c. c \<noteq> CHR ''/''" s] by force
  moreover have "a \<noteq> []" "list_all addr_char a" using r(2) parse_addr_chars by auto
  moreover have "list_all addr_char bits" using r(3) by (auto simp: list_all_iff addr_char_def is_hex_def)
  ultimately show ?thesis using s by (cases a) (auto simp: list_all_iff)
qed

lemma addr_char_graphic: "addr_char c \<Longrightarrow> 32 < byte c \<and> byte c < 128 \<and> c \<noteq> CHR ''-'' \<and> c \<noteq> CHR '' ''"
  by (auto simp: addr_char_def is_hex_def is_digit_def)

end
