(* ===== verification/Priv_Firewall.thy ===== *)
theory Priv_Firewall
  imports Priv_Grants Go_Net
begin

text \<open>
  \<open>internal/privfs/firewall.go\<close>: the firewall grant, the grammar of a rule, and the commands
  of the two backends.
\<close>

definition firewallBackends :: "string list" where
  "firewallBackends = [''ufw'', ''firewalld'']"

definition allowedFirewallVerbs :: "string list" where
  "allowedFirewallVerbs = [''enable'', ''disable'', ''allow'', ''deny'', ''delete'']"

definition firewallProtocols :: "string list" where
  "firewallProtocols = [''tcp'', ''udp'', ''any'']"

definition port_number :: "string \<Rightarrow> bool" where
  "port_number s \<longleftrightarrow> s \<noteq> [] \<and> length s \<le> 5 \<and> list_all is_digit s"

definition firewallPortPattern :: "string \<Rightarrow> bool" where
  "firewallPortPattern s \<longleftrightarrow>
     (let ps = split_on (CHR '':'') s in length ps \<le> 2 \<and> list_all port_number ps)"

definition is_alpha :: "char \<Rightarrow> bool" where
  "is_alpha c \<longleftrightarrow> is_upper c \<or> is_lower c"

definition service_rest :: "char \<Rightarrow> bool" where
  "service_rest c \<longleftrightarrow> is_alnum c \<or> c = CHR ''_'' \<or> c = CHR ''-''"

definition firewallServicePattern :: "string \<Rightarrow> bool" where
  "firewallServicePattern s \<longleftrightarrow> re_head_rest is_alpha service_rest 31 s"

record firewall_grant =
  fg_backend :: string
  fg_verbs :: "string list"

record firewall_rule =
  fr_action :: string
  fr_port :: string
  fr_protocol :: string
  fr_source :: string

definition rule_String :: "firewall_rule \<Rightarrow> string" where
  "rule_String r =
     fr_action r @ '' '' @ fr_port r @ ''/'' @ fr_protocol r @
     (if fr_source r \<noteq> ''any'' then '' from '' @ fr_source r else [])"

definition FirewallBackends :: string where
  "FirewallBackends = verb_list '', '' firewallBackends"

definition FirewallVerbs :: string where
  "FirewallVerbs = verb_list '', '' allowedFirewallVerbs"

definition ValidFirewallBackend :: "string \<Rightarrow> bool" where
  "ValidFirewallBackend b \<longleftrightarrow> b \<in> set firewallBackends"

definition ValidFirewallVerb :: "string \<Rightarrow> bool" where
  "ValidFirewallVerb v \<longleftrightarrow> v \<in> set allowedFirewallVerbs"

definition add_firewall_verb :: "string list \<Rightarrow> string \<Rightarrow> grant_error + string list" where
  "add_firewall_verb vs raw =
     (let v = to_lower (trim_space raw) in
      if \<not> ValidFirewallVerb v then Inl (BadVerb [] v) else Inr (List.insert v vs))"

definition buildFirewallGrant :: "string \<Rightarrow> string list \<Rightarrow> grant_error + firewall_grant" where
  "buildFirewallGrant raw vs =
     (let backend = to_lower (trim_space raw) in
      if backend = [] then Inl NameRequired
      else if \<not> ValidFirewallBackend backend then Inl (NameUnknown backend)
      else if vs = [] then Inl (NoVerbs backend)
      else rbind (rfold add_firewall_verb [] vs) (\<lambda>allowed.
             Inr \<lparr>fg_backend = backend, fg_verbs = allowed\<rparr>))"

definition firewall_CheckVerb :: "firewall_grant \<Rightarrow> string \<Rightarrow> grant_error + unit" where
  "firewall_CheckVerb g v =
     (if \<not> ValidFirewallVerb v then Inl (VerbUnknown v)
      else if v \<notin> set (fg_verbs g) then Inl (VerbNotGranted v (fg_backend g) (sort (fg_verbs g)))
      else Inr ())"

section \<open>Rules\<close>

datatype rule_error =
    RuleActionBad string | PortBad string | PortOutOfRange string | ProtocolBad string | SourceBad string

definition validFirewallSource :: "string \<Rightarrow> bool" where
  "validFirewallSource s \<longleftrightarrow> ParseIP s \<noteq> None \<or> ParseCIDR s \<noteq> None"

definition port_bound_bad :: "string \<Rightarrow> bool" where
  "port_bound_bad b = (case atoi b of None \<Rightarrow> True | Some v \<Rightarrow> v < 1 \<or> 65535 < v)"

definition ParseFirewallRule :: "string \<Rightarrow> string \<Rightarrow> string \<Rightarrow> string \<Rightarrow> rule_error + firewall_rule" where
  "ParseFirewallRule action port protocol source =
     (let act = to_lower (trim_space action); prt = trim_space port;
          proto = to_lower (trim_space protocol); src = trim_space source in
      if act \<noteq> ''allow'' \<and> act \<noteq> ''deny'' then Inl (RuleActionBad action)
      else if \<not> firewallPortPattern prt \<and> \<not> firewallServicePattern prt then Inl (PortBad port)
      else if firewallPortPattern prt \<and> list_ex port_bound_bad (split_on (CHR '':'') prt)
        then Inl (PortOutOfRange port)
      else let proto' = (if proto = [] then ''any'' else proto) in
      if proto' \<notin> set firewallProtocols then Inl (ProtocolBad protocol)
      else let src' = (if src = [] then ''any'' else src) in
      if src' \<noteq> ''any'' \<and> \<not> validFirewallSource src' then Inl (SourceBad source)
      else Inr \<lparr>fr_action = act, fr_port = prt, fr_protocol = proto', fr_source = src'\<rparr>)"

section \<open>Commands\<close>

definition FirewallBackendPreference :: "string list" where
  "FirewallBackendPreference = [''ufw'', ''firewalld'']"

definition FirewallBinaryFor :: "string \<Rightarrow> string" where
  "FirewallBinaryFor b = (if b = ''firewalld'' then ''firewall-cmd'' else ''ufw'')"

definition toggleCommands :: "string \<Rightarrow> string \<Rightarrow> grant_error + string list list" where
  "toggleCommands backend verb =
     (if backend = ''ufw'' then
        (if verb = ''enable'' then Inr [[''ufw'', ''--force'', ''enable'']]
         else Inr [[''ufw'', ''disable'']])
      else Inr [[''systemctl'', (if verb = ''disable'' then ''stop'' else ''start''), ''firewalld.service'']])"

definition ufw_spec :: "firewall_rule \<Rightarrow> string list" where
  "ufw_spec r =
     (if fr_source r \<noteq> ''any'' then
        [''from'', fr_source r, ''to'', ''any'', ''port'', fr_port r] @
        (if fr_protocol r \<noteq> ''any'' then [''proto'', fr_protocol r] else [])
      else [if fr_protocol r \<noteq> ''any'' then fr_port r @ ''/'' @ fr_protocol r else fr_port r])"

definition ufwRuleCommands :: "string \<Rightarrow> firewall_rule \<Rightarrow> grant_error + string list list" where
  "ufwRuleCommands verb r =
     (if verb = ''allow'' \<or> verb = ''deny'' then Inr [[''ufw'', verb] @ ufw_spec r]
      else Inr [[''ufw'', ''--force'', ''delete'', fr_action r] @ ufw_spec r])"

definition reload :: "string list list \<Rightarrow> string list list" where
  "reload commands = commands @ [[''firewall-cmd'', ''--reload'']]"

definition rich_rule :: "firewall_rule \<Rightarrow> string \<Rightarrow> string \<Rightarrow> string" where
  "rich_rule r family source =
     join_with '' ''
       ([''rule family='' @ fmt_q family] @
        (if source \<noteq> [] then [''source address='' @ fmt_q source] else []) @
        [''port port='' @ fmt_q (fr_port r) @ '' protocol='' @ fmt_q (fr_protocol r),
         if fr_action r = ''deny'' then ''drop'' else ''accept''])"

definition source_family :: "string \<Rightarrow> string" where
  "source_family source =
     (if (case ParseIP source of Some ip \<Rightarrow> to4_nil ip | None \<Rightarrow> False) then ''ipv6''
      else (case ParseCIDR source of
              Some block \<Rightarrow> if to4_nil block then ''ipv6'' else ''ipv4''
            | None \<Rightarrow> ''ipv4''))"

definition richRules :: "firewall_rule \<Rightarrow> string list" where
  "richRules r =
     (if fr_source r \<noteq> ''any'' then [rich_rule r (source_family (fr_source r)) (fr_source r)]
      else [rich_rule r ''ipv4'' [], rich_rule r ''ipv6'' []])"

definition firewalldRuleCommands :: "string \<Rightarrow> firewall_rule \<Rightarrow> grant_error + string list list" where
  "firewalldRuleCommands verb r =
     (if fr_protocol r = ''any'' then Inl FirewalldNeedsProtocol
      else if fr_action r = ''allow'' \<and> fr_source r = ''any'' then
        Inr (reload [[''firewall-cmd'', ''--permanent'',
               (if verb = ''delete'' then ''--remove-port='' else ''--add-port='') @
               fr_port r @ ''/'' @ fr_protocol r]])
      else
        Inr (map (\<lambda>one. [''firewall-cmd'', ''--permanent'',
               (if verb = ''delete'' then ''--remove-rich-rule='' else ''--add-rich-rule='') @ one])
             (richRules r) @ reload []))"

definition ruleCommands :: "string \<Rightarrow> string \<Rightarrow> firewall_rule \<Rightarrow> grant_error + string list list" where
  "ruleCommands backend verb r =
     (if backend = ''ufw'' then ufwRuleCommands verb r else firewalldRuleCommands verb r)"

definition FirewallCommand :: "string \<Rightarrow> string \<Rightarrow> firewall_rule \<Rightarrow> grant_error + string list list" where
  "FirewallCommand backend verb r =
     (if \<not> ValidFirewallBackend backend then Inl (NameUnknown backend)
      else if \<not> ValidFirewallVerb verb then Inl (VerbUnknown verb)
      else if verb = ''enable'' \<or> verb = ''disable'' then toggleCommands backend verb
      else ruleCommands backend verb r)"

definition FirewallCommands :: "firewall_grant \<Rightarrow> string \<Rightarrow> firewall_rule \<Rightarrow> grant_error + string list list" where
  "FirewallCommands g verb r = rbind (firewall_CheckVerb g verb) (\<lambda>_. FirewallCommand (fg_backend g) verb r)"

definition firewallPaths :: "(string \<times> string list) list" where
  "firewallPaths =
     [(''ufw'', [''/usr/sbin/ufw'', ''/sbin/ufw'', ''/usr/bin/ufw'', ''/bin/ufw'']),
      (''firewall-cmd'', [''/usr/bin/firewall-cmd'', ''/bin/firewall-cmd'']),
      (''systemctl'', systemctlPaths)]"

definition FindFirewallBinary :: "host \<Rightarrow> string \<Rightarrow> grant_error + string" where
  "FindFirewallBinary h binary =
     (case map_of firewallPaths binary of
        None \<Rightarrow> Inl (BinaryUnknown binary)
      | Some candidates \<Rightarrow> findExecutable h candidates binary)"

section \<open>The grant\<close>

lemma collect_firewall_verbs:
  assumes "rfold add_firewall_verb [] vs = Inr out"
  shows "set out = (\<lambda>v. to_lower (trim_space v)) ` set vs
    \<and> (\<forall>v \<in> set vs. ValidFirewallVerb (to_lower (trim_space v)))"
proof -
  have "ValidFirewallVerb (to_lower (trim_space v)) \<and> acc' = List.insert (to_lower (trim_space v)) acc"
    if "add_firewall_verb acc v = Inr acc'" for acc v acc'
    using that by (simp add: add_firewall_verb_def Let_def split: if_splits)
  from collect_verbs [of add_firewall_verb ValidFirewallVerb "\<lambda>v. to_lower (trim_space v)", OF this assms]
  show ?thesis by simp
qed

lemma buildFirewallGrant_props:
  assumes "buildFirewallGrant b vs = Inr g"
  shows "ValidFirewallBackend (fg_backend g)" "fg_backend g = to_lower (trim_space b)" "vs \<noteq> []"
    "set (fg_verbs g) = (\<lambda>v. to_lower (trim_space v)) ` set vs"
    "\<forall>v \<in> set (fg_verbs g). ValidFirewallVerb v"
  using assms by (auto simp: buildFirewallGrant_def Let_def dest!: collect_firewall_verbs split: if_splits)

interpretation firewalls: verb_grant allowedFirewallVerbs buildFirewallGrant fg_verbs firewall_CheckVerb FirewallCommands
proof
  fix k vs and g :: firewall_grant
  assume "buildFirewallGrant k vs = Inr g"
  from buildFirewallGrant_props [OF this]
  show "fg_verbs g \<noteq> [] \<and> set (fg_verbs g) \<subseteq> set allowedFirewallVerbs"
    by (auto simp: ValidFirewallVerb_def)
qed (auto simp: firewall_CheckVerb_def FirewallCommands_def ValidFirewallVerb_def split: if_splits)

section \<open>What a parsed rule is\<close>

definition wf_rule :: "firewall_rule \<Rightarrow> bool" where
  "wf_rule r \<longleftrightarrow>
     (fr_action r = ''allow'' \<or> fr_action r = ''deny'') \<and>
     (firewallPortPattern (fr_port r) \<and>
        list_all (\<lambda>b. 1 \<le> dec_val b \<and> dec_val b \<le> 65535) (split_on (CHR '':'') (fr_port r))
      \<or> firewallServicePattern (fr_port r)) \<and>
     fr_protocol r \<in> set firewallProtocols \<and>
     (fr_source r = ''any'' \<or> validFirewallSource (fr_source r))"

lemma atoi_port_number:
  assumes "port_number s"
  shows "atoi s = (if dec_val s < 2 ^ 63 then Some (int (dec_val s)) else None)"
proof -
  obtain c cs where s: "s = c # cs" "is_digit c" using assms by (cases s) (auto simp: port_number_def)
  then have "\<not> has_prefix ''-'' s" "\<not> has_prefix ''+'' s"
    by (auto simp: has_prefix_def is_digit_def)
  then show ?thesis using assms by (auto simp: atoi_def Let_def port_number_def)
qed

lemma port_bound_ok:
  assumes "port_number s" "\<not> port_bound_bad s"
  shows "1 \<le> dec_val s \<and> dec_val s \<le> 65535"
  using assms by (auto simp: port_bound_bad_def atoi_port_number split: if_splits)

lemma port_ok:
  assumes "firewallPortPattern p" "\<not> list_ex port_bound_bad (split_on (CHR '':'') p)"
  shows "list_all (\<lambda>b. 1 \<le> dec_val b \<and> dec_val b \<le> 65535) (split_on (CHR '':'') p)"
  using assms port_bound_ok by (auto simp: firewallPortPattern_def list_all_iff list_ex_iff Let_def)

lemma ParseFirewallRule_cases:
  assumes "ParseFirewallRule a p t s = Inr r"
  obtains act prt proto src where
    "r = \<lparr>fr_action = act, fr_port = prt, fr_protocol = proto, fr_source = src\<rparr>"
    "act = ''allow'' \<or> act = ''deny''"
    "firewallPortPattern prt \<or> firewallServicePattern prt"
    "firewallPortPattern prt \<longrightarrow> \<not> list_ex port_bound_bad (split_on (CHR '':'') prt)"
    "proto \<in> set firewallProtocols" "src = ''any'' \<or> validFirewallSource src"
    "act = to_lower (trim_space a)" "prt = trim_space p"
  using assms unfolding ParseFirewallRule_def Let_def
  by (simp only: split: if_split_asm) (simp_all only: sum.inject sum.distinct simp_thms, metis+)

lemma ParseFirewallRule_wf: "ParseFirewallRule a p t s = Inr r \<Longrightarrow> wf_rule r"
  by (erule ParseFirewallRule_cases) (simp only: wf_rule_def firewall_rule.simps, blast intro: port_ok)

lemma source_chars:
  assumes "validFirewallSource s"
  shows "s \<noteq> []" "addr_char (hd s)"
proof -
  consider r where "ParseIP s = Some r" | r where "ParseCIDR s = Some r"
    using assms by (auto simp: validFirewallSource_def)
  then have "s \<noteq> [] \<and> addr_char (hd s)"
  proof cases
    case 1
    then show ?thesis using ParseIP_chars [of s r] by (cases s) auto
  next
    case 2
    then show ?thesis using ParseCIDR_chars [of s r] by simp
  qed
  then show "s \<noteq> []" "addr_char (hd s)" by auto
qed

text \<open>Every field of a parsed rule starts with a character that cannot begin an option.\<close>

definition operand :: "string \<Rightarrow> bool" where
  "operand s \<longleftrightarrow> s \<noteq> [] \<and> hd s \<noteq> CHR ''-''"

lemma operand_append: "operand s \<Longrightarrow> operand (s @ t)"
  by (cases s) (auto simp: operand_def)

lemma port_operand:
  assumes "wf_rule r"
  shows "operand (fr_port r)"
proof -
  consider "firewallPortPattern (fr_port r)" | "firewallServicePattern (fr_port r)"
    using assms by (auto simp: wf_rule_def)
  then show ?thesis
  proof cases
    case 1
    obtain p ps where sp: "split_on (CHR '':'') (fr_port r) = p # ps"
      by (cases "split_on (CHR '':'') (fr_port r)") auto
    with 1 have "port_number p" by (simp add: firewallPortPattern_def)
    then have "operand p" by (cases p) (auto simp: port_number_def operand_def is_digit_def)
    moreover have "fr_port r = p @ (if ps = [] then [] else '':'' @ join_with '':'' ps)"
      using join_split [of "CHR '':''" "fr_port r"] sp by (cases ps) auto
    ultimately show ?thesis by (metis operand_append)
  next
    case 2
    then show ?thesis
      by (auto simp: firewallServicePattern_def re_head_rest_def operand_def is_alpha_def
          char_class_defs split: list.splits)
  qed
qed

lemma source_operand: "wf_rule r \<Longrightarrow> operand (fr_source r)"
  using source_chars [of "fr_source r"] addr_char_graphic [of "hd (fr_source r)"]
  by (auto simp: wf_rule_def operand_def)

lemma protocol_operand: "wf_rule r \<Longrightarrow> operand (fr_protocol r)"
  by (auto simp: wf_rule_def firewallProtocols_def operand_def)

lemma ufw_spec_operands: "wf_rule r \<Longrightarrow> list_all operand (ufw_spec r)"
  using port_operand [of r] source_operand [of r] protocol_operand [of r]
  by (auto simp: ufw_spec_def operand_append) (simp_all add: operand_def)

section \<open>Undoing a rule\<close>

text \<open>
  The abstract meaning of a delete: the same object, named to the backend's removing form.
  \<open>undo\<close> turns the command that added a rule into the command that has to remove it.
\<close>

definition swap_flag :: "string \<Rightarrow> string" where
  "swap_flag a =
     (if has_prefix ''--add-port='' a then ''--remove-port='' @ drop 11 a
      else if has_prefix ''--add-rich-rule='' a then ''--remove-rich-rule='' @ drop 16 a
      else a)"

definition undo :: "string list \<Rightarrow> string list" where
  "undo argv =
     (case argv of
        [] \<Rightarrow> []
      | b # rest \<Rightarrow> if b = ''ufw'' then b # ''--force'' # ''delete'' # rest else b # map swap_flag rest)"

lemma swap_flag_port: "swap_flag (''--add-port='' @ s) = ''--remove-port='' @ s"
  by (simp add: swap_flag_def has_prefix_def numeral_eq_Suc)

lemma swap_flag_rich: "swap_flag (''--add-rich-rule='' @ s) = ''--remove-rich-rule='' @ s"
  by (simp add: swap_flag_def has_prefix_def numeral_eq_Suc)

lemma swap_flag_other: "swap_flag ''--permanent'' = ''--permanent''" "swap_flag ''--reload'' = ''--reload''"
  by (simp_all add: swap_flag_def has_prefix_def)

lemma undo_firewalld:
  "undo [''firewall-cmd'', ''--permanent'', ''--add-port='' @ s] = [''firewall-cmd'', ''--permanent'', ''--remove-port='' @ s]"
  "undo [''firewall-cmd'', ''--permanent'', ''--add-rich-rule='' @ s] =
     [''firewall-cmd'', ''--permanent'', ''--remove-rich-rule='' @ s]"
  "undo [''firewall-cmd'', ''--reload''] = [''firewall-cmd'', ''--reload'']"
  unfolding undo_def list.case list.map swap_flag_port swap_flag_rich swap_flag_other by simp_all

lemma undo_port_rule:
  "map undo (reload [[''firewall-cmd'', ''--permanent'', ''--add-port='' @ s]]) =
     reload [[''firewall-cmd'', ''--permanent'', ''--remove-port='' @ s]]"
  by (simp add: reload_def undo_firewalld del: append_Cons)

lemma undo_rich_rules:
  "map undo (map (\<lambda>one. [''firewall-cmd'', ''--permanent'', ''--add-rich-rule='' @ one]) rs @ reload []) =
     map (\<lambda>one. [''firewall-cmd'', ''--permanent'', ''--remove-rich-rule='' @ one]) rs @ reload []"
  by (simp add: reload_def undo_firewalld del: append_Cons)

lemma ruleCommands_undo:
  assumes v: "v = ''allow'' \<or> v = ''deny''" and a: "fr_action r = v"
    and add: "ruleCommands b v r = Inr cs"
  shows "ruleCommands b ''delete'' r = Inr (map undo cs)"
proof (cases "b = ''ufw''")
  case True
  then show ?thesis using v a add by (auto simp: ruleCommands_def ufwRuleCommands_def undo_def)
next
  case False
  have v': "v \<noteq> ''delete''" using v by auto
  have add': "firewalldRuleCommands v r = Inr cs" using False add by (simp add: ruleCommands_def)
  have p: "fr_protocol r \<noteq> ''any''"
    using add' by (auto simp: firewalldRuleCommands_def simp del: append_Cons)
  have "firewalldRuleCommands ''delete'' r = Inr (map undo cs)"
  proof (cases "fr_action r = ''allow'' \<and> fr_source r = ''any''")
    case True
    then have "cs = reload [[''firewall-cmd'', ''--permanent'', ''--add-port='' @ fr_port r @ ''/'' @ fr_protocol r]]"
      using add' v' p unfolding firewalldRuleCommands_def by (simp del: append_Cons)
    then have "map undo cs =
        reload [[''firewall-cmd'', ''--permanent'', ''--remove-port='' @ fr_port r @ ''/'' @ fr_protocol r]]"
      by (simp only: undo_port_rule)
    then show ?thesis using True p unfolding firewalldRuleCommands_def by (simp del: append_Cons)
  next
    case rich: False
    then have "cs = map (\<lambda>one. [''firewall-cmd'', ''--permanent'', ''--add-rich-rule='' @ one]) (richRules r) @ reload []"
      using add' v' p unfolding firewalldRuleCommands_def by (simp del: append_Cons split: if_splits)
    then have "map undo cs =
        map (\<lambda>one. [''firewall-cmd'', ''--permanent'', ''--remove-rich-rule='' @ one]) (richRules r) @ reload []"
      by (simp only: undo_rich_rules)
    then show ?thesis using rich p unfolding firewalldRuleCommands_def by (auto simp del: append_Cons)
  qed
  then show ?thesis using False by (simp add: ruleCommands_def)
qed

end
