(* ===== verification/Priv_Set.thy ===== *)
theory Priv_Set
  imports Priv_Packages Priv_Firewall
begin

text \<open>
  \<open>LoadSet\<close> and the lookups of \<open>internal/privfs/privfs.go\<close>: the root-owned grant file becomes
  the set of profiles, units, packages and firewall verbs every request is checked against.
  The TOML reader (viper) is not part of the repository: what it makes of the file is an
  argument, \<open>parse\<close>.
\<close>

section \<open>Profiles\<close>

record profile =
  p_name :: string
  p_path :: path
  p_modes :: "fmode list"

definition name_head :: "char \<Rightarrow> bool" where
  "name_head c \<longleftrightarrow> is_lower c \<or> is_digit c"

definition name_rest :: "char \<Rightarrow> bool" where
  "name_rest c \<longleftrightarrow> name_head c \<or> c = CHR ''_'' \<or> c = CHR ''-''"

definition ValidProfileName :: "string \<Rightarrow> bool" where
  "ValidProfileName n \<longleftrightarrow> re_head_rest name_head name_rest 63 n"

datatype profile_error =
    ProfileBadName string | ProfileBadPath string | ProfileUnusable string os_error
  | ProfileNotDir string | ProfileNoModes string | ProfileBadMode string mode_error
  | UnknownProfile string "string list"

definition add_mode :: "string \<Rightarrow> fmode list \<Rightarrow> string \<Rightarrow> profile_error + fmode list" where
  "add_mode name ms raw = rbind (map_err (ProfileBadMode name) (ParseMode raw)) (\<lambda>m. Inr (List.insert m ms))"

definition buildProfile :: "host \<Rightarrow> string \<Rightarrow> string \<Rightarrow> string list \<Rightarrow> profile_error + profile" where
  "buildProfile h name pth modes =
     (if \<not> ValidProfileName name then Inl (ProfileBadName name)
      else if \<not> is_abs pth \<or> clean pth \<noteq> pth then Inl (ProfileBadPath pth)
      else rbind (map_err (ProfileUnusable pth) (eval_symlinks h pth)) (\<lambda>resolved.
        case node_at h resolved of
          None \<Rightarrow> Inl (ProfileUnusable pth ErrNotExist)
        | Some nd \<Rightarrow>
            if \<not> is_dir nd then Inl (ProfileNotDir pth)
            else if modes = [] then Inl (ProfileNoModes name)
            else rbind (rfold (add_mode name) [] modes) (\<lambda>allowed.
                   Inr \<lparr>p_name = name, p_path = resolved, p_modes = allowed\<rparr>)))"

definition checkMode :: "profile \<Rightarrow> fmode \<Rightarrow> mode_error + unit" where
  "checkMode p m =
     (if m \<notin> set allowed_modes then Inl (ModeBitsForbidden m)
      else if m \<notin> set (p_modes p) then Inl (ModeNotGranted m (p_name p) (render_modes (p_modes p)))
      else Inr ())"

section \<open>The grant file\<close>

record file_config =
  fc_profiles :: "(string \<times> string \<times> string list) list"
  fc_systemd :: "(string \<times> string list) list"
  fc_packages :: "(string \<times> string list) option"
  fc_firewall :: "(string \<times> string list) option"

record grant_set =
  gs_byName :: "(string \<times> profile) list"
  gs_units :: "(string \<times> unit_grant) list"
  gs_packages :: "package_grant option"
  gs_firewall :: "firewall_grant option"

datatype config_error =
    ConfigRead os_error | ConfigSymlink | ConfigNotRegular | ConfigWritable fmode | ConfigNotRoot
  | ConfigParse | ProfileAt nat profile_error | ProfileDuplicate nat string
  | UnitAt nat grant_error | UnitDuplicate nat string
  | PackagesTable grant_error | FirewallTable grant_error | ConfigEmpty

definition add_profile ::
  "host \<Rightarrow> (string \<times> profile) list \<Rightarrow> nat \<times> string \<times> string \<times> string list
     \<Rightarrow> config_error + (string \<times> profile) list" where
  "add_profile h m entry =
     (case entry of (i, name, pth, modes) \<Rightarrow>
        rbind (map_err (ProfileAt i) (buildProfile h name pth modes)) (\<lambda>p.
          if map_of m (p_name p) \<noteq> None then Inl (ProfileDuplicate i (p_name p))
          else Inr (put (p_name p) p m)))"

definition add_unit ::
  "(string \<times> unit_grant) list \<Rightarrow> nat \<times> string \<times> string list
     \<Rightarrow> config_error + (string \<times> unit_grant) list" where
  "add_unit m entry =
     (case entry of (i, u, vs) \<Rightarrow>
        rbind (map_err (UnitAt i) (buildUnitGrant u vs)) (\<lambda>g.
          if map_of m (ug_unit g) \<noteq> None then Inl (UnitDuplicate i (ug_unit g))
          else Inr (put (ug_unit g) g m)))"

definition add_packages :: "(string \<times> string list) option \<Rightarrow> config_error + package_grant option" where
  "add_packages t =
     (case t of None \<Rightarrow> Inr None
      | Some (m, vs) \<Rightarrow> map_err PackagesTable (map_sum id Some (buildPackageGrant m vs)))"

definition add_firewall :: "(string \<times> string list) option \<Rightarrow> config_error + firewall_grant option" where
  "add_firewall t =
     (case t of None \<Rightarrow> Inr None
      | Some (b, vs) \<Rightarrow> map_err FirewallTable (map_sum id Some (buildFirewallGrant b vs)))"

definition build_set :: "host \<Rightarrow> file_config \<Rightarrow> config_error + grant_set" where
  "build_set h parsed =
     rbind (rfold (add_profile h) [] (enumerate 0 (fc_profiles parsed))) (\<lambda>byName.
     rbind (rfold add_unit [] (enumerate 0 (fc_systemd parsed))) (\<lambda>us.
     rbind (add_packages (fc_packages parsed)) (\<lambda>pkg.
     rbind (add_firewall (fc_firewall parsed)) (\<lambda>fw.
       if byName = [] \<and> us = [] \<and> pkg = None \<and> fw = None then Inl ConfigEmpty
       else Inr \<lparr>gs_byName = byName, gs_units = us, gs_packages = pkg, gs_firewall = fw\<rparr>))))"

text \<open>
  What the helper finds on the host besides the tree: the owner of a file (\<open>None\<close> where the
  platform has none) and the TOML reader applied to the grant file.
\<close>

record host_env =
  he_fs :: host
  he_owner :: "string \<Rightarrow> nat option"
  he_parse :: "string \<Rightarrow> file_config option"

definition ownedByRoot :: "host_env \<Rightarrow> string \<Rightarrow> bool" where
  "ownedByRoot e p \<longleftrightarrow> he_owner e p = Some 0"

definition LoadSet :: "host_env \<Rightarrow> string \<Rightarrow> bool \<Rightarrow> config_error + grant_set" where
  "LoadSet e configPath requireRootOwner =
     (case lstat_abs (he_fs e) configPath of
        Inl err \<Rightarrow> Inl (ConfigRead err)
      | Inr info \<Rightarrow>
          if is_link info then Inl ConfigSymlink
          else if \<not> is_regular info then Inl ConfigNotRegular
          else if and (perm_of info) 18 \<noteq> 0 then Inl (ConfigWritable (perm_of info)) \<comment> \<open>0o022\<close>
          else if requireRootOwner \<and> \<not> ownedByRoot e configPath then Inl ConfigNotRoot
          else (case he_parse e configPath of
                  None \<Rightarrow> Inl ConfigParse
                | Some parsed \<Rightarrow> build_set (he_fs e) parsed))"

section \<open>Lookups\<close>

definition Lookup :: "grant_set \<Rightarrow> string \<Rightarrow> profile_error + profile" where
  "Lookup s name =
     (case map_of (gs_byName s) name of
        Some p \<Rightarrow> Inr p
      | None \<Rightarrow> Inl (UnknownProfile name (sort (map fst (gs_byName s)))))"

definition Names :: "grant_set \<Rightarrow> string list" where
  "Names s = sort (map fst (gs_byName s))"

definition LookupUnit :: "grant_set \<Rightarrow> string \<Rightarrow> grant_error + unit_grant" where
  "LookupUnit s u =
     (case map_of (gs_units s) u of
        Some g \<Rightarrow> Inr g
      | None \<Rightarrow>
          if gs_units s = [] then Inl (NoUnitsGranted u)
          else Inl (UnitNotGranted u (sort (map fst (gs_units s)))))"

definition GrantedUnits :: "grant_set \<Rightarrow> string list" where
  "GrantedUnits s = sort (map fst (gs_units s))"

section \<open>Every loaded set is well-formed\<close>

definition wf_profile :: "host \<Rightarrow> profile \<Rightarrow> bool" where
  "wf_profile h p \<longleftrightarrow>
     ValidProfileName (p_name p) \<and> p_modes p \<noteq> [] \<and> set (p_modes p) \<subseteq> set allowed_modes \<and>
     (\<exists>nd. node_at h (p_path p) = Some nd \<and> is_dir nd)"

definition wf_unit :: "unit_grant \<Rightarrow> bool" where
  "wf_unit g \<longleftrightarrow> systemdUnitPattern (ug_unit g) \<and> units.sound g"

definition wf_packages :: "package_grant \<Rightarrow> bool" where
  "wf_packages g \<longleftrightarrow> ValidPackageManager (pg_manager g) \<and> packages.sound g"

definition wf_firewall :: "firewall_grant \<Rightarrow> bool" where
  "wf_firewall g \<longleftrightarrow> ValidFirewallBackend (fg_backend g) \<and> firewalls.sound g"

definition wf_set :: "host \<Rightarrow> grant_set \<Rightarrow> bool" where
  "wf_set h s \<longleftrightarrow>
     distinct (map fst (gs_byName s)) \<and>
     (\<forall>(n, p) \<in> set (gs_byName s). n = p_name p \<and> wf_profile h p) \<and>
     distinct (map fst (gs_units s)) \<and>
     (\<forall>(u, g) \<in> set (gs_units s). u = ug_unit g \<and> wf_unit g) \<and>
     (\<forall>g. gs_packages s = Some g \<longrightarrow> wf_packages g) \<and>
     (\<forall>g. gs_firewall s = Some g \<longrightarrow> wf_firewall g) \<and>
     (gs_byName s \<noteq> [] \<or> gs_units s \<noteq> [] \<or> gs_packages s \<noteq> None \<or> gs_firewall s \<noteq> None)"

lemma add_mode_Inr: "add_mode n acc raw = Inr acc' \<longleftrightarrow> (\<exists>m. ParseMode raw = Inr m \<and> acc' = List.insert m acc)"
  by (auto simp: add_mode_def)

lemma collect_modes:
  assumes "rfold (add_mode n) acc modes = Inr out"
  shows "set out = set acc \<union> {m. \<exists>raw \<in> set modes. ParseMode raw = Inr m}"
  using assms
proof (induction modes arbitrary: acc)
  case (Cons raw modes)
  then obtain m where "ParseMode raw = Inr m" "rfold (add_mode n) (List.insert m acc) modes = Inr out"
    by (auto simp: add_mode_Inr)
  with Cons.IH [of "List.insert m acc"] show ?case by auto
qed simp

lemma collect_modes_nonempty:
  assumes "rfold (add_mode n) [] modes = Inr out" "modes \<noteq> []"
  shows "out \<noteq> []"
proof -
  obtain raw where raw: "raw \<in> set modes" using assms(2) by (cases modes) auto
  then obtain pre post where m: "modes = pre @ raw # post" by (metis split_list)
  then obtain m where "ParseMode raw = Inr m" using assms(1) by (auto simp: rfold_append add_mode_Inr)
  with raw collect_modes [OF assms(1)] show ?thesis by auto
qed

lemma buildProfile_wf:
  assumes "buildProfile h name pth modes = Inr p"
  shows "wf_profile h p"
proof -
  obtain nd allowed where b: "ValidProfileName name" "node_at h (p_path p) = Some nd" "is_dir nd"
    "modes \<noteq> []" "rfold (add_mode name) [] modes = Inr allowed" "p_name p = name" "p_modes p = allowed"
    using assms by (auto simp: buildProfile_def split: if_splits option.splits)
  have "set allowed \<subseteq> set allowed_modes"
    using collect_modes [OF b(5)] ParseMode_allowed by auto
  with b collect_modes_nonempty [OF b(5,4)] show ?thesis by (auto simp: wf_profile_def)
qed

lemma buildUnitGrant_wf: "buildUnitGrant u vs = Inr g \<Longrightarrow> wf_unit g"
  by (metis wf_unit_def buildUnitGrant_props(1,2) units.build_sound)

lemma buildPackageGrant_wf: "buildPackageGrant m vs = Inr g \<Longrightarrow> wf_packages g"
  by (metis wf_packages_def buildPackageGrant_props(1) packages.build_sound)

lemma buildFirewallGrant_wf: "buildFirewallGrant m vs = Inr g \<Longrightarrow> wf_firewall g"
  by (metis wf_firewall_def buildFirewallGrant_props(1) firewalls.build_sound)

lemma add_profile_wf:
  assumes "add_profile h m entry = Inr m'"
    and "distinct (map fst m) \<and> (\<forall>(n, p) \<in> set m. n = p_name p \<and> wf_profile h p)"
  shows "distinct (map fst m') \<and> (\<forall>(n, p) \<in> set m'. n = p_name p \<and> wf_profile h p)"
proof -
  obtain i name pth modes p where "buildProfile h name pth modes = Inr p" "m' = put (p_name p) p m"
    using assms(1) by (cases entry) (auto simp: add_profile_def split: if_splits)
  then show ?thesis
    using assms(2) set_put_subset [of "p_name p" p m] buildProfile_wf put_distinct by fastforce
qed

lemma add_unit_wf:
  assumes "add_unit m entry = Inr m'"
    and "distinct (map fst m) \<and> (\<forall>(u, g) \<in> set m. u = ug_unit g \<and> wf_unit g)"
  shows "distinct (map fst m') \<and> (\<forall>(u, g) \<in> set m'. u = ug_unit g \<and> wf_unit g)"
proof -
  obtain i u vs g where "buildUnitGrant u vs = Inr g" "m' = put (ug_unit g) g m"
    using assms(1) by (cases entry) (auto simp: add_unit_def split: if_splits)
  then show ?thesis
    using assms(2) set_put_subset [of "ug_unit g" g m] buildUnitGrant_wf put_distinct by fastforce
qed

lemma build_set_wf:
  assumes "build_set h parsed = Inr s"
  shows "wf_set h s"
proof -
  obtain bn us pk fw where
    p: "rfold (add_profile h) [] (enumerate 0 (fc_profiles parsed)) = Inr bn" and
    u: "rfold add_unit [] (enumerate 0 (fc_systemd parsed)) = Inr us" and
    k: "add_packages (fc_packages parsed) = Inr pk" and f: "add_firewall (fc_firewall parsed) = Inr fw" and
    ne: "\<not> (bn = [] \<and> us = [] \<and> pk = None \<and> fw = None)" and
    s: "s = \<lparr>gs_byName = bn, gs_units = us, gs_packages = pk, gs_firewall = fw\<rparr>"
    using assms by (auto simp: build_set_def split: if_splits)
  have "distinct (map fst bn) \<and> (\<forall>(n, p) \<in> set bn. n = p_name p \<and> wf_profile h p)"
    by (rule rfold_invariant [OF p]) (simp, erule (1) add_profile_wf [rotated])
  moreover have "distinct (map fst us) \<and> (\<forall>(u, g) \<in> set us. u = ug_unit g \<and> wf_unit g)"
    by (rule rfold_invariant [OF u]) (simp, erule (1) add_unit_wf [rotated])
  moreover have "\<forall>g. pk = Some g \<longrightarrow> wf_packages g"
    using k buildPackageGrant_wf by (auto simp: add_packages_def split: option.splits)
  moreover have "\<forall>g. fw = Some g \<longrightarrow> wf_firewall g"
    using f buildFirewallGrant_wf by (auto simp: add_firewall_def split: option.splits)
  ultimately show ?thesis using s ne by (auto simp: wf_set_def)
qed

lemma LoadSet_wf: "LoadSet e c r = Inr s \<Longrightarrow> wf_set (he_fs e) s"
  by (auto simp: LoadSet_def build_set_wf split: sum.splits option.splits if_splits)

lemma LoadSet_trusted:
  assumes "LoadSet e c True = Inr s"
  shows "ownedByRoot e c" "\<exists>m d. lstat_abs (he_fs e) c = Inr (RegF m d) \<and> and m 18 = 0"
proof -
  obtain info where i: "lstat_abs (he_fs e) c = Inr info" "\<not> is_link info" "is_regular info"
    "and (perm_of info) 18 = 0" "ownedByRoot e c"
    using assms by (auto simp: LoadSet_def split: sum.splits option.splits if_splits)
  then show "ownedByRoot e c" "\<exists>m d. lstat_abs (he_fs e) c = Inr (RegF m d) \<and> and m 18 = 0"
    by (cases info; auto)+
qed

lemma Lookup_wf: "wf_set h s \<Longrightarrow> Lookup s n = Inr p \<Longrightarrow> wf_profile h p \<and> p_name p = n"
  by (fastforce simp: wf_set_def Lookup_def dest: map_of_SomeD split: option.splits)

lemma LookupUnit_wf: "wf_set h s \<Longrightarrow> LookupUnit s u = Inr g \<Longrightarrow> wf_unit g \<and> ug_unit g = u"
  by (fastforce simp: wf_set_def LookupUnit_def dest: map_of_SomeD split: option.splits if_splits)

lemma checkMode_iff: "set (p_modes p) \<subseteq> set allowed_modes \<Longrightarrow> checkMode p m = Inr () \<longleftrightarrow> m \<in> set (p_modes p)"
  by (auto simp: checkMode_def)

end
