(* ===== verification/Priv_Files.thy ===== *)
theory Priv_Files
  imports Priv_Set
begin

text \<open>
  \<open>Write\<close>, \<open>Mkdir\<close> and \<open>Remove\<close> of \<open>internal/privfs/privfs.go\<close>: what the helper does to the
  host's tree inside one profile, on every branch, with the operating system allowed to fail
  at every call. \<open>io\<close> holds what the run cannot choose: the random suffix, the umask, and
  which calls fail.
\<close>

section \<open>Profile-relative paths\<close>

datatype rel_error = RelRequired | RelNul | RelAbsolute | RelOutside string

definition safeRel :: "string \<Rightarrow> rel_error + string" where
  "safeRel rel =
     (if rel = [] then Inl RelRequired
      else if CHR 0x00 \<in> set rel then Inl RelNul
      else if is_abs rel then Inl RelAbsolute
      else let c = clean rel in
        if c = ''.'' \<or> c = ''..'' \<or> has_prefix ''../'' c then Inl (RelOutside rel)
        else Inr c)"

text \<open>
  What survives is a join of ordinary components: no empty one, no \<open>.\<close>, no \<open>..\<close>.
\<close>

lemma safeRel_shape:
  assumes "safeRel rel = Inr c"
  obtains cs where "cs \<noteq> []" "list_all normal cs" "c = join_with ''/'' cs"
proof -
  have na: "\<not> is_abs rel" and c: "c = clean rel" and
    bad: "c \<noteq> ''.''" "c \<noteq> ''..''" "\<not> has_prefix ''../'' c"
    using assms by (auto simp: safeRel_def Let_def split: if_splits)
  obtain j ms where ms: "list_all normal ms"
    and cl: "clean rel = (if replicate j ''..'' @ ms = [] then ''.'' else join_with ''/'' (replicate j ''..'' @ ms))"
    using clean_relative [OF na] by metis
  have "j = 0"
  proof (rule ccontr)
    assume "j \<noteq> 0"
    then obtain i where "replicate j ''..'' @ ms = ''..'' # replicate i ''..'' @ ms" by (cases j) auto
    with cl c have "c = ''..'' \<or> has_prefix ''../'' c"
      by (cases "replicate i ''..'' @ ms") (auto simp: has_prefix_def numeral_eq_Suc)
    with bad show False by blast
  qed
  with cl c bad ms show thesis by (intro that [of ms]) (auto split: if_splits)
qed

lemma safeRel_idem:
  assumes "safeRel rel = Inr c"
  shows "safeRel c = Inr c"
proof -
  obtain cs where cs: "cs \<noteq> []" "list_all normal cs" "c = join_with ''/'' cs"
    using safeRel_shape [OF assms] .
  have "CHR 0x00 \<notin> set c"
    using assms set_clean [of rel] by (auto simp: safeRel_def Let_def split: if_splits)
  moreover have "c \<noteq> []" "\<not> is_abs c" "clean c = c"
    using cs join_normal_nonempty join_normal_not_abs clean_join_normal by auto
  moreover have "c \<noteq> ''.''" "c \<noteq> ''..''" "\<not> has_prefix ''../'' c"
    using assms by (auto simp: safeRel_def Let_def split: if_splits)
  ultimately show ?thesis by (simp add: safeRel_def)
qed

section \<open>The temporary name\<close>

definition hex_digit :: "nat \<Rightarrow> char" where
  "hex_digit n = (if n < 10 then char_of (48 + n) else char_of (87 + n))"

definition hex_encode :: "8 word list \<Rightarrow> string" where
  "hex_encode bs = concat (map (\<lambda>b. [hex_digit (unat b div 16), hex_digit (unat b mod 16)]) bs)"

text \<open>The eight random bytes, or the clock's nanoseconds when the generator fails.\<close>

definition tempName :: "8 word list + nat \<Rightarrow> string" where
  "tempName r =
     (case r of
        Inl suffix \<Rightarrow> ''.maidkit-priv-'' @ hex_encode suffix
      | Inr nanos \<Rightarrow> ''.maidkit-priv-'' @ dec_digits nanos)"

lemma digit_not_slash: "n < 10 \<Longrightarrow> char_of (48 + n) \<noteq> slash" for n :: nat
proof
  assume n: "n < 10" and e: "char_of (48 + n) = slash"
  have "byte (char_of (48 + n) :: char) = (47 :: nat)" unfolding e by simp
  with n show False by simp
qed

lemma hex_digit_not_slash: "n < 16 \<Longrightarrow> hex_digit n \<noteq> slash"
proof
  assume n: "n < 16" and e: "hex_digit n = slash"
  have "byte (hex_digit n) = (47 :: nat)" unfolding e by simp
  with n show False by (auto simp: hex_digit_def split: if_splits)
qed

lemma dec_digits_no_slash: "slash \<notin> set (dec_digits n)"
proof (induction n rule: dec_digits.induct)
  case (1 n)
  have "slash \<noteq> char_of (48 + n)" if "n < 10" using digit_not_slash [OF that] by metis
  moreover have "slash \<noteq> char_of (48 + n mod 10)" using digit_not_slash [of "n mod 10"] by fastforce
  ultimately show ?case using "1.IH" by (subst dec_digits.simps) auto
qed

lemma hex_encode_no_slash: "slash \<notin> set (hex_encode bs)"
proof
  assume "slash \<in> set (hex_encode bs)"
  then obtain b where "slash = hex_digit (unat b div 16) \<or> slash = hex_digit (unat b mod 16)" "b \<in> set bs"
    by (auto simp: hex_encode_def)
  moreover have "unat b < 256" using unsigned_less [of b, where 'a = nat] by simp
  ultimately show False using hex_digit_not_slash [of "unat b div 16"] hex_digit_not_slash [of "unat b mod 16"]
    by fastforce
qed

lemma tempName_normal: "normal (tempName r)"
  using dec_digits_no_slash hex_encode_no_slash by (auto simp: normal_def tempName_def split: sum.splits)

section \<open>The operations\<close>

datatype file_error =
    RelErr rel_error | ModeErr mode_error | ContentTooLarge nat | IsDirectory string
  | RefuseRemoveDir string | OsErr os_error

text \<open>The system calls of a write that can fail after the arguments were accepted.\<close>

datatype syscall =
    SysOpenRoot | SysOpenTemp | SysWrite | SysChmod | SysSync | SysClose | SysRename
  | SysRemoveTemp | SysRemove

record io_env =
  io_random :: "8 word list + nat"
  io_umask :: fmode
  io_fault :: "syscall \<Rightarrow> string option"
  io_written :: nat \<comment> \<open>bytes that reach the file before a failing write\<close>
  io_mkdir_fault :: "path \<Rightarrow> os_error option"

definition MaxContentBytes :: nat where
  "MaxContentBytes = 4194304" \<comment> \<open>4 << 20\<close>

definition openRoot :: "io_env \<Rightarrow> host \<Rightarrow> profile \<Rightarrow> os_error + path" where
  "openRoot io h p =
     (case io_fault io SysOpenRoot of
        Some e \<Rightarrow> Inl (ErrIO e)
      | None \<Rightarrow>
          (case node_at h (p_path p) of
             None \<Rightarrow> Inl ErrNotExist
           | Some nd \<Rightarrow> if is_dir nd then Inr (p_path p) else Inl ErrNotDir))"

definition root_lstat :: "host \<Rightarrow> path \<Rightarrow> string \<Rightarrow> os_error + node" where
  "root_lstat h root rel = rbind (root_entry h root rel) (\<lambda>p.
     case h p of None \<Rightarrow> Inl ErrNotExist | Some nd \<Rightarrow> Inr nd)"

text \<open>\<open>root.OpenFile(temp, O_WRONLY|O_CREATE|O_EXCL, mode)\<close>.\<close>

definition create_excl :: "io_env \<Rightarrow> host \<Rightarrow> path \<Rightarrow> string \<Rightarrow> fmode \<Rightarrow> os_error + host \<times> path" where
  "create_excl io h root temp mode = rbind (root_entry h root temp) (\<lambda>p.
     if h p \<noteq> None then Inl ErrExist
     else (case io_fault io SysOpenTemp of
             Some e \<Rightarrow> Inl (ErrIO e)
           | None \<Rightarrow> Inr (h(p \<mapsto> RegF (and mode (not (io_umask io))) []), p)))"

definition root_rename :: "io_env \<Rightarrow> host \<Rightarrow> path \<Rightarrow> string \<Rightarrow> string \<Rightarrow> os_error + host" where
  "root_rename io h root src dst =
     (case io_fault io SysRename of
        Some e \<Rightarrow> Inl (ErrIO e)
      | None \<Rightarrow>
          rbind (root_entry h root src) (\<lambda>sp.
          rbind (root_entry h root dst) (\<lambda>dp.
            case h sp of
              None \<Rightarrow> Inl ErrNotExist
            | Some nd \<Rightarrow>
                (case h dp of
                   Some (DirF m) \<Rightarrow> Inl ErrIsDir
                 | _ \<Rightarrow> Inr ((h(sp := None))(dp \<mapsto> nd))))))"

text \<open>\<open>root.Remove(temp)\<close> on the error paths; its own failure is ignored.\<close>

definition drop_temp :: "io_env \<Rightarrow> host \<Rightarrow> path \<Rightarrow> host" where
  "drop_temp io h tp = (case io_fault io SysRemoveTemp of None \<Rightarrow> h(tp := None) | Some _ \<Rightarrow> h)"

text \<open>
  Everything after the temporary file exists: write, chmod, sync, close, rename, each with
  the removal of the temporary file on its error path.
\<close>

definition fill_and_rename ::
  "io_env \<Rightarrow> host \<Rightarrow> path \<Rightarrow> path \<Rightarrow> string \<Rightarrow> string \<Rightarrow> fmode \<Rightarrow> bytes \<Rightarrow> host \<times> (file_error + unit)" where
  "fill_and_rename io h root tp temp rel mode data =
     (let created = and mode (not (io_umask io)) in
      case io_fault io SysWrite of
        Some e \<Rightarrow> (drop_temp io (h(tp \<mapsto> RegF created (take (io_written io) data))) tp, Inl (OsErr (ErrIO e)))
      | None \<Rightarrow>
      (case io_fault io SysChmod of
        Some e \<Rightarrow> (drop_temp io (h(tp \<mapsto> RegF created data)) tp, Inl (OsErr (ErrIO e)))
      | None \<Rightarrow>
      (let h2 = h(tp \<mapsto> RegF mode data) in
      case io_fault io SysSync of
        Some e \<Rightarrow> (drop_temp io h2 tp, Inl (OsErr (ErrIO e)))
      | None \<Rightarrow>
      (case io_fault io SysClose of
        Some e \<Rightarrow> (drop_temp io h2 tp, Inl (OsErr (ErrIO e)))
      | None \<Rightarrow>
      (case root_rename io h2 root temp rel of
        Inl e \<Rightarrow> (drop_temp io h2 tp, Inl (OsErr e))
      | Inr h3 \<Rightarrow> (h3, Inr ()))))))"

definition Write ::
  "io_env \<Rightarrow> host \<Rightarrow> profile \<Rightarrow> string \<Rightarrow> fmode \<Rightarrow> bytes \<Rightarrow> host \<times> (file_error + unit)" where
  "Write io h p raw mode data =
     (case safeRel raw of
        Inl e \<Rightarrow> (h, Inl (RelErr e))
      | Inr rel \<Rightarrow>
      (case checkMode p mode of
        Inl e \<Rightarrow> (h, Inl (ModeErr e))
      | Inr _ \<Rightarrow>
      if MaxContentBytes < length data then (h, Inl (ContentTooLarge (length data)))
      else
      (case openRoot io h p of
        Inl e \<Rightarrow> (h, Inl (OsErr e))
      | Inr root \<Rightarrow>
      if (case root_lstat h root rel of Inr nd \<Rightarrow> is_dir nd | Inl _ \<Rightarrow> False)
      then (h, Inl (IsDirectory rel))
      else
      (let temp = path_join (path_dir rel) (tempName (io_random io)) in
       case create_excl io h root temp mode of
         Inl e \<Rightarrow> (h, Inl (OsErr e))
       | Inr (h1, tp) \<Rightarrow> fill_and_rename io h1 root tp temp rel mode data))))"

text \<open>
  \<open>root.MkdirAll\<close>: the walk of \<open>os.Root\<close>, creating every directory it misses; the second
  result is where it ended. Directories created before a failure stay.
\<close>

fun mkdir_all ::
  "io_env \<Rightarrow> host \<Rightarrow> path \<Rightarrow> nat \<Rightarrow> path \<Rightarrow> string list \<Rightarrow> fmode \<Rightarrow> host \<times> (os_error + path)" where
  "mkdir_all io h root n st [] m = (h, Inr st)"
| "mkdir_all io h root n st (c # cs) m =
     (if c = [] \<or> c = ''.'' then mkdir_all io h root n st cs m
      else if c = ''..'' then
        (if st = [] then (h, Inl ErrEscapes) else mkdir_all io h root n (butlast st) cs m)
      else (case h (root @ st @ [c]) of
              None \<Rightarrow>
                (case io_mkdir_fault io (root @ st @ [c]) of
                   Some e \<Rightarrow> (h, Inl e)
                 | None \<Rightarrow> mkdir_all io (h(root @ st @ [c] \<mapsto> DirF (and m (not (io_umask io)))))
                             root n (st @ [c]) cs m)
            | Some (DirF _) \<Rightarrow> mkdir_all io h root n (st @ [c]) cs m
            | Some (RegF _ _) \<Rightarrow> (h, Inl ErrNotDir)
            | Some (LinkF t) \<Rightarrow>
                (case n of 0 \<Rightarrow> (h, Inl ErrTooManyLinks)
                 | Suc k \<Rightarrow> if is_abs t then (h, Inl ErrEscapes)
                            else mkdir_all io h root k st (split_on slash t @ cs) m)))"

definition Mkdir :: "io_env \<Rightarrow> host \<Rightarrow> profile \<Rightarrow> string \<Rightarrow> fmode \<Rightarrow> host \<times> (file_error + unit)" where
  "Mkdir io h p raw mode =
     (case safeRel raw of
        Inl e \<Rightarrow> (h, Inl (RelErr e))
      | Inr rel \<Rightarrow>
      (case checkMode p mode of
        Inl e \<Rightarrow> (h, Inl (ModeErr e))
      | Inr _ \<Rightarrow>
      (case openRoot io h p of
        Inl e \<Rightarrow> (h, Inl (OsErr e))
      | Inr root \<Rightarrow>
      (case mkdir_all io h root root_max_links [] (split_on slash rel) mode of
         (h1, Inl e) \<Rightarrow> (h1, Inl (OsErr e))
       | (h1, Inr d) \<Rightarrow>
           (case io_fault io SysChmod of
              Some e \<Rightarrow> (h1, Inl (OsErr (ErrIO e)))
            | None \<Rightarrow> (h1(root @ d \<mapsto> DirF mode), Inr ()))))))"

definition Remove :: "io_env \<Rightarrow> host \<Rightarrow> profile \<Rightarrow> string \<Rightarrow> host \<times> (file_error + unit)" where
  "Remove io h p raw =
     (case safeRel raw of
        Inl e \<Rightarrow> (h, Inl (RelErr e))
      | Inr rel \<Rightarrow>
      (case openRoot io h p of
        Inl e \<Rightarrow> (h, Inl (OsErr e))
      | Inr root \<Rightarrow>
      (case root_lstat h root rel of
        Inl e \<Rightarrow> (h, Inl (OsErr e))
      | Inr nd \<Rightarrow>
      if is_dir nd then (h, Inl (RefuseRemoveDir rel))
      else (case io_fault io SysRemove of
              Some e \<Rightarrow> (h, Inl (OsErr (ErrIO e)))
            | None \<Rightarrow>
                (case root_entry h root rel of
                   Inl e \<Rightarrow> (h, Inl (OsErr e))
                 | Inr ep \<Rightarrow> (h(ep := None), Inr ()))))))"

section \<open>Facts about the walk\<close>

text \<open>The walk only visits entries that exist, so creating a missing entry does not move it.\<close>

lemma walk_root_stable:
  assumes "walk_root h root n st cs = Inr d" "h e = None"
  shows "walk_root (h(e \<mapsto> x)) root n st cs = Inr d"
  using assms
proof (induction h root n st cs rule: walk_root.induct)
  case (2 h root n st c cs)
  consider (skip) "c = [] \<or> c = ''.''" | (up) "c \<noteq> []" "c \<noteq> ''.''" "c = ''..''"
    | (name) "c \<noteq> []" "c \<noteq> ''.''" "c \<noteq> ''..''" by blast
  then show ?case
  proof cases
    case skip
    then show ?thesis using "2.IH"(1) "2.prems" by auto
  next
    case up
    then show ?thesis using "2.IH"(2) "2.prems" by (cases "st = []") auto
  next
    case name
    obtain nd where nd: "h (root @ st @ [c]) = Some nd"
      using "2.prems"(1) name by (auto split: option.splits)
    then have same: "(h(e \<mapsto> x)) (root @ st @ [c]) = Some nd" using "2.prems"(2) by auto
    show ?thesis
    proof (cases nd)
      case (RegF m d)
      then show ?thesis using nd name "2.prems"(1) by simp
    next
      case (DirF m)
      then show ?thesis using nd same name "2.prems" "2.IH"(3) by simp
    next
      case (LinkF t)
      then show ?thesis using nd same name "2.prems" "2.IH"(4) by (cases n) (simp_all split: if_splits)
    qed
  qed
qed simp

lemma root_entry_stable:
  "root_entry h root rel = Inr p \<Longrightarrow> h e = None \<Longrightarrow> root_entry (h(e \<mapsto> x)) root rel = Inr p"
  by (auto simp: root_entry_def Let_def walk_root_stable)

lemma create_excl_Inr:
  "create_excl io h root temp mode = Inr (h1, tp) \<longleftrightarrow>
     root_entry h root temp = Inr tp \<and> h tp = None \<and> io_fault io SysOpenTemp = None \<and>
     h1 = h(tp \<mapsto> RegF (and mode (not (io_umask io))) [])"
  by (auto simp: create_excl_def split: option.splits if_splits)

lemma openRoot_Inr: "openRoot io h p = Inr root \<Longrightarrow> root = p_path p"
  by (auto simp: openRoot_def split: option.splits if_splits)

section \<open>The temporary file lies beside its destination\<close>

lemma path_dir_normal:
  assumes "list_all normal (cs @ [c])"
  shows "path_dir (join_with ''/'' (cs @ [c])) = (if cs = [] then ''.'' else join_with ''/'' cs)"
proof -
  have c: "slash \<notin> set c" using assms by auto
  have keep: "rev (dropWhile (\<lambda>x. x \<noteq> slash) (rev (u @ c))) = rev (dropWhile (\<lambda>x. x \<noteq> slash) (rev u))" for u
    unfolding rev_append using c by (subst dropWhile_append2) auto
  show ?thesis
  proof (cases "cs = []")
    case True
    then have "rev (dropWhile (\<lambda>x. x \<noteq> slash) (rev (join_with ''/'' (cs @ [c])))) = []"
      using keep [of "[]"] by simp
    then have "path_dir (join_with ''/'' (cs @ [c])) = clean []" unfolding path_dir_def by (simp only:)
    then show ?thesis using True by (simp add: clean_def is_abs_def has_prefix_def)
  next
    case False
    have join: "join_with ''/'' (cs @ [c]) = (join_with ''/'' cs @ ''/'') @ c"
      using False by (simp add: join_with_snoc)
    have cs: "list_all normal cs" using assms by simp
    have "rev (dropWhile (\<lambda>x. x \<noteq> slash) (rev (join_with ''/'' (cs @ [c])))) = join_with ''/'' cs @ ''/''"
      unfolding join keep by simp
    moreover have "clean (join_with ''/'' cs @ ''/'') = join_with ''/'' cs"
    proof -
      have "split_on slash (join_with ''/'' cs @ ''/'') = cs @ [[]]"
        using split_join [of "cs @ [[]]" slash] cs False
        by (auto simp: list_all_iff join_with_snoc)
      moreover have "\<not> is_abs (join_with ''/'' cs @ ''/'')"
        using join_normal_nonempty [OF False cs]
        by (cases "join_with ''/'' cs") (auto simp: is_abs_def has_prefix_def)
      moreover have "clean_comps False [] (cs @ [[]]) = cs"
        using cs by (simp add: clean_comps_skip_last)
      ultimately show ?thesis using False by (simp add: clean_def)
    qed
    ultimately show ?thesis using False by (simp add: path_dir_def)
  qed
qed

lemma path_join_normal:
  assumes "list_all normal cs" "normal t"
  shows "path_join (if cs = [] then ''.'' else join_with ''/'' cs) t = join_with ''/'' (cs @ [t])"
proof (cases "cs = []")
  case True
  have "split_on slash (''.'' @ slash # t) = [''.'', t]"
    using assms(2) by (simp add: split_on_simple normalD)
  then show ?thesis using True assms(2)
    by (auto simp: path_join_def clean_def is_abs_def has_prefix_def normal_def)
next
  case False
  then have "join_with ''/'' cs @ slash # t = join_with ''/'' (cs @ [t])" by (simp add: join_with_snoc)
  then show ?thesis using False assms clean_join_normal [of "cs @ [t]"] by (simp add: path_join_def)
qed

lemma root_entry_normal:
  assumes "list_all normal (cs @ [c])"
  shows "root_entry h root (join_with ''/'' (cs @ [c]))
     = map_sum id (\<lambda>d. root @ d @ [c]) (walk_root h root root_max_links [] cs)"
  using split_join_normal [of "cs @ [c]"] assms by (simp add: root_entry_def)

text \<open>The temporary file and the destination are entries of the same directory.\<close>

lemma temp_beside:
  assumes rel: "safeRel raw = Inr rel" and t: "normal t"
    and te: "root_entry h root (path_join (path_dir rel) t) = Inr tp"
  obtains d c where "tp = root @ d @ [t]" "root_entry h root rel = Inr (root @ d @ [c])"
proof -
  obtain cs where cs: "cs \<noteq> []" "list_all normal cs" "rel = join_with ''/'' cs"
    using safeRel_shape [OF rel] .
  obtain ds c where ds: "cs = ds @ [c]" using cs(1) by (metis append_butlast_last_id)
  have n: "list_all normal (ds @ [c])" "list_all normal ds" "list_all normal (ds @ [t])"
    using cs(2) ds t by auto
  have "path_join (path_dir rel) t = join_with ''/'' (ds @ [t])"
    using path_dir_normal [OF n(1)] path_join_normal [OF n(2) t] cs(3) ds by simp
  with te obtain d where "walk_root h root root_max_links [] ds = Inr d" "tp = root @ d @ [t]"
    by (auto simp: root_entry_normal [OF n(3)])
  then show thesis using cs(3) ds by (intro that [of d c]) (simp_all add: root_entry_normal [OF n(1)])
qed

section \<open>A write is atomic\<close>

lemma drop_temp_created:
  assumes "h tp = None"
  shows "drop_temp io (h(tp \<mapsto> x)) tp = (if io_fault io SysRemoveTemp = None then h else h(tp \<mapsto> x))"
  using assms by (auto simp: drop_temp_def fun_upd_idem split: option.splits)

lemma root_rename_created:
  assumes "root_entry h root temp = Inr tp" "root_entry h root rel = Inr dp" "h tp = None"
    and "\<forall>m. h dp \<noteq> Some (DirF m)" "root_rename io (h(tp \<mapsto> x)) root temp rel = Inr h3"
  shows "h3 = h(dp \<mapsto> x)"
proof -
  have "root_entry (h(tp \<mapsto> x)) root temp = Inr tp" "root_entry (h(tp \<mapsto> x)) root rel = Inr dp"
    using assms(1-3) by (simp_all add: root_entry_stable)
  moreover have "h(tp \<mapsto> x, tp := None) = h" using assms(3) by (simp add: fun_upd_idem)
  ultimately show ?thesis using assms(5)
    by (auto simp: root_rename_def split: option.splits node.splits)
qed

definition left_behind :: "io_env \<Rightarrow> host \<Rightarrow> path \<Rightarrow> host \<Rightarrow> bool" where
  "left_behind io h tp h' \<longleftrightarrow>
     h' = h \<or> io_fault io SysRemoveTemp \<noteq> None \<and> h tp = None \<and> (\<exists>m d. h' = h(tp \<mapsto> RegF m d))"

lemma fill_and_rename_outcome:
  assumes tp: "root_entry h root temp = Inr tp" "h tp = None"
    and dp: "root_entry h root rel = Inr dp" "\<forall>m. h dp \<noteq> Some (DirF m)"
    and run: "fill_and_rename io (h(tp \<mapsto> x)) root tp temp rel mode data = (h', res)"
  shows "(res = Inr () \<and> h' = h(dp \<mapsto> RegF mode data)) \<or> (\<exists>e. res = Inl (OsErr e)) \<and> left_behind io h tp h'"
  using run tp(2) root_rename_created [OF tp(1) dp(1) tp(2) dp(2), of io "RegF mode data"]
  by (auto simp: fill_and_rename_def Let_def drop_temp_created left_behind_def
      split: option.splits sum.splits if_splits)

text \<open>
  Either the write succeeded and the destination entry, and nothing else, changed to the new
  content with the granted mode; or it failed and the tree is as before, up to the temporary
  file when even its removal failed.
\<close>

lemma Write_outcome:
  assumes "Write io h p raw mode data = (h', res)"
  shows "(\<exists>rel dp. res = Inr () \<and> safeRel raw = Inr rel \<and> mode \<in> set (p_modes p) \<and> mode \<in> set allowed_modes \<and>
            length data \<le> MaxContentBytes \<and>
            root_entry h (p_path p) rel = Inr dp \<and> (\<forall>m. h dp \<noteq> Some (DirF m)) \<and>
            h' = h(dp \<mapsto> RegF mode data)) \<or>
         (\<exists>e. res = Inl e \<and> (h' = h \<or> (\<exists>d. left_behind io h (p_path p @ d @ [tempName (io_random io)]) h')))"
proof (cases "\<exists>rel root h1 tp. safeRel raw = Inr rel \<and> checkMode p mode = Inr () \<and>
    length data \<le> MaxContentBytes \<and> openRoot io h p = Inr root \<and>
    (\<forall>nd. root_lstat h root rel = Inr nd \<longrightarrow> \<not> is_dir nd) \<and>
    create_excl io h root (path_join (path_dir rel) (tempName (io_random io))) mode = Inr (h1, tp)")
  case False
  then have "\<exists>e. res = Inl e \<and> h' = h"
    using assms by (auto simp: Write_def Let_def split: sum.splits if_splits)
  then show ?thesis by blast
next
  case True
  then obtain rel root h1 tp where g: "safeRel raw = Inr rel" "checkMode p mode = Inr ()"
    "length data \<le> MaxContentBytes" "openRoot io h p = Inr root"
    "\<forall>nd. root_lstat h root rel = Inr nd \<longrightarrow> \<not> is_dir nd"
    "create_excl io h root (path_join (path_dir rel) (tempName (io_random io))) mode = Inr (h1, tp)"
    by blast
  have root: "root = p_path p" using openRoot_Inr [OF g(4)] .
  from g(6) have te: "root_entry h root (path_join (path_dir rel) (tempName (io_random io))) = Inr tp"
    and tn: "h tp = None" and h1: "h1 = h(tp \<mapsto> RegF (and mode (not (io_umask io))) [])"
    by (auto simp: create_excl_Inr)
  obtain d c where tp: "tp = root @ d @ [tempName (io_random io)]" and dp: "root_entry h root rel = Inr (root @ d @ [c])"
    using temp_beside [OF g(1) tempName_normal te] .
  have nd: "\<forall>m. h (root @ d @ [c]) \<noteq> Some (DirF m)"
    using g(5) dp by (auto simp: root_lstat_def)
  have "\<not> (case root_lstat h root rel of Inr nd \<Rightarrow> is_dir nd | Inl _ \<Rightarrow> False)"
    using g(5) by (auto split: sum.splits)
  then have "fill_and_rename io h1 root tp (path_join (path_dir rel) (tempName (io_random io))) rel mode data = (h', res)"
    using assms g by (simp add: Write_def Let_def)
  then have "(res = Inr () \<and> h' = h(root @ d @ [c] \<mapsto> RegF mode data)) \<or> (\<exists>e. res = Inl (OsErr e)) \<and> left_behind io h tp h'"
    unfolding h1 by (rule fill_and_rename_outcome [OF te tn dp nd])
  moreover have "mode \<in> set (p_modes p)" "mode \<in> set allowed_modes"
    using g(2) by (auto simp: checkMode_def split: if_splits)
  ultimately show ?thesis using g dp nd tp root by auto
qed

section \<open>Confinement\<close>

definition below :: "path \<Rightarrow> path \<Rightarrow> bool" where
  "below root q \<longleftrightarrow> take (length root) q = root"

lemma below_append [simp]: "below root (root @ d)"
  by (simp add: below_def)

lemma root_entry_below': "root_entry h root rel = Inr p \<Longrightarrow> below root p"
  using root_entry_below by fastforce

lemma mkdir_all_changes:
  assumes "mkdir_all io h root n st cs m = (h', r)" "h' q \<noteq> h q"
  shows "below root q \<and> q \<noteq> root \<and> h q = None \<and> (\<exists>k. h' q = Some (DirF k))"
  using assms
proof (induction io h root n st cs m arbitrary: h' r rule: mkdir_all.induct)
  case (2 io h root n st c cs m)
  consider (skip) "c = [] \<or> c = ''.''" | (up) "c \<noteq> []" "c \<noteq> ''.''" "c = ''..''"
    | (name) "c \<noteq> []" "c \<noteq> ''.''" "c \<noteq> ''..''" by blast
  then show ?case
  proof cases
    case skip
    then show ?thesis using "2.IH"(1) "2.prems" by auto
  next
    case up
    then show ?thesis using "2.IH"(2) "2.prems" by (auto split: if_splits)
  next
    case name
    show ?thesis
    proof (cases "h (root @ st @ [c])")
      case None
      show ?thesis
      proof (cases "io_mkdir_fault io (root @ st @ [c])")
        case (Some e)
        then show ?thesis using None name "2.prems" by simp
      next
        case nf: None
        let ?h1 = "h(root @ st @ [c] \<mapsto> DirF (and m (not (io_umask io))))"
        have run: "mkdir_all io ?h1 root n (st @ [c]) cs m = (h', r)"
          using None name nf "2.prems"(1) by simp
        show ?thesis
        proof (cases "h' q = ?h1 q")
          case True
          then show ?thesis using "2.prems"(2) None by (cases "q = root @ st @ [c]") auto
        next
          case False
          from "2.IH"(3) [OF _ _ None nf run False] name show ?thesis by (auto split: if_splits)
        qed
      qed
    next
      case (Some nd)
      show ?thesis
      proof (cases nd)
        case (RegF k d)
        then show ?thesis using Some name "2.prems" by simp
      next
        case (DirF k)
        then show ?thesis using Some name "2.prems" "2.IH"(4) by simp
      next
        case (LinkF t)
        then show ?thesis using Some name "2.prems" "2.IH"(5) by (cases n) (simp_all split: if_splits)
      qed
    qed
  qed
qed simp

lemma Write_confined:
  assumes "Write io h p raw mode data = (h', res)" "\<not> below (p_path p) q"
  shows "h' q = h q"
  using Write_outcome [OF assms(1)] assms(2)
  by (auto simp: left_behind_def dest: root_entry_below')

lemma Mkdir_confined:
  assumes "Mkdir io h p raw mode = (h', res)" "\<not> below (p_path p) q"
  shows "h' q = h q"
  using assms mkdir_all_changes [of io h "p_path p" root_max_links "[]" _ mode _ _ q]
  by (auto simp: Mkdir_def dest!: openRoot_Inr split: sum.splits option.splits prod.splits) fastforce+

lemma Remove_confined:
  assumes "Remove io h p raw = (h', res)" "\<not> below (p_path p) q"
  shows "h' q = h q"
  using assms
  by (auto simp: Remove_def dest!: openRoot_Inr dest: root_entry_below' split: sum.splits option.splits if_splits)

lemma Remove_outcome:
  assumes "Remove io h p raw = (h', res)"
  shows "(\<exists>rel ep nd. res = Inr () \<and> safeRel raw = Inr rel \<and> root_entry h (p_path p) rel = Inr ep \<and>
            h ep = Some nd \<and> \<not> is_dir nd \<and> h' = h(ep := None)) \<or>
         (\<exists>e. res = Inl e) \<and> h' = h"
  using assms
  by (auto simp: Remove_def root_lstat_def dest!: openRoot_Inr split: sum.splits option.splits if_splits)

end
