(* ===== verification/Priv_Cli.thy ===== *)
theory Priv_Cli
  imports Priv_Files
begin

text \<open>
  \<open>internal/privfs/cli.go\<close>: the helper's command line and the runners. Everything a run can
  observe or change is in the world it is given and the outcome it returns: the tree, the
  external commands it ran, what it printed, and its exit code.
\<close>

section \<open>The argument vector\<close>

record action =
  a_command :: string
  a_verb :: string
  a_profile :: string
  a_rel :: string
  a_mode :: string
  a_unit :: string
  a_package :: string
  a_port :: string
  a_protocol :: string
  a_source :: string
  a_ruleAction :: string
  a_configPath :: string
  a_user :: string

definition DefaultConfigPath :: string where
  "DefaultConfigPath = ''/etc/maidkit/priv.toml''"

definition DefaultHelperPath :: string where
  "DefaultHelperPath = ''/usr/local/libexec/maidkit-priv''"

definition new_action :: action where
  "new_action =
     \<lparr>a_command = [], a_verb = [], a_profile = [], a_rel = [], a_mode = [], a_unit = [], a_package = [],
      a_port = [], a_protocol = [], a_source = [], a_ruleAction = [],
      a_configPath = DefaultConfigPath, a_user = []\<rparr>"

datatype usage_error =
    CommandRequired | ConfigNeedsPath | CommandAfterConfig | UnknownOption string
  | TooManyArgs string | EmptyOperand string | UnknownCommand string
  | OperationRequired string | OperandCount string string | UnknownOperation string string
  | SystemdVerbUnknown string

definition blank :: "string \<Rightarrow> bool" where
  "blank s \<longleftrightarrow> trim_space s = []"

definition parse_packages :: "action \<Rightarrow> string list \<Rightarrow> usage_error + action" where
  "parse_packages a args =
     (case args of
        [] \<Rightarrow> Inl (OperationRequired ''packages'')
      | verb # rest \<Rightarrow>
          if verb = ''refresh'' \<or> verb = ''upgrade'' then
            (if rest \<noteq> [] then Inl (OperandCount ''packages'' verb) else Inr (a\<lparr>a_verb := verb\<rparr>))
          else if verb = ''install'' \<or> verb = ''remove'' then
            (case rest of
               [name] \<Rightarrow> if blank name then Inl (EmptyOperand ''package'')
                         else Inr (a\<lparr>a_verb := verb, a_package := name\<rparr>)
             | _ \<Rightarrow> Inl (OperandCount ''packages'' verb))
          else Inl (UnknownOperation ''packages'' verb))"

definition parse_firewall :: "action \<Rightarrow> string list \<Rightarrow> usage_error + action" where
  "parse_firewall a args =
     (case args of
        [] \<Rightarrow> Inl (OperationRequired ''firewall'')
      | verb # rest \<Rightarrow>
          if verb = ''enable'' \<or> verb = ''disable'' then
            (if rest \<noteq> [] then Inl (OperandCount ''firewall'' verb) else Inr (a\<lparr>a_verb := verb\<rparr>))
          else if verb = ''allow'' \<or> verb = ''deny'' then
            (case rest of
               [port, proto, src] \<Rightarrow>
                 Inr (a\<lparr>a_verb := verb, a_port := port, a_protocol := proto, a_source := src\<rparr>)
             | _ \<Rightarrow> Inl (OperandCount ''firewall'' verb))
          else if verb = ''delete'' then
            (case rest of
               [act, port, proto, src] \<Rightarrow>
                 Inr (a\<lparr>a_verb := verb, a_ruleAction := act, a_port := port, a_protocol := proto, a_source := src\<rparr>)
             | _ \<Rightarrow> Inl (OperandCount ''firewall'' verb))
          else Inl (UnknownOperation ''firewall'' verb))"

definition parse_systemd :: "action \<Rightarrow> string list \<Rightarrow> usage_error + action" where
  "parse_systemd a args =
     (case args of
        [verb, u] \<Rightarrow>
          if blank u then Inl (EmptyOperand ''unit'')
          else if \<not> validSystemdVerb verb then Inl (SystemdVerbUnknown verb)
          else Inr (a\<lparr>a_verb := verb, a_unit := u\<rparr>)
      | _ \<Rightarrow> Inl (OperandCount ''systemd'' []))"

definition check_fs_operands :: "action \<Rightarrow> usage_error + action" where
  "check_fs_operands a =
     (if blank (a_profile a) then Inl (EmptyOperand ''profile'')
      else if blank (a_rel a) then Inl (EmptyOperand ''path'')
      else Inr a)"

definition parse_fs :: "action \<Rightarrow> string list \<Rightarrow> usage_error + action" where
  "parse_fs a args =
     (case args of
        [] \<Rightarrow> Inl (OperationRequired ''fs'')
      | verb # rest \<Rightarrow>
          if verb = ''profiles'' then
            (if rest \<noteq> [] then Inl (OperandCount ''fs'' verb) else Inr (a\<lparr>a_verb := verb\<rparr>))
          else if verb = ''write'' \<or> verb = ''mkdir'' then
            (case rest of
               [prof, rel, mode] \<Rightarrow>
                 check_fs_operands (a\<lparr>a_verb := verb, a_profile := prof, a_rel := rel, a_mode := mode\<rparr>)
             | _ \<Rightarrow> Inl (OperandCount ''fs'' verb))
          else if verb = ''remove'' then
            (case rest of
               [prof, rel] \<Rightarrow> check_fs_operands (a\<lparr>a_verb := verb, a_profile := prof, a_rel := rel\<rparr>)
             | _ \<Rightarrow> Inl (OperandCount ''fs'' verb))
          else Inl (UnknownOperation ''fs'' verb))"

definition parse_command :: "action \<Rightarrow> string list \<Rightarrow> usage_error + action" where
  "parse_command a argv =
     (case find (has_prefix ''-'') argv of
        Some arg \<Rightarrow> Inl (UnknownOption arg)
      | None \<Rightarrow>
        (case argv of
           [] \<Rightarrow> Inl CommandRequired
         | cmd # rest \<Rightarrow>
             let a' = a\<lparr>a_command := cmd\<rparr> in
             if cmd = ''version'' then (if rest \<noteq> [] then Inl (TooManyArgs cmd) else Inr a')
             else if cmd = ''sudoers'' then
               (case rest of
                  [] \<Rightarrow> Inr (a'\<lparr>a_user := ''maidcafe''\<rparr>)
                | [u] \<Rightarrow> if blank u then Inl (EmptyOperand ''account'') else Inr (a'\<lparr>a_user := u\<rparr>)
                | _ \<Rightarrow> Inl (TooManyArgs cmd))
             else if cmd = ''packages'' then parse_packages a' rest
             else if cmd = ''firewall'' then parse_firewall a' rest
             else if cmd = ''systemd'' then parse_systemd a' rest
             else if cmd = ''fs'' then parse_fs a' rest
             else Inl (UnknownCommand cmd)))"

definition ParseArgs :: "string list \<Rightarrow> usage_error + action" where
  "ParseArgs argv =
     (case argv of
        [] \<Rightarrow> Inl CommandRequired
      | first # rest \<Rightarrow>
          if first = ''--config'' then
            (case rest of
               [] \<Rightarrow> Inl ConfigNeedsPath
             | cfg # rest' \<Rightarrow>
                 if blank cfg then Inl ConfigNeedsPath
                 else if rest' = [] then Inl CommandAfterConfig
                 else parse_command (new_action\<lparr>a_configPath := cfg\<rparr>) rest')
          else parse_command new_action argv)"

section \<open>Nothing is dropped or reinterpreted\<close>

text \<open>The arguments an action stands for, command first.\<close>

definition operands_of :: "action \<Rightarrow> string list" where
  "operands_of a =
     (if a_command a = ''version'' then []
      else if a_command a = ''sudoers'' then [a_user a]
      else if a_command a = ''packages'' then
        a_verb a # (if a_verb a = ''install'' \<or> a_verb a = ''remove'' then [a_package a] else [])
      else if a_command a = ''firewall'' then
        a_verb a #
        (if a_verb a = ''delete'' then [a_ruleAction a, a_port a, a_protocol a, a_source a]
         else if a_verb a = ''allow'' \<or> a_verb a = ''deny'' then [a_port a, a_protocol a, a_source a] else [])
      else if a_command a = ''systemd'' then [a_verb a, a_unit a]
      else a_verb a #
        (if a_verb a = ''write'' \<or> a_verb a = ''mkdir'' then [a_profile a, a_rel a, a_mode a]
         else if a_verb a = ''remove'' then [a_profile a, a_rel a] else []))"

definition args_of :: "action \<Rightarrow> string list" where
  "args_of a = a_command a # operands_of a"

lemma parse_packages_args:
  assumes "parse_packages a args = Inr b" "a_command a = ''packages''"
  shows "args_of b = ''packages'' # args \<and> a_configPath b = a_configPath a"
proof (cases args)
  case Nil
  then show ?thesis using assms by (simp add: parse_packages_def)
next
  case args: (Cons verb rest)
  show ?thesis
  proof (cases "verb = ''refresh'' \<or> verb = ''upgrade''")
    case True
    then have "rest = []" "b = a\<lparr>a_verb := verb\<rparr>"
      using assms args by (simp_all add: parse_packages_def split: if_split_asm)
    then show ?thesis using True assms args by (elim disjE) (simp_all add: args_of_def operands_of_def)
  next
    case bare: False
    have verb: "verb = ''install'' \<or> verb = ''remove''"
      using assms args bare by (simp add: parse_packages_def split: if_split_asm)
    have "\<exists>name. rest = [name] \<and> b = a\<lparr>a_verb := verb, a_package := name\<rparr>"
      using assms args bare verb by (simp add: parse_packages_def split: list.splits if_split_asm)
    then show ?thesis using verb assms args by (elim disjE exE) (simp_all add: args_of_def operands_of_def)
  qed
qed

lemma parse_firewall_args:
  assumes "parse_firewall a args = Inr b" "a_command a = ''firewall''"
  shows "args_of b = ''firewall'' # args \<and> a_configPath b = a_configPath a"
proof (cases args)
  case Nil
  then show ?thesis using assms by (simp add: parse_firewall_def)
next
  case args: (Cons verb rest)
  consider (toggle) "verb = ''enable'' \<or> verb = ''disable''"
    | (rule) "\<not> (verb = ''enable'' \<or> verb = ''disable'')" "verb = ''allow'' \<or> verb = ''deny''"
    | (delete) "verb = ''delete''"
    using assms args by (simp add: parse_firewall_def split: if_split_asm)
  then show ?thesis
  proof cases
    case toggle
    then have "rest = []" "b = a\<lparr>a_verb := verb\<rparr>"
      using assms args by (simp_all add: parse_firewall_def split: if_split_asm)
    then show ?thesis using toggle assms args by (elim disjE) (simp_all add: args_of_def operands_of_def)
  next
    case rule
    then have "\<exists>p q s. rest = [p, q, s] \<and> b = a\<lparr>a_verb := verb, a_port := p, a_protocol := q, a_source := s\<rparr>"
      using assms args by (simp add: parse_firewall_def split: list.splits)
    then show ?thesis using rule(2) assms args by (elim disjE exE) (simp_all add: args_of_def operands_of_def)
  next
    case delete
    then have "\<exists>r p q s. rest = [r, p, q, s] \<and>
        b = a\<lparr>a_verb := verb, a_ruleAction := r, a_port := p, a_protocol := q, a_source := s\<rparr>"
      using assms args by (simp add: parse_firewall_def split: list.splits)
    then show ?thesis using delete assms args by (elim exE) (simp add: args_of_def operands_of_def)
  qed
qed

lemma parse_systemd_args:
  assumes "parse_systemd a args = Inr b" "a_command a = ''systemd''"
  shows "args_of b = ''systemd'' # args \<and> a_configPath b = a_configPath a"
  using assms by (auto simp: parse_systemd_def args_of_def operands_of_def split: list.splits if_splits)

lemma check_fs_operands_same: "check_fs_operands a = Inr b \<Longrightarrow> b = a"
  by (simp add: check_fs_operands_def split: if_split_asm)

lemma parse_fs_args:
  assumes "parse_fs a args = Inr b" "a_command a = ''fs''"
  shows "args_of b = ''fs'' # args \<and> a_configPath b = a_configPath a"
proof (cases args)
  case Nil
  then show ?thesis using assms by (simp add: parse_fs_def)
next
  case args: (Cons verb rest)
  consider (profiles) "verb = ''profiles''"
    | (make) "verb \<noteq> ''profiles''" "verb = ''write'' \<or> verb = ''mkdir''"
    | (remove) "verb = ''remove''"
    using assms args by (simp add: parse_fs_def split: if_split_asm)
  then show ?thesis
  proof cases
    case profiles
    then have "rest = []" "b = a\<lparr>a_verb := verb\<rparr>"
      using assms args by (simp_all add: parse_fs_def split: if_split_asm)
    then show ?thesis using profiles assms args by (simp add: args_of_def operands_of_def)
  next
    case make
    then have "\<exists>p r m. rest = [p, r, m] \<and>
        check_fs_operands (a\<lparr>a_verb := verb, a_profile := p, a_rel := r, a_mode := m\<rparr>) = Inr b"
      using assms args by (simp add: parse_fs_def split: list.splits)
    then obtain p r m where "rest = [p, r, m]" "b = a\<lparr>a_verb := verb, a_profile := p, a_rel := r, a_mode := m\<rparr>"
      using check_fs_operands_same by blast
    then show ?thesis using make(2) assms args by (elim disjE) (simp_all add: args_of_def operands_of_def)
  next
    case remove
    then have "\<exists>p r. rest = [p, r] \<and>
        check_fs_operands (a\<lparr>a_verb := verb, a_profile := p, a_rel := r\<rparr>) = Inr b"
      using assms args by (simp add: parse_fs_def split: list.splits)
    then obtain p r where "rest = [p, r]" "b = a\<lparr>a_verb := verb, a_profile := p, a_rel := r\<rparr>"
      using check_fs_operands_same by blast
    then show ?thesis using remove assms args by (simp add: args_of_def operands_of_def)
  qed
qed

lemma parse_command_args:
  assumes "parse_command a argv = Inr b"
  shows "a_configPath b = a_configPath a \<and> list_all (\<lambda>s. \<not> has_prefix ''-'' s) argv \<and>
    (args_of b = argv \<or> argv = [''sudoers''] \<and> args_of b = [''sudoers'', ''maidcafe''])"
proof -
  obtain cmd rest where argv: "argv = cmd # rest" and nd: "find (has_prefix ''-'') argv = None"
    using assms by (auto simp: parse_command_def split: option.splits list.splits)
  have nodash: "list_all (\<lambda>s. \<not> has_prefix ''-'' s) argv" using nd by (auto simp: find_None_iff list_all_iff)
  obtain a' where a': "a' = a\<lparr>a_command := cmd\<rparr>" "a_command a' = cmd" "a_configPath a' = a_configPath a"
    by simp
  have run: "(if cmd = ''version'' then (if rest \<noteq> [] then Inl (TooManyArgs cmd) else Inr a')
      else if cmd = ''sudoers'' then
        (case rest of [] \<Rightarrow> Inr (a'\<lparr>a_user := ''maidcafe''\<rparr>)
         | [u] \<Rightarrow> if blank u then Inl (EmptyOperand ''account'') else Inr (a'\<lparr>a_user := u\<rparr>)
         | _ \<Rightarrow> Inl (TooManyArgs cmd))
      else if cmd = ''packages'' then parse_packages a' rest
      else if cmd = ''firewall'' then parse_firewall a' rest
      else if cmd = ''systemd'' then parse_systemd a' rest
      else if cmd = ''fs'' then parse_fs a' rest
      else Inl (UnknownCommand cmd)) = Inr b"
    using assms nd unfolding argv parse_command_def Let_def by (simp only: option.case list.case a'(1))
  consider (version) "cmd = ''version''" | (sudoers) "cmd = ''sudoers''" | (packages) "cmd = ''packages''"
    | (firewall) "cmd = ''firewall''" | (systemd) "cmd = ''systemd''" | (fs) "cmd = ''fs''"
    using run by (simp split: if_split_asm)
  then show ?thesis
  proof cases
    case version
    then have "rest = []" "b = a'" using run by (simp_all split: if_split_asm)
    then show ?thesis using version nodash a' argv by (simp add: args_of_def operands_of_def)
  next
    case sudoers
    then consider "rest = []" "b = a'\<lparr>a_user := ''maidcafe''\<rparr>" | u where "rest = [u]" "b = a'\<lparr>a_user := u\<rparr>"
      using run by (auto split: list.splits if_split_asm)
    then show ?thesis using sudoers nodash a' argv by cases (simp_all add: args_of_def operands_of_def)
  next
    case packages
    then show ?thesis using run nodash a' argv parse_packages_args [of a' rest b] by simp
  next
    case firewall
    then show ?thesis using run nodash a' argv parse_firewall_args [of a' rest b] by simp
  next
    case systemd
    then show ?thesis using run nodash a' argv parse_systemd_args [of a' rest b] by simp
  next
    case fs
    then show ?thesis using run nodash a' argv parse_fs_args [of a' rest b] by simp
  qed
qed

end
