(* ===== verification/Priv_Run.thy ===== *)
theory Priv_Run
  imports Priv_Cli
begin

text \<open>
  \<open>Run\<close> of \<open>internal/privfs/cli.go\<close> and the runners it dispatches to. Everything a run can
  observe is in the world it is given; everything it does is in the outcome: what it printed,
  the commands it started, the tree it left and its exit code. The external commands are an
  argument that may depend on the commands already run.
\<close>

section \<open>What a run reads and what it leaves\<close>

datatype run_error =
    ConfigFailed config_error | ProfileRefused profile_error | GrantRefused grant_error
  | RuleRefused rule_error | NoSectionGranted string string | ModeRefused mode_error
  | StdinFailed string | ContentOver nat | FileFailed file_error | CommandExited int
  | CommandNotRun string

record entry =
  e_verb :: string
  e_profile :: string
  e_unit :: string
  e_package :: string
  e_manager :: string
  e_backend :: string
  e_rule :: string
  e_path :: string
  e_mode :: string
  e_bytes :: nat
  e_digest :: string
  e_ok :: bool
  e_error :: "run_error option"
  e_euid :: nat
  e_invoker :: string
  e_invoker_id :: string

definition empty_entry :: entry where
  "empty_entry =
     \<lparr>e_verb = [], e_profile = [], e_unit = [], e_package = [], e_manager = [], e_backend = [],
      e_rule = [], e_path = [], e_mode = [], e_bytes = 0, e_digest = [], e_ok = False,
      e_error = None, e_euid = 0, e_invoker = [], e_invoker_id = []\<rparr>"

datatype stderr_line =
    UsageText usage_error | Message run_error | MustRunAsRoot | UnknownFsVerb string | Audit entry

record process =
  pr_euid :: nat
  pr_invoker :: string
  pr_invoker_uid :: string

datatype cmd_result = CmdOK | CmdExit int | CmdFail string

record world =
  w_host :: host_env
  w_io :: io_env
  w_stdin :: "string + bytes"
  w_exec :: "string list list \<Rightarrow> string list \<Rightarrow> string list \<Rightarrow> cmd_result"
  w_digest :: "bytes \<Rightarrow> string"

record outcome =
  o_code :: int
  o_out :: "string list"
  o_err :: "stderr_line list"
  o_ran :: "string list list"
  o_fs :: host

definition ExitOK :: int where "ExitOK = 0"
definition ExitUsage :: int where "ExitUsage = 2"
definition ExitRefused :: int where "ExitRefused = 3"
definition ExitIO :: int where "ExitIO = 4"
definition ExitNotRoot :: int where "ExitNotRoot = 5"
definition ExitConfigBad :: int where "ExitConfigBad = 6"

lemmas exit_codes = ExitOK_def ExitUsage_def ExitRefused_def ExitIO_def ExitNotRoot_def ExitConfigBad_def

text \<open>A run that printed but touched nothing.\<close>

definition halt :: "world \<Rightarrow> int \<Rightarrow> string list \<Rightarrow> stderr_line list \<Rightarrow> outcome" where
  "halt w code out err = \<lparr>o_code = code, o_out = out, o_err = err, o_ran = [], o_fs = he_fs (w_host w)\<rparr>"

text \<open>A message, the audit line of the refusal, and the code: nothing was touched.\<close>

definition reject :: "world \<Rightarrow> process \<Rightarrow> int \<Rightarrow> entry \<Rightarrow> run_error \<Rightarrow> outcome" where
  "reject w env code en err =
     halt w code [] [Message err, Audit (en\<lparr>e_ok := False, e_error := Some err, e_euid := pr_euid env\<rparr>)]"

definition identify :: "process \<Rightarrow> entry \<Rightarrow> entry" where
  "identify env en = en\<lparr>e_euid := pr_euid env, e_invoker := pr_invoker env, e_invoker_id := pr_invoker_uid env\<rparr>"

section \<open>The external commands\<close>

fun run_commands ::
  "world \<Rightarrow> string list \<Rightarrow> string list list \<Rightarrow> string list list \<Rightarrow> string list list \<times> cmd_result" where
  "run_commands w extra prev [] = (prev, CmdOK)"
| "run_commands w extra prev (argv # rest) =
     (case w_exec w prev argv extra of
        CmdOK \<Rightarrow> run_commands w extra (prev @ [argv]) rest
      | r \<Rightarrow> (prev @ [argv], r))"

definition externalExitCode :: "cmd_result \<Rightarrow> int" where
  "externalExitCode r =
     (case r of
        CmdExit code \<Rightarrow> if ExitUsage \<le> code \<and> code \<le> ExitConfigBad then ExitIO else code
      | _ \<Rightarrow> ExitIO)"

definition cmd_error :: "cmd_result \<Rightarrow> run_error" where
  "cmd_error r = (case r of CmdExit c \<Rightarrow> CommandExited c | CmdFail m \<Rightarrow> CommandNotRun m | CmdOK \<Rightarrow> CommandExited 0)"

definition runExternal ::
  "world \<Rightarrow> process \<Rightarrow> string list list \<Rightarrow> string list \<Rightarrow> entry \<Rightarrow> outcome" where
  "runExternal w env commands extra en =
     (case run_commands w extra [] commands of
        (started, CmdOK) \<Rightarrow>
          \<lparr>o_code = ExitOK, o_out = [], o_err = [Audit (identify env (en\<lparr>e_ok := True\<rparr>))],
           o_ran = started, o_fs = he_fs (w_host w)\<rparr>
      | (started, r) \<Rightarrow>
          \<lparr>o_code = externalExitCode r, o_out = [],
           o_err = [Audit (identify env (en\<lparr>e_ok := False, e_error := Some (cmd_error r)\<rparr>))],
           o_ran = started, o_fs = he_fs (w_host w)\<rparr>)"

section \<open>The runners\<close>

definition runSystemd :: "world \<Rightarrow> process \<Rightarrow> action \<Rightarrow> outcome" where
  "runSystemd w env a =
     (let en = empty_entry\<lparr>e_verb := a_verb a, e_unit := a_unit a\<rparr> in
      if pr_euid env \<noteq> 0 then halt w ExitNotRoot [] [MustRunAsRoot]
      else (case LoadSet (w_host w) (a_configPath a) True of
        Inl e \<Rightarrow> reject w env ExitConfigBad en (ConfigFailed e)
      | Inr gs \<Rightarrow>
      (case LookupUnit gs (a_unit a) of
        Inl e \<Rightarrow> reject w env ExitRefused en (GrantRefused e)
      | Inr g \<Rightarrow>
      (case SystemdArgv (he_fs (w_host w)) g (a_verb a) of
        Inl e \<Rightarrow> reject w env ExitRefused en (GrantRefused e)
      | Inr argv \<Rightarrow> runExternal w env [argv] [] en))))"

definition runPackages :: "world \<Rightarrow> process \<Rightarrow> action \<Rightarrow> outcome" where
  "runPackages w env a =
     (let en0 = empty_entry\<lparr>e_verb := a_verb a, e_package := a_package a\<rparr> in
      if pr_euid env \<noteq> 0 then halt w ExitNotRoot [] [MustRunAsRoot]
      else (case LoadSet (w_host w) (a_configPath a) True of
        Inl e \<Rightarrow> reject w env ExitConfigBad en0 (ConfigFailed e)
      | Inr gs \<Rightarrow>
      (case gs_packages gs of
        None \<Rightarrow> reject w env ExitRefused en0 (NoSectionGranted ''packages'' (a_configPath a))
      | Some g \<Rightarrow>
      (let en = en0\<lparr>e_manager := pg_manager g\<rparr> in
       case PackageArgv g (a_verb a) (a_package a) of
        Inl e \<Rightarrow> reject w env ExitRefused en (GrantRefused e)
      | Inr argv \<Rightarrow>
      (case FindManager (he_fs (w_host w)) (hd argv) of
        Inl e \<Rightarrow> reject w env ExitRefused en (GrantRefused e)
      | Inr path \<Rightarrow> runExternal w env [path # tl argv] (PackageEnv (pg_manager g)) en)))))"

definition empty_rule :: firewall_rule where
  "empty_rule = \<lparr>fr_action = [], fr_port = [], fr_protocol = [], fr_source = []\<rparr>"

definition takes_rule :: "string \<Rightarrow> bool" where
  "takes_rule verb \<longleftrightarrow> verb = ''allow'' \<or> verb = ''deny'' \<or> verb = ''delete''"

text \<open>The rule a firewall action carries: the zero rule for a toggle.\<close>

definition action_rule :: "action \<Rightarrow> rule_error + firewall_rule" where
  "action_rule a =
     (if takes_rule (a_verb a)
      then ParseFirewallRule (if a_verb a = ''delete'' then a_ruleAction a else a_verb a)
             (a_port a) (a_protocol a) (a_source a)
      else Inr empty_rule)"

definition resolve_command :: "host \<Rightarrow> string list list \<Rightarrow> string list \<Rightarrow> grant_error + string list list" where
  "resolve_command h acc argv = rbind (FindFirewallBinary h (hd argv)) (\<lambda>p. Inr (acc @ [p # tl argv]))"

definition runFirewall :: "world \<Rightarrow> process \<Rightarrow> action \<Rightarrow> outcome" where
  "runFirewall w env a =
     (let en0 = empty_entry\<lparr>e_verb := a_verb a\<rparr> in
      if pr_euid env \<noteq> 0 then halt w ExitNotRoot [] [MustRunAsRoot]
      else (case LoadSet (w_host w) (a_configPath a) True of
        Inl e \<Rightarrow> reject w env ExitConfigBad en0 (ConfigFailed e)
      | Inr gs \<Rightarrow>
      (case gs_firewall gs of
        None \<Rightarrow> reject w env ExitRefused en0 (NoSectionGranted ''firewall'' (a_configPath a))
      | Some g \<Rightarrow>
      (let en1 = en0\<lparr>e_backend := fg_backend g\<rparr> in
       case action_rule a of
        Inl e \<Rightarrow> reject w env ExitRefused en1 (RuleRefused e)
      | Inr rule \<Rightarrow>
      (let en = (if takes_rule (a_verb a) then en1\<lparr>e_rule := rule_String rule\<rparr> else en1) in
       case FirewallCommands g (a_verb a) rule of
        Inl e \<Rightarrow> reject w env ExitRefused en (GrantRefused e)
      | Inr commands \<Rightarrow>
      (case rfold (resolve_command (he_fs (w_host w))) [] commands of
        Inl e \<Rightarrow> reject w env ExitRefused en (GrantRefused e)
      | Inr resolved \<Rightarrow> runExternal w env resolved [] en))))))"

definition tab_line :: "string list \<Rightarrow> string" where
  "tab_line cols = join_with [CHR 0x09] cols"

definition profile_line :: "profile \<Rightarrow> string" where
  "profile_line p = tab_line [''profile'', p_name p, ''/'' @ join_with ''/'' (p_path p), render_modes (p_modes p)]"

definition listing :: "grant_set \<Rightarrow> string list" where
  "listing gs =
     concat (map (\<lambda>n. case Lookup gs n of Inl _ \<Rightarrow> [] | Inr p \<Rightarrow> [profile_line p]) (Names gs)) @
     (case gs_packages gs of None \<Rightarrow> []
      | Some g \<Rightarrow> [tab_line [''packages'', pg_manager g, ''service'', verb_list '','' (pg_verbs g)]]) @
     (case gs_firewall gs of None \<Rightarrow> []
      | Some g \<Rightarrow> [tab_line [''firewall'', fg_backend g, ''service'', verb_list '','' (fg_verbs g)]]) @
     concat (map (\<lambda>u. case LookupUnit gs u of Inl _ \<Rightarrow> []
        | Inr g \<Rightarrow> [tab_line [''systemd'', ug_unit g, verb_list '','' (ug_verbs g)]]) (GrantedUnits gs))"

definition runProfiles :: "world \<Rightarrow> process \<Rightarrow> action \<Rightarrow> outcome" where
  "runProfiles w env a =
     (case LoadSet (w_host w) (a_configPath a) (pr_euid env = 0) of
        Inl e \<Rightarrow> halt w ExitConfigBad [] [Message (ConfigFailed e)]
      | Inr gs \<Rightarrow> halt w ExitOK (listing gs) [])"

definition fs_entry :: "action \<Rightarrow> entry" where
  "fs_entry a =
     empty_entry\<lparr>e_verb := a_verb a, e_profile := a_profile a, e_path := a_rel a, e_mode := a_mode a\<rparr>"

definition refuse :: "world \<Rightarrow> process \<Rightarrow> action \<Rightarrow> run_error \<Rightarrow> outcome" where
  "refuse w env a err = reject w env ExitRefused (fs_entry a) err"

text \<open>\<open>fail\<close>: the code is \<open>ExitIO\<close> whatever the error is, a policy refusal included.\<close>

definition fail_op :: "host \<Rightarrow> process \<Rightarrow> action \<Rightarrow> run_error \<Rightarrow> nat \<Rightarrow> outcome" where
  "fail_op fs env a err n =
     \<lparr>o_code = ExitIO, o_out = [],
      o_err = [Message err, Audit (identify env ((fs_entry a)\<lparr>e_bytes := n, e_ok := False, e_error := Some err\<rparr>))],
      o_ran = [], o_fs = fs\<rparr>"

definition done_op :: "host \<Rightarrow> process \<Rightarrow> entry \<Rightarrow> outcome" where
  "done_op fs env en =
     \<lparr>o_code = ExitOK, o_out = [], o_err = [Audit (identify env (en\<lparr>e_ok := True\<rparr>))], o_ran = [], o_fs = fs\<rparr>"

text \<open>\<open>io.ReadAll(io.LimitReader(stdin, MaxContentBytes+1))\<close>.\<close>

definition read_stdin :: "world \<Rightarrow> string + bytes" where
  "read_stdin w = map_sum id (take (MaxContentBytes + 1)) (w_stdin w)"

definition run_write :: "world \<Rightarrow> process \<Rightarrow> action \<Rightarrow> profile \<Rightarrow> outcome" where
  "run_write w env a p =
     (case ParseMode (a_mode a) of
        Inl e \<Rightarrow> refuse w env a (ModeRefused e)
      | Inr mode \<Rightarrow>
      (case read_stdin w of
        Inl e \<Rightarrow> reject w env ExitIO
            (empty_entry\<lparr>e_verb := a_verb a, e_profile := p_name p, e_path := a_rel a\<rparr>) (StdinFailed e)
      | Inr data \<Rightarrow>
      if MaxContentBytes < length data then refuse w env a (ContentOver MaxContentBytes)
      else (case Write (w_io w) (he_fs (w_host w)) p (a_rel a) mode data of
        (fs', Inl e) \<Rightarrow> fail_op fs' env a (FileFailed e) (length data)
      | (fs', Inr _) \<Rightarrow>
          done_op fs' env (empty_entry\<lparr>e_verb := ''write'', e_profile := p_name p, e_path := a_rel a,
            e_mode := a_mode a, e_bytes := length data, e_digest := w_digest w data\<rparr>))))"

definition run_mkdir :: "world \<Rightarrow> process \<Rightarrow> action \<Rightarrow> profile \<Rightarrow> outcome" where
  "run_mkdir w env a p =
     (case ParseMode (a_mode a) of
        Inl e \<Rightarrow> refuse w env a (ModeRefused e)
      | Inr mode \<Rightarrow>
      (case Mkdir (w_io w) (he_fs (w_host w)) p (a_rel a) mode of
        (fs', Inl e) \<Rightarrow> fail_op fs' env a (FileFailed e) 0
      | (fs', Inr _) \<Rightarrow>
          done_op fs' env (empty_entry\<lparr>e_verb := ''mkdir'', e_profile := p_name p, e_path := a_rel a,
            e_mode := a_mode a\<rparr>)))"

definition run_remove :: "world \<Rightarrow> process \<Rightarrow> action \<Rightarrow> profile \<Rightarrow> outcome" where
  "run_remove w env a p =
     (case Remove (w_io w) (he_fs (w_host w)) p (a_rel a) of
        (fs', Inl e) \<Rightarrow> fail_op fs' env a (FileFailed e) 0
      | (fs', Inr _) \<Rightarrow>
          done_op fs' env (empty_entry\<lparr>e_verb := ''remove'', e_profile := p_name p, e_path := a_rel a\<rparr>))"

definition runFs :: "world \<Rightarrow> process \<Rightarrow> action \<Rightarrow> outcome" where
  "runFs w env a =
     (let en = empty_entry\<lparr>e_verb := a_verb a, e_profile := a_profile a\<rparr> in
      if pr_euid env \<noteq> 0 then halt w ExitNotRoot [] [MustRunAsRoot]
      else (case LoadSet (w_host w) (a_configPath a) True of
        Inl e \<Rightarrow> reject w env ExitConfigBad en (ConfigFailed e)
      | Inr gs \<Rightarrow>
      (case Lookup gs (a_profile a) of
        Inl e \<Rightarrow> reject w env ExitRefused en (ProfileRefused e)
      | Inr p \<Rightarrow>
          if a_verb a = ''write'' then run_write w env a p
          else if a_verb a = ''mkdir'' then run_mkdir w env a p
          else if a_verb a = ''remove'' then run_remove w env a p
          else halt w ExitUsage [] [UnknownFsVerb (a_verb a)])))"

definition SudoersRule :: "string \<Rightarrow> string \<Rightarrow> string list" where
  "SudoersRule user helper =
     [''# MaidCafe privileged helper. Every command resolves what it may touch'',
      ''# against '' @ DefaultConfigPath @ '', which must stay root-owned and'',
      ''# unwritable by anyone else: that file, not this rule, is the boundary.''] @
     map (\<lambda>verb. user @ '' ALL=(root) NOPASSWD: '' @ helper @ '' fs '' @ verb @ '' *'')
       [''write'', ''mkdir'', ''remove''] @
     map (\<lambda>cmd. user @ '' ALL=(root) NOPASSWD: '' @ helper @ '' '' @ cmd @ '' *'')
       [''systemd'', ''packages'', ''firewall'']"

definition Version :: string where
  "Version = ''dev''"

definition dispatch :: "world \<Rightarrow> process \<Rightarrow> action \<Rightarrow> outcome" where
  "dispatch w env a =
     (if a_command a = ''version'' then halt w ExitOK [Version] []
      else if a_command a = ''sudoers'' then halt w ExitOK (SudoersRule (a_user a) DefaultHelperPath) []
      else if a_command a = ''systemd'' then runSystemd w env a
      else if a_command a = ''packages'' then runPackages w env a
      else if a_command a = ''firewall'' then runFirewall w env a
      else if a_verb a = ''profiles'' then runProfiles w env a
      else runFs w env a)"

definition Run :: "world \<Rightarrow> process \<Rightarrow> string list \<Rightarrow> outcome" where
  "Run w env argv =
     (case ParseArgs argv of
        Inl e \<Rightarrow> halt w ExitUsage [] [UsageText e]
      | Inr a \<Rightarrow> dispatch w env a)"


section \<open>What each runner can do\<close>

text \<open>
  A run either stops before it touches anything, with one of the helper's own codes and no
  successful audit line, or it went through every check of its section.
\<close>

definition audits :: "outcome \<Rightarrow> entry list" where
  "audits out = concat (map (\<lambda>l. case l of Audit en \<Rightarrow> [en] | _ \<Rightarrow> []) (o_err out))"

definition untouched :: "world \<Rightarrow> outcome \<Rightarrow> bool" where
  "untouched w out \<longleftrightarrow> o_ran out = [] \<and> o_fs out = he_fs (w_host w)"

definition rejected :: "world \<Rightarrow> process \<Rightarrow> action \<Rightarrow> outcome \<Rightarrow> bool" where
  "rejected w env a out \<longleftrightarrow> untouched w out \<and> o_code out \<in> {3, 4, 6} \<and>
     (\<exists>en. audits out = [en] \<and> \<not> e_ok en \<and> e_verb en = a_verb a \<and> e_euid en = pr_euid env \<and>
        e_invoker en = [] \<and> e_invoker_id en = [])"

lemma empty_entry_simps [simp]: "e_invoker empty_entry = []" "e_invoker_id empty_entry = []"
  by (simp_all add: empty_entry_def)

lemma reject_rejected:
  assumes "code \<in> {3, 4, 6}" "e_verb en = a_verb a" "e_invoker en = []" "e_invoker_id en = []"
  shows "rejected w env a (reject w env code en err)"
  using assms by (simp add: rejected_def untouched_def reject_def halt_def audits_def)

lemma reject_code [simp]: "o_code (reject w env code en err) = code"
  by (simp add: reject_def halt_def)

lemma halt_simps [simp]:
  "o_code (halt w c out err) = c" "o_ran (halt w c out err) = []"
  "o_fs (halt w c out err) = he_fs (w_host w)" "o_err (halt w c out err) = err" "o_out (halt w c out err) = out"
  by (simp_all add: halt_def)

definition never_exits_0 :: "world \<Rightarrow> bool" where
  "never_exits_0 w \<longleftrightarrow> (\<forall>prev argv extra. w_exec w prev argv extra \<noteq> CmdExit 0)"

lemma run_commands_append: "\<exists>started. fst (run_commands w extra prev cmds) = prev @ started"
  by (induction cmds arbitrary: prev) (auto split: cmd_result.splits, (metis append_assoc)+)

lemma run_commands_prefix:
  "\<exists>rest. prev @ cmds = fst (run_commands w extra prev cmds) @ rest"
proof (induction cmds arbitrary: prev)
  case (Cons argv cmds)
  show ?case using Cons.IH [of "prev @ [argv]"] by (auto split: cmd_result.splits)
qed simp

text \<open>
  A run of commands is all of them, each one successful, or it ends at the first that is not.
\<close>

lemma run_commands_spec:
  assumes "run_commands w extra prev cmds = (started, r)"
  shows "if r = CmdOK
    then started = prev @ cmds \<and>
      (\<forall>i < length cmds. w_exec w (prev @ take i cmds) (cmds ! i) extra = CmdOK)
    else \<exists>i < length cmds. started = prev @ take (Suc i) cmds \<and>
      w_exec w (prev @ take i cmds) (cmds ! i) extra = r \<and>
      (\<forall>j < i. w_exec w (prev @ take j cmds) (cmds ! j) extra = CmdOK)"
  using assms
proof (induction cmds arbitrary: prev)
  case (Cons argv cmds)
  show ?case
  proof (cases "w_exec w prev argv extra = CmdOK")
    case True
    then have rest: "run_commands w extra (prev @ [argv]) cmds = (started, r)" using Cons.prems by simp
    have head: "(\<forall>j < Suc i. w_exec w (prev @ take j (argv # cmds)) ((argv # cmds) ! j) extra = CmdOK) \<longleftrightarrow>
        (\<forall>j < i. w_exec w ((prev @ [argv]) @ take j cmds) (cmds ! j) extra = CmdOK)" for i
      using True by (auto simp: All_less_Suc2)
    show ?thesis
    proof (cases "r = CmdOK")
      case True
      then show ?thesis using Cons.IH [OF rest] head [of "length cmds"] by simp
    next
      case False
      then obtain i where "i < length cmds" "started = (prev @ [argv]) @ take (Suc i) cmds"
        "w_exec w ((prev @ [argv]) @ take i cmds) (cmds ! i) extra = r"
        "\<forall>j < i. w_exec w ((prev @ [argv]) @ take j cmds) (cmds ! j) extra = CmdOK"
        using Cons.IH [OF rest] by auto
      then show ?thesis using False head [of i] by (auto intro!: exI [of _ "Suc i"])
    qed
  next
    case False
    then have "started = prev @ [argv]" "r = w_exec w prev argv extra"
      using Cons.prems by (auto split: cmd_result.splits)
    then show ?thesis using False by (auto intro!: exI [of _ 0])
  qed
qed simp

lemma runExternal_result:
  obtains started r where "run_commands w extra [] cmds = (started, r)"
    "o_ran (runExternal w env cmds extra en) = started"
    "o_fs (runExternal w env cmds extra en) = he_fs (w_host w)"
    "o_code (runExternal w env cmds extra en) = (if r = CmdOK then ExitOK else externalExitCode r)"
    "audits (runExternal w env cmds extra en) =
      [identify env (en\<lparr>e_ok := (r = CmdOK), e_error := (if r = CmdOK then e_error en else Some (cmd_error r))\<rparr>)]"
proof -
  obtain started r where "run_commands w extra [] cmds = (started, r)" by fastforce
  then show thesis by (intro that [of started r]) (auto simp: runExternal_def audits_def split: cmd_result.splits)
qed

lemma externalExitCode_own: "externalExitCode r \<notin> {2, 3, 5, 6}"
  by (cases r) (auto simp: externalExitCode_def exit_codes)

lemma externalExitCode_0: "externalExitCode r = 0 \<Longrightarrow> r = CmdExit 0"
  by (cases r) (auto simp: externalExitCode_def exit_codes split: if_splits)

section \<open>The runners, case by case\<close>

text \<open>What a run that reached the commands must have read from the grant file.\<close>

definition granted :: "world \<Rightarrow> grant_set \<Rightarrow> action \<Rightarrow> bool" where
  "granted w gs a \<longleftrightarrow>
     (if a_command a = ''systemd'' then
        (\<exists>g. LookupUnit gs (a_unit a) = Inr g \<and> a_verb a \<in> set (ug_verbs g))
      else if a_command a = ''packages'' then
        (\<exists>g. gs_packages gs = Some g \<and> a_verb a \<in> set (pg_verbs g))
      else if a_command a = ''firewall'' then
        (\<exists>g r. gs_firewall gs = Some g \<and> a_verb a \<in> set (fg_verbs g) \<and> action_rule a = Inr r \<and>
           (takes_rule (a_verb a) \<longrightarrow> wf_rule r))
      else (\<exists>p. Lookup gs (a_profile a) = Inr p \<and>
           (a_verb a \<noteq> ''remove'' \<longrightarrow> (\<exists>m. ParseMode (a_mode a) = Inr m))))"

definition authorised :: "world \<Rightarrow> process \<Rightarrow> action \<Rightarrow> bool" where
  "authorised w env a \<longleftrightarrow> pr_euid env = 0 \<and>
     (\<exists>gs. LoadSet (w_host w) (a_configPath a) True = Inr gs \<and> granted w gs a)"

text \<open>The commands an authorised action stands for, with the binaries resolved.\<close>

definition plan :: "world \<Rightarrow> action \<Rightarrow> (string list list \<times> string list) option" where
  "plan w a =
     (case LoadSet (w_host w) (a_configPath a) True of
        Inl _ \<Rightarrow> None
      | Inr gs \<Rightarrow>
          if a_command a = ''systemd'' then
            (case rbind (LookupUnit gs (a_unit a)) (\<lambda>g. SystemdArgv (he_fs (w_host w)) g (a_verb a)) of
               Inr argv \<Rightarrow> Some ([argv], []) | Inl _ \<Rightarrow> None)
          else if a_command a = ''packages'' then
            (case gs_packages gs of
               None \<Rightarrow> None
             | Some g \<Rightarrow>
                 (case rbind (PackageArgv g (a_verb a) (a_package a)) (\<lambda>argv.
                         map_sum id (\<lambda>p. p # tl argv) (FindManager (he_fs (w_host w)) (hd argv))) of
                    Inr argv \<Rightarrow> Some ([argv], PackageEnv (pg_manager g)) | Inl _ \<Rightarrow> None))
          else if a_command a = ''firewall'' then
            (case gs_firewall gs of
               None \<Rightarrow> None
             | Some g \<Rightarrow>
                 (case action_rule a of
                    Inl _ \<Rightarrow> None
                  | Inr r \<Rightarrow>
                      (case rbind (FirewallCommands g (a_verb a) r)
                              (rfold (resolve_command (he_fs (w_host w))) []) of
                         Inr cmds \<Rightarrow> Some (cmds, []) | Inl _ \<Rightarrow> None)))
          else None)"

definition executed :: "world \<Rightarrow> process \<Rightarrow> action \<Rightarrow> outcome \<Rightarrow> bool" where
  "executed w env a out \<longleftrightarrow> authorised w env a \<and>
     (\<exists>cmds extra en. plan w a = Some (cmds, extra) \<and> out = runExternal w env cmds extra en \<and>
        e_verb en = a_verb a)"

lemma runSystemd_cases:
  assumes "a_command a = ''systemd''" "pr_euid env = 0"
  shows "rejected w env a (runSystemd w env a) \<or> executed w env a (runSystemd w env a)"
proof (cases "plan w a")
  case None
  then show ?thesis using assms
    by (auto simp: runSystemd_def plan_def Let_def exit_codes intro!: reject_rejected
        split: sum.splits)
next
  case (Some ce)
  obtain gs g argv where l: "LoadSet (w_host w) (a_configPath a) True = Inr gs" "LookupUnit gs (a_unit a) = Inr g"
    "SystemdArgv (he_fs (w_host w)) g (a_verb a) = Inr argv" "ce = ([argv], [])"
    using Some assms by (auto simp: plan_def rbind_def split: sum.splits)
  have "a_verb a \<in> set (ug_verbs g)" using l(3) units.commands_granted by (auto simp: SystemdArgv_def)
  then have "authorised w env a" using l assms by (auto simp: authorised_def granted_def)
  then show ?thesis using Some l assms by (auto simp: executed_def runSystemd_def Let_def)
qed

lemma runPackages_cases:
  assumes "a_command a = ''packages''" "pr_euid env = 0"
  shows "rejected w env a (runPackages w env a) \<or> executed w env a (runPackages w env a)"
proof (cases "plan w a")
  case None
  then show ?thesis using assms
    by (auto simp: runPackages_def plan_def Let_def exit_codes rbind_def intro!: reject_rejected
        split: sum.splits option.splits)
next
  case (Some ce)
  obtain gs g argv path where l: "LoadSet (w_host w) (a_configPath a) True = Inr gs" "gs_packages gs = Some g"
    "PackageArgv g (a_verb a) (a_package a) = Inr argv" "FindManager (he_fs (w_host w)) (hd argv) = Inr path"
    "ce = ([path # tl argv], PackageEnv (pg_manager g))"
    using Some assms by (auto simp: plan_def rbind_def split: sum.splits option.splits)
  have "a_verb a \<in> set (pg_verbs g)" using l(3) packages.commands_granted by blast
  then have "authorised w env a" using l assms by (auto simp: authorised_def granted_def)
  then show ?thesis using Some l assms by (auto simp: executed_def runPackages_def Let_def)
qed

lemma action_rule_wf: "action_rule a = Inr r \<Longrightarrow> takes_rule (a_verb a) \<Longrightarrow> wf_rule r"
  using ParseFirewallRule_wf by (simp add: action_rule_def)

lemma runFirewall_cases:
  assumes "a_command a = ''firewall''" "pr_euid env = 0"
  shows "rejected w env a (runFirewall w env a) \<or> executed w env a (runFirewall w env a)"
proof (cases "plan w a")
  case None
  then show ?thesis using assms
    by (auto simp: runFirewall_def plan_def Let_def exit_codes rbind_def intro!: reject_rejected
        split: sum.splits option.splits)
next
  case (Some ce)
  obtain gs g rule cmds res where l: "LoadSet (w_host w) (a_configPath a) True = Inr gs"
    "gs_firewall gs = Some g" "action_rule a = Inr rule" "FirewallCommands g (a_verb a) rule = Inr cmds"
    "rfold (resolve_command (he_fs (w_host w))) [] cmds = Inr res" "ce = (res, [])"
    using Some assms by (auto simp: plan_def rbind_def split: sum.splits option.splits)
  have "a_verb a \<in> set (fg_verbs g)" using l(4) firewalls.commands_granted by blast
  then have "authorised w env a" using l action_rule_wf assms by (auto simp: authorised_def granted_def)
  then show ?thesis using Some l assms by (auto simp: executed_def runFirewall_def Let_def)
qed

text \<open>The file operation an authorised \<open>fs\<close> action performs, and its report.\<close>

definition file_effect :: "world \<Rightarrow> profile \<Rightarrow> action \<Rightarrow> host \<times> (file_error + unit) \<Rightarrow> bool" where
  "file_effect w p a res \<longleftrightarrow>
     (a_verb a = ''write'' \<and> (\<exists>mode data. ParseMode (a_mode a) = Inr mode \<and> read_stdin w = Inr data \<and>
        length data \<le> MaxContentBytes \<and> Write (w_io w) (he_fs (w_host w)) p (a_rel a) mode data = res)) \<or>
     (a_verb a = ''mkdir'' \<and> (\<exists>mode. ParseMode (a_mode a) = Inr mode \<and>
        Mkdir (w_io w) (he_fs (w_host w)) p (a_rel a) mode = res)) \<or>
     (a_verb a = ''remove'' \<and> Remove (w_io w) (he_fs (w_host w)) p (a_rel a) = res)"

definition filed :: "world \<Rightarrow> process \<Rightarrow> action \<Rightarrow> outcome \<Rightarrow> bool" where
  "filed w env a out \<longleftrightarrow> authorised w env a \<and> o_ran out = [] \<and>
     (\<exists>gs p res. LoadSet (w_host w) (a_configPath a) True = Inr gs \<and> Lookup gs (a_profile a) = Inr p \<and>
        file_effect w p a res \<and> o_fs out = fst res \<and>
        o_code out = (case snd res of Inl _ \<Rightarrow> ExitIO | Inr _ \<Rightarrow> ExitOK) \<and>
        (\<exists>en. audits out = [en] \<and> (e_ok en \<longleftrightarrow> o_code out = ExitOK) \<and> e_verb en = a_verb a \<and>
           e_euid en = pr_euid env))"

definition fs_verbs :: "string list" where
  "fs_verbs = [''write'', ''mkdir'', ''remove'']"

lemma run_file_cases:
  assumes fs: "a_command a = ''fs''" and root: "pr_euid env = 0"
    and set: "LoadSet (w_host w) (a_configPath a) True = Inr gs" "Lookup gs (a_profile a) = Inr p"
    and verb: "a_verb a \<in> set fs_verbs"
    and out: "out = (if a_verb a = ''write'' then run_write w env a p
      else if a_verb a = ''mkdir'' then run_mkdir w env a p else run_remove w env a p)"
  shows "rejected w env a out \<or> filed w env a out"
proof -
  have auth: "authorised w env a" if "a_verb a \<noteq> ''remove'' \<longrightarrow> (\<exists>m. ParseMode (a_mode a) = Inr m)"
    using that fs root set by (auto simp: authorised_def granted_def)
  have report: "filed w env a out" if "authorised w env a" "file_effect w p a res" "o_ran out = []"
    "o_fs out = fst res" "o_code out = (case snd res of Inl _ \<Rightarrow> ExitIO | Inr _ \<Rightarrow> ExitOK)"
    "audits out = [en]" "e_ok en \<longleftrightarrow> o_code out = ExitOK" "e_verb en = a_verb a" "e_euid en = pr_euid env" for res en
    unfolding filed_def using that set by blast
  have rej: "rejected w env a (refuse w env a err)" for err
    by (simp add: refuse_def fs_entry_def exit_codes reject_rejected)
  consider (wr) "a_verb a = ''write''" | (mkdir) "a_verb a = ''mkdir''" | (remove) "a_verb a = ''remove''"
    using verb by (auto simp: fs_verbs_def)
  then show ?thesis
  proof cases
    case wr
    show ?thesis
    proof (cases "\<exists>mode data. ParseMode (a_mode a) = Inr mode \<and> read_stdin w = Inr data \<and> length data \<le> MaxContentBytes")
      case True
      then obtain mode data where md: "ParseMode (a_mode a) = Inr mode" "read_stdin w = Inr data"
        "length data \<le> MaxContentBytes" by blast
      obtain fs' r where res: "Write (w_io w) (he_fs (w_host w)) p (a_rel a) mode data = (fs', r)" by fastforce
      have "file_effect w p a (fs', r)" using wr md res by (auto simp: file_effect_def)
      moreover have "authorised w env a" using auth md by blast
      ultimately have "filed w env a out" if "out = run_write w env a p"
        using that md res wr
        by (cases r; intro report) (auto simp: run_write_def fail_op_def done_op_def audits_def
            identify_def fs_entry_def exit_codes split: prod.splits)
      then show ?thesis using out wr by simp
    next
      case False
      then have "rejected w env a (run_write w env a p)"
        by (auto simp: run_write_def exit_codes rej intro!: reject_rejected split: sum.splits)
      then show ?thesis using out wr by simp
    qed
  next
    case mkdir
    show ?thesis
    proof (cases "ParseMode (a_mode a)")
      case (Inr mode)
      obtain fs' r where res: "Mkdir (w_io w) (he_fs (w_host w)) p (a_rel a) mode = (fs', r)" by fastforce
      have "file_effect w p a (fs', r)" using mkdir Inr res by (auto simp: file_effect_def)
      moreover have "authorised w env a" using auth Inr by blast
      ultimately have "filed w env a out" if "out = run_mkdir w env a p"
        using that Inr res mkdir
        by (cases r; intro report) (auto simp: run_mkdir_def fail_op_def done_op_def audits_def
            identify_def fs_entry_def exit_codes split: prod.splits)
      then show ?thesis using out mkdir by simp
    next
      case (Inl e)
      then show ?thesis using out mkdir rej by (simp add: run_mkdir_def)
    qed
  next
    case remove
    obtain fs' r where res: "Remove (w_io w) (he_fs (w_host w)) p (a_rel a) = (fs', r)" by fastforce
    have "file_effect w p a (fs', r)" using remove res by (auto simp: file_effect_def)
    moreover have "authorised w env a" using auth remove by blast
    ultimately have "filed w env a out" if "out = run_remove w env a p"
      using that res remove
      by (cases r; intro report) (auto simp: run_remove_def fail_op_def done_op_def audits_def
          identify_def fs_entry_def exit_codes split: prod.splits)
    then show ?thesis using out remove by simp
  qed
qed

section \<open>The whole run\<close>

definition mutating :: "action \<Rightarrow> bool" where
  "mutating a \<longleftrightarrow> a_command a \<in> {''systemd'', ''packages'', ''firewall''} \<or>
     a_command a = ''fs'' \<and> a_verb a \<in> set fs_verbs"

lemma parse_fs_verb:
  assumes "parse_fs a args = Inr b"
  shows "a_command b = a_command a \<and> (a_verb b = ''profiles'' \<or> a_verb b \<in> set fs_verbs)"
proof (cases args)
  case Nil
  then show ?thesis using assms by (simp add: parse_fs_def)
next
  case args: (Cons verb rest)
  consider "verb = ''profiles''" | "verb \<noteq> ''profiles''" "verb = ''write'' \<or> verb = ''mkdir''" | "verb = ''remove''"
    using assms args by (simp add: parse_fs_def split: if_split_asm)
  then show ?thesis using assms args
    by cases (auto simp: parse_fs_def fs_verbs_def split: list.splits if_split_asm dest!: check_fs_operands_same)
qed

lemma parse_command_kind:
  assumes "parse_command a argv = Inr b"
  shows "mutating b \<or> a_command b \<in> {''version'', ''sudoers''} \<or> a_command b = ''fs'' \<and> a_verb b = ''profiles''"
proof -
  obtain cmd rest where argv: "argv = cmd # rest" "find (has_prefix ''-'') argv = None"
    using assms by (auto simp: parse_command_def split: option.splits list.splits)
  have ab: "args_of b = argv \<or> argv = [''sudoers''] \<and> args_of b = [''sudoers'', ''maidcafe'']"
    using parse_command_args [OF assms] by simp
  then have cmd: "a_command b = cmd" using argv by (auto simp: args_of_def)
  consider "cmd = ''version''" | "cmd = ''sudoers''" | "cmd = ''packages''"
    | "cmd = ''firewall''" | "cmd = ''systemd''" | (fs) "cmd = ''fs''"
    using assms argv by (simp add: parse_command_def Let_def split: if_split_asm)
  then show ?thesis
  proof cases
    case fs
    then have "parse_fs (a\<lparr>a_command := ''fs''\<rparr>) rest = Inr b"
      using assms argv by (simp add: parse_command_def Let_def)
    from parse_fs_verb [OF this] show ?thesis by (auto simp: mutating_def)
  qed (use cmd in \<open>simp_all add: mutating_def\<close>)
qed

lemma ParseArgs_kind:
  assumes "ParseArgs argv = Inr a"
  shows "mutating a \<or> a_command a \<in> {''version'', ''sudoers''} \<or> a_command a = ''fs'' \<and> a_verb a = ''profiles''"
proof -
  obtain a0 rest where "parse_command a0 rest = Inr a"
    using assms by (auto simp: ParseArgs_def split: list.splits if_split_asm)
  then show ?thesis by (rule parse_command_kind)
qed

lemma dispatch_quiet:
  assumes "a_command a \<in> {''version'', ''sudoers''} \<or> a_command a = ''fs'' \<and> a_verb a = ''profiles''"
  shows "untouched w (dispatch w env a)" "o_code (dispatch w env a) \<in> {0, 6}" "audits (dispatch w env a) = []"
  using assms
  by (auto simp: dispatch_def runProfiles_def untouched_def exit_codes audits_def split: sum.splits)

lemma dispatch_not_root:
  assumes "mutating a" "pr_euid env \<noteq> 0"
  shows "dispatch w env a = halt w ExitNotRoot [] [MustRunAsRoot]"
  using assms
  by (auto simp: mutating_def fs_verbs_def dispatch_def runSystemd_def runPackages_def runFirewall_def runFs_def)

lemma runFs_cases:
  assumes "a_command a = ''fs''" "a_verb a \<in> set fs_verbs" "pr_euid env = 0"
  shows "rejected w env a (runFs w env a) \<or> filed w env a (runFs w env a)"
proof (cases "LoadSet (w_host w) (a_configPath a) True")
  case (Inl e)
  then show ?thesis using assms by (simp add: runFs_def exit_codes reject_rejected)
next
  case gs: (Inr gs)
  show ?thesis
  proof (cases "Lookup gs (a_profile a)")
    case (Inl e)
    then show ?thesis using assms gs by (simp add: runFs_def exit_codes reject_rejected)
  next
    case (Inr p)
    have "runFs w env a = (if a_verb a = ''write'' then run_write w env a p
      else if a_verb a = ''mkdir'' then run_mkdir w env a p else run_remove w env a p)"
      using assms gs Inr by (auto simp: runFs_def fs_verbs_def)
    from run_file_cases [OF assms(1,3) gs Inr assms(2) this] show ?thesis .
  qed
qed

lemma dispatch_root:
  assumes "mutating a" "pr_euid env = 0"
  shows "rejected w env a (dispatch w env a) \<or> executed w env a (dispatch w env a) \<or> filed w env a (dispatch w env a)"
proof -
  consider "a_command a = ''systemd''" | "a_command a = ''packages''" | "a_command a = ''firewall''"
    | "a_command a = ''fs''" "a_verb a \<in> set fs_verbs"
    using assms(1) by (auto simp: mutating_def)
  then show ?thesis
  proof cases
    case 1
    then show ?thesis using runSystemd_cases [OF 1 assms(2), of w] by (simp add: dispatch_def) blast
  next
    case 2
    then show ?thesis using runPackages_cases [OF 2 assms(2), of w] by (simp add: dispatch_def) blast
  next
    case 3
    then show ?thesis using runFirewall_cases [OF 3 assms(2), of w] by (simp add: dispatch_def) blast
  next
    case 4
    then have "dispatch w env a = runFs w env a" by (auto simp: dispatch_def fs_verbs_def)
    then show ?thesis using runFs_cases [OF 4 assms(2)] by metis
  qed
qed

lemma Run_cases:
  obtains (usage) e where "ParseArgs argv = Inl e" "untouched w (Run w env argv)" "o_code (Run w env argv) = 2" "audits (Run w env argv) = []"
  | (quiet) a where "ParseArgs argv = Inr a" "\<not> mutating a" "untouched w (Run w env argv)"
      "o_code (Run w env argv) \<in> {0, 6}" "audits (Run w env argv) = []"
  | (not_root) a where "ParseArgs argv = Inr a" "mutating a" "pr_euid env \<noteq> 0" "untouched w (Run w env argv)"
      "o_code (Run w env argv) = 5" "audits (Run w env argv) = []"
  | (rejected) a where "ParseArgs argv = Inr a" "mutating a" "pr_euid env = 0" "rejected w env a (Run w env argv)"
  | (executed) a where "ParseArgs argv = Inr a" "mutating a" "pr_euid env = 0" "executed w env a (Run w env argv)"
  | (filed) a where "ParseArgs argv = Inr a" "mutating a" "pr_euid env = 0" "filed w env a (Run w env argv)"
proof (cases "ParseArgs argv")
  case (Inl e)
  then show ?thesis by (rule usage) (simp_all add: Inl Run_def untouched_def exit_codes audits_def)
next
  case (Inr a)
  then have run: "Run w env argv = dispatch w env a" by (simp add: Run_def)
  show ?thesis
  proof (cases "mutating a")
    case False
    then have "a_command a \<in> {''version'', ''sudoers''} \<or> a_command a = ''fs'' \<and> a_verb a = ''profiles''"
      using ParseArgs_kind [OF Inr] by blast
    from dispatch_quiet [OF this] show ?thesis using quiet [OF Inr False] run by simp
  next
    case True
    show ?thesis
    proof (cases "pr_euid env = 0")
      case False
      show ?thesis
        by (rule not_root [OF Inr True False])
          (simp_all add: run dispatch_not_root [OF True False] untouched_def exit_codes audits_def)
    next
      case root: True
      show ?thesis using dispatch_root [OF True root, of w] rejected [OF Inr True root] executed [OF Inr True root]
          filed [OF Inr True root] run by metis
    qed
  qed
qed

lemma executed_code: "executed w env a out \<Longrightarrow> o_code out \<notin> {2, 3, 5, 6}"
proof -
  assume "executed w env a out"
  then obtain cmds extra en where out: "out = runExternal w env cmds extra en" by (auto simp: executed_def)
  obtain r where "o_code out = (if r = CmdOK then ExitOK else externalExitCode r)"
    unfolding out by (rule runExternal_result [of w extra cmds env en]) blast
  then show ?thesis using externalExitCode_own [of r] by (simp add: exit_codes)
qed

lemma filed_code:
  assumes "filed w env a out"
  shows "o_code out \<in> {0, 4}"
proof -
  obtain res :: "host \<times> (file_error + unit)"
    where "o_code out = (case snd res of Inl _ \<Rightarrow> ExitIO | Inr _ \<Rightarrow> ExitOK)"
    using assms unfolding filed_def by blast
  then show ?thesis by (cases "snd res") (simp_all add: exit_codes)
qed

lemma executed_report:
  assumes "executed w env a out" "never_exits_0 w"
  obtains cmds extra en where "plan w a = Some (cmds, extra)" "audits out = [en]" "e_verb en = a_verb a"
    "e_euid en = pr_euid env" "e_ok en \<longleftrightarrow> o_code out = 0"
    "o_code out = 0 \<Longrightarrow> o_ran out = cmds \<and> (\<forall>i < length cmds. w_exec w (take i cmds) (cmds ! i) extra = CmdOK)"
proof -
  obtain cmds extra en where p: "plan w a = Some (cmds, extra)" "out = runExternal w env cmds extra en"
    "e_verb en = a_verb a"
    using assms(1) by (auto simp: executed_def)
  obtain started r where r: "run_commands w extra [] cmds = (started, r)"
    "o_ran out = started" "o_code out = (if r = CmdOK then ExitOK else externalExitCode r)"
    "audits out =
      [identify env (en\<lparr>e_ok := (r = CmdOK), e_error := (if r = CmdOK then e_error en else Some (cmd_error r))\<rparr>)]"
    unfolding p(2) by (rule runExternal_result [of w extra cmds env en]) blast
  have spec: "if r = CmdOK then started = [] @ cmds \<and>
        (\<forall>i < length cmds. w_exec w ([] @ take i cmds) (cmds ! i) extra = CmdOK)
      else \<exists>i < length cmds. started = [] @ take (Suc i) cmds \<and>
        w_exec w ([] @ take i cmds) (cmds ! i) extra = r \<and>
        (\<forall>j < i. w_exec w ([] @ take j cmds) (cmds ! j) extra = CmdOK)"
    by (rule run_commands_spec [OF r(1)])
  have ok: "r = CmdOK" if "o_code out = 0"
  proof (rule ccontr)
    assume ne: "r \<noteq> CmdOK"
    then have "r = CmdExit 0" using that r(3) externalExitCode_0 by simp
    moreover obtain i where "w_exec w ([] @ take i cmds) (cmds ! i) extra = r"
      using spec unfolding if_not_P [OF ne] by blast
    ultimately show False using assms(2) unfolding never_exits_0_def by metis
  qed
  have code: "r = CmdOK \<longleftrightarrow> o_code out = 0" using ok r(3) ExitOK_def by argo
  show thesis
  proof (rule that [OF p(1) r(4)])
    assume "o_code out = 0"
    then show "o_ran out = cmds \<and> (\<forall>i < length cmds. w_exec w (take i cmds) (cmds ! i) extra = CmdOK)"
      using spec ok r(2) by simp
  qed (simp_all add: identify_def p(3) code)
qed

end
