(* ===== verification/Priv_Properties.thy ===== *)
theory Priv_Properties
  imports Priv_Run
begin

text \<open>
  The properties of the privileged helper, \<open>internal/privfs\<close>, over the definitions of the
  \<open>Priv_\<close> theories, with one configured host they are instantiated on.
\<close>

section \<open>A configured host\<close>

definition demo_fs :: host where
  "demo_fs = map_of
     [([''etc''], DirF 493), ([''etc'', ''maidkit''], DirF 493),
      ([''etc'', ''maidkit'', ''priv.toml''], RegF 420 []),
      ([''srv''], DirF 493), ([''srv'', ''app''], DirF 493),
      ([''usr''], DirF 493), ([''usr'', ''bin''], DirF 493), ([''usr'', ''sbin''], DirF 493),
      ([''usr'', ''bin'', ''systemctl''], RegF 493 []), ([''usr'', ''bin'', ''apt-get''], RegF 493 []),
      ([''usr'', ''sbin'', ''ufw''], RegF 493 [])]"

definition demo_config :: file_config where
  "demo_config =
     \<lparr>fc_profiles = [(''app'', ''/srv/app'', [''0644'', ''0755''])], fc_systemd = [(''app.service'', [''start''])],
      fc_packages = Some (''apt'', [''install'']), fc_firewall = Some (''ufw'', [''allow''])\<rparr>"

definition demo_profile :: profile where
  "demo_profile = \<lparr>p_name = ''app'', p_path = [''srv'', ''app''], p_modes = [493, 420]\<rparr>"

definition demo_set :: grant_set where
  "demo_set =
     \<lparr>gs_byName = [(''app'', demo_profile)],
      gs_units = [(''app.service'', \<lparr>ug_unit = ''app.service'', ug_verbs = [''start'']\<rparr>)],
      gs_packages = Some \<lparr>pg_manager = ''apt'', pg_verbs = [''install'']\<rparr>,
      gs_firewall = Some \<lparr>fg_backend = ''ufw'', fg_verbs = [''allow'']\<rparr>\<rparr>"

definition demo_host :: host_env where
  "demo_host = \<lparr>he_fs = demo_fs, he_owner = (\<lambda>_. Some 0), he_parse = (\<lambda>_. Some demo_config)\<rparr>"

definition demo_io :: io_env where
  "demo_io = \<lparr>io_random = Inr 7, io_umask = 18, io_fault = (\<lambda>_. None), io_written = 0, io_mkdir_fault = (\<lambda>_. None)\<rparr>"

definition demo_world :: world where
  "demo_world = \<lparr>w_host = demo_host, w_io = demo_io, w_stdin = Inr ''data'', w_exec = (\<lambda>_ _ _. CmdOK),
     w_digest = (\<lambda>_. ''00'')\<rparr>"

definition demo_root :: process where
  "demo_root = \<lparr>pr_euid = 0, pr_invoker = ''maidcafe'', pr_invoker_uid = ''990''\<rparr>"

lemma demo_simps [simp]:
  "w_host demo_world = demo_host" "w_io demo_world = demo_io" "w_stdin demo_world = Inr ''data''"
  "w_exec demo_world prev argv extra = CmdOK" "pr_euid demo_root = 0" "he_fs demo_host = demo_fs"
  by (simp_all add: demo_world_def demo_host_def demo_root_def)

lemma demo_stat: "lstat_abs demo_fs DefaultConfigPath = Inr (RegF 420 [])"
  by code_simp

lemma demo_built:
  "buildProfile demo_fs ''app'' ''/srv/app'' [''0644'', ''0755''] = Inr demo_profile"
  "buildUnitGrant ''app.service'' [''start''] = Inr \<lparr>ug_unit = ''app.service'', ug_verbs = [''start'']\<rparr>"
  "buildPackageGrant ''apt'' [''install''] = Inr \<lparr>pg_manager = ''apt'', pg_verbs = [''install'']\<rparr>"
  "buildFirewallGrant ''ufw'' [''allow''] = Inr \<lparr>fg_backend = ''ufw'', fg_verbs = [''allow'']\<rparr>"
  by code_simp+

lemma demo_loads: "LoadSet demo_host DefaultConfigPath True = Inr demo_set"
  by (simp add: LoadSet_def demo_host_def demo_stat ownedByRoot_def build_set_def demo_config_def
      add_profile_def add_unit_def add_packages_def add_firewall_def demo_built demo_set_def enumerate_eq_zip demo_profile_def)

lemma demo_lookup: "Lookup demo_set ''app'' = Inr demo_profile"
  by (simp add: Lookup_def demo_set_def demo_profile_def)

definition demo_write :: action where
  "demo_write = new_action\<lparr>a_command := ''fs'', a_verb := ''write'', a_profile := ''app'', a_rel := ''a.txt'',
     a_mode := ''0600''\<rparr>"

lemma demo_write_parses: "ParseArgs [''fs'', ''write'', ''app'', ''a.txt'', ''0600''] = Inr demo_write"
  by code_simp

lemma demo_write_mutates: "mutating demo_write"
  by code_simp

section \<open>Authority\<close>

text \<open>C1: Whatever the arguments, the invoking account and the host are, a run leaves the host
  as it was unless it is root, the arguments parsed, the grant file is a root-owned regular file nobody
  else can write, the set built from it is well-formed, and that set grants the action; and then it does no more than
  a prefix of the planned commands, or the one file operation inside the granted profile.\<close>

theorem Run_authorised:
  "untouched w (Run w env argv) \<or>
   (\<exists>a gs. ParseArgs argv = Inr a \<and> mutating a \<and> pr_euid env = 0 \<and>
      LoadSet (w_host w) (a_configPath a) True = Inr gs \<and> wf_set (he_fs (w_host w)) gs \<and> granted w gs a \<and>
      ownedByRoot (w_host w) (a_configPath a) \<and>
      (\<exists>m d. lstat_abs (he_fs (w_host w)) (a_configPath a) = Inr (RegF m d) \<and> and m 18 = 0) \<and>
      ((\<exists>cmds extra rest. plan w a = Some (cmds, extra) \<and> cmds = o_ran (Run w env argv) @ rest \<and>
          o_fs (Run w env argv) = he_fs (w_host w)) \<or>
       (\<exists>p res. Lookup gs (a_profile a) = Inr p \<and> wf_profile (he_fs (w_host w)) p \<and> file_effect w p a res \<and>
          o_ran (Run w env argv) = [] \<and> o_fs (Run w env argv) = fst res)))"
proof (cases rule: Run_cases [of argv w env])
  case (executed a)
  then obtain cmds extra en where p: "authorised w env a" "plan w a = Some (cmds, extra)"
    "Run w env argv = runExternal w env cmds extra en"
    by (auto simp: executed_def)
  then obtain gs where gs: "LoadSet (w_host w) (a_configPath a) True = Inr gs" "granted w gs a"
    by (auto simp: authorised_def)
  obtain started r where "run_commands w extra [] cmds = (started, r)" "o_ran (Run w env argv) = started"
    "o_fs (Run w env argv) = he_fs (w_host w)"
    unfolding p(3) by (rule runExternal_result [of w extra cmds env en]) blast
  then obtain rest where "cmds = o_ran (Run w env argv) @ rest" "o_fs (Run w env argv) = he_fs (w_host w)"
    using run_commands_prefix [of "[]" cmds w extra] by auto
  then show ?thesis using executed p gs LoadSet_trusted [OF gs(1)] LoadSet_wf [OF gs(1)] by blast
next
  case (filed a)
  then obtain gs p res where f: "authorised w env a" "LoadSet (w_host w) (a_configPath a) True = Inr gs"
    "Lookup gs (a_profile a) = Inr p" "file_effect w p a res" "o_ran (Run w env argv) = []"
    "o_fs (Run w env argv) = fst res"
    by (auto simp: filed_def)
  then have "granted w gs a" by (auto simp: authorised_def)
  then show ?thesis
    using filed f LoadSet_trusted [OF f(2)] LoadSet_wf [OF f(2)] Lookup_wf [OF LoadSet_wf [OF f(2)] f(3)] by blast
qed (auto simp: rejected_def)

text \<open>C4: The exit codes mean what they say: 5 exactly when a privileged action was run unprivileged,
  2 exactly when the arguments did not parse, and 3 and 6 only when nothing was run and nothing
  changed, whatever an external command exits with.\<close>

theorem Run_exit_codes:
  "(o_code (Run w env argv) = 2 \<longleftrightarrow> \<not> is_ok (ParseArgs argv)) \<and>
   (o_code (Run w env argv) = 5 \<longleftrightarrow> (\<exists>a. ParseArgs argv = Inr a \<and> mutating a \<and> pr_euid env \<noteq> 0)) \<and>
   (o_code (Run w env argv) = 3 \<or> o_code (Run w env argv) = 6 \<longrightarrow> untouched w (Run w env argv))"
proof (cases rule: Run_cases [of argv w env])
  case (executed a)
  then show ?thesis using executed_code [OF executed(4)] by simp
next
  case (filed a)
  then show ?thesis using filed_code [OF filed(4)] by auto
qed (auto simp: rejected_def)

theorem Run_exit_codes_witness:
  "o_code (Run demo_world demo_root [''systemd'', ''start'']) = 2 \<and>
   \<not> is_ok (ParseArgs [''systemd'', ''start''])"
proof -
  have "\<not> is_ok (ParseArgs [''systemd'', ''start''])" by code_simp
  then show ?thesis using Run_exit_codes [of demo_world demo_root "[''systemd'', ''start'']"] by simp
qed

text \<open>A privileged action run by root writes exactly one audit line: it names the verb and the
  effective user, and says \<open>ok\<close> exactly when the run exits 0. (\<open>os/exec\<close> reports no error for a command
  that exits 0.)\<close>

theorem Run_audited:
  assumes "ParseArgs argv = Inr a" "mutating a" "pr_euid env = 0" "never_exits_0 w"
  shows "\<exists>en. audits (Run w env argv) = [en] \<and> e_verb en = a_verb a \<and> e_euid en = 0 \<and>
    (e_ok en \<longleftrightarrow> o_code (Run w env argv) = 0)"
proof (cases rule: Run_cases [of argv w env])
  case (rejected b)
  then show ?thesis using assms by (auto simp: rejected_def)
next
  case (executed b)
  then have "b = a" using assms by simp
  then obtain cmds extra en where "audits (Run w env argv) = [en]" "e_verb en = a_verb a"
    "e_euid en = pr_euid env" "e_ok en \<longleftrightarrow> o_code (Run w env argv) = 0"
    using executed_report [OF executed(4) assms(4)] by metis
  then show ?thesis using assms by auto
next
  case (filed b)
  then show ?thesis using assms by (auto simp: filed_def exit_codes)
qed (use assms in auto)

theorem Run_audited_witness:
  "\<exists>en. audits (Run demo_world demo_root [''fs'', ''write'', ''app'', ''a.txt'', ''0600'']) = [en] \<and>
     e_verb en = ''write'' \<and> e_euid en = 0 \<and>
     (e_ok en \<longleftrightarrow> o_code (Run demo_world demo_root [''fs'', ''write'', ''app'', ''a.txt'', ''0600'']) = 0)"
  using Run_audited [OF demo_write_parses demo_write_mutates, of demo_root demo_world]
  by (simp add: never_exits_0_def demo_write_def)

text \<open>C3: When a privileged action exits 0 everything it stands for was done: every planned command
  was started, in order, and succeeded; or the file operation returned no error.\<close>

theorem Run_complete:
  assumes "ParseArgs argv = Inr a" "mutating a" "never_exits_0 w" "o_code (Run w env argv) = 0"
  shows "(\<exists>cmds extra. plan w a = Some (cmds, extra) \<and> o_ran (Run w env argv) = cmds \<and>
            (\<forall>i < length cmds. w_exec w (take i cmds) (cmds ! i) extra = CmdOK)) \<or>
         (\<exists>gs p. LoadSet (w_host w) (a_configPath a) True = Inr gs \<and> Lookup gs (a_profile a) = Inr p \<and>
            file_effect w p a (o_fs (Run w env argv), Inr ()))"
proof (cases rule: Run_cases [of argv w env])
  case (executed b)
  then have "b = a" using assms by simp
  then show ?thesis using executed_report [OF executed(4) assms(3)] assms(4) by metis
next
  case (filed b)
  then obtain gs p res where f: "LoadSet (w_host w) (a_configPath a) True = Inr gs"
    "Lookup gs (a_profile a) = Inr p" "file_effect w p a res" "o_fs (Run w env argv) = fst res"
    "o_code (Run w env argv) = (case snd res of Inl _ \<Rightarrow> ExitIO | Inr _ \<Rightarrow> ExitOK)"
    using assms(1) by (auto simp: filed_def)
  then have "res = (o_fs (Run w env argv), Inr ())"
    using assms(4) by (cases res) (auto simp: exit_codes split: sum.splits)
  then show ?thesis using f by blast
qed (use assms in \<open>auto simp: rejected_def\<close>)

text \<open>The plan of the demonstration host for one unit, and its run.\<close>

definition demo_start :: action where
  "demo_start = new_action\<lparr>a_command := ''systemd'', a_verb := ''start'', a_unit := ''app.service''\<rparr>"

lemma demo_start_parses: "ParseArgs [''systemd'', ''start'', ''app.service''] = Inr demo_start"
  by code_simp

lemma demo_start_argv:
  "SystemdArgv demo_fs \<lparr>ug_unit = ''app.service'', ug_verbs = [''start'']\<rparr> ''start'' =
     Inr [''/usr/bin/systemctl'', ''--no-ask-password'', ''--no-pager'', ''start'', ''--'', ''app.service'']"
  by code_simp

lemma demo_start_run:
  "o_code (Run demo_world demo_root [''systemd'', ''start'', ''app.service'']) = 0"
proof -
  have "LookupUnit demo_set ''app.service'' = Inr \<lparr>ug_unit = ''app.service'', ug_verbs = [''start'']\<rparr>"
    by (simp add: LookupUnit_def demo_set_def)
  moreover have "a_command demo_start = ''systemd''" "a_verb demo_start = ''start''"
    "a_unit demo_start = ''app.service''" "a_configPath demo_start = DefaultConfigPath"
    by (simp_all add: demo_start_def new_action_def)
  ultimately show ?thesis
    by (simp add: Run_def demo_start_parses dispatch_def runSystemd_def Let_def demo_loads demo_start_argv
        runExternal_def ExitOK_def)
qed

theorem Run_complete_witness:
  "(\<exists>cmds extra. plan demo_world demo_start = Some (cmds, extra) \<and>
      o_ran (Run demo_world demo_root [''systemd'', ''start'', ''app.service'']) = cmds \<and>
      (\<forall>i < length cmds. w_exec demo_world (take i cmds) (cmds ! i) extra = CmdOK)) \<or>
   (\<exists>gs p. LoadSet (w_host demo_world) (a_configPath demo_start) True = Inr gs \<and>
      Lookup gs (a_profile demo_start) = Inr p \<and>
      file_effect demo_world p demo_start
        (o_fs (Run demo_world demo_root [''systemd'', ''start'', ''app.service'']), Inr ()))"
  by (rule Run_complete [OF demo_start_parses _ _ demo_start_run])
    (simp_all add: mutating_def demo_start_def never_exits_0_def)

text \<open>The external commands of a run stop at the first one that fails. When all of them succeed the run exits
  0 having started all of them; otherwise it ends with the first failing one, everything before it succeeded, and the
  exit code is that command's unless it is one of the codes the helper keeps for itself.\<close>

theorem runExternal_stops:
  fixes w env cmds extra en
  defines "ok \<equiv> \<lambda>i. w_exec w (take i cmds) (cmds ! i) extra = CmdOK"
  shows "(if \<forall>i < length cmds. ok i
     then o_ran (runExternal w env cmds extra en) = cmds \<and> o_code (runExternal w env cmds extra en) = 0
     else \<exists>i < length cmds. \<not> ok i \<and> (\<forall>j < i. ok j) \<and>
       o_ran (runExternal w env cmds extra en) = take (Suc i) cmds \<and>
       o_code (runExternal w env cmds extra en) = externalExitCode (w_exec w (take i cmds) (cmds ! i) extra)) \<and>
     o_code (runExternal w env cmds extra en) \<notin> {2, 3, 5, 6}"
proof -
  obtain started r where r: "run_commands w extra [] cmds = (started, r)"
    "o_ran (runExternal w env cmds extra en) = started"
    "o_code (runExternal w env cmds extra en) = (if r = CmdOK then ExitOK else externalExitCode r)"
    by (rule runExternal_result [of w extra cmds env en]) blast
  have code: "o_code (runExternal w env cmds extra en) \<notin> {2, 3, 5, 6}"
    using r(3) externalExitCode_own [of r] by (simp add: exit_codes)
  show ?thesis
  proof (cases "r = CmdOK")
    case True
    then have "started = cmds" "\<forall>i < length cmds. ok i"
      using run_commands_spec [OF r(1)] by (simp_all add: ok_def)
    then show ?thesis using r True code by (simp add: exit_codes)
  next
    case False
    then obtain i where i: "i < length cmds" "started = take (Suc i) cmds"
      "w_exec w (take i cmds) (cmds ! i) extra = r" "\<forall>j < i. ok j"
      using run_commands_spec [OF r(1)] by (auto simp: ok_def)
    then have "\<not> ok i" using False by (simp add: ok_def)
    then have "\<not> (\<forall>i < length cmds. ok i)" using i(1) by blast
    then show ?thesis using i r False code \<open>\<not> ok i\<close> by auto
  qed
qed

theorem runExternal_stops_witness:
  "let w = demo_world\<lparr>w_exec := (\<lambda>_ argv _. if argv = [''b''] then CmdExit 3 else CmdOK)\<rparr>;
       out = runExternal w demo_root [[''a''], [''b''], [''c'']] [] empty_entry
   in o_ran out = [[''a''], [''b'']] \<and> o_code out = 4 \<and> o_code out \<notin> {2, 3, 5, 6}"
  using runExternal_stops [of "[[''a''], [''b''], [''c'']]"
    "demo_world\<lparr>w_exec := (\<lambda>_ argv _. if argv = [''b''] then CmdExit 3 else CmdOK)\<rparr>" "[]" demo_root empty_entry]
  by (simp add: runExternal_def externalExitCode_def exit_codes)

text \<open>What was parsed is what was written: the action's arguments, in order, are the argument
  vector without its leading \<open>--config\<close> pair (\<open>sudoers\<close> alone stands for the default account), so no
  argument is dropped, reordered or read as an option.\<close>

theorem ParseArgs_faithful:
  assumes "ParseArgs argv = Inr a"
  shows "\<exists>rest. (argv = ''--config'' # a_configPath a # rest \<and> \<not> blank (a_configPath a) \<or>
            argv = rest \<and> a_configPath a = DefaultConfigPath) \<and>
          list_all (\<lambda>s. \<not> has_prefix ''-'' s) rest \<and>
          (args_of a = rest \<or> rest = [''sudoers''] \<and> args_of a = [''sudoers'', ''maidcafe''])"
proof -
  obtain a0 rest where p: "parse_command a0 rest = Inr a"
    "argv = ''--config'' # a_configPath a0 # rest \<and> \<not> blank (a_configPath a0) \<or>
     argv = rest \<and> a_configPath a0 = DefaultConfigPath"
  proof (cases argv)
    case Nil
    then show ?thesis using assms by (simp add: ParseArgs_def)
  next
    case (Cons first more)
    show ?thesis
    proof (cases "first = ''--config''")
      case True
      then obtain cfg rest where "more = cfg # rest" "\<not> blank cfg"
        "parse_command (new_action\<lparr>a_configPath := cfg\<rparr>) rest = Inr a"
        using assms Cons by (auto simp: ParseArgs_def split: list.splits if_split_asm)
      then show ?thesis using that [of "new_action\<lparr>a_configPath := cfg\<rparr>" rest] Cons True by simp
    next
      case False
      then have "parse_command new_action argv = Inr a" using assms Cons by (simp add: ParseArgs_def)
      then show ?thesis using that [of new_action argv] by (simp add: new_action_def)
    qed
  qed
  from parse_command_args [OF p(1)] p(2) show ?thesis by (intro exI [of _ rest]) auto
qed

theorem ParseArgs_faithful_witness:
  "\<exists>rest. ([''systemd'', ''start'', ''app.service''] = ''--config'' # a_configPath demo_start # rest \<and>
        \<not> blank (a_configPath demo_start) \<or>
      [''systemd'', ''start'', ''app.service''] = rest \<and> a_configPath demo_start = DefaultConfigPath) \<and>
    list_all (\<lambda>s. \<not> has_prefix ''-'' s) rest \<and>
    (args_of demo_start = rest \<or> rest = [''sudoers''] \<and> args_of demo_start = [''sudoers'', ''maidcafe''])"
  by (rule ParseArgs_faithful [OF demo_start_parses])

text \<open>A write refused by policy, its mode outside the profile's list, leaves the host as it was but
  exits 4, the code of an I/O failure, not the 3 the documentation of the exit codes names for a policy refusal.\<close>

theorem ungranted_mode_exits_4:
  assumes "ParseArgs argv = Inr a" "a_command a = ''fs''" "a_verb a = ''write''" "pr_euid env = 0"
    and "LoadSet (w_host w) (a_configPath a) True = Inr gs" "Lookup gs (a_profile a) = Inr p"
    and "ParseMode (a_mode a) = Inr mode" "mode \<notin> set (p_modes p)"
    and "read_stdin w = Inr data" "length data \<le> MaxContentBytes"
  shows "o_code (Run w env argv) = 4 \<and> untouched w (Run w env argv)"
proof -
  obtain e where ck: "checkMode p mode = Inl e" using assms(8) by (cases "checkMode p mode") (auto simp: checkMode_def split: if_splits)
  then obtain e' where "Write (w_io w) (he_fs (w_host w)) p (a_rel a) mode data = (he_fs (w_host w), Inl e')"
    by (cases "safeRel (a_rel a)") (auto simp: Write_def)
  then show ?thesis using assms
    by (simp add: Run_def dispatch_def runFs_def Let_def run_write_def fail_op_def untouched_def exit_codes)
qed

lemma demo_stdin: "read_stdin demo_world = Inr ''data''"
  by (simp add: read_stdin_def MaxContentBytes_def)

theorem ungranted_mode_exits_4_witness:
  "o_code (Run demo_world demo_root [''fs'', ''write'', ''app'', ''a.txt'', ''0600'']) = 4 \<and>
   untouched demo_world (Run demo_world demo_root [''fs'', ''write'', ''app'', ''a.txt'', ''0600''])"
proof (rule ungranted_mode_exits_4 [OF demo_write_parses _ _ _ _ _ _ _ demo_stdin])
  show "LoadSet (w_host demo_world) (a_configPath demo_write) True = Inr demo_set"
    using demo_loads by (simp add: demo_write_def new_action_def)
  show "Lookup demo_set (a_profile demo_write) = Inr demo_profile"
    using demo_lookup by (simp add: demo_write_def)
  show "ParseMode (a_mode demo_write) = Inr 384" by code_simp
qed (simp_all add: demo_write_def demo_profile_def MaxContentBytes_def)

text \<open>The audit line of a run stopped by the grant file or by a refusal does not name the invoking
  account, whatever \<open>sudo\<close> put in the environment: only runs that reached the operation name it.\<close>

theorem refusals_are_anonymous:
  "(o_code (Run w env argv) = 3 \<or> o_code (Run w env argv) = 6) \<longrightarrow>
     (\<forall>en \<in> set (audits (Run w env argv)). e_invoker en = [] \<and> e_invoker_id en = [])"
proof (cases rule: Run_cases [of argv w env])
  case (executed a)
  then show ?thesis using executed_code [OF executed(4)] by simp
next
  case (filed a)
  then show ?thesis using filed_code [OF filed(4)] by auto
qed (auto simp: rejected_def)

theorem refusals_are_anonymous_witness:
  "\<forall>en \<in> set (audits (Run demo_world demo_root [''systemd'', ''stop'', ''app.service''])).
     e_invoker en = [] \<and> e_invoker_id en = []"
proof -
  have "ParseArgs [''systemd'', ''stop'', ''app.service''] =
      Inr (new_action\<lparr>a_command := ''systemd'', a_verb := ''stop'', a_unit := ''app.service''\<rparr>)"
    by code_simp
  moreover have "\<exists>e. SystemdArgv demo_fs \<lparr>ug_unit = ''app.service'', ug_verbs = [''start'']\<rparr> ''stop'' = Inl e"
    by (cases "FindSystemctl demo_fs") (simp_all add: SystemdArgv_def systemdArgv_def unit_CheckVerb_def validSystemdVerb_def
        allowedSystemdVerbs_def)
  moreover have "LookupUnit demo_set ''app.service'' = Inr \<lparr>ug_unit = ''app.service'', ug_verbs = [''start'']\<rparr>"
    by (simp add: LookupUnit_def demo_set_def)
  ultimately have "o_code (Run demo_world demo_root [''systemd'', ''stop'', ''app.service'']) = 3"
    by (auto simp: Run_def dispatch_def runSystemd_def Let_def demo_loads new_action_def exit_codes)
  then show ?thesis
    using refusals_are_anonymous [of demo_world demo_root "[''systemd'', ''stop'', ''app.service'']"] by simp
qed

section \<open>The grants\<close>

text \<open>C5: Loading the grant file never yields a malformed set: profile names, modes and directories,
  unit names and verbs, the package manager and the firewall backend all come from their tables, keys are
  unique and equal the entry they name, and an empty grant is refused; the file is a root-owned regular file
  without group or other write permission.\<close>

theorem LoadSet_sound:
  assumes "LoadSet e config True = Inr gs"
  shows "wf_set (he_fs e) gs \<and> ownedByRoot e config \<and>
    (\<exists>m d. lstat_abs (he_fs e) config = Inr (RegF m d) \<and> and m 18 = 0) \<and>
    (\<forall>n p. Lookup gs n = Inr p \<longrightarrow> p_name p = n \<and> set (p_modes p) \<subseteq> set allowed_modes) \<and>
    (\<forall>u g. LookupUnit gs u = Inr g \<longrightarrow> ug_unit g = u \<and> systemdUnitPattern u)"
  using LoadSet_wf [OF assms] LoadSet_trusted [OF assms] Lookup_wf LookupUnit_wf
  by (fastforce simp: wf_profile_def wf_unit_def)

theorem LoadSet_sound_witness:
  "wf_set demo_fs demo_set \<and> ownedByRoot demo_host DefaultConfigPath"
  using LoadSet_sound [OF demo_loads] by simp

text \<open>A systemctl command is only built for a verb the grant lists, and has one fixed shape: absolute
  binary, two fixed options, the verb, then \<open>--\<close> and the unit, which starts with no dash and holds no slash
  and no space, so neither the verb nor the unit can be read as an option or a path.\<close>

theorem SystemdArgv_shape:
  assumes "wf_unit g" "SystemdArgv h g v = Inr argv"
  shows "\<exists>bin \<in> set systemctlPaths. argv = [bin, ''--no-ask-password'', ''--no-pager'', v, ''--'', ug_unit g] \<and>
    v \<in> set (ug_verbs g) \<and> v \<in> set allowedSystemdVerbs \<and> operand (ug_unit g) \<and>
    list_all (\<lambda>c. c \<noteq> slash \<and> c \<noteq> CHR '' '') (ug_unit g)"
proof -
  obtain bin where b: "FindSystemctl h = Inr bin" "systemdArgv g v bin = Inr argv"
    using assms(2) by (auto simp: SystemdArgv_def)
  have "bin \<in> set systemctlPaths" using b(1) findExecutable_candidate by (auto simp: FindSystemctl_def)
  moreover have "list_all (\<lambda>c. c \<noteq> slash \<and> c \<noteq> CHR '' '') (ug_unit g)"
    using assms(1) unit_chars [of "ug_unit g"]
    by (auto simp: wf_unit_def list_all_iff unit_rest_def unit_head_def char_class_defs)
  ultimately show ?thesis
    using assms(1) b(2) unit_first [of "ug_unit g"] units.commands_granted [OF b(2)]
    by (auto simp: wf_unit_def operand_def systemdArgv_def)
qed

theorem SystemdArgv_shape_witness:
  "\<exists>bin \<in> set systemctlPaths.
     [''/usr/bin/systemctl'', ''--no-ask-password'', ''--no-pager'', ''start'', ''--'', ''app.service''] =
       [bin, ''--no-ask-password'', ''--no-pager'', ''start'', ''--'', ''app.service''] \<and>
     operand ''app.service''"
proof -
  have "wf_unit \<lparr>ug_unit = ''app.service'', ug_verbs = [''start'']\<rparr>"
    using buildUnitGrant_wf [OF demo_built(2)] .
  from SystemdArgv_shape [OF this demo_start_argv] show ?thesis by auto
qed

text \<open>A package command is one of the table's, with the name as its only variable part: the binary is
  the manager's, the options do not depend on the name, the name comes last, right after \<open>--\<close>, starts with a
  letter or a digit and holds no slash, no colon, no equals sign, no at-sign and no space.\<close>

theorem PackageArgv_operand:
  assumes "wf_packages g" "PackageArgv g v n = Inr argv"
  shows "v \<in> set (pg_verbs g) \<and>
    (if v = ''install'' \<or> v = ''remove'' then
       \<exists>opts. argv = managerBinary (pg_manager g) v # opts @ [''--'', n] \<and>
         (\<forall>n'. ValidPackageName n' \<longrightarrow>
            PackageArgv g v n' = Inr (managerBinary (pg_manager g) v # opts @ [''--'', n'])) \<and>
         operand n \<and> length n \<le> 128 \<and> set n \<inter> {slash, CHR '':'', CHR ''='', CHR ''@'', CHR '' ''} = {}
     else n = [] \<and> argv = managerBinary (pg_manager g) v # packageArgs (pg_manager g) v [])"
proof -
  have ck: "package_CheckVerb g v = Inr ()" and pc: "PackageCommand (pg_manager g) v n = Inr argv"
    using assms(2) by (auto simp: PackageArgv_def)
  have m: "ValidPackageManager (pg_manager g)" and vv: "ValidPackageVerb v" and granted: "v \<in> set (pg_verbs g)"
    using assms(1) ck by (auto simp: wf_packages_def package_CheckVerb_def split: if_splits)
  have argv: "argv = managerBinary (pg_manager g) v # packageArgs (pg_manager g) v n"
    using pc by (auto simp: PackageCommand_def split: if_splits)
  show ?thesis
  proof (cases "v = ''install'' \<or> v = ''remove''")
    case True
    then have name: "ValidPackageName n" using pc by (auto simp: PackageCommand_def split: if_splits)
    obtain opts where o: "packageArgs (pg_manager g) v n = opts @ [''--'', n]"
      "\<forall>n'. packageArgs (pg_manager g) v n' = opts @ [''--'', n']"
      using packageArgs_operand [OF m True] by blast
    have "PackageArgv g v n' = Inr (managerBinary (pg_manager g) v # opts @ [''--'', n'])"
      if "ValidPackageName n'" for n'
      using that True m vv ck o(2) by (auto simp: PackageArgv_def PackageCommand_def)
    moreover have "set n \<inter> {slash, CHR '':'', CHR ''='', CHR ''@'', CHR '' ''} = {}"
      using package_name_chars(3) [OF name] by (auto simp: list_all_iff package_rest_def char_class_defs)
    ultimately show ?thesis
      using True granted argv o package_name_chars [OF name] alnum_not_dash [of "hd n"] by (auto simp: operand_def)
  next
    case False
    then have "v = ''refresh'' \<or> v = ''upgrade''"
      using vv by (auto simp: ValidPackageVerb_def allowedPackageVerbs_def)
    then have "n = []" using pc by (auto simp: PackageCommand_def split: if_splits)
    then show ?thesis using False granted argv by auto
  qed
qed

theorem PackageArgv_operand_witness:
  "operand ''nginx'' \<and>
   PackageArgv \<lparr>pg_manager = ''apt'', pg_verbs = [''install'']\<rparr> ''install'' ''nginx'' =
     Inr [''apt-get'', ''-y'', ''install'', ''--'', ''nginx'']"
proof -
  have a: "PackageArgv \<lparr>pg_manager = ''apt'', pg_verbs = [''install'']\<rparr> ''install'' ''nginx'' =
      Inr [''apt-get'', ''-y'', ''install'', ''--'', ''nginx'']"
    by code_simp
  show ?thesis using PackageArgv_operand [OF buildPackageGrant_wf [OF demo_built(3)] a] a by simp
qed

section \<open>Firewall rules\<close>

text \<open>A firewall rule that parses is well-formed: an allow or deny of a service name or of ports between 1
  and 65535, tcp, udp or any, from anywhere or an IP address or prefix; and every argument the rule becomes in a ufw
  command starts with a character that cannot begin an option.\<close>

theorem firewall_rule_sound:
  assumes "ParseFirewallRule a p t s = Inr r"
  shows "wf_rule r \<and> list_all operand (ufw_spec r) \<and> operand (fr_port r) \<and> operand (fr_source r) \<and>
    (firewallPortPattern (fr_port r) \<longrightarrow>
       (\<forall>b \<in> set (split_on (CHR '':'') (fr_port r)). 1 \<le> dec_val b \<and> dec_val b \<le> 65535))"
proof -
  have wf: "wf_rule r" using ParseFirewallRule_wf [OF assms] .
  have "list_all (\<lambda>b. 1 \<le> dec_val b \<and> dec_val b \<le> 65535) (split_on (CHR '':'') (fr_port r))"
    if "firewallPortPattern (fr_port r)"
    by (rule ParseFirewallRule_cases [OF assms], rule port_ok [OF that]) (use that in simp)
  then show ?thesis
    using wf ufw_spec_operands [OF wf] port_operand [OF wf] source_operand [OF wf] by (auto simp: list_all_iff)
qed

definition demo_rule :: firewall_rule where
  "demo_rule = \<lparr>fr_action = ''allow'', fr_port = ''8080:8090'', fr_protocol = ''tcp'', fr_source = ''10.0.0.0/8''\<rparr>"

lemma demo_rule_parses: "ParseFirewallRule ''allow'' ''8080:8090'' ''tcp'' ''10.0.0.0/8'' = Inr demo_rule"
  by code_simp

theorem firewall_rule_sound_witness: "wf_rule demo_rule \<and> operand ''10.0.0.0/8''"
  using firewall_rule_sound [OF demo_rule_parses] by (simp add: demo_rule_def)

text \<open>Deleting a rule issues, command for command, the removal of what adding it issued: the same object in
  the same order, on both backends, for every rule the add accepts.\<close>

theorem firewall_delete_undoes:
  assumes "FirewallCommand b v r = Inr cs" "v = ''allow'' \<or> v = ''deny''" "fr_action r = v"
  shows "FirewallCommand b ''delete'' r = Inr (map undo cs) \<and> length (map undo cs) = length cs"
proof -
  have v: "v \<noteq> ''enable''" "v \<noteq> ''disable''" using assms(2) by auto
  then have "ruleCommands b v r = Inr cs" "ValidFirewallBackend b"
    using assms(1) by (simp_all add: FirewallCommand_def split: if_splits)
  then show ?thesis
    using ruleCommands_undo [OF assms(2,3)]
    by (simp add: FirewallCommand_def ValidFirewallVerb_def allowedFirewallVerbs_def)
qed

lemma demo_rule_commands:
  "FirewallCommand ''firewalld'' ''allow'' demo_rule =
     Inr [[''firewall-cmd'', ''--permanent'',
            ''--add-rich-rule='' @ rich_rule demo_rule ''ipv4'' ''10.0.0.0/8''], [''firewall-cmd'', ''--reload'']]"
  by code_simp

theorem firewall_delete_undoes_witness:
  "\<exists>cs. FirewallCommand ''firewalld'' ''delete'' demo_rule = Inr cs \<and> length cs = 2"
  using firewall_delete_undoes [OF demo_rule_commands] by (simp add: demo_rule_def)

text \<open>On firewalld a service name is not refused: it is passed as the port of an \<open>--add-port\<close>, although the
  comment on the service pattern says that backend has to refuse it.\<close>

theorem firewalld_takes_service_names:
  assumes "firewallServicePattern (fr_port r)" "fr_action r = ''allow''" "fr_source r = ''any''" "fr_protocol r \<noteq> ''any''"
  shows "FirewallCommand ''firewalld'' ''allow'' r =
    Inr [[''firewall-cmd'', ''--permanent'', ''--add-port='' @ fr_port r @ ''/'' @ fr_protocol r],
         [''firewall-cmd'', ''--reload'']]"
  using assms
  by (simp add: FirewallCommand_def ruleCommands_def firewalldRuleCommands_def reload_def ValidFirewallBackend_def
      firewallBackends_def ValidFirewallVerb_def allowedFirewallVerbs_def)

theorem firewalld_takes_service_names_witness:
  "FirewallCommand ''firewalld'' ''allow''
     \<lparr>fr_action = ''allow'', fr_port = ''ssh'', fr_protocol = ''tcp'', fr_source = ''any''\<rparr> =
   Inr [[''firewall-cmd'', ''--permanent'', ''--add-port=ssh/tcp''], [''firewall-cmd'', ''--reload'']]"
proof -
  have "firewallServicePattern ''ssh''" by code_simp
  then show ?thesis
    using firewalld_takes_service_names
      [of "\<lparr>fr_action = ''allow'', fr_port = ''ssh'', fr_protocol = ''tcp'', fr_source = ''any''\<rparr>"]
    by simp
qed

section \<open>Files\<close>

text \<open>C2: A write is all or nothing. Either it succeeded: the path cleaned to one inside the profile, the mode is
  granted, and exactly one entry changed, to the given content and mode; or it failed and the tree is as it was,
  up to the helper's own temporary file when even removing that failed.\<close>

theorem Write_atomic:
  "case Write io h p raw mode data of
     (h', Inr _) \<Rightarrow>
       (\<exists>rel dp. safeRel raw = Inr rel \<and> mode \<in> set (p_modes p) \<inter> set allowed_modes \<and> length data \<le> MaxContentBytes \<and>
          root_entry h (p_path p) rel = Inr dp \<and> h' = h(dp \<mapsto> RegF mode data))
   | (h', Inl _) \<Rightarrow> h' = h \<or> (\<exists>d. left_behind io h (p_path p @ d @ [tempName (io_random io)]) h')"
  using Write_outcome [of io h p raw mode data] by (auto split: prod.splits sum.splits)

text \<open>Whatever path, mode and content a request names, and whichever system call fails, nothing outside the
  profile's directory changes: not on a write, not on a directory creation, not on a removal.\<close>

theorem profile_confined:
  assumes "\<not> below (p_path p) q"
  shows "fst (Write io h p raw mode data) q = h q \<and> fst (Mkdir io h p raw mode) q = h q \<and>
    fst (Remove io h p raw) q = h q"
  using assms Write_confined [of io h p raw mode data] Mkdir_confined [of io h p raw mode]
    Remove_confined [of io h p raw]
  by (metis prod.collapse)

theorem profile_confined_witness:
  "fst (Write demo_io demo_fs demo_profile ''../../etc/maidkit/priv.toml'' 420 ''x'') [''etc'', ''maidkit'', ''priv.toml''] =
   demo_fs [''etc'', ''maidkit'', ''priv.toml'']"
  using profile_confined [of demo_profile "[''etc'', ''maidkit'', ''priv.toml'']" demo_io demo_fs]
  by (simp add: below_def demo_profile_def)

text \<open>A removal deletes at most the one entry the path names below the profile, never a directory, and on
  any error changes nothing.\<close>

theorem Remove_one_entry:
  "case Remove io h p raw of
     (h', Inr _) \<Rightarrow> (\<exists>rel ep nd. safeRel raw = Inr rel \<and> root_entry h (p_path p) rel = Inr ep \<and> h ep = Some nd \<and>
        \<not> is_dir nd \<and> h' = h(ep := None))
   | (h', Inl _) \<Rightarrow> h' = h"
  using Remove_outcome [of io h p raw] by (auto split: prod.splits sum.splits)

text \<open>A relative path that is accepted is a non-empty join of ordinary components, with no empty one, no
  \<open>.\<close> and no \<open>..\<close>, and accepting it again yields it unchanged.\<close>

theorem safeRel_canonical:
  assumes "safeRel raw = Inr rel"
  shows "safeRel rel = Inr rel \<and> (\<exists>cs. cs \<noteq> [] \<and> rel = join_with ''/'' cs \<and>
    list_all (\<lambda>c. c \<noteq> [] \<and> c \<noteq> ''.'' \<and> c \<noteq> ''..'' \<and> slash \<notin> set c) cs)"
proof -
  obtain cs where "cs \<noteq> []" "list_all normal cs" "rel = join_with ''/'' cs" using safeRel_shape [OF assms] .
  then show ?thesis using safeRel_idem [OF assms] by (auto simp: list_all_iff normal_def)
qed

theorem safeRel_canonical_witness: "safeRel ''conf/app.toml'' = Inr ''conf/app.toml''"
proof -
  have "safeRel ''x//../conf/./app.toml'' = Inr ''conf/app.toml''" by code_simp
  from safeRel_canonical [OF this] show ?thesis by simp
qed

lemma mode_table:
  "map ParseMode [''0600'', ''0640'', ''0644'', ''0700'', ''0750'', ''0755''] = map Inr allowed_modes"
  "map fmt_04o [384, 416, 420, 448, 488, 493] = [''0600'', ''0640'', ''0644'', ''0700'', ''0750'', ''0755'']"
  by code_simp+

text \<open>The modes a request can name are exactly the six of the table: each parses from its own
  rendering, what parses is in the table, and none carries set-id, sticky, group-write or other-write bits.\<close>

theorem ParseMode_table:
  "(\<forall>m \<in> set allowed_modes. ParseMode (fmt_04o (unat m)) = Inr m) \<and>
   (\<forall>raw m. ParseMode raw = Inr m \<longrightarrow> m \<in> set allowed_modes \<and> and m 3602 = 0 \<and> m < 512)"
proof -
  have "list_all (\<lambda>m. ParseMode (fmt_04o (unat m)) = Inr m) allowed_modes"
    using mode_table by (simp add: allowed_modes_def)
  then show ?thesis using ParseMode_allowed allowed_modes_safe by (auto simp: list_all_iff)
qed

theorem ParseMode_table_witness: "(420 :: fmode) \<in> set allowed_modes \<and> and (420 :: fmode) 3602 = 0"
proof -
  have "ParseMode ''0644'' = Inr 420" by code_simp
  then show ?thesis using ParseMode_table by blast
qed

end
