(* ===== verification/Run_Slots.thy ===== *)
theory Run_Slots
  imports Prelude
begin

text \<open>
  The concurrency slots of \<open>WebhookExecutor\<close> (\<open>internal/daemon/webhook.go\<close>) and the native
  operations that share them (\<open>internal/daemon/ops.go\<close>), as a step relation: a buffered channel
  that a hot reload replaces while runs hold its tokens. A webhook run takes and returns its
  token under \<open>slotsMu\<close>; a native operation uses the channel directly.
\<close>

section \<open>States and steps\<close>

record slots =
  sl_cap :: nat
  sl_used :: nat
  sl_hooks :: nat
  sl_natives :: nat
  sl_blocked :: bool \<comment> \<open>a webhook's release waits on an empty channel, holding \<open>slotsMu\<close>\<close>
  sl_waiting :: nat \<comment> \<open>native releases waiting on the empty channel\<close>
  sl_stranded :: nat \<comment> \<open>native releases waiting on a channel that was replaced\<close>

definition new_slots :: "nat \<Rightarrow> slots" where
  "new_slots n = \<lparr>sl_cap = n, sl_used = 0, sl_hooks = 0, sl_natives = 0, sl_blocked = False,
     sl_waiting = 0, sl_stranded = 0\<rparr>"

datatype slot_event =
    HookAcquire | HookRefused | HookRelease | HookBlock
  | NativeAcquire | NativeRefused | NativeRelease | NativeWait | SetMax nat

text \<open>
  A send meets a waiting receiver first and leaves the buffer as it is; otherwise it needs room.
\<close>

inductive slot_step :: "slots \<Rightarrow> slot_event \<Rightarrow> slots \<Rightarrow> bool" where
  hook_acquire: "\<not> sl_blocked s \<Longrightarrow> sl_waiting s = 0 \<Longrightarrow> sl_used s < sl_cap s \<Longrightarrow>
     slot_step s HookAcquire (s\<lparr>sl_used := sl_used s + 1, sl_hooks := sl_hooks s + 1\<rparr>)"
| hook_acquire_handoff: "\<not> sl_blocked s \<Longrightarrow> 0 < sl_waiting s \<Longrightarrow>
     slot_step s HookAcquire (s\<lparr>sl_waiting := sl_waiting s - 1, sl_hooks := sl_hooks s + 1\<rparr>)"
| hook_refused: "\<not> sl_blocked s \<Longrightarrow> sl_waiting s = 0 \<Longrightarrow> \<not> sl_used s < sl_cap s \<Longrightarrow>
     slot_step s HookRefused s"
| hook_release: "\<not> sl_blocked s \<Longrightarrow> 0 < sl_hooks s \<Longrightarrow> 0 < sl_used s \<Longrightarrow>
     slot_step s HookRelease (s\<lparr>sl_used := sl_used s - 1, sl_hooks := sl_hooks s - 1\<rparr>)"
| hook_block: "\<not> sl_blocked s \<Longrightarrow> 0 < sl_hooks s \<Longrightarrow> sl_used s = 0 \<Longrightarrow>
     slot_step s HookBlock (s\<lparr>sl_blocked := True\<rparr>)"
| native_acquire: "\<not> sl_blocked s \<Longrightarrow> sl_waiting s = 0 \<Longrightarrow> sl_used s < sl_cap s \<Longrightarrow>
     slot_step s NativeAcquire (s\<lparr>sl_used := sl_used s + 1, sl_natives := sl_natives s + 1\<rparr>)"
| native_acquire_unblocks: "sl_blocked s \<Longrightarrow> 0 < sl_hooks s \<Longrightarrow>
     slot_step s NativeAcquire
       (s\<lparr>sl_blocked := False, sl_hooks := sl_hooks s - 1, sl_natives := sl_natives s + 1\<rparr>)"
| native_acquire_handoff: "0 < sl_waiting s \<Longrightarrow>
     slot_step s NativeAcquire (s\<lparr>sl_waiting := sl_waiting s - 1, sl_natives := sl_natives s + 1\<rparr>)"
| native_refused: "\<not> sl_blocked s \<Longrightarrow> sl_waiting s = 0 \<Longrightarrow> \<not> sl_used s < sl_cap s \<Longrightarrow>
     slot_step s NativeRefused s"
| native_release: "0 < sl_natives s \<Longrightarrow> 0 < sl_used s \<Longrightarrow>
     slot_step s NativeRelease (s\<lparr>sl_used := sl_used s - 1, sl_natives := sl_natives s - 1\<rparr>)"
| native_wait: "0 < sl_natives s \<Longrightarrow> sl_used s = 0 \<Longrightarrow>
     slot_step s NativeWait (s\<lparr>sl_waiting := sl_waiting s + 1, sl_natives := sl_natives s - 1\<rparr>)"
| set_max: "\<not> sl_blocked s \<Longrightarrow>
     slot_step s (SetMax n)
       (s\<lparr>sl_cap := n, sl_used := 0, sl_waiting := 0, sl_stranded := sl_stranded s + sl_waiting s\<rparr>)"

inductive_cases slot_stepE: "slot_step s e s'"

inductive_simps slot_step_simps:
  "slot_step s HookAcquire s'" "slot_step s HookRefused s'" "slot_step s HookRelease s'" "slot_step s HookBlock s'"
  "slot_step s (SetMax n) s'" "slot_step s NativeWait s'"

inductive slot_steps :: "slots \<Rightarrow> slot_event list \<Rightarrow> slots \<Rightarrow> bool" where
  no_slot_step: "slot_steps s [] s"
| more_slot_steps: "slot_steps s es t \<Longrightarrow> slot_step t e u \<Longrightarrow> slot_steps s (es @ [e]) u"

section \<open>As long as the limit is not reloaded\<close>

definition balanced :: "slots \<Rightarrow> bool" where
  "balanced s \<longleftrightarrow> sl_used s = sl_hooks s + sl_natives s \<and> sl_used s \<le> sl_cap s \<and> \<not> sl_blocked s \<and>
     sl_waiting s = 0 \<and> sl_stranded s = 0"

fun is_reload :: "slot_event \<Rightarrow> bool" where
  "is_reload (SetMax _) = True"
| "is_reload _ = False"

lemma balanced_step: "slot_step s e s' \<Longrightarrow> balanced s \<Longrightarrow> \<not> is_reload e \<Longrightarrow> balanced s' \<and> sl_cap s' = sl_cap s"
  by (erule slot_stepE) (auto simp: balanced_def)

lemma balanced_steps:
  assumes "slot_steps s es s'" "balanced s" "\<not> list_ex is_reload es"
  shows "balanced s' \<and> sl_cap s' = sl_cap s"
  using assms by (induction rule: slot_steps.induct) (auto dest: balanced_step)


lemma demo_slot_steps: "slot_steps (new_slots 2) [HookAcquire, NativeAcquire]
   (new_slots 2\<lparr>sl_used := 2, sl_hooks := 1, sl_natives := 1\<rparr>)"
proof -
  let ?a = "new_slots 2\<lparr>sl_used := 1, sl_hooks := 1\<rparr>"
  let ?b = "new_slots 2\<lparr>sl_used := 2, sl_hooks := 1, sl_natives := 1\<rparr>"
  have "slot_step (new_slots 2) HookAcquire ?a"
    using slot_step.hook_acquire [of "new_slots 2"] by (simp add: new_slots_def)
  moreover have "slot_step ?a NativeAcquire ?b"
    using slot_step.native_acquire [of ?a] by (simp add: new_slots_def numeral_2_eq_2)
  ultimately have "slot_steps (new_slots 2) (([] @ [HookAcquire]) @ [NativeAcquire]) ?b"
    by (blast intro: slot_steps.intros)
  then show ?thesis by simp
qed


section \<open>A reload while a run is in flight\<close>

text \<open>A reload that comes while a webhook run holds its slot makes that run's release wait on the new, empty channel
  with \<open>slotsMu\<close> held: from then on no webhook run can take or return a slot and no reload can finish, until a
  native operation happens to send a token; the comment on \<open>SetMaxConcurrentRuns\<close> says a swap can never strand one.\<close>

theorem reload_blocks_release:
  assumes "0 < n"
  shows "\<exists>s. slot_steps (new_slots n) [HookAcquire, SetMax m, HookBlock] s \<and> sl_hooks s = 1 \<and>
    \<not> (\<exists>s'. slot_step s HookRelease s') \<and>
    (\<forall>e s'. slot_step s e s' \<longrightarrow> e = NativeAcquire)"
proof -
  let ?a = "new_slots n\<lparr>sl_used := 1, sl_hooks := 1\<rparr>"
  let ?b = "new_slots n\<lparr>sl_cap := m, sl_hooks := 1\<rparr>"
  let ?c = "new_slots n\<lparr>sl_cap := m, sl_hooks := 1, sl_blocked := True\<rparr>"
  have "slot_step (new_slots n) HookAcquire ?a"
    using assms slot_step.hook_acquire [of "new_slots n"] by (simp add: new_slots_def)
  moreover have "slot_step ?a (SetMax m) ?b"
    using slot_step.set_max [of ?a m] by (simp add: new_slots_def)
  moreover have "slot_step ?b HookBlock ?c"
    using slot_step.hook_block [of ?b] by (simp add: new_slots_def)
  ultimately have "slot_steps (new_slots n) ((([] @ [HookAcquire]) @ [SetMax m]) @ [HookBlock]) ?c"
    by (blast intro: slot_steps.intros)
  moreover have "e = NativeAcquire" if "slot_step ?c e s'" for e s'
    using that by (cases rule: slot_stepE) (auto simp: new_slots_def)
  moreover have "\<not> slot_step ?c HookRelease s'" for s' by (simp add: slot_step_simps new_slots_def)
  ultimately show ?thesis by (intro exI [of _ ?c]) (auto simp: new_slots_def)
qed

theorem reload_blocks_release_witness:
  "\<exists>s. slot_steps (new_slots 4) [HookAcquire, SetMax 4, HookBlock] s \<and> sl_hooks s = 1 \<and>
     \<not> (\<exists>s'. slot_step s HookRelease s')"
  using reload_blocks_release [of 4 4] by auto

end
