(* ===== verification/Exec_Capture.thy ===== *)
theory Exec_Capture
  imports Go_Strings
begin

text \<open>
  What \<open>internal/daemon/webhook.go\<close> and \<open>internal/daemon/ops.go\<close> do around an external command:
  the bounded buffers its output is captured in, the copy loop of \<open>os/exec\<close> that fills them
  (it stops with \<open>io.ErrShortWrite\<close> when a writer reports fewer bytes than it was given), the
  run of one attempt, and the concurrency slots every run holds.
\<close>

section \<open>Bounded sinks\<close>

text \<open>
  A sink keeps a bounded part of what is pushed into it: the first \<open>cap\<close> elements (the capture
  buffer), or the last (a task's output, a subscriber's queue). \<open>keep\<close> says which.
\<close>

locale bounded_sink =
  fixes push :: "'s \<Rightarrow> 'a list \<Rightarrow> 's"
    and contents :: "'s \<Rightarrow> 'a list"
    and keep :: "'s \<Rightarrow> 'a list \<Rightarrow> 'a list"
    and ok :: "'s \<Rightarrow> bool"
  assumes push_contents: "ok s \<Longrightarrow> contents (push s xs) = keep s (contents s @ xs)"
    and push_ok: "ok s \<Longrightarrow> ok (push s xs)"
    and push_keep: "keep (push s xs) = keep s"
    and keep_keep: "keep s (keep s xs @ ys) = keep s (xs @ ys)"
    and ok_kept: "ok s \<Longrightarrow> keep s (contents s) = contents s"
begin

lemma pushes_ok: "ok s \<Longrightarrow> ok (foldl push s xss)"
  by (induction xss arbitrary: s) (simp_all add: push_ok)

lemma pushes_keep: "keep (foldl push s xss) = keep s"
  by (induction xss arbitrary: s) (simp_all add: push_keep)

lemma pushes_contents:
  assumes "ok s"
  shows "contents (foldl push s xss) = keep s (contents s @ concat xss)"
  using assms
proof (induction xss arbitrary: s)
  case Nil
  then show ?case by (simp add: ok_kept)
next
  case (Cons xs xss)
  then show ?case using push_ok push_keep push_contents keep_keep by simp
qed

text \<open>How the input was cut into pushes does not matter.\<close>

lemma pushes_concat:
  assumes "ok s" "concat xss = concat yss"
  shows "contents (foldl push s xss) = contents (foldl push s yss)"
  using assms by (simp add: pushes_contents)

end

section \<open>The capture buffer\<close>

record limited_buffer =
  lb_buf :: bytes
  lb_limit :: nat

definition new_buffer :: "nat \<Rightarrow> limited_buffer" where
  "new_buffer limit = \<lparr>lb_buf = [], lb_limit = limit\<rparr>"

text \<open>\<open>Write\<close>, with the count it returns.\<close>

definition lb_write :: "limited_buffer \<Rightarrow> bytes \<Rightarrow> limited_buffer \<times> nat" where
  "lb_write b p =
     (if 0 < lb_limit b \<and> length (lb_buf b) < lb_limit b then
        (let remaining = lb_limit b - length (lb_buf b);
             p' = (if remaining < length p then take remaining p else p)
         in (b\<lparr>lb_buf := lb_buf b @ p'\<rparr>, length p'))
      else (b, length p))"

definition lb_ok :: "limited_buffer \<Rightarrow> bool" where
  "lb_ok b \<longleftrightarrow> length (lb_buf b) \<le> lb_limit b"

lemma lb_write_buf: "lb_ok b \<Longrightarrow> lb_buf (fst (lb_write b p)) = take (lb_limit b) (lb_buf b @ p)"
  by (auto simp: lb_write_def lb_ok_def Let_def)

lemma lb_write_limit [simp]: "lb_limit (fst (lb_write b p)) = lb_limit b"
  by (simp add: lb_write_def Let_def)

lemma lb_write_ok: "lb_ok b \<Longrightarrow> lb_ok (fst (lb_write b p))"
  using lb_write_buf [of b p] by (simp add: lb_ok_def)

lemma take_keep: "take n (take n xs @ ys) = take n (xs @ ys)"
  by (simp add: min_def)

interpretation captured: bounded_sink "\<lambda>b p. fst (lb_write b p)" lb_buf "\<lambda>b. take (lb_limit b)" lb_ok
  by unfold_locales (rule lb_write_buf lb_write_ok take_keep | simp add: lb_ok_def)+

text \<open>
  The count is short of what was given exactly when the write crosses the limit: the buffer had
  room, but not for all of it.
\<close>

lemma lb_write_short:
  assumes "lb_ok b"
  shows "snd (lb_write b p) < length p \<longleftrightarrow>
    length (lb_buf b) < lb_limit b \<and> lb_limit b < length (lb_buf b) + length p"
  by (auto simp: lb_write_def Let_def)

section \<open>The copy loop\<close>

text \<open>
  \<open>io.Copy\<close> from the pipe into a buffer, over the chunks it reads: it stops at a short write.
\<close>

fun copy_to :: "limited_buffer \<Rightarrow> bytes list \<Rightarrow> limited_buffer \<times> bool" where
  "copy_to b [] = (b, False)"
| "copy_to b (c # cs) =
     (let (b', n) = lb_write b c in if n < length c then (b', True) else copy_to b' cs)"

lemma copy_to_contents:
  assumes "lb_ok b"
  shows "lb_buf (fst (copy_to b cs)) = take (lb_limit b) (lb_buf b @ concat cs)"
  using assms
proof (induction b cs rule: copy_to.induct)
  case (1 b)
  then show ?case by (simp add: lb_ok_def)
next
  case (2 b c cs)
  obtain b' n where w: "lb_write b c = (b', n)" by fastforce
  then have b': "lb_buf b' = take (lb_limit b) (lb_buf b @ c)" "lb_limit b' = lb_limit b" "lb_ok b'"
    using lb_write_buf [OF "2.prems", of c] lb_write_limit [of b c] lb_write_ok [OF "2.prems", of c] by simp_all
  show ?case
  proof (cases "n < length c")
    case True
    then have "lb_limit b < length (lb_buf b) + length c" using lb_write_short [OF "2.prems", of c] w by simp
    then show ?thesis using True w b' by simp
  next
    case False
    then have "lb_buf (fst (copy_to b (c # cs))) = take (lb_limit b) (take (lb_limit b) (lb_buf b @ c) @ concat cs)"
      using "2.IH" [OF w [symmetric] refl False b'(3)] w unfolding b'(1,2) by simp
    then show ?thesis by (simp add: take_keep del: take_append)
  qed
qed

lemma copy_to_short:
  assumes "lb_ok b"
  shows "snd (copy_to b cs) \<longleftrightarrow>
    (\<exists>pre c post. cs = pre @ c # post \<and> length (lb_buf b) + length (concat pre) < lb_limit b \<and>
       lb_limit b < length (lb_buf b) + length (concat pre) + length c)"
  using assms
proof (induction b cs rule: copy_to.induct)
  case (1 b)
  then show ?case by simp
next
  case (2 b c cs)
  obtain b' n where w: "lb_write b c = (b', n)" by fastforce
  then have b': "lb_buf b' = take (lb_limit b) (lb_buf b @ c)" "lb_limit b' = lb_limit b" "lb_ok b'"
    using lb_write_buf [OF "2.prems", of c] lb_write_limit [of b c] lb_write_ok [OF "2.prems", of c] by simp_all
  have split: "(\<exists>pre d post. c # cs = pre @ d # post \<and> P pre d) \<longleftrightarrow>
      P [] c \<or> (\<exists>pre d post. cs = pre @ d # post \<and> P (c # pre) d)" for P :: "bytes list \<Rightarrow> bytes \<Rightarrow> bool"
    by (auto simp: Cons_eq_append_conv)
  show ?case
  proof (cases "n < length c")
    case True
    then show ?thesis using lb_write_short [OF "2.prems", of c] w
      by (subst split) simp
  next
    case False
    then have fits: "\<not> (length (lb_buf b) < lb_limit b \<and> lb_limit b < length (lb_buf b) + length c)"
      using lb_write_short [OF "2.prems", of c] w by simp
    have len: "length (lb_buf b') = min (lb_limit b) (length (lb_buf b) + length c)" using b' by simp
    have "(length (lb_buf b') + k < lb_limit b \<and> lb_limit b < length (lb_buf b') + k + j) \<longleftrightarrow>
        (length (lb_buf b) + (length c + k) < lb_limit b \<and> lb_limit b < length (lb_buf b) + (length c + k) + j)"
      for k j using len by auto
    then show ?thesis
      using "2.IH" [OF w [symmetric] refl False b'(3)] w False fits b'(2) by (subst split) (simp, satx)
  qed
qed

section \<open>One captured run\<close>

text \<open>
  What the process did: the chunks the pipes delivered, in the order they were read, and how it
  ended. \<open>Exited 0\<close> is success; \<open>EndError\<close> stands for a process that did not start or was
  cut off by its context.
\<close>

datatype stream = StdoutStream | StderrStream
datatype proc_end = Exited int | EndError string

record proc_run =
  pr_events :: "(stream \<times> bytes) list"
  pr_end :: proc_end

datatype run_failure = ExitError int | ShortWrite | OtherError string

record capture =
  cp_out :: limited_buffer
  cp_err :: limited_buffer
  cp_outShort :: bool
  cp_errShort :: bool
  cp_sink :: "bytes list"

definition capture0 :: "nat \<Rightarrow> capture" where
  "capture0 limit = \<lparr>cp_out = new_buffer limit, cp_err = new_buffer limit, cp_outShort = False,
     cp_errShort = False, cp_sink = []\<rparr>"

text \<open>
  One chunk: \<open>io.MultiWriter\<close> writes the buffer first and gives up on a short count, so the
  watcher never sees that chunk; the copy loop of that stream ends.
\<close>

fun feed :: "capture \<Rightarrow> stream \<times> bytes \<Rightarrow> capture" where
  "feed cp (StdoutStream, c) =
     (if cp_outShort cp then cp
      else let (b, n) = lb_write (cp_out cp) c in
        if n < length c then cp\<lparr>cp_out := b, cp_outShort := True\<rparr>
        else cp\<lparr>cp_out := b, cp_sink := cp_sink cp @ [c]\<rparr>)"
| "feed cp (StderrStream, c) =
     (if cp_errShort cp then cp
      else let (b, n) = lb_write (cp_err cp) c in
        if n < length c then cp\<lparr>cp_err := b, cp_errShort := True\<rparr>
        else cp\<lparr>cp_err := b, cp_sink := cp_sink cp @ [c]\<rparr>)"

text \<open>The error \<open>cmd.Run\<close> returns: the process's own, else the copy's.\<close>

definition run_error_of :: "proc_end \<Rightarrow> bool \<Rightarrow> run_failure option" where
  "run_error_of e short =
     (case e of
        EndError m \<Rightarrow> Some (OtherError m)
      | Exited c \<Rightarrow> if c \<noteq> 0 then Some (ExitError c) else if short then Some ShortWrite else None)"

definition exit_code_of :: "run_failure option \<Rightarrow> int" where
  "exit_code_of e = (case e of Some (ExitError c) \<Rightarrow> c | _ \<Rightarrow> 0)"

record run_result =
  rr_stdout :: bytes
  rr_stderr :: bytes
  rr_exit :: int
  rr_err :: "run_failure option"
  rr_sink :: "bytes list"

definition captureLimit :: nat where
  "captureLimit = 8192"

text \<open>\<open>cmd.Run\<close> with both streams captured; \<open>runOpOnce\<close> is this on an attempt's command.\<close>

definition run_captured :: "proc_run \<Rightarrow> run_result" where
  "run_captured r =
     (let cp = foldl feed (capture0 captureLimit) (pr_events r);
          err = run_error_of (pr_end r) (cp_outShort cp \<or> cp_errShort cp)
      in \<lparr>rr_stdout = lb_buf (cp_out cp), rr_stderr = lb_buf (cp_err cp),
          rr_exit = exit_code_of err, rr_err = err, rr_sink = cp_sink cp\<rparr>)"

text \<open>Each stream is a copy loop of its own.\<close>

definition chunks_of :: "stream \<Rightarrow> (stream \<times> bytes) list \<Rightarrow> bytes list" where
  "chunks_of st es = map snd (filter (\<lambda>e. fst e = st) es)"

lemma chunks_of_simps [simp]:
  "chunks_of st [] = []" "chunks_of st ((st', c) # es) = (if st' = st then c # chunks_of st es else chunks_of st es)"
  by (simp_all add: chunks_of_def)

lemma feed_streams:
  "cp_outShort cp \<or> (cp_out (foldl feed cp es), cp_outShort (foldl feed cp es)) =
     copy_to (cp_out cp) (chunks_of StdoutStream es)"
  "cp_errShort cp \<or> (cp_err (foldl feed cp es), cp_errShort (foldl feed cp es)) =
     copy_to (cp_err cp) (chunks_of StderrStream es)"
  "cp_outShort cp \<Longrightarrow> cp_out (foldl feed cp es) = cp_out cp \<and> cp_outShort (foldl feed cp es)"
  "cp_errShort cp \<Longrightarrow> cp_err (foldl feed cp es) = cp_err cp \<and> cp_errShort (foldl feed cp es)"
proof (induction es arbitrary: cp)
  case (Cons e es)
  obtain st c where e: "e = (st, c)" by fastforce
  {
    case 1
    show ?case using Cons.IH(1) [of "feed cp e"] Cons.IH(3) [of "feed cp e"] e
      by (cases st) (auto simp: Let_def split: prod.splits if_splits)
  next
    case 2
    show ?case using Cons.IH(2) [of "feed cp e"] Cons.IH(4) [of "feed cp e"] e
      by (cases st) (auto simp: Let_def split: prod.splits if_splits)
  next
    case 3
    then show ?case using Cons.IH(3) [of "feed cp e"] e
      by (cases st) (auto simp: Let_def split: prod.splits if_splits)
  next
    case 4
    then show ?case using Cons.IH(4) [of "feed cp e"] e
      by (cases st) (auto simp: Let_def split: prod.splits if_splits)
  }
qed simp_all

lemma new_buffer_ok [simp]: "lb_ok (new_buffer n)" "lb_buf (new_buffer n) = []" "lb_limit (new_buffer n) = n"
  by (simp_all add: new_buffer_def lb_ok_def)

definition overruns :: "bytes list \<Rightarrow> bool" where
  "overruns cs \<longleftrightarrow> (\<exists>pre c post. cs = pre @ c # post \<and> length (concat pre) < captureLimit \<and>
     captureLimit < length (concat pre) + length c)"

lemma run_captured_streams:
  "rr_stdout (run_captured r) = take captureLimit (concat (chunks_of StdoutStream (pr_events r)))"
  "rr_stderr (run_captured r) = take captureLimit (concat (chunks_of StderrStream (pr_events r)))"
  "rr_err (run_captured r) = run_error_of (pr_end r)
     (overruns (chunks_of StdoutStream (pr_events r)) \<or> overruns (chunks_of StderrStream (pr_events r)))"
proof -
  let ?cp = "foldl feed (capture0 captureLimit) (pr_events r)"
  have o: "(cp_out ?cp, cp_outShort ?cp) = copy_to (new_buffer captureLimit) (chunks_of StdoutStream (pr_events r))"
    and e: "(cp_err ?cp, cp_errShort ?cp) = copy_to (new_buffer captureLimit) (chunks_of StderrStream (pr_events r))"
    using feed_streams(1,2) [of "capture0 captureLimit" "pr_events r"] by (simp_all add: capture0_def)
  have ob: "lb_buf (cp_out ?cp) = take captureLimit (concat (chunks_of StdoutStream (pr_events r)))"
    and os: "cp_outShort ?cp = overruns (chunks_of StdoutStream (pr_events r))"
    using copy_to_contents [of "new_buffer captureLimit" "chunks_of StdoutStream (pr_events r)"]
      copy_to_short [of "new_buffer captureLimit" "chunks_of StdoutStream (pr_events r)"] o [symmetric]
    by (simp_all add: overruns_def)
  have eb: "lb_buf (cp_err ?cp) = take captureLimit (concat (chunks_of StderrStream (pr_events r)))"
    and es: "cp_errShort ?cp = overruns (chunks_of StderrStream (pr_events r))"
    using copy_to_contents [of "new_buffer captureLimit" "chunks_of StderrStream (pr_events r)"]
      copy_to_short [of "new_buffer captureLimit" "chunks_of StderrStream (pr_events r)"] e [symmetric]
    by (simp_all add: overruns_def)
  show "rr_stdout (run_captured r) = take captureLimit (concat (chunks_of StdoutStream (pr_events r)))"
    "rr_stderr (run_captured r) = take captureLimit (concat (chunks_of StderrStream (pr_events r)))"
    "rr_err (run_captured r) = run_error_of (pr_end r)
       (overruns (chunks_of StdoutStream (pr_events r)) \<or> overruns (chunks_of StderrStream (pr_events r)))"
    using ob os eb es by (simp_all add: run_captured_def Let_def)
qed

lemma overruns_total: "overruns cs \<Longrightarrow> captureLimit < length (concat cs)"
  by (auto simp: overruns_def)

end
