(* ===== verification/Tasks.thy ===== *)
theory Tasks
  imports Exec_Capture
begin

text \<open>
  \<open>internal/daemon/tasks.go\<close> and \<open>tasks_http.go\<close>: long operations as tasks with a plan of stages,
  a bounded tail of output a client follows by byte offset, and the store that forgets finished
  tasks but never a running one. Every method of \<open>opTask\<close> holds the task's mutex for its whole
  body, so each one is one function here; the clock is an argument.
\<close>

section \<open>States\<close>

datatype status = Pending | Running | Succeeded | Failed | Canceled

primrec status_rank :: "status \<Rightarrow> nat" where
  "status_rank Pending = 0"
| "status_rank Running = 1"
| "status_rank Succeeded = 2"
| "status_rank Failed = 3"
| "status_rank Canceled = 4"

lemma status_rank_inj: "status_rank a = status_rank b \<longleftrightarrow> a = b"
  by (cases a; cases b) simp_all

instantiation status :: linorder
begin

definition less_eq_status :: "status \<Rightarrow> status \<Rightarrow> bool" where
  "less_eq_status a b \<longleftrightarrow> status_rank a \<le> status_rank b"

definition less_status :: "status \<Rightarrow> status \<Rightarrow> bool" where
  "less_status a b \<longleftrightarrow> status_rank a < status_rank b"

instance
  by standard (auto simp: less_eq_status_def less_status_def status_rank_inj)

end

record exec_response =
  xr_ok :: bool
  xr_name :: string
  xr_exit :: int
  xr_stdout :: bytes
  xr_stderr :: bytes
  xr_error :: string

definition auditErrorTail :: "exec_response \<Rightarrow> bytes" where
  "auditErrorTail r =
     (let body = (if xr_error r = [] then xr_stderr r else xr_error r)
      in if 512 < length body then take 512 body else body)"

record op_stage =
  ts_label :: string
  ts_status :: status
  ts_startedAt :: "time option"
  ts_finishedAt :: "time option"

record op_task =
  t_id :: string
  t_name :: string
  t_displayName :: string
  t_target :: string
  t_source :: string
  t_invokedBy :: string
  t_status :: status
  t_startedAt :: time
  t_finishedAt :: "time option"
  t_stages :: "op_stage list"
  t_ok :: bool
  t_exitCode :: int
  t_stdout :: bytes
  t_stderr :: bytes
  t_failure :: string
  t_output :: bytes
  t_written :: int
  t_cancel :: bool \<comment> \<open>a cancel function was given\<close>
  t_cancelled :: bool \<comment> \<open>it was called\<close>
  t_done :: bool \<comment> \<open>\<open>done\<close> is closed\<close>

definition taskOutputLimit :: nat where
  "taskOutputLimit = 32 * 1024"

definition taskHistoryLimit :: nat where
  "taskHistoryLimit = 32"

definition newOpTask ::
  "time \<Rightarrow> string \<Rightarrow> string \<Rightarrow> string \<Rightarrow> string \<Rightarrow> string \<Rightarrow> string \<Rightarrow> string list \<Rightarrow> bool \<Rightarrow> op_task" where
  "newOpTask now i name displayName target source invokedBy labels cancel =
     \<lparr>t_id = i, t_name = name, t_displayName = displayName, t_target = target, t_source = source,
      t_invokedBy = invokedBy, t_status = Running, t_startedAt = now, t_finishedAt = None,
      t_stages = map (\<lambda>l. \<lparr>ts_label = l, ts_status = Pending, ts_startedAt = None, ts_finishedAt = None\<rparr>) labels,
      t_ok = False, t_exitCode = 0, t_stdout = [], t_stderr = [], t_failure = [], t_output = [], t_written = 0,
      t_cancel = cancel, t_cancelled = False, t_done = False\<rparr>"

section \<open>Operations of a task\<close>

fun start_stage :: "time \<Rightarrow> string \<Rightarrow> op_stage list \<Rightarrow> op_stage list" where
  "start_stage now label [] = []"
| "start_stage now label (s # ss) =
     (if ts_label s = label \<and> ts_status s = Pending
      then s\<lparr>ts_status := Running, ts_startedAt := Some now\<rparr> # ss
      else s # start_stage now label ss)"

definition stageStarted :: "time \<Rightarrow> string \<Rightarrow> op_task \<Rightarrow> op_task" where
  "stageStarted now label t = t\<lparr>t_stages := start_stage now label (t_stages t)\<rparr>"

fun finish_stage :: "time \<Rightarrow> string \<Rightarrow> bool \<Rightarrow> op_stage list \<Rightarrow> op_stage list" where
  "finish_stage now label ok [] = []"
| "finish_stage now label ok (s # ss) =
     (if ts_label s \<noteq> label \<or> ts_status s \<noteq> Running then s # finish_stage now label ok ss
      else s\<lparr>ts_status := (if ok then Succeeded else Failed), ts_finishedAt := Some now\<rparr> # ss)"

definition stageFinished :: "time \<Rightarrow> string \<Rightarrow> bool \<Rightarrow> op_task \<Rightarrow> op_task" where
  "stageFinished now label ok t = t\<lparr>t_stages := finish_stage now label ok (t_stages t)\<rparr>"

definition task_Write :: "op_task \<Rightarrow> bytes \<Rightarrow> op_task" where
  "task_Write t p =
     (let out = t_output t @ p in
      t\<lparr>t_output := (if taskOutputLimit < length out then drop (length out - taskOutputLimit) out else out),
        t_written := t_written t + int (length p)\<rparr>)"

datatype ctx_err = CtxOk | CtxCanceled | CtxDeadline

text \<open>The branch \<open>finish\<close> takes; closing \<open>done\<close> a second time panics, which is \<open>None\<close>.\<close>

definition finish_status :: "exec_response \<Rightarrow> ctx_err \<Rightarrow> string \<Rightarrow> status \<times> string" where
  "finish_status r e timeout =
     (if e = CtxOk \<and> xr_ok r then (Succeeded, [])
      else if e = CtxCanceled then (Canceled, ''the run was cancelled'')
      else if e = CtxDeadline then (Failed, ''the run timed out after '' @ timeout)
      else (Failed, auditErrorTail r))"

definition finish :: "time \<Rightarrow> exec_response \<Rightarrow> ctx_err \<Rightarrow> string \<Rightarrow> op_task \<Rightarrow> op_task option" where
  "finish now r e timeout t =
     (if t_done t then None
      else Some (t\<lparr>t_finishedAt := Some now, t_ok := xr_ok r, t_exitCode := xr_exit r, t_stdout := xr_stdout r,
        t_stderr := xr_stderr r, t_status := fst (finish_status r e timeout),
        t_failure := snd (finish_status r e timeout), t_done := True\<rparr>))"

definition cancelRun :: "op_task \<Rightarrow> op_task \<times> bool" where
  "cancelRun t =
     (if t_status t \<noteq> Running \<or> \<not> t_cancel t then (t, False) else (t\<lparr>t_cancelled := True\<rparr>, True))"

definition finished :: "op_task \<Rightarrow> bool" where
  "finished t \<longleftrightarrow> t_status t \<noteq> Running"

definition outputSince :: "op_task \<Rightarrow> int \<Rightarrow> bytes \<times> int \<times> bool" where
  "outputSince t since =
     (let from = t_written t - int (length (t_output t)) in
      if since < 0 then (t_output t, from, False)
      else if since < from then (t_output t, from, True)
      else
       (let since' = (if since > t_written t then t_written t else since);
            offset = since' - from;
            offset' = (if offset > int (length (t_output t)) then int (length (t_output t)) else offset)
        in (drop (nat offset') (t_output t), since', False)))"

record task_view =
  v_id :: string
  v_status :: status
  v_startedAt :: time
  v_finishedAt :: "time option"
  v_stages :: "op_stage list"
  v_ok :: bool
  v_exitCode :: int
  v_stdout :: bytes
  v_stderr :: bytes
  v_error :: string
  v_outputBytes :: int
  v_about :: "string list" \<comment> \<open>name, display name, target, source, invoked by\<close>

definition snapshot :: "op_task \<Rightarrow> task_view" where
  "snapshot t =
     \<lparr>v_id = t_id t, v_status = t_status t, v_startedAt = t_startedAt t, v_finishedAt = t_finishedAt t,
      v_stages = t_stages t, v_ok = t_ok t, v_exitCode = t_exitCode t, v_stdout = t_stdout t, v_stderr = t_stderr t,
      v_error = t_failure t, v_outputBytes = t_written t,
      v_about = [t_name t, t_displayName t, t_target t, t_source t, t_invokedBy t]\<rparr>"

section \<open>The store\<close>

record task_store =
  s_byID :: "(string \<times> op_task) list"
  s_order :: "string list" \<comment> \<open>newest first\<close>

definition newTaskStore :: task_store where
  "newTaskStore = \<lparr>s_byID = [], s_order = []\<rparr>"

definition finished_in :: "(string \<times> op_task) list \<Rightarrow> string \<Rightarrow> bool" where
  "finished_in m i = (case map_of m i of None \<Rightarrow> False | Some t \<Rightarrow> finished t)"

text \<open>
  The eviction loop runs over the order from its oldest entry, while more than the limit are
  finished; its list is the reversed order.
\<close>

fun evict :: "(string \<times> op_task) list \<Rightarrow> nat \<Rightarrow> string list \<Rightarrow> (string \<times> op_task) list \<times> string list" where
  "evict m n [] = (m, [])"
| "evict m n (i # older) =
     (if \<not> taskHistoryLimit < n then (m, i # older)
      else if \<not> finished_in m i then (let (m', kept) = evict m n older in (m', i # kept))
      else evict (del i m) (n - 1) older)"

definition store_add :: "op_task \<Rightarrow> task_store \<Rightarrow> task_store" where
  "store_add t s =
     (let m = put (t_id t) t (s_byID s);
          order = t_id t # s_order s;
          n = length (filter (finished_in m) order);
          (m', kept) = evict m n (rev order)
      in \<lparr>s_byID = m', s_order = rev kept\<rparr>)"

definition cancelAll :: "task_store \<Rightarrow> task_store" where
  "cancelAll s = s\<lparr>s_byID := map (\<lambda>(i, t). (i, fst (cancelRun t))) (s_byID s)\<rparr>"

definition store_get :: "task_store \<Rightarrow> string \<Rightarrow> op_task option" where
  "store_get s i = map_of (s_byID s) i"

definition store_list :: "task_store \<Rightarrow> int \<Rightarrow> task_view list" where
  "store_list s limit =
     (let ordered = List.map_filter (map_of (s_byID s)) (s_order s);
          n = (if limit \<le> 0 \<or> limit > int (length ordered) then length ordered else nat limit)
      in map snapshot (take n ordered))"

text \<open>A task reached through its handle is changed in place.\<close>

definition store_update :: "string \<Rightarrow> (op_task \<Rightarrow> op_task) \<Rightarrow> task_store \<Rightarrow> task_store" where
  "store_update i f s = s\<lparr>s_byID := map (\<lambda>(j, t). (j, if j = i then f t else t)) (s_byID s)\<rparr>"

section \<open>The HTTP handlers\<close>

datatype reply = NotFound | BadRequest string | TaskReply task_view bytes int bool | TaskPage "task_view list"
  | TaskState task_view

definition handleTaskGet :: "task_store \<Rightarrow> string \<Rightarrow> string \<Rightarrow> reply" where
  "handleTaskGet s i raw =
     (case store_get s i of
        None \<Rightarrow> NotFound
      | Some t \<Rightarrow>
          (case (if raw = [] then Some (- 1) else (case atoi raw of Some v \<Rightarrow> if v < 0 then None else Some v | None \<Rightarrow> None)) of
             None \<Rightarrow> BadRequest ''since must be a byte count within the task''
           | Some since \<Rightarrow> (case outputSince t since of (chunk, from, trunc) \<Rightarrow> TaskReply (snapshot t) chunk from trunc)))"

definition taskListLimit :: int where
  "taskListLimit = 64"

definition handleTaskList :: "task_store \<Rightarrow> string \<Rightarrow> reply" where
  "handleTaskList s raw =
     (if raw = [] then TaskPage (store_list s 20)
      else (case atoi raw of
              None \<Rightarrow> BadRequest ''limit must be a positive number''
            | Some v \<Rightarrow> if v \<le> 0 then BadRequest ''limit must be a positive number''
                        else TaskPage (store_list s (min v taskListLimit))))"

definition handleTaskCancel :: "task_store \<Rightarrow> string \<Rightarrow> task_store \<times> reply" where
  "handleTaskCancel s i =
     (case store_get s i of
        None \<Rightarrow> (s, NotFound)
      | Some t \<Rightarrow>
          (let s' = store_update i (\<lambda>t. fst (cancelRun t)) s
           in (s', TaskState (snapshot (fst (cancelRun t))))))"

section \<open>The output tail\<close>

definition tail_ok :: "op_task \<Rightarrow> bool" where
  "tail_ok t \<longleftrightarrow> length (t_output t) \<le> taskOutputLimit"

lemma task_Write_output: "t_output (task_Write t p) = last_n taskOutputLimit (t_output t @ p)"
  by (simp add: task_Write_def last_n_def Let_def)

interpretation tail: bounded_sink task_Write t_output "\<lambda>_. last_n taskOutputLimit" tail_ok
  by unfold_locales (simp_all add: task_Write_output tail_ok_def last_n_append_last_n)

text \<open>\<open>wrote t h\<close>: everything the task was ever given is \<open>h\<close>.\<close>

definition wrote :: "op_task \<Rightarrow> bytes \<Rightarrow> bool" where
  "wrote t h \<longleftrightarrow> t_output t = last_n taskOutputLimit h \<and> t_written t = int (length h)"

lemma wrote_new: "wrote (newOpTask now i n d tg src by1 labels c) []"
  by (simp add: wrote_def newOpTask_def last_n_def)

lemma wrote_Write [inv_intros]: "wrote t h \<Longrightarrow> wrote (task_Write t p) (h @ p)"
  by (simp add: wrote_def task_Write_output last_n_append_last_n) (simp add: task_Write_def Let_def)

lemma wrote_others [inv_intros]:
  "wrote t h \<Longrightarrow> wrote (stageStarted now l t) h" "wrote t h \<Longrightarrow> wrote (stageFinished now l ok t) h"
  "wrote t h \<Longrightarrow> wrote (fst (cancelRun t)) h" "wrote t h \<Longrightarrow> finish now r e tm t = Some t' \<Longrightarrow> wrote t' h"
  by (auto simp: wrote_def stageStarted_def stageFinished_def cancelRun_def finish_def split: if_splits)

lemma outputSince_wrote:
  assumes "wrote t h"
  shows "outputSince t since =
    (if since < 0 then (last_n taskOutputLimit h, int (length h - taskOutputLimit), False)
     else if since < int (length h - taskOutputLimit)
       then (last_n taskOutputLimit h, int (length h - taskOutputLimit), True)
     else if since \<le> int (length h) then (drop (nat since) h, since, False)
     else ([], int (length h), False))"
proof -
  have base: "t_written t - int (length (t_output t)) = int (length h - taskOutputLimit)"
    using assms by (simp add: wrote_def)
  have len: "int (length (t_output t)) = int (length h) - int (length h - taskOutputLimit)"
    using assms by (simp add: wrote_def)
  show ?thesis
  proof (cases "since < int (length h - taskOutputLimit)")
    case True
    then have "since \<le> int (length h)" by simp
    then show ?thesis using True assms unfolding outputSince_def Let_def base by (auto simp: wrote_def)
  next
    case False
    have "drop (nat (since - int (length h - taskOutputLimit))) (last_n taskOutputLimit h) = drop (nat since) h"
    proof -
      have "nat (since - int (length h - taskOutputLimit)) + (length h - taskOutputLimit) = nat since"
        using False by simp
      then show ?thesis by (simp add: last_n_def add.commute)
    qed
    moreover have "drop (nat (int (length h) - int (length h - taskOutputLimit))) (last_n taskOutputLimit h) = []"
      by (simp add: last_n_def)
    ultimately show ?thesis
      using assms False len unfolding outputSince_def Let_def base by (auto simp: wrote_def)
  qed
qed

text \<open>What a client is handed is exactly the bytes after the offset it names, as long as they are still
  retained; when they are not it is handed the whole tail and told so; an offset past the end, or a missing one,
  is answered with nothing or the tail. \<open>h\<close> is everything the run wrote, in however many writes.\<close>

theorem outputSince_exact:
  assumes "t = foldl task_Write (newOpTask now i n d tg src by1 labels c) ps" "h = concat ps" "0 \<le> since"
  shows "outputSince t since =
    (if since < int (length h - taskOutputLimit)
       then (last_n taskOutputLimit h, int (length h - taskOutputLimit), True)
     else if since \<le> int (length h) then (drop (nat since) h, since, False)
     else ([], int (length h), False)) \<and> t_written t = int (length h)"
proof -
  have "wrote (foldl task_Write (newOpTask now i n d tg src by1 labels c) qs) (concat qs)" for qs
    by (induction qs rule: rev_induct) (simp_all add: wrote_new wrote_Write)
  then have "wrote t h" using assms(1,2) by simp
  then show ?thesis using assms(3) outputSince_wrote by (simp add: wrote_def)
qed

theorem outputSince_exact_witness:
  "outputSince (foldl task_Write (newOpTask 0 [] [] [] [] [] [] [] True) [''pull'', ''ing'']) 4 = (''ing'', 4, False)"
  using outputSince_exact [OF refl refl, where ps = "[''pull'', ''ing'']" and since = 4]
  by (simp add: taskOutputLimit_def)

section \<open>A client that follows a task\<close>

record follower =
  f_buf :: bytes
  f_pos :: int

datatype follow_event = Wrote bytes | Polled

fun follow_step :: "op_task \<times> follower \<Rightarrow> follow_event \<Rightarrow> op_task \<times> follower" where
  "follow_step (t, f) (Wrote p) = (task_Write t p, f)"
| "follow_step (t, f) Polled =
     (case outputSince t (f_pos f) of (chunk, from, trunc) \<Rightarrow>
        (t, \<lparr>f_buf = (if trunc then chunk else f_buf f @ chunk), f_pos = from + int (length chunk)\<rparr>))"

definition written_by :: "follow_event list \<Rightarrow> bytes" where
  "written_by es = concat (map (\<lambda>e. case e of Wrote p \<Rightarrow> p | Polled \<Rightarrow> []) es)"

text \<open>What a follower holds is a stretch of the output that ends at its offset.\<close>

definition in_step :: "bytes \<Rightarrow> follower \<Rightarrow> bool" where
  "in_step h f \<longleftrightarrow>
     (f_pos f = - 1 \<and> f_buf f = []) \<or>
     (\<exists>k pos. f_pos f = int pos \<and> pos \<le> length h \<and> k \<le> pos \<and> k \<le> length h - taskOutputLimit \<and>
        f_buf f = drop k (take pos h))"

lemma in_step_append: "in_step h f \<Longrightarrow> in_step (h @ p) f"
proof -
  assume "in_step h f"
  then consider "f_pos f = - 1" "f_buf f = []" | k pos where "f_pos f = int pos" "pos \<le> length h" "k \<le> pos"
    "k \<le> length h - taskOutputLimit" "f_buf f = drop k (take pos h)"
    by (auto simp: in_step_def)
  then show "in_step (h @ p) f"
  proof cases
    case 2
    then show ?thesis unfolding in_step_def by (intro disjI2 exI [of _ k] exI [of _ pos]) simp
  qed (simp add: in_step_def)
qed

lemma poll_in_step:
  assumes "wrote t h" "in_step h f" "follow_step (t, f) Polled = (t', f')"
  shows "t' = t \<and> f_pos f' = int (length h) \<and> in_step h f'"
proof -
  let ?d = "length h - taskOutputLimit"
  have whole_len: "int ?d + int (min taskOutputLimit (length h)) = int (length h)" by simp
  have tail: "last_n taskOutputLimit h = drop ?d (take (length h) h)" by (simp add: last_n_def)
  have whole: "in_step h \<lparr>f_buf = last_n taskOutputLimit h, f_pos = int (length h)\<rparr>"
    unfolding in_step_def tail by (intro disjI2 exI [of _ ?d] exI [of _ "length h"]) simp
  from assms(2) consider (fresh) "f_pos f = - 1" "f_buf f = []"
    | (behind) k pos where "f_pos f = int pos" "pos \<le> length h" "k \<le> pos" "k \<le> ?d" "f_buf f = drop k (take pos h)"
    by (auto simp: in_step_def)
  then show ?thesis
  proof cases
    case fresh
    then show ?thesis using assms(3) whole whole_len by (auto simp: outputSince_wrote [OF assms(1)] simp del: of_nat_min of_nat_diff)
  next
    case behind
    show ?thesis
    proof (cases "pos < ?d")
      case True
      then show ?thesis using assms(3) whole whole_len behind by (auto simp: outputSince_wrote [OF assms(1)] simp del: of_nat_min of_nat_diff)
    next
      case False
      have "drop k (take pos h) @ drop pos h = drop k h"
        using behind(2,3) by (metis append_take_drop_id drop_append length_take min_absorb2 diff_is_0_eq drop0)
      then have "f' = \<lparr>f_buf = drop k h, f_pos = int (length h)\<rparr>" "t' = t"
        using assms(3) behind False by (auto simp: outputSince_wrote [OF assms(1)])
      then show ?thesis using behind(4)
        unfolding in_step_def by (intro conjI disjI2 exI [of _ k] exI [of _ "length h"]) simp_all
    qed
  qed
qed

lemma follow_run:
  assumes "foldl follow_step (newOpTask now i n d tg src by1 labels c, \<lparr>f_buf = [], f_pos = - 1\<rparr>) es = (t, f)"
  shows "wrote t (written_by es) \<and> in_step (written_by es) f"
  using assms
proof (induction es arbitrary: t f rule: rev_induct)
  case Nil
  then show ?case by (auto simp: written_by_def wrote_new in_step_def)
next
  case (snoc e es)
  obtain t0 f0 where p: "foldl follow_step (newOpTask now i n d tg src by1 labels c, \<lparr>f_buf = [], f_pos = - 1\<rparr>) es = (t0, f0)"
    by fastforce
  have ih: "wrote t0 (written_by es)" "in_step (written_by es) f0" using snoc.IH [OF p] by auto
  have e: "follow_step (t0, f0) e = (t, f)" using snoc.prems p by simp
  show ?case
  proof (cases e)
    case (Wrote q)
    then have "t = task_Write t0 q" "f = f0" "written_by (es @ [e]) = written_by es @ q"
      using e by (auto simp: written_by_def)
    then show ?thesis using ih wrote_Write in_step_append by simp
  next
    case Polled
    then have "written_by (es @ [e]) = written_by es" by (simp add: written_by_def)
    then show ?thesis using poll_in_step [OF ih e [unfolded Polled]] ih by simp
  qed
qed

text \<open>C6: A client that polls a task, however its polls interleave with the run's writes, holds after each poll
  a gapless stretch of the output that ends with its last byte and is at least as long as the retained tail; while
  the run has written no more than the tail retains, it holds all of it.\<close>

theorem follower_gapless:
  assumes "foldl follow_step (newOpTask now i n d tg src by1 labels c, \<lparr>f_buf = [], f_pos = - 1\<rparr>) (es @ [Polled]) = (t, f)"
  shows "f_pos f = int (length (written_by es)) \<and>
    (\<exists>k. f_buf f = drop k (written_by es) \<and> k \<le> length (written_by es) - taskOutputLimit) \<and>
    (length (written_by es) \<le> taskOutputLimit \<longrightarrow> f_buf f = written_by es)"
proof -
  obtain t0 f0 where p: "foldl follow_step (newOpTask now i n d tg src by1 labels c, \<lparr>f_buf = [], f_pos = - 1\<rparr>) es = (t0, f0)"
    by fastforce
  have "follow_step (t0, f0) Polled = (t, f)" using assms p by simp
  with poll_in_step conjunct1 [OF follow_run [OF p]] conjunct2 [OF follow_run [OF p]]
  have e: "f_pos f = int (length (written_by es))" "in_step (written_by es) f" by metis+
  have "f_pos f \<noteq> - 1" using e(1) by simp
  with e(2) obtain k pos where k: "f_pos f = int pos" "k \<le> length (written_by es) - taskOutputLimit"
    "f_buf f = drop k (take pos (written_by es))"
    unfolding in_step_def by blast
  moreover from k(1) e(1) have "pos = length (written_by es)" by simp
  ultimately have "f_buf f = drop k (written_by es)" by simp
  then show ?thesis using e(1) k(2) by auto
qed

theorem follower_gapless_witness:
  "\<exists>t f. foldl follow_step (newOpTask 0 [] [] [] [] [] [] [] True, \<lparr>f_buf = [], f_pos = - 1\<rparr>)
       ([Wrote ''a'', Polled, Wrote ''bc''] @ [Polled]) = (t, f) \<and> f_buf f = ''abc''"
proof -
  obtain t f where p: "foldl follow_step (newOpTask 0 [] [] [] [] [] [] [] True, \<lparr>f_buf = [], f_pos = - 1\<rparr>)
       ([Wrote ''a'', Polled, Wrote ''bc''] @ [Polled]) = (t, f)"
    by fastforce
  from follower_gapless [OF p] have "f_buf f = ''abc''" by (simp add: written_by_def taskOutputLimit_def)
  with p show ?thesis by blast
qed

end
