(* ===== verification/Task_Store.thy ===== *)
theory Task_Store
  imports Tasks
begin

text \<open>
  What the store of \<open>internal/daemon/tasks.go\<close> forgets and what it keeps, and how a task's
  status moves.
\<close>

section \<open>A task finishes once\<close>

datatype task_op =
    OpStageStarted time string | OpStageFinished time string bool | OpWrite bytes
  | OpFinish time exec_response ctx_err string | OpCancel

text \<open>One method call on a task; \<open>None\<close> is the panic of a second \<open>finish\<close>.\<close>

fun task_do :: "op_task \<Rightarrow> task_op \<Rightarrow> op_task option" where
  "task_do t (OpStageStarted now l) = Some (stageStarted now l t)"
| "task_do t (OpStageFinished now l ok) = Some (stageFinished now l ok t)"
| "task_do t (OpWrite p) = Some (task_Write t p)"
| "task_do t (OpFinish now r e tm) = finish now r e tm t"
| "task_do t OpCancel = Some (fst (cancelRun t))"

fun_cases task_do_SomeE: "task_do t op = Some t'"

inductive task_reach :: "op_task \<Rightarrow> op_task \<Rightarrow> bool" where
  reach_here: "task_reach t t"
| reach_call: "task_reach t u \<Longrightarrow> task_do u op = Some v \<Longrightarrow> task_reach t v"

definition task_ok :: "op_task \<Rightarrow> bool" where
  "task_ok t \<longleftrightarrow> t_status t \<noteq> Pending \<and> (t_done t \<longleftrightarrow> t_status t \<noteq> Running) \<and>
     (t_finishedAt t = None \<longleftrightarrow> t_status t = Running)"

lemma new_task_ok: "task_ok (newOpTask now i n d tg src by1 labels c)"
  by (simp add: task_ok_def newOpTask_def)

lemma finish_status_final: "fst (finish_status r e tm) \<in> {Succeeded, Failed, Canceled}"
  by (simp add: finish_status_def)

lemma finish_ok:
  assumes "finish now r e tm t = Some t'"
  shows "task_ok t'"
proof -
  have "t_status t' \<in> {Succeeded, Failed, Canceled}" "t_done t'" "t_finishedAt t' = Some now"
    using assms finish_status_final [of r e tm] unfolding finish_def by (auto split: if_splits)
  then show ?thesis by (auto simp: task_ok_def)
qed

lemma task_do_ok [inv_intros]: "task_do t op = Some t' \<Longrightarrow> task_ok t \<Longrightarrow> task_ok t'"
proof (cases op)
  case (OpFinish now r e tm)
  assume "task_do t op = Some t'"
  then show ?thesis using OpFinish finish_ok by simp
qed (auto simp: task_ok_def stageStarted_def stageFinished_def task_Write_def Let_def cancelRun_def split: if_splits)

definition stages_forward :: "op_stage list \<Rightarrow> op_stage list \<Rightarrow> bool" where
  "stages_forward xs ys \<longleftrightarrow> list_all2 (\<lambda>x y. ts_label y = ts_label x \<and> ts_status x \<le> ts_status y) xs ys"

lemma stages_forward_refl [simp]: "stages_forward xs xs"
  by (simp add: stages_forward_def list_all2_refl)

lemma stages_forward_trans: "stages_forward xs ys \<Longrightarrow> stages_forward ys zs \<Longrightarrow> stages_forward xs zs"
  unfolding stages_forward_def by (erule (1) list_all2_trans [rotated]) auto

lemma start_stage_forward: "stages_forward ss (start_stage now l ss)"
  by (induction ss) (auto simp: stages_forward_def less_eq_status_def list_all2_refl)

lemma finish_stage_forward: "stages_forward ss (finish_stage now l ok ss)"
  by (induction ss) (auto simp: stages_forward_def less_eq_status_def list_all2_refl)

text \<open>What a step may change of a task: a finished one keeps its outcome, nothing moves backwards.\<close>

definition task_forward :: "op_task \<Rightarrow> op_task \<Rightarrow> bool" where
  "task_forward t t' \<longleftrightarrow>
     t_id t' = t_id t \<and> t_status t \<le> t_status t' \<and> stages_forward (t_stages t) (t_stages t') \<and>
     t_written t \<le> t_written t' \<and> (t_cancelled t \<longrightarrow> t_cancelled t') \<and>
     (finished t \<longrightarrow> t_status t' = t_status t \<and> t_finishedAt t' = t_finishedAt t \<and> t_ok t' = t_ok t \<and>
        t_exitCode t' = t_exitCode t \<and> t_stdout t' = t_stdout t \<and> t_stderr t' = t_stderr t \<and>
        t_failure t' = t_failure t \<and> t_cancelled t' = t_cancelled t)"

lemma task_forward_trans: "task_forward t u \<Longrightarrow> task_forward u v \<Longrightarrow> task_forward t v"
  unfolding task_forward_def by (auto simp: finished_def intro: stages_forward_trans)

lemma task_do_forward:
  assumes "task_do t op = Some t'" "task_ok t"
  shows "task_forward t t'"
proof (cases op)
  case (OpFinish now r e tm)
  then have nd: "\<not> t_done t" and t': "finish now r e tm t = Some t'"
    using assms(1) by (auto simp: finish_def split: if_splits)
  then have "t_status t = Running" using assms(2) by (simp add: task_ok_def)
  moreover have "Running \<le> fst (finish_status r e tm)"
    using finish_status_final [of r e tm] by (auto simp: less_eq_status_def)
  ultimately show ?thesis using t' nd by (auto simp: task_forward_def finish_def finished_def)
qed (use assms start_stage_forward finish_stage_forward in
    \<open>auto simp: task_forward_def finished_def stageStarted_def stageFinished_def task_Write_def Let_def cancelRun_def\<close>)

lemma task_reach_forward:
  assumes "task_reach t u" "task_ok t"
  shows "task_forward t u \<and> task_ok u"
  using assms
proof (induction rule: task_reach.induct)
  case (reach_here t)
  then show ?case by (simp add: task_forward_def)
next
  case (reach_call t u op v)
  then show ?case using task_do_forward [of u op v] task_do_ok [of u op v] task_forward_trans by blast
qed

text \<open>A task's life only moves forward: whatever calls follow, in any order, it is finished at most once, a finished
  task keeps its status, result and cancellation for ever, no stage goes back to an earlier status, no plan entry
  is lost or renamed, and a second finish panics instead of overwriting the first.\<close>

theorem task_monotone:
  assumes "task_reach (newOpTask now i n d tg src by1 labels c) t" "task_reach t u"
  shows "task_forward t u \<and> map ts_label (t_stages u) = labels \<and> (t_done u \<longleftrightarrow> finished u) \<and>
    (finished t \<longrightarrow> finish now' r e tm t = None \<and> \<not> snd (cancelRun t))"
proof -
  have t: "task_ok t" "task_forward (newOpTask now i n d tg src by1 labels c) t"
    using task_reach_forward [OF assms(1) new_task_ok] by auto
  have u: "task_ok u" "task_forward t u" using task_reach_forward [OF assms(2) t(1)] by auto
  have lab: "map ts_label ys = map ts_label xs" if "stages_forward xs ys" for xs ys
    using that unfolding stages_forward_def by (induction rule: list_all2_induct) simp_all
  have "map ts_label (t_stages u) = map ts_label (t_stages (newOpTask now i n d tg src by1 labels c))"
    using lab u(2) t(2) unfolding task_forward_def by metis
  then have "map ts_label (t_stages u) = labels" by (simp add: newOpTask_def o_def)
  then show ?thesis using t(1) u by (auto simp: task_ok_def finished_def finish_def cancelRun_def)
qed

lemma demo_task_reach:
  "task_reach (newOpTask 0 ''t1'' [] [] [] [] [] [''pull'', ''recreate''] True)
     (stageStarted 1 ''pull'' (newOpTask 0 ''t1'' [] [] [] [] [] [''pull'', ''recreate''] True))"
  by (rule task_reach.reach_call [OF task_reach.reach_here, where op = "OpStageStarted 1 ''pull''"]) simp

theorem task_monotone_witness:
  "map ts_label (t_stages (stageStarted 1 ''pull'' (newOpTask 0 ''t1'' [] [] [] [] [] [''pull'', ''recreate''] True))) =
     [''pull'', ''recreate'']"
  using task_monotone [OF demo_task_reach task_reach.reach_here] by blast

section \<open>The store\<close>

definition store_wf :: "task_store \<Rightarrow> bool" where
  "store_wf s \<longleftrightarrow> distinct (s_order s) \<and> distinct (map fst (s_byID s)) \<and> set (s_order s) = fst ` set (s_byID s) \<and>
     (\<forall>i t. map_of (s_byID s) i = Some t \<longrightarrow> t_id t = i)"

text \<open>What eviction removes, as a specification: the oldest finished tasks beyond the limit.\<close>

definition surplus :: "(string \<times> op_task) list \<Rightarrow> string list \<Rightarrow> string list" where
  "surplus m order = drop taskHistoryLimit (filter (finished_in m) order)"

lemma finished_in_del: "j \<noteq> i \<Longrightarrow> finished_in (del i m) j = finished_in m j"
  by (simp add: finished_in_def)

lemma evict_spec:
  assumes "distinct xs"
  shows "evict m n xs =
    (let gone = take (n - taskHistoryLimit) (filter (finished_in m) xs)
     in (filter (\<lambda>p. fst p \<notin> set gone) m, filter (\<lambda>i. i \<notin> set gone) xs))"
  using assms
proof (induction m n xs rule: evict.induct)
  case (1 m n)
  then show ?case by simp
next
  case (2 m n i older)
  consider (under) "\<not> taskHistoryLimit < n" | (running) "taskHistoryLimit < n" "\<not> finished_in m i"
    | (evicted) "taskHistoryLimit < n" "finished_in m i" by blast
  then show ?case
  proof cases
    case under
    then show ?thesis by simp
  next
    case running
    have "i \<notin> set (take (n - taskHistoryLimit) (filter (finished_in m) older))"
      using "2.prems" by (auto dest: in_set_takeD)
    then show ?thesis using "2.IH"(1) running "2.prems" by (simp add: Let_def)
  next
    case evicted
    then obtain k where k: "n - taskHistoryLimit = Suc k" "n - 1 - taskHistoryLimit = k"
      by (cases "n - taskHistoryLimit") auto
    have same: "filter (finished_in (del i m)) older = filter (finished_in m) older"
    proof (rule filter_cong [OF refl])
      fix x assume "x \<in> set older"
      then show "finished_in (del i m) x = finished_in m x"
        using "2.prems" by (intro finished_in_del) auto
    qed
    let ?gone = "take k (filter (finished_in m) older)"
    have "evict (del i m) (n - 1) older =
        (filter (\<lambda>p. fst p \<notin> set ?gone) (del i m), filter (\<lambda>j. j \<notin> set ?gone) older)"
      using "2.IH"(2) evicted "2.prems" k(2) same by (simp add: Let_def)
    moreover have "filter (\<lambda>j. j \<noteq> i \<and> j \<notin> set ?gone) older = filter (\<lambda>j. j \<notin> set ?gone) older"
      using "2.prems" by (intro filter_cong) auto
    moreover have "filter (\<lambda>p. fst p \<noteq> i \<and> fst p \<notin> set ?gone) m = filter (\<lambda>p. fst p \<notin> set ?gone) (del i m)"
      by (simp add: del_def conj_commute)
    ultimately show ?thesis using evicted k(1) by (simp add: Let_def)
  qed
qed

lemma store_add_order:
  assumes "distinct (t_id t # s_order s)"
  defines "m \<equiv> put (t_id t) t (s_byID s)"
  defines "gone \<equiv> surplus m (t_id t # s_order s)"
  shows "s_order (store_add t s) = filter (\<lambda>i. i \<notin> set gone) (t_id t # s_order s)"
    and "s_byID (store_add t s) = filter (\<lambda>p. fst p \<notin> set gone) m"
proof -
  let ?o = "t_id t # s_order s" let ?n = "length (filter (finished_in m) ?o)"
  have "take (?n - taskHistoryLimit) (filter (finished_in m) (rev ?o)) = rev gone"
    by (simp only: gone_def surplus_def rev_filter rev_drop)
  then have "evict m ?n (rev ?o) = (filter (\<lambda>p. fst p \<notin> set gone) m, filter (\<lambda>i. i \<notin> set gone) (rev ?o))"
    using evict_spec [of "rev ?o" m ?n] assms(1) by (simp only: Let_def distinct_rev set_rev)
  then have "store_add t s = \<lparr>s_byID = filter (\<lambda>p. fst p \<notin> set gone) m, s_order = rev (filter (\<lambda>i. i \<notin> set gone) (rev ?o))\<rparr>"
    unfolding store_add_def Let_def m_def [symmetric] by (simp only: prod.case)
  then show "s_order (store_add t s) = filter (\<lambda>i. i \<notin> set gone) ?o"
    "s_byID (store_add t s) = filter (\<lambda>p. fst p \<notin> set gone) m"
    by (simp_all only: task_store.simps rev_filter rev_rev_ident)
qed

lemma put_ids:
  assumes "store_wf s" "t_id t \<notin> set (s_order s)"
  shows "map_of (put (t_id t) t (s_byID s)) = (map_of (s_byID s))(t_id t \<mapsto> t)"
    "set (t_id t # s_order s) = fst ` set (put (t_id t) t (s_byID s))"
    "distinct (map fst (put (t_id t) t (s_byID s)))"
  using assms by (auto simp: store_wf_def put_distinct)

lemma map_of_filter_key: "map_of (filter (\<lambda>p. P (fst p)) m) i = (if P i then map_of m i else None)"
  by (induction m) auto

lemma store_add_lookup:
  assumes "store_wf s" "t_id t \<notin> set (s_order s)"
  defines "m \<equiv> put (t_id t) t (s_byID s)"
  shows "map_of (s_byID (store_add t s)) i =
    (if i \<in> set (surplus m (t_id t # s_order s)) then None
     else ((map_of (s_byID s))(t_id t \<mapsto> t)) i)"
proof -
  let ?G = "set (surplus m (t_id t # s_order s))"
  have "s_byID (store_add t s) = filter (\<lambda>p. fst p \<notin> ?G) m"
    using store_add_order(2) [of t s] assms(1,2) unfolding m_def by (simp add: store_wf_def)
  then have "map_of (s_byID (store_add t s)) i = (if i \<notin> ?G then map_of m i else None)"
    by (simp only: map_of_filter_key [where P = "\<lambda>i. i \<notin> ?G"])
  then show ?thesis unfolding m_def put_ids(1) [OF assms(1,2)] by auto
qed

lemma store_add_wf [inv_intros]:
  assumes "store_wf s" "t_id t \<notin> set (s_order s)"
  shows "store_wf (store_add t s)"
proof -
  define m o' G where "m = put (t_id t) t (s_byID s)" and "o' = t_id t # s_order s" and "G = set (surplus m o')"
  have d: "distinct o'" using assms by (simp add: store_wf_def o'_def)
  have o: "s_order (store_add t s) = filter (\<lambda>i. i \<notin> G) o'"
    and b: "s_byID (store_add t s) = filter (\<lambda>p. fst p \<notin> G) m"
    using store_add_order d unfolding m_def o'_def G_def by auto
  have ids: "set o' = fst ` set m" "distinct (map fst m)"
    using put_ids(2,3) [OF assms] unfolding m_def o'_def by auto
  have "set (filter (\<lambda>i. i \<notin> G) o') = fst ` set (filter (\<lambda>p. fst p \<notin> G) m)"
    using ids(1) by force
  moreover have "t_id u = i" if "map_of (s_byID (store_add t s)) i = Some u" for i u
    using that store_add_lookup [OF assms, of i] assms(1) by (auto simp: store_wf_def split: if_splits)
  ultimately show ?thesis
    using d ids(2) by (simp add: store_wf_def o b distinct_map_filter)
qed

lemma filter_kept_count:
  assumes "distinct xs"
  shows "filter P (filter (\<lambda>i. i \<notin> set (drop n (filter P xs))) xs) = take n (filter P xs)"
proof -
  have "filter P (filter (\<lambda>i. i \<notin> set (drop n (filter P xs))) xs) =
      filter (\<lambda>i. i \<notin> set (drop n (filter P xs))) (filter P xs)"
    by (simp add: conj_commute)
  also have "\<dots> = filter (\<lambda>i. i \<notin> set (drop n (filter P xs))) (take n (filter P xs) @ drop n (filter P xs))"
    by simp
  also have "\<dots> = take n (filter P xs)"
  proof -
    have "distinct (take n (filter P xs) @ drop n (filter P xs))" using assms by simp
    then have disj: "set (take n (filter P xs)) \<inter> set (drop n (filter P xs)) = {}" by (meson distinct_append)
    have "filter (\<lambda>i. i \<notin> set (drop n (filter P xs))) (take n (filter P xs)) = take n (filter P xs)"
      using disj by (intro filter_True) auto
    then show ?thesis unfolding filter_append by simp
  qed
  finally show ?thesis .
qed

text \<open>Adding a task keeps the store well-formed, makes the new task first in the list, never drops a task that is
  still running, and keeps exactly the 32 newest finished ones: what is forgotten is the oldest finished tasks
  beyond that, and nothing else.\<close>

theorem store_add_keeps:
  assumes "store_wf s" "t_id t \<notin> set (s_order s)" "\<not> finished t"
  shows "store_wf (store_add t s) \<and> hd (s_order (store_add t s)) = t_id t \<and>
    store_get (store_add t s) (t_id t) = Some t \<and>
    (\<forall>i u. store_get s i = Some u \<and> \<not> finished u \<longrightarrow> store_get (store_add t s) i = Some u) \<and>
    filter (finished_in (s_byID (store_add t s))) (s_order (store_add t s)) =
      take taskHistoryLimit (filter (finished_in (s_byID s)) (s_order s)) \<and>
    (\<forall>i u. store_get (store_add t s) i = Some u \<longrightarrow> i = t_id t \<or> store_get s i = Some u)"
proof -
  let ?m = "put (t_id t) t (s_byID s)" let ?o = "t_id t # s_order s" let ?gone = "surplus ?m ?o"
  have d: "distinct ?o" using assms by (simp add: store_wf_def)
  note m = put_ids(1) [OF assms(1,2)]
  have new: "\<not> finished_in ?m (t_id t)" using assms(3) by (simp add: finished_in_def m)
  have old: "finished_in ?m i = finished_in (s_byID s) i" if "i \<noteq> t_id t" for i
    using that by (simp add: finished_in_def m)
  have fin: "filter (finished_in ?m) ?o = filter (finished_in (s_byID s)) (s_order s)"
    using new assms(2) by (auto intro!: filter_cong simp: old) (metis old)+
  have gone: "set ?gone \<subseteq> {i. finished_in ?m i}" by (auto simp: surplus_def dest: in_set_dropD)
  have order: "s_order (store_add t s) = filter (\<lambda>i. i \<notin> set ?gone) ?o" using store_add_order(1) [OF d] .
  have get: "store_get (store_add t s) i = (if i \<in> set ?gone then None else if i = t_id t then Some t else store_get s i)" for i
    using store_add_lookup [OF assms(1,2), of i] by (simp add: store_get_def)
  have first: "t_id t \<notin> set ?gone" using gone new by auto
  have kept: "store_get (store_add t s) i = Some u" if "store_get s i = Some u" "\<not> finished u" for i u
  proof -
    have "store_get s (t_id t) = None" using assms(1,2) by (simp add: store_get_def store_wf_def map_of_eq_None_iff)
    then have "i \<noteq> t_id t" using that(1) by auto
    then have "\<not> finished_in ?m i" using that old by (simp add: finished_in_def store_get_def)
    then show ?thesis using gone get that \<open>i \<noteq> t_id t\<close> by auto
  qed
  have same: "finished_in (s_byID (store_add t s)) i = finished_in ?m i" if "i \<notin> set ?gone" for i
    using that get [of i] by (simp add: finished_in_def store_get_def m)
  have "filter (finished_in (s_byID (store_add t s))) (s_order (store_add t s)) =
      filter (finished_in ?m) (filter (\<lambda>i. i \<notin> set ?gone) ?o)"
    unfolding order by (rule filter_cong [OF refl], rule same) (simp only: set_filter mem_Collect_eq simp_thms)
  also have "\<dots> = take taskHistoryLimit (filter (finished_in ?m) ?o)"
    unfolding surplus_def by (rule filter_kept_count [OF d])
  finally have "filter (finished_in (s_byID (store_add t s))) (s_order (store_add t s)) =
      take taskHistoryLimit (filter (finished_in (s_byID s)) (s_order s))" unfolding fin .
  moreover have "hd (s_order (store_add t s)) = t_id t" using order first by simp
  moreover have "\<forall>i u. store_get (store_add t s) i = Some u \<longrightarrow> i = t_id t \<or> store_get s i = Some u"
    by (simp add: get)
  ultimately show ?thesis using store_add_wf [OF assms(1,2)] first get kept by simp
qed

definition demo_task :: "string \<Rightarrow> op_task" where
  "demo_task i = newOpTask 0 i ''container.pull'' ''Pull'' ''web'' ''http'' [] [''pull''] True"

lemma demo_store: "store_wf newTaskStore"
  by (simp add: store_wf_def newTaskStore_def)

theorem store_add_keeps_witness:
  "store_wf (store_add (demo_task ''a1'') newTaskStore) \<and>
   store_get (store_add (demo_task ''a1'') newTaskStore) ''a1'' = Some (demo_task ''a1'')"
  using store_add_keeps [OF demo_store, of "demo_task ''a1''"]
  by (simp add: newTaskStore_def demo_task_def newOpTask_def finished_def)

text \<open>A page of tasks holds tasks of the store only, newest first, at most 64 of them however large the
  requested limit, and a limit that is not a positive number is refused.\<close>

theorem task_page_bounded:
  "case handleTaskList s raw of
     TaskPage vs \<Rightarrow> length vs \<le> 64 \<and>
       (\<exists>n. vs = map snapshot (take n (List.map_filter (map_of (s_byID s)) (s_order s)))) \<and>
       (raw = [] \<or> (\<exists>v > 0. atoi raw = Some v \<and> length vs \<le> nat v))
   | BadRequest _ \<Rightarrow> raw \<noteq> [] \<and> (\<forall>v. atoi raw = Some v \<longrightarrow> v \<le> 0)
   | _ \<Rightarrow> False"
proof -
  have page: "length (store_list s k) \<le> nat k \<and>
      (\<exists>n. store_list s k = map snapshot (take n (List.map_filter (map_of (s_byID s)) (s_order s))))" if "0 < k" for k
  proof -
    let ?o = "List.map_filter (map_of (s_byID s)) (s_order s)"
    have "store_list s k = map snapshot (take (if k > int (length ?o) then length ?o else nat k) ?o)"
      using that by (simp add: store_list_def Let_def)
    then show ?thesis by (intro conjI exI) auto
  qed
  show ?thesis
  proof (cases "raw = []")
    case True
    then show ?thesis using page [of 20] by (auto simp: handleTaskList_def)
  next
    case False
    show ?thesis
    proof (cases "atoi raw")
      case (Some v)
      then show ?thesis using False page [of "min v 64"] by (auto simp: handleTaskList_def taskListLimit_def)
    qed (simp add: False handleTaskList_def)
  qed
qed

theorem task_page_bounded_witness:
  "handleTaskList newTaskStore ''-3'' = BadRequest ''limit must be a positive number'' \<and>
   (case atoi ''-3'' of None \<Rightarrow> True | Some v \<Rightarrow> v \<le> 0)"
proof -
  have "handleTaskList newTaskStore ''-3'' = BadRequest ''limit must be a positive number''" by code_simp
  then show ?thesis using task_page_bounded [where s = newTaskStore and raw = "''-3''"] by (simp split: option.split)
qed

end
