(* ===== verification/Ops_Run.thy ===== *)
theory Ops_Run
  imports Tasks
begin

text \<open>
  How a native operation runs, from \<open>internal/daemon/ops.go\<close>: the alternative attempts of a
  stage, the stages in order, what the watched task is told, and what is reported at the end.
  The processes, the clock and the context are arguments that may depend on every attempt
  started before.
\<close>

section \<open>Attempts and stages\<close>

record op_attempt =
  oa_command :: string
  oa_args :: "string list"
  oa_cwd :: string
  oa_env :: "string list"

record stage_plan =
  sp_label :: string
  sp_attempts :: "op_attempt list"
  sp_build :: "(op_attempt list \<Rightarrow> string + op_attempt list) option"
  sp_idle :: string

record op_env =
  oe_run :: "op_attempt list \<Rightarrow> op_attempt \<Rightarrow> proc_run"
  oe_ctx :: "op_attempt list \<Rightarrow> ctx_err"
  oe_now :: "op_attempt list \<Rightarrow> time"

definition runOpOnce :: "op_env \<Rightarrow> op_attempt list \<Rightarrow> op_attempt \<Rightarrow> run_result" where
  "runOpOnce env hist a = run_captured (oe_run env hist a)"

record stage_result =
  sr_hist :: "op_attempt list"
  sr_stdout :: bytes
  sr_stderr :: bytes
  sr_exit :: int
  sr_err :: "run_failure option"
  sr_sink :: "bytes list"

text \<open>
  The loop of \<open>runStage\<close>: \<open>primary\<close> is the first attempt's result once it has failed, \<open>sink\<close>
  what was streamed so far.
\<close>

fun stage_loop ::
  "op_env \<Rightarrow> op_attempt list \<Rightarrow> run_result option \<Rightarrow> bytes list \<Rightarrow> op_attempt list \<Rightarrow> stage_result" where
  "stage_loop env hist primary sink [] =
     \<lparr>sr_hist = hist,
      sr_stdout = (case primary of None \<Rightarrow> [] | Some r \<Rightarrow> rr_stdout r),
      sr_stderr = (case primary of None \<Rightarrow> [] | Some r \<Rightarrow> rr_stderr r),
      sr_exit = (case primary of None \<Rightarrow> 0 | Some r \<Rightarrow> rr_exit r),
      sr_err = (case primary of None \<Rightarrow> None | Some r \<Rightarrow> rr_err r), sr_sink = sink\<rparr>"
| "stage_loop env hist primary sink (a # rest) =
     (let r = runOpOnce env hist a; hist' = hist @ [a]; sink' = sink @ rr_sink r in
      if rr_err r = None then
        \<lparr>sr_hist = hist', sr_stdout = rr_stdout r, sr_stderr = rr_stderr r, sr_exit = 0, sr_err = None, sr_sink = sink'\<rparr>
      else
        (let primary' = (case primary of None \<Rightarrow> Some r | Some p \<Rightarrow> Some p) in
         if oe_ctx env hist' = CtxDeadline then stage_loop env hist' primary' sink' []
         else stage_loop env hist' primary' sink' rest))"

definition runStage :: "op_env \<Rightarrow> op_attempt list \<Rightarrow> op_attempt list \<Rightarrow> stage_result" where
  "runStage env hist attempts = stage_loop env hist None [] attempts"

definition appendStageOutput :: "bytes \<Rightarrow> bytes \<Rightarrow> bytes" where
  "appendStageOutput builder nxt =
     (if nxt = [] then builder else if builder \<noteq> [] then builder @ [CHR 0x0A] @ nxt else nxt)"

datatype op_failure = BuildFailed string | AttemptFailed run_failure

record run_state =
  rs_hist :: "op_attempt list"
  rs_task :: "op_task option"
  rs_stdout :: bytes
  rs_stderr :: bytes
  rs_exit :: int
  rs_failure :: "op_failure option"

definition on_task :: "(op_task \<Rightarrow> op_task) \<Rightarrow> run_state \<Rightarrow> run_state" where
  "on_task f s = s\<lparr>rs_task := map_option f (rs_task s)\<rparr>"

lemma on_task_simps [simp]:
  "rs_task (on_task f s) = map_option f (rs_task s)" "rs_hist (on_task f s) = rs_hist s"
  "rs_failure (on_task f s) = rs_failure s" "rs_stdout (on_task f s) = rs_stdout s"
  "rs_stderr (on_task f s) = rs_stderr s" "rs_exit (on_task f s) = rs_exit s"
  by (simp_all add: on_task_def)

text \<open>The attempts of a stage: the planned ones, or what \<open>build\<close> answers.\<close>

definition stage_attempts :: "stage_plan \<Rightarrow> op_attempt list \<Rightarrow> string + op_attempt list" where
  "stage_attempts p hist = (case sp_build p of None \<Rightarrow> Inr (sp_attempts p) | Some build \<Rightarrow> build hist)"

text \<open>One turn of the loop over the stages.\<close>

definition run_stage_step :: "op_env \<Rightarrow> stage_plan \<Rightarrow> run_state \<Rightarrow> run_state" where
  "run_stage_step env p s0 =
     (let s = on_task (stageStarted (oe_now env (rs_hist s0)) (sp_label p)) s0;
          closed = (\<lambda>ok t. on_task (stageFinished (oe_now env (rs_hist t)) (sp_label p) ok) t) in
      case stage_attempts p (rs_hist s) of
        Inl err \<Rightarrow>
          closed False (s\<lparr>rs_stderr := appendStageOutput (rs_stderr s) err, rs_exit := - 1,
            rs_failure := Some (BuildFailed err)\<rparr>)
      | Inr [] \<Rightarrow>
          (let note = trim_space (sp_idle p) in
           closed True
             (if note \<noteq> []
              then on_task (\<lambda>t. task_Write t (note @ [CHR 0x0A]))
                     (s\<lparr>rs_stdout := appendStageOutput (rs_stdout s) note\<rparr>)
              else s))
      | Inr attempts \<Rightarrow>
          (let r = runStage env (rs_hist s) attempts;
               s1 = on_task (\<lambda>t. foldl task_Write t (sr_sink r))
                 (s\<lparr>rs_hist := sr_hist r,
                   rs_stdout := appendStageOutput (rs_stdout s) (sr_stdout r),
                   rs_stderr := appendStageOutput (rs_stderr s) (sr_stderr r)\<rparr>) in
           case sr_err r of
             None \<Rightarrow> closed True s1
           | Some e \<Rightarrow> closed False (s1\<lparr>rs_exit := sr_exit r, rs_failure := Some (AttemptFailed e)\<rparr>)))"

fun run_plan :: "op_env \<Rightarrow> stage_plan list \<Rightarrow> run_state \<Rightarrow> run_state" where
  "run_plan env [] s = s"
| "run_plan env (p # ps) s =
     (let s' = run_stage_step env p s in if rs_failure s' \<noteq> None then s' else run_plan env ps s')"

section \<open>The whole operation\<close>

record op_report =
  or_name :: string
  or_source :: string
  or_ok :: bool
  or_exit :: int
  or_error :: bytes

record op_outcome =
  oo_response :: exec_response
  oo_status :: nat
  oo_task :: "op_task option"
  oo_hist :: "op_attempt list"
  oo_audit :: "op_report list"
  oo_successes :: nat
  oo_failures :: nat
  oo_notified :: "(string \<times> bytes) option"

definition http_StatusOK :: nat where "http_StatusOK = 200"
definition http_StatusBadGateway :: nat where "http_StatusBadGateway = 502"
definition http_StatusGatewayTimeout :: nat where "http_StatusGatewayTimeout = 504"
definition http_StatusTooManyRequests :: nat where "http_StatusTooManyRequests = 429"

definition failure_body :: "exec_response \<Rightarrow> bytes" where
  "failure_body r =
     (let err = trim_space (xr_stderr r); body = (if err = [] then trim_space (xr_stdout r) else err)
      in if 4096 < length body then take 4096 body else body)"

definition publishFailure :: "bool \<Rightarrow> string \<Rightarrow> exec_response \<Rightarrow> (string \<times> bytes) option" where
  "publishFailure published displayName r =
     (if \<not> published then None else Some (displayName @ '' failed'', failure_body r))"

definition start_state :: "op_task option \<Rightarrow> run_state" where
  "start_state task = \<lparr>rs_hist = [], rs_task = task, rs_stdout = [], rs_stderr = [], rs_exit = 0, rs_failure = None\<rparr>"

definition runStages ::
  "op_env \<Rightarrow> bool \<Rightarrow> bool \<Rightarrow> string \<Rightarrow> string \<Rightarrow> string \<Rightarrow> stage_plan list \<Rightarrow> op_task option \<Rightarrow> op_outcome" where
  "runStages env audited published slug displayName source stages task =
     (let s = run_plan env stages (start_state task);
          ok = (rs_failure s = None);
          r = \<lparr>xr_ok = ok, xr_name = slug, xr_exit = (if ok then 0 else rs_exit s), xr_stdout = rs_stdout s,
               xr_stderr = rs_stderr s, xr_error = []\<rparr>
      in \<lparr>oo_response = r,
          oo_status = (if ok then http_StatusOK
                       else if oe_ctx env (rs_hist s) = CtxDeadline then http_StatusGatewayTimeout
                       else http_StatusBadGateway),
          oo_task = rs_task s, oo_hist = rs_hist s,
          oo_audit = (if audited then [\<lparr>or_name = slug, or_source = source, or_ok = ok, or_exit = xr_exit r,
                        or_error = auditErrorTail r\<rparr>] else []),
          oo_successes = (if ok then 1 else 0), oo_failures = (if ok then 0 else 1),
          oo_notified = (if \<not> ok \<and> source \<noteq> ''job'' then publishFailure published displayName r else None)\<rparr>)"

definition taskNativeOp :: "string \<Rightarrow> bool" where
  "taskNativeOp slug \<longleftrightarrow>
     slug \<in> {''container.pull'', ''container.update'', ''compose.pull'', ''compose.update'', ''compose.recreate''}"

text \<open>
  \<open>dispatchTask\<close> in its two halves: the task is stored before anything runs, and the goroutine
  runs the plan and finishes it. \<open>slot\<close> is what \<open>acquireSlot\<close> answered.
\<close>

definition dispatchTask ::
  "bool \<Rightarrow> time \<Rightarrow> string \<Rightarrow> string \<Rightarrow> string \<Rightarrow> string \<Rightarrow> string \<Rightarrow> string \<Rightarrow> stage_plan list \<Rightarrow> task_store
     \<Rightarrow> nat + op_task \<times> task_store" where
  "dispatchTask slot now i slug displayName target source invokedBy stages s =
     (if \<not> slot then Inl http_StatusTooManyRequests
      else let t = newOpTask now i slug displayName target source invokedBy (map sp_label stages) True
           in Inr (t, store_add t s))"

definition run_task ::
  "op_env \<Rightarrow> bool \<Rightarrow> bool \<Rightarrow> string \<Rightarrow> stage_plan list \<Rightarrow> op_task \<Rightarrow> (op_outcome \<times> op_task) option" where
  "run_task env audited published timeout stages t =
     (let out = runStages env audited published (t_name t) (t_displayName t) (t_source t) stages (Some t) in
      case oo_task out of
        None \<Rightarrow> None
      | Some t' \<Rightarrow>
          (case finish (oe_now env (oo_hist out)) (oo_response out) (oe_ctx env (oo_hist out)) timeout t' of
             None \<Rightarrow> None
           | Some t'' \<Rightarrow> Some (out, t'')))"

end
