(* ===== verification/Ops_Properties.thy ===== *)
theory Ops_Properties
  imports Ops_Run Task_Store
begin

text \<open>What a native operation reports: properties of \<open>runOpOnce\<close>, \<open>runStage\<close>, \<open>runStages\<close> and
  \<open>dispatchTask\<close> of \<open>internal/daemon/ops.go\<close>.\<close>

section \<open>One attempt\<close>

definition chatty :: "proc_run" where
  "chatty = \<lparr>pr_events = [(StdoutStream, replicate 9000 (CHR ''x''))], pr_end = Exited 0\<rparr>"

lemma chatty_overruns: "overruns (chunks_of StdoutStream (pr_events chatty))"
proof -
  have "overruns [c]" if "captureLimit < length c" for c
    unfolding overruns_def using that by (intro exI [of _ "[]"] exI [of _ c]) (simp add: captureLimit_def)
  then show ?thesis by (simp add: chatty_def captureLimit_def)
qed

text \<open>A captured command counts as successful exactly when it exited 0 and no single read crossed the 8 KiB
  limit of either capture buffer: \<open>limitedBuffer.Write\<close> reports the truncated count, the
  copy loop of \<open>os/exec\<close> takes that for a failed write, and a command that did its work but printed more is reported as failed. What was
  captured is in either case the first 8 KiB of each stream.\<close>

theorem captured_success_iff:
  "(rr_err (run_captured r) = None \<longleftrightarrow>
      pr_end r = Exited 0 \<and> \<not> overruns (chunks_of StdoutStream (pr_events r)) \<and>
      \<not> overruns (chunks_of StderrStream (pr_events r))) \<and>
   rr_stdout (run_captured r) = take captureLimit (concat (chunks_of StdoutStream (pr_events r))) \<and>
   rr_stderr (run_captured r) = take captureLimit (concat (chunks_of StderrStream (pr_events r))) \<and>
   (length (concat (chunks_of StdoutStream (pr_events r))) \<le> captureLimit \<and>
    length (concat (chunks_of StderrStream (pr_events r))) \<le> captureLimit \<longrightarrow>
      (rr_err (run_captured r) = None \<longleftrightarrow> pr_end r = Exited 0))"
  using overruns_total [of "chunks_of StdoutStream (pr_events r)"] overruns_total [of "chunks_of StderrStream (pr_events r)"]
  by (auto simp: run_captured_streams run_error_of_def split: proc_end.splits)

theorem captured_success_iff_witness:
  "pr_end chatty = Exited 0 \<and> rr_err (run_captured chatty) \<noteq> None \<and>
   rr_err (run_captured \<lparr>pr_events = [(StdoutStream, ''done'')], pr_end = Exited 0\<rparr>) = None"
  using captured_success_iff [of chatty] chatty_overruns
    captured_success_iff [of "\<lparr>pr_events = [(StdoutStream, ''done'')], pr_end = Exited 0\<rparr>"]
  by (simp add: captureLimit_def chatty_def)

section \<open>One stage\<close>

lemma stage_loop_hist: "\<exists>tried. sr_hist (stage_loop env hist primary sink attempts) = hist @ tried"
proof (induction attempts arbitrary: hist primary sink)
  case (Cons a rest)
  have "\<exists>tried. sr_hist (stage_loop env (hist @ [a]) p s rest) = hist @ tried" for p s
    using Cons.IH [of "hist @ [a]" p s] by fastforce
  then show ?case by (simp add: Let_def)
qed simp

lemma stage_loop_spec:
  fixes env hist primary sink
  assumes "attempts \<noteq> []"
  defines "res \<equiv> \<lambda>i. runOpOnce env (hist @ take i attempts) (attempts ! i)"
  defines "late \<equiv> \<lambda>i. oe_ctx env (hist @ take (Suc i) attempts) = CtxDeadline"
  defines "r \<equiv> stage_loop env hist primary sink attempts"
  shows "\<exists>n < length attempts. sr_hist r = hist @ take (Suc n) attempts \<and>
    (\<forall>j < n. rr_err (res j) \<noteq> None \<and> \<not> late j) \<and>
    (if rr_err (res n) = None then
       sr_err r = None \<and> sr_exit r = 0 \<and> sr_stdout r = rr_stdout (res n) \<and> sr_stderr r = rr_stderr (res n)
     else (Suc n = length attempts \<or> late n) \<and>
       (let p = (case primary of None \<Rightarrow> res 0 | Some p \<Rightarrow> p) in
        sr_err r = rr_err p \<and> sr_exit r = rr_exit p \<and> sr_stdout r = rr_stdout p \<and> sr_stderr r = rr_stderr p))"
  using assms(1) unfolding res_def late_def r_def
proof (induction env hist primary sink attempts rule: stage_loop.induct)
  case (2 env hist primary sink a rest)
  let ?r = "runOpOnce env hist a"
  show ?case
  proof (cases "rr_err ?r = None")
    case True
    then show ?thesis by (intro exI [of _ 0]) (simp add: Let_def)
  next
    case failed: False
    show ?thesis
    proof (cases "oe_ctx env (hist @ [a]) = CtxDeadline")
      case True
      then show ?thesis using failed by (intro exI [of _ 0]) (simp add: Let_def split: option.splits del: not_None_eq)
    next
      case intime: False
      show ?thesis
      proof (cases "rest = []")
        case True
        then show ?thesis using failed intime by (intro exI [of _ 0]) (simp add: Let_def split: option.splits del: not_None_eq)
      next
        case more: False
        let ?p = "case primary of None \<Rightarrow> Some ?r | Some p \<Rightarrow> Some p"
        have step: "stage_loop env hist primary sink (a # rest) =
            stage_loop env (hist @ [a]) ?p (sink @ rr_sink ?r) rest"
          using failed intime by (simp add: Let_def del: not_None_eq)
        from "2.IH"(2) [OF refl refl refl failed refl intime more] obtain n where
          n: "n < length rest"
            "sr_hist (stage_loop env (hist @ [a]) ?p (sink @ rr_sink ?r) rest) = (hist @ [a]) @ take (Suc n) rest" and
          pre: "\<forall>j < n. rr_err (runOpOnce env ((hist @ [a]) @ take j rest) (rest ! j)) \<noteq> None \<and>
            oe_ctx env ((hist @ [a]) @ take (Suc j) rest) \<noteq> CtxDeadline" and
          fin: "if rr_err (runOpOnce env ((hist @ [a]) @ take n rest) (rest ! n)) = None then
              sr_err (stage_loop env (hist @ [a]) ?p (sink @ rr_sink ?r) rest) = None \<and>
              sr_exit (stage_loop env (hist @ [a]) ?p (sink @ rr_sink ?r) rest) = 0 \<and>
              sr_stdout (stage_loop env (hist @ [a]) ?p (sink @ rr_sink ?r) rest) =
                rr_stdout (runOpOnce env ((hist @ [a]) @ take n rest) (rest ! n)) \<and>
              sr_stderr (stage_loop env (hist @ [a]) ?p (sink @ rr_sink ?r) rest) =
                rr_stderr (runOpOnce env ((hist @ [a]) @ take n rest) (rest ! n))
            else (Suc n = length rest \<or> oe_ctx env ((hist @ [a]) @ take (Suc n) rest) = CtxDeadline) \<and>
              (let p = case ?p of None \<Rightarrow> runOpOnce env ((hist @ [a]) @ take 0 rest) (rest ! 0) | Some p \<Rightarrow> p in
               sr_err (stage_loop env (hist @ [a]) ?p (sink @ rr_sink ?r) rest) = rr_err p \<and>
               sr_exit (stage_loop env (hist @ [a]) ?p (sink @ rr_sink ?r) rest) = rr_exit p \<and>
               sr_stdout (stage_loop env (hist @ [a]) ?p (sink @ rr_sink ?r) rest) = rr_stdout p \<and>
               sr_stderr (stage_loop env (hist @ [a]) ?p (sink @ rr_sink ?r) rest) = rr_stderr p)"
          by blast
        have pre': "\<forall>j < Suc n. rr_err (runOpOnce env (hist @ take j (a # rest)) ((a # rest) ! j)) \<noteq> None \<and>
            oe_ctx env (hist @ take (Suc j) (a # rest)) \<noteq> CtxDeadline"
          using pre failed intime by (auto simp: All_less_Suc2)
        have prim: "(case ?p of None \<Rightarrow> x | Some p \<Rightarrow> p) = (case primary of None \<Rightarrow> ?r | Some p \<Rightarrow> p)" for x
          by (simp split: option.splits)
        show ?thesis
          unfolding step using n pre' fin unfolding prim
          by (intro exI [of _ "Suc n"]) (simp add: Let_def del: not_None_eq split: if_split_asm option.split)
      qed
    qed
  qed
qed simp

text \<open>A stage ends with the first attempt that succeeds and reports that attempt; every earlier one failed. When none
  succeeds it reports the first attempt's output, exit code and error, whatever the fallbacks printed, and attempts are
  only skipped once the deadline has passed.\<close>

theorem runStage_first_success:
  fixes env hist
  assumes "attempts \<noteq> []"
  defines "res \<equiv> \<lambda>i. runOpOnce env (hist @ take i attempts) (attempts ! i)"
  defines "late \<equiv> \<lambda>i. oe_ctx env (hist @ take (Suc i) attempts) = CtxDeadline"
  defines "r \<equiv> runStage env hist attempts"
  shows "\<exists>n < length attempts. sr_hist r = hist @ take (Suc n) attempts \<and>
    (\<forall>j < n. rr_err (res j) \<noteq> None \<and> \<not> late j) \<and>
    (if rr_err (res n) = None
     then sr_err r = None \<and> sr_exit r = 0 \<and> sr_stdout r = rr_stdout (res n) \<and> sr_stderr r = rr_stderr (res n)
     else (Suc n = length attempts \<or> late n) \<and> sr_err r = rr_err (res 0) \<and> sr_exit r = rr_exit (res 0) \<and>
       sr_stdout r = rr_stdout (res 0) \<and> sr_stderr r = rr_stderr (res 0))"
  using stage_loop_spec [OF assms(1), of env hist None "[]"] unfolding assms(2-) runStage_def
  by (simp only: Let_def option.case)

definition demo_env :: op_env where
  "demo_env = \<lparr>oe_run = (\<lambda>_ a. if oa_command a = ''sudo'' then \<lparr>pr_events = [(StdoutStream, ''ok'')], pr_end = Exited 0\<rparr>
       else chatty), oe_ctx = (\<lambda>_. CtxOk), oe_now = (\<lambda>h. int (length h))\<rparr>"

definition demo_attempt :: "string \<Rightarrow> op_attempt" where
  "demo_attempt cmd = \<lparr>oa_command = cmd, oa_args = [''pull''], oa_cwd = [], oa_env = []\<rparr>"

theorem runStage_first_success_witness:
  "\<exists>n < length [demo_attempt ''podman'', demo_attempt ''sudo''].
     sr_hist (runStage demo_env [] [demo_attempt ''podman'', demo_attempt ''sudo'']) =
     [] @ take (Suc n) [demo_attempt ''podman'', demo_attempt ''sudo'']"
  using runStage_first_success [of "[demo_attempt ''podman'', demo_attempt ''sudo'']" demo_env "[]"] by blast

text \<open>The consequence for a stage with a fallback: an attempt that succeeded but printed past the capture limit in
  one read is followed by the fallback attempt, so the operation is carried out twice.\<close>

theorem chatty_success_reruns:
  assumes "pr_end (oe_run env hist a) = Exited 0" "overruns (chunks_of StdoutStream (pr_events (oe_run env hist a)))"
    and "oe_ctx env (hist @ [a]) \<noteq> CtxDeadline"
  shows "\<exists>more. sr_hist (runStage env hist (a # b # rest)) = hist @ [a, b] @ more"
proof -
  have "rr_err (runOpOnce env hist a) \<noteq> None"
    using assms(1,2) by (simp add: runOpOnce_def run_captured_streams run_error_of_def)
  then have eq: "runStage env hist (a # b # rest) =
      stage_loop env (hist @ [a]) (Some (runOpOnce env hist a)) (rr_sink (runOpOnce env hist a)) (b # rest)"
    using assms(3) by (simp add: runStage_def Let_def del: not_None_eq stage_loop.simps(2)) (simp add: Let_def del: not_None_eq)
  have again: "\<exists>more. sr_hist (stage_loop env h p sk (b # rest)) = h @ b # more" for h p sk
  proof -
    have "\<exists>more. sr_hist (stage_loop env (h @ [b]) p' sk' at) = h @ b # more" for p' sk' at
      using stage_loop_hist [of env "h @ [b]" p' sk' at] by auto
    then show ?thesis by (simp add: Let_def del: stage_loop.simps(1))
  qed
  show ?thesis
    using again [of "hist @ [a]" "Some (runOpOnce env hist a)" "rr_sink (runOpOnce env hist a)"]
    unfolding eq by (simp del: stage_loop.simps)
qed

theorem chatty_success_reruns_witness:
  "\<exists>more. sr_hist (runStage demo_env [] [demo_attempt ''podman'', demo_attempt ''sudo'']) =
     [demo_attempt ''podman'', demo_attempt ''sudo''] @ more"
  using chatty_success_reruns [of demo_env "[]" "demo_attempt ''podman''" "demo_attempt ''sudo''" "[]"] chatty_overruns
  by (simp add: demo_env_def demo_attempt_def) (simp add: chatty_def)

section \<open>The plan\<close>

text \<open>The plan a client sees: the labels with where each stage is.\<close>

definition plan_of :: "op_task \<Rightarrow> (string \<times> status) list" where
  "plan_of t = map (\<lambda>s. (ts_label s, ts_status s)) (t_stages t)"

definition same_rest :: "op_task \<Rightarrow> op_task \<Rightarrow> bool" where
  "same_rest t t' \<longleftrightarrow> t_status t' = t_status t \<and> t_done t' = t_done t \<and> t_id t' = t_id t \<and> t_finishedAt t' = t_finishedAt t"

lemma writes_keep: "plan_of (foldl task_Write t ps) = plan_of t \<and> same_rest t (foldl task_Write t ps)"
  by (induction ps arbitrary: t) (auto simp: plan_of_def same_rest_def task_Write_def Let_def)

lemma start_stage_at:
  assumes "map (\<lambda>s. (ts_label s, ts_status s)) ss = pre @ (l, Pending) # post" "l \<notin> fst ` set pre"
  shows "map (\<lambda>s. (ts_label s, ts_status s)) (start_stage now l ss) = pre @ (l, Running) # post"
  using assms
proof (induction pre arbitrary: ss)
  case Nil
  then show ?case by (cases ss) auto
next
  case (Cons q pre)
  then obtain s ss' where "ss = s # ss'" by (cases ss) auto
  with Cons show ?case by auto
qed

lemma finish_stage_at:
  assumes "map (\<lambda>s. (ts_label s, ts_status s)) ss = pre @ (l, Running) # post" "l \<notin> fst ` set pre"
  shows "map (\<lambda>s. (ts_label s, ts_status s)) (finish_stage now l ok ss) =
    pre @ (l, if ok then Succeeded else Failed) # post"
  using assms
proof (induction pre arbitrary: ss)
  case Nil
  then show ?case by (cases ss) auto
next
  case (Cons q pre)
  then obtain s ss' where "ss = s # ss'" by (cases ss) auto
  with Cons show ?case by auto
qed

lemma started_at:
  "plan_of t = pre @ (l, Pending) # post \<Longrightarrow> l \<notin> fst ` set pre \<Longrightarrow>
     plan_of (stageStarted now l t) = pre @ (l, Running) # post \<and> same_rest t (stageStarted now l t)"
  by (simp add: plan_of_def stageStarted_def start_stage_at same_rest_def)

lemma finished_at:
  "plan_of t = pre @ (l, Running) # post \<Longrightarrow> l \<notin> fst ` set pre \<Longrightarrow>
     plan_of (stageFinished now l ok t) = pre @ (l, if ok then Succeeded else Failed) # post \<and>
     same_rest t (stageFinished now l ok t)"
  by (simp add: plan_of_def stageFinished_def finish_stage_at same_rest_def)

lemma same_rest_trans: "same_rest t u \<Longrightarrow> same_rest u v \<Longrightarrow> same_rest t v"
  by (simp add: same_rest_def)

lemma step_plan:
  assumes t: "rs_task s = Some t" "plan_of t = pre @ (sp_label p, Pending) # post" "sp_label p \<notin> fst ` set pre"
    and ok: "rs_failure s = None"
  shows "\<exists>t'. rs_task (run_stage_step env p s) = Some t' \<and> same_rest t t' \<and>
    plan_of t' = pre @ (sp_label p, if rs_failure (run_stage_step env p s) = None then Succeeded else Failed) # post"
proof -
  define t1 where "t1 = stageStarted (oe_now env (rs_hist s)) (sp_label p) t"
  have p1: "plan_of t1 = pre @ (sp_label p, Running) # post" "same_rest t t1"
    using started_at [OF t(2,3)] by (auto simp: t1_def)
  have close: "plan_of (stageFinished now (sp_label p) b (foldl task_Write t1 ps)) =
      pre @ (sp_label p, if b then Succeeded else Failed) # post \<and>
      same_rest t (stageFinished now (sp_label p) b (foldl task_Write t1 ps))" for now b ps
  proof -
    have "plan_of (foldl task_Write t1 ps) = pre @ (sp_label p, Running) # post" "same_rest t1 (foldl task_Write t1 ps)"
      using writes_keep [of t1 ps] p1(1) by auto
    then show ?thesis using finished_at [OF _ t(3)] p1(2) same_rest_trans by metis
  qed
  have run: "rs_task (on_task (stageStarted (oe_now env (rs_hist s)) (sp_label p)) s) = Some t1"
    by (simp add: on_task_def t(1) t1_def)
  show ?thesis
  proof (cases "stage_attempts p (rs_hist s)")
    case (Inl e)
    then show ?thesis using close [of _ False "[]"] run ok
      by (simp add: run_stage_step_def Let_def t(1) t1_def)
  next
    case (Inr attempts)
    show ?thesis
    proof (cases attempts)
      case Nil
      then show ?thesis
        using Inr close [of _ True "[]"] close [of _ True "[trim_space (sp_idle p) @ [CHR 0x0A]]"] run ok
        by (simp add: run_stage_step_def Let_def t(1) t1_def)
    next
      case (Cons a rest)
      let ?r = "runStage env (rs_hist s) attempts"
      show ?thesis
      proof (cases "sr_err ?r")
        case None
        then show ?thesis using Inr Cons close [of _ True "sr_sink ?r"] run ok
          by (simp add: run_stage_step_def Let_def t(1) t1_def)
      next
        case (Some e)
        then show ?thesis using Inr Cons close [of _ False "sr_sink ?r"] run ok
          by (simp add: run_stage_step_def Let_def t(1) t1_def)
      qed
    qed
  qed
qed

text \<open>Where a run of the plan leaves it: some stages succeeded, at most one failed, the rest not reached.\<close>

definition stopped_plan :: "string list \<Rightarrow> bool \<Rightarrow> (string \<times> status) list \<Rightarrow> bool" where
  "stopped_plan labels ok plan \<longleftrightarrow>
     (if ok then plan = map (\<lambda>l. (l, Succeeded)) labels
      else \<exists>before l after. labels = before @ l # after \<and>
        plan = map (\<lambda>l. (l, Succeeded)) before @ (l, Failed) # map (\<lambda>l. (l, Pending)) after)"

lemma run_plan_stopped:
  assumes "rs_task s = Some t" "rs_failure s = None" "distinct (done @ map sp_label ps)"
    and "plan_of t = map (\<lambda>l. (l, Succeeded)) done @ map (\<lambda>p. (sp_label p, Pending)) ps"
  shows "\<exists>t'. rs_task (run_plan env ps s) = Some t' \<and> same_rest t t' \<and>
    stopped_plan (done @ map sp_label ps) (rs_failure (run_plan env ps s) = None) (plan_of t')"
  using assms
proof (induction ps arbitrary: s t "done")
  case Nil
  then show ?case by (simp add: stopped_plan_def same_rest_def)
next
  case (Cons p ps)
  let ?s = "run_stage_step env p s"
  have "plan_of t = map (\<lambda>l. (l, Succeeded)) done @ (sp_label p, Pending) # map (\<lambda>p. (sp_label p, Pending)) ps"
    and "sp_label p \<notin> fst ` set (map (\<lambda>l. (l, Succeeded)) done)"
    using Cons.prems(3,4) by auto
  from step_plan [OF Cons.prems(1) this Cons.prems(2)] obtain t' where t': "rs_task ?s = Some t'" "same_rest t t'"
    "plan_of t' = map (\<lambda>l. (l, Succeeded)) done @
       (sp_label p, if rs_failure ?s = None then Succeeded else Failed) # map (\<lambda>p. (sp_label p, Pending)) ps"
    by blast
  show ?case
  proof (cases "rs_failure ?s = None")
    case True
    have "\<exists>u. rs_task (run_plan env ps ?s) = Some u \<and> same_rest t' u \<and>
        stopped_plan ((done @ [sp_label p]) @ map sp_label ps) (rs_failure (run_plan env ps ?s) = None) (plan_of u)"
      using Cons.prems(3) t' True by (intro Cons.IH) simp_all
    then show ?thesis using True t'(2) same_rest_trans by (auto simp: Let_def)
  next
    case False
    then have "stopped_plan (done @ map sp_label (p # ps)) False (plan_of t')"
      using t'(3) unfolding stopped_plan_def by (auto simp: o_def intro!: exI [of _ "done"])
    moreover have "plan_of t' = map (\<lambda>l. (l, Succeeded)) done @ (sp_label p, Failed) # map (\<lambda>p. (sp_label p, Pending)) ps"
      using t'(3) False by simp
    moreover have "run_plan env (p # ps) s = ?s" using False by (simp add: Let_def)
    moreover have "(rs_failure ?s = None) = False" using False by blast
    ultimately show ?thesis using t'(1,2) by (simp del: not_None_eq)
  qed
qed


definition demo_stage :: "string \<Rightarrow> string \<Rightarrow> stage_plan" where
  "demo_stage l cmd = \<lparr>sp_label = l, sp_attempts = [demo_attempt cmd], sp_build = None, sp_idle = []\<rparr>"


text \<open>Every run of a plan is reported once: one audit line when auditing is on, one success or one failure counted,
  status 200 exactly when the response is ok and 504 only after the deadline, and a failure notification exactly for a
  failed run that is not a scheduled job's.\<close>

theorem runStages_reported:
  "(let out = runStages env audited published slug displayName source stages task; r = oo_response out in
    length (oo_audit out) = (if audited then 1 else 0) \<and>
    (\<forall>a \<in> set (oo_audit out). or_name a = slug \<and> or_source a = source \<and> or_ok a = xr_ok r \<and> length (or_error a) \<le> 512) \<and>
    oo_successes out = (if xr_ok r then 1 else 0) \<and> oo_failures out = (if xr_ok r then 0 else 1) \<and>
    (oo_status out = 200 \<longleftrightarrow> xr_ok r) \<and>
    (oo_status out = 504 \<longleftrightarrow> \<not> xr_ok r \<and> oe_ctx env (oo_hist out) = CtxDeadline) \<and>
    (xr_ok r \<longrightarrow> xr_exit r = 0) \<and>
    (oo_notified out \<noteq> None \<longleftrightarrow> \<not> xr_ok r \<and> source \<noteq> ''job'' \<and> published) \<and>
    (\<forall>n. oo_notified out = Some n \<longrightarrow> length (snd n) \<le> 4096))"
proof -
  have tail: "length (auditErrorTail r) \<le> 512" for r by (simp add: auditErrorTail_def Let_def)
  have body: "length (failure_body r) \<le> 4096" for r by (simp add: failure_body_def Let_def)
  show ?thesis
    using tail body
    by (auto simp: runStages_def Let_def publishFailure_def http_StatusOK_def http_StatusBadGateway_def
        http_StatusGatewayTimeout_def)
qed

theorem runStages_reported_witness:
  "length (oo_audit (runStages demo_env True True ''container.pull'' ''Pull'' ''http'' [demo_stage ''pull'' ''sudo''] None)) = 1"
  using runStages_reported [where env = demo_env and audited = True and published = True and slug = "''container.pull''"
      and displayName = "''Pull''" and source = "''http''" and stages = "[demo_stage ''pull'' ''sudo'']" and task = None]
  by (simp add: Let_def)

text \<open>The failure text of the audit log and of a failed task is the beginning of the error output, cut after 512
  bytes, not its tail as the comment on \<open>auditErrorTail\<close> says: of a long error output the last bytes are never in it.\<close>

theorem auditErrorTail_is_head:
  assumes "xr_error r = []" "512 < length (xr_stderr r)"
  shows "auditErrorTail r = take 512 (xr_stderr r) \<and> length (auditErrorTail r) = 512 \<and>
    auditErrorTail (r\<lparr>xr_stderr := take 512 (xr_stderr r) @ rest\<rparr>) = auditErrorTail r"
  using assms by (auto simp: auditErrorTail_def Let_def)

theorem auditErrorTail_is_head_witness:
  "\<exists>r. 512 < length (xr_stderr r) \<and> auditErrorTail r = replicate 512 (CHR ''a'')"
proof -
  let ?r = "\<lparr>xr_ok = False, xr_name = [], xr_exit = 1, xr_stdout = [],
    xr_stderr = replicate 512 (CHR ''a'') @ ''fatal: no space left'', xr_error = []\<rparr>"
  have "auditErrorTail ?r = take 512 (xr_stderr ?r)"
    using auditErrorTail_is_head [of ?r "[]"] by simp
  then have "auditErrorTail ?r = replicate 512 (CHR ''a'')" by (simp del: replicate.simps)
  moreover have "512 < length (xr_stderr ?r)" by simp
  ultimately show ?thesis by blast
qed

end
