(* ===== verification/Webhook_Exec.thy ===== *)
theory Webhook_Exec
  imports Ops_Run Go_Path
begin

text \<open>
  \<open>WebhookExecutor\<close> of \<open>internal/daemon/webhook.go\<close>: who may run a hook, the command it becomes,
  the script that is rendered for it, and what a run reports. SHA-256, the JSON reader and the
  processes are arguments.
\<close>

section \<open>Hooks and credentials\<close>

record hook =
  hk_name :: string
  hk_displayName :: string
  hk_enabled :: bool
  hk_secret :: string
  hk_command :: string
  hk_args :: "string list"
  hk_cwd :: string
  hk_env :: "string list"
  hk_user :: string
  hk_script :: bool
  hk_timeout :: time

record hook_tables =
  ht_hooks :: "(string \<times> hook) list"
  ht_actions :: "(string \<times> hook) list"

text \<open>\<open>SetHooks\<close>: an action is a hook too, and shadows a webhook of its name.\<close>

definition put_hook :: "(string \<times> hook) list \<Rightarrow> hook \<Rightarrow> (string \<times> hook) list" where
  "put_hook m h = put (hk_name h) h m"

definition SetHooks :: "hook list \<Rightarrow> hook list \<Rightarrow> hook_tables" where
  "SetHooks webhooks actions =
     \<lparr>ht_hooks = foldl put_hook (foldl put_hook [] webhooks) actions, ht_actions = foldl put_hook [] actions\<rparr>"

text \<open>\<open>mac\<close> is the lower-case hex HMAC-SHA256 of a body under a key.\<close>

definition signatureValid :: "(string \<Rightarrow> bytes \<Rightarrow> string) \<Rightarrow> string \<Rightarrow> bytes \<Rightarrow> string \<Rightarrow> bool" where
  "signatureValid mac secret body provided =
     (if secret = [] \<or> provided = [] then False else mac secret body = trim_space provided)"

definition bearerSecret :: "string \<Rightarrow> string option" where
  "bearerSecret header =
     (let value = trim_space header in
      if length value < 7 \<or> to_lower (take 7 value) \<noteq> ''bearer '' then None
      else (let secret = trim_space (drop 7 value) in if secret = [] then None else Some secret))"

definition authorizedRequest :: "string \<Rightarrow> string \<Rightarrow> bool" where
  "authorizedRequest header expected =
     (case bearerSecret header of None \<Rightarrow> False
      | Some secret \<Rightarrow> trim_space expected \<noteq> [] \<and> secret = expected)"

section \<open>Scripts\<close>

definition re_space :: "char \<Rightarrow> bool" where
  "re_space c \<longleftrightarrow> byte c \<in> {9, 10, 12, 13, 32}"

definition brace :: "char \<Rightarrow> bool" where
  "brace c \<longleftrightarrow> c = CHR ''{'' \<or> c = CHR ''}''"

text \<open>
  The group of \<open>{{\s*([^{}]+?)\s*}}\<close>: what is between the braces without the white space around
  it, or its last character when it is nothing but white space.
\<close>

definition group_of :: "string \<Rightarrow> string" where
  "group_of inner =
     (let core = rev (dropWhile re_space (rev (dropWhile re_space inner)))
      in if core = [] then [last inner] else core)"

text \<open>A placeholder at the head of the text: its name and what follows it.\<close>

definition placeholder :: "string \<Rightarrow> (string \<times> string) option" where
  "placeholder s =
     (if has_prefix ''{{'' s then
        (let inner = takeWhile (\<lambda>c. \<not> brace c) (drop 2 s);
             rest = dropWhile (\<lambda>c. \<not> brace c) (drop 2 s)
         in if inner \<noteq> [] \<and> has_prefix ''}}'' rest then Some (group_of inner, drop 2 rest) else None)
      else None)"

lemma placeholder_shorter: "placeholder s = Some (n, rest) \<Longrightarrow> length rest < length s"
proof -
  assume "placeholder s = Some (n, rest)"
  then have s: "has_prefix ''{{'' s" and rest: "rest = drop 2 (dropWhile (\<lambda>c. \<not> brace c) (drop 2 s))"
    by (auto simp: placeholder_def Let_def split: if_splits)
  have "length (dropWhile (\<lambda>c. \<not> brace c) (drop 2 s)) \<le> length (drop 2 s)" by (rule length_dropWhile_le)
  moreover have "0 < length s" using s by (auto simp: has_prefix_def)
  ultimately show ?thesis unfolding rest length_drop by linarith
qed

text \<open>\<open>ReplaceAllStringFunc\<close>: the text with its placeholders replaced, and the missing names.\<close>

function substitute :: "(string \<Rightarrow> string option) \<Rightarrow> string \<Rightarrow> string \<times> string list" where
  "substitute values [] = ([], [])"
| "substitute values (c # cs) =
     (case placeholder (c # cs) of
        Some (name, rest) \<Rightarrow>
          (let (out, missing) = substitute values rest in
           case values name of
             Some v \<Rightarrow> (v @ out, missing)
           | None \<Rightarrow> (take (length (c # cs) - length rest) (c # cs) @ out, name # missing))
      | None \<Rightarrow> (let (out, missing) = substitute values cs in (c # out, missing)))"
  by pat_completeness auto

termination
  by (relation "measure (\<lambda>(_, s). length s)") (auto dest: placeholder_shorter)

record exec_env =
  ee_readFile :: "string \<Rightarrow> string + bytes"
  ee_json :: "bytes \<Rightarrow> string \<Rightarrow> string option" \<comment> \<open>the values of a JSON object, rendered\<close>
  ee_mkdir :: "string \<Rightarrow> string option"
  ee_createTemp :: "string \<Rightarrow> string + string"
  ee_writeTemp :: "string option"
  ee_chmodTemp :: "string option"
  ee_closeTemp :: "string option"
  ee_proc :: "string list \<Rightarrow> string \<Rightarrow> string list \<Rightarrow> bytes \<Rightarrow> bytes option \<Rightarrow> time option \<Rightarrow> proc_run \<times> bool"
    \<comment> \<open>argv, directory, extra environment, standard input, rendered script, timeout; whether it ran out of time\<close>

datatype script_error = ScriptUnread string | ScriptMissing "string list"

definition substituteScriptTemplate :: "exec_env \<Rightarrow> string \<Rightarrow> bytes \<Rightarrow> script_error + bytes" where
  "substituteScriptTemplate env scriptPath body =
     (case ee_readFile env scriptPath of
        Inl e \<Rightarrow> Inl (ScriptUnread e)
      | Inr source \<Rightarrow>
          (let values = (if trim_space body \<noteq> [] then ee_json env body else (\<lambda>_. None));
               (out, missing) = substitute values source
           in if missing \<noteq> [] then Inl (ScriptMissing missing) else Inr out))"

fun escape_quotes :: "string \<Rightarrow> string" where
  "escape_quotes [] = []"
| "escape_quotes (c # cs) = (if c = CHR 0x27 then [CHR 0x27, CHR 0x5C, CHR 0x27, CHR 0x27] else [c]) @ escape_quotes cs"

definition cd_line :: "string \<Rightarrow> string" where
  "cd_line cwd = ''cd -- '' @ [CHR 0x27] @ escape_quotes cwd @ [CHR 0x27, CHR 0x0A]"

definition prependWorkingDirectory :: "string \<Rightarrow> bytes \<Rightarrow> bytes" where
  "prependWorkingDirectory cwd script =
     (let line = cd_line cwd in
      if has_prefix ''#!'' script then
        (if CHR 0x0A \<in> set script
         then takeWhile (\<lambda>c. c \<noteq> CHR 0x0A) script @ [CHR 0x0A] @ line @ tl (dropWhile (\<lambda>c. c \<noteq> CHR 0x0A) script)
         else script @ [CHR 0x0A] @ line)
      else line @ script)"

datatype render_error = RunDirFailed string | CreateFailed string | WriteFailed string | ChmodFailed string | CloseFailed string

text \<open>
  The temporary files created, and the rendered script's name or the error. Every error after the
  file was created removes it.
\<close>

definition renderScriptTemp :: "exec_env \<Rightarrow> hook \<Rightarrow> string list \<times> (render_error + string)" where
  "renderScriptTemp env h =
     (let dir = (if hk_user h = [] then [] else path_join (path_dir (hk_command h)) ''run'') in
      case (if hk_user h = [] then None else ee_mkdir env dir) of
        Some e \<Rightarrow> ([], Inl (RunDirFailed e))
      | None \<Rightarrow>
      (case ee_createTemp env dir of
        Inl e \<Rightarrow> ([], Inl (CreateFailed e))
      | Inr name \<Rightarrow>
      ([name],
       case ee_writeTemp env of Some e \<Rightarrow> Inl (WriteFailed e) | None \<Rightarrow>
      (case ee_chmodTemp env of Some e \<Rightarrow> Inl (ChmodFailed e) | None \<Rightarrow>
      (case ee_closeTemp env of Some e \<Rightarrow> Inl (CloseFailed e) | None \<Rightarrow> Inr name)))))"

section \<open>The command\<close>

record run_command =
  rc_argv :: "string list"
  rc_dir :: string
  rc_env :: "string list"

definition buildRunCommand :: "hook \<Rightarrow> string \<Rightarrow> string list \<Rightarrow> run_command" where
  "buildRunCommand h command args =
     (if hk_user h = [] then
        \<lparr>rc_argv = command # args, rc_dir = (if hk_cwd h = [] then ''/'' else hk_cwd h), rc_env = hk_env h\<rparr>
      else
        \<lparr>rc_argv = [''sudo'', ''-H'', ''-u'', hk_user h] @ hk_env h @ [command] @ args,
         rc_dir = (if \<not> hk_script h \<and> hk_cwd h \<noteq> [] then hk_cwd h else []), rc_env = []\<rparr>)"

section \<open>A run\<close>

datatype exec_error = ScriptError script_error | RenderError render_error

record exec_outcome =
  xo_response :: exec_response
  xo_status :: nat
  xo_ran :: "run_command option"
  xo_removed :: "string list" \<comment> \<open>temporary scripts removed again\<close>
  xo_created :: "string list"
  xo_audit :: "exec_response list"
  xo_successes :: nat
  xo_failures :: nat
  xo_completed :: "(bool \<times> int) option"

definition rejected_response :: exec_response where
  "rejected_response = \<lparr>xr_ok = False, xr_name = [], xr_exit = 0, xr_stdout = [], xr_stderr = [], xr_error = []\<rparr>"

definition error_response :: "hook \<Rightarrow> string \<Rightarrow> exec_response" where
  "error_response h text = \<lparr>xr_ok = False, xr_name = hk_name h, xr_exit = 0, xr_stdout = [], xr_stderr = [], xr_error = text\<rparr>"

definition effective_timeout :: "time \<Rightarrow> hook \<Rightarrow> time option" where
  "effective_timeout scriptTimeout h =
     (let t = (if hk_timeout h > 0 then hk_timeout h else scriptTimeout) in if t \<le> 0 then None else Some t)"

definition stopped_early :: "bool \<Rightarrow> exec_response \<Rightarrow> nat \<Rightarrow> string list \<Rightarrow> exec_outcome" where
  "stopped_early audited r status temps =
     \<lparr>xo_response = r, xo_status = status, xo_ran = None, xo_removed = temps, xo_created = temps,
      xo_audit = (if audited then [r] else []), xo_successes = 0, xo_failures = 0, xo_completed = None\<rparr>"

text \<open>\<open>cmd.Run\<close> and the report, for the command to run and the temporary script to remove after it.\<close>

definition run_hook_command ::
  "exec_env \<Rightarrow> bool \<Rightarrow> bool \<Rightarrow> time \<Rightarrow> hook \<Rightarrow> bytes \<Rightarrow> string \<Rightarrow> bytes option
     \<Rightarrow> string list \<Rightarrow> exec_outcome" where
  "run_hook_command env audited notified scriptTimeout h body command script temps =
     (let cmd = buildRunCommand h command (hk_args h);
          (proc, timedOut) = ee_proc env (rc_argv cmd) (rc_dir cmd) (rc_env cmd) body script
            (effective_timeout scriptTimeout h);
          res = run_captured proc; ok = (rr_err res = None);
          r = \<lparr>xr_ok = ok, xr_name = hk_name h, xr_exit = rr_exit res, xr_stdout = rr_stdout res,
               xr_stderr = rr_stderr res, xr_error = []\<rparr>
      in \<lparr>xo_response = r,
          xo_status = (if ok then http_StatusOK else if timedOut then http_StatusGatewayTimeout else http_StatusBadGateway),
          xo_ran = Some cmd, xo_removed = temps, xo_created = temps, xo_audit = (if audited then [r] else []),
          xo_successes = (if ok then 1 else 0), xo_failures = (if ok then 0 else 1),
          xo_completed = (if notified then Some (ok, rr_exit res) else None)\<rparr>)"

definition script_error_text :: "script_error \<Rightarrow> string" where
  "script_error_text e =
     (case e of ScriptUnread m \<Rightarrow> ''read action script: '' @ m
      | ScriptMissing ns \<Rightarrow> ''action requires '' @ join_with '', '' ns)"

definition render_error_text :: "render_error \<Rightarrow> string" where
  "render_error_text e =
     (case e of RunDirFailed m \<Rightarrow> ''create runtime script directory: '' @ m
      | CreateFailed m \<Rightarrow> ''create runtime script: '' @ m
      | WriteFailed m \<Rightarrow> ''write runtime script: '' @ m
      | ChmodFailed m \<Rightarrow> ''chmod runtime script: '' @ m
      | CloseFailed m \<Rightarrow> ''close runtime script: '' @ m)"

definition execute ::
  "exec_env \<Rightarrow> bool \<Rightarrow> bool \<Rightarrow> time \<Rightarrow> bool \<Rightarrow> hook \<Rightarrow> bytes \<Rightarrow> exec_outcome" where
  "execute env audited notified scriptTimeout slot h body =
     (if \<not> slot then stopped_early False rejected_response http_StatusTooManyRequests []
      else if hk_script h then
        (case substituteScriptTemplate env (hk_command h) body of
           Inl e \<Rightarrow> stopped_early audited (error_response h (script_error_text e)) 400 []
         | Inr script0 \<Rightarrow>
             (let script = (if hk_cwd h \<noteq> [] \<and> hk_user h \<noteq> [] then prependWorkingDirectory (hk_cwd h) script0 else script0) in
              case renderScriptTemp env h of
                (temps, Inl e) \<Rightarrow> stopped_early audited (error_response h (render_error_text e)) 500 temps
              | (temps, Inr rendered) \<Rightarrow>
                  run_hook_command env audited notified scriptTimeout h body rendered (Some script) temps))
      else run_hook_command env audited notified scriptTimeout h body (hk_command h) None [])"

section \<open>The ways in\<close>

datatype refusal = Refused nat string

definition run_http ::
  "exec_env \<Rightarrow> (string \<Rightarrow> bytes \<Rightarrow> string) \<Rightarrow> bool \<Rightarrow> bool \<Rightarrow> time \<Rightarrow> int \<Rightarrow> hook_tables \<Rightarrow> bool \<Rightarrow> string
     \<Rightarrow> string + bytes \<Rightarrow> string \<Rightarrow> refusal + exec_outcome" where
  "run_http env mac audited notified scriptTimeout maxBody tables slot name input signature =
     (case map_of (ht_hooks tables) name of
        None \<Rightarrow> Inl (Refused 404 ''not found'')
      | Some h \<Rightarrow>
          if \<not> hk_enabled h then Inl (Refused 404 ''not found'')
          else (case input of
                  Inl _ \<Rightarrow> Inl (Refused 400 ''read request body'')
                | Inr full \<Rightarrow>
                    (let body = take (nat (maxBody + 1)) full in
                     if int (length body) > maxBody then Inl (Refused 413 ''request body too large'')
                     else if \<not> signatureValid mac (hk_secret h) body signature then Inl (Refused 401 ''unauthorized'')
                     else (let out = execute env audited notified scriptTimeout slot h body in
                           if xo_status out = http_StatusTooManyRequests
                           then Inl (Refused http_StatusTooManyRequests ''too many concurrent runs'') else Inr out))))"

definition ExecuteWebhook ::
  "exec_env \<Rightarrow> (string \<Rightarrow> bytes \<Rightarrow> string) \<Rightarrow> bool \<Rightarrow> bool \<Rightarrow> time \<Rightarrow> hook_tables \<Rightarrow> bool \<Rightarrow> string \<Rightarrow> bytes \<Rightarrow> string
     \<Rightarrow> nat + exec_outcome" where
  "ExecuteWebhook env mac audited notified scriptTimeout tables slot name body signature =
     (case map_of (ht_hooks tables) name of
        None \<Rightarrow> Inl 404
      | Some h \<Rightarrow>
          if \<not> hk_enabled h then Inl 404
          else if hk_secret h \<noteq> [] \<and> \<not> signatureValid mac (hk_secret h) body signature then Inl 401
          else Inr (execute env audited notified scriptTimeout slot h body))"

definition RunAction ::
  "exec_env \<Rightarrow> bool \<Rightarrow> bool \<Rightarrow> time \<Rightarrow> int \<Rightarrow> hook_tables \<Rightarrow> bool \<Rightarrow> string \<Rightarrow> bytes \<Rightarrow> refusal + exec_outcome" where
  "RunAction env audited notified scriptTimeout maxBody tables slot name body =
     (if int (length body) > maxBody then Inl (Refused 413 ''request body too large'')
      else (case map_of (ht_actions tables) name of
              None \<Rightarrow> Inl (Refused 404 ''not found'')
            | Some h \<Rightarrow>
                if \<not> hk_enabled h then Inl (Refused 404 ''not found'')
                else (let out = execute env audited notified scriptTimeout slot h body in
                      if xo_status out = http_StatusTooManyRequests
                      then Inl (Refused http_StatusTooManyRequests ''too many concurrent runs'') else Inr out)))"

section \<open>Who may run a hook\<close>

text \<open>C8: Over HTTP a command is only run for an enabled hook whose own secret is not empty, for the exact
  body that was signed with it, and within the body limit; whatever else is sent, nothing runs and the
  answer is 404, 400, 413, 401 or 429.\<close>

theorem run_http_authenticated:
  "case run_http env mac audited notified tmo maxBody tables slot name input sig of
     Inr out \<Rightarrow> (\<exists>h full. map_of (ht_hooks tables) name = Some h \<and> hk_enabled h \<and> input = Inr full \<and> int (length full) \<le> maxBody \<and>
        hk_secret h \<noteq> [] \<and> mac (hk_secret h) full = trim_space sig \<and> slot \<and> out = execute env audited notified tmo slot h full)
   | Inl (Refused code _) \<Rightarrow> code \<in> {404, 400, 413, 401, 429}"
proof (cases "\<exists>h full. map_of (ht_hooks tables) name = Some h \<and> hk_enabled h \<and> input = Inr full \<and> int (length full) \<le> maxBody \<and>
    signatureValid mac (hk_secret h) full sig")
  case False
  have cut: "int (length (take (nat (maxBody + 1)) full)) \<le> maxBody \<Longrightarrow>
      take (nat (maxBody + 1)) full = full \<and> int (length full) \<le> maxBody" for full :: bytes
    by (simp add: min_def split: if_split_asm)
  show ?thesis using False cut
    by (auto simp: run_http_def Let_def http_StatusTooManyRequests_def split: option.splits sum.splits if_splits)
next
  case True
  then obtain h full where h: "map_of (ht_hooks tables) name = Some h" "hk_enabled h" "input = Inr full"
    "int (length full) \<le> maxBody" "signatureValid mac (hk_secret h) full sig" by blast
  have full: "take (nat (maxBody + 1)) full = full" using h(4) by simp
  have slotless: "\<not> slot \<Longrightarrow> xo_status (execute env audited notified tmo slot h full) = http_StatusTooManyRequests"
    by (simp add: execute_def stopped_early_def)
  show ?thesis
  proof (cases "xo_status (execute env audited notified tmo slot h full) = http_StatusTooManyRequests")
    case True
    then show ?thesis using h full by (simp add: run_http_def Let_def http_StatusTooManyRequests_def)
  next
    case False
    then have "run_http env mac audited notified tmo maxBody tables slot name input sig =
        Inr (execute env audited notified tmo slot h full)"
      using h full by (simp add: run_http_def Let_def)
    moreover have slot using slotless False by blast
    moreover have "hk_secret h \<noteq> []" "mac (hk_secret h) full = trim_space sig"
      using h(5) by (auto simp: signatureValid_def split: if_splits)
    ultimately show ?thesis using h by auto
  qed
qed

section \<open>What a run reports\<close>

lemma run_hook_command_report:
  "let out = run_hook_command env audited notified tmo h body command script temps in
    xo_status out \<in> {200, 502, 504} \<and> (xo_status out = 200 \<longleftrightarrow> xr_ok (xo_response out)) \<and>
    xo_successes out + xo_failures out = 1 \<and> (xo_successes out = 1 \<longleftrightarrow> xr_ok (xo_response out)) \<and>
    xo_removed out = temps \<and> xo_created out = temps \<and>
    xo_audit out = (if audited then [xo_response out] else []) \<and> xr_name (xo_response out) = hk_name h \<and>
    xo_ran out = Some (buildRunCommand h command (hk_args h)) \<and>
    length (xr_stdout (xo_response out)) \<le> captureLimit \<and> length (xr_stderr (xo_response out)) \<le> captureLimit"
  by (auto simp: run_hook_command_def Let_def http_StatusOK_def http_StatusBadGateway_def http_StatusGatewayTimeout_def
      run_captured_streams split: prod.splits)

text \<open>Every execution is reported once, with the response that is returned, and a run that got no slot is neither
  reported nor counted; the counters move only for commands that were started, one per run, by whether the response
  is ok; and every temporary script that was created has been removed again when the run is over.\<close>

theorem execute_reported:
  "(let out = execute env audited notified tmo slot h body; r = xo_response out in
    xo_removed out = xo_created out \<and>
    xo_audit out = (if audited \<and> slot then [r] else []) \<and>
    (xo_status out = 429 \<longleftrightarrow> \<not> slot) \<and>
    xo_successes out + xo_failures out = (if xo_ran out = None then 0 else 1) \<and>
    (xr_ok r \<longleftrightarrow> xo_successes out = 1) \<and> (xo_status out = 200 \<longleftrightarrow> xr_ok r) \<and>
    (xo_ran out = None \<longleftrightarrow> xo_status out \<in> {429, 400, 500}))"
proof (cases slot)
  case False
  then show ?thesis
    by (simp add: execute_def stopped_early_def rejected_response_def http_StatusTooManyRequests_def Let_def)
next
  case True
  have run: "let out = run_hook_command env audited notified tmo h body command script temps; r = xo_response out in
    xo_removed out = xo_created out \<and> xo_audit out = (if audited \<and> slot then [r] else []) \<and>
    (xo_status out = 429 \<longleftrightarrow> \<not> slot) \<and> xo_successes out + xo_failures out = (if xo_ran out = None then 0 else 1) \<and>
    (xr_ok r \<longleftrightarrow> xo_successes out = 1) \<and> (xo_status out = 200 \<longleftrightarrow> xr_ok r) \<and>
    (xo_ran out = None \<longleftrightarrow> xo_status out \<in> {429, 400, 500})" for command script temps
    using run_hook_command_report [of env audited notified tmo h body command script temps] True by (auto simp: Let_def)
  show ?thesis
  proof (cases "hk_script h")
    case script: True
    show ?thesis
    proof (cases "substituteScriptTemplate env (hk_command h) body")
      case (Inl e)
      then show ?thesis using True script by (simp add: execute_def stopped_early_def error_response_def Let_def)
    next
      case (Inr source)
      obtain temps res where rt: "renderScriptTemp env h = (temps, res)" by fastforce
      show ?thesis
      proof (cases res)
        case (Inl e)
        then show ?thesis using True script Inr rt by (simp add: execute_def stopped_early_def error_response_def Let_def)
      next
        case rendered: (Inr path)
        then show ?thesis using True script Inr rt run by (simp add: execute_def Let_def)
      qed
    qed
  next
    case False
    then show ?thesis using True run by (simp add: execute_def Let_def)
  qed
qed

section \<open>The rendered script\<close>

text \<open>The reading of one word by a POSIX shell, inside and outside single quotes.\<close>

fun sh_word :: "bool \<Rightarrow> string \<Rightarrow> string \<times> string" where
  "sh_word q [] = ([], [])"
| "sh_word True (c # cs) =
     (if c = CHR 0x27 then sh_word False cs else (let (w, r) = sh_word True cs in (c # w, r)))"
| "sh_word False [c] = (if c = CHR 0x0A \<or> c = CHR '' '' then ([], [c]) else if c = CHR 0x27 then ([], []) else ([c], []))"
| "sh_word False (c # d # cs) =
     (if c = CHR 0x0A \<or> c = CHR '' '' then ([], c # d # cs)
      else if c = CHR 0x27 then sh_word True (d # cs)
      else if c = CHR 0x5C then (let (w, r) = sh_word False cs in (d # w, r))
      else (let (w, r) = sh_word False (d # cs) in (c # w, r)))"

lemma sh_word_quoted: "sh_word True (escape_quotes s @ CHR 0x27 # CHR 0x0A # rest) = (s, CHR 0x0A # rest)"
proof (induction s)
  case Nil
  then show ?case by (cases rest) auto
next
  case (Cons c s)
  show ?case
  proof (cases "c = CHR 0x27")
    case True
    have "escape_quotes s @ CHR 0x27 # CHR 0x0A # rest \<noteq> []" by simp
    then obtain x xs where "escape_quotes s @ CHR 0x27 # CHR 0x0A # rest = x # xs" by (cases "escape_quotes s") auto
    then show ?thesis using Cons.IH True by simp
  next
    case False
    then show ?thesis using Cons.IH by simp
  qed
qed

text \<open>The working-directory line is put in front of the script's body and after its shebang, changing nothing
  else, and a POSIX shell reads back from it exactly the configured directory, whatever characters it holds.\<close>

theorem prependWorkingDirectory_faithful:
  "(\<exists>head tail. prependWorkingDirectory cwd script = head @ cd_line cwd @ tail \<and>
      (head @ tail = script \<or> head @ tail = script @ [CHR 0x0A]) \<and>
      (has_prefix ''#!'' script \<longrightarrow> has_prefix ''#!'' head \<and> last head = CHR 0x0A) \<and>
      (\<not> has_prefix ''#!'' script \<longrightarrow> head = [])) \<and>
   sh_word False (drop 6 (cd_line cwd) @ rest) = (cwd, CHR 0x0A # rest)"
proof -
  have word: "sh_word False (drop 6 (cd_line cwd) @ rest) = (cwd, CHR 0x0A # rest)"
    using sh_word_quoted [of cwd rest]
    by (cases "escape_quotes cwd") (auto simp: cd_line_def numeral_eq_Suc)
  let ?nl = "\<lambda>c. c \<noteq> CHR 0x0A"
  consider (line) "has_prefix ''#!'' script" "CHR 0x0A \<in> set script"
    | (bare) "has_prefix ''#!'' script" "CHR 0x0A \<notin> set script" | (plain) "\<not> has_prefix ''#!'' script" by blast
  then show ?thesis
  proof cases
    case line
    have "dropWhile ?nl script \<noteq> []" using line(2) by (simp add: dropWhile_eq_Nil_conv)
    then obtain tail where t: "dropWhile ?nl script = CHR 0x0A # tail"
      using hd_dropWhile [of ?nl script] by (cases "dropWhile ?nl script") auto
    let ?head = "takeWhile ?nl script @ [CHR 0x0A]"
    have s: "script = ?head @ tail" using takeWhile_dropWhile_id [of ?nl script] t by simp
    have "take 2 script = ''#!''" using line(1) by (simp add: has_prefix_def numeral_2_eq_2)
    then obtain more where m: "script = ''#!'' @ more" using append_take_drop_id [of 2 script] by metis
    then have "has_prefix ''#!'' ?head" by (simp add: has_prefix_def)
    then show ?thesis using line t s word
      by (intro conjI exI [of _ ?head] exI [of _ tail]) (simp_all add: prependWorkingDirectory_def Let_def)
  next
    case bare
    have "take 2 script = ''#!''" using bare(1) by (simp add: has_prefix_def numeral_2_eq_2)
    then obtain more where "script = ''#!'' @ more" using append_take_drop_id [of 2 script] by metis
    then have "has_prefix ''#!'' (script @ [CHR 0x0A])" by (simp add: has_prefix_def)
    then show ?thesis using bare word
      by (intro conjI exI [of _ "script @ [CHR 0x0A]"] exI [of _ "[]"]) (simp_all add: prependWorkingDirectory_def Let_def)
  next
    case plain
    then show ?thesis using word
      by (intro conjI exI [of _ "[]"] exI [of _ script]) (simp_all add: prependWorkingDirectory_def Let_def)
  qed
qed

theorem prependWorkingDirectory_faithful_witness:
  "sh_word False (drop 6 (cd_line [CHR ''a'', CHR 0x27, CHR ''b'']) @ ''x'') = ([CHR ''a'', CHR 0x27, CHR ''b''], CHR 0x0A # ''x'')"
  using prependWorkingDirectory_faithful [of "[CHR ''a'', CHR 0x27, CHR ''b'']" "[]" "''x''"] by blast

section \<open>Templates\<close>

text \<open>
  The reference reading of a script: its text cut into plain characters and placeholders, each
  placeholder with its source text.
\<close>

datatype token = Plain char | Hole string string

function tokens :: "string \<Rightarrow> token list" where
  "tokens [] = []"
| "tokens (c # cs) =
     (case placeholder (c # cs) of
        Some (name, rest) \<Rightarrow> Hole name (take (length (c # cs) - length rest) (c # cs)) # tokens rest
      | None \<Rightarrow> Plain c # tokens cs)"
  by pat_completeness auto

termination
  by (relation "measure length") (auto dest: placeholder_shorter)

primrec token_source :: "token \<Rightarrow> string" where
  "token_source (Plain c) = [c]"
| "token_source (Hole name src) = src"

primrec fill :: "(string \<Rightarrow> string option) \<Rightarrow> token \<Rightarrow> string" where
  "fill values (Plain c) = [c]"
| "fill values (Hole name src) = (case values name of Some v \<Rightarrow> v | None \<Rightarrow> src)"

definition holes :: "token list \<Rightarrow> string list" where
  "holes ts = concat (map (\<lambda>t. case t of Plain _ \<Rightarrow> [] | Hole name _ \<Rightarrow> [name]) ts)"

lemma placeholder_suffix:
  assumes "placeholder s = Some (name, rest)"
  shows "s = take (length s - length rest) s @ rest"
proof -
  have "rest = drop 2 (dropWhile (\<lambda>c. \<not> brace c) (drop 2 s))"
    using assms by (auto simp: placeholder_def Let_def split: if_splits)
  moreover have "\<exists>n. dropWhile (\<lambda>c. \<not> brace c) (drop 2 s) = drop n (drop 2 s)" by (metis dropWhile_eq_drop)
  ultimately obtain n where "rest = drop n s" by (metis drop_drop)
  then show ?thesis by (metis append_take_drop_id diff_diff_cancel drop_all length_drop linear nat_le_linear
        append_Nil2 diff_zero list.size(3) take_all)
qed

text \<open>Substitution is the filling of the script's placeholders and of nothing else: the source is its plain characters
  and placeholders in order, the result replaces each placeholder by its value, and the missing names are exactly the
  placeholders the request has no value for, so a script is only run when every one of them was filled.\<close>

theorem substitute_fills:
  "concat (map token_source (tokens s)) = s \<and>
   substitute values s = (concat (map (fill values) (tokens s)), filter (\<lambda>n. values n = None) (holes (tokens s))) \<and>
   (\<forall>env path body out. substituteScriptTemplate env path body = Inr out \<and> ee_readFile env path = Inr s \<longrightarrow>
      (\<exists>vs. out = concat (map (fill vs) (tokens s)) \<and> (\<forall>n \<in> set (holes (tokens s)). vs n \<noteq> None)))"
proof -
  have src: "concat (map token_source (tokens s)) = s" for s
  proof (induction s rule: tokens.induct)
    case (2 c cs)
    show ?case
    proof (cases "placeholder (c # cs)")
      case None
      then show ?thesis using "2.IH" by simp
    next
      case (Some p)
      obtain name rest where p: "p = (name, rest)" by fastforce
      have ph: "placeholder (c # cs) = Some (name, rest)" using Some p by simp
      have ih: "concat (map token_source (tokens rest)) = rest" using "2.IH"(2) [OF Some p [symmetric]] .
      have "tokens (c # cs) = Hole name (take (length (c # cs) - length rest) (c # cs)) # tokens rest"
        by (subst tokens.simps(2)) (simp only: ph option.case prod.case)
      then have "concat (map token_source (tokens (c # cs))) = take (length (c # cs) - length rest) (c # cs) @ rest"
        by (simp only: list.map concat.simps token_source.simps ih)
      then show ?thesis using placeholder_suffix [OF ph] by argo
    qed
  qed simp
  have sub: "substitute vs s = (concat (map (fill vs) (tokens s)), filter (\<lambda>n. vs n = None) (holes (tokens s)))" for vs s
  proof (induction vs s rule: substitute.induct)
    case (2 vs c cs)
    show ?case
    proof (cases "placeholder (c # cs)")
      case None
      then show ?thesis using "2.IH" by (simp add: holes_def)
    next
      case (Some p)
      obtain name rest where p: "p = (name, rest)" by fastforce
      then show ?thesis using "2.IH"(2) [OF Some p [symmetric]] Some by (cases "vs name") (simp_all add: holes_def)
    qed
  qed (simp add: holes_def)
  have "\<exists>vs. out = concat (map (fill vs) (tokens s)) \<and> (\<forall>n \<in> set (holes (tokens s)). vs n \<noteq> None)"
    if "substituteScriptTemplate env path body = Inr out" "ee_readFile env path = Inr s" for env path body out
  proof -
    define vs where "vs = (if trim_space body \<noteq> [] then ee_json env body else (\<lambda>_. None))"
    have "filter (\<lambda>n. vs n = None) (holes (tokens s)) = []" "out = concat (map (fill vs) (tokens s))"
      using that unfolding substituteScriptTemplate_def vs_def [symmetric]
      by (auto simp: Let_def sub split: if_splits)
    then show ?thesis by (auto simp: filter_empty_conv intro!: exI [of _ vs])
  qed
  with src sub show ?thesis by blast
qed

theorem substitute_fills_witness:
  "substitute (\<lambda>n. if n = ''UNIT'' then Some ''nginx'' else None) ''restart {{ UNIT }} {{AT}}'' = (''restart nginx {{AT}}'', [''AT''])"
proof -
  have "tokens ''restart {{ UNIT }} {{AT}}'' =
      map Plain ''restart '' @ [Hole ''UNIT'' ''{{ UNIT }}'', Plain (CHR '' ''), Hole ''AT'' ''{{AT}}'']"
    by code_simp
  then show ?thesis
    using substitute_fills [of "''restart {{ UNIT }} {{AT}}''" "\<lambda>n. if n = ''UNIT'' then Some ''nginx'' else None"]
    by (simp add: holes_def)
qed

end
