(* ===== verification/Cloud_Access.thy ===== *)
theory Cloud_Access
  imports Go_Strings
begin

text \<open>
  What the cloud service (\<open>internal/cloud/service.go\<close>, \<open>terminal.go\<close>) rests on: a table of rows
  and the four SQL statements the code sends to it, the clients it calls (the workspace service,
  bcrypt, SHA-256) as functions of an environment, the three ways it authorises a caller, and
  the contract of a table whose rows are leased to a polling daemon. A statement is atomic;
  whether the database answers the \<open>k\<close>-th statement of a call or fails it is \<open>ce_fault k\<close>.
\<close>

section \<open>Tables\<close>

definition update_where :: "('r \<Rightarrow> bool) \<Rightarrow> ('r \<Rightarrow> 'r) \<Rightarrow> 'r list \<Rightarrow> 'r list" where
  "update_where P f rows = map (\<lambda>r. if P r then f r else r) rows"

definition affected :: "('r \<Rightarrow> bool) \<Rightarrow> 'r list \<Rightarrow> nat" where
  "affected P rows = length (filter P rows)"

text \<open>\<open>ORDER BY created_at ASC LIMIT n\<close>, and the same \<open>DESC\<close>.\<close>

definition select_asc :: "('r \<Rightarrow> bool) \<Rightarrow> ('r \<Rightarrow> time) \<Rightarrow> nat \<Rightarrow> 'r list \<Rightarrow> 'r list" where
  "select_asc P created n rows = take n (sort_key created (filter P rows))"

definition select_desc :: "('r \<Rightarrow> bool) \<Rightarrow> ('r \<Rightarrow> time) \<Rightarrow> nat \<Rightarrow> 'r list \<Rightarrow> 'r list" where
  "select_desc P created n rows = take n (sort_key (\<lambda>r. - created r) (filter P rows))"

text \<open>An insert of a row whose primary key is taken is an error.\<close>

definition insert_row :: "('r \<Rightarrow> string) \<Rightarrow> 'r \<Rightarrow> 'r list \<Rightarrow> 'r list option" where
  "insert_row key r rows = (if key r \<in> key ` set rows then None else Some (rows @ [r]))"

lemma set_update_where: "set (update_where P f rows) = (\<lambda>r. if P r then f r else r) ` set rows"
  by (simp add: update_where_def)

lemma update_where_keys [simp]: "(\<And>r. key (f r) = key r) \<Longrightarrow> map key (update_where P f rows) = map key rows"
  by (simp add: update_where_def)

lemma length_update_where [simp]: "length (update_where P f rows) = length rows"
  by (simp add: update_where_def)

lemma affected_0: "affected P rows = 0 \<longleftrightarrow> (\<forall>r \<in> set rows. \<not> P r)"
  by (simp add: affected_def filter_empty_conv)

lemma update_where_none: "affected P rows = 0 \<Longrightarrow> update_where P f rows = rows"
  by (simp add: affected_0 update_where_def map_idI)

lemma set_select_asc: "set (select_asc P created n rows) \<subseteq> {r \<in> set rows. P r}"
  using set_take_subset [of n "sort_key created (filter P rows)"] by (auto simp: select_asc_def)

lemma set_select_desc: "set (select_desc P created n rows) \<subseteq> {r \<in> set rows. P r}"
  using set_take_subset [of n "sort_key (\<lambda>r. - created r) (filter P rows)"] by (auto simp: select_desc_def)

lemma length_select [simp]:
  "length (select_asc P created n rows) \<le> n" "length (select_desc P created n rows) \<le> n"
  by (simp_all add: select_asc_def select_desc_def)

lemma sorted_select_asc: "sorted (map created (select_asc P created n rows))"
proof -
  have "sorted (take n (map created (sort_key created (filter P rows))))"
    by (intro sorted_wrt_take) (rule sorted_sort_key)
  then show ?thesis by (simp add: select_asc_def take_map)
qed

text \<open>What the limit cuts off is no older than what it keeps.\<close>

lemma select_asc_oldest:
  assumes "r \<in> set rows" "P r" "r \<notin> set (select_asc P created n rows)" "q \<in> set (select_asc P created n rows)"
  shows "created q \<le> created r"
proof -
  let ?xs = "sort_key created (filter P rows)"
  have "set ?xs = set (take n ?xs) \<union> set (drop n ?xs)"
    by (simp flip: set_append)
  then have r: "r \<in> set (drop n ?xs)"
    using assms(1-3) unfolding select_asc_def by auto
  have q: "q \<in> set (take n ?xs)" using assms(4) by (simp add: select_asc_def)
  have s: "sorted (map created (take n ?xs) @ map created (drop n ?xs))"
    by (metis append_take_drop_id map_append sorted_sort_key)
  show ?thesis using s q r unfolding sorted_append by auto
qed

lemma select_asc_all:
  assumes "length (select_asc P created n rows) < n"
  shows "set (select_asc P created n rows) = {r \<in> set rows. P r}"
  using assms by (auto simp: select_asc_def)

lemma insert_row_Some: "insert_row key r rows = Some rows' \<longleftrightarrow> key r \<notin> key ` set rows \<and> rows' = rows @ [r]"
  by (auto simp: insert_row_def)

lemma insert_row_distinct [inv_intros]:
  "insert_row key r rows = Some rows' \<Longrightarrow> distinct (map key rows) \<Longrightarrow> distinct (map key rows')"
  by (auto simp: insert_row_Some)

section \<open>The environment of a call\<close>

record workspace_client =
  wc_member :: "string \<Rightarrow> string \<Rightarrow> string + bool" \<comment> \<open>\<open>IsMemberWithRole\<close>: workspace, account\<close>
  wc_quota :: "string \<Rightarrow> string + (string \<Rightarrow> int)" \<comment> \<open>\<open>GetPlanQuota\<close>; a missing key reads as 0\<close>

record cloud_env =
  ce_workspaces :: "workspace_client option" \<comment> \<open>\<open>None\<close>: no workspace service configured\<close>
  ce_bcrypt :: "string \<Rightarrow> string \<Rightarrow> bool" \<comment> \<open>hash, secret\<close>
  ce_sha256 :: "string \<Rightarrow> string" \<comment> \<open>in hex\<close>
  ce_now :: time
  ce_fault :: "nat \<Rightarrow> bool"

datatype cloud_error =
    ErrUnauthorized | ErrNotFound | ErrForbidden | ErrRateLimited | ErrPublishFailed string
  | ErrMetricOutOfRetention | DbError
  | MembershipUnchecked string | QuotaUnresolved string | InvalidInput string | NotMinted string

section \<open>Daemons and who may use them\<close>

record daemon =
  d_id :: string
  d_account :: string
  d_workspace :: string
  d_name :: string
  d_secretHash :: string
  d_hostID :: string
  d_enabled :: bool
  d_relay :: bool
  d_lastSeen :: "time option"
  d_disconnected :: "time option"
  d_created :: time
  d_updated :: time

text \<open>\<open>First\<close> of the row with a primary key: \<open>None\<close> is \<open>gorm.ErrRecordNotFound\<close>.\<close>

definition daemon_row :: "daemon list \<Rightarrow> string \<Rightarrow> daemon option" where
  "daemon_row ds i = find (\<lambda>d. d_id d = i) ds"

definition authorizeWorkspace :: "cloud_env \<Rightarrow> string \<Rightarrow> string \<Rightarrow> cloud_error + unit" where
  "authorizeWorkspace ce account workspace =
     (case ce_workspaces ce of
        None \<Rightarrow> Inl ErrForbidden
      | Some wc \<Rightarrow>
          (case wc_member wc workspace account of
             Inl err \<Rightarrow> Inl (MembershipUnchecked err)
           | Inr member \<Rightarrow> if member then Inr () else Inl ErrForbidden))"

definition daemonForAccount :: "cloud_env \<Rightarrow> daemon list \<Rightarrow> string \<Rightarrow> string \<Rightarrow> cloud_error + daemon" where
  "daemonForAccount ce ds account i =
     (if ce_fault ce 0 then Inl DbError
      else case daemon_row ds i of
        None \<Rightarrow> Inl ErrNotFound
      | Some d \<Rightarrow> rbind (authorizeWorkspace ce account (d_workspace d)) (\<lambda>_. Inr d))"

definition authenticateDaemon :: "cloud_env \<Rightarrow> daemon list \<Rightarrow> string \<Rightarrow> string \<Rightarrow> cloud_error + daemon" where
  "authenticateDaemon ce ds i secret =
     (if ce_fault ce 0 then Inl ErrUnauthorized
      else case daemon_row ds i of
        None \<Rightarrow> Inl ErrUnauthorized
      | Some d \<Rightarrow>
          if \<not> d_enabled d \<or> \<not> ce_bcrypt ce (d_secretHash d) secret then Inl ErrUnauthorized else Inr d)"

definition workspaceQuota :: "cloud_env \<Rightarrow> string \<Rightarrow> cloud_error + (string \<Rightarrow> int)" where
  "workspaceQuota ce workspace =
     (case ce_workspaces ce of
        None \<Rightarrow> Inl ErrForbidden
      | Some wc \<Rightarrow> map_err QuotaUnresolved (wc_quota wc workspace))"

text \<open>Who passes: a confirmed member of the daemon's workspace, and the daemon that knows its secret.\<close>

definition confirmed_member :: "cloud_env \<Rightarrow> daemon \<Rightarrow> string \<Rightarrow> bool" where
  "confirmed_member ce d account \<longleftrightarrow>
     (\<exists>wc. ce_workspaces ce = Some wc \<and> wc_member wc (d_workspace d) account = Inr True)"

lemma daemon_row_Some: "daemon_row ds i = Some d \<Longrightarrow> d \<in> set ds \<and> d_id d = i"
  by (auto simp: daemon_row_def find_Some_iff)

lemma authorizeWorkspace_ok:
  "authorizeWorkspace ce account w = Inr u \<longleftrightarrow>
     (\<exists>wc. ce_workspaces ce = Some wc \<and> wc_member wc w account = Inr True)"
  by (auto simp: authorizeWorkspace_def split: option.splits sum.splits if_splits)

lemma daemonForAccount_ok:
  "daemonForAccount ce ds account i = Inr d \<longleftrightarrow>
     \<not> ce_fault ce 0 \<and> daemon_row ds i = Some d \<and> confirmed_member ce d account"
  by (auto simp: daemonForAccount_def authorizeWorkspace_ok confirmed_member_def split: option.splits)

lemma authenticateDaemon_ok:
  "authenticateDaemon ce ds i secret = Inr d \<longleftrightarrow>
     \<not> ce_fault ce 0 \<and> daemon_row ds i = Some d \<and> d_enabled d \<and> ce_bcrypt ce (d_secretHash d) secret"
  by (auto simp: authenticateDaemon_def split: option.splits)

lemma authenticateDaemon_error:
  "authenticateDaemon ce ds i secret = Inl e \<Longrightarrow> e = ErrUnauthorized"
  by (auto simp: authenticateDaemon_def split: option.splits if_splits)

section \<open>The contract of a leased table\<close>

text \<open>
  Two tables are handed out to daemons that poll: a row waits, a poll leases it, and a lease that
  is too old is taken back by the next poll. \<open>reclaim\<close> and \<open>lease\<close> are the two updates,
  \<open>expired now\<close> the first one's condition, \<open>hold\<close> the time a lease lasts, \<open>mine\<close> the rows of the
  polling daemon.
\<close>

locale leased_table =
  fixes key :: "'r \<Rightarrow> string" and created :: "'r \<Rightarrow> time" and mine :: "'r \<Rightarrow> bool"
    and waiting :: "'r \<Rightarrow> bool" and expired :: "time \<Rightarrow> 'r \<Rightarrow> bool"
    and reclaim lease :: "time \<Rightarrow> 'r \<Rightarrow> 'r" and hold :: time
  assumes key_reclaim [simp]: "key (reclaim now r) = key r"
    and key_lease [simp]: "key (lease now r) = key r"
    and created_reclaim [simp]: "created (reclaim now r) = created r"
    and mine_reclaim [simp]: "mine (reclaim now r) = mine r"
    and mine_lease [simp]: "mine (lease now r) = mine r"
    and leased_not_waiting [simp]: "\<not> waiting (lease now r)"
    and lease_lasts: "later \<le> now + hold \<Longrightarrow> \<not> expired later (lease now r)"
begin

text \<open>The three statements of a poll: take back, choose, hand out.\<close>

definition taken_back :: "time \<Rightarrow> 'r list \<Rightarrow> 'r list" where
  "taken_back now rows = update_where (\<lambda>r. mine r \<and> expired now r) (reclaim now) rows"

definition chosen :: "('r \<Rightarrow> bool) \<Rightarrow> nat \<Rightarrow> 'r list \<Rightarrow> 'r list" where
  "chosen due n rows = select_asc (\<lambda>r. mine r \<and> waiting r \<and> due r) created n rows"

definition handed_out :: "time \<Rightarrow> string list \<Rightarrow> 'r list \<Rightarrow> 'r list" where
  "handed_out now ids rows = update_where (\<lambda>r. mine r \<and> key r \<in> set ids \<and> waiting r) (lease now) rows"

definition polled :: "time \<Rightarrow> ('r \<Rightarrow> bool) \<Rightarrow> nat \<Rightarrow> 'r list \<Rightarrow> 'r list" where
  "polled now due n rows =
     (let rows1 = taken_back now rows in handed_out now (map key (chosen due n rows1)) rows1)"

lemma chosen_mine:
  assumes "r \<in> set (chosen due n rows)"
  shows "r \<in> set rows \<and> mine r \<and> waiting r \<and> due r"
  using assms set_select_asc [of "\<lambda>r. mine r \<and> waiting r \<and> due r" created n rows] by (auto simp: chosen_def)

lemma keys_taken_back [simp]: "map key (taken_back now rows) = map key rows"
  by (simp add: taken_back_def)

lemma keys_handed_out [simp]: "map key (handed_out now ids rows) = map key rows"
  by (simp add: handed_out_def)

lemma polled_keys [simp]: "map key (polled now due n rows) = map key rows"
  by (simp add: polled_def Let_def)

text \<open>A row that was handed out is not handed out again while its lease lasts.\<close>

lemma handed_out_once:
  assumes dist: "distinct (map key rows)" and soon: "later \<le> now + hold"
    and first: "k \<in> key ` set (chosen due n (taken_back now rows))"
  shows "k \<notin> key ` set (chosen due' m (taken_back later (polled now due n rows)))"
proof
  let ?rows1 = "taken_back now rows"
  assume "k \<in> key ` set (chosen due' m (taken_back later (polled now due n rows)))"
  then obtain r where r: "k = key r" "r \<in> set (taken_back later (polled now due n rows))" "mine r" "waiting r"
    using chosen_mine by blast
  obtain q where q: "q \<in> set (polled now due n rows)" and rq: "r = (if mine q \<and> expired later q then reclaim later q else q)"
    using r(2) by (auto simp: taken_back_def set_update_where)
  have kq: "key q = k" using rq r(1) by (auto split: if_splits)
  obtain p where p: "k = key p" "p \<in> set (chosen due n ?rows1)" using first by auto
  have p': "p \<in> set ?rows1" "mine p" "waiting p" using chosen_mine [OF p(2)] by auto
  obtain z where z: "z \<in> set ?rows1"
    and qz: "q = (if mine z \<and> key z \<in> set (map key (chosen due n ?rows1)) \<and> waiting z then lease now z else z)"
    using q by (auto simp: polled_def Let_def handed_out_def set_update_where)
  have kz: "key z = k" using qz kq by (auto split: if_splits)
  have "distinct (map key ?rows1)" using dist by simp
  then have "z = p" using z p'(1) kz p(1) by (metis distinct_map inj_onD)
  then have "q = lease now p" using qz p p'(2,3) by auto
  then have "\<not> expired later q" "\<not> waiting q" using lease_lasts [OF soon] by auto
  then show False using rq r(4) by simp
qed

end

end
