(* ===== verification/Cloud_Terminal.thy ===== *)
theory Cloud_Terminal
  imports Cloud_Access
begin

text \<open>
  \<open>internal/cloud/terminal.go\<close>: the sessions of the cloud-relayed terminal. A session is a row that
  is created pending, leased to a polling daemon, marked active by the daemon's agent socket and
  closed or failed once; the browser's ticket is stored as a hash that the first handshake
  clears. The long-poll waiters are heap objects (an index into \<open>ct_waiters\<close>), because two polls of
  one daemon share a channel. Every function is one call that no other call interrupts;
  \<open>Cloud_Terminal_Races\<close> interleaves the statements. \<open>ce_fault k\<close> fails the \<open>k\<close>-th statement.
\<close>

section \<open>Rows\<close>

datatype session_status = SPending | SOffered | SActive | SClosed | SFailed

record tsession =
  tr_id :: string
  tr_daemon :: string
  tr_workspace :: string
  tr_account :: string
  tr_invokedBy :: string
  tr_shell :: string
  tr_user :: string
  tr_tmux :: string
  tr_cols :: int
  tr_rows :: int
  tr_ticketHash :: string
  tr_status :: session_status
  tr_leased :: "time option"
  tr_started :: "time option"
  tr_ended :: "time option"
  tr_exit :: int
  tr_error :: string
  tr_bytesIn :: int
  tr_bytesOut :: int
  tr_created :: time
  tr_updated :: time

definition terminalStatusesLive :: "session_status list" where
  "terminalStatusesLive = [SPending, SOffered, SActive]"

definition live :: "tsession \<Rightarrow> bool" where
  "live r \<longleftrightarrow> tr_status r \<in> set terminalStatusesLive"

definition terminalTicketTTL :: time where "terminalTicketTTL = seconds 60"
definition terminalLeaseDuration :: time where "terminalLeaseDuration = seconds 90"
definition terminalPendingExpiry :: time where "terminalPendingExpiry = seconds (3 * 60)"
definition terminalRetention :: time where "terminalRetention = seconds (7 * 24 * 3600)"
definition terminalActiveMaxAge :: time where "terminalActiveMaxAge = seconds (24 * 3600)"
definition terminalMaxWait :: time where "terminalMaxWait = seconds 30"
definition terminalDefaultWorkspaceSessions :: int where "terminalDefaultWorkspaceSessions = 4"
definition terminalPendingLimit :: nat where "terminalPendingLimit = 8"

definition cloudTmuxName :: "string \<Rightarrow> bool" where
  "cloudTmuxName = re_head_rest is_alnum (\<lambda>c. is_alnum c \<or> c \<in> {CHR ''_'', CHR ''.'', CHR ''-''}) 39"

text \<open>What a client sees of a session: everything but the ticket and the bookkeeping.\<close>

record session_view =
  sv_id :: string
  sv_daemon :: string
  sv_invokedBy :: string
  sv_shell :: string
  sv_user :: string
  sv_tmux :: string
  sv_cols :: int
  sv_rows :: int
  sv_status :: session_status
  sv_exit :: int
  sv_error :: string
  sv_bytesIn :: int
  sv_bytesOut :: int
  sv_started :: "time option"
  sv_ended :: "time option"
  sv_created :: time

definition viewTerminalSession :: "tsession \<Rightarrow> session_view" where
  "viewTerminalSession r =
     \<lparr>sv_id = tr_id r, sv_daemon = tr_daemon r, sv_invokedBy = tr_invokedBy r, sv_shell = tr_shell r,
      sv_user = tr_user r, sv_tmux = tr_tmux r, sv_cols = tr_cols r, sv_rows = tr_rows r,
      sv_status = tr_status r, sv_exit = tr_exit r, sv_error = tr_error r, sv_bytesIn = tr_bytesIn r,
      sv_bytesOut = tr_bytesOut r, sv_started = tr_started r, sv_ended = tr_ended r, sv_created = tr_created r\<rparr>"

definition session_row :: "(tsession \<Rightarrow> bool) \<Rightarrow> tsession list \<Rightarrow> tsession option" where
  "session_row P rows = find P rows"

section \<open>Waiters\<close>

record waiter =
  w_token :: bool \<comment> \<open>the channel's one-place buffer is full\<close>
  w_at :: time

record terminals =
  ct_rows :: "tsession list"
  ct_waiters :: "waiter list" \<comment> \<open>every waiter ever allocated\<close>
  ct_wait :: "(string \<times> nat) list" \<comment> \<open>\<open>terminalWait\<close>: the registered ones, by daemon\<close>

definition wakeTerminalWaiters :: "string \<Rightarrow> terminals \<Rightarrow> terminals" where
  "wakeTerminalWaiters d s =
     (case map_of (ct_wait s) d of
        None \<Rightarrow> s
      | Some i \<Rightarrow> s\<lparr>ct_waiters := (ct_waiters s)[i := (ct_waiters s ! i)\<lparr>w_token := True\<rparr>]\<rparr>)"

definition TerminalWait :: "time \<Rightarrow> string \<Rightarrow> terminals \<Rightarrow> nat \<times> terminals" where
  "TerminalWait now d s =
     (case map_of (ct_wait s) d of
        None \<Rightarrow> (length (ct_waiters s),
           s\<lparr>ct_waiters := ct_waiters s @ [\<lparr>w_token = False, w_at = now\<rparr>],
             ct_wait := put d (length (ct_waiters s)) (ct_wait s)\<rparr>)
      | Some i \<Rightarrow> (i, s\<lparr>ct_waiters := (ct_waiters s)[i := (ct_waiters s ! i)\<lparr>w_at := now\<rparr>]\<rparr>))"

definition releaseTerminalWait :: "time \<Rightarrow> string \<Rightarrow> nat \<Rightarrow> terminals \<Rightarrow> terminals" where
  "releaseTerminalWait now d i s =
     (let m = (if map_of (ct_wait s) d = Some i then del d (ct_wait s) else ct_wait s) in
      s\<lparr>ct_wait := (if 10000 < length m
                    then filter (\<lambda>p. \<not> w_at (ct_waiters s ! snd p) < now - seconds 3600) m else m)\<rparr>)"

text \<open>
  The parked half: which of the three channels is taken (the request is gone, the timer fires, a
  token is there) is the runtime's choice; \<open>None\<close> is a park that still waits.
\<close>

datatype park_choice = ParkCanceled | ParkTimedOut | ParkWoken

definition park :: "time \<Rightarrow> string \<Rightarrow> nat \<Rightarrow> time \<Rightarrow> park_choice \<Rightarrow> terminals \<Rightarrow> (bool \<times> terminals) option" where
  "park now d i timeout choice s =
     (if timeout \<le> 0 then Some (False, releaseTerminalWait now d i s)
      else case choice of
        ParkWoken \<Rightarrow>
          (if w_token (ct_waiters s ! i)
           then Some (True, releaseTerminalWait now d i
             (s\<lparr>ct_waiters := (ct_waiters s)[i := (ct_waiters s ! i)\<lparr>w_token := False\<rparr>]\<rparr>))
           else None)
      | _ \<Rightarrow> Some (False, releaseTerminalWait now d i s))"

section \<open>Creating a session\<close>

record create_request =
  cq_account :: string
  cq_daemon :: string
  cq_invokedBy :: string
  cq_shell :: string
  cq_user :: string
  cq_tmux :: string
  cq_cols :: int
  cq_rows :: int

record terminal_ticket =
  tt_session :: string
  tt_ticket :: string
  tt_expires :: time
  tt_daemon :: string

text \<open>Everything that is checked before the sessions are counted: the daemon and the limit.\<close>

definition admit :: "cloud_env \<Rightarrow> daemon list \<Rightarrow> create_request \<Rightarrow> cloud_error + daemon \<times> int" where
  "admit ce ds q =
     rbind (daemonForAccount ce ds (cq_account q) (cq_daemon q)) (\<lambda>d.
       if \<not> d_relay d then Inl ErrForbidden
       else if cq_cols q < 0 \<or> 1000 < cq_cols q then Inl (InvalidInput ''cols must be between 0 and 1000'')
       else if cq_rows q < 0 \<or> 500 < cq_rows q then Inl (InvalidInput ''rows must be between 0 and 500'')
       else if 1024 < length (trim_space (cq_shell q)) then Inl (InvalidInput ''shell must be at most 1024 bytes'')
       else if 64 < length (trim_space (cq_user q)) then Inl (InvalidInput ''user must be at most 64 bytes'')
       else if 64 < length (trim_space (cq_tmux q)) then Inl (InvalidInput ''tmux'')
       else if trim_space (cq_tmux q) \<noteq> [] \<and> \<not> cloudTmuxName (trim_space (cq_tmux q))
         then Inl (InvalidInput ''tmux'')
       else rbind (workspaceQuota ce (d_workspace d)) (\<lambda>quotas.
         let limit = quotas ''terminal_sessions'' in
         Inr (d, if limit \<le> 0 then terminalDefaultWorkspaceSessions else limit)))"

definition live_in :: "string \<Rightarrow> tsession list \<Rightarrow> nat" where
  "live_in workspace rows = affected (\<lambda>r. tr_workspace r = workspace \<and> live r) rows"

definition new_session :: "cloud_env \<Rightarrow> daemon \<Rightarrow> create_request \<Rightarrow> string \<Rightarrow> string \<Rightarrow> tsession" where
  "new_session ce d q i ticket =
     \<lparr>tr_id = i, tr_daemon = d_id d, tr_workspace = d_workspace d, tr_account = cq_account q,
      tr_invokedBy = cq_invokedBy q, tr_shell = trim_space (cq_shell q), tr_user = trim_space (cq_user q),
      tr_tmux = trim_space (cq_tmux q), tr_cols = cq_cols q, tr_rows = cq_rows q,
      tr_ticketHash = ce_sha256 ce ticket, tr_status = SPending, tr_leased = None, tr_started = None,
      tr_ended = None, tr_exit = 0, tr_error = [], tr_bytesIn = 0, tr_bytesOut = 0,
      tr_created = ce_now ce, tr_updated = ce_now ce\<rparr>"

text \<open>\<open>i\<close> is the new UUID, \<open>minted\<close> what \<open>newTerminalTicket\<close> returned.\<close>

definition CreateTerminalSession ::
  "cloud_env \<Rightarrow> daemon list \<Rightarrow> create_request \<Rightarrow> string \<Rightarrow> string + string \<Rightarrow> terminals
     \<Rightarrow> terminals \<times> (cloud_error + terminal_ticket)" where
  "CreateTerminalSession ce ds q i minted s =
     (case admit ce ds q of
        Inl e \<Rightarrow> (s, Inl e)
      | Inr (d, limit) \<Rightarrow>
          if ce_fault ce 1 then (s, Inl DbError)
          else if limit \<le> int (live_in (d_workspace d) (ct_rows s)) then (s, Inl ErrRateLimited)
          else case minted of
            Inl e \<Rightarrow> (s, Inl (NotMinted e))
          | Inr ticket \<Rightarrow>
              (case (if ce_fault ce 2 then None
                     else insert_row tr_id (new_session ce d q i ticket) (ct_rows s)) of
                 None \<Rightarrow> (s, Inl DbError)
               | Some rows \<Rightarrow>
                   (wakeTerminalWaiters (d_id d) (s\<lparr>ct_rows := rows\<rparr>),
                    Inr \<lparr>tt_session = i, tt_ticket = ticket, tt_expires = ce_now ce + terminalTicketTTL,
                         tt_daemon = d_id d\<rparr>)))"

section \<open>The browser's handshake\<close>

definition AuthenticateTerminalTicket ::
  "cloud_env \<Rightarrow> string \<Rightarrow> string \<Rightarrow> string \<Rightarrow> terminals \<Rightarrow> terminals \<times> (cloud_error + session_view)" where
  "AuthenticateTerminalTicket ce d raw ticket s =
     (let i = trim_space raw in
      if i = [] \<or> ticket = [] then (s, Inl ErrUnauthorized)
      else if ce_fault ce 0 then (s, Inl DbError)
      else case session_row (\<lambda>r. tr_id r = i \<and> tr_daemon r = d) (ct_rows s) of
        None \<Rightarrow> (s, Inl ErrUnauthorized)
      | Some r \<Rightarrow>
          if \<not> live r then (s, Inl ErrUnauthorized)
          else if tr_created r + terminalTicketTTL < ce_now ce then (s, Inl ErrUnauthorized)
          else if tr_ticketHash r = [] \<or> ce_sha256 ce ticket \<noteq> tr_ticketHash r then (s, Inl ErrUnauthorized)
          else if ce_fault ce 1 then (s, Inl DbError)
          else
            let swap = (\<lambda>x. tr_id x = tr_id r \<and> tr_ticketHash x = tr_ticketHash r) in
            if affected swap (ct_rows s) = 0 then (s, Inl ErrUnauthorized)
            else (s\<lparr>ct_rows := update_where swap (\<lambda>x. x\<lparr>tr_ticketHash := [], tr_updated := ce_now ce\<rparr>) (ct_rows s)\<rparr>,
                  Inr (viewTerminalSession (r\<lparr>tr_ticketHash := []\<rparr>))))"

section \<open>The daemon's pickup and attach\<close>

definition lease_expired :: "time \<Rightarrow> tsession \<Rightarrow> bool" where
  "lease_expired now r \<longleftrightarrow>
     tr_status r = SOffered \<and> (case tr_leased r of None \<Rightarrow> False | Some t \<Rightarrow> t < now - terminalLeaseDuration)"

definition take_back :: "time \<Rightarrow> tsession \<Rightarrow> tsession" where
  "take_back now r = r\<lparr>tr_status := SPending, tr_leased := None, tr_updated := now\<rparr>"

definition offer :: "time \<Rightarrow> tsession \<Rightarrow> tsession" where
  "offer now r = r\<lparr>tr_status := SOffered, tr_leased := Some now, tr_updated := now\<rparr>"

definition pickable :: "time \<Rightarrow> tsession \<Rightarrow> bool" where
  "pickable now r \<longleftrightarrow> now - terminalPendingExpiry < tr_created r"

definition ListPendingTerminalSessions ::
  "cloud_env \<Rightarrow> daemon list \<Rightarrow> string \<Rightarrow> string \<Rightarrow> terminals \<Rightarrow> terminals \<times> (cloud_error + session_view list)" where
  "ListPendingTerminalSessions ce ds d secret s =
     (case authenticateDaemon ce ds d secret of
        Inl _ \<Rightarrow> (s, Inl ErrUnauthorized)
      | Inr _ \<Rightarrow>
          if ce_fault ce 1 then (s, Inl DbError)
          else
            let now = ce_now ce;
                rows1 = update_where (\<lambda>r. tr_daemon r = d \<and> lease_expired now r) (take_back now) (ct_rows s);
                picked = select_asc (\<lambda>r. tr_daemon r = d \<and> tr_status r = SPending \<and> pickable now r)
                  tr_created terminalPendingLimit rows1 in
            if ce_fault ce 2 then (s\<lparr>ct_rows := rows1\<rparr>, Inl DbError)
            else if picked = [] then (s\<lparr>ct_rows := rows1\<rparr>, Inr [])
            else if ce_fault ce 3 then (s\<lparr>ct_rows := rows1\<rparr>, Inl DbError)
            else (s\<lparr>ct_rows := update_where
                    (\<lambda>r. tr_daemon r = d \<and> tr_id r \<in> set (map tr_id picked) \<and> tr_status r = SPending) (offer now) rows1\<rparr>,
                  Inr (map (\<lambda>r. viewTerminalSession (offer now r)) picked)))"

definition activate :: "time \<Rightarrow> tsession \<Rightarrow> tsession" where
  "activate now r = r\<lparr>tr_status := SActive, tr_started := Some now, tr_updated := now\<rparr>"

definition AttachTerminalAgent ::
  "cloud_env \<Rightarrow> daemon list \<Rightarrow> string \<Rightarrow> string \<Rightarrow> string \<Rightarrow> terminals \<Rightarrow> terminals \<times> (cloud_error + session_view)" where
  "AttachTerminalAgent ce ds d secret raw s =
     (case authenticateDaemon ce ds d secret of
        Inl _ \<Rightarrow> (s, Inl ErrUnauthorized)
      | Inr _ \<Rightarrow>
          let i = trim_space raw in
          if i = [] then (s, Inl ErrNotFound)
          else if ce_fault ce 1 then (s, Inl DbError)
          else case session_row (\<lambda>r. tr_id r = i \<and> tr_daemon r = d) (ct_rows s) of
            None \<Rightarrow> (s, Inl ErrNotFound)
          | Some r \<Rightarrow>
              if \<not> live r then (s, Inl ErrNotFound)
              else if tr_status r \<noteq> SActive \<or> tr_started r = None then
                if ce_fault ce 2 then (s, Inl DbError)
                else (s\<lparr>ct_rows := update_where (\<lambda>x. tr_id x = tr_id r) (activate (ce_now ce)) (ct_rows s)\<rparr>,
                      Inr (viewTerminalSession (r\<lparr>tr_status := SActive, tr_started := Some (ce_now ce)\<rparr>)))
              else (s, Inr (viewTerminalSession r)))"

section \<open>Ends of a session\<close>

definition finish_session ::
  "time \<Rightarrow> session_status \<Rightarrow> int \<Rightarrow> string \<Rightarrow> int \<Rightarrow> int \<Rightarrow> tsession \<Rightarrow> tsession" where
  "finish_session now st code failure bin bout r =
     r\<lparr>tr_status := st, tr_exit := code, tr_error := take 512 failure, tr_bytesIn := bin, tr_bytesOut := bout,
       tr_ended := Some now, tr_updated := now\<rparr>"

definition FinishTerminalSession ::
  "cloud_env \<Rightarrow> string \<Rightarrow> session_status \<Rightarrow> int \<Rightarrow> string \<Rightarrow> int \<Rightarrow> int \<Rightarrow> terminals \<Rightarrow> terminals \<times> (cloud_error + unit)" where
  "FinishTerminalSession ce i st code failure bin bout s =
     (if st \<noteq> SClosed \<and> st \<noteq> SFailed then (s, Inl (InvalidInput ''invalid terminal status''))
      else if ce_fault ce 0 then (s, Inl DbError)
      else (s\<lparr>ct_rows := update_where (\<lambda>r. tr_id r = i \<and> live r)
              (finish_session (ce_now ce) st code failure bin bout) (ct_rows s)\<rparr>, Inr ()))"

definition ListTerminalSessions ::
  "cloud_env \<Rightarrow> daemon list \<Rightarrow> string \<Rightarrow> string \<Rightarrow> int \<Rightarrow> terminals \<Rightarrow> cloud_error + session_view list" where
  "ListTerminalSessions ce ds account d limit s =
     rbind (daemonForAccount ce ds account d) (\<lambda>_.
       let n = (if limit \<le> 0 then 50 else if 100 < limit then 100 else limit) in
       if ce_fault ce 1 then Inl DbError
       else Inr (map viewTerminalSession (select_desc (\<lambda>r. tr_daemon r = d) tr_created (nat n) (ct_rows s))))"

definition revoke :: "time \<Rightarrow> tsession \<Rightarrow> tsession" where
  "revoke now r = r\<lparr>tr_status := SClosed, tr_ended := Some now, tr_updated := now\<rparr>"

definition CloseTerminalSession ::
  "cloud_env \<Rightarrow> daemon list \<Rightarrow> string \<Rightarrow> string \<Rightarrow> string \<Rightarrow> terminals \<Rightarrow> terminals \<times> (cloud_error + unit)" where
  "CloseTerminalSession ce ds account d i s =
     (case daemonForAccount ce ds account d of
        Inl e \<Rightarrow> (s, Inl e)
      | Inr _ \<Rightarrow>
          if ce_fault ce 1 then (s, Inl DbError)
          else case session_row (\<lambda>r. tr_id r = i \<and> tr_daemon r = d) (ct_rows s) of
            None \<Rightarrow> (s, Inl ErrNotFound)
          | Some r \<Rightarrow>
              if tr_status r = SClosed \<or> tr_status r = SFailed then (s, Inr ())
              else if ce_fault ce 2 then (s, Inl DbError)
              else (s\<lparr>ct_rows := update_where (\<lambda>x. tr_id x = tr_id r \<and> live x) (revoke (ce_now ce)) (ct_rows s)\<rparr>, Inr ()))"

definition fail_session :: "time \<Rightarrow> string \<Rightarrow> tsession \<Rightarrow> tsession" where
  "fail_session now err r = r\<lparr>tr_status := SFailed, tr_error := err, tr_ended := Some now, tr_updated := now\<rparr>"

text \<open>The three statements of the sweep: never attached, active for too long, finished long ago.\<close>

definition unclaimed :: "time \<Rightarrow> tsession \<Rightarrow> bool" where
  "unclaimed now r \<longleftrightarrow> tr_status r \<in> {SPending, SOffered} \<and> tr_created r < now - terminalPendingExpiry"

definition stale :: "time \<Rightarrow> tsession \<Rightarrow> bool" where
  "stale now r \<longleftrightarrow> tr_status r = SActive \<and>
     (case tr_started r of None \<Rightarrow> tr_created r | Some t \<Rightarrow> t) < now - terminalActiveMaxAge"

definition prunable :: "time \<Rightarrow> tsession \<Rightarrow> bool" where
  "prunable now r \<longleftrightarrow> tr_status r \<in> {SClosed, SFailed} \<and> tr_updated r < now - terminalRetention"

definition SweepTerminalSessions :: "cloud_env \<Rightarrow> time \<Rightarrow> terminals \<Rightarrow> terminals \<times> (cloud_error + unit)" where
  "SweepTerminalSessions ce now s =
     (if ce_fault ce 0 then (s, Inl DbError)
      else
        let s1 = s\<lparr>ct_rows := update_where (unclaimed now) (fail_session now ''not picked up'') (ct_rows s)\<rparr> in
        if ce_fault ce 1 then (s1, Inl DbError)
        else
          let s2 = s1\<lparr>ct_rows := update_where (stale now) (fail_session now ''stale session'') (ct_rows s1)\<rparr> in
          if ce_fault ce 2 then (s2, Inl DbError)
          else (s2\<lparr>ct_rows := filter (\<lambda>r. \<not> prunable now r) (ct_rows s2)\<rparr>, Inr ()))"

end
