(* ===== verification/Cloud_Terminal_Facts.thy ===== *)
theory Cloud_Terminal_Facts
  imports Cloud_Terminal
begin

text \<open>
  The terminal sessions of \<open>Cloud_Terminal\<close>, call by call: the invariant of the table, what a
  creation, a pickup and a sweep do, and the long poll with its shared waiter.
\<close>

section \<open>Sessions are a leased table\<close>

interpretation sessions: leased_table tr_id tr_created "\<lambda>r. tr_daemon r = d" "\<lambda>r. tr_status r = SPending"
  lease_expired take_back offer terminalLeaseDuration for d :: string
  by unfold_locales (auto simp: take_back_def offer_def lease_expired_def)

text \<open>What every call leaves alone.\<close>

definition identity :: "tsession \<Rightarrow> string \<times> string \<times> string \<times> string \<times> time" where
  "identity r = (tr_id r, tr_daemon r, tr_workspace r, tr_account r, tr_created r)"

lemma updates_keep_identity [simp]:
  "identity (take_back now r) = identity r" "identity (offer now r) = identity r"
  "identity (activate now r) = identity r" "identity (finish_session now st code failure bin bout r) = identity r"
  "identity (revoke now r) = identity r" "identity (fail_session now err r) = identity r"
  by (simp_all add: identity_def take_back_def offer_def activate_def finish_session_def revoke_def fail_session_def)

lemma updates_keep_id [simp]:
  "tr_id (take_back now r) = tr_id r" "tr_id (offer now r) = tr_id r" "tr_id (activate now r) = tr_id r"
  "tr_id (finish_session now st code failure bin bout r) = tr_id r" "tr_id (revoke now r) = tr_id r"
  "tr_id (fail_session now err r) = tr_id r"
  by (simp_all add: take_back_def offer_def activate_def finish_session_def revoke_def fail_session_def)

lemma live_cases: "live r \<longleftrightarrow> tr_status r = SPending \<or> tr_status r = SOffered \<or> tr_status r = SActive"
  by (simp add: live_def terminalStatusesLive_def)

lemma updates_live [simp]:
  "live (take_back now r)" "live (offer now r)" "live (activate now r)"
  "\<not> live (revoke now r)" "\<not> live (fail_session now err r)"
  "st = SClosed \<or> st = SFailed \<Longrightarrow> \<not> live (finish_session now st code failure bin bout r)"
  by (auto simp: live_cases take_back_def offer_def activate_def finish_session_def revoke_def fail_session_def)

lemma not_live: "\<not> live r \<longleftrightarrow> tr_status r = SClosed \<or> tr_status r = SFailed"
  by (cases "tr_status r") (simp_all add: live_cases)

section \<open>The invariant of the table\<close>

definition session_ok :: "tsession \<Rightarrow> bool" where
  "session_ok r \<longleftrightarrow> (live r \<longleftrightarrow> tr_ended r = None) \<and> (tr_status r = SOffered \<longrightarrow> tr_leased r \<noteq> None) \<and>
     (tr_status r = SActive \<longrightarrow> tr_started r \<noteq> None) \<and> (tr_status r = SPending \<longrightarrow> tr_leased r = None)"

definition sessions_wf :: "tsession list \<Rightarrow> bool" where
  "sessions_wf rows \<longleftrightarrow> distinct (map tr_id rows) \<and> list_all session_ok rows"

lemma update_where_wf:
  assumes "sessions_wf rows" "\<And>r. tr_id (f r) = tr_id r" "\<And>r. r \<in> set rows \<Longrightarrow> P r \<Longrightarrow> session_ok (f r)"
  shows "sessions_wf (update_where P f rows)"
  using assms by (auto simp: sessions_wf_def list_all_iff set_update_where)

lemma insert_row_wf:
  assumes "sessions_wf rows" "insert_row tr_id (new_session ce d q i ticket) rows = Some rows'"
  shows "sessions_wf rows'"
  using assms by (auto simp: sessions_wf_def insert_row_Some new_session_def session_ok_def live_cases)

lemma filter_wf: "sessions_wf rows \<Longrightarrow> sessions_wf (filter P rows)"
  by (auto simp: sessions_wf_def list_all_iff distinct_map_filter)

lemma ok_take_back: "session_ok r \<Longrightarrow> lease_expired now r \<Longrightarrow> session_ok (take_back now r)"
  by (auto simp: session_ok_def take_back_def live_cases lease_expired_def)

lemma ok_offer: "session_ok r \<Longrightarrow> tr_status r = SPending \<Longrightarrow> session_ok (offer now r)"
  by (auto simp: session_ok_def offer_def live_cases)

lemma ok_activate: "session_ok r \<Longrightarrow> live r \<Longrightarrow> session_ok (activate now r)"
  by (auto simp: session_ok_def activate_def live_cases)

lemma ok_ended:
  "session_ok (revoke now r)" "session_ok (fail_session now err r)"
  "st = SClosed \<or> st = SFailed \<Longrightarrow> session_ok (finish_session now st code failure bin bout r)"
  by (auto simp: session_ok_def revoke_def fail_session_def finish_session_def live_cases)

lemmas ok_intros [inv_intros] = ok_take_back ok_offer ok_activate ok_ended filter_wf

lemma session_row_Some: "session_row P rows = Some r \<Longrightarrow> r \<in> set rows \<and> P r"
  by (auto simp: session_row_def find_Some_iff)

lemma rows_of_wake [simp]: "ct_rows (wakeTerminalWaiters d s) = ct_rows s"
  by (simp add: wakeTerminalWaiters_def split: option.splits)

lemma same_id: "distinct (map tr_id rows) \<Longrightarrow> r \<in> set rows \<Longrightarrow> x \<in> set rows \<Longrightarrow> tr_id x = tr_id r \<Longrightarrow> x = r"
  by (metis distinct_map inj_onD)

section \<open>The calls keep it\<close>

text \<open>One call of the service, whatever its arguments, the clients' answers and the failing statement.\<close>

inductive session_call :: "terminals \<Rightarrow> terminals \<Rightarrow> bool" where
  created: "session_call s (fst (CreateTerminalSession ce ds q i minted s))"
| authenticated: "session_call s (fst (AuthenticateTerminalTicket ce d raw ticket s))"
| polled: "session_call s (fst (ListPendingTerminalSessions ce ds d secret s))"
| attached: "session_call s (fst (AttachTerminalAgent ce ds d secret raw s))"
| finished: "session_call s (fst (FinishTerminalSession ce i st code failure bin bout s))"
| closed: "session_call s (fst (CloseTerminalSession ce ds account d i s))"
| swept: "session_call s (fst (SweepTerminalSessions ce now s))"
| registered: "session_call s (snd (TerminalWait now d s))"
| parked: "park now d i timeout choice s = Some (b, s') \<Longrightarrow> session_call s s'"

text \<open>The rows after a call, as one of the statements the calls are made of.\<close>

lemma create_rows:
  "ct_rows (fst (CreateTerminalSession ce ds q i minted s)) = ct_rows s \<or>
   (\<exists>d ticket. insert_row tr_id (new_session ce d q i ticket) (ct_rows s) =
      Some (ct_rows (fst (CreateTerminalSession ce ds q i minted s))))"
  by (auto simp: CreateTerminalSession_def split: sum.splits option.splits prod.splits if_splits)

lemma authenticate_rows:
  "ct_rows (fst (AuthenticateTerminalTicket ce d raw ticket s)) = ct_rows s \<or>
   (\<exists>P now. ct_rows (fst (AuthenticateTerminalTicket ce d raw ticket s)) =
      update_where P (\<lambda>x. x\<lparr>tr_ticketHash := [], tr_updated := now\<rparr>) (ct_rows s))"
  by (auto simp: AuthenticateTerminalTicket_def Let_def split: option.splits if_splits) blast?

lemma authenticate_ok: "session_ok r \<Longrightarrow> session_ok (r\<lparr>tr_ticketHash := [], tr_updated := now\<rparr>)"
  by (simp add: session_ok_def live_cases)

lemma poll_eq:
  "ListPendingTerminalSessions ce ds d secret s =
     (case authenticateDaemon ce ds d secret of
        Inl _ \<Rightarrow> (s, Inl ErrUnauthorized)
      | Inr _ \<Rightarrow>
          if ce_fault ce 1 then (s, Inl DbError)
          else
            let rows1 = sessions.taken_back d (ce_now ce) (ct_rows s);
                picked = sessions.chosen d (pickable (ce_now ce)) terminalPendingLimit rows1 in
            if ce_fault ce 2 then (s\<lparr>ct_rows := rows1\<rparr>, Inl DbError)
            else if picked = [] then (s\<lparr>ct_rows := rows1\<rparr>, Inr [])
            else if ce_fault ce 3 then (s\<lparr>ct_rows := rows1\<rparr>, Inl DbError)
            else (s\<lparr>ct_rows := sessions.handed_out d (ce_now ce) (map tr_id picked) rows1\<rparr>,
                  Inr (map (\<lambda>r. viewTerminalSession (offer (ce_now ce) r)) picked)))"
  unfolding ListPendingTerminalSessions_def sessions.taken_back_def sessions.handed_out_def
    sessions.chosen_def Let_def ..

lemma poll_rows:
  "ct_rows (fst (ListPendingTerminalSessions ce ds d secret s)) = ct_rows s \<or>
   (\<exists>now. ct_rows (fst (ListPendingTerminalSessions ce ds d secret s)) = sessions.taken_back d now (ct_rows s)) \<or>
   (\<exists>now ids. ct_rows (fst (ListPendingTerminalSessions ce ds d secret s)) =
      sessions.handed_out d now ids (sessions.taken_back d now (ct_rows s)))"
  unfolding poll_eq Let_def by (simp split: sum.split del: set_map) blast

lemma attach_rows:
  "ct_rows (fst (AttachTerminalAgent ce ds d secret raw s)) = ct_rows s \<or>
   (\<exists>r now. r \<in> set (ct_rows s) \<and> live r \<and> ct_rows (fst (AttachTerminalAgent ce ds d secret raw s)) =
      update_where (\<lambda>x. tr_id x = tr_id r) (activate now) (ct_rows s))"
  by (auto simp: AttachTerminalAgent_def Let_def dest: session_row_Some split: sum.splits option.splits)

lemma close_rows:
  "ct_rows (fst (CloseTerminalSession ce ds account d i s)) = ct_rows s \<or>
   (\<exists>j now. ct_rows (fst (CloseTerminalSession ce ds account d i s)) =
      update_where (\<lambda>x. tr_id x = j \<and> live x) (revoke now) (ct_rows s))"
  by (auto simp: CloseTerminalSession_def split: sum.splits option.splits) blast?

lemma taken_back_wf: "sessions_wf rows \<Longrightarrow> sessions_wf (sessions.taken_back d now rows)"
  unfolding sessions.taken_back_def
  by (rule update_where_wf) (auto simp: sessions_wf_def list_all_iff intro: inv_intros)

lemma handed_out_wf: "sessions_wf rows \<Longrightarrow> sessions_wf (sessions.handed_out d now ids rows)"
  unfolding sessions.handed_out_def
  by (rule update_where_wf) (auto simp: sessions_wf_def list_all_iff intro: inv_intros)

lemma sweep_wf: "sessions_wf (ct_rows s) \<Longrightarrow> sessions_wf (ct_rows (fst (SweepTerminalSessions ce now s)))"
  unfolding SweepTerminalSessions_def Let_def
  by (auto intro!: filter_wf update_where_wf ok_ended)

text \<open>The table of sessions stays well-formed through every call, whatever statement of it fails: no two
sessions share an id, a session has an end time exactly when it is closed or failed, an offered one has a lease,
an active one a start time, a pending one no lease.\<close>

theorem calls_keep_sessions_wf:
  assumes "session_call s s'" "sessions_wf (ct_rows s)"
  shows "sessions_wf (ct_rows s')"
  using assms
proof (induction rule: session_call.induct)
  case (created s ce ds q i minted)
  then show ?case using create_rows [of ce ds q i minted s] insert_row_wf by metis
next
  case (authenticated s ce d raw ticket)
  have "sessions_wf (update_where P (\<lambda>x. x\<lparr>tr_ticketHash := [], tr_updated := now\<rparr>) (ct_rows s))" for P now
    using authenticated by (rule update_where_wf) (use authenticated in \<open>auto simp: sessions_wf_def list_all_iff authenticate_ok\<close>)
  then show ?case using authenticate_rows [of ce d raw ticket s] authenticated by metis
next
  case (polled s ce ds d secret)
  then show ?case using poll_rows [of ce ds d secret s] taken_back_wf handed_out_wf by metis
next
  case (attached s ce ds d secret raw)
  show ?case
  proof (cases "ct_rows (fst (AttachTerminalAgent ce ds d secret raw s)) = ct_rows s")
    case False
    then obtain r now where r: "r \<in> set (ct_rows s)" "live r"
      "ct_rows (fst (AttachTerminalAgent ce ds d secret raw s)) =
         update_where (\<lambda>x. tr_id x = tr_id r) (activate now) (ct_rows s)"
      using attach_rows [of ce ds d secret raw s] by auto
    have "session_ok (activate now x)" if "x \<in> set (ct_rows s)" "tr_id x = tr_id r" for x
      using that same_id [of "ct_rows s" r x] r(1,2) attached
      by (auto simp: sessions_wf_def list_all_iff intro: inv_intros)
    then show ?thesis using r(3) attached by (simp add: update_where_wf)
  qed (use attached in simp)
next
  case (finished s ce i st code failure bin bout)
  then show ?case by (auto simp: FinishTerminalSession_def intro!: update_where_wf ok_ended)
next
  case (closed s ce ds account d i)
  then show ?case using close_rows [of ce ds account d i s] by (auto intro!: update_where_wf ok_ended)
next
  case (swept s ce now)
  then show ?case by (rule sweep_wf)
next
  case (registered s now d)
  then show ?case by (simp add: TerminalWait_def split: option.splits)
next
  case (parked now d i timeout choice s b s')
  then show ?case
    by (auto simp: park_def releaseTerminalWait_def Let_def split: if_split_asm park_choice.splits)
qed

text \<open>A daemon, its workspace service and a request to evaluate on.\<close>

definition demo_daemon :: daemon where
  "demo_daemon = \<lparr>d_id = ''d1'', d_account = ''alice'', d_workspace = ''w1'', d_name = ''box'', d_secretHash = ''pw'', d_hostID = ''h1'',
     d_enabled = True, d_relay = True, d_lastSeen = None, d_disconnected = None, d_created = 0, d_updated = 0\<rparr>"

definition demo_cloud :: "time \<Rightarrow> cloud_env" where
  "demo_cloud now = \<lparr>ce_workspaces = Some \<lparr>wc_member = \<lambda>w a. Inr (w = ''w1'' \<and> a = ''alice''), wc_quota = \<lambda>_. Inr (\<lambda>_. 0)\<rparr>,
     ce_bcrypt = \<lambda>h p. h = p, ce_sha256 = \<lambda>t. CHR ''#'' # t, ce_now = now, ce_fault = \<lambda>_. False\<rparr>"

definition demo_request :: create_request where
  "demo_request = \<lparr>cq_account = ''alice'', cq_daemon = ''d1'', cq_invokedBy = ''@alice'', cq_shell = [], cq_user = [],
     cq_tmux = ''main'', cq_cols = 80, cq_rows = 24\<rparr>"

definition no_terminals :: terminals where
  "no_terminals = \<lparr>ct_rows = [], ct_waiters = [], ct_wait = []\<rparr>"

definition demo_row :: tsession where
  "demo_row = new_session (demo_cloud 10) demo_daemon demo_request ''s1'' ''secret''"

definition demo_terminals :: terminals where
  "demo_terminals = no_terminals\<lparr>ct_rows := [demo_row]\<rparr>"

lemma demo_wf: "sessions_wf (ct_rows no_terminals)" "sessions_wf (ct_rows demo_terminals)"
  by (simp_all add: no_terminals_def demo_terminals_def demo_row_def sessions_wf_def session_ok_def
      new_session_def live_cases)

lemma demo_created:
  "CreateTerminalSession (demo_cloud 10) [demo_daemon] demo_request ''s1'' (Inr ''secret'') no_terminals =
    (demo_terminals, Inr \<lparr>tt_session = ''s1'', tt_ticket = ''secret'', tt_expires = 10 + terminalTicketTTL, tt_daemon = ''d1''\<rparr>)"
  by code_simp

lemma demo_polled:
  "ListPendingTerminalSessions (demo_cloud 20) [demo_daemon] ''d1'' ''pw'' demo_terminals =
    (no_terminals\<lparr>ct_rows := [offer 20 demo_row]\<rparr>, Inr [viewTerminalSession (offer 20 demo_row)])"
  by code_simp

lemma demo_polled_again:
  "ListPendingTerminalSessions (demo_cloud 30) [demo_daemon] ''d1'' ''pw'' (no_terminals\<lparr>ct_rows := [offer 20 demo_row]\<rparr>) =
    (no_terminals\<lparr>ct_rows := [offer 20 demo_row]\<rparr>, Inr [])"
  by code_simp

theorem calls_keep_sessions_wf_witness:
  "sessions_wf (ct_rows (fst (ListPendingTerminalSessions (demo_cloud 20) [demo_daemon] ''d1'' ''pw'' demo_terminals)))"
  by (rule calls_keep_sessions_wf [OF session_call.polled demo_wf(2)])

section \<open>Creating\<close>

lemma admit_ok:
  assumes "admit ce ds q = Inr (d, limit)"
  shows "daemon_row ds (cq_daemon q) = Some d" "confirmed_member ce d (cq_account q)" "d_relay d" "0 < limit"
    "length (trim_space (cq_shell q)) \<le> 1024" "trim_space (cq_tmux q) = [] \<or> cloudTmuxName (trim_space (cq_tmux q))"
    "0 \<le> cq_cols q \<and> cq_cols q \<le> 1000 \<and> 0 \<le> cq_rows q \<and> cq_rows q \<le> 500"
  using assms
  by (auto simp: admit_def Let_def daemonForAccount_ok terminalDefaultWorkspaceSessions_def split: if_splits)

lemma live_in_insert:
  "live_in w (rows @ [new_session ce d q i ticket]) = live_in w rows + (if d_workspace d = w then 1 else 0)"
  by (simp add: live_in_def affected_def new_session_def live_cases)



section \<open>Picking up\<close>

lemma poll_success:
  assumes "ListPendingTerminalSessions ce ds d secret s = (s', Inr views)"
  defines "rows1 \<equiv> sessions.taken_back d (ce_now ce) (ct_rows s)"
  defines "picked \<equiv> sessions.chosen d (pickable (ce_now ce)) terminalPendingLimit rows1"
  shows "views = map (\<lambda>r. viewTerminalSession (offer (ce_now ce) r)) picked"
    "ct_rows s' = sessions.handed_out d (ce_now ce) (map tr_id picked) rows1"
    "is_ok (authenticateDaemon ce ds d secret)"
proof -
  have no_ids: "sessions.handed_out d now [] rows = rows" for now rows
    by (simp add: sessions.handed_out_def update_where_def)
  show "views = map (\<lambda>r. viewTerminalSession (offer (ce_now ce) r)) picked"
    "ct_rows s' = sessions.handed_out d (ce_now ce) (map tr_id picked) rows1"
    "is_ok (authenticateDaemon ce ds d secret)"
    using assms(1) unfolding poll_eq picked_def rows1_def Let_def
    by (auto simp: no_ids simp del: set_map split: sum.splits if_split_asm)
qed

lemma sv_id_offer [simp]: "sv_id (viewTerminalSession (offer now r)) = tr_id r"
  by (simp add: viewTerminalSession_def offer_def)

text \<open>A pickup hands the daemon at most eight of its own sessions, the oldest waiting ones created within the last
three minutes, each marked offered; and none of them is handed out again by a later pickup while the ninety-second
lease lasts.\<close>

theorem pickup_leases:
  assumes "ListPendingTerminalSessions ce ds d secret s = (s', Inr views)"
    and "ListPendingTerminalSessions ce' ds' d secret' s' = (s'', Inr views')"
    and "sessions_wf (ct_rows s)" "ce_now ce' \<le> ce_now ce + terminalLeaseDuration"
  shows "length views \<le> 8 \<and> sorted (map sv_created views) \<and>
    (\<forall>v \<in> set views. sv_daemon v = d \<and> sv_status v = SOffered \<and> ce_now ce - seconds 180 < sv_created v \<and>
       v \<in> viewTerminalSession ` set (ct_rows s')) \<and>
    set (map sv_id views) \<inter> set (map sv_id views') = {}"
proof -
  let ?now = "ce_now ce" and ?rows1 = "sessions.taken_back d (ce_now ce) (ct_rows s)"
  let ?picked = "sessions.chosen d (pickable ?now) terminalPendingLimit ?rows1"
  have v: "views = map (\<lambda>r. viewTerminalSession (offer ?now r)) ?picked"
    and s': "ct_rows s' = sessions.handed_out d ?now (map tr_id ?picked) ?rows1"
    using poll_success [OF assms(1)] by simp_all
  have v': "views' = map (\<lambda>r. viewTerminalSession (offer (ce_now ce') r))
      (sessions.chosen d (pickable (ce_now ce')) terminalPendingLimit (sessions.taken_back d (ce_now ce') (ct_rows s')))"
    using poll_success(1) [OF assms(2)] .
  have polled: "ct_rows s' = sessions.polled d ?now (pickable ?now) terminalPendingLimit (ct_rows s)"
    using s' by (simp add: sessions.polled_def Let_def)
  have "length views \<le> 8" using v by (simp add: sessions.chosen_def terminalPendingLimit_def [symmetric])
  moreover have "map sv_created views = map tr_created ?picked"
    using v by (simp add: viewTerminalSession_def offer_def)
  then have "sorted (map sv_created views)" by (simp add: sessions.chosen_def sorted_select_asc)
  moreover have "sv_daemon w = d \<and> sv_status w = SOffered \<and> ?now - seconds 180 < sv_created w \<and>
      w \<in> viewTerminalSession ` set (ct_rows s')" if wv: "w \<in> set views" for w
  proof -
    obtain r where r: "r \<in> set ?picked" "w = viewTerminalSession (offer ?now r)"
      using wv unfolding v set_map by blast
    have m: "r \<in> set ?rows1 \<and> tr_daemon r = d \<and> tr_status r = SPending \<and> pickable ?now r"
      by (rule sessions.chosen_mine [OF r(1)])
    then have "offer ?now r \<in> set (ct_rows s')"
      using r(1) unfolding s' sessions.handed_out_def set_update_where by (force intro!: rev_image_eqI [of r])
    then have "w \<in> viewTerminalSession ` set (ct_rows s')" using r(2) by blast
    then show ?thesis
      using m r(2) by (simp add: viewTerminalSession_def offer_def pickable_def terminalPendingExpiry_def)
  qed
  moreover have "k \<notin> set (map sv_id views')" if "k \<in> set (map sv_id views)" for k
  proof -
    have "k \<in> tr_id ` set ?picked" using that v by (auto simp: image_iff)
    then have "k \<notin> tr_id ` set (sessions.chosen d (pickable (ce_now ce')) terminalPendingLimit
        (sessions.taken_back d (ce_now ce') (ct_rows s')))"
      unfolding polled using assms(3,4) by (intro sessions.handed_out_once) (simp_all add: sessions_wf_def)
    then show ?thesis using v' by (auto simp: image_iff)
  qed
  ultimately show ?thesis by blast
qed

theorem pickup_leases_witness:
  "length [viewTerminalSession (offer 20 demo_row)] \<le> 8 \<and> sv_status (viewTerminalSession (offer 20 demo_row)) = SOffered"
  using pickup_leases [OF demo_polled demo_polled_again demo_wf(2)]
  by (simp add: demo_cloud_def terminalLeaseDuration_def seconds_def)

section \<open>Sweeping\<close>

definition overdue :: "time \<Rightarrow> tsession \<Rightarrow> bool" where
  "overdue now r \<longleftrightarrow> unclaimed now r \<or> stale now r"

definition sweep_row :: "time \<Rightarrow> tsession \<Rightarrow> tsession" where
  "sweep_row now r =
     (if unclaimed now r then fail_session now ''not picked up'' r
      else if stale now r then fail_session now ''stale session'' r else r)"

lemma not_stale_failed [simp]: "\<not> stale now (fail_session t e r)" "\<not> unclaimed now (fail_session t e r)"
  by (simp_all add: stale_def unclaimed_def fail_session_def)

lemma stale_after_unclaimed:
  "(let x = (if unclaimed now r then fail_session now e r else r) in if stale now x then fail_session now e' x else x) =
   (if unclaimed now r then fail_session now e r else if stale now r then fail_session now e' r else r)"
  by (cases "unclaimed now r") (simp_all add: Let_def)

lemma sweep_rows:
  assumes "SweepTerminalSessions ce now s = (s', Inr u)"
  shows "ct_rows s' = filter (\<lambda>r. \<not> prunable now r) (map (sweep_row now) (ct_rows s))"
proof -
  have "update_where (stale now) (fail_session now ''stale session'')
      (update_where (unclaimed now) (fail_session now ''not picked up'') rows) = map (sweep_row now) rows" for rows
    unfolding update_where_def map_map comp_def sweep_row_def [abs_def]
    by (rule map_cong [OF refl]) (use stale_after_unclaimed in \<open>simp add: Let_def\<close>)
  then show ?thesis using assms by (auto simp: SweepTerminalSessions_def Let_def split: if_splits)
qed

text \<open>A sweep that succeeds leaves no session that was never attached for three minutes, none that has been active
for a day, and no finished one older than a week; a session it ends is failed with its reason and kept for a
week; every other session is exactly as it was, none is created, and no live session disappears.\<close>

theorem sweep_bounds_sessions:
  assumes "SweepTerminalSessions ce now s = (s', Inr u)"
  shows "(\<forall>r \<in> set (ct_rows s'). \<not> overdue now r \<and> \<not> prunable now r) \<and>
    (\<forall>r \<in> set (ct_rows s). live r \<and> \<not> overdue now r \<longrightarrow> r \<in> set (ct_rows s')) \<and>
    (\<forall>r \<in> set (ct_rows s). overdue now r \<longrightarrow>
       (\<exists>err. fail_session now err r \<in> set (ct_rows s') \<and> err \<in> {''not picked up'', ''stale session''})) \<and>
    (\<forall>r \<in> set (ct_rows s'). r \<in> set (ct_rows s) \<or> (\<exists>q \<in> set (ct_rows s). overdue now q \<and> r = sweep_row now q)) \<and>
    live_in w (ct_rows s') \<le> live_in w (ct_rows s)"
proof -
  have rows: "ct_rows s' = filter (\<lambda>r. \<not> prunable now r) (map (sweep_row now) (ct_rows s))"
    by (rule sweep_rows [OF assms])
  have over: "\<not> overdue now (sweep_row now r)" for r
    by (simp add: overdue_def sweep_row_def)
  have kept: "sweep_row now r = r" if "\<not> overdue now r" for r
    using that by (simp add: overdue_def sweep_row_def)
  have live_kept: "\<not> prunable now r" if "live r" for r
    using that by (auto simp: prunable_def live_cases)
  have failed_kept: "\<not> prunable now (fail_session now e r)" for e r
    by (simp add: prunable_def fail_session_def terminalRetention_def seconds_def)
  have ended: "\<exists>err. sweep_row now r = fail_session now err r \<and> err \<in> {''not picked up'', ''stale session''}"
    if "overdue now r" for r
    using that by (auto simp: overdue_def sweep_row_def)
  have stays_out: "live r \<and> tr_workspace r = w" if "live (sweep_row now r) \<and> tr_workspace (sweep_row now r) = w" for r
  proof (cases "overdue now r")
    case True
    then obtain e where "sweep_row now r = fail_session now e r" using ended by blast
    then show ?thesis using that by simp
  next
    case False
    then show ?thesis using that kept [of r] by simp
  qed
  have "live_in w (filter (\<lambda>r. \<not> prunable now r) (map (sweep_row now) rs)) \<le> live_in w rs" for rs
  proof (induction rs)
    case (Cons r rs)
    then show ?case using stays_out [of r] by (auto simp: live_in_def affected_def)
  qed (simp add: live_in_def affected_def)
  then have live_in: "live_in w (ct_rows s') \<le> live_in w (ct_rows s)" unfolding rows .
  have gone: "\<not> overdue now r \<and> \<not> prunable now r" if "r \<in> set (ct_rows s')" for r
    using that over unfolding rows by auto
  have same: "r \<in> set (ct_rows s')" if "r \<in> set (ct_rows s)" "live r \<and> \<not> overdue now r" for r
    using that kept [of r] live_kept [of r] image_eqI [of r "sweep_row now" r] unfolding rows by auto
  have failed: "\<exists>err. fail_session now err r \<in> set (ct_rows s') \<and> err \<in> {''not picked up'', ''stale session''}"
    if r: "r \<in> set (ct_rows s)" "overdue now r" for r
  proof -
    obtain err where e: "sweep_row now r = fail_session now err r" "err \<in> {''not picked up'', ''stale session''}"
      using ended [OF r(2)] by blast
    then have "fail_session now err r \<in> set (ct_rows s')"
      using failed_kept r(1) unfolding rows by (metis (no_types, lifting) filter_set image_eqI list.set_map mem_Collect_eq set_filter)
    then show ?thesis using e(2) by blast
  qed
  have origin: "r \<in> set (ct_rows s) \<or> (\<exists>q \<in> set (ct_rows s). overdue now q \<and> r = sweep_row now q)"
    if r: "r \<in> set (ct_rows s')" for r
  proof -
    obtain q where q: "q \<in> set (ct_rows s)" "r = sweep_row now q" using r unfolding rows by auto
    show ?thesis by (cases "overdue now q") (use q kept [of q] in auto)
  qed
  show ?thesis using live_in gone same failed origin by blast
qed

lemma demo_swept:
  "SweepTerminalSessions (demo_cloud 0) (seconds 200) demo_terminals =
    (no_terminals\<lparr>ct_rows := [fail_session (seconds 200) ''not picked up'' demo_row]\<rparr>, Inr ())"
  by (simp add: SweepTerminalSessions_def Let_def demo_cloud_def demo_terminals_def no_terminals_def update_where_def
      unclaimed_def stale_def prunable_def demo_row_def new_session_def fail_session_def terminalPendingExpiry_def
      terminalRetention_def seconds_def)

theorem sweep_bounds_sessions_witness:
  "\<not> overdue (seconds 200) (fail_session (seconds 200) ''not picked up'' demo_row) \<and> live_in ''w1'' (ct_rows demo_terminals) = 1"
proof -
  have "live_in ''w1'' (ct_rows demo_terminals) = 1" by code_simp
  then show ?thesis using sweep_bounds_sessions [OF demo_swept, of "''w1''"] by simp
qed

end
