(* ===== verification/Cloud_Terminal_Poll.thy ===== *)
theory Cloud_Terminal_Poll
  imports Cloud_Terminal_Facts
begin

text \<open>
  The daemon's long poll (\<open>listPendingTerminalSessions\<close> in \<open>internal/handler/terminal.go\<close>) over
  the calls of \<open>Cloud_Terminal\<close>: register a waiter, list, park when there was nothing, list again.
  What other calls do while the poll is parked is an argument.
\<close>

section \<open>The handler\<close>

datatype poll_reply = PollStatus nat | PollFailed cloud_error | PollSessions "session_view list"

definition terminalMinLimit :: int where "terminalMinLimit = 1"
definition terminalMaxLimit :: int where "terminalMaxLimit = 8"

definition poll_limit_bad :: "string \<Rightarrow> bool" where
  "poll_limit_bad raw \<longleftrightarrow> trim_space raw \<noteq> [] \<and>
     (case atoi (trim_space raw) of None \<Rightarrow> True | Some v \<Rightarrow> v < terminalMinLimit \<or> terminalMaxLimit < v)"

text \<open>\<open>duration\<close> is \<open>time.ParseDuration\<close>; \<open>None\<close> stands for the answer 400.\<close>

definition poll_wait :: "(string \<Rightarrow> time option) \<Rightarrow> string \<Rightarrow> time option" where
  "poll_wait duration raw =
     (if trim_space raw = [] then Some 0
      else case duration (trim_space raw) of
        None \<Rightarrow> None
      | Some v \<Rightarrow> if v < 0 then None else Some (if terminalMaxWait < v then terminalMaxWait else v))"

text \<open>
  \<open>ce1\<close> and \<open>ce2\<close> are the environments of the two listings, \<open>others\<close> what other calls do between
  the first listing and the end of the park, \<open>choice\<close> what ends the park. \<open>None\<close>: still parked.
\<close>

definition pickup ::
  "cloud_env \<Rightarrow> cloud_env \<Rightarrow> daemon list \<Rightarrow> (string \<Rightarrow> time option) \<Rightarrow> string option \<Rightarrow> string \<Rightarrow> string \<Rightarrow> string
     \<Rightarrow> (terminals \<Rightarrow> terminals) \<Rightarrow> park_choice \<Rightarrow> terminals \<Rightarrow> (terminals \<times> poll_reply) option" where
  "pickup ce1 ce2 ds duration secret d limit wait others choice s =
     (case secret of
        None \<Rightarrow> Some (s, PollStatus 401)
      | Some sec \<Rightarrow>
          if poll_limit_bad limit then Some (s, PollStatus 400)
          else case poll_wait duration wait of
            None \<Rightarrow> Some (s, PollStatus 400)
          | Some timeout \<Rightarrow>
              (case TerminalWait (ce_now ce1) d s of (i, s1) \<Rightarrow>
              (case ListPendingTerminalSessions ce1 ds d sec s1 of
                 (s2, Inl e) \<Rightarrow> Some (s2, PollFailed e)
               | (s2, Inr sessions) \<Rightarrow>
                   if sessions = [] \<and> 0 < timeout then
                     (case park (ce_now ce2) d i timeout choice (others s2) of
                        None \<Rightarrow> None
                      | Some (_, s3) \<Rightarrow>
                          (case ListPendingTerminalSessions ce2 ds d sec s3 of
                             (s4, Inl e) \<Rightarrow> Some (s4, PollFailed e)
                           | (s4, Inr sessions') \<Rightarrow> Some (s4, PollSessions sessions')))
                   else
                     (case park (ce_now ce1) d i 0 choice s2 of
                        None \<Rightarrow> None
                      | Some (_, s3) \<Rightarrow> Some (s3, PollSessions sessions)))))"

section \<open>Waiters\<close>

definition waiters_ok :: "terminals \<Rightarrow> bool" where
  "waiters_ok s \<longleftrightarrow> (\<forall>d i. map_of (ct_wait s) d = Some i \<longrightarrow> i < length (ct_waiters s))"

lemma list_keeps_waiters [simp]:
  "ct_wait (fst (ListPendingTerminalSessions ce ds d secret s)) = ct_wait s"
  "ct_waiters (fst (ListPendingTerminalSessions ce ds d secret s)) = ct_waiters s"
  by (simp_all add: ListPendingTerminalSessions_def Let_def split: sum.split)

lemma register_waits:
  assumes "TerminalWait now d s = (i, s')" "waiters_ok s"
  shows "map_of (ct_wait s') d = Some i \<and> i < length (ct_waiters s') \<and> ct_rows s' = ct_rows s \<and> waiters_ok s'"
  using assms by (fastforce simp: TerminalWait_def waiters_ok_def split: option.splits if_splits)

lemma create_wakes:
  assumes "CreateTerminalSession ce ds q i minted s = (s', Inr t)" "map_of (ct_wait s) (cq_daemon q) = Some w"
    and "w < length (ct_waiters s)"
  shows "w_token (ct_waiters s' ! w)" "map_of (ct_wait s') = map_of (ct_wait s)"
proof -
  obtain d limit rows where "admit ce ds q = Inr (d, limit)" "s' = wakeTerminalWaiters (d_id d) (s\<lparr>ct_rows := rows\<rparr>)"
    using assms(1)
    by (auto simp: CreateTerminalSession_def split: sum.splits option.splits prod.splits if_splits)
  moreover from this have "d_id d = cq_daemon q"
    using admit_ok(1) daemon_row_Some by blast
  ultimately show "w_token (ct_waiters s' ! w)" "map_of (ct_wait s') = map_of (ct_wait s)"
    using assms(2,3) by (simp_all add: wakeTerminalWaiters_def)
qed

lemma park_token:
  assumes "w_token (ct_waiters s ! i)" "0 < timeout"
  shows "\<exists>s'. park now d i timeout ParkWoken s = Some (True, s') \<and> ct_rows s' = ct_rows s"
  using assms by (simp add: park_def releaseTerminalWait_def Let_def)

lemma park_no_token:
  assumes "\<not> w_token (ct_waiters s ! i)" "0 < timeout"
  shows "park now d i timeout ParkWoken s = None"
  using assms by (simp add: park_def)

text \<open>A waiting row of the daemon is handed out unless eight older ones are.\<close>

lemma poll_hands_out:
  assumes "ListPendingTerminalSessions ce ds d secret s = (s', Inr views)"
    and "r \<in> set (ct_rows s)" "tr_daemon r = d" "tr_status r = SPending" "pickable (ce_now ce) r"
  shows "tr_id r \<in> sv_id ` set views \<or> length views = 8"
proof -
  let ?rows1 = "sessions.taken_back d (ce_now ce) (ct_rows s)"
  let ?picked = "sessions.chosen d (pickable (ce_now ce)) terminalPendingLimit ?rows1"
  have v: "views = map (\<lambda>r. viewTerminalSession (offer (ce_now ce) r)) ?picked"
    by (rule poll_success(1) [OF assms(1)])
  have "r \<in> set ?rows1"
    using assms(2,4) unfolding sessions.taken_back_def set_update_where
    by (intro image_eqI [of _ _ r]) (simp_all add: lease_expired_def)
  then have "r \<in> set ?picked \<or> length ?picked = terminalPendingLimit"
    using assms(3-5) select_asc_all [of "\<lambda>r. tr_daemon r = d \<and> tr_status r = SPending \<and> pickable (ce_now ce) r"
        tr_created terminalPendingLimit ?rows1]
    unfolding sessions.chosen_def by (metis (mono_tags, lifting) le_neq_implies_less length_select(1) mem_Collect_eq)
  then show ?thesis using v by (auto simp: terminalPendingLimit_def image_iff)
qed


lemma demo_waiters: "waiters_ok no_terminals"
  by (simp add: waiters_ok_def no_terminals_def)

definition demo_waiting :: terminals where
  "demo_waiting = \<lparr>ct_rows = [], ct_waiters = [\<lparr>w_token = False, w_at = 5\<rparr>], ct_wait = [(''d1'', 0)]\<rparr>"

lemma demo_registered: "TerminalWait 5 ''d1'' no_terminals = (0, demo_waiting)"
  by (simp add: TerminalWait_def no_terminals_def demo_waiting_def)

lemma demo_listed: "ListPendingTerminalSessions (demo_cloud 5) [demo_daemon] ''d1'' ''pw'' demo_waiting = (demo_waiting, Inr [])"
  by code_simp

lemma demo_made:
  "CreateTerminalSession (demo_cloud 10) [demo_daemon] demo_request ''s1'' (Inr ''secret'') demo_waiting =
    (demo_waiting\<lparr>ct_rows := [demo_row], ct_waiters := [\<lparr>w_token = True, w_at = 5\<rparr>]\<rparr>,
     Inr \<lparr>tt_session = ''s1'', tt_ticket = ''secret'', tt_expires = 10 + terminalTicketTTL, tt_daemon = ''d1''\<rparr>)"
  by code_simp


text \<open>Two overlapping polls of one daemon share a waiter, and the first to end unregisters it: a session created
after that sets no token, so the second poll sleeps until its timer although it registered before the session
was created.\<close>

theorem overlapping_polls_lose_wakeup:
  assumes "waiters_ok s" "map_of (ct_wait s) d = None"
    and "TerminalWait now d s = (i, s1)" "TerminalWait now' d s1 = (j, s2)"
    and "park t1 d i timeout ParkTimedOut s2 = Some (b, s3)"
    and "CreateTerminalSession ce ds q k minted s3 = (s4, Inr t)" "cq_daemon q = d" "0 < timeout"
  shows "i = j \<and> park t2 d j timeout ParkWoken s4 = None"
proof -
  have i: "i = length (ct_waiters s)" and s1: "s1 = s\<lparr>ct_waiters := ct_waiters s @ [\<lparr>w_token = False, w_at = now\<rparr>],
      ct_wait := put d (length (ct_waiters s)) (ct_wait s)\<rparr>"
    using assms(2,3) by (auto simp: TerminalWait_def)
  have j: "j = i" and s2: "s2 = s1\<lparr>ct_waiters := (ct_waiters s1)[i := (ct_waiters s1 ! i)\<lparr>w_at := now'\<rparr>]\<rparr>"
    using assms(4) i by (auto simp: TerminalWait_def s1)
  have tok: "\<not> w_token (ct_waiters s2 ! i)" using i by (simp add: s2 s1)
  have s3: "s3 = releaseTerminalWait t1 d i s2" using assms(5,8) by (simp add: park_def)
  have reg: "map_of (ct_wait s2) d = Some i" using i by (simp add: s2 s1)
  then have "map_of (ct_wait s3) d = None"
    by (auto simp: s3 releaseTerminalWait_def Let_def map_of_eq_None_iff del_def)
  moreover have "ct_waiters s3 = ct_waiters s2" by (simp add: s3 releaseTerminalWait_def Let_def)
  moreover obtain dd limit rows where "admit ce ds q = Inr (dd, limit)" "s4 = wakeTerminalWaiters (d_id dd) (s3\<lparr>ct_rows := rows\<rparr>)"
    using assms(6) by (auto simp: CreateTerminalSession_def split: sum.splits option.splits prod.splits if_splits)
  moreover from this have "d_id dd = d" using admit_ok(1) daemon_row_Some assms(7) by blast
  ultimately have "ct_waiters s4 = ct_waiters s2" by (simp add: wakeTerminalWaiters_def)
  then show ?thesis using park_no_token tok j assms(8) by simp
qed

lemma demo_registered_twice: "TerminalWait 6 ''d1'' demo_waiting = (0, demo_waiting\<lparr>ct_waiters := [\<lparr>w_token = False, w_at = 6\<rparr>]\<rparr>)"
  by (simp add: TerminalWait_def demo_waiting_def)

lemma demo_first_ends:
  "park 7 ''d1'' 0 1 ParkTimedOut (demo_waiting\<lparr>ct_waiters := [\<lparr>w_token = False, w_at = 6\<rparr>]\<rparr>) =
    Some (False, \<lparr>ct_rows = [], ct_waiters = [\<lparr>w_token = False, w_at = 6\<rparr>], ct_wait = []\<rparr>)"
  by code_simp

lemma demo_made_late:
  "CreateTerminalSession (demo_cloud 10) [demo_daemon] demo_request ''s1'' (Inr ''secret'')
      \<lparr>ct_rows = [], ct_waiters = [\<lparr>w_token = False, w_at = 6\<rparr>], ct_wait = []\<rparr> =
    (\<lparr>ct_rows = [demo_row], ct_waiters = [\<lparr>w_token = False, w_at = 6\<rparr>], ct_wait = []\<rparr>,
     Inr \<lparr>tt_session = ''s1'', tt_ticket = ''secret'', tt_expires = 10 + terminalTicketTTL, tt_daemon = ''d1''\<rparr>)"
  by code_simp

theorem overlapping_polls_lose_wakeup_witness:
  "park 20 ''d1'' 0 1 ParkWoken \<lparr>ct_rows = [demo_row], ct_waiters = [\<lparr>w_token = False, w_at = 6\<rparr>], ct_wait = []\<rparr> = None"
  using overlapping_polls_lose_wakeup [OF demo_waiters _ demo_registered demo_registered_twice demo_first_ends demo_made_late, of 20]
  by (simp add: no_terminals_def demo_request_def)

text \<open>A poll whose listing fails, for example because the secret is wrong or the daemon does not exist, leaves its
waiter registered: the handler registers before it authenticates and returns without calling the park that
would release it.\<close>

theorem failed_poll_keeps_waiter:
  assumes "\<not> poll_limit_bad limit" "poll_wait duration wait \<noteq> None" "waiters_ok s"
    and "\<not> is_ok (authenticateDaemon ce1 ds d sec)"
  shows "\<exists>s' i. pickup ce1 ce2 ds duration (Some sec) d limit wait others choice s = Some (s', PollFailed ErrUnauthorized) \<and>
    map_of (ct_wait s') d = Some i"
proof -
  obtain i s1 where s1: "TerminalWait (ce_now ce1) d s = (i, s1)" by fastforce
  obtain e where "authenticateDaemon ce1 ds d sec = Inl e" using assms(4) by (cases "authenticateDaemon ce1 ds d sec") auto
  then have "ListPendingTerminalSessions ce1 ds d sec s1 = (s1, Inl ErrUnauthorized)"
    by (simp add: ListPendingTerminalSessions_def)
  then show ?thesis using assms(1,2) s1 register_waits [OF s1 assms(3)] by (auto simp: pickup_def)
qed

theorem failed_poll_keeps_waiter_witness:
  "\<exists>s' i. pickup (demo_cloud 5) (demo_cloud 6) [demo_daemon] (\<lambda>_. None) (Some ''wrong'') ''d1'' [] [] (\<lambda>s. s) ParkTimedOut no_terminals =
      Some (s', PollFailed ErrUnauthorized) \<and> map_of (ct_wait s') ''d1'' = Some i"
proof (rule failed_poll_keeps_waiter)
  show "\<not> poll_limit_bad []" "poll_wait (\<lambda>_. None) [] \<noteq> None" "\<not> is_ok (authenticateDaemon (demo_cloud 5) [demo_daemon] ''d1'' ''wrong'')"
    by code_simp+
qed (rule demo_waiters)

end
