(* ===== verification/Cloud_Terminal_Races.thy ===== *)
theory Cloud_Terminal_Races
  imports Cloud_Terminal_Facts
begin

text \<open>
  The calls of \<open>internal/cloud/terminal.go\<close> at the grain of their SQL statements. The service
  takes no lock and opens no transaction, so the statements of concurrent requests interleave:
  a state is the table and the requests that have read and not yet written, a step is one
  statement. A request that stops between two statements (the client went away, the database
  failed) is a step of its own.
\<close>

section \<open>States and steps\<close>

record race =
  x_rows :: "tsession list"
  x_used :: "string list" \<comment> \<open>every id ever inserted: \<open>uuid.NewString\<close> does not repeat one\<close>
  x_auths :: "(string \<times> string) list" \<comment> \<open>handshakes between their read and their swap: id, hash read\<close>
  x_attaches :: "string list" \<comment> \<open>attaches that have read a live session\<close>
  x_creates :: "string list" \<comment> \<open>creations that were counted in: workspace\<close>
  x_won :: "string list" \<comment> \<open>sessions whose handshake succeeded\<close>

datatype race_event =
    CountedIn string | Inserted string | TicketRead string | TicketTaken string | TicketGone string
  | TakenBack string time | Offered string time | AttachRead string | AttachWritten string
  | Finished string | Revoked string | SweptUnclaimed time | SweptStale time | Pruned time | Abandoned

definition swaps :: "string \<Rightarrow> string \<Rightarrow> tsession \<Rightarrow> bool" where
  "swaps i h r \<longleftrightarrow> tr_id r = i \<and> tr_ticketHash r = h"

definition clear_ticket :: "time \<Rightarrow> tsession \<Rightarrow> tsession" where
  "clear_ticket now r = r\<lparr>tr_ticketHash := [], tr_updated := now\<rparr>"

inductive race_step :: "(string \<Rightarrow> string) \<Rightarrow> race \<Rightarrow> race_event \<Rightarrow> race \<Rightarrow> bool" for sha where
  counted_in: "int (live_in w (x_rows s)) < limit \<Longrightarrow>
     race_step sha s (CountedIn w) (s\<lparr>x_creates := w # x_creates s\<rparr>)"
| inserted: "d_workspace d \<in> set (x_creates s) \<Longrightarrow> i \<notin> set (x_used s) \<Longrightarrow> ce_sha256 ce = sha \<Longrightarrow>
     race_step sha s (Inserted i)
       (s\<lparr>x_rows := x_rows s @ [new_session ce d q i ticket], x_used := i # x_used s,
         x_creates := remove1 (d_workspace d) (x_creates s)\<rparr>)"
| ticket_read: "r \<in> set (x_rows s) \<Longrightarrow> live r \<Longrightarrow> \<not> tr_created r + terminalTicketTTL < now \<Longrightarrow>
     tr_ticketHash r \<noteq> [] \<Longrightarrow> sha ticket = tr_ticketHash r \<Longrightarrow>
     race_step sha s (TicketRead (tr_id r)) (s\<lparr>x_auths := (tr_id r, tr_ticketHash r) # x_auths s\<rparr>)"
| ticket_taken: "(i, h) \<in> set (x_auths s) \<Longrightarrow> affected (swaps i h) (x_rows s) \<noteq> 0 \<Longrightarrow>
     race_step sha s (TicketTaken i)
       (s\<lparr>x_rows := update_where (swaps i h) (clear_ticket now) (x_rows s),
         x_auths := remove1 (i, h) (x_auths s), x_won := i # x_won s\<rparr>)"
| ticket_gone: "(i, h) \<in> set (x_auths s) \<Longrightarrow> affected (swaps i h) (x_rows s) = 0 \<Longrightarrow>
     race_step sha s (TicketGone i) (s\<lparr>x_auths := remove1 (i, h) (x_auths s)\<rparr>)"
| taken_back: "race_step sha s (TakenBack d now) (s\<lparr>x_rows := sessions.taken_back d now (x_rows s)\<rparr>)"
| offered: "race_step sha s (Offered d now) (s\<lparr>x_rows := sessions.handed_out d now ids (x_rows s)\<rparr>)"
| attach_read: "r \<in> set (x_rows s) \<Longrightarrow> live r \<Longrightarrow> tr_status r \<noteq> SActive \<or> tr_started r = None \<Longrightarrow>
     race_step sha s (AttachRead (tr_id r)) (s\<lparr>x_attaches := tr_id r # x_attaches s\<rparr>)"
| attach_written: "i \<in> set (x_attaches s) \<Longrightarrow>
     race_step sha s (AttachWritten i)
       (s\<lparr>x_rows := update_where (\<lambda>x. tr_id x = i) (activate now) (x_rows s), x_attaches := remove1 i (x_attaches s)\<rparr>)"
| finished: "st = SClosed \<or> st = SFailed \<Longrightarrow>
     race_step sha s (Finished i)
       (s\<lparr>x_rows := update_where (\<lambda>r. tr_id r = i \<and> live r) (finish_session now st code failure bin bout) (x_rows s)\<rparr>)"
| revoked: "race_step sha s (Revoked i)
     (s\<lparr>x_rows := update_where (\<lambda>r. tr_id r = i \<and> live r) (revoke now) (x_rows s)\<rparr>)"
| swept_unclaimed: "race_step sha s (SweptUnclaimed now)
     (s\<lparr>x_rows := update_where (unclaimed now) (fail_session now ''not picked up'') (x_rows s)\<rparr>)"
| swept_stale: "race_step sha s (SweptStale now)
     (s\<lparr>x_rows := update_where (stale now) (fail_session now ''stale session'') (x_rows s)\<rparr>)"
| pruned: "race_step sha s (Pruned now) (s\<lparr>x_rows := filter (\<lambda>r. \<not> prunable now r) (x_rows s)\<rparr>)"
| abandoned: "set auths \<subseteq> set (x_auths s) \<Longrightarrow> set attaches \<subseteq> set (x_attaches s) \<Longrightarrow> set creates \<subseteq> set (x_creates s) \<Longrightarrow>
     race_step sha s Abandoned (s\<lparr>x_auths := auths, x_attaches := attaches, x_creates := creates\<rparr>)"

inductive_cases race_stepE: "race_step sha s e s'"

inductive race_run :: "(string \<Rightarrow> string) \<Rightarrow> race \<Rightarrow> race_event list \<Rightarrow> race \<Rightarrow> bool" for sha where
  nothing: "race_run sha s [] s"
| more: "race_step sha s e s' \<Longrightarrow> race_run sha s' es s'' \<Longrightarrow> race_run sha s (e # es) s''"

definition no_sessions :: race where
  "no_sessions = \<lparr>x_rows = [], x_used = [], x_auths = [], x_attaches = [], x_creates = [], x_won = []\<rparr>"

section \<open>The calls are runs of statements\<close>

text \<open>An attach that writes is a read and a write, a handshake that succeeds a read and a swap.\<close>

lemma attach_writes:
  assumes "AttachTerminalAgent ce ds d secret raw s = (s', Inr v)" "ct_rows s' \<noteq> ct_rows s"
  obtains r where "r \<in> set (ct_rows s)" "live r" "tr_status r \<noteq> SActive \<or> tr_started r = None"
    "ct_rows s' = update_where (\<lambda>x. tr_id x = tr_id r) (activate (ce_now ce)) (ct_rows s)" "sv_id v = tr_id r"
proof (cases "session_row (\<lambda>r. tr_id r = trim_space raw \<and> tr_daemon r = d) (ct_rows s)")
  case None
  then show ?thesis using assms(1) by (simp add: AttachTerminalAgent_def Let_def split: sum.splits if_split_asm)
next
  case (Some r)
  have s': "live r" "tr_status r \<noteq> SActive \<or> tr_started r = None"
    "s' = s\<lparr>ct_rows := update_where (\<lambda>x. tr_id x = tr_id r) (activate (ce_now ce)) (ct_rows s)\<rparr>"
    "v = viewTerminalSession (r\<lparr>tr_status := SActive, tr_started := Some (ce_now ce)\<rparr>)"
    using assms Some
    by (simp_all add: AttachTerminalAgent_def Let_def del: not_None_eq split: sum.splits if_split_asm)
  show ?thesis
    by (rule that [of r]) (use session_row_Some [OF Some] s' in \<open>simp_all add: viewTerminalSession_def\<close>)
qed

lemma handshake_swaps:
  assumes "AuthenticateTerminalTicket ce d raw ticket s = (s', Inr v)"
  obtains r where "r \<in> set (ct_rows s)" "live r" "\<not> tr_created r + terminalTicketTTL < ce_now ce"
    "tr_ticketHash r \<noteq> []" "ce_sha256 ce ticket = tr_ticketHash r"
    "affected (swaps (tr_id r) (tr_ticketHash r)) (ct_rows s) \<noteq> 0"
    "ct_rows s' = update_where (swaps (tr_id r) (tr_ticketHash r)) (clear_ticket (ce_now ce)) (ct_rows s)" "sv_id v = tr_id r"
proof (cases "session_row (\<lambda>r. tr_id r = trim_space raw \<and> tr_daemon r = d) (ct_rows s)")
  case None
  then show ?thesis using assms by (simp add: AuthenticateTerminalTicket_def Let_def split: if_split_asm)
next
  case (Some r)
  have s': "live r" "\<not> tr_created r + terminalTicketTTL < ce_now ce" "tr_ticketHash r \<noteq> []"
    "ce_sha256 ce ticket = tr_ticketHash r"
    "affected (swaps (tr_id r) (tr_ticketHash r)) (ct_rows s) \<noteq> 0"
    "s' = s\<lparr>ct_rows := update_where (swaps (tr_id r) (tr_ticketHash r)) (clear_ticket (ce_now ce)) (ct_rows s)\<rparr>"
    "v = viewTerminalSession (r\<lparr>tr_ticketHash := []\<rparr>)"
    using assms Some unfolding swaps_def [abs_def] clear_ticket_def [abs_def]
    by (simp_all add: AuthenticateTerminalTicket_def Let_def split: if_split_asm)
  show ?thesis
    by (rule that [of r]) (use session_row_Some [OF Some] s' in \<open>simp_all add: viewTerminalSession_def\<close>)
qed

lemma attach_is_two_statements:
  assumes "AttachTerminalAgent ce ds d secret raw s = (s', Inr v)" "ct_rows s' \<noteq> ct_rows s"
    and "x_rows x = ct_rows s"
  shows "race_run sha x [AttachRead (sv_id v), AttachWritten (sv_id v)] (x\<lparr>x_rows := ct_rows s'\<rparr>)"
proof -
  obtain r where r: "r \<in> set (ct_rows s)" "live r" "tr_status r \<noteq> SActive \<or> tr_started r = None"
    "ct_rows s' = update_where (\<lambda>x. tr_id x = tr_id r) (activate (ce_now ce)) (ct_rows s)" "sv_id v = tr_id r"
    by (rule attach_writes [OF assms(1,2)]) blast
  have "race_step sha x (AttachRead (tr_id r)) (x\<lparr>x_attaches := tr_id r # x_attaches x\<rparr>)"
    using r assms(3) by (intro race_step.attach_read) simp_all
  moreover have "race_step sha (x\<lparr>x_attaches := tr_id r # x_attaches x\<rparr>) (AttachWritten (tr_id r)) (x\<lparr>x_rows := ct_rows s'\<rparr>)"
    using race_step.attach_written [of "tr_id r" "x\<lparr>x_attaches := tr_id r # x_attaches x\<rparr>" sha "ce_now ce"] r assms(3) by simp
  ultimately show ?thesis using r(5) by (auto intro: race_run.intros)
qed

lemma handshake_is_two_statements:
  assumes "AuthenticateTerminalTicket ce d raw ticket s = (s', Inr v)" "x_rows x = ct_rows s"
  shows "race_run (ce_sha256 ce) x [TicketRead (sv_id v), TicketTaken (sv_id v)]
    (x\<lparr>x_rows := ct_rows s', x_won := sv_id v # x_won x\<rparr>)"
proof -
  obtain r where r: "r \<in> set (ct_rows s)" "live r" "\<not> tr_created r + terminalTicketTTL < ce_now ce"
    "tr_ticketHash r \<noteq> []" "ce_sha256 ce ticket = tr_ticketHash r"
    "affected (swaps (tr_id r) (tr_ticketHash r)) (ct_rows s) \<noteq> 0"
    "ct_rows s' = update_where (swaps (tr_id r) (tr_ticketHash r)) (clear_ticket (ce_now ce)) (ct_rows s)" "sv_id v = tr_id r"
    by (rule handshake_swaps [OF assms(1)]) blast
  let ?x = "x\<lparr>x_auths := (tr_id r, tr_ticketHash r) # x_auths x\<rparr>"
  have "race_step (ce_sha256 ce) x (TicketRead (tr_id r)) ?x"
    using r assms(2) by (intro race_step.ticket_read) simp_all
  moreover have "race_step (ce_sha256 ce) ?x (TicketTaken (tr_id r)) (x\<lparr>x_rows := ct_rows s', x_won := tr_id r # x_won x\<rparr>)"
    using race_step.ticket_taken [of "tr_id r" "tr_ticketHash r" ?x "ce_sha256 ce" "ce_now ce"] r assms(2) by simp
  ultimately show ?thesis using r(8) by (auto intro: race_run.intros)
qed

section \<open>A ticket opens one session once\<close>

definition tickets_ok :: "race \<Rightarrow> bool" where
  "tickets_ok s \<longleftrightarrow> distinct (map tr_id (x_rows s)) \<and> tr_id ` set (x_rows s) \<subseteq> set (x_used s) \<and>
     set (x_won s) \<subseteq> set (x_used s) \<and> distinct (x_won s) \<and>
     (\<forall>r \<in> set (x_rows s). tr_id r \<in> set (x_won s) \<longrightarrow> tr_ticketHash r = []) \<and>
     (\<forall>p \<in> set (x_auths s). snd p \<noteq> [])"

lemma updates_keep_ticket [simp]:
  "tr_ticketHash (take_back now r) = tr_ticketHash r" "tr_ticketHash (offer now r) = tr_ticketHash r"
  "tr_ticketHash (activate now r) = tr_ticketHash r" "tr_ticketHash (revoke now r) = tr_ticketHash r"
  "tr_ticketHash (finish_session now st code failure bin bout r) = tr_ticketHash r"
  "tr_ticketHash (fail_session now err r) = tr_ticketHash r"
  by (simp_all add: take_back_def offer_def activate_def revoke_def finish_session_def fail_session_def)

lemma tickets_ok_update:
  assumes "tickets_ok s" "\<And>r. tr_id (f r) = tr_id r" "\<And>r. tr_ticketHash (f r) = tr_ticketHash r"
  shows "tickets_ok (s\<lparr>x_rows := update_where P f (x_rows s)\<rparr>)"
  using assms by (auto simp: tickets_ok_def set_update_where)

lemma tickets_ok_step:
  assumes "race_step sha s e s'" "tickets_ok s"
  shows "tickets_ok s'"
  using assms
proof (induction rule: race_step.induct)
  case (inserted d s i ce q ticket)
  have "tr_id (new_session ce d q i ticket) = i" by (simp add: new_session_def)
  then show ?case using inserted by (auto simp: tickets_ok_def)
next
  case (ticket_taken i h s now)
  obtain r where r: "r \<in> set (x_rows s)" "tr_id r = i" "tr_ticketHash r = h"
    using ticket_taken(2) by (auto simp: affected_0 swaps_def)
  have h: "h \<noteq> []" using ticket_taken(1,3) by (auto simp: tickets_ok_def)
  have "i \<notin> set (x_won s)" using r h ticket_taken(3) by (auto simp: tickets_ok_def)
  moreover have "tr_ticketHash x = []" if x: "x \<in> set (update_where (swaps i h) (clear_ticket now) (x_rows s))"
    "tr_id x = i \<or> tr_id x \<in> set (x_won s)" for x
  proof -
    obtain y where y: "y \<in> set (x_rows s)" "x = (if swaps i h y then clear_ticket now y else y)"
      using x(1) by (auto simp: set_update_where)
    show ?thesis
    proof (cases "tr_id y = i")
      case True
      then have "y = r" using y r ticket_taken(3) by (auto simp: tickets_ok_def intro: same_id)
      then show ?thesis using y r by (simp add: swaps_def clear_ticket_def)
    next
      case False
      then show ?thesis using y x(2) ticket_taken(3) by (auto simp: tickets_ok_def swaps_def)
    qed
  qed
  moreover have "map tr_id (update_where (swaps i h) (clear_ticket now) (x_rows s)) = map tr_id (x_rows s)"
    by (simp add: clear_ticket_def)
  moreover from this have "tr_id ` set (update_where (swaps i h) (clear_ticket now) (x_rows s)) = tr_id ` set (x_rows s)"
    by (metis list.set_map)
  ultimately show ?case using ticket_taken(3) r set_remove1_subset [of "(i, h)" "x_auths s"] by (auto simp: tickets_ok_def)
next
  case (ticket_gone i h s)
  then show ?case using set_remove1_subset [of "(i, h)" "x_auths s"] by (auto simp: tickets_ok_def)
next
  case (pruned s now)
  then show ?case by (auto simp: tickets_ok_def distinct_map_filter)
next
  case (attach_written i s now)
  then show ?case
    using tickets_ok_update [of s "activate now" "\<lambda>x. tr_id x = i"] by (simp add: tickets_ok_def)
next
  case (abandoned auths s attaches creates)
  then show ?case by (auto simp: tickets_ok_def)
qed (auto simp: tickets_ok_update sessions.taken_back_def sessions.handed_out_def, auto simp: tickets_ok_def)

lemma tickets_ok_run: "race_run sha s es s' \<Longrightarrow> tickets_ok s \<Longrightarrow> tickets_ok s'"
  by (induction rule: race_run.induct) (auto intro: tickets_ok_step)


definition demo_race :: race where
  "demo_race = no_sessions\<lparr>x_rows := [offer 20 demo_row], x_used := [''s1'']\<rparr>"


section \<open>A finished session stays finished, but for one statement\<close>

text \<open>What the end of a session records.\<close>

definition end_state :: "tsession \<Rightarrow> session_status \<times> time option \<times> int \<times> string \<times> int \<times> int" where
  "end_state r = (tr_status r, tr_ended r, tr_exit r, tr_error r, tr_bytesIn r, tr_bytesOut r)"

lemma end_state_clear [simp]: "end_state (clear_ticket now r) = end_state r" "tr_id (clear_ticket now r) = tr_id r"
  by (simp_all add: end_state_def clear_ticket_def)

text \<open>An update that spares the ended rows, or changes nothing of what they record, keeps a given one.\<close>

lemma update_keeps_outcome:
  assumes "r \<in> set rows" "\<And>x. tr_id (f x) = tr_id x" "P r \<Longrightarrow> end_state (f r) = end_state r"
  shows "\<exists>r' \<in> set (update_where P f rows). tr_id r' = tr_id r \<and> end_state r' = end_state r"
  using assms by (intro bexI [of _ "if P r then f r else r"]) (auto simp: set_update_where)

text \<open>A closed or failed session keeps its status, end time, exit code, reason and byte counts through every statement
of every request but one: the second half of an attach that had read it while it was still live.\<close>

theorem finished_session_stays:
  assumes "race_step sha s e s'" "r \<in> set (x_rows s)" "\<not> live r"
  shows "(\<exists>r' \<in> set (x_rows s'). tr_id r' = tr_id r \<and> end_state r' = end_state r) \<or>
    (\<exists>now. e = Pruned now \<and> prunable now r) \<or> (e = AttachWritten (tr_id r) \<and> tr_id r \<in> set (x_attaches s))"
  using assms
proof (induction rule: race_step.induct)
  case (ticket_taken i h s now)
  then show ?case using update_keeps_outcome [of r "x_rows s" "clear_ticket now" "swaps i h"] by simp
next
  case (taken_back s d now)
  then show ?case
    using update_keeps_outcome [of r "x_rows s" "take_back now" "\<lambda>r. tr_daemon r = d \<and> lease_expired now r"]
    by (auto simp: sessions.taken_back_def not_live lease_expired_def)
next
  case (offered s d now ids)
  then show ?case
    using update_keeps_outcome [of r "x_rows s" "offer now" "\<lambda>r. tr_daemon r = d \<and> tr_id r \<in> set ids \<and> tr_status r = SPending"]
    by (auto simp: sessions.handed_out_def not_live)
next
  case (attach_written i s now)
  then show ?case
    using update_keeps_outcome [of r "x_rows s" "activate now" "\<lambda>x. tr_id x = i"] by auto
next
  case (finished st s i now code failure bin bout)
  then show ?case
    using update_keeps_outcome [of r "x_rows s" "finish_session now st code failure bin bout" "\<lambda>r. tr_id r = i \<and> live r"] by simp
next
  case (revoked s i now)
  then show ?case
    using update_keeps_outcome [of r "x_rows s" "revoke now" "\<lambda>r. tr_id r = i \<and> live r"] by simp
next
  case (swept_unclaimed s now)
  then show ?case
    using update_keeps_outcome [of r "x_rows s" "fail_session now ''not picked up''" "unclaimed now"]
    by (auto simp: not_live unclaimed_def)
next
  case (swept_stale s now)
  then show ?case
    using update_keeps_outcome [of r "x_rows s" "fail_session now ''stale session''" "stale now"]
    by (auto simp: not_live stale_def)
next
  case (pruned s now)
  then show ?case by auto
qed auto

theorem finished_session_stays_witness:
  "\<exists>r' \<in> set (x_rows (demo_race\<lparr>x_rows := [revoke 30 demo_row]\<rparr>)). end_state r' = end_state (revoke 30 demo_row)"
  using finished_session_stays [OF race_step.taken_back [of undefined "demo_race\<lparr>x_rows := [revoke 30 demo_row]\<rparr>" "''d1''" 40],
      of "revoke 30 demo_row"]
  by auto

text \<open>The exception is real: \<open>AttachTerminalAgent\<close> checks the status it has read but updates by id alone, so a
session that a workspace member revoked between the two statements is active again afterwards, with its end
time still set.\<close>

theorem revoked_session_revives:
  assumes "r \<in> set (x_rows s)" "tr_status r = SOffered"
  shows "\<exists>s'. race_run sha s [AttachRead (tr_id r), Revoked (tr_id r), AttachWritten (tr_id r)] s' \<and>
    (\<exists>r' \<in> set (x_rows s'). tr_id r' = tr_id r \<and> tr_status r' = SActive \<and> tr_ended r' \<noteq> None)"
proof -
  let ?s1 = "s\<lparr>x_attaches := tr_id r # x_attaches s\<rparr>"
  let ?s2 = "?s1\<lparr>x_rows := update_where (\<lambda>x. tr_id x = tr_id r \<and> live x) (revoke 0) (x_rows s)\<rparr>"
  let ?s3 = "?s2\<lparr>x_rows := update_where (\<lambda>x. tr_id x = tr_id r) (activate 1) (x_rows ?s2), x_attaches := x_attaches s\<rparr>"
  have "race_step sha s (AttachRead (tr_id r)) ?s1"
    using assms by (intro race_step.attach_read) (simp_all add: live_cases)
  moreover have "race_step sha ?s1 (Revoked (tr_id r)) ?s2"
    using race_step.revoked [of sha ?s1 "tr_id r" 0] by simp
  moreover have "race_step sha ?s2 (AttachWritten (tr_id r)) ?s3"
    using race_step.attach_written [of "tr_id r" ?s2 sha 1] by simp
  ultimately have "race_run sha s [AttachRead (tr_id r), Revoked (tr_id r), AttachWritten (tr_id r)] ?s3"
    by (meson race_run.intros)
  moreover have "activate 1 (revoke 0 r) \<in> set (x_rows ?s3)"
  proof -
    have "revoke 0 r \<in> set (x_rows ?s2)"
      using assms by (auto simp: set_update_where live_cases intro!: image_eqI [of _ _ r])
    then show ?thesis by (auto simp: set_update_where intro!: image_eqI [of _ _ "revoke 0 r"])
  qed
  moreover have "tr_status (activate 1 (revoke 0 r)) = SActive" "tr_ended (activate 1 (revoke 0 r)) \<noteq> None"
    "tr_id (activate 1 (revoke 0 r)) = tr_id r"
    by (simp_all add: activate_def revoke_def)
  ultimately show ?thesis by blast
qed

theorem revoked_session_revives_witness:
  "\<exists>s'. race_run (\<lambda>t. t) demo_race [AttachRead ''s1'', Revoked ''s1'', AttachWritten ''s1''] s' \<and>
    (\<exists>r' \<in> set (x_rows s'). tr_id r' = ''s1'' \<and> tr_status r' = SActive \<and> tr_ended r' \<noteq> None)"
proof -
  have "tr_id (offer 20 demo_row) = ''s1''" "tr_status (offer 20 demo_row) = SOffered"
    by (simp_all add: demo_row_def new_session_def offer_def)
  then show ?thesis using revoked_session_revives [of "offer 20 demo_row" demo_race] by (simp add: demo_race_def)
qed

text \<open>The workspace limit is only kept by creations that do not overlap: the count and the insert are two statements,
and two requests counted in at one below the limit both insert.\<close>

theorem concurrent_creates_exceed_cap:
  assumes "int (live_in w (x_rows s)) = limit - 1" "i \<notin> set (x_used s)" "j \<notin> set (x_used s)" "i \<noteq> j"
  shows "\<exists>s'. race_run sha s [CountedIn w, CountedIn w, Inserted i, Inserted j] s' \<and> int (live_in w (x_rows s')) = limit + 1"
proof -
  define d where "d = \<lparr>d_id = ''d'', d_account = [], d_workspace = w, d_name = [], d_secretHash = [], d_hostID = [], d_enabled = True,
    d_relay = True, d_lastSeen = None, d_disconnected = None, d_created = 0, d_updated = 0\<rparr>"
  define ce where "ce = \<lparr>ce_workspaces = None, ce_bcrypt = \<lambda>_ _. True, ce_sha256 = sha, ce_now = 0, ce_fault = \<lambda>_. False\<rparr>"
  define q where "q = \<lparr>cq_account = [], cq_daemon = ''d'', cq_invokedBy = [], cq_shell = [], cq_user = [], cq_tmux = [],
    cq_cols = 0, cq_rows = 0\<rparr>"
  have dw: "d_workspace d = w" and sh: "ce_sha256 ce = sha" by (simp_all add: d_def ce_def)
  let ?s2 = "s\<lparr>x_creates := w # w # x_creates s\<rparr>"
  let ?s3 = "?s2\<lparr>x_rows := x_rows s @ [new_session ce d q i []], x_used := i # x_used s, x_creates := w # x_creates s\<rparr>"
  let ?s4 = "?s3\<lparr>x_rows := x_rows ?s3 @ [new_session ce d q j []], x_used := j # i # x_used s, x_creates := x_creates s\<rparr>"
  have "race_step sha s (CountedIn w) (s\<lparr>x_creates := w # x_creates s\<rparr>)"
    using assms(1) by (intro race_step.counted_in [where limit = limit]) simp
  moreover have "race_step sha (s\<lparr>x_creates := w # x_creates s\<rparr>) (CountedIn w) ?s2"
    using assms(1) race_step.counted_in [of w "s\<lparr>x_creates := w # x_creates s\<rparr>" limit sha] by simp
  moreover have "race_step sha ?s2 (Inserted i) ?s3"
    using race_step.inserted [of d ?s2 i ce sha q "[]"] assms dw sh by simp
  moreover have "race_step sha ?s3 (Inserted j) ?s4"
    using race_step.inserted [of d ?s3 j ce sha q "[]"] assms dw sh by simp
  ultimately have "race_run sha s [CountedIn w, CountedIn w, Inserted i, Inserted j] ?s4"
    by (meson race_run.intros)
  moreover have "int (live_in w (x_rows ?s4)) = limit + 1"
    using assms(1) live_in_insert [of w "x_rows s" ce d q i "[]"] live_in_insert [of w "x_rows s @ [new_session ce d q i []]" ce d q j "[]"] dw
    by simp
  ultimately show ?thesis by blast
qed

theorem concurrent_creates_exceed_cap_witness:
  "\<exists>s'. race_run (\<lambda>t. t) demo_race [CountedIn ''w1'', CountedIn ''w1'', Inserted ''s2'', Inserted ''s3''] s' \<and>
    int (live_in ''w1'' (x_rows s')) = 3"
  using concurrent_creates_exceed_cap [of "''w1''" demo_race 2 "''s2''" "''s3''"]
  by (simp add: demo_race_def no_sessions_def live_in_def affected_def demo_row_def demo_daemon_def new_session_def offer_def live_cases)

end
