(* ===== verification/Go_Text.thy ===== *)
theory Go_Text
  imports Go_Strings
begin

text \<open>
  Two more pieces of Go's standard library the cloud and the daemon use on bytes: \<open>utf8.ValidString\<close>
  and \<open>base64.StdEncoding\<close>.
\<close>

section \<open>strings.TrimSpace, once more\<close>

lemma trim_prefixes_suffix: "\<exists>u. s = u @ trim_prefixes ps s"
proof (induction ps s rule: trim_prefixes.induct)
  case (1 ps s)
  show ?case
  proof (cases "find (\<lambda>p. p \<noteq> [] \<and> has_prefix p s) ps")
    case None
    then show ?thesis by (simp add: trim_prefixes_fixed)
  next
    case (Some p)
    then obtain u where "drop (length p) s = u @ trim_prefixes ps (drop (length p) s)" using 1 by blast
    then have "s = (take (length p) s @ u) @ trim_prefixes ps s"
      using Some append_take_drop_id [of "length p" s] by (simp add: trim_prefixes.simps [of ps s])
    then show ?thesis by blast
  qed
qed

lemma trim_space_infix: "\<exists>u v. s = u @ trim_space s @ v"
proof -
  obtain u where u: "s = u @ trim_prefixes space_runes s" using trim_prefixes_suffix by blast
  obtain v where "rev (trim_prefixes space_runes s) = v @ trim_prefixes (map rev space_runes) (rev (trim_prefixes space_runes s))"
    using trim_prefixes_suffix by blast
  then have "trim_prefixes space_runes s = trim_space s @ rev v"
    unfolding trim_space_def by (metis rev_append rev_rev_ident)
  then show ?thesis using u by metis
qed

lemma set_trim_space: "set (trim_space s) \<subseteq> set s"
  using trim_space_infix [of s] by (metis le_supI1 set_append sup.cobounded1 sup.cobounded2 subset_trans)

lemma length_trim_space: "length (trim_space s) \<le> length s"
  using trim_space_infix [of s] by (metis le_add1 le_add2 length_append order_trans)

lemma trim_space_idem [simp]: "trim_space (trim_space s) = trim_space s"
proof -
  let ?t = "trim_prefixes space_runes s" and ?r = "trim_space s"
  obtain v where "rev ?t = v @ trim_prefixes (map rev space_runes) (rev ?t)" using trim_prefixes_suffix by blast
  then have t: "?t = ?r @ rev v" unfolding trim_space_def by (metis rev_append rev_rev_ident)
  have "find (\<lambda>p. p \<noteq> [] \<and> has_prefix p ?t) space_runes = None" by (rule trim_prefixes_done)
  moreover have "has_prefix p ?t" if "has_prefix p ?r" for p
    using that t by (metis (no_types, lifting) append_take_drop_id append_eq_conv_conj has_prefix_def append.assoc)
  ultimately have "find (\<lambda>p. p \<noteq> [] \<and> has_prefix p ?r) space_runes = None" by (auto simp: find_None_iff)
  then have "trim_prefixes space_runes ?r = ?r" by (rule trim_prefixes_fixed)
  moreover have "trim_prefixes (map rev space_runes) (rev ?r) = rev ?r"
    unfolding trim_space_def rev_rev_ident by (rule trim_prefixes_fixed [OF trim_prefixes_done])
  ultimately show ?thesis unfolding trim_space_def [of ?r] by simp
qed

section \<open>utf8.ValidString\<close>

definition utf8_tail :: "nat \<Rightarrow> bool" where
  "utf8_tail b \<longleftrightarrow> 128 \<le> b \<and> b \<le> 191"

text \<open>The accepted second byte after each first byte, and how many plain continuation bytes follow.\<close>

definition utf8_class :: "nat \<Rightarrow> (nat \<times> nat \<times> nat) option" where
  "utf8_class b =
     (if 194 \<le> b \<and> b \<le> 223 then Some (128, 191, 0)
      else if b = 224 then Some (160, 191, 1)
      else if b = 237 then Some (128, 159, 1)
      else if 225 \<le> b \<and> b \<le> 239 then Some (128, 191, 1)
      else if b = 240 then Some (144, 191, 2)
      else if 241 \<le> b \<and> b \<le> 243 then Some (128, 191, 2)
      else if b = 244 then Some (128, 143, 2)
      else None)"

function valid_utf8 :: "bytes \<Rightarrow> bool" where
  "valid_utf8 [] \<longleftrightarrow> True"
| "valid_utf8 (c # cs) \<longleftrightarrow>
     (if byte c < 128 then valid_utf8 cs
      else case utf8_class (byte c) of
        None \<Rightarrow> False
      | Some (lo, hi, n) \<Rightarrow>
          (case cs of
             [] \<Rightarrow> False
           | d # ds \<Rightarrow> lo \<le> byte d \<and> byte d \<le> hi \<and> n \<le> length ds \<and>
               list_all (\<lambda>x. utf8_tail (byte x)) (take n ds) \<and> valid_utf8 (drop n ds)))"
  by pat_completeness auto
termination by (relation "measure length") auto

lemma ascii_valid_utf8: "list_all (\<lambda>c. byte c < 128) s \<Longrightarrow> valid_utf8 s"
  by (induction s) auto

section \<open>base64.StdEncoding\<close>

definition b64_char :: "nat \<Rightarrow> char" where
  "b64_char n =
     (if n < 26 then char_of (65 + n) else if n < 52 then char_of (71 + n) else if n < 62 then char_of (n - 4)
      else if n = 62 then CHR ''+'' else CHR ''/'')"

definition b64_value :: "char \<Rightarrow> nat option" where
  "b64_value c =
     (if is_upper c then Some (byte c - 65) else if is_lower c then Some (byte c - 71)
      else if is_digit c then Some (byte c + 4) else if c = CHR ''+'' then Some 62
      else if c = CHR ''/'' then Some 63 else None)"

fun b64_encode :: "bytes \<Rightarrow> string" where
  "b64_encode [] = []"
| "b64_encode [a] = [b64_char (byte a div 4), b64_char (byte a mod 4 * 16), CHR ''='', CHR ''='']"
| "b64_encode [a, b] =
     [b64_char (byte a div 4), b64_char (byte a mod 4 * 16 + byte b div 16), b64_char (byte b mod 16 * 4), CHR ''='']"
| "b64_encode (a # b # c # rest) =
     b64_char (byte a div 4) # b64_char (byte a mod 4 * 16 + byte b div 16) #
     b64_char (byte b mod 16 * 4 + byte c div 64) # b64_char (byte c mod 64) # b64_encode rest"

text \<open>Decoding in strict form: groups of four, padding only at the end, unused bits zero.\<close>

fun b64_decode :: "string \<Rightarrow> bytes option" where
  "b64_decode [] = Some []"
| "b64_decode (p # q # r # s # rest) =
     (case (b64_value p, b64_value q) of
        (Some vp, Some vq) \<Rightarrow>
          if r = CHR ''='' \<and> s = CHR ''='' \<and> rest = [] then
            (if vq mod 16 = 0 then Some [char_of (vp * 4 + vq div 16)] else None)
          else (case b64_value r of
            None \<Rightarrow> None
          | Some vr \<Rightarrow>
              if s = CHR ''='' \<and> rest = [] then
                (if vr mod 4 = 0 then Some [char_of (vp * 4 + vq div 16), char_of (vq mod 16 * 16 + vr div 4)] else None)
              else (case (b64_value s, b64_decode rest) of
                (Some vs, Some tail) \<Rightarrow>
                  Some (char_of (vp * 4 + vq div 16) # char_of (vq mod 16 * 16 + vr div 4) #
                        char_of (vr mod 4 * 64 + vs) # tail)
              | _ \<Rightarrow> None))
      | _ \<Rightarrow> None)"
| "b64_decode _ = None"

lemma byte_less [simp]: "byte c < 256"
  by simp

lemma b64_value_char [simp]:
  assumes "n < 64"
  shows "b64_value (b64_char n) = Some n"
proof -
  consider "n < 26" | "26 \<le> n \<and> n < 52" | "52 \<le> n \<and> n < 62" | "n = 62" | "n = 63" using assms by linarith
  then show ?thesis
  proof cases
    case 3
    then have "n - 4 < 256" "\<not> 65 \<le> n - 4" "\<not> 97 \<le> n - 4" "48 \<le> n - 4" "n - 4 \<le> 57" by linarith+
    then show ?thesis using 3 by (simp add: b64_value_def b64_char_def is_upper_def is_lower_def is_digit_def)
  qed (simp_all add: b64_value_def b64_char_def is_upper_def is_lower_def is_digit_def)
qed

lemma b64_char_pad [simp]:
  assumes "n < 64"
  shows "b64_char n \<noteq> CHR ''=''"
proof
  assume "b64_char n = CHR ''=''"
  then have "b64_value (CHR ''='') = Some n" using b64_value_char [OF assms] by simp
  then show False by (simp add: b64_value_def is_upper_def is_lower_def is_digit_def)
qed

text \<open>Bytes cut into groups of six bits, and back.\<close>

lemma byte_div [simp]: "byte a div 4 < 64" "byte a div 16 < 16" "byte a div 64 < 4"
  using byte_less [of a] by (simp_all add: less_mult_imp_div_less)

lemma six_bits [simp]:
  fixes x k :: nat
  shows "k < 16 \<Longrightarrow> x mod 4 * 16 + k < 64" "k < 4 \<Longrightarrow> x mod 16 * 4 + k < 64" "x mod 4 * 16 < 64" "x mod 16 * 4 < 64"
proof -
  have "x mod 4 \<le> 3" "x mod 16 \<le> 15" by simp_all
  then show "k < 16 \<Longrightarrow> x mod 4 * 16 + k < 64" "k < 4 \<Longrightarrow> x mod 16 * 4 + k < 64" "x mod 4 * 16 < 64" "x mod 16 * 4 < 64"
    by linarith+
qed

lemma regroup [simp]:
  fixes x k :: nat
  shows "k < 16 \<Longrightarrow> (x * 16 + k) div 16 = x" "k < 16 \<Longrightarrow> (x * 16 + k) mod 16 = k"
    "k < 4 \<Longrightarrow> (x * 4 + k) div 4 = x" "k < 4 \<Longrightarrow> (x * 4 + k) mod 4 = k"
  by (simp_all add: div_mult_self3 mod_mult_self3)

text \<open>Encoding can be undone.\<close>

lemma b64_roundtrip: "b64_decode (b64_encode s) = Some s"
  by (induction s rule: b64_encode.induct) (simp_all del: nat_of_char_less_256)

lemma b64_inject: "b64_encode s = b64_encode t \<longleftrightarrow> s = t"
  using b64_roundtrip by (metis option.inject)

end
