(* ===== verification/Cloud_Webhooks.thy ===== *)
theory Cloud_Webhooks
  imports Cloud_Access Go_Text
begin

text \<open>
  The webhook relay and the user-level credentials of \<open>internal/cloud/service.go\<close>: clients queue
  invocations, daemons poll for them under a lease and post results back; a credential restricts
  what its holder may queue. \<open>ce_fault k\<close> fails the \<open>k\<close>-th statement of a call.
\<close>

section \<open>Rows\<close>

datatype hook_status = HPending | HLeased | HDone

record hook_request =
  hr_id :: string
  hr_daemon :: string
  hr_name :: string
  hr_body :: bytes
  hr_signature :: string
  hr_invokedBy :: string
  hr_status :: hook_status
  hr_leased :: "time option"
  hr_code :: int
  hr_resultBody :: bytes
  hr_resultError :: string
  hr_created :: time
  hr_updated :: time

record credential =
  cr_id :: string
  cr_account :: string
  cr_label :: string
  cr_tokenHash :: string
  cr_daemonIDs :: string
  cr_hostIDs :: string
  cr_actionNames :: string
  cr_created :: time
  cr_lastUsed :: "time option"

record relay =
  rl_hooks :: "hook_request list"
  rl_creds :: "credential list"

definition webhookLeaseDuration :: time where "webhookLeaseDuration = seconds 120"
definition webhookBodyLimit :: nat where "webhookBodyLimit = 256 * 1024"
definition webhookPendingLimit :: int where "webhookPendingLimit = 50"

record hook_view =
  hv_id :: string
  hv_daemon :: string
  hv_name :: string
  hv_body :: string
  hv_signature :: string
  hv_invokedBy :: string
  hv_status :: hook_status
  hv_code :: int
  hv_resultBody :: string
  hv_resultError :: string
  hv_created :: time
  hv_updated :: time

definition viewWebhookRequest :: "hook_request \<Rightarrow> hook_view" where
  "viewWebhookRequest r =
     \<lparr>hv_id = hr_id r, hv_daemon = hr_daemon r, hv_name = hr_name r, hv_body = b64_encode (hr_body r),
      hv_signature = hr_signature r, hv_invokedBy = hr_invokedBy r, hv_status = hr_status r,
      hv_code = hr_code r, hv_resultBody = b64_encode (hr_resultBody r), hv_resultError = hr_resultError r,
      hv_created = hr_created r, hv_updated = hr_updated r\<rparr>"

section \<open>Scopes\<close>

definition splitCredentialScopes :: "string \<Rightarrow> string list" where
  "splitCredentialScopes raw = filter (\<lambda>v. v \<noteq> []) (map trim_space (split_on (CHR '','') raw))"

fun join_scopes :: "string list \<Rightarrow> string list \<Rightarrow> string list" where
  "join_scopes seen [] = []"
| "join_scopes seen (part # parts) =
     (let value = trim_space part in
      if value = [] \<or> 191 < length value then join_scopes seen parts
      else if value \<in> set seen then join_scopes seen parts
      else value # join_scopes (value # seen) parts)"

definition joinCredentialScopes :: "string list \<Rightarrow> string" where
  "joinCredentialScopes parts = join_with '','' (join_scopes [] parts)"

text \<open>A scope list that is not empty is a constraint; the host is only looked up when one is set.\<close>

definition in_scope :: "string \<Rightarrow> string \<Rightarrow> bool" where
  "in_scope raw value \<longleftrightarrow> (let scopes = splitCredentialScopes raw in scopes = [] \<or> value \<in> set scopes)"

definition authorizeCredential :: "cloud_env \<Rightarrow> daemon list \<Rightarrow> credential \<Rightarrow> string \<Rightarrow> string \<Rightarrow> cloud_error + unit" where
  "authorizeCredential ce ds c d action =
     (if \<not> in_scope (cr_daemonIDs c) d then Inl ErrForbidden
      else rbind
        (if splitCredentialScopes (cr_hostIDs c) = [] then Inr ()
         else if ce_fault ce 0 then Inl DbError
         else case daemon_row ds d of
           None \<Rightarrow> Inl ErrNotFound
         | Some dm \<Rightarrow> if \<not> in_scope (cr_hostIDs c) (d_hostID dm) then Inl ErrForbidden else Inr ())
        (\<lambda>_. if \<not> in_scope (cr_actionNames c) action then Inl ErrForbidden else Inr ()))"

section \<open>Credentials\<close>

definition CredentialTokenPrefix :: string where "CredentialTokenPrefix = ''mk_''"

record credential_view =
  cv_id :: string
  cv_label :: string
  cv_daemonIDs :: "string list"
  cv_hostIDs :: "string list"
  cv_actionNames :: "string list"
  cv_created :: time
  cv_lastUsed :: "time option"

definition viewCredential :: "credential \<Rightarrow> credential_view" where
  "viewCredential c =
     \<lparr>cv_id = cr_id c, cv_label = cr_label c, cv_daemonIDs = splitCredentialScopes (cr_daemonIDs c),
      cv_hostIDs = splitCredentialScopes (cr_hostIDs c), cv_actionNames = splitCredentialScopes (cr_actionNames c),
      cv_created = cr_created c, cv_lastUsed = cr_lastUsed c\<rparr>"

text \<open>\<open>secret\<close> is what \<open>generateSecret\<close> returned, \<open>i\<close> the new UUID; ids and token hashes are unique keys.\<close>

definition CreateCredential ::
  "cloud_env \<Rightarrow> string \<Rightarrow> string \<Rightarrow> string list \<Rightarrow> string list \<Rightarrow> string list \<Rightarrow> string \<Rightarrow> string + string \<Rightarrow> relay
     \<Rightarrow> relay \<times> (cloud_error + credential_view \<times> string)" where
  "CreateCredential ce account label daemons hosts actions i secret s =
     (let label = trim_space label in
      if label = [] \<or> 128 < length label \<or> \<not> valid_utf8 label then (s, Inl (InvalidInput ''label''))
      else case secret of
        Inl e \<Rightarrow> (s, Inl (NotMinted e))
      | Inr sec \<Rightarrow>
          let token = CredentialTokenPrefix @ sec;
              row = \<lparr>cr_id = i, cr_account = account, cr_label = label, cr_tokenHash = ce_sha256 ce token,
                cr_daemonIDs = joinCredentialScopes daemons, cr_hostIDs = joinCredentialScopes hosts,
                cr_actionNames = joinCredentialScopes actions, cr_created = ce_now ce, cr_lastUsed = None\<rparr> in
          case (if ce_fault ce 0 \<or> cr_tokenHash row \<in> cr_tokenHash ` set (rl_creds s) then None
                else insert_row cr_id row (rl_creds s)) of
            None \<Rightarrow> (s, Inl DbError)
          | Some creds \<Rightarrow> (s\<lparr>rl_creds := creds\<rparr>, Inr (viewCredential row, token)))"

definition ListCredentials :: "cloud_env \<Rightarrow> string \<Rightarrow> relay \<Rightarrow> cloud_error + credential_view list" where
  "ListCredentials ce account s =
     (if ce_fault ce 0 then Inl DbError
      else Inr (map viewCredential
        (select_desc (\<lambda>c. cr_account c = account) cr_created (length (rl_creds s)) (rl_creds s))))"

definition DeleteCredential :: "cloud_env \<Rightarrow> string \<Rightarrow> string \<Rightarrow> relay \<Rightarrow> relay \<times> (cloud_error + unit)" where
  "DeleteCredential ce account i s =
     (let gone = (\<lambda>c. cr_id c = i \<and> cr_account c = account) in
      if ce_fault ce 0 then (s, Inl DbError)
      else if affected gone (rl_creds s) = 0 then (s, Inl ErrNotFound)
      else (s\<lparr>rl_creds := filter (\<lambda>c. \<not> gone c) (rl_creds s)\<rparr>, Inr ()))"

definition CredentialByToken :: "cloud_env \<Rightarrow> string \<Rightarrow> relay \<Rightarrow> cloud_error + credential" where
  "CredentialByToken ce token s =
     (if ce_fault ce 0 then Inl DbError
      else case find (\<lambda>c. cr_tokenHash c = ce_sha256 ce token) (rl_creds s) of
        None \<Rightarrow> Inl ErrUnauthorized
      | Some c \<Rightarrow> Inr c)"

section \<open>Queueing\<close>

definition authorize_caller ::
  "cloud_env \<Rightarrow> daemon list \<Rightarrow> string \<Rightarrow> string \<Rightarrow> string \<Rightarrow> credential option \<Rightarrow> relay \<Rightarrow> relay \<times> (cloud_error + unit)" where
  "authorize_caller ce ds account d name cred s =
     (case cred of
        None \<Rightarrow> (s, rbind (daemonForAccount ce ds account d) (\<lambda>_. Inr ()))
      | Some c \<Rightarrow>
          (case authorizeCredential ce ds c d name of
             Inl e \<Rightarrow> (s, Inl e)
           | Inr _ \<Rightarrow>
               if ce_fault ce 1 then (s, Inl DbError)
               else (s\<lparr>rl_creds := update_where (\<lambda>x. cr_id x = cr_id c) (\<lambda>x. x\<lparr>cr_lastUsed := Some (ce_now ce)\<rparr>) (rl_creds s)\<rparr>,
                     Inr ())))"

definition new_request :: "cloud_env \<Rightarrow> string \<Rightarrow> string \<Rightarrow> bytes \<Rightarrow> string \<Rightarrow> string \<Rightarrow> string \<Rightarrow> hook_request" where
  "new_request ce d name body sig by1 i =
     \<lparr>hr_id = i, hr_daemon = d, hr_name = trim_space name, hr_body = body, hr_signature = trim_space sig,
      hr_invokedBy = by1, hr_status = HPending, hr_leased = None, hr_code = 0, hr_resultBody = [],
      hr_resultError = [], hr_created = ce_now ce, hr_updated = ce_now ce\<rparr>"

text \<open>\<open>minted\<close> is what \<open>uuid.NewRandom\<close> returned.\<close>

definition EnqueueWebhook ::
  "cloud_env \<Rightarrow> daemon list \<Rightarrow> string \<Rightarrow> string \<Rightarrow> string \<Rightarrow> bytes \<Rightarrow> string \<Rightarrow> string \<Rightarrow> credential option \<Rightarrow> string + string
     \<Rightarrow> relay \<Rightarrow> relay \<times> (cloud_error + hook_view)" where
  "EnqueueWebhook ce ds account d name body sig by1 cred minted s =
     (case authorize_caller ce ds account d name cred s of
        (s1, Inl e) \<Rightarrow> (s1, Inl e)
      | (s1, Inr _) \<Rightarrow>
          if trim_space name = [] \<or> body = [] \<or> webhookBodyLimit < length body
          then (s1, Inl (InvalidInput ''webhook request requires a name and body''))
          else case minted of
            Inl e \<Rightarrow> (s1, Inl (NotMinted e))
          | Inr i \<Rightarrow>
              (case (if ce_fault ce 2 then None
                     else insert_row hr_id (new_request ce d name body sig by1 i) (rl_hooks s1)) of
                 None \<Rightarrow> (s1, Inl DbError)
               | Some hooks \<Rightarrow> (s1\<lparr>rl_hooks := hooks\<rparr>, Inr (viewWebhookRequest (new_request ce d name body sig by1 i)))))"

section \<open>Picking up and completing\<close>

definition hook_lease_expired :: "time \<Rightarrow> hook_request \<Rightarrow> bool" where
  "hook_lease_expired now r \<longleftrightarrow>
     hr_status r = HLeased \<and> (case hr_leased r of None \<Rightarrow> False | Some t \<Rightarrow> t < now - webhookLeaseDuration)"

definition hook_take_back :: "time \<Rightarrow> hook_request \<Rightarrow> hook_request" where
  "hook_take_back now r = r\<lparr>hr_status := HPending, hr_leased := None, hr_updated := now\<rparr>"

definition hook_lease :: "time \<Rightarrow> hook_request \<Rightarrow> hook_request" where
  "hook_lease now r = r\<lparr>hr_status := HLeased, hr_leased := Some now, hr_updated := now\<rparr>"

text \<open>The three statements of a pickup; the last one selects by id, not by status.\<close>

definition reclaim_hooks :: "time \<Rightarrow> string \<Rightarrow> hook_request list \<Rightarrow> hook_request list" where
  "reclaim_hooks now d rows = update_where (\<lambda>r. hr_daemon r = d \<and> hook_lease_expired now r) (hook_take_back now) rows"

definition pick_hooks :: "string \<Rightarrow> nat \<Rightarrow> hook_request list \<Rightarrow> hook_request list" where
  "pick_hooks d n rows = select_asc (\<lambda>r. hr_daemon r = d \<and> hr_status r = HPending) hr_created n rows"

definition lease_hooks :: "time \<Rightarrow> string \<Rightarrow> string list \<Rightarrow> hook_request list \<Rightarrow> hook_request list" where
  "lease_hooks now d ids rows = update_where (\<lambda>r. hr_daemon r = d \<and> hr_id r \<in> set ids) (hook_lease now) rows"

definition pickup_limit :: "int \<Rightarrow> nat" where
  "pickup_limit limit = nat (if limit \<le> 0 \<or> webhookPendingLimit < limit then webhookPendingLimit else limit)"

definition ListPendingWebhooks ::
  "cloud_env \<Rightarrow> daemon list \<Rightarrow> string \<Rightarrow> string \<Rightarrow> int \<Rightarrow> relay \<Rightarrow> relay \<times> (cloud_error + hook_view list)" where
  "ListPendingWebhooks ce ds d secret limit s =
     (case authenticateDaemon ce ds d secret of
        Inl e \<Rightarrow> (s, Inl e)
      | Inr _ \<Rightarrow>
          if ce_fault ce 1 then (s, Inl DbError)
          else
            let rows1 = reclaim_hooks (ce_now ce) d (rl_hooks s); picked = pick_hooks d (pickup_limit limit) rows1 in
            if ce_fault ce 2 then (s\<lparr>rl_hooks := rows1\<rparr>, Inl DbError)
            else if picked = [] then (s\<lparr>rl_hooks := rows1\<rparr>, Inr [])
            else if ce_fault ce 3 then (s\<lparr>rl_hooks := rows1\<rparr>, Inl DbError)
            else (s\<lparr>rl_hooks := lease_hooks (ce_now ce) d (map hr_id picked) rows1\<rparr>, Inr (map viewWebhookRequest picked)))"

definition complete_hook :: "time \<Rightarrow> int \<Rightarrow> bytes \<Rightarrow> string \<Rightarrow> hook_request \<Rightarrow> hook_request" where
  "complete_hook now code body err r =
     r\<lparr>hr_status := HDone, hr_code := code, hr_resultBody := body, hr_resultError := take 512 err, hr_updated := now\<rparr>"

definition CompleteWebhook ::
  "cloud_env \<Rightarrow> daemon list \<Rightarrow> string \<Rightarrow> string \<Rightarrow> string \<Rightarrow> int \<Rightarrow> bytes \<Rightarrow> string \<Rightarrow> relay \<Rightarrow> relay \<times> (cloud_error + unit)" where
  "CompleteWebhook ce ds d secret i code body err s =
     (case authenticateDaemon ce ds d secret of
        Inl e \<Rightarrow> (s, Inl e)
      | Inr _ \<Rightarrow>
          let mine = (\<lambda>r. hr_daemon r = d \<and> hr_id r = i \<and> hr_status r = HLeased) in
          if ce_fault ce 1 then (s, Inl DbError)
          else if affected mine (rl_hooks s) = 0 then (s, Inl ErrNotFound)
          else (s\<lparr>rl_hooks := update_where mine (complete_hook (ce_now ce) code body err) (rl_hooks s)\<rparr>, Inr ()))"

definition GetWebhookResult ::
  "cloud_env \<Rightarrow> daemon list \<Rightarrow> string \<Rightarrow> string \<Rightarrow> string \<Rightarrow> relay \<Rightarrow> cloud_error + hook_view" where
  "GetWebhookResult ce ds account d i s =
     rbind (daemonForAccount ce ds account d) (\<lambda>_.
       if ce_fault ce 1 then Inl DbError
       else case find (\<lambda>r. hr_daemon r = d \<and> hr_id r = i) (rl_hooks s) of
         None \<Rightarrow> Inl ErrNotFound
       | Some r \<Rightarrow> Inr (viewWebhookRequest r))"

end
