(* ===== verification/Cloud_Webhooks_Facts.thy ===== *)
theory Cloud_Webhooks_Facts
  imports Cloud_Webhooks
begin

text \<open>
  What the webhook relay and the credentials of \<open>Cloud_Webhooks\<close> promise: scopes mean what was
  asked for, a request is queued only by someone who may, is leased to one pickup at a time and
  is answered once; and where two overlapping pickups break that.
\<close>

section \<open>Scopes\<close>

definition usable :: "string \<Rightarrow> bool" where
  "usable p \<longleftrightarrow> trim_space p \<noteq> [] \<and> length (trim_space p) \<le> 191"

lemma set_join_scopes: "set (join_scopes seen ps) = trim_space ` {p \<in> set ps. usable p} - set seen"
  by (induction seen ps rule: join_scopes.induct) (auto simp: Let_def usable_def)

lemma join_scopes_distinct: "distinct (join_scopes seen ps)"
  by (induction seen ps rule: join_scopes.induct) (auto simp: Let_def set_join_scopes)

lemma join_scopes_trimmed: "v \<in> set (join_scopes seen ps) \<Longrightarrow> trim_space v = v \<and> v \<noteq> [] \<and> length v \<le> 191"
  by (auto simp: set_join_scopes usable_def)

lemma split_joined:
  assumes "\<forall>p \<in> set ps. CHR '','' \<notin> set p"
  shows "splitCredentialScopes (joinCredentialScopes ps) = join_scopes [] ps"
proof (cases "join_scopes [] ps = []")
  case True
  then show ?thesis by (simp add: joinCredentialScopes_def splitCredentialScopes_def)
next
  case False
  have "CHR '','' \<notin> set v" if "v \<in> set (join_scopes [] ps)" for v
    using that assms set_trim_space by (force simp: set_join_scopes)
  then have "split_on (CHR '','') (join_with '','' (join_scopes [] ps)) = join_scopes [] ps"
    using False by (intro split_join) auto
  moreover have "map trim_space (join_scopes [] ps) = join_scopes [] ps"
    using join_scopes_trimmed by (intro map_idI) blast
  moreover have "filter (\<lambda>v. v \<noteq> []) (join_scopes [] ps) = join_scopes [] ps"
    using join_scopes_trimmed by (intro filter_True) blast
  ultimately show ?thesis by (simp add: joinCredentialScopes_def splitCredentialScopes_def)
qed

text \<open>A scope list is stored and read back as the names that were asked for: trimmed, each once, in order, without the
blank ones and those over 191 bytes; and a stored list admits exactly those names, unless none of the entries was
usable, when it admits every name.\<close>

theorem scopes_roundtrip:
  assumes "\<forall>p \<in> set ps. CHR '','' \<notin> set p"
  shows "splitCredentialScopes (joinCredentialScopes ps) = join_scopes [] ps \<and> distinct (join_scopes [] ps) \<and>
    set (join_scopes [] ps) = trim_space ` {p \<in> set ps. usable p} \<and>
    (in_scope (joinCredentialScopes ps) v \<longleftrightarrow>
       (\<exists>p \<in> set ps. usable p \<and> trim_space p = v) \<or> (\<forall>p \<in> set ps. \<not> usable p))"
proof -
  have "join_scopes [] ps = [] \<longleftrightarrow> (\<forall>p \<in> set ps. \<not> usable p)"
    using set_join_scopes [of "[]" ps] by (metis (no_types, lifting) Collect_empty_eq Diff_empty image_is_empty list.set(1) set_empty)
  then show ?thesis
    using split_joined [OF assms] join_scopes_distinct set_join_scopes [of "[]" ps]
    by (auto simp: in_scope_def Let_def)
qed

theorem scopes_roundtrip_witness:
  "splitCredentialScopes (joinCredentialScopes ['' deploy'', ''restart'', ''deploy'', '' '']) = [''deploy'', ''restart'']"
proof -
  have "splitCredentialScopes (joinCredentialScopes ['' deploy'', ''restart'', ''deploy'', '' '']) =
      join_scopes [] ['' deploy'', ''restart'', ''deploy'', '' '']"
    using scopes_roundtrip [of "['' deploy'', ''restart'', ''deploy'', '' '']"] by simp
  also have "\<dots> = [''deploy'', ''restart'']" by code_simp
  finally show ?thesis .
qed

text \<open>A credential asked to be restricted to names none of which is usable is restricted to nothing.\<close>

lemma unusable_scopes_unrestrict:
  assumes "\<forall>p \<in> set ps. \<not> usable p"
  shows "joinCredentialScopes ps = [] \<and> in_scope (joinCredentialScopes ps) v"
proof -
  have "set (join_scopes [] ps) = {}" using assms by (auto simp: set_join_scopes)
  then have "join_scopes [] ps = []" by simp
  then show ?thesis by (simp add: joinCredentialScopes_def in_scope_def splitCredentialScopes_def Let_def)
qed

lemma authorizeCredential_ok:
  "authorizeCredential ce ds c d action = Inr u \<longleftrightarrow>
     in_scope (cr_daemonIDs c) d \<and> in_scope (cr_actionNames c) action \<and>
     (splitCredentialScopes (cr_hostIDs c) = [] \<or>
      \<not> ce_fault ce 0 \<and> (\<exists>dm. daemon_row ds d = Some dm \<and> in_scope (cr_hostIDs c) (d_hostID dm)))"
  by (auto simp: authorizeCredential_def split: option.splits)

section \<open>Credentials\<close>

lemma find_append_new: "find P xs = None \<Longrightarrow> P c \<Longrightarrow> find P (xs @ [c]) = Some c"
  by (induction xs) (auto split: if_splits)

text \<open>A created credential is found by its token and by no trace of the token but its hash; only its own account can
delete it, and a deleted token is unauthorized.\<close>

theorem credential_lifecycle:
  assumes "CreateCredential ce account label daemons hosts actions i secret s = (s', Inr (view, token))"
    and "ce_sha256 ce' = ce_sha256 ce" "\<not> ce_fault ce' 0"
  shows "\<exists>c. CredentialByToken ce' token s' = Inr c \<and> viewCredential c = view \<and> cr_account c = account \<and>
      rl_creds s' = rl_creds s @ [c] \<and> cr_tokenHash c = ce_sha256 ce token \<and>
      cr_daemonIDs c = joinCredentialScopes daemons \<and> cr_hostIDs c = joinCredentialScopes hosts \<and>
      cr_actionNames c = joinCredentialScopes actions \<and>
      (\<forall>other. other \<noteq> account \<longrightarrow> DeleteCredential ce' other i s' = (s', Inl ErrNotFound)) \<and>
      (\<exists>s''. DeleteCredential ce' account i s' = (s'', Inr ()) \<and> CredentialByToken ce' token s'' = Inl ErrUnauthorized)"
proof -
  obtain sec where sec: "secret = Inr sec"
    using assms(1) by (cases secret) (auto simp: CreateCredential_def Let_def split: if_splits)
  define c where "c = \<lparr>cr_id = i, cr_account = account, cr_label = trim_space label,
    cr_tokenHash = ce_sha256 ce (CredentialTokenPrefix @ sec), cr_daemonIDs = joinCredentialScopes daemons,
    cr_hostIDs = joinCredentialScopes hosts, cr_actionNames = joinCredentialScopes actions,
    cr_created = ce_now ce, cr_lastUsed = None\<rparr>"
  have new: "cr_tokenHash c \<notin> cr_tokenHash ` set (rl_creds s)" "i \<notin> cr_id ` set (rl_creds s)"
    "s' = s\<lparr>rl_creds := rl_creds s @ [c]\<rparr>" "view = viewCredential c" "token = CredentialTokenPrefix @ sec"
    using assms(1) sec
    by (auto simp: CreateCredential_def Let_def insert_row_def c_def split: if_splits)
  have hash: "cr_tokenHash c = ce_sha256 ce token" by (simp add: c_def new(5))
  have none: "find (\<lambda>x. cr_tokenHash x = ce_sha256 ce token) (rl_creds s) = None"
    using new(1) hash by (auto simp: find_None_iff image_iff)
  have "find (\<lambda>x. cr_tokenHash x = ce_sha256 ce token) (rl_creds s @ [c]) = Some c"
    using none hash by (simp add: find_append_new)
  then have found: "CredentialByToken ce' token s' = Inr c"
    using assms(2,3) new(3) by (simp add: CredentialByToken_def)
  have ids: "cr_id x \<noteq> i" if "x \<in> set (rl_creds s)" for x using that new(2) by auto
  have c: "cr_id c = i" "cr_account c = account" by (simp_all add: c_def)
  have "DeleteCredential ce' other i s' = (s', Inl ErrNotFound)" if "other \<noteq> account" for other
    using that ids c assms(3) by (auto simp: DeleteCredential_def Let_def affected_0 new(3))
  moreover have "filter (\<lambda>x. \<not> (cr_id x = i \<and> cr_account x = account)) (rl_creds s @ [c]) = rl_creds s"
    using ids c by (auto simp: filter_id_conv)
  then have "DeleteCredential ce' account i s' = (s, Inr ())"
    using c assms(3) new(3) by (auto simp: DeleteCredential_def Let_def affected_def)
  moreover have "CredentialByToken ce' token s = Inl ErrUnauthorized"
    using none assms(2,3) by (simp add: CredentialByToken_def)
  ultimately show ?thesis
    using found hash new(3,4) by (intro exI [of _ c]) (simp add: c_def)
qed

definition demo_env :: "time \<Rightarrow> cloud_env" where
  "demo_env now = \<lparr>ce_workspaces = Some \<lparr>wc_member = \<lambda>w a. Inr (w = ''w1'' \<and> a = ''alice''), wc_quota = \<lambda>_. Inr (\<lambda>_. 0)\<rparr>,
     ce_bcrypt = \<lambda>h p. h = p, ce_sha256 = \<lambda>t. CHR ''#'' # t, ce_now = now, ce_fault = \<lambda>_. False\<rparr>"

definition demo_host :: daemon where
  "demo_host = \<lparr>d_id = ''d1'', d_account = ''alice'', d_workspace = ''w1'', d_name = ''box'', d_secretHash = ''pw'', d_hostID = ''h1'',
     d_enabled = True, d_relay = True, d_lastSeen = None, d_disconnected = None, d_created = 0, d_updated = 0\<rparr>"

definition no_relay :: relay where "no_relay = \<lparr>rl_hooks = [], rl_creds = []\<rparr>"

definition demo_credential :: credential where
  "demo_credential = \<lparr>cr_id = ''c1'', cr_account = ''bob'', cr_label = ''ci'', cr_tokenHash = ''#mk_s'', cr_daemonIDs = ''d1'',
     cr_hostIDs = [], cr_actionNames = ''deploy'', cr_created = 1, cr_lastUsed = None\<rparr>"

lemma demo_credential_created:
  "CreateCredential (demo_env 1) ''bob'' '' ci'' [''d1''] [] [''deploy''] ''c1'' (Inr ''s'') no_relay =
    (no_relay\<lparr>rl_creds := [demo_credential]\<rparr>, Inr (viewCredential demo_credential, ''mk_s''))"
  by code_simp

theorem credential_lifecycle_witness:
  "\<exists>c. CredentialByToken (demo_env 2) ''mk_s'' (no_relay\<lparr>rl_creds := [demo_credential]\<rparr>) = Inr c \<and> cr_account c = ''bob''"
  using credential_lifecycle [OF demo_credential_created, of "demo_env 2"] by (auto simp: demo_env_def)

section \<open>Queueing\<close>

lemma authorize_caller_hooks: "rl_hooks (fst (authorize_caller ce ds account d name cred s)) = rl_hooks s"
  by (simp add: authorize_caller_def split: option.split sum.split)

text \<open>Who may queue: the holder of a credential whose three scopes admit the request, or a member.\<close>

definition may_queue :: "cloud_env \<Rightarrow> daemon list \<Rightarrow> string \<Rightarrow> string \<Rightarrow> string \<Rightarrow> credential option \<Rightarrow> bool" where
  "may_queue ce ds account d name cred \<longleftrightarrow>
     (case cred of
        None \<Rightarrow> (\<exists>dm. daemon_row ds d = Some dm \<and> confirmed_member ce dm account)
      | Some c \<Rightarrow> in_scope (cr_daemonIDs c) d \<and> in_scope (cr_actionNames c) name \<and>
          (splitCredentialScopes (cr_hostIDs c) = [] \<or>
           (\<exists>dm. daemon_row ds d = Some dm \<and> in_scope (cr_hostIDs c) (d_hostID dm))))"

lemma enqueue_authorised_hooks:
  "rl_hooks (fst (EnqueueWebhook ce ds account d name body sig by1 cred minted s)) = rl_hooks s \<or>
   (\<exists>r. insert_row hr_id r (rl_hooks s) = Some (rl_hooks (fst (EnqueueWebhook ce ds account d name body sig by1 cred minted s))))"
proof -
  obtain s1 r where a: "authorize_caller ce ds account d name cred s = (s1, r)" by fastforce
  have h: "rl_hooks s1 = rl_hooks s" using authorize_caller_hooks [of ce ds account d name cred s] a by simp
  show ?thesis
  proof (cases "is_ok r \<and> \<not> (trim_space name = [] \<or> body = [] \<or> webhookBodyLimit < length body) \<and> is_ok minted")
    case False
    then show ?thesis using h by (cases r; cases minted) (auto simp: EnqueueWebhook_def a)
  next
    case True
    then obtain u i where ri: "r = Inr u" "minted = Inr i" by (auto simp: is_ok_iff)
    let ?new = "new_request ce d name body sig by1 i"
    show ?thesis
    proof (cases "if ce_fault ce 2 then None else insert_row hr_id ?new (rl_hooks s1)")
      case None
      then show ?thesis using True ri h by (simp add: EnqueueWebhook_def a)
    next
      case (Some hooks)
      then have "insert_row hr_id ?new (rl_hooks s) = Some hooks" using h by (simp split: if_split_asm)
      then show ?thesis using True ri Some by (intro disjI2 exI [of _ ?new]) (simp add: EnqueueWebhook_def a)
    qed
  qed
qed

text \<open>C13: A request is queued only for a confirmed member of the daemon's workspace or under a credential whose daemon, host
and action scopes all admit it; it is queued once, pending, with the body unchanged (1 byte to 256 KiB) under the
trimmed name; a refused request queues nothing.\<close>

theorem enqueue_authorised:
  "case EnqueueWebhook ce ds account d name body sig by1 cred minted s of
     (s', Inl _) \<Rightarrow> rl_hooks s' = rl_hooks s
   | (s', Inr view) \<Rightarrow> may_queue ce ds account d name cred \<and>
       (\<exists>r. rl_hooks s' = rl_hooks s @ [r] \<and> view = viewWebhookRequest r \<and> hr_daemon r = d \<and> hr_status r = HPending \<and>
          hr_name r = trim_space name \<and> hr_name r \<noteq> [] \<and> hr_body r = body \<and> 1 \<le> length body \<and> length body \<le> 262144 \<and>
          minted = Inr (hr_id r) \<and> hr_id r \<notin> hr_id ` set (rl_hooks s))"
proof (cases "snd (EnqueueWebhook ce ds account d name body sig by1 cred minted s)")
  case (Inl e)
  then show ?thesis
    using authorize_caller_hooks [of ce ds account d name cred s]
    by (auto simp: EnqueueWebhook_def split: prod.splits sum.splits option.splits if_splits)
next
  case (Inr view)
  then obtain s1 i where a: "authorize_caller ce ds account d name cred s = (s1, Inr ())"
    and ok: "trim_space name \<noteq> []" "body \<noteq> []" "length body \<le> webhookBodyLimit" and i: "minted = Inr i"
    and res: "EnqueueWebhook ce ds account d name body sig by1 cred minted s =
      (s1\<lparr>rl_hooks := rl_hooks s1 @ [new_request ce d name body sig by1 i]\<rparr>,
       Inr (viewWebhookRequest (new_request ce d name body sig by1 i)))"
    and fresh: "i \<notin> hr_id ` set (rl_hooks s1)"
    by (auto simp: EnqueueWebhook_def insert_row_Some new_request_def split: prod.splits sum.splits option.splits if_splits)
  have "rl_hooks s1 = rl_hooks s" using authorize_caller_hooks [of ce ds account d name cred s] a by simp
  moreover have "may_queue ce ds account d name cred"
  proof (cases cred)
    case None
    then show ?thesis using a by (auto simp: authorize_caller_def may_queue_def rbind_def daemonForAccount_ok split: sum.splits)
  next
    case (Some c)
    then have "is_ok (authorizeCredential ce ds c d name)"
      using a by (auto simp: authorize_caller_def split: sum.splits)
    then obtain u where "authorizeCredential ce ds c d name = Inr u" by (auto simp: is_ok_iff)
    then show ?thesis using Some authorizeCredential_ok [of ce ds c d name u] by (auto simp: may_queue_def)
  qed
  moreover have "1 \<le> length body" using ok(2) by (cases body) auto
  ultimately show ?thesis
    using ok i res fresh by (simp add: webhookBodyLimit_def new_request_def)
qed

section \<open>Requests are a leased table\<close>

interpretation requests: leased_table hr_id hr_created "\<lambda>r. hr_daemon r = d" "\<lambda>r. hr_status r = HPending"
  hook_lease_expired hook_take_back hook_lease webhookLeaseDuration for d :: string
  by unfold_locales (auto simp: hook_take_back_def hook_lease_def hook_lease_expired_def)

lemma reclaim_is: "reclaim_hooks now d rows = requests.taken_back d now rows"
  by (simp add: reclaim_hooks_def requests.taken_back_def)

lemma pick_is: "pick_hooks d n rows = requests.chosen d (\<lambda>_. True) n rows"
  by (simp add: pick_hooks_def requests.chosen_def)

text \<open>When nothing comes between the last two statements, every row that is leased was waiting.\<close>

lemma lease_is:
  assumes "distinct (map hr_id rows)"
  shows "lease_hooks now d (map hr_id (pick_hooks d n rows)) rows = requests.handed_out d now (map hr_id (pick_hooks d n rows)) rows"
proof -
  have "hr_status r = HPending" if r: "r \<in> set rows" "hr_id r \<in> set (map hr_id (pick_hooks d n rows))" for r
  proof -
    obtain p where p: "p \<in> set (pick_hooks d n rows)" "hr_id p = hr_id r" using r(2) by auto
    then have "p \<in> set rows \<and> hr_status p = HPending" unfolding pick_is using requests.chosen_mine by blast
    moreover from this have "p = r" using p(2) r(1) assms by (metis distinct_map inj_onD)
    ultimately show ?thesis by simp
  qed
  then show ?thesis
    unfolding lease_hooks_def requests.handed_out_def update_where_def by (intro map_cong) auto
qed

lemma reclaim_ids [simp]: "map hr_id (reclaim_hooks now d rows) = map hr_id rows"
  by (simp add: reclaim_is)

lemma pickup_success:
  assumes "ListPendingWebhooks ce ds d secret limit s = (s', Inr views)"
  defines "rows1 \<equiv> reclaim_hooks (ce_now ce) d (rl_hooks s)"
  shows "views = map viewWebhookRequest (pick_hooks d (pickup_limit limit) rows1)"
    "rl_hooks s' = lease_hooks (ce_now ce) d (map hr_id (pick_hooks d (pickup_limit limit) rows1)) rows1"
    "is_ok (authenticateDaemon ce ds d secret)"
proof -
  have no_ids: "lease_hooks now d [] rows = rows" for now rows by (simp add: lease_hooks_def update_where_def)
  show "views = map viewWebhookRequest (pick_hooks d (pickup_limit limit) rows1)"
    "rl_hooks s' = lease_hooks (ce_now ce) d (map hr_id (pick_hooks d (pickup_limit limit) rows1)) rows1"
    "is_ok (authenticateDaemon ce ds d secret)"
    using assms(1) unfolding ListPendingWebhooks_def rows1_def Let_def
    by (auto simp: no_ids simp del: set_map split: sum.splits if_split_asm)
qed

lemma hv_id_view [simp]: "hv_id (viewWebhookRequest r) = hr_id r"
  by (simp add: viewWebhookRequest_def)

text \<open>A pickup hands the daemon at most fifty of its own waiting requests, oldest first, and none of them again to a
later pickup within the two minutes of its lease.\<close>

theorem requests_leased_once:
  assumes "ListPendingWebhooks ce ds d secret limit s = (s', Inr views)"
    and "ListPendingWebhooks ce' ds' d secret' limit' s' = (s'', Inr views')"
    and "distinct (map hr_id (rl_hooks s))" "ce_now ce' \<le> ce_now ce + webhookLeaseDuration"
  shows "length views \<le> 50 \<and> sorted (map hv_created views) \<and> (\<forall>v \<in> set views. hv_daemon v = d \<and> hv_status v = HPending) \<and>
    set (map hv_id views) \<inter> set (map hv_id views') = {}"
proof -
  let ?rows1 = "reclaim_hooks (ce_now ce) d (rl_hooks s)" and ?n = "pickup_limit limit"
  have v: "views = map viewWebhookRequest (pick_hooks d ?n ?rows1)" by (rule pickup_success(1) [OF assms(1)])
  have v': "views' = map viewWebhookRequest (pick_hooks d (pickup_limit limit') (reclaim_hooks (ce_now ce') d (rl_hooks s')))"
    by (rule pickup_success(1) [OF assms(2)])
  have "distinct (map hr_id ?rows1)" using assms(3) by simp
  then have s': "rl_hooks s' = requests.polled d (ce_now ce) (\<lambda>_. True) ?n (rl_hooks s)"
    using pickup_success(2) [OF assms(1)] lease_is [of ?rows1]
    by (simp add: requests.polled_def Let_def reclaim_is pick_is)
  have "?n \<le> 50" by (simp add: pickup_limit_def webhookPendingLimit_def nat_le_iff)
  moreover have "length views \<le> ?n" using v by (simp add: pick_hooks_def)
  ultimately have "length views \<le> 50" by linarith
  moreover have "map hv_created views = map hr_created (pick_hooks d ?n ?rows1)"
    using v by (simp add: viewWebhookRequest_def)
  then have "sorted (map hv_created views)" by (simp add: pick_hooks_def sorted_select_asc)
  moreover have "hv_daemon w = d \<and> hv_status w = HPending" if w: "w \<in> set views" for w
  proof -
    obtain r where r: "r \<in> set (pick_hooks d ?n ?rows1)" "w = viewWebhookRequest r" using w unfolding v set_map by blast
    have "hr_daemon r = d \<and> hr_status r = HPending" using r(1) requests.chosen_mine unfolding pick_is by blast
    then show ?thesis using r(2) by (simp add: viewWebhookRequest_def)
  qed
  moreover have "k \<notin> set (map hv_id views')" if "k \<in> set (map hv_id views)" for k
  proof -
    have "k \<in> hr_id ` set (requests.chosen d (\<lambda>_. True) ?n (requests.taken_back d (ce_now ce) (rl_hooks s)))"
      using that v by (auto simp: image_iff pick_is reclaim_is)
    from requests.handed_out_once [OF assms(3,4) this]
    have "k \<notin> hr_id ` set (requests.chosen d (\<lambda>_. True) (pickup_limit limit') (requests.taken_back d (ce_now ce') (rl_hooks s')))"
      unfolding s' .
    then show ?thesis using v' by (auto simp: image_iff pick_is reclaim_is)
  qed
  ultimately show ?thesis by blast
qed

definition demo_request :: hook_request where
  "demo_request = new_request (demo_env 5) ''d1'' ''deploy'' ''{}'' [] ''ci'' ''r1''"

lemma demo_leased:
  "ListPendingWebhooks (demo_env 6) [demo_host] ''d1'' ''pw'' 0 (no_relay\<lparr>rl_hooks := [demo_request]\<rparr>) =
    (no_relay\<lparr>rl_hooks := [hook_lease 6 demo_request]\<rparr>, Inr [viewWebhookRequest demo_request])"
  by code_simp

lemma demo_leased_again:
  "ListPendingWebhooks (demo_env 7) [demo_host] ''d1'' ''pw'' 0 (no_relay\<lparr>rl_hooks := [hook_lease 6 demo_request]\<rparr>) =
    (no_relay\<lparr>rl_hooks := [hook_lease 6 demo_request]\<rparr>, Inr [])"
  by code_simp

theorem requests_leased_once_witness: "hv_status (viewWebhookRequest demo_request) = HPending"
  using requests_leased_once [OF demo_leased demo_leased_again] by (simp add: demo_env_def webhookLeaseDuration_def seconds_def)

section \<open>A request is answered once\<close>

text \<open>One call of the relay, run without another in between.\<close>

inductive relay_call :: "relay \<Rightarrow> relay \<Rightarrow> bool" where
  queued: "relay_call s (fst (EnqueueWebhook ce ds account d name body sig by1 cred minted s))"
| picked: "relay_call s (fst (ListPendingWebhooks ce ds d secret limit s))"
| answered: "relay_call s (fst (CompleteWebhook ce ds d secret i code body err s))"
| credential_made: "relay_call s (fst (CreateCredential ce account label daemons hosts actions i secret s))"
| credential_gone: "relay_call s (fst (DeleteCredential ce account i s))"

inductive relay_calls :: "relay \<Rightarrow> relay \<Rightarrow> bool" where
  none: "relay_calls s s"
| more: "relay_call s s' \<Longrightarrow> relay_calls s' s'' \<Longrightarrow> relay_calls s s''"

lemma update_keeps: "r \<in> set rows \<Longrightarrow> \<not> P r \<Longrightarrow> r \<in> set (update_where P f rows)"
  by (force simp: set_update_where)

lemma picked_hooks:
  "rl_hooks (fst (ListPendingWebhooks ce ds d secret limit s)) \<in>
    {rl_hooks s, reclaim_hooks (ce_now ce) d (rl_hooks s),
     lease_hooks (ce_now ce) d (map hr_id (pick_hooks d (pickup_limit limit) (reclaim_hooks (ce_now ce) d (rl_hooks s))))
       (reclaim_hooks (ce_now ce) d (rl_hooks s))}"
  unfolding ListPendingWebhooks_def Let_def by (simp split: sum.split del: set_map)

lemma call_keeps_done:
  assumes "relay_call s s'" "r \<in> set (rl_hooks s)" "hr_status r = HDone" "distinct (map hr_id (rl_hooks s))"
  shows "r \<in> set (rl_hooks s') \<and> distinct (map hr_id (rl_hooks s'))"
  using assms
proof (induction rule: relay_call.induct)
  case (queued s ce ds account d name body sig by1 cred minted)
  then show ?case
    using enqueue_authorised_hooks [of ce ds account d name body sig by1 cred minted s]
    by (auto simp: insert_row_Some)
next
  case (picked s ce ds d secret limit)
  let ?rows1 = "reclaim_hooks (ce_now ce) d (rl_hooks s)"
  have r: "r \<in> set ?rows1" using picked by (auto simp: reclaim_hooks_def hook_lease_expired_def intro!: update_keeps)
  have dist: "distinct (map hr_id ?rows1)" using picked by simp
  have "r \<in> set (lease_hooks (ce_now ce) d (map hr_id (pick_hooks d (pickup_limit limit) ?rows1)) ?rows1)"
    unfolding lease_is [OF dist] requests.handed_out_def using r picked by (intro update_keeps) auto
  moreover have "map hr_id (lease_hooks now d ids rows) = map hr_id rows" for now ids rows
    by (simp add: lease_hooks_def hook_lease_def)
  ultimately show ?case using picked_hooks [of ce ds d secret limit s] picked r by auto
next
  case (answered s ce ds d secret i code body err)
  have "map hr_id (update_where P (complete_hook now code body err) rows) = map hr_id rows" for P now rows
    by (simp add: complete_hook_def)
  then show ?case using answered
    by (auto simp: CompleteWebhook_def Let_def intro!: update_keeps split: sum.splits)
next
  case (credential_made s ce account label daemons hosts actions i secret)
  then show ?case by (auto simp: CreateCredential_def Let_def split: sum.splits option.splits)
next
  case (credential_gone s ce account i)
  then show ?case by (auto simp: DeleteCredential_def Let_def)
qed

lemma calls_keep_done:
  assumes "relay_calls s s'" "r \<in> set (rl_hooks s)" "hr_status r = HDone" "distinct (map hr_id (rl_hooks s))"
  shows "r \<in> set (rl_hooks s') \<and> distinct (map hr_id (rl_hooks s'))"
  using assms by (induction rule: relay_calls.induct) (use call_keeps_done in blast)+

lemma complete_result:
  assumes "CompleteWebhook ce ds d secret i code body err s = (s', Inr ())" "distinct (map hr_id (rl_hooks s))"
  shows "\<exists>r \<in> set (rl_hooks s). hr_id r = i \<and> hr_daemon r = d \<and> hr_status r = HLeased \<and>
    complete_hook (ce_now ce) code body err r \<in> set (rl_hooks s')" "map hr_id (rl_hooks s') = map hr_id (rl_hooks s)"
proof -
  let ?mine = "\<lambda>r. hr_daemon r = d \<and> hr_id r = i \<and> hr_status r = HLeased"
  have a: "affected ?mine (rl_hooks s) \<noteq> 0"
    "rl_hooks s' = update_where ?mine (complete_hook (ce_now ce) code body err) (rl_hooks s)"
    using assms(1) by (auto simp: CompleteWebhook_def Let_def split: sum.splits if_splits)
  then obtain r where r: "r \<in> set (rl_hooks s)" "?mine r" by (auto simp: affected_0)
  then have "complete_hook (ce_now ce) code body err r \<in> set (rl_hooks s')"
    using a(2) by (auto simp: set_update_where intro!: image_eqI [of _ _ r])
  then show "\<exists>r \<in> set (rl_hooks s). hr_id r = i \<and> hr_daemon r = d \<and> hr_status r = HLeased \<and>
    complete_hook (ce_now ce) code body err r \<in> set (rl_hooks s')" using r by blast
  show "map hr_id (rl_hooks s') = map hr_id (rl_hooks s)" using a(2) by (simp add: complete_hook_def)
qed

text \<open>C14: A posted result is the result: it is accepted only for a leased request of the daemon that posts it, is stored with
the request's name and body untouched, and whatever calls follow one after another, no pickup and no other post
changes it, and a second post is refused.\<close>

theorem answered_once:
  assumes "CompleteWebhook ce ds d secret i code body err s = (s1, Inr ())" "relay_calls s1 s2"
    and "distinct (map hr_id (rl_hooks s))"
  shows "\<exists>r \<in> set (rl_hooks s). hr_id r = i \<and> hr_status r = HLeased \<and> hr_daemon r = d \<and>
    complete_hook (ce_now ce) code body err r \<in> set (rl_hooks s2) \<and>
    (\<forall>ce' ds' d' secret' code' body' err' s3. CompleteWebhook ce' ds' d' secret' i code' body' err' s2 \<noteq> (s3, Inr ()))"
proof -
  obtain r where r: "r \<in> set (rl_hooks s)" "hr_id r = i" "hr_daemon r = d" "hr_status r = HLeased"
    and done1: "complete_hook (ce_now ce) code body err r \<in> set (rl_hooks s1)" (is "?r \<in> _")
    using complete_result(1) [OF assms(1,3)] by blast
  have d1: "distinct (map hr_id (rl_hooks s1))" using complete_result(2) [OF assms(1,3)] assms(3) by simp
  have st: "hr_status ?r = HDone" "hr_id ?r = i" using r by (simp_all add: complete_hook_def)
  have k: "?r \<in> set (rl_hooks s2)" "distinct (map hr_id (rl_hooks s2))"
    using calls_keep_done [OF assms(2) done1 st(1) d1] by simp_all
  have "CompleteWebhook ce' ds' d' secret' i code' body' err' s2 \<noteq> (s3, Inr ())" for ce' ds' d' secret' code' body' err' s3
  proof
    assume "CompleteWebhook ce' ds' d' secret' i code' body' err' s2 = (s3, Inr ())"
    from complete_result(1) [OF this k(2)] obtain q where q: "q \<in> set (rl_hooks s2)" "hr_id q = i" "hr_status q = HLeased" by blast
    have "q = ?r" using k q(1,2) st(2) by (metis distinct_map inj_onD)
    then show False using q(3) st(1) by simp
  qed
  then show ?thesis using r k(1) by blast
qed

lemma demo_answered:
  "CompleteWebhook (demo_env 8) [demo_host] ''d1'' ''pw'' ''r1'' 200 ''ok'' [] (no_relay\<lparr>rl_hooks := [hook_lease 6 demo_request]\<rparr>) =
    (no_relay\<lparr>rl_hooks := [complete_hook 8 200 ''ok'' [] (hook_lease 6 demo_request)]\<rparr>, Inr ())"
  by code_simp

theorem answered_once_witness:
  "CompleteWebhook (demo_env 9) [demo_host] ''d1'' ''pw'' ''r1'' 500 [] []
     (no_relay\<lparr>rl_hooks := [complete_hook 8 200 ''ok'' [] (hook_lease 6 demo_request)]\<rparr>) \<noteq> (no_relay, Inr ())"
  using answered_once [OF demo_answered relay_calls.none] by simp

section \<open>Overlapping pickups\<close>

text \<open>Answered once holds for pickups that do not overlap: the last statement of a pickup selects by id without the
status, so a pickup that listed a request before another one leased, executed and answered it leases the answered
request again, and its reply carries it for a second execution.\<close>

theorem overlapping_pickup_releases_done:
  fixes t1 t2 t3 :: time and code :: int and body err :: string
  assumes "r \<in> set rows" "hr_daemon r = d" "hr_status r = HPending" "length rows \<le> n"
  defines "picked \<equiv> pick_hooks d n rows"
  defines "leased \<equiv> lease_hooks t1 d (map hr_id (pick_hooks d n rows)) rows"
  defines "answered \<equiv> update_where (\<lambda>x. hr_daemon x = d \<and> hr_id x = hr_id r \<and> hr_status x = HLeased)
    (complete_hook t2 code body err) leased"
  shows "r \<in> set picked \<and> complete_hook t2 code body err (hook_lease t1 r) \<in> set answered \<and>
    hook_lease t3 (complete_hook t2 code body err (hook_lease t1 r)) \<in> set (lease_hooks t3 d (map hr_id picked) answered)"
proof -
  let ?P = "\<lambda>r. hr_daemon r = d \<and> hr_status r = HPending"
  have "length (filter ?P rows) \<le> n" using assms(4) length_filter_le [of ?P rows] by linarith
  then have p: "r \<in> set picked" using assms(1-3) by (simp add: picked_def pick_hooks_def select_asc_def)
  have "hook_lease t1 r \<in> set leased"
    using p assms(1,2) unfolding leased_def lease_hooks_def set_update_where picked_def by (intro image_eqI [of _ _ r]) auto
  then have a: "complete_hook t2 code body err (hook_lease t1 r) \<in> set answered"
    using assms(2) unfolding answered_def set_update_where
    by (intro image_eqI [of _ _ "hook_lease t1 r"]) (auto simp: hook_lease_def)
  have "hook_lease t3 (complete_hook t2 code body err (hook_lease t1 r)) \<in> set (lease_hooks t3 d (map hr_id picked) answered)"
    using a p assms(2) unfolding lease_hooks_def [of t3] set_update_where
    by (intro image_eqI [OF _ a]) (auto simp: hook_lease_def complete_hook_def)
  then show ?thesis using p a by blast
qed

theorem overlapping_pickup_releases_done_witness:
  "hook_lease 9 (complete_hook 8 200 ''ok'' [] (hook_lease 6 demo_request)) \<in> set (lease_hooks 9 ''d1'' [''r1'']
     (update_where (\<lambda>x. hr_daemon x = ''d1'' \<and> hr_id x = hr_id demo_request \<and> hr_status x = HLeased) (complete_hook 8 200 ''ok'' [])
       (lease_hooks 6 ''d1'' [''r1''] [demo_request])))"
proof -
  have d: "hr_daemon demo_request = ''d1''" "hr_status demo_request = HPending" "hr_id demo_request = ''r1''"
    by (simp_all add: demo_request_def new_request_def)
  have p: "pick_hooks ''d1'' 50 [demo_request] = [demo_request]" using d by (simp add: pick_hooks_def select_asc_def)
  show ?thesis
    using overlapping_pickup_releases_done [of demo_request "[demo_request]" "''d1''" 50 8 200 "''ok''" "[]" 6 9] p d by simp
qed

end
