(* ===== verification/Cloud_Fleet.thy ===== *)
theory Cloud_Fleet
  imports Cloud_Access Go_Text
begin

text \<open>
  The fleet of \<open>internal/cloud/service.go\<close>: daemons created, renamed, disabled and given new
  secrets by workspace members, the quota views, and the list of actions a daemon reports. The
  secret and its bcrypt hash are minted outside; \<open>ce_fault k\<close> fails the \<open>k\<close>-th statement.
\<close>

section \<open>Daemons\<close>

record daemon_view =
  dv_id :: string
  dv_workspace :: string
  dv_name :: string
  dv_hostID :: string
  dv_enabled :: bool
  dv_relay :: bool
  dv_lastSeen :: "time option"
  dv_disconnected :: "time option"
  dv_created :: time
  dv_updated :: time

definition viewDaemon :: "daemon \<Rightarrow> daemon_view" where
  "viewDaemon d =
     \<lparr>dv_id = d_id d, dv_workspace = d_workspace d, dv_name = d_name d, dv_hostID = d_hostID d,
      dv_enabled = d_enabled d, dv_relay = d_relay d, dv_lastSeen = d_lastSeen d,
      dv_disconnected = d_disconnected d, dv_created = d_created d, dv_updated = d_updated d\<rparr>"

definition in_workspace :: "string \<Rightarrow> daemon list \<Rightarrow> nat" where
  "in_workspace w ds = affected (\<lambda>d. d_workspace d = w) ds"

definition new_daemon :: "cloud_env \<Rightarrow> string \<Rightarrow> string \<Rightarrow> string \<Rightarrow> string \<Rightarrow> string \<Rightarrow> daemon" where
  "new_daemon ce account w name i hash =
     \<lparr>d_id = i, d_account = account, d_workspace = w, d_name = name, d_secretHash = hash, d_hostID = [],
      d_enabled = True, d_relay = False, d_lastSeen = None, d_disconnected = None,
      d_created = ce_now ce, d_updated = ce_now ce\<rparr>"

text \<open>\<open>minted\<close>: the secret of \<open>generateSecret\<close> and its hash, or the error of either.\<close>

definition CreateDaemon ::
  "cloud_env \<Rightarrow> string \<Rightarrow> string \<Rightarrow> string \<Rightarrow> string \<Rightarrow> string + string \<times> string \<Rightarrow> daemon list
     \<Rightarrow> daemon list \<times> (cloud_error + daemon_view \<times> string)" where
  "CreateDaemon ce account workspace rawName i minted ds =
     (let w = trim_space workspace; name = trim_space rawName in
      if w = [] then (ds, Inl (InvalidInput ''workspace_id is required''))
      else if name = [] then (ds, Inl (InvalidInput ''name is required''))
      else case rbind (authorizeWorkspace ce account w) (\<lambda>_. workspaceQuota ce w) of
        Inl e \<Rightarrow> (ds, Inl e)
      | Inr quotas \<Rightarrow>
          if ce_fault ce 0 then (ds, Inl DbError)
          else if quotas ''max_daemons'' \<le> int (in_workspace w ds)
            then (ds, Inl (InvalidInput ''workspace daemon limit reached''))
          else case minted of
            Inl e \<Rightarrow> (ds, Inl (NotMinted e))
          | Inr (secret, hash) \<Rightarrow>
              (let d = new_daemon ce account w name i hash in
               case (if ce_fault ce 1 then None else insert_row d_id d ds) of
                 None \<Rightarrow> (ds, Inl DbError)
               | Some ds' \<Rightarrow> (ds', Inr (viewDaemon d, secret))))"

definition ListDaemons :: "cloud_env \<Rightarrow> string \<Rightarrow> string \<Rightarrow> daemon list \<Rightarrow> cloud_error + daemon_view list" where
  "ListDaemons ce account workspace ds =
     (let w = trim_space workspace in
      if w = [] then Inl (InvalidInput ''workspace_id is required'')
      else rbind (authorizeWorkspace ce account w) (\<lambda>_.
        if ce_fault ce 0 then Inl DbError
        else Inr (map viewDaemon (sort_key (\<lambda>d. - d_created d) (filter (\<lambda>d. d_workspace d = w) ds)))))"

definition GetDaemon :: "cloud_env \<Rightarrow> string \<Rightarrow> string \<Rightarrow> daemon list \<Rightarrow> cloud_error + daemon_view" where
  "GetDaemon ce account i ds = rbind (daemonForAccount ce ds account i) (\<lambda>d. Inr (viewDaemon d))"

text \<open>\<open>Save\<close> writes the whole row back, with a new \<open>updated_at\<close>.\<close>

definition save_daemon :: "cloud_env \<Rightarrow> daemon \<Rightarrow> daemon list \<Rightarrow> daemon list" where
  "save_daemon ce d ds = update_where (\<lambda>x. d_id x = d_id d) (\<lambda>_. d\<lparr>d_updated := ce_now ce\<rparr>) ds"

definition edited :: "string option \<Rightarrow> bool option \<Rightarrow> bool option \<Rightarrow> daemon \<Rightarrow> daemon" where
  "edited name enabled relay d =
     (let d1 = (case name of None \<Rightarrow> d | Some n \<Rightarrow> d\<lparr>d_name := trim_space n\<rparr>);
          d2 = (case enabled of None \<Rightarrow> d1
                | Some b \<Rightarrow> if b then d1\<lparr>d_enabled := True\<rparr> else d1\<lparr>d_enabled := False, d_disconnected := None\<rparr>)
      in (case relay of None \<Rightarrow> d2 | Some b \<Rightarrow> d2\<lparr>d_relay := b\<rparr>))"

definition UpdateDaemon ::
  "cloud_env \<Rightarrow> string \<Rightarrow> string \<Rightarrow> string option \<Rightarrow> bool option \<Rightarrow> bool option \<Rightarrow> daemon list
     \<Rightarrow> daemon list \<times> (cloud_error + daemon_view)" where
  "UpdateDaemon ce account i name enabled relay ds =
     (case daemonForAccount ce ds account i of
        Inl e \<Rightarrow> (ds, Inl e)
      | Inr d \<Rightarrow>
          if (case name of None \<Rightarrow> False | Some n \<Rightarrow> trim_space n = []) then (ds, Inl (InvalidInput ''name is required''))
          else if ce_fault ce 1 then (ds, Inl DbError)
          else let d' = edited name enabled relay d in
            (save_daemon ce d' ds, Inr (viewDaemon (d'\<lparr>d_updated := ce_now ce\<rparr>))))"

definition RotateSecret ::
  "cloud_env \<Rightarrow> string \<Rightarrow> string \<Rightarrow> string + string \<times> string \<Rightarrow> daemon list \<Rightarrow> daemon list \<times> (cloud_error + string)" where
  "RotateSecret ce account i minted ds =
     (case daemonForAccount ce ds account i of
        Inl e \<Rightarrow> (ds, Inl e)
      | Inr d \<Rightarrow>
          (case minted of
             Inl e \<Rightarrow> (ds, Inl (NotMinted e))
           | Inr (secret, hash) \<Rightarrow>
               if ce_fault ce 1 then (ds, Inl DbError)
               else (save_daemon ce (d\<lparr>d_secretHash := hash\<rparr>) ds, Inr secret)))"

text \<open>One transaction of three statements; the fourth is the commit.\<close>

definition DisableDaemon :: "cloud_env \<Rightarrow> string \<Rightarrow> string \<Rightarrow> daemon list \<Rightarrow> daemon list \<times> (cloud_error + unit)" where
  "DisableDaemon ce account i ds =
     (case daemonForAccount ce ds account i of
        Inl e \<Rightarrow> (ds, Inl e)
      | Inr d \<Rightarrow>
          if ce_fault ce 1 \<or> ce_fault ce 2 \<or> ce_fault ce 3 then (ds, Inl DbError)
          else (update_where (\<lambda>x. d_id x = d_id d) (\<lambda>x. x\<lparr>d_disconnected := None, d_updated := ce_now ce\<rparr>)
                  (save_daemon ce (d\<lparr>d_enabled := False\<rparr>) ds), Inr ()))"

section \<open>Quota views\<close>

definition GetDaemonQuota :: "cloud_env \<Rightarrow> string \<Rightarrow> string \<Rightarrow> daemon list \<Rightarrow> cloud_error + string \<times> (string \<Rightarrow> int)" where
  "GetDaemonQuota ce i secret ds =
     (case authenticateDaemon ce ds i secret of
        Inl _ \<Rightarrow> Inl ErrUnauthorized
      | Inr d \<Rightarrow> rbind (workspaceQuota ce (d_workspace d)) (\<lambda>q. Inr (d_workspace d, q)))"

definition GetWorkspaceQuota :: "cloud_env \<Rightarrow> string \<Rightarrow> string \<Rightarrow> cloud_error + string \<times> (string \<Rightarrow> int)" where
  "GetWorkspaceQuota ce account workspace =
     (let w = trim_space workspace in
      if w = [] then Inl (InvalidInput ''workspace_id is required'')
      else rbind (authorizeWorkspace ce account w) (\<lambda>_. rbind (workspaceQuota ce w) (\<lambda>q. Inr (w, q))))"

section \<open>Reported actions\<close>

record action_input =
  ai_name :: string
  ai_display :: string
  ai_enabled :: bool
  ai_onSuccess :: bool
  ai_onFailure :: bool
  ai_timeout :: string
  ai_cwd :: string
  ai_user :: string

record action_row =
  ar_daemon :: string
  ar_name :: string
  ar_display :: string
  ar_enabled :: bool
  ar_onSuccess :: bool
  ar_onFailure :: bool
  ar_timeout :: string
  ar_cwd :: string
  ar_user :: string
  ar_updated :: time

definition check_action :: "string list \<times> action_input list \<Rightarrow> action_input \<Rightarrow> cloud_error + string list \<times> action_input list" where
  "check_action acc a =
     (case acc of (names, out) \<Rightarrow>
        let name = trim_space (ai_name a); display = trim_space (ai_display a) in
        if name = [] \<or> 128 < length name \<or> \<not> valid_utf8 name
        then Inl (InvalidInput ''action name exceeds bounds or is empty'')
        else if name \<in> set names then Inl (InvalidInput ''duplicate action name'')
        else if 128 < length display \<or> 32 < length (ai_timeout a) \<or> 1024 < length (ai_cwd a) \<or> 64 < length (ai_user a)
        then Inl (InvalidInput ''action field exceeds bounds'')
        else Inr (name # names, out @ [a\<lparr>ai_name := name, ai_display := display\<rparr>]))"

definition action_row_of :: "time \<Rightarrow> string \<Rightarrow> action_input \<Rightarrow> action_row" where
  "action_row_of now d a =
     \<lparr>ar_daemon = d, ar_name = ai_name a, ar_display = ai_display a, ar_enabled = ai_enabled a,
      ar_onSuccess = ai_onSuccess a, ar_onFailure = ai_onFailure a, ar_timeout = ai_timeout a,
      ar_cwd = ai_cwd a, ar_user = ai_user a, ar_updated = now\<rparr>"

text \<open>The delete, the insert and the commit of one transaction are statements 1, 2 and 3.\<close>

definition SyncActions ::
  "cloud_env \<Rightarrow> daemon list \<Rightarrow> string \<Rightarrow> string \<Rightarrow> action_input list \<Rightarrow> action_row list
     \<Rightarrow> cloud_error + action_row list" where
  "SyncActions ce ds i secret input rows =
     (case authenticateDaemon ce ds i secret of
        Inl _ \<Rightarrow> Inl ErrUnauthorized
      | Inr d \<Rightarrow>
          rbind (rfold check_action ([], []) input) (\<lambda>(_, checked).
            if ce_fault ce 1 \<or> (checked \<noteq> [] \<and> ce_fault ce 2) \<or> ce_fault ce 3 then Inl DbError
            else Inr (filter (\<lambda>r. ar_daemon r \<noteq> d_id d) rows @ map (action_row_of (ce_now ce) (d_id d)) checked)))"

record action_view =
  av_name :: string
  av_display :: string
  av_enabled :: bool
  av_onSuccess :: bool
  av_onFailure :: bool
  av_timeout :: string
  av_cwd :: string
  av_user :: string
  av_updated :: time

definition view_action :: "action_row \<Rightarrow> action_view" where
  "view_action r =
     \<lparr>av_name = ar_name r, av_display = ar_display r, av_enabled = ar_enabled r,
      av_onSuccess = ar_onSuccess r, av_onFailure = ar_onFailure r, av_timeout = ar_timeout r,
      av_cwd = ar_cwd r, av_user = ar_user r, av_updated = ar_updated r\<rparr>"

definition ListActions ::
  "cloud_env \<Rightarrow> daemon list \<Rightarrow> string \<Rightarrow> string \<Rightarrow> action_row list \<Rightarrow> cloud_error + action_view list" where
  "ListActions ce ds account i rows =
     rbind (daemonForAccount ce ds account i) (\<lambda>_.
       if ce_fault ce 1 then Inl DbError
       else Inr (map view_action (sort_key ar_name (filter (\<lambda>r. ar_daemon r = i) rows))))"

section \<open>What the calls can do\<close>

lemma ids_save [simp]: "map d_id (save_daemon ce d ds) = map d_id ds"
  by (simp add: save_daemon_def update_where_def)

lemma daemon_row_save:
  assumes "d_id d = i" "daemon_row ds i \<noteq> None"
  shows "daemon_row (save_daemon ce d ds) i = Some (d\<lparr>d_updated := ce_now ce\<rparr>)"
  using assms by (induction ds) (auto simp: daemon_row_def save_daemon_def update_where_def)

lemma daemon_row_update_other:
  assumes "\<And>x. P x \<Longrightarrow> d_id x = j \<and> d_id (f x) = j" "i \<noteq> j"
  shows "daemon_row (update_where P f ds) i = daemon_row ds i"
  using assms(2) assms(1) by (induction ds) (auto simp: daemon_row_def update_where_def)

lemma daemon_row_save_other:
  assumes "i \<noteq> d_id d"
  shows "daemon_row (save_daemon ce d ds) i = daemon_row ds i"
  using assms unfolding save_daemon_def by (intro daemon_row_update_other [where j = "d_id d"]) auto

lemma edited_id [simp]: "d_id (edited name enabled relay d) = d_id d" "d_workspace (edited name enabled relay d) = d_workspace d"
  "d_secretHash (edited name enabled relay d) = d_secretHash d"
  by (auto simp: edited_def Let_def split: option.splits)

end
