(* ===== verification/Cloud_Localization.thy ===== *)
theory Cloud_Localization
  imports Go_Text "HOL-Library.Multiset"
begin

text \<open>
  \<open>internal/cloud/localization.go\<close>: the alarm texts of three locales and the substitution of a
  notification's values into them. A decoded JSON value is a \<open>jval\<close>; how \<open>fmt\<close> prints the numbers
  and the composite values is a parameter. The source ranges over a map of the eight arguments:
  its order is an argument.
\<close>

section \<open>strings.ReplaceAll\<close>

text \<open>For a non-empty \<open>old\<close>, the only case the code has.\<close>

function replace_all :: "string \<Rightarrow> string \<Rightarrow> string \<Rightarrow> string" where
  "replace_all old new s =
     (if old \<noteq> [] \<and> has_prefix old s then new @ replace_all old new (drop (length old) s)
      else case s of [] \<Rightarrow> [] | c # cs \<Rightarrow> c # replace_all old new cs)"
  by pat_completeness auto
termination
proof (relation "measure (\<lambda>(old, new, s). length s)", simp)
  fix old new s :: string
  assume "old \<noteq> [] \<and> has_prefix old s"
  then show "((old, new, drop (length old) s), (old, new, s)) \<in> measure (\<lambda>(old, new, s). length s)"
    by (cases s; cases old) (auto simp: has_prefix_def)
qed auto

declare replace_all.simps [simp del]

section \<open>Values\<close>

datatype jval = JNull | JBool bool | JNumber string | JString string | JOther bytes

record printing =
  pr_float :: "string \<Rightarrow> string" \<comment> \<open>\<open>%v\<close> of a \<open>float64\<close>, by its JSON literal\<close>
  pr_float2 :: "string \<Rightarrow> string" \<comment> \<open>\<open>%.2f\<close>\<close>
  pr_other :: "bytes \<Rightarrow> string" \<comment> \<open>\<open>%v\<close> of an array or an object\<close>

definition sprint :: "printing \<Rightarrow> jval \<Rightarrow> string" where
  "sprint pr v =
     (case v of JNull \<Rightarrow> ''<nil>'' | JBool b \<Rightarrow> if b then ''true'' else ''false'' | JNumber n \<Rightarrow> pr_float pr n
      | JString s \<Rightarrow> s | JOther b \<Rightarrow> pr_other pr b)"

definition formatAlarmValue :: "printing \<Rightarrow> jval \<Rightarrow> string" where
  "formatAlarmValue pr v = (case v of JNumber n \<Rightarrow> pr_float2 pr n | _ \<Rightarrow> sprint pr v)"

text \<open>A missing key of a Go map reads as nil.\<close>

definition value_of :: "(string \<times> jval) list \<Rightarrow> string \<Rightarrow> jval" where
  "value_of m k = (case map_of m k of None \<Rightarrow> JNull | Some v \<Rightarrow> v)"

section \<open>The texts\<close>

definition messages_en :: "(string \<times> string) list" where
  "messages_en =
     [(''cpu_percent.title'', ''CPU threshold exceeded''),
      (''cpu_percent.body'', ''CPU usage reached {value}% (threshold {threshold}%).''),
      (''memory_used_percent.title'', ''Memory threshold exceeded''),
      (''memory_used_percent.body'', ''Memory usage reached {value}% (threshold {threshold}%).''),
      (''disk_used_percent.title'', ''Disk threshold exceeded''),
      (''disk_used_percent.body'', ''Disk usage reached {value}% (threshold {threshold}%).''),
      (''container_down.title'', ''Container is down''),
      (''container_down.body'', ''Container {name} is {state}.''),
      (''disconnected.title'', ''Daemon disconnected''),
      (''disconnected.body'', ''No metrics received for {age}; last seen at {last_seen}.''),
      (''reconnected.title'', ''Daemon reconnected''),
      (''reconnected.body'', ''Metrics resumed after {downtime}.''),
      (''webhook.success.title'', ''Webhook {name} completed''),
      (''webhook.success.body'', ''{body}''),
      (''webhook.failure.title'', ''Webhook {name} failed''),
      (''webhook.failure.body'', ''{body}'')]"

definition messages_zh_cn :: "(string \<times> string) list" where
  "messages_zh_cn =
     [(''cpu_percent.title'', ''CPU '' @ [CHR 0xE5, CHR 0xB7, CHR 0xB2, CHR 0xE8, CHR 0xB6, CHR 0x85, CHR 0xE8, CHR 0xBF,
        CHR 0x87, CHR 0xE9, CHR 0x98, CHR 0x88, CHR 0xE5, CHR 0x80, CHR 0xBC]),
      (''cpu_percent.body'', ''CPU '' @ [CHR 0xE4, CHR 0xBD, CHR 0xBF, CHR 0xE7, CHR 0x94, CHR 0xA8, CHR 0xE7, CHR 0x8E,
        CHR 0x87, CHR 0xE8, CHR 0xBE, CHR 0xBE, CHR 0xE5, CHR 0x88, CHR 0xB0] @ '' {value}%'' @ [CHR 0xEF,
        CHR 0xBC, CHR 0x88, CHR 0xE9, CHR 0x98, CHR 0x88, CHR 0xE5, CHR 0x80, CHR 0xBC] @
        '' {threshold}%'' @ [CHR 0xEF, CHR 0xBC, CHR 0x89, CHR 0xE3, CHR 0x80, CHR 0x82]),
      (''memory_used_percent.title'', [CHR 0xE5, CHR 0x86, CHR 0x85, CHR 0xE5, CHR 0xAD, CHR 0x98, CHR 0xE5, CHR 0xB7, CHR 0xB2, CHR 0xE8,
        CHR 0xB6, CHR 0x85, CHR 0xE8, CHR 0xBF, CHR 0x87, CHR 0xE9, CHR 0x98, CHR 0x88, CHR 0xE5, CHR 0x80,
        CHR 0xBC]),
      (''memory_used_percent.body'', [CHR 0xE5, CHR 0x86, CHR 0x85, CHR 0xE5, CHR 0xAD, CHR 0x98, CHR 0xE4, CHR 0xBD, CHR 0xBF, CHR 0xE7,
        CHR 0x94, CHR 0xA8, CHR 0xE7, CHR 0x8E, CHR 0x87, CHR 0xE8, CHR 0xBE, CHR 0xBE, CHR 0xE5, CHR 0x88,
        CHR 0xB0] @ '' {value}%'' @ [CHR 0xEF, CHR 0xBC, CHR 0x88, CHR 0xE9, CHR 0x98, CHR 0x88, CHR 0xE5,
        CHR 0x80, CHR 0xBC] @ '' {threshold}%'' @ [CHR 0xEF, CHR 0xBC, CHR 0x89, CHR 0xE3, CHR 0x80,
        CHR 0x82]),
      (''disk_used_percent.title'', [CHR 0xE7, CHR 0xA3, CHR 0x81, CHR 0xE7, CHR 0x9B, CHR 0x98, CHR 0xE5, CHR 0xB7, CHR 0xB2, CHR 0xE8,
        CHR 0xB6, CHR 0x85, CHR 0xE8, CHR 0xBF, CHR 0x87, CHR 0xE9, CHR 0x98, CHR 0x88, CHR 0xE5, CHR 0x80,
        CHR 0xBC]),
      (''disk_used_percent.body'', [CHR 0xE7, CHR 0xA3, CHR 0x81, CHR 0xE7, CHR 0x9B, CHR 0x98, CHR 0xE4, CHR 0xBD, CHR 0xBF, CHR 0xE7,
        CHR 0x94, CHR 0xA8, CHR 0xE7, CHR 0x8E, CHR 0x87, CHR 0xE8, CHR 0xBE, CHR 0xBE, CHR 0xE5, CHR 0x88,
        CHR 0xB0] @ '' {value}%'' @ [CHR 0xEF, CHR 0xBC, CHR 0x88, CHR 0xE9, CHR 0x98, CHR 0x88, CHR 0xE5,
        CHR 0x80, CHR 0xBC] @ '' {threshold}%'' @ [CHR 0xEF, CHR 0xBC, CHR 0x89, CHR 0xE3, CHR 0x80,
        CHR 0x82]),
      (''container_down.title'', [CHR 0xE5, CHR 0xAE, CHR 0xB9, CHR 0xE5, CHR 0x99, CHR 0xA8, CHR 0xE5, CHR 0xB7, CHR 0xB2, CHR 0xE5,
        CHR 0x81, CHR 0x9C, CHR 0xE6, CHR 0xAD, CHR 0xA2]),
      (''container_down.body'', [CHR 0xE5, CHR 0xAE, CHR 0xB9, CHR 0xE5, CHR 0x99, CHR 0xA8] @ '' {name} '' @ [CHR 0xE5, CHR 0xBD,
        CHR 0x93, CHR 0xE5, CHR 0x89, CHR 0x8D, CHR 0xE7, CHR 0x8A, CHR 0xB6, CHR 0xE6, CHR 0x80, CHR 0x81,
        CHR 0xE4, CHR 0xB8, CHR 0xBA] @ '' {state}'' @ [CHR 0xE3, CHR 0x80, CHR 0x82]),
      (''webhook.success.title'', ''Webhook {name} '' @ [CHR 0xE5, CHR 0xB7, CHR 0xB2, CHR 0xE5, CHR 0xAE, CHR 0x8C, CHR 0xE6,
        CHR 0x88, CHR 0x90]),
      (''webhook.success.body'', ''{body}''),
      (''webhook.failure.title'', ''Webhook {name} '' @ [CHR 0xE6, CHR 0x89, CHR 0xA7, CHR 0xE8, CHR 0xA1, CHR 0x8C, CHR 0xE5,
        CHR 0xA4, CHR 0xB1, CHR 0xE8, CHR 0xB4, CHR 0xA5]),
      (''webhook.failure.body'', ''{body}''),
      (''disconnected.title'', [CHR 0xE5, CHR 0xAE, CHR 0x88, CHR 0xE6, CHR 0x8A, CHR 0xA4, CHR 0xE8, CHR 0xBF, CHR 0x9B, CHR 0xE7,
        CHR 0xA8, CHR 0x8B, CHR 0xE5, CHR 0xB7, CHR 0xB2, CHR 0xE6, CHR 0x96, CHR 0xAD, CHR 0xE5, CHR 0xBC,
        CHR 0x80, CHR 0xE8, CHR 0xBF, CHR 0x9E, CHR 0xE6, CHR 0x8E, CHR 0xA5]),
      (''disconnected.body'', [CHR 0xE5, CHR 0xB7, CHR 0xB2, CHR 0xE6, CHR 0x9C, CHR 0x89] @ '' {age} '' @ [CHR 0xE6, CHR 0x9C,
        CHR 0xAA, CHR 0xE6, CHR 0x94, CHR 0xB6, CHR 0xE5, CHR 0x88, CHR 0xB0, CHR 0xE6, CHR 0x8C, CHR 0x87,
        CHR 0xE6, CHR 0xA0, CHR 0x87, CHR 0xEF, CHR 0xBC, CHR 0x9B, CHR 0xE6, CHR 0x9C, CHR 0x80, CHR 0xE5,
        CHR 0x90, CHR 0x8E, CHR 0xE4, CHR 0xB8, CHR 0x8A, CHR 0xE6, CHR 0x8A, CHR 0xA5, CHR 0xE6, CHR 0x97,
        CHR 0xB6, CHR 0xE9, CHR 0x97, CHR 0xB4, CHR 0xE4, CHR 0xB8, CHR 0xBA] @ '' {last_seen}'' @
        [CHR 0xE3, CHR 0x80, CHR 0x82]),
      (''reconnected.title'', [CHR 0xE5, CHR 0xAE, CHR 0x88, CHR 0xE6, CHR 0x8A, CHR 0xA4, CHR 0xE8, CHR 0xBF, CHR 0x9B, CHR 0xE7,
        CHR 0xA8, CHR 0x8B, CHR 0xE5, CHR 0xB7, CHR 0xB2, CHR 0xE9, CHR 0x87, CHR 0x8D, CHR 0xE6, CHR 0x96,
        CHR 0xB0, CHR 0xE8, CHR 0xBF, CHR 0x9E, CHR 0xE6, CHR 0x8E, CHR 0xA5]),
      (''reconnected.body'', [CHR 0xE6, CHR 0x8C, CHR 0x87, CHR 0xE6, CHR 0xA0, CHR 0x87, CHR 0xE5, CHR 0xB7, CHR 0xB2, CHR 0xE6,
        CHR 0x81, CHR 0xA2, CHR 0xE5, CHR 0xA4, CHR 0x8D, CHR 0xE4, CHR 0xB8, CHR 0x8A, CHR 0xE6, CHR 0x8A,
        CHR 0xA5, CHR 0xEF, CHR 0xBC, CHR 0x8C, CHR 0xE9, CHR 0x97, CHR 0xB4, CHR 0xE9, CHR 0x9A,
        CHR 0x94] @ '' {downtime}'' @ [CHR 0xE3, CHR 0x80, CHR 0x82])]"

definition messages_zh_tw :: "(string \<times> string) list" where
  "messages_zh_tw =
     [(''cpu_percent.title'', ''CPU '' @ [CHR 0xE5, CHR 0xB7, CHR 0xB2, CHR 0xE8, CHR 0xB6, CHR 0x85, CHR 0xE9, CHR 0x81,
        CHR 0x8E, CHR 0xE9, CHR 0x96, CHR 0xBE, CHR 0xE5, CHR 0x80, CHR 0xBC]),
      (''cpu_percent.body'', ''CPU '' @ [CHR 0xE4, CHR 0xBD, CHR 0xBF, CHR 0xE7, CHR 0x94, CHR 0xA8, CHR 0xE7, CHR 0x8E,
        CHR 0x87, CHR 0xE9, CHR 0x81, CHR 0x94, CHR 0xE5, CHR 0x88, CHR 0xB0] @ '' {value}%'' @ [CHR 0xEF,
        CHR 0xBC, CHR 0x88, CHR 0xE9, CHR 0x96, CHR 0xBE, CHR 0xE5, CHR 0x80, CHR 0xBC] @
        '' {threshold}%'' @ [CHR 0xEF, CHR 0xBC, CHR 0x89, CHR 0xE3, CHR 0x80, CHR 0x82]),
      (''memory_used_percent.title'', [CHR 0xE8, CHR 0xA8, CHR 0x98, CHR 0xE6, CHR 0x86, CHR 0xB6, CHR 0xE9, CHR 0xAB, CHR 0x94, CHR 0xE5,
        CHR 0xB7, CHR 0xB2, CHR 0xE8, CHR 0xB6, CHR 0x85, CHR 0xE9, CHR 0x81, CHR 0x8E, CHR 0xE9, CHR 0x96,
        CHR 0xBE, CHR 0xE5, CHR 0x80, CHR 0xBC]),
      (''memory_used_percent.body'', [CHR 0xE8, CHR 0xA8, CHR 0x98, CHR 0xE6, CHR 0x86, CHR 0xB6, CHR 0xE9, CHR 0xAB, CHR 0x94, CHR 0xE4,
        CHR 0xBD, CHR 0xBF, CHR 0xE7, CHR 0x94, CHR 0xA8, CHR 0xE7, CHR 0x8E, CHR 0x87, CHR 0xE9, CHR 0x81,
        CHR 0x94, CHR 0xE5, CHR 0x88, CHR 0xB0] @ '' {value}%'' @ [CHR 0xEF, CHR 0xBC, CHR 0x88, CHR 0xE9,
        CHR 0x96, CHR 0xBE, CHR 0xE5, CHR 0x80, CHR 0xBC] @ '' {threshold}%'' @ [CHR 0xEF, CHR 0xBC,
        CHR 0x89, CHR 0xE3, CHR 0x80, CHR 0x82]),
      (''webhook.success.title'', ''Webhook {name} '' @ [CHR 0xE5, CHR 0xB7, CHR 0xB2, CHR 0xE5, CHR 0xAE, CHR 0x8C, CHR 0xE6,
        CHR 0x88, CHR 0x90]),
      (''webhook.success.body'', ''{body}''),
      (''webhook.failure.title'', ''Webhook {name} '' @ [CHR 0xE5, CHR 0x9F, CHR 0xB7, CHR 0xE8, CHR 0xA1, CHR 0x8C, CHR 0xE5,
        CHR 0xA4, CHR 0xB1, CHR 0xE6, CHR 0x95, CHR 0x97]),
      (''webhook.failure.body'', ''{body}''),
      (''disk_used_percent.title'', [CHR 0xE7, CHR 0xA3, CHR 0x81, CHR 0xE7, CHR 0xA2, CHR 0x9F, CHR 0xE5, CHR 0xB7, CHR 0xB2, CHR 0xE8,
        CHR 0xB6, CHR 0x85, CHR 0xE9, CHR 0x81, CHR 0x8E, CHR 0xE9, CHR 0x96, CHR 0xBE, CHR 0xE5, CHR 0x80,
        CHR 0xBC]),
      (''disk_used_percent.body'', [CHR 0xE7, CHR 0xA3, CHR 0x81, CHR 0xE7, CHR 0xA2, CHR 0x9F, CHR 0xE4, CHR 0xBD, CHR 0xBF, CHR 0xE7,
        CHR 0x94, CHR 0xA8, CHR 0xE7, CHR 0x8E, CHR 0x87, CHR 0xE9, CHR 0x81, CHR 0x94, CHR 0xE5, CHR 0x88,
        CHR 0xB0] @ '' {value}%'' @ [CHR 0xEF, CHR 0xBC, CHR 0x88, CHR 0xE9, CHR 0x96, CHR 0xBE, CHR 0xE5,
        CHR 0x80, CHR 0xBC] @ '' {threshold}%'' @ [CHR 0xEF, CHR 0xBC, CHR 0x89, CHR 0xE3, CHR 0x80,
        CHR 0x82]),
      (''container_down.title'', [CHR 0xE5, CHR 0xAE, CHR 0xB9, CHR 0xE5, CHR 0x99, CHR 0xA8, CHR 0xE5, CHR 0xB7, CHR 0xB2, CHR 0xE5,
        CHR 0x81, CHR 0x9C, CHR 0xE6, CHR 0xAD, CHR 0xA2]),
      (''container_down.body'', [CHR 0xE5, CHR 0xAE, CHR 0xB9, CHR 0xE5, CHR 0x99, CHR 0xA8] @ '' {name} '' @ [CHR 0xE7, CHR 0x9B,
        CHR 0xAE, CHR 0xE5, CHR 0x89, CHR 0x8D, CHR 0xE7, CHR 0x8B, CHR 0x80, CHR 0xE6, CHR 0x85, CHR 0x8B,
        CHR 0xE7, CHR 0x82, CHR 0xBA] @ '' {state}'' @ [CHR 0xE3, CHR 0x80, CHR 0x82]),
      (''reconnected.title'', [CHR 0xE5, CHR 0xAE, CHR 0x88, CHR 0xE8, CHR 0xAD, CHR 0xB7, CHR 0xE7, CHR 0xA8, CHR 0x8B, CHR 0xE5,
        CHR 0xBC, CHR 0x8F, CHR 0xE5, CHR 0xB7, CHR 0xB2, CHR 0xE9, CHR 0x87, CHR 0x8D, CHR 0xE6, CHR 0x96,
        CHR 0xB0, CHR 0xE9, CHR 0x80, CHR 0xA3, CHR 0xE7, CHR 0xB7, CHR 0x9A]),
      (''reconnected.body'', [CHR 0xE6, CHR 0x8C, CHR 0x87, CHR 0xE6, CHR 0xA8, CHR 0x99, CHR 0xE5, CHR 0xB7, CHR 0xB2, CHR 0xE6,
        CHR 0x81, CHR 0xA2, CHR 0xE5, CHR 0xBE, CHR 0xA9, CHR 0xE5, CHR 0x9B, CHR 0x9E, CHR 0xE5, CHR 0xA0,
        CHR 0xB1, CHR 0xEF, CHR 0xBC, CHR 0x8C, CHR 0xE9, CHR 0x96, CHR 0x93, CHR 0xE9, CHR 0x9A,
        CHR 0x94] @ '' {downtime}'' @ [CHR 0xE3, CHR 0x80, CHR 0x82]),
      (''disconnected.title'', [CHR 0xE5, CHR 0xAE, CHR 0x88, CHR 0xE8, CHR 0xAD, CHR 0xB7, CHR 0xE7, CHR 0xA8, CHR 0x8B, CHR 0xE5,
        CHR 0xBC, CHR 0x8F, CHR 0xE5, CHR 0xB7, CHR 0xB2, CHR 0xE4, CHR 0xB8, CHR 0xAD, CHR 0xE6, CHR 0x96,
        CHR 0xB7, CHR 0xE9, CHR 0x80, CHR 0xA3, CHR 0xE7, CHR 0xB7, CHR 0x9A]),
      (''disconnected.body'', [CHR 0xE5, CHR 0xB7, CHR 0xB2, CHR 0xE6, CHR 0x9C, CHR 0x89] @ '' {age} '' @ [CHR 0xE6, CHR 0x9C,
        CHR 0xAA, CHR 0xE6, CHR 0x94, CHR 0xB6, CHR 0xE5, CHR 0x88, CHR 0xB0, CHR 0xE6, CHR 0x8C, CHR 0x87,
        CHR 0xE6, CHR 0xA8, CHR 0x99, CHR 0xEF, CHR 0xBC, CHR 0x9B, CHR 0xE6, CHR 0x9C, CHR 0x80, CHR 0xE5,
        CHR 0xBE, CHR 0x8C, CHR 0xE5, CHR 0x9B, CHR 0x9E, CHR 0xE5, CHR 0xA0, CHR 0xB1, CHR 0xE6, CHR 0x99,
        CHR 0x82, CHR 0xE9, CHR 0x96, CHR 0x93, CHR 0xE7, CHR 0x82, CHR 0xBA] @ '' {last_seen}'' @
        [CHR 0xE3, CHR 0x80, CHR 0x82])]"

definition alarmMessages :: "(string \<times> (string \<times> string) list) list" where
  "alarmMessages = [(''en'', messages_en), (''zh-cn'', messages_zh_cn), (''zh-tw'', messages_zh_tw)]"

definition normalizeAlarmLocale :: "string \<Rightarrow> string" where
  "normalizeAlarmLocale language =
     (let l = to_lower (trim_space language) in
      if has_prefix ''zh-tw'' l \<or> has_prefix ''zh-hk'' l then ''zh-tw''
      else if has_prefix ''zh-cn'' l \<or> has_prefix ''zh-sg'' l \<or> has_prefix ''zh-hans'' l \<or> has_prefix ''zh'' l then ''zh-cn''
      else if has_prefix ''en'' l then ''en''
      else ''en'')"

section \<open>localizeAlarm\<close>

definition alarm_args :: "printing \<Rightarrow> (string \<times> jval) list \<Rightarrow> (string \<times> string) list" where
  "alarm_args pr m =
     (let name = (if value_of m ''container_name'' \<noteq> JNull then value_of m ''container_name''
                  else if value_of m ''display_name'' \<noteq> JNull then value_of m ''display_name''
                  else value_of m ''name'') in
      [(''value'', formatAlarmValue pr (value_of m ''value'')),
       (''threshold'', formatAlarmValue pr (value_of m ''threshold'')),
       (''name'', sprint pr name), (''state'', sprint pr (value_of m ''state'')),
       (''age'', sprint pr (value_of m ''age'')), (''last_seen'', sprint pr (value_of m ''last_seen'')),
       (''downtime'', sprint pr (value_of m ''downtime'')), (''body'', sprint pr (value_of m ''body''))])"

fun substitute_args :: "(string \<times> string) list \<Rightarrow> string \<Rightarrow> string" where
  "substitute_args [] s = s"
| "substitute_args ((n, v) # args) s = substitute_args args (replace_all (''{'' @ n @ ''}'') v s)"

text \<open>\<open>order\<close> is the order in which the map of arguments is ranged over.\<close>

definition localizeAlarm ::
  "printing \<Rightarrow> ((string \<times> string) list \<Rightarrow> (string \<times> string) list) \<Rightarrow> string \<Rightarrow> string \<Rightarrow> (string \<times> jval) list
     \<Rightarrow> (string \<times> string) option" where
  "localizeAlarm pr order language kind m =
     (let kind = (if has_prefix ''daemon.alarm.'' kind then trim_prefix ''daemon.alarm.'' kind else trim_prefix ''daemon.'' kind);
          messages = (case map_of alarmMessages (normalizeAlarmLocale language) of None \<Rightarrow> messages_en | Some t \<Rightarrow> t) in
      case (map_of messages (kind @ ''.title''), map_of messages (kind @ ''.body'')) of
        (Some title, Some body) \<Rightarrow>
          (let args = order (alarm_args pr m) in Some (substitute_args args title, substitute_args args body))
      | _ \<Rightarrow> None)"

section \<open>What the texts become\<close>

text \<open>A template as its plain runs and its holes.\<close>

datatype piece = Run string | Gap string

primrec piece_source :: "piece \<Rightarrow> string" where
  "piece_source (Run s) = s"
| "piece_source (Gap n) = ''{'' @ n @ ''}''"

primrec plain_piece :: "piece \<Rightarrow> bool" where
  "plain_piece (Run s) \<longleftrightarrow> CHR ''{'' \<notin> set s"
| "plain_piece (Gap n) \<longleftrightarrow> CHR ''{'' \<notin> set n \<and> CHR ''}'' \<notin> set n"

primrec fill_gap :: "string \<Rightarrow> string \<Rightarrow> piece \<Rightarrow> piece" where
  "fill_gap n v (Run s) = Run s"
| "fill_gap n v (Gap m) = (if m = n then Run v else Gap m)"

primrec fill_all :: "(string \<times> string) list \<Rightarrow> piece \<Rightarrow> piece" where
  "fill_all args (Run s) = Run s"
| "fill_all args (Gap m) = (case map_of args m of None \<Rightarrow> Gap m | Some v \<Rightarrow> Run v)"

lemma replace_run:
  assumes "CHR ''{'' \<notin> set s"
  shows "replace_all (''{'' @ n @ ''}'') v (s @ t) = s @ replace_all (''{'' @ n @ ''}'') v t"
  using assms
proof (induction s)
  case (Cons c s)
  then have "\<not> has_prefix (''{'' @ n @ ''}'') (c # s @ t)" by (auto simp: has_prefix_def)
  then show ?case using Cons by (subst replace_all.simps) simp
qed simp

lemma replace_Nil [simp]: "replace_all (''{'' @ n @ ''}'') v [] = []"
  by (subst replace_all.simps) (simp add: has_prefix_def)

lemma replace_gap:
  "replace_all (''{'' @ n @ ''}'') v (''{'' @ n @ ''}'' @ t) = v @ replace_all (''{'' @ n @ ''}'') v t"
  by (subst replace_all.simps) (simp add: has_prefix_def)

text \<open>Another hole is not a match: the two names end at their first closing brace.\<close>

lemma braced_inj:
  assumes "n @ CHR ''}'' # x = m @ CHR ''}'' # y" "CHR ''}'' \<notin> set n" "CHR ''}'' \<notin> set m"
  shows "n = m"
  using assms
proof (induction n arbitrary: m)
  case Nil
  then show ?case by (cases m) auto
next
  case (Cons c n)
  then show ?case by (cases m) auto
qed

lemma replace_other_gap:
  assumes "m \<noteq> n" "CHR ''}'' \<notin> set m" "CHR ''}'' \<notin> set n" "CHR ''{'' \<notin> set m"
  shows "replace_all (''{'' @ n @ ''}'') v (''{'' @ m @ ''}'' @ t) = ''{'' @ m @ ''}'' @ replace_all (''{'' @ n @ ''}'') v t"
proof -
  have "\<not> has_prefix (''{'' @ n @ ''}'') (''{'' @ m @ ''}'' @ t)"
  proof
    assume "has_prefix (''{'' @ n @ ''}'') (''{'' @ m @ ''}'' @ t)"
    then obtain u where "''{'' @ m @ ''}'' @ t = (''{'' @ n @ ''}'') @ u"
      unfolding has_prefix_def by (metis append_take_drop_id)
    then have "m @ CHR ''}'' # t = n @ CHR ''}'' # u" by simp
    then show False using braced_inj assms(1-3) by metis
  qed
  then have "replace_all (''{'' @ n @ ''}'') v (''{'' @ m @ ''}'' @ t) =
      CHR ''{'' # replace_all (''{'' @ n @ ''}'') v ((m @ ''}'') @ t)"
    by (subst replace_all.simps) simp
  also have "\<dots> = CHR ''{'' # (m @ ''}'') @ replace_all (''{'' @ n @ ''}'') v t"
    using assms(4) by (subst replace_run) auto
  finally show ?thesis by simp
qed

lemma replace_pieces:
  assumes "list_all plain_piece ps" "CHR ''}'' \<notin> set n"
  shows "replace_all (''{'' @ n @ ''}'') v (concat (map piece_source ps)) = concat (map piece_source (map (fill_gap n v) ps))"
  using assms
proof (induction ps)
  case (Cons p ps)
  then show ?case
  proof (cases p)
    case (Gap m)
    then show ?thesis using Cons replace_gap [of n v] replace_other_gap [of m n v] by (cases "m = n") auto
  next
    case (Run s)
    then show ?thesis using Cons replace_run [of s n v] by simp
  qed
qed (use replace_Nil in simp)

lemma fill_gap_all:
  assumes "n \<notin> fst ` set args"
  shows "fill_all args (fill_gap n v p) = fill_all ((n, v) # args) p"
  by (cases p) auto

lemma plain_fill: "plain_piece p \<Longrightarrow> CHR ''{'' \<notin> set v \<Longrightarrow> plain_piece (fill_gap n v p)"
  by (cases p) auto

lemma substitute_fills_pieces:
  assumes "list_all plain_piece ps" "distinct (map fst args)" "\<forall>(n, v) \<in> set args. CHR ''}'' \<notin> set n \<and> CHR ''{'' \<notin> set v"
  shows "substitute_args args (concat (map piece_source ps)) = concat (map piece_source (map (fill_all args) ps))"
  using assms
proof (induction args arbitrary: ps)
  case Nil
  have "fill_all [] p = p" for p by (cases p) auto
  then have "map (fill_all []) ps = ps" by (simp add: map_idI)
  then show ?case by simp
next
  case (Cons a args)
  obtain n v where a: "a = (n, v)" by fastforce
  have "list_all plain_piece (map (fill_gap n v) ps)"
    using Cons.prems a by (auto simp: list_all_iff plain_fill)
  then have "substitute_args args (concat (map piece_source (map (fill_gap n v) ps))) =
      concat (map piece_source (map (fill_all args) (map (fill_gap n v) ps)))"
    using Cons.prems a by (intro Cons.IH) auto
  moreover have "map (fill_all args) (map (fill_gap n v) ps) = map (fill_all (a # args)) ps"
    using Cons.prems(2) a by (simp add: fill_gap_all)
  moreover have "replace_all (''{'' @ n @ ''}'') v (concat (map piece_source ps)) =
      concat (map piece_source (map (fill_gap n v) ps))"
    using Cons.prems a by (intro replace_pieces) auto
  ultimately show ?case unfolding a substitute_args.simps by metis
qed

text \<open>Reading a template: a hole is a brace, a name and the next closing brace.\<close>

function pieces :: "string \<Rightarrow> piece list" where
  "pieces [] = []"
| "pieces (c # cs) =
     (if c = CHR ''{'' \<and> CHR ''}'' \<in> set cs
      then Gap (takeWhile (\<lambda>x. x \<noteq> CHR ''}'') cs) # pieces (drop 1 (dropWhile (\<lambda>x. x \<noteq> CHR ''}'') cs))
      else Run [c] # pieces cs)"
  by pat_completeness auto
termination
proof (relation "measure length", simp)
  fix c and cs :: string
  assume "c = CHR ''{'' \<and> CHR ''}'' \<in> set cs"
  have "length (dropWhile (\<lambda>x. x \<noteq> CHR ''}'') cs) \<le> length cs" by (rule length_dropWhile_le)
  then show "(drop 1 (dropWhile (\<lambda>x. x \<noteq> CHR ''}'') cs), c # cs) \<in> measure length" by simp
qed simp

definition arg_names :: "string list" where
  "arg_names = [''value'', ''threshold'', ''name'', ''state'', ''age'', ''last_seen'', ''downtime'', ''body'']"

definition gaps :: "string \<Rightarrow> string list" where
  "gaps s = List.map_filter (\<lambda>p. case p of Run _ \<Rightarrow> None | Gap n \<Rightarrow> Some n) (pieces s)"

definition template_ok :: "string \<Rightarrow> bool" where
  "template_ok s \<longleftrightarrow> concat (map piece_source (pieces s)) = s \<and> list_all plain_piece (pieces s) \<and>
     list_all (\<lambda>n. n \<in> set arg_names) (gaps s)"

lemma templates_ok: "list_all (\<lambda>(_, t). list_all (\<lambda>(_, s). template_ok s) t) alarmMessages"
  by code_simp

lemma alarm_arg_names: "map fst (alarm_args pr m) = arg_names"
  by (simp add: alarm_args_def arg_names_def Let_def)

lemma arg_names_distinct: "distinct arg_names" "\<forall>n \<in> set arg_names. CHR ''}'' \<notin> set n"
  by (simp_all add: arg_names_def)

text \<open>The three locales are complete: each has the English texts' keys, with the same holes.\<close>

lemma alarm_texts_complete:
  "list_all (\<lambda>(l, t). set (map fst t) = set (map fst messages_en) \<and> distinct (map fst t) \<and>
     list_all (\<lambda>k. set (gaps (the (map_of t k))) = set (gaps (the (map_of messages_en k)))) (map fst messages_en))
     alarmMessages"
  by code_simp

text \<open>The words a localized text is made of, independent of any order.\<close>

definition filled :: "(string \<times> string) list \<Rightarrow> string \<Rightarrow> string" where
  "filled args s = concat (map piece_source (map (fill_all args) (pieces s)))"

definition no_brace :: "(string \<times> string) list \<Rightarrow> bool" where
  "no_brace args \<longleftrightarrow> list_all (\<lambda>(n, v). CHR ''{'' \<notin> set v) args"

lemma map_of_shuffle:
  assumes "mset xs = mset ys" "distinct (map fst ys)"
  shows "map_of xs = map_of ys"
proof -
  have "mset (map fst xs) = mset (map fst ys)" using assms(1) by simp
  then have "distinct (map fst xs)" using assms(2) mset_eq_imp_distinct_iff by blast
  moreover have "set xs = set ys" using assms(1) by (metis set_mset_mset)
  ultimately show ?thesis using assms(2) map_of_inject_set by blast
qed

lemma substitute_is_filled:
  assumes "template_ok s" "mset args = mset (alarm_args pr m)" "no_brace (alarm_args pr m)"
  shows "substitute_args args s = filled (alarm_args pr m) s"
proof -
  have same: "set args = set (alarm_args pr m)" using assms(2) by (metis set_mset_mset)
  have names: "map fst (alarm_args pr m) = arg_names" by (rule alarm_arg_names)
  then have dist: "distinct (map fst (alarm_args pr m))" using arg_names_distinct(1) by simp
  have maps: "map_of args = map_of (alarm_args pr m)" using map_of_shuffle assms(2) dist by blast
  have fills: "fill_all args = fill_all (alarm_args pr m)"
  proof
    show "fill_all args p = fill_all (alarm_args pr m) p" for p by (cases p) (simp_all add: maps)
  qed
  have "mset (map fst args) = mset arg_names" using assms(2) names by (metis mset_map)
  then have d: "distinct (map fst args)" using arg_names_distinct(1) mset_eq_imp_distinct_iff by blast
  have v: "CHR ''}'' \<notin> set n \<and> CHR ''{'' \<notin> set v" if "(n, v) \<in> set args" for n v
  proof -
    have mem: "(n, v) \<in> set (alarm_args pr m)" using that same by simp
    then have "n \<in> set arg_names" unfolding names [symmetric] by force
    moreover have "CHR ''{'' \<notin> set v" using mem assms(3) unfolding no_brace_def list_all_iff by blast
    ultimately show ?thesis using arg_names_distinct(2) by blast
  qed
  have "list_all plain_piece (pieces s)" using assms(1) by (simp add: template_ok_def)
  then have "substitute_args args (concat (map piece_source (pieces s))) =
      concat (map piece_source (map (fill_all args) (pieces s)))"
    using d v by (intro substitute_fills_pieces) blast+
  then show ?thesis using assms(1) by (simp add: template_ok_def filled_def fills)
qed

lemma filled_no_hole:
  assumes "template_ok s" "no_brace (alarm_args pr m)"
  shows "CHR ''{'' \<notin> set (filled (alarm_args pr m) s)"
proof -
  have "CHR ''{'' \<notin> set (piece_source (fill_all (alarm_args pr m) p))" if "p \<in> set (pieces s)" for p
  proof (cases p)
    case (Run t)
    then show ?thesis using that assms(1) by (auto simp: template_ok_def list_all_iff)
  next
    case (Gap n)
    have "n \<in> set (gaps s)" using that Gap unfolding gaps_def map_filter_def by force
    then have "n \<in> set (map fst (alarm_args pr m))"
      using assms(1) unfolding alarm_arg_names template_ok_def list_all_iff by blast
    then obtain v where v: "map_of (alarm_args pr m) n = Some v"
      by (metis list.set_map map_of_eq_None_iff option.exhaust)
    then have "(n, v) \<in> set (alarm_args pr m)" by (rule map_of_SomeD)
    then show ?thesis using Gap v assms(2) unfolding no_brace_def list_all_iff by auto
  qed
  then show ?thesis unfolding filled_def by auto
qed

lemma table_template_ok:
  assumes "map_of alarmMessages l = Some t" "map_of t k = Some s"
  shows "template_ok s"
proof -
  have "(l, t) \<in> set alarmMessages" "(k, s) \<in> set t" using assms map_of_SomeD by metis+
  then show ?thesis using templates_ok unfolding list_all_iff by blast
qed

lemma localize_cases:
  assumes "localizeAlarm pr order language kind m = Some (title, body)"
  obtains t b where "template_ok t" "template_ok b" "\<And>ord. localizeAlarm pr ord language kind m =
     Some (substitute_args (ord (alarm_args pr m)) t, substitute_args (ord (alarm_args pr m)) b)"
proof -
  have "\<exists>t. map_of alarmMessages (normalizeAlarmLocale language) = Some t"
    by (simp add: normalizeAlarmLocale_def alarmMessages_def Let_def)
  then obtain tab where tab: "map_of alarmMessages (normalizeAlarmLocale language) = Some tab" by blast
  let ?k = "if has_prefix ''daemon.alarm.'' kind then trim_prefix ''daemon.alarm.'' kind else trim_prefix ''daemon.'' kind"
  obtain t b where tb: "map_of tab (?k @ ''.title'') = Some t" "map_of tab (?k @ ''.body'') = Some b"
    using assms tab unfolding localizeAlarm_def Let_def by (simp split: option.splits)
  then have "template_ok t" "template_ok b" using table_template_ok tab by blast+
  moreover have "localizeAlarm pr ord language kind m =
      Some (substitute_args (ord (alarm_args pr m)) t, substitute_args (ord (alarm_args pr m)) b)" for ord
    unfolding localizeAlarm_def Let_def tab using tb by simp
  ultimately show thesis using that by blast
qed

text \<open>When no value of a notification has an opening brace, its text is the same whatever the order in which the
arguments are substituted, every hole of the template has been filled (no opening brace is left), and the text is that of
a simultaneous substitution.\<close>

theorem localized_any_order:
  assumes "localizeAlarm pr order language kind m = Some (title, body)"
    and "mset (order (alarm_args pr m)) = mset (alarm_args pr m)" and "no_brace (alarm_args pr m)"
  shows "localizeAlarm pr id language kind m = Some (title, body) \<and>
    CHR ''{'' \<notin> set title \<and> CHR ''{'' \<notin> set body"
proof -
  obtain t b where tb: "template_ok t" "template_ok b" "\<And>ord. localizeAlarm pr ord language kind m =
     Some (substitute_args (ord (alarm_args pr m)) t, substitute_args (ord (alarm_args pr m)) b)"
    using localize_cases [OF assms(1)] by metis
  have "title = filled (alarm_args pr m) t" "body = filled (alarm_args pr m) b"
    using assms tb substitute_is_filled by auto
  moreover have "localizeAlarm pr id language kind m =
      Some (filled (alarm_args pr m) t, filled (alarm_args pr m) b)"
    using tb(1,2) assms(3) by (simp add: tb(3) substitute_is_filled)
  ultimately show ?thesis using filled_no_hole tb(1,2) assms(3) by simp
qed

definition plain_printing :: printing where
  "plain_printing = \<lparr>pr_float = id, pr_float2 = id, pr_other = (\<lambda>_. ''[...]'')\<rparr>"

theorem localized_any_order_witness:
  "localizeAlarm plain_printing id ''EN-us'' ''daemon.alarm.container_down''
      [(''container_name'', JString ''db''), (''state'', JString ''dead'')] =
     Some (''Container is down'', ''Container db is dead.'') \<and>
   CHR ''{'' \<notin> set ''Container db is dead.''"
proof -
  let ?m = "[(''container_name'', JString ''db''), (''state'', JString ''dead'')]"
  have 1: "localizeAlarm plain_printing rev ''EN-us'' ''daemon.alarm.container_down'' ?m =
     Some (''Container is down'', ''Container db is dead.'')"
    by code_simp
  have 2: "no_brace (alarm_args plain_printing ?m)" by code_simp
  show ?thesis using localized_any_order [OF 1 _ 2] by simp
qed

text \<open>A value with a hole of its own is substituted again or not, as the order falls.\<close>

lemma localized_order_matters:
  "localizeAlarm plain_printing id ''en'' ''daemon.alarm.container_down''
     [(''container_name'', JString ''{state}''), (''state'', JString ''dead'')] \<noteq>
   localizeAlarm plain_printing rev ''en'' ''daemon.alarm.container_down''
     [(''container_name'', JString ''{state}''), (''state'', JString ''dead'')]"
  by code_simp

end
