(* ===== verification/Cloud_Notify.thy ===== *)
theory Cloud_Notify
  imports Cloud_Access Cloud_Localization
begin

text \<open>
  Notifications of \<open>internal/cloud/service.go\<close>: the delivery preferences of an account, the
  notifications daemons and members create, their localization and their way to the publisher.
  The statements of a call are numbered; \<open>ce_fault k\<close> fails the \<open>k\<close>-th. The account client,
  the publisher and \<open>encoding/json\<close> are fields of an environment.
\<close>

section \<open>Rows\<close>

datatype pref_level = PrefNormal | PrefSilent | PrefReject

record pref =
  np_id :: string
  np_account :: string
  np_workspace :: string
  np_daemon :: string
  np_topic :: string
  np_level :: int
  np_created :: time
  np_updated :: time

record notice =
  nt_id :: string
  nt_account :: string
  nt_workspace :: string
  nt_daemon :: string
  nt_kind :: string
  nt_title :: string
  nt_subtitle :: string
  nt_body :: string
  nt_metadata :: bytes
  nt_read :: "time option"
  nt_created :: time

record note_event =
  ev_id :: string
  ev_time :: time
  ev_account :: string
  ev_workspace :: string
  ev_daemon :: string
  ev_note :: string
  ev_kind :: string
  ev_title :: string
  ev_subtitle :: string
  ev_body :: string
  ev_metadata :: bytes

record notify_env =
  ne_accounts :: "(string \<Rightarrow> string + string option) option" \<comment> \<open>\<open>GetAccount\<close>: an error, no account, its language\<close>
  ne_publisher :: "(note_event \<Rightarrow> string option) option" \<comment> \<open>\<open>Publish\<close>: an error, if any\<close>
  ne_normal :: "bytes \<Rightarrow> bytes option" \<comment> \<open>decode any JSON value and encode it again\<close>
  ne_object :: "bytes \<Rightarrow> (string \<times> jval) list option" \<comment> \<open>decode an object; \<open>null\<close> is the empty one\<close>
  ne_encode :: "(string \<times> jval) list \<Rightarrow> bytes"
  ne_printing :: printing
  ne_order :: "(string \<times> string) list \<Rightarrow> (string \<times> string) list"

section \<open>Preferences\<close>

definition validateNotificationPreference :: "int \<Rightarrow> cloud_error + unit" where
  "validateNotificationPreference value =
     (if value < 0 \<or> 2 < value then Inl (InvalidInput ''preference must be 0 (normal), 1 (silent), or 2 (reject)'')
      else Inr ())"

definition normalizeNotificationPreference :: "int \<Rightarrow> pref_level" where
  "normalizeNotificationPreference value =
     (if value < 0 \<or> 2 < value then PrefNormal
      else if value = 0 then PrefNormal else if value = 1 then PrefSilent else PrefReject)"

definition bound :: "string \<Rightarrow> string \<Rightarrow> nat \<Rightarrow> cloud_error + string" where
  "bound what value limit =
     (let v = trim_space value in
      if v = [] \<or> limit < length v \<or> \<not> valid_utf8 v then Inl (InvalidInput what) else Inr v)"

text \<open>The scope of a row, and the two uniqueness constraints of the table: its key and the unique index
over account, daemon and topic.\<close>

definition in_pref_scope :: "string \<Rightarrow> string \<Rightarrow> string \<Rightarrow> string \<Rightarrow> pref \<Rightarrow> bool" where
  "in_pref_scope a w d t r \<longleftrightarrow> np_account r = a \<and> np_workspace r = w \<and> np_daemon r = d \<and> np_topic r = t"

definition pref_index :: "pref \<Rightarrow> string \<times> string \<times> string" where
  "pref_index r = (np_account r, np_daemon r, np_topic r)"

definition insert_pref :: "pref \<Rightarrow> pref list \<Rightarrow> pref list option" where
  "insert_pref r rows = (if pref_index r \<in> pref_index ` set rows then None else insert_row np_id r rows)"

definition notificationPreference ::
  "cloud_env \<Rightarrow> nat \<Rightarrow> pref list \<Rightarrow> string \<Rightarrow> string \<Rightarrow> string \<Rightarrow> string \<Rightarrow> cloud_error + pref_level" where
  "notificationPreference ce k prefs a w d t =
     (if ce_fault ce k then Inl DbError
      else case find (in_pref_scope a w d t) prefs of
        Some r \<Rightarrow> Inr (normalizeNotificationPreference (np_level r))
      | None \<Rightarrow>
          if ce_fault ce (k + 1) then Inl DbError
          else case find (in_pref_scope a w [] t) prefs of
            Some r \<Rightarrow> Inr (normalizeNotificationPreference (np_level r))
          | None \<Rightarrow> Inr PrefNormal)"

text \<open>The look-up and the write of one preference, statements \<open>k\<close> and \<open>k + 1\<close>.\<close>

definition new_pref :: "cloud_env \<Rightarrow> string \<Rightarrow> string \<Rightarrow> string \<Rightarrow> string \<Rightarrow> string \<Rightarrow> int \<Rightarrow> pref" where
  "new_pref ce i a w d t level =
     \<lparr>np_id = i, np_account = a, np_workspace = w, np_daemon = d, np_topic = t, np_level = level,
      np_created = ce_now ce, np_updated = ce_now ce\<rparr>"

definition upsert_pref ::
  "cloud_env \<Rightarrow> nat \<Rightarrow> string \<Rightarrow> string \<Rightarrow> string \<Rightarrow> string \<Rightarrow> string \<Rightarrow> int \<Rightarrow> pref list \<Rightarrow> cloud_error + pref list" where
  "upsert_pref ce k i a w d t level prefs =
     (if ce_fault ce k then Inl DbError
      else case find (in_pref_scope a w d t) prefs of
        None \<Rightarrow>
          (case (if ce_fault ce (k + 1) then None else insert_pref (new_pref ce i a w d t level) prefs) of
             None \<Rightarrow> Inl DbError | Some prefs' \<Rightarrow> Inr prefs')
      | Some r \<Rightarrow>
          if ce_fault ce (k + 1) then Inl DbError
          else Inr (update_where (\<lambda>x. np_id x = np_id r) (\<lambda>x. x\<lparr>np_level := level, np_updated := ce_now ce\<rparr>) prefs))"

definition workspace_id_required :: cloud_error where
  "workspace_id_required = InvalidInput ''workspace_id is required''"

text \<open>The daemon of a preference has to belong to the workspace it is set in.\<close>

definition daemon_in_workspace :: "cloud_env \<Rightarrow> daemon list \<Rightarrow> string \<Rightarrow> string \<Rightarrow> string \<Rightarrow> cloud_error + unit" where
  "daemon_in_workspace ce ds account w d =
     rbind (daemonForAccount ce ds account d) (\<lambda>dm. if d_workspace dm \<noteq> w then Inl ErrForbidden else Inr ())"

definition SetNotificationPreference ::
  "cloud_env \<Rightarrow> daemon list \<Rightarrow> string \<Rightarrow> string \<Rightarrow> string \<Rightarrow> string \<Rightarrow> int \<Rightarrow> string \<Rightarrow> pref list \<Rightarrow> cloud_error + pref list" where
  "SetNotificationPreference ce ds account workspace d topic level i prefs =
     (let w = trim_space workspace in
      if w = [] then Inl workspace_id_required
      else rbind (validateNotificationPreference level) (\<lambda>_.
           rbind (bound ''topic'' topic 128) (\<lambda>t.
           rbind (authorizeWorkspace ce account w) (\<lambda>_.
           rbind (if d \<noteq> [] then daemon_in_workspace ce ds account w d else Inr ()) (\<lambda>_.
           upsert_pref ce 1 i account w d t level prefs)))))"

definition DeleteNotificationPreference ::
  "cloud_env \<Rightarrow> daemon list \<Rightarrow> string \<Rightarrow> string \<Rightarrow> string \<Rightarrow> string \<Rightarrow> pref list \<Rightarrow> cloud_error + pref list" where
  "DeleteNotificationPreference ce ds account workspace d topic prefs =
     (let w = trim_space workspace in
      if w = [] then Inl workspace_id_required
      else rbind (bound ''topic'' topic 128) (\<lambda>t.
           rbind (authorizeWorkspace ce account w) (\<lambda>_.
           rbind (if d \<noteq> [] then daemon_in_workspace ce ds account w d else Inr ()) (\<lambda>_.
           if ce_fault ce 1 then Inl DbError
           else Inr (filter (\<lambda>r. \<not> in_pref_scope account w d t r) prefs)))))"

definition DeleteAllDaemonNotificationPreferences ::
  "cloud_env \<Rightarrow> daemon list \<Rightarrow> string \<Rightarrow> string \<Rightarrow> string \<Rightarrow> pref list \<Rightarrow> cloud_error + pref list" where
  "DeleteAllDaemonNotificationPreferences ce ds account workspace d prefs =
     (let w = trim_space workspace in
      if w = [] then Inl workspace_id_required
      else rbind (authorizeWorkspace ce account w) (\<lambda>_.
           rbind (daemon_in_workspace ce ds account w d) (\<lambda>_.
           if ce_fault ce 1 then Inl DbError
           else Inr (filter (\<lambda>r. \<not> (np_account r = account \<and> np_workspace r = w \<and> np_daemon r = d)) prefs))))"

record pref_view =
  pv_id :: string
  pv_account :: string
  pv_workspace :: string
  pv_daemon :: string
  pv_topic :: string
  pv_preference :: pref_level
  pv_created :: time
  pv_updated :: time

definition notificationPreferenceView :: "pref \<Rightarrow> pref_view" where
  "notificationPreferenceView r =
     \<lparr>pv_id = np_id r, pv_account = np_account r, pv_workspace = np_workspace r, pv_daemon = np_daemon r,
      pv_topic = np_topic r, pv_preference = normalizeNotificationPreference (np_level r),
      pv_created = np_created r, pv_updated = np_updated r\<rparr>"

text \<open>\<open>ORDER BY daemon_id asc, topic asc\<close>: sorted by topic, then stably by daemon.\<close>

definition ListNotificationPreferences ::
  "cloud_env \<Rightarrow> string \<Rightarrow> string \<Rightarrow> string \<Rightarrow> pref list \<Rightarrow> cloud_error + pref_view list" where
  "ListNotificationPreferences ce account workspace d prefs =
     (let w = trim_space workspace in
      if w = [] then Inl workspace_id_required
      else rbind (authorizeWorkspace ce account w) (\<lambda>_.
           if ce_fault ce 0 then Inl DbError
           else Inr (map notificationPreferenceView (sort_key np_daemon (sort_key np_topic
             (filter (\<lambda>r. np_account r = account \<and> np_workspace r = w \<and> (d \<noteq> [] \<longrightarrow> np_daemon r = d)) prefs))))))"

section \<open>Topics\<close>

fun fields_func :: "(char \<Rightarrow> bool) \<Rightarrow> string \<Rightarrow> string \<Rightarrow> string list" where
  "fields_func sep word [] = (if word = [] then [] else [word])"
| "fields_func sep word (c # s) =
     (if sep c then (if word = [] then fields_func sep [] s else word # fields_func sep [] s)
      else fields_func sep (word @ [c]) s)"

text \<open>\<open>strings.ToUpper\<close> of the first byte alone: a byte of a longer rune is no rune and becomes U+FFFD.\<close>

definition upper_first :: "string \<Rightarrow> string" where
  "upper_first w =
     (case w of [] \<Rightarrow> []
      | c # s \<Rightarrow> (if is_lower c then [char_of (byte c - 32)] else if byte c < 128 then [c]
                  else [CHR 0xEF, CHR 0xBF, CHR 0xBD]) @ s)"

definition notificationTopicDescription :: "string \<Rightarrow> string" where
  "notificationTopicDescription topic =
     (let words = fields_func (\<lambda>c. c = CHR ''.'' \<or> c = CHR ''_'' \<or> c = CHR ''-'') [] topic in
      if words = [] then ''Notifications'' else join_with '' '' (map upper_first words))"

definition known_topics :: "(string \<times> string) list" where
  "known_topics =
     [(''daemon.alarm.container_down'', ''Container down alarms''),
      (''daemon.alarm.cpu_percent'', ''CPU alarms''),
      (''daemon.alarm.disk_used_percent'', ''Disk alarms''),
      (''daemon.alarm.memory_used_percent'', ''Memory alarms''),
      (''daemon.disconnected'', ''Daemon disconnected''),
      (''daemon.reconnected'', ''Daemon reconnected''),
      (''daemon.notification'', ''Daemon notifications''),
      (''test.notification'', ''Test notifications''),
      (''user.request'', ''User requests''),
      (''webhook.failure'', ''Webhook failures''),
      (''webhook.success'', ''Webhook successes'')]"

fun add_topics :: "string list \<Rightarrow> (string \<times> string) list \<Rightarrow> (string \<times> string) list" where
  "add_topics [] m = m"
| "add_topics (t # ts) m =
     add_topics ts (if t \<in> fst ` set m then m else put t (notificationTopicDescription t) m)"

definition ListNotificationTopics ::
  "cloud_env \<Rightarrow> nat \<Rightarrow> string \<Rightarrow> string \<Rightarrow> pref list \<Rightarrow> notice list \<Rightarrow> cloud_error + (string \<times> string) list" where
  "ListNotificationTopics ce k account workspace prefs notes =
     (let w = trim_space workspace in
      if w = [] then Inl workspace_id_required
      else rbind (authorizeWorkspace ce account w) (\<lambda>_.
           if ce_fault ce k then Inl DbError
           else let kinds = remdups (map nt_kind (filter (\<lambda>n. nt_workspace n = w) notes)) in
           if ce_fault ce (k + 1) then Inl DbError
           else let mine = map np_topic (filter (\<lambda>r. np_account r = account \<and> np_workspace r = w) prefs);
                    topics = add_topics mine (add_topics kinds known_topics) in
           Inr (map (\<lambda>t. (t, the (map_of topics t))) (sort (map fst topics)))))"

text \<open>
  Every topic in one transaction; \<open>ids\<close> gives the minted key of a topic's row. The commit is the last statement.
\<close>

definition SetAllDaemonNotificationPreferences ::
  "cloud_env \<Rightarrow> daemon list \<Rightarrow> string \<Rightarrow> string \<Rightarrow> string \<Rightarrow> int \<Rightarrow> (string \<Rightarrow> string) \<Rightarrow> notice list \<Rightarrow> pref list
     \<Rightarrow> cloud_error + pref list" where
  "SetAllDaemonNotificationPreferences ce ds account workspace d level ids notes prefs =
     (let w = trim_space workspace in
      if w = [] then Inl workspace_id_required
      else rbind (validateNotificationPreference level) (\<lambda>_.
           rbind (authorizeWorkspace ce account w) (\<lambda>_.
           rbind (daemon_in_workspace ce ds account w d) (\<lambda>_.
           rbind (ListNotificationTopics ce 1 account w prefs notes) (\<lambda>topics.
           rbind (rfold (\<lambda>(k, rows) t. rbind (upsert_pref ce k (ids t) account w d t level rows) (\<lambda>rows'. Inr (k + 2, rows')))
                    (3, prefs) (map fst topics)) (\<lambda>(k, rows).
           if ce_fault ce k then Inl DbError else Inr rows))))))"

section \<open>Publishing\<close>

definition notificationSourcePrefix :: "notify_env \<Rightarrow> string \<Rightarrow> string" where
  "notificationSourcePrefix ne account =
     (case ne_accounts ne of
        None \<Rightarrow> ''From''
      | Some get \<Rightarrow>
          (case get account of
             Inr (Some language) \<Rightarrow>
               (let l = normalizeAlarmLocale language in
                if l = ''zh-cn'' then [CHR 0xE6, CHR 0x9D, CHR 0xA5, CHR 0xE8, CHR 0x87, CHR 0xAA]
                else if l = ''zh-tw'' then [CHR 0xE4, CHR 0xBE, CHR 0x86, CHR 0xE8, CHR 0x87, CHR 0xAA]
                else ''From'')
           | _ \<Rightarrow> ''From''))"

definition notificationSubtitle :: "string \<Rightarrow> string \<Rightarrow> string \<Rightarrow> string" where
  "notificationSubtitle daemonName subtitle sourcePrefix =
     (let source = trim_space sourcePrefix @ '' '' @ trim_space daemonName; s = trim_space subtitle in
      if s = [] then source else source @ '': '' @ s)"

text \<open>The daemon's identity in the metadata is authoritative.\<close>

definition identified :: "notify_env \<Rightarrow> daemon \<Rightarrow> bytes \<Rightarrow> (string \<times> jval) list" where
  "identified ne d metadata =
     (let meta = (case (if metadata = [] then None else ne_object ne metadata) of None \<Rightarrow> [] | Some m \<Rightarrow> m);
          meta1 = put ''daemon_name'' (JString (d_name d)) (put ''daemon_id'' (JString (d_id d)) meta) in
      if d_hostID d \<noteq> [] then put ''host_id'' (JString (d_hostID d)) meta1 else meta1)"

definition note_event_of :: "notify_env \<Rightarrow> daemon \<Rightarrow> string \<Rightarrow> notice \<Rightarrow> note_event" where
  "note_event_of ne d eid n =
     \<lparr>ev_id = eid, ev_time = nt_created n, ev_account = nt_account n, ev_workspace = nt_workspace n,
      ev_daemon = nt_daemon n, ev_note = nt_id n, ev_kind = nt_kind n, ev_title = nt_title n,
      ev_subtitle = notificationSubtitle (d_name d) (nt_subtitle n) (notificationSourcePrefix ne (nt_account n)),
      ev_body = nt_body n, ev_metadata = ne_encode ne (identified ne d (nt_metadata n))\<rparr>"

text \<open>What was handed to the publisher, and the outcome.\<close>

definition publishNotification ::
  "notify_env \<Rightarrow> daemon \<Rightarrow> string \<Rightarrow> notice \<Rightarrow> note_event list \<times> (cloud_error + unit)" where
  "publishNotification ne d eid n =
     (case ne_publisher ne of
        None \<Rightarrow> ([], Inr ())
      | Some publish \<Rightarrow>
          (let event = note_event_of ne d eid n in
           case publish event of
             Some err \<Rightarrow> ([event], Inl (ErrPublishFailed err))
           | None \<Rightarrow> ([event], Inr ())))"

section \<open>Localized alarms\<close>

definition localizableNotificationKind :: "string \<Rightarrow> bool" where
  "localizableNotificationKind kind \<longleftrightarrow>
     kind = ''daemon.disconnected'' \<or> kind = ''daemon.reconnected'' \<or> kind = ''webhook.success'' \<or>
     kind = ''webhook.failure'' \<or> has_prefix ''daemon.alarm.'' kind"

definition localizedAlarm :: "notify_env \<Rightarrow> string \<Rightarrow> string \<Rightarrow> string \<Rightarrow> string \<Rightarrow> bytes \<Rightarrow> string \<times> string" where
  "localizedAlarm ne account kind title body metadata =
     (if \<not> localizableNotificationKind kind then (title, body)
      else case ne_accounts ne of
        None \<Rightarrow> (title, body)
      | Some get \<Rightarrow>
          (case get account of
             Inr (Some language) \<Rightarrow>
               (case ne_object ne metadata of
                  None \<Rightarrow> (title, body)
                | Some values \<Rightarrow>
                    (case localizeAlarm (ne_printing ne) (ne_order ne) language kind (put ''body'' (JString body) values) of
                       None \<Rightarrow> (title, body)
                     | Some tb \<Rightarrow> tb))
           | _ \<Rightarrow> (title, body)))"

section \<open>Creating a notification\<close>

record note_input =
  ni_kind :: string
  ni_title :: string
  ni_subtitle :: string
  ni_body :: string
  ni_metadata :: bytes

record checked_note =
  cn_kind :: string
  cn_title :: string
  cn_subtitle :: string
  cn_body :: string
  cn_metadata :: bytes

definition checked_subtitle :: "string \<Rightarrow> cloud_error + string" where
  "checked_subtitle raw =
     (let s = trim_space raw in
      if s \<noteq> [] \<and> (128 < length s \<or> \<not> valid_utf8 s) then Inl (InvalidInput ''subtitle exceeds bounds'') else Inr s)"

definition checked_metadata :: "notify_env \<Rightarrow> bytes \<Rightarrow> cloud_error + bytes" where
  "checked_metadata ne raw =
     (case ne_normal ne (if raw = [] then ''{}'' else raw) of
        None \<Rightarrow> Inl (InvalidInput ''metadata: invalid json'')
      | Some m \<Rightarrow> if 16 * 1024 < length m then Inl (InvalidInput ''metadata exceeds bounds'') else Inr m)"

text \<open>The two callers check the same fields in different orders: a member's \<open>CreatePushNotification\<close>
and a daemon's \<open>CreateNotification\<close>, which bounds the body before trimming it.\<close>

definition check_push :: "notify_env \<Rightarrow> note_input \<Rightarrow> cloud_error + checked_note" where
  "check_push ne q =
     rbind (bound ''kind'' (ni_kind q) 128) (\<lambda>kind.
     rbind (bound ''title'' (ni_title q) 128) (\<lambda>title.
     rbind (checked_subtitle (ni_subtitle q)) (\<lambda>subtitle.
     let body = trim_space (ni_body q) in
     if body = [] \<or> 4096 < length body \<or> \<not> valid_utf8 body
     then Inl (InvalidInput ''body is required and must be at most 4096 bytes'')
     else rbind (checked_metadata ne (ni_metadata q)) (\<lambda>m.
     Inr \<lparr>cn_kind = kind, cn_title = title, cn_subtitle = subtitle, cn_body = body, cn_metadata = m\<rparr>))))"

definition check_report :: "notify_env \<Rightarrow> note_input \<Rightarrow> cloud_error + checked_note" where
  "check_report ne q =
     rbind (bound ''kind'' (ni_kind q) 128) (\<lambda>kind.
     rbind (bound ''title'' (ni_title q) 128) (\<lambda>title.
     if 4096 < length (ni_body q) \<or> \<not> valid_utf8 (ni_body q) then Inl (InvalidInput ''body exceeds bounds'')
     else let body = trim_space (ni_body q) in
     rbind (checked_subtitle (ni_subtitle q)) (\<lambda>subtitle.
     if body = [] then Inl (InvalidInput ''body is required'')
     else rbind (checked_metadata ne (ni_metadata q)) (\<lambda>m.
     Inr \<lparr>cn_kind = kind, cn_title = title, cn_subtitle = subtitle, cn_body = body, cn_metadata = m\<rparr>))))"

record note_view =
  vn_id :: string
  vn_account :: string
  vn_workspace :: string
  vn_daemon :: string
  vn_kind :: string
  vn_title :: string
  vn_subtitle :: string
  vn_body :: string
  vn_metadata :: bytes
  vn_read :: "time option"
  vn_created :: time

definition notificationView :: "notice \<Rightarrow> note_view" where
  "notificationView n =
     \<lparr>vn_id = nt_id n, vn_account = nt_account n, vn_workspace = nt_workspace n, vn_daemon = nt_daemon n,
      vn_kind = nt_kind n, vn_title = nt_title n, vn_subtitle = nt_subtitle n, vn_body = nt_body n,
      vn_metadata = nt_metadata n, vn_read = nt_read n, vn_created = nt_created n\<rparr>"

text \<open>
  The rest of both calls: preference (statements 1 and 2), localization, insert (3), publication.
  A rejected topic answers with the zero view: \<open>Inr None\<close>.
\<close>

definition deliver ::
  "cloud_env \<Rightarrow> notify_env \<Rightarrow> daemon \<Rightarrow> string \<Rightarrow> string \<Rightarrow> string \<Rightarrow> checked_note \<Rightarrow> pref list \<Rightarrow> notice list
     \<Rightarrow> notice list \<times> note_event list \<times> (cloud_error + note_view option)" where
  "deliver ce ne d account i eid c prefs notes =
     (case notificationPreference ce 1 prefs account (d_workspace d) (d_id d) (cn_kind c) of
        Inl e \<Rightarrow> (notes, [], Inl e)
      | Inr PrefReject \<Rightarrow> (notes, [], Inr None)
      | Inr level \<Rightarrow>
          (let (title, body) = localizedAlarm ne account (cn_kind c) (cn_title c) (cn_body c) (cn_metadata c);
               n = \<lparr>nt_id = i, nt_account = account, nt_workspace = d_workspace d, nt_daemon = d_id d,
                    nt_kind = cn_kind c, nt_title = title, nt_subtitle = cn_subtitle c, nt_body = body,
                    nt_metadata = cn_metadata c, nt_read = None, nt_created = ce_now ce\<rparr> in
           case (if ce_fault ce 3 then None else insert_row nt_id n notes) of
             None \<Rightarrow> (notes, [], Inl DbError)
           | Some notes' \<Rightarrow>
               (if level = PrefNormal then
                  (case publishNotification ne d eid n of
                     (events, Inl e) \<Rightarrow> (notes', events, Inl e)
                   | (events, Inr _) \<Rightarrow> (notes', events, Inr (Some (notificationView n))))
                else (notes', [], Inr (Some (notificationView n))))))"

definition CreatePushNotification ::
  "cloud_env \<Rightarrow> notify_env \<Rightarrow> daemon list \<Rightarrow> string \<Rightarrow> string \<Rightarrow> note_input \<Rightarrow> string \<Rightarrow> string \<Rightarrow> pref list \<Rightarrow> notice list
     \<Rightarrow> notice list \<times> note_event list \<times> (cloud_error + note_view option)" where
  "CreatePushNotification ce ne ds account daemonID q i eid prefs notes =
     (case rbind (daemonForAccount ce ds account daemonID) (\<lambda>d. rbind (check_push ne q) (\<lambda>c. Inr (d, c))) of
        Inl e \<Rightarrow> (notes, [], Inl e)
      | Inr (d, c) \<Rightarrow> deliver ce ne d account i eid c prefs notes)"

definition CreateNotification ::
  "cloud_env \<Rightarrow> notify_env \<Rightarrow> daemon list \<Rightarrow> string \<Rightarrow> string \<Rightarrow> note_input \<Rightarrow> string \<Rightarrow> string \<Rightarrow> pref list \<Rightarrow> notice list
     \<Rightarrow> notice list \<times> note_event list \<times> (cloud_error + note_view option)" where
  "CreateNotification ce ne ds daemonID secret q i eid prefs notes =
     (case rbind (authenticateDaemon ce ds daemonID secret) (\<lambda>d. rbind (check_report ne q) (\<lambda>c. Inr (d, c))) of
        Inl e \<Rightarrow> (notes, [], Inl e)
      | Inr (d, c) \<Rightarrow> deliver ce ne d (d_account d) i eid c prefs notes)"

section \<open>Reading\<close>

definition ListNotifications ::
  "cloud_env \<Rightarrow> string \<Rightarrow> string \<Rightarrow> bool \<Rightarrow> string \<Rightarrow> int \<Rightarrow> time option \<Rightarrow> notice list \<Rightarrow> cloud_error + note_view list" where
  "ListNotifications ce account workspace unread d limit before notes =
     (let w = trim_space workspace in
      if w = [] then Inl workspace_id_required
      else rbind (authorizeWorkspace ce account w) (\<lambda>_.
           let limit1 = (if limit \<le> 0 then 50 else limit); limit2 = (if 100 < limit1 then 100 else limit1) in
           if ce_fault ce 0 then Inl DbError
           else Inr (map notificationView (select_desc
             (\<lambda>n. nt_workspace n = w \<and> (unread \<longrightarrow> nt_read n = None) \<and> (d \<noteq> [] \<longrightarrow> nt_daemon n = d) \<and>
                  (case before of None \<Rightarrow> True | Some t \<Rightarrow> nt_created n < t)) nt_created (nat limit2) notes))))"

definition MarkNotificationRead :: "cloud_env \<Rightarrow> string \<Rightarrow> string \<Rightarrow> notice list \<Rightarrow> cloud_error + notice list" where
  "MarkNotificationRead ce account i notes =
     (if ce_fault ce 0 then Inl DbError
      else case find (\<lambda>n. nt_id n = i) notes of
        None \<Rightarrow> Inl ErrNotFound
      | Some n \<Rightarrow>
          rbind (authorizeWorkspace ce account (nt_workspace n)) (\<lambda>_.
            if nt_read n = None then
              (if ce_fault ce 1 then Inl DbError
               else Inr (update_where (\<lambda>x. nt_id x = nt_id n) (\<lambda>x. x\<lparr>nt_read := Some (ce_now ce)\<rparr>) notes))
            else Inr notes))"

definition MarkAllNotificationsRead :: "cloud_env \<Rightarrow> string \<Rightarrow> string \<Rightarrow> notice list \<Rightarrow> cloud_error + notice list" where
  "MarkAllNotificationsRead ce account workspace notes =
     (let w = trim_space workspace in
      if w = [] then Inl workspace_id_required
      else rbind (authorizeWorkspace ce account w) (\<lambda>_.
           if ce_fault ce 0 then Inl DbError
           else Inr (update_where (\<lambda>n. nt_workspace n = w \<and> nt_read n = None) (\<lambda>n. n\<lparr>nt_read := Some (ce_now ce)\<rparr>) notes)))"

end
