(* ===== verification/Cloud_Metrics.thy ===== *)
theory Cloud_Metrics
  imports Cloud_Fleet Cloud_Notify Complex_Main "HOL-Library.Word"
begin

text \<open>
  Metrics of \<open>internal/cloud/service.go\<close>: what a daemon may report and how often, the heartbeat a
  report is, and the check that marks silent daemons disconnected. A finite \<open>float64\<close> is a
  rational that is only compared and stored; times count nanoseconds from Go's zero time. The
  statements of a call are numbered as in \<open>Cloud_Notify\<close>; \<open>AddDate\<close> on a UTC time moves by whole days.
\<close>

section \<open>Rows and inputs\<close>

record metric_input =
  mi_sentAt :: time
  mi_hostID :: string
  mi_uptime :: int
  mi_processMemory :: int
  mi_cpuPercent :: rat
  mi_cpuCount :: int
  mi_load1 :: rat
  mi_load5 :: rat
  mi_load15 :: rat
  mi_memoryPercent :: rat
  mi_memoryUsed :: "64 word"
  mi_memoryTotal :: "64 word"
  mi_swapTotal :: int
  mi_swapFree :: int
  mi_diskTotal :: int
  mi_diskAvailable :: int
  mi_netRx :: "64 word"
  mi_netTx :: "64 word"
  mi_executions :: "64 word"
  mi_failures :: "64 word"
  mi_healthScore :: int
  mi_healthStatus :: string

text \<open>A stored row keeps the reported values but for the host and the health status.\<close>

record metric =
  mt_id :: string
  mt_daemon :: string
  mt_sentAt :: time
  mt_receivedAt :: time
  mt_input :: metric_input
  mt_healthStatus :: string

record fleet =
  fl_daemons :: "daemon list"
  fl_hits :: "(string \<times> time) list" \<comment> \<open>\<open>pollHit\<close>\<close>
  fl_metrics :: "metric list"
  fl_notes :: "notice list"

record time_text =
  tt_rfc3339 :: "time \<Rightarrow> string"
  tt_json :: "time \<Rightarrow> string" \<comment> \<open>how \<open>encoding/json\<close> writes a \<open>time.Time\<close>\<close>

section \<open>Durations as text\<close>

text \<open>\<open>d.Round(time.Second).String()\<close> of a duration that is not negative.\<close>

definition round_second :: "time \<Rightarrow> nat" where
  "round_second d = nat ((d + 500000000) div 1000000000)"

definition duration_text :: "time \<Rightarrow> string" where
  "duration_text d =
     (let n = round_second d; s = dec_digits (n mod 60) @ ''s''; m = dec_digits (n div 60 mod 60) @ ''m'' in
      if n < 60 then s
      else if n < 3600 then m @ s
      else dec_digits (n div 3600) @ ''h'' @ m @ s)"

section \<open>Poll pacing and retention\<close>

definition int64 :: "int \<Rightarrow> int" where
  "int64 x = (x + 2 ^ 63) mod 2 ^ 64 - 2 ^ 63"

definition pollMemory :: nat where "pollMemory = 10000"

text \<open>The wait is a product of two \<open>int64\<close>. The table after the call, and whether the caller may go on.\<close>

definition enforcePollInterval ::
  "string \<Rightarrow> (string \<Rightarrow> int) \<Rightarrow> time \<Rightarrow> (string \<times> time) list \<Rightarrow> (string \<times> time) list \<times> (cloud_error + unit)" where
  "enforcePollInterval d quotas now hits =
     (let n = quotas ''polling_interval_seconds'' in
      if n \<le> 0 then (hits, Inr ())
      else let interval = int64 (n * 1000000000) in
        if (case map_of hits d of None \<Rightarrow> False | Some hit \<Rightarrow> now - hit < interval) then (hits, Inl ErrRateLimited)
        else let hits1 = put d now hits in
          (if pollMemory < length hits1 then filter (\<lambda>(i, hit). \<not> seconds 3600 < now - hit) hits1 else hits1, Inr ()))"

definition clampRetentionDays :: "int \<Rightarrow> nat" where
  "clampRetentionDays days = (if days < 0 then 0 else if 3650 < days then 3650 else nat days)"

definition retention_cutoff :: "time \<Rightarrow> nat \<Rightarrow> time" where
  "retention_cutoff now days = now - seconds (days * 86400)"

section \<open>Ingest\<close>

definition metric_ok :: "metric_input \<Rightarrow> bool" where
  "metric_ok q \<longleftrightarrow> mi_sentAt q \<noteq> 0 \<and> 0 \<le> mi_uptime q \<and> 0 \<le> mi_processMemory q \<and>
     0 \<le> mi_cpuPercent q \<and> mi_cpuPercent q \<le> 100 \<and> 0 \<le> mi_memoryPercent q \<and> mi_memoryPercent q \<le> 100 \<and>
     0 \<le> mi_healthScore q \<and> mi_healthScore q \<le> 100"

definition new_metric :: "cloud_env \<Rightarrow> daemon \<Rightarrow> string \<Rightarrow> metric_input \<Rightarrow> metric" where
  "new_metric ce d i q =
     \<lparr>mt_id = i, mt_daemon = d_id d, mt_sentAt = mi_sentAt q, mt_receivedAt = ce_now ce, mt_input = q,
      mt_healthStatus = take 16 (trim_space (mi_healthStatus q))\<rparr>"

text \<open>The heartbeat: the time, and the host when the report names another one.\<close>

definition beat :: "time \<Rightarrow> daemon \<Rightarrow> metric_input \<Rightarrow> daemon \<Rightarrow> daemon" where
  "beat now d q x =
     (let h = trim_space (mi_hostID q); x1 = x\<lparr>d_lastSeen := Some now, d_updated := now\<rparr> in
      if h \<noteq> [] \<and> h \<noteq> d_hostID d then x1\<lparr>d_hostID := h\<rparr> else x1)"

definition is_daemon :: "string \<Rightarrow> daemon \<Rightarrow> bool" where
  "is_daemon i x \<longleftrightarrow> d_id x = i"

definition silent_daemon :: "string \<Rightarrow> daemon \<Rightarrow> bool" where
  "silent_daemon i x \<longleftrightarrow> d_id x = i \<and> d_disconnected x \<noteq> None"

definition reconnect :: "time \<Rightarrow> daemon \<Rightarrow> daemon" where
  "reconnect now x = x\<lparr>d_disconnected := None, d_updated := now\<rparr>"

text \<open>The reconnected notification, from the row that was authenticated.\<close>

definition reconnect_metadata :: "time_text \<Rightarrow> time \<Rightarrow> daemon \<Rightarrow> (string \<times> jval) list \<times> string" where
  "reconnect_metadata tt now d =
     (let base = [(''last_seen_at'', JString (tt_json tt now)), (''reconnected_at'', JString (tt_json tt now))] in
      case d_disconnected d of
        None \<Rightarrow> (put ''downtime'' (JString ''an unknown interval'') base, ''Metrics received again after the daemon disconnected.'')
      | Some t \<Rightarrow>
          (let downtime = (if now - t < 0 then 0 else now - t); text = duration_text downtime in
           (put ''downtime'' (JString text) (put ''downtime_seconds'' (JNumber (dec_digits (nat (downtime div 1000000000))))
              (put ''disconnected_at'' (JString (tt_json tt t)) base)),
            ''Metrics resumed after '' @ text @ ''.'')))"

definition reconnected_note :: "notify_env \<Rightarrow> time_text \<Rightarrow> time \<Rightarrow> daemon \<Rightarrow> string \<Rightarrow> notice" where
  "reconnected_note ne tt now d i =
     (let (fields, body) = reconnect_metadata tt now d; encoded = ne_encode ne fields;
          (title, text) = localizedAlarm ne (d_account d) ''daemon.reconnected'' ''Daemon reconnected'' body encoded in
      \<lparr>nt_id = i, nt_account = d_account d, nt_workspace = d_workspace d, nt_daemon = d_id d,
       nt_kind = ''daemon.reconnected'', nt_title = title, nt_subtitle = [], nt_body = text,
       nt_metadata = encoded, nt_read = None, nt_created = now\<rparr>)"

text \<open>Statements 4 to 6: preference, insert, publication.\<close>

definition notify_reconnected ::
  "cloud_env \<Rightarrow> notify_env \<Rightarrow> time_text \<Rightarrow> daemon \<Rightarrow> string \<Rightarrow> string \<Rightarrow> pref list \<Rightarrow> fleet
     \<Rightarrow> fleet \<times> note_event list \<times> (cloud_error + unit)" where
  "notify_reconnected ce ne tt d i eid prefs s =
     (case notificationPreference ce 4 prefs (d_account d) (d_workspace d) (d_id d) ''daemon.reconnected'' of
        Inl e \<Rightarrow> (s, [], Inl e)
      | Inr level \<Rightarrow>
          if level = PrefReject then (s, [], Inr ())
          else let n = reconnected_note ne tt (ce_now ce) d i in
            (case (if ce_fault ce 6 then None else insert_row nt_id n (fl_notes s)) of
               None \<Rightarrow> (s, [], Inl DbError)
             | Some notes \<Rightarrow>
                 let s1 = s\<lparr>fl_notes := notes\<rparr> in
                 if level = PrefNormal then (case publishNotification ne d eid n of (evs, r) \<Rightarrow> (s1, evs, r))
                 else (s1, [], Inr ())))"

definition IngestMetric ::
  "cloud_env \<Rightarrow> notify_env \<Rightarrow> time_text \<Rightarrow> string \<Rightarrow> string \<Rightarrow> metric_input \<Rightarrow> string \<Rightarrow> string \<Rightarrow> string \<Rightarrow> pref list \<Rightarrow> fleet
     \<Rightarrow> fleet \<times> note_event list \<times> (cloud_error + unit)" where
  "IngestMetric ce ne tt daemonID secret q i ni eid prefs s =
     (case authenticateDaemon ce (fl_daemons s) daemonID secret of
        Inl _ \<Rightarrow> (s, [], Inl ErrUnauthorized)
      | Inr d \<Rightarrow>
      if \<not> metric_ok q then (s, [], Inl (InvalidInput ''invalid metric''))
      else case workspaceQuota ce (d_workspace d) of
        Inl e \<Rightarrow> (s, [], Inl e)
      | Inr quotas \<Rightarrow>
      case enforcePollInterval (d_id d) quotas (ce_now ce) (fl_hits s) of
        (hits, Inl e) \<Rightarrow> (s\<lparr>fl_hits := hits\<rparr>, [], Inl e)
      | (hits, Inr _) \<Rightarrow>
      let s1 = s\<lparr>fl_hits := hits\<rparr>; days = clampRetentionDays (quotas ''metrics_retention_days'') in
      if 0 < days \<and> mi_sentAt q < retention_cutoff (ce_now ce) days then (s1, [], Inl ErrMetricOutOfRetention)
      else case (if ce_fault ce 1 then None else insert_row mt_id (new_metric ce d i q) (fl_metrics s1)) of
        None \<Rightarrow> (s1, [], Inl DbError)
      | Some metrics \<Rightarrow>
      let s2 = s1\<lparr>fl_metrics := metrics\<rparr> in
      if ce_fault ce 2 then (s2, [], Inl DbError)
      else let s3 = s2\<lparr>fl_daemons := update_where (is_daemon (d_id d)) (beat (ce_now ce) d q) (fl_daemons s2)\<rparr> in
      if ce_fault ce 3 then (s3, [], Inl DbError)
      else let back = affected (silent_daemon (d_id d)) (fl_daemons s3);
               s4 = s3\<lparr>fl_daemons := update_where (silent_daemon (d_id d)) (reconnect (ce_now ce)) (fl_daemons s3)\<rparr> in
      if back = 1 then notify_reconnected ce ne tt d ni eid prefs s4 else (s4, [], Inr ()))"

section \<open>Reading\<close>

record metric_view =
  mv_id :: string
  mv_daemon :: string
  mv_sentAt :: time
  mv_receivedAt :: time
  mv_input :: metric_input
  mv_healthStatus :: string

definition view_metric :: "metric \<Rightarrow> metric_view" where
  "view_metric m =
     \<lparr>mv_id = mt_id m, mv_daemon = mt_daemon m, mv_sentAt = mt_sentAt m, mv_receivedAt = mt_receivedAt m,
      mv_input = mt_input m, mv_healthStatus = mt_healthStatus m\<rparr>"

definition ListMetrics ::
  "cloud_env \<Rightarrow> string \<Rightarrow> string \<Rightarrow> int \<Rightarrow> time option \<Rightarrow> fleet \<Rightarrow> cloud_error + metric_view list" where
  "ListMetrics ce account d limit before s =
     rbind (daemonForAccount ce (fl_daemons s) account d) (\<lambda>_.
       let limit1 = (if limit \<le> 0 then 100 else limit); limit2 = (if 100 < limit1 then 100 else limit1) in
       if ce_fault ce 1 then Inl DbError
       else Inr (map view_metric (select_desc
         (\<lambda>m. mt_daemon m = d \<and> (case before of None \<Rightarrow> True | Some t \<Rightarrow> mt_sentAt m < t)) mt_sentAt (nat limit2) (fl_metrics s))))"

definition DefaultDaemonDisconnectAfter :: time where "DefaultDaemonDisconnectAfter = seconds 300"

definition DefaultDaemonDisconnectNotificationCooldown :: time where
  "DefaultDaemonDisconnectNotificationCooldown = seconds 1800"

record health_view =
  hh_daemon :: string
  hh_score :: int
  hh_status :: string
  hh_evaluated :: time
  hh_received :: time
  hh_stale :: bool

text \<open>\<open>First\<close> after \<open>Order("sent_at desc")\<close>: the newest, the smallest key of several.\<close>

definition DaemonHealth :: "cloud_env \<Rightarrow> string \<Rightarrow> string \<Rightarrow> fleet \<Rightarrow> cloud_error + health_view" where
  "DaemonHealth ce account d s =
     rbind (daemonForAccount ce (fl_daemons s) account d) (\<lambda>_.
       if ce_fault ce 1 then Inl DbError
       else case sort_key (\<lambda>m. - mt_sentAt m) (sort_key mt_id (filter (\<lambda>m. mt_daemon m = d) (fl_metrics s))) of
         [] \<Rightarrow> Inl ErrNotFound
       | m # _ \<Rightarrow>
           let status = trim_space (mt_healthStatus m) in
           Inr \<lparr>hh_daemon = mt_daemon m, hh_score = mi_healthScore (mt_input m),
             hh_status = (if status = [] then ''unknown'' else status), hh_evaluated = mt_sentAt m,
             hh_received = mt_receivedAt m, hh_stale = DefaultDaemonDisconnectAfter < ce_now ce - mt_receivedAt m\<rparr>)"

section \<open>Disconnected daemons\<close>

definition stale_daemon :: "time \<Rightarrow> time \<Rightarrow> daemon \<Rightarrow> bool" where
  "stale_daemon after now d \<longleftrightarrow> (case d_lastSeen d of None \<Rightarrow> False | Some t \<Rightarrow> \<not> now < t + after)"

definition connected_daemon :: "string \<Rightarrow> daemon \<Rightarrow> bool" where
  "connected_daemon i x \<longleftrightarrow> d_id x = i \<and> d_disconnected x = None"

definition mark_disconnected :: "time \<Rightarrow> daemon \<Rightarrow> daemon" where
  "mark_disconnected now x = x\<lparr>d_disconnected := Some now, d_updated := now\<rparr>"

definition mark_silent :: "string \<Rightarrow> time \<Rightarrow> fleet \<Rightarrow> fleet" where
  "mark_silent i now s = s\<lparr>fl_daemons := update_where (connected_daemon i) (mark_disconnected now) (fl_daemons s)\<rparr>"

text \<open>The latest disconnection notice of a daemon.\<close>

definition last_alarm :: "string \<Rightarrow> notice list \<Rightarrow> notice option" where
  "last_alarm d notes =
     (case sort_key (\<lambda>n. - nt_created n) (sort_key nt_id (filter (\<lambda>n. nt_daemon n = d \<and> nt_kind n = ''daemon.disconnected'') notes)) of
        [] \<Rightarrow> None | n # _ \<Rightarrow> Some n)"

definition disconnected_note :: "notify_env \<Rightarrow> time_text \<Rightarrow> time \<Rightarrow> time \<Rightarrow> time \<Rightarrow> daemon \<Rightarrow> string \<Rightarrow> notice" where
  "disconnected_note ne tt after now seen d i =
     (let age = now - seen; age_text = duration_text age in
      \<lparr>nt_id = i, nt_account = d_account d, nt_workspace = d_workspace d, nt_daemon = d_id d,
       nt_kind = ''daemon.disconnected'', nt_title = ''Daemon disconnected'', nt_subtitle = [],
       nt_body = ''No metrics received for '' @ age_text @ ''; last seen at '' @ tt_rfc3339 tt seen @ ''.'',
       nt_metadata = ne_encode ne
         [(''age'', JString age_text), (''age_seconds'', JNumber (dec_digits (nat (age div 1000000000)))),
          (''disconnected_at'', JString (tt_json tt now)), (''last_seen'', JString (tt_rfc3339 tt seen)),
          (''last_seen_at'', JString (tt_json tt seen)),
          (''threshold_seconds'', JNumber (dec_digits (nat (after div 1000000000))))],
       nt_read = None, nt_created = now\<rparr>)"

text \<open>
  The transaction of one daemon: its row, its last alarm, the mark, the insert and the commit are
  the statements \<open>k + 2\<close> to \<open>k + 6\<close>; a failure of any leaves the tables as they were.
\<close>

definition check_rows ::
  "cloud_env \<Rightarrow> notify_env \<Rightarrow> time_text \<Rightarrow> nat \<Rightarrow> time \<Rightarrow> time \<Rightarrow> time \<Rightarrow> string \<Rightarrow> string \<Rightarrow> bool \<Rightarrow> fleet
     \<Rightarrow> cloud_error + fleet \<times> notice option" where
  "check_rows ce ne tt k after cooldown now i ni store s =
     (if ce_fault ce (k + 2) then Inl DbError
      else case daemon_row (fl_daemons s) i of
        None \<Rightarrow> Inr (s, None)
      | Some d \<Rightarrow>
          if stale_daemon after now d then
            (if d_disconnected d \<noteq> None then Inr (s, None)
             else if ce_fault ce (k + 3) then Inl DbError
             else let quiet = (case last_alarm i (fl_notes s) of None \<Rightarrow> False | Some n \<Rightarrow> now < nt_created n + cooldown) in
             if ce_fault ce (k + 4) then Inl DbError
             else if quiet \<or> \<not> store then Inr (mark_silent i now s, None)
             else let n = disconnected_note ne tt after now (the (d_lastSeen d)) d ni in
               (case (if ce_fault ce (k + 5) then None else insert_row nt_id n (fl_notes s)) of
                  None \<Rightarrow> Inl DbError
                | Some notes \<Rightarrow> Inr ((mark_silent i now s)\<lparr>fl_notes := notes\<rparr>, Some n)))
          else if d_disconnected d \<noteq> None then
            (if ce_fault ce (k + 4) then Inl DbError
             else Inr (s\<lparr>fl_daemons := update_where (is_daemon i) (reconnect now) (fl_daemons s)\<rparr>, None))
          else Inr (s, None))"

definition check_daemon ::
  "cloud_env \<Rightarrow> notify_env \<Rightarrow> time_text \<Rightarrow> nat \<Rightarrow> time \<Rightarrow> time \<Rightarrow> time \<Rightarrow> string \<Rightarrow> string \<Rightarrow> bool \<Rightarrow> fleet
     \<Rightarrow> cloud_error + fleet \<times> notice option" where
  "check_daemon ce ne tt k after cooldown now i ni store s =
     rbind (check_rows ce ne tt k after cooldown now i ni store s)
       (\<lambda>r. if ce_fault ce (k + 6) then Inl DbError else Inr r)"

text \<open>What follows a stored alarm: its text in the account's language (statement \<open>k + 7\<close>), and its publication.\<close>

definition announce ::
  "cloud_env \<Rightarrow> notify_env \<Rightarrow> nat \<Rightarrow> daemon \<Rightarrow> string \<Rightarrow> bool \<Rightarrow> notice \<Rightarrow> fleet
     \<Rightarrow> fleet \<times> note_event list \<times> cloud_error option" where
  "announce ce ne k candidate eid publish n s =
     (let (title, body) = localizedAlarm ne (nt_account n) (nt_kind n) (nt_title n) (nt_body n) (nt_metadata n);
          n' = n\<lparr>nt_title := title, nt_body := body\<rparr>; changed = title \<noteq> nt_title n \<or> body \<noteq> nt_body n in
      if changed \<and> ce_fault ce (k + 7) then (s, [], Some DbError)
      else
        let s' = (if changed then
                    s\<lparr>fl_notes := update_where (\<lambda>x. nt_id x = nt_id n) (\<lambda>x. x\<lparr>nt_title := title, nt_body := body\<rparr>) (fl_notes s)\<rparr>
                  else s) in
        if publish then
          (case publishNotification ne candidate eid n' of
             (evs, Inl e) \<Rightarrow> (s', evs, Some e)
           | (evs, Inr _) \<Rightarrow> (s', evs, None))
        else (s', [], None))"

definition first_error :: "cloud_error option \<Rightarrow> cloud_error option \<Rightarrow> cloud_error option" where
  "first_error e1 e2 = (case e1 of None \<Rightarrow> e2 | Some _ \<Rightarrow> e1)"

definition evaluate_daemon ::
  "cloud_env \<Rightarrow> notify_env \<Rightarrow> time_text \<Rightarrow> nat \<Rightarrow> time \<Rightarrow> time \<Rightarrow> time \<Rightarrow> (string \<Rightarrow> string) \<Rightarrow> (string \<Rightarrow> string) \<Rightarrow> pref list
     \<Rightarrow> daemon \<Rightarrow> fleet \<Rightarrow> fleet \<times> note_event list \<times> cloud_error option" where
  "evaluate_daemon ce ne tt k after cooldown now ids eids prefs c s =
     (case notificationPreference ce k prefs (d_account c) (d_workspace c) (d_id c) ''daemon.disconnected'' of
        Inl e \<Rightarrow> (s, [], Some e)
      | Inr level \<Rightarrow>
          (case check_daemon ce ne tt k after cooldown now (d_id c) (ids (d_id c)) (level \<noteq> PrefReject) s of
             Inl e \<Rightarrow> (s, [], Some e)
           | Inr (s', None) \<Rightarrow> (s', [], None)
           | Inr (s', Some n) \<Rightarrow> announce ce ne k c (eids (d_id c)) (level = PrefNormal) n s'))"

fun evaluate_all ::
  "cloud_env \<Rightarrow> notify_env \<Rightarrow> time_text \<Rightarrow> nat \<Rightarrow> time \<Rightarrow> time \<Rightarrow> time \<Rightarrow> (string \<Rightarrow> string) \<Rightarrow> (string \<Rightarrow> string) \<Rightarrow> pref list
     \<Rightarrow> daemon list \<Rightarrow> fleet \<times> note_event list \<times> cloud_error option \<Rightarrow> fleet \<times> note_event list \<times> cloud_error option" where
  "evaluate_all ce ne tt k after cooldown now ids eids prefs [] acc = acc"
| "evaluate_all ce ne tt k after cooldown now ids eids prefs (c # cs) (s, evs, err) =
     (case evaluate_daemon ce ne tt k after cooldown now ids eids prefs c s of
        (s', evs', err') \<Rightarrow>
          evaluate_all ce ne tt (k + 8) after cooldown now ids eids prefs cs (s', evs @ evs', first_error err err'))"

text \<open>A non-positive duration means its default; the candidates are read by statement 0.\<close>

definition EvaluateDisconnectedDaemonsWithCooldown ::
  "cloud_env \<Rightarrow> notify_env \<Rightarrow> time_text \<Rightarrow> time \<Rightarrow> time \<Rightarrow> time \<Rightarrow> (string \<Rightarrow> string) \<Rightarrow> (string \<Rightarrow> string) \<Rightarrow> pref list \<Rightarrow> fleet
     \<Rightarrow> fleet \<times> note_event list \<times> cloud_error option" where
  "EvaluateDisconnectedDaemonsWithCooldown ce ne tt rawAfter rawCooldown rawNow ids eids prefs s =
     (let after = (if rawAfter \<le> 0 then DefaultDaemonDisconnectAfter else rawAfter);
          cooldown = (if rawCooldown \<le> 0 then DefaultDaemonDisconnectNotificationCooldown else rawCooldown);
          now = (if rawNow = 0 then ce_now ce else rawNow) in
      if ce_fault ce 0 then (s, [], Some DbError)
      else evaluate_all ce ne tt 1 after cooldown now ids eids prefs (filter d_enabled (fl_daemons s)) (s, [], None))"

definition EvaluateDisconnectedDaemons ::
  "cloud_env \<Rightarrow> notify_env \<Rightarrow> time_text \<Rightarrow> time \<Rightarrow> time \<Rightarrow> (string \<Rightarrow> string) \<Rightarrow> (string \<Rightarrow> string) \<Rightarrow> pref list \<Rightarrow> fleet
     \<Rightarrow> fleet \<times> note_event list \<times> cloud_error option" where
  "EvaluateDisconnectedDaemons ce ne tt after now ids eids prefs s =
     EvaluateDisconnectedDaemonsWithCooldown ce ne tt after DefaultDaemonDisconnectNotificationCooldown now ids eids prefs s"

end
