(* ===== verification/Cloud_Notify_Facts.thy ===== *)
theory Cloud_Notify_Facts
  imports Cloud_Notify
begin

text \<open>
  The preference table as a map from scopes to levels, which every call updates as a map; what a
  preference does to a notification; what an event says about the daemon it comes from.
\<close>

section \<open>The preference table as a map\<close>

type_synonym pref_key = "string \<times> string \<times> string \<times> string"

definition pref_scope :: "pref \<Rightarrow> pref_key" where
  "pref_scope r = (np_account r, np_workspace r, np_daemon r, np_topic r)"

definition policy :: "pref list \<Rightarrow> pref_key \<Rightarrow> int option" where
  "policy prefs = map_of (map (\<lambda>r. (pref_scope r, np_level r)) prefs)"

definition prefs_ok :: "pref list \<Rightarrow> bool" where
  "prefs_ok prefs \<longleftrightarrow> distinct (map np_id prefs) \<and> distinct (map pref_index prefs)"

text \<open>The level that applies: the daemon's own, else the account's, else normal.\<close>

definition effective :: "(pref_key \<Rightarrow> int option) \<Rightarrow> string \<Rightarrow> string \<Rightarrow> string \<Rightarrow> string \<Rightarrow> pref_level" where
  "effective p a w d t =
     (case p (a, w, d, t) of Some l \<Rightarrow> normalizeNotificationPreference l
      | None \<Rightarrow> (case p (a, w, [], t) of Some l \<Rightarrow> normalizeNotificationPreference l | None \<Rightarrow> PrefNormal))"

lemma in_pref_scope_iff: "in_pref_scope a w d t r \<longleftrightarrow> pref_scope r = (a, w, d, t)"
  by (simp add: in_pref_scope_def pref_scope_def)

lemma find_is_policy:
  "map_option np_level (find (in_pref_scope a w d t) prefs) = policy prefs (a, w, d, t)"
  by (induction prefs) (auto simp: policy_def in_pref_scope_iff)

lemma notificationPreference_is_effective:
  "notificationPreference ce k prefs a w d t = Inr l \<Longrightarrow> l = effective (policy prefs) a w d t"
  by (auto simp: notificationPreference_def effective_def find_is_policy [symmetric] split: option.splits if_splits)

lemma notificationPreference_total:
  assumes "\<not> ce_fault ce k" "\<not> ce_fault ce (k + 1)"
  shows "notificationPreference ce k prefs a w d t = Inr (effective (policy prefs) a w d t)"
  using assms
  by (auto simp: notificationPreference_def effective_def find_is_policy [symmetric] split: option.splits)

lemma scopes_distinct: "prefs_ok prefs \<Longrightarrow> distinct (map pref_scope prefs)"
proof -
  let ?f = "\<lambda>(a, w, d, t). (a, d, t)"
  assume "prefs_ok prefs"
  then have "distinct (map ?f (map pref_scope prefs))"
    by (simp add: prefs_ok_def pref_index_def [abs_def] pref_scope_def comp_def)
  then show ?thesis using distinct_map by blast
qed

lemma policy_Some:
  assumes "prefs_ok prefs"
  shows "policy prefs key = Some l \<longleftrightarrow> (\<exists>r \<in> set prefs. pref_scope r = key \<and> np_level r = l)"
proof -
  have "distinct (map fst (map (\<lambda>r. (pref_scope r, np_level r)) prefs))"
    using scopes_distinct [OF assms] by (simp add: comp_def)
  then show ?thesis unfolding policy_def by (subst map_of_eq_Some_iff) force+
qed

lemma policy_eqI:
  assumes "\<And>key l. policy prefs key = Some l \<longleftrightarrow> p key = Some l"
  shows "policy prefs = p"
  using assms by (metis not_Some_eq ext)

lemma insert_pref_Some:
  "insert_pref r rows = Some rows' \<longleftrightarrow>
     pref_index r \<notin> pref_index ` set rows \<and> np_id r \<notin> np_id ` set rows \<and> rows' = rows @ [r]"
  by (auto simp: insert_pref_def insert_row_Some)

lemma insert_pref_ok: "insert_pref r rows = Some rows' \<Longrightarrow> prefs_ok rows \<Longrightarrow> prefs_ok rows'"
  by (auto simp: insert_pref_Some prefs_ok_def)

lemma insert_pref_policy:
  assumes "insert_pref r rows = Some rows'" "prefs_ok rows"
  shows "policy rows' = (policy rows)(pref_scope r \<mapsto> np_level r)"
proof (rule policy_eqI)
  fix key l
  have ok: "prefs_ok rows'" using insert_pref_ok assms by blast
  have new: "pref_scope x \<noteq> pref_scope r" if "x \<in> set rows" for x
  proof
    assume "pref_scope x = pref_scope r"
    then have "pref_index r = pref_index x" by (simp add: pref_scope_def pref_index_def)
    then show False using assms(1) that by (simp add: insert_pref_Some)
  qed
  have eq: "rows' = rows @ [r]" using assms(1) by (simp add: insert_pref_Some)
  show "policy rows' key = Some l \<longleftrightarrow> ((policy rows)(pref_scope r \<mapsto> np_level r)) key = Some l"
    using new policy_Some [OF ok, of key l] policy_Some [OF assms(2), of key l] by (auto simp: eq)
qed

lemma upsert_pref_ok:
  assumes "upsert_pref ce k i a w d t level rows = Inr rows'" "prefs_ok rows"
  shows "prefs_ok rows' \<and> policy rows' = (policy rows)((a, w, d, t) \<mapsto> level)"
proof (cases "find (in_pref_scope a w d t) rows")
  case None
  then have ins: "insert_pref (new_pref ce i a w d t level) rows = Some rows'"
    using assms(1) by (auto simp: upsert_pref_def split: if_splits option.splits)
  have "pref_scope (new_pref ce i a w d t level) = (a, w, d, t)" "np_level (new_pref ce i a w d t level) = level"
    by (simp_all add: new_pref_def pref_scope_def)
  then show ?thesis using insert_pref_ok [OF ins assms(2)] insert_pref_policy [OF ins assms(2)] by simp
next
  case (Some r)
  let ?f = "\<lambda>x. x\<lparr>np_level := level, np_updated := ce_now ce\<rparr>"
  have r: "r \<in> set rows" "pref_scope r = (a, w, d, t)"
    using Some by (auto simp: find_Some_iff in_pref_scope_iff)
  have rows': "rows' = update_where (\<lambda>x. np_id x = np_id r) ?f rows"
    using assms(1) Some by (auto simp: upsert_pref_def split: if_splits)
  have keep: "np_id (?f x) = np_id x" "pref_index (?f x) = pref_index x" "pref_scope (?f x) = pref_scope x" for x
    by (simp_all add: pref_index_def pref_scope_def)
  have ok: "prefs_ok rows'" using assms(2) unfolding prefs_ok_def rows' by (simp add: pref_index_def)
  have only: "np_id x = np_id r \<longleftrightarrow> x = r" if "x \<in> set rows" for x
    using assms(2) that r(1) unfolding prefs_ok_def by (metis distinct_map inj_onD)
  have scope: "pref_scope x = (a, w, d, t) \<longleftrightarrow> x = r" if "x \<in> set rows" for x
    using scopes_distinct [OF assms(2)] that r by (metis distinct_map inj_onD)
  have "policy rows' = (policy rows)((a, w, d, t) \<mapsto> level)"
  proof (rule policy_eqI)
    fix key l
    let ?g = "\<lambda>x. if np_id x = np_id r then ?f x else x"
    have g: "pref_scope (?g x) = key \<and> np_level (?g x) = l \<longleftrightarrow>
        pref_scope x = key \<and> (if x = r then level else np_level x) = l" if "x \<in> set rows" for x
      using only [OF that] keep(3) by simp
    have "policy rows' key = Some l \<longleftrightarrow> (\<exists>x \<in> set rows. pref_scope (?g x) = key \<and> np_level (?g x) = l)"
      unfolding policy_Some [OF ok] unfolding rows' set_update_where by (rule bex_simps)
    also have "\<dots> \<longleftrightarrow> (\<exists>x \<in> set rows. pref_scope x = key \<and> (if x = r then level else np_level x) = l)"
      using g by (intro bex_cong) auto
    also have "\<dots> \<longleftrightarrow> (if key = (a, w, d, t) then level = l else (\<exists>x \<in> set rows. pref_scope x = key \<and> np_level x = l))"
      using r scope by auto
    also have "\<dots> \<longleftrightarrow> ((policy rows)((a, w, d, t) \<mapsto> level)) key = Some l"
      using policy_Some [OF assms(2), of key l] by auto
    finally show "policy rows' key = Some l \<longleftrightarrow> ((policy rows)((a, w, d, t) \<mapsto> level)) key = Some l" .
  qed
  then show ?thesis using ok by blast
qed

lemma filter_pref_ok: "prefs_ok rows \<Longrightarrow> prefs_ok (filter P rows)"
  by (simp add: prefs_ok_def distinct_map_filter)

lemma filter_pref_policy:
  assumes "prefs_ok rows" "\<And>r. P r \<longleftrightarrow> Q (pref_scope r)"
  shows "policy (filter P rows) = (\<lambda>key. if Q key then policy rows key else None)"
  by (rule policy_eqI) (auto simp: policy_Some [OF filter_pref_ok [OF assms(1)]] policy_Some [OF assms(1)] assms(2))

section \<open>Topics\<close>

lemma add_topics_keys: "fst ` set (add_topics ts m) = fst ` set m \<union> set ts"
  by (induction ts m rule: add_topics.induct) auto

lemma add_topics_distinct: "distinct (map fst m) \<Longrightarrow> distinct (map fst (add_topics ts m))"
  by (induction ts m rule: add_topics.induct) (auto simp: put_distinct)

lemma known_topics_distinct: "distinct (map fst known_topics)"
  by (simp add: known_topics_def)

lemma topics_listed:
  assumes "ListNotificationTopics ce k account workspace prefs notes = Inr out"
  shows "set (map fst out) = fst ` set known_topics \<union> nt_kind ` {n \<in> set notes. nt_workspace n = trim_space workspace} \<union>
      np_topic ` {r \<in> set prefs. np_account r = account \<and> np_workspace r = trim_space workspace} \<and>
    distinct (map fst out) \<and> sorted (map fst out)"
proof -
  let ?w = "trim_space workspace"
  let ?m = "add_topics (map np_topic (filter (\<lambda>r. np_account r = account \<and> np_workspace r = ?w) prefs))
     (add_topics (remdups (map nt_kind (filter (\<lambda>n. nt_workspace n = ?w) notes))) known_topics)"
  have out: "map fst out = sort (map fst ?m)"
    using assms by (auto simp: ListNotificationTopics_def Let_def comp_def split: if_splits)
  have "distinct (map fst ?m)" by (intro add_topics_distinct known_topics_distinct)
  moreover have "set (map fst ?m) = fst ` set known_topics \<union> nt_kind ` {n \<in> set notes. nt_workspace n = ?w} \<union>
      np_topic ` {r \<in> set prefs. np_account r = account \<and> np_workspace r = ?w}"
    by (simp add: add_topics_keys)
  ultimately show ?thesis unfolding out by simp
qed

text \<open>One transaction over the topics.\<close>

lemma upsert_all_ok:
  assumes "rfold (\<lambda>(k, rows) t. rbind (upsert_pref ce k (ids t) a w d t level rows) (\<lambda>rows'. Inr (k + 2, rows')))
             (k, rows) ts = Inr (k', rows')" "prefs_ok rows"
  shows "prefs_ok rows' \<and>
    policy rows' = (\<lambda>key. case key of (a', w', d', t) \<Rightarrow>
      if a' = a \<and> w' = w \<and> d' = d \<and> t \<in> set ts then Some level else policy rows key)"
  using assms
proof (induction ts arbitrary: k rows)
  case Nil
  then show ?case by (auto simp: fun_eq_iff)
next
  case (Cons t ts)
  from Cons.prems(1) obtain rows1 where rows1: "upsert_pref ce k (ids t) a w d t level rows = Inr rows1"
    "rfold (\<lambda>(k, rows) t. rbind (upsert_pref ce k (ids t) a w d t level rows) (\<lambda>rows'. Inr (k + 2, rows')))
       (k + 2, rows1) ts = Inr (k', rows')" by auto
  have up: "prefs_ok rows1" "policy rows1 = (policy rows)((a, w, d, t) \<mapsto> level)"
    using upsert_pref_ok [OF rows1(1) Cons.prems(2)] by auto
  show ?case using Cons.IH [OF rows1(2) up(1)] up(2) by (auto simp: fun_eq_iff)
qed

section \<open>Every call updates the map\<close>

text \<open>The preference table is a map from (account, workspace, daemon, topic) to a level, and every call that changes
it is that map's update: setting one preference stores its level at its scope and nowhere else, setting all of a
daemon's stores the level for every topic the workspace lists, deleting one removes its scope, deleting all of a daemon's
removes exactly that daemon's scopes. Every call keeps keys and index unique.\<close>

theorem preferences_refine:
  assumes "prefs_ok prefs"
  shows "(\<forall>prefs'. SetNotificationPreference ce ds a workspace d topic level i prefs = Inr prefs' \<longrightarrow>
      prefs_ok prefs' \<and> policy prefs' = (policy prefs)((a, trim_space workspace, d, trim_space topic) \<mapsto> level))
    \<and> (\<forall>prefs'. SetAllDaemonNotificationPreferences ce ds a workspace d level ids notes prefs = Inr prefs' \<longrightarrow>
      (\<exists>topics. ListNotificationTopics ce 1 a (trim_space workspace) prefs notes = Inr topics \<and>
        prefs_ok prefs' \<and> policy prefs' = (\<lambda>(a', w', d', t).
          if a' = a \<and> w' = trim_space workspace \<and> d' = d \<and> t \<in> set (map fst topics) then Some level
          else policy prefs (a', w', d', t))))
    \<and> (\<forall>prefs'. DeleteNotificationPreference ce ds a workspace d topic prefs = Inr prefs' \<longrightarrow>
      prefs_ok prefs' \<and> policy prefs' = (policy prefs)((a, trim_space workspace, d, trim_space topic) := None))
    \<and> (\<forall>prefs'. DeleteAllDaemonNotificationPreferences ce ds a workspace d prefs = Inr prefs' \<longrightarrow>
      prefs_ok prefs' \<and> policy prefs' = (\<lambda>(a', w', d', t).
        if a' = a \<and> w' = trim_space workspace \<and> d' = d then None else policy prefs (a', w', d', t)))"
proof (intro conjI allI impI)
  let ?w = "trim_space workspace" and ?t = "trim_space topic"
  fix prefs'
  assume set1: "SetNotificationPreference ce ds a workspace d topic level i prefs = Inr prefs'"
  then have "upsert_pref ce 1 i a ?w d ?t level prefs = Inr prefs'"
    by (auto simp: SetNotificationPreference_def bound_def Let_def split: if_splits)
  then show "prefs_ok prefs'" "policy prefs' = (policy prefs)((a, ?w, d, ?t) \<mapsto> level)"
    using upsert_pref_ok assms by blast+
next
  let ?w = "trim_space workspace"
  fix prefs'
  assume "SetAllDaemonNotificationPreferences ce ds a workspace d level ids notes prefs = Inr prefs'"
  then obtain topics k' where topics: "ListNotificationTopics ce 1 a ?w prefs notes = Inr topics"
    and fold: "rfold (\<lambda>(k, rows) t. rbind (upsert_pref ce k (ids t) a ?w d t level rows) (\<lambda>rows'. Inr (k + 2, rows')))
             (3, prefs) (map fst topics) = Inr (k', prefs')"
    by (auto simp: SetAllDaemonNotificationPreferences_def Let_def split: if_splits)
  show "\<exists>topics. ListNotificationTopics ce 1 a ?w prefs notes = Inr topics \<and>
        prefs_ok prefs' \<and> policy prefs' = (\<lambda>(a', w', d', t).
          if a' = a \<and> w' = ?w \<and> d' = d \<and> t \<in> set (map fst topics) then Some level
          else policy prefs (a', w', d', t))"
    using topics upsert_all_ok [OF fold assms] by (auto simp: fun_eq_iff)
next
  let ?w = "trim_space workspace" and ?t = "trim_space topic"
  fix prefs'
  assume "DeleteNotificationPreference ce ds a workspace d topic prefs = Inr prefs'"
  then have prefs': "prefs' = filter (\<lambda>r. \<not> in_pref_scope a ?w d ?t r) prefs"
    by (auto simp: DeleteNotificationPreference_def bound_def Let_def split: if_splits)
  then show "prefs_ok prefs'" using filter_pref_ok assms by blast
  have "policy prefs' = (\<lambda>key. if key \<noteq> (a, ?w, d, ?t) then policy prefs key else None)"
    unfolding prefs' by (rule filter_pref_policy [OF assms]) (simp add: in_pref_scope_iff)
  then show "policy prefs' = (policy prefs)((a, ?w, d, ?t) := None)" by auto
next
  let ?w = "trim_space workspace"
  fix prefs'
  assume "DeleteAllDaemonNotificationPreferences ce ds a workspace d prefs = Inr prefs'"
  then have prefs': "prefs' = filter (\<lambda>r. \<not> (np_account r = a \<and> np_workspace r = ?w \<and> np_daemon r = d)) prefs"
    by (auto simp: DeleteAllDaemonNotificationPreferences_def Let_def split: if_splits)
  then show "prefs_ok prefs'" using filter_pref_ok assms by blast
  have "policy prefs' = (\<lambda>key. if (case key of (a', w', d', t) \<Rightarrow> \<not> (a' = a \<and> w' = ?w \<and> d' = d)) then policy prefs key else None)"
    unfolding prefs' by (rule filter_pref_policy [OF assms]) (simp add: pref_scope_def)
  then show "policy prefs' = (\<lambda>(a', w', d', t).
      if a' = a \<and> w' = ?w \<and> d' = d then None else policy prefs (a', w', d', t))"
    by (auto simp: fun_eq_iff)
qed

text \<open>A call succeeds on an empty table, and stores one entry.\<close>

definition demo_members :: workspace_client where
  "demo_members = \<lparr>wc_member = (\<lambda>_ _. Inr True), wc_quota = (\<lambda>_. Inr (\<lambda>_. 0))\<rparr>"

definition demo_cloud :: "time \<Rightarrow> cloud_env" where
  "demo_cloud now = \<lparr>ce_workspaces = Some demo_members, ce_bcrypt = (=), ce_sha256 = id, ce_now = now,
     ce_fault = (\<lambda>_. False)\<rparr>"

definition demo_pref :: pref where
  "demo_pref = \<lparr>np_id = ''p1'', np_account = ''ann'', np_workspace = ''w1'', np_daemon = [], np_topic = ''cpu'',
     np_level = 2, np_created = 7, np_updated = 7\<rparr>"

lemma demo_set_pref:
  "SetNotificationPreference (demo_cloud 7) [] ''ann'' '' w1'' [] ''cpu '' 2 ''p1'' [] = Inr [demo_pref]"
  by code_simp

theorem preferences_refine_witness:
  "prefs_ok [demo_pref] \<and> policy [demo_pref] = (policy [])((''ann'', ''w1'', [], ''cpu'') \<mapsto> 2)"
proof -
  have t: "trim_space '' w1'' = ''w1''" "trim_space ''cpu '' = ''cpu''" by code_simp+
  have "prefs_ok []" by (simp add: prefs_ok_def)
  from preferences_refine [OF this, of "demo_cloud 7" "[]" "''ann''" "'' w1''" "[]" "''cpu ''" 2 "''p1''"] demo_set_pref
  show ?thesis by (simp add: t)
qed

text \<open>The unique index of the preference table leaves the workspace out: an account that has an account-wide level for
a topic in one workspace can never set the same topic in another workspace, whatever the level and even when no
statement fails.\<close>

theorem second_workspace_conflicts:
  assumes "prefs_ok prefs" "policy prefs (a, trim_space w1, [], trim_space topic) = Some l"
    and "trim_space w1 \<noteq> trim_space w2"
  shows "\<nexists>prefs'. SetNotificationPreference ce ds a w2 [] topic level i prefs = Inr prefs'"
proof
  assume "\<exists>prefs'. SetNotificationPreference ce ds a w2 [] topic level i prefs = Inr prefs'"
  then obtain prefs' where "SetNotificationPreference ce ds a w2 [] topic level i prefs = Inr prefs'" by blast
  then have up: "upsert_pref ce 1 i a (trim_space w2) [] (trim_space topic) level prefs = Inr prefs'"
    by (auto simp: SetNotificationPreference_def bound_def Let_def split: if_splits)
  have ok: "prefs_ok prefs'" "policy prefs' = (policy prefs)((a, trim_space w2, [], trim_space topic) \<mapsto> level)"
    using upsert_pref_ok [OF up assms(1)] by auto
  obtain r1 where r1: "r1 \<in> set prefs'" "pref_scope r1 = (a, trim_space w1, [], trim_space topic)"
    using policy_Some [OF ok(1), of "(a, trim_space w1, [], trim_space topic)" l] assms(2,3) ok(2) by auto
  obtain r2 where r2: "r2 \<in> set prefs'" "pref_scope r2 = (a, trim_space w2, [], trim_space topic)"
    using policy_Some [OF ok(1), of "(a, trim_space w2, [], trim_space topic)" level] ok(2) by auto
  have "pref_index r1 = pref_index r2" using r1(2) r2(2) by (simp add: pref_scope_def pref_index_def)
  then have "r1 = r2" using ok(1) r1(1) r2(1) unfolding prefs_ok_def by (metis distinct_map inj_onD)
  then show False using r1(2) r2(2) assms(3) by simp
qed

theorem second_workspace_conflicts_witness:
  "\<nexists>prefs'. SetNotificationPreference (demo_cloud 9) [] ''ann'' ''w2'' [] ''cpu'' 0 ''p2'' [demo_pref] = Inr prefs'"
proof -
  have ok: "prefs_ok [demo_pref]" by (simp add: prefs_ok_def)
  have p: "policy [demo_pref] (''ann'', trim_space ''w1'', [], trim_space ''cpu'') = Some 2" by code_simp
  have ne: "trim_space ''w1'' \<noteq> trim_space ''w2''" by code_simp
  show ?thesis by (rule second_workspace_conflicts [OF ok p ne])
qed

section \<open>What a preference does to a notification\<close>

text \<open>The outcome of a delivery, given the level that applies.\<close>

definition follows_policy ::
  "notify_env \<Rightarrow> daemon \<Rightarrow> string \<Rightarrow> string \<Rightarrow> string \<Rightarrow> string \<Rightarrow> pref_level \<Rightarrow> notice list
     \<Rightarrow> notice list \<times> note_event list \<times> (cloud_error + note_view option) \<Rightarrow> bool" where
  "follows_policy ne d account i eid kind level notes out \<longleftrightarrow>
     (case out of (notes', events, res) \<Rightarrow>
        (if level = PrefReject then notes' = notes \<and> events = [] \<and> res = Inr None
         else (\<exists>n. notes' = notes @ [n] \<and> nt_id n = i \<and> nt_account n = account \<and> nt_workspace n = d_workspace d \<and>
           nt_daemon n = d_id d \<and> nt_kind n = kind \<and> nt_read n = None \<and>
           events = (if level = PrefNormal \<and> ne_publisher ne \<noteq> None then [note_event_of ne d eid n] else []) \<and>
           (res = Inr (Some (notificationView n)) \<or>
            (\<exists>err publish. ne_publisher ne = Some publish \<and> publish (note_event_of ne d eid n) = Some err \<and>
               level = PrefNormal \<and> res = Inl (ErrPublishFailed err))))))"

lemma publishNotification_cases:
  "publishNotification ne d eid n = (events, r) \<longleftrightarrow>
     (case ne_publisher ne of
        None \<Rightarrow> events = [] \<and> r = Inr ()
      | Some publish \<Rightarrow> events = [note_event_of ne d eid n] \<and>
          r = (case publish (note_event_of ne d eid n) of None \<Rightarrow> Inr () | Some err \<Rightarrow> Inl (ErrPublishFailed err)))"
  by (auto simp: publishNotification_def Let_def split: option.splits)

lemma deliver_cases:
  assumes "deliver ce ne d account i eid c prefs notes = (notes', events, res)"
  shows "(\<exists>e. res = Inl e \<and> notes' = notes \<and> events = []) \<or>
    follows_policy ne d account i eid (cn_kind c) (effective (policy prefs) account (d_workspace d) (d_id d) (cn_kind c))
      notes (notes', events, res)"
proof (cases "notificationPreference ce 1 prefs account (d_workspace d) (d_id d) (cn_kind c)")
  case (Inl e)
  then show ?thesis using assms by (auto simp: deliver_def)
next
  case (Inr level)
  have eff: "effective (policy prefs) account (d_workspace d) (d_id d) (cn_kind c) = level"
    using notificationPreference_is_effective [OF Inr] by simp
  show ?thesis
  proof (cases "level = PrefReject")
    case True
    then show ?thesis using assms Inr eff by (simp add: deliver_def follows_policy_def)
  next
    case False
    obtain title body where tb: "localizedAlarm ne account (cn_kind c) (cn_title c) (cn_body c) (cn_metadata c) = (title, body)"
      by fastforce
    define n where "n = \<lparr>nt_id = i, nt_account = account, nt_workspace = d_workspace d, nt_daemon = d_id d,
      nt_kind = cn_kind c, nt_title = title, nt_subtitle = cn_subtitle c, nt_body = body,
      nt_metadata = cn_metadata c, nt_read = None, nt_created = ce_now ce\<rparr>"
    have out: "deliver ce ne d account i eid c prefs notes =
       (case (if ce_fault ce 3 then None else insert_row nt_id n notes) of
             None \<Rightarrow> (notes, [], Inl DbError)
           | Some notes' \<Rightarrow>
               (if level = PrefNormal then
                  (case publishNotification ne d eid n of
                     (events, Inl e) \<Rightarrow> (notes', events, Inl e)
                   | (events, Inr _) \<Rightarrow> (notes', events, Inr (Some (notificationView n))))
                else (notes', [], Inr (Some (notificationView n)))))"
      using Inr tb False by (cases level) (simp_all add: deliver_def n_def Let_def cong: option.case_cong)
    show ?thesis
    proof (cases "if ce_fault ce 3 then None else insert_row nt_id n notes")
      case None
      then have "res = Inl DbError" "notes' = notes" "events = []" using assms out by simp_all
      then show ?thesis by simp
    next
      case (Some rows)
      then have rows: "rows = notes @ [n]" by (simp add: insert_row_Some split: if_splits)
      obtain evs r where pub: "publishNotification ne d eid n = (evs, r)" by fastforce
      have n: "nt_id n = i" "nt_account n = account" "nt_workspace n = d_workspace d" "nt_daemon n = d_id d"
        "nt_kind n = cn_kind c" "nt_read n = None" by (simp_all add: n_def)
      show ?thesis
      proof (cases "level = PrefNormal")
        case True
        show ?thesis
          using assms out Some rows pub True eff n
          by (cases r; cases "ne_publisher ne")
            (auto simp: follows_policy_def publishNotification_cases split: option.splits)
      next
        case sil: False
        then have "notes' = notes @ [n]" "events = []" "res = Inr (Some (notificationView n))"
          using assms out Some rows by simp_all
        then show ?thesis using eff n sil False by (simp add: follows_policy_def)
      qed
    qed
  qed
qed

lemma checked_kind:
  "check_report ne q = Inr c \<Longrightarrow> cn_kind c = trim_space (ni_kind q)"
  "check_push ne q = Inr c \<Longrightarrow> cn_kind c = trim_space (ni_kind q)"
  by (auto simp: check_report_def check_push_def bound_def Let_def split: if_splits)

lemma CreateNotification_cases:
  assumes "CreateNotification ce ne ds daemonID secret q i eid prefs notes = (notes', events, res)"
  shows "(\<exists>e. res = Inl e \<and> notes' = notes \<and> events = []) \<or>
    (\<exists>d. authenticateDaemon ce ds daemonID secret = Inr d \<and>
       follows_policy ne d (d_account d) i eid (trim_space (ni_kind q))
         (effective (policy prefs) (d_account d) (d_workspace d) (d_id d) (trim_space (ni_kind q)))
         notes (notes', events, res))"
proof (cases "rbind (authenticateDaemon ce ds daemonID secret) (\<lambda>d. rbind (check_report ne q) (\<lambda>c. Inr (d, c)))")
  case (Inl e)
  then show ?thesis using assms by (auto simp: CreateNotification_def)
next
  case (Inr dc)
  then obtain d c where dc: "dc = (d, c)" "authenticateDaemon ce ds daemonID secret = Inr d" "check_report ne q = Inr c"
    by auto
  have "deliver ce ne d (d_account d) i eid c prefs notes = (notes', events, res)"
    using assms Inr dc(1) by (simp add: CreateNotification_def)
  then show ?thesis using deliver_cases dc(2) checked_kind(1) [OF dc(3)] by metis
qed

lemma CreatePushNotification_cases:
  assumes "CreatePushNotification ce ne ds account daemonID q i eid prefs notes = (notes', events, res)"
  shows "(\<exists>e. res = Inl e \<and> notes' = notes \<and> events = []) \<or>
    (\<exists>d. daemonForAccount ce ds account daemonID = Inr d \<and>
       follows_policy ne d account i eid (trim_space (ni_kind q))
         (effective (policy prefs) account (d_workspace d) (d_id d) (trim_space (ni_kind q)))
         notes (notes', events, res))"
proof (cases "rbind (daemonForAccount ce ds account daemonID) (\<lambda>d. rbind (check_push ne q) (\<lambda>c. Inr (d, c)))")
  case (Inl e)
  then show ?thesis using assms by (auto simp: CreatePushNotification_def)
next
  case (Inr dc)
  then obtain d c where dc: "dc = (d, c)" "daemonForAccount ce ds account daemonID = Inr d" "check_push ne q = Inr c"
    by auto
  have "deliver ce ne d account i eid c prefs notes = (notes', events, res)"
    using assms Inr dc(1) by (simp add: CreatePushNotification_def)
  then show ?thesis using deliver_cases dc(2) checked_kind(2) [OF dc(3)] by metis
qed

text \<open>C15: A notification is delivered as the preference of its account for its topic says, the daemon's own before the
account-wide one: a rejected topic stores and publishes nothing, a silent one is stored and not published, a normal one is
stored and handed to the publisher exactly once, with its own row's fields. A call that fails has stored nothing,
except that a failed publication keeps the row. It holds for the daemon's call and for the member's.\<close>

theorem delivery_follows_policy:
  "(case CreateNotification ce ne ds daemonID secret q i eid prefs notes of (notes', events, res) \<Rightarrow>
      (\<exists>e. res = Inl e \<and> notes' = notes \<and> events = []) \<or>
      (\<exists>d. authenticateDaemon ce ds daemonID secret = Inr d \<and>
         follows_policy ne d (d_account d) i eid (trim_space (ni_kind q))
           (effective (policy prefs) (d_account d) (d_workspace d) (d_id d) (trim_space (ni_kind q)))
           notes (notes', events, res)))
   \<and> (case CreatePushNotification ce ne ds account daemonID q i eid prefs notes of (notes', events, res) \<Rightarrow>
      (\<exists>e. res = Inl e \<and> notes' = notes \<and> events = []) \<or>
      (\<exists>d. daemonForAccount ce ds account daemonID = Inr d \<and>
         follows_policy ne d account i eid (trim_space (ni_kind q))
           (effective (policy prefs) account (d_workspace d) (d_id d) (trim_space (ni_kind q)))
           notes (notes', events, res)))"
proof (rule conjI)
  obtain n1 e1 r1 where 1: "CreateNotification ce ne ds daemonID secret q i eid prefs notes = (n1, e1, r1)"
    by (metis prod_cases3)
  show "case CreateNotification ce ne ds daemonID secret q i eid prefs notes of (notes', events, res) \<Rightarrow>
      (\<exists>e. res = Inl e \<and> notes' = notes \<and> events = []) \<or>
      (\<exists>d. authenticateDaemon ce ds daemonID secret = Inr d \<and>
         follows_policy ne d (d_account d) i eid (trim_space (ni_kind q))
           (effective (policy prefs) (d_account d) (d_workspace d) (d_id d) (trim_space (ni_kind q)))
           notes (notes', events, res))"
    unfolding 1 prod.case by (rule CreateNotification_cases [OF 1])
  obtain n2 e2 r2 where 2: "CreatePushNotification ce ne ds account daemonID q i eid prefs notes = (n2, e2, r2)"
    by (metis prod_cases3)
  show "case CreatePushNotification ce ne ds account daemonID q i eid prefs notes of (notes', events, res) \<Rightarrow>
      (\<exists>e. res = Inl e \<and> notes' = notes \<and> events = []) \<or>
      (\<exists>d. daemonForAccount ce ds account daemonID = Inr d \<and>
         follows_policy ne d account i eid (trim_space (ni_kind q))
           (effective (policy prefs) account (d_workspace d) (d_id d) (trim_space (ni_kind q)))
           notes (notes', events, res))"
    unfolding 2 prod.case by (rule CreatePushNotification_cases [OF 2])
qed

text \<open>The daemon's identity in a published event is the cloud's, whatever the daemon put in its metadata.\<close>

lemma identified_authoritative:
  "map_of (identified ne d m) ''daemon_id'' = Some (JString (d_id d))"
  "map_of (identified ne d m) ''daemon_name'' = Some (JString (d_name d))"
  "d_hostID d \<noteq> [] \<Longrightarrow> map_of (identified ne d m) ''host_id'' = Some (JString (d_hostID d))"
  "k \<notin> {''daemon_id'', ''daemon_name'', ''host_id''} \<Longrightarrow> m \<noteq> [] \<Longrightarrow> ne_object ne m = Some fs \<Longrightarrow>
     map_of (identified ne d m) k = map_of fs k"
  by (auto simp: identified_def Let_def split: option.splits)

end
