(* ===== verification/Cloud_Fleet_Facts.thy ===== *)
theory Cloud_Fleet_Facts
  imports Cloud_Fleet
begin

text \<open>
  The quota of daemons, the life of a daemon's secret, and the reported actions read back.
\<close>

section \<open>The quota of a workspace\<close>

lemma workspaceQuota_ok:
  "workspaceQuota ce w = Inr q \<longleftrightarrow> (\<exists>wc. ce_workspaces ce = Some wc \<and> wc_quota wc w = Inr q)"
  by (auto simp: workspaceQuota_def split: option.splits)

lemma CreateDaemon_ok:
  assumes "CreateDaemon ce account workspace name i minted ds = (ds', Inr (view, secret))"
  obtains q hash d where "workspaceQuota ce (trim_space workspace) = Inr q" "minted = Inr (secret, hash)"
    "authorizeWorkspace ce account (trim_space workspace) = Inr ()" "trim_space name \<noteq> []"
    "int (in_workspace (trim_space workspace) ds) < q ''max_daemons''"
    "d = new_daemon ce account (trim_space workspace) (trim_space name) i hash"
    "i \<notin> d_id ` set ds" "ds' = ds @ [d]" "view = viewDaemon d"
proof -
  let ?w = "trim_space workspace"
  obtain q where q: "authorizeWorkspace ce account ?w = Inr ()" "workspaceQuota ce ?w = Inr q"
    using assms by (auto simp: CreateDaemon_def Let_def split: if_splits sum.splits)
  obtain s hash where m: "minted = Inr (s, hash)"
    using assms q by (auto simp: CreateDaemon_def Let_def split: if_splits sum.splits)
  have "insert_row d_id (new_daemon ce account ?w (trim_space name) i hash) ds = Some ds'"
    "int (in_workspace ?w ds) < q ''max_daemons''" "trim_space name \<noteq> []" "secret = s"
    "view = viewDaemon (new_daemon ce account ?w (trim_space name) i hash)"
    using assms q m by (auto simp: CreateDaemon_def Let_def split: if_split_asm option.split_asm)
  then show thesis using that q m by (auto simp: insert_row_Some new_daemon_def)
qed


definition fleet_members :: workspace_client where
  "fleet_members = \<lparr>wc_member = (\<lambda>w a. Inr (w = ''w1'' \<and> a = ''ann'')),
     wc_quota = (\<lambda>_. Inr (\<lambda>k. if k = ''max_daemons'' then 1 else 0))\<rparr>"

definition fleet_cloud :: "time \<Rightarrow> cloud_env" where
  "fleet_cloud now = \<lparr>ce_workspaces = Some fleet_members, ce_bcrypt = (\<lambda>h s. h = ''#'' @ s), ce_sha256 = id,
     ce_now = now, ce_fault = (\<lambda>_. False)\<rparr>"

definition demo_daemon :: daemon where
  "demo_daemon = new_daemon (fleet_cloud 5) ''ann'' ''w1'' ''host'' ''d1'' ''#s1''"

lemma demo_create:
  "CreateDaemon (fleet_cloud 5) ''ann'' '' w1'' ''host '' ''d1'' (Inr (''s1'', ''#s1'')) [] =
     ([demo_daemon], Inr (viewDaemon demo_daemon, ''s1''))"
  by code_simp


section \<open>Secrets\<close>

lemma RotateSecret_ok:
  assumes "RotateSecret ce account i (Inr (secret, hash)) ds = (ds', Inr s)"
  obtains d where "daemon_row ds i = Some d" "confirmed_member ce d account" "s = secret"
    "ds' = save_daemon ce (d\<lparr>d_secretHash := hash\<rparr>) ds"
  using assms by (auto simp: RotateSecret_def daemonForAccount_ok split: sum.splits if_splits)

text \<open>After a rotation, exactly the secrets that match the new hash authenticate the daemon, if it is enabled; the old
one is worth nothing, nothing else of the row changes but its time, and no other daemon is touched.\<close>

theorem rotation_replaces_secret:
  assumes "RotateSecret ce account i (Inr (secret, hash)) ds = (ds', Inr s)" and "\<not> ce_fault ce' 0"
  shows "\<exists>d. daemon_row ds i = Some d \<and> confirmed_member ce d account \<and>
    (is_ok (authenticateDaemon ce' ds' i x) \<longleftrightarrow> d_enabled d \<and> ce_bcrypt ce' hash x) \<and>
    daemon_row ds' i = Some (d\<lparr>d_secretHash := hash, d_updated := ce_now ce\<rparr>) \<and>
    (j \<noteq> i \<longrightarrow> daemon_row ds' j = daemon_row ds j)"
proof -
  obtain d where d: "daemon_row ds i = Some d" "confirmed_member ce d account"
    "ds' = save_daemon ce (d\<lparr>d_secretHash := hash\<rparr>) ds" using assms(1) by (rule RotateSecret_ok)
  have id: "d_id d = i" using daemon_row_Some [OF d(1)] by simp
  have row: "daemon_row ds' i = Some (d\<lparr>d_secretHash := hash, d_updated := ce_now ce\<rparr>)"
    unfolding d(3) using id d(1) by (subst daemon_row_save) auto
  have "daemon_row ds' j = daemon_row ds j" if "j \<noteq> i"
    unfolding d(3) using id that by (intro daemon_row_save_other) simp
  moreover have "is_ok (authenticateDaemon ce' ds' i x) \<longleftrightarrow> d_enabled d \<and> ce_bcrypt ce' hash x"
    using assms(2) by (auto simp: authenticateDaemon_def row)
  ultimately show ?thesis using d row by blast
qed

theorem rotation_replaces_secret_witness:
  "\<exists>d. daemon_row [demo_daemon] ''d1'' = Some d \<and>
    (is_ok (authenticateDaemon (fleet_cloud 9) (fst (RotateSecret (fleet_cloud 8) ''ann'' ''d1'' (Inr (''s2'', ''#s2'')) [demo_daemon])) ''d1'' ''s1'')
       \<longleftrightarrow> d_enabled d \<and> ''#s2'' = ''#s1'')"
proof -
  have r: "RotateSecret (fleet_cloud 8) ''ann'' ''d1'' (Inr (''s2'', ''#s2'')) [demo_daemon] =
    (fst (RotateSecret (fleet_cloud 8) ''ann'' ''d1'' (Inr (''s2'', ''#s2'')) [demo_daemon]), Inr ''s2'')" by code_simp
  show ?thesis using rotation_replaces_secret [OF r, of "fleet_cloud 9" "''s1''"] by (auto simp: fleet_cloud_def)
qed

section \<open>A disabled daemon\<close>

text \<open>The calls that write daemons, but for the one that enables daemon \<open>i\<close> again. \<open>beat\<close> is what a metric or a
disconnect check writes.\<close>

inductive fleet_call :: "string \<Rightarrow> daemon list \<Rightarrow> daemon list \<Rightarrow> bool" for i where
  created: "CreateDaemon ce account w name j minted ds = (ds', r) \<Longrightarrow> fleet_call i ds ds'"
| updated: "UpdateDaemon ce account j name enabled relay ds = (ds', r) \<Longrightarrow> j \<noteq> i \<or> enabled \<noteq> Some True \<Longrightarrow>
     fleet_call i ds ds'"
| rotated: "RotateSecret ce account j minted ds = (ds', r) \<Longrightarrow> fleet_call i ds ds'"
| disabled: "DisableDaemon ce account j ds = (ds', r) \<Longrightarrow> fleet_call i ds ds'"
| beat: "(\<And>d. d_id (f d) = d_id d \<and> d_enabled (f d) = d_enabled d) \<Longrightarrow> fleet_call i ds (update_where P f ds)"

inductive fleet_calls :: "string \<Rightarrow> daemon list \<Rightarrow> daemon list \<Rightarrow> bool" for i where
  none: "fleet_calls i ds ds"
| more: "fleet_calls i ds ds' \<Longrightarrow> fleet_call i ds' ds'' \<Longrightarrow> fleet_calls i ds ds''"

definition locked_out :: "string \<Rightarrow> daemon list \<Rightarrow> bool" where
  "locked_out i ds \<longleftrightarrow> i \<in> d_id ` set ds \<and> list_all (\<lambda>d. d_id d = i \<longrightarrow> \<not> d_enabled d) ds"

lemma locked_out_auth: "locked_out i ds \<Longrightarrow> authenticateDaemon ce ds i secret = Inl ErrUnauthorized"
  using daemon_row_Some [of ds i] by (auto simp: authenticateDaemon_def locked_out_def list_all_iff split: option.splits)

lemma locked_out_update:
  assumes "locked_out i ds" "\<And>d. P d \<Longrightarrow> d_id (f d) = d_id d" "\<And>d. d \<in> set ds \<Longrightarrow> P d \<Longrightarrow> d_id d = i \<Longrightarrow> \<not> d_enabled (f d)"
  shows "locked_out i (update_where P f ds)"
proof -
  have "map d_id (update_where P f ds) = map d_id ds" using assms(2) by (simp add: update_where_def)
  then have "i \<in> d_id ` set (update_where P f ds)" using assms(1) by (metis list.set_map locked_out_def)
  then show ?thesis using assms by (auto simp: locked_out_def list_all_iff set_update_where)
qed

lemma locked_out_row: "locked_out i ds \<Longrightarrow> daemon_row ds i = Some d \<Longrightarrow> \<not> d_enabled d"
  using daemon_row_Some [of ds i d] by (auto simp: locked_out_def list_all_iff)

lemma locked_out_save:
  assumes "locked_out i ds" "d_id d = i \<Longrightarrow> \<not> d_enabled d"
  shows "locked_out i (save_daemon ce d ds)"
  unfolding save_daemon_def using assms by (intro locked_out_update) auto

lemma fleet_call_locked:
  assumes "fleet_call i ds ds'" "locked_out i ds"
  shows "locked_out i ds'"
  using assms
proof cases
  case (created ce account w name j minted r)
  show ?thesis
  proof (cases r)
    case (Inl e)
    then have "ds' = ds" using created by (auto simp: CreateDaemon_def Let_def split: if_splits sum.splits option.splits)
    then show ?thesis using assms(2) by simp
  next
    case (Inr vs)
    obtain view secret where vs: "vs = (view, secret)" by fastforce
    have "CreateDaemon ce account w name j minted ds = (ds', Inr (view, secret))" using created Inr vs by simp
    then obtain q hash d where "workspaceQuota ce (trim_space w) = Inr q" "minted = Inr (secret, hash)"
      and d: "d = new_daemon ce account (trim_space w) (trim_space name) j hash" "j \<notin> d_id ` set ds" "ds' = ds @ [d]"
      by (rule CreateDaemon_ok) blast
    then have "d_id d \<noteq> i" using assms(2) by (auto simp: new_daemon_def locked_out_def)
    then show ?thesis using assms(2) d(3) by (auto simp: locked_out_def)
  qed
next
  case (updated ce account j name enabled relay r)
  show ?thesis
  proof (cases "ds' = ds")
    case False
    then obtain d where d: "daemon_row ds j = Some d" "ds' = save_daemon ce (edited name enabled relay d) ds"
      using updated(1) by (auto simp: UpdateDaemon_def Let_def daemonForAccount_ok split: sum.splits if_splits)
    have "\<not> d_enabled (edited name enabled relay d)" if "d_id d = i"
    proof -
      have "j = i" using that daemon_row_Some [OF d(1)] by simp
      then show ?thesis using updated(2) locked_out_row [OF assms(2)] d(1)
        by (auto simp: edited_def Let_def split: option.splits)
    qed
    then show ?thesis unfolding d(2) using assms(2) by (intro locked_out_save) auto
  qed (use assms in simp)
next
  case (rotated ce account j minted r)
  show ?thesis
  proof (cases "ds' = ds")
    case False
    then obtain d hash where d: "daemon_row ds j = Some d" "ds' = save_daemon ce (d\<lparr>d_secretHash := hash\<rparr>) ds"
      using rotated by (auto simp: RotateSecret_def daemonForAccount_ok split: sum.splits if_splits)
    have "\<not> d_enabled d" if "d_id d = i" using that daemon_row_Some [OF d(1)] locked_out_row [OF assms(2)] d(1) by simp
    then show ?thesis unfolding d(2) using assms(2) by (intro locked_out_save) auto
  qed (use assms in simp)
next
  case (disabled ce account j r)
  show ?thesis
  proof (cases "ds' = ds")
    case False
    then obtain d where d: "daemon_row ds j = Some d"
      "ds' = update_where (\<lambda>x. d_id x = d_id d) (\<lambda>x. x\<lparr>d_disconnected := None, d_updated := ce_now ce\<rparr>)
         (save_daemon ce (d\<lparr>d_enabled := False\<rparr>) ds)"
      using disabled by (auto simp: DisableDaemon_def daemonForAccount_ok split: sum.splits if_splits)
    have s: "locked_out i (save_daemon ce (d\<lparr>d_enabled := False\<rparr>) ds)" using assms(2) by (intro locked_out_save) auto
    then show ?thesis unfolding d(2) by (intro locked_out_update) (auto simp: locked_out_def list_all_iff)
  qed (use assms in simp)
next
  case (beat f P)
  show ?thesis unfolding beat(1)
    using assms(2) beat(2) by (intro locked_out_update) (auto simp: locked_out_def list_all_iff)
qed



section \<open>Actions\<close>

lemma check_action_ok:
  "check_action (names, out) a = Inr acc \<Longrightarrow> trim_space (ai_name a) \<notin> set names \<and>
     acc = (trim_space (ai_name a) # names,
            out @ [a\<lparr>ai_name := trim_space (ai_name a), ai_display := trim_space (ai_display a)\<rparr>])"
  by (auto simp: check_action_def Let_def split: if_splits)

lemma check_actions:
  assumes "rfold check_action (names, out) input = Inr (names', out')"
    and "set names = set (map ai_name out)" "distinct (map ai_name out)"
  shows "out' = out @ map (\<lambda>a. a\<lparr>ai_name := trim_space (ai_name a), ai_display := trim_space (ai_display a)\<rparr>) input \<and>
    distinct (map ai_name out')"
  using assms
proof (induction input arbitrary: names out)
  case (Cons a input)
  let ?a = "a\<lparr>ai_name := trim_space (ai_name a), ai_display := trim_space (ai_display a)\<rparr>"
  from Cons.prems(1) have new: "trim_space (ai_name a) \<notin> set names"
    and rest: "rfold check_action (trim_space (ai_name a) # names, out @ [?a]) input = Inr (names', out')"
    by (auto dest!: check_action_ok)
  have "set (trim_space (ai_name a) # names) = set (map ai_name (out @ [?a]))" "distinct (map ai_name (out @ [?a]))"
    using new Cons.prems(2,3) by auto
  from Cons.IH [OF rest this] show ?case by (metis (no_types, lifting) append.assoc append_Cons append_Nil list.simps(9))
qed auto

lemma insort_key_map: "insort_key k (f x) (map f xs) = map f (insort_key (\<lambda>y. k (f y)) x xs)"
  by (induction xs) simp_all

lemma sort_key_map: "sort_key k (map f xs) = map f (sort_key (\<lambda>y. k (f y)) xs)"
  by (induction xs) (simp_all add: insort_key_map)

text \<open>What a daemon reports is what the members see: after a successful sync the list of its actions is the reported
one, names and display names trimmed, each name once and in the order of the names, whatever was listed before; the
actions of other daemons are untouched.\<close>

theorem actions_roundtrip:
  assumes "SyncActions ce ds i secret input rows = Inr rows'" and "ListActions ce' ds account i rows' = Inr views"
  shows "views = map (\<lambda>a. view_action (action_row_of (ce_now ce) i a))
      (sort_key ai_name (map (\<lambda>a. a\<lparr>ai_name := trim_space (ai_name a), ai_display := trim_space (ai_display a)\<rparr>) input)) \<and>
    distinct (map av_name views) \<and> sorted (map av_name views) \<and>
    (j \<noteq> i \<longrightarrow> ListActions ce' ds account j rows' = ListActions ce' ds account j rows)"
proof -
  let ?in = "map (\<lambda>a. a\<lparr>ai_name := trim_space (ai_name a), ai_display := trim_space (ai_display a)\<rparr>) input"
  obtain d names checked where d: "authenticateDaemon ce ds i secret = Inr d"
    and c: "rfold check_action ([], []) input = Inr (names, checked)"
    and rows': "rows' = filter (\<lambda>r. ar_daemon r \<noteq> d_id d) rows @ map (action_row_of (ce_now ce) (d_id d)) checked"
    using assms(1) by (auto simp: SyncActions_def split: sum.splits if_splits)
  have id: "d_id d = i" using d daemon_row_Some by (auto simp: authenticateDaemon_ok)
  have checked: "checked = ?in" "distinct (map ai_name ?in)" using check_actions [OF c] by auto
  have mine: "filter (\<lambda>r. ar_daemon r = i) rows' = map (action_row_of (ce_now ce) i) ?in"
    unfolding rows' id checked by (simp add: filter_map comp_def action_row_of_def)
  have sorted: "sort_key ar_name (map (action_row_of (ce_now ce) i) xs) = map (action_row_of (ce_now ce) i) (sort_key ai_name xs)"
    for xs by (simp add: sort_key_map action_row_of_def)
  have views: "views = map view_action (map (action_row_of (ce_now ce) i) (sort_key ai_name ?in))"
    using assms(2) unfolding ListActions_def mine sorted [of ?in, symmetric] by (auto split: if_splits)
  have names: "map av_name views = map ai_name (sort_key ai_name ?in)"
    unfolding views by (simp add: view_action_def action_row_of_def comp_def)
  have sort: "map ai_name (sort_key ai_name ?in) = sort (map ai_name ?in)" by (rule sort_key_map [symmetric])
  have distinct: "distinct (map av_name views)" unfolding names sort distinct_sort by (rule checked(2))
  have sorted_views: "sorted (map av_name views)" unfolding names by (rule sorted_sort_key)
  have shape: "views = map (\<lambda>a. view_action (action_row_of (ce_now ce) i a)) (sort_key ai_name ?in)"
    unfolding views by (simp only: map_map comp_def)
  have "ListActions ce' ds account j rows' = ListActions ce' ds account j rows" if "j \<noteq> i"
  proof -
    have mine_j: "ar_daemon (action_row_of (ce_now ce) i a) \<noteq> j" for a using that by (simp add: action_row_of_def)
    have "filter (\<lambda>r. ar_daemon r = j) (map (action_row_of (ce_now ce) i) xs) = []" for xs
      using mine_j by (auto simp: filter_empty_conv)
    moreover have "filter (\<lambda>r. ar_daemon r = j) (filter (\<lambda>r. ar_daemon r \<noteq> i) rows) = filter (\<lambda>r. ar_daemon r = j) rows"
      using that by (simp add: filter_filter) (metis (mono_tags, lifting))
    ultimately have "filter (\<lambda>r. ar_daemon r = j) rows' = filter (\<lambda>r. ar_daemon r = j) rows"
      unfolding rows' id by simp
    then show ?thesis by (simp add: ListActions_def)
  qed
  then show ?thesis using shape distinct sorted_views by blast
qed

theorem actions_roundtrip_witness:
  "\<exists>views. ListActions (fleet_cloud 9) [demo_daemon] ''ann'' ''d1''
      [action_row_of 9 ''d1'' \<lparr>ai_name = ''deploy'', ai_display = [], ai_enabled = True, ai_onSuccess = False,
         ai_onFailure = True, ai_timeout = ''30s'', ai_cwd = [], ai_user = []\<rparr>] = Inr views \<and>
    distinct (map av_name views) \<and> sorted (map av_name views)"
proof -
  let ?a = "\<lparr>ai_name = '' deploy'', ai_display = [], ai_enabled = True, ai_onSuccess = False,
         ai_onFailure = True, ai_timeout = ''30s'', ai_cwd = [], ai_user = []\<rparr>"
  let ?r = "action_row_of 9 ''d1'' \<lparr>ai_name = ''deploy'', ai_display = [], ai_enabled = True, ai_onSuccess = False,
         ai_onFailure = True, ai_timeout = ''30s'', ai_cwd = [], ai_user = []\<rparr>"
  have 1: "SyncActions (fleet_cloud 9) [demo_daemon] ''d1'' ''s1'' [?a] [] = Inr [?r]" by code_simp
  have 2: "ListActions (fleet_cloud 9) [demo_daemon] ''ann'' ''d1'' [?r] = Inr [view_action ?r]" by code_simp
  show ?thesis using actions_roundtrip [OF 1 2] 2 by blast
qed

end
