(* ===== verification/Cloud_Metrics_Facts.thy ===== *)
theory Cloud_Metrics_Facts
  imports Cloud_Metrics Cloud_Notify_Facts Cloud_Fleet_Facts
begin

text \<open>
  Poll pacing holds between the accepted reports of a daemon; a report is a heartbeat; the
  disconnect check settles every enabled daemon; alarms of one daemon keep their distance.
\<close>

section \<open>Pacing\<close>

lemma map_of_filter_keeps:
  "map_of m k = Some v \<Longrightarrow> P (k, v) \<Longrightarrow> map_of (filter P m) k = Some v"
  by (induction m) (auto split: if_splits)

lemma map_of_filter_first:
  "distinct (map fst m) \<Longrightarrow> map_of (filter P m) k = Some v \<Longrightarrow> map_of m k = Some v"
  by (metis (mono_tags, lifting) map_of_SomeD map_of_eq_Some_iff mem_Collect_eq set_filter)

definition poll_wait :: "(string \<Rightarrow> int) \<Rightarrow> int" where
  "poll_wait quotas = int64 (quotas ''polling_interval_seconds'' * 1000000000)"

lemma poll_wait_seconds:
  "quotas ''polling_interval_seconds'' = int n \<Longrightarrow> n \<le> 3600 \<Longrightarrow> poll_wait quotas = seconds n"
  by (simp add: poll_wait_def int64_def seconds_def)

text \<open>A sequence of calls, each with its daemon, its workspace's quotas and its time.\<close>

fun paced_calls :: "(string \<times> (string \<Rightarrow> int) \<times> time) list \<Rightarrow> (string \<times> time) list \<Rightarrow> (string \<times> time) list" where
  "paced_calls [] hits = hits"
| "paced_calls ((d, quotas, now) # calls) hits = paced_calls calls (fst (enforcePollInterval d quotas now hits))"

lemma enforce_keeps_hit:
  assumes "map_of hits d = Some t1" and "t1 \<le> t" and "t - t1 \<le> seconds 3600"
    and "d' = d \<Longrightarrow> 0 < quotas ''polling_interval_seconds'' \<Longrightarrow> t - t1 < poll_wait quotas"
  shows "map_of (fst (enforcePollInterval d' quotas t hits)) d = Some t1"
proof -
  have keep: "map_of (filter (\<lambda>(i, hit). \<not> seconds 3600 < t - hit) (put d' t hits)) d = Some t1" if "d' \<noteq> d"
    using assms(1,3) that by (intro map_of_filter_keeps) auto
  show ?thesis
    using assms keep by (auto simp: enforcePollInterval_def Let_def poll_wait_def split: option.splits)
qed

lemma enforce_accepts:
  assumes "enforcePollInterval d quotas now hits = (hits', Inr ())" "0 < quotas ''polling_interval_seconds''"
  shows "map_of hits' d = Some now"
proof -
  have "map_of (filter (\<lambda>(i, hit). \<not> seconds 3600 < now - hit) (put d now hits)) d = Some now"
    by (intro map_of_filter_keeps) (auto simp: not_less)
  then show ?thesis using assms by (auto simp: enforcePollInterval_def Let_def split: option.splits if_splits)
qed

lemma paced_calls_keep:
  assumes "map_of hits d = Some t1"
    and "\<And>d' quotas' t. (d', quotas', t) \<in> set calls \<Longrightarrow> t1 \<le> t \<and> t - t1 < seconds n \<and> (d' = d \<longrightarrow> poll_wait quotas' = seconds n)"
    and "n \<le> 3600"
  shows "map_of (paced_calls calls hits) d = Some t1"
  using assms
proof (induction calls hits rule: paced_calls.induct)
  case (2 d' quotas' t calls hits)
  have n: "seconds n \<le> seconds 3600" using 2(4) by simp
  have t: "t1 \<le> t" "t - t1 < seconds n" "d' = d \<Longrightarrow> poll_wait quotas' = seconds n" using 2(3) [of d' quotas' t] by auto
  have "map_of (fst (enforcePollInterval d' quotas' t hits)) d = Some t1"
    using 2(2) t(1,3) less_le_trans [OF t(2) n] t(2) by (intro enforce_keeps_hit) auto
  then show ?case using 2(1) 2(3,4) by auto
qed simp

text \<open>A daemon's accepted report closes the door for its workspace's polling interval, up to an hour: however many
other calls are made meanwhile, for this daemon or others, and although the table of hits is pruned, a report inside the
interval is refused as rate limited and leaves the table as it is.\<close>

theorem poll_interval_enforced:
  assumes "enforcePollInterval d quotas t1 hits = (hits1, Inr ())"
    and "quotas ''polling_interval_seconds'' = int n" "0 < n" "n \<le> 3600"
    and "\<forall>(d', quotas', t) \<in> set calls. t1 \<le> t \<and> t - t1 < seconds n \<and> (d' = d \<longrightarrow> quotas' = quotas)"
    and "t2 - t1 < seconds n"
  shows "enforcePollInterval d quotas t2 (paced_calls calls hits1) = (paced_calls calls hits1, Inl ErrRateLimited)"
proof -
  have w: "poll_wait quotas = seconds n" using assms(2,4) by (rule poll_wait_seconds)
  have "map_of hits1 d = Some t1" using assms(1-3) by (intro enforce_accepts) auto
  then have "map_of (paced_calls calls hits1) d = Some t1"
    by (rule paced_calls_keep) (use assms(4,5) w in auto)
  then show ?thesis using assms(2,3,6) w by (simp add: enforcePollInterval_def poll_wait_def Let_def)
qed

theorem poll_interval_enforced_witness:
  "enforcePollInterval ''d1'' (\<lambda>_. 60) 59000000000 (paced_calls [(''d2'', (\<lambda>_. 0), 5)] [(''d1'', 0)]) =
     (paced_calls [(''d2'', (\<lambda>_. 0), 5)] [(''d1'', 0)], Inl ErrRateLimited)"
proof -
  have 1: "enforcePollInterval ''d1'' (\<lambda>_. 60) 0 [] = ([(''d1'', 0)], Inr ())"
    by (simp add: enforcePollInterval_def pollMemory_def)
  show ?thesis
    by (rule poll_interval_enforced [OF 1, of 60]) (simp_all add: seconds_def)
qed

section \<open>A report is a heartbeat\<close>

lemma daemon_row_update:
  "(\<And>x. d_id (f x) = d_id x) \<Longrightarrow>
     daemon_row (update_where P f ds) i = map_option (\<lambda>x. if P x then f x else x) (daemon_row ds i)"
  by (induction ds) (auto simp: daemon_row_def update_where_def)

lemma beat_id [simp]: "d_id (beat now d q x) = d_id x" "d_disconnected (beat now d q x) = d_disconnected x"
  by (simp_all add: beat_def Let_def)

lemma reconnect_id [simp]: "d_id (reconnect now x) = d_id x" by (simp add: reconnect_def)

lemma notify_reconnected_tables:
  "notify_reconnected ce ne tt d i eid prefs s = (s', evs, r) \<Longrightarrow>
     fl_daemons s' = fl_daemons s \<and> fl_metrics s' = fl_metrics s \<and> fl_hits s' = fl_hits s \<and>
     (fl_notes s' = fl_notes s \<or> fl_notes s' = fl_notes s @ [reconnected_note ne tt (ce_now ce) d i])"
  by (auto simp: notify_reconnected_def Let_def insert_row_Some split: sum.splits if_splits option.splits prod.splits)

lemma IngestMetric_ok:
  assumes "IngestMetric ce ne tt daemonID secret q i ni eid prefs s = (s', evs, Inr ())"
  obtains d quotas hits s4 where "authenticateDaemon ce (fl_daemons s) daemonID secret = Inr d" "metric_ok q"
    "workspaceQuota ce (d_workspace d) = Inr quotas"
    "enforcePollInterval (d_id d) quotas (ce_now ce) (fl_hits s) = (hits, Inr ())"
    "\<not> (0 < clampRetentionDays (quotas ''metrics_retention_days'') \<and>
        mi_sentAt q < retention_cutoff (ce_now ce) (clampRetentionDays (quotas ''metrics_retention_days'')))"
    "s4 = s\<lparr>fl_hits := hits, fl_metrics := fl_metrics s @ [new_metric ce d i q],
       fl_daemons := update_where (silent_daemon (d_id d)) (reconnect (ce_now ce))
         (update_where (is_daemon (d_id d)) (beat (ce_now ce) d q) (fl_daemons s))\<rparr>"
    "if affected (silent_daemon (d_id d)) (fl_daemons s) = 1
     then notify_reconnected ce ne tt d ni eid prefs s4 = (s', evs, Inr ()) else s' = s4 \<and> evs = []"
proof -
  obtain d where d: "authenticateDaemon ce (fl_daemons s) daemonID secret = Inr d" "metric_ok q"
    using assms by (auto simp: IngestMetric_def split: sum.splits if_splits)
  obtain quotas where quotas: "workspaceQuota ce (d_workspace d) = Inr quotas"
    using assms d by (auto simp: IngestMetric_def split: sum.splits)
  obtain hits u where h: "enforcePollInterval (d_id d) quotas (ce_now ce) (fl_hits s) = (hits, u)" by fastforce
  have u: "u = Inr ()" using assms d quotas h by (cases u) (auto simp: IngestMetric_def)
  have keep: "\<not> (0 < clampRetentionDays (quotas ''metrics_retention_days'') \<and>
        mi_sentAt q < retention_cutoff (ce_now ce) (clampRetentionDays (quotas ''metrics_retention_days'')))"
    using assms d quotas h u by (auto simp: IngestMetric_def Let_def)
  obtain metrics where m: "(if ce_fault ce 1 then None else insert_row mt_id (new_metric ce d i q) (fl_metrics s)) = Some metrics"
    using assms d quotas h u keep
    by (cases "if ce_fault ce 1 then None else insert_row mt_id (new_metric ce d i q) (fl_metrics s)")
      (auto simp: IngestMetric_def Let_def cong: if_cong)
  then have metrics: "metrics = fl_metrics s @ [new_metric ce d i q]" by (auto simp: insert_row_Some split: if_splits)
  have same: "affected (silent_daemon (d_id d)) (update_where (is_daemon (d_id d)) (beat (ce_now ce) d q) (fl_daemons s)) =
      affected (silent_daemon (d_id d)) (fl_daemons s)"
  proof -
    have "silent_daemon (d_id d) (if is_daemon (d_id d) x then beat (ce_now ce) d q x else x) \<longleftrightarrow> silent_daemon (d_id d) x" for x
      by (simp add: silent_daemon_def)
    then show ?thesis by (simp add: affected_def update_where_def filter_map comp_def)
  qed
  have f: "\<not> ce_fault ce 2" "\<not> ce_fault ce 3"
    using assms d quotas h u keep m by (auto simp: IngestMetric_def Let_def split: if_splits)
  define s4 where "s4 = s\<lparr>fl_hits := hits, fl_metrics := fl_metrics s @ [new_metric ce d i q],
       fl_daemons := update_where (silent_daemon (d_id d)) (reconnect (ce_now ce))
         (update_where (is_daemon (d_id d)) (beat (ce_now ce) d q) (fl_daemons s))\<rparr>"
  have "if affected (silent_daemon (d_id d)) (fl_daemons s) = 1
     then notify_reconnected ce ne tt d ni eid prefs s4 = (s', evs, Inr ()) else s' = s4 \<and> evs = []"
    using assms d quotas h u keep m f same metrics
    by (simp add: IngestMetric_def Let_def s4_def split: if_split_asm)
  then show thesis using that d quotas h u keep s4_def by simp
qed

lemma affected_one:
  assumes "distinct (map d_id ds)" "daemon_row ds i = Some d"
  shows "affected (silent_daemon i) ds = (if d_disconnected d = None then 0 else 1)"
  using assms
proof (induction ds)
  case (Cons x ds)
  show ?case
  proof (cases "d_id x = i")
    case True
    have "d_id r \<noteq> i" if "r \<in> set ds" for r
    proof -
      have "d_id x \<notin> d_id ` set ds" using Cons.prems(1) by simp
      then show ?thesis using that True by blast
    qed
    then have "affected (silent_daemon i) ds = 0" by (simp add: affected_0 silent_daemon_def)
    moreover have "d = x" using True Cons.prems(2) by (simp add: daemon_row_def)
    moreover have "silent_daemon i x \<longleftrightarrow> d_disconnected x \<noteq> None" using True by (simp add: silent_daemon_def)
    ultimately show ?thesis by (simp add: affected_def)
  next
    case False
    then have "\<not> silent_daemon i x" by (simp add: silent_daemon_def)
    then show ?thesis using Cons False by (simp add: affected_def daemon_row_def)
  qed
qed (simp add: daemon_row_def)

text \<open>An accepted metric is stored once, with the cloud's receive time, and is a heartbeat: its daemon's row has that time
as its last sign of life and is not disconnected, no other daemon changes, and a notification of the reconnection is made
exactly when the daemon was marked disconnected and its account does not reject the topic. Only a report within bounds,
under the secret of an enabled daemon and inside the retention window is accepted.\<close>

theorem ingest_is_heartbeat:
  assumes "IngestMetric ce ne tt daemonID secret q i ni eid prefs s = (s', evs, Inr ())"
    and "distinct (map d_id (fl_daemons s))"
  shows "\<exists>d d' quotas. authenticateDaemon ce (fl_daemons s) daemonID secret = Inr d \<and> metric_ok q \<and>
    workspaceQuota ce (d_workspace d) = Inr quotas \<and>
    (quotas ''metrics_retention_days'' \<le> 0 \<or>
       retention_cutoff (ce_now ce) (clampRetentionDays (quotas ''metrics_retention_days'')) \<le> mi_sentAt q) \<and>
    fl_metrics s' = fl_metrics s @ [new_metric ce d i q] \<and>
    daemon_row (fl_daemons s') daemonID = Some d' \<and> d_lastSeen d' = Some (ce_now ce) \<and> d_disconnected d' = None \<and>
    d_secretHash d' = d_secretHash d \<and> d_enabled d' \<and>
    (j \<noteq> daemonID \<longrightarrow> daemon_row (fl_daemons s') j = daemon_row (fl_daemons s) j) \<and>
    fl_notes s' = fl_notes s @
      (if d_disconnected d \<noteq> None \<and>
          effective (policy prefs) (d_account d) (d_workspace d) daemonID ''daemon.reconnected'' \<noteq> PrefReject
       then [reconnected_note ne tt (ce_now ce) d ni] else [])"
proof -
  obtain d quotas hits s4 where a: "authenticateDaemon ce (fl_daemons s) daemonID secret = Inr d" "metric_ok q"
    "workspaceQuota ce (d_workspace d) = Inr quotas"
    and keep: "\<not> (0 < clampRetentionDays (quotas ''metrics_retention_days'') \<and>
        mi_sentAt q < retention_cutoff (ce_now ce) (clampRetentionDays (quotas ''metrics_retention_days'')))"
    and s4: "s4 = s\<lparr>fl_hits := hits, fl_metrics := fl_metrics s @ [new_metric ce d i q],
       fl_daemons := update_where (silent_daemon (d_id d)) (reconnect (ce_now ce))
         (update_where (is_daemon (d_id d)) (beat (ce_now ce) d q) (fl_daemons s))\<rparr>"
    and fin: "if affected (silent_daemon (d_id d)) (fl_daemons s) = 1
     then notify_reconnected ce ne tt d ni eid prefs s4 = (s', evs, Inr ()) else s' = s4 \<and> evs = []"
    using assms(1) by (rule IngestMetric_ok) blast
  have d: "daemon_row (fl_daemons s) daemonID = Some d" "d_enabled d" "d_id d = daemonID"
    using a(1) daemon_row_Some by (auto simp: authenticateDaemon_ok)
  have was: "affected (silent_daemon (d_id d)) (fl_daemons s) = (if d_disconnected d = None then 0 else 1)"
    unfolding d(3) by (rule affected_one [OF assms(2) d(1)])
  have tabs: "fl_daemons s' = fl_daemons s4" "fl_metrics s' = fl_metrics s4"
    using fin notify_reconnected_tables by (auto split: if_splits)
  let ?f = "\<lambda>x. if silent_daemon daemonID x then reconnect (ce_now ce) x else x"
  let ?g = "\<lambda>x. if is_daemon daemonID x then beat (ce_now ce) d q x else x"
  have row: "daemon_row (fl_daemons s') j' = map_option (\<lambda>x. ?f (?g x)) (daemon_row (fl_daemons s) j')" for j'
    unfolding tabs s4 using d(3) by (simp add: daemon_row_update option.map_comp comp_def)
  have "is_daemon daemonID d" using d(3) by (simp add: is_daemon_def)
  then have mine: "daemon_row (fl_daemons s') daemonID = Some (?f (beat (ce_now ce) d q d))"
    using row [of daemonID] d(1) by simp
  have beat: "d_lastSeen (beat (ce_now ce) d q d) = Some (ce_now ce)" "d_secretHash (beat (ce_now ce) d q d) = d_secretHash d"
    "d_enabled (beat (ce_now ce) d q d) = d_enabled d" by (simp_all add: beat_def Let_def)
  have settled: "d_lastSeen (?f (beat (ce_now ce) d q d)) = Some (ce_now ce)" "d_disconnected (?f (beat (ce_now ce) d q d)) = None"
    "d_secretHash (?f (beat (ce_now ce) d q d)) = d_secretHash d" "d_enabled (?f (beat (ce_now ce) d q d))"
    using beat d(2,3) by (auto simp: reconnect_def silent_daemon_def)
  have rest: "daemon_row (fl_daemons s') j = daemon_row (fl_daemons s) j" if "j \<noteq> daemonID"
  proof -
    have "?f (?g x) = x" if "daemon_row (fl_daemons s) j = Some x" for x
      using that daemon_row_Some [of "fl_daemons s" j x] \<open>j \<noteq> daemonID\<close> by (simp add: silent_daemon_def is_daemon_def)
    then show ?thesis unfolding row [of j] by (cases "daemon_row (fl_daemons s) j") auto
  qed
  have eff: "effective (policy prefs) (d_account d) (d_workspace d) daemonID ''daemon.reconnected'' = level"
    if "notificationPreference ce 4 prefs (d_account d) (d_workspace d) (d_id d) ''daemon.reconnected'' = Inr level" for level
    using notificationPreference_is_effective [OF that] d(3) by simp
  have marks: "fl_notes s' = fl_notes s @
      (if d_disconnected d \<noteq> None \<and>
          effective (policy prefs) (d_account d) (d_workspace d) daemonID ''daemon.reconnected'' \<noteq> PrefReject
       then [reconnected_note ne tt (ce_now ce) d ni] else [])"
  proof (cases "d_disconnected d = None")
    case True
    then show ?thesis using fin was s4 by simp
  next
    case False
    then have n: "notify_reconnected ce ne tt d ni eid prefs s4 = (s', evs, Inr ())" using fin was by simp
    then obtain level where level: "notificationPreference ce 4 prefs (d_account d) (d_workspace d) (d_id d) ''daemon.reconnected'' = Inr level"
      by (auto simp: notify_reconnected_def split: sum.splits)
    show ?thesis
    proof (cases "level = PrefReject")
      case True
      then show ?thesis using n level eff [OF level] s4 by (auto simp: notify_reconnected_def)
    next
      case lv: False
      have "fl_notes s' = fl_notes s4 @ [reconnected_note ne tt (ce_now ce) d ni]"
        using n level lv by (auto simp: notify_reconnected_def Let_def insert_row_Some split: if_splits option.splits prod.splits)
      then show ?thesis using eff [OF level] lv False s4 by simp
    qed
  qed
  have ret: "quotas ''metrics_retention_days'' \<le> 0 \<or>
       retention_cutoff (ce_now ce) (clampRetentionDays (quotas ''metrics_retention_days'')) \<le> mi_sentAt q"
    using keep by (auto simp: clampRetentionDays_def split: if_splits)
  have "fl_metrics s' = fl_metrics s @ [new_metric ce d i q]" using tabs(2) s4 by simp
  then show ?thesis using a ret mine settled rest marks by blast
qed

definition demo_notify :: notify_env where
  "demo_notify = \<lparr>ne_accounts = None, ne_publisher = None, ne_normal = Some, ne_object = (\<lambda>_. Some []),
     ne_encode = (\<lambda>_. ''{}''), ne_printing = plain_printing, ne_order = id\<rparr>"

definition demo_times :: time_text where
  "demo_times = \<lparr>tt_rfc3339 = (\<lambda>_. ''t''), tt_json = (\<lambda>_. ''t'')\<rparr>"

definition demo_report :: metric_input where
  "demo_report = \<lparr>mi_sentAt = 7, mi_hostID = [], mi_uptime = 1, mi_processMemory = 1, mi_cpuPercent = 0, mi_cpuCount = 1,
     mi_load1 = 0, mi_load5 = 0, mi_load15 = 0, mi_memoryPercent = 0, mi_memoryUsed = 0, mi_memoryTotal = 0,
     mi_swapTotal = 0, mi_swapFree = 0, mi_diskTotal = 0, mi_diskAvailable = 0, mi_netRx = 0, mi_netTx = 0,
     mi_executions = 0, mi_failures = 0, mi_healthScore = 100, mi_healthStatus = ''healthy''\<rparr>"

definition demo_fleet :: fleet where
  "demo_fleet = \<lparr>fl_daemons = [demo_daemon\<lparr>d_disconnected := Some 6\<rparr>], fl_hits = [], fl_metrics = [], fl_notes = []\<rparr>"

definition demo_fleet_after :: fleet where
  "demo_fleet_after = \<lparr>fl_daemons = [demo_daemon\<lparr>d_lastSeen := Some 8, d_updated := 8\<rparr>], fl_hits = [],
     fl_metrics = [new_metric (fleet_cloud 8) (demo_daemon\<lparr>d_disconnected := Some 6\<rparr>) ''m1'' demo_report],
     fl_notes = [reconnected_note demo_notify demo_times 8 (demo_daemon\<lparr>d_disconnected := Some 6\<rparr>) ''n1'']\<rparr>"

lemma demo_report_ok: "metric_ok demo_report" "mi_hostID demo_report = []"
  by (simp_all add: metric_ok_def demo_report_def)

lemma demo_ingest:
  "IngestMetric (fleet_cloud 8) demo_notify demo_times ''d1'' ''s1'' demo_report ''m1'' ''n1'' ''e1'' [] demo_fleet =
     (demo_fleet_after, [], Inr ())"
  by (simp add: IngestMetric_def demo_report_ok authenticateDaemon_def daemon_row_def demo_fleet_def demo_daemon_def
      new_daemon_def fleet_cloud_def fleet_members_def workspaceQuota_def enforcePollInterval_def clampRetentionDays_def
      insert_row_def update_where_def is_daemon_def silent_daemon_def affected_def beat_def reconnect_def
      notify_reconnected_def notificationPreference_def publishNotification_def demo_notify_def demo_fleet_after_def Let_def)

theorem ingest_is_heartbeat_witness:
  "\<exists>d'. daemon_row (fl_daemons demo_fleet_after) ''d1'' = Some d' \<and> d_lastSeen d' = Some 8 \<and> d_disconnected d' = None"
proof -
  have "distinct (map d_id (fl_daemons demo_fleet))" by (simp add: demo_fleet_def)
  from ingest_is_heartbeat [OF demo_ingest this]
  show ?thesis by (auto simp: fleet_cloud_def)
qed

text \<open>The hit is recorded before the retention check: a report refused as too old throttles the next good one.\<close>

lemma refused_report_throttles:
  assumes "IngestMetric ce ne tt daemonID secret q i ni eid prefs s = (s', evs, Inl ErrMetricOutOfRetention)"
    and "authenticateDaemon ce (fl_daemons s) daemonID secret = Inr d" "workspaceQuota ce (d_workspace d) = Inr quotas"
    and "quotas ''polling_interval_seconds'' = int n" "0 < n" "n \<le> 3600" "t - ce_now ce < seconds n"
  shows "fl_metrics s' = fl_metrics s \<and> snd (enforcePollInterval (d_id d) quotas t (fl_hits s')) = Inl ErrRateLimited"
proof -
  obtain hits u where h: "enforcePollInterval (d_id d) quotas (ce_now ce) (fl_hits s) = (hits, u)" by fastforce
  have "metric_ok q" using assms(1,2) by (auto simp: IngestMetric_def split: if_splits)
  then have "u = Inr () \<and> s' = s\<lparr>fl_hits := hits\<rparr>"
  proof (cases u)
    case (Inl e)
    then have "e = ErrRateLimited" using h by (auto simp: enforcePollInterval_def Let_def split: if_splits)
    then show ?thesis using assms(1-3) h Inl \<open>metric_ok q\<close> by (simp add: IngestMetric_def)
  next
    case (Inr v)
    show ?thesis
    proof (cases "0 < clampRetentionDays (quotas ''metrics_retention_days'') \<and>
        mi_sentAt q < retention_cutoff (ce_now ce) (clampRetentionDays (quotas ''metrics_retention_days''))")
      case True
      then show ?thesis using assms(1-3) h Inr \<open>metric_ok q\<close> by (simp add: IngestMetric_def Let_def)
    next
      case False
      then show ?thesis using assms(1-3) h Inr \<open>metric_ok q\<close>
        by (auto simp: IngestMetric_def Let_def notify_reconnected_def notificationPreference_def publishNotification_def
            split: if_split_asm option.split_asm sum.split_asm)
    qed
  qed
  then show ?thesis
    using poll_interval_enforced [of "d_id d" quotas "ce_now ce" "fl_hits s" hits n "[]" t] h assms(4-7) by simp
qed

end
