(* ===== verification/Cloud_Disconnect.thy ===== *)
theory Cloud_Disconnect
  imports Cloud_Metrics_Facts
begin

text \<open>
  The disconnect check: it settles the mark of every enabled daemon, its alarms keep their distance,
  and an outage that begins inside the cooldown of the last alarm stays silent.
\<close>

section \<open>What the check does to the daemons\<close>

definition settled :: "time \<Rightarrow> time \<Rightarrow> daemon \<Rightarrow> daemon" where
  "settled after now d =
     (if stale_daemon after now d then (if d_disconnected d = None then mark_disconnected now d else d)
      else if d_disconnected d = None then d else reconnect now d)"

lemma settled_id [simp]: "d_id (settled after now d) = d_id d"
  by (simp add: settled_def mark_disconnected_def)

lemma update_only_row:
  assumes "distinct (map d_id ds)" "daemon_row ds i = Some d" "P d \<Longrightarrow> f d = g d" "\<not> P d \<Longrightarrow> d = g d"
    and "\<And>x. P x \<Longrightarrow> d_id x = i"
  shows "update_where P f ds = update_where (is_daemon i) g ds"
proof -
  have "(if P x then f x else x) = (if is_daemon i x then g x else x)" if "x \<in> set ds" for x
  proof (cases "d_id x = i")
    case True
    have "x = d" using assms(1,2) that True daemon_row_Some [OF assms(2)] by (metis distinct_map inj_onD)
    then show ?thesis using True assms(3,4) by (simp add: is_daemon_def)
  next
    case False
    then show ?thesis using assms(5) by (auto simp: is_daemon_def)
  qed
  then show ?thesis by (simp add: update_where_def)
qed

lemma update_no_row: "daemon_row ds i = None \<Longrightarrow> update_where (is_daemon i) g ds = ds"
  by (intro update_where_none) (auto simp: affected_0 daemon_row_def find_None_iff is_daemon_def)

lemma check_daemons:
  assumes "check_daemon ce ne tt k after cooldown now i ni store s = Inr (s', n)" "distinct (map d_id (fl_daemons s))"
  shows "fl_daemons s' = update_where (is_daemon i) (settled after now) (fl_daemons s) \<and>
    fl_metrics s' = fl_metrics s \<and> fl_hits s' = fl_hits s"
proof -
  have rows: "check_rows ce ne tt k after cooldown now i ni store s = Inr (s', n)"
    using assms(1) by (auto simp: check_daemon_def split: if_splits)
  show ?thesis
  proof (cases "daemon_row (fl_daemons s) i")
    case None
    then have "s' = s" using rows by (auto simp: check_rows_def split: if_splits)
    then show ?thesis using update_no_row [OF None] by simp
  next
    case (Some d)
    note row = this and id = daemon_row_Some [OF this]
    have stay: "update_where (is_daemon i) (settled after now) (fl_daemons s) = fl_daemons s" if "settled after now d = d"
    proof -
      have "update_where (\<lambda>_. False) id (fl_daemons s) = update_where (is_daemon i) (settled after now) (fl_daemons s)"
        using assms(2) row that by (intro update_only_row) auto
      then show ?thesis by (simp add: update_where_def)
    qed
    show ?thesis
    proof (cases "stale_daemon after now d")
      case True
      show ?thesis
      proof (cases "d_disconnected d = None")
        case dc: True
        have "fl_daemons s' = fl_daemons (mark_silent i now s) \<and> fl_metrics s' = fl_metrics s \<and> fl_hits s' = fl_hits s"
          using rows row True dc
          by (auto simp: check_rows_def Let_def mark_silent_def split: if_split_asm option.split_asm)
        moreover have "fl_daemons (mark_silent i now s) = update_where (is_daemon i) (settled after now) (fl_daemons s)"
          unfolding mark_silent_def using assms(2) row id True dc
          by (simp, intro update_only_row) (auto simp: settled_def connected_daemon_def)
        ultimately show ?thesis by simp
      next
        case False
        then have "s' = s" using rows row True by (auto simp: check_rows_def split: if_split_asm)
        then show ?thesis using stay False True by (simp add: settled_def)
      qed
    next
      case False
      show ?thesis
      proof (cases "d_disconnected d = None")
        case dc: True
        then have "s' = s" using rows row False by (auto simp: check_rows_def split: if_split_asm)
        then show ?thesis using stay dc False by (simp add: settled_def)
      next
        case dc: False
        have "s' = s\<lparr>fl_daemons := update_where (is_daemon i) (reconnect now) (fl_daemons s)\<rparr>"
          using rows row False dc by (auto simp: check_rows_def split: if_split_asm)
        moreover have "update_where (is_daemon i) (reconnect now) (fl_daemons s) =
            update_where (is_daemon i) (settled after now) (fl_daemons s)"
          using assms(2) row id False dc by (intro update_only_row) (auto simp: settled_def is_daemon_def)
        ultimately show ?thesis by simp
      qed
    qed
  qed
qed

lemma announce_tables:
  assumes "announce ce ne k c eid publish n s = (s', evs, err)"
  shows "fl_daemons s' = fl_daemons s \<and> fl_metrics s' = fl_metrics s \<and> fl_hits s' = fl_hits s"
  using assms by (auto simp: announce_def Let_def split: prod.splits if_splits sum.splits)

lemma evaluate_one:
  assumes "evaluate_daemon ce ne tt k after cooldown now ids eids prefs c s = (s', evs, err)"
    and "distinct (map d_id (fl_daemons s))"
  shows "(fl_daemons s' = fl_daemons s \<and> err \<noteq> None) \<or>
      fl_daemons s' = update_where (is_daemon (d_id c)) (settled after now) (fl_daemons s)"
    and "fl_metrics s' = fl_metrics s \<and> fl_hits s' = fl_hits s"
proof -
  have "((fl_daemons s' = fl_daemons s \<and> err \<noteq> None) \<or>
      fl_daemons s' = update_where (is_daemon (d_id c)) (settled after now) (fl_daemons s)) \<and>
    fl_metrics s' = fl_metrics s \<and> fl_hits s' = fl_hits s"
  proof (cases "notificationPreference ce k prefs (d_account c) (d_workspace c) (d_id c) ''daemon.disconnected''")
    case (Inl e)
    then show ?thesis using assms by (auto simp: evaluate_daemon_def)
  next
    case (Inr level)
    note pref = this
    show ?thesis
    proof (cases "check_daemon ce ne tt k after cooldown now (d_id c) (ids (d_id c)) (level \<noteq> PrefReject) s")
      case (Inl e)
      then show ?thesis using assms pref by (auto simp: evaluate_daemon_def)
    next
      case (Inr r)
      obtain s1 n where r: "r = (s1, n)" by fastforce
      have c: "check_daemon ce ne tt k after cooldown now (d_id c) (ids (d_id c)) (level \<noteq> PrefReject) s = Inr (s1, n)"
        using Inr r by simp
      show ?thesis
        using check_daemons [OF c assms(2)] assms(1) pref c announce_tables
        by (cases n) (auto simp: evaluate_daemon_def)
    qed
  qed
  then show "(fl_daemons s' = fl_daemons s \<and> err \<noteq> None) \<or>
      fl_daemons s' = update_where (is_daemon (d_id c)) (settled after now) (fl_daemons s)"
    "fl_metrics s' = fl_metrics s \<and> fl_hits s' = fl_hits s" by blast+
qed

lemma first_error_None [simp]: "first_error e1 e2 = None \<longleftrightarrow> e1 = None \<and> e2 = None"
  by (simp add: first_error_def split: option.splits)

lemma evaluate_all_error:
  "evaluate_all ce ne tt k after cooldown now ids eids prefs cs (s, evs, err) = (s', evs', None) \<Longrightarrow> err = None"
proof (induction cs arbitrary: k s evs err)
  case (Cons c cs)
  obtain s1 evs1 err1 where "evaluate_daemon ce ne tt k after cooldown now ids eids prefs c s = (s1, evs1, err1)"
    by (metis prod_cases3)
  then have "first_error err err1 = None" using Cons.prems by (intro Cons.IH) simp
  then show ?case by simp
qed simp

lemma evaluate_all_daemons:
  assumes "evaluate_all ce ne tt k after cooldown now ids eids prefs cs (s, evs, err) = (s', evs', None)"
    and "distinct (map d_id (fl_daemons s))" "distinct (map d_id cs)"
  shows "fl_daemons s' = map (\<lambda>d. if d_id d \<in> d_id ` set cs then settled after now d else d) (fl_daemons s)"
  using assms
proof (induction cs arbitrary: k s evs err)
  case Nil
  then show ?case by simp
next
  case (Cons c cs)
  obtain s1 evs1 err1 where one: "evaluate_daemon ce ne tt k after cooldown now ids eids prefs c s = (s1, evs1, err1)"
    by (metis prod_cases3)
  have rest: "evaluate_all ce ne tt (k + 8) after cooldown now ids eids prefs cs (s1, evs @ evs1, first_error err err1) = (s', evs', None)"
    using Cons.prems(1) one by simp
  then have "err1 = None" using evaluate_all_error by fastforce
  then have s1: "fl_daemons s1 = update_where (is_daemon (d_id c)) (settled after now) (fl_daemons s)"
    using evaluate_one(1) [OF one Cons.prems(2)] by blast
  have ids: "distinct (map d_id (fl_daemons s1))" "distinct (map d_id cs)" "d_id c \<notin> d_id ` set cs"
    using Cons.prems(2,3) by (simp_all add: s1)
  have "fl_daemons s' = map (\<lambda>d. if d_id d \<in> d_id ` set cs then settled after now d else d) (fl_daemons s1)"
    by (rule Cons.IH [OF rest ids(1,2)])
  also have "\<dots> = map (\<lambda>d. if d_id d \<in> d_id ` set (c # cs) then settled after now d else d) (fl_daemons s)"
    using ids(3) unfolding s1 update_where_def by (auto simp: is_daemon_def)
  finally show ?case .
qed

text \<open>C18: A disconnect check that reports no error has settled every enabled daemon and touched no other: a daemon whose last
sign of life is at least the threshold old is marked disconnected, at the time of the check unless it already was, and
a daemon that is not carries no mark; daemons that never reported are never marked.\<close>

theorem disconnect_check_settles:
  assumes "EvaluateDisconnectedDaemonsWithCooldown ce ne tt after cooldown now ids eids prefs s = (s', evs, None)"
    and "distinct (map d_id (fl_daemons s))" "0 < after" "now \<noteq> 0"
  shows "fl_daemons s' = map (\<lambda>d. if d_enabled d then settled after now d else d) (fl_daemons s)"
proof -
  have run: "evaluate_all ce ne tt 1 after (if cooldown \<le> 0 then DefaultDaemonDisconnectNotificationCooldown else cooldown) now
      ids eids prefs (filter d_enabled (fl_daemons s)) (s, [], None) = (s', evs, None)"
    using assms(1,3,4) by (auto simp: EvaluateDisconnectedDaemonsWithCooldown_def Let_def split: if_splits)
  have "distinct (map d_id (filter d_enabled (fl_daemons s)))" using assms(2) by (simp add: distinct_map_filter)
  then have "fl_daemons s' = map (\<lambda>d. if d_id d \<in> d_id ` set (filter d_enabled (fl_daemons s)) then settled after now d else d) (fl_daemons s)"
    using evaluate_all_daemons [OF run assms(2)] by simp
  moreover have "d_id d \<in> d_id ` set (filter d_enabled (fl_daemons s)) \<longleftrightarrow> d_enabled d" if "d \<in> set (fl_daemons s)" for d
  proof
    assume "d_id d \<in> d_id ` set (filter d_enabled (fl_daemons s))"
    then obtain x where "x \<in> set (fl_daemons s)" "d_enabled x" "d_id x = d_id d" by auto
    then show "d_enabled d" using that assms(2) by (metis distinct_map inj_onD)
  qed (use that in auto)
  ultimately show ?thesis by (simp cong: map_cong)
qed

theorem disconnect_check_settles_witness:
  "map d_disconnected (fl_daemons (fst (EvaluateDisconnectedDaemonsWithCooldown (fleet_cloud 900) demo_notify demo_times 100 100 900
      id id [] (demo_fleet\<lparr>fl_daemons := [demo_daemon\<lparr>d_lastSeen := Some 7\<rparr>, demo_daemon\<lparr>d_id := ''d2''\<rparr>]\<rparr>)))) =
     [Some 900, None]"
proof -
  let ?s = "demo_fleet\<lparr>fl_daemons := [demo_daemon\<lparr>d_lastSeen := Some 7\<rparr>, demo_daemon\<lparr>d_id := ''d2''\<rparr>]\<rparr>"
  let ?out = "EvaluateDisconnectedDaemonsWithCooldown (fleet_cloud 900) demo_notify demo_times 100 100 900 id id [] ?s"
  have "snd (snd ?out) = None" by code_simp
  then have 1: "?out = (fst ?out, fst (snd ?out), None)" by (metis prod.collapse)
  have 2: "distinct (map d_id (fl_daemons ?s))" by (simp add: demo_daemon_def new_daemon_def)
  show ?thesis using disconnect_check_settles [OF 1 2]
    by (simp add: settled_def stale_daemon_def demo_daemon_def new_daemon_def mark_disconnected_def)
qed

section \<open>Alarms keep their distance\<close>

definition is_alarm :: "string \<Rightarrow> notice \<Rightarrow> bool" where
  "is_alarm i n \<longleftrightarrow> nt_daemon n = i \<and> nt_kind n = ''daemon.disconnected''"

definition alarm_times :: "string \<Rightarrow> notice list \<Rightarrow> time list" where
  "alarm_times i notes = map nt_created (filter (is_alarm i) notes)"

definition spaced :: "time \<Rightarrow> time list \<Rightarrow> bool" where
  "spaced c ts = sorted_wrt (\<lambda>a b. a + c \<le> b) ts"

lemma last_alarm_latest:
  assumes "m \<in> set notes" "is_alarm i m"
  shows "\<exists>n. last_alarm i notes = Some n \<and> nt_created m \<le> nt_created n"
proof -
  let ?xs = "sort_key (\<lambda>n. - nt_created n) (sort_key nt_id (filter (\<lambda>n. nt_daemon n = i \<and> nt_kind n = ''daemon.disconnected'') notes))"
  have m: "m \<in> set ?xs" using assms by (simp add: is_alarm_def)
  then obtain n ns where xs: "?xs = n # ns" by (cases ?xs) auto
  have "sorted (map (\<lambda>n. - nt_created n) ?xs)" by (rule sorted_sort_key)
  then have "nt_created m \<le> nt_created n" using m unfolding xs by auto
  then show ?thesis using xs by (simp add: last_alarm_def)
qed

lemma alarm_times_update:
  assumes "\<And>n. nt_daemon (f n) = nt_daemon n \<and> nt_kind (f n) = nt_kind n \<and> nt_created (f n) = nt_created n"
  shows "alarm_times i (update_where P f rows) = alarm_times i rows"
  using assms by (induction rows) (auto simp: alarm_times_def update_where_def is_alarm_def)

lemma check_notes:
  assumes "check_daemon ce ne tt k after cooldown now i ni store s = Inr (s', r)"
  shows "(r = None \<and> fl_notes s' = fl_notes s) \<or>
    (\<exists>n. r = Some n \<and> fl_notes s' = fl_notes s @ [n] \<and> nt_daemon n = i \<and> nt_kind n = ''daemon.disconnected'' \<and>
       nt_created n = now \<and> list_all (\<lambda>t. t + cooldown \<le> now) (alarm_times i (fl_notes s)))"
proof -
  have rows: "check_rows ce ne tt k after cooldown now i ni store s = Inr (s', r)"
    using assms by (auto simp: check_daemon_def split: if_splits)
  show ?thesis
  proof (cases r)
    case None
    then show ?thesis using rows
      by (auto simp: check_rows_def Let_def mark_silent_def split: option.split_asm if_split_asm)
  next
    case (Some n)
    then obtain d where d: "daemon_row (fl_daemons s) i = Some d"
      using rows by (cases "daemon_row (fl_daemons s) i") (auto simp: check_rows_def split: if_split_asm)
    have st: "stale_daemon after now d" "d_disconnected d = None"
      using rows Some d by (auto simp: check_rows_def split: if_split_asm)
    have loud: "\<not> (case last_alarm i (fl_notes s) of None \<Rightarrow> False | Some n \<Rightarrow> now < nt_created n + cooldown)"
      "n = disconnected_note ne tt after now (the (d_lastSeen d)) d ni" "fl_notes s' = fl_notes s @ [n]"
      using rows Some d st
      by (auto simp: check_rows_def Let_def insert_row_Some split: if_split_asm option.split_asm)
    have "t + cooldown \<le> now" if "t \<in> set (alarm_times i (fl_notes s))" for t
    proof -
      obtain m where "m \<in> set (fl_notes s)" "is_alarm i m" "t = nt_created m"
        using \<open>t \<in> set (alarm_times i (fl_notes s))\<close> by (auto simp: alarm_times_def)
      then show ?thesis using last_alarm_latest loud(1) by fastforce
    qed
    then show ?thesis using Some loud(2,3) daemon_row_Some [OF d]
      by (auto simp: disconnected_note_def Let_def list_all_iff)
  qed
qed

lemma announce_notes:
  assumes "announce ce ne k c eid publish n s = (s', evs, err)"
  shows "alarm_times i (fl_notes s') = alarm_times i (fl_notes s)"
proof -
  obtain title body where "localizedAlarm ne (nt_account n) (nt_kind n) (nt_title n) (nt_body n) (nt_metadata n) = (title, body)"
    by fastforce
  then have "fl_notes s' = fl_notes s \<or>
      fl_notes s' = update_where (\<lambda>x. nt_id x = nt_id n) (\<lambda>x. x\<lparr>nt_title := title, nt_body := body\<rparr>) (fl_notes s)"
    using assms by (auto simp: announce_def Let_def split: prod.splits if_splits sum.splits)
  then show ?thesis by (auto simp: alarm_times_update)
qed

lemma alarm_times_append:
  "alarm_times i (notes @ [n]) = alarm_times i notes @ (if is_alarm i n then [nt_created n] else [])"
  by (simp add: alarm_times_def)

lemma evaluate_one_spaced:
  assumes "evaluate_daemon ce ne tt k after cooldown now ids eids prefs c s = (s', evs, err)"
    and "spaced cooldown (alarm_times i (fl_notes s))"
  shows "spaced cooldown (alarm_times i (fl_notes s'))"
proof (cases "notificationPreference ce k prefs (d_account c) (d_workspace c) (d_id c) ''daemon.disconnected''")
  case (Inl e)
  then show ?thesis using assms by (simp add: evaluate_daemon_def)
next
  case (Inr level)
  note pref = this
  show ?thesis
  proof (cases "check_daemon ce ne tt k after cooldown now (d_id c) (ids (d_id c)) (level \<noteq> PrefReject) s")
    case (Inl e)
    then show ?thesis using assms pref by (simp add: evaluate_daemon_def)
  next
    case (Inr r)
    obtain s1 n where r: "r = (s1, n)" by fastforce
    have c: "check_daemon ce ne tt k after cooldown now (d_id c) (ids (d_id c)) (level \<noteq> PrefReject) s = Inr (s1, n)"
      using Inr r by simp
    have s1: "spaced cooldown (alarm_times i (fl_notes s1))"
      using check_notes [OF c] assms(2)
      by (auto simp: alarm_times_append is_alarm_def spaced_def sorted_wrt_append list_all_iff)
    show ?thesis
    proof (cases n)
      case None
      then show ?thesis using assms(1) pref c s1 by (simp add: evaluate_daemon_def)
    next
      case (Some x)
      then have "announce ce ne k c (eids (d_id c)) (level = PrefNormal) x s1 = (s', evs, err)"
        using assms(1) pref c by (simp add: evaluate_daemon_def)
      then show ?thesis using announce_notes s1 by metis
    qed
  qed
qed

lemma evaluate_all_spaced:
  assumes "evaluate_all ce ne tt k after cooldown now ids eids prefs cs (s, evs, err) = (s', evs', err')"
    and "spaced cooldown (alarm_times i (fl_notes s))"
  shows "spaced cooldown (alarm_times i (fl_notes s'))"
  using assms
proof (induction cs arbitrary: k s evs err)
  case (Cons c cs)
  obtain s1 evs1 err1 where one: "evaluate_daemon ce ne tt k after cooldown now ids eids prefs c s = (s1, evs1, err1)"
    by (metis prod_cases3)
  have "evaluate_all ce ne tt (k + 8) after cooldown now ids eids prefs cs (s1, evs @ evs1, first_error err err1) = (s', evs', err')"
    using Cons.prems(1) one by simp
  then show ?case using Cons.IH evaluate_one_spaced [OF one Cons.prems(2)] by blast
qed simp

text \<open>The calls that write notices: a check with a cooldown \<open>c\<close>, a metric, a daemon's notice of another kind, and reading.\<close>

inductive alarm_step :: "time \<Rightarrow> fleet \<Rightarrow> fleet \<Rightarrow> bool" for c where
  checked: "EvaluateDisconnectedDaemonsWithCooldown ce ne tt after c now ids eids prefs s = (s', evs, err) \<Longrightarrow> alarm_step c s s'"
| ingested: "IngestMetric ce ne tt d secret q i ni eid prefs s = (s', evs, r) \<Longrightarrow> alarm_step c s s'"
| noticed: "CreateNotification ce ne (fl_daemons s) d secret q i eid prefs (fl_notes s) = (notes', evs, r) \<Longrightarrow>
     trim_space (ni_kind q) \<noteq> ''daemon.disconnected'' \<Longrightarrow> alarm_step c s (s\<lparr>fl_notes := notes'\<rparr>)"
| read_one: "MarkNotificationRead ce account i (fl_notes s) = Inr notes' \<Longrightarrow> alarm_step c s (s\<lparr>fl_notes := notes'\<rparr>)"
| read_all: "MarkAllNotificationsRead ce account w (fl_notes s) = Inr notes' \<Longrightarrow> alarm_step c s (s\<lparr>fl_notes := notes'\<rparr>)"

inductive alarm_run :: "time \<Rightarrow> fleet \<Rightarrow> fleet \<Rightarrow> bool" for c where
  start: "alarm_run c s s"
| step: "alarm_run c s s' \<Longrightarrow> alarm_step c s' s'' \<Longrightarrow> alarm_run c s s''"

lemma ingest_alarms:
  assumes "IngestMetric ce ne tt d secret q i ni eid prefs s = (s', evs, r)"
  shows "alarm_times j (fl_notes s') = alarm_times j (fl_notes s)"
proof -
  have recon: "alarm_times j (fl_notes s2) = alarm_times j (fl_notes s1)"
    if "notify_reconnected ce ne tt dm ni eid prefs s1 = (s2, e2, r2)" for dm s1 s2 e2 r2
  proof -
    have "\<not> is_alarm j (reconnected_note ne tt (ce_now ce) dm ni)"
      by (simp add: is_alarm_def reconnected_note_def Let_def split: prod.splits)
    then show ?thesis using notify_reconnected_tables [OF that] by (auto simp: alarm_times_append)
  qed
  show ?thesis
    using assms
    by (auto simp: IngestMetric_def Let_def dest!: recon split: sum.split_asm if_split_asm option.split_asm prod.split_asm)
qed

lemma alarm_step_spaced:
  assumes "alarm_step c s s'" "0 < c" "spaced c (alarm_times i (fl_notes s))"
  shows "spaced c (alarm_times i (fl_notes s'))"
  using assms
proof cases
  case (checked ce ne tt after now ids eids prefs evs err)
  then show ?thesis using assms(2,3) evaluate_all_spaced
    by (auto simp: EvaluateDisconnectedDaemonsWithCooldown_def Let_def split: if_split_asm)
next
  case (ingested ce ne tt d secret q j ni eid prefs evs r)
  then show ?thesis using assms(3) by (simp add: ingest_alarms)
next
  case (noticed ce ne d secret q j eid prefs notes' evs r)
  have "notes' = fl_notes s \<or> (\<exists>n. notes' = fl_notes s @ [n] \<and> nt_kind n \<noteq> ''daemon.disconnected'')"
    using CreateNotification_cases [OF noticed(2)] noticed(3) by (auto simp: follows_policy_def split: if_split_asm)
  then have "alarm_times i notes' = alarm_times i (fl_notes s)" by (auto simp: alarm_times_append is_alarm_def)
  then show ?thesis using assms(3) noticed(1) by simp
next
  case (read_one ce account j notes')
  then have "alarm_times i notes' = alarm_times i (fl_notes s)"
    by (auto simp: MarkNotificationRead_def alarm_times_update split: option.splits if_splits)
  then show ?thesis using assms(3) read_one by simp
next
  case (read_all ce account w notes')
  then have "alarm_times i notes' = alarm_times i (fl_notes s)"
    by (auto simp: MarkAllNotificationsRead_def Let_def alarm_times_update split: if_splits)
  then show ?thesis using assms(3) read_all by simp
qed

text \<open>However checks, reports, daemon notices and readers interleave, the disconnection alarms the checks store for one
daemon are a cooldown apart: from a table without alarms, every alarm is at least the cooldown later than every earlier one.\<close>

theorem disconnect_alarms_spaced:
  assumes "alarm_run c s s'" "0 < c" "alarm_times i (fl_notes s) = []"
  shows "sorted_wrt (\<lambda>a b. a + c \<le> b) (alarm_times i (fl_notes s'))"
proof -
  have "spaced c (alarm_times i (fl_notes s))" using assms(3) by (simp add: spaced_def)
  from assms(1) this have "spaced c (alarm_times i (fl_notes s'))"
    by (induction rule: alarm_run.induct) (use assms(2) alarm_step_spaced in auto)
  then show ?thesis by (simp add: spaced_def)
qed

theorem disconnect_alarms_spaced_witness:
  "sorted_wrt (\<lambda>a b. a + 100 \<le> b) (alarm_times ''d1'' (fl_notes (fst (EvaluateDisconnectedDaemonsWithCooldown
      (fleet_cloud 900) demo_notify demo_times 100 100 900 id id [] (demo_fleet\<lparr>fl_daemons := [demo_daemon\<lparr>d_lastSeen := Some 7\<rparr>]\<rparr>)))))"
proof -
  let ?s = "demo_fleet\<lparr>fl_daemons := [demo_daemon\<lparr>d_lastSeen := Some 7\<rparr>]\<rparr>"
  let ?out = "EvaluateDisconnectedDaemonsWithCooldown (fleet_cloud 900) demo_notify demo_times 100 100 900 id id [] ?s"
  have "?out = (fst ?out, fst (snd ?out), snd (snd ?out))" by simp
  then have "alarm_step 100 ?s (fst ?out)" by (rule alarm_step.checked)
  then have 1: "alarm_run 100 ?s (fst ?out)" by (rule alarm_run.step [OF alarm_run.start])
  have 2: "alarm_times ''d1'' (fl_notes ?s) = []" by (simp add: alarm_times_def demo_fleet_def)
  show ?thesis by (rule disconnect_alarms_spaced [OF 1 _ 2]) simp
qed

section \<open>An outage inside the cooldown\<close>

lemma marked_stays_silent:
  assumes "evaluate_daemon ce ne tt k after cooldown now ids eids prefs c s = (s', evs, err)"
    and "daemon_row (fl_daemons s) (d_id c) = Some d" "stale_daemon after now d" "d_disconnected d \<noteq> None"
  shows "s' = s \<and> evs = []"
  using assms
  by (auto simp: evaluate_daemon_def check_daemon_def check_rows_def split: sum.split_asm if_split_asm)

text \<open>A daemon that falls silent within the cooldown of its last disconnection alarm is marked disconnected without an alarm,
and no later check ever announces that outage, however long it lasts: while the daemon stays silent every check leaves the
tables as they are and publishes nothing.\<close>

theorem outage_in_cooldown_is_silent:
  assumes "evaluate_daemon ce ne tt k after cooldown now ids eids prefs c s = (s1, evs1, None)"
    and "distinct (map d_id (fl_daemons s))" "daemon_row (fl_daemons s) (d_id c) = Some d" "stale_daemon after now d"
    and "d_disconnected d = None" "last_alarm (d_id c) (fl_notes s) = Some n" "now < nt_created n + cooldown"
    and "evaluate_daemon ce2 ne2 tt2 k2 after cooldown2 later ids2 eids2 prefs2 c2 s1 = (s2, evs2, err2)"
    and "d_id c2 = d_id c" "now \<le> later"
  shows "evs1 = [] \<and> fl_notes s1 = fl_notes s \<and> s2 = s1 \<and> evs2 = []"
proof -
  have 1: "evs1 = [] \<and> fl_notes s1 = fl_notes s"
    using assms(1,3-7)
    by (auto simp: evaluate_daemon_def check_daemon_def check_rows_def Let_def mark_silent_def
        split: sum.split_asm if_split_asm)
  have "fl_daemons s1 = update_where (is_daemon (d_id c)) (settled after now) (fl_daemons s)"
    using evaluate_one(1) [OF assms(1,2)] by blast
  moreover have mark: "settled after now d = mark_disconnected now d" using assms(4,5) by (simp add: settled_def)
  ultimately have row: "daemon_row (fl_daemons s1) (d_id c2) = Some (mark_disconnected now d)"
    using assms(3,9) daemon_row_Some [OF assms(3)] mark by (simp add: daemon_row_update is_daemon_def)
  have "stale_daemon after later (mark_disconnected now d)"
    using assms(4,10) by (auto simp: stale_daemon_def mark_disconnected_def split: option.splits)
  then have "s2 = s1 \<and> evs2 = []"
    using marked_stays_silent [OF assms(8) row] by (simp add: mark_disconnected_def)
  then show ?thesis using 1 by blast
qed

definition demo_alarm :: notice where
  "demo_alarm = \<lparr>nt_id = ''a1'', nt_account = ''ann'', nt_workspace = ''w1'', nt_daemon = ''d1'', nt_kind = ''daemon.disconnected'',
     nt_title = [], nt_subtitle = [], nt_body = [], nt_metadata = [], nt_read = None, nt_created = 850\<rparr>"

theorem outage_in_cooldown_is_silent_witness:
  "fst (snd (evaluate_daemon (fleet_cloud 9000) demo_notify demo_times 1 100 100 9000 id id [] (demo_daemon\<lparr>d_lastSeen := Some 7\<rparr>)
     (fst (evaluate_daemon (fleet_cloud 900) demo_notify demo_times 1 100 100 900 id id [] (demo_daemon\<lparr>d_lastSeen := Some 7\<rparr>)
        (demo_fleet\<lparr>fl_daemons := [demo_daemon\<lparr>d_lastSeen := Some 7\<rparr>], fl_notes := [demo_alarm]\<rparr>))))) = []"
proof -
  let ?d = "demo_daemon\<lparr>d_lastSeen := Some 7\<rparr>"
  let ?s = "demo_fleet\<lparr>fl_daemons := [?d], fl_notes := [demo_alarm]\<rparr>"
  let ?one = "evaluate_daemon (fleet_cloud 900) demo_notify demo_times 1 100 100 900 id id [] ?d ?s"
  let ?two = "evaluate_daemon (fleet_cloud 9000) demo_notify demo_times 1 100 100 9000 id id [] ?d (fst ?one)"
  have "snd (snd ?one) = None" by code_simp
  then have 1: "?one = (fst ?one, fst (snd ?one), None)" by (metis prod.collapse)
  have 2: "distinct (map d_id (fl_daemons ?s))" by simp
  have 3: "daemon_row (fl_daemons ?s) (d_id ?d) = Some ?d" by (simp add: daemon_row_def)
  have 4: "stale_daemon 100 900 ?d" by (simp add: stale_daemon_def)
  have 5: "d_disconnected ?d = None" by (simp add: demo_daemon_def new_daemon_def)
  have 6: "last_alarm (d_id ?d) (fl_notes ?s) = Some demo_alarm"
    by (simp add: last_alarm_def demo_alarm_def demo_daemon_def new_daemon_def)
  have 7: "900 < nt_created demo_alarm + 100" by (simp add: demo_alarm_def)
  have 8: "?two = (fst ?two, fst (snd ?two), snd (snd ?two))" by simp
  show ?thesis using outage_in_cooldown_is_silent [OF 1 2 3 4 5 6 7 8 refl] by simp
qed

end
