(* ===== verification/Cloud_Reports.thy ===== *)
theory Cloud_Reports
  imports Cloud_Metrics
begin

text \<open>
  Logs, container status and retention of \<open>internal/cloud/service.go\<close>: bounded uploads of log lines,
  snapshots of a daemon's containers that replace what they cover, and the hourly prune. The
  statements of a call are numbered; the database is PostgreSQL, which refuses an
  \<open>INSERT ... ON CONFLICT DO UPDATE\<close> that meets a key twice.
\<close>

section \<open>Logs\<close>

record log_input =
  li_container :: string
  li_timestamp :: time
  li_line :: string

record log_row =
  lr_id :: string
  lr_daemon :: string
  lr_container :: string
  lr_timestamp :: time
  lr_received :: time
  lr_line :: string

definition check_entry :: "time \<Rightarrow> nat \<Rightarrow> log_input \<Rightarrow> cloud_error + log_input" where
  "check_entry now days e =
     (let c = trim_space (li_container e) in
      if c = [] \<or> 128 < length c \<or> \<not> valid_utf8 c then Inl (InvalidInput ''container_id exceeds bounds or is empty'')
      else if li_timestamp e = 0 then Inl (InvalidInput ''timestamp is required'')
      else if 0 < days \<and> li_timestamp e < retention_cutoff now days then Inl (InvalidInput ''log outside retention window'')
      else if li_line e = [] \<or> 4096 < length (li_line e) \<or> \<not> valid_utf8 (li_line e)
      then Inl (InvalidInput ''line exceeds bounds or is empty'')
      else Inr (e\<lparr>li_container := c\<rparr>))"

definition log_row_of :: "time \<Rightarrow> string \<Rightarrow> string \<Rightarrow> log_input \<Rightarrow> log_row" where
  "log_row_of now d i e =
     \<lparr>lr_id = i, lr_daemon = d, lr_container = li_container e, lr_timestamp = li_timestamp e, lr_received = now, lr_line = li_line e\<rparr>"

definition check_entries :: "time \<Rightarrow> nat \<Rightarrow> log_input list \<Rightarrow> cloud_error + log_input list" where
  "check_entries now days entries =
     rfold (\<lambda>out e. rbind (check_entry now days e) (\<lambda>e'. Inr (out @ [e']))) [] entries"

text \<open>\<open>ids\<close> are the minted keys, one per entry; one \<open>INSERT\<close> writes all rows.\<close>

definition IngestLogs ::
  "cloud_env \<Rightarrow> daemon list \<Rightarrow> string \<Rightarrow> string \<Rightarrow> log_input list \<Rightarrow> string list \<Rightarrow> log_row list \<Rightarrow> cloud_error + log_row list" where
  "IngestLogs ce ds daemonID secret entries ids rows =
     (case authenticateDaemon ce ds daemonID secret of
        Inl _ \<Rightarrow> Inl ErrUnauthorized
      | Inr d \<Rightarrow>
          if entries = [] \<or> 500 < length entries then Inl (InvalidInput ''entries must contain between 1 and 500 lines'')
          else rbind (workspaceQuota ce (d_workspace d)) (\<lambda>quotas.
            rbind (check_entries (ce_now ce) (clampRetentionDays (quotas ''metrics_retention_days'')) entries) (\<lambda>checked.
            let new = map2 (log_row_of (ce_now ce) (d_id d)) ids checked in
            if ce_fault ce 1 \<or> \<not> distinct (map lr_id new) \<or> \<not> set (map lr_id new) \<inter> set (map lr_id rows) = {} then Inl DbError
            else Inr (rows @ new))))"

definition ListLogs ::
  "cloud_env \<Rightarrow> daemon list \<Rightarrow> string \<Rightarrow> string \<Rightarrow> string \<Rightarrow> int \<Rightarrow> time option \<Rightarrow> log_row list \<Rightarrow> cloud_error + log_row list" where
  "ListLogs ce ds account d container limit before rows =
     rbind (daemonForAccount ce ds account d) (\<lambda>_.
       let n = (if limit \<le> 0 \<or> 500 < limit then 100 else limit); c = trim_space container in
       if ce_fault ce 1 then Inl DbError
       else Inr (select_desc (\<lambda>r. lr_daemon r = d \<and> (c \<noteq> [] \<longrightarrow> lr_container r = c) \<and>
              (case before of None \<Rightarrow> True | Some t \<Rightarrow> lr_timestamp r < t)) lr_timestamp (nat n) rows))"

section \<open>Container status\<close>

record status_input =
  si_container :: string
  si_runtime :: string
  si_name :: string
  si_image :: string
  si_state :: string
  si_status :: string
  si_compose :: string

record status_row =
  kr_daemon :: string
  kr_container :: string
  kr_runtime :: string
  kr_workspace :: string
  kr_name :: string
  kr_image :: string
  kr_state :: string
  kr_status :: string
  kr_compose :: string
  kr_first :: time
  kr_last :: time
  kr_received :: time
  kr_created :: time
  kr_updated :: time

definition cover_step :: "string list \<Rightarrow> string \<Rightarrow> cloud_error + string list" where
  "cover_step out r =
     (let name = trim_space r in
      if name = [] \<or> 64 < length name \<or> \<not> valid_utf8 name then Inl (InvalidInput ''runtime name exceeds bounds or is empty'')
      else if name \<in> set out then Inr out else Inr (out @ [name]))"

definition normalizeCoveredRuntimes :: "string list \<Rightarrow> cloud_error + string list" where
  "normalizeCoveredRuntimes runtimes =
     (if 8 < length runtimes then Inl (InvalidInput ''runtimes must not exceed 8 entries'')
      else rfold cover_step [] runtimes)"

definition status_row_of :: "time \<Rightarrow> daemon \<Rightarrow> status_input \<Rightarrow> cloud_error + status_row" where
  "status_row_of now d c =
     (let cid = trim_space (si_container c) in
      if cid = [] \<or> 128 < length cid \<or> \<not> valid_utf8 cid then Inl (InvalidInput ''container_id exceeds bounds or is empty'')
      else Inr \<lparr>kr_daemon = d_id d, kr_container = cid, kr_runtime = trim_space (si_runtime c), kr_workspace = d_workspace d,
        kr_name = take 255 (trim_space (si_name c)), kr_image = si_image c, kr_state = si_state c, kr_status = si_status c,
        kr_compose = si_compose c, kr_first = now, kr_last = now, kr_received = now, kr_created = now, kr_updated = now\<rparr>)"

definition status_rows :: "time \<Rightarrow> daemon \<Rightarrow> status_input list \<Rightarrow> cloud_error + status_row list" where
  "status_rows now d cs = rfold (\<lambda>out c. rbind (status_row_of now d c) (\<lambda>r. Inr (out @ [r]))) [] cs"

definition status_key :: "status_row \<Rightarrow> string \<times> string" where
  "status_key r = (kr_daemon r, kr_container r)"

text \<open>The columns \<open>DoUpdates\<close> names; the others keep what the first report wrote.\<close>

definition refreshed :: "status_row \<Rightarrow> status_row \<Rightarrow> status_row" where
  "refreshed new old =
     old\<lparr>kr_runtime := kr_runtime new, kr_name := kr_name new, kr_image := kr_image new, kr_state := kr_state new,
       kr_status := kr_status new, kr_compose := kr_compose new, kr_last := kr_last new, kr_received := kr_received new,
       kr_updated := kr_updated new\<rparr>"

definition upsert_status :: "status_row \<Rightarrow> status_row list \<Rightarrow> status_row list" where
  "upsert_status r rows =
     (if status_key r \<in> status_key ` set rows then update_where (\<lambda>x. status_key x = status_key r) (refreshed r) rows
      else rows @ [r])"

definition upsert_batch :: "status_row list \<Rightarrow> status_row list \<Rightarrow> status_row list option" where
  "upsert_batch new rows = (if distinct (map status_key new) then Some (fold upsert_status new rows) else None)"

text \<open>What a batch that covers some runtimes finds gone.\<close>

definition gone :: "string \<Rightarrow> string list \<Rightarrow> string list \<Rightarrow> status_row \<Rightarrow> bool" where
  "gone d covered ids r \<longleftrightarrow>
     kr_daemon r = d \<and> (kr_runtime r \<in> set covered \<or> kr_runtime r = []) \<and> kr_container r \<notin> set ids"

text \<open>The upsert, the delete and the commit of the transaction are statements 1 to 3.\<close>

definition IngestContainerStatus ::
  "cloud_env \<Rightarrow> daemon list \<Rightarrow> string \<Rightarrow> string \<Rightarrow> status_input list \<Rightarrow> string list \<Rightarrow> status_row list
     \<Rightarrow> cloud_error + status_row list" where
  "IngestContainerStatus ce ds daemonID secret containers runtimes rows =
     (case authenticateDaemon ce ds daemonID secret of
        Inl _ \<Rightarrow> Inl ErrUnauthorized
      | Inr d \<Rightarrow>
          if 500 < length containers then Inl (InvalidInput ''containers must not exceed 500 entries'')
          else rbind (normalizeCoveredRuntimes runtimes) (\<lambda>covered.
            if containers = [] \<and> covered = []
            then Inl (InvalidInput ''a batch needs at least one container or one covered runtime'')
            else rbind (status_rows (ce_now ce) d containers) (\<lambda>new.
              case (if new = [] then Some rows else if ce_fault ce 1 then None else upsert_batch new rows) of
                None \<Rightarrow> Inl DbError
              | Some rows1 \<Rightarrow>
                  if covered \<noteq> [] \<and> ce_fault ce 2 then Inl DbError
                  else if ce_fault ce 3 then Inl DbError
                  else Inr (if covered = [] then rows1
                            else filter (\<lambda>r. \<not> gone (d_id d) covered (map kr_container new) r) rows1))))"

definition ListContainerStatus ::
  "cloud_env \<Rightarrow> daemon list \<Rightarrow> string \<Rightarrow> string \<Rightarrow> string \<Rightarrow> string \<Rightarrow> int \<Rightarrow> time option \<Rightarrow> status_row list
     \<Rightarrow> cloud_error + status_row list" where
  "ListContainerStatus ce ds account d compose state limit before rows =
     rbind (daemonForAccount ce ds account d) (\<lambda>_.
       let n = (if limit \<le> 0 \<or> 500 < limit then 100 else limit); c = trim_space compose; s = trim_space state in
       if ce_fault ce 1 then Inl DbError
       else Inr (select_desc (\<lambda>r. kr_daemon r = d \<and> (c \<noteq> [] \<longrightarrow> kr_compose r = c) \<and> (s \<noteq> [] \<longrightarrow> kr_state r = s) \<and>
              (case before of None \<Rightarrow> True | Some t \<Rightarrow> kr_last r < t)) kr_last (nat n) rows))"

section \<open>Retention\<close>

record stored =
  st_metrics :: "metric list"
  st_logs :: "log_row list"
  st_status :: "status_row list"

definition of_workspace :: "daemon list \<Rightarrow> string \<Rightarrow> string \<Rightarrow> bool" where
  "of_workspace ds w i \<longleftrightarrow> list_ex (\<lambda>d. d_id d = i \<and> d_workspace d = w) ds"

text \<open>The three deletes of one workspace, statements \<open>k\<close> to \<open>k + 2\<close>; a failed first one skips the others.\<close>

definition prune_workspace :: "cloud_env \<Rightarrow> nat \<Rightarrow> daemon list \<Rightarrow> string \<Rightarrow> stored \<Rightarrow> stored" where
  "prune_workspace ce k ds w s =
     (case workspaceQuota ce w of
        Inl _ \<Rightarrow> s
      | Inr quotas \<Rightarrow>
          let days = clampRetentionDays (quotas ''metrics_retention_days''); cutoff = retention_cutoff (ce_now ce) days in
          if days \<le> 0 then s
          else if ce_fault ce k then s
          else
            let s1 = s\<lparr>st_metrics := filter (\<lambda>m. \<not> (of_workspace ds w (mt_daemon m) \<and> mt_receivedAt m < cutoff)) (st_metrics s)\<rparr>;
                s2 = (if ce_fault ce (k + 1) then s1
                      else s1\<lparr>st_logs := filter (\<lambda>r. \<not> (of_workspace ds w (lr_daemon r) \<and> lr_received r < cutoff)) (st_logs s1)\<rparr>)
            in (if ce_fault ce (k + 2) then s2
                else s2\<lparr>st_status := filter (\<lambda>r. \<not> (of_workspace ds w (kr_daemon r) \<and> kr_last r < cutoff)) (st_status s2)\<rparr>))"

fun prune_all :: "cloud_env \<Rightarrow> nat \<Rightarrow> daemon list \<Rightarrow> string list \<Rightarrow> stored \<Rightarrow> stored" where
  "prune_all ce k ds [] s = s"
| "prune_all ce k ds (w # ws) s = prune_all ce (k + 3) ds ws (prune_workspace ce k ds w s)"

definition PruneMetrics :: "cloud_env \<Rightarrow> daemon list \<Rightarrow> stored \<Rightarrow> stored \<times> (cloud_error + unit)" where
  "PruneMetrics ce ds s =
     (if ce_fault ce 0 then (s, Inl DbError)
      else (prune_all ce 1 ds (remdups (map d_workspace ds)) s, Inr ()))"

end
