(* ===== verification/Cloud_Reports_Facts.thy ===== *)
theory Cloud_Reports_Facts
  imports Cloud_Reports Cloud_Metrics_Facts
begin

text \<open>
  A container batch as the update of a map from daemon and container to a row; the prune as the
  removal of exactly what its workspace's retention has let go; the bounds of a log upload.
\<close>

section \<open>The status table as a map\<close>

definition status_of :: "status_row list \<Rightarrow> string \<times> string \<Rightarrow> status_row option" where
  "status_of rows = map_of (map (\<lambda>r. (status_key r, r)) rows)"

definition keys_ok :: "status_row list \<Rightarrow> bool" where
  "keys_ok rows \<longleftrightarrow> distinct (map status_key rows)"

definition merged :: "status_row \<Rightarrow> status_row option \<Rightarrow> status_row" where
  "merged new old = (case old of None \<Rightarrow> new | Some r \<Rightarrow> refreshed new r)"

lemma status_of_Some:
  assumes "keys_ok rows"
  shows "status_of rows key = Some r \<longleftrightarrow> r \<in> set rows \<and> status_key r = key"
proof -
  have "distinct (map fst (map (\<lambda>r. (status_key r, r)) rows))" using assms by (simp add: keys_ok_def comp_def)
  then show ?thesis unfolding status_of_def by (subst map_of_eq_Some_iff) auto
qed

lemma status_of_None: "status_of rows key = None \<longleftrightarrow> key \<notin> status_key ` set rows"
  by (simp add: status_of_def map_of_eq_None_iff image_image)

lemma status_of_eqI:
  "(\<And>key r. status_of rows key = Some r \<longleftrightarrow> f key = Some r) \<Longrightarrow> status_of rows = f"
  by (metis not_Some_eq ext)

lemma refreshed_key [simp]: "status_key (refreshed new old) = status_key old"
  by (simp add: refreshed_def status_key_def)

lemma upsert_status_map:
  assumes "keys_ok rows"
  shows "keys_ok (upsert_status r rows) \<and>
    status_of (upsert_status r rows) = (status_of rows)(status_key r \<mapsto> merged r (status_of rows (status_key r)))"
proof (cases "status_key r \<in> status_key ` set rows")
  case False
  then have up: "upsert_status r rows = rows @ [r]" by (simp add: upsert_status_def)
  have ok: "keys_ok (rows @ [r])" using False assms by (simp add: keys_ok_def)
  have none: "status_of rows (status_key r) = None" using False by (simp add: status_of_None)
  have other: "status_key x \<noteq> status_key r" if "x \<in> set rows" for x using False that by (metis imageI)
  have "status_of (rows @ [r]) = (status_of rows)(status_key r \<mapsto> r)"
  proof (rule status_of_eqI)
    fix key x
    show "status_of (rows @ [r]) key = Some x \<longleftrightarrow> ((status_of rows)(status_key r \<mapsto> r)) key = Some x"
      using other by (auto simp: status_of_Some [OF ok] status_of_Some [OF assms])
  qed
  then show ?thesis using ok none by (simp add: up merged_def)
next
  case True
  then obtain old where old: "old \<in> set rows" "status_key old = status_key r" by auto
  have up: "upsert_status r rows = update_where (\<lambda>x. status_key x = status_key r) (refreshed r) rows"
    using True by (simp add: upsert_status_def)
  have ok: "keys_ok (upsert_status r rows)" using assms unfolding up keys_ok_def by simp
  have some: "status_of rows (status_key r) = Some old" using old by (simp add: status_of_Some [OF assms])
  have only: "x = old" if "x \<in> set rows" "status_key x = status_key r" for x
    using that old assms unfolding keys_ok_def by (metis distinct_map inj_onD)
  have "status_of (upsert_status r rows) = (status_of rows)(status_key r \<mapsto> refreshed r old)"
  proof (rule status_of_eqI)
    fix key x
    have mem: "y \<in> set (upsert_status r rows) \<longleftrightarrow> y = refreshed r old \<or> (y \<in> set rows \<and> status_key y \<noteq> status_key r)" for y
    proof
      assume "y \<in> set (upsert_status r rows)"
      then obtain z where z: "z \<in> set rows" "y = (if status_key z = status_key r then refreshed r z else z)"
        unfolding up set_update_where by blast
      then show "y = refreshed r old \<or> (y \<in> set rows \<and> status_key y \<noteq> status_key r)"
        using only [OF z(1)] by (cases "status_key z = status_key r") simp_all
    next
      assume "y = refreshed r old \<or> (y \<in> set rows \<and> status_key y \<noteq> status_key r)"
      then obtain z where "z \<in> set rows" "y = (if status_key z = status_key r then refreshed r z else z)"
        using old by metis
      then show "y \<in> set (upsert_status r rows)" unfolding up set_update_where by blast
    qed
    have rk: "status_key (refreshed r old) = status_key r" using old(2) by simp
    have "x \<in> set (upsert_status r rows) \<and> status_key x = key \<longleftrightarrow>
        (if key = status_key r then x = refreshed r old else x \<in> set rows \<and> status_key x = key)"
      unfolding mem using rk by metis
    then show "status_of (upsert_status r rows) key = Some x \<longleftrightarrow> ((status_of rows)(status_key r \<mapsto> refreshed r old)) key = Some x"
      using status_of_Some [OF ok, of key x] status_of_Some [OF assms, of key x] by (auto simp del: up)
  qed
  then show ?thesis using ok some by (simp add: merged_def)
qed

lemma fold_upsert_map:
  assumes "keys_ok rows" "distinct (map status_key new)"
  shows "keys_ok (fold upsert_status new rows) \<and>
    status_of (fold upsert_status new rows) key =
      (case status_of new key of None \<Rightarrow> status_of rows key | Some r \<Rightarrow> Some (merged r (status_of rows key)))"
  using assms
proof (induction new arbitrary: rows)
  case Nil
  then show ?case by (simp add: status_of_def)
next
  case (Cons r new)
  have one: "keys_ok (upsert_status r rows)"
    "status_of (upsert_status r rows) = (status_of rows)(status_key r \<mapsto> merged r (status_of rows (status_key r)))"
    using upsert_status_map [OF Cons.prems(1)] by auto
  have rest: "keys_ok (fold upsert_status new (upsert_status r rows))"
    "status_of (fold upsert_status new (upsert_status r rows)) key =
      (case status_of new key of None \<Rightarrow> status_of (upsert_status r rows) key
       | Some x \<Rightarrow> Some (merged x (status_of (upsert_status r rows) key)))"
    using Cons.IH [OF one(1)] Cons.prems(2) by auto
  have new: "status_of new (status_key r) = None" using Cons.prems(2) by (simp add: status_of_None)
  have "status_of (r # new) key = (if key = status_key r then Some r else status_of new key)"
    by (simp add: status_of_def)
  then have "status_of (fold upsert_status new (upsert_status r rows)) key =
      (case status_of (r # new) key of None \<Rightarrow> status_of rows key | Some x \<Rightarrow> Some (merged x (status_of rows key)))"
    using rest(2) new by (cases "key = status_key r"; cases "status_of new key") (simp_all add: one(2))
  then show ?case using rest(1) by simp
qed

lemma filter_status_map:
  assumes "keys_ok rows"
  shows "keys_ok (filter P rows) \<and>
    status_of (filter P rows) key = (case status_of rows key of None \<Rightarrow> None | Some r \<Rightarrow> if P r then Some r else None)"
proof -
  have ok: "keys_ok (filter P rows)" using assms by (simp add: keys_ok_def distinct_map_filter)
  show ?thesis
  proof (cases "status_of rows key")
    case None
    then have "status_of (filter P rows) key = None" by (auto simp: status_of_None)
    then show ?thesis using None ok by simp
  next
    case (Some r)
    then have r: "r \<in> set rows" "status_key r = key" using status_of_Some [OF assms] by auto
    have "x = r" if "x \<in> set rows" "status_key x = key" for x
      using that r assms unfolding keys_ok_def by (metis distinct_map inj_onD)
    then have "status_of (filter P rows) key = (if P r then Some r else None)"
    proof (cases "P r")
      case True
      then show ?thesis using r status_of_Some [OF ok, of key r] by simp
    next
      case False
      then have "key \<notin> status_key ` set (filter P rows)" using \<open>\<And>x. x \<in> set rows \<Longrightarrow> status_key x = key \<Longrightarrow> x = r\<close> by auto
      then show ?thesis using False by (simp add: status_of_None)
    qed
    then show ?thesis using Some ok by simp
  qed
qed

section \<open>Snapshots\<close>

lemma status_rows_shape:
  assumes "rfold (\<lambda>out c. rbind (status_row_of now d c) (\<lambda>r. Inr (out @ [r]))) out cs = Inr new"
  shows "map kr_container new = map kr_container out @ map (\<lambda>c. trim_space (si_container c)) cs \<and>
    (list_all (\<lambda>r. kr_daemon r = d_id d) out \<longrightarrow> list_all (\<lambda>r. kr_daemon r = d_id d) new)"
  using assms
proof (induction cs arbitrary: out)
  case (Cons c cs)
  then obtain r where r: "status_row_of now d c = Inr r"
    "rfold (\<lambda>out c. rbind (status_row_of now d c) (\<lambda>r. Inr (out @ [r]))) (out @ [r]) cs = Inr new" by auto
  have "kr_container r = trim_space (si_container c)" "kr_daemon r = d_id d"
    using r(1) by (auto simp: status_row_of_def Let_def split: if_splits)
  then show ?case using Cons.IH [OF r(2)] by auto
qed simp

lemma cover_shape:
  assumes "rfold cover_step out rs = Inr covered"
  shows "set covered = set out \<union> trim_space ` set rs"
  using assms by (induction rs arbitrary: out) (force simp: cover_step_def Let_def split: if_splits)+

lemma ingest_snapshot:
  assumes "IngestContainerStatus ce ds daemonID secret containers runtimes rows = Inr rows'" and "keys_ok rows"
  shows "\<exists>d new. authenticateDaemon ce ds daemonID secret = Inr d \<and> status_rows (ce_now ce) d containers = Inr new \<and>
    keys_ok rows' \<and> status_of rows' (i, c) =
      (case status_of new (i, c) of
         Some r \<Rightarrow> Some (merged r (status_of rows (i, c)))
       | None \<Rightarrow>
           (case status_of rows (i, c) of
              None \<Rightarrow> None
            | Some r \<Rightarrow> if i = daemonID \<and> runtimes \<noteq> [] \<and> (kr_runtime r \<in> trim_space ` set runtimes \<or> kr_runtime r = [])
                then None else Some r))"
proof -
  obtain d covered new rows1 where d: "authenticateDaemon ce ds daemonID secret = Inr d"
    and cov: "normalizeCoveredRuntimes runtimes = Inr covered" and new: "status_rows (ce_now ce) d containers = Inr new"
    and up: "(if new = [] then Some rows else if ce_fault ce 1 then None else upsert_batch new rows) = Some rows1"
    and rows': "rows' = (if covered = [] then rows1 else filter (\<lambda>r. \<not> gone (d_id d) covered (map kr_container new) r) rows1)"
    using assms(1)
    by (auto simp: IngestContainerStatus_def Let_def split: sum.split_asm if_split_asm option.split_asm)
  have id: "d_id d = daemonID" using d daemon_row_Some by (auto simp: authenticateDaemon_ok)
  have covered: "set covered = trim_space ` set runtimes" "covered = [] \<longleftrightarrow> runtimes = []"
    using cov cover_shape [of "[]" runtimes covered]
    by (auto simp: normalizeCoveredRuntimes_def split: if_splits)
  have mine: "list_all (\<lambda>r. kr_daemon r = d_id d) new"
    using new status_rows_shape [of "ce_now ce" d "[]" containers new] by (simp add: status_rows_def)
  have dist: "distinct (map status_key new)" "rows1 = fold upsert_status new rows"
    using up by (auto simp: upsert_batch_def split: if_splits)
  have map1: "keys_ok rows1" "status_of rows1 (i, c) =
      (case status_of new (i, c) of None \<Rightarrow> status_of rows (i, c) | Some r \<Rightarrow> Some (merged r (status_of rows (i, c))))"
    unfolding dist(2) using fold_upsert_map [OF assms(2) dist(1)] by auto
  have ok: "keys_ok rows'" using map1(1) filter_status_map rows' by auto
  show ?thesis
  proof (cases "status_of new (i, c)")
    case (Some r)
    have okn: "keys_ok new" using dist(1) by (simp add: keys_ok_def)
    have r: "r \<in> set new" "kr_container r = c" using Some by (auto simp: status_of_Some [OF okn] status_key_def)
    have r1: "status_of rows1 (i, c) = Some (merged r (status_of rows (i, c)))" using map1(2) Some by simp
    then have "kr_container (merged r (status_of rows (i, c))) = c"
      by (simp add: status_of_Some [OF map1(1)] status_key_def)
    then have "\<not> gone (d_id d) covered (map kr_container new) (merged r (status_of rows (i, c)))"
      using r by (auto simp: gone_def)
    then have "status_of rows' (i, c) = Some (merged r (status_of rows (i, c)))"
      using r1 filter_status_map [OF map1(1)] unfolding rows' by simp
    then show ?thesis using d new ok Some by auto
  next
    case None
    then have r1: "status_of rows1 (i, c) = status_of rows (i, c)" using map1(2) by simp
    have absent: "c \<notin> set (map kr_container new)" if "i = daemonID"
      using None mine that id by (auto simp: status_of_None status_key_def list_all_iff image_iff)
    have "status_of rows' (i, c) = (case status_of rows (i, c) of None \<Rightarrow> None
            | Some r \<Rightarrow> if i = daemonID \<and> runtimes \<noteq> [] \<and> (kr_runtime r \<in> trim_space ` set runtimes \<or> kr_runtime r = [])
                then None else Some r)"
    proof (cases "status_of rows (i, c)")
      case None
      then show ?thesis using r1 filter_status_map [OF map1(1)] by (simp add: rows')
    next
      case (Some r)
      then have r: "kr_daemon r = i" "kr_container r = c" by (auto simp: status_of_Some [OF assms(2)] status_key_def)
      have "gone (d_id d) covered (map kr_container new) r \<longleftrightarrow>
          i = daemonID \<and> (kr_runtime r \<in> trim_space ` set runtimes \<or> kr_runtime r = [])"
        using r absent id covered(1) by (auto simp: gone_def)
      then show ?thesis
        using Some r1 covered(2)
          filter_status_map [OF map1(1), of "\<lambda>r. \<not> gone (d_id d) covered (map kr_container new) r" "(i, c)"]
        by (cases "covered = []") (simp_all add: rows' del: set_map)
    qed
    then show ?thesis using d new ok None by auto
  qed
qed


text \<open>The same container twice in a batch fails the whole upload.\<close>

lemma duplicate_container_refused:
  assumes "\<not> distinct (map (\<lambda>c. trim_space (si_container c)) containers)"
  shows "\<nexists>rows'. IngestContainerStatus ce ds daemonID secret containers runtimes rows = Inr rows'"
proof
  assume "\<exists>rows'. IngestContainerStatus ce ds daemonID secret containers runtimes rows = Inr rows'"
  then obtain d new rows1 where new: "status_rows (ce_now ce) d containers = Inr new"
    and up: "(if new = [] then Some rows else if ce_fault ce 1 then None else upsert_batch new rows) = Some rows1"
    by (auto simp: IngestContainerStatus_def Let_def split: sum.split_asm if_split_asm option.split_asm)
  have "distinct (map status_key new)" using up by (auto simp: upsert_batch_def split: if_splits)
  moreover have "map status_key new = map (\<lambda>r. (d_id d, kr_container r)) new"
    using new status_rows_shape [of "ce_now ce" d "[]" containers new]
    by (intro map_cong) (simp_all add: status_rows_def status_key_def list_all_iff)
  ultimately have "distinct (map (\<lambda>c. (d_id d, c)) (map kr_container new))" by (simp add: comp_def)
  then have "distinct (map kr_container new)" using distinct_map by blast
  then show False using assms new status_rows_shape [of "ce_now ce" d "[]" containers new] by (simp add: status_rows_def)
qed

definition demo_status :: "string \<Rightarrow> string \<Rightarrow> status_row" where
  "demo_status c state = \<lparr>kr_daemon = ''d1'', kr_container = c, kr_runtime = ''docker'', kr_workspace = ''w1'', kr_name = [],
     kr_image = [], kr_state = state, kr_status = [], kr_compose = [], kr_first = 1, kr_last = 1, kr_received = 1,
     kr_created = 1, kr_updated = 1\<rparr>"

definition demo_upload :: status_input where
  "demo_upload = \<lparr>si_container = ''new'', si_runtime = ''docker'', si_name = [], si_image = [], si_state = ''running'',
     si_status = [], si_compose = []\<rparr>"

lemma demo_snapshot:
  "IngestContainerStatus (fleet_cloud 9) [demo_daemon] ''d1'' ''s1'' [demo_upload] [''docker''] [demo_status ''old'' ''exited''] =
     Inr [(demo_status ''new'' ''running'')\<lparr>kr_first := 9, kr_last := 9, kr_received := 9, kr_created := 9, kr_updated := 9\<rparr>]"
  by code_simp


section \<open>Retention\<close>

definition expired :: "cloud_env \<Rightarrow> daemon list \<Rightarrow> string \<Rightarrow> time \<Rightarrow> bool" where
  "expired ce ds i t \<longleftrightarrow>
     (case daemon_row ds i of None \<Rightarrow> False
      | Some d \<Rightarrow> (case workspaceQuota ce (d_workspace d) of Inl _ \<Rightarrow> False
         | Inr quotas \<Rightarrow> let days = clampRetentionDays (quotas ''metrics_retention_days'') in
             0 < days \<and> t < retention_cutoff (ce_now ce) days))"

definition old_in :: "cloud_env \<Rightarrow> daemon list \<Rightarrow> string list \<Rightarrow> string \<Rightarrow> time \<Rightarrow> bool" where
  "old_in ce ds ws i t \<longleftrightarrow> (\<exists>d. daemon_row ds i = Some d \<and> d_workspace d \<in> set ws \<and> expired ce ds i t)"

definition kept :: "cloud_env \<Rightarrow> daemon list \<Rightarrow> string list \<Rightarrow> stored \<Rightarrow> stored" where
  "kept ce ds ws s = s\<lparr>st_metrics := filter (\<lambda>m. \<not> old_in ce ds ws (mt_daemon m) (mt_receivedAt m)) (st_metrics s),
     st_logs := filter (\<lambda>r. \<not> old_in ce ds ws (lr_daemon r) (lr_received r)) (st_logs s),
     st_status := filter (\<lambda>r. \<not> old_in ce ds ws (kr_daemon r) (kr_last r)) (st_status s)\<rparr>"

lemma of_workspace_row:
  assumes "distinct (map d_id ds)"
  shows "of_workspace ds w i \<longleftrightarrow> (\<exists>d. daemon_row ds i = Some d \<and> d_workspace d = w)"
  using assms
proof (induction ds)
  case (Cons x ds)
  show ?case
  proof (cases "d_id x = i")
    case True
    have "d_id x \<notin> d_id ` set ds" using Cons.prems by simp
    then have "\<not> list_ex (\<lambda>d. d_id d = i \<and> d_workspace d = w) ds" using True unfolding list_ex_iff by blast
    then show ?thesis using True by (simp add: of_workspace_def daemon_row_def)
  next
    case False
    then show ?thesis using Cons by (simp add: of_workspace_def daemon_row_def)
  qed
qed (simp add: of_workspace_def daemon_row_def)

lemma prune_workspace_kept:
  assumes "ce_fault ce = (\<lambda>_. False)" "distinct (map d_id ds)"
  shows "prune_workspace ce k ds w s = kept ce ds [w] s"
proof -
  have same: "s = s\<lparr>st_metrics := st_metrics s, st_logs := st_logs s, st_status := st_status s\<rparr>" by simp
  show ?thesis
  proof (cases "workspaceQuota ce w")
    case (Inl e)
    have "\<not> old_in ce ds [w] i t" for i t using Inl by (auto simp: old_in_def expired_def)
    then show ?thesis using Inl by (simp add: prune_workspace_def kept_def)
  next
    case (Inr quotas)
    let ?days = "clampRetentionDays (quotas ''metrics_retention_days'')"
    have old: "old_in ce ds [w] i t \<longleftrightarrow> 0 < ?days \<and> of_workspace ds w i \<and> t < retention_cutoff (ce_now ce) ?days" for i t
      using Inr by (auto simp: old_in_def expired_def of_workspace_row [OF assms(2)] Let_def)
    show ?thesis
    proof (cases "?days = 0")
      case True
      then show ?thesis using Inr by (simp add: prune_workspace_def kept_def old)
    next
      case False
      then show ?thesis using Inr assms(1) by (simp add: prune_workspace_def kept_def old Let_def)
    qed
  qed
qed

lemma kept_kept: "kept ce ds ws (kept ce ds [w] s) = kept ce ds (w # ws) s"
proof -
  have "old_in ce ds (w # ws) i t \<longleftrightarrow> old_in ce ds [w] i t \<or> old_in ce ds ws i t" for i t
    by (auto simp: old_in_def)
  then show ?thesis by (simp add: kept_def)
qed

lemma prune_all_kept:
  assumes "ce_fault ce = (\<lambda>_. False)" "distinct (map d_id ds)"
  shows "prune_all ce k ds ws s = kept ce ds ws s"
proof (induction ws arbitrary: k s)
  case Nil
  have "\<not> old_in ce ds [] i t" for i t by (simp add: old_in_def)
  then show ?case by (simp add: kept_def)
next
  case (Cons w ws)
  then show ?case using prune_workspace_kept [OF assms] by (simp add: kept_kept)
qed

text \<open>A prune in which no statement fails removes exactly the metrics, logs and container rows that are older than the
retention of their daemon's workspace, and leaves the rest in place: nothing of a workspace without the quota, or whose
quota cannot be read, and nothing of a daemon that no longer exists.\<close>

theorem prune_removes_expired:
  assumes "ce_fault ce = (\<lambda>_. False)" "distinct (map d_id ds)"
  shows "PruneMetrics ce ds s =
    (s\<lparr>st_metrics := filter (\<lambda>m. \<not> expired ce ds (mt_daemon m) (mt_receivedAt m)) (st_metrics s),
       st_logs := filter (\<lambda>r. \<not> expired ce ds (lr_daemon r) (lr_received r)) (st_logs s),
       st_status := filter (\<lambda>r. \<not> expired ce ds (kr_daemon r) (kr_last r)) (st_status s)\<rparr>, Inr ())"
proof -
  have "old_in ce ds (remdups (map d_workspace ds)) i t \<longleftrightarrow> expired ce ds i t" for i t
  proof (cases "daemon_row ds i")
    case None
    then show ?thesis by (simp add: old_in_def expired_def)
  next
    case (Some d)
    then have "d \<in> set ds" using daemon_row_Some by blast
    then show ?thesis using Some by (auto simp: old_in_def)
  qed
  then show ?thesis using assms by (simp add: PruneMetrics_def prune_all_kept kept_def)
qed

theorem prune_removes_expired_witness:
  "PruneMetrics (fleet_cloud 9) [demo_daemon] \<lparr>st_metrics = [], st_logs = [], st_status = [demo_status ''c'' ''up'']\<rparr> =
     (\<lparr>st_metrics = [], st_logs = [], st_status = [demo_status ''c'' ''up'']\<rparr>, Inr ())"
proof -
  have 1: "ce_fault (fleet_cloud 9) = (\<lambda>_. False)" by (simp add: fleet_cloud_def)
  have 2: "distinct (map d_id [demo_daemon])" by simp
  show ?thesis
    using prune_removes_expired [OF 1 2, of "\<lparr>st_metrics = [], st_logs = [], st_status = [demo_status ''c'' ''up'']\<rparr>"]
    by (simp add: expired_def daemon_row_def demo_daemon_def new_daemon_def demo_status_def workspaceQuota_def fleet_cloud_def
        fleet_members_def clampRetentionDays_def)
qed

section \<open>Log uploads\<close>

lemma check_entries_ok:
  assumes "rfold (\<lambda>out e. rbind (check_entry now days e) (\<lambda>e'. Inr (out @ [e']))) out es = Inr checked"
  shows "\<exists>new. checked = out @ new \<and> length new = length es \<and>
    list_all (\<lambda>e. li_line e \<noteq> [] \<and> length (li_line e) \<le> 4096 \<and> valid_utf8 (li_line e) \<and> li_container e \<noteq> [] \<and>
      length (li_container e) \<le> 128 \<and> (days = 0 \<or> retention_cutoff now days \<le> li_timestamp e)) new"
  using assms
proof (induction es arbitrary: out)
  case (Cons e es)
  then obtain e' where e': "check_entry now days e = Inr e'"
    "rfold (\<lambda>out e. rbind (check_entry now days e) (\<lambda>e'. Inr (out @ [e']))) (out @ [e']) es = Inr checked" by auto
  have "li_line e' \<noteq> [] \<and> length (li_line e') \<le> 4096 \<and> valid_utf8 (li_line e') \<and> li_container e' \<noteq> [] \<and>
      length (li_container e') \<le> 128 \<and> (days = 0 \<or> retention_cutoff now days \<le> li_timestamp e')"
    using e'(1) by (auto simp: check_entry_def Let_def split: if_splits)
  then show ?case using Cons.IH [OF e'(2)] by force
qed simp

text \<open>An accepted log upload appends one row per entry, at most five hundred, all of the uploading daemon and with the
cloud's receive time, every line valid UTF-8 of at most 4096 bytes and inside the workspace's retention; one bad entry
rejects the whole upload.\<close>

theorem log_upload_bounded:
  assumes "IngestLogs ce ds daemonID secret entries ids rows = Inr rows'" and "length ids = length entries"
  shows "\<exists>new quotas d. rows' = rows @ new \<and> length new = length entries \<and> length new \<le> 500 \<and>
    authenticateDaemon ce ds daemonID secret = Inr d \<and> workspaceQuota ce (d_workspace d) = Inr quotas \<and>
    list_all (\<lambda>r. lr_daemon r = daemonID \<and> lr_received r = ce_now ce \<and> lr_line r \<noteq> [] \<and> length (lr_line r) \<le> 4096 \<and>
      valid_utf8 (lr_line r) \<and>
      (quotas ''metrics_retention_days'' \<le> 0 \<or>
       retention_cutoff (ce_now ce) (clampRetentionDays (quotas ''metrics_retention_days'')) \<le> lr_timestamp r)) new"
proof -
  obtain d quotas checked where d: "authenticateDaemon ce ds daemonID secret = Inr d" "length entries \<le> 500"
    "workspaceQuota ce (d_workspace d) = Inr quotas"
    and c: "check_entries (ce_now ce) (clampRetentionDays (quotas ''metrics_retention_days'')) entries = Inr checked"
    and rows': "rows' = rows @ map2 (log_row_of (ce_now ce) (d_id d)) ids checked"
    using assms(1) by (auto simp: IngestLogs_def Let_def split: sum.splits if_splits)
  let ?days = "clampRetentionDays (quotas ''metrics_retention_days'')"
  have id: "d_id d = daemonID" using d(1) daemon_row_Some by (auto simp: authenticateDaemon_ok)
  have ok: "length checked = length entries"
    "list_all (\<lambda>e. li_line e \<noteq> [] \<and> length (li_line e) \<le> 4096 \<and> valid_utf8 (li_line e) \<and> li_container e \<noteq> [] \<and>
      length (li_container e) \<le> 128 \<and> (?days = 0 \<or> retention_cutoff (ce_now ce) ?days \<le> li_timestamp e)) checked"
    using check_entries_ok [of "ce_now ce" ?days "[]" entries checked] c by (auto simp: check_entries_def)
  have zero: "?days = 0 \<longleftrightarrow> quotas ''metrics_retention_days'' \<le> 0" by (auto simp: clampRetentionDays_def)
  have "list_all (\<lambda>r. lr_daemon r = daemonID \<and> lr_received r = ce_now ce \<and> lr_line r \<noteq> [] \<and> length (lr_line r) \<le> 4096 \<and>
      valid_utf8 (lr_line r) \<and> (quotas ''metrics_retention_days'' \<le> 0 \<or> retention_cutoff (ce_now ce) ?days \<le> lr_timestamp r))
      (map2 (log_row_of (ce_now ce) (d_id d)) ids checked)"
    using ok(2) zero unfolding list_all_iff id by (auto simp: log_row_of_def dest!: set_zip_rightD)
  then show ?thesis using d rows' ok(1) assms(2) by auto
qed

theorem log_upload_bounded_witness:
  "\<exists>new. [log_row_of 9 ''d1'' ''l1'' \<lparr>li_container = ''c'', li_timestamp = 8, li_line = ''up''\<rparr>] = [] @ new \<and> length new \<le> 500"
proof -
  let ?e = "\<lparr>li_container = ''c'', li_timestamp = 8, li_line = ''up''\<rparr>"
  have 1: "IngestLogs (fleet_cloud 9) [demo_daemon] ''d1'' ''s1'' [?e] [''l1''] [] = Inr [log_row_of 9 ''d1'' ''l1'' ?e]"
    by code_simp
  show ?thesis using log_upload_bounded [OF 1] by force
qed

end
