(* ===== verification/Daemon_Files.thy ===== *)
theory Daemon_Files
  imports Priv_Run Go_Text
begin

text \<open>
  The file API of the daemon (\<open>internal/daemon/files.go\<close> and \<open>files_priv.go\<close>): the policy built
  from the configuration, the lexical resolution of a request path to a configured root, the
  operations on that root through \<open>os.Root\<close>, and the routing of writes below a privileged root
  to the root helper. The tree is the host of \<open>Go_Path\<close>; every system call may fail.
\<close>

section \<open>The policy\<close>

definition FilesDefaultPrivilegedHelper :: string where
  "FilesDefaultPrivilegedHelper = ''/usr/local/libexec/maidkit-priv''"

record files_root_config =
  rc_path :: string
  rc_privileged :: bool
  rc_profile :: string

record files_config =
  fc_enabled :: bool
  fc_secret :: string
  fc_roots :: "files_root_config list"
  fc_allowWrite :: bool
  fc_maxRead :: int
  fc_maxWrite :: int
  fc_maxList :: int

record file_root =
  fr_path :: string
  fr_privileged :: bool
  fr_profile :: string

record file_policy =
  fp_secret :: string
  fp_allowWrite :: bool
  fp_maxRead :: int
  fp_maxWrite :: int
  fp_maxList :: int
  fp_roots :: "file_root list"

definition FilesDefaultMaxReadBytes :: int where "FilesDefaultMaxReadBytes = 8388608"
definition FilesDefaultMaxWriteBytes :: int where "FilesDefaultMaxWriteBytes = 8388608"
definition FilesDefaultMaxListEntries :: int where "FilesDefaultMaxListEntries = 5000"

definition or_default :: "int \<Rightarrow> int \<Rightarrow> int" where
  "or_default d v = (if v \<le> 0 then d else v)"

definition file_root_of :: "files_root_config \<Rightarrow> file_root" where
  "file_root_of r = \<lparr>fr_path = clean (rc_path r), fr_privileged = rc_privileged r, fr_profile = rc_profile r\<rparr>"

definition newFilePolicy :: "files_config \<Rightarrow> file_policy option" where
  "newFilePolicy cfg =
     (if \<not> fc_enabled cfg then None
      else Some \<lparr>fp_secret = fc_secret cfg, fp_allowWrite = fc_allowWrite cfg,
        fp_maxRead = or_default FilesDefaultMaxReadBytes (fc_maxRead cfg),
        fp_maxWrite = or_default FilesDefaultMaxWriteBytes (fc_maxWrite cfg),
        fp_maxList = or_default FilesDefaultMaxListEntries (fc_maxList cfg),
        fp_roots = map file_root_of (fc_roots cfg)\<rparr>)"

section \<open>Errors\<close>

text \<open>A failure with the HTTP status it maps to, and the mapping of the system's errors.\<close>

datatype file_action_error = fileError (fe_status: nat) (fe_message: string)

datatype root_call =
    CallOpenRoot | CallStat | CallLstat | CallOpen | CallFileStat | CallReadDir | CallInfo | CallReadlink
  | CallSeek | CallRead | CallCreate | CallWrite | CallSync | CallMkdir | CallRename | CallRemove
  | CallRemoveAll | CallSymlink

record helper_end =
  he_error :: "string option" \<comment> \<open>the error of \<open>command.Run\<close>, none when the helper exits with 0\<close>
  he_timeout :: bool
  he_stdout :: string
  he_stderr :: string

text \<open>
  What an action cannot choose. \<open>fx_fault\<close> makes a system call on a path fail; \<open>fx_names\<close> is the
  order a directory is read in; \<open>fx_partial\<close> and \<open>fx_kept\<close> are what a failing write and a failing
  recursive removal leave behind, \<open>fx_available\<close> how much of a window is still there when it is
  read; \<open>fx_run\<close> is the execution of an argument vector with its standard input.
\<close>

record files_env =
  fx_fault :: "root_call \<Rightarrow> string \<Rightarrow> os_error option"
  fx_io :: io_env
  fx_names :: "host \<Rightarrow> path \<Rightarrow> string list"
  fx_dir_size :: "path \<Rightarrow> nat"
  fx_partial :: nat
  fx_kept :: "path \<Rightarrow> bool"
  fx_available :: "string \<Rightarrow> nat option"
  fx_text :: "os_error \<Rightarrow> string"
  fx_sudo :: "string list option" \<comment> \<open>no way to elevate, or the prefix that does\<close>
  fx_helper :: string
  fx_run :: "string list \<Rightarrow> bytes option \<Rightarrow> host \<Rightarrow> host \<times> helper_end"

definition sys :: "files_env \<Rightarrow> root_call \<Rightarrow> string \<Rightarrow> os_error + 'a \<Rightarrow> os_error + 'a" where
  "sys fx call rel r = (case fx_fault fx call rel of Some e \<Rightarrow> Inl e | None \<Rightarrow> r)"

text \<open>\<open>ENOTEMPTY\<close> is a \<open>fs.ErrExist\<close> to \<open>errors.Is\<close>, so its own case is never reached.\<close>

definition fileStatus :: "files_env \<Rightarrow> os_error \<Rightarrow> file_action_error" where
  "fileStatus fx e =
     (case e of
        ErrNotExist \<Rightarrow> fileError 404 ''no such file or directory''
      | ErrPermission \<Rightarrow> fileError 403 ''permission denied''
      | ErrExist \<Rightarrow> fileError 409 ''already exists''
      | ErrNotEmpty \<Rightarrow> fileError 409 ''already exists''
      | ErrIsDir \<Rightarrow> fileError 400 ''invalid operation for this path''
      | ErrNotDir \<Rightarrow> fileError 400 ''invalid operation for this path''
      | ErrInvalid \<Rightarrow> fileError 400 ''invalid operation for this path''
      | ErrCrossDevice \<Rightarrow> fileError 400 ''cross-device operation is not supported''
      | ErrEscapes \<Rightarrow> fileError 403 ''path escapes the allowed roots''
      | _ \<Rightarrow> fileError 500 (''file operation failed: '' @ fx_text fx e))"

definition as_status :: "files_env \<Rightarrow> os_error + 'a \<Rightarrow> file_action_error + 'a" where
  "as_status fx r = map_err (fileStatus fx) r"

definition fmt_d :: "int \<Rightarrow> string" where
  "fmt_d v = (if v < 0 then CHR ''-'' # dec_digits (nat (- v)) else dec_digits (nat v))"

section \<open>Resolving a request path\<close>

record file_target =
  ft_root :: string
  ft_rel :: string
  ft_path :: string
  ft_privileged :: bool
  ft_profile :: string

definition pathInside :: "string \<Rightarrow> string \<Rightarrow> bool" where
  "pathInside root target \<longleftrightarrow> target = root \<or> root = ''/'' \<or> has_prefix (root @ ''/'') target"

fun best_root :: "string \<Rightarrow> file_root option \<Rightarrow> file_root list \<Rightarrow> file_root option" where
  "best_root target best [] = best"
| "best_root target best (r # rs) =
     (if \<not> pathInside (fr_path r) target then best_root target best rs
      else case best of
        None \<Rightarrow> best_root target (Some r) rs
      | Some b \<Rightarrow> best_root target (if length (fr_path b) < length (fr_path r) then Some r else Some b) rs)"

definition rel_below :: "string \<Rightarrow> string \<Rightarrow> string" where
  "rel_below root target =
     (let rel = trim_prefix ''/'' (trim_prefix root target) in if rel = [] then ''.'' else rel)"

definition resolve :: "file_policy \<Rightarrow> string \<Rightarrow> file_action_error + file_target" where
  "resolve p raw =
     (if CHR 0x00 \<in> set raw then Inl (fileError 400 ''path must not contain NUL'')
      else if \<not> is_abs raw then Inl (fileError 400 ''path must be absolute'')
      else case best_root (clean raw) None (fp_roots p) of
        None \<Rightarrow> Inl (fileError 403 ''path is outside the allowed roots'')
      | Some b \<Rightarrow> Inr \<lparr>ft_root = fr_path b, ft_rel = rel_below (fr_path b) (clean raw), ft_path = clean raw,
                      ft_privileged = fr_privileged b, ft_profile = fr_profile b\<rparr>)"

section \<open>The calls of \<open>os.Root\<close>\<close>

text \<open>
  The walk that follows the last component too; that component may be missing, so that a file
  can be created there. The result is the entry reached, below the root.
\<close>

fun root_final :: "host \<Rightarrow> path \<Rightarrow> nat \<Rightarrow> path \<Rightarrow> string list \<Rightarrow> os_error + path" where
  "root_final h root n st [] = Inr st"
| "root_final h root n st (c # cs) =
     (if c = [] \<or> c = ''.'' then root_final h root n st cs
      else if c = ''..'' then
        (if st = [] then Inl ErrEscapes else root_final h root n (butlast st) cs)
      else (case h (root @ st @ [c]) of
              None \<Rightarrow> (if cs = [] then Inr (st @ [c]) else Inl ErrNotExist)
            | Some (DirF m) \<Rightarrow> root_final h root n (st @ [c]) cs
            | Some (RegF m d) \<Rightarrow> (if cs = [] then Inr (st @ [c]) else Inl ErrNotDir)
            | Some (LinkF t) \<Rightarrow>
                (case n of 0 \<Rightarrow> Inl ErrTooManyLinks
                 | Suc k \<Rightarrow> if is_abs t then Inl ErrEscapes
                            else root_final h root k st (split_on slash t @ cs))))"

definition root_target :: "host \<Rightarrow> path \<Rightarrow> string \<Rightarrow> os_error + path" where
  "root_target h root rel = map_sum id (\<lambda>q. root @ q) (root_final h root root_max_links [] (split_on slash rel))"

definition existing :: "host \<Rightarrow> path \<Rightarrow> os_error + path \<times> node" where
  "existing h p = (case node_at h p of None \<Rightarrow> Inl ErrNotExist | Some nd \<Rightarrow> Inr (p, nd))"

definition root_open :: "host \<Rightarrow> path \<Rightarrow> string \<Rightarrow> os_error + path \<times> node" where
  "root_open h root rel = rbind (root_target h root rel) (existing h)"

definition root_stat :: "host \<Rightarrow> path \<Rightarrow> string \<Rightarrow> os_error + node" where
  "root_stat h root rel = map_sum id snd (root_open h root rel)"

text \<open>\<open>Lstat\<close> of the root itself, which \<open>root_lstat\<close> leaves aside, is the directory.\<close>

definition lstat_in :: "host \<Rightarrow> path \<Rightarrow> string \<Rightarrow> os_error + node" where
  "lstat_in h root rel = (if rel = ''.'' then map_sum id snd (existing h root) else root_lstat h root rel)"

definition root_readlink :: "host \<Rightarrow> path \<Rightarrow> string \<Rightarrow> os_error + string" where
  "root_readlink h root rel = rbind (lstat_in h root rel) (\<lambda>nd. case nd of LinkF t \<Rightarrow> Inr t | _ \<Rightarrow> Inl ErrInvalid)"

text \<open>\<open>OpenFile\<close> with \<open>O_WRONLY|O_CREATE|O_TRUNC\<close>: an existing file keeps its mode and loses its content.\<close>

definition root_create :: "files_env \<Rightarrow> host \<Rightarrow> path \<Rightarrow> string \<Rightarrow> fmode \<Rightarrow> os_error + host \<times> path" where
  "root_create fx h root rel perm = rbind (root_target h root rel) (\<lambda>p.
     case node_at h p of
       None \<Rightarrow> Inr (h(p \<mapsto> RegF (and perm (not (io_umask (fx_io fx)))) []), p)
     | Some (RegF m d) \<Rightarrow> Inr (h(p \<mapsto> RegF m []), p)
     | Some (DirF m) \<Rightarrow> Inl ErrIsDir
     | Some (LinkF t) \<Rightarrow> Inl ErrTooManyLinks)"

definition set_data :: "path \<Rightarrow> bytes \<Rightarrow> host \<Rightarrow> host" where
  "set_data p d h = (case h p of Some (RegF m _) \<Rightarrow> h(p \<mapsto> RegF m d) | _ \<Rightarrow> h)"

definition root_mkdir :: "files_env \<Rightarrow> host \<Rightarrow> path \<Rightarrow> string \<Rightarrow> fmode \<Rightarrow> os_error + host" where
  "root_mkdir fx h root rel m = rbind (root_entry h root rel) (\<lambda>p.
     if h p \<noteq> None then Inl ErrExist else Inr (h(p \<mapsto> DirF (and m (not (io_umask (fx_io fx)))))))"

definition root_symlink :: "host \<Rightarrow> path \<Rightarrow> string \<Rightarrow> string \<Rightarrow> os_error + host" where
  "root_symlink h root target rel = rbind (root_entry h root rel) (\<lambda>p.
     if h p \<noteq> None then Inl ErrExist else Inr (h(p \<mapsto> LinkF target)))"

definition root_remove :: "files_env \<Rightarrow> host \<Rightarrow> path \<Rightarrow> string \<Rightarrow> os_error + host" where
  "root_remove fx h root rel = rbind (root_entry h root rel) (\<lambda>p.
     case h p of
       None \<Rightarrow> Inl ErrNotExist
     | Some nd \<Rightarrow> if is_dir nd \<and> fx_names fx h p \<noteq> [] then Inl ErrNotEmpty else Inr (h(p := None)))"

text \<open>A subtree, removed (as far as \<open>kept\<close> lets it) or moved.\<close>

definition remove_tree :: "(path \<Rightarrow> bool) \<Rightarrow> path \<Rightarrow> host \<Rightarrow> host" where
  "remove_tree kept p h = (\<lambda>q. if below p q \<and> \<not> kept q then None else h q)"

definition move_tree :: "path \<Rightarrow> path \<Rightarrow> host \<Rightarrow> host" where
  "move_tree sp dp h =
     (\<lambda>q. if below dp q then h (sp @ drop (length dp) q) else if below sp q then None else h q)"

definition root_removeAll :: "files_env \<Rightarrow> host \<Rightarrow> path \<Rightarrow> string \<Rightarrow> host \<times> (os_error + unit)" where
  "root_removeAll fx h root rel =
     (case root_entry h root rel of
        Inl e \<Rightarrow> (h, Inl e)
      | Inr p \<Rightarrow>
          (case fx_fault fx CallRemoveAll rel of
             Some e \<Rightarrow> (remove_tree (fx_kept fx) p h, Inl e)
           | None \<Rightarrow> (remove_tree (\<lambda>_. False) p h, Inr ())))"

text \<open>\<open>renameat\<close>: a directory replaces only an empty directory, a file only a file or a link.\<close>

definition root_move :: "files_env \<Rightarrow> host \<Rightarrow> path \<Rightarrow> string \<Rightarrow> string \<Rightarrow> os_error + host" where
  "root_move fx h root from to =
     rbind (root_entry h root from) (\<lambda>sp. rbind (root_entry h root to) (\<lambda>dp.
       case h sp of
         None \<Rightarrow> Inl ErrNotExist
       | Some nd \<Rightarrow>
           if sp = dp then Inr h
           else if below sp dp then Inl ErrInvalid
           else if below dp sp then Inl ErrNotEmpty
           else (case h dp of
              None \<Rightarrow> Inr (move_tree sp dp h)
            | Some (DirF m) \<Rightarrow>
                if \<not> is_dir nd then Inl ErrIsDir
                else if fx_names fx h dp \<noteq> [] then Inl ErrNotEmpty
                else Inr (move_tree sp dp h)
            | Some _ \<Rightarrow> if is_dir nd then Inl ErrNotDir else Inr (move_tree sp dp h))))"

text \<open>\<open>os.OpenRoot\<close> follows links in the root's own path.\<close>

definition open_root :: "files_env \<Rightarrow> host \<Rightarrow> file_target \<Rightarrow> file_action_error + path" where
  "open_root fx h t =
     map_err (\<lambda>e. fileError 500 (''open root '' @ ft_root t @ '': '' @ fx_text fx e))
       (sys fx CallOpenRoot (ft_root t)
         (rbind (eval_symlinks h (ft_root t)) (\<lambda>p. rbind (existing h p) (\<lambda>(p, nd).
            if is_dir nd then Inr p else Inl ErrNotDir))))"

section \<open>Reading\<close>

definition fileType :: "node \<Rightarrow> string" where
  "fileType nd = (case nd of LinkF _ \<Rightarrow> ''symlink'' | DirF _ \<Rightarrow> ''directory'' | RegF _ _ \<Rightarrow> ''file'')"

record file_entry =
  en_name :: string
  en_path :: string
  en_type :: string
  en_size :: nat
  en_mode :: fmode
  en_link :: string
  en_target :: string

definition node_size :: "files_env \<Rightarrow> path \<Rightarrow> node \<Rightarrow> nat" where
  "node_size fx p nd = (case nd of RegF _ d \<Rightarrow> length d | LinkF t \<Rightarrow> length t | DirF _ \<Rightarrow> fx_dir_size fx p)"

definition fillLinkTarget :: "files_env \<Rightarrow> host \<Rightarrow> path \<Rightarrow> string \<Rightarrow> file_entry \<Rightarrow> file_entry" where
  "fillLinkTarget fx h root rel e =
     (case sys fx CallReadlink rel (root_readlink h root rel) of
        Inl _ \<Rightarrow> e
      | Inr target \<Rightarrow>
          let e' = e\<lparr>en_link := target\<rparr> in
          (case sys fx CallStat rel (root_stat h root rel) of
             Inl _ \<Rightarrow> e'
           | Inr nd \<Rightarrow> e'\<lparr>en_target := fileType nd\<rparr>))"

definition entry_of :: "files_env \<Rightarrow> host \<Rightarrow> path \<Rightarrow> string \<Rightarrow> path \<Rightarrow> string \<Rightarrow> string \<Rightarrow> node \<Rightarrow> file_entry" where
  "entry_of fx h root rel p name shown nd =
     (let e = \<lparr>en_name = name, en_path = shown, en_type = fileType nd, en_size = node_size fx p nd,
               en_mode = and (perm_of nd) 511, en_link = [], en_target = []\<rparr>
      in if fileType nd = ''symlink'' then fillLinkTarget fx h root rel e else e)"

text \<open>
  \<open>readDirLimited\<close>: the directory is read in batches of at most 256 names, and never more than
  one name past the limit.
\<close>

function read_batches :: "nat \<Rightarrow> string list \<Rightarrow> string list \<Rightarrow> string list \<times> bool" where
  "read_batches limit acc rest =
     (if length acc \<le> limit \<and> take (min 256 (limit + 1 - length acc)) rest \<noteq> [] then
        read_batches limit (acc @ take (min 256 (limit + 1 - length acc)) rest)
          (drop (min 256 (limit + 1 - length acc)) rest)
      else if limit < length acc then (take limit acc, True)
      else (acc, False))"
  by pat_completeness auto

termination
  by (relation "measure (\<lambda>(limit, acc, rest). length rest)") auto

declare read_batches.simps [simp del]

definition readDirLimited :: "files_env \<Rightarrow> host \<Rightarrow> string \<Rightarrow> path \<Rightarrow> nat \<Rightarrow> os_error + string list \<times> bool" where
  "readDirLimited fx h rel p limit = sys fx CallReadDir rel (Inr (read_batches limit [] (fx_names fx h p)))"

text \<open>An entry that has vanished since the directory was read is skipped.\<close>

definition list_entry ::
  "files_env \<Rightarrow> host \<Rightarrow> path \<Rightarrow> file_target \<Rightarrow> path \<Rightarrow> file_entry list \<Rightarrow> string \<Rightarrow> os_error + file_entry list" where
  "list_entry fx h root t p out name =
     (let rel = path_join (ft_rel t) name in
      case sys fx CallInfo rel (case h (p @ [name]) of None \<Rightarrow> Inl ErrNotExist | Some nd \<Rightarrow> Inr nd) of
        Inl e \<Rightarrow> if e = ErrNotExist then Inr out else Inl e
      | Inr nd \<Rightarrow> Inr (out @ [entry_of fx h root rel (p @ [name]) name (path_join (ft_path t) name) nd]))"

datatype file_result =
    RootsResult "file_root list" bool
  | ListResult string "file_entry list" bool
  | StatResult file_entry
  | ReadResult string int nat string
  | WriteResult string nat
  | PathResult string
  | MoveResult string string

definition policy_list :: "files_env \<Rightarrow> host \<Rightarrow> file_policy \<Rightarrow> file_target \<Rightarrow> file_action_error + file_result" where
  "policy_list fx h p t =
     rbind (open_root fx h t) (\<lambda>root.
     rbind (as_status fx (sys fx CallStat (ft_rel t) (root_stat h root (ft_rel t)))) (\<lambda>info.
       if \<not> is_dir info then Inl (fileError 400 ''not a directory'')
       else rbind (as_status fx (sys fx CallOpen (ft_rel t) (root_open h root (ft_rel t)))) (\<lambda>(dir, _).
            rbind (as_status fx (readDirLimited fx h (ft_rel t) dir (nat (fp_maxList p)))) (\<lambda>(names, truncated).
            rbind (as_status fx (rfold (list_entry fx h root t dir) [] names)) (\<lambda>entries.
              Inr (ListResult (ft_path t) (sort_key en_name entries) truncated))))))"

definition path_base :: "string \<Rightarrow> string" where
  "path_base p = (let cs = filter (\<lambda>c. c \<noteq> []) (split_on slash p) in if cs = [] then ''/'' else last cs)"

definition policy_stat :: "files_env \<Rightarrow> host \<Rightarrow> file_target \<Rightarrow> bool \<Rightarrow> file_action_error + file_result" where
  "policy_stat fx h t followed =
     rbind (open_root fx h t) (\<lambda>root.
     rbind (as_status fx (sys fx CallLstat (ft_rel t) (lstat_in h root (ft_rel t)))) (\<lambda>info.
     rbind (if followed \<and> is_link info then as_status fx (sys fx CallStat (ft_rel t) (root_stat h root (ft_rel t))) else Inr info)
       (\<lambda>nd. Inr (StatResult (entry_of fx h root (ft_rel t) root (path_base (ft_path t)) (ft_path t) nd)))))"

text \<open>\<open>openReadWindow\<close>: the file's bytes, its size and how many bytes the window covers.\<close>

definition openReadWindow ::
  "files_env \<Rightarrow> host \<Rightarrow> file_policy \<Rightarrow> file_target \<Rightarrow> int \<Rightarrow> int \<Rightarrow> file_action_error + bytes \<times> int \<times> int" where
  "openReadWindow fx h p t offset limit =
     rbind (open_root fx h t) (\<lambda>root.
     rbind (as_status fx (sys fx CallOpen (ft_rel t) (root_open h root (ft_rel t)))) (\<lambda>(_, nd).
     rbind (as_status fx (sys fx CallFileStat (ft_rel t) (Inr nd))) (\<lambda>info.
       case info of
         RegF m d \<Rightarrow>
           let size = int (length d); remaining = size - offset in
           if offset < 0 \<or> size < offset then
             Inl (fileError 416 (''offset '' @ fmt_d offset @ '' is outside the file ('' @ fmt_d size @ '' bytes)''))
           else if limit < 0 then Inl (fileError 400 ''limit must not be negative'')
           else if fp_maxRead p < limit then
             Inl (fileError 413 (''limit exceeds maxReadBytes ('' @ fmt_d (fp_maxRead p) @ '')''))
           else if limit = 0 \<and> fp_maxRead p < remaining then
             Inl (fileError 413 (''file is larger than maxReadBytes ('' @ fmt_d (fp_maxRead p) @
                                 ''); read it in windows with offset and limit''))
           else let window = (if limit = 0 \<or> remaining < limit then remaining else limit) in
             rbind (as_status fx (sys fx CallSeek (ft_rel t) (Inr ()))) (\<lambda>_. Inr (d, size, window))
       | _ \<Rightarrow> Inl (fileError 400 ''not a regular file''))))"

text \<open>
  \<open>io.ReadFull\<close> into a zeroed buffer of the window's length: when the file has become shorter the
  rest of the buffer stays zero, unless nothing at all could be read.
\<close>

definition read_full :: "files_env \<Rightarrow> string \<Rightarrow> bytes \<Rightarrow> os_error + bytes" where
  "read_full fx rel want =
     (case fx_available fx rel of
        None \<Rightarrow> Inr want
      | Some n \<Rightarrow>
          if want \<noteq> [] \<and> n = 0 then Inl (ErrIO ''EOF'')
          else Inr (take n want @ replicate (length want - n) CHR 0x00))"

definition policy_read ::
  "files_env \<Rightarrow> host \<Rightarrow> file_policy \<Rightarrow> file_target \<Rightarrow> int \<Rightarrow> int \<Rightarrow> file_action_error + file_result" where
  "policy_read fx h p t offset limit =
     rbind (openReadWindow fx h p t offset limit) (\<lambda>(d, sz, window).
     rbind (as_status fx (sys fx CallRead (ft_rel t) (read_full fx (ft_rel t) (take (nat window) (drop (nat offset) d)))))
       (\<lambda>buf. Inr (ReadResult (ft_path t) offset (nat sz) (b64_encode buf))))"

section \<open>Writing\<close>

definition read_only_error :: file_action_error where
  "read_only_error = fileError 403 ''file API is read-only''"

definition not_routed_error :: file_action_error where
  "not_routed_error = fileError 500 ''internal error: privileged root not routed through the helper''"

definition lift_host :: "files_env \<Rightarrow> host \<Rightarrow> os_error + host \<Rightarrow> 'r \<Rightarrow> host \<times> (file_action_error + 'r)" where
  "lift_host fx h r v = (case r of Inl e \<Rightarrow> (h, Inl (fileStatus fx e)) | Inr h' \<Rightarrow> (h', Inr v))"

definition lift_outcome :: "files_env \<Rightarrow> host \<times> (os_error + 'a) \<Rightarrow> 'r \<Rightarrow> host \<times> (file_action_error + 'r)" where
  "lift_outcome fx r v = (fst r, case snd r of Inl e \<Rightarrow> Inl (fileStatus fx e) | Inr _ \<Rightarrow> Inr v)"

definition policy_write ::
  "files_env \<Rightarrow> host \<Rightarrow> file_policy \<Rightarrow> file_target \<Rightarrow> bytes \<Rightarrow> host \<times> (file_action_error + file_result)" where
  "policy_write fx h p t data =
     (if \<not> fp_allowWrite p then (h, Inl read_only_error)
      else if ft_privileged t then (h, Inl not_routed_error)
      else if ft_rel t = ''.'' then (h, Inl (fileError 400 ''refusing to write a configured root''))
      else if fp_maxWrite p < int (length data) then
        (h, Inl (fileError 413 (''body exceeds maxWriteBytes ('' @ fmt_d (fp_maxWrite p) @ '')'')))
      else case open_root fx h t of
        Inl e \<Rightarrow> (h, Inl e)
      | Inr root \<Rightarrow>
          if (case sys fx CallStat (ft_rel t) (root_stat h root (ft_rel t)) of Inr nd \<Rightarrow> is_dir nd | Inl _ \<Rightarrow> False)
          then (h, Inl (fileError 409 ''path is a directory''))
          else (case sys fx CallCreate (ft_rel t) (root_create fx h root (ft_rel t) 420) of
                  Inl e \<Rightarrow> (h, Inl (fileStatus fx e))
                | Inr (h1, fp) \<Rightarrow>
                    (case fx_fault fx CallWrite (ft_rel t) of
                       Some e \<Rightarrow> (set_data fp (take (fx_partial fx) data) h1, Inl (fileStatus fx e))
                     | None \<Rightarrow> (set_data fp data h1, Inr (WriteResult (ft_path t) (length data))))))"

definition policy_mkdir ::
  "files_env \<Rightarrow> host \<Rightarrow> file_policy \<Rightarrow> file_target \<Rightarrow> bool \<Rightarrow> host \<times> (file_action_error + file_result)" where
  "policy_mkdir fx h p t parents =
     (if \<not> fp_allowWrite p then (h, Inl read_only_error)
      else if ft_privileged t then (h, Inl not_routed_error)
      else if ft_rel t = ''.'' then (h, Inl (fileError 409 ''path already exists''))
      else case open_root fx h t of
        Inl e \<Rightarrow> (h, Inl e)
      | Inr root \<Rightarrow>
          if parents then
            lift_outcome fx (mkdir_all (fx_io fx) h root root_max_links [] (split_on slash (ft_rel t)) 493) (PathResult (ft_path t))
          else
            lift_host fx h (sys fx CallMkdir (ft_rel t) (root_mkdir fx h root (ft_rel t) 493)) (PathResult (ft_path t)))"

definition policy_move ::
  "files_env \<Rightarrow> host \<Rightarrow> file_policy \<Rightarrow> file_target \<Rightarrow> file_target \<Rightarrow> host \<times> (file_action_error + file_result)" where
  "policy_move fx h p from to =
     (if \<not> fp_allowWrite p then (h, Inl read_only_error)
      else if ft_root from \<noteq> ft_root to then (h, Inl (fileError 400 ''move must stay inside one configured root''))
      else if ft_rel from = ''.'' \<or> ft_rel to = ''.'' then (h, Inl (fileError 400 ''refusing to move a configured root''))
      else case open_root fx h from of
        Inl e \<Rightarrow> (h, Inl e)
      | Inr root \<Rightarrow>
          (case sys fx CallLstat (ft_rel from) (lstat_in h root (ft_rel from)) of
             Inl e \<Rightarrow> (h, Inl (fileStatus fx e))
           | Inr _ \<Rightarrow> lift_host fx h (sys fx CallRename (ft_rel from) (root_move fx h root (ft_rel from) (ft_rel to)))
                        (MoveResult (ft_path from) (ft_path to))))"

text \<open>\<open>copyFileContents\<close>: the source is read after the destination has been opened and truncated.\<close>

definition copyFileContents ::
  "files_env \<Rightarrow> host \<Rightarrow> path \<Rightarrow> string \<Rightarrow> string \<Rightarrow> fmode \<Rightarrow> host \<times> (os_error + unit)" where
  "copyFileContents fx h root from to perm =
     (case sys fx CallOpen from (root_open h root from) of
        Inl e \<Rightarrow> (h, Inl e)
      | Inr (sp, _) \<Rightarrow>
      (case sys fx CallCreate to (root_create fx h root to perm) of
        Inl e \<Rightarrow> (h, Inl e)
      | Inr (h1, dp) \<Rightarrow>
      (case node_at h1 sp of
        Some (RegF m d) \<Rightarrow>
          (case fx_fault fx CallWrite to of
             Some e \<Rightarrow> (set_data dp (take (fx_partial fx) d) h1, Inl e)
           | None \<Rightarrow>
               (case fx_fault fx CallSync to of
                  Some e \<Rightarrow> (set_data dp d h1, Inl e)
                | None \<Rightarrow> (set_data dp d h1, Inr ())))
      | _ \<Rightarrow> (h1, Inl ErrIsDir))))"

definition copy_link ::
  "files_env \<Rightarrow> host \<Rightarrow> path \<Rightarrow> string \<Rightarrow> string \<Rightarrow> bool \<Rightarrow> host \<times> (os_error + unit)" where
  "copy_link fx h root from to overwrite =
     (case sys fx CallReadlink from (root_readlink h root from) of
        Inl e \<Rightarrow> (h, Inl e)
      | Inr target \<Rightarrow>
          (case (if overwrite \<and> is_ok (sys fx CallLstat to (lstat_in h root to))
                 then sys fx CallRemove to (root_remove fx h root to) else Inr h) of
             Inl e \<Rightarrow> (h, Inl e)
           | Inr h1 \<Rightarrow>
               (case sys fx CallSymlink to (root_symlink h1 root target to) of
                  Inl e \<Rightarrow> (h1, Inl e)
                | Inr h2 \<Rightarrow> (h2, Inr ()))))"

text \<open>The entries of a directory, one after the other, up to the first failure; \<open>None\<close> is a copy that did not end.\<close>

fun copy_each ::
  "(host \<Rightarrow> string \<Rightarrow> (host \<times> (os_error + unit)) option) \<Rightarrow> host \<Rightarrow> string list \<Rightarrow> (host \<times> (os_error + unit)) option" where
  "copy_each step h [] = Some (h, Inr ())"
| "copy_each step h (x # xs) =
     (case step h x of
        None \<Rightarrow> None
      | Some (h1, Inl e) \<Rightarrow> Some (h1, Inl e)
      | Some (h1, Inr _) \<Rightarrow> copy_each step h1 xs)"

text \<open>\<open>copyFileTree\<close>, with a bound on how deep it nests.\<close>

fun copyFileTree ::
  "files_env \<Rightarrow> path \<Rightarrow> bool \<Rightarrow> nat \<Rightarrow> host \<Rightarrow> string \<Rightarrow> string \<Rightarrow> fmode \<Rightarrow> (host \<times> (os_error + unit)) option" where
  "copyFileTree fx root overwrite 0 h from to perm = None"
| "copyFileTree fx root overwrite (Suc k) h from to perm =
     (case mkdir_all (fx_io fx) h root root_max_links [] (split_on slash to) (or perm 448) of
        (h1, Inl e) \<Rightarrow> Some (h1, Inl e)
      | (h1, Inr _) \<Rightarrow>
      (case sys fx CallOpen from (root_open h1 root from) of
        Inl e \<Rightarrow> Some (h1, Inl e)
      | Inr (sp, nd) \<Rightarrow>
      if \<not> is_dir nd then Some (h1, Inl ErrNotDir)
      else
      (case sys fx CallReadDir from (Inr (fx_names fx h1 sp)) of
        Inl e \<Rightarrow> Some (h1, Inl e)
      | Inr names \<Rightarrow>
          copy_each (\<lambda>h' name.
            (let cf = path_join from name; ct = path_join to name in
             case sys fx CallInfo cf (case h' (sp @ [name]) of None \<Rightarrow> Inl ErrNotExist | Some nd \<Rightarrow> Inr nd) of
               Inl e \<Rightarrow> Some (h', Inl e)
             | Inr (DirF m) \<Rightarrow> copyFileTree fx root overwrite k h' cf ct (and m 511)
             | Inr (LinkF t) \<Rightarrow> Some (copy_link fx h' root cf ct overwrite)
             | Inr (RegF m d) \<Rightarrow> Some (copyFileContents fx h' root cf ct (and m 511))))
            h1 names)))"

text \<open>\<open>copy\<close>; a copy that does not end returns nothing.\<close>

definition policy_copy ::
  "files_env \<Rightarrow> nat \<Rightarrow> host \<Rightarrow> file_policy \<Rightarrow> file_target \<Rightarrow> file_target \<Rightarrow> bool
     \<Rightarrow> (host \<times> (file_action_error + file_result)) option" where
  "policy_copy fx fuel h p from to overwrite =
     (if \<not> fp_allowWrite p then Some (h, Inl read_only_error)
      else if ft_root from \<noteq> ft_root to then Some (h, Inl (fileError 400 ''copy must stay inside one configured root''))
      else if ft_rel from = ''.'' \<or> ft_rel to = ''.'' then Some (h, Inl (fileError 400 ''refusing to copy a configured root''))
      else if ft_rel from = ft_rel to then Some (h, Inl (fileError 400 ''source and destination are the same path''))
      else if has_prefix (ft_rel from @ ''/'') (ft_rel to) then Some (h, Inl (fileError 400 ''destination is inside the source''))
      else case open_root fx h from of
        Inl e \<Rightarrow> Some (h, Inl e)
      | Inr root \<Rightarrow>
          (case sys fx CallLstat (ft_rel from) (lstat_in h root (ft_rel from)) of
             Inl e \<Rightarrow> Some (h, Inl (fileStatus fx e))
           | Inr info \<Rightarrow>
               let there = sys fx CallLstat (ft_rel to) (lstat_in h root (ft_rel to));
                   result = MoveResult (ft_path from) (ft_path to) in
               if is_ok there \<and> \<not> overwrite then Some (h, Inl (fileError 409 ''destination already exists''))
               else if \<not> is_ok there \<and> there \<noteq> Inl ErrNotExist then Some (h, Inl (fileStatus fx (projl there)))
               else if is_dir info then
                 map_option (\<lambda>r. lift_outcome fx r result)
                   (copyFileTree fx root overwrite fuel h (ft_rel from) (ft_rel to) (and (perm_of info) 511))
               else Some (lift_outcome fx
                   (copyFileContents fx h root (ft_rel from) (ft_rel to) (and (perm_of info) 511)) result)))"

definition policy_delete ::
  "files_env \<Rightarrow> host \<Rightarrow> file_policy \<Rightarrow> file_target \<Rightarrow> bool \<Rightarrow> host \<times> (file_action_error + file_result)" where
  "policy_delete fx h p t recursive =
     (if \<not> fp_allowWrite p then (h, Inl read_only_error)
      else if ft_privileged t then (h, Inl not_routed_error)
      else if ft_rel t = ''.'' then (h, Inl (fileError 400 ''refusing to delete a configured root''))
      else case open_root fx h t of
        Inl e \<Rightarrow> (h, Inl e)
      | Inr root \<Rightarrow>
          (case sys fx CallLstat (ft_rel t) (lstat_in h root (ft_rel t)) of
             Inl e \<Rightarrow> (h, Inl (fileStatus fx e))
           | Inr _ \<Rightarrow>
               if recursive then lift_outcome fx (root_removeAll fx h root (ft_rel t)) (PathResult (ft_path t))
               else lift_host fx h (sys fx CallRemove (ft_rel t) (root_remove fx h root (ft_rel t))) (PathResult (ft_path t))))"

end
