(* ===== verification/Daemon_Files_Run.thy ===== *)
theory Daemon_Files_Run
  imports Daemon_Files Webhook_Exec Cloud_Localization
begin

text \<open>
  How a file action is run: the privileged helper (\<open>files_priv.go\<close>), the dispatch and its audit
  entry (\<open>files.go\<close>), and the two transports, the daemon's standard input and HTTP
  (\<open>files_http.go\<close>). A JSON value is the one of \<open>Cloud_Localization\<close>; the parsers of JSON text and
  of its number literals are arguments.
\<close>

section \<open>base64 as \<open>DecodeString\<close> reads it\<close>

text \<open>
  Line breaks are skipped and the unused bits of the last group are not looked at. With padding a
  short last group is filled with \<open>=\<close>, without it (\<open>RawURLEncoding\<close>) it stands alone.
\<close>

fun b64_groups :: "(char \<Rightarrow> nat option) \<Rightarrow> bool \<Rightarrow> string \<Rightarrow> bytes option" where
  "b64_groups v padded [] = Some []"
| "b64_groups v padded [p, q] =
     (case (v p, v q) of
        (Some vp, Some vq) \<Rightarrow> if padded then None else Some [char_of (vp * 4 + vq div 16)]
      | _ \<Rightarrow> None)"
| "b64_groups v padded [p, q, r] =
     (case (v p, v q, v r) of
        (Some vp, Some vq, Some vr) \<Rightarrow>
          if padded then None else Some [char_of (vp * 4 + vq div 16), char_of (vq mod 16 * 16 + vr div 4)]
      | _ \<Rightarrow> None)"
| "b64_groups v padded (p # q # r # s # rest) =
     (case (v p, v q) of
        (Some vp, Some vq) \<Rightarrow>
          if padded \<and> r = CHR ''='' \<and> s = CHR ''='' \<and> rest = [] then Some [char_of (vp * 4 + vq div 16)]
          else (case v r of
            None \<Rightarrow> None
          | Some vr \<Rightarrow>
              if padded \<and> s = CHR ''='' \<and> rest = [] then
                Some [char_of (vp * 4 + vq div 16), char_of (vq mod 16 * 16 + vr div 4)]
              else (case (v s, b64_groups v padded rest) of
                (Some vs, Some tail) \<Rightarrow>
                  Some (char_of (vp * 4 + vq div 16) # char_of (vq mod 16 * 16 + vr div 4) #
                        char_of (vr mod 4 * 64 + vs) # tail)
              | _ \<Rightarrow> None))
      | _ \<Rightarrow> None)"
| "b64_groups v padded _ = None"

definition drop_breaks :: "string \<Rightarrow> string" where
  "drop_breaks s = filter (\<lambda>c. byte c \<noteq> 10 \<and> byte c \<noteq> 13) s"

definition b64_std_decode :: "string \<Rightarrow> bytes option" where
  "b64_std_decode s = b64_groups b64_value True (drop_breaks s)"

definition url_value :: "char \<Rightarrow> nat option" where
  "url_value c =
     (if c = CHR ''-'' then Some 62 else if c = CHR ''_'' then Some 63
      else if c = CHR ''+'' \<or> c = CHR ''/'' then None else b64_value c)"

definition b64_rawurl_decode :: "string \<Rightarrow> bytes option" where
  "b64_rawurl_decode s = b64_groups url_value False (drop_breaks s)"

section \<open>The privileged helper\<close>

definition helperPath :: "files_env \<Rightarrow> string" where
  "helperPath fx = (if trim_space (fx_helper fx) \<noteq> [] then trim_space (fx_helper fx) else FilesDefaultPrivilegedHelper)"

definition priv_argv :: "string list \<Rightarrow> string \<Rightarrow> string list \<Rightarrow> string list" where
  "priv_argv sudo path args = sudo @ path # args"

definition fs_args :: "string \<Rightarrow> string \<Rightarrow> string \<Rightarrow> string \<Rightarrow> string list" where
  "fs_args verb profile rel mode = [''fs'', verb, profile, rel] @ (if mode = [] then [] else [mode])"

text \<open>The sentence the helper wrote, or the last line that is not a JSON record.\<close>

definition helperMessage :: "string \<Rightarrow> string" where
  "helperMessage stderr =
     (if stderr = [] then []
      else let lines = split_on (CHR 0x0A) stderr in
        case find (has_prefix ''maidkit-priv: '') lines of
          Some line \<Rightarrow> trim_space line
        | None \<Rightarrow>
            (case find (\<lambda>l. l \<noteq> [] \<and> \<not> has_prefix ''{'' l) (map trim_space (rev lines)) of
               Some line \<Rightarrow> line
             | None \<Rightarrow> []))"

definition privFailure :: "string \<Rightarrow> string \<Rightarrow> string \<Rightarrow> file_action_error" where
  "privFailure err stderr path =
     (if contains ''a password is required'' stderr \<or> contains ''no tty present'' stderr \<or> contains ''no askpass program'' stderr then
        fileError 403 (''the privileged helper needs a passwordless sudoers rule; install the one `'' @ path @ '' sudoers` prints'')
      else if contains ''must run as root'' stderr then
        fileError 424 (''the privileged helper '' @ path @ '' was not granted root; install its sudoers rule'')
      else if contains ''command not found'' stderr \<or> contains ''No such file or directory'' stderr then
        fileError 424 (''the privileged helper '' @ path @ '' is not installed'')
      else fileError 502 (''the privileged helper failed: '' @
             (if helperMessage stderr = [] then err else helperMessage stderr)))"

definition priv_run ::
  "files_env \<Rightarrow> host \<Rightarrow> string list \<Rightarrow> string \<Rightarrow> string \<Rightarrow> string \<Rightarrow> string \<Rightarrow> bytes option \<Rightarrow> host \<times> (file_action_error + unit)" where
  "priv_run fx h sudo verb profile rel mode payload =
     (let (h', e) = fx_run fx (priv_argv sudo (helperPath fx) (fs_args verb profile rel mode)) payload h in
      (h', case he_error e of
             None \<Rightarrow> Inr ()
           | Some err \<Rightarrow>
               if he_timeout e then Inl (fileError 504 ''privileged helper timed out after 30s'')
               else Inl (privFailure err (trim_space (he_stderr e)) (helperPath fx))))"

definition no_helper :: file_action_error where
  "no_helper = fileError 503 ''no privileged helper is available on this host''"

definition mode_text :: "fmode \<Rightarrow> string" where
  "mode_text m = fmt_04o (unat m)"

definition privWrite :: "files_env \<Rightarrow> host \<Rightarrow> file_target \<Rightarrow> bytes \<Rightarrow> fmode \<Rightarrow> host \<times> (file_action_error + unit)" where
  "privWrite fx h t data mode =
     (case fx_sudo fx of
        None \<Rightarrow> (h, Inl no_helper)
      | Some sudo \<Rightarrow>
          if MaxContentBytes < length data then
            (h, Inl (fileError 413 (''content is over the privileged write limit ('' @ dec_digits MaxContentBytes @ '' bytes)'')))
          else priv_run fx h sudo ''write'' (ft_profile t) (ft_rel t) (mode_text mode) (Some data))"

definition privMkdir :: "files_env \<Rightarrow> host \<Rightarrow> file_target \<Rightarrow> fmode \<Rightarrow> host \<times> (file_action_error + unit)" where
  "privMkdir fx h t mode =
     (case fx_sudo fx of
        None \<Rightarrow> (h, Inl no_helper)
      | Some sudo \<Rightarrow> priv_run fx h sudo ''mkdir'' (ft_profile t) (ft_rel t) (mode_text mode) None)"

definition privRemove :: "files_env \<Rightarrow> host \<Rightarrow> file_target \<Rightarrow> host \<times> (file_action_error + unit)" where
  "privRemove fx h t =
     (case fx_sudo fx of
        None \<Rightarrow> (h, Inl no_helper)
      | Some sudo \<Rightarrow> priv_run fx h sudo ''remove'' (ft_profile t) (ft_rel t) [] None)"

definition privWriteModeFor :: "files_env \<Rightarrow> host \<Rightarrow> string \<Rightarrow> fmode" where
  "privWriteModeFor fx h p =
     (case sys fx CallStat p (stat_abs h p) of
        Inr (RegF m d) \<Rightarrow> and m 511
      | _ \<Rightarrow> 420)"

definition privMkdirMode :: fmode where "privMkdirMode = 493"

section \<open>Dispatch\<close>

record file_request =
  q_path :: string
  q_from :: string
  q_to :: string
  q_parents :: bool
  q_recursive :: bool
  q_overwrite :: bool
  q_follow :: "bool option"
  q_offset :: int
  q_limit :: int
  q_content :: string

definition empty_request :: file_request where
  "empty_request = \<lparr>q_path = [], q_from = [], q_to = [], q_parents = False, q_recursive = False, q_overwrite = False,
     q_follow = None, q_offset = 0, q_limit = 0, q_content = []\<rparr>"

definition file_actions :: "string list" where
  "file_actions = [''files.roots'', ''files.list'', ''files.stat'', ''files.read'', ''files.write'', ''files.mkdir'',
     ''files.move'', ''files.copy'', ''files.delete'']"

definition isFileActionSlug :: "string \<Rightarrow> bool" where
  "isFileActionSlug name \<longleftrightarrow> name \<in> set file_actions"

definition errPrivilegedMoveOrCopy :: file_action_error where
  "errPrivilegedMoveOrCopy = fileError 501
     ''move and copy are not supported inside a privileged root; write the new path and delete the old one''"

definition checkPolicyWrite :: "file_policy \<Rightarrow> file_target \<Rightarrow> nat \<Rightarrow> file_action_error + unit" where
  "checkPolicyWrite p t len =
     (if \<not> fp_allowWrite p then Inl read_only_error
      else if ft_rel t = ''.'' then Inl (fileError 400 ''refusing to modify a configured root'')
      else if 0 < fp_maxWrite p \<and> fp_maxWrite p < int len then
        Inl (fileError 413 (''body exceeds maxWriteBytes ('' @ fmt_d (fp_maxWrite p) @ '')''))
      else Inr ())"

text \<open>What an action leaves: the tree, whether it went through the helper, and its answer.\<close>

type_synonym file_outcome = "host \<times> bool \<times> (file_action_error + file_result)"

definition direct :: "host \<times> (file_action_error + file_result) \<Rightarrow> file_outcome" where
  "direct r = (fst r, False, snd r)"

definition through_helper :: "host \<times> (file_action_error + unit) \<Rightarrow> file_result \<Rightarrow> file_outcome" where
  "through_helper r v = (fst r, True, rbind (snd r) (\<lambda>_. Inr v))"

definition writeFileData :: "files_env \<Rightarrow> host \<Rightarrow> file_policy \<Rightarrow> file_target \<Rightarrow> bytes \<Rightarrow> file_outcome" where
  "writeFileData fx h p t data =
     (if ft_privileged t then
        (case checkPolicyWrite p t (length data) of
           Inl e \<Rightarrow> (h, False, Inl e)
         | Inr _ \<Rightarrow> through_helper (privWrite fx h t data (privWriteModeFor fx h (ft_path t))) (WriteResult (ft_path t) (length data)))
      else direct (policy_write fx h p t data))"

definition do_mkdir :: "files_env \<Rightarrow> host \<Rightarrow> file_policy \<Rightarrow> file_target \<Rightarrow> bool \<Rightarrow> file_outcome" where
  "do_mkdir fx h p t parents =
     (if ft_privileged t then
        (case checkPolicyWrite p t 0 of
           Inl e \<Rightarrow> (h, False, Inl e)
         | Inr _ \<Rightarrow> through_helper (privMkdir fx h t privMkdirMode) (PathResult (ft_path t)))
      else direct (policy_mkdir fx h p t parents))"

definition do_delete :: "files_env \<Rightarrow> host \<Rightarrow> file_policy \<Rightarrow> file_target \<Rightarrow> bool \<Rightarrow> file_outcome" where
  "do_delete fx h p t recursive =
     (if ft_privileged t then
        (case checkPolicyWrite p t 0 of
           Inl e \<Rightarrow> (h, False, Inl e)
         | Inr _ \<Rightarrow>
             if recursive then
               (h, False, Inl (fileError 501 ''a privileged root only removes single files; recursive delete is not implemented''))
             else through_helper (privRemove fx h t) (PathResult (ft_path t)))
      else direct (policy_delete fx h p t recursive))"

text \<open>An action on one resolved path, and one on two.\<close>

definition on_path ::
  "host \<Rightarrow> file_policy \<Rightarrow> string \<Rightarrow> (file_target \<Rightarrow> file_outcome) \<Rightarrow> file_outcome option" where
  "on_path h p raw act = Some (case resolve p raw of Inl e \<Rightarrow> (h, False, Inl e) | Inr t \<Rightarrow> act t)"

definition on_paths ::
  "host \<Rightarrow> file_policy \<Rightarrow> file_request \<Rightarrow> (file_target \<Rightarrow> file_target \<Rightarrow> file_outcome option) \<Rightarrow> file_outcome option" where
  "on_paths h p q act =
     (case resolve p (q_from q) of
        Inl e \<Rightarrow> Some (h, False, Inl e)
      | Inr from \<Rightarrow>
      (case resolve p (q_to q) of
        Inl e \<Rightarrow> Some (h, False, Inl e)
      | Inr to \<Rightarrow>
          if ft_privileged from \<or> ft_privileged to then Some (h, False, Inl errPrivilegedMoveOrCopy)
          else act from to))"

definition dispatchFileAction ::
  "files_env \<Rightarrow> nat \<Rightarrow> host \<Rightarrow> file_policy \<Rightarrow> string \<Rightarrow> file_request \<Rightarrow> file_outcome option" where
  "dispatchFileAction fx fuel h p action q =
     (if action = ''files.roots'' then Some (h, False, Inr (RootsResult (fp_roots p) (fp_allowWrite p)))
      else if action = ''files.list'' then on_path h p (q_path q) (\<lambda>t. (h, False, policy_list fx h p t))
      else if action = ''files.stat'' then
        on_path h p (q_path q) (\<lambda>t. (h, False, policy_stat fx h t (case q_follow q of None \<Rightarrow> True | Some f \<Rightarrow> f)))
      else if action = ''files.read'' then
        on_path h p (q_path q) (\<lambda>t. (h, False, policy_read fx h p t (q_offset q) (q_limit q)))
      else if action = ''files.write'' then
        on_path h p (q_path q) (\<lambda>t. case b64_std_decode (q_content q) of
            None \<Rightarrow> (h, False, Inl (fileError 400 ''content must be base64''))
          | Some data \<Rightarrow> writeFileData fx h p t data)
      else if action = ''files.mkdir'' then on_path h p (q_path q) (\<lambda>t. do_mkdir fx h p t (q_parents q))
      else if action = ''files.move'' then on_paths h p q (\<lambda>from to. Some (direct (policy_move fx h p from to)))
      else if action = ''files.copy'' then
        on_paths h p q (\<lambda>from to. map_option direct (policy_copy fx fuel h p from to (q_overwrite q)))
      else if action = ''files.delete'' then on_path h p (q_path q) (\<lambda>t. do_delete fx h p t (q_recursive q))
      else Some (h, False, Inl (fileError 400 ''unsupported file action'')))"

section \<open>The audit entry\<close>

record file_audit =
  fa_name :: string
  fa_source :: string
  fa_invokedBy :: string
  fa_target :: string
  fa_privileged :: bool
  fa_ok :: bool
  fa_error :: string

definition recordFileOp ::
  "bool \<Rightarrow> string \<Rightarrow> string \<Rightarrow> string \<Rightarrow> string \<Rightarrow> bool \<Rightarrow> file_action_error + 'a \<Rightarrow> file_audit list" where
  "recordFileOp audited source action invokedBy target privileged r =
     (if audited then
        [\<lparr>fa_name = action, fa_source = source, fa_invokedBy = invokedBy, fa_target = target, fa_privileged = privileged,
          fa_ok = is_ok r, fa_error = (case r of Inl e \<Rightarrow> fe_message e | Inr _ \<Rightarrow> [])\<rparr>]
      else [])"

definition runFileAction ::
  "files_env \<Rightarrow> nat \<Rightarrow> bool \<Rightarrow> host \<Rightarrow> file_policy \<Rightarrow> string \<Rightarrow> string \<Rightarrow> string \<Rightarrow> file_request
     \<Rightarrow> (host \<times> file_audit list \<times> (file_action_error + file_result)) option" where
  "runFileAction fx fuel audited h p source action invokedBy q =
     (let target = (if action = ''files.move'' \<or> action = ''files.copy'' then q_from q @ '' -> '' @ q_to q else q_path q) in
      map_option (\<lambda>(h', privileged, r). (h', recordFileOp audited source action invokedBy target privileged r, r))
        (dispatchFileAction fx fuel h p action q))"

section \<open>The request body\<close>

text \<open>
  Each field is typed strictly. The fields of one kind are the entries of a Go map, visited in an
  order the runtime chooses (\<open>order\<close>); the fields before a mistyped one have been filled in.
  \<open>whole\<close> is the \<open>int64\<close> a number literal stands for, if it stands for one.
\<close>

definition string_field :: "(string \<times> jval) list \<Rightarrow> file_request \<Rightarrow> string \<Rightarrow> file_action_error + file_request" where
  "string_field values q key =
     (case map_of values key of
        None \<Rightarrow> Inr q
      | Some (JString s) \<Rightarrow>
          Inr (if key = ''path'' then q\<lparr>q_path := s\<rparr> else if key = ''from'' then q\<lparr>q_from := s\<rparr>
               else if key = ''to'' then q\<lparr>q_to := s\<rparr> else q\<lparr>q_content := s\<rparr>)
      | Some _ \<Rightarrow> Inl (fileError 400 (key @ '' must be a string'')))"

definition bool_field :: "(string \<times> jval) list \<Rightarrow> file_request \<Rightarrow> string \<Rightarrow> file_action_error + file_request" where
  "bool_field values q key =
     (case map_of values key of
        None \<Rightarrow> Inr q
      | Some (JBool b) \<Rightarrow>
          Inr (if key = ''parents'' then q\<lparr>q_parents := b\<rparr> else if key = ''recursive'' then q\<lparr>q_recursive := b\<rparr>
               else q\<lparr>q_overwrite := b\<rparr>)
      | Some _ \<Rightarrow> Inl (fileError 400 (key @ '' must be a boolean'')))"

definition int_field ::
  "(string \<Rightarrow> int option) \<Rightarrow> (string \<times> jval) list \<Rightarrow> file_request \<Rightarrow> string \<Rightarrow> file_action_error + file_request" where
  "int_field whole values q key =
     (case map_of values key of
        None \<Rightarrow> Inr q
      | Some (JNumber lit) \<Rightarrow>
          (case whole lit of
             None \<Rightarrow> Inl (fileError 400 (key @ '' must be an integer''))
           | Some v \<Rightarrow>
               if v < 0 then Inl (fileError 400 (key @ '' must not be negative''))
               else Inr (if key = ''offset'' then q\<lparr>q_offset := v\<rparr> else q\<lparr>q_limit := v\<rparr>))
      | Some _ \<Rightarrow> Inl (fileError 400 (key @ '' must be an integer'')))"

definition follow_field :: "(string \<times> jval) list \<Rightarrow> file_request \<Rightarrow> file_action_error + file_request" where
  "follow_field values q =
     (case map_of values ''follow'' of
        None \<Rightarrow> Inr q
      | Some (JBool b) \<Rightarrow> Inr (q\<lparr>q_follow := Some b\<rparr>)
      | Some _ \<Rightarrow> Inl (fileError 400 ''follow must be a boolean''))"

fun fill_fields ::
  "(file_request \<Rightarrow> 'k \<Rightarrow> file_action_error + file_request) \<Rightarrow> file_request \<Rightarrow> 'k list
     \<Rightarrow> file_request \<times> file_action_error option" where
  "fill_fields f q [] = (q, None)"
| "fill_fields f q (k # ks) = (case f q k of Inl e \<Rightarrow> (q, Some e) | Inr q' \<Rightarrow> fill_fields f q' ks)"

definition fileBodyFromValues ::
  "(string list \<Rightarrow> string list) \<Rightarrow> (string \<Rightarrow> int option) \<Rightarrow> (string \<times> jval) list \<Rightarrow> file_request
     \<Rightarrow> file_request \<times> file_action_error option" where
  "fileBodyFromValues order whole values q =
     fill_fields (\<lambda>q f. f q) q
       (map (\<lambda>k q. string_field values q k) (order [''path'', ''from'', ''to'', ''content'']) @
        map (\<lambda>k q. bool_field values q k) (order [''parents'', ''recursive'', ''overwrite'']) @
        map (\<lambda>k q. int_field whole values q k) (order [''offset'', ''limit'']) @
        [follow_field values])"

section \<open>The stdio transport\<close>

record json_env =
  je_decode :: "bytes \<Rightarrow> (string \<times> jval) list option" \<comment> \<open>\<open>json.Unmarshal\<close> into a map\<close>
  je_whole :: "string \<Rightarrow> int option"
  je_order :: "string list \<Rightarrow> string list"

definition filePolicyFrom :: "files_config \<Rightarrow> file_action_error + file_policy" where
  "filePolicyFrom cfg =
     (case newFilePolicy cfg of None \<Rightarrow> Inl (fileError 403 ''file API is disabled'') | Some p \<Rightarrow> Inr p)"

definition runStdioFileAction ::
  "files_env \<Rightarrow> nat \<Rightarrow> bool \<Rightarrow> json_env \<Rightarrow> host \<Rightarrow> files_config \<Rightarrow> string \<Rightarrow> bytes
     \<Rightarrow> (host \<times> file_audit list \<times> (file_action_error + file_result)) option" where
  "runStdioFileAction fx fuel audited je h cfg action body =
     (case filePolicyFrom cfg of
        Inl e \<Rightarrow> Some (h, [], Inl e)
      | Inr p \<Rightarrow>
          if body = [] then runFileAction fx fuel audited h p ''stdio'' action ''stdio'' empty_request
          else (case je_decode je body of
            None \<Rightarrow> Some (h, [], Inl (fileError 400 ''invalid JSON body''))
          | Some values \<Rightarrow>
              (case fileBodyFromValues (je_order je) (je_whole je) values empty_request of
                 (q, Some e) \<Rightarrow> Some (h, recordFileOp audited ''stdio'' action ''stdio'' (q_path q) False (Inl e :: _ + file_result), Inl e)
               | (q, None) \<Rightarrow> runFileAction fx fuel audited h p ''stdio'' action ''stdio'' q)))"

end
