(* ===== verification/Daemon_Files_Http.thy ===== *)
theory Daemon_Files_Http
  imports Daemon_Files_Run
begin

text \<open>
  The HTTP surface of the file API (\<open>internal/daemon/files_http.go\<close>): the credential check, the
  query string, the signed JSON body, and the handlers. \<open>gin\<close> and \<open>net/http\<close> are reduced to the
  request they hand over; query and header lookups of a missing name give the empty string.
\<close>

record file_http =
  rq_authorization :: string
  rq_protocol :: string \<comment> \<open>\<open>Sec-WebSocket-Protocol\<close>\<close>
  rq_signature :: string
  rq_query :: "string \<Rightarrow> string"
  rq_body :: "bytes option" \<comment> \<open>none when reading it fails\<close>

record http_config =
  hc_files :: files_config
  hc_metricsSecret :: string
  hc_maxBody :: int
  hc_audited :: bool
  hc_mac :: "string \<Rightarrow> bytes \<Rightarrow> string" \<comment> \<open>the lower-case hex HMAC-SHA256\<close>

datatype http_answer =
    Refusal file_action_error
  | Json file_result
  | Raw int bytes \<comment> \<open>the file's total size in a header, and the body\<close>

type_synonym http_outcome = "host \<times> file_audit list \<times> http_answer"

section \<open>Credentials\<close>

definition fileExpectedSecret :: "string \<Rightarrow> string \<Rightarrow> string" where
  "fileExpectedSecret fileSecret metricsSecret = (if fileSecret \<noteq> [] then fileSecret else metricsSecret)"

text \<open>The first token with the prefix decides, whether it decodes or not.\<close>

definition fileSubprotocolSecret :: "string \<Rightarrow> string option" where
  "fileSubprotocolSecret header =
     (case find (has_prefix ''maidcafe.files.'') (map trim_space (split_on (CHR '','') header)) of
        None \<Rightarrow> None
      | Some token \<Rightarrow>
          (case b64_rawurl_decode (trim_prefix ''maidcafe.files.'' token) of
             None \<Rightarrow> None
           | Some s \<Rightarrow> if s = [] then None else Some s))"

definition fileAuthorizedRequest :: "file_http \<Rightarrow> string \<Rightarrow> string \<Rightarrow> bool \<Rightarrow> bool" where
  "fileAuthorizedRequest r metricsSecret fileSecret allowQueryToken =
     (let expected = fileExpectedSecret fileSecret metricsSecret;
          token = trim_space (rq_query r ''token'') in
      if expected = [] then False
      else if bearerSecret (rq_authorization r) = Some expected then True
      else if fileSubprotocolSecret (rq_protocol r) = Some expected then True
      else allowQueryToken \<and> token \<noteq> [] \<and> token = expected)"

section \<open>The query string\<close>

definition query :: "file_http \<Rightarrow> string \<Rightarrow> string" where
  "query r name = trim_space (rq_query r name)"

definition parse_bool :: "string \<Rightarrow> bool option" where
  "parse_bool s =
     (if s \<in> {''1'', ''t'', ''T'', ''TRUE'', ''true'', ''True''} then Some True
      else if s \<in> {''0'', ''f'', ''F'', ''FALSE'', ''false'', ''False''} then Some False
      else None)"

definition fileQueryInt :: "file_http \<Rightarrow> string \<Rightarrow> int \<Rightarrow> file_action_error + int" where
  "fileQueryInt r name fallback =
     (let raw = query r name; bad = Inl (fileError 400 (name @ '' must be a non-negative integer'')) in
      if raw = [] then Inr fallback
      else case atoi raw of None \<Rightarrow> bad | Some v \<Rightarrow> if v < 0 then bad else Inr v)"

definition fileQueryWindow :: "file_http \<Rightarrow> file_request \<Rightarrow> file_action_error + file_request" where
  "fileQueryWindow r q =
     rbind (fileQueryInt r ''offset'' 0) (\<lambda>offset. rbind (fileQueryInt r ''limit'' 0) (\<lambda>limit.
       Inr (q\<lparr>q_path := query r ''path'', q_offset := offset, q_limit := limit\<rparr>)))"

definition queryBool :: "file_http \<Rightarrow> string \<Rightarrow> bool \<Rightarrow> bool" where
  "queryBool r name dst =
     (if dst then True
      else let raw = query r name in
        if raw = [] then False else (case parse_bool raw of None \<Rightarrow> False | Some b \<Rightarrow> b))"

definition or_query :: "file_http \<Rightarrow> string \<Rightarrow> string \<Rightarrow> string" where
  "or_query r name v = (if v = [] then query r name else v)"

definition mergeFileQuery :: "file_http \<Rightarrow> file_request \<Rightarrow> file_request" where
  "mergeFileQuery r q =
     q\<lparr>q_path := or_query r ''path'' (q_path q), q_from := or_query r ''from'' (q_from q), q_to := or_query r ''to'' (q_to q),
       q_recursive := queryBool r ''recursive'' (q_recursive q), q_parents := queryBool r ''parents'' (q_parents q),
       q_overwrite := queryBool r ''overwrite'' (q_overwrite q)\<rparr>"

section \<open>The JSON body\<close>

definition body_limit :: "http_config \<Rightarrow> int" where
  "body_limit hc =
     (case newFilePolicy (hc_files hc) of
        None \<Rightarrow> hc_maxBody hc
      | Some p \<Rightarrow> max (hc_maxBody hc) (fp_maxWrite p + fp_maxWrite p div 2 + 65536))"

definition decodeFileBody ::
  "json_env \<Rightarrow> http_config \<Rightarrow> file_http \<Rightarrow> file_request \<Rightarrow> file_action_error + file_request" where
  "decodeFileBody je hc r q =
     (case rq_body r of
        None \<Rightarrow> Inl (fileError 400 ''read request body'')
      | Some raw \<Rightarrow>
          if body_limit hc < int (length raw) then Inl (fileError 413 ''request body too large'')
          else if raw = [] then Inr q
          else if \<not> signatureValid (hc_mac hc) (hc_metricsSecret hc) raw (rq_signature r) then Inl (fileError 401 ''unauthorized'')
          else case je_decode je raw of
            None \<Rightarrow> Inl (fileError 400 ''invalid JSON body'')
          | Some values \<Rightarrow>
              (case fileBodyFromValues (je_order je) (je_whole je) values q of
                 (q', Some e) \<Rightarrow> Inl e
               | (q', None) \<Rightarrow> Inr q'))"

section \<open>The handlers\<close>

definition unauthorized :: file_action_error where
  "unauthorized = fileError 401 ''unauthorized''"

definition answer :: "file_action_error + file_result \<Rightarrow> http_answer" where
  "answer r = (case r of Inl e \<Rightarrow> Refusal e | Inr v \<Rightarrow> Json v)"

definition serveFileAction ::
  "files_env \<Rightarrow> nat \<Rightarrow> http_config \<Rightarrow> host \<Rightarrow> file_http \<Rightarrow> string \<Rightarrow> (file_request \<Rightarrow> file_action_error + file_request)
     \<Rightarrow> http_outcome option" where
  "serveFileAction fx fuel hc h r action decorate =
     (case filePolicyFrom (hc_files hc) of
        Inl e \<Rightarrow> Some (h, [], Refusal e)
      | Inr p \<Rightarrow>
          if \<not> fileAuthorizedRequest r (hc_metricsSecret hc) (fp_secret p) False then Some (h, [], Refusal unauthorized)
          else (case decorate empty_request of
             Inl e \<Rightarrow> Some (h, [], Refusal e)
           | Inr q \<Rightarrow>
               map_option (\<lambda>(h', log, res). (h', log, answer res))
                 (runFileAction fx fuel (hc_audited hc) h p ''http'' action [] q)))"

definition serveFileMutation ::
  "files_env \<Rightarrow> nat \<Rightarrow> json_env \<Rightarrow> http_config \<Rightarrow> host \<Rightarrow> file_http \<Rightarrow> string \<Rightarrow> http_outcome option" where
  "serveFileMutation fx fuel je hc h r action =
     serveFileAction fx fuel hc h r action (\<lambda>q. rbind (decodeFileBody je hc r q) (\<lambda>q'. Inr (mergeFileQuery r q')))"

definition handleFileRoots :: "files_env \<Rightarrow> nat \<Rightarrow> http_config \<Rightarrow> host \<Rightarrow> file_http \<Rightarrow> http_outcome option" where
  "handleFileRoots fx fuel hc h r = serveFileAction fx fuel hc h r ''files.roots'' Inr"

definition handleFileList :: "files_env \<Rightarrow> nat \<Rightarrow> http_config \<Rightarrow> host \<Rightarrow> file_http \<Rightarrow> http_outcome option" where
  "handleFileList fx fuel hc h r =
     serveFileAction fx fuel hc h r ''files.list'' (\<lambda>q. Inr (q\<lparr>q_path := query r ''path''\<rparr>))"

definition handleFileStat :: "files_env \<Rightarrow> nat \<Rightarrow> http_config \<Rightarrow> host \<Rightarrow> file_http \<Rightarrow> http_outcome option" where
  "handleFileStat fx fuel hc h r =
     serveFileAction fx fuel hc h r ''files.stat'' (\<lambda>q.
       let raw = query r ''follow''; q1 = q\<lparr>q_path := query r ''path''\<rparr> in
       if raw = [] then Inr q1
       else case parse_bool raw of
         None \<Rightarrow> Inl (fileError 400 ''follow must be a boolean'')
       | Some b \<Rightarrow> Inr (q1\<lparr>q_follow := Some b\<rparr>))"

definition handleFileRead :: "files_env \<Rightarrow> nat \<Rightarrow> json_env \<Rightarrow> http_config \<Rightarrow> host \<Rightarrow> file_http \<Rightarrow> http_outcome option" where
  "handleFileRead fx fuel je hc h r =
     serveFileAction fx fuel hc h r ''files.read'' (\<lambda>q. rbind (fileQueryWindow r q) (decodeFileBody je hc r))"

text \<open>The raw read: the window is copied to the response as far as it can be read.\<close>

definition handleFileContent :: "files_env \<Rightarrow> http_config \<Rightarrow> host \<Rightarrow> file_http \<Rightarrow> http_outcome" where
  "handleFileContent fx hc h r =
     (case filePolicyFrom (hc_files hc) of
        Inl e \<Rightarrow> (h, [], Refusal e)
      | Inr p \<Rightarrow>
      if \<not> fileAuthorizedRequest r (hc_metricsSecret hc) (fp_secret p) True then (h, [], Refusal unauthorized)
      else (case resolve p (query r ''path'') of
        Inl e \<Rightarrow>
          (h, recordFileOp (hc_audited hc) ''http'' ''files.read'' [] (query r ''path'') False (Inl e :: _ + unit), Refusal e)
      | Inr t \<Rightarrow>
      (case rbind (fileQueryInt r ''offset'' 0) (\<lambda>offset. rbind (fileQueryInt r ''limit'' 0) (\<lambda>limit. Inr (offset, limit))) of
        Inl e \<Rightarrow> (h, [], Refusal e)
      | Inr (offset, limit) \<Rightarrow>
      (case openReadWindow fx h p t offset limit of
        Inl e \<Rightarrow> (h, recordFileOp (hc_audited hc) ''http'' ''files.read'' [] (ft_path t) False (Inl e :: _ + unit), Refusal e)
      | Inr (d, sz, window) \<Rightarrow>
          let want = take (nat window) (drop (nat offset) d);
              sent = (case fx_available fx (ft_rel t) of None \<Rightarrow> want | Some n \<Rightarrow> take n want) in
          (h, if fx_fault fx CallRead (ft_rel t) = None
              then recordFileOp (hc_audited hc) ''http'' ''files.read'' [] (ft_path t) False (Inr () :: _ + unit) else [],
           Raw sz sent)))))"

text \<open>The raw write: the body itself is the content, cut one byte past the limit.\<close>

definition handleFileWriteRaw :: "files_env \<Rightarrow> http_config \<Rightarrow> host \<Rightarrow> file_http \<Rightarrow> http_outcome" where
  "handleFileWriteRaw fx hc h r =
     (case filePolicyFrom (hc_files hc) of
        Inl e \<Rightarrow> (h, [], Refusal e)
      | Inr p \<Rightarrow>
      if \<not> fileAuthorizedRequest r (hc_metricsSecret hc) (fp_secret p) False then (h, [], Refusal unauthorized)
      else (case resolve p (query r ''path'') of
        Inl e \<Rightarrow>
          (h, recordFileOp (hc_audited hc) ''http'' ''files.write'' [] (query r ''path'') False (Inl e :: _ + unit), Refusal e)
      | Inr t \<Rightarrow>
      (case rq_body r of
        None \<Rightarrow> (h, [], Refusal (fileError 400 ''read request body''))
      | Some raw \<Rightarrow>
          let body = take (nat (fp_maxWrite p + 1)) raw in
          if fp_maxWrite p < int (length body) then
            (h, [], Refusal (fileError 413 (''body exceeds maxWriteBytes ('' @ fmt_d (fp_maxWrite p) @ '')'')))
          else
            (case writeFileData fx h p t body of
               (h', privileged, res) \<Rightarrow>
                 (h', recordFileOp (hc_audited hc) ''http'' ''files.write'' [] (ft_path t) privileged res, answer res)))))"

end
