(* ===== verification/Daemon_Files_Facts.thy ===== *)
theory Daemon_Files_Facts
  imports Daemon_Files_Http
begin

text \<open>
  What the file API promises: a resolved path lies in the most specific root that contains it, an
  action changes nothing outside that root, a read-only policy changes nothing at all.
\<close>

section \<open>Absolute paths as lists of names\<close>

definition abs_of :: "string list \<Rightarrow> string" where
  "abs_of ns = slash # join_with ''/'' ns"

lemma clean_comps_rooted:
  assumes "\<forall>c \<in> set cs. slash \<notin> set c" "list_all normal st"
  shows "list_all normal (clean_comps True st cs)"
  using assms
proof (induction cs arbitrary: st)
  case Nil
  then show ?case by (simp add: list_all_iff)
next
  case (Cons c cs)
  consider (skip) "c = [] \<or> c = ''.''" | (up) "c = ''..''" | (name) "normal c"
    using Cons.prems(1) by (auto simp: normal_def)
  then show ?case
  proof cases
    case up
    then show ?thesis using Cons by (cases st) (auto simp: normal_def)
  next
    case name
    then show ?thesis using Cons by (auto simp: normal_def)
  qed (use Cons in auto)
qed

lemma clean_abs:
  assumes "is_abs s"
  obtains ns where "list_all normal ns" "clean s = abs_of ns"
proof
  let ?ns = "clean_comps True [] (split_on slash s)"
  have "\<forall>c \<in> set (split_on slash s). slash \<notin> set c" using split_on_no_sep by blast
  then show "list_all normal ?ns" by (intro clean_comps_rooted) auto
  show "clean s = abs_of ?ns" using assms by (simp add: clean_def abs_of_def)
qed

lemma abs_of_inj:
  assumes "list_all normal ms" "list_all normal ns" "abs_of ms = abs_of ns"
  shows "ms = ns"
proof -
  have eq: "join_with ''/'' ms = join_with ''/'' ns" using assms(3) by (simp add: abs_of_def)
  show ?thesis
  proof (cases "ms = [] \<or> ns = []")
    case True
    then show ?thesis using eq join_normal_nonempty assms(1,2) by (metis join_with.simps(1))
  next
    case False
    then show ?thesis using eq split_join_normal assms(1,2) by metis
  qed
qed

lemma join_append:
  assumes "ms \<noteq> []" "rest \<noteq> []"
  shows "join_with ''/'' (ms @ rest) = join_with ''/'' ms @ slash # join_with ''/'' rest"
  using assms
proof (induction ms)
  case (Cons m ms)
  then show ?case by (cases "ms = []"; cases ms; cases rest) auto
qed simp

text \<open>Lying inside a root is having its names as a prefix.\<close>

lemma pathInside_names:
  assumes "list_all normal ms" "list_all normal ns"
  shows "pathInside (abs_of ms) (abs_of ns) \<longleftrightarrow> (\<exists>rest. ns = ms @ rest)"
proof (cases "ms = []")
  case True
  then show ?thesis by (simp add: pathInside_def abs_of_def)
next
  case ne: False
  show ?thesis
  proof
    assume "pathInside (abs_of ms) (abs_of ns)"
    moreover have "abs_of ms \<noteq> ''/''" using join_normal_nonempty(1) [OF ne assms(1)] by (simp add: abs_of_def)
    ultimately consider "abs_of ns = abs_of ms" | t where "abs_of ns = abs_of ms @ slash # t"
      unfolding pathInside_def by (auto simp: has_prefix_def) (metis append_take_drop_id append.assoc append_Cons append_Nil)
    then show "\<exists>rest. ns = ms @ rest"
    proof cases
      case 1
      then show ?thesis using abs_of_inj [OF assms] by auto
    next
      case (2 t)
      then have join: "join_with ''/'' ns = join_with ''/'' ms @ slash # t" by (simp add: abs_of_def)
      then have "ns \<noteq> []" by auto
      have "ns = split_on slash (join_with ''/'' ms @ slash # t)"
        using split_join_normal [OF \<open>ns \<noteq> []\<close> assms(2)] join by simp
      also have "\<dots> = ms @ split_on slash t"
      proof -
        have "split_on slash (join_with ''/'' (ms @ split_on slash t)) = ms @ split_on slash t"
          using assms(1) split_on_no_sep by (intro split_join) (auto simp: list_all_iff normal_def)
        moreover have "join_with ''/'' (split_on slash t) = t" by (rule join_split)
        ultimately show ?thesis using ne by (simp add: join_append)
      qed
      finally show ?thesis by blast
    qed
  next
    assume "\<exists>rest. ns = ms @ rest"
    then obtain rest where ns: "ns = ms @ rest" by blast
    show "pathInside (abs_of ms) (abs_of ns)"
      unfolding pathInside_def ns using ne
      by (cases "rest = []") (auto simp: abs_of_def join_append has_prefix_def)
  qed
qed

lemma rel_below_names:
  assumes "list_all normal ms" "list_all normal (ms @ rest)"
  shows "rel_below (abs_of ms) (abs_of (ms @ rest)) = (if rest = [] then ''.'' else join_with ''/'' rest)"
proof (cases "ms = []")
  case True
  show ?thesis
  proof (cases "rest = []")
    case False
    then obtain c s where "join_with ''/'' rest = c # s" "c \<noteq> slash"
      using join_normal_nonempty [of rest] assms(2) by (cases "join_with ''/'' rest") auto
    then show ?thesis using True False by (simp add: rel_below_def abs_of_def trim_prefix_def has_prefix_def)
  qed (simp add: True rel_below_def abs_of_def trim_prefix_def has_prefix_def)
next
  case False
  show ?thesis
  proof (cases "rest = []")
    case True
    then show ?thesis by (simp add: rel_below_def abs_of_def trim_prefix_def has_prefix_def)
  next
    case rest: False
    then have "join_with ''/'' rest \<noteq> []" using join_normal_nonempty assms(2) by simp
    then show ?thesis using rest False
      by (simp add: rel_below_def abs_of_def trim_prefix_def has_prefix_def join_append)
  qed
qed

section \<open>Resolution\<close>

lemma best_root_Some:
  assumes "best_root target best rs = Some b"
    and "\<And>r. best = Some r \<Longrightarrow> pathInside (fr_path r) target"
  shows "(b \<in> set rs \<or> best = Some b) \<and> pathInside (fr_path b) target \<and>
    (\<forall>r \<in> set rs \<union> set_option best. pathInside (fr_path r) target \<longrightarrow> length (fr_path r) \<le> length (fr_path b))"
  using assms
proof (induction rs arbitrary: best)
  case (Cons r rs)
  show ?case
  proof (cases "pathInside (fr_path r) target")
    case False
    then show ?thesis using Cons.IH [of best] Cons.prems by auto
  next
    case True
    then show ?thesis using Cons.IH [of "Some r"] Cons.IH [of best] Cons.prems
      by (cases best) (auto split: if_splits)
  qed
qed simp

lemma best_root_None:
  "best_root target best rs = None \<longleftrightarrow> best = None \<and> (\<forall>r \<in> set rs. \<not> pathInside (fr_path r) target)"
  by (induction rs arbitrary: best) (auto split: option.splits)

definition abs_roots :: "file_policy \<Rightarrow> bool" where
  "abs_roots p \<longleftrightarrow> list_all (\<lambda>r. is_abs (fr_path r) \<and> clean (fr_path r) = fr_path r) (fp_roots p)"

lemma resolve_Inr:
  assumes "resolve p raw = Inr t"
  obtains b where "b \<in> set (fp_roots p)" "pathInside (fr_path b) (clean raw)" "is_abs raw"
    "t = \<lparr>ft_root = fr_path b, ft_rel = rel_below (fr_path b) (clean raw), ft_path = clean raw,
          ft_privileged = fr_privileged b, ft_profile = fr_profile b\<rparr>"
    "\<And>r. r \<in> set (fp_roots p) \<Longrightarrow> pathInside (fr_path r) (clean raw) \<Longrightarrow> length (fr_path r) \<le> length (fr_path b)"
proof -
  obtain b where b: "best_root (clean raw) None (fp_roots p) = Some b" and "is_abs raw"
    and t: "t = \<lparr>ft_root = fr_path b, ft_rel = rel_below (fr_path b) (clean raw), ft_path = clean raw,
          ft_privileged = fr_privileged b, ft_profile = fr_profile b\<rparr>"
    using assms by (auto simp: resolve_def split: if_splits option.splits)
  from best_root_Some [OF b] have "b \<in> set (fp_roots p)" "pathInside (fr_path b) (clean raw)"
    "\<forall>r \<in> set (fp_roots p). pathInside (fr_path r) (clean raw) \<longrightarrow> length (fr_path r) \<le> length (fr_path b)" by auto
  with t \<open>is_abs raw\<close> that show thesis by blast
qed

lemma resolve_names:
  assumes "resolve p raw = Inr t" "abs_roots p"
  obtains ms rest where "list_all normal (ms @ rest)" "ft_root t = abs_of ms" "ft_path t = abs_of (ms @ rest)"
    "ft_rel t = (if rest = [] then ''.'' else join_with ''/'' rest)" "clean raw = ft_path t"
proof -
  obtain b where b: "b \<in> set (fp_roots p)" "pathInside (fr_path b) (clean raw)" "is_abs raw"
    and t: "t = \<lparr>ft_root = fr_path b, ft_rel = rel_below (fr_path b) (clean raw), ft_path = clean raw,
          ft_privileged = fr_privileged b, ft_profile = fr_profile b\<rparr>"
    using resolve_Inr [OF assms(1)] by metis
  obtain ns where ns: "list_all normal ns" "clean raw = abs_of ns" using clean_abs [OF b(3)] .
  have "is_abs (fr_path b)" "clean (fr_path b) = fr_path b"
    using assms(2) b(1) by (auto simp: abs_roots_def list_all_iff)
  then obtain ms where ms: "list_all normal ms" "fr_path b = abs_of ms" using clean_abs by metis
  obtain rest where rest: "ns = ms @ rest" using b(2) pathInside_names [OF ms(1) ns(1)] ns(2) ms(2) by auto
  have "rel_below (fr_path b) (clean raw) = (if rest = [] then ''.'' else join_with ''/'' rest)"
    unfolding ms(2) ns(2) rest by (rule rel_below_names) (use ms(1) ns(1) rest in auto)
  then show thesis by (intro that [of ms rest]) (use t ns ms rest in auto)
qed

section \<open>Confinement\<close>

text \<open>What changed lies strictly below the root.\<close>

definition within :: "path \<Rightarrow> host \<Rightarrow> host \<Rightarrow> bool" where
  "within root h h' \<longleftrightarrow> (\<forall>q. h' q \<noteq> h q \<longrightarrow> below root q \<and> q \<noteq> root)"

lemma within_refl [simp]: "within root h h"
  by (simp add: within_def)

lemma within_trans [trans]: "within root h h1 \<Longrightarrow> within root h1 h2 \<Longrightarrow> within root h h2"
  unfolding within_def by metis

lemma within_upd: "below root p \<Longrightarrow> p \<noteq> root \<Longrightarrow> within root h (h(p := v))"
  by (simp add: within_def)

lemma below_trans: "below p q \<Longrightarrow> below q r \<Longrightarrow> below p r"
  unfolding below_def by (metis append_eq_conv_conj append_take_drop_id append.assoc)

lemma below_antisym: "below p q \<Longrightarrow> below q p \<Longrightarrow> p = q"
  unfolding below_def by (metis nat_le_linear take_all)

definition dir_at :: "host \<Rightarrow> path \<Rightarrow> bool" where
  "dir_at h p \<longleftrightarrow> (\<exists>m. node_at h p = Some (DirF m))"

lemma within_dir: "within root h h' \<Longrightarrow> dir_at h root \<Longrightarrow> dir_at h' root"
proof -
  assume w: "within root h h'" and d: "dir_at h root"
  have "h' root = h root" using w unfolding within_def by blast
  then show "dir_at h' root" using d by (auto simp: dir_at_def node_at_def)
qed

lemma sys_Inr [simp]: "sys fx call rel r = Inr x \<longleftrightarrow> fx_fault fx call rel = None \<and> r = Inr x"
  by (simp add: sys_def split: option.split)

lemma existing_Inr [simp]: "existing h p = Inr x \<longleftrightarrow> fst x = p \<and> node_at h p = Some (snd x)"
  by (cases x) (auto simp: existing_def split: option.split)

lemma is_dir_iff: "is_dir nd \<longleftrightarrow> (\<exists>m. nd = DirF m)"
  by (cases nd) auto

lemma open_root_Inr: "open_root fx h t = Inr root \<Longrightarrow> eval_symlinks h (ft_root t) = Inr root \<and> dir_at h root"
  by (auto simp: open_root_def dir_at_def is_dir_iff split: if_split_asm)

lemma entry_strict: "root_entry h root rel = Inr p \<Longrightarrow> below root p \<and> p \<noteq> root"
  using root_entry_below by fastforce

lemma target_below: "root_target h root rel = Inr p \<Longrightarrow> below root p"
  by (auto simp: root_target_def)

lemma root_create_Inr:
  "root_create fx h root rel perm = Inr (h1, p) \<longleftrightarrow> root_target h root rel = Inr p \<and>
     (node_at h p = None \<and> h1 = h(p \<mapsto> RegF (and perm (not (io_umask (fx_io fx)))) []) \<or>
      (\<exists>m d. node_at h p = Some (RegF m d) \<and> h1 = h(p \<mapsto> RegF m [])))"
proof (cases "root_target h root rel")
  case (Inr q)
  show ?thesis
  proof (cases "node_at h q")
    case None
    then show ?thesis using Inr by (auto simp: root_create_def)
  next
    case (Some nd)
    then show ?thesis using Inr by (cases nd) (auto simp: root_create_def)
  qed
qed (simp add: root_create_def)

lemma create_within:
  assumes "root_create fx h root rel perm = Inr (h1, p)" "dir_at h root"
  shows "within root h h1 \<and> below root p \<and> p \<noteq> root \<and> (\<exists>m. h1 p = Some (RegF m []))"
proof -
  have t: "root_target h root rel = Inr p" and n: "p \<noteq> root" and u: "\<exists>m. h1 = h(p \<mapsto> RegF m [])"
    using assms by (auto simp: root_create_Inr dir_at_def)
  then show ?thesis using target_below [OF t] by (auto intro: within_upd)
qed

lemma set_data_within: "below root p \<Longrightarrow> p \<noteq> root \<Longrightarrow> within root h (set_data p d h)"
  by (auto simp: set_data_def within_upd split: option.splits node.splits)

lemma remove_tree_within: "below root p \<Longrightarrow> p \<noteq> root \<Longrightarrow> within root h (remove_tree kept p h)"
  unfolding within_def remove_tree_def using below_trans below_antisym by (auto split: if_splits)

lemma move_tree_within:
  assumes "below root sp" "sp \<noteq> root" "below root dp" "dp \<noteq> root"
  shows "within root h (move_tree sp dp h)"
proof -
  have "below root q \<and> q \<noteq> root" if "below dp q \<or> below sp q" for q
    using that assms below_trans below_antisym by blast
  then show ?thesis unfolding within_def move_tree_def by (metis (full_types))
qed

lemma root_call_within:
  "root_mkdir fx h root rel m = Inr h1 \<Longrightarrow> within root h h1"
  "root_symlink h root tgt rel = Inr h1 \<Longrightarrow> within root h h1"
  "root_remove fx h root rel = Inr h1 \<Longrightarrow> within root h h1"
  "root_move fx h root rel rel' = Inr h1 \<Longrightarrow> within root h h1"
  "within root h (fst (root_removeAll fx h root rel))"
proof -
  show "root_mkdir fx h root rel m = Inr h1 \<Longrightarrow> within root h h1"
    by (auto simp: root_mkdir_def dest!: entry_strict split: if_splits intro: within_upd)
  show "root_symlink h root tgt rel = Inr h1 \<Longrightarrow> within root h h1"
    by (auto simp: root_symlink_def dest!: entry_strict split: if_splits intro: within_upd)
  show "root_remove fx h root rel = Inr h1 \<Longrightarrow> within root h h1"
    by (auto simp: root_remove_def dest!: entry_strict split: if_splits option.splits intro: within_upd)
  show "root_move fx h root rel rel' = Inr h1 \<Longrightarrow> within root h h1"
    by (auto simp: root_move_def dest!: entry_strict split: if_splits option.splits node.splits intro: move_tree_within)
  show "within root h (fst (root_removeAll fx h root rel))"
    by (auto simp: root_removeAll_def dest!: entry_strict split: sum.splits option.splits intro: remove_tree_within)
qed

lemma mkdir_all_within: "within root h (fst (mkdir_all io h root n st cs m))"
  unfolding within_def using mkdir_all_changes [of io h root n st cs m] by (metis prod.collapse)

lemma copy_contents_within:
  assumes "dir_at h root"
  shows "within root h (fst (copyFileContents fx h root from to perm))"
proof (cases "\<exists>sp nd h1 dp. sys fx CallOpen from (root_open h root from) = Inr (sp, nd) \<and>
    sys fx CallCreate to (root_create fx h root to perm) = Inr (h1, dp)")
  case True
  then obtain sp nd h1 dp where ok: "sys fx CallOpen from (root_open h root from) = Inr (sp, nd)"
    "sys fx CallCreate to (root_create fx h root to perm) = Inr (h1, dp)" by blast
  then have c: "within root h h1" "below root dp" "dp \<noteq> root"
    using create_within [of fx h root to perm h1 dp] assms by simp_all
  have "within root h (set_data dp d h1)" for d by (rule within_trans [OF c(1) set_data_within [OF c(2,3)]])
  then show ?thesis using c(1) unfolding copyFileContents_def ok
    by (auto split: option.split node.split)
next
  case False
  then have "fst (copyFileContents fx h root from to perm) = h"
    unfolding copyFileContents_def by (auto split: sum.split)
  then show ?thesis by simp
qed

lemma copy_link_within: "within root h (fst (copy_link fx h root from to overwrite))"
proof (cases "sys fx CallReadlink from (root_readlink h root from)")
  case (Inr target)
  let ?r = "if overwrite \<and> is_ok (sys fx CallLstat to (lstat_in h root to))
            then sys fx CallRemove to (root_remove fx h root to) else Inr h"
  show ?thesis
  proof (cases ?r)
    case r: (Inr h1)
    then have h1: "within root h h1" by (auto split: if_splits intro: root_call_within)
    have "within root h1 h2" if "sys fx CallSymlink to (root_symlink h1 root target to) = Inr h2" for h2
      using that by (auto intro: root_call_within)
    then show ?thesis unfolding copy_link_def Inr r using h1 by (auto split: sum.split intro: within_trans)
  qed (simp add: copy_link_def Inr)
qed (simp add: copy_link_def)

lemma copy_each_within:
  assumes "\<And>h' x r. dir_at h' root \<Longrightarrow> step h' x = Some r \<Longrightarrow> within root h' (fst r)"
    and "copy_each step h xs = Some r" "dir_at h root"
  shows "within root h (fst r)"
  using assms(2,3)
proof (induction xs arbitrary: h)
  case (Cons x xs)
  then obtain h1 o1 where s: "step h x = Some (h1, o1)" by (auto split: option.splits)
  then have w: "within root h h1" using assms(1) [OF Cons.prems(2) s] by simp
  show ?case
  proof (cases o1)
    case (Inl e)
    then show ?thesis using Cons.prems(1) s w by auto
  next
    case (Inr u)
    then have "copy_each step h1 xs = Some r" using Cons.prems(1) s by simp
    from Cons.IH [OF this within_dir [OF w Cons.prems(2)]] w show ?thesis by (rule within_trans [rotated])
  qed
qed auto

lemma copy_tree_within:
  "copyFileTree fx root overwrite k h src dst perm = Some r \<Longrightarrow> dir_at h root \<Longrightarrow> within root h (fst r)"
proof (induction k arbitrary: h src dst perm r)
  case (Suc k)
  obtain h1 o1 where m: "mkdir_all (fx_io fx) h root root_max_links [] (split_on slash dst) (or perm 448) = (h1, o1)" by force
  have w: "within root h h1" using mkdir_all_within [of root h] m by (metis fst_conv)
  have d1: "dir_at h1 root" by (rule within_dir [OF w Suc.prems(2)])
  show ?case
  proof (cases "\<exists>u sp nd names. o1 = Inr u \<and> sys fx CallOpen src (root_open h1 root src) = Inr (sp, nd) \<and> is_dir nd \<and>
      sys fx CallReadDir src (Inr (fx_names fx h1 sp)) = Inr names")
    case False
    then have "fst r = h1" using Suc.prems(1) m
      by (auto split: sum.splits prod.splits if_splits)
    then show ?thesis using w by simp
  next
    case True
    then obtain u sp nd names where ok: "o1 = Inr u" "sys fx CallOpen src (root_open h1 root src) = Inr (sp, nd)" "is_dir nd"
      "sys fx CallReadDir src (Inr (fx_names fx h1 sp)) = Inr names" by blast
    show ?thesis
    proof (rule within_trans [OF w], rule copy_each_within [OF _ _ d1])
      show "copy_each (\<lambda>h' name.
            (let cf = path_join src name; ct = path_join dst name in
             case sys fx CallInfo cf (case h' (sp @ [name]) of None \<Rightarrow> Inl ErrNotExist | Some nd \<Rightarrow> Inr nd) of
               Inl e \<Rightarrow> Some (h', Inl e)
             | Inr (DirF m) \<Rightarrow> copyFileTree fx root overwrite k h' cf ct (and m 511)
             | Inr (LinkF t) \<Rightarrow> Some (copy_link fx h' root cf ct overwrite)
             | Inr (RegF m d) \<Rightarrow> Some (copyFileContents fx h' root cf ct (and m 511)))) h1 names = Some r"
        using Suc.prems(1) m ok by simp
    next
      fix h' name r'
      assume d: "dir_at h' root"
        and r': "(let cf = path_join src name; ct = path_join dst name in
             case sys fx CallInfo cf (case h' (sp @ [name]) of None \<Rightarrow> Inl ErrNotExist | Some nd \<Rightarrow> Inr nd) of
               Inl e \<Rightarrow> Some (h', Inl e)
             | Inr (DirF m) \<Rightarrow> copyFileTree fx root overwrite k h' cf ct (and m 511)
             | Inr (LinkF t) \<Rightarrow> Some (copy_link fx h' root cf ct overwrite)
             | Inr (RegF m d) \<Rightarrow> Some (copyFileContents fx h' root cf ct (and m 511))) = Some r'"
      from r' show "within root h' (fst r')"
        unfolding Let_def
        by (auto split: sum.splits node.splits intro: Suc.IH [OF _ d] copy_link_within copy_contents_within [OF d])
    qed
  qed
qed simp

end
