(* ===== verification/Daemon_Files_Props.thy ===== *)
theory Daemon_Files_Props
  imports Daemon_Files_Facts
begin

text \<open>The properties of the file API.\<close>

section \<open>What an action may change\<close>

definition changes_in :: "host \<Rightarrow> file_policy \<Rightarrow> file_target \<Rightarrow> host \<Rightarrow> bool" where
  "changes_in h p t h' \<longleftrightarrow> h' = h \<or> fp_allowWrite p \<and> ft_rel t \<noteq> ''.'' \<and>
     (\<exists>root. eval_symlinks h (ft_root t) = Inr root \<and> within root h h')"

lemma changes_in_refl [simp]: "changes_in h p t h"
  by (simp add: changes_in_def)

lemma changes_inI:
  "fp_allowWrite p \<Longrightarrow> ft_rel t \<noteq> ''.'' \<Longrightarrow> open_root fx h t = Inr root \<Longrightarrow> within root h h' \<Longrightarrow> changes_in h p t h'"
  using open_root_Inr unfolding changes_in_def by blast

lemma fst_lift_host: "fst (lift_host fx h r v) = (case r of Inl _ \<Rightarrow> h | Inr h' \<Rightarrow> h')"
  by (simp add: lift_host_def split: sum.split)

lemma fst_lift_outcome [simp]: "fst (lift_outcome fx r v) = fst r"
  by (simp add: lift_outcome_def)

lemma write_changes: "changes_in h p t (fst (policy_write fx h p t data))"
proof (cases "\<not> fp_allowWrite p \<or> ft_privileged t \<or> ft_rel t = ''.'' \<or> fp_maxWrite p < int (length data)")
  case False
  show ?thesis
  proof (cases "open_root fx h t")
    case (Inr root)
    have d: "dir_at h root" using open_root_Inr [OF Inr] by simp
    show ?thesis
    proof (cases "sys fx CallCreate (ft_rel t) (root_create fx h root (ft_rel t) 420)")
      case (Inl e)
      then show ?thesis using False Inr by (simp add: policy_write_def)
    next
      case c: (Inr r)
      obtain h1 fp where r: "r = (h1, fp)" by force
      have w: "within root h h1" "below root fp" "fp \<noteq> root"
        using create_within [of fx h root "ft_rel t" 420 h1 fp] c d unfolding r by simp_all
      have "within root h (set_data fp x h1)" for x by (rule within_trans [OF w(1) set_data_within [OF w(2,3)]])
      then have "within root h (fst (policy_write fx h p t data))"
        by (auto simp: policy_write_def Inr c r split: option.split)
      then show ?thesis using False Inr by (auto intro: changes_inI)
    qed
  qed (use False in \<open>simp add: policy_write_def\<close>)
qed (auto simp: policy_write_def)

lemma mkdir_changes: "changes_in h p t (fst (policy_mkdir fx h p t parents))"
proof (cases "\<not> fp_allowWrite p \<or> ft_privileged t \<or> ft_rel t = ''.''")
  case False
  show ?thesis
  proof (cases "open_root fx h t")
    case (Inr root)
    have "within root h (fst (policy_mkdir fx h p t parents))"
      unfolding policy_mkdir_def Inr
      using mkdir_all_within [of root h "fx_io fx" root_max_links "[]" "split_on slash (ft_rel t)" 493]
      by (auto simp: fst_lift_host split: sum.split intro: root_call_within)
    then show ?thesis using False Inr by (auto intro: changes_inI)
  qed (use False in \<open>simp add: policy_mkdir_def\<close>)
qed (auto simp: policy_mkdir_def)

lemma move_changes: "changes_in h p t (fst (policy_move fx h p t t'))"
proof (cases "\<not> fp_allowWrite p \<or> ft_root t \<noteq> ft_root t' \<or> ft_rel t = ''.'' \<or> ft_rel t' = ''.''")
  case False
  show ?thesis
  proof (cases "open_root fx h t")
    case (Inr root)
    have "within root h (fst (policy_move fx h p t t'))"
      unfolding policy_move_def Inr by (auto simp: fst_lift_host split: sum.split intro: root_call_within)
    then show ?thesis using False Inr by (auto intro: changes_inI)
  qed (use False in \<open>simp add: policy_move_def\<close>)
qed (auto simp: policy_move_def)

lemma delete_changes: "changes_in h p t (fst (policy_delete fx h p t recursive))"
proof (cases "\<not> fp_allowWrite p \<or> ft_privileged t \<or> ft_rel t = ''.''")
  case False
  show ?thesis
  proof (cases "open_root fx h t")
    case (Inr root)
    have "within root h (fst (policy_delete fx h p t recursive))"
      unfolding policy_delete_def Inr using root_call_within(5) [of root h fx "ft_rel t"]
      by (auto simp: fst_lift_host split: sum.split intro: root_call_within)
    then show ?thesis using False Inr by (auto intro: changes_inI)
  qed (use False in \<open>simp add: policy_delete_def\<close>)
qed (auto simp: policy_delete_def)

lemma copy_changes:
  assumes "policy_copy fx fuel h p t t' overwrite = Some r"
  shows "changes_in h p t (fst r)"
proof (cases "\<not> fp_allowWrite p \<or> ft_root t \<noteq> ft_root t' \<or> ft_rel t = ''.'' \<or> ft_rel t' = ''.'' \<or>
    ft_rel t = ft_rel t' \<or> has_prefix (ft_rel t @ ''/'') (ft_rel t')")
  case True
  then have "fst r = h" using assms unfolding policy_copy_def by (auto split: if_splits)
  then show ?thesis by simp
next
  case False
  show ?thesis
  proof (cases "open_root fx h t")
    case (Inl e)
    then have "fst r = h" using assms False by (auto simp: policy_copy_def)
    then show ?thesis by simp
  next
    case (Inr root)
    have d: "dir_at h root" using open_root_Inr [OF Inr] by simp
    have "within root h (fst r)"
    proof (cases "sys fx CallLstat (ft_rel t) (lstat_in h root (ft_rel t))")
      case (Inl e)
      then show ?thesis using assms False Inr by (auto simp: policy_copy_def)
    next
      case info: (Inr info)
      let ?m = "and (perm_of info) 511"
      have "fst r = h \<or> (\<exists>r'. copyFileTree fx root overwrite fuel h (ft_rel t) (ft_rel t') ?m = Some r' \<and> fst r = fst r') \<or>
          fst r = fst (copyFileContents fx h root (ft_rel t) (ft_rel t') ?m)"
        using assms False by (auto simp: policy_copy_def Inr info Let_def split: if_splits)
      then show ?thesis using copy_tree_within [OF _ d] copy_contents_within [OF d] by auto
    qed
    then show ?thesis using False Inr by (auto intro: changes_inI)
  qed
qed

text \<open>An action through the helper is one run of it, with the profile of a privileged root.\<close>

definition helper_ran :: "files_env \<Rightarrow> host \<Rightarrow> file_policy \<Rightarrow> file_root \<Rightarrow> host \<Rightarrow> bool" where
  "helper_ran fx h p b h' \<longleftrightarrow> fp_allowWrite p \<and> fr_privileged b \<and>
     (h' = h \<or> (\<exists>sudo verb rel rest payload. fx_sudo fx = Some sudo \<and> verb \<in> {''write'', ''mkdir'', ''remove''} \<and> rel \<noteq> ''.'' \<and>
        h' = fst (fx_run fx (sudo @ helperPath fx # [''fs'', verb, fr_profile b, rel] @ rest) payload h)))"

definition outcome_ok :: "files_env \<Rightarrow> host \<Rightarrow> file_policy \<Rightarrow> file_target \<Rightarrow> file_outcome \<Rightarrow> bool" where
  "outcome_ok fx h p t r =
     (case r of (h', privileged, _) \<Rightarrow>
        if privileged then ft_privileged t \<and> fp_allowWrite p \<and>
          (h' = h \<or> (\<exists>sudo verb rest payload. fx_sudo fx = Some sudo \<and> verb \<in> {''write'', ''mkdir'', ''remove''} \<and> ft_rel t \<noteq> ''.'' \<and>
             h' = fst (fx_run fx (sudo @ helperPath fx # [''fs'', verb, ft_profile t, ft_rel t] @ rest) payload h)))
        else h' = h \<or> \<not> ft_privileged t \<and> changes_in h p t h')"

lemma fst_priv_run:
  "fst (priv_run fx h sudo verb profile rel mode payload) =
     fst (fx_run fx (sudo @ helperPath fx # [''fs'', verb, profile, rel] @ (if mode = [] then [] else [mode])) payload h)"
  by (simp add: priv_run_def priv_argv_def fs_args_def split: prod.split)

lemma helper_outcome:
  assumes "checkPolicyWrite p t n = Inr u" "ft_privileged t" "verb \<in> {''write'', ''mkdir'', ''remove''}"
    and "fst r = h \<or> (\<exists>sudo mode payload. fx_sudo fx = Some sudo \<and>
           fst r = fst (priv_run fx h sudo verb (ft_profile t) (ft_rel t) mode payload))"
  shows "outcome_ok fx h p t (through_helper r v)"
proof -
  have "fp_allowWrite p" "ft_rel t \<noteq> ''.''" using assms(1) by (auto simp: checkPolicyWrite_def split: if_splits)
  then show ?thesis using assms(2-4) unfolding outcome_ok_def through_helper_def fst_priv_run by auto
qed

lemma direct_outcome: "\<not> ft_privileged t \<Longrightarrow> changes_in h p t (fst r) \<Longrightarrow> outcome_ok fx h p t (direct r)"
  by (auto simp: outcome_ok_def direct_def)

lemma unchanged_outcome [simp]: "outcome_ok fx h p t (h, False, r)"
  by (simp add: outcome_ok_def)

lemma writeFileData_outcome: "outcome_ok fx h p t (writeFileData fx h p t data)"
proof (cases "ft_privileged t")
  case True
  show ?thesis
  proof (cases "checkPolicyWrite p t (length data)")
    case (Inr u)
    have "outcome_ok fx h p t (through_helper (privWrite fx h t data (privWriteModeFor fx h (ft_path t))) (WriteResult (ft_path t) (length data)))"
      by (rule helper_outcome [OF Inr True, of "''write''"])
        (auto simp: privWrite_def split: option.split)
    then show ?thesis using True Inr by (simp add: writeFileData_def)
  qed (simp add: writeFileData_def True)
next
  case False
  then show ?thesis using direct_outcome write_changes by (simp add: writeFileData_def)
qed

lemma do_mkdir_outcome: "outcome_ok fx h p t (do_mkdir fx h p t parents)"
proof (cases "ft_privileged t")
  case True
  show ?thesis
  proof (cases "checkPolicyWrite p t 0")
    case (Inr u)
    have "outcome_ok fx h p t (through_helper (privMkdir fx h t privMkdirMode) (PathResult (ft_path t)))"
      by (rule helper_outcome [OF Inr True, of "''mkdir''"]) (auto simp: privMkdir_def split: option.split)
    then show ?thesis using True Inr by (simp add: do_mkdir_def)
  qed (simp add: do_mkdir_def True)
next
  case False
  then show ?thesis using direct_outcome mkdir_changes by (simp add: do_mkdir_def)
qed

lemma do_delete_outcome: "outcome_ok fx h p t (do_delete fx h p t recursive)"
proof (cases "ft_privileged t")
  case True
  show ?thesis
  proof (cases "checkPolicyWrite p t 0")
    case (Inr u)
    have "outcome_ok fx h p t (through_helper (privRemove fx h t) (PathResult (ft_path t)))"
      by (rule helper_outcome [OF Inr True, of "''remove''"]) (auto simp: privRemove_def split: option.split)
    then show ?thesis using True Inr by (simp add: do_delete_def)
  qed (simp add: do_delete_def True)
next
  case False
  then show ?thesis using direct_outcome delete_changes by (simp add: do_delete_def)
qed

lemma on_path_outcome:
  assumes "on_path h p raw act = Some r" "\<And>t. outcome_ok fx h p t (act t)"
  shows "fst r = h \<and> \<not> fst (snd r) \<or> (\<exists>t. resolve p raw = Inr t \<and> outcome_ok fx h p t r)"
  using assms by (auto simp: on_path_def split: sum.splits)

lemma on_paths_outcome:
  assumes "on_paths h p q act = Some r"
    and "\<And>t t' r. \<not> ft_privileged t \<Longrightarrow> act t t' = Some r \<Longrightarrow> outcome_ok fx h p t r"
  shows "fst r = h \<and> \<not> fst (snd r) \<or> (\<exists>t. resolve p (q_from q) = Inr t \<and> outcome_ok fx h p t r)"
  using assms by (auto simp: on_paths_def split: sum.splits if_splits)

lemma dispatch_outcome:
  assumes "dispatchFileAction fx fuel h p action q = Some r"
  shows "fst r = h \<and> \<not> fst (snd r) \<or> (\<exists>raw t. resolve p raw = Inr t \<and> outcome_ok fx h p t r)"
proof -
  have w: "outcome_ok fx h p t (case b64_std_decode (q_content q) of
            None \<Rightarrow> (h, False, Inl (fileError 400 ''content must be base64''))
          | Some data \<Rightarrow> writeFileData fx h p t data)" for t
    by (simp add: writeFileData_outcome split: option.split)
  have m: "outcome_ok fx h p t r" if "\<not> ft_privileged t" "Some (direct (policy_move fx h p t t')) = Some r" for t t' r
    using that direct_outcome move_changes by blast
  have c: "outcome_ok fx h p t r" if "\<not> ft_privileged t" "map_option direct (policy_copy fx fuel h p t t' ov) = Some r" for t t' ov r
    using that direct_outcome copy_changes by blast
  have one: ?thesis if "on_path h p raw act = Some r" "\<And>t. outcome_ok fx h p t (act t)" for raw act
    using on_path_outcome [OF that] by blast
  have two: ?thesis if "on_paths h p q act = Some r"
    "\<And>t t' r. \<not> ft_privileged t \<Longrightarrow> act t t' = Some r \<Longrightarrow> outcome_ok fx h p t r" for act
    using on_paths_outcome [OF that(1), of fx] that(2) by blast
  show ?thesis
    using assms unfolding dispatchFileAction_def
    by (simp only: split: if_split_asm)
      (auto elim!: one two intro: w m c do_mkdir_outcome do_delete_outcome simp del: map_option_eq_Some)
qed

section \<open>Properties\<close>

lemma clean_abs_of:
  assumes "list_all normal ns"
  shows "clean (abs_of ns) = abs_of ns"
proof -
  have a: "is_abs (abs_of ns)" by (simp add: abs_of_def is_abs_def has_prefix_def)
  have "split_on slash (abs_of ns) = [] # (if ns = [] then [[]] else ns)"
    using assms by (simp add: abs_of_def split_join_normal)
  then have "clean_comps True [] (split_on slash (abs_of ns)) = ns"
    using assms by (simp add: clean_comps_normal)
  then show ?thesis using a by (simp add: clean_def abs_of_def)
qed

lemma policy_abs_roots:
  assumes "newFilePolicy cfg = Some p" "list_all (\<lambda>r. is_abs (rc_path r)) (fc_roots cfg)"
  shows "abs_roots p"
proof -
  have roots: "fp_roots p = map file_root_of (fc_roots cfg)" using assms(1) by (auto simp: newFilePolicy_def split: if_splits)
  have "is_abs (clean s) \<and> clean (clean s) = clean s" if "is_abs s" for s
  proof -
    obtain ns where "list_all normal ns" "clean s = abs_of ns" by (rule clean_abs [OF \<open>is_abs s\<close>])
    then show ?thesis using clean_abs_of by (simp add: is_abs_def abs_of_def has_prefix_def)
  qed
  then show ?thesis using assms(2) unfolding abs_roots_def roots by (simp add: list_all_iff file_root_of_def)
qed

lemma abs_of_longer:
  assumes "list_all normal (ms @ x # xs)"
  shows "length (abs_of ms) < length (abs_of (ms @ x # xs))"
  using assms join_normal_nonempty(1) [of "x # xs"]
  by (cases "ms = []") (simp_all add: abs_of_def join_append)

text \<open>C20: A request path that is accepted is resolved to a configured root by names alone: cleaned, it
  is the root's names followed by ordinary names (no dot-dot is left), the relative path is what
  follows the root, and no configured root that also contains the path has more names than the one
  chosen, whose privilege and profile the target carries.\<close>

theorem resolve_most_specific:
  assumes "newFilePolicy cfg = Some p" "list_all (\<lambda>r. is_abs (rc_path r)) (fc_roots cfg)" "resolve p raw = Inr t"
  shows "\<exists>b \<in> set (fp_roots p). \<exists>ms rest. list_all normal (ms @ rest) \<and> fr_path b = abs_of ms \<and>
    clean raw = abs_of (ms @ rest) \<and>
    t = \<lparr>ft_root = abs_of ms, ft_rel = (if rest = [] then ''.'' else join_with ''/'' rest), ft_path = abs_of (ms @ rest),
         ft_privileged = fr_privileged b, ft_profile = fr_profile b\<rparr> \<and>
    (\<forall>r \<in> set (fp_roots p). \<forall>ns. list_all normal ns \<and> fr_path r = abs_of ns \<and> (\<exists>xs. ms @ rest = ns @ xs) \<longrightarrow>
       length ns \<le> length ms)"
proof -
  have ar: "abs_roots p" by (rule policy_abs_roots [OF assms(1,2)])
  obtain b where b: "b \<in> set (fp_roots p)" "pathInside (fr_path b) (clean raw)" "is_abs raw"
    and t: "t = \<lparr>ft_root = fr_path b, ft_rel = rel_below (fr_path b) (clean raw), ft_path = clean raw,
          ft_privileged = fr_privileged b, ft_profile = fr_profile b\<rparr>"
    and longest: "\<And>r. r \<in> set (fp_roots p) \<Longrightarrow> pathInside (fr_path r) (clean raw) \<Longrightarrow> length (fr_path r) \<le> length (fr_path b)"
    using resolve_Inr [OF assms(3)] by metis
  obtain ms rest where n: "list_all normal (ms @ rest)" "ft_root t = abs_of ms" "ft_path t = abs_of (ms @ rest)"
    "ft_rel t = (if rest = [] then ''.'' else join_with ''/'' rest)" "clean raw = ft_path t"
    using resolve_names [OF assms(3) ar] by metis
  have fb: "fr_path b = abs_of ms" using n(2) unfolding t by simp
  have cr: "clean raw = abs_of (ms @ rest)" using n(3,5) by simp
  have "length ns \<le> length ms" if r: "r \<in> set (fp_roots p)" "list_all normal ns" "fr_path r = abs_of ns" "ms @ rest = ns @ xs" for r ns xs
  proof (rule ccontr)
    assume "\<not> length ns \<le> length ms"
    then obtain us where us: "ns = ms @ us" "us \<noteq> []" using r(4) by (auto simp: append_eq_append_conv2)
    then obtain y ys where ys: "ns = ms @ y # ys" by (cases us) auto
    have "pathInside (fr_path r) (clean raw)"
      unfolding r(3) cr pathInside_names [OF r(2) n(1)] using r(4) by blast
    then have "length (abs_of ns) \<le> length (abs_of ms)" using longest [OF r(1)] unfolding r(3) fb by simp
    moreover have "length (abs_of ms) < length (abs_of ns)" unfolding ys by (rule abs_of_longer) (use r(2) ys in simp)
    ultimately show False by simp
  qed
  moreover note fb cr
  moreover have "t = \<lparr>ft_root = abs_of ms, ft_rel = (if rest = [] then ''.'' else join_with ''/'' rest),
      ft_path = abs_of (ms @ rest), ft_privileged = fr_privileged b, ft_profile = fr_profile b\<rparr>"
    unfolding t using n(4) unfolding t fb cr by simp
  ultimately show ?thesis using b(1) n(1) by blast
qed

definition demo_files :: files_config where
  "demo_files = \<lparr>fc_enabled = True, fc_secret = [], fc_roots =
     [\<lparr>rc_path = ''/srv'', rc_privileged = False, rc_profile = []\<rparr>,
      \<lparr>rc_path = ''/srv/etc/'', rc_privileged = True, rc_profile = ''etc''\<rparr>],
     fc_allowWrite = True, fc_maxRead = 4, fc_maxWrite = 0, fc_maxList = 0\<rparr>"

definition demo_policy :: file_policy where
  "demo_policy = the (newFilePolicy demo_files)"

lemma demo_policy: "newFilePolicy demo_files = Some demo_policy"
  by (simp add: demo_policy_def newFilePolicy_def demo_files_def)

lemma demo_files_abs: "list_all (\<lambda>r. is_abs (rc_path r)) (fc_roots demo_files)"
  by code_simp

theorem resolve_most_specific_witness:
  "\<exists>b \<in> set (fp_roots demo_policy). \<exists>ms rest. fr_path b = abs_of ms \<and> fr_privileged b \<and>
     clean ''/srv/x/../etc//a.conf'' = abs_of (ms @ rest)"
proof -
  have "resolve demo_policy ''/srv/x/../etc//a.conf'' = Inr \<lparr>ft_root = ''/srv/etc'', ft_rel = ''a.conf'', ft_path = ''/srv/etc/a.conf'',
     ft_privileged = True, ft_profile = ''etc''\<rparr>" by code_simp
  from resolve_most_specific [OF demo_policy demo_files_abs this] show ?thesis by auto
qed

end
