(* ===== verification/Daemon_Files_Flow.thy ===== *)
theory Daemon_Files_Flow
  imports Daemon_Files_Props
begin

text \<open>
  The file API across calls: what was written is what is read, paging through a file reads all of
  it, the helper understands the arguments the daemon gives it, and what copying does when the
  destination reaches the source through a link.
\<close>

section \<open>A small host\<close>

definition demo_tree :: host where
  "demo_tree = map_of
     [([''srv''], DirF 493), ([''srv'', ''a''], RegF 420 ''hello world''), ([''srv'', ''d''], DirF 493),
      ([''srv'', ''l''], LinkF ''d''), ([''srv'', ''m''], LinkF ''a'')]"

definition files_io :: io_env where
  "files_io = \<lparr>io_random = Inr 7, io_umask = 18, io_fault = (\<lambda>_. None), io_written = 0, io_mkdir_fault = (\<lambda>_. None)\<rparr>"

definition demo_env :: files_env where
  "demo_env = \<lparr>fx_fault = (\<lambda>_ _. None), fx_io = files_io,
     fx_names = (\<lambda>h p. filter (\<lambda>c. h (p @ [c]) \<noteq> None) [''x'', ''m'', ''a'', ''d'', ''l'', ''srv'']),
     fx_dir_size = (\<lambda>_. 4096), fx_partial = 0, fx_kept = (\<lambda>_. False), fx_available = (\<lambda>_. None),
     fx_text = (\<lambda>_. []), fx_sudo = Some [], fx_helper = [],
     fx_run = (\<lambda>_ _ h. (h, \<lparr>he_error = None, he_timeout = False, he_stdout = [], he_stderr = []\<rparr>))\<rparr>"

lemma demo_env_simps [simp]:
  "fx_fault demo_env c r = None" "fx_available demo_env r = None" "fx_io demo_env = files_io"
  by (simp_all add: demo_env_def)

lemma demo_root_dir: "eval_symlinks demo_tree ''/srv'' = Inr [''srv'']" "node_at demo_tree [''srv''] = Some (DirF 493)"
  by code_simp+

definition demo_target :: "string \<Rightarrow> file_target" where
  "demo_target rel = \<lparr>ft_root = ''/srv'', ft_rel = rel, ft_path = ''/srv/'' @ rel, ft_privileged = False, ft_profile = []\<rparr>"

lemma demo_target_simps [simp]:
  "ft_root (demo_target rel) = ''/srv''" "ft_rel (demo_target rel) = rel" "ft_path (demo_target rel) = ''/srv/'' @ rel"
  "\<not> ft_privileged (demo_target rel)"
  by (simp_all add: demo_target_def)

lemma demo_open: "open_root demo_env demo_tree (demo_target rel) = Inr [''srv'']"
  using demo_root_dir by (simp add: open_root_def sys_def existing_def)

definition demo_mkdir :: file_request where
  "demo_mkdir = empty_request\<lparr>q_path := ''/srv/x''\<rparr>"

lemma demo_mkdir_runs:
  "dispatchFileAction demo_env 0 demo_tree demo_policy ''files.mkdir'' demo_mkdir =
     Some (demo_tree([''srv'', ''x''] \<mapsto> DirF 493), False, Inr (PathResult ''/srv/x''))"
proof -
  have r: "resolve demo_policy ''/srv/x'' = Inr (demo_target ''x'')" by code_simp
  have e: "root_entry demo_tree [''srv''] ''x'' = Inr [''srv'', ''x'']" "demo_tree [''srv'', ''x''] = None"
    "and 493 (not (io_umask files_io)) = (493 :: fmode)" by code_simp+
  have a: "fp_allowWrite demo_policy" by code_simp
  show ?thesis
    using demo_open [of "''x''"] a
    by (simp add: dispatchFileAction_def on_path_def demo_mkdir_def empty_request_def r do_mkdir_def policy_mkdir_def
        direct_def lift_host_def root_mkdir_def e sys_def)
qed

text \<open>C21: A file action that does not go through the helper leaves the tree as it was, or the policy
  allows writing and everything that changed lies strictly below the directory that a configured,
  unprivileged root denotes. An action that goes through the helper is at most one run of it, for a
  privileged root and with that root's profile.\<close>

theorem file_actions_confined:
  assumes "dispatchFileAction fx fuel h p action q = Some (h', privileged, r)"
  shows "if privileged then \<exists>b \<in> set (fp_roots p). helper_ran fx h p b h'
    else h' = h \<or> fp_allowWrite p \<and> (\<exists>b \<in> set (fp_roots p). \<not> fr_privileged b \<and>
      (\<exists>root. eval_symlinks h (fr_path b) = Inr root \<and> (\<forall>q. h' q = h q \<or> below root q \<and> q \<noteq> root)))"
proof -
  from dispatch_outcome [OF assms] consider (same) "h' = h" "\<not> privileged"
    | (act) raw t where "resolve p raw = Inr t" "outcome_ok fx h p t (h', privileged, r)" by auto
  then show ?thesis
  proof cases
    case act
    obtain b where b: "b \<in> set (fp_roots p)"
      and t: "t = \<lparr>ft_root = fr_path b, ft_rel = rel_below (fr_path b) (clean raw), ft_path = clean raw,
          ft_privileged = fr_privileged b, ft_profile = fr_profile b\<rparr>"
      using resolve_Inr [OF act(1)] by metis
    show ?thesis
    proof (cases privileged)
      case True
      then have "helper_ran fx h p b h'" using act(2) unfolding outcome_ok_def helper_ran_def by (simp add: t) blast
      then show ?thesis using True b by auto
    next
      case False
      then consider "h' = h" | "\<not> fr_privileged b" "fp_allowWrite p" "\<exists>root. eval_symlinks h (fr_path b) = Inr root \<and> within root h h'"
        using act(2) unfolding outcome_ok_def changes_in_def t by auto
      then show ?thesis using False b unfolding within_def by cases auto
    qed
  qed simp
qed

theorem file_actions_confined_witness:
  "\<exists>b \<in> set (fp_roots demo_policy). \<not> fr_privileged b \<and>
     (\<exists>root. eval_symlinks demo_tree (fr_path b) = Inr root \<and>
       (\<forall>q. (demo_tree([''srv'', ''x''] \<mapsto> DirF 493)) q = demo_tree q \<or> below root q \<and> q \<noteq> root))"
proof -
  have "(demo_tree([''srv'', ''x''] \<mapsto> DirF 493)) [''srv'', ''x''] \<noteq> demo_tree [''srv'', ''x'']"
    by (simp add: demo_tree_def)
  then have "demo_tree([''srv'', ''x''] \<mapsto> DirF 493) \<noteq> demo_tree" by metis
  then show ?thesis using file_actions_confined [OF demo_mkdir_runs] by auto
qed

section \<open>Writing a file does not move a path\<close>

text \<open>An entry that is missing or a file is only ever the end of a walk.\<close>

definition leaf :: "host \<Rightarrow> path \<Rightarrow> bool" where
  "leaf h e \<longleftrightarrow> h e = None \<or> (\<exists>m d. h e = Some (RegF m d))"

lemma root_final_stable:
  assumes "root_final h root n st cs = Inr q" "leaf h e"
  shows "root_final (h(e \<mapsto> RegF m d)) root n st cs = Inr q"
  using assms
proof (induction h root n st cs rule: root_final.induct)
  case (2 h root n st c cs)
  consider (skip) "c = [] \<or> c = ''.''" | (up) "c \<noteq> []" "c \<noteq> ''.''" "c = ''..''"
    | (name) "c \<noteq> []" "c \<noteq> ''.''" "c \<noteq> ''..''" by blast
  then show ?case
  proof cases
    case skip
    then show ?thesis using "2.IH"(1) "2.prems" by auto
  next
    case up
    then show ?thesis using "2.IH"(2) "2.prems" by (cases "st = []") auto
  next
    case name
    show ?thesis
    proof (cases "h (root @ st @ [c])")
      case None
      then show ?thesis using name "2.prems" by (auto split: if_splits)
    next
      case (Some nd)
      show ?thesis
      proof (cases nd)
        case (RegF m' d')
        then show ?thesis using Some name "2.prems" by (auto split: if_splits)
      next
        case (DirF m')
        then have "root @ st @ [c] \<noteq> e" using Some "2.prems"(2) by (auto simp: leaf_def)
        then show ?thesis using DirF Some name "2.prems" "2.IH"(3) by simp
      next
        case (LinkF t)
        then have "root @ st @ [c] \<noteq> e" using Some "2.prems"(2) by (auto simp: leaf_def)
        then show ?thesis using LinkF Some name "2.prems" "2.IH"(4) by (cases n) (simp_all split: if_splits)
      qed
    qed
  qed
qed simp

lemma follow_stable:
  assumes "follow h n st cs = Inr q" "leaf h e" "q \<noteq> e"
  shows "follow (h(e \<mapsto> RegF m d)) n st cs = Inr q"
  using assms
proof (induction h n st cs rule: follow.induct)
  case (2 h n st c cs)
  consider (skip) "c = [] \<or> c = ''.''" | (up) "c \<noteq> []" "c \<noteq> ''.''" "c = ''..''"
    | (name) "c \<noteq> []" "c \<noteq> ''.''" "c \<noteq> ''..''" by blast
  then show ?case
  proof cases
    case skip
    then show ?thesis using "2.IH"(1) "2.prems" by auto
  next
    case up
    then show ?thesis using "2.IH"(2) "2.prems" by auto
  next
    case name
    obtain nd where nd: "h (st @ [c]) = Some nd" using "2.prems"(1) name by (auto split: option.splits)
    show ?thesis
    proof (cases nd)
      case (RegF m' d')
      then show ?thesis using nd name "2.prems" by (auto split: if_splits)
    next
      case (DirF m')
      then have "st @ [c] \<noteq> e" using nd "2.prems"(2) by (auto simp: leaf_def)
      then show ?thesis using DirF nd name "2.prems" "2.IH"(3) by simp
    next
      case (LinkF t)
      then have "st @ [c] \<noteq> e" using nd "2.prems"(2) by (auto simp: leaf_def)
      then show ?thesis using LinkF nd name "2.prems" "2.IH"(4) by (cases n) (simp_all split: if_splits)
    qed
  qed
qed simp

section \<open>Reading what was written\<close>

definition no_faults :: "files_env \<Rightarrow> bool" where
  "no_faults fx \<longleftrightarrow> fx_fault fx = (\<lambda>_ _. None) \<and> fx_available fx = (\<lambda>_. None)"

lemma no_faultsD: "no_faults fx \<Longrightarrow> fx_fault fx c r = None" "no_faults fx \<Longrightarrow> fx_available fx r = None"
  "no_faults fx \<Longrightarrow> sys fx c r x = x"
  by (simp_all add: no_faults_def sys_def)

lemma open_root_stable:
  assumes "no_faults fx" "open_root fx h t = Inr root" "leaf h e" "e \<noteq> root"
  shows "open_root fx (h(e \<mapsto> RegF m d)) t = Inr root"
proof -
  have r: "eval_symlinks h (ft_root t) = Inr root" "dir_at h root" using open_root_Inr [OF assms(2)] by auto
  have "eval_symlinks (h(e \<mapsto> RegF m d)) (ft_root t) = Inr root"
    using r(1) assms(3,4) unfolding eval_symlinks_def by (intro follow_stable) auto
  moreover have "node_at (h(e \<mapsto> RegF m d)) root = node_at h root" using assms(4) by (simp add: node_at_def)
  moreover obtain k where k: "node_at h root = Some (DirF k)" using r(2) by (auto simp: dir_at_def)
  ultimately have ex: "existing (h(e \<mapsto> RegF m d)) root = Inr (root, DirF k)"
    and ev: "eval_symlinks (h(e \<mapsto> RegF m d)) (ft_root t) = Inr root" by (simp_all add: existing_def)
  show ?thesis using assms(1) unfolding open_root_def ev by (simp add: no_faultsD ex del: existing_Inr)
qed

lemma policy_write_Inr:
  assumes "no_faults fx" "policy_write fx h p t data = (h', Inr v)"
  obtains root e m where "open_root fx h t = Inr root" "root_target h root (ft_rel t) = Inr e" "leaf h e" "e \<noteq> root"
    "e \<noteq> []" "h' = h(e \<mapsto> RegF m data)" "v = WriteResult (ft_path t) (length data)" "int (length data) \<le> fp_maxWrite p"
proof -
  have ok: "fp_allowWrite p" "\<not> ft_privileged t" "ft_rel t \<noteq> ''.''" "int (length data) \<le> fp_maxWrite p"
    using assms(2) by (auto simp: policy_write_def split: if_splits)
  obtain root where root: "open_root fx h t = Inr root"
    using assms(2) ok by (cases "open_root fx h t") (auto simp: policy_write_def)
  have d: "dir_at h root" using open_root_Inr [OF root] by simp
  obtain h1 e where c: "root_create fx h root (ft_rel t) 420 = Inr (h1, e)"
    using assms ok root by (cases "root_create fx h root (ft_rel t) 420") (auto simp: policy_write_def no_faultsD split: if_splits)
  have v: "h' = set_data e data h1" "v = WriteResult (ft_path t) (length data)"
    using assms ok root c by (auto simp: policy_write_def no_faultsD split: if_splits)
  have e: "e \<noteq> root" "\<exists>m. h1 e = Some (RegF m [])" using create_within [OF c d] by auto
  obtain m where m: "h1 = h(e \<mapsto> RegF m [])" "leaf h e" "e \<noteq> []" "root_target h root (ft_rel t) = Inr e"
    using c unfolding root_create_Inr leaf_def node_at_def by (auto split: if_splits)
  then have "h' = h(e \<mapsto> RegF m data)" using v(1) by (simp add: set_data_def)
  with that root m e(1) v(2) ok(4) show thesis by blast
qed

lemma root_open_file:
  "root_target h root rel = Inr e \<Longrightarrow> e \<noteq> [] \<Longrightarrow> h e = Some (RegF m d) \<Longrightarrow> root_open h root rel = Inr (e, RegF m d)"
  by (simp add: root_open_def node_at_def)

lemma openReadWindow_file:
  assumes "no_faults fx" "open_root fx h t = Inr root" "root_open h root (ft_rel t) = Inr (e, RegF m d)"
    and "0 \<le> offset" "offset \<le> int (length d)" "0 \<le> limit" "limit \<le> fp_maxRead p"
    and "limit = 0 \<longrightarrow> int (length d) - offset \<le> fp_maxRead p"
  shows "openReadWindow fx h p t offset limit =
    Inr (d, int (length d), if limit = 0 \<or> int (length d) - offset < limit then int (length d) - offset else limit)"
  using assms(4-8) by (simp add: openReadWindow_def assms(2,3) no_faultsD [OF assms(1)] as_status_def not_less Let_def)

lemma policy_read_file:
  assumes "no_faults fx" "open_root fx h t = Inr root" "root_open h root (ft_rel t) = Inr (e, RegF m d)"
    and "0 \<le> offset" "offset \<le> int (length d)" "0 \<le> limit" "limit \<le> fp_maxRead p"
    and "limit = 0 \<longrightarrow> int (length d) - offset \<le> fp_maxRead p"
  shows "policy_read fx h p t offset limit = Inr (ReadResult (ft_path t) offset (length d)
    (b64_encode (if limit = 0 then drop (nat offset) d else take (nat limit) (drop (nat offset) d))))"
proof -
  have "take (nat (int (length d) - offset)) (drop (nat offset) d) = drop (nat offset) d"
    using assms(4,5) by (intro take_all) simp
  moreover have "take (nat limit) (drop (nat offset) d) = drop (nat offset) d" if "int (length d) - offset < limit"
    using that assms(4) by (intro take_all) simp
  ultimately show ?thesis
    unfolding policy_read_def openReadWindow_file [OF assms]
    by (auto simp: no_faultsD [OF assms(1)] read_full_def as_status_def)
qed

text \<open>C22: What a write stores is what the next read of the same target returns, with its length, as
  long as it fits the read limit; every other entry of the tree is untouched.\<close>

theorem write_then_read:
  assumes "no_faults fx" "policy_write fx h p t data = (h', Inr v)" "int (length data) \<le> fp_maxRead p"
  shows "policy_read fx h' p t 0 0 = Inr (ReadResult (ft_path t) 0 (length data) (b64_encode data)) \<and>
    (\<exists>e. \<forall>q. q \<noteq> e \<longrightarrow> h' q = h q)"
proof -
  obtain root e m where w: "open_root fx h t = Inr root" "root_target h root (ft_rel t) = Inr e" "leaf h e" "e \<noteq> root"
    "e \<noteq> []" "h' = h(e \<mapsto> RegF m data)"
    using policy_write_Inr [OF assms(1,2)] by metis
  have "root_target h' root (ft_rel t) = Inr e"
    using w(2) root_final_stable [OF _ w(3)] unfolding root_target_def w(6) by auto
  then have "root_open h' root (ft_rel t) = Inr (e, RegF m data)" using w(5,6) by (simp add: root_open_file)
  moreover have "open_root fx h' t = Inr root" unfolding w(6) by (rule open_root_stable [OF assms(1) w(1,3,4)])
  ultimately have "policy_read fx h' p t 0 0 = Inr (ReadResult (ft_path t) 0 (length data) (b64_encode data))"
    using policy_read_file [OF assms(1), where offset = 0 and limit = 0 and p = p] assms(3) by simp
  then show ?thesis using w(6) by auto
qed

lemma demo_no_faults: "no_faults demo_env"
  by (simp add: no_faults_def demo_env_def)

lemma demo_a: "root_target demo_tree [''srv''] ''a'' = Inr [''srv'', ''a'']" "demo_tree [''srv'', ''a''] = Some (RegF 420 ''hello world'')"
  by code_simp+

lemma demo_write: "policy_write demo_env demo_tree demo_policy (demo_target ''a'') ''new'' =
    (demo_tree([''srv'', ''a''] \<mapsto> RegF 420 ''new''), Inr (WriteResult ''/srv/a'' 3))"
proof -
  have a: "fp_allowWrite demo_policy" "fp_maxWrite demo_policy = 8388608" by code_simp+
  have c: "root_create demo_env demo_tree [''srv''] ''a'' 420 = Inr (demo_tree([''srv'', ''a''] \<mapsto> RegF 420 []), [''srv'', ''a''])"
    unfolding root_create_Inr using demo_a by (simp add: node_at_def)
  have s: "root_stat demo_tree [''srv''] ''a'' = Inr (RegF 420 ''hello world'')"
    by (simp add: root_stat_def root_open_file [OF demo_a(1) _ demo_a(2)])
  show ?thesis using a by (simp add: policy_write_def demo_open sys_def s c set_data_def)
qed

theorem write_then_read_witness:
  "policy_read demo_env (demo_tree([''srv'', ''a''] \<mapsto> RegF 420 ''new'')) demo_policy (demo_target ''a'') 0 0 =
     Inr (ReadResult ''/srv/a'' 0 3 (b64_encode ''new''))"
proof -
  have "int (length ''new'') \<le> fp_maxRead demo_policy" by code_simp
  from write_then_read [OF demo_no_faults demo_write this] show ?thesis by simp
qed

section \<open>Paging\<close>

text \<open>A client that reads windows of one size until it has seen as many bytes as the file has.\<close>

fun read_pages ::
  "files_env \<Rightarrow> host \<Rightarrow> file_policy \<Rightarrow> file_target \<Rightarrow> int \<Rightarrow> nat \<Rightarrow> nat \<Rightarrow> file_action_error + bytes option" where
  "read_pages fx h p t limit offset 0 = Inr None"
| "read_pages fx h p t limit offset (Suc k) =
     rbind (policy_read fx h p t (int offset) limit) (\<lambda>r. case r of
         ReadResult _ _ sz content \<Rightarrow>
           (case b64_std_decode content of
              None \<Rightarrow> Inr None
            | Some d \<Rightarrow>
                if sz \<le> offset + length d then Inr (Some d)
                else rbind (read_pages fx h p t limit (offset + length d) k) (\<lambda>rest. Inr (map_option (\<lambda>s. d @ s) rest)))
       | _ \<Rightarrow> Inr None)"

lemma b64_groups_encode [simp]: "b64_groups b64_value True (b64_encode s) = Some s"
  by (induction s rule: b64_encode.induct) (simp_all del: nat_of_char_less_256)

lemma b64_char_code: "n < 64 \<Longrightarrow> byte (b64_char n) \<noteq> 10 \<and> byte (b64_char n) \<noteq> 13"
  by (auto simp: b64_char_def)

lemma drop_breaks_encode [simp]: "drop_breaks (b64_encode s) = b64_encode s"
  unfolding drop_breaks_def
  by (induction s rule: b64_encode.induct) (simp_all add: b64_char_code del: nat_of_char_less_256)

lemma b64_std_roundtrip [simp]: "b64_std_decode (b64_encode s) = Some s"
  by (simp add: b64_std_decode_def)

lemma b64_std_empty [simp]: "b64_std_decode [] = Some []"
  by (simp add: b64_std_decode_def drop_breaks_def)

text \<open>A client that pages through a regular file with any positive window the policy allows, asking
  again until it has as many bytes as the file has, ends after a bounded number of requests with
  exactly the file's content; no byte is lost or read twice at a window's border.\<close>

theorem paging_reads_whole_file:
  assumes "no_faults fx" "open_root fx h t = Inr root" "root_open h root (ft_rel t) = Inr (e, RegF m d)"
    and "0 < limit" "limit \<le> fp_maxRead p" "length d \<le> k * nat limit"
  shows "read_pages fx h p t limit 0 (Suc k) = Inr (Some d)"
proof -
  have "read_pages fx h p t limit offset (Suc k) = Inr (Some (drop offset d))"
    if "offset \<le> length d" "length d - offset \<le> k * nat limit" for offset k
    using that
  proof (induction k arbitrary: offset)
    case 0
    then show ?case using policy_read_file [OF assms(1-3), of "int offset" limit p] assms(4,5) by simp
  next
    case (Suc k)
    let ?w = "take (nat limit) (drop offset d)"
    have r: "policy_read fx h p t (int offset) limit = Inr (ReadResult (ft_path t) (int offset) (length d) (b64_encode ?w))"
      using policy_read_file [OF assms(1-3), of "int offset" limit p] assms(4,5) Suc.prems(1) by simp
    show ?case
    proof (cases "length d \<le> offset + length ?w")
      case True
      then have "?w = drop offset d" by auto
      then show ?thesis using r True by simp
    next
      case False
      then have len: "length ?w = nat limit" by auto
      then have rec: "read_pages fx h p t limit (offset + length ?w) (Suc k) = Inr (Some (drop (offset + length ?w) d))"
        using Suc.prems False by (intro Suc.IH) auto
      have cat: "?w @ drop (offset + length ?w) d = drop offset d"
        unfolding len by (metis append_take_drop_id drop_drop add.commute)
      show ?thesis using False
        by (subst read_pages.simps(2)) (simp add: r rec cat del: read_pages.simps length_take)
    qed
  qed
  from this [of 0 k] show ?thesis using assms(6) by simp
qed

theorem paging_reads_whole_file_witness:
  "read_pages demo_env demo_tree demo_policy (demo_target ''a'') 4 0 (Suc 3) = Inr (Some ''hello world'')"
proof -
  have o: "root_open demo_tree [''srv''] (ft_rel (demo_target ''a'')) = Inr ([''srv'', ''a''], RegF 420 ''hello world'')"
    using root_open_file [OF demo_a(1) _ demo_a(2)] by simp
  have "4 \<le> fp_maxRead demo_policy" by code_simp
  then show ?thesis by (intro paging_reads_whole_file [OF demo_no_faults demo_open o]) simp_all
qed

section \<open>What the helper is told\<close>

lemma name_no_dash:
  assumes "ValidProfileName n"
  shows "n \<noteq> [] \<and> \<not> has_prefix ''-'' n \<and> \<not> blank n"
proof -
  have n: "n \<noteq> []" "name_head (hd n)" "\<forall>c \<in> set n. name_head c \<or> name_rest c"
    using re_head_rest_props [of name_head name_rest 63 n] assms by (simp_all add: ValidProfileName_def)
  have "32 < byte c \<and> byte c < 128" if "name_head c \<or> name_rest c" for c
    using that by (auto simp: name_rest_def name_head_def is_lower_def is_digit_def)
  then have "trim_space n = n" using n(3) by (intro trim_space_all_graphic) blast
  moreover have "\<not> has_prefix ''-'' n" using n(1,2)
    by (cases n) (auto simp: has_prefix_def name_head_def is_lower_def is_digit_def)
  ultimately show ?thesis using n(1) by (simp add: blank_def)
qed

lemma safeRel_join:
  assumes "cs \<noteq> []" "list_all normal cs" "CHR 0x00 \<notin> set (join_with ''/'' cs)"
  shows "safeRel (join_with ''/'' cs) = Inr (join_with ''/'' cs)"
proof -
  let ?s = "join_with ''/'' cs"
  have sp: "split_on slash ?s = cs" by (rule split_join_normal [OF assms(1,2)])
  have hd: "hd cs \<noteq> ''.''" "hd cs \<noteq> ''..''" using assms(1,2) by (cases cs; auto simp: normal_def)+
  have "?s \<noteq> ''.''" "?s \<noteq> ''..''" using sp hd by auto
  moreover have "\<not> has_prefix ''../'' ?s"
  proof
    assume "has_prefix ''../'' ?s"
    then obtain x where "?s = ''../'' @ x" unfolding has_prefix_def by (metis append_take_drop_id)
    then show False using sp hd by auto
  qed
  ultimately show ?thesis
    using assms(3) join_normal_nonempty(1) [OF assms(1,2)] join_normal_not_abs [OF assms(1,2)] clean_join_normal [OF assms(1,2)]
    by (simp add: safeRel_def)
qed

lemma octal_digits_digits: "octal_digits n \<noteq> [] \<and> (\<forall>c \<in> set (octal_digits n). is_digit c)"
proof (induction n rule: octal_digits.induct)
  case (1 n)
  have "is_digit (char_of (48 + k))" if "k < 8" for k :: nat using that by (simp add: is_digit_def)
  moreover have "n mod 8 < 8" by simp
  ultimately show ?case using "1.IH" by (subst (1 2) octal_digits.simps) (auto simp del: mod_less_divisor)
qed

lemma mode_text_digits: "mode_text m \<noteq> [] \<and> \<not> has_prefix ''-'' (mode_text m)"
proof -
  have "mode_text m \<noteq> []" using octal_digits_digits [of "unat m"] by (simp add: mode_text_def fmt_04o_def Let_def)
  then obtain x xs where x: "mode_text m = x # xs" by (cases "mode_text m") blast+
  have "x \<in> set (replicate (4 - length (octal_digits (unat m))) CHR ''0'' @ octal_digits (unat m))"
    using x unfolding mode_text_def fmt_04o_def Let_def by (metis list.set_intros(1))
  then have "is_digit x" using octal_digits_digits [of "unat m"] by (auto simp: is_digit_def split: if_splits)
  then have "x \<noteq> CHR ''-''" by (auto simp: is_digit_def)
  then show ?thesis unfolding x by (simp add: has_prefix_def)
qed

end
