(* ===== verification/Daemon_Files_Copy.thy ===== *)
theory Daemon_Files_Copy
  imports Daemon_Files_Flow
begin

text \<open>
  Copying and listing through the file API, and the credential check in front of every handler.
\<close>

lemma demo_etc: "resolve demo_policy ''/srv/etc/-x'' = Inr \<lparr>ft_root = ''/srv/etc'', ft_rel = ''-x'', ft_path = ''/srv/etc/-x'',
     ft_privileged = True, ft_profile = ''etc''\<rparr>"
  by code_simp

text \<open>The arguments the daemon gives the helper for a path below a privileged root are read by the
  helper's command line as that operation on that profile and that path, unless the path starts with
  a dash, which the helper takes for an option and refuses, or is blank; the helper's own path check
  accepts what the daemon resolved.\<close>

theorem helper_reads_target:
  assumes "newFilePolicy cfg = Some p" "list_all (\<lambda>r. is_abs (rc_path r)) (fc_roots cfg)" "resolve p raw = Inr t"
    and "ft_rel t \<noteq> ''.''" "ValidProfileName (ft_profile t)" "verb = ''write'' \<or> verb = ''mkdir''"
  shows "ParseArgs (fs_args verb (ft_profile t) (ft_rel t) (mode_text m)) =
      (if has_prefix ''-'' (ft_rel t) then Inl (UnknownOption (ft_rel t))
       else if blank (ft_rel t) then Inl (EmptyOperand ''path'')
       else Inr (new_action\<lparr>a_command := ''fs'', a_verb := verb, a_profile := ft_profile t, a_rel := ft_rel t,
                  a_mode := mode_text m\<rparr>)) \<and>
    safeRel (ft_rel t) = Inr (ft_rel t)"
proof
  obtain ms rest where n: "list_all normal (ms @ rest)" "ft_path t = abs_of (ms @ rest)"
    "ft_rel t = (if rest = [] then ''.'' else join_with ''/'' rest)" "clean raw = ft_path t"
    using resolve_names [OF assms(3) policy_abs_roots [OF assms(1,2)]] by metis
  then have rest: "rest \<noteq> []" "list_all normal rest" "ft_rel t = join_with ''/'' rest" using assms(4) by auto
  have "CHR 0x00 \<notin> set raw" using assms(3) by (auto simp: resolve_def split: if_splits)
  then have "CHR 0x00 \<notin> set (abs_of (ms @ rest))" using set_clean [of raw] n(2,4) by auto
  then have "CHR 0x00 \<notin> set (join_with ''/'' rest)"
    using rest(1) by (cases "ms = []") (auto simp: abs_of_def join_append)
  then show "safeRel (ft_rel t) = Inr (ft_rel t)" unfolding rest(3) by (intro safeRel_join rest)
  have m: "mode_text m \<noteq> [] \<and> \<not> has_prefix ''-'' (mode_text m)"
    by (rule mode_text_digits)
  have prof: "ft_profile t \<noteq> []" "\<not> has_prefix ''-'' (ft_profile t)" "\<not> blank (ft_profile t)"
    using name_no_dash [OF assms(5)] by auto
  show "ParseArgs (fs_args verb (ft_profile t) (ft_rel t) (mode_text m)) =
      (if has_prefix ''-'' (ft_rel t) then Inl (UnknownOption (ft_rel t))
       else if blank (ft_rel t) then Inl (EmptyOperand ''path'')
       else Inr (new_action\<lparr>a_command := ''fs'', a_verb := verb, a_profile := ft_profile t, a_rel := ft_rel t,
                  a_mode := mode_text m\<rparr>))"
    using assms(6) m prof
    by (auto simp: fs_args_def ParseArgs_def parse_command_def parse_fs_def check_fs_operands_def has_prefix_def new_action_def)
qed

theorem helper_reads_target_witness:
  "ParseArgs (fs_args ''write'' ''etc'' ''-x'' (mode_text 420)) = Inl (UnknownOption ''-x'') \<and> safeRel ''-x'' = Inr ''-x''"
proof -
  have v: "ValidProfileName ''etc''" by code_simp
  show ?thesis using helper_reads_target [OF demo_policy demo_files_abs demo_etc, of "''write''" 420] v
    by (simp add: has_prefix_def)
qed

section \<open>Copying one file\<close>

lemma copy_contents_file:
  assumes "no_faults fx" "root_open h root from = Inr (sp, RegF m d)" "root_create fx h root to perm = Inr (h1, dp)"
    and "sp \<noteq> []" "h1 dp = Some (RegF k [])" "h1 = h(dp \<mapsto> RegF k [])"
  shows "copyFileContents fx h root from to perm = (h(dp \<mapsto> RegF k (if dp = sp then [] else d)), Inr ())"
proof -
  have sp: "h sp = Some (RegF m d)" using assms(2,4) by (auto simp: root_open_def node_at_def split: if_splits)
  show ?thesis using assms(4-6) sp
    by (simp add: copyFileContents_def no_faultsD [OF assms(1)] assms(2,3) node_at_def set_data_def)
qed

text \<open>Copying a regular file to a destination that may be overwritten succeeds and changes one entry,
  the one the destination resolves to: it then holds exactly the source's bytes. But when the
  destination is a link that leads back to the source, that entry is the source itself, and the copy,
  still reported as done, leaves it empty.\<close>

theorem copy_file_result:
  assumes "no_faults fx" "fp_allowWrite p" "ft_root t = ft_root t'" "ft_rel t \<noteq> ''.''" "ft_rel t' \<noteq> ''.''" "ft_rel t \<noteq> ft_rel t'"
    and "\<not> has_prefix (ft_rel t @ ''/'') (ft_rel t')" "open_root fx h t = Inr root"
    and "lstat_in h root (ft_rel t) = Inr (RegF m0 d0)" "root_open h root (ft_rel t) = Inr (sp, RegF m d)" "sp \<noteq> []"
    and "root_create fx h root (ft_rel t') (and m0 511) = Inr (h1, dp)"
    and "lstat_in h root (ft_rel t') = Inl ErrNotExist \<or> overwrite \<and> is_ok (lstat_in h root (ft_rel t'))"
  shows "\<exists>k. policy_copy fx fuel h p t t' overwrite =
    Some (h(dp \<mapsto> RegF k (if dp = sp then [] else d)), Inr (MoveResult (ft_path t) (ft_path t')))"
proof -
  have d: "dir_at h root" using open_root_Inr [OF assms(8)] by simp
  obtain k where k: "h1 = h(dp \<mapsto> RegF k [])" using assms(12) by (auto simp: root_create_Inr)
  have "copyFileContents fx h root (ft_rel t) (ft_rel t') (and m0 511) = (h(dp \<mapsto> RegF k (if dp = sp then [] else d)), Inr ())"
    by (rule copy_contents_file [OF assms(1,10,12,11) _ k]) (simp add: k)
  then have "policy_copy fx fuel h p t t' overwrite =
    Some (h(dp \<mapsto> RegF k (if dp = sp then [] else d)), Inr (MoveResult (ft_path t) (ft_path t')))"
    using assms(2-7,9,13)
    by (auto simp: policy_copy_def assms(8) no_faultsD [OF assms(1)] Let_def lift_outcome_def is_ok_iff)
  then show ?thesis by blast
qed

lemma demo_alias:
  "lstat_in demo_tree [''srv''] ''a'' = Inr (RegF 420 ''hello world'')" "is_ok (lstat_in demo_tree [''srv''] ''m'')"
  "root_open demo_tree [''srv''] ''a'' = Inr ([''srv'', ''a''], RegF 420 ''hello world'')"
  "root_target demo_tree [''srv''] ''m'' = Inr [''srv'', ''a'']" "fp_allowWrite demo_policy" "\<not> has_prefix ''a/'' ''m''"
  by code_simp+

theorem copy_file_result_witness:
  "\<exists>k. policy_copy demo_env 0 demo_tree demo_policy (demo_target ''a'') (demo_target ''m'') True =
    Some (demo_tree([''srv'', ''a''] \<mapsto> RegF k []), Inr (MoveResult ''/srv/a'' ''/srv/m''))"
proof -
  have c: "root_create demo_env demo_tree [''srv''] ''m'' (and 420 511) = Inr (demo_tree([''srv'', ''a''] \<mapsto> RegF 420 []), [''srv'', ''a''])"
    unfolding root_create_Inr using demo_alias(4) demo_a(2) by (simp add: node_at_def)
  show ?thesis
    using copy_file_result [OF demo_no_faults, where t = "demo_target ''a''" and t' = "demo_target ''m''" and overwrite = True
        and fuel = 0, OF _ _ _ _ _ _ demo_open, of demo_policy 420 "''hello world''" "[''srv'', ''a'']" 420 "''hello world''"] c demo_alias
    by simp
qed

section \<open>Copying a directory into itself through a link\<close>

text \<open>The demo tree after \<open>k\<close> rounds: \<open>k\<close> directories \<open>x\<close> nested below \<open>d\<close>.\<close>

definition nested :: "nat \<Rightarrow> host" where
  "nested k = (\<lambda>q. if \<exists>i \<in> {1..k}. q = ''srv'' # ''d'' # replicate i ''x'' then Some (DirF 493) else demo_tree q)"

lemma nested_0: "nested 0 = demo_tree"
  by (simp add: nested_def)

lemma nested_x: "nested k (''srv'' # ''d'' # replicate i ''x'') = (if i \<le> k then Some (DirF 493) else None)"
proof (cases "i = 0")
  case False
  then have "(\<exists>j \<in> {1..k}. ''srv'' # ''d'' # replicate i ''x'' = ''srv'' # ''d'' # replicate j ''x'') \<longleftrightarrow> i \<le> k"
    by (auto simp: replicate_eq_replicate)
  then show ?thesis using False by (simp add: nested_def demo_tree_def)
qed (simp add: nested_def demo_tree_def)

lemma nested_other: "length q \<le> 2 \<Longrightarrow> nested k q = demo_tree q"
  by (auto simp: nested_def)

lemma nested_Suc: "(nested k)(''srv'' # ''d'' # replicate (Suc k) ''x'' \<mapsto> DirF 493) = nested (Suc k)"
  by (rule ext) (auto simp: nested_def atLeastAtMostSuc_conv)

lemma snoc_x: "replicate i ''x'' @ [''x''] = replicate (Suc i) ''x''"
  by (simp add: replicate_append_same)

lemma mkdir_nested:
  "i + j = Suc k \<Longrightarrow> j > 0 \<Longrightarrow>
     mkdir_all files_io (nested k) [''srv''] n (''d'' # replicate i ''x'') (replicate j ''x'') 493 =
       (nested (Suc k), Inr (''d'' # replicate (Suc k) ''x''))"
proof (induction j arbitrary: i)
  case (Suc j)
  have m: "and 493 (not (io_umask files_io)) = (493 :: fmode)" "io_mkdir_fault files_io q = None" for q
    by (simp add: files_io_def) (simp add: files_io_def)
  have at: "nested k ([''srv''] @ (''d'' # replicate i ''x'') @ [''x'']) = (if Suc i \<le> k then Some (DirF 493) else None)"
    using nested_x [of k "Suc i"] by (simp add: replicate_append_same)
  show ?case
  proof (cases "j = 0")
    case True
    then have "i = k" using Suc.prems by simp
    then show ?thesis using True at m nested_Suc [of k] by (simp add: replicate_append_same)
  next
    case False
    then have "Suc i \<le> k" using Suc.prems by simp
    then show ?thesis using at Suc.IH [of "Suc i"] Suc.prems False by (simp add: replicate_append_same)
  qed
qed simp

definition src_at :: "nat \<Rightarrow> string" where "src_at k = join_with ''/'' (''d'' # replicate k ''x'')"
definition dst_at :: "nat \<Rightarrow> string" where "dst_at k = join_with ''/'' (''l'' # replicate (Suc k) ''x'')"

lemma x_normal: "list_all normal (''d'' # replicate k ''x'')" "list_all normal (''l'' # replicate k ''x'')" "normal ''x''"
  by (auto simp: normal_def list_all_iff)

lemma src_next: "path_join (src_at k) ''x'' = src_at (Suc k)"
  using path_join_normal [OF x_normal(1,3), of k] snoc_x [of k] by (simp add: src_at_def del: replicate_Suc)

lemma dst_next: "path_join (dst_at k) ''x'' = dst_at (Suc k)"
  using path_join_normal [OF x_normal(2,3), of "Suc k"] snoc_x [of "Suc k"] by (simp add: dst_at_def del: replicate_Suc)

lemma mkdir_dst:
  "mkdir_all files_io (nested k) [''srv''] root_max_links [] (split_on slash (dst_at k)) 493 =
     (nested (Suc k), Inr (''d'' # replicate (Suc k) ''x''))"
proof -
  have s: "split_on slash (dst_at k) = ''l'' # replicate (Suc k) ''x''"
    unfolding dst_at_def by (rule split_join_normal) (use x_normal in auto)
  have l: "nested k [''srv'', ''l''] = Some (LinkF ''d'')" "nested k [''srv'', ''d''] = Some (DirF 493)"
    by (simp_all add: nested_other demo_tree_def)
  show ?thesis unfolding s using mkdir_nested [of 0 "Suc k" k 7] l
    by (simp add: root_max_links_def is_abs_def has_prefix_def del: replicate_Suc)
qed

lemma final_nested:
  "i + j \<le> k \<Longrightarrow> root_final (nested k) [''srv''] n (''d'' # replicate i ''x'') (replicate j ''x'') = Inr (''d'' # replicate (i + j) ''x'')"
proof (induction j arbitrary: i)
  case (Suc j)
  then show ?case using nested_x [of k "Suc i"] Suc.IH [of "Suc i"] by (simp add: replicate_append_same)
qed simp

lemma open_src:
  assumes "k \<le> m"
  shows "root_open (nested m) [''srv''] (src_at k) = Inr (''srv'' # ''d'' # replicate k ''x'', DirF 493)"
proof -
  have s: "split_on slash (src_at k) = ''d'' # replicate k ''x''"
    unfolding src_at_def by (rule split_join_normal) (use x_normal in auto)
  have "nested m [''srv'', ''d''] = Some (DirF 493)" by (simp add: nested_other demo_tree_def)
  then have "root_target (nested m) [''srv''] (src_at k) = Inr (''srv'' # ''d'' # replicate k ''x'')"
    using final_nested [of 0 k m root_max_links] assms unfolding root_target_def s by simp
  then show ?thesis using nested_x [of m k] assms by (simp add: root_open_def node_at_def)
qed

lemma names_nested: "fx_names demo_env (nested (Suc k)) (''srv'' # ''d'' # replicate k ''x'') = [''x'']"
proof -
  have "nested (Suc k) ((''srv'' # ''d'' # replicate k ''x'') @ [c]) = None" if "c \<noteq> ''x''" for c
  proof -
    have "(''srv'' # ''d'' # replicate k ''x'') @ [c] \<noteq> ''srv'' # ''d'' # replicate i ''x''" for i
    proof
      assume "(''srv'' # ''d'' # replicate k ''x'') @ [c] = ''srv'' # ''d'' # replicate i ''x''"
      then have e: "replicate k ''x'' @ [c] = replicate i ''x''" by simp
      have "i = Suc k" using arg_cong [OF e, of length] by simp
      then show False using e that by (simp flip: snoc_x del: replicate_Suc)
    qed
    then show ?thesis by (auto simp: nested_def demo_tree_def)
  qed
  moreover have "nested (Suc k) ((''srv'' # ''d'' # replicate k ''x'') @ [''x'']) = Some (DirF 493)"
    using nested_x [of "Suc k" "Suc k"] by (simp add: replicate_append_same)
  ultimately show ?thesis by (simp add: demo_env_def)
qed

lemma copy_nested: "copyFileTree demo_env [''srv''] overwrite n (nested k) (src_at k) (dst_at k) 493 = None"
proof (induction n arbitrary: k)
  case (Suc n)
  have o: "or 493 448 = (493 :: fmode)" "and 493 511 = (493 :: fmode)" by simp_all
  have x: "nested (Suc k) ((''srv'' # ''d'' # replicate k ''x'') @ [''x'']) = Some (DirF 493)"
    using nested_x [of "Suc k" "Suc k"] by (simp add: replicate_append_same)
  show ?case
    using Suc.IH [of "Suc k"] x
    by (simp add: o mkdir_dst sys_def open_src names_nested src_next dst_next)
qed simp


section \<open>Listing\<close>

text \<open>The batches add up to the first names, and to one more when there are more.\<close>

lemma read_batches_spec:
  "length acc \<le> Suc limit \<Longrightarrow> read_batches limit acc rest = (take limit (acc @ rest), limit < length (acc @ rest))"
proof (induction limit acc rest rule: read_batches.induct)
  case (1 limit acc rest)
  let ?n = "min 256 (limit + 1 - length acc)"
  show ?case
  proof (cases "length acc \<le> limit \<and> take ?n rest \<noteq> []")
    case True
    then have le: "length (acc @ take ?n rest) \<le> Suc limit" unfolding length_append length_take by linarith
    have "read_batches limit (acc @ take ?n rest) (drop ?n rest) = (take limit (acc @ rest), limit < length (acc @ rest))"
      using "1.IH" [OF True le] by (simp only: append_assoc append_take_drop_id)
    then show ?thesis using True by (subst read_batches.simps) (simp only: simp_thms if_True)
  next
    case False
    then have "limit < length acc \<or> rest = []" by auto
    then show ?thesis using False by (subst read_batches.simps) (auto simp: min_def)
  qed
qed

lemma entry_name [simp]: "en_name (entry_of fx h root rel p name shown nd) = name"
  by (auto simp: entry_of_def fillLinkTarget_def Let_def split: sum.split)

lemma list_entries_names:
  assumes "no_faults fx" "\<forall>c \<in> set names. h (dir @ [c]) \<noteq> None"
  shows "\<exists>entries. rfold (list_entry fx h root t dir) out names = Inr (out @ entries) \<and> map en_name entries = names"
  using assms(2)
proof (induction names arbitrary: out)
  case (Cons c cs)
  then obtain nd where nd: "h (dir @ [c]) = Some nd" by auto
  let ?e = "entry_of fx h root (path_join (ft_rel t) c) (dir @ [c]) c (path_join (ft_path t) c) nd"
  have "list_entry fx h root t dir out c = Inr (out @ [?e])"
    by (simp add: list_entry_def nd no_faultsD [OF assms(1)])
  moreover obtain es where "rfold (list_entry fx h root t dir) (out @ [?e]) cs = Inr ((out @ [?e]) @ es)" "map en_name es = cs"
    using Cons.IH [of "out @ [?e]"] Cons.prems by auto
  ultimately show ?case by (intro exI [of _ "?e # es"]) simp
qed simp

text \<open>A listing of a directory holds one entry for each of the first names it is read with, up to the
  policy's limit, sorted by name, and says that it is truncated exactly when there were more.\<close>

theorem listing_sorted_and_bounded:
  assumes "no_faults fx" "open_root fx h t = Inr root" "root_open h root (ft_rel t) = Inr (dir, DirF m)"
    and "\<forall>c \<in> set (fx_names fx h dir). h (dir @ [c]) \<noteq> None"
  shows "\<exists>entries. policy_list fx h p t = Inr (ListResult (ft_path t) entries (nat (fp_maxList p) < length (fx_names fx h dir))) \<and>
    map en_name entries = sort (take (nat (fp_maxList p)) (fx_names fx h dir)) \<and> length entries \<le> nat (fp_maxList p)"
proof -
  let ?names = "take (nat (fp_maxList p)) (fx_names fx h dir)"
  have "\<forall>c \<in> set ?names. h (dir @ [c]) \<noteq> None" using assms(4) by (meson in_set_takeD)
  then obtain es where es: "rfold (list_entry fx h root t dir) [] ?names = Inr ([] @ es)" "map en_name es = ?names"
    using list_entries_names [OF assms(1), of ?names h dir root t "[]"] by blast
  have "read_batches (nat (fp_maxList p)) [] (fx_names fx h dir) = (?names, nat (fp_maxList p) < length (fx_names fx h dir))"
    by (simp add: read_batches_spec)
  then have "policy_list fx h p t =
      Inr (ListResult (ft_path t) (sort_key en_name es) (nat (fp_maxList p) < length (fx_names fx h dir)))"
    using es(1) by (simp add: policy_list_def assms(2,3) no_faultsD [OF assms(1)] root_stat_def as_status_def readDirLimited_def)
  moreover have "map en_name (sort_key en_name es) = sort ?names" using es(2)
    by (metis mset_map mset_sort properties_for_sort sorted_sort_key)
  moreover have "length (sort_key en_name es) \<le> nat (fp_maxList p)" using arg_cong [OF es(2), of length] by simp
  ultimately show ?thesis by blast
qed

theorem listing_sorted_and_bounded_witness:
  "\<exists>entries. policy_list demo_env demo_tree demo_policy (demo_target ''.'') = Inr (ListResult ''/srv/.'' entries False) \<and>
    map en_name entries = [''a'', ''d'', ''l'', ''m'']"
proof -
  have o: "root_open demo_tree [''srv''] (ft_rel (demo_target ''.'')) = Inr ([''srv''], DirF 493)"
    and n: "fx_names demo_env demo_tree [''srv''] = [''m'', ''a'', ''d'', ''l'']" "nat (fp_maxList demo_policy) = 5000"
    "\<forall>c \<in> set (fx_names demo_env demo_tree [''srv'']). demo_tree ([''srv''] @ [c]) \<noteq> None"
    "sort [''m'', ''a'', ''d'', ''l''] = [''a'', ''d'', ''l'', ''m'']" by code_simp+
  show ?thesis using listing_sorted_and_bounded [OF demo_no_faults demo_open o n(3), of demo_policy] by (auto simp add: n(1,2,4))
qed

section \<open>Credentials\<close>

definition header_credential :: "http_config \<Rightarrow> file_http \<Rightarrow> bool" where
  "header_credential hc r =
     (let secret = fileExpectedSecret (fc_secret (hc_files hc)) (hc_metricsSecret hc) in secret \<noteq> [] \<and>
      (bearerSecret (rq_authorization r) = Some secret \<or> fileSubprotocolSecret (rq_protocol r) = Some secret))"

lemma authorized_iff:
  assumes "newFilePolicy (hc_files hc) = Some p"
  shows "fileAuthorizedRequest r (hc_metricsSecret hc) (fp_secret p) q \<longleftrightarrow> header_credential hc r \<or>
    q \<and> fileExpectedSecret (fc_secret (hc_files hc)) (hc_metricsSecret hc) \<noteq> [] \<and>
    query r ''token'' = fileExpectedSecret (fc_secret (hc_files hc)) (hc_metricsSecret hc)"
proof -
  have "fp_secret p = fc_secret (hc_files hc)" using assms by (auto simp: newFilePolicy_def split: if_splits)
  then show ?thesis by (auto simp: fileAuthorizedRequest_def header_credential_def query_def Let_def)
qed

text \<open>C24: Without the credential in a header no file request over HTTP has any effect: the actions and the
  raw write are refused before a path is looked at, leaving the tree and the audit log as they were,
  whatever the query string holds; only the raw read also takes the credential from the query
  string, and it never changes the tree.\<close>

theorem file_http_requires_credential:
  assumes "newFilePolicy (hc_files hc) = Some p" "\<not> header_credential hc r"
  shows "serveFileAction fx fuel hc h r action decorate = Some (h, [], Refusal unauthorized) \<and>
    handleFileWriteRaw fx hc h r = (h, [], Refusal unauthorized) \<and> fst (handleFileContent fx hc h r) = h \<and>
    (query r ''token'' = fileExpectedSecret (fc_secret (hc_files hc)) (hc_metricsSecret hc) \<or>
     handleFileContent fx hc h r = (h, [], Refusal unauthorized))"
proof -
  have "fst (handleFileContent fx hc h r) = h"
    by (simp add: handleFileContent_def Let_def split: sum.split prod.split)
  then show ?thesis using assms
    by (auto simp: serveFileAction_def handleFileWriteRaw_def handleFileContent_def filePolicyFrom_def authorized_iff)
qed

definition demo_http :: http_config where
  "demo_http = \<lparr>hc_files = demo_files, hc_metricsSecret = ''s3cret'', hc_maxBody = 65536, hc_audited = True, hc_mac = (\<lambda>_ _. [])\<rparr>"

definition demo_request :: file_http where
  "demo_request = \<lparr>rq_authorization = [], rq_protocol = [], rq_signature = [],
     rq_query = (\<lambda>n. if n = ''token'' then ''s3cret'' else if n = ''path'' then ''/srv/a'' else []), rq_body = Some []\<rparr>"

theorem file_http_requires_credential_witness:
  "handleFileWriteRaw demo_env demo_http demo_tree demo_request = (demo_tree, [], Refusal unauthorized) \<and>
   fst (handleFileContent demo_env demo_http demo_tree demo_request) = demo_tree"
proof -
  have p: "newFilePolicy (hc_files demo_http) = Some demo_policy" by (simp add: demo_http_def demo_policy)
  have "\<not> header_credential demo_http demo_request" by code_simp
  from file_http_requires_credential [OF p this, where decorate = Inr and fuel = 0 and action = "[]"] show ?thesis by blast
qed

end
