(* ===== verification/Go_Scan.thy ===== *)
theory Go_Scan
  imports Go_Text Go_Path
begin

text \<open>
  More of Go's \<open>strings\<close> and \<open>sort\<close>: cutting a string at a byte (\<open>IndexByte\<close>,
  \<open>LastIndexByte\<close> and the two slices, \<open>strings.Cut\<close>), \<open>ContainsAny\<close>, \<open>Fields\<close> on ASCII text,
  \<open>EqualFold\<close>, and \<open>sort.Strings\<close>.
\<close>

section \<open>Cutting at a byte\<close>

text \<open>The two slices around the first, or the last, occurrence of \<open>d\<close>; none when there is none.\<close>

definition cut_first :: "char \<Rightarrow> string \<Rightarrow> (string \<times> string) option" where
  "cut_first d s = (if d \<in> set s then Some (takeWhile (\<lambda>c. c \<noteq> d) s, tl (dropWhile (\<lambda>c. c \<noteq> d) s)) else None)"

definition cut_last :: "char \<Rightarrow> string \<Rightarrow> (string \<times> string) option" where
  "cut_last d s = map_option (\<lambda>(b, a). (rev a, rev b)) (cut_first d (rev s))"

lemma cut_first_None [simp]: "cut_first d s = None \<longleftrightarrow> d \<notin> set s"
  by (simp add: cut_first_def)

lemma cut_first_append [simp]: "d \<notin> set a \<Longrightarrow> cut_first d (a @ d # b) = Some (a, b)"
  by (simp add: cut_first_def takeWhile_append dropWhile_append)

lemma cut_first_Some: "cut_first d s = Some (a, b) \<longleftrightarrow> s = a @ d # b \<and> d \<notin> set a"
proof
  assume c: "cut_first d s = Some (a, b)"
  then have d: "d \<in> set s" "a = takeWhile (\<lambda>c. c \<noteq> d) s" "b = tl (dropWhile (\<lambda>c. c \<noteq> d) s)"
    by (auto simp: cut_first_def split: if_splits)
  then have ne: "dropWhile (\<lambda>c. c \<noteq> d) s \<noteq> []" by (auto simp: dropWhile_eq_Nil_conv)
  then have "hd (dropWhile (\<lambda>c. c \<noteq> d) s) = d" using hd_dropWhile by blast
  then have "dropWhile (\<lambda>c. c \<noteq> d) s = d # b" using ne d(3) by (metis list.collapse)
  then show "s = a @ d # b \<and> d \<notin> set a" using d(2) by (metis (full_types) set_takeWhileD takeWhile_dropWhile_id)
qed simp

lemma cut_last_None [simp]: "cut_last d s = None \<longleftrightarrow> d \<notin> set s"
  by (simp add: cut_last_def)

lemma cut_last_Some: "cut_last d s = Some (a, b) \<longleftrightarrow> s = a @ d # b \<and> d \<notin> set b"
proof -
  have "cut_last d s = Some (a, b) \<longleftrightarrow> cut_first d (rev s) = Some (rev b, rev a)"
    by (auto simp: cut_last_def)
  also have "\<dots> \<longleftrightarrow> s = a @ d # b \<and> d \<notin> set b"
    unfolding cut_first_Some by (auto simp: rev_swap)
  finally show ?thesis .
qed

lemma cut_last_append [simp]: "d \<notin> set b \<Longrightarrow> cut_last d (a @ d # b) = Some (a, b)"
  by (simp add: cut_last_Some)

definition contains_any :: "string \<Rightarrow> string \<Rightarrow> bool" where
  "contains_any s chars \<longleftrightarrow> (\<exists>c \<in> set chars. c \<in> set s)"

section \<open>A leading dash\<close>

text \<open>White space never hides a leading dash: a text that starts with one still does when trimmed.\<close>

lemma trim_keeps_dash:
  assumes "has_prefix ''-'' s"
  shows "trim_space s = [] \<or> has_prefix ''-'' (trim_space s)"
proof -
  obtain t where s: "s = CHR ''-'' # t" using assms by (cases s) (auto simp: has_prefix_def)
  have "trim_prefixes space_runes s = s" unfolding s
    using space_runes_heads by (intro trim_prefixes_graphic) auto
  then obtain v where "rev s = v @ rev (trim_space s)"
    using trim_prefixes_suffix [of "rev s" "map rev space_runes"] unfolding trim_space_def by auto
  then have "s = trim_space s @ rev v" by (metis rev_append rev_rev_ident)
  then show ?thesis using s by (cases "trim_space s") (auto simp: has_prefix_def)
qed

lemma has_prefix_split: "has_prefix p s \<Longrightarrow> s = p @ trim_prefix p s"
  by (simp add: has_prefix_def trim_prefix_def) (metis append_take_drop_id)

section \<open>\<open>Fields\<close> and \<open>EqualFold\<close>\<close>

text \<open>\<open>strings.Fields\<close> of a text whose only white space is blanks.\<close>

definition fields_of :: "string \<Rightarrow> string list" where
  "fields_of s = filter (\<lambda>w. w \<noteq> []) (split_on (CHR '' '') s)"

text \<open>
  \<open>strings.EqualFold\<close> against a name of ASCII characters: the other side may also spell a k as
  the Kelvin sign and an s as the long s, the two runes outside ASCII that fold to ASCII letters.
\<close>

fun fold_ascii :: "string \<Rightarrow> string" where
  "fold_ascii [] = []"
| "fold_ascii (a # s) =
     (case s of
        b # t \<Rightarrow>
          if byte a = 197 \<and> byte b = 191 then CHR ''s'' # fold_ascii t
          else (case t of
                  c # u \<Rightarrow> if byte a = 226 \<and> byte b = 132 \<and> byte c = 170 then CHR ''k'' # fold_ascii u
                            else lower_char a # fold_ascii s
                | [] \<Rightarrow> lower_char a # fold_ascii s)
      | [] \<Rightarrow> [lower_char a])"

definition ascii_text :: "string \<Rightarrow> bool" where
  "ascii_text s \<longleftrightarrow> list_all (\<lambda>c. byte c < 128) s"

definition equal_fold :: "string \<Rightarrow> string \<Rightarrow> bool" where
  "equal_fold s t \<longleftrightarrow> fold_ascii s = fold_ascii t"

lemma fold_ascii_Cons: "byte a < 128 \<Longrightarrow> fold_ascii (a # s) = lower_char a # fold_ascii s"
  by (simp split: list.split)

lemma fold_ascii_ascii [simp]: "ascii_text s \<Longrightarrow> fold_ascii s = map lower_char s"
proof (induction s)
  case (Cons a s)
  then show ?case using fold_ascii_Cons [of a s] by (simp add: ascii_text_def del: fold_ascii.simps(2))
qed simp

lemma equal_fold_refl [simp]: "equal_fold s s"
  by (simp add: equal_fold_def)

lemma equal_fold_sym: "equal_fold s t \<Longrightarrow> equal_fold t s"
  by (simp add: equal_fold_def)

section \<open>\<open>sort.Strings\<close>\<close>

text \<open>Go orders strings by their bytes, which is the order of \<open>HOL-Library.List_Lexorder\<close> on \<open>char\<close>.\<close>

lemma sort_distinct_strict:
  fixes xs :: "'a :: linorder list"
  assumes "sorted xs" "distinct xs" "sorted ys" "distinct ys" "set xs = set ys"
  shows "xs = ys"
  by (rule sorted_distinct_set_unique [OF assms(1,2) assms(3,4,5)])

end
