(* ===== verification/Image_Ref.thy ===== *)
theory Image_Ref
  imports Go_Scan
begin

text \<open>
  Container image references (\<open>internal/daemon/imageref.go\<close>): what a reference means, which are
  refused, how one is written back, and when a pulled image belongs to a reference's repository.
\<close>

record imageReference =
  ir_Registry :: string
  ir_Repository :: string
  ir_Tag :: string
  ir_Digest :: string

datatype ref_error =
    EmptyReference
  | InvalidReference string
  | InvalidDigest string
  | InvalidHost string
  | MissingRepository string
  | InvalidRepository string
  | InvalidTag string
  | NoDigest string
  | InvalidNameDigest string

definition dockerHubRegistry :: string where "dockerHubRegistry = ''docker.io''"
definition dockerHubAPIHost :: string where "dockerHubAPIHost = ''registry-1.docker.io''"

section \<open>The regular expressions\<close>

definition low_num :: "char \<Rightarrow> bool" where
  "low_num c \<longleftrightarrow> is_lower c \<or> is_digit c"

text \<open>
  One component of \<open>imageRepositoryPattern\<close>, as the automaton of
  \<open>[a-z0-9]+(?:(?:[._]|__|[-]+)[a-z0-9]+)*\<close>; the pattern itself is such components between slashes.
\<close>

datatype comp_state = Need | InRun | OneUnder | Dashes

definition comp_step :: "comp_state \<Rightarrow> char \<Rightarrow> comp_state option" where
  "comp_step st c =
     (if low_num c then Some InRun
      else case st of
        Need \<Rightarrow> None
      | InRun \<Rightarrow> if c = CHR ''.'' then Some Need else if c = CHR ''_'' then Some OneUnder
                else if c = CHR ''-'' then Some Dashes else None
      | OneUnder \<Rightarrow> if c = CHR ''_'' then Some Need else None
      | Dashes \<Rightarrow> if c = CHR ''-'' then Some Dashes else None)"

fun comp_from :: "comp_state \<Rightarrow> string \<Rightarrow> bool" where
  "comp_from st [] = (st = InRun)"
| "comp_from st (c # cs) = (case comp_step st c of None \<Rightarrow> False | Some st' \<Rightarrow> comp_from st' cs)"

definition imageRepositoryPattern :: "string \<Rightarrow> bool" where
  "imageRepositoryPattern s = list_all (comp_from Need) (split_on slash s)"

definition tag_head :: "char \<Rightarrow> bool" where
  "tag_head c \<longleftrightarrow> is_alnum c \<or> c = CHR ''_''"

definition tag_rest :: "char \<Rightarrow> bool" where
  "tag_rest c \<longleftrightarrow> tag_head c \<or> c = CHR ''.'' \<or> c = CHR ''-''"

definition imageTagPattern :: "string \<Rightarrow> bool" where
  "imageTagPattern = re_head_rest tag_head tag_rest 127"

definition low_hex :: "char \<Rightarrow> bool" where
  "low_hex c \<longleftrightarrow> is_digit c \<or> 97 \<le> byte c \<and> byte c \<le> 102"

definition imageDigestPattern :: "string \<Rightarrow> bool" where
  "imageDigestPattern s =
     (case cut_first (CHR '':'') s of
        None \<Rightarrow> False
      | Some (a, d) \<Rightarrow> a \<noteq> [] \<and> list_all low_num a \<and> list_all low_hex d \<and> 32 \<le> length d)"

definition host_rest :: "char \<Rightarrow> bool" where
  "host_rest c \<longleftrightarrow> is_alnum c \<or> c = CHR ''.'' \<or> c = CHR '':'' \<or> c = CHR ''-''"

definition registryHostPattern :: "string \<Rightarrow> bool" where
  "registryHostPattern s = (case s of [] \<Rightarrow> False | c # cs \<Rightarrow> is_alnum c \<and> list_all host_rest cs)"

section \<open>References\<close>

definition host_like :: "string \<Rightarrow> bool" where
  "host_like first \<longleftrightarrow> contains_any first ''.:'' \<or> first = ''localhost''"

text \<open>The digest after the first at-sign, the registry before the first slash, the tag after the last colon.\<close>

definition ref_digest :: "string \<Rightarrow> ref_error + string \<times> string" where
  "ref_digest name =
     (case cut_first (CHR ''@'') name of
        None \<Rightarrow> Inr (name, [])
      | Some (n, d) \<Rightarrow> if imageDigestPattern d then Inr (n, d) else Inl (InvalidDigest d))"

definition ref_registry :: "string \<Rightarrow> ref_error + string \<times> string" where
  "ref_registry name =
     (case cut_first slash name of
        None \<Rightarrow> Inr ([], name)
      | Some (first, rest) \<Rightarrow>
          if \<not> host_like first then Inr ([], name)
          else if registryHostPattern first then Inr (first, rest)
          else Inl (InvalidHost first))"

definition ref_tag :: "string \<Rightarrow> string \<times> string" where
  "ref_tag name = (case cut_last (CHR '':'') name of None \<Rightarrow> (name, []) | Some (n, t) \<Rightarrow> (n, t))"

definition ref_hub :: "string \<Rightarrow> string \<Rightarrow> string \<times> string" where
  "ref_hub registry name =
     (if registry = [] \<or> registry = dockerHubRegistry \<or> registry = ''index.docker.io''
      then (dockerHubRegistry, if slash \<in> set name then name else ''library/'' @ name)
      else (registry, name))"

definition ref_finish :: "string \<Rightarrow> string \<Rightarrow> string \<Rightarrow> string \<Rightarrow> ref_error + imageReference" where
  "ref_finish registry name tag digest =
     (if \<not> imageRepositoryPattern name then Inl (InvalidRepository name)
      else if tag \<noteq> [] \<and> \<not> imageTagPattern tag then Inl (InvalidTag tag)
      else Inr \<lparr>ir_Registry = registry, ir_Repository = name,
                ir_Tag = (if tag = [] \<and> digest = [] then ''latest'' else tag), ir_Digest = digest\<rparr>)"

definition parseImageReference :: "string \<Rightarrow> ref_error + imageReference" where
  "parseImageReference s =
     (let raw = trim_space s in
      if raw = [] then Inl EmptyReference
      else if has_prefix ''-'' raw then Inl (InvalidReference raw)
      else rbind (ref_digest raw) (\<lambda>(name, digest).
        rbind (ref_registry name) (\<lambda>(registry, rest).
          let (n, tag) = ref_tag rest in
          if n = [] then Inl (MissingRepository raw)
          else let (registry', repository) = ref_hub registry n in ref_finish registry' repository tag digest)))"

definition Pinned :: "imageReference \<Rightarrow> bool" where
  "Pinned r \<longleftrightarrow> ir_Digest r \<noteq> []"

definition APIHost :: "imageReference \<Rightarrow> string" where
  "APIHost r =
     (if ir_Registry r = dockerHubRegistry \<or> ir_Registry r = ''index.docker.io'' then dockerHubAPIHost else ir_Registry r)"

definition ref_String :: "imageReference \<Rightarrow> string" where
  "ref_String r =
     ir_Registry r @ ''/'' @ ir_Repository r @ (if ir_Digest r \<noteq> [] then ''@'' @ ir_Digest r else '':'' @ ir_Tag r)"

section \<open>Names of pulled images\<close>

record imageName =
  in_Registry :: string
  in_Repository :: string
  in_Digest :: string

definition name_hub :: "string \<Rightarrow> string \<times> string" where
  "name_hub name =
     (case cut_first slash name of
        None \<Rightarrow> (dockerHubRegistry, name)
      | Some (first, rest) \<Rightarrow> if host_like first then (first, rest) else (dockerHubRegistry, name))"

definition parseImageNameDigest :: "string \<Rightarrow> ref_error + imageName" where
  "parseImageNameDigest s =
     (let raw = trim_space s in
      case cut_last (CHR ''@'') raw of
        None \<Rightarrow> Inl (NoDigest raw)
      | Some (name, digest) \<Rightarrow>
          if name = [] then Inl (NoDigest raw)
          else if \<not> imageDigestPattern digest then Inl (InvalidNameDigest raw)
          else let (registry, repository) = name_hub name;
                   registry' = (if registry = ''index.docker.io'' then dockerHubRegistry else registry) in
            Inr \<lparr>in_Registry = registry',
                 in_Repository = (if registry' = dockerHubRegistry \<and> slash \<notin> set repository
                                  then ''library/'' @ repository else repository),
                 in_Digest = digest\<rparr>)"

definition sameRepository :: "imageName \<Rightarrow> imageReference \<Rightarrow> bool" where
  "sameRepository n ref \<longleftrightarrow> in_Registry n = ir_Registry ref \<and> in_Repository n = ir_Repository ref"

end
