(* ===== verification/Image_Ref_Facts.thy ===== *)
theory Image_Ref_Facts
  imports Image_Ref
begin

text \<open>
  What an accepted reference looks like, that writing one back and parsing it again changes
  nothing, and that the automaton for a repository component is the grammar of the pattern.
\<close>

section \<open>The repository grammar\<close>

definition run :: "string \<Rightarrow> bool" where
  "run w \<longleftrightarrow> w \<noteq> [] \<and> list_all low_num w"

definition sep :: "string \<Rightarrow> bool" where
  "sep s \<longleftrightarrow> s = ''.'' \<or> s = ''_'' \<or> s = ''__'' \<or> s \<noteq> [] \<and> list_all (\<lambda>c. c = CHR ''-'') s"

inductive component :: "string \<Rightarrow> bool" where
  one: "run w \<Longrightarrow> component w"
| more: "component u \<Longrightarrow> sep s \<Longrightarrow> run w \<Longrightarrow> component (u @ s @ w)"

fun comp_run :: "comp_state \<Rightarrow> string \<Rightarrow> comp_state option" where
  "comp_run st [] = Some st"
| "comp_run st (c # cs) = (case comp_step st c of None \<Rightarrow> None | Some st' \<Rightarrow> comp_run st' cs)"

lemma comp_from_run: "comp_from st s \<longleftrightarrow> comp_run st s = Some InRun"
  by (induction st s rule: comp_run.induct) (auto split: option.splits)

lemma comp_run_append: "comp_run st (u @ v) = (case comp_run st u of None \<Rightarrow> None | Some st' \<Rightarrow> comp_run st' v)"
  by (induction st u rule: comp_run.induct) (auto split: option.splits)

lemma not_low_num [simp]: "\<not> low_num CHR ''.''" "\<not> low_num CHR ''_''" "\<not> low_num CHR ''-''" "\<not> low_num slash"
  by (simp_all add: low_num_def is_lower_def is_digit_def)

lemma comp_step_low [simp]: "low_num c \<Longrightarrow> comp_step st c = Some InRun"
  by (simp add: comp_step_def)

lemma comp_run_low: "list_all low_num w \<Longrightarrow> comp_run InRun w = Some InRun"
  by (induction w) simp_all

lemma comp_run_run: "run w \<Longrightarrow> comp_run st w = Some InRun"
  by (cases w) (simp_all add: run_def comp_run_low)

lemma comp_run_dashes: "list_all (\<lambda>c. c = CHR ''-'') s \<Longrightarrow> comp_run Dashes s = Some Dashes"
  by (induction s) (auto simp: comp_step_def)

lemma comp_run_sep: "sep s \<Longrightarrow> \<exists>st. comp_run InRun s = Some st"
proof -
  assume "sep s"
  then consider "s = ''.''" | "s = ''_''" | "s = ''__''" | "s \<noteq> []" "list_all (\<lambda>c. c = CHR ''-'') s"
    unfolding sep_def by blast
  then show ?thesis
  proof cases
    case 4
    then obtain t where "s = CHR ''-'' # t" "list_all (\<lambda>c. c = CHR ''-'') t" by (cases s) auto
    then show ?thesis using comp_run_dashes by (simp add: comp_step_def)
  qed (simp_all add: comp_step_def)
qed

text \<open>What has been read of a component in each state of the automaton.\<close>

definition read_in :: "comp_state \<Rightarrow> string \<Rightarrow> bool" where
  "read_in st u \<longleftrightarrow> (case st of
     InRun \<Rightarrow> component u
   | Need \<Rightarrow> u = [] \<or> (\<exists>v s. component v \<and> sep s \<and> u = v @ s)
   | OneUnder \<Rightarrow> \<exists>v. component v \<and> u = v @ ''_''
   | Dashes \<Rightarrow> \<exists>v s. component v \<and> s \<noteq> [] \<and> list_all (\<lambda>c. c = CHR ''-'') s \<and> u = v @ s)"

lemma component_snoc: "component u \<Longrightarrow> low_num c \<Longrightarrow> component (u @ [c])"
proof (induction rule: component.induct)
  case (one w)
  then show ?case by (intro component.one) (simp add: run_def)
next
  case (more u s w)
  then have "run (w @ [c])" by (simp add: run_def)
  then show ?case using component.more [OF more.hyps(1,2), of "w @ [c]"] by simp
qed

lemma run_one: "low_num c \<Longrightarrow> run [c]"
  by (simp add: run_def)

lemma read_low: "read_in st u \<Longrightarrow> low_num c \<Longrightarrow> component (u @ [c])"
proof (cases st)
  case Need
  then show "read_in st u \<Longrightarrow> low_num c \<Longrightarrow> ?thesis"
    using component.one component.more run_one by (fastforce simp: read_in_def)
next
  case OneUnder
  then show "read_in st u \<Longrightarrow> low_num c \<Longrightarrow> ?thesis"
    using component.more [of _ "''_''" "[c]"] run_one by (auto simp: read_in_def sep_def)
next
  case Dashes
  then show "read_in st u \<Longrightarrow> low_num c \<Longrightarrow> ?thesis"
    using component.more [of _ _ "[c]"] run_one by (fastforce simp: read_in_def sep_def)
qed (simp add: read_in_def component_snoc)

lemma read_step: "read_in st u \<Longrightarrow> comp_step st c = Some st' \<Longrightarrow> read_in st' (u @ [c])"
proof (cases "low_num c")
  case True
  then show "read_in st u \<Longrightarrow> comp_step st c = Some st' \<Longrightarrow> ?thesis" using read_low by (auto simp: read_in_def)
next
  case False
  assume r: "read_in st u" "comp_step st c = Some st'"
  show ?thesis
  proof (cases st)
    case InRun
    then consider "c = CHR ''.''" "st' = Need" | "c = CHR ''_''" "st' = OneUnder" | "c = CHR ''-''" "st' = Dashes"
      using r(2) False by (auto simp: comp_step_def split: if_splits)
    then show ?thesis using r(1) InRun
      by cases (force simp: read_in_def sep_def)+
  next
    case Dashes
    then have "c = CHR ''-''" "st' = Dashes" using r(2) False by (auto simp: comp_step_def split: if_splits)
    then show ?thesis using r(1) Dashes by (force simp: read_in_def)
  next
    case OneUnder
    then have "c = CHR ''_''" "st' = Need" using r(2) False by (auto simp: comp_step_def split: if_splits)
    then show ?thesis using r(1) OneUnder by (force simp: read_in_def sep_def)
  qed (use r(2) False in \<open>simp add: comp_step_def\<close>)
qed

lemma read_run: "read_in st u \<Longrightarrow> comp_run st v = Some st' \<Longrightarrow> read_in st' (u @ v)"
proof (induction v arbitrary: st u)
  case (Cons c v)
  then obtain m where m: "comp_step st c = Some m" "comp_run m v = Some st'" by (auto split: option.splits)
  then show ?case using Cons.IH [OF read_step [OF Cons.prems(1) m(1)]] by simp
qed simp

lemma component_iff: "comp_from Need s \<longleftrightarrow> component s"
proof
  assume "comp_from Need s"
  then show "component s" using read_run [of Need "[]" s InRun] by (simp add: comp_from_run read_in_def)
next
  assume "component s"
  then show "comp_from Need s" unfolding comp_from_run
  proof induction
    case (more u s w)
    then show ?case using comp_run_sep [of s] by (auto simp: comp_run_append comp_run_run)
  qed (rule comp_run_run)
qed

section \<open>Characters\<close>

definition ref_char :: "char \<Rightarrow> bool" where
  "ref_char c \<longleftrightarrow> is_alnum c \<or> c \<in> set ''._-''"

lemma ref_char_graphic: "ref_char c \<Longrightarrow> 32 < byte c \<and> byte c < 128 \<and> c \<noteq> CHR ''@'' \<and> c \<noteq> CHR '':'' \<and> c \<noteq> slash"
  by (auto simp: ref_char_def is_alnum_def is_digit_def is_upper_def is_lower_def)

lemma low_num_ref: "low_num c \<Longrightarrow> ref_char c"
  by (auto simp: low_num_def ref_char_def is_alnum_def)

lemma comp_from_chars: "comp_from st s \<Longrightarrow> list_all ref_char s"
proof (induction st s rule: comp_from.induct)
  case (2 st c cs)
  then obtain st' where st': "comp_step st c = Some st'" "comp_from st' cs" by (auto split: option.splits)
  have "ref_char c"
  proof (cases "low_num c")
    case False
    then have "c = CHR ''.'' \<or> c = CHR ''_'' \<or> c = CHR ''-''"
      using st'(1) by (auto simp: comp_step_def split: if_splits comp_state.splits)
    then show ?thesis by (auto simp: ref_char_def)
  qed (rule low_num_ref)
  then show ?case using "2.IH" [OF st'] by simp
qed simp

lemma comp_from_Need: "comp_from Need s \<Longrightarrow> s \<noteq> [] \<and> low_num (hd s)"
  by (cases s) (auto simp: comp_step_def split: if_splits option.splits)

lemma repository_chars:
  assumes "imageRepositoryPattern s"
  shows "s \<noteq> []" "low_num (hd s)" "list_all (\<lambda>c. ref_char c \<or> c = slash) s"
proof -
  have all: "\<And>p. p \<in> set (split_on slash s) \<Longrightarrow> comp_from Need p"
    using assms by (simp add: imageRepositoryPattern_def list_all_iff)
  have first: "hd (split_on slash s) \<in> set (split_on slash s)" by simp
  have h: "hd (split_on slash s) \<noteq> []" "low_num (hd (hd (split_on slash s)))"
    using comp_from_Need [OF all [OF first]] by auto
  then show s: "s \<noteq> []" by auto
  then have "hd s = hd (hd (split_on slash s))" using h by (cases s) (auto split: if_splits list.splits)
  then show "low_num (hd s)" using h(2) by simp
  have "set s \<subseteq> set [slash] \<union> \<Union> (set ` set (split_on slash s))"
    using set_join_with [of "[slash]" "split_on slash s"] by simp
  moreover have "ref_char c" if "p \<in> set (split_on slash s)" "c \<in> set p" for p c
    using comp_from_chars [OF all [OF that(1)]] that(2) by (simp add: list_all_iff)
  ultimately show "list_all (\<lambda>c. ref_char c \<or> c = slash) s" by (auto simp: list_all_iff)
qed

lemma host_rest_chars: "host_rest c \<Longrightarrow> ref_char c \<or> c = CHR '':''"
  by (auto simp: host_rest_def ref_char_def)

lemma registry_chars:
  assumes "registryHostPattern s"
  shows "s \<noteq> []" "is_alnum (hd s)" "list_all (\<lambda>c. ref_char c \<or> c = CHR '':'') s"
  using assms host_rest_chars by (auto simp: registryHostPattern_def list_all_iff ref_char_def split: list.splits)

lemma tag_chars:
  assumes "imageTagPattern s"
  shows "list_all ref_char s" "s \<noteq> []"
proof -
  show "s \<noteq> []" using re_head_rest_props(1) assms unfolding imageTagPattern_def by blast
  have "ref_char c" if "c \<in> set s" for c
    using re_head_rest_props(3) [of tag_head tag_rest 127 s] assms that
    unfolding imageTagPattern_def tag_rest_def tag_head_def ref_char_def by auto
  then show "list_all ref_char s" by (simp add: list_all_iff)
qed

lemma low_hex_ref: "low_hex c \<Longrightarrow> ref_char c"
  by (auto simp: low_hex_def ref_char_def is_alnum_def is_lower_def)

lemma digest_chars:
  assumes "imageDigestPattern s"
  shows "list_all (\<lambda>c. ref_char c \<or> c = CHR '':'') s" "s \<noteq> []"
proof -
  obtain a d where "s = a @ CHR '':'' # d" "list_all low_num a" "list_all low_hex d"
    using assms by (auto simp: imageDigestPattern_def cut_first_Some split: option.splits)
  then show "list_all (\<lambda>c. ref_char c \<or> c = CHR '':'') s" "s \<noteq> []"
    using low_num_ref low_hex_ref by (auto simp: list_all_iff)
qed

text \<open>The text of a reference is graphic, so trimming it changes nothing.\<close>

definition ref_text :: "string \<Rightarrow> bool" where
  "ref_text s \<longleftrightarrow> list_all (\<lambda>c. ref_char c \<or> c = CHR '':'' \<or> c = slash \<or> c = CHR ''@'') s"

lemma ref_text_simps [simp]:
  "ref_text []" "ref_text (c # s) \<longleftrightarrow> (ref_char c \<or> c = CHR '':'' \<or> c = slash \<or> c = CHR ''@'') \<and> ref_text s"
  "ref_text (s @ t) \<longleftrightarrow> ref_text s \<and> ref_text t"
  by (simp_all add: ref_text_def)

lemma ref_texts:
  "list_all ref_char s \<Longrightarrow> ref_text s"
  "list_all (\<lambda>c. ref_char c \<or> c = CHR '':'') s \<Longrightarrow> ref_text s"
  "list_all (\<lambda>c. ref_char c \<or> c = slash) s \<Longrightarrow> ref_text s"
  unfolding ref_text_def by (rule list.pred_mono_strong, assumption, blast)+

lemma ref_text_trim:
  assumes "ref_text s"
  shows "trim_space s = s"
proof (rule trim_space_all_graphic, rule ballI)
  fix c
  assume "c \<in> set s"
  then consider "ref_char c" | "c = CHR '':''" | "c = slash" | "c = CHR ''@''" using assms by (auto simp: ref_text_def list_all_iff)
  then show "32 < byte c \<and> byte c < 128" using ref_char_graphic by cases auto
qed

section \<open>Accepted references\<close>

definition ref_wf :: "imageReference \<Rightarrow> bool" where
  "ref_wf r \<longleftrightarrow>
     registryHostPattern (ir_Registry r) \<and> host_like (ir_Registry r) \<and> ir_Registry r \<noteq> ''index.docker.io'' \<and>
     imageRepositoryPattern (ir_Repository r) \<and>
     (ir_Registry r = dockerHubRegistry \<longrightarrow> slash \<in> set (ir_Repository r)) \<and>
     (ir_Tag r = [] \<or> imageTagPattern (ir_Tag r)) \<and> (ir_Digest r = [] \<or> imageDigestPattern (ir_Digest r)) \<and>
     (ir_Tag r \<noteq> [] \<or> ir_Digest r \<noteq> [])"

lemma hub_wf: "registryHostPattern dockerHubRegistry" "host_like dockerHubRegistry"
  by code_simp+

lemma latest_tag: "imageTagPattern ''latest''"
  by code_simp

lemma parse_cases:
  assumes "parseImageReference s = Inr r"
  obtains name digest registry rest where "ref_digest (trim_space s) = Inr (name, digest)"
    "ref_registry name = Inr (registry, rest)" "fst (ref_tag rest) \<noteq> []"
    "ref_finish (fst (ref_hub registry (fst (ref_tag rest)))) (snd (ref_hub registry (fst (ref_tag rest))))
      (snd (ref_tag rest)) digest = Inr r"
proof -
  have "rbind (ref_digest (trim_space s)) (\<lambda>(name, digest).
        rbind (ref_registry name) (\<lambda>(registry, rest).
          if fst (ref_tag rest) = [] then Inl (MissingRepository (trim_space s))
          else ref_finish (fst (ref_hub registry (fst (ref_tag rest)))) (snd (ref_hub registry (fst (ref_tag rest))))
            (snd (ref_tag rest)) digest)) = Inr r"
    using assms unfolding parseImageReference_def Let_def case_prod_beta
    by (simp add: case_prod_beta del: rbind_eq_Inr split: if_split_asm)
  then obtain name digest where d: "ref_digest (trim_space s) = Inr (name, digest)"
    and "rbind (ref_registry name) (\<lambda>(registry, rest).
          if fst (ref_tag rest) = [] then Inl (MissingRepository (trim_space s))
          else ref_finish (fst (ref_hub registry (fst (ref_tag rest)))) (snd (ref_hub registry (fst (ref_tag rest))))
            (snd (ref_tag rest)) digest) = Inr r"
    by (cases "ref_digest (trim_space s)") auto
  then obtain registry rest where "ref_registry name = Inr (registry, rest)" "fst (ref_tag rest) \<noteq> []"
    "ref_finish (fst (ref_hub registry (fst (ref_tag rest)))) (snd (ref_hub registry (fst (ref_tag rest))))
            (snd (ref_tag rest)) digest = Inr r"
    by (cases "ref_registry name") (auto split: if_split_asm)
  then show thesis using that d by blast
qed

lemma finish_wf:
  assumes "ref_finish reg repo tag digest = Inr r" "registryHostPattern reg" "host_like reg" "reg \<noteq> ''index.docker.io''"
    and "reg = dockerHubRegistry \<longrightarrow> slash \<in> set repo" "digest = [] \<or> imageDigestPattern digest"
  shows "ref_wf r"
proof -
  have c: "imageRepositoryPattern repo" "tag = [] \<or> imageTagPattern tag"
    "r = \<lparr>ir_Registry = reg, ir_Repository = repo, ir_Tag = (if tag = [] \<and> digest = [] then ''latest'' else tag), ir_Digest = digest\<rparr>"
    using assms(1) unfolding ref_finish_def by (auto split: if_split_asm)
  show ?thesis using c(1,2) assms(2-6) latest_tag unfolding c(3) ref_wf_def by simp
qed

lemma parse_wf:
  assumes "parseImageReference s = Inr r"
  shows "ref_wf r"
proof -
  obtain name digest registry rest where p: "ref_digest (trim_space s) = Inr (name, digest)"
    "ref_registry name = Inr (registry, rest)" "fst (ref_tag rest) \<noteq> []"
    and f: "ref_finish (fst (ref_hub registry (fst (ref_tag rest)))) (snd (ref_hub registry (fst (ref_tag rest))))
      (snd (ref_tag rest)) digest = Inr r"
    by (rule parse_cases [OF assms])
  have d: "digest = [] \<or> imageDigestPattern digest"
    using p(1) by (auto simp: ref_digest_def split: option.splits if_splits)
  have g: "registry = [] \<or> registryHostPattern registry \<and> host_like registry"
    using p(2) by (auto simp: ref_registry_def split: option.splits if_splits)
  have h: "registryHostPattern reg \<and> host_like reg \<and> reg \<noteq> ''index.docker.io'' \<and>
      (reg = dockerHubRegistry \<longrightarrow> slash \<in> set repo)" if "ref_hub registry n = (reg, repo)" for reg repo n
    using that g hub_wf by (auto simp: ref_hub_def dockerHubRegistry_def split: if_splits)
  obtain reg repo where hub: "ref_hub registry (fst (ref_tag rest)) = (reg, repo)" by (rule prod.exhaust)
  show ?thesis using finish_wf [of reg repo _ digest r] f h [OF hub] d unfolding hub by simp
qed

lemma cut_registry:
  assumes "registryHostPattern g" "host_like g" "CHR ''@'' \<notin> set rest"
  shows "ref_registry (g @ ''/'' @ rest) = Inr (g, rest)"
proof -
  have "slash \<notin> set g" using registry_chars(3) [OF assms(1)] ref_char_graphic by (auto simp: list_all_iff)
  then show ?thesis using assms by (simp add: ref_registry_def)
qed

lemma parse_back:
  assumes "ref_wf r"
  shows "parseImageReference (ref_String r) = Inr (r\<lparr>ir_Tag := if Pinned r then [] else ir_Tag r\<rparr>)"
proof -
  let ?g = "ir_Registry r" and ?n = "ir_Repository r" and ?t = "ir_Tag r" and ?d = "ir_Digest r"
  have w: "registryHostPattern ?g" "host_like ?g" "?g \<noteq> ''index.docker.io''" "imageRepositoryPattern ?n"
    "?g = dockerHubRegistry \<longrightarrow> slash \<in> set ?n" "?t = [] \<or> imageTagPattern ?t" "?d = [] \<or> imageDigestPattern ?d"
    "?t \<noteq> [] \<or> ?d \<noteq> []" using assms by (simp_all add: ref_wf_def)
  define tail where "tail = (if ?d \<noteq> [] then ''@'' @ ?d else '':'' @ ?t)"
  have str: "ref_String r = ?g @ ''/'' @ ?n @ tail" by (simp add: ref_String_def tail_def)
  have g: "?g \<noteq> []" "is_alnum (hd ?g)" "list_all (\<lambda>c. ref_char c \<or> c = CHR '':'') ?g" by (rule registry_chars [OF w(1)])+
  have n: "?n \<noteq> []" "list_all (\<lambda>c. ref_char c \<or> c = slash) ?n" using repository_chars [OF w(4)] by auto
  have t: "?t \<noteq> [] \<Longrightarrow> list_all ref_char ?t" using w(6) tag_chars by blast
  have d: "?d \<noteq> [] \<Longrightarrow> list_all (\<lambda>c. ref_char c \<or> c = CHR '':'') ?d" using w(7) digest_chars by blast
  have "ref_text tail" using ref_texts(1,2) t d w(8) unfolding tail_def by (cases "?d = []") simp_all
  then have trim: "trim_space (ref_String r) = ref_String r"
    using ref_texts(2) [OF g(3)] ref_texts(3) [OF n(2)] unfolding str by (intro ref_text_trim) simp
  obtain x xs where x: "?g = x # xs" using g(1) by (cases ?g) simp_all
  have "\<not> is_alnum CHR ''-''" by code_simp
  then have "x \<noteq> CHR ''-''" using g(2) unfolding x by auto
  then have start: "ref_String r \<noteq> []" "\<not> has_prefix ''-'' (ref_String r)"
    unfolding str x by (simp_all add: has_prefix_def)
  have at: "CHR ''@'' \<notin> set ?g" "CHR ''@'' \<notin> set ?n" "CHR '':'' \<notin> set ?n" "?t \<noteq> [] \<Longrightarrow> CHR ''@'' \<notin> set ?t \<and> CHR '':'' \<notin> set ?t"
    using g(3) n(2) t ref_char_graphic by (auto simp: list_all_iff)
  show ?thesis
  proof (cases "?d = []")
    case True
    have dig: "ref_digest (ref_String r) = Inr (?g @ ''/'' @ ?n @ '':'' @ ?t, [])"
      using True at w(8) unfolding str tail_def ref_digest_def by (auto simp: cut_first_def)
    have reg: "ref_registry (?g @ ''/'' @ ?n @ '':'' @ ?t) = Inr (?g, ?n @ '':'' @ ?t)"
      using cut_registry [OF w(1,2)] at w(8) True by simp
    have tg: "ref_tag (?n @ '':'' @ ?t) = (?n, ?t)" using at(4) w(8) True by (simp add: ref_tag_def)
    have hub: "ref_hub ?g ?n = (?g, ?n)" using g(1) w(3,5) by (auto simp: ref_hub_def)
    show ?thesis
      using trim start dig reg tg hub n(1) w(4,6,8) True
      by (simp add: parseImageReference_def Let_def ref_finish_def Pinned_def)
  next
    case False
    have dig: "ref_digest (ref_String r) = Inr (?g @ ''/'' @ ?n, ?d)"
      using False at(1,2) w(7) cut_first_append [of "CHR ''@''" "?g @ ''/'' @ ?n" ?d]
      unfolding str tail_def ref_digest_def by simp
    have reg: "ref_registry (?g @ ''/'' @ ?n) = Inr (?g, ?n)" by (rule cut_registry [OF w(1,2) at(2)])
    have tg: "ref_tag ?n = (?n, [])" using at(3) cut_last_None [of "CHR '':''" ?n] by (simp add: ref_tag_def del: cut_last_None)
    have hub: "ref_hub ?g ?n = (?g, ?n)" using g(1) w(3,5) by (auto simp: ref_hub_def)
    show ?thesis
      using trim start dig reg tg hub n(1) w(4) False
      by (simp add: parseImageReference_def Let_def ref_finish_def Pinned_def)
  qed
qed

lemma name_back:
  assumes "ref_wf r" "Pinned r"
  shows "parseImageNameDigest (ref_String r) =
    Inr \<lparr>in_Registry = ir_Registry r, in_Repository = ir_Repository r, in_Digest = ir_Digest r\<rparr>"
proof -
  let ?g = "ir_Registry r" and ?n = "ir_Repository r" and ?d = "ir_Digest r"
  have w: "registryHostPattern ?g" "host_like ?g" "?g \<noteq> ''index.docker.io''" "imageRepositoryPattern ?n"
    "?g = dockerHubRegistry \<longrightarrow> slash \<in> set ?n" "imageDigestPattern ?d"
    using assms by (auto simp add: ref_wf_def Pinned_def)
  have str: "ref_String r = (?g @ ''/'' @ ?n) @ CHR ''@'' # ?d" using assms(2) by (simp add: ref_String_def Pinned_def)
  have c: "list_all (\<lambda>c. ref_char c \<or> c = CHR '':'') ?g" "list_all (\<lambda>c. ref_char c \<or> c = slash) ?n"
    "list_all (\<lambda>c. ref_char c \<or> c = CHR '':'') ?d"
    using registry_chars(3) [OF w(1)] repository_chars(3) [OF w(4)] digest_chars(1) [OF w(6)] by auto
  have trim: "trim_space (ref_String r) = ref_String r"
    using ref_texts(2) [OF c(1)] ref_texts(3) [OF c(2)] ref_texts(2) [OF c(3)] unfolding str by (intro ref_text_trim) simp
  have "CHR ''@'' \<notin> set ?d" using c(3) ref_char_graphic by (auto simp: list_all_iff)
  then have cut: "cut_last (CHR ''@'') (ref_String r) = Some (?g @ ''/'' @ ?n, ?d)" unfolding str by (rule cut_last_append)
  have "slash \<notin> set ?g" using c(1) ref_char_graphic by (auto simp: list_all_iff)
  then have "name_hub (?g @ ''/'' @ ?n) = (?g, ?n)" using w(2) by (simp add: name_hub_def)
  then show ?thesis using trim cut w(3,5,6) by (simp add: parseImageNameDigest_def Let_def)
qed

lemma ref_no_dash: "parseImageReference s = Inr r \<Longrightarrow> s \<noteq> [] \<and> \<not> has_prefix ''-'' s"
proof -
  assume p: "parseImageReference s = Inr r"
  have "parseImageReference s = Inl EmptyReference" if "trim_space s = []" using that by (simp add: parseImageReference_def)
  moreover have "\<exists>e. parseImageReference s = Inl e" if "has_prefix ''-'' (trim_space s)"
    using that by (simp add: parseImageReference_def Let_def)
  ultimately have ok: "trim_space s \<noteq> []" "\<not> has_prefix ''-'' (trim_space s)" using p by auto
  then have "\<not> has_prefix ''-'' s" using trim_keeps_dash by blast
  then show ?thesis using ok(1) by auto
qed

text \<open>C29: An accepted image reference written back as a string is accepted again as the same
  reference, except that a tag next to a digest is dropped; a pinned one, written back, names exactly
  its own repository and digest as a pulled image; and no accepted reference starts with a dash, so
  none reaches the runtime as an option.\<close>

theorem image_reference_roundtrip:
  assumes "parseImageReference s = Inr r"
  shows "parseImageReference (ref_String r) = Inr (r\<lparr>ir_Tag := if Pinned r then [] else ir_Tag r\<rparr>) \<and>
    (Pinned r \<longrightarrow> (\<exists>n. parseImageNameDigest (ref_String r) = Inr n \<and> sameRepository n r \<and> in_Digest n = ir_Digest r)) \<and>
    \<not> has_prefix ''-'' s \<and> slash \<in> set (ref_String r)"
  using parse_back [OF parse_wf [OF assms]] name_back [OF parse_wf [OF assms]] ref_no_dash [OF assms]
  by (auto simp: sameRepository_def ref_String_def)

theorem image_reference_roundtrip_witness:
  "parseImageReference ''docker.io/library/nginx:1.25'' =
     Inr \<lparr>ir_Registry = ''docker.io'', ir_Repository = ''library/nginx'', ir_Tag = ''1.25'', ir_Digest = []\<rparr> \<and>
   \<not> has_prefix ''-'' ''nginx:1.25''"
proof -
  have p: "parseImageReference ''nginx:1.25'' =
     Inr \<lparr>ir_Registry = ''docker.io'', ir_Repository = ''library/nginx'', ir_Tag = ''1.25'', ir_Digest = []\<rparr>"
    by code_simp
  show ?thesis using image_reference_roundtrip [OF p] by (simp add: ref_String_def Pinned_def)
qed

text \<open>A tag next to a digest is kept by the parser, and lost when the reference is written back.\<close>

lemma tag_beside_digest:
  "parseImageReference (''nginx:1.25@sha256:'' @ replicate 32 (CHR ''a'')) =
     Inr \<lparr>ir_Registry = ''docker.io'', ir_Repository = ''library/nginx'', ir_Tag = ''1.25'',
          ir_Digest = ''sha256:'' @ replicate 32 (CHR ''a'')\<rparr>"
  by code_simp

end
