(* ===== verification/Compose_Stacks.thy ===== *)
theory Compose_Stacks
  imports Go_Scan Webhook_Exec "HOL-Library.Product_Lexorder"
begin

text \<open>
  The registry of managed compose stacks (\<open>internal/daemon/compose_stacks.go\<close>, and its requests in
  \<open>compose_stacks_http.go\<close>): the scan that finds projects on disk, how its answer is folded into the
  registry, what is written to the registry file and read back, and where a request may scan.
  A Go map is an association list; where the code iterates one, its order is the list's.
\<close>

record composeStack =
  cs_Project :: string
  cs_Directory :: string
  cs_Files :: "string list"
  cs_Services :: "string list"
  cs_ScannedAt :: time

definition stack_key :: "composeStack \<Rightarrow> string" where
  "stack_key s = to_lower (cs_Project s)"

section \<open>The registry\<close>

text \<open>
  The map in memory and the registry file's content, none when it does not exist or cannot be read
  as a list of stacks. A registry without a path stays in memory. \<open>save_ok\<close> says whether the
  temporary file could be written and renamed: a save that fails leaves the old file.
\<close>

record stack_store =
  st_path :: string
  st_stacks :: "(string \<times> composeStack) list"
  st_file :: "composeStack list option"

definition loadable :: "composeStack \<Rightarrow> bool" where
  "loadable s \<longleftrightarrow> cs_Project s \<noteq> [] \<and> cs_Directory s \<noteq> []"

definition load_stacks :: "composeStack list \<Rightarrow> (string \<times> composeStack) list" where
  "load_stacks ss = foldl (\<lambda>m s. if loadable s then put (stack_key s) s m else m) [] ss"

definition newComposeStackStore :: "string \<Rightarrow> composeStack list option \<Rightarrow> stack_store" where
  "newComposeStackStore path file =
     \<lparr>st_path = path,
      st_stacks = (if path = [] then [] else case file of None \<Rightarrow> [] | Some ss \<Rightarrow> load_stacks ss),
      st_file = file\<rparr>"

definition listLocked :: "stack_store \<Rightarrow> composeStack list" where
  "listLocked st = sort_key cs_Project (map snd (st_stacks st))"

definition saveLocked :: "bool \<Rightarrow> stack_store \<Rightarrow> stack_store" where
  "saveLocked save_ok st =
     (if st_path st = [] \<or> \<not> save_ok then st else st\<lparr>st_file := Some (listLocked st)\<rparr>)"

definition stack_Get :: "stack_store \<Rightarrow> string \<Rightarrow> composeStack option" where
  "stack_Get st project = map_of (st_stacks st) (to_lower (trim_space project))"

definition stack_Remove :: "bool \<Rightarrow> stack_store \<Rightarrow> string \<Rightarrow> stack_store \<times> composeStack option" where
  "stack_Remove save_ok st project =
     (let key = to_lower (trim_space project) in
      case map_of (st_stacks st) key of
        None \<Rightarrow> (st, None)
      | Some s \<Rightarrow> (saveLocked save_ok (st\<lparr>st_stacks := del key (st_stacks st)\<rparr>), Some s))"

subsection \<open>\<open>Apply\<close>\<close>

text \<open>The first loop: every scanned stack is stored, and reported when it is new or has moved.\<close>

type_synonym apply_state = "(string \<times> composeStack) list \<times> composeStack list \<times> composeStack list"

definition apply_scanned :: "apply_state \<Rightarrow> composeStack \<Rightarrow> apply_state" where
  "apply_scanned s stack =
     (let (m, added, updated) = s in
      case map_of m (stack_key stack) of
        None \<Rightarrow> (put (stack_key stack) stack m, added @ [stack], updated)
      | Some old \<Rightarrow>
          (put (stack_key stack) stack m, added,
           if cs_Directory old \<noteq> cs_Directory stack \<or> cs_Services old \<noteq> cs_Services stack
           then updated @ [stack] else updated))"

text \<open>The second loop: a stack the scan did not name goes when its directory cannot be examined.\<close>

definition gone_stacks ::
  "(string \<Rightarrow> bool) \<Rightarrow> string set \<Rightarrow> (string \<times> composeStack) list \<Rightarrow> (string \<times> composeStack) list" where
  "gone_stacks stat_ok seen m = filter (\<lambda>(k, s). k \<notin> seen \<and> \<not> stat_ok (cs_Directory s)) m"

record apply_report =
  ar_added :: "composeStack list"
  ar_updated :: "composeStack list"
  ar_removed :: "composeStack list"

definition stack_Apply ::
  "bool \<Rightarrow> (string \<Rightarrow> bool) \<Rightarrow> stack_store \<Rightarrow> composeStack list \<Rightarrow> stack_store \<times> apply_report" where
  "stack_Apply save_ok stat_ok st scanned =
     (let (m, added, updated) = foldl apply_scanned (st_stacks st, [], []) scanned;
          gone = gone_stacks stat_ok (set (map stack_key scanned)) m;
          st' = st\<lparr>st_stacks := filter (\<lambda>(k, s). k \<notin> fst ` set gone) m\<rparr> in
      if added = [] \<and> updated = [] \<and> gone = [] then (st', \<lparr>ar_added = [], ar_updated = [], ar_removed = []\<rparr>)
      else (saveLocked save_ok st', \<lparr>ar_added = added, ar_updated = updated, ar_removed = map snd gone\<rparr>))"

section \<open>What a scan reads\<close>

record composeDocument =
  cd_Name :: string
  cd_Services :: "string list" \<comment> \<open>the keys of the services mapping\<close>

definition isComposeFileName :: "string \<Rightarrow> bool" where
  "isComposeFileName name \<longleftrightarrow> has_suffix ''.yml'' (to_lower name) \<or> has_suffix ''.yaml'' (to_lower name)"

definition path_base_name :: "string \<Rightarrow> string" where
  "path_base_name p =
     (if p = [] then ''.''
      else let cs = filter (\<lambda>c. c \<noteq> []) (split_on slash p) in if cs = [] then ''/'' else last cs)"

definition isComposeOverrideFile :: "string \<Rightarrow> bool" where
  "isComposeOverrideFile p =
     (let name = to_lower (path_base_name p) in
      contains ''.override.'' name \<or> has_suffix ''override.yml'' name \<or> has_suffix ''override.yaml'' name)"

definition orderComposeFiles :: "string list \<Rightarrow> string list" where
  "orderComposeFiles files = sort_key (\<lambda>f. (isComposeOverrideFile f, f)) files"

text \<open>
  \<open>dedupeSorted\<close> compacts the sorted slice in place: \<open>out\<close> shares the array \<open>values\<close> is read
  from, so every kept value is written over the array the next comparison reads.
\<close>

fun dedupe_loop :: "nat \<Rightarrow> string list \<Rightarrow> nat \<Rightarrow> nat \<Rightarrow> string list" where
  "dedupe_loop 0 a i j = take j a"
| "dedupe_loop (Suc k) a i j =
     (let value = a ! i in
      if i = 0 \<or> a ! (i - 1) \<noteq> value then dedupe_loop k (a[j := value]) (Suc i) (Suc j)
      else dedupe_loop k a (Suc i) j)"

definition dedupeSorted :: "string list \<Rightarrow> string list" where
  "dedupeSorted values = (let a = sort values in dedupe_loop (length a) a 0 0)"

subsection \<open>Building a project from its files\<close>

record composeStackBuilder =
  sb_stack :: composeStack
  sb_declared :: bool

definition new_builder :: "string \<Rightarrow> composeStackBuilder" where
  "new_builder directory =
     \<lparr>sb_stack = \<lparr>cs_Project = path_base_name directory, cs_Directory = directory, cs_Files = [], cs_Services = [],
                 cs_ScannedAt = 0\<rparr>, sb_declared = False\<rparr>"

definition recordComposeFile ::
  "(string \<times> composeStackBuilder) list \<Rightarrow> string \<Rightarrow> composeDocument \<Rightarrow> time \<Rightarrow> (string \<times> composeStackBuilder) list" where
  "recordComposeFile m p doc now =
     (let directory = path_dir p;
          b = (case map_of m directory of None \<Rightarrow> new_builder directory | Some b \<Rightarrow> b);
          name = trim_space (cd_Name doc);
          declare_name = (name \<noteq> [] \<and> \<not> sb_declared b);
          s = sb_stack b in
      put directory
        \<lparr>sb_stack = s\<lparr>cs_Project := (if declare_name then name else cs_Project s), cs_Files := cs_Files s @ [p],
                     cs_Services := cs_Services s @ cd_Services doc, cs_ScannedAt := now\<rparr>,
         sb_declared = (declare_name \<or> sb_declared b)\<rparr> m)"

subsection \<open>The walk\<close>

text \<open>
  A tree as \<open>filepath.WalkDir\<close> visits it: the entries of a directory in the order of their names.
  A file carries what \<open>readComposeDocument\<close> makes of it, none when it is too large, unreadable or
  no document; a directory that cannot be read has no list.
\<close>

datatype disk_entry =
    DiskFile string "composeDocument option"
  | DiskDir string "disk_entry list option"

record composeScanLimits =
  sl_depth :: int
  sl_maxFiles :: int

definition composeScanLimitsDefault :: composeScanLimits where
  "composeScanLimitsDefault = \<lparr>sl_depth = 3, sl_maxFiles = 400\<rparr>"

text \<open>
  The state of a scan: the projects by directory, the number of files read, the number of entries
  visited (the deadline is a predicate on it), and whether \<open>fs.SkipAll\<close> has ended the walk.
\<close>

record scan_state =
  ss_found :: "(string \<times> composeStackBuilder) list"
  ss_read :: nat
  ss_visited :: nat
  ss_stopped :: bool

record scan_env =
  se_cancelled :: "nat \<Rightarrow> bool"
  se_now :: time
  se_limits :: composeScanLimits

definition slashes :: "string \<Rightarrow> nat" where
  "slashes s = length (filter (\<lambda>c. c = slash) s)"

definition over :: "scan_env \<Rightarrow> scan_state \<Rightarrow> bool" where
  "over se s \<longleftrightarrow> se_cancelled se (ss_visited s) \<or> sl_maxFiles (se_limits se) \<le> int (ss_read s)"

definition visit_file :: "scan_env \<Rightarrow> string \<Rightarrow> string \<Rightarrow> composeDocument option \<Rightarrow> scan_state \<Rightarrow> scan_state" where
  "visit_file se p name doc s =
     (if \<not> isComposeFileName name then s
      else let s' = s\<lparr>ss_read := Suc (ss_read s)\<rparr> in
        case doc of
          None \<Rightarrow> s'
        | Some d \<Rightarrow> if cd_Services d = [] then s'
                    else s'\<lparr>ss_found := recordComposeFile (ss_found s) p d (se_now se)\<rparr>)"

definition visited :: "scan_state \<Rightarrow> scan_state" where
  "visited s = s\<lparr>ss_visited := Suc (ss_visited s)\<rparr>"

text \<open>
  One entry with path \<open>p\<close>; \<open>is_root\<close> marks the starting point. A hidden directory below it and one
  at the depth limit are skipped; a directory whose list cannot be read is visited all the same.
\<close>

fun walk_entry :: "scan_env \<Rightarrow> nat \<Rightarrow> bool \<Rightarrow> string \<Rightarrow> disk_entry \<Rightarrow> scan_state \<Rightarrow> scan_state"
  and walk_list :: "scan_env \<Rightarrow> nat \<Rightarrow> string \<Rightarrow> disk_entry list \<Rightarrow> scan_state \<Rightarrow> scan_state" where
  "walk_entry se rootDepth is_root p (DiskFile name doc) s =
     (if over se s then s\<lparr>ss_stopped := True\<rparr> else visit_file se p name doc (visited s))"
| "walk_entry se rootDepth is_root p (DiskDir name children) s =
     (if over se s then s\<lparr>ss_stopped := True\<rparr>
      else if \<not> is_root \<and> has_prefix ''.'' name then visited s
      else if sl_depth (se_limits se) \<le> int (slashes p) - int rootDepth then visited s
      else (case children of None \<Rightarrow> visited s | Some es \<Rightarrow> walk_list se rootDepth p es (visited s)))"
| "walk_list se rootDepth p [] s = s"
| "walk_list se rootDepth p (e # es) s =
     (let s' = walk_entry se rootDepth False (path_join p (case e of DiskFile n _ \<Rightarrow> n | DiskDir n _ \<Rightarrow> n)) e s in
      if ss_stopped s' then s' else walk_list se rootDepth p es s')"

definition scan_root :: "scan_env \<Rightarrow> scan_state \<Rightarrow> string \<times> disk_entry option \<Rightarrow> scan_state" where
  "scan_root se s r =
     (if over se s then s
      else case snd r of
        None \<Rightarrow> s
      | Some e \<Rightarrow> (walk_entry se (slashes (clean (fst r))) True (fst r) e s)\<lparr>ss_stopped := False\<rparr>)"

definition scan_limits :: "composeScanLimits \<Rightarrow> composeScanLimits" where
  "scan_limits l =
     \<lparr>sl_depth = (if sl_depth l \<le> 0 then sl_depth composeScanLimitsDefault else sl_depth l),
      sl_maxFiles = (if sl_maxFiles l \<le> 0 then sl_maxFiles composeScanLimitsDefault else sl_maxFiles l)\<rparr>"

definition finish_stack :: "composeStackBuilder \<Rightarrow> composeStack" where
  "finish_stack b =
     (sb_stack b)\<lparr>cs_Files := orderComposeFiles (cs_Files (sb_stack b)), cs_Services := dedupeSorted (cs_Services (sb_stack b))\<rparr>"

definition scan_walk :: "scan_env \<Rightarrow> (string \<times> disk_entry option) list \<Rightarrow> scan_state" where
  "scan_walk se roots = foldl (scan_root se) \<lparr>ss_found = [], ss_read = 0, ss_visited = 0, ss_stopped = False\<rparr> roots"

definition scanComposeStacks ::
  "(nat \<Rightarrow> bool) \<Rightarrow> time \<Rightarrow> composeScanLimits \<Rightarrow> (string \<times> disk_entry option) list \<Rightarrow> composeStack list" where
  "scanComposeStacks cancelled now limits roots =
     (let se = \<lparr>se_cancelled = cancelled, se_now = now, se_limits = scan_limits limits\<rparr> in
      sort_key (\<lambda>s. (cs_Project s, cs_Directory s)) (map (finish_stack \<circ> snd) (ss_found (scan_walk se roots))))"

section \<open>Where a request may scan\<close>

datatype scan_refusal =
    EmptyScanPath
  | NotAbsoluteScanPath string
  | UnusableScanPath string
  | PathAndRoots
  | TooManyRoots

definition validateComposeScanPath :: "string \<Rightarrow> scan_refusal + string" where
  "validateComposeScanPath v =
     (let value = trim_space v in
      if value = [] then Inl EmptyScanPath
      else if \<not> is_abs value then Inl (NotAbsoluteScanPath value)
      else if contains_any value [CHR 0x00, CHR 0x0A, CHR 0x0D] \<or> contains ''/../'' value then Inl (UnusableScanPath value)
      else if has_suffix ''/..'' (clean value) then Inl (UnusableScanPath value)
      else Inr (clean value))"

definition composeScanMaxRoots :: nat where "composeScanMaxRoots = 32"

definition composeDefaultScanRoots :: "string list" where
  "composeDefaultScanRoots = [''/opt'', ''/srv'', ''/root'', ''/home'', ''/etc/compose'', ''/var/lib/compose'']"

definition composeScanDefaults :: "string list \<Rightarrow> string list" where
  "composeScanDefaults configured = (if configured = [] then composeDefaultScanRoots else configured)"

record composeScanInput =
  si_Path :: string
  si_Roots :: "string list"
  si_Depth :: int

definition valid_root :: "string list \<Rightarrow> string \<Rightarrow> scan_refusal + string list" where
  "valid_root acc r = rbind (validateComposeScanPath r) (\<lambda>c. Inr (acc @ [c]))"

definition composeScanRoots :: "string list \<Rightarrow> composeScanInput \<Rightarrow> scan_refusal + string list" where
  "composeScanRoots configured i =
     (if trim_space (si_Path i) \<noteq> [] \<and> si_Roots i \<noteq> [] then Inl PathAndRoots
      else if trim_space (si_Path i) \<noteq> [] then rbind (validateComposeScanPath (si_Path i)) (\<lambda>p. Inr [p])
      else if si_Roots i \<noteq> [] then
        (if composeScanMaxRoots < length (si_Roots i) then Inl TooManyRoots else rfold valid_root [] (si_Roots i))
      else Inr (composeScanDefaults configured))"

definition request_limits :: "int \<Rightarrow> int \<Rightarrow> composeScanLimits" where
  "request_limits configured requested =
     (let d = (if 0 < requested then requested else if 0 < configured then configured else sl_depth composeScanLimitsDefault) in
      composeScanLimitsDefault\<lparr>sl_depth := (if 12 < d then 12 else d)\<rparr>)"

text \<open>The body of a scan request: read up to the limit, signed, decoded.\<close>

definition signedScanInput ::
  "(string \<Rightarrow> bytes \<Rightarrow> string) \<Rightarrow> (bytes \<Rightarrow> composeScanInput option) \<Rightarrow> string \<Rightarrow> int \<Rightarrow> bytes option \<Rightarrow> string
     \<Rightarrow> nat + composeScanInput" where
  "signedScanInput mac decode secret maxBody body signature =
     (case body of
        None \<Rightarrow> Inl 400
      | Some b \<Rightarrow>
          if maxBody < int (length b) then Inl 413
          else if \<not> signatureValid mac secret b signature then Inl 401
          else if b = [] then Inr \<lparr>si_Path = [], si_Roots = [], si_Depth = 0\<rparr>
          else (case decode b of None \<Rightarrow> Inl 400 | Some i \<Rightarrow> Inr i))"

section \<open>The health watch\<close>

record stack_container =
  sc_ID :: string
  sc_Name :: string
  sc_State :: string
  sc_Project :: string

record composeStackView =
  sv_stack :: composeStack
  sv_running :: nat
  sv_containers :: "stack_container list"

definition view_of :: "stack_container list \<Rightarrow> composeStack \<Rightarrow> composeStackView" where
  "view_of listing s =
     (let cs = sort_key sc_Name (filter (\<lambda>c. trim_space (sc_Project c) \<noteq> [] \<and>
                 to_lower (trim_space (sc_Project c)) = stack_key s) listing) in
      \<lparr>sv_stack = s, sv_running = length (filter (\<lambda>c. sc_State c = ''running'') cs), sv_containers = cs\<rparr>)"

definition composeStackViews :: "stack_container list option \<Rightarrow> stack_store \<Rightarrow> composeStackView list" where
  "composeStackViews listing st =
     (case listing of
        None \<Rightarrow> map (\<lambda>s. \<lparr>sv_stack = s, sv_running = 0, sv_containers = []\<rparr>) (listLocked st)
      | Some cs \<Rightarrow> map (view_of cs) (listLocked st))"

end
