(* ===== verification/Compose_Stacks_Facts.thy ===== *)
theory Compose_Stacks_Facts
  imports Compose_Stacks "HOL-Library.Multiset"
begin

text \<open>
  The registry of compose stacks: what a scan finds is bounded and in order, what a scan does to
  the registry, and what of the registry a restart brings back.
\<close>

section \<open>\<open>dedupeSorted\<close> and \<open>orderComposeFiles\<close>\<close>

lemma remdups_adj_snoc:
  "remdups_adj (xs @ [y]) = remdups_adj xs @ (if xs \<noteq> [] \<and> last xs = y then [] else [y])"
proof (cases xs rule: rev_cases)
  case (snoc ys x)
  then show ?thesis using remdups_adj_append_two [of ys x y] by auto
qed simp

text \<open>The array read by the loop still holds the sorted input from the reading position on.\<close>

lemma dedupe_loop_remdups:
  assumes "length a = length s" "i + k = length s" "j \<le> i" "drop i a = drop i s"
    and "i \<noteq> 0 \<longrightarrow> a ! (i - 1) = s ! (i - 1)" "take j a = remdups_adj (take i s)"
  shows "dedupe_loop k a i j = remdups_adj s"
  using assms
proof (induction k arbitrary: a i j)
  case 0
  then show ?case by simp
next
  case (Suc k)
  then have i: "i < length s" by simp
  have v: "a ! i = s ! i" using Suc.prems(1,4) i by (metis drop_eq_Nil hd_drop_conv_nth leD)
  have d: "drop (Suc i) a = drop (Suc i) s" using Suc.prems(4) by (metis drop_Suc tl_drop)
  have t: "take (Suc i) s = take i s @ [s ! i]" by (rule take_Suc_conv_app_nth [OF i])
  have l: "last (take i s) = s ! (i - 1)" if "i \<noteq> 0" using that i take_Suc_conv_app_nth [of "i - 1" s] by simp
  show ?case
  proof (cases "i = 0 \<or> a ! (i - 1) \<noteq> a ! i")
    case True
    let ?a = "a[j := a ! i]"
    have "take (Suc j) ?a = take j a @ [a ! i]" using Suc.prems(1,3) i by (simp add: take_Suc_conv_app_nth)
    also have "\<dots> = remdups_adj (take (Suc i) s)"
      using True Suc.prems(5,6) v l unfolding t remdups_adj_snoc by (cases "i = 0") auto
    finally have "take (Suc j) ?a = remdups_adj (take (Suc i) s)" .
    moreover have "drop (Suc i) ?a = drop (Suc i) s" using Suc.prems(3) d by simp
    moreover have "?a ! i = s ! i" using v Suc.prems(1,3) i by (cases "j = i") auto
    ultimately have "dedupe_loop k ?a (Suc i) (Suc j) = remdups_adj s"
      using Suc.prems(1-3) by (intro Suc.IH) auto
    then show ?thesis using True by (simp add: Let_def)
  next
    case False
    then have "take j a = remdups_adj (take (Suc i) s)"
      using Suc.prems(5,6) v l i unfolding t remdups_adj_snoc by auto
    then have "dedupe_loop k a (Suc i) j = remdups_adj s"
      using Suc.prems(1-3) d v by (intro Suc.IH) auto
    then show ?thesis using False by (simp add: Let_def)
  qed
qed

lemma distinct_sorted_remdups_adj: "sorted xs \<Longrightarrow> distinct (remdups_adj xs)" for xs :: "string list"
  by (induction xs rule: remdups_adj.induct) auto

lemma dedupeSorted_set: "dedupeSorted values = sorted_list_of_set (set values)"
proof -
  have "dedupeSorted values = remdups_adj (sort values)"
    unfolding dedupeSorted_def Let_def by (rule dedupe_loop_remdups) simp_all
  moreover have "sorted (remdups_adj (sort values))" "distinct (remdups_adj (sort values))" "set (remdups_adj (sort values)) = set values"
    by (simp_all add: distinct_sorted_remdups_adj)
  ultimately show ?thesis
    by (intro sorted_distinct_set_unique) simp_all
qed

lemma mset_orderComposeFiles: "mset (orderComposeFiles fs) = mset fs"
  by (simp add: orderComposeFiles_def)

lemma sorted_pairs: "\<forall>x \<in> set xs. g x = b \<Longrightarrow> sorted (map (\<lambda>f. (g f, f)) xs) = sorted xs"
  for g :: "string \<Rightarrow> bool" and b :: bool
  by (induction xs) (auto simp: less_eq_prod_def)

lemma orderComposeFiles_split:
  "orderComposeFiles fs = sort (filter (\<lambda>f. \<not> isComposeOverrideFile f) fs) @ sort (filter isComposeOverrideFile fs)"
proof -
  let ?k = "\<lambda>f. (isComposeOverrideFile f, f)"
  let ?r = "sort (filter (\<lambda>f. \<not> isComposeOverrideFile f) fs) @ sort (filter isComposeOverrideFile fs)"
  have "mset ?r = mset fs" by (induction fs) auto
  moreover have "sorted (map ?k ?r)"
    using sorted_pairs [of "sort (filter (\<lambda>f. \<not> isComposeOverrideFile f) fs)" isComposeOverrideFile False]
      sorted_pairs [of "sort (filter isComposeOverrideFile fs)" isComposeOverrideFile True]
    by (simp add: sorted_append less_eq_prod_def)
  moreover have "inj_on ?k (set fs)" by (auto intro: inj_onI)
  ultimately show ?thesis unfolding orderComposeFiles_def
    by (intro sort_key_inj_key_eq) auto
qed

section \<open>The registry\<close>

definition store_wf :: "stack_store \<Rightarrow> bool" where
  "store_wf st \<longleftrightarrow> distinct (map fst (st_stacks st)) \<and> (\<forall>(k, s) \<in> set (st_stacks st). k = stack_key s)"

definition put_stacks :: "(string \<times> composeStack) list \<Rightarrow> composeStack list \<Rightarrow> (string \<times> composeStack) list" where
  "put_stacks m ss = foldl (\<lambda>m s. put (stack_key s) s m) m ss"

lemma put_stacks_simps [simp]: "put_stacks m [] = m" "put_stacks m (s # ss) = put_stacks (put (stack_key s) s m) ss"
  by (simp_all add: put_stacks_def)

lemma map_of_put_stacks:
  "map_of (put_stacks m ss) k = (case find (\<lambda>s. stack_key s = k) (rev ss) of Some s \<Rightarrow> Some s | None \<Rightarrow> map_of m k)"
proof (induction ss arbitrary: m)
  case (Cons s ss)
  have f: "find P (xs @ [x]) = (case find P xs of Some y \<Rightarrow> Some y | None \<Rightarrow> if P x then Some x else None)"
    for P :: "composeStack \<Rightarrow> bool" and xs x by (induction xs) auto
  show ?case unfolding put_stacks_simps Cons.IH by (auto simp: f split: option.split)
qed simp

lemma put_stacks_wf:
  assumes "distinct (map fst m)" "\<forall>(k, s) \<in> set m. k = stack_key s"
  shows "distinct (map fst (put_stacks m ss)) \<and> (\<forall>(k, s) \<in> set (put_stacks m ss). k = stack_key s)"
  using assms
proof (induction ss arbitrary: m)
  case (Cons s ss)
  have "distinct (map fst (put (stack_key s) s m))" using Cons.prems(1) by (rule put_distinct)
  moreover have "\<forall>(k, s') \<in> set (put (stack_key s) s m). k = stack_key s'"
    using set_put_subset [of "stack_key s" s m] Cons.prems(2) by fastforce
  ultimately show ?case using Cons.IH by simp
qed simp

lemma apply_scanned_map: "fst (foldl apply_scanned (m, a, u) ss) = put_stacks m ss"
proof (induction ss arbitrary: m a u)
  case (Cons s ss)
  have "\<exists>a' u'. apply_scanned (m, a, u) s = (put (stack_key s) s m, a', u')"
    by (auto simp: apply_scanned_def split: option.split)
  then show ?case using Cons.IH by auto
qed simp

lemma find_in: "find P xs = Some x \<Longrightarrow> x \<in> set xs"
  by (induction xs) (auto split: if_splits)

lemma find_key: "distinct (map f xs) \<Longrightarrow> x \<in> set xs \<Longrightarrow> find (\<lambda>y. f y = f x) xs = Some x"
  by (induction xs) force+

lemma Apply_cases:
  obtains added updated gone where
    "gone = gone_stacks stat_ok (set (map stack_key scanned)) (put_stacks (st_stacks st) scanned)"
    "stack_Apply save_ok stat_ok st scanned =
       (let st' = st\<lparr>st_stacks := filter (\<lambda>(k, s). k \<notin> fst ` set gone) (put_stacks (st_stacks st) scanned)\<rparr> in
        if added = [] \<and> updated = [] \<and> gone = [] then (st', \<lparr>ar_added = [], ar_updated = [], ar_removed = []\<rparr>)
        else (saveLocked save_ok st', \<lparr>ar_added = added, ar_updated = updated, ar_removed = map snd gone\<rparr>))"
    "foldl apply_scanned (st_stacks st, [], []) scanned = (put_stacks (st_stacks st) scanned, added, updated)"
proof -
  obtain added updated where f: "foldl apply_scanned (st_stacks st, [], []) scanned = (put_stacks (st_stacks st) scanned, added, updated)"
    using apply_scanned_map [of "st_stacks st" "[]" "[]" scanned] by (metis prod.collapse)
  show thesis by (rule that [OF refl _ f]) (simp add: stack_Apply_def f Let_def)
qed

lemma saveLocked_stacks [simp]: "st_stacks (saveLocked ok st) = st_stacks st" "st_path (saveLocked ok st) = st_path st"
  by (simp_all add: saveLocked_def)

lemma map_of_filter_keys: "map_of (filter (\<lambda>(k, s). P k) m) k = (if P k then map_of m k else None)"
  by (induction m) auto

lemma gone_keys:
  assumes "distinct (map fst m)"
  shows "k \<in> fst ` set (gone_stacks stat_ok seen m) \<longleftrightarrow>
    (\<exists>s. map_of m k = Some s \<and> k \<notin> seen \<and> \<not> stat_ok (cs_Directory s))"
  using assms by (force simp: gone_stacks_def image_iff)

lemma Apply_stacks:
  "st_stacks (fst (stack_Apply save_ok stat_ok st scanned)) =
     filter (\<lambda>(k, s). k \<notin> fst ` set (gone_stacks stat_ok (set (map stack_key scanned)) (put_stacks (st_stacks st) scanned)))
       (put_stacks (st_stacks st) scanned)"
  by (rule Apply_cases [of stat_ok scanned st save_ok]) (simp add: Let_def)

lemma Apply_wf:
  assumes "store_wf st"
  shows "store_wf (fst (stack_Apply save_ok stat_ok st scanned))"
  using put_stacks_wf [of "st_stacks st" scanned] assms
  unfolding store_wf_def Apply_stacks by (auto simp: distinct_map_filter)

lemma Apply_map:
  assumes "store_wf st"
  shows "map_of (st_stacks (fst (stack_Apply save_ok stat_ok st scanned))) k =
    (case find (\<lambda>s. stack_key s = k) (rev scanned) of
       Some s \<Rightarrow> Some s
     | None \<Rightarrow> (case map_of (st_stacks st) k of
           Some s \<Rightarrow> if stat_ok (cs_Directory s) then Some s else None | None \<Rightarrow> None))"
proof -
  have d: "distinct (map fst (put_stacks (st_stacks st) scanned))"
    using put_stacks_wf assms by (auto simp: store_wf_def)
  have "find (\<lambda>s. stack_key s = k) (rev scanned) \<noteq> None \<longleftrightarrow> k \<in> set (map stack_key scanned)"
    by (auto simp: find_None_iff)
  then show ?thesis
    unfolding Apply_stacks map_of_filter_keys gone_keys [OF d] map_of_put_stacks
    by (cases "find (\<lambda>s. stack_key s = k) (rev scanned)"; cases "map_of (st_stacks st) k") (auto split: if_splits)
qed

text \<open>A scan answered twice.\<close>

lemma put_same: "map_of m k = Some v \<Longrightarrow> put k v m = m"
  by (induction m) auto

lemma apply_scanned_same:
  "\<forall>s \<in> set ss. map_of m (stack_key s) = Some s \<Longrightarrow> foldl apply_scanned (m, a, u) ss = (m, a, u)"
  by (induction ss) (simp_all add: apply_scanned_def put_same)

lemma Apply_twice:
  fixes stat_ok save_ok
  assumes "store_wf st" "distinct (map stack_key scanned)"
  defines "st' \<equiv> fst (stack_Apply save_ok stat_ok st scanned)"
  shows "stack_Apply save_ok stat_ok st' scanned = (st', \<lparr>ar_added = [], ar_updated = [], ar_removed = []\<rparr>)"
proof -
  have found: "map_of (st_stacks st') (stack_key s) = Some s" if "s \<in> set scanned" for s
  proof -
    have "find (\<lambda>y. stack_key y = stack_key s) (rev scanned) = Some s"
      using assms(2) that by (intro find_key) (simp_all add: rev_map [symmetric])
    then show ?thesis unfolding st'_def Apply_map [OF assms(1)] by simp
  qed
  then have f: "foldl apply_scanned (st_stacks st', [], []) scanned = (st_stacks st', [], [])"
    by (intro apply_scanned_same) blast
  have wf: "store_wf st'" unfolding st'_def by (rule Apply_wf [OF assms(1)])
  have "gone_stacks stat_ok (set (map stack_key scanned)) (st_stacks st') = []"
  proof (rule ccontr)
    assume "gone_stacks stat_ok (set (map stack_key scanned)) (st_stacks st') \<noteq> []"
    then obtain k where "k \<in> fst ` set (gone_stacks stat_ok (set (map stack_key scanned)) (st_stacks st'))"
      by (cases "gone_stacks stat_ok (set (map stack_key scanned)) (st_stacks st')") auto
    then obtain s where s: "map_of (st_stacks st') k = Some s" "k \<notin> set (map stack_key scanned)" "\<not> stat_ok (cs_Directory s)"
      using gone_keys wf by (auto simp: store_wf_def)
    moreover have "find (\<lambda>s. stack_key s = k) (rev scanned) = None" using s(2) by (auto simp: find_None_iff)
    ultimately show False unfolding st'_def Apply_map [OF assms(1)] by (auto split: option.splits if_splits)
  qed
  then show ?thesis unfolding stack_Apply_def f Let_def by simp
qed

section \<open>What a restart brings back\<close>

lemma load_put: "\<forall>s \<in> set ss. loadable s \<Longrightarrow> load_stacks ss = put_stacks [] ss"
proof -
  have "foldl (\<lambda>m s. if loadable s then put (stack_key s) s m else m) m ss = put_stacks m ss" if "\<forall>s \<in> set ss. loadable s" for m
    using that by (induction ss arbitrary: m) simp_all
  then show "\<forall>s \<in> set ss. loadable s \<Longrightarrow> load_stacks ss = put_stacks [] ss" by (simp add: load_stacks_def)
qed

lemma load_listed:
  assumes "store_wf st" "\<forall>(k, s) \<in> set (st_stacks st). loadable s"
  shows "map_of (load_stacks (listLocked st)) = map_of (st_stacks st)"
proof
  fix k
  let ?m = "st_stacks st"
  have keys: "map stack_key (map snd ?m) = map fst ?m" using assms(1) by (auto simp: store_wf_def)
  have perm: "set (listLocked st) = set (map snd ?m)" "distinct (map stack_key (listLocked st))"
  proof -
    show "set (listLocked st) = set (map snd ?m)" by (simp add: listLocked_def)
    have "mset (map stack_key (listLocked st)) = mset (map fst ?m)"
      unfolding keys [symmetric] by (simp add: listLocked_def multiset.map_comp)
    then show "distinct (map stack_key (listLocked st))"
      using assms(1) unfolding store_wf_def by (metis mset_eq_imp_distinct_iff)
  qed
  have load: "load_stacks (listLocked st) = put_stacks [] (listLocked st)"
    using assms(2) perm(1) by (intro load_put) auto
  show "map_of (load_stacks (listLocked st)) k = map_of ?m k"
  proof (cases "map_of ?m k")
    case None
    then have "k \<notin> stack_key ` set (listLocked st)"
      using keys perm(1) by (metis image_set map_of_eq_None_iff)
    then have "find (\<lambda>s. stack_key s = k) (rev (listLocked st)) = None" by (auto simp: find_None_iff)
    then show ?thesis using None by (simp add: load map_of_put_stacks)
  next
    case (Some s)
    then have "(k, s) \<in> set ?m" by (rule map_of_SomeD)
    then have k: "s \<in> snd ` set ?m" "stack_key s = k" using assms(1) unfolding store_wf_def by (rule_tac rev_image_eqI, auto)
    then have "s \<in> set (rev (listLocked st))" using perm(1) by simp
    moreover have "distinct (map stack_key (rev (listLocked st)))" using perm(2) by (simp add: rev_map [symmetric])
    ultimately have "find (\<lambda>y. stack_key y = k) (rev (listLocked st)) = Some s"
      using find_key [of stack_key "rev (listLocked st)" s] k(2) by simp
    then show ?thesis using Some by (simp add: load map_of_put_stacks)
  qed
qed


definition demo_stack :: "string \<Rightarrow> string list \<Rightarrow> composeStack" where
  "demo_stack project files =
     \<lparr>cs_Project = project, cs_Directory = ''/srv/web'', cs_Files = files, cs_Services = [''app''], cs_ScannedAt = 0\<rparr>"

definition demo_registry :: stack_store where
  "demo_registry = newComposeStackStore ''/var/stacks.json'' None"

lemma demo_registry: "store_wf demo_registry" "st_path demo_registry \<noteq> []" "\<forall>(k, s) \<in> set (st_stacks demo_registry). loadable s"
  by (simp_all add: demo_registry_def newComposeStackStore_def store_wf_def)


text \<open>
  A scan that finds the same project with other files keeps the new files in memory, and leaves the
  old ones in the registry file: a restart brings the old list back.
\<close>

lemma changed_files_are_not_saved:
  defines "old \<equiv> demo_stack ''web'' [''/srv/web/docker-compose.yml'']" and "new \<equiv> demo_stack ''web'' [''/srv/web/compose.yml'']"
  defines "st \<equiv> \<lparr>st_path = ''/var/stacks.json'', st_stacks = [(''web'', old)], st_file = Some [old]\<rparr>"
  shows "stack_Apply True (\<lambda>_. True) st [new] =
    (st\<lparr>st_stacks := [(''web'', new)]\<rparr>, \<lparr>ar_added = [], ar_updated = [], ar_removed = []\<rparr>)"
proof -
  have "stack_key new = ''web''" unfolding new_def by code_simp
  then show ?thesis
    by (simp add: stack_Apply_def st_def apply_scanned_def gone_stacks_def old_def new_def demo_stack_def)
qed

text \<open>Two directories whose projects have one name: every scan reports both as updated again.\<close>

lemma same_project_twice_flaps:
  defines "a \<equiv> demo_stack ''web'' []" and "b \<equiv> (demo_stack ''web'' [])\<lparr>cs_Directory := ''/opt/web''\<rparr>"
  defines "st \<equiv> \<lparr>st_path = [], st_stacks = [(''web'', b)], st_file = None\<rparr>"
  shows "stack_Apply True (\<lambda>_. True) st [a, b] = (st, \<lparr>ar_added = [], ar_updated = [a, b], ar_removed = []\<rparr>)"
proof -
  have "stack_key a = ''web''" "stack_key b = ''web''" unfolding a_def b_def by code_simp+
  then show ?thesis
    by (simp add: stack_Apply_def st_def apply_scanned_def gone_stacks_def a_def b_def demo_stack_def saveLocked_def)
qed

text \<open>A starting point that ends in a parent segment passes the check and is its parent.\<close>

lemma scan_path_ends_in_parent: "validateComposeScanPath ''/srv/..'' = Inr ''/''"
  by code_simp

text \<open>Applying a scan keeps one entry per project under its lower-case name. A project the scan
  found is managed as it was found last; one it did not find stays exactly while its directory can be
  examined; and the same scan applied a second time changes nothing and reports nothing, as long as
  no two of its stacks share a project.\<close>

theorem apply_follows_scan:
  fixes stat_ok save_ok
  assumes "store_wf st" "distinct (map stack_key scanned)"
  defines "st' \<equiv> fst (stack_Apply save_ok stat_ok st scanned)"
  shows "store_wf st' \<and>
    (\<forall>k. map_of (st_stacks st') k =
      (case find (\<lambda>s. stack_key s = k) scanned of
         Some s \<Rightarrow> Some s
       | None \<Rightarrow> (case map_of (st_stacks st) k of
             Some s \<Rightarrow> if stat_ok (cs_Directory s) then Some s else None | None \<Rightarrow> None))) \<and>
    stack_Apply save_ok stat_ok st' scanned = (st', \<lparr>ar_added = [], ar_updated = [], ar_removed = []\<rparr>)"
proof -
  have "find (\<lambda>s. stack_key s = k) (rev scanned) = find (\<lambda>s. stack_key s = k) scanned" for k
  proof (cases "find (\<lambda>s. stack_key s = k) scanned")
    case None
    then have "find (\<lambda>s. stack_key s = k) (rev scanned) = None" by (simp add: find_None_iff)
    then show ?thesis using None by simp
  next
    case (Some s)
    then have s: "s \<in> set (rev scanned)" "stack_key s = k" by (auto simp: find_Some_iff)
    moreover have "distinct (map stack_key (rev scanned))" using assms(2) by (simp add: rev_map [symmetric])
    ultimately show ?thesis using find_key [of stack_key "rev scanned" s] Some by simp
  qed
  then show ?thesis
    using Apply_wf [OF assms(1)] Apply_map [OF assms(1)] Apply_twice [OF assms(1,2)] unfolding st'_def by simp
qed

theorem apply_follows_scan_witness:
  "map_of (st_stacks (fst (stack_Apply True (\<lambda>_. False) demo_registry [demo_stack ''Web'' []]))) ''web'' = Some (demo_stack ''Web'' [])"
proof -
  have "stack_key (demo_stack ''Web'' []) = ''web''" by code_simp
  then show ?thesis using apply_follows_scan [OF demo_registry(1), of "[demo_stack ''Web'' []]" True "\<lambda>_. False"] by simp
qed

section \<open>What a scan finds\<close>

text \<open>What every step of the walk keeps, the whole walk keeps.\<close>

lemma walk_keeps:
  assumes dir: "\<And>s. I s \<Longrightarrow> I (visited s)"
    and stop: "\<And>s b. I s \<Longrightarrow> I (s\<lparr>ss_stopped := b\<rparr>)"
  shows "(\<And>p name doc s. I s \<Longrightarrow> \<not> over se s \<Longrightarrow> I (visit_file se p name doc (visited s))) \<Longrightarrow> I s \<Longrightarrow>
      I (walk_entry se d root p e s)"
    and "(\<And>p name doc s. I s \<Longrightarrow> \<not> over se s \<Longrightarrow> I (visit_file se p name doc (visited s))) \<Longrightarrow> I s \<Longrightarrow>
      I (walk_list se d p es s)"
proof (induction se d root p e s and se d p es s rule: walk_entry_walk_list.induct)
  case (2 se d root p name children s)
  then show ?case using dir stop by (cases children) auto
qed (use stop in \<open>auto simp: Let_def\<close>)

lemma scan_keeps:
  assumes reads: "\<And>p name doc s. I s \<Longrightarrow> \<not> over se s \<Longrightarrow> I (visit_file se p name doc (visited s))"
    and dir: "\<And>s. I s \<Longrightarrow> I (visited s)"
    and stop: "\<And>s b. I s \<Longrightarrow> I (s\<lparr>ss_stopped := b\<rparr>)"
    and start: "I \<lparr>ss_found = [], ss_read = 0, ss_visited = 0, ss_stopped = False\<rparr>"
  shows "I (scan_walk se roots)"
proof -
  have "I (scan_root se s r)" if "I s" for s r
    using walk_keeps(1) [of I se s, OF dir stop reads] stop that by (cases "snd r") (auto simp: scan_root_def)
  then have "I (foldl (scan_root se) s roots)" if "I s" for s
    using that by (induction roots arbitrary: s) simp_all
  then show ?thesis unfolding scan_walk_def using start by blast
qed

text \<open>A builder holds the files of its own directory, at least one of them with services.\<close>

definition builder_ok :: "string \<Rightarrow> composeStackBuilder \<Rightarrow> bool" where
  "builder_ok d b \<longleftrightarrow> cs_Directory (sb_stack b) = d \<and> cs_Project (sb_stack b) \<noteq> [] \<and> cs_Files (sb_stack b) \<noteq> [] \<and>
     (\<forall>f \<in> set (cs_Files (sb_stack b)). path_dir f = d) \<and> cs_Services (sb_stack b) \<noteq> []"

definition found_ok :: "scan_env \<Rightarrow> scan_state \<Rightarrow> bool" where
  "found_ok se s \<longleftrightarrow> distinct (map fst (ss_found s)) \<and> (\<forall>(d, b) \<in> set (ss_found s). builder_ok d b) \<and>
     length (concat (map (\<lambda>(d, b). cs_Files (sb_stack b)) (ss_found s))) \<le> ss_read s \<and>
     int (ss_read s) \<le> sl_maxFiles (se_limits se)"

definition all_files :: "(string \<times> composeStackBuilder) list \<Rightarrow> nat" where
  "all_files m = length (concat (map (\<lambda>(d, b). cs_Files (sb_stack b)) m))"

lemma all_files_put:
  assumes "distinct (map fst m)"
  shows "all_files (put k b m) =
    all_files m + length (cs_Files (sb_stack b)) - (case map_of m k of None \<Rightarrow> 0 | Some b' \<Rightarrow> length (cs_Files (sb_stack b')))"
  using assms
proof (induction m)
  case (Cons x m)
  obtain k' v where x: "x = (k', v)" by (rule prod.exhaust)
  show ?case
  proof (cases "k = k'")
    case True
    then show ?thesis by (simp add: x all_files_def)
  next
    case False
    have IH: "all_files (put k b m) = all_files m + length (cs_Files (sb_stack b)) -
        (case map_of m k of None \<Rightarrow> 0 | Some b' \<Rightarrow> length (cs_Files (sb_stack b')))" using Cons by simp
    have le: "length (cs_Files (sb_stack b')) \<le> all_files m" if "map_of m k = Some b'" for b'
      using map_of_SomeD [OF that] by (induction m) (auto simp: all_files_def)
    have c: "all_files ((k', v) # m') = length (cs_Files (sb_stack v)) + all_files m'" for m' by (simp add: all_files_def)
    show ?thesis
    proof (cases "map_of m k")
      case None
      then show ?thesis using IH False by (simp add: x c)
    next
      case (Some b')
      then show ?thesis using IH False le [OF Some] by (simp add: x c)
    qed
  qed
qed (simp add: all_files_def)

lemma path_base_name_nonempty: "path_base_name d \<noteq> []"
proof -
  have "last (filter (\<lambda>c. c \<noteq> []) cs) \<noteq> []" if "filter (\<lambda>c. c \<noteq> []) cs \<noteq> []" for cs :: "string list"
    using last_in_set [OF that] by simp
  then show ?thesis by (simp add: path_base_name_def Let_def)
qed

lemma record_ok:
  assumes "distinct (map fst m)" "\<forall>(d, b) \<in> set m. builder_ok d b" "cd_Services doc \<noteq> []"
  shows "distinct (map fst (recordComposeFile m p doc now))" "\<forall>(d, b) \<in> set (recordComposeFile m p doc now). builder_ok d b"
    "all_files (recordComposeFile m p doc now) = Suc (all_files m)"
proof -
  let ?d = "path_dir p"
  define b where "b = (case map_of m ?d of None \<Rightarrow> new_builder ?d | Some b \<Rightarrow> b)"
  define b' where "b' = \<lparr>sb_stack = (sb_stack b)\<lparr>cs_Project := (if trim_space (cd_Name doc) \<noteq> [] \<and> \<not> sb_declared b
        then trim_space (cd_Name doc) else cs_Project (sb_stack b)), cs_Files := cs_Files (sb_stack b) @ [p],
        cs_Services := cs_Services (sb_stack b) @ cd_Services doc, cs_ScannedAt := now\<rparr>,
      sb_declared = (trim_space (cd_Name doc) \<noteq> [] \<and> \<not> sb_declared b \<or> sb_declared b)\<rparr>"
  have r: "recordComposeFile m p doc now = put ?d b' m"
    by (simp add: recordComposeFile_def Let_def b_def b'_def)
  show "distinct (map fst (recordComposeFile m p doc now))" unfolding r by (rule put_distinct [OF assms(1)])
  have old: "builder_ok ?d b" if "map_of m ?d = Some b" for b using assms(2) map_of_SomeD [OF that] by blast
  have nb: "cs_Directory (sb_stack b) = ?d \<and> cs_Project (sb_stack b) \<noteq> [] \<and> (\<forall>f \<in> set (cs_Files (sb_stack b)). path_dir f = ?d)"
    using old path_base_name_nonempty [of ?d] unfolding b_def
    by (cases "map_of m ?d") (auto simp: builder_ok_def new_builder_def)
  then have "builder_ok ?d b'" using assms(3) by (simp add: builder_ok_def b'_def)
  then show "\<forall>(d, b) \<in> set (recordComposeFile m p doc now). builder_ok d b"
    using assms(2) set_put_subset [of ?d b' m] unfolding r by fastforce
  have "length (cs_Files (sb_stack b)) = (case map_of m ?d of None \<Rightarrow> 0 | Some b' \<Rightarrow> length (cs_Files (sb_stack b')))"
    unfolding b_def by (simp add: new_builder_def split: option.split)
  moreover have "length (cs_Files (sb_stack b')) = Suc (length (cs_Files (sb_stack b)))" by (simp add: b'_def)
  ultimately show "all_files (recordComposeFile m p doc now) = Suc (all_files m)"
    unfolding r all_files_put [OF assms(1)] by simp
qed

lemma found_ok_iff:
  "found_ok se s \<longleftrightarrow> distinct (map fst (ss_found s)) \<and> (\<forall>(d, b) \<in> set (ss_found s). builder_ok d b) \<and>
     all_files (ss_found s) \<le> ss_read s \<and> int (ss_read s) \<le> sl_maxFiles (se_limits se)"
  by (simp add: found_ok_def all_files_def)

lemma visit_file_ok:
  assumes "found_ok se s" "\<not> over se s"
  shows "found_ok se (visit_file se p name doc (visited s))"
proof -
  have r: "int (Suc (ss_read s)) \<le> sl_maxFiles (se_limits se)" using assms(2) by (simp add: over_def)
  have s: "distinct (map fst (ss_found s))" "\<forall>(d, b) \<in> set (ss_found s). builder_ok d b" "all_files (ss_found s) \<le> ss_read s"
    "int (ss_read s) \<le> sl_maxFiles (se_limits se)" using assms(1) unfolding found_ok_iff by blast+
  consider (other) "\<not> isComposeFileName name" | (none) "isComposeFileName name" "doc = None"
    | (empty) d where "isComposeFileName name" "doc = Some d" "cd_Services d = []"
    | (project) d where "isComposeFileName name" "doc = Some d" "cd_Services d \<noteq> []" by (cases doc) blast+
  then show ?thesis
  proof cases
    case project
    have "found_ok se (s\<lparr>ss_visited := Suc (ss_visited s), ss_read := Suc (ss_read s),
        ss_found := recordComposeFile (ss_found s) p d (se_now se)\<rparr>)"
      using record_ok [OF s(1,2) project(3), of p "se_now se"] s(3) r unfolding found_ok_iff by simp
    then show ?thesis using project by (simp add: visit_file_def visited_def)
  qed (use s r in \<open>simp_all add: visit_file_def visited_def found_ok_iff\<close>)
qed

lemma scan_walk_ok: "0 \<le> sl_maxFiles (se_limits se) \<Longrightarrow> found_ok se (scan_walk se roots)"
proof (rule scan_keeps)
  show "found_ok se s \<Longrightarrow> \<not> over se s \<Longrightarrow> found_ok se (visit_file se p name doc (visited s))" for p name doc s
    by (rule visit_file_ok)
qed (simp_all add: found_ok_def visited_def)

lemma length_le_files:
  "\<forall>(d, b) \<in> set m. builder_ok d b \<Longrightarrow> length m \<le> all_files m"
proof (induction m)
  case (Cons x m)
  then have "1 \<le> length (cs_Files (sb_stack (snd x)))" by (cases x) (auto simp: builder_ok_def Suc_le_eq)
  then show ?case using Cons by (cases x) (auto simp: all_files_def)
qed simp

lemma clean_nonempty: "clean s \<noteq> []"
proof (cases "is_abs s")
  case False
  have "join_with ''/'' cs \<noteq> []" if "cs \<noteq> []" "hd cs \<noteq> []" for cs
    using that by (cases cs; cases "tl cs") auto
  moreover have "clean_comps False [] (split_on slash s) = [] \<or> hd (clean_comps False [] (split_on slash s)) \<noteq> []"
  proof -
    obtain j ms where sh: "clean_comps False [] (split_on slash s) = replicate j ''..'' @ ms" "list_all normal ms"
      using clean_comps_shape [of "split_on slash s" "[]" "[]" 0] split_on_no_sep by auto
    show ?thesis using sh(2) unfolding sh(1) by (cases j; cases ms) auto
  qed
  ultimately show ?thesis using False by (auto simp: clean_def Let_def)
qed (simp add: clean_def Let_def)

text \<open>A scan finds at most as many projects as it may read files, however large the tree is. Every
  project it finds has a name, lies in a directory of its own, has compose files of that directory with
  the overrides after the base files, each group in order, and names each of its services once, in
  order.\<close>

theorem scan_bounded_and_sound:
  "int (length (scanComposeStacks cancelled now limits roots)) \<le> sl_maxFiles (scan_limits limits) \<and>
   distinct (map cs_Directory (scanComposeStacks cancelled now limits roots)) \<and>
   list_all (\<lambda>s. loadable s \<and> list_all (\<lambda>f. path_dir f = cs_Directory s) (cs_Files s) \<and>
      (\<exists>bases overrides. cs_Files s = bases @ overrides \<and> bases @ overrides \<noteq> [] \<and> sorted bases \<and> sorted overrides \<and>
         list_all (\<lambda>f. \<not> isComposeOverrideFile f) bases \<and> list_all isComposeOverrideFile overrides) \<and>
      cs_Services s \<noteq> [] \<and> sorted (cs_Services s) \<and> distinct (cs_Services s))
     (scanComposeStacks cancelled now limits roots)"
proof -
  let ?se = "\<lparr>se_cancelled = cancelled, se_now = now, se_limits = scan_limits limits\<rparr>"
  let ?m = "ss_found (scan_walk ?se roots)"
  let ?stacks = "scanComposeStacks cancelled now limits roots"
  have "0 \<le> sl_maxFiles (scan_limits limits)" by (simp add: scan_limits_def composeScanLimitsDefault_def)
  then have ok: "distinct (map fst ?m)" "\<forall>(d, b) \<in> set ?m. builder_ok d b"
    and n: "all_files ?m \<le> ss_read (scan_walk ?se roots)" "int (ss_read (scan_walk ?se roots)) \<le> sl_maxFiles (scan_limits limits)"
    using scan_walk_ok [of ?se roots] by (simp_all add: found_ok_def all_files_def)
  have perm: "mset ?stacks = mset (map (finish_stack \<circ> snd) ?m)" by (simp add: scanComposeStacks_def Let_def)
  have "length ?stacks = length ?m" using perm by (metis length_map size_mset)
  then have "int (length ?stacks) \<le> sl_maxFiles (scan_limits limits)" using length_le_files [OF ok(2)] n by linarith
  moreover have "distinct (map cs_Directory ?stacks)"
  proof -
    have "map cs_Directory (map (finish_stack \<circ> snd) ?m) = map fst ?m"
      using ok(2) by (auto simp: finish_stack_def builder_ok_def)
    then show ?thesis using ok(1) perm by (metis mset_eq_imp_distinct_iff mset_map)
  qed
  moreover have "loadable s \<and> list_all (\<lambda>f. path_dir f = cs_Directory s) (cs_Files s) \<and>
      (\<exists>bases overrides. cs_Files s = bases @ overrides \<and> bases @ overrides \<noteq> [] \<and> sorted bases \<and> sorted overrides \<and>
         list_all (\<lambda>f. \<not> isComposeOverrideFile f) bases \<and> list_all isComposeOverrideFile overrides) \<and>
      cs_Services s \<noteq> [] \<and> sorted (cs_Services s) \<and> distinct (cs_Services s)" if "s \<in> set ?stacks" for s
  proof -
    have "s \<in> set (map (finish_stack \<circ> snd) ?m)" using that perm by (metis set_mset_mset)
    then obtain d b where b: "s = finish_stack b" "builder_ok d b" using ok(2) by auto
    then obtain f where f: "f \<in> set (cs_Files (sb_stack b))" "path_dir f = d" by (cases "cs_Files (sb_stack b)") (auto simp: builder_ok_def)
    have d: "d \<noteq> []" using f(2) clean_nonempty by (auto simp: path_dir_def)
    let ?fs = "cs_Files (sb_stack b)"
    have files: "cs_Files s = sort (filter (\<lambda>f. \<not> isComposeOverrideFile f) ?fs) @ sort (filter isComposeOverrideFile ?fs)"
      by (simp add: b(1) finish_stack_def orderComposeFiles_split)
    have set: "set (cs_Files s) = set ?fs" unfolding files by auto
    then have ne: "cs_Files s \<noteq> []" using b(2) by (auto simp: builder_ok_def)
    have split: "\<exists>bases overrides. cs_Files s = bases @ overrides \<and> bases @ overrides \<noteq> [] \<and> sorted bases \<and> sorted overrides \<and>
         list_all (\<lambda>f. \<not> isComposeOverrideFile f) bases \<and> list_all isComposeOverrideFile overrides"
      using files ne by (intro exI [of _ "sort (filter (\<lambda>f. \<not> isComposeOverrideFile f) ?fs)"]
        exI [of _ "sort (filter isComposeOverrideFile ?fs)"]) (simp add: list_all_iff)
    have "cs_Services s \<noteq> [] \<and> sorted (cs_Services s) \<and> distinct (cs_Services s)"
      using b(2) by (simp add: b(1) finish_stack_def dedupeSorted_set builder_ok_def)
    moreover have "loadable s \<and> list_all (\<lambda>f. path_dir f = cs_Directory s) (cs_Files s)"
      using b(2) d set unfolding list_all_iff by (simp add: loadable_def b(1) finish_stack_def builder_ok_def)
    ultimately show ?thesis using split by blast
  qed
  ultimately show ?thesis unfolding list_all_iff by blast
qed

end
