(* ===== verification/Daemon_Host.thy ===== *)
theory Daemon_Host
  imports Go_Scan
begin

text \<open>
  The host as the daemon's operations and collectors ask it: the programs installed, what short
  commands answer, and how root is reached. The container runtimes, \<open>sudo\<close> and
  \<open>encoding/json\<close> are fields of the environment.
\<close>

section \<open>Decoded JSON\<close>

datatype json =
    JNull
  | JBool bool
  | JNum int
  | JStr string
  | JArr "json list"
  | JObj "(string \<times> json) list"

definition json_at :: "(string \<times> json) list \<Rightarrow> string \<Rightarrow> json" where
  "json_at o' k = (case map_of o' k of None \<Rightarrow> JNull | Some v \<Rightarrow> v)"

definition jsonObject :: "json \<Rightarrow> (string \<times> json) list" where
  "jsonObject v = (case v of JObj o' \<Rightarrow> o' | _ \<Rightarrow> [])"

definition jsonString :: "json \<Rightarrow> string" where
  "jsonString v = (case v of JStr s \<Rightarrow> trim_space s | _ \<Rightarrow> [])"

definition jsonStringMap :: "json \<Rightarrow> (string \<times> string) list" where
  "jsonStringMap v =
     concat (map (\<lambda>(k, e). case e of JStr s \<Rightarrow> [(k, s)] | _ \<Rightarrow> []) (jsonObject v))"

section \<open>The environment\<close>

datatype names_json = NameList "string list" | NameText string | NoNames

datatype labels_json = LabelObject "(string \<times> string) list" | LabelText string | NoLabels

record container_line =
  cl_ID :: string
  cl_Id :: string
  cl_Names :: names_json
  cl_Image :: string
  cl_State :: string
  cl_Status :: string
  cl_Labels :: labels_json

text \<open>
  \<open>he_command\<close> is what \<open>runCommand\<close> answers, the output or an error; \<open>he_read\<close> what a
  command prints on both streams and its error, if it fails; \<open>he_runs\<close> whether one exits cleanly.
  \<open>he_json\<close> decodes a document, \<open>he_line\<close> one line of a container listing.
\<close>

record daemon_host =
  he_root :: bool
  he_look :: "string \<Rightarrow> string option"
  he_runtimes :: "string \<Rightarrow> string option"
  he_command :: "string list \<Rightarrow> string + bytes"
  he_read :: "string list \<Rightarrow> bytes \<times> bytes \<times> string option"
  he_runs :: "string list \<Rightarrow> bool"
  he_json :: "bytes \<Rightarrow> json option"
  he_line :: "string \<Rightarrow> string + container_line"

section \<open>Reaching root\<close>

definition elevationPrefix :: "daemon_host \<Rightarrow> string list option" where
  "elevationPrefix he = (if he_root he \<or> he_look he ''sudo'' = None then None else Some [''sudo'', ''-n''])"

definition elevationAttempt :: "daemon_host \<Rightarrow> string \<Rightarrow> string list \<Rightarrow> string list option" where
  "elevationAttempt he p args = map_option (\<lambda>prefix. prefix @ p # args) (elevationPrefix he)"

definition sudoRuns :: "daemon_host \<Rightarrow> string \<Rightarrow> bool" where
  "sudoRuns he command =
     (case elevationPrefix he of None \<Rightarrow> False | Some prefix \<Rightarrow> he_runs he [hd prefix, ''-n'', command, ''--version''])"

section \<open>Reading a container's configuration\<close>

definition containerInspectBytes :: nat where "containerInspectBytes = 1048576"

definition runReadOnce :: "daemon_host \<Rightarrow> nat \<Rightarrow> string list \<Rightarrow> bytes \<times> string \<times> string option" where
  "runReadOnce he limit argv = (case he_read he argv of (out, err, e) \<Rightarrow> (take limit out, take 8192 err, e))"

text \<open>The answer and whether it came from root's store; the direct call's message when both fail.\<close>

definition runRuntimeReadStore :: "daemon_host \<Rightarrow> nat \<Rightarrow> string \<Rightarrow> string list \<Rightarrow> string + bytes \<times> bool" where
  "runRuntimeReadStore he limit command args =
     (case runReadOnce he limit (command # args) of
        (out, _, None) \<Rightarrow> Inr (out, False)
      | (_, err, Some e) \<Rightarrow>
          (let message = trim_space err;
               failed = Inl (if message \<noteq> [] then message else command @ '' failed: '' @ e) in
           case elevationAttempt he command args of
             None \<Rightarrow> failed
           | Some argv \<Rightarrow> (case runReadOnce he limit argv of (out, _, None) \<Rightarrow> Inr (out, True) | _ \<Rightarrow> failed)))"

definition decode_object :: "daemon_host \<Rightarrow> bytes \<Rightarrow> (string \<times> json) list option" where
  "decode_object he raw =
     (case he_json he raw of Some (JObj o') \<Rightarrow> Some o' | Some JNull \<Rightarrow> Some [] | _ \<Rightarrow> None)"

text \<open>An object, the first of an array of them, or the first line of several.\<close>

definition parseJSONObject :: "daemon_host \<Rightarrow> bytes \<Rightarrow> (string \<times> json) list option" where
  "parseJSONObject he out =
     (let trimmed = trim_space out in
      if trimmed = [] then None
      else case he_json he trimmed of
        Some (JObj o') \<Rightarrow> Some o'
      | Some JNull \<Rightarrow> Some []
      | Some (JArr es) \<Rightarrow>
          (case es of [] \<Rightarrow> None | JObj o' # _ \<Rightarrow> Some o' | JNull # _ \<Rightarrow> Some [] | _ \<Rightarrow> None)
      | _ \<Rightarrow>
          (let line = takeWhile (\<lambda>c. c \<noteq> CHR 0x0A) trimmed in
           if line = [] then None else decode_object he line))"

record containerInspect =
  in_ImageRef :: string
  in_ImageID :: string
  in_Labels :: "(string \<times> string) list"
  in_Elevated :: bool

definition parseContainerInspect :: "daemon_host \<Rightarrow> bytes \<Rightarrow> containerInspect option" where
  "parseContainerInspect he out =
     map_option (\<lambda>o'.
       let config = jsonObject (json_at o' ''Config'');
           labels = foldl (\<lambda>m (k, v). put k v m) (jsonStringMap (json_at o' ''Labels''))
             (jsonStringMap (json_at config ''Labels''));
           named = jsonString (json_at o' ''ImageName'');
           ref = (if named = [] \<or> has_prefix ''sha256:'' named then jsonString (json_at config ''Image'') else named) in
       \<lparr>in_ImageRef = (if has_prefix ''sha256:'' ref then [] else ref), in_ImageID = jsonString (json_at o' ''Image''),
        in_Labels = labels, in_Elevated = False\<rparr>)
       (parseJSONObject he out)"

definition inspectContainer :: "daemon_host \<Rightarrow> string \<Rightarrow> string \<Rightarrow> string + containerInspect" where
  "inspectContainer he p i =
     rbind (runRuntimeReadStore he containerInspectBytes p [''inspect'', ''--format'', ''{{json .}}'', i]) (\<lambda>(out, elevated).
       case parseContainerInspect he out of
         None \<Rightarrow> Inl ''runtime returned an unexpected payload''
       | Some c \<Rightarrow> Inr (c\<lparr>in_Elevated := elevated\<rparr>))"

record containerImageInfo =
  im_ID :: string
  im_RepoDigests :: "string list"

definition imageInfo :: "daemon_host \<Rightarrow> string \<Rightarrow> string \<Rightarrow> string + containerImageInfo" where
  "imageInfo he p ref =
     rbind (runRuntimeReadStore he containerInspectBytes p [''image'', ''inspect'', ''--format'', ''{{json .}}'', ref]) (\<lambda>(out, _).
       case parseJSONObject he out of
         None \<Rightarrow> Inl ''runtime returned an unexpected payload''
       | Some o' \<Rightarrow>
           (let i = jsonString (json_at o' ''Id'');
                entries = (case json_at o' ''RepoDigests'' of JArr es \<Rightarrow> es | _ \<Rightarrow> []) in
            Inr \<lparr>im_ID = (if i = [] then jsonString (json_at o' ''ID'') else i),
                 im_RepoDigests = filter (\<lambda>s. s \<noteq> []) (map jsonString entries)\<rparr>))"

end
