(* ===== verification/Ops_Compose.thy ===== *)
theory Ops_Compose
  imports Daemon_Host Compose_Stacks Image_Ref Ops_Run Priv_Grants
begin

text \<open>
  The compose half of native operations (\<open>internal/daemon/ops.go\<close>, with the tools of
  \<open>compose_stacks.go\<close> and the listing of \<open>collectors.go\<close>): what a container's labels are taken to
  say, which store a project lives in, which command runs a compose step there, and which
  containers a stack update recreates.
\<close>

section \<open>Why an operation is refused\<close>

datatype compose_refusal =
    NotComposeManaged
  | InvalidComposeLabels
  | NoWorkingDirectory string
  | InvalidDirectory
  | NotManaged string
  | OutOfReach
  | CommandFailed string
  | BadLine string string
  | LineTooLong
  | CannotRead string compose_refusal
  | InSeveralStores string "string list"
  | NoRuntime
  | StepNotGranted string string string
  | PullNotGranted string string

definition em_dash :: string where
  "em_dash = '' '' @ [CHR 0xE2, CHR 0x80, CHR 0x94] @ '' ''"

fun refusal_text :: "compose_refusal \<Rightarrow> string" where
  "refusal_text NotComposeManaged = ''the container is not compose-managed''"
| "refusal_text InvalidComposeLabels = ''the container''@[CHR 0x27]@''s compose labels name an invalid project or service''"
| "refusal_text (NoWorkingDirectory p) =
     ''the container''@[CHR 0x27]@''s compose labels record no usable working directory, and project '' @ fmt_q p @
     '' is not a stack this daemon manages'' @ em_dash @ ''run a compose scan to assign it''"
| "refusal_text InvalidDirectory = ''invalid compose directory''"
| "refusal_text (NotManaged p) =
     ''project '' @ fmt_q p @ '' is not a stack this daemon manages; run a compose scan to assign it, or send the directory''"
| "refusal_text OutOfReach =
     ''root''@[CHR 0x27]@''s store is out of reach for this daemon: '' @ [CHR 0x60] @ ''sudo'' @ [CHR 0x60] @ '' is not installed''"
| "refusal_text (CommandFailed e) = e"
| "refusal_text (BadLine line e) = ''container line '' @ fmt_q line @ '': '' @ e"
| "refusal_text LineTooLong = ''bufio.Scanner: token too long''"
| "refusal_text (CannotRead store e) =
     ''cannot read '' @ store @ '' ('' @ refusal_text e @ ''), and a project that might be there must not be written a second time''"
| "refusal_text (InSeveralStores p stores) =
     ''project '' @ fmt_q p @ '' exists in more than one store ('' @ join_with ''; '' stores @
     ''); this daemon will not choose between them'' @ em_dash @ ''remove the copy you do not want, then try again''"
| "refusal_text NoRuntime = ''no container runtime available''"
| "refusal_text (StepNotGranted p store tool) =
     ''project '' @ fmt_q p @ '' lives in '' @ store @ '', and the compose tool that runs there'' @ em_dash @ tool @ em_dash @
     ''may not be run through '' @ [CHR 0x60] @ ''sudo -n'' @ [CHR 0x60] @ '' on this host; grant it (for example '' @ [CHR 0x60] @
     ''maidcafe ALL=(root) NOPASSWD: '' @ tool @ [CHR 0x60] @
     '' in a file under /etc/sudoers.d/) or run the step yourself as root''"
| "refusal_text (PullNotGranted store p) =
     ''the container lives in '' @ store @ '', and '' @ [CHR 0x60] @ ''sudo -n'' @ [CHR 0x60] @ '' may not run '' @ p @
     '' on this host; grant it (for example '' @ [CHR 0x60] @ ''maidcafe ALL=(root) NOPASSWD: '' @ p @ [CHR 0x60] @
     '' in a file under /etc/sudoers.d/) or pull the image yourself''"

section \<open>Patterns\<close>

definition name_char :: "char \<Rightarrow> bool" where
  "name_char c \<longleftrightarrow> is_alnum c \<or> c = CHR ''_'' \<or> c = CHR ''.'' \<or> c = CHR ''-''"

definition nativeProjectPattern :: "string \<Rightarrow> bool" where
  "nativeProjectPattern s = (case s of [] \<Rightarrow> False | c # cs \<Rightarrow> is_alnum c \<and> list_all name_char cs)"

definition nativeContainerRefPattern :: "string \<Rightarrow> bool" where
  "nativeContainerRefPattern s =
     (case s of [] \<Rightarrow> False | c # cs \<Rightarrow> is_alnum c \<and> list_all (\<lambda>c. name_char c \<or> c = CHR '':'') cs)"

definition nativeDirectoryPattern :: "string \<Rightarrow> bool" where
  "nativeDirectoryPattern s =
     (case s of [] \<Rightarrow> False | c # cs \<Rightarrow> c = slash \<and> cs \<noteq> [] \<and> list_all (\<lambda>c. name_char c \<or> c = slash) cs)"

definition validNativeDirectory :: "string \<Rightarrow> bool" where
  "validNativeDirectory v \<longleftrightarrow> v \<noteq> [] \<and> \<not> contains ''..'' v \<and> nativeDirectoryPattern v"

section \<open>Labels\<close>

type_synonym labels = "(string \<times> string) list"

definition label_at :: "labels \<Rightarrow> string \<Rightarrow> string" where
  "label_at ls k = (case map_of ls k of None \<Rightarrow> [] | Some v \<Rightarrow> v)"

definition text_label :: "labels \<Rightarrow> string \<Rightarrow> labels" where
  "text_label m part =
     (case cut_first (CHR ''='') (trim_space part) of
        Some (k, v) \<Rightarrow> if k \<noteq> [] then put k v m else m
      | None \<Rightarrow> m)"

definition parseContainerLabels :: "labels_json \<Rightarrow> labels" where
  "parseContainerLabels j =
     (case j of LabelObject ls \<Rightarrow> ls | LabelText t \<Rightarrow> foldl text_label [] (split_on (CHR '','') t) | NoLabels \<Rightarrow> [])"

definition parseNames :: "names_json \<Rightarrow> string list" where
  "parseNames j = (case j of NameList ns \<Rightarrow> ns | NameText n \<Rightarrow> if n \<noteq> [] then [n] else [] | NoNames \<Rightarrow> [])"

definition composeLabel :: "labels \<Rightarrow> string \<Rightarrow> string" where
  "composeLabel ls key =
     (let v = trim_space (label_at ls (''com.docker.compose.'' @ key)) in
      if v \<noteq> [] then v else trim_space (label_at ls (''io.podman.compose.'' @ key)))"

definition validComposeLabelPath :: "string \<Rightarrow> bool" where
  "validComposeLabelPath v \<longleftrightarrow>
     \<not> contains_any v [CHR 0x00, CHR 0x0A, CHR 0x0D] \<and> ''..'' \<notin> set (split_on slash v)"

definition validComposeLabelDirectory :: "string \<Rightarrow> bool" where
  "validComposeLabelDirectory v \<longleftrightarrow> v \<noteq> [] \<and> is_abs v \<and> validComposeLabelPath v"

definition validComposeLabelFile :: "string \<Rightarrow> bool" where
  "validComposeLabelFile v \<longleftrightarrow> v \<noteq> [] \<and> validComposeLabelPath v"

definition resolveComposeFile :: "string \<Rightarrow> string \<Rightarrow> string option" where
  "resolveComposeFile directory f =
     (if is_abs f then Some f else if directory = [] then None else Some (path_join directory f))"

record composeUpdateTarget =
  ct_Project :: string
  ct_Service :: string
  ct_Directory :: string
  ct_Files :: "string list"

definition composeUpdateTargetFromLabels :: "labels \<Rightarrow> compose_refusal + composeUpdateTarget" where
  "composeUpdateTargetFromLabels ls =
     (let project = composeLabel ls ''project''; service = composeLabel ls ''service'';
          directory = composeLabel ls ''project.working_dir'' in
      if project = [] \<or> service = [] then Inl NotComposeManaged
      else if \<not> nativeProjectPattern project \<or> \<not> nativeProjectPattern service then Inl InvalidComposeLabels
      else Inr \<lparr>ct_Project = project, ct_Service = service,
                ct_Directory = (if validComposeLabelDirectory directory then directory else []),
                ct_Files = filter (\<lambda>f. f \<noteq> [] \<and> validComposeLabelFile f)
                  (map trim_space (split_on (CHR '','') (composeLabel ls ''project.config_files'')))\<rparr>)"

text \<open>The project directory the labels leave out, and the directory of a compose action.\<close>

definition composeTargetDirectory :: "stack_store option \<Rightarrow> composeUpdateTarget \<Rightarrow> compose_refusal + composeUpdateTarget" where
  "composeTargetDirectory registry t =
     (if ct_Directory t \<noteq> [] then Inr t
      else case Option.bind registry (\<lambda>st. stack_Get st (ct_Project t)) of
        None \<Rightarrow> Inl (NoWorkingDirectory (ct_Project t))
      | Some s \<Rightarrow> Inr (t\<lparr>ct_Directory := cs_Directory s, ct_Files := (if ct_Files t = [] then cs_Files s else ct_Files t)\<rparr>))"

definition composeDirectory :: "stack_store option \<Rightarrow> string \<Rightarrow> string \<Rightarrow> compose_refusal + string \<times> string list" where
  "composeDirectory registry project directory =
     (if directory \<noteq> [] then (if validNativeDirectory directory then Inr (directory, []) else Inl InvalidDirectory)
      else case Option.bind registry (\<lambda>st. stack_Get st project) of
        None \<Rightarrow> Inl (NotManaged project)
      | Some s \<Rightarrow> Inr (cs_Directory s, cs_Files s))"

section \<open>Stores\<close>

record composeStore =
  cst_Runtime :: string
  cst_Path :: string
  cst_Elevated :: bool

definition store_describe :: "composeStore \<Rightarrow> string" where
  "store_describe s = cst_Runtime s @ (if cst_Elevated s then '' in root's store'' else '' in the daemon user's own store'')"

definition runStoreCommand :: "daemon_host \<Rightarrow> composeStore \<Rightarrow> string list \<Rightarrow> compose_refusal + bytes" where
  "runStoreCommand he s args =
     (if \<not> cst_Elevated s then map_err CommandFailed (he_command he (cst_Path s # args))
      else case elevationAttempt he (cst_Path s) args of
        None \<Rightarrow> Inl OutOfReach
      | Some argv \<Rightarrow> map_err CommandFailed (he_command he argv))"

definition runtime_stores :: "daemon_host \<Rightarrow> string \<Rightarrow> composeStore list" where
  "runtime_stores he runtime =
     (case he_runtimes he runtime of
        None \<Rightarrow> []
      | Some p \<Rightarrow>
          \<lparr>cst_Runtime = runtime, cst_Path = p, cst_Elevated = False\<rparr> #
          (if elevationAttempt he p [] = None then []
           else [\<lparr>cst_Runtime = runtime, cst_Path = p, cst_Elevated = True\<rparr>]))"

definition composeStores :: "daemon_host \<Rightarrow> composeStore list" where
  "composeStores he = concat (map (runtime_stores he) [''podman'', ''docker''])"

subsection \<open>The containers of a project\<close>

record projectContainer =
  pc_id :: string
  pc_name :: string
  pc_image :: string
  pc_state :: string
  pc_status :: string
  pc_project :: string
  pc_service :: string

definition MaxScanTokenSize :: nat where "MaxScanTokenSize = 65536"

text \<open>\<open>bufio.Scanner\<close> gives the lines up to one that does not fit its buffer, and then fails.\<close>

definition container_of :: "container_line \<Rightarrow> projectContainer" where
  "container_of raw =
     (let ls = parseContainerLabels (cl_Labels raw); names = parseNames (cl_Names raw) in
      \<lparr>pc_id = (if cl_ID raw = [] then cl_Id raw else cl_ID raw), pc_name = (if names = [] then [] else hd names),
       pc_image = cl_Image raw, pc_state = cl_State raw, pc_status = cl_Status raw,
       pc_project = composeLabel ls ''project'', pc_service = composeLabel ls ''service''\<rparr>)"

definition fact_line ::
  "daemon_host \<Rightarrow> string \<Rightarrow> projectContainer list \<Rightarrow> string \<Rightarrow> compose_refusal + projectContainer list" where
  "fact_line he project acc text =
     (if MaxScanTokenSize \<le> length text then Inl LineTooLong
      else let line = trim_space text in
        if line = [] then Inr acc
        else case he_line he line of
          Inl e \<Rightarrow> Inl (BadLine line e)
        | Inr raw \<Rightarrow> Inr (if equal_fold (pc_project (container_of raw)) project then acc @ [container_of raw] else acc))"

definition storeProjectContainerFacts ::
  "daemon_host \<Rightarrow> composeStore \<Rightarrow> string \<Rightarrow> compose_refusal + projectContainer list" where
  "storeProjectContainerFacts he store project =
     rbind (runStoreCommand he store [''ps'', ''-a'', ''--no-trunc'', ''--format'', ''{{json .}}'']) (\<lambda>out.
       rfold (fact_line he project) [] (split_on (CHR 0x0A) out))"

text \<open>
  Which of a project's containers do not run the image their reference points at. \<open>resolved\<close> is
  the map of references already asked; the empty string stands for one that resolves to nothing.
\<close>

definition wanted_image :: "daemon_host \<Rightarrow> composeStore \<Rightarrow> string \<Rightarrow> string" where
  "wanted_image he store img =
     (case runStoreCommand he store [''image'', ''inspect'', ''--format'', ''{{.Id}}'', img] of
        Inl _ \<Rightarrow> [] | Inr out \<Rightarrow> trim_space out)"

fun behind_loop ::
  "daemon_host \<Rightarrow> composeStore \<Rightarrow> (string \<times> string) list \<Rightarrow> projectContainer list \<Rightarrow> projectContainer list" where
  "behind_loop he store resolved [] = []"
| "behind_loop he store resolved (c # cs) =
     (case runStoreCommand he store [''inspect'', ''--format'', ''{{.Image}}'', pc_id c] of
        Inl _ \<Rightarrow> behind_loop he store resolved cs
      | Inr running \<Rightarrow>
          (let wanted = (case map_of resolved (pc_image c) of Some w \<Rightarrow> w | None \<Rightarrow> wanted_image he store (pc_image c));
               rest = behind_loop he store (put (pc_image c) wanted resolved) cs in
           if wanted \<noteq> [] \<and> trim_space running = wanted \<and> pc_state c = ''running'' then rest else c # rest))"

definition storeProjectContainersBehind ::
  "daemon_host \<Rightarrow> composeStore \<Rightarrow> string \<Rightarrow> compose_refusal + projectContainer list \<times> bool" where
  "storeProjectContainersBehind he store project =
     rbind (storeProjectContainerFacts he store project) (\<lambda>cs.
       Inr (if cs = [] then ([], False) else (behind_loop he store [] cs, True)))"

subsection \<open>Which store holds the project\<close>

definition summary_of :: "projectContainer \<Rightarrow> string" where
  "summary_of c =
     (let name = (if pc_name c \<noteq> [] then pc_name c else take 12 (pc_id c)) in
      name @ '' ('' @ (if pc_state c = [] then ''unknown'' else pc_state c) @ '')'')"

definition summarizeContainers :: "projectContainer list \<Rightarrow> string" where
  "summarizeContainers cs =
     join_with '', '' (map summary_of (take 4 cs) @
       (if 4 < length cs then [''and '' @ dec_digits (length cs - 4) @ '' more''] else []))"

text \<open>
  A store that does not answer is skipped, unless root's store could have been read: then the
  daemon cannot tell whether the project is there.
\<close>

definition presence ::
  "daemon_host \<Rightarrow> string \<Rightarrow> (composeStore \<times> projectContainer list) list \<Rightarrow> composeStore
     \<Rightarrow> compose_refusal + (composeStore \<times> projectContainer list) list" where
  "presence he project found store =
     (case storeProjectContainerFacts he store project of
        Inl e \<Rightarrow> if cst_Elevated store \<and> sudoRuns he (cst_Path store)
                 then Inl (CannotRead (store_describe store) e) else Inr found
      | Inr [] \<Rightarrow> Inr found
      | Inr cs \<Rightarrow> Inr (found @ [(store, cs)]))"

definition composeProjectStores ::
  "daemon_host \<Rightarrow> string \<Rightarrow> compose_refusal + (composeStore \<times> projectContainer list) list" where
  "composeProjectStores he project = rfold (presence he project) [] (composeStores he)"

definition first_runtime :: "daemon_host \<Rightarrow> composeStore option" where
  "first_runtime he =
     (case he_runtimes he ''podman'' of
        Some p \<Rightarrow> Some \<lparr>cst_Runtime = ''podman'', cst_Path = p, cst_Elevated = False\<rparr>
      | None \<Rightarrow> map_option (\<lambda>p. \<lparr>cst_Runtime = ''docker'', cst_Path = p, cst_Elevated = False\<rparr>) (he_runtimes he ''docker''))"

definition composeProjectStore :: "daemon_host \<Rightarrow> string \<Rightarrow> composeStore option \<Rightarrow> compose_refusal + composeStore" where
  "composeProjectStore he project fallback =
     rbind (composeProjectStores he project) (\<lambda>found.
       case found of
         [(store, _)] \<Rightarrow> Inr store
       | [] \<Rightarrow> (case fallback of
                 Some s \<Rightarrow> Inr s
               | None \<Rightarrow> (case first_runtime he of Some s \<Rightarrow> Inr s | None \<Rightarrow> Inl NoRuntime))
       | _ \<Rightarrow> Inl (InSeveralStores project
                 (map (\<lambda>(s, cs). store_describe s @ '': '' @ summarizeContainers cs) found)))"

section \<open>The commands\<close>

definition runtimeName :: "string \<Rightarrow> string" where
  "runtimeName p =
     (let name = to_lower (path_base_name p) in
      if contains ''podman'' name then ''podman'' else if contains ''docker'' name then ''docker'' else [])"

definition composeToolName :: "string \<Rightarrow> string" where
  "composeToolName p =
     (if runtimeName p = ''podman'' then ''podman-compose''
      else if runtimeName p = ''docker'' then ''docker-compose'' else [])"

definition standaloneComposePath :: "daemon_host \<Rightarrow> string \<Rightarrow> string option" where
  "standaloneComposePath he p = (if composeToolName p = [] then None else he_look he (composeToolName p))"

text \<open>A tool is its command and the words before the compose arguments.\<close>

definition composeTools :: "daemon_host \<Rightarrow> string \<Rightarrow> (string \<times> string list) list" where
  "composeTools he p =
     (case standaloneComposePath he p of
        None \<Rightarrow> [(p, [''compose''])]
      | Some direct \<Rightarrow>
          if composeToolName p = ''podman-compose'' then [(direct, []), (p, [''compose''])]
          else [(p, [''compose'']), (direct, [])])"

definition composeToolResolution :: "daemon_host \<Rightarrow> string \<Rightarrow> string" where
  "composeToolResolution he p =
     (case composeTools he p of [] \<Rightarrow> [] | (c, prefix) # _ \<Rightarrow> join_with '' '' (path_base_name c # prefix))"

definition compose_files :: "composeUpdateTarget \<Rightarrow> string list" where
  "compose_files t =
     concat (map (\<lambda>f. case resolveComposeFile (ct_Directory t) f of None \<Rightarrow> [] | Some r \<Rightarrow> [r]) (ct_Files t))"

definition compose_argv :: "composeUpdateTarget \<Rightarrow> string list \<Rightarrow> string list \<Rightarrow> string list" where
  "compose_argv t prefix args =
     prefix @ [''-p'', ct_Project t] @ concat (map (\<lambda>f. [''-f'', f]) (compose_files t)) @ args"

text \<open>The loop over the tools: in root's store it stops at the first tool that sudo does not run.\<close>

fun tool_attempts ::
  "daemon_host \<Rightarrow> composeStore \<Rightarrow> composeUpdateTarget \<Rightarrow> string list \<Rightarrow> op_attempt list \<Rightarrow> (string \<times> string list) list
     \<Rightarrow> compose_refusal + op_attempt list" where
  "tool_attempts he store t args acc [] = Inr acc"
| "tool_attempts he store t args acc ((command, prefix) # tools) =
     (let inner = compose_argv t prefix args in
      if \<not> cst_Elevated store then
        tool_attempts he store t args
          (acc @ [\<lparr>oa_command = command, oa_args = inner, oa_cwd = ct_Directory t, oa_env = []\<rparr>]) tools
      else if \<not> sudoRuns he command then
        (if acc \<noteq> [] then Inr acc else Inl (StepNotGranted (ct_Project t) (store_describe store) command))
      else tool_attempts he store t args
        (acc @ [\<lparr>oa_command = ''sudo'', oa_args = [''-n'', command] @ inner, oa_cwd = ct_Directory t, oa_env = []\<rparr>]) tools)"

definition composeAttempts ::
  "daemon_host \<Rightarrow> composeStore \<Rightarrow> composeUpdateTarget \<Rightarrow> string list \<Rightarrow> compose_refusal + op_attempt list" where
  "composeAttempts he store t args = tool_attempts he store t args [] (composeTools he (cst_Path store))"

definition runtimePullAttempts :: "daemon_host \<Rightarrow> composeStore \<Rightarrow> string \<Rightarrow> compose_refusal + op_attempt list" where
  "runtimePullAttempts he store imageRef =
     (if \<not> cst_Elevated store then
        Inr [\<lparr>oa_command = cst_Path store, oa_args = [''pull'', imageRef], oa_cwd = [], oa_env = []\<rparr>]
      else if \<not> sudoRuns he (cst_Path store) then Inl (PullNotGranted (store_describe store) (cst_Path store))
      else Inr [\<lparr>oa_command = ''sudo'', oa_args = [''-n'', cst_Path store, ''pull'', imageRef], oa_cwd = [], oa_env = []\<rparr>])"

definition recreate_verb :: "string list" where
  "recreate_verb = [''up'', ''-d'', ''--force-recreate'']"

text \<open>The services of the containers, each once; none when a container names no service.\<close>

fun services_named :: "string list \<Rightarrow> projectContainer list \<Rightarrow> string list option" where
  "services_named services [] = Some services"
| "services_named services (c # cs) =
     (if pc_service c = [] then None
      else services_named (if pc_service c \<in> set services then services else services @ [pc_service c]) cs)"

definition composeUpdateRecreate ::
  "daemon_host \<Rightarrow> composeStore \<Rightarrow> composeUpdateTarget \<Rightarrow> compose_refusal + op_attempt list" where
  "composeUpdateRecreate he store t =
     rbind (storeProjectContainersBehind he store (ct_Project t)) (\<lambda>(behind, present).
       if \<not> present then composeAttempts he store t recreate_verb
       else case services_named [] behind of
         None \<Rightarrow> composeAttempts he store t recreate_verb
       | Some [] \<Rightarrow> Inr []
       | Some services \<Rightarrow> composeAttempts he store t (recreate_verb @ services))"

end
