(* ===== verification/Ops_Plan.thy ===== *)
theory Ops_Plan
  imports Ops_Compose Priv_Packages Priv_Firewall Priv_Cli
begin

text \<open>
  Planning a native operation (\<open>internal/daemon/ops.go\<close>): the parameters read from a request, the
  validation of each family, the command lines and their alternatives, and the routing of a family
  through the privileged helper. Planning runs nothing but short reads; the stages it builds are run
  by \<open>Ops_Run\<close>.
\<close>

section \<open>Tables\<close>

definition nativeContainerVerbs :: "(string \<times> string) list" where
  "nativeContainerVerbs =
     [(''start'', ''start''), (''stop'', ''stop''), (''restart'', ''restart''), (''pause'', ''pause''),
      (''unpause'', ''unpause''), (''kill'', ''kill''), (''remove'', ''rm'')]"

definition nativeSystemdVerbs :: "(string \<times> string) list" where
  "nativeSystemdVerbs =
     [(''start'', ''start''), (''stop'', ''stop''), (''restart'', ''restart''), (''reload'', ''reload''),
      (''enable'', ''enable''), (''disable'', ''disable'')]"

definition nativeComposeVerbs :: "(string \<times> string) list" where
  "nativeComposeVerbs =
     [(''up'', ''up -d''), (''stop'', ''stop''), (''restart'', ''restart''), (''pull'', ''pull''),
      (''recreate'', ''up -d --force-recreate'')]"

text \<open>\<open>config.NativeOpNames\<close>: the names a relay, the pipe or a job may dispatch.\<close>

definition NativeOpNames :: "string list" where
  "NativeOpNames =
     [''container.start'', ''container.stop'', ''container.restart'', ''container.pause'', ''container.unpause'',
      ''container.kill'', ''container.remove'', ''container.pull'', ''container.update'', ''process.kill'',
      ''systemd.start'', ''systemd.stop'', ''systemd.restart'', ''systemd.reload'', ''systemd.enable'',
      ''systemd.disable'', ''package.refresh'', ''package.upgrade'', ''package.install'', ''package.remove'',
      ''firewall.enable'', ''firewall.disable'', ''firewall.allow'', ''firewall.deny'', ''firewall.delete'',
      ''compose.up'', ''compose.stop'', ''compose.restart'', ''compose.pull'', ''compose.recreate'']"

definition isNativeOpSlug :: "string \<Rightarrow> bool" where
  "isNativeOpSlug name \<longleftrightarrow> name \<in> set NativeOpNames"

section \<open>Parameters\<close>

record opParams =
  op_target :: string
  op_pid :: int
  op_force :: bool
  op_directory :: string
  op_name :: string
  op_port :: string
  op_protocol :: string
  op_source :: string
  op_ruleAction :: string

definition no_params :: opParams where
  "no_params = \<lparr>op_target = [], op_pid = 0, op_force = False, op_directory = [], op_name = [], op_port = [],
     op_protocol = [], op_source = [], op_ruleAction = []\<rparr>"

definition json_text :: "(string \<times> json) list \<Rightarrow> string \<Rightarrow> string" where
  "json_text vs k = (case json_at vs k of JStr s \<Rightarrow> s | _ \<Rightarrow> [])"

definition json_flag :: "(string \<times> json) list \<Rightarrow> string \<Rightarrow> bool" where
  "json_flag vs k = (json_at vs k = JBool True)"

text \<open>A number is already truncated, as \<open>int(v)\<close> does to a \<open>float64\<close>; \<open>Atoi\<close> of a bad text gives zero.\<close>

definition json_pid :: "(string \<times> json) list \<Rightarrow> int" where
  "json_pid vs =
     (case json_at vs ''pid'' of
        JNum n \<Rightarrow> n
      | JStr s \<Rightarrow> (case atoi s of None \<Rightarrow> 0 | Some n \<Rightarrow> n)
      | _ \<Rightarrow> 0)"

definition nativeParamsFromValues :: "string \<Rightarrow> (string \<times> json) list \<Rightarrow> opParams" where
  "nativeParamsFromValues slug vs =
     (if has_prefix ''container.'' slug then
        no_params\<lparr>op_target := json_text vs ''id'', op_force := json_flag vs ''force''\<rparr>
      else if slug = ''process.kill'' then no_params\<lparr>op_pid := json_pid vs\<rparr>
      else if has_prefix ''systemd.'' slug then no_params\<lparr>op_target := json_text vs ''unit''\<rparr>
      else if has_prefix ''compose.'' slug then
        no_params\<lparr>op_target := json_text vs ''project'', op_directory := json_text vs ''directory''\<rparr>
      else if has_prefix ''package.'' slug then no_params\<lparr>op_name := json_text vs ''name''\<rparr>
      else if has_prefix ''firewall.'' slug then
        no_params\<lparr>op_port := json_text vs ''port'', op_protocol := json_text vs ''protocol'',
          op_source := json_text vs ''source'', op_ruleAction := json_text vs ''rule_action''\<rparr>
      else no_params)"

section \<open>The environment of a plan\<close>

text \<open>How root is reached: the helper's path, the prefix that runs it, and the families routed to it.\<close>

record opPrivPolicy =
  pp_helper :: string
  pp_sudo :: "string list"
  pp_systemd :: bool
  pp_packages :: bool
  pp_firewall :: bool

text \<open>
  \<open>pe_after\<close> is the host once the given attempts have run: the second stage of a stack update is
  built from what it answers then.
\<close>

record plan_env =
  pe_host :: daemon_host
  pe_after :: "op_attempt list \<Rightarrow> daemon_host"
  pe_registry :: "stack_store option"
  pe_priv :: "opPrivPolicy option"
  pe_timeout :: time

definition newPrivRunner :: "daemon_host \<Rightarrow> string list option" where
  "newPrivRunner he = (if he_root he then Some [] else if he_look he ''sudo'' = None then None else Some [''sudo'', ''-n''])"

definition SetPrivilegedPolicy :: "string \<Rightarrow> bool \<Rightarrow> bool \<Rightarrow> bool \<Rightarrow> string list option \<Rightarrow> opPrivPolicy option" where
  "SetPrivilegedPolicy helper systemd packages firewall runner =
     map_option (\<lambda>sudo. \<lparr>pp_helper = helper, pp_sudo = sudo, pp_systemd = systemd, pp_packages = packages,
                         pp_firewall = firewall\<rparr>) runner"

definition runner_argv :: "string list \<Rightarrow> string \<Rightarrow> string list \<Rightarrow> string list" where
  "runner_argv sudo path args = sudo @ path # args"

definition sudoAttempt :: "daemon_host \<Rightarrow> string list option" where
  "sudoAttempt he = (if he_root he then None else if he_look he ''sudo'' = None then None else Some [''sudo'', ''-n''])"

definition attempt_of :: "string list \<Rightarrow> op_attempt" where
  "attempt_of argv = \<lparr>oa_command = hd argv, oa_args = tl argv, oa_cwd = [], oa_env = []\<rparr>"

text \<open>A direct call, and the same through \<open>sudo\<close> when there is one.\<close>

definition direct_and_sudo :: "daemon_host \<Rightarrow> string \<Rightarrow> string list \<Rightarrow> string list \<Rightarrow> op_attempt list" where
  "direct_and_sudo he command args env =
     \<lparr>oa_command = command, oa_args = args, oa_cwd = [], oa_env = env\<rparr> #
     (case sudoAttempt he of
        None \<Rightarrow> []
      | Some sudo \<Rightarrow> [\<lparr>oa_command = hd sudo, oa_args = tl sudo @ command # args, oa_cwd = [], oa_env = env\<rparr>])"

section \<open>The helper's attempts\<close>

definition normalizeProtocol :: "string \<Rightarrow> string" where
  "normalizeProtocol v = (let p = to_lower (trim_space v) in if p = [] then ''any'' else p)"

definition normalizeSource :: "string \<Rightarrow> string" where
  "normalizeSource v = (let p = trim_space v in if p = [] then ''any'' else p)"

definition helper_attempt :: "opPrivPolicy option \<Rightarrow> (opPrivPolicy \<Rightarrow> bool) \<Rightarrow> string list \<Rightarrow> op_attempt option" where
  "helper_attempt policy routed args =
     (case policy of
        None \<Rightarrow> None
      | Some p \<Rightarrow> if \<not> routed p then None else Some (attempt_of (runner_argv (pp_sudo p) (pp_helper p) args)))"

definition systemdHelperAttempt :: "opPrivPolicy option \<Rightarrow> string \<Rightarrow> string \<Rightarrow> op_attempt option" where
  "systemdHelperAttempt policy verb unit_name = helper_attempt policy pp_systemd [''systemd'', verb, unit_name]"

definition packageHelperAttempt :: "opPrivPolicy option \<Rightarrow> string \<Rightarrow> string \<Rightarrow> op_attempt option" where
  "packageHelperAttempt policy verb name =
     helper_attempt policy pp_packages ([''packages'', verb] @ (if name = [] then [] else [name]))"

definition firewall_args :: "string \<Rightarrow> opParams \<Rightarrow> string list" where
  "firewall_args verb ps =
     [''firewall'', verb] @
     (if verb = ''allow'' \<or> verb = ''deny'' \<or> verb = ''delete'' then
        (if verb = ''delete'' then [op_ruleAction ps] else []) @
        [op_port ps, normalizeProtocol (op_protocol ps), normalizeSource (op_source ps)]
      else [])"

definition firewallHelperAttempt :: "opPrivPolicy option \<Rightarrow> string \<Rightarrow> opParams \<Rightarrow> op_attempt option" where
  "firewallHelperAttempt policy verb ps = helper_attempt policy pp_firewall (firewall_args verb ps)"

definition detectPackageManager :: "daemon_host \<Rightarrow> string option" where
  "detectPackageManager he =
     find (\<lambda>m. case PackageCommand m ''refresh'' [] of Inl _ \<Rightarrow> False | Inr argv \<Rightarrow> he_look he (hd argv) \<noteq> None)
       PackageManagerPreference"

definition detectFirewallBackend :: "daemon_host \<Rightarrow> string option" where
  "detectFirewallBackend he = find (\<lambda>b. he_look he (FirewallBinaryFor b) \<noteq> None) FirewallBackendPreference"

section \<open>The container an operation is about\<close>

record opContainerResolution =
  oc_Runtime :: string
  oc_Path :: string
  oc_ImageRef :: string
  oc_Labels :: labels
  oc_Elevated :: bool

datatype op_refusal =
    Compose compose_refusal
  | NoImageReference string
  | ResolveFailed string string
  | UnusableImage ref_error
  | NotRecreatable compose_refusal string
  | UnknownAction string
  | InvalidContainer
  | InvalidProcess
  | InvalidUnit
  | InvalidPackageName
  | TakesNoPackage
  | NoPackageManager
  | InvalidPackageAction
  | BadRule rule_error
  | NoFirewall
  | BadFirewall grant_error
  | NotInstalled string
  | InvalidProject
  | UnknownOperation
  | NoAttempts

fun resolve_loop ::
  "daemon_host \<Rightarrow> string \<Rightarrow> string option \<Rightarrow> string list \<Rightarrow> op_refusal + opContainerResolution" where
  "resolve_loop he target lastErr [] =
     (case lastErr of None \<Rightarrow> Inl (Compose NoRuntime) | Some e \<Rightarrow> Inl (ResolveFailed target e))"
| "resolve_loop he target lastErr (runtime # rest) =
     (case he_runtimes he runtime of
        None \<Rightarrow> resolve_loop he target lastErr rest
      | Some p \<Rightarrow>
          (case inspectContainer he p target of
             Inl e \<Rightarrow> resolve_loop he target (Some e) rest
           | Inr info \<Rightarrow>
               if in_ImageRef info = [] then Inl (NoImageReference target)
               else Inr \<lparr>oc_Runtime = runtime, oc_Path = p, oc_ImageRef = in_ImageRef info,
                         oc_Labels = in_Labels info, oc_Elevated = in_Elevated info\<rparr>))"

definition resolveOpContainer :: "daemon_host \<Rightarrow> string \<Rightarrow> op_refusal + opContainerResolution" where
  "resolveOpContainer he target = resolve_loop he target None [''podman'', ''docker'']"

definition store_of :: "opContainerResolution \<Rightarrow> composeStore" where
  "store_of r = \<lparr>cst_Runtime = oc_Runtime r, cst_Path = oc_Path r, cst_Elevated = oc_Elevated r\<rparr>"

section \<open>The families\<close>

type_synonym request_error = "nat \<times> op_refusal"

record nativeOpPlan =
  np_stages :: "stage_plan list"
  np_target :: string
  np_timeout :: time

definition slowOpTimeout :: time where "slowOpTimeout = seconds 300"

definition slow :: "time \<Rightarrow> time" where
  "slow t = (if t < slowOpTimeout then slowOpTimeout else t)"

definition bad :: "op_refusal + 'a \<Rightarrow> request_error + 'a" where
  "bad r = map_err (\<lambda>e. (400, e)) r"

definition planned :: "string \<Rightarrow> op_attempt list \<Rightarrow> stage_plan" where
  "planned label attempts = \<lparr>sp_label = label, sp_attempts = attempts, sp_build = None, sp_idle = []\<rparr>"

definition nativeOpVerb :: "string \<Rightarrow> string" where
  "nativeOpVerb slug = (case cut_first (CHR ''.'') slug of None \<Rightarrow> slug | Some (_, verb) \<Rightarrow> verb)"

text \<open>The end of \<open>planNativeOp\<close> for an operation of one stage.\<close>

definition one_stage :: "string \<Rightarrow> time \<Rightarrow> string \<times> op_attempt list \<Rightarrow> request_error + nativeOpPlan" where
  "one_stage slug timeout ta =
     (case ta of (target, attempts) \<Rightarrow>
        if attempts = [] then Inl (502, NoAttempts)
        else Inr \<lparr>np_stages = [planned (nativeOpVerb slug) attempts], np_target = target, np_timeout = timeout\<rparr>)"

subsection \<open>\<open>container.pull\<close> and \<open>container.update\<close>\<close>

definition plan_pull :: "plan_env \<Rightarrow> opContainerResolution \<Rightarrow> request_error + string \<times> op_attempt list" where
  "plan_pull pe r =
     bad (map_err Compose (map_sum id (\<lambda>as. (oc_ImageRef r, as))
       (runtimePullAttempts (pe_host pe) (store_of r) (oc_ImageRef r))))"

definition plan_update :: "plan_env \<Rightarrow> string \<Rightarrow> opContainerResolution \<Rightarrow> request_error + nativeOpPlan" where
  "plan_update pe target r =
     (let he = pe_host pe in
      rbind (bad (map_err (\<lambda>e. NotRecreatable e (oc_Runtime r))
        (rbind (composeUpdateTargetFromLabels (oc_Labels r)) (composeTargetDirectory (pe_registry pe))))) (\<lambda>t.
      rbind (bad (map_err Compose (composeProjectStore he (ct_Project t) (Some (store_of r))))) (\<lambda>store.
      rbind (bad (map_err Compose (composeAttempts he store t [''pull'', ct_Service t]))) (\<lambda>pull.
      rbind (bad (map_err Compose (composeAttempts he store t (recreate_verb @ [ct_Service t])))) (\<lambda>recreate.
        Inr \<lparr>np_stages = [planned ''pull'' pull, planned ''recreate'' recreate], np_target = target,
             np_timeout = slow (pe_timeout pe)\<rparr>)))))"

definition plan_container_image :: "plan_env \<Rightarrow> string \<Rightarrow> opParams \<Rightarrow> request_error + nativeOpPlan" where
  "plan_container_image pe slug ps =
     (if \<not> nativeContainerRefPattern (op_target ps) then Inl (400, InvalidContainer)
      else rbind (map_err (\<lambda>e. (502, e)) (resolveOpContainer (pe_host pe) (op_target ps))) (\<lambda>r.
        case parseImageReference (oc_ImageRef r) of
          Inl e \<Rightarrow> Inl (400, UnusableImage e)
        | Inr _ \<Rightarrow>
            if slug = ''container.pull'' then rbind (plan_pull pe r) (one_stage slug (slow (pe_timeout pe)))
            else plan_update pe (op_target ps) r))"

subsection \<open>Container lifecycle, processes, systemd units\<close>

definition runtime_attempts :: "daemon_host \<Rightarrow> string list \<Rightarrow> string \<Rightarrow> op_attempt list" where
  "runtime_attempts he args runtime =
     (case he_runtimes he runtime of
        None \<Rightarrow> []
      | Some p \<Rightarrow>
          \<lparr>oa_command = p, oa_args = args, oa_cwd = [], oa_env = []\<rparr> #
          (case elevationAttempt he p args of None \<Rightarrow> [] | Some argv \<Rightarrow> [attempt_of argv]))"

definition plan_container :: "plan_env \<Rightarrow> string \<Rightarrow> opParams \<Rightarrow> request_error + string \<times> op_attempt list" where
  "plan_container pe slug ps =
     (let verb = trim_prefix ''container.'' slug in
      case map_of nativeContainerVerbs verb of
        None \<Rightarrow> Inl (400, UnknownAction slug)
      | Some cli \<Rightarrow>
          if \<not> nativeContainerRefPattern (op_target ps) then Inl (400, InvalidContainer)
          else let args = [cli] @ (if verb = ''remove'' \<and> op_force ps then [''-f''] else []) @ [op_target ps] in
            Inr (op_target ps, concat (map (runtime_attempts (pe_host pe) args) [''podman'', ''docker''])))"

definition itoa :: "int \<Rightarrow> string" where
  "itoa v = (if v < 0 then CHR ''-'' # dec_digits (nat (- v)) else dec_digits (nat v))"

definition plan_kill :: "plan_env \<Rightarrow> opParams \<Rightarrow> request_error + string \<times> op_attempt list" where
  "plan_kill pe ps =
     (if op_pid ps \<le> 1 then Inl (400, InvalidProcess)
      else Inr (itoa (op_pid ps),
        direct_and_sudo (pe_host pe) ''kill'' [''-s'', ''KILL'', ''--'', itoa (op_pid ps)] []))"

definition unit_of :: "string \<Rightarrow> string" where
  "unit_of target =
     (let u = trim_space target in if u \<noteq> [] \<and> \<not> contains ''.'' u then u @ ''.service'' else u)"

definition plan_systemd :: "plan_env \<Rightarrow> string \<Rightarrow> opParams \<Rightarrow> request_error + string \<times> op_attempt list" where
  "plan_systemd pe slug ps =
     (let verb = trim_prefix ''systemd.'' slug; u = unit_of (op_target ps) in
      if map_of nativeSystemdVerbs verb = None then Inl (400, UnknownAction slug)
      else if \<not> systemdUnitPattern u then Inl (400, InvalidUnit)
      else case systemdHelperAttempt (pe_priv pe) verb u of
        Some a \<Rightarrow> Inr (u, [a])
      | None \<Rightarrow> Inr (u, direct_and_sudo (pe_host pe) ''systemctl'' [verb, u] []))"

subsection \<open>Packages and firewall rules\<close>

definition plan_package :: "plan_env \<Rightarrow> string \<Rightarrow> opParams \<Rightarrow> request_error + string \<times> op_attempt list" where
  "plan_package pe slug ps =
     (let verb = trim_prefix ''package.'' slug; name = trim_space (op_name ps); he = pe_host pe;
          target = (if name = [] then verb else name) in
      if \<not> ValidPackageVerb verb then Inl (400, UnknownAction slug)
      else if (verb = ''install'' \<or> verb = ''remove'') \<and> \<not> ValidPackageName name then Inl (400, InvalidPackageName)
      else if verb \<noteq> ''install'' \<and> verb \<noteq> ''remove'' \<and> name \<noteq> [] then Inl (400, TakesNoPackage)
      else case packageHelperAttempt (pe_priv pe) verb name of
        Some a \<Rightarrow> Inr (target, [a])
      | None \<Rightarrow>
          (case detectPackageManager he of
             None \<Rightarrow> Inl (400, NoPackageManager)
           | Some manager \<Rightarrow>
               (case PackageCommand manager verb name of
                  Inl _ \<Rightarrow> Inl (400, InvalidPackageAction)
                | Inr argv \<Rightarrow>
                    Inr (target, case he_look he (hd argv) of
                        None \<Rightarrow> []
                      | Some p \<Rightarrow> direct_and_sudo he p (tl argv) (PackageEnv manager)))))"

definition firewall_attempts :: "daemon_host \<Rightarrow> op_attempt list \<Rightarrow> string list \<Rightarrow> request_error + op_attempt list" where
  "firewall_attempts he acc argv =
     (case he_look he (hd argv) of
        None \<Rightarrow> Inl (400, NotInstalled (hd argv))
      | Some p \<Rightarrow> Inr (acc @ direct_and_sudo he p (tl argv) []))"

definition needs_rule :: "string \<Rightarrow> bool" where
  "needs_rule verb \<longleftrightarrow> verb = ''allow'' \<or> verb = ''deny'' \<or> verb = ''delete''"

definition no_rule :: firewall_rule where
  "no_rule = \<lparr>fr_action = [], fr_port = [], fr_protocol = [], fr_source = []\<rparr>"

definition plan_rule :: "string \<Rightarrow> opParams \<Rightarrow> rule_error + firewall_rule" where
  "plan_rule verb ps =
     (if needs_rule verb then
        ParseFirewallRule (if verb = ''delete'' then trim_space (op_ruleAction ps) else verb)
          (op_port ps) (op_protocol ps) (op_source ps)
      else Inr no_rule)"

definition plan_firewall :: "plan_env \<Rightarrow> string \<Rightarrow> opParams \<Rightarrow> request_error + string \<times> op_attempt list" where
  "plan_firewall pe slug ps =
     (let verb = trim_prefix ''firewall.'' slug; he = pe_host pe in
      if \<not> ValidFirewallVerb verb then Inl (400, UnknownAction slug)
      else case plan_rule verb ps of
        Inl e \<Rightarrow> Inl (400, BadRule e)
      | Inr rule \<Rightarrow>
          (let target = (if needs_rule verb then rule_String rule else verb) in
           case firewallHelperAttempt (pe_priv pe) verb ps of
             Some a \<Rightarrow> Inr (target, [a])
           | None \<Rightarrow>
               (case detectFirewallBackend he of
                  None \<Rightarrow> Inl (400, NoFirewall)
                | Some backend \<Rightarrow>
                    (case FirewallCommand backend verb rule of
                       Inl e \<Rightarrow> Inl (400, BadFirewall e)
                     | Inr commands \<Rightarrow>
                         rbind (rfold (firewall_attempts he) [] commands) (\<lambda>as. Inr (target, as))))))"

subsection \<open>Compose projects\<close>

definition idle_note :: "string \<Rightarrow> string" where
  "idle_note project =
     ''every container of project '' @ fmt_q project @
     '' already runs the image its reference points at; nothing to recreate''"

definition plan_compose_target :: "plan_env \<Rightarrow> opParams \<Rightarrow> request_error + composeUpdateTarget \<times> composeStore" where
  "plan_compose_target pe ps =
     (if \<not> nativeProjectPattern (op_target ps) then Inl (400, InvalidProject)
      else rbind (bad (map_err Compose (composeDirectory (pe_registry pe) (op_target ps) (op_directory ps)))) (\<lambda>(directory, files).
           rbind (bad (map_err Compose (composeProjectStore (pe_host pe) (op_target ps) None))) (\<lambda>store.
             Inr (\<lparr>ct_Project = op_target ps, ct_Service = [], ct_Directory = directory, ct_Files = files\<rparr>, store))))"

definition plan_compose_update :: "plan_env \<Rightarrow> composeUpdateTarget \<Rightarrow> composeStore \<Rightarrow> request_error + nativeOpPlan" where
  "plan_compose_update pe t store =
     rbind (bad (map_err Compose (composeAttempts (pe_host pe) store t [''pull'']))) (\<lambda>pull.
       Inr \<lparr>np_stages =
              [planned ''pull'' pull,
               \<lparr>sp_label = ''recreate'', sp_attempts = [],
                sp_build = Some (\<lambda>hist. map_err refusal_text (composeUpdateRecreate (pe_after pe hist) store t)),
                sp_idle = idle_note (ct_Project t)\<rparr>],
            np_target = ct_Project t, np_timeout = slow (pe_timeout pe)\<rparr>)"

definition plan_compose :: "plan_env \<Rightarrow> string \<Rightarrow> opParams \<Rightarrow> request_error + nativeOpPlan" where
  "plan_compose pe slug ps =
     (let verb = trim_prefix ''compose.'' slug in
      rbind (plan_compose_target pe ps) (\<lambda>(t, store).
        if verb = ''update'' then plan_compose_update pe t store
        else case map_of nativeComposeVerbs verb of
          None \<Rightarrow> Inl (400, UnknownAction slug)
        | Some cli \<Rightarrow>
            rbind (bad (map_err Compose (composeAttempts (pe_host pe) store t (fields_of cli)))) (\<lambda>as.
              one_stage slug (slow (pe_timeout pe)) (op_target ps, as))))"

section \<open>\<open>planNativeOp\<close>\<close>

definition planNativeOp :: "plan_env \<Rightarrow> string \<Rightarrow> opParams \<Rightarrow> request_error + nativeOpPlan" where
  "planNativeOp pe slug ps =
     (let one = one_stage slug (pe_timeout pe) in
      if slug = ''container.pull'' \<or> slug = ''container.update'' then plan_container_image pe slug ps
      else if has_prefix ''container.'' slug then rbind (plan_container pe slug ps) one
      else if slug = ''process.kill'' then rbind (plan_kill pe ps) one
      else if has_prefix ''systemd.'' slug then rbind (plan_systemd pe slug ps) one
      else if has_prefix ''package.'' slug then rbind (plan_package pe slug ps) one
      else if has_prefix ''firewall.'' slug then rbind (plan_firewall pe slug ps) one
      else if has_prefix ''compose.'' slug then plan_compose pe slug ps
      else Inl (400, UnknownOperation))"

end
