(* ===== verification/Ops_Plan_Facts.thy ===== *)
theory Ops_Plan_Facts
  imports Ops_Plan Image_Ref_Facts Priv_Run
begin

text \<open>
  What a plan is: a routed operation is one run of the helper, and the helper's own command line
  reads what the daemon meant; a request's text is never an option of the command it reaches; a
  compose step stays in the one store that holds the project.
\<close>

section \<open>Shapes\<close>

lemma one_stage_Inr:
  "one_stage slug timeout ta = Inr pl \<longleftrightarrow>
     snd ta \<noteq> [] \<and> pl = \<lparr>np_stages = [planned (nativeOpVerb slug) (snd ta)], np_target = fst ta, np_timeout = timeout\<rparr>"
  by (auto simp: one_stage_def split: prod.split)

lemma verb_of:
  "nativeOpVerb (''systemd.'' @ v) = v" "nativeOpVerb (''package.'' @ v) = v"
  "nativeOpVerb (''firewall.'' @ v) = v" "nativeOpVerb (''compose.'' @ v) = v"
  by (simp_all add: nativeOpVerb_def cut_first_def)

lemma plan_family:
  "planNativeOp pe (''systemd.'' @ v) ps = rbind (plan_systemd pe (''systemd.'' @ v) ps) (one_stage (''systemd.'' @ v) (pe_timeout pe))"
  "planNativeOp pe (''package.'' @ v) ps = rbind (plan_package pe (''package.'' @ v) ps) (one_stage (''package.'' @ v) (pe_timeout pe))"
  "planNativeOp pe (''firewall.'' @ v) ps = rbind (plan_firewall pe (''firewall.'' @ v) ps) (one_stage (''firewall.'' @ v) (pe_timeout pe))"
  "planNativeOp pe (''compose.'' @ v) ps = plan_compose pe (''compose.'' @ v) ps"
  by (simp_all add: planNativeOp_def Let_def has_prefix_def)

lemma trim_family [simp]:
  "trim_prefix ''systemd.'' (''systemd.'' @ v) = v" "trim_prefix ''package.'' (''package.'' @ v) = v"
  "trim_prefix ''firewall.'' (''firewall.'' @ v) = v" "trim_prefix ''compose.'' (''compose.'' @ v) = v"
  by (simp_all add: trim_prefix_def has_prefix_def)

section \<open>What the helper reads\<close>

lemma systemd_verbs: "map_of nativeSystemdVerbs v \<noteq> None \<longleftrightarrow> validSystemdVerb v"
  by (auto simp: nativeSystemdVerbs_def validSystemdVerb_def allowedSystemdVerbs_def)

lemma graphic_not_blank: "s \<noteq> [] \<Longrightarrow> \<forall>c \<in> set s. 32 < byte c \<and> byte c < 128 \<Longrightarrow> \<not> blank s"
  by (simp add: blank_def trim_space_all_graphic)

lemma unit_operand:
  assumes "systemdUnitPattern u"
  shows "\<not> has_prefix ''-'' u" "\<not> blank u"
proof -
  have u: "u \<noteq> []" "hd u \<noteq> CHR ''-''" using unit_first [OF assms] by auto
  then show "\<not> has_prefix ''-'' u" by (cases u) (auto simp: has_prefix_def)
  have "32 < byte c \<and> byte c < 128" if "unit_rest c" for c
    using that by (auto simp: unit_rest_def unit_head_def char_class_defs)
  then show "\<not> blank u" using unit_chars [OF assms] u(1) by (intro graphic_not_blank) (auto simp: list_all_iff)
qed

lemma package_operand:
  assumes "ValidPackageName n"
  shows "\<not> has_prefix ''-'' n" "\<not> blank n" "n \<noteq> []"
proof -
  have n: "n \<noteq> []" "is_alnum (hd n)" "\<forall>c \<in> set n. is_alnum c \<or> package_rest c"
    using re_head_rest_props [of is_alnum package_rest 127 n] assms by (simp_all add: ValidPackageName_def)
  show "n \<noteq> []" by (rule n(1))
  show "\<not> has_prefix ''-'' n" using n(1,2) by (cases n) (auto simp: has_prefix_def char_class_defs)
  have "32 < byte c \<and> byte c < 128" if "is_alnum c \<or> package_rest c" for c
    using that by (auto simp: package_rest_def char_class_defs)
  then show "\<not> blank n" using n(1,3) by (intro graphic_not_blank) auto
qed

lemma helper_reads_systemd:
  assumes "validSystemdVerb v" "systemdUnitPattern u"
  shows "ParseArgs [''systemd'', v, u] = Inr (new_action\<lparr>a_command := ''systemd'', a_verb := v, a_unit := u\<rparr>)"
proof -
  have "\<not> has_prefix ''-'' v" using assms(1) by (auto simp: validSystemdVerb_def allowedSystemdVerbs_def has_prefix_def)
  then show ?thesis using assms unit_operand [OF assms(2)]
    by (simp add: ParseArgs_def parse_command_def parse_systemd_def has_prefix_def [of _ "''systemd''"] Let_def)
qed

lemma helper_reads_package:
  assumes "ValidPackageVerb v" "if v = ''install'' \<or> v = ''remove'' then ValidPackageName n else n = []"
  shows "ParseArgs ([''packages'', v] @ (if n = [] then [] else [n])) =
    Inr (new_action\<lparr>a_command := ''packages'', a_verb := v, a_package := n\<rparr>)"
proof -
  have v: "v = ''refresh'' \<or> v = ''upgrade'' \<or> v = ''install'' \<or> v = ''remove''"
    using assms(1) by (auto simp: ValidPackageVerb_def allowedPackageVerbs_def)
  then have "\<not> has_prefix ''-'' v" by (auto simp: has_prefix_def)
  then show ?thesis using v assms(2) package_operand [of n]
    by (auto simp: ParseArgs_def parse_command_def parse_packages_def has_prefix_def [of _ "''packages''"] Let_def new_action_def)
qed

lemma rule_by_normal_forms:
  "ParseFirewallRule a p t s =
    (let act = to_lower (trim_space a); prt = trim_space p in
     if act \<noteq> ''allow'' \<and> act \<noteq> ''deny'' then Inl (RuleActionBad a)
     else if \<not> firewallPortPattern prt \<and> \<not> firewallServicePattern prt then Inl (PortBad p)
     else if firewallPortPattern prt \<and> list_ex port_bound_bad (split_on (CHR '':'') prt) then Inl (PortOutOfRange p)
     else if normalizeProtocol t \<notin> set firewallProtocols then Inl (ProtocolBad t)
     else if normalizeSource s \<noteq> ''any'' \<and> \<not> validFirewallSource (normalizeSource s) then Inl (SourceBad s)
     else Inr \<lparr>fr_action = act, fr_port = prt, fr_protocol = normalizeProtocol t, fr_source = normalizeSource s\<rparr>)"
  by (simp only: ParseFirewallRule_def normalizeProtocol_def normalizeSource_def Let_def)

lemma checks_passed:
  "(if A then Inl e1 else if B then Inl e2 else if C then Inl e3 else if D then Inl e4 else if E then Inl e5 else Inr x) = Inr r \<longleftrightarrow>
     \<not> A \<and> \<not> B \<and> \<not> C \<and> \<not> D \<and> \<not> E \<and> x = r"
  by simp

lemmas rule_Inr = rule_by_normal_forms [unfolded Let_def, THEN arg_cong [where f = "\<lambda>x. x = Inr r" for r], unfolded checks_passed]

lemma same_rule:
  assumes "ParseFirewallRule a p t s = Inr r" "trim_space a' = trim_space a"
    and "normalizeProtocol t' = normalizeProtocol t" "normalizeSource s' = normalizeSource s"
  shows "ParseFirewallRule a' p t' s' = Inr r"
  using assms(1) unfolding rule_Inr assms(2-4) .

lemma normal_source [simp]: "normalizeSource (normalizeSource s) = normalizeSource s"
proof -
  have "trim_space ''any'' = ''any''" by (rule trim_space_all_graphic) simp
  then show ?thesis by (simp add: normalizeSource_def Let_def)
qed

lemma normal_protocol: "normalizeProtocol t \<in> set firewallProtocols \<Longrightarrow> normalizeProtocol (normalizeProtocol t) = normalizeProtocol t"
proof -
  have "trim_space p = p" if "p \<in> set firewallProtocols" for p
    using that by (intro trim_space_all_graphic) (auto simp: firewallProtocols_def)
  moreover have "list_all (\<lambda>p. to_lower p = p) firewallProtocols" by code_simp
  ultimately have "list_all (\<lambda>p. normalizeProtocol p = p) firewallProtocols"
    by (auto simp: list_all_iff normalizeProtocol_def Let_def firewallProtocols_def)
  then show "normalizeProtocol t \<in> set firewallProtocols \<Longrightarrow> ?thesis" by (simp add: list_all_iff)
qed

lemma rule_fields:
  assumes "ParseFirewallRule a p t s = Inr r"
  shows "fr_port r = trim_space p" "fr_protocol r = normalizeProtocol t" "fr_source r = normalizeSource s"
    "normalizeProtocol t \<in> set firewallProtocols" "fr_action r = to_lower (trim_space a)"
proof -
  have "normalizeProtocol t \<in> set firewallProtocols" and
    r: "r = \<lparr>fr_action = to_lower (trim_space a), fr_port = trim_space p, fr_protocol = normalizeProtocol t, fr_source = normalizeSource s\<rparr>"
    using assms unfolding rule_Inr by blast+
  then show "fr_port r = trim_space p" "fr_protocol r = normalizeProtocol t" "fr_source r = normalizeSource s"
    "normalizeProtocol t \<in> set firewallProtocols" "fr_action r = to_lower (trim_space a)" unfolding r by simp_all
qed

lemma operand_no_dash: "operand s \<Longrightarrow> \<not> has_prefix ''-'' s"
  by (cases s) (auto simp: operand_def has_prefix_def)

lemma trimmed_operand: "operand (trim_space s) \<Longrightarrow> \<not> has_prefix ''-'' s"
  using trim_keeps_dash operand_no_dash by (auto simp: operand_def)

lemma rule_operands:
  assumes "ParseFirewallRule a p t s = Inr r"
  shows "\<not> has_prefix ''-'' a" "\<not> has_prefix ''-'' p" "\<not> has_prefix ''-'' (normalizeProtocol t)"
    "\<not> has_prefix ''-'' (normalizeSource s)"
proof -
  have wf: "wf_rule r" by (rule ParseFirewallRule_wf [OF assms])
  show "\<not> has_prefix ''-'' p" using port_operand [OF wf] rule_fields(1) [OF assms] trimmed_operand by simp
  show "\<not> has_prefix ''-'' (normalizeProtocol t)"
    using rule_fields(4) [OF assms] by (auto simp: firewallProtocols_def has_prefix_def)
  show "\<not> has_prefix ''-'' (normalizeSource s)"
  proof (cases "fr_source r = ''any''")
    case False
    then have "validFirewallSource (fr_source r)" using wf by (auto simp: wf_rule_def)
    then have "operand (fr_source r)" using source_chars addr_char_graphic by (auto simp: operand_def)
    then show ?thesis using rule_fields(3) [OF assms] operand_no_dash by simp
  qed (use rule_fields(3) [OF assms] in \<open>simp add: has_prefix_def\<close>)
  show "\<not> has_prefix ''-'' a"
  proof
    assume "has_prefix ''-'' a"
    then have "trim_space a = [] \<or> has_prefix ''-'' (trim_space a)" by (rule trim_keeps_dash)
    then consider "trim_space a = []" | x where "trim_space a = CHR ''-'' # x"
      by (cases "trim_space a") (auto simp: has_prefix_def)
    then have "\<not> (to_lower (trim_space a) = ''allow'' \<or> to_lower (trim_space a) = ''deny'')"
    proof cases
      case 2
      have "lower_char CHR ''-'' = CHR ''-''" by code_simp
      then have "to_lower (trim_space a) = CHR ''-'' # to_lower x" using 2 by (simp add: has_prefix_def)
      then show ?thesis by simp
    qed simp
    then show False using rule_fields(5) [OF assms] wf by (auto simp: wf_rule_def)
  qed
qed

lemma firewall_command:
  assumes "list_all (\<lambda>x. \<not> has_prefix ''-'' x) (v # rest)"
  shows "ParseArgs (''firewall'' # v # rest) = parse_firewall (new_action\<lparr>a_command := ''firewall''\<rparr>) (v # rest)"
proof -
  have "find (has_prefix ''-'') (''firewall'' # v # rest) = None"
    using assms by (auto simp: find_None_iff list_all_iff has_prefix_def)
  then show ?thesis by (simp add: ParseArgs_def parse_command_def Let_def)
qed

lemma parse_firewall_cases:
  "v = ''enable'' \<or> v = ''disable'' \<Longrightarrow> parse_firewall a [v] = Inr (a\<lparr>a_verb := v\<rparr>)"
  "v = ''allow'' \<or> v = ''deny'' \<Longrightarrow> parse_firewall a [v, p, t, s] = Inr (a\<lparr>a_verb := v, a_port := p, a_protocol := t, a_source := s\<rparr>)"
  "v = ''delete'' \<Longrightarrow>
     parse_firewall a [v, x, p, t, s] = Inr (a\<lparr>a_verb := v, a_ruleAction := x, a_port := p, a_protocol := t, a_source := s\<rparr>)"
  by (auto simp: parse_firewall_def)

lemma action_rule_cases:
  "a_verb act = ''enable'' \<or> a_verb act = ''disable'' \<Longrightarrow> action_rule act = Inr empty_rule"
  "a_verb act = ''allow'' \<or> a_verb act = ''deny'' \<Longrightarrow>
     action_rule act = ParseFirewallRule (a_verb act) (a_port act) (a_protocol act) (a_source act)"
  "a_verb act = ''delete'' \<Longrightarrow>
     action_rule act = ParseFirewallRule (a_ruleAction act) (a_port act) (a_protocol act) (a_source act)"
  by (auto simp: action_rule_def takes_rule_def)

lemma helper_reads_firewall:
  assumes "ValidFirewallVerb v" "plan_rule v ps = Inr r"
  shows "\<exists>act. ParseArgs (firewall_args v ps) = Inr act \<and> a_command act = ''firewall'' \<and> a_verb act = v \<and> action_rule act = Inr r"
proof -
  let ?p = "op_port ps" and ?t = "op_protocol ps" and ?s = "op_source ps" and ?a = "op_ruleAction ps"
  let ?base = "new_action\<lparr>a_command := ''firewall'', a_verb := v\<rparr>"
  have v: "v = ''enable'' \<or> v = ''disable'' \<or> v = ''allow'' \<or> v = ''deny'' \<or> v = ''delete''"
    using assms(1) by (auto simp: ValidFirewallVerb_def allowedFirewallVerbs_def)
  have dash: "\<not> has_prefix ''-'' v" using v by (auto simp: has_prefix_def)
  consider (toggle) "v = ''enable'' \<or> v = ''disable''" | (rule) "v = ''allow'' \<or> v = ''deny''" | (delete) "v = ''delete''"
    using v by argo
  then show ?thesis
  proof cases
    case toggle
    have r: "r = empty_rule" using toggle assms(2) by (auto simp: plan_rule_def needs_rule_def no_rule_def empty_rule_def)
    have "firewall_args v ps = [''firewall'', v]" using toggle by (auto simp: firewall_args_def)
    then have "ParseArgs (firewall_args v ps) = Inr ?base"
      using dash firewall_command [of v "[]"] parse_firewall_cases(1) [OF toggle] by simp
    moreover have "action_rule ?base = Inr r" unfolding r by (rule action_rule_cases(1)) (simp add: toggle)
    ultimately show ?thesis by auto
  next
    case rule
    then have p: "ParseFirewallRule v ?p ?t ?s = Inr r" using assms(2) by (auto simp: plan_rule_def needs_rule_def)
    have q: "ParseFirewallRule v ?p (normalizeProtocol ?t) (normalizeSource ?s) = Inr r"
      by (rule same_rule [OF p refl normal_protocol normal_source]) (rule rule_fields(4) [OF p])
    let ?act = "?base\<lparr>a_port := ?p, a_protocol := normalizeProtocol ?t, a_source := normalizeSource ?s\<rparr>"
    have "firewall_args v ps = [''firewall'', v, ?p, normalizeProtocol ?t, normalizeSource ?s]"
      using rule by (auto simp: firewall_args_def)
    then have "ParseArgs (firewall_args v ps) = Inr ?act"
      using dash rule_operands [OF p] firewall_command [of v "[?p, normalizeProtocol ?t, normalizeSource ?s]"]
        parse_firewall_cases(2) [OF rule] by simp
    moreover have "action_rule ?act = Inr r" using q action_rule_cases(2) [of ?act] rule by simp
    ultimately show ?thesis by auto
  next
    case delete
    then have p: "ParseFirewallRule (trim_space ?a) ?p ?t ?s = Inr r"
      using assms(2) by (simp add: plan_rule_def needs_rule_def)
    have q: "ParseFirewallRule ?a ?p (normalizeProtocol ?t) (normalizeSource ?s) = Inr r"
      by (rule same_rule [OF p _ normal_protocol normal_source]) (simp_all add: rule_fields(4) [OF p])
    let ?act = "?base\<lparr>a_ruleAction := ?a, a_port := ?p, a_protocol := normalizeProtocol ?t, a_source := normalizeSource ?s\<rparr>"
    have "firewall_args v ps = [''firewall'', v, ?a, ?p, normalizeProtocol ?t, normalizeSource ?s]"
      using delete by (simp add: firewall_args_def)
    then have "ParseArgs (firewall_args v ps) = Inr ?act"
      using dash rule_operands [OF p] rule_operands(1) [OF q] parse_firewall_cases(3) [OF delete]
        firewall_command [of v "[?a, ?p, normalizeProtocol ?t, normalizeSource ?s]"] by simp
    moreover have "action_rule ?act = Inr r" using q action_rule_cases(3) [of ?act] delete by simp
    ultimately show ?thesis by auto
  qed
qed

section \<open>Operations routed through the helper\<close>

lemma helper_attempt_routed:
  "policy = Some p \<Longrightarrow> routed p \<Longrightarrow> helper_attempt policy routed args = Some (attempt_of (pp_sudo p @ pp_helper p # args))"
  by (simp add: helper_attempt_def runner_argv_def)

text \<open>C25: When a family is routed through the privileged helper, an accepted operation of it is one
  stage with one attempt: the helper, with nothing to fall back to. Its arguments are read by the
  helper's own command line as that family and verb, on the very unit, package or firewall rule the
  daemon validated; no value of the request is refused there as an option or read as something else.\<close>

theorem routed_operation_is_understood:
  assumes "pe_priv pe = Some p" "planNativeOp pe slug ps = Inr pl"
    and "slug = family @ ''.'' @ v" "family = ''systemd'' \<and> pp_systemd p \<or> family = ''package'' \<and> pp_packages p \<or>
      family = ''firewall'' \<and> pp_firewall p"
  shows "\<exists>args act. np_stages pl = [planned v [attempt_of (pp_sudo p @ pp_helper p # args)]] \<and> ParseArgs args = Inr act \<and>
    a_verb act = v \<and>
    (family = ''systemd'' \<longrightarrow> a_command act = ''systemd'' \<and> a_unit act = np_target pl) \<and>
    (family = ''package'' \<longrightarrow> a_command act = ''packages'' \<and> a_package act = trim_space (op_name ps)) \<and>
    (family = ''firewall'' \<longrightarrow> a_command act = ''firewall'' \<and> action_rule act = plan_rule v ps)"
  using assms(4)
proof (elim disjE conjE)
  assume f: "family = ''systemd''" "pp_systemd p"
  let ?u = "unit_of (op_target ps)"
  have s: "slug = ''systemd.'' @ v" using assms(3) f(1) by simp
  then have "rbind (plan_systemd pe slug ps) (one_stage slug (pe_timeout pe)) = Inr pl" using assms(2) plan_family(1) by simp
  then obtain ta where ta: "plan_systemd pe slug ps = Inr ta" "one_stage slug (pe_timeout pe) ta = Inr pl" by auto
  have h: "systemdHelperAttempt (pe_priv pe) v ?u = Some (attempt_of (pp_sudo p @ pp_helper p # [''systemd'', v, ?u]))"
    unfolding systemdHelperAttempt_def by (rule helper_attempt_routed [OF assms(1), of pp_systemd, OF f(2)])
  have c: "validSystemdVerb v" "systemdUnitPattern ?u" "ta = (?u, [attempt_of (pp_sudo p @ pp_helper p # [''systemd'', v, ?u])])"
    using ta(1) h systemd_verbs unfolding s plan_systemd_def Let_def trim_family by (auto split: if_split_asm)
  show ?thesis using ta(2) c(3) f(1) helper_reads_systemd [OF c(1,2)] verb_of(1) unfolding one_stage_Inr s
    by (intro exI [of _ "[''systemd'', v, ?u]"]) simp
next
  assume f: "family = ''package''" "pp_packages p"
  let ?n = "trim_space (op_name ps)"
  let ?args = "[''packages'', v] @ (if ?n = [] then [] else [?n])"
  have s: "slug = ''package.'' @ v" using assms(3) f(1) by simp
  then have "rbind (plan_package pe slug ps) (one_stage slug (pe_timeout pe)) = Inr pl" using assms(2) plan_family(2) by simp
  then obtain ta where ta: "plan_package pe slug ps = Inr ta" "one_stage slug (pe_timeout pe) ta = Inr pl" by auto
  have h: "packageHelperAttempt (pe_priv pe) v ?n = Some (attempt_of (pp_sudo p @ pp_helper p # ?args))"
    unfolding packageHelperAttempt_def by (rule helper_attempt_routed [OF assms(1), of pp_packages, OF f(2)])
  have c: "ValidPackageVerb v" "if v = ''install'' \<or> v = ''remove'' then ValidPackageName ?n else ?n = []"
    "snd ta = [attempt_of (pp_sudo p @ pp_helper p # ?args)]"
    using ta(1) unfolding s plan_package_def Let_def trim_family h by (auto split: if_split_asm)
  show ?thesis using ta(2) c(3) f(1) helper_reads_package [OF c(1,2)] verb_of(2) unfolding one_stage_Inr s
    by (intro exI [of _ ?args]) simp
next
  assume f: "family = ''firewall''" "pp_firewall p"
  let ?args = "firewall_args v ps"
  have s: "slug = ''firewall.'' @ v" using assms(3) f(1) by simp
  then have "rbind (plan_firewall pe slug ps) (one_stage slug (pe_timeout pe)) = Inr pl" using assms(2) plan_family(3) by simp
  then obtain ta where ta: "plan_firewall pe slug ps = Inr ta" "one_stage slug (pe_timeout pe) ta = Inr pl" by auto
  have h: "firewallHelperAttempt (pe_priv pe) v ps = Some (attempt_of (pp_sudo p @ pp_helper p # ?args))"
    unfolding firewallHelperAttempt_def by (rule helper_attempt_routed [OF assms(1), of pp_firewall, OF f(2)])
  obtain r where c: "ValidFirewallVerb v" "plan_rule v ps = Inr r" "snd ta = [attempt_of (pp_sudo p @ pp_helper p # ?args)]"
    using ta(1) unfolding s plan_firewall_def Let_def trim_family h by (auto split: if_split_asm sum.splits)
  obtain act where a: "ParseArgs ?args = Inr act" "a_command act = ''firewall''" "a_verb act = v" "action_rule act = Inr r"
    using helper_reads_firewall [OF c(1,2)] by blast
  show ?thesis using ta(2) c(2,3) f(1) a verb_of(3) unfolding one_stage_Inr s
    by (intro exI [of _ ?args] exI [of _ act]) simp
qed

definition demo_host :: daemon_host where
  "demo_host = \<lparr>he_root = False, he_look = (\<lambda>_. None), he_runtimes = (\<lambda>_. None), he_command = (\<lambda>_. Inl ''no''),
     he_read = (\<lambda>_. ([], [], Some ''no'')), he_runs = (\<lambda>_. False), he_json = (\<lambda>_. None), he_line = (\<lambda>_. Inl ''no'')\<rparr>"

definition demo_policy :: opPrivPolicy where
  "demo_policy = \<lparr>pp_helper = ''/h'', pp_sudo = [''sudo'', ''-n''], pp_systemd = True, pp_packages = True, pp_firewall = True\<rparr>"

definition demo_plan :: plan_env where
  "demo_plan = \<lparr>pe_host = demo_host, pe_after = (\<lambda>_. demo_host), pe_registry = None, pe_priv = Some demo_policy, pe_timeout = 0\<rparr>"

theorem routed_operation_is_understood_witness:
  "\<exists>args act. ParseArgs args = Inr act \<and> a_command act = ''systemd'' \<and> a_verb act = ''restart'' \<and> a_unit act = ''web.service''"
proof -
  let ?ps = "no_params\<lparr>op_target := '' web''\<rparr>"
  have u: "unit_of '' web'' = ''web.service''" "systemdUnitPattern ''web.service''" "map_of nativeSystemdVerbs ''restart'' \<noteq> None"
    "nativeOpVerb ''systemd.restart'' = ''restart''" by code_simp+
  have "planNativeOp demo_plan (''systemd.'' @ ''restart'') ?ps = Inr \<lparr>np_stages =
      [planned ''restart'' [attempt_of [''sudo'', ''-n'', ''/h'', ''systemd'', ''restart'', ''web.service'']]],
      np_target = ''web.service'', np_timeout = 0\<rparr>"
    unfolding plan_family plan_systemd_def Let_def trim_family systemdHelperAttempt_def
    using u by (simp add: demo_plan_def helper_attempt_def demo_policy_def runner_argv_def one_stage_def verb_of no_params_def)
  from routed_operation_is_understood [OF _ this, of demo_policy "''systemd''" "''restart''"] show ?thesis
    by (auto simp: demo_plan_def demo_policy_def)
qed

end
