(* ===== verification/Ops_Compose_Facts.thy ===== *)
theory Ops_Compose_Facts
  imports Ops_Plan_Facts
begin

text \<open>
  Compose steps: the one store a project's steps run in, the tools that run them, and the
  containers a stack update recreates.
\<close>

section \<open>The store that holds the project\<close>

definition holds :: "daemon_host \<Rightarrow> string \<Rightarrow> composeStore \<Rightarrow> bool" where
  "holds he project s \<longleftrightarrow> (\<exists>c cs. storeProjectContainerFacts he s project = Inr (c # cs))"

lemma presence_Inr:
  assumes "presence he project found s = Inr found'"
  shows "map fst found' = map fst found @ (if holds he project s then [s] else [])"
  using assms unfolding presence_def holds_def
  by (cases "storeProjectContainerFacts he s project") (auto split: if_split_asm list.splits)

lemma stores_found:
  assumes "rfold (presence he project) found ss = Inr found'"
  shows "map fst found' = map fst found @ filter (holds he project) ss"
  using assms
proof (induction ss arbitrary: found)
  case (Cons s ss)
  then obtain f where f: "presence he project found s = Inr f" "rfold (presence he project) f ss = Inr found'" by auto
  show ?case using Cons.IH [OF f(2)] presence_Inr [OF f(1)] by simp
qed simp

lemma project_store:
  assumes "composeProjectStore he project fallback = Inr s"
  shows "filter (holds he project) (composeStores he) = [s] \<or>
    filter (holds he project) (composeStores he) = [] \<and> (case fallback of Some f \<Rightarrow> s = f | None \<Rightarrow> first_runtime he = Some s)"
proof -
  obtain found where f: "composeProjectStores he project = Inr found" using assms by (auto simp: composeProjectStore_def)
  then have m: "map fst found = filter (holds he project) (composeStores he)"
    using stores_found [of he project "[]"] by (simp add: composeProjectStores_def)
  consider "found = []" | x where "found = [x]" | x y zs where "found = x # y # zs" by (cases found rule: remdups_adj.cases) auto
  then show ?thesis
  proof cases
    case 1
    then show ?thesis using assms f m by (auto simp: composeProjectStore_def split: option.splits)
  next
    case (2 x)
    then show ?thesis using assms f m by (cases x) (auto simp: composeProjectStore_def)
  next
    case 3
    then show ?thesis using assms f by (auto simp: composeProjectStore_def split: prod.splits)
  qed
qed

section \<open>The attempts of a step\<close>

text \<open>An attempt that runs a compose tool for the project, in exactly this store.\<close>

definition step_in :: "daemon_host \<Rightarrow> composeStore \<Rightarrow> composeUpdateTarget \<Rightarrow> string list \<Rightarrow> op_attempt \<Rightarrow> bool" where
  "step_in he s t args a \<longleftrightarrow>
     (\<exists>(command, prefix) \<in> set (composeTools he (cst_Path s)).
        oa_cwd a = ct_Directory t \<and> oa_env a = [] \<and>
        (if cst_Elevated s then oa_command a = ''sudo'' \<and> oa_args a = [''-n'', command] @ compose_argv t prefix args \<and> sudoRuns he command
         else oa_command a = command \<and> oa_args a = compose_argv t prefix args))"

lemma tool_attempts_in:
  assumes "tool_attempts he s t args acc tools = Inr as" "set tools \<subseteq> set (composeTools he (cst_Path s))"
    and "\<forall>a \<in> set acc. step_in he s t args a"
  shows "(\<forall>a \<in> set as. step_in he s t args a) \<and> (acc \<noteq> [] \<or> tools \<noteq> [] \<longrightarrow> as \<noteq> [])"
  using assms
proof (induction he s t args acc tools rule: tool_attempts.induct)
  case (2 he s t args acc command prefix tools)
  consider (own) "\<not> cst_Elevated s" | (stop) "cst_Elevated s" "\<not> sudoRuns he command"
    | (root) "cst_Elevated s" "sudoRuns he command" by blast
  then show ?case
  proof cases
    case own
    let ?a = "\<lparr>oa_command = command, oa_args = compose_argv t prefix args, oa_cwd = ct_Directory t, oa_env = []\<rparr>"
    have "step_in he s t args ?a" using own 2(4) unfolding step_in_def by force
    then show ?thesis using 2(1) [OF refl own] 2(3-5) own by (simp add: Let_def)
  next
    case stop
    then show ?thesis using 2(3-5) by (auto simp: Let_def split: if_split_asm)
  next
    case root
    let ?a = "\<lparr>oa_command = ''sudo'', oa_args = [''-n'', command] @ compose_argv t prefix args, oa_cwd = ct_Directory t, oa_env = []\<rparr>"
    have "step_in he s t args ?a" using root 2(4) unfolding step_in_def by force
    then show ?thesis using 2(2) [OF refl] 2(3-5) root by (simp add: Let_def)
  qed
qed simp

lemma tools_nonempty: "composeTools he p \<noteq> []"
  by (simp add: composeTools_def split: option.split)

lemma attempts_in:
  "composeAttempts he s t args = Inr as \<Longrightarrow> as \<noteq> [] \<and> (\<forall>a \<in> set as. step_in he s t args a)"
  using tool_attempts_in [of he s t args "[]" "composeTools he (cst_Path s)" as] tools_nonempty
  by (simp add: composeAttempts_def)


section \<open>What an update recreates\<close>

text \<open>
  A container is behind when it answers and is not running the image its reference resolves to, or
  not running at all. A reference that resolves to nothing leaves it behind too.
\<close>

definition is_behind :: "daemon_host \<Rightarrow> composeStore \<Rightarrow> projectContainer \<Rightarrow> bool" where
  "is_behind he s c \<longleftrightarrow>
     (case runStoreCommand he s [''inspect'', ''--format'', ''{{.Image}}'', pc_id c] of
        Inl _ \<Rightarrow> False
      | Inr running \<Rightarrow> \<not> (wanted_image he s (pc_image c) \<noteq> [] \<and> trim_space running = wanted_image he s (pc_image c) \<and>
                          pc_state c = ''running''))"

lemma behind_filter:
  assumes "\<forall>i w. map_of resolved i = Some w \<longrightarrow> w = wanted_image he s i"
  shows "behind_loop he s resolved cs = filter (is_behind he s) cs"
  using assms
proof (induction he s resolved cs rule: behind_loop.induct)
  case (2 he s resolved c cs)
  show ?case
  proof (cases "runStoreCommand he s [''inspect'', ''--format'', ''{{.Image}}'', pc_id c]")
    case (Inl e)
    then show ?thesis using 2 by (simp add: is_behind_def)
  next
    case (Inr running)
    let ?w = "case map_of resolved (pc_image c) of Some w \<Rightarrow> w | None \<Rightarrow> wanted_image he s (pc_image c)"
    have w: "?w = wanted_image he s (pc_image c)" using 2(3) by (simp split: option.split)
    have "\<forall>i w. map_of (put (pc_image c) ?w resolved) i = Some w \<longrightarrow> w = wanted_image he s i"
      using 2(3) w by (simp add: fun_upd_def)
    then have "behind_loop he s (put (pc_image c) ?w resolved) cs = filter (is_behind he s) cs"
      by (rule 2(2) [OF Inr refl])
    moreover have "is_behind he s c \<longleftrightarrow> \<not> (wanted_image he s (pc_image c) \<noteq> [] \<and> trim_space running = wanted_image he s (pc_image c) \<and>
        pc_state c = ''running'')" using Inr by (simp add: is_behind_def)
    ultimately show ?thesis using Inr w by (simp add: Let_def)
  qed
qed simp

lemma behind_is:
  "storeProjectContainersBehind he s project = Inr (behind, True) \<longleftrightarrow>
    (\<exists>cs. storeProjectContainerFacts he s project = Inr cs \<and> cs \<noteq> [] \<and> behind = filter (is_behind he s) cs)"
  using behind_filter [of "[]" he s] by (auto simp: storeProjectContainersBehind_def)

lemma services_named_spec:
  assumes "distinct acc"
  shows "case services_named acc cs of
      None \<Rightarrow> \<exists>c \<in> set cs. pc_service c = []
    | Some names \<Rightarrow> (\<forall>c \<in> set cs. pc_service c \<noteq> []) \<and> distinct names \<and> set names = set acc \<union> pc_service ` set cs"
  using assms
proof (induction acc cs rule: services_named.induct)
  case (2 acc c cs)
  show ?case
  proof (cases "pc_service c = []")
    case False
    let ?acc = "if pc_service c \<in> set acc then acc else acc @ [pc_service c]"
    have "distinct ?acc" using 2(2) by simp
    note IH = 2(1) [OF False this]
    have "services_named acc (c # cs) = services_named ?acc cs" using False by simp
    then show ?thesis using IH False by (cases "services_named ?acc cs"; cases "pc_service c \<in> set acc") auto
  qed simp
qed simp


section \<open>A small host\<close>

definition docker_store :: composeStore where
  "docker_store = \<lparr>cst_Runtime = ''docker'', cst_Path = ''/usr/bin/docker'', cst_Elevated = False\<rparr>"

definition web_line :: "string \<Rightarrow> container_line" where
  "web_line service = \<lparr>cl_ID = ''c1'', cl_Id = [], cl_Names = NameText ''web-1'', cl_Image = ''nginx'', cl_State = ''running'',
     cl_Status = ''Up'', cl_Labels = LabelText (''com.docker.compose.project=web,com.docker.compose.service='' @ service)\<rparr>"

text \<open>
  A host with one running container of the project \<open>web\<close>, of the given service. It runs the image
  \<open>old\<close>; its reference resolves to the given image, or to none.
\<close>

definition web_host :: "string \<Rightarrow> string option \<Rightarrow> daemon_host" where
  "web_host service img = demo_host\<lparr>he_runtimes := (\<lambda>r. if r = ''docker'' then Some ''/usr/bin/docker'' else None),
     he_command := (\<lambda>argv. if argv ! 1 = ''ps'' then Inr ''x'' else if argv ! 1 = ''inspect'' then Inr ''old''
       else (case img of None \<Rightarrow> Inl ''no such image'' | Some i \<Rightarrow> Inr i)),
     he_line := (\<lambda>_. Inr (web_line service))\<rparr>"

definition web_target :: composeUpdateTarget where
  "web_target = \<lparr>ct_Project = ''web'', ct_Service = [], ct_Directory = ''/srv/web'', ct_Files = []\<rparr>"

definition web_container :: "string \<Rightarrow> projectContainer" where
  "web_container service = \<lparr>pc_id = ''c1'', pc_name = ''web-1'', pc_image = ''nginx'', pc_state = ''running'', pc_status = ''Up'',
     pc_project = ''web'', pc_service = service\<rparr>"

lemma web_facts: "storeProjectContainerFacts (web_host ''app'' img) docker_store ''web'' = Inr [web_container ''app'']"
proof -
  have c: "container_of (web_line ''app'') = web_container ''app''" by code_simp
  have e: "equal_fold ''web'' ''web''" by simp
  have t: "trim_space ''x'' = ''x''" by (rule trim_space_all_graphic) simp
  show ?thesis
    by (simp add: storeProjectContainerFacts_def runStoreCommand_def docker_store_def web_host_def demo_host_def
        fact_line_def MaxScanTokenSize_def t c web_container_def)
qed


text \<open>
  A container whose reference resolves to nothing on this host counts as behind and is recreated;
  and a service is put on the command line as its container's label spells it, an option included.
\<close>

lemma unresolved_reference_is_behind: "is_behind (web_host ''app'' None) docker_store (web_container ''app'')"
  by code_simp

lemma service_label_becomes_option:
  "composeUpdateRecreate (web_host ''--file=/tmp/x.yml'' (Some ''new'')) docker_store web_target =
     Inr [\<lparr>oa_command = ''/usr/bin/docker'', oa_args = [''compose'', ''-p'', ''web'', ''up'', ''-d'', ''--force-recreate'', ''--file=/tmp/x.yml''],
           oa_cwd = ''/srv/web'', oa_env = []\<rparr>]"
proof -
  have c: "container_of (web_line ''--file=/tmp/x.yml'') = web_container ''--file=/tmp/x.yml''" by code_simp
  have t: "trim_space ''x'' = ''x''" by (rule trim_space_all_graphic) simp
  have f: "storeProjectContainerFacts (web_host ''--file=/tmp/x.yml'' (Some ''new'')) docker_store ''web'' = Inr [web_container ''--file=/tmp/x.yml'']"
    by (simp add: storeProjectContainerFacts_def runStoreCommand_def docker_store_def web_host_def demo_host_def
        fact_line_def MaxScanTokenSize_def t c web_container_def)
  have b: "behind_loop (web_host ''--file=/tmp/x.yml'' (Some ''new'')) docker_store [] [web_container ''--file=/tmp/x.yml''] =
      [web_container ''--file=/tmp/x.yml'']" by code_simp
  have a: "composeAttempts (web_host ''--file=/tmp/x.yml'' (Some ''new'')) docker_store web_target (recreate_verb @ [''--file=/tmp/x.yml'']) =
     Inr [\<lparr>oa_command = ''/usr/bin/docker'', oa_args = [''compose'', ''-p'', ''web'', ''up'', ''-d'', ''--force-recreate'', ''--file=/tmp/x.yml''],
           oa_cwd = ''/srv/web'', oa_env = []\<rparr>]" by code_simp
  show ?thesis using f b a
    by (simp add: composeUpdateRecreate_def storeProjectContainersBehind_def web_target_def web_container_def)
qed

definition web_plan :: plan_env where
  "web_plan = \<lparr>pe_host = web_host ''app'' (Some ''new''), pe_after = (\<lambda>_. web_host ''app'' (Some ''new'')), pe_registry = None,
     pe_priv = None, pe_timeout = 0\<rparr>"


end
