(* ===== verification/Ops_Dispatch.thy ===== *)
theory Ops_Dispatch
  imports Ops_Compose_Facts
begin

text \<open>
  From request to outcome (\<open>dispatch\<close>, \<open>dispatchTask\<close> and \<open>runContext\<close> of
  \<open>internal/daemon/ops.go\<close>): an operation is planned, takes a slot, and its stages are run in the
  request or as a task.
\<close>

definition nativeOpDisplayNames :: "(string \<times> string) list" where
  "nativeOpDisplayNames =
     [(''container.start'', ''Start container''), (''container.stop'', ''Stop container''),
      (''container.restart'', ''Restart container''), (''container.pause'', ''Pause container''),
      (''container.unpause'', ''Unpause container''), (''container.kill'', ''Kill container''),
      (''container.remove'', ''Remove container''), (''container.pull'', ''Pull container image''),
      (''container.update'', ''Update container''), (''process.kill'', ''Kill process''),
      (''systemd.start'', ''Start systemd unit''), (''systemd.stop'', ''Stop systemd unit''),
      (''systemd.restart'', ''Restart systemd unit''), (''systemd.reload'', ''Reload systemd unit''),
      (''systemd.enable'', ''Enable systemd unit''), (''systemd.disable'', ''Disable systemd unit''),
      (''package.refresh'', ''Refresh package indexes''), (''package.upgrade'', ''Upgrade packages''),
      (''package.install'', ''Install package''), (''package.remove'', ''Remove package''),
      (''firewall.enable'', ''Enable firewall''), (''firewall.disable'', ''Disable firewall''),
      (''firewall.allow'', ''Allow firewall rule''), (''firewall.deny'', ''Deny firewall rule''),
      (''firewall.delete'', ''Delete firewall rule''), (''compose.up'', ''Compose up''),
      (''compose.stop'', ''Compose stop''), (''compose.restart'', ''Compose restart''),
      (''compose.pull'', ''Compose pull''), (''compose.recreate'', ''Compose recreate''),
      (''compose.update'', ''Update compose stack'')]"

definition display_name :: "string \<Rightarrow> string" where
  "display_name slug = (case map_of nativeOpDisplayNames slug of None \<Rightarrow> [] | Some n \<Rightarrow> n)"

text \<open>The report the cloud lists a daemon's built-in operations from: name, label, enabled.\<close>

definition nativeOpReport :: "(string \<times> string \<times> bool) list" where
  "nativeOpReport = map (\<lambda>slug. (slug, display_name slug, True)) NativeOpNames"

text \<open>The deadline of a run; none when the timeout is not positive.\<close>

definition runContext :: "time \<Rightarrow> time \<Rightarrow> time option" where
  "runContext now timeout = (if timeout \<le> 0 then None else Some (now + timeout))"

text \<open>
  \<open>dispatch\<close>: the request waits for the outcome. \<open>slot\<close> is what \<open>acquireSlot\<close> answered; \<open>oe_of\<close>
  is the run's environment for the plan's deadline.
\<close>

datatype dispatch_answer =
    Rejected request_error
  | TooMany
  | Ran op_outcome

definition native_dispatch ::
  "plan_env \<Rightarrow> (time \<Rightarrow> op_env) \<Rightarrow> bool \<Rightarrow> bool \<Rightarrow> bool \<Rightarrow> string \<Rightarrow> opParams \<Rightarrow> string \<Rightarrow> dispatch_answer" where
  "native_dispatch pe oe_of slot audited published slug ps source =
     (case planNativeOp pe slug ps of
        Inl e \<Rightarrow> Rejected e
      | Inr pl \<Rightarrow>
          if \<not> slot then TooMany
          else Ran (runStages (oe_of (np_timeout pl)) audited published slug (display_name slug) source (np_stages pl) None))"

text \<open>\<open>dispatchTask\<close> with its planning: a stored task, or the refusal.\<close>

definition dispatch_task ::
  "plan_env \<Rightarrow> bool \<Rightarrow> time \<Rightarrow> string \<Rightarrow> string \<Rightarrow> opParams \<Rightarrow> string \<Rightarrow> string \<Rightarrow> task_store
     \<Rightarrow> request_error + (nat + op_task \<times> task_store) \<times> nativeOpPlan" where
  "dispatch_task pe slot now i slug ps source invokedBy s =
     (case planNativeOp pe slug ps of
        Inl e \<Rightarrow> Inl e
      | Inr pl \<Rightarrow>
          Inr (dispatchTask slot now i slug (display_name slug) (np_target pl) source invokedBy (np_stages pl) s, pl))"

section \<open>Every name has its label and its plan\<close>

text \<open>
  The list of names a relay, the pipe and jobs accept lacks one operation that has a label and a
  plan: a stack update can only be asked for over HTTP.
\<close>

lemma update_is_not_listed:
  "set (map fst nativeOpDisplayNames) - set NativeOpNames = {''compose.update''}"
  "set NativeOpNames \<subseteq> set (map fst nativeOpDisplayNames)" "taskNativeOp ''compose.update''" "\<not> isNativeOpSlug ''compose.update''"
  by code_simp+

section \<open>A sequence run as alternatives\<close>

text \<open>
  A firewalld rule is two commands in sequence, the permanent change and the reload that puts it
  into effect. A daemon that does not route the family plans them as alternatives of one stage: the
  reload is not run once the change has succeeded, and when the change fails the reload's success
  is the operation's.
\<close>

lemma firewalld_commands:
  "FirewallCommand ''firewalld'' ''allow'' \<lparr>fr_action = ''allow'', fr_port = ''22'', fr_protocol = ''tcp'', fr_source = ''any''\<rparr> =
     Inr [[''firewall-cmd'', ''--permanent'', ''--add-port=22/tcp''], [''firewall-cmd'', ''--reload'']]"
  by code_simp

lemma reload_after_success_not_run:
  assumes "rr_err (runOpOnce env hist change) = None"
  shows "sr_hist (runStage env hist (change # rest)) = hist @ [change]"
  using assms by (simp add: runStage_def Let_def)

lemma reload_hides_failed_change:
  assumes "rr_err (runOpOnce env hist change) \<noteq> None" "oe_ctx env (hist @ [change]) \<noteq> CtxDeadline"
    and "rr_err (runOpOnce env (hist @ [change]) reloading) = None"
  shows "sr_err (runStage env hist [change, reloading]) = None"
  using assms by (auto simp: runStage_def Let_def)

end
