(* ===== verification/Daemon_Origins.thy ===== *)
theory Daemon_Origins
  imports Go_Scan
begin

text \<open>
  Browser origins: Go's \<open>path.Match\<close>, the check of a configured pattern
  (\<open>internal/config/config.go\<close>), and what the daemon answers a cross-origin request
  (\<open>internal/daemon/cors.go\<close>). \<open>path.Match\<close> is modelled on bytes, which is what it reads of a
  pattern and a name in ASCII.
\<close>

section \<open>\<open>path.Match\<close>\<close>

datatype glob_item =
    AnyOne
  | OneOf bool "(char \<times> char) list" \<comment> \<open>whether the class is negated, and its ranges\<close>
  | Lit char

text \<open>\<open>getEsc\<close>: a possibly escaped character of a class, which must not end the pattern.\<close>

definition getEsc :: "string \<Rightarrow> (char \<times> string) option" where
  "getEsc s =
     (case s of
        [] \<Rightarrow> None
      | c # cs \<Rightarrow>
          if c = CHR ''-'' \<or> c = CHR '']'' then None
          else if c = CHR 0x5C then (case cs of d # r # rs \<Rightarrow> Some (d, r # rs) | _ \<Rightarrow> None)
          else if cs = [] then None else Some (c, cs))"

lemma getEsc_shorter: "getEsc s = Some (c, r) \<Longrightarrow> length r < length s"
  by (auto simp: getEsc_def split: list.split_asm if_split_asm)

function class_ranges :: "(char \<times> char) list \<Rightarrow> string \<Rightarrow> ((char \<times> char) list \<times> string) option" where
  "class_ranges acc s =
     (if s \<noteq> [] \<and> hd s = CHR '']'' \<and> acc \<noteq> [] then Some (acc, tl s)
      else case getEsc s of
        None \<Rightarrow> None
      | Some (lo, r) \<Rightarrow>
          if hd r = CHR ''-'' then
            (case getEsc (tl r) of None \<Rightarrow> None | Some (hi, r') \<Rightarrow> class_ranges (acc @ [(lo, hi)]) r')
          else class_ranges (acc @ [(lo, lo)]) r)"
  by pat_completeness auto
termination
  by (relation "measure (\<lambda>(acc, s). length s)") (auto dest!: getEsc_shorter)

declare class_ranges.simps [simp del]

lemma class_ranges_shorter: "class_ranges acc s = Some (rs, r) \<Longrightarrow> length r \<le> length s"
proof (induction acc s rule: class_ranges.induct)
  case (1 acc s)
  show ?case using "1.prems" "1.IH"
    by (subst (asm) class_ranges.simps) (fastforce split: if_split_asm option.split_asm prod.split_asm dest: getEsc_shorter)
qed

text \<open>The pattern as chunks, each with the star before it; none for \<open>ErrBadPattern\<close>.\<close>

definition add_item :: "glob_item \<Rightarrow> (bool \<times> glob_item list) list \<Rightarrow> (bool \<times> glob_item list) list" where
  "add_item i cs = (case cs of [] \<Rightarrow> [(False, [i])] | (star, is) # r \<Rightarrow> if star then (False, [i]) # cs else (False, i # is) # r)"

definition add_star :: "(bool \<times> glob_item list) list \<Rightarrow> (bool \<times> glob_item list) list" where
  "add_star cs = (case cs of [] \<Rightarrow> [(True, [])] | (star, is) # r \<Rightarrow> (True, is) # r)"

function glob_chunks :: "string \<Rightarrow> (bool \<times> glob_item list) list option" where
  "glob_chunks [] = Some []"
| "glob_chunks (c # cs) =
     (if c = CHR ''*'' then map_option add_star (glob_chunks cs)
      else if c = CHR ''?'' then map_option (add_item AnyOne) (glob_chunks cs)
      else if c = CHR 0x5C then
        (case cs of [] \<Rightarrow> None | d # ds \<Rightarrow> map_option (add_item (Lit d)) (glob_chunks ds))
      else if c = CHR ''['' then
        (let neg = (cs \<noteq> [] \<and> hd cs = CHR ''^'') in
         case class_ranges [] (if neg then tl cs else cs) of
           None \<Rightarrow> None
         | Some (rs, r) \<Rightarrow> map_option (add_item (OneOf neg rs)) (glob_chunks r))
      else map_option (add_item (Lit c)) (glob_chunks cs))"
  by pat_completeness auto
termination
  by (relation "measure length") (auto dest!: class_ranges_shorter split: if_split_asm)

definition item_matches :: "glob_item \<Rightarrow> char \<Rightarrow> bool" where
  "item_matches i c =
     (case i of
        AnyOne \<Rightarrow> c \<noteq> slash
      | OneOf neg rs \<Rightarrow> (\<exists>(lo, hi) \<in> set rs. lo \<le> c \<and> c \<le> hi) \<noteq> neg
      | Lit d \<Rightarrow> c = d)"

fun matchChunk :: "glob_item list \<Rightarrow> string \<Rightarrow> string option" where
  "matchChunk [] s = Some s"
| "matchChunk (i # is) [] = None"
| "matchChunk (i # is) (c # cs) = (if item_matches i c then matchChunk is cs else None)"

text \<open>After a star: the chunk at the first later position that can be reached without a slash.\<close>

fun match_later :: "glob_item list \<Rightarrow> bool \<Rightarrow> string \<Rightarrow> string option" where
  "match_later is final [] = None"
| "match_later is final (c # cs) =
     (if c = slash then None
      else case matchChunk is cs of
        Some t \<Rightarrow> if final \<and> t \<noteq> [] then match_later is final cs else Some t
      | None \<Rightarrow> match_later is final cs)"

text \<open>The loop over the chunks: a match that leaves the rest of the pattern is never taken back.\<close>

fun match_chunks :: "(bool \<times> glob_item list) list \<Rightarrow> string \<Rightarrow> bool" where
  "match_chunks [] s = (s = [])"
| "match_chunks ((star, is) # cs) s =
     (if star \<and> is = [] then slash \<notin> set s
      else case matchChunk is s of
        Some t \<Rightarrow>
          if t = [] \<or> cs \<noteq> [] then match_chunks cs t
          else if star then (case match_later is True s of Some t' \<Rightarrow> match_chunks cs t' | None \<Rightarrow> False) else False
      | None \<Rightarrow>
          if star then (case match_later is (cs = []) s of Some t' \<Rightarrow> match_chunks cs t' | None \<Rightarrow> False) else False)"

definition path_Match :: "string \<Rightarrow> string \<Rightarrow> bool option" where
  "path_Match pattern name = map_option (\<lambda>cs. match_chunks cs name) (glob_chunks pattern)"

section \<open>Allowlists\<close>

definition validateOriginPattern :: "string \<Rightarrow> bool" where
  "validateOriginPattern origin \<longleftrightarrow>
     \<not> (origin = [] \<or> trim_space origin \<noteq> origin \<or> origin = ''*'') \<and> path_Match (to_lower origin) ''x'' \<noteq> None"

text \<open>\<open>parse\<close> is \<open>url.Parse\<close>: the scheme and the host of an origin, none when it does not parse.\<close>

definition pattern_target :: "string \<Rightarrow> string \<times> string \<Rightarrow> string" where
  "pattern_target pattern u = (if contains ''://'' pattern then fst u @ ''://'' @ snd u else snd u)"

definition originAllowed :: "(string \<Rightarrow> (string \<times> string) option) \<Rightarrow> string list \<Rightarrow> string \<Rightarrow> string \<Rightarrow> bool" where
  "originAllowed parse patterns origin requestHost =
     (case parse origin of
        None \<Rightarrow> False
      | Some u \<Rightarrow>
          if snd u = [] then False
          else if equal_fold requestHost (snd u) then True
          else (\<exists>pattern \<in> set patterns. path_Match pattern (pattern_target pattern u) = Some True))"

section \<open>The middleware\<close>

record cors_request =
  cq_method :: string
  cq_origin :: string
  cq_host :: string
  cq_requestHeaders :: string

definition corsAllowHeaders :: "cors_request \<Rightarrow> string" where
  "corsAllowHeaders r =
     (let requested = trim_space (cq_requestHeaders r) in
      if requested \<noteq> [] then requested else ''Authorization, Content-Type'')"

text \<open>The headers it adds, in order, and whether it answers itself: 204, and no handler runs.\<close>

definition corsMiddleware ::
  "(string \<Rightarrow> (string \<times> string) option) \<Rightarrow> string list \<Rightarrow> cors_request \<Rightarrow> (string \<times> string) list \<times> bool" where
  "corsMiddleware parse allowed r =
     (let origin = trim_space (cq_origin r) in
      if origin = [] then ([], False)
      else if \<not> originAllowed parse allowed origin (cq_host r) then ([(''Vary'', ''Origin'')], False)
      else if cq_method r = ''OPTIONS'' then
        ([(''Vary'', ''Origin''), (''Access-Control-Allow-Origin'', origin),
          (''Access-Control-Allow-Methods'', ''GET, POST, PUT, PATCH, DELETE, OPTIONS''),
          (''Access-Control-Allow-Headers'', corsAllowHeaders r), (''Access-Control-Max-Age'', ''600'')], True)
      else ([(''Vary'', ''Origin''), (''Access-Control-Allow-Origin'', origin),
             (''Access-Control-Expose-Headers'', ''X-MaidCafe-File-Size'')], False))"

end
