(* ===== verification/Daemon_Config.thy ===== *)
theory Daemon_Config
  imports Daemon_Origins Ops_Plan Daemon_Files Complex_Main
begin

text \<open>
  The daemon's configuration (\<open>internal/config/config.go\<close>): the tables, and \<open>ValidateDaemon\<close> with the
  checks it is made of. The ten collector intervals are kept together, as \<open>reloadableIntervals\<close> has
  them; a webhook or action is the executor's \<open>hook\<close>. A Go pointer to a bool is an option.
\<close>

section \<open>The tables\<close>

record TerminalRelayConfig =
  tr_Enabled :: bool
  tr_Users :: "string list"
  tr_PollWait :: time

record TerminalConfig =
  tc_Enabled :: bool
  tc_Secret :: string
  tc_Shells :: "string list"
  tc_Users :: "string list"
  tc_Cwd :: string
  tc_Env :: "string list"
  tc_AllowedOrigins :: "string list"
  tc_AllowRemote :: bool
  tc_MaxSessions :: int
  tc_IdleTimeout :: time
  tc_MaxLifetime :: time
  tc_Relay :: TerminalRelayConfig

record ComposeConfig =
  cc_StacksPath :: string
  cc_ScanRoots :: "string list"
  cc_ScanDepth :: int

record PrivConfig =
  pc_Helper :: string
  pc_Systemd :: bool
  pc_Packages :: bool
  pc_Firewall :: bool

record LogAlertConfig =
  la_Name :: string
  la_Pattern :: string
  la_Container :: string
  la_Title :: string
  la_Enabled :: "bool option"
  la_CooldownSeconds :: int

record AlarmConfig =
  ac_Kind :: string
  ac_Threshold :: rat
  ac_Target :: string
  ac_Enabled :: "bool option"
  ac_CooldownSeconds :: int

record JobConfig =
  jc_Name :: string
  jc_Schedule :: string
  jc_Action :: string
  jc_Body :: "(string \<times> json) list option"
  jc_Enabled :: "bool option"
  jc_Timeout :: time
  jc_NotifyOnFailure :: bool

record reloadableIntervals =
  iv_metrics :: time
  iv_stream :: time
  iv_containers :: time
  iv_images :: time
  iv_processes :: time
  iv_systemd :: time
  iv_runtimes :: time
  iv_database :: time
  iv_logs :: time
  iv_updateCheck :: time

record DaemonConfig =
  dc_ID :: string
  dc_HostID :: string
  dc_Version :: string
  dc_Transport :: string
  dc_Listen :: string
  dc_MetricsSecret :: string
  dc_MetricsRetentionDays :: int
  dc_ActionsDir :: string
  dc_AlarmsDir :: string
  dc_JobsDir :: string
  dc_LogAlertsDir :: string
  dc_Terminal :: TerminalConfig
  dc_Files :: files_config
  dc_Compose :: ComposeConfig
  dc_Priv :: PrivConfig
  dc_CloudURL :: string
  dc_CloudSecret :: string
  dc_LogsUploadEnabled :: bool
  dc_LogsUploadInterval :: time
  dc_LogsUploadBatchLines :: int
  dc_ManagedContainers :: "string list"
  dc_ManagedComposes :: "string list"
  dc_StatusUploadEnabled :: bool
  dc_Intervals :: reloadableIntervals
  dc_Runtimes :: "string list"
  dc_WatchedProcesses :: "string list"
  dc_ProcessesLimit :: int
  dc_RequestTimeout :: time
  dc_ScriptTimeout :: time
  dc_MaxBodyBytes :: int
  dc_MaxConcurrentRuns :: int
  dc_Webhooks :: "hook list"
  dc_Actions :: "hook list"
  dc_Alarms :: "AlarmConfig list"
  dc_Jobs :: "JobConfig list"
  dc_LogAlerts :: "LogAlertConfig list"

section \<open>What a check asks\<close>

text \<open>
  The accounts of the host, \<open>os.Stat\<close> (whether a path is a directory, and its permission bits),
  \<open>net.ResolveTCPAddr\<close> (the port), \<open>regexp.Compile\<close>, \<open>cron.ParseStandard\<close>, and \<open>url.Parse\<close> (scheme,
  host, host name).
\<close>

record config_env =
  ce_user :: "string \<Rightarrow> bool"
  ce_stat :: "string \<Rightarrow> (bool \<times> fmode) option"
  ce_tcp :: "string \<Rightarrow> int option"
  ce_regexp :: "string \<Rightarrow> bool"
  ce_cron :: "string \<Rightarrow> bool"
  ce_url :: "string \<Rightarrow> (string \<times> string \<times> string) option"

text \<open>A refusal names the key, with its index in a list, and says what is wrong.\<close>

datatype daemon_config_error =
    Bad string string
  | BadAt string nat string

definition refuse :: "bool \<Rightarrow> 'e \<Rightarrow> 'e + unit" where
  "refuse wrong e = (if wrong then Inl e else Inr ())"

definition in_order :: "('e + unit) list \<Rightarrow> 'e + unit" where
  "in_order checks = rfold (\<lambda>_ c. c) () checks"

definition indexed :: "'a list \<Rightarrow> (nat \<times> 'a) list" where
  "indexed xs = zip [0..<length xs] xs"

text \<open>A loop that refuses a duplicate: the keys seen so far, and the check of one entry.\<close>

definition each_once :: "(nat \<Rightarrow> string \<Rightarrow> string list \<Rightarrow> 'e + unit) \<Rightarrow> string list \<Rightarrow> 'e + string list" where
  "each_once check xs = rfold (\<lambda>seen (i, x). rbind (check i x seen) (\<lambda>_. Inr (seen @ [x]))) [] (indexed xs)"

section \<open>Patterns and addresses\<close>

definition ident_head :: "char \<Rightarrow> bool" where
  "ident_head c \<longleftrightarrow> is_lower c \<or> is_upper c \<or> c = CHR ''_''"

definition envAssignmentPattern :: "string \<Rightarrow> bool" where
  "envAssignmentPattern kv =
     (case cut_first (CHR ''='') kv of
        None \<Rightarrow> False
      | Some (k, v) \<Rightarrow> k \<noteq> [] \<and> ident_head (hd k) \<and> list_all (\<lambda>c. ident_head c \<or> is_digit c) (tl k))"

definition runtimeNamePattern :: "string \<Rightarrow> bool" where
  "runtimeNamePattern s =
     (case s of [] \<Rightarrow> False
      | c # cs \<Rightarrow> is_lower c \<and> list_all (\<lambda>c. is_lower c \<or> is_digit c \<or> c = CHR ''_'' \<or> c = CHR ''-'') cs)"

definition ValidWatchedProcessName :: "string \<Rightarrow> bool" where
  "ValidWatchedProcessName s = re_head_rest is_alnum name_char 63 s"

definition webhookNamePattern :: "string \<Rightarrow> bool" where
  "webhookNamePattern s \<longleftrightarrow> s \<noteq> [] \<and> list_all name_char s"

definition hook_Label :: "hook \<Rightarrow> string" where
  "hook_Label h = (let name = trim_space (hk_displayName h) in if name \<noteq> [] then name else hk_name h)"

definition ValidateCloudURL :: "config_env \<Rightarrow> string \<Rightarrow> bool" where
  "ValidateCloudURL ce raw \<longleftrightarrow>
     (let value = trim_space raw in
      value = [] \<or>
      (case ce_url ce value of
         None \<Rightarrow> False
       | Some (scheme, host, hostname) \<Rightarrow>
           host \<noteq> [] \<and> (scheme = ''https'' \<or> scheme = ''http'' \<and> (hostname = ''127.0.0.1'' \<or> hostname = ''localhost''))))"

definition validateListen :: "config_env \<Rightarrow> string \<Rightarrow> bool" where
  "validateListen ce value \<longleftrightarrow>
     trim_space value \<noteq> [] \<and>
     (case ce_tcp ce value of None \<Rightarrow> False | Some port \<Rightarrow> \<not> (port \<noteq> 0 \<and> port < 1024))"

section \<open>Sections of the daemon table\<close>

definition validateHookExecution :: "config_env \<Rightarrow> hook \<Rightarrow> string \<Rightarrow> nat \<Rightarrow> daemon_config_error + unit" where
  "validateHookExecution ce h kind i =
     in_order
       ([refuse (hk_cwd h \<noteq> [] \<and> \<not> is_abs (hk_cwd h)) (BadAt kind i ''cwd must be an absolute path''),
         refuse (hk_user h \<noteq> [] \<and> \<not> ce_user ce (hk_user h)) (BadAt kind i ''user does not exist'')] @
        map (\<lambda>kv. refuse (\<not> envAssignmentPattern kv) (BadAt kind i ''env must be KEY=VALUE with an identifier key'')) (hk_env h) @
        [refuse (hk_timeout h < 0) (BadAt kind i ''timeout must not be negative'')])"

definition TerminalMaxSessionsLimit :: int where "TerminalMaxSessionsLimit = 8"
definition TerminalRelayMinPollWait :: time where "TerminalRelayMinPollWait = seconds 3"
definition TerminalRelayMaxPollWait :: time where "TerminalRelayMaxPollWait = seconds 25"

definition check_shell :: "nat \<Rightarrow> string \<Rightarrow> string list \<Rightarrow> daemon_config_error + unit" where
  "check_shell i shell seen = in_order
     [refuse (\<not> is_abs shell) (BadAt ''daemon.terminal.shells'' i ''must be an absolute path''),
      refuse (shell \<in> set seen) (BadAt ''daemon.terminal.shells'' i ''is duplicated'')]"

definition check_user :: "config_env \<Rightarrow> nat \<Rightarrow> string \<Rightarrow> string list \<Rightarrow> daemon_config_error + unit" where
  "check_user ce i name seen = in_order
     [refuse (name \<in> set seen) (BadAt ''daemon.terminal.users'' i ''is duplicated''),
      refuse (\<not> ce_user ce name) (BadAt ''daemon.terminal.users'' i ''does not exist'')]"

definition check_relay_user :: "nat \<Rightarrow> string \<Rightarrow> string list \<Rightarrow> daemon_config_error + unit" where
  "check_relay_user i name seen = in_order
     [refuse (name = [] \<or> trim_space name \<noteq> name) (BadAt ''daemon.terminal.relay.users'' i ''must be a non-empty cloud identity''),
      refuse (name \<in> set seen) (BadAt ''daemon.terminal.relay.users'' i ''is duplicated'')]"

definition validateTerminal :: "config_env \<Rightarrow> TerminalConfig \<Rightarrow> daemon_config_error + unit" where
  "validateTerminal ce cfg =
     (let relay = tc_Relay cfg; wait = tr_PollWait relay in
      rbind (refuse ((tc_Enabled cfg \<or> tr_Enabled relay) \<and> tc_Shells cfg = [])
        (Bad ''daemon.terminal.shells'' ''must not be empty when the terminal is enabled'')) (\<lambda>_.
      rbind (each_once check_shell (tc_Shells cfg)) (\<lambda>_.
      rbind (each_once (check_user ce) (tc_Users cfg)) (\<lambda>_.
      rbind (in_order
        ([refuse (tc_Cwd cfg \<noteq> [] \<and> \<not> is_abs (tc_Cwd cfg)) (Bad ''daemon.terminal.cwd'' ''must be an absolute path'')] @
         map (\<lambda>(i, kv). refuse (\<not> envAssignmentPattern kv)
           (BadAt ''daemon.terminal.env'' i ''must be KEY=VALUE with an identifier key'')) (indexed (tc_Env cfg)) @
         [refuse (trim_space (tc_Secret cfg) \<noteq> tc_Secret cfg) (Bad ''daemon.terminal.secret'' ''must not contain whitespace'')] @
         map (\<lambda>(i, origin). refuse (\<not> validateOriginPattern origin)
           (BadAt ''daemon.terminal.allowedOrigins'' i ''must be a host or scheme://host pattern (no bare *)''))
           (indexed (tc_AllowedOrigins cfg)) @
         [refuse (tc_MaxSessions cfg < 0 \<or> TerminalMaxSessionsLimit < tc_MaxSessions cfg)
            (Bad ''daemon.terminal.maxSessions'' ''must be between 1 and 8''),
          refuse (tc_IdleTimeout cfg < 0) (Bad ''daemon.terminal.idleTimeout'' ''must not be negative''),
          refuse (tc_MaxLifetime cfg < 0) (Bad ''daemon.terminal.maxLifetime'' ''must not be negative''),
          refuse (0 < tc_MaxLifetime cfg \<and> 0 < tc_IdleTimeout cfg \<and> tc_MaxLifetime cfg < tc_IdleTimeout cfg)
            (Bad ''daemon.terminal.maxLifetime'' ''must not be shorter than idleTimeout'')])) (\<lambda>_.
      rbind (each_once check_relay_user (tr_Users relay)) (\<lambda>_.
      refuse (wait \<noteq> 0 \<and> (wait < TerminalRelayMinPollWait \<or> TerminalRelayMaxPollWait < wait))
        (Bad ''daemon.terminal.relay.pollWait'' ''must be between 3s and 25s'')))))))"

text \<open>A directory that exists, named by an absolute path, once.\<close>

definition directory_check :: "config_env \<Rightarrow> string \<Rightarrow> nat \<Rightarrow> string \<Rightarrow> string list \<Rightarrow> daemon_config_error + unit" where
  "directory_check ce key i p seen = in_order
     [refuse (trim_space p \<noteq> p \<or> p = []) (BadAt key i ''must be a non-empty path''),
      refuse (\<not> is_abs p) (BadAt key i ''must be an absolute path''),
      refuse (clean p \<in> set seen) (BadAt key i ''is duplicated''),
      refuse (ce_stat ce (clean p) = None) (BadAt key i ''is not usable''),
      refuse (case ce_stat ce (clean p) of None \<Rightarrow> False | Some (dir, _) \<Rightarrow> \<not> dir) (BadAt key i ''is not a directory'')]"

definition FilesMaxTransferBytes :: int where "FilesMaxTransferBytes = 1073741824"
definition FilesMaxListEntriesLimit :: int where "FilesMaxListEntriesLimit = 100000"

definition files_root_step ::
  "config_env \<Rightarrow> string list \<Rightarrow> nat \<times> files_root_config \<Rightarrow> daemon_config_error + string list" where
  "files_root_step ce seen ir =
     (let (i, r) = ir; key = ''daemon.files.roots'' in
      rbind (directory_check ce key i (rc_path r) seen) (\<lambda>_.
      rbind (in_order
        [refuse (rc_privileged r \<and> \<not> ValidProfileName (rc_profile r)) (BadAt key i ''is privileged and needs a profile name''),
         refuse (\<not> rc_privileged r \<and> rc_profile r \<noteq> []) (BadAt key i ''profile is only meaningful with privileged = true'')]) (\<lambda>_.
      Inr (seen @ [clean (rc_path r)]))))"

definition validateFiles :: "config_env \<Rightarrow> files_config \<Rightarrow> daemon_config_error + unit" where
  "validateFiles ce cfg =
     rbind (in_order
       [refuse (fc_secret cfg \<noteq> [] \<and> contains_any (fc_secret cfg) [CHR '' '', CHR 0x09, CHR 0x0D, CHR 0x0A])
          (Bad ''daemon.files.secret'' ''must not contain whitespace''),
        refuse (fc_maxRead cfg < 0 \<or> fc_maxWrite cfg < 0) (Bad ''daemon.files'' ''maxReadBytes and maxWriteBytes must not be negative''),
        refuse (FilesMaxTransferBytes < fc_maxRead cfg \<or> FilesMaxTransferBytes < fc_maxWrite cfg)
          (Bad ''daemon.files'' ''maxReadBytes and maxWriteBytes are too large''),
        refuse (fc_maxList cfg < 0 \<or> FilesMaxListEntriesLimit < fc_maxList cfg) (Bad ''daemon.files.maxListEntries'' ''is out of range'')]) (\<lambda>_.
     if \<not> fc_enabled cfg then Inr ()
     else rbind (refuse (fc_roots cfg = []) (Bad ''daemon.files.roots'' ''must not be empty when the file API is enabled'')) (\<lambda>_.
       rbind (rfold (files_root_step ce) [] (indexed (fc_roots cfg))) (\<lambda>_. Inr ())))"

definition scan_root_step :: "config_env \<Rightarrow> string list \<Rightarrow> nat \<times> string \<Rightarrow> daemon_config_error + string list" where
  "scan_root_step ce seen ir =
     (let (i, root) = ir in
      rbind (directory_check ce ''daemon.compose.scanRoots'' i root seen) (\<lambda>_. Inr (seen @ [clean root])))"

definition validateCompose :: "config_env \<Rightarrow> ComposeConfig \<Rightarrow> daemon_config_error + unit" where
  "validateCompose ce cfg =
     rbind (in_order
       [refuse (cc_StacksPath cfg \<noteq> [] \<and> \<not> is_abs (cc_StacksPath cfg)) (Bad ''daemon.compose.stacksPath'' ''must be an absolute path''),
        refuse (cc_ScanDepth cfg < 0 \<or> 12 < cc_ScanDepth cfg) (Bad ''daemon.compose.scanDepth'' ''must be between 0 and 12'')]) (\<lambda>_.
     rbind (rfold (scan_root_step ce) [] (indexed (cc_ScanRoots cfg))) (\<lambda>_. Inr ()))"

definition needsHelper :: "PrivConfig \<Rightarrow> files_config \<Rightarrow> bool" where
  "needsHelper cfg files \<longleftrightarrow> pc_Systemd cfg \<or> pc_Packages cfg \<or> pc_Firewall cfg \<or> list_ex rc_privileged (fc_roots files)"

definition validatePriv :: "config_env \<Rightarrow> PrivConfig \<Rightarrow> files_config \<Rightarrow> daemon_config_error + unit" where
  "validatePriv ce cfg files =
     rbind (refuse (pc_Helper cfg \<noteq> [] \<and> \<not> is_abs (pc_Helper cfg)) (Bad ''daemon.priv.helper'' ''must be an absolute path'')) (\<lambda>_.
     if \<not> needsHelper cfg files then Inr ()
     else case ce_stat ce (if pc_Helper cfg = [] then FilesDefaultPrivilegedHelper else pc_Helper cfg) of
       None \<Rightarrow> Inl (Bad ''daemon.priv.helper'' ''is not usable'')
     | Some (dir, perm) \<Rightarrow> refuse (dir \<or> and perm 73 = 0) \<comment> \<open>0o111\<close>
         (Bad ''daemon.priv.helper'' ''is not an executable file''))"

end
