(* ===== verification/Daemon_Config_Load.thy ===== *)
theory Daemon_Config_Load
  imports Daemon_Config
begin

text \<open>
  \<open>ValidateDaemon\<close> and what surrounds it (\<open>internal/config/config.go\<close>, \<open>internal/daemon/reload.go\<close>,
  \<open>config_api.go\<close>): the entries it fills in while it checks them, the fragment files merged into the
  tables, the swap of a reloaded configuration, and the PATCH of the configuration file.
\<close>

section \<open>\<open>ValidateDaemon\<close>\<close>

definition webhook_step :: "config_env \<Rightarrow> string list \<Rightarrow> nat \<times> hook \<Rightarrow> daemon_config_error + string list" where
  "webhook_step ce seen ih =
     (let (i, h) = ih; key = ''daemon.webhooks'' in
      rbind (in_order
        [refuse (trim_space (hk_name h) = [] \<or> \<not> webhookNamePattern (hk_name h)) (BadAt key i ''name must match [A-Za-z0-9._-]+''),
         refuse (hk_name h \<in> set seen) (BadAt key i ''name is duplicated''),
         refuse (isNativeOpSlug (hk_name h)) (BadAt key i ''name is reserved for a built-in operation''),
         refuse (trim_space (hk_secret h) = []) (BadAt key i ''secret is required''),
         refuse (\<not> is_abs (hk_command h)) (BadAt key i ''command must be an absolute path''),
         validateHookExecution ce h key i]) (\<lambda>_. Inr (seen @ [hk_name h])))"

definition action_step :: "config_env \<Rightarrow> string list \<Rightarrow> string list \<Rightarrow> nat \<times> hook \<Rightarrow> daemon_config_error + string list" where
  "action_step ce hooks seen ia =
     (let (i, a) = ia; key = ''daemon.actions'' in
      rbind (in_order
        [refuse (trim_space (hk_name a) = [] \<or> \<not> webhookNamePattern (hk_name a)) (BadAt key i ''name must match [A-Za-z0-9._-]+''),
         refuse (hk_name a \<in> set hooks) (BadAt key i ''name collides with a webhook of the same name''),
         refuse (hk_name a \<in> set seen) (BadAt key i ''name is duplicated''),
         refuse (isNativeOpSlug (hk_name a)) (BadAt key i ''name is reserved for a built-in operation''),
         refuse (\<not> is_abs (hk_command a)) (BadAt key i ''command must be an absolute path''),
         validateHookExecution ce a key i]) (\<lambda>_. Inr (seen @ [hk_name a])))"

definition default_true :: "bool option \<Rightarrow> bool option" where
  "default_true e = (case e of None \<Rightarrow> Some True | Some b \<Rightarrow> Some b)"

definition default_cooldown :: "int \<Rightarrow> int" where
  "default_cooldown n = (if n \<le> 0 then 300 else n)"

definition trimmed_alert :: "LogAlertConfig \<Rightarrow> LogAlertConfig" where
  "trimmed_alert a = a\<lparr>la_Name := trim_space (la_Name a), la_Pattern := trim_space (la_Pattern a),
     la_Container := trim_space (la_Container a), la_Title := trim_space (la_Title a)\<rparr>"

definition filled_alert :: "LogAlertConfig \<Rightarrow> LogAlertConfig" where
  "filled_alert a = a\<lparr>la_CooldownSeconds := default_cooldown (la_CooldownSeconds a), la_Enabled := default_true (la_Enabled a),
     la_Title := (if la_Title a = [] then ''Container log alert: '' @ la_Name a else la_Title a)\<rparr>"

definition alert_step ::
  "config_env \<Rightarrow> string list \<times> LogAlertConfig list \<Rightarrow> nat \<times> LogAlertConfig \<Rightarrow> daemon_config_error + string list \<times> LogAlertConfig list" where
  "alert_step ce s ia =
     (let (seen, out) = s; (i, raw) = ia; a = trimmed_alert raw; key = ''daemon.logAlerts'' in
      rbind (in_order
        [refuse (la_Name a = [] \<or> \<not> webhookNamePattern (la_Name a)) (BadAt key i ''name must match [A-Za-z0-9._-]+''),
         refuse (la_Name a \<in> set seen) (BadAt key i ''name is duplicated''),
         refuse (la_Pattern a = []) (BadAt key i ''pattern is required''),
         refuse (\<not> ce_regexp ce (la_Pattern a)) (BadAt key i ''pattern is invalid'')])
        (\<lambda>_. Inr (seen @ [la_Name a], out @ [filled_alert a])))"

text \<open>The loop over the jobs works on a copy: the trimmed name is checked, the untrimmed one kept.\<close>

definition job_step ::
  "config_env \<Rightarrow> string list \<times> JobConfig list \<Rightarrow> nat \<times> JobConfig \<Rightarrow> daemon_config_error + string list \<times> JobConfig list" where
  "job_step ce s ij =
     (let (seen, out) = s; (i, job) = ij; name = trim_space (jc_Name job); key = ''daemon.jobs'' in
      rbind (in_order
        [refuse (name = [] \<or> \<not> webhookNamePattern name) (BadAt key i ''name must match [A-Za-z0-9._-]+''),
         refuse (name \<in> set seen) (BadAt key i ''name is duplicated''),
         refuse (trim_space (jc_Schedule job) = []) (BadAt key i ''schedule is required''),
         refuse (\<not> ce_cron ce (jc_Schedule job)) (BadAt key i ''schedule is not a valid cron expression or descriptor''),
         refuse (trim_space (jc_Action job) = []) (BadAt key i ''action is required''),
         refuse (jc_Timeout job < 0) (BadAt key i ''timeout must not be negative'')])
        (\<lambda>_. Inr (seen @ [name], out @ [job\<lparr>jc_Enabled := default_true (jc_Enabled job)\<rparr>])))"

definition percentage_kinds :: "string list" where
  "percentage_kinds = [''cpu_percent'', ''memory_used_percent'', ''disk_used_percent'']"

definition alarm_key :: "AlarmConfig \<Rightarrow> string" where
  "alarm_key a = ac_Kind a @ [CHR 0x00] @ ac_Target a"

definition trimmed_alarm :: "AlarmConfig \<Rightarrow> AlarmConfig" where
  "trimmed_alarm a = a\<lparr>ac_Kind := trim_space (ac_Kind a), ac_Target := trim_space (ac_Target a)\<rparr>"

definition filled_alarm :: "AlarmConfig \<Rightarrow> AlarmConfig" where
  "filled_alarm a = a\<lparr>ac_CooldownSeconds := default_cooldown (ac_CooldownSeconds a), ac_Enabled := default_true (ac_Enabled a)\<rparr>"

definition alarm_config_step ::
  "string list \<times> AlarmConfig list \<Rightarrow> nat \<times> AlarmConfig \<Rightarrow> daemon_config_error + string list \<times> AlarmConfig list" where
  "alarm_config_step s ia =
     (let (seen, out) = s; (i, raw) = ia; a = trimmed_alarm raw; key = ''daemon.alarms'' in
      rbind
        (if ac_Kind a \<in> set percentage_kinds then in_order
           [refuse (ac_Threshold a \<le> 0 \<or> 100 < ac_Threshold a) (BadAt key i ''threshold must be between 0 and 100''),
            refuse (ac_Target a \<noteq> []) (BadAt key i ''target is only supported for container_down'')]
         else refuse (ac_Kind a \<noteq> ''container_down'') (BadAt key i ''kind is unknown'')) (\<lambda>_.
      rbind (refuse (alarm_key a \<in> set seen) (BadAt key i ''kind with target is duplicated'')) (\<lambda>_.
      Inr (seen @ [alarm_key a], out @ [filled_alarm a]))))"

definition check_runtime :: "nat \<Rightarrow> string \<Rightarrow> string list \<Rightarrow> daemon_config_error + unit" where
  "check_runtime i name seen = in_order
     [refuse (\<not> runtimeNamePattern name) (BadAt ''daemon.runtimes'' i ''must match [a-z][a-z0-9_-]*''),
      refuse (name \<in> set seen) (BadAt ''daemon.runtimes'' i ''is duplicated'')]"

definition check_watched :: "nat \<Rightarrow> string \<Rightarrow> string list \<Rightarrow> daemon_config_error + unit" where
  "check_watched i name seen = in_order
     [refuse (\<not> ValidWatchedProcessName name) (BadAt ''daemon.watchedProcesses'' i ''must match [A-Za-z0-9][A-Za-z0-9._-]*''),
      refuse (name \<in> set seen) (BadAt ''daemon.watchedProcesses'' i ''is duplicated'')]"

definition transport_of :: "DaemonConfig \<Rightarrow> string" where
  "transport_of d = (let t = to_lower (trim_space (dc_Transport d)) in if t = [] then ''http'' else t)"

definition negative :: "string \<Rightarrow> time \<Rightarrow> daemon_config_error + unit" where
  "negative key v = refuse (v < 0) (Bad key ''must not be negative'')"

definition check_process :: "config_env \<Rightarrow> DaemonConfig \<Rightarrow> daemon_config_error + unit" where
  "check_process ce d = in_order
     [refuse (trim_space (dc_ID d) = []) (Bad ''daemon.id'' ''is required in daemon mode''),
      refuse (transport_of d \<noteq> ''http'' \<and> transport_of d \<noteq> ''stdio'') (Bad ''daemon.transport'' ''must be http or stdio''),
      refuse (transport_of d = ''http'' \<and> \<not> validateListen ce (dc_Listen d)) (Bad ''daemon.listen'' ''is not usable''),
      refuse (transport_of d = ''http'' \<and> trim_space (dc_MetricsSecret d) = []) (Bad ''daemon.metricsSecret'' ''is required for http transport'')]"

definition check_intervals :: "reloadableIntervals \<Rightarrow> daemon_config_error + unit" where
  "check_intervals v = in_order
     [refuse (iv_metrics v \<le> 0) (Bad ''daemon.metricsInterval'' ''must be positive''),
      refuse (iv_stream v \<le> 0) (Bad ''daemon.streamInterval'' ''must be positive''),
      negative ''daemon.containersInterval'' (iv_containers v), negative ''daemon.imagesInterval'' (iv_images v),
      negative ''daemon.processesInterval'' (iv_processes v), negative ''daemon.systemdInterval'' (iv_systemd v),
      negative ''daemon.logsInterval'' (iv_logs v), negative ''daemon.updateCheckInterval'' (iv_updateCheck v),
      negative ''daemon.runtimesInterval'' (iv_runtimes v)]"

definition check_limits :: "DaemonConfig \<Rightarrow> daemon_config_error + unit" where
  "check_limits d = in_order
     [refuse (dc_ProcessesLimit d < 1 \<or> 500 < dc_ProcessesLimit d) (Bad ''daemon.processesLimit'' ''must be between 1 and 500''),
      refuse (dc_MetricsRetentionDays d < 0 \<or> 30 < dc_MetricsRetentionDays d) (Bad ''daemon.metricsRetentionDays'' ''is out of range''),
      refuse (dc_RequestTimeout d \<le> 0) (Bad ''daemon.requestTimeout'' ''must be positive''),
      refuse (dc_ScriptTimeout d < 0) (Bad ''daemon.scriptTimeout'' ''must not be negative''),
      refuse (dc_MaxBodyBytes d \<le> 0) (Bad ''daemon.maxBodyBytes'' ''must be positive''),
      refuse (dc_MaxConcurrentRuns d \<le> 0) (Bad ''daemon.maxConcurrentRuns'' ''must be positive'')]"

definition batch_lines :: "int \<Rightarrow> int" where
  "batch_lines n = (if n \<le> 0 then 100 else n)"

definition check_uploads :: "DaemonConfig \<Rightarrow> daemon_config_error + unit" where
  "check_uploads d = in_order
     [negative ''daemon.logsUploadInterval'' (dc_LogsUploadInterval d),
      refuse (500 < batch_lines (dc_LogsUploadBatchLines d)) (Bad ''daemon.logsUploadBatchLines'' ''must be between 1 and 500''),
      refuse (dc_LogsUploadEnabled d \<and> dc_LogsUploadInterval d \<le> 0)
        (Bad ''daemon.logsUploadInterval'' ''must be positive when logsUploadEnabled is true'')]"

definition check_cloud :: "config_env \<Rightarrow> DaemonConfig \<Rightarrow> daemon_config_error + unit" where
  "check_cloud ce d = in_order
     [refuse (\<not> ValidateCloudURL ce (dc_CloudURL d)) (Bad ''daemon.cloudUrl'' ''must be HTTPS, or HTTP to localhost''),
      refuse (tr_Enabled (tc_Relay (dc_Terminal d)) \<and> trim_space (dc_CloudURL d) = []) (Bad ''daemon.cloudUrl'' ''is required for the relay''),
      refuse (tr_Enabled (tc_Relay (dc_Terminal d)) \<and> trim_space (dc_CloudSecret d) = []) (Bad ''daemon.cloudSecret'' ''is required for the relay'')]"

definition ValidateDaemon :: "config_env \<Rightarrow> DaemonConfig \<Rightarrow> daemon_config_error + DaemonConfig" where
  "ValidateDaemon ce d =
     rbind (check_process ce d) (\<lambda>_.
     rbind (check_intervals (dc_Intervals d)) (\<lambda>_.
     rbind (refuse (dc_Runtimes d = []) (Bad ''daemon.runtimes'' ''must not be empty'')) (\<lambda>_.
     rbind (each_once check_runtime (dc_Runtimes d)) (\<lambda>_.
     rbind (each_once check_watched (dc_WatchedProcesses d)) (\<lambda>_.
     rbind (check_limits d) (\<lambda>_.
     rbind (rfold (webhook_step ce) [] (indexed (dc_Webhooks d))) (\<lambda>hooks.
     rbind (rfold (action_step ce hooks) [] (indexed (dc_Actions d))) (\<lambda>_.
     rbind (check_uploads d) (\<lambda>_.
     rbind (rfold (alert_step ce) ([], []) (indexed (dc_LogAlerts d))) (\<lambda>(_, alerts).
     rbind (rfold (job_step ce) ([], []) (indexed (dc_Jobs d))) (\<lambda>(_, jobs).
     rbind (rfold alarm_config_step ([], []) (indexed (dc_Alarms d))) (\<lambda>(_, alarms).
     rbind (check_cloud ce d) (\<lambda>_.
     rbind (validateTerminal ce (dc_Terminal d)) (\<lambda>_.
     rbind (validateFiles ce (dc_Files d)) (\<lambda>_.
     rbind (validateCompose ce (dc_Compose d)) (\<lambda>_.
     rbind (validatePriv ce (dc_Priv d) (dc_Files d)) (\<lambda>_.
     Inr (d\<lparr>dc_LogsUploadBatchLines := batch_lines (dc_LogsUploadBatchLines d), dc_LogAlerts := alerts,
            dc_Jobs := jobs, dc_Alarms := alarms\<rparr>))))))))))))))))))"

section \<open>Fragments\<close>

text \<open>
  One file per entry, in the order of the file names, after the entries of the main file whose key
  no fragment has. A fragment is what its file decodes to, none when it cannot be read or parsed.
\<close>

definition merge_by :: "('a \<Rightarrow> string) \<Rightarrow> 'a list \<Rightarrow> 'a list \<Rightarrow> 'a list" where
  "merge_by key inline fragments = filter (\<lambda>x. key x \<notin> key ` set fragments) inline @ fragments"

definition read_fragment :: "('a \<Rightarrow> string) \<Rightarrow> 'a list \<Rightarrow> string \<times> 'a option \<Rightarrow> daemon_config_error + 'a list" where
  "read_fragment key acc f =
     (case snd f of
        None \<Rightarrow> Inl (Bad (fst f) ''cannot be read'')
      | Some x \<Rightarrow> if trim_space (key x) = [] then Inl (Bad (fst f) ''has no name'') else Inr (acc @ [x]))"

text \<open>
  A directory is not configured, missing, unreadable, or a list of its entries: their names, whether
  they are directories, and what they decode to.
\<close>

datatype 'a fragment_dir = NoDir | Unreadable | Entries "(string \<times> bool \<times> 'a option) list"

definition fragment_files :: "string \<Rightarrow> (string \<times> bool \<times> 'a option) list \<Rightarrow> (string \<times> 'a option) list" where
  "fragment_files dir es =
     sort_key fst (map (\<lambda>(n, _, x). (path_join dir n, x)) (filter (\<lambda>(n, isdir, _). \<not> isdir \<and> has_suffix ''.toml'' n) es))"

definition loadFragments :: "('a \<Rightarrow> string) \<Rightarrow> string \<Rightarrow> 'a fragment_dir \<Rightarrow> 'a list \<Rightarrow> daemon_config_error + 'a list" where
  "loadFragments key configured d inline =
     (let dir = trim_space configured in
      if dir = [] then Inr inline
      else case d of
        NoDir \<Rightarrow> Inr inline
      | Unreadable \<Rightarrow> Inl (Bad dir ''cannot be read'')
      | Entries es \<Rightarrow> rbind (rfold (read_fragment key) [] (fragment_files dir es)) (\<lambda>fs. Inr (merge_by key inline fs)))"

definition loadActionFragments :: "string \<Rightarrow> hook fragment_dir \<Rightarrow> hook list \<Rightarrow> daemon_config_error + hook list" where
  "loadActionFragments = loadFragments hk_name"

definition loadAlarmFragments :: "string \<Rightarrow> AlarmConfig fragment_dir \<Rightarrow> AlarmConfig list \<Rightarrow> daemon_config_error + AlarmConfig list" where
  "loadAlarmFragments = loadFragments ac_Kind"

definition loadJobFragments :: "string \<Rightarrow> JobConfig fragment_dir \<Rightarrow> JobConfig list \<Rightarrow> daemon_config_error + JobConfig list" where
  "loadJobFragments = loadFragments jc_Name"

definition loadLogAlertFragments ::
  "string \<Rightarrow> LogAlertConfig fragment_dir \<Rightarrow> LogAlertConfig list \<Rightarrow> daemon_config_error + LogAlertConfig list" where
  "loadLogAlertFragments = loadFragments la_Name"

text \<open>
  \<open>Load\<close> once the main file is read and decoded: the four directories in the order of the code, then
  the host identity, kept as it is when its file cannot be read.
\<close>

record fragment_dirs =
  fd_logAlerts :: "LogAlertConfig fragment_dir"
  fd_actions :: "hook fragment_dir"
  fd_alarms :: "AlarmConfig fragment_dir"
  fd_jobs :: "JobConfig fragment_dir"

definition Load :: "fragment_dirs \<Rightarrow> string option \<Rightarrow> DaemonConfig option \<Rightarrow> daemon_config_error + DaemonConfig" where
  "Load fd hostID decoded =
     (case decoded of
        None \<Rightarrow> Inl (Bad ''config'' ''cannot be read'')
      | Some d \<Rightarrow>
          rbind (loadLogAlertFragments (dc_LogAlertsDir d) (fd_logAlerts fd) (dc_LogAlerts d)) (\<lambda>logAlerts.
          rbind (loadActionFragments (dc_ActionsDir d) (fd_actions fd) (dc_Actions d)) (\<lambda>actions.
          rbind (loadAlarmFragments (dc_AlarmsDir d) (fd_alarms fd) (dc_Alarms d)) (\<lambda>alarms.
          rbind (loadJobFragments (dc_JobsDir d) (fd_jobs fd) (dc_Jobs d)) (\<lambda>jobs.
          Inr (d\<lparr>dc_LogAlerts := logAlerts, dc_Actions := actions, dc_Alarms := alarms, dc_Jobs := jobs,
                 dc_HostID := (case hostID of None \<Rightarrow> dc_HostID d | Some raw \<Rightarrow> trim_space raw)\<rparr>))))))"

end
