(* ===== verification/Daemon_Metrics.thy ===== *)
theory Daemon_Metrics
  imports Daemon_Config_Load "HOL-Library.Word"
begin

text \<open>
  Metric samples (\<open>internal/daemon/metrics.go\<close>), the health score computed from one
  (\<open>health.go\<close>) and the alarms raised by one (\<open>alarms.go\<close>). A finite \<open>float64\<close> is a rational;
  unsigned counters keep their width. \<open>fmt.Sprintf\<close> of a float is a parameter.
\<close>

section \<open>Samples\<close>

record DiskUsage =
  du_Mount :: string
  du_Filesystem :: string
  du_TotalKb :: int
  du_AvailableKb :: int

record MetricsPayload =
  mp_SentAt :: time
  mp_HostID :: string
  mp_UptimeSeconds :: int
  mp_ProcessMemoryBytes :: int
  mp_CPUPercent :: rat
  mp_CPUCount :: int
  mp_Load1 :: rat
  mp_MemoryUsedPercent :: rat
  mp_MemoryUsedBytes :: "64 word"
  mp_MemoryTotalBytes :: "64 word"
  mp_SwapTotalKb :: int
  mp_SwapFreeKb :: int
  mp_DiskTotalKb :: int
  mp_DiskAvailableKb :: int
  mp_Disks :: "DiskUsage list"
  mp_WebhookExecutions :: "64 word"
  mp_WebhookFailures :: "64 word"
  mp_HealthScore :: int
  mp_HealthStatus :: string

text \<open>The difference wraps when the host reports more available memory than it has.\<close>

definition usedMemory :: "64 word \<Rightarrow> 64 word \<Rightarrow> 64 word \<times> rat" where
  "usedMemory total' available =
     (if total' = 0 then (0, 0)
      else let used = total' - available in
        if total' < used then (total', 100)
        else (used, of_nat (unat used) / of_nat (unat total') * 100))"

subsection \<open>Disks\<close>

record partition =
  pt_Device :: string
  pt_Mountpoint :: string
  pt_Fstype :: string

definition virtualFilesystems :: "string list" where
  "virtualFilesystems =
     [''tmpfs'', ''devtmpfs'', ''devfs'', ''udev'', ''proc'', ''sysfs'', ''cgroup'', ''cgroup2'', ''overlay'', ''squashfs'',
      ''ramfs'', ''hugetlbfs'', ''mqueue'', ''shm'', ''devpts'', ''debugfs'', ''tracefs'', ''securityfs'', ''configfs'',
      ''fusectl'', ''pstore'', ''efivarfs'', ''autofs'', ''binfmt_misc'', ''rpc_pipefs'', ''nsfs'', ''bpf'', ''iso9660'',
      ''udf'', ''none'', ''map'']"

definition reportablePartition :: "partition \<Rightarrow> bool" where
  "reportablePartition p \<longleftrightarrow>
     pt_Fstype p \<notin> set virtualFilesystems \<and>
     (has_prefix ''/dev/'' (pt_Device p) \<or> has_prefix ''//'' (pt_Device p) \<or> CHR '':'' \<in> set (pt_Device p))"

text \<open>\<open>usage\<close> is \<open>disk.Usage\<close> of a mount point: total and free bytes, none when it fails.\<close>

definition disk_step ::
  "(string \<Rightarrow> (nat \<times> nat) option) \<Rightarrow> string list \<times> DiskUsage list \<Rightarrow> partition \<Rightarrow> string list \<times> DiskUsage list" where
  "disk_step usage s p =
     (let (seen, disks) = s in
      if pt_Device p \<in> set seen \<or> \<not> reportablePartition p then s
      else (seen @ [pt_Device p],
        case usage (pt_Mountpoint p) of
          None \<Rightarrow> disks
        | Some (total', free) \<Rightarrow>
            disks @ [\<lparr>du_Mount = pt_Mountpoint p, du_Filesystem = pt_Device p, du_TotalKb = int (total' div 1024),
                      du_AvailableKb = int (free div 1024)\<rparr>]))"

definition collectDisks :: "(string \<Rightarrow> (nat \<times> nat) option) \<Rightarrow> partition list option \<Rightarrow> DiskUsage list" where
  "collectDisks usage partitions =
     (case partitions of None \<Rightarrow> [] | Some ps \<Rightarrow> snd (foldl (disk_step usage) ([], []) ps))"

section \<open>Health\<close>

datatype health_status = HealthHealthy | HealthDegraded | HealthCritical
datatype check_status = CheckOK | CheckWarning | CheckCritical

record health_spec =
  hs_name :: string
  hs_label :: string
  hs_unit :: string
  hs_warn :: rat
  hs_crit :: rat
  hs_weight :: rat
  hs_measure :: "MetricsPayload \<Rightarrow> (rat \<times> string) option"

definition used_percent :: "int \<Rightarrow> int \<Rightarrow> rat" where
  "used_percent total' available = of_int (total' - available) / of_int total' * 100"

text \<open>The highest used percentage, the first mount that reaches it; the root fields when none is listed.\<close>

definition worst_step :: "(rat \<times> string) option \<Rightarrow> DiskUsage \<Rightarrow> (rat \<times> string) option" where
  "worst_step w u =
     (if du_TotalKb u \<le> 0 then w
      else let used = used_percent (du_TotalKb u) (du_AvailableKb u) in
        case w of
          None \<Rightarrow> Some (used, du_Mount u)
        | Some (worst, m) \<Rightarrow> if worst < used then Some (used, du_Mount u) else w)"

definition worstDiskUsage :: "MetricsPayload \<Rightarrow> (rat \<times> string) option" where
  "worstDiskUsage s =
     (case foldl worst_step None (mp_Disks s) of
        Some w \<Rightarrow> Some w
      | None \<Rightarrow> if mp_DiskTotalKb s \<le> 0 then None
                else Some (used_percent (mp_DiskTotalKb s) (mp_DiskAvailableKb s), []))"

definition swap_usage :: "MetricsPayload \<Rightarrow> (rat \<times> string) option" where
  "swap_usage s = (if mp_SwapTotalKb s \<le> 0 then None else Some (used_percent (mp_SwapTotalKb s) (mp_SwapFreeKb s), []))"

definition load_per_core :: "MetricsPayload \<Rightarrow> (rat \<times> string) option" where
  "load_per_core s = (if mp_CPUCount s \<le> 0 then None else Some (mp_Load1 s / of_int (mp_CPUCount s), []))"

definition failure_ratio :: "MetricsPayload \<Rightarrow> (rat \<times> string) option" where
  "failure_ratio s =
     (if mp_WebhookExecutions s = 0 then None
      else Some (of_nat (unat (mp_WebhookFailures s)) / of_nat (unat (mp_WebhookExecutions s)), []))"

definition healthSpecs :: "health_spec list" where
  "healthSpecs =
     [\<lparr>hs_name = ''cpu'', hs_label = ''CPU'', hs_unit = ''percent'', hs_warn = 75, hs_crit = 95, hs_weight = 22 / 100,
       hs_measure = (\<lambda>s. Some (mp_CPUPercent s, []))\<rparr>,
      \<lparr>hs_name = ''memory'', hs_label = ''Memory'', hs_unit = ''percent'', hs_warn = 80, hs_crit = 95, hs_weight = 24 / 100,
       hs_measure = (\<lambda>s. Some (mp_MemoryUsedPercent s, []))\<rparr>,
      \<lparr>hs_name = ''swap'', hs_label = ''Swap'', hs_unit = ''percent'', hs_warn = 50, hs_crit = 90, hs_weight = 10 / 100,
       hs_measure = swap_usage\<rparr>,
      \<lparr>hs_name = ''disk'', hs_label = ''Disk usage'', hs_unit = ''percent'', hs_warn = 80, hs_crit = 95, hs_weight = 20 / 100,
       hs_measure = worstDiskUsage\<rparr>,
      \<lparr>hs_name = ''load'', hs_label = ''Load'', hs_unit = ''per_core'', hs_warn = 1, hs_crit = 3, hs_weight = 14 / 100,
       hs_measure = load_per_core\<rparr>,
      \<lparr>hs_name = ''process_memory'', hs_label = ''Process memory'', hs_unit = ''bytes'', hs_warn = 536870912,
       hs_crit = 2147483648, hs_weight = 5 / 100, hs_measure = (\<lambda>s. Some (of_int (mp_ProcessMemoryBytes s), []))\<rparr>,
      \<lparr>hs_name = ''webhooks'', hs_label = ''Webhook failures'', hs_unit = ''ratio'', hs_warn = 10 / 100, hs_crit = 50 / 100,
       hs_weight = 5 / 100, hs_measure = failure_ratio\<rparr>]"

record HealthCheck =
  hc_Name :: string
  hc_Status :: check_status
  hc_Score :: rat
  hc_Value :: rat
  hc_Unit :: string
  hc_Detail :: string
  hc_Warn :: rat
  hc_Crit :: rat
  hc_Message :: string
  hc_Skipped :: bool

definition scoreHealthValue :: "rat \<Rightarrow> rat \<Rightarrow> rat \<Rightarrow> rat \<times> check_status" where
  "scoreHealthValue value warn crit =
     (if value \<le> warn then (100, CheckOK)
      else if crit \<le> value then (0, CheckCritical)
      else (100 * (crit - value) / (crit - warn), CheckWarning))"

text \<open>\<open>math.Round\<close> rounds halves away from zero.\<close>

definition math_Round :: "rat \<Rightarrow> int" where
  "math_Round x = (if 0 \<le> x then \<lfloor>x + 1 / 2\<rfloor> else - \<lfloor>- x + 1 / 2\<rfloor>)"

definition roundHealthValue :: "rat \<Rightarrow> rat" where
  "roundHealthValue v = of_int (math_Round (v * 10)) / 10"

text \<open>\<open>%.1f\<close> and \<open>%.2f\<close> of a float.\<close>

record float_text =
  ft_1 :: "rat \<Rightarrow> string"
  ft_2 :: "rat \<Rightarrow> string"

fun human_steps :: "nat \<Rightarrow> nat \<Rightarrow> nat \<times> nat" where
  "human_steps 0 n = (1, 0)"
| "human_steps (Suc k) n = (if n < 1024 then (1, 0) else (let (d, e) = human_steps k (n div 1024) in (1024 * d, Suc e)))"

definition humanBytes :: "float_text \<Rightarrow> nat \<Rightarrow> string" where
  "humanBytes ft value =
     (if value < 1024 then dec_digits value @ '' B''
      else let (d, e) = human_steps 6 (value div 1024) in
        ft_1 ft (of_nat value / of_nat (1024 * d)) @ '' '' @ [''KMGTPE'' ! e] @ ''iB'')"

definition formatHealthValue :: "float_text \<Rightarrow> string \<Rightarrow> rat \<Rightarrow> string" where
  "formatHealthValue ft unit_name value =
     (if unit_name = ''percent'' then ft_1 ft value @ ''%''
      else if unit_name = ''per_core'' then ft_2 ft value @ '' per core''
      else if unit_name = ''ratio'' then ft_1 ft (value * 100) @ ''%''
      else if unit_name = ''bytes'' then humanBytes ft (nat \<lfloor>value\<rfloor>)
      else ft_1 ft value)"

definition healthCheckMessage :: "float_text \<Rightarrow> health_spec \<Rightarrow> string \<Rightarrow> rat \<Rightarrow> string" where
  "healthCheckMessage ft spec detail value =
     hs_label spec @ (if detail \<noteq> [] then '' '' @ detail else []) @ '' at '' @ formatHealthValue ft (hs_unit spec) value @
     '' (warn '' @ formatHealthValue ft (hs_unit spec) (hs_warn spec) @ '', crit '' @
     formatHealthValue ft (hs_unit spec) (hs_crit spec) @ '')''"

definition evaluateHealthCheck :: "float_text \<Rightarrow> health_spec \<Rightarrow> MetricsPayload \<Rightarrow> HealthCheck" where
  "evaluateHealthCheck ft spec s =
     (let base = \<lparr>hc_Name = hs_name spec, hc_Status = CheckOK, hc_Score = 100, hc_Value = 0, hc_Unit = hs_unit spec,
            hc_Detail = [], hc_Warn = hs_warn spec, hc_Crit = hs_crit spec, hc_Message = [], hc_Skipped = True\<rparr> in
      case hs_measure spec s of
        None \<Rightarrow> base
      | Some (value, detail) \<Rightarrow>
          (let (score, status) = scoreHealthValue value (hs_warn spec) (hs_crit spec); shown = roundHealthValue value in
           base\<lparr>hc_Status := status, hc_Score := score, hc_Value := shown, hc_Detail := detail, hc_Skipped := False,
                hc_Message := (if status = CheckOK then [] else healthCheckMessage ft spec detail shown)\<rparr>))"

definition healthStatusForScore :: "int \<Rightarrow> health_status" where
  "healthStatusForScore score =
     (if 90 \<le> score then HealthHealthy else if 70 \<le> score then HealthDegraded else HealthCritical)"

record HealthReport =
  hr_Score :: int
  hr_Status :: health_status
  hr_EvaluatedAt :: time
  hr_HostID :: string
  hr_Checks :: "HealthCheck list"
  hr_Issues :: "string list"

definition weighted_sums :: "(HealthCheck \<times> rat) list \<Rightarrow> rat \<times> rat" where
  "weighted_sums cs =
     foldl (\<lambda>(w, t) (c, weight). if hc_Skipped c then (w, t) else (w + hc_Score c * weight, t + weight)) (0, 0) cs"

definition evaluateHealth :: "float_text \<Rightarrow> MetricsPayload \<Rightarrow> time \<Rightarrow> HealthReport" where
  "evaluateHealth ft s now =
     (let checks = map (\<lambda>spec. (evaluateHealthCheck ft spec s, hs_weight spec)) healthSpecs;
          (weighted, weights) = weighted_sums checks;
          score = (if 0 < weights then math_Round (weighted / weights) else 100) in
      \<lparr>hr_Score = score, hr_Status = healthStatusForScore score, hr_EvaluatedAt = now, hr_HostID = mp_HostID s,
       hr_Checks = map fst checks,
       hr_Issues = map hc_Message (filter (\<lambda>c. \<not> hc_Skipped c \<and> hc_Status c \<noteq> CheckOK) (map fst checks))\<rparr>)"

section \<open>History\<close>

text \<open>
  The samples in memory and the day files under the history directory. \<open>day\<close> is the name of a
  sample's file, its UTC date. A write or a compaction that fails leaves the memory as it is.
\<close>

record metrics_collector =
  mc_history :: "MetricsPayload list"
  mc_retention :: time

text \<open>\<open>time.Duration(n) * time.Second\<close>, which wraps at 64 bits.\<close>

definition go_seconds :: "int \<Rightarrow> time" where
  "go_seconds n = (n * 1000000000 + 2 ^ 63) mod 2 ^ 64 - 2 ^ 63"

definition retention_of :: "int \<Rightarrow> time" where
  "retention_of days = (let d = (if days \<le> 0 then 7 else days) in go_seconds (86400 * (if 30 < d then 30 else d)))"

definition prune_history :: "metrics_collector \<Rightarrow> time \<Rightarrow> metrics_collector" where
  "prune_history m now = m\<lparr>mc_history := dropWhile (\<lambda>s. mp_SentAt s < now - mc_retention m) (mc_history m)\<rparr>"

definition metrics_Record :: "metrics_collector \<Rightarrow> MetricsPayload \<Rightarrow> metrics_collector" where
  "metrics_Record m payload = prune_history (m\<lparr>mc_history := mc_history m @ [payload]\<rparr>) (mp_SentAt payload)"

record history_query =
  hq_From :: "time option"
  hq_To :: "time option"
  hq_Before :: "time option"
  hq_Limit :: int

definition in_query :: "history_query \<Rightarrow> MetricsPayload \<Rightarrow> bool" where
  "in_query q s \<longleftrightarrow>
     (case hq_From q of None \<Rightarrow> True | Some t \<Rightarrow> \<not> mp_SentAt s < t) \<and>
     (case hq_To q of None \<Rightarrow> True | Some t \<Rightarrow> mp_SentAt s < t) \<and>
     (case hq_Before q of None \<Rightarrow> True | Some t \<Rightarrow> mp_SentAt s < t)"

definition metrics_History :: "metrics_collector \<Rightarrow> history_query \<Rightarrow> MetricsPayload list" where
  "metrics_History m q =
     last_n (nat (if hq_Limit q \<le> 0 then 100 else hq_Limit q)) (filter (in_query q) (mc_history m))"

text \<open>\<open>loadHistory\<close>: the lines of the day files that decode and are not expired, by time
  (the order of samples of one instant is the sort's own).\<close>

definition loadHistory :: "time \<Rightarrow> time \<Rightarrow> MetricsPayload option list \<Rightarrow> metrics_collector" where
  "loadHistory retention now lines =
     \<lparr>mc_history = sort_key mp_SentAt (filter (\<lambda>s. \<not> mp_SentAt s < now - retention) (concat (map (\<lambda>l. case l of None \<Rightarrow> [] | Some s \<Rightarrow> [s]) lines))),
      mc_retention = retention\<rparr>"

section \<open>Alarms\<close>

datatype note_value = NText string | NNum rat

record notificationPayload =
  np_Kind :: string
  np_Title :: string
  np_Body :: string
  np_Metadata :: "(string \<times> note_value) list"

type_synonym alarm_state = "(string \<times> time) list"

text \<open>\<open>ready\<close>: none while the key's cooldown runs, otherwise the state with the key's time noted.\<close>

definition alarm_ready :: "alarm_state \<Rightarrow> string \<Rightarrow> time \<Rightarrow> time \<Rightarrow> alarm_state option" where
  "alarm_ready st key cooldown now =
     (case map_of st key of
        Some t \<Rightarrow> if now - t < cooldown then None else Some (put key now st)
      | None \<Rightarrow> Some (put key now st))"

definition alarm_on :: "bool option \<Rightarrow> bool" where
  "alarm_on e \<longleftrightarrow> e \<noteq> Some False"

definition alarm_value :: "AlarmConfig \<Rightarrow> MetricsPayload \<Rightarrow> rat option" where
  "alarm_value a s =
     (if ac_Kind a = ''cpu_percent'' then Some (mp_CPUPercent s)
      else if ac_Kind a = ''memory_used_percent'' then Some (mp_MemoryUsedPercent s)
      else if ac_Kind a = ''disk_used_percent'' then
        (if mp_DiskTotalKb s \<le> 0 \<or> mp_DiskAvailableKb s < 0 \<or> mp_DiskTotalKb s < mp_DiskAvailableKb s then None
         else Some (100 * of_int (mp_DiskTotalKb s - mp_DiskAvailableKb s) / of_int (mp_DiskTotalKb s)))
      else None)"

definition alarm_note :: "float_text \<Rightarrow> AlarmConfig \<Rightarrow> rat \<Rightarrow> notificationPayload" where
  "alarm_note ft a value =
     \<lparr>np_Kind = ''daemon.alarm.'' @ ac_Kind a, np_Title = ac_Kind a @ '' threshold exceeded'',
      np_Body = ac_Kind a @ '' reached '' @ ft_2 ft value @ ''% (threshold '' @ ft_2 ft (ac_Threshold a) @ ''%)'',
      np_Metadata = [(''value'', NNum value), (''threshold'', NNum (ac_Threshold a))]\<rparr>"

definition evaluate_alarm ::
  "float_text \<Rightarrow> MetricsPayload \<Rightarrow> time \<Rightarrow> alarm_state \<times> notificationPayload list \<Rightarrow> AlarmConfig
     \<Rightarrow> alarm_state \<times> notificationPayload list" where
  "evaluate_alarm ft s now acc a =
     (let (st, out) = acc in
      if \<not> alarm_on (ac_Enabled a) then acc
      else case alarm_value a s of
        None \<Rightarrow> acc
      | Some value \<Rightarrow>
          if value < ac_Threshold a then acc
          else case alarm_ready st (alarm_key a) (go_seconds (ac_CooldownSeconds a)) now of
            None \<Rightarrow> acc
          | Some st' \<Rightarrow> (st', out @ [alarm_note ft a value]))"

definition evaluate :: "float_text \<Rightarrow> alarm_state \<Rightarrow> AlarmConfig list \<Rightarrow> MetricsPayload \<Rightarrow> time \<Rightarrow> alarm_state \<times> notificationPayload list" where
  "evaluate ft st alarms s now = foldl (evaluate_alarm ft s now) (st, []) alarms"

end
