(* ===== verification/Daemon_Collect.thy ===== *)
theory Daemon_Collect
  imports Daemon_Metrics
begin

text \<open>
  The container collector (\<open>internal/daemon/collectors.go\<close>): the runtimes a host has, the stores read
  for each, what one store's listing becomes and what the stream and the requests are told; and
  what is made of a snapshot: container alarms (\<open>alarms.go\<close>) and the status batch for the cloud
  (\<open>app.go\<close>). The host answers through \<open>daemon_host\<close>; times are arguments.
\<close>

section \<open>Snapshots\<close>

record containerEntry =
  ce_ID :: string
  ce_Name :: string
  ce_Image :: string
  ce_State :: string
  ce_Status :: string
  ce_ComposeProject :: string

record containersRuntimePayload =
  rp_Runtime :: string
  rp_Available :: bool
  rp_Error :: "string option"
  rp_Store :: string
  rp_Rootless :: "bool option"
  rp_Cgroups :: string
  rp_ComposeTool :: string
  rp_Containers :: "containerEntry list"

type_synonym containersPayload = "containersRuntimePayload list"

section \<open>The runtime probe\<close>

definition shell :: "daemon_host \<Rightarrow> string \<Rightarrow> string + bytes" where
  "shell he script = he_command he [''sh'', ''-c'', script]"

definition install_dirs :: "string list" where
  "install_dirs = [''/usr/local/bin'', ''/usr/bin'', ''/usr/local/sbin'', ''/opt/homebrew/bin'']"

definition is_executable :: "daemon_host \<Rightarrow> string \<Rightarrow> bool" where
  "is_executable he p =
     (case shell he (''test -x '' @ p @ '' && echo ok 2>/dev/null'') of Inl _ \<Rightarrow> False | Inr out \<Rightarrow> trim_space out = ''ok'')"

definition resolveRuntimeBinary :: "daemon_host \<Rightarrow> string \<Rightarrow> string option" where
  "resolveRuntimeBinary he name =
     (let found = (case shell he (''command -v '' @ name @ '' 2>/dev/null'') of Inl _ \<Rightarrow> [] | Inr out \<Rightarrow> trim_space out) in
      if found \<noteq> [] then Some found
      else find (is_executable he) (map (\<lambda>dir. path_join dir name) install_dirs))"

definition isPodmanDockerShim :: "daemon_host \<Rightarrow> string \<Rightarrow> bool" where
  "isPodmanDockerShim he p =
     (case he_command he [p, ''--version''] of Inl _ \<Rightarrow> False | Inr out \<Rightarrow> contains ''podman'' (to_lower out))"

definition runtime_names :: "string list" where
  "runtime_names = [''podman'', ''docker'']"

definition probeContainerRuntimes :: "daemon_host \<Rightarrow> (string \<times> string) list" where
  "probeContainerRuntimes he =
     (let paths = concat (map (\<lambda>c. case resolveRuntimeBinary he c of None \<Rightarrow> [] | Some p \<Rightarrow> [(c, p)]) runtime_names) in
      case (map_of paths ''docker'', map_of paths ''podman'') of
        (Some d, Some _) \<Rightarrow> if isPodmanDockerShim he d then del ''docker'' paths else paths
      | _ \<Rightarrow> paths)"

record runtimeFacts =
  rf_Rootless :: bool
  rf_Cgroups :: string
  rf_Known :: bool

definition no_facts :: runtimeFacts where
  "no_facts = \<lparr>rf_Rootless = False, rf_Cgroups = [], rf_Known = False\<rparr>"

definition podman_facts :: "string list \<Rightarrow> runtimeFacts" where
  "podman_facts fs =
     (case fs of
        [] \<Rightarrow> no_facts
      | [r] \<Rightarrow> \<lparr>rf_Rootless = (r = ''true''), rf_Cgroups = [], rf_Known = True\<rparr>
      | r # c # _ \<Rightarrow> \<lparr>rf_Rootless = (r = ''true''), rf_Cgroups = c, rf_Known = True\<rparr>)"

definition probeRuntimeFactsStore :: "daemon_host \<Rightarrow> composeStore \<Rightarrow> runtimeFacts" where
  "probeRuntimeFactsStore he store =
     (if runtimeName (cst_Path store) = ''podman'' then
        (case runStoreCommand he store [''info'', ''--format'', ''{{.Host.Security.Rootless}} {{.Host.CgroupManager}}''] of
           Inl _ \<Rightarrow> no_facts | Inr out \<Rightarrow> podman_facts (fields_of out))
      else if runtimeName (cst_Path store) = ''docker'' then
        (case runStoreCommand he store [''info'', ''--format'', ''{{.SecurityOptions}}''] of
           Inl _ \<Rightarrow> no_facts
         | Inr out \<Rightarrow> \<lparr>rf_Rootless = contains ''name=rootless'' out, rf_Cgroups = [], rf_Known = True\<rparr>)
      else no_facts)"

text \<open>
  What the probe remembers: the runtimes, asked again only while there are none, and for a minute
  the facts about each store and whether \<open>sudo\<close> may run each binary.
\<close>

record probe_state =
  ps_probed :: "(time \<times> (string \<times> string) list) option"
  ps_facts :: "(time \<times> (composeStore \<times> runtimeFacts) list) option"
  ps_permitted :: "(time \<times> (string \<times> bool) list) option"

definition new_probe :: probe_state where
  "new_probe = \<lparr>ps_probed = None, ps_facts = None, ps_permitted = None\<rparr>"

definition containerReProbeInterval :: time where "containerReProbeInterval = seconds 60"
definition runtimeFactsTTL :: time where "runtimeFactsTTL = seconds 60"

definition probePathSnapshot :: "daemon_host \<Rightarrow> time \<Rightarrow> probe_state \<Rightarrow> probe_state \<times> (string \<times> string) list" where
  "probePathSnapshot he now p =
     (case ps_probed p of
        Some (t0, paths) \<Rightarrow>
          if paths = [] \<and> containerReProbeInterval \<le> now - t0
          then (let ps = probeContainerRuntimes he in (p\<lparr>ps_probed := Some (now, ps)\<rparr>, ps))
          else (p, paths)
      | None \<Rightarrow> (let ps = probeContainerRuntimes he in (p\<lparr>ps_probed := Some (now, ps)\<rparr>, ps)))"

definition fresh_cache :: "time \<Rightarrow> (time \<times> 'a list) option \<Rightarrow> time \<times> 'a list" where
  "fresh_cache now c = (case c of Some (t0, m) \<Rightarrow> if runtimeFactsTTL \<le> now - t0 then (now, []) else (t0, m) | None \<Rightarrow> (now, []))"

definition factsFor :: "daemon_host \<Rightarrow> time \<Rightarrow> probe_state \<Rightarrow> composeStore \<Rightarrow> probe_state \<times> runtimeFacts" where
  "factsFor he now p store =
     (if cst_Path store = [] then (p, no_facts)
      else let (t0, m) = fresh_cache now (ps_facts p) in
        case map_of m store of
          Some f \<Rightarrow> (p\<lparr>ps_facts := Some (t0, m)\<rparr>, f)
        | None \<Rightarrow> (let f = probeRuntimeFactsStore he store in (p\<lparr>ps_facts := Some (t0, put store f m)\<rparr>, f)))"

definition sudoPermits :: "daemon_host \<Rightarrow> time \<Rightarrow> probe_state \<Rightarrow> string \<Rightarrow> probe_state \<times> bool" where
  "sudoPermits he now p path =
     (let (t0, m) = fresh_cache now (ps_permitted p) in
      case map_of m path of
        Some v \<Rightarrow> (p\<lparr>ps_permitted := Some (t0, m)\<rparr>, v)
      | None \<Rightarrow> (let v = sudoRuns he path in (p\<lparr>ps_permitted := Some (t0, put path v m)\<rparr>, v)))"

text \<open>The stores read for one runtime: the daemon user's own, then root's when \<open>sudo\<close> may run it.\<close>

definition probe_stores :: "daemon_host \<Rightarrow> time \<Rightarrow> probe_state \<Rightarrow> string \<Rightarrow> string \<Rightarrow> probe_state \<times> composeStore list" where
  "probe_stores he now p runtime path =
     (let own = \<lparr>cst_Runtime = runtime, cst_Path = path, cst_Elevated = False\<rparr> in
      if elevationAttempt he path [] = None then (p, [own])
      else let (p', ok) = sudoPermits he now p path in
        (p', if ok then [own, own\<lparr>cst_Elevated := True\<rparr>] else [own]))"

definition store_label :: "composeStore \<Rightarrow> string" where
  "store_label s = (if cst_Elevated s then ''root'' else ''own'')"

section \<open>One store's containers\<close>

definition container_entry_of :: "container_line \<Rightarrow> containerEntry" where
  "container_entry_of raw =
     (let names = parseNames (cl_Names raw); ls = parseContainerLabels (cl_Labels raw);
          project = label_at ls ''com.docker.compose.project'' in
      \<lparr>ce_ID = (if cl_ID raw = [] then cl_Id raw else cl_ID raw), ce_Name = (if names = [] then [] else hd names),
       ce_Image = cl_Image raw, ce_State = cl_State raw, ce_Status = cl_Status raw,
       ce_ComposeProject = (if project = [] then label_at ls ''io.podman.compose.project'' else project)\<rparr>)"

definition container_step :: "daemon_host \<Rightarrow> containerEntry list \<Rightarrow> string \<Rightarrow> string + containerEntry list" where
  "container_step he acc text =
     (if MaxScanTokenSize \<le> length text then Inl ''bufio.Scanner: token too long''
      else let line = trim_space text in
        if line = [] then Inr acc
        else case he_line he line of
          Inl e \<Rightarrow> Inl (''container line '' @ fmt_q line @ '': '' @ e)
        | Inr raw \<Rightarrow> Inr (acc @ [container_entry_of raw]))"

definition parseContainerLines :: "daemon_host \<Rightarrow> bytes \<Rightarrow> string + containerEntry list" where
  "parseContainerLines he out = rfold (container_step he) [] (split_on (CHR 0x0A) out)"

definition collectStore :: "daemon_host \<Rightarrow> time \<Rightarrow> probe_state \<Rightarrow> composeStore \<Rightarrow> probe_state \<times> containersRuntimePayload" where
  "collectStore he now p store =
     (let (p', facts) = factsFor he now p store;
          base = \<lparr>rp_Runtime = cst_Runtime store, rp_Available = True, rp_Error = None, rp_Store = store_label store,
            rp_Rootless = (if rf_Known facts then Some (rf_Rootless facts) else None), rp_Cgroups = rf_Cgroups facts,
            rp_ComposeTool = composeToolResolution he (cst_Path store), rp_Containers = []\<rparr> in
      (p', case runStoreCommand he store [''ps'', ''-a'', ''--no-trunc'', ''--format'', ''{{json .}}''] of
             Inl e \<Rightarrow> base\<lparr>rp_Error := Some (''list containers: '' @ refusal_text e)\<rparr>
           | Inr out \<Rightarrow>
               (case parseContainerLines he out of
                  Inl e \<Rightarrow> base\<lparr>rp_Error := Some (''parse container list: '' @ e)\<rparr>
                | Inr cs \<Rightarrow> base\<lparr>rp_Containers := cs\<rparr>)))"

definition collect_step ::
  "daemon_host \<Rightarrow> time \<Rightarrow> probe_state \<times> containersPayload \<Rightarrow> composeStore \<Rightarrow> probe_state \<times> containersPayload" where
  "collect_step he now s store =
     (let (p, out) = s; (p', entry) = collectStore he now p store in (p', out @ [entry]))"

definition collect_runtime ::
  "daemon_host \<Rightarrow> time \<Rightarrow> (string \<times> string) list \<Rightarrow> probe_state \<times> containersPayload \<Rightarrow> string \<Rightarrow> probe_state \<times> containersPayload" where
  "collect_runtime he now paths s runtime =
     (let (p, out) = s in
      case map_of paths runtime of
        None \<Rightarrow> s
      | Some path \<Rightarrow>
          if path = [] then s
          else let (p', stores) = probe_stores he now p runtime path in foldl (collect_step he now) (p', out) stores)"

definition collectRuntimes :: "daemon_host \<Rightarrow> time \<Rightarrow> probe_state \<Rightarrow> (string \<times> string) list \<Rightarrow> probe_state \<times> containersPayload" where
  "collectRuntimes he now p paths = foldl (collect_runtime he now paths) (p, []) runtime_names"

section \<open>The collector\<close>

text \<open>
  \<open>collect\<close> serves the stream and announces an absent runtime once; \<open>snapshot\<close> serves the
  requests, always answers, and reuses an answer for a second.
\<close>

record containers_collector =
  cl_probe :: probe_state
  cl_announced :: bool
  cl_lastState :: string
  cl_snapshot :: "(time \<times> containersPayload) option"

definition runtimeStateKey :: "(string \<times> string) list \<Rightarrow> string" where
  "runtimeStateKey paths = join_with '','' (filter (\<lambda>c. map_of paths c \<noteq> None) runtime_names)"

definition containerSnapshotCacheTTL :: time where "containerSnapshotCacheTTL = seconds 1"

definition collectLocked ::
  "daemon_host \<Rightarrow> time \<Rightarrow> containers_collector \<Rightarrow> containers_collector \<times> containersPayload option" where
  "collectLocked he now c =
     (let (p, paths) = probePathSnapshot he now (cl_probe c);
          state = runtimeStateKey paths;
          announced = cl_announced c \<and> state = cl_lastState c;
          c' = c\<lparr>cl_probe := p, cl_lastState := state, cl_announced := True\<rparr> in
      if paths = [] then
        (if announced then (c', None) else (c'\<lparr>cl_snapshot := Some (now, [])\<rparr>, Some []))
      else let (p', payload) = collectRuntimes he now p paths in
        (c'\<lparr>cl_probe := p', cl_snapshot := Some (now, payload)\<rparr>, Some payload))"

definition containers_snapshot ::
  "daemon_host \<Rightarrow> time \<Rightarrow> containers_collector \<Rightarrow> containers_collector \<times> containersPayload" where
  "containers_snapshot he now c =
     (case cl_snapshot c of
        Some (t0, payload) \<Rightarrow>
          if now - t0 < containerSnapshotCacheTTL then (c, payload)
          else (case collectLocked he now c of
            (c', Some payload') \<Rightarrow> (c', payload') | (c', None) \<Rightarrow> (c'\<lparr>cl_snapshot := Some (now, [])\<rparr>, []))
      | None \<Rightarrow>
          (case collectLocked he now c of
            (c', Some payload') \<Rightarrow> (c', payload') | (c', None) \<Rightarrow> (c'\<lparr>cl_snapshot := Some (now, [])\<rparr>, [])))"

section \<open>What is made of a snapshot\<close>

definition answered :: "containersRuntimePayload \<Rightarrow> bool" where
  "answered g \<longleftrightarrow> rp_Available g \<and> rp_Error g = None"

subsection \<open>Container alarms\<close>

definition down_note :: "string \<Rightarrow> containerEntry \<Rightarrow> notificationPayload" where
  "down_note runtime c =
     \<lparr>np_Kind = ''daemon.alarm.container_down'', np_Title = ''container_down alarm'',
      np_Body = ''container '' @ ce_Name c @ '' is '' @ ce_State c,
      np_Metadata = [(''container_id'', NText (ce_ID c)), (''container_name'', NText (ce_Name c)),
        (''state'', NText (ce_State c)), (''runtime'', NText runtime)]\<rparr>"

definition down_step ::
  "AlarmConfig \<Rightarrow> time \<Rightarrow> alarm_state \<times> notificationPayload list \<Rightarrow> string \<times> containerEntry \<Rightarrow> alarm_state \<times> notificationPayload list" where
  "down_step a now acc rc =
     (let (st, out) = acc; (runtime, c) = rc in
      if ac_Target a \<noteq> [] \<and> ac_Target a \<noteq> ce_Name c \<and> ac_Target a \<noteq> ce_ID c then acc
      else if ce_State c = ''running'' then acc
      else case alarm_ready st (''container_down'' @ [CHR 0x00] @ ac_Target a @ [CHR 0x00] @ ce_ID c)
          (go_seconds (ac_CooldownSeconds a)) now of
        None \<Rightarrow> acc
      | Some st' \<Rightarrow> (st', out @ [down_note runtime c]))"

definition listed_containers :: "containersPayload \<Rightarrow> (string \<times> containerEntry) list" where
  "listed_containers sample = concat (map (\<lambda>g. map (Pair (rp_Runtime g)) (rp_Containers g)) (filter answered sample))"

definition evaluateContainers ::
  "alarm_state \<Rightarrow> AlarmConfig list \<Rightarrow> containersPayload \<Rightarrow> time \<Rightarrow> alarm_state \<times> notificationPayload list" where
  "evaluateContainers st alarms sample now =
     foldl (\<lambda>acc a. if ac_Kind a \<noteq> ''container_down'' \<or> \<not> alarm_on (ac_Enabled a) then acc
                    else foldl (down_step a now) acc (listed_containers sample)) (st, []) alarms"

subsection \<open>The status batch\<close>

definition matchManagedContainer :: "string \<Rightarrow> string \<Rightarrow> string \<Rightarrow> string list \<Rightarrow> string list \<Rightarrow> bool" where
  "matchManagedContainer i name compose containers composes =
     (if containers = [] \<and> composes = [] then True
      else (\<exists>c \<in> set (map trim_space containers). c \<noteq> [] \<and> (c = name \<or> has_prefix c i)) \<or>
           (\<exists>c \<in> set (map trim_space composes). c \<noteq> [] \<and> c = compose))"

record containerStatusEntry =
  se_ContainerID :: string
  se_Runtime :: string
  se_Name :: string
  se_Image :: string
  se_State :: string
  se_Status :: string
  se_ComposeProject :: string

definition status_entry :: "string \<Rightarrow> containerEntry \<Rightarrow> containerStatusEntry" where
  "status_entry runtime c =
     \<lparr>se_ContainerID = ce_ID c, se_Runtime = runtime, se_Name = ce_Name c, se_Image = ce_Image c,
      se_State = ce_State c, se_Status = ce_Status c, se_ComposeProject = ce_ComposeProject c\<rparr>"

definition managed_in :: "string list \<Rightarrow> string list \<Rightarrow> containerEntry \<Rightarrow> bool" where
  "managed_in containers composes c =
     matchManagedContainer (ce_ID c) (ce_Name c) (ce_ComposeProject c) containers composes"

text \<open>The batch, and the runtimes it covers: those no group of which failed to answer.\<close>

definition containerStatusBatch ::
  "containersPayload \<Rightarrow> string list \<Rightarrow> string list \<Rightarrow> containerStatusEntry list \<times> string list" where
  "containerStatusBatch payload containers composes =
     (map (\<lambda>(runtime, c). status_entry runtime c)
        (filter (\<lambda>(_, c). managed_in containers composes c) (listed_containers payload)),
      filter (\<lambda>runtime. \<not> (\<exists>g \<in> set payload. rp_Runtime g = runtime \<and> \<not> answered g))
        (rev (remdups (rev (map rp_Runtime payload)))))"

end
