(* ===== verification/Daemon_Stores.thy ===== *)
theory Daemon_Stores
  imports Daemon_Collect Exec_Capture
begin

text \<open>
  What the daemon keeps beside its metrics: the watched processes (\<open>internal/daemon/watched_store.go\<close>),
  the usage history of a process (\<open>process_history.go\<close>), the audit log (\<open>audit.go\<close>), and the container
  logs with their alerts and their upload (\<open>logs.go\<close>). A file is the list of its lines or what it
  decodes to; an operation that writes one is told whether the write succeeds.
\<close>

section \<open>Watched processes\<close>

text \<open>
  \<open>ws_file\<close> is the persisted file: none when it does not exist; its names, or none when it does not
  decode to a list.
\<close>

record watched_store =
  ws_path :: string
  ws_names :: "string list"
  ws_file :: "string list option option"

definition normalize_step :: "string list \<Rightarrow> string \<Rightarrow> string list" where
  "normalize_step out raw =
     (let name = trim_space raw in
      if name = [] \<or> \<not> ValidWatchedProcessName name \<or> name \<in> set out then out else out @ [name])"

definition normalizeWatchedNames :: "string list \<Rightarrow> string list" where
  "normalizeWatchedNames names = sort (foldl normalize_step [] names)"

definition watched_save :: "bool \<Rightarrow> watched_store \<Rightarrow> watched_store \<times> bool" where
  "watched_save save_ok s =
     (if ws_path s = [] then (s, True)
      else if save_ok then (s\<lparr>ws_file := Some (Some (ws_names s))\<rparr>, True) else (s, False))"

definition seed_watched :: "bool \<Rightarrow> watched_store \<Rightarrow> string list \<Rightarrow> watched_store" where
  "seed_watched save_ok s seeded =
     (let s' = s\<lparr>ws_names := normalizeWatchedNames seeded\<rparr> in
      if ws_path s' \<noteq> [] \<and> ws_names s' \<noteq> [] then fst (watched_save save_ok s') else s')"

definition newWatchedProcessStore :: "bool \<Rightarrow> string \<Rightarrow> string list option option \<Rightarrow> string list \<Rightarrow> watched_store" where
  "newWatchedProcessStore save_ok path file seeded =
     (let s = \<lparr>ws_path = path, ws_names = [], ws_file = file\<rparr> in
      case (if path = [] then None else file) of
        Some (Some names) \<Rightarrow> s\<lparr>ws_names := normalizeWatchedNames names\<rparr>
      | _ \<Rightarrow> seed_watched save_ok s seeded)"

definition watched_Reseed :: "bool \<Rightarrow> watched_store \<Rightarrow> string list \<Rightarrow> watched_store" where
  "watched_Reseed save_ok s seeded =
     (if ws_path s \<noteq> [] \<and> ws_file s \<noteq> None then s else seed_watched save_ok s seeded)"

text \<open>The updated list, or none when it could not be saved; the change stays in memory all the same.\<close>

definition watched_Add :: "bool \<Rightarrow> watched_store \<Rightarrow> string \<Rightarrow> watched_store \<times> string list option" where
  "watched_Add save_ok s name =
     (if name \<in> set (ws_names s) then (s, Some (ws_names s))
      else let (s', ok) = watched_save save_ok (s\<lparr>ws_names := sort (ws_names s @ [name])\<rparr>) in
        (s', if ok then Some (ws_names s') else None))"

definition watched_Remove :: "bool \<Rightarrow> watched_store \<Rightarrow> string \<Rightarrow> watched_store \<times> string list option" where
  "watched_Remove save_ok s name =
     (if name \<notin> set (ws_names s) then (s, Some (ws_names s))
      else let (s', ok) = watched_save save_ok (s\<lparr>ws_names := filter (\<lambda>n. n \<noteq> name) (ws_names s)\<rparr>) in
        (s', if ok then Some (ws_names s') else None))"

section \<open>The usage history of a process\<close>

record processHistorySample =
  ph_Name :: string
  ph_TS :: time
  ph_CPUPercent :: rat
  ph_RSSKb :: int
  ph_ProcessCount :: nat
  ph_Threads :: "int option"

definition processHistoryMaxSamples :: nat where "processHistoryMaxSamples = 1000"

text \<open>Without a directory: a ring of the newest samples.\<close>

definition ring_Append :: "processHistorySample list \<Rightarrow> processHistorySample \<Rightarrow> processHistorySample list" where
  "ring_Append ring s = last_n processHistoryMaxSamples (ring @ [s])"

definition in_range :: "time option \<Rightarrow> time option \<Rightarrow> time \<Rightarrow> bool" where
  "in_range from_t to_t t \<longleftrightarrow>
     (case from_t of None \<Rightarrow> True | Some f \<Rightarrow> \<not> t < f) \<and> (case to_t of None \<Rightarrow> True | Some u \<Rightarrow> \<not> u < t)"

definition history_limit :: "int \<Rightarrow> nat" where
  "history_limit n = nat (if n \<le> 0 \<or> 5000 < n then 500 else n)"

definition ring_Query ::
  "processHistorySample list \<Rightarrow> string \<Rightarrow> time option \<Rightarrow> time option \<Rightarrow> int \<Rightarrow> processHistorySample list" where
  "ring_Query ring name from_t to_t limit =
     last_n (history_limit limit) (filter (\<lambda>s. ph_Name s = name \<and> in_range from_t to_t (ph_TS s)) ring)"

text \<open>
  With one: a file for each day, named by its number. A query opens the files of every day from its
  start to its end; \<open>query_days\<close> is how many that is. A query without a start begins at Go's zero time.
\<close>

definition day_of :: "time \<Rightarrow> int" where
  "day_of t = t div (86400 * 1000000000)"

type_synonym day_files = "int \<Rightarrow> processHistorySample list"

definition query_range :: "time \<Rightarrow> time option \<Rightarrow> time option \<Rightarrow> int list" where
  "query_range now from_t to_t =
     (let start = day_of (case from_t of None \<Rightarrow> 0 | Some t \<Rightarrow> t);
          end_t = (case to_t of None \<Rightarrow> now + 86400 * 1000000000 | Some t \<Rightarrow> t) in
      [start..day_of end_t])"

definition days_Query ::
  "day_files \<Rightarrow> time \<Rightarrow> string \<Rightarrow> time option \<Rightarrow> time option \<Rightarrow> int \<Rightarrow> processHistorySample list" where
  "days_Query files now name from_t to_t limit =
     last_n (history_limit limit)
       (sort_key ph_TS (filter (\<lambda>s. ph_Name s = name \<and> in_range from_t to_t (ph_TS s))
          (concat (map files (query_range now from_t to_t)))))"

definition days_Append :: "time \<Rightarrow> day_files \<Rightarrow> processHistorySample \<Rightarrow> day_files" where
  "days_Append retention files s =
     (let cutoff = day_of (ph_TS s - retention);
          pruned = (\<lambda>d. if d < cutoff then [] else files d) in
      pruned(day_of (ph_TS s) := pruned (day_of (ph_TS s)) @ [s]))"

section \<open>The audit log\<close>

text \<open>
  The two files as their lines. \<open>enc\<close> and \<open>dec\<close> are \<open>encoding/json\<close>; the scanner that reads a file
  stops at the first line that does not fit its buffer.
\<close>

record audit_files =
  au_active :: "string list"
  au_rotated :: "string list"

definition auditMaxBytes :: nat where "auditMaxBytes = 1048576"

definition file_size :: "string list \<Rightarrow> nat" where
  "file_size ls = sum_list (map (\<lambda>l. Suc (length l)) ls)"

definition audit_Record :: "('e \<Rightarrow> string) \<Rightarrow> audit_files \<Rightarrow> 'e \<Rightarrow> audit_files" where
  "audit_Record enc a e =
     (if auditMaxBytes \<le> file_size (au_active a) then \<lparr>au_active = [enc e], au_rotated = au_active a\<rparr>
      else a\<lparr>au_active := au_active a @ [enc e]\<rparr>)"

definition audit_Clear :: "audit_files" where
  "audit_Clear = \<lparr>au_active = [], au_rotated = []\<rparr>"

definition scanned :: "string list \<Rightarrow> string list" where
  "scanned ls = takeWhile (\<lambda>l. length l < MaxScanTokenSize) ls"

definition decoded :: "(string \<Rightarrow> 'e option) \<Rightarrow> string list \<Rightarrow> 'e list" where
  "decoded dec ls = concat (map (\<lambda>l. case dec l of None \<Rightarrow> [] | Some e \<Rightarrow> [e]) ls)"

definition audit_limit :: "int \<Rightarrow> nat" where
  "audit_limit n = (let m = (if n \<le> 0 then 50 else n) in nat (if 500 < m then 500 else m))"

definition audit_Recent :: "(string \<Rightarrow> 'e option) \<Rightarrow> audit_files \<Rightarrow> int \<Rightarrow> 'e list" where
  "audit_Recent dec a limit =
     rev (last_n (audit_limit limit) (decoded dec (scanned (au_rotated a)) @ decoded dec (scanned (au_active a))))"

section \<open>Container logs\<close>

record containerLogLine =
  ll_TS :: time
  ll_Line :: string

subsection \<open>Alerts\<close>

record logAlertRule =
  lr_Name :: string
  lr_Pattern :: string
  lr_Container :: string
  lr_Title :: string
  lr_Cooldown :: time

definition rule_cooldown :: "int \<Rightarrow> time" where
  "rule_cooldown n = (let c = go_seconds n in if c \<le> 0 then seconds 300 else c)"

definition SetAlerts :: "(string \<Rightarrow> bool) \<Rightarrow> LogAlertConfig list \<Rightarrow> logAlertRule list" where
  "SetAlerts compiles alerts =
     map (\<lambda>a. \<lparr>lr_Name = la_Name a, lr_Pattern = la_Pattern a, lr_Container = la_Container a, lr_Title = la_Title a,
               lr_Cooldown = rule_cooldown (la_CooldownSeconds a)\<rparr>)
       (filter (\<lambda>a. alarm_on (la_Enabled a) \<and> compiles (la_Pattern a)) alerts)"

record logAlertMatch =
  lm_Rule :: string
  lm_Title :: string
  lm_Container :: string
  lm_Line :: containerLogLine

definition match_step ::
  "(string \<Rightarrow> string \<Rightarrow> bool) \<Rightarrow> time \<Rightarrow> string \<Rightarrow> containerLogLine \<Rightarrow> alarm_state \<times> logAlertMatch list \<Rightarrow> logAlertRule
     \<Rightarrow> alarm_state \<times> logAlertMatch list" where
  "match_step re_match now container line acc r =
     (let (st, out) = acc in
      if lr_Container r \<noteq> [] \<and> lr_Container r \<noteq> container then acc
      else if \<not> re_match (lr_Pattern r) (ll_Line line) then acc
      else case alarm_ready st (lr_Name r @ [CHR 0x00] @ container) (lr_Cooldown r) now of
        None \<Rightarrow> acc
      | Some st' \<Rightarrow> (st', out @ [\<lparr>lm_Rule = lr_Name r, lm_Title = lr_Title r, lm_Container = container, lm_Line = line\<rparr>]))"

definition alert_Match ::
  "(string \<Rightarrow> string \<Rightarrow> bool) \<Rightarrow> logAlertRule list \<Rightarrow> alarm_state \<Rightarrow> time \<Rightarrow> string \<Rightarrow> containerLogLine
     \<Rightarrow> alarm_state \<times> logAlertMatch list" where
  "alert_Match re_match rules st now container line = foldl (match_step re_match now container line) (st, []) rules"

subsection \<open>The upload buffer\<close>

record LogUploadEntry =
  lu_ContainerID :: string
  lu_Timestamp :: time
  lu_Line :: string

record logUploadBuffer =
  ub_pending :: "LogUploadEntry list"
  ub_lastTry :: "time option"

definition upload_Add :: "logUploadBuffer \<Rightarrow> string \<Rightarrow> containerLogLine list \<Rightarrow> logUploadBuffer" where
  "upload_Add b container lines =
     b\<lparr>ub_pending := last_n 5000 (ub_pending b @
       map (\<lambda>l. \<lparr>lu_ContainerID = container, lu_Timestamp = ll_TS l, lu_Line = ll_Line l\<rparr>) lines)\<rparr>"

text \<open>\<open>sends\<close> says whether the cloud takes a batch; the answer is the buffer and the batch sent, if any.\<close>

definition upload_Flush ::
  "(LogUploadEntry list \<Rightarrow> bool) \<Rightarrow> bool \<Rightarrow> time \<Rightarrow> int \<Rightarrow> time \<Rightarrow> logUploadBuffer \<Rightarrow> logUploadBuffer \<times> LogUploadEntry list option" where
  "upload_Flush sends enabled interval maxLines now b =
     (if \<not> enabled \<or> maxLines \<le> 0 then (b, None)
      else if ub_pending b = [] \<or> (case ub_lastTry b of None \<Rightarrow> False | Some t \<Rightarrow> now - t < interval) then (b, None)
      else let b' = b\<lparr>ub_lastTry := Some now\<rparr>; batch = take (nat maxLines) (ub_pending b) in
        if \<not> sends batch then (b', Some batch)
        else (b'\<lparr>ub_pending := drop (length batch) (ub_pending b)\<rparr>, Some batch))"

subsection \<open>The tails\<close>

record containerLogTail =
  tl_lines :: "containerLogLine list"
  tl_lastTS :: time

definition containerLogRingLines :: nat where "containerLogRingLines = 1000"

definition new_tail :: containerLogTail where "new_tail = \<lparr>tl_lines = [], tl_lastTS = 0\<rparr>"

type_synonym log_tails = "(string \<times> containerLogTail) list"

definition tail_of :: "log_tails \<Rightarrow> string \<Rightarrow> containerLogTail" where
  "tail_of ts i = (case map_of ts i of None \<Rightarrow> new_tail | Some t \<Rightarrow> t)"

definition log_Append :: "log_tails \<Rightarrow> string \<Rightarrow> containerLogLine list \<Rightarrow> log_tails" where
  "log_Append ts i lines =
     (if lines = [] then ts
      else let t = tail_of ts i in
        put i \<lparr>tl_lines = last_n containerLogRingLines (tl_lines t @ lines),
               tl_lastTS = foldl max (tl_lastTS t) (map ll_TS lines)\<rparr> ts)"

definition log_Cursor :: "log_tails \<Rightarrow> string \<Rightarrow> time" where
  "log_Cursor ts i = tl_lastTS (tail_of ts i)"

definition log_Snapshot :: "log_tails \<Rightarrow> string \<Rightarrow> int \<Rightarrow> containerLogLine list" where
  "log_Snapshot ts i limit =
     (let n = (if limit \<le> 0 \<or> int containerLogRingLines < limit then 200 else limit) in
      last_n (nat n) (tl_lines (tail_of ts i)))"

text \<open>\<open>parseLogLines\<close>: a line whose first word is a time has that time; any other has the time it is read.\<close>

definition parse_log_line :: "(string \<Rightarrow> time option) \<Rightarrow> time \<Rightarrow> string \<Rightarrow> containerLogLine" where
  "parse_log_line parse now raw =
     (case cut_first (CHR '' '') raw of
        Some (w, rest) \<Rightarrow>
          (case (if w = [] then None else parse w) of
             Some t \<Rightarrow> \<lparr>ll_TS = t, ll_Line = rest\<rparr>
           | None \<Rightarrow> \<lparr>ll_TS = now, ll_Line = raw\<rparr>)
      | None \<Rightarrow> \<lparr>ll_TS = now, ll_Line = raw\<rparr>)"

text \<open>The scanner drops the carriage return that ends a line.\<close>

definition drop_cr :: "string \<Rightarrow> string" where
  "drop_cr l = (if l \<noteq> [] \<and> last l = CHR 0x0D then butlast l else l)"

definition parseLogLines :: "(string \<Rightarrow> time option) \<Rightarrow> time \<Rightarrow> bytes \<Rightarrow> containerLogLine list" where
  "parseLogLines parse now out =
     map (parse_log_line parse now) (filter (\<lambda>l. l \<noteq> []) (map drop_cr (scanned (split_on (CHR 0x0A) out))))"

definition acceptTail :: "(string \<Rightarrow> time option) \<Rightarrow> time \<Rightarrow> log_tails \<Rightarrow> string \<Rightarrow> bytes \<Rightarrow> containerLogLine list" where
  "acceptTail parse now ts i out = filter (\<lambda>l. log_Cursor ts i < ll_TS l) (parseLogLines parse now out)"

text \<open>
  \<open>tail\<close>: one \<open>logs\<close> command, through \<open>sudo\<close> at once when that worked before. \<open>run\<close> is
  \<open>runCommandBounded\<close>; the answer is the new lines, none for a failed tail, and whether the path goes
  through \<open>sudo\<close> from now on.
\<close>

definition log_args :: "(time \<Rightarrow> string) \<Rightarrow> time \<Rightarrow> string \<Rightarrow> string list" where
  "log_args rfc3339 cursor i =
     [''logs''] @ (if cursor = 0 then [''--tail'', ''200''] else [''--since'', rfc3339 cursor]) @ [''--timestamps'', i]"

definition tail_direct ::
  "daemon_host \<Rightarrow> (string list \<Rightarrow> bytes option) \<Rightarrow> string \<Rightarrow> string list \<Rightarrow> bytes option \<times> bool" where
  "tail_direct he run path args =
     (case run (path # args) of
        Some out \<Rightarrow> (Some out, False)
      | None \<Rightarrow>
          (case elevationAttempt he path args of
             None \<Rightarrow> (None, False)
           | Some argv \<Rightarrow> (case run argv of Some out \<Rightarrow> (Some out, True) | None \<Rightarrow> (None, False))))"

definition tail_command ::
  "daemon_host \<Rightarrow> (string list \<Rightarrow> bytes option) \<Rightarrow> bool \<Rightarrow> string \<Rightarrow> string list \<Rightarrow> bytes option \<times> bool" where
  "tail_command he run sudo path args =
     (if sudo then
        (case run ([''sudo'', ''-n'', path] @ args) of Some out \<Rightarrow> (Some out, True) | None \<Rightarrow> tail_direct he run path args)
      else tail_direct he run path args)"

definition containerLogTailBytes :: nat where "containerLogTailBytes = 262144"

text \<open>
  \<open>runCommandBounded\<close> of a process that writes these chunks and ends with \<open>exit_ok\<close>: the buffer it
  copies them to reports a write short when it fills up.
\<close>

definition runCommandBounded :: "bytes list \<Rightarrow> bool \<Rightarrow> bytes \<times> bool" where
  "runCommandBounded chunks exit_ok =
     (let (b, short) = copy_to (new_buffer containerLogTailBytes) chunks in (lb_buf b, exit_ok \<and> \<not> short))"

end
