(* ===== verification/Daemon_Publisher.thy ===== *)
theory Daemon_Publisher
  imports Daemon_Stores Cloud_Metrics
begin

text \<open>
  \<open>CloudPublisher\<close> (\<open>internal/daemon/publisher.go\<close>): where the cloud is and with which secret, the
  pacing of metric reports by the workspace's quota, and the report of the configured actions.
  The cloud's answers and the clock are arguments.
\<close>

section \<open>Where the cloud is\<close>

text \<open>
  \<open>url\<close> is what \<open>url.Parse\<close> gives and \<open>String\<close> writes back: scheme, host, host name and text, none
  when it does not parse.
\<close>

record publisher =
  pb_baseURL :: string
  pb_daemonID :: string
  pb_secret :: string
  pb_pollInterval :: time
  pb_lastQuotaFetch :: "time option"
  pb_lastPaced :: "time option"
  pb_inFlight :: "time option" \<comment> \<open>when the publish in flight was started\<close>

definition trim_slashes :: "string \<Rightarrow> string" where
  "trim_slashes s = rev (dropWhile (\<lambda>c. c = slash) (rev s))"

type_synonym url_parser = "string \<Rightarrow> (string \<times> string \<times> string \<times> string) option"

definition NewCloudPublisher :: "url_parser \<Rightarrow> string \<Rightarrow> string \<Rightarrow> string \<Rightarrow> string + publisher option" where
  "NewCloudPublisher url daemonID cloudURL cloudSecret =
     (if trim_space cloudURL = [] \<or> trim_space cloudSecret = [] then Inr None
      else case url (trim_slashes (trim_space cloudURL)) of
        None \<Rightarrow> Inl ''cloudUrl must be HTTPS, or HTTP to localhost''
      | Some (scheme, host, hostname, text) \<Rightarrow>
          if host = [] \<or> (scheme \<noteq> ''https'' \<and> \<not> (scheme = ''http'' \<and> (hostname = ''localhost'' \<or> hostname = ''127.0.0.1'')))
          then Inl ''cloudUrl must be HTTPS, or HTTP to localhost''
          else Inr (Some \<lparr>pb_baseURL = text, pb_daemonID = daemonID, pb_secret = cloudSecret, pb_pollInterval = 0,
                 pb_lastQuotaFetch = None, pb_lastPaced = None, pb_inFlight = None\<rparr>))"

definition publisher_Reload :: "url_parser \<Rightarrow> publisher \<Rightarrow> string \<Rightarrow> string \<Rightarrow> publisher" where
  "publisher_Reload url p cloudURL cloudSecret =
     (case url (trim_slashes (trim_space cloudURL)) of
        None \<Rightarrow> p\<lparr>pb_baseURL := [], pb_secret := []\<rparr>
      | Some (scheme, host, hostname, text) \<Rightarrow>
          if host = [] then p\<lparr>pb_baseURL := [], pb_secret := []\<rparr>
          else p\<lparr>pb_baseURL := text, pb_secret := trim_space cloudSecret\<rparr>)"

text \<open>The URL and the bearer secret of one request, and of the relayed terminal's socket.\<close>

definition request_target :: "publisher \<Rightarrow> string \<Rightarrow> string \<times> string" where
  "request_target p suffix = (pb_baseURL p @ ''/api/daemons/'' @ pb_daemonID p @ suffix, pb_secret p)"

text \<open>A status outside the twos is an error; \<open>answer\<close> is none when the request itself fails.\<close>

definition request_ok :: "nat option \<Rightarrow> bool" where
  "request_ok answer = (case answer of None \<Rightarrow> False | Some status \<Rightarrow> 200 \<le> status \<and> status < 300)"

section \<open>Pacing\<close>

definition quotaRefreshInterval :: time where "quotaRefreshInterval = seconds 300"
definition quotaRetryInterval :: time where "quotaRetryInterval = seconds 60"

text \<open>\<open>quota\<close> is the answer of the quota request, none for a failed one: \<open>polling_interval_seconds\<close>, zero if absent.\<close>

definition refreshQuota :: "time \<Rightarrow> int option \<Rightarrow> publisher \<Rightarrow> publisher" where
  "refreshQuota now quota p =
     (if (case pb_lastQuotaFetch p of None \<Rightarrow> False | Some t \<Rightarrow> now - t < quotaRefreshInterval) then p
      else case quota of
        None \<Rightarrow> p\<lparr>pb_lastQuotaFetch := Some (now - (quotaRefreshInterval - quotaRetryInterval))\<rparr>
      | Some secs \<Rightarrow> p\<lparr>pb_lastQuotaFetch := Some now, pb_pollInterval := (if 0 < secs then go_seconds secs else 0)\<rparr>)"

definition pacedOK :: "time \<Rightarrow> int option \<Rightarrow> publisher \<Rightarrow> publisher \<times> bool" where
  "pacedOK now quota p =
     (let p' = refreshQuota now quota p in
      if pb_pollInterval p' \<le> 0 then (p', True)
      else if pb_inFlight p' \<noteq> None then (p', False)
      else if (case pb_lastPaced p' of None \<Rightarrow> False | Some t \<Rightarrow> now - t < pb_pollInterval p') then (p', False)
      else (p'\<lparr>pb_inFlight := Some now\<rparr>, True))"

definition pacedDone :: "bool \<Rightarrow> publisher \<Rightarrow> publisher" where
  "pacedDone success p =
     (case pb_inFlight p of
        None \<Rightarrow> p
      | Some t \<Rightarrow> p\<lparr>pb_inFlight := None, pb_lastPaced := (if success then Some t else pb_lastPaced p)\<rparr>)"

text \<open>One publish that waits for its answer; whether a request was made.\<close>

definition PublishMetrics :: "time \<Rightarrow> int option \<Rightarrow> nat option \<Rightarrow> publisher \<Rightarrow> publisher \<times> bool" where
  "PublishMetrics now quota answer p =
     (case pacedOK now quota p of
        (p', False) \<Rightarrow> (p', False)
      | (p', True) \<Rightarrow> (pacedDone (request_ok answer) p', True))"

section \<open>Reports\<close>

text \<open>What the cloud is told of an action; a timeout that is not set is left out.\<close>

record actionReportPayload =
  ar_Name :: string
  ar_DisplayName :: string
  ar_Enabled :: bool
  ar_Timeout :: "time option"
  ar_Cwd :: string
  ar_User :: string

definition action_report :: "hook \<Rightarrow> actionReportPayload" where
  "action_report h =
     \<lparr>ar_Name = hk_name h, ar_DisplayName = hk_displayName h, ar_Enabled = hk_enabled h,
      ar_Timeout = (if 0 < hk_timeout h then Some (hk_timeout h) else None), ar_Cwd = hk_cwd h, ar_User = hk_user h\<rparr>"

definition PublishActions :: "hook list \<Rightarrow> actionReportPayload list" where
  "PublishActions = map action_report"

text \<open>Nothing is sent for no lines, and no status batch that covers no runtime.\<close>

definition PublishLogs :: "LogUploadEntry list \<Rightarrow> LogUploadEntry list option" where
  "PublishLogs entries = (if entries = [] then None else Some entries)"

definition PublishContainerStatus :: "containerStatusEntry list \<times> string list \<Rightarrow> (containerStatusEntry list \<times> string list) option" where
  "PublishContainerStatus batch = (if snd batch = [] then None else Some batch)"

text \<open>\<open>executor.SetCompletionHandler\<close>: what a finished webhook or action announces.\<close>

definition completion_note :: "bool \<Rightarrow> bool \<Rightarrow> hook \<Rightarrow> bool \<Rightarrow> string \<Rightarrow> notificationPayload option" where
  "completion_note notifyOnSuccess notifyOnFailure h ok stderr =
     (if (\<not> ok \<and> \<not> notifyOnFailure) \<or> (ok \<and> \<not> notifyOnSuccess) then None
      else Some \<lparr>np_Kind = (if ok then ''webhook.success'' else ''webhook.failure''),
        np_Title = ''Webhook '' @ hook_Label h @ (if ok then '' completed'' else '' failed''),
        np_Body = take 4096 (trim_space stderr),
        np_Metadata = [(''name'', NText (hk_name h)), (''display_name'', NText (hook_Label h))]\<rparr>)"

end
