(* ===== verification/Daemon_Jobs.thy ===== *)
theory Daemon_Jobs
  imports Daemon_Publisher Ops_Dispatch Daemon_Files_Http
begin

text \<open>
  The ways in that need no listener: scheduled jobs (\<open>internal/daemon/jobs.go\<close>), the invocations the
  cloud relays (\<open>relay.go\<close>) and the requests on the pipe (\<open>stdio.go\<close>). All three end in the executor's
  \<open>RunAction\<close> or \<open>ExecuteWebhook\<close> or in \<open>nativeOpRunner.dispatch\<close>, given here as \<open>ways_in\<close>.
\<close>

section \<open>What they call\<close>

text \<open>
  The answer of a run: the response with its status, or a refusal with status and message. \<open>wi_json\<close>
  decodes a body into a JSON object.
\<close>

record run_answer =
  ra_ok :: bool
  ra_stdout :: bytes
  ra_stderr :: bytes
  ra_status :: nat

record ways_in =
  wi_action :: "string \<Rightarrow> bytes \<Rightarrow> refusal + run_answer"
  wi_webhook :: "string \<Rightarrow> bytes \<Rightarrow> string \<Rightarrow> run_answer"
  wi_dispatch :: "string \<Rightarrow> opParams \<Rightarrow> refusal + run_answer"
  wi_json :: "bytes \<Rightarrow> (string \<times> json) list option"

definition answer_of :: "exec_outcome \<Rightarrow> run_answer" where
  "answer_of out =
     \<lparr>ra_ok = xr_ok (xo_response out), ra_stdout = xr_stdout (xo_response out), ra_stderr = xr_stderr (xo_response out),
      ra_status = xo_status out\<rparr>"

definition empty_answer :: "nat \<Rightarrow> run_answer" where
  "empty_answer status = \<lparr>ra_ok = False, ra_stdout = [], ra_stderr = [], ra_status = status\<rparr>"

definition dispatch_answer_of :: "dispatch_answer \<Rightarrow> (op_refusal \<Rightarrow> string) \<Rightarrow> refusal + run_answer" where
  "dispatch_answer_of d refusal_message =
     (case d of
        Rejected (status, e) \<Rightarrow> Inl (Refused status (refusal_message e))
      | TooMany \<Rightarrow> Inr (empty_answer http_StatusTooManyRequests)
      | Ran out \<Rightarrow> Inr \<lparr>ra_ok = xr_ok (oo_response out), ra_stdout = xr_stdout (oo_response out),
          ra_stderr = xr_stderr (oo_response out), ra_status = oo_status out\<rparr>)"

text \<open>The executor and the runner of a daemon, as the three entries see them.\<close>

definition daemon_ways ::
  "exec_env \<Rightarrow> (string \<Rightarrow> bytes \<Rightarrow> string) \<Rightarrow> bool \<Rightarrow> bool \<Rightarrow> time \<Rightarrow> int \<Rightarrow> hook_tables \<Rightarrow> bool
     \<Rightarrow> (string \<Rightarrow> opParams \<Rightarrow> refusal + run_answer) \<Rightarrow> (bytes \<Rightarrow> (string \<times> json) list option) \<Rightarrow> ways_in" where
  "daemon_ways env mac audited notified scriptTimeout maxBody tables slot dispatch_op decode =
     \<lparr>wi_action = (\<lambda>name body. map_sum id answer_of (RunAction env audited notified scriptTimeout maxBody tables slot name body)),
      wi_webhook = (\<lambda>name body signature.
        case ExecuteWebhook env mac audited notified scriptTimeout tables slot name body signature of
          Inl status \<Rightarrow> empty_answer status | Inr out \<Rightarrow> answer_of out),
      wi_dispatch = dispatch_op, wi_json = decode\<rparr>"

definition params_of :: "ways_in \<Rightarrow> string \<Rightarrow> bytes \<Rightarrow> opParams" where
  "params_of w slug body =
     (if body = [] then no_params
      else case wi_json w body of None \<Rightarrow> no_params | Some vs \<Rightarrow> nativeParamsFromValues slug vs)"

section \<open>Jobs\<close>

record jobState =
  js_cfg :: JobConfig
  js_schedule :: "time \<Rightarrow> time"
  js_next :: time
  js_running :: bool

type_synonym job_table = "(string \<times> jobState) list"

text \<open>\<open>cron\<close> is \<open>cron.ParseStandard\<close>: the next time of a schedule after a given one. A new runner has no jobs.\<close>

definition newJobRunner :: job_table where "newJobRunner = []"

definition set_job :: "(string \<Rightarrow> (time \<Rightarrow> time) option) \<Rightarrow> time \<Rightarrow> job_table \<Rightarrow> JobConfig \<Rightarrow> job_table" where
  "set_job cron now m job =
     (if \<not> alarm_on (jc_Enabled job) then m
      else case cron (jc_Schedule job) of
        None \<Rightarrow> m
      | Some schedule \<Rightarrow>
          put (jc_Name job) \<lparr>js_cfg = job, js_schedule = schedule, js_next = schedule now, js_running = False\<rparr> m)"

definition SetJobs :: "(string \<Rightarrow> (time \<Rightarrow> time) option) \<Rightarrow> time \<Rightarrow> JobConfig list \<Rightarrow> job_table" where
  "SetJobs cron now jobs = foldl (set_job cron now) [] jobs"

definition job_timeout :: "time \<Rightarrow> JobConfig \<Rightarrow> time" where
  "job_timeout scriptTimeout job = (if 0 < jc_Timeout job then jc_Timeout job else scriptTimeout)"

text \<open>
  What a job runs, and the notification of a failed one. \<open>encode\<close> is \<open>json.Marshal\<close> of the job's
  body, which is \<open>null\<close> when it has none.
\<close>

definition job_call :: "ways_in \<Rightarrow> (json \<Rightarrow> bytes) \<Rightarrow> JobConfig \<Rightarrow> refusal + run_answer" where
  "job_call w encode job =
     (let body = encode (case jc_Body job of None \<Rightarrow> json.JNull | Some o' \<Rightarrow> JObj o') in
      if isNativeOpSlug (jc_Action job) then wi_dispatch w (jc_Action job) (params_of w (jc_Action job) body)
      else wi_action w (jc_Action job) body)"

definition job_note :: "JobConfig \<Rightarrow> refusal + run_answer \<Rightarrow> notificationPayload option" where
  "job_note job outcome =
     (let ok = (case outcome of Inl _ \<Rightarrow> False | Inr a \<Rightarrow> ra_ok a);
          stderr = (case outcome of Inl (Refused _ m) \<Rightarrow> m | Inr a \<Rightarrow> ra_stderr a) in
      if ok \<or> \<not> jc_NotifyOnFailure job then None
      else Some \<lparr>np_Kind = ''job.failure'', np_Title = ''Job '' @ jc_Name job @ '' failed'',
        np_Body = take 4096 (trim_space stderr),
        np_Metadata = [(''job'', NText (jc_Name job)), (''action'', NText (jc_Action job))]\<rparr>)"

text \<open>
  A tick runs the due jobs one after the other, each to its end: \<open>dur\<close> is how long a job takes. A job
  that is marked as running only moves its next time. The log is what was started, and when.
\<close>

definition update_job :: "string \<Rightarrow> (jobState \<Rightarrow> jobState) \<Rightarrow> job_table \<Rightarrow> job_table" where
  "update_job name f m = map (\<lambda>(k, s). if k = name then (k, f s) else (k, s)) m"

record job_clock =
  jk_jobs :: job_table
  jk_now :: time
  jk_log :: "(string \<times> time) list"

definition runJob :: "(JobConfig \<Rightarrow> time) \<Rightarrow> job_clock \<Rightarrow> string \<Rightarrow> job_clock" where
  "runJob dur k name =
     (case map_of (jk_jobs k) name of
        None \<Rightarrow> k
      | Some s \<Rightarrow>
          if js_running s then k\<lparr>jk_jobs := update_job name (\<lambda>s. s\<lparr>js_next := js_schedule s (jk_now k)\<rparr>) (jk_jobs k)\<rparr>
          else
            let started = update_job name (\<lambda>s. s\<lparr>js_running := True, js_next := js_schedule s (jk_now k)\<rparr>) (jk_jobs k) in
            \<lparr>jk_jobs = update_job name (\<lambda>s. s\<lparr>js_running := False\<rparr>) started, jk_now = jk_now k + dur (js_cfg s),
             jk_log = jk_log k @ [(name, jk_now k)]\<rparr>)"

definition due_jobs :: "time \<Rightarrow> job_table \<Rightarrow> string list" where
  "due_jobs now m = map fst (filter (\<lambda>(_, s). js_next s \<le> now) m)"

definition job_tick :: "(JobConfig \<Rightarrow> time) \<Rightarrow> job_clock \<Rightarrow> job_clock" where
  "job_tick dur k = foldl (runJob dur) k (due_jobs (jk_now k) (jk_jobs k))"

section \<open>The relay\<close>

record relayWebhookRequest =
  rq_ID :: string
  rq_Name :: string
  rq_Body :: string
  rq_Signature :: string
  rq_InvokedBy :: string

record relayResultPayload =
  rr_Code :: nat
  rr_Body :: string
  rr_Error :: string

definition relay_result :: "run_answer \<Rightarrow> relayResultPayload" where
  "relay_result a =
     \<lparr>rr_Code = ra_status a, rr_Body = (if ra_ok a then b64_encode (ra_stdout a) else []),
      rr_Error = (if ra_ok a then [] else if ra_stderr a \<noteq> [] then ra_stderr a
        else if ra_status a \<noteq> 200 then ''webhook execution failed'' else [])\<rparr>"

definition relay_process :: "ways_in \<Rightarrow> relayWebhookRequest \<Rightarrow> relayResultPayload" where
  "relay_process w r =
     (case b64_std_decode (rq_Body r) of
        None \<Rightarrow> \<lparr>rr_Code = 0, rr_Body = [], rr_Error = ''invalid request body encoding''\<rparr>
      | Some body \<Rightarrow>
          if isNativeOpSlug (rq_Name r) then
            (case wi_dispatch w (rq_Name r) (params_of w (rq_Name r) body) of
               Inl (Refused status message) \<Rightarrow> \<lparr>rr_Code = status, rr_Body = [], rr_Error = message\<rparr>
             | Inr a \<Rightarrow> relay_result a)
          else relay_result (wi_webhook w (rq_Name r) body (rq_Signature r)))"

text \<open>One poll: nothing for a publisher that is not there or a failed poll, else a result for every request, in order.\<close>

definition pollOnce :: "ways_in \<Rightarrow> bool \<Rightarrow> relayWebhookRequest list option \<Rightarrow> (string \<times> relayResultPayload) list" where
  "pollOnce w configured pending =
     (if \<not> configured then []
      else case pending of None \<Rightarrow> [] | Some rs \<Rightarrow> map (\<lambda>r. (rq_ID r, relay_process w r)) rs)"

section \<open>The pipe\<close>

text \<open>
  \<open>stdioBody\<close>: the bytes of a string, or the JSON text itself. A body is absent, \<open>null\<close>, a string
  or another document with its text; one that is not JSON cannot be decoded in the first place.
\<close>

datatype raw_body = NoBody | NullBody | TextBody string | JsonBody string

definition stdioBody :: "raw_body \<Rightarrow> bytes" where
  "stdioBody b = (case b of NoBody \<Rightarrow> [] | NullBody \<Rightarrow> [] | TextBody t \<Rightarrow> t | JsonBody t \<Rightarrow> t)"

record stdioRequest =
  sq_ID :: string
  sq_Action :: string
  sq_Name :: string
  sq_Body :: raw_body

text \<open>What a request on the pipe comes to.\<close>

datatype stdio_step =
    StdioFile string bytes
  | StdioOp string opParams
  | StdioAction string bytes
  | StdioHealth
  | StdioMetrics
  | StdioRuntimes
  | StdioHistory string "time option" "time option" int
  | StdioWatched "string list"
  | StdioError string
  | StdioShutdown
  | StdioUnsupported

text \<open>
  \<open>name_of\<close> decodes the body of a watched-process request, its \<open>name\<close> field; \<open>history_of\<close> the body of
  a history request: the name, the two ends as text and the limit. \<open>rfc3339\<close> is \<open>time.Parse\<close>.
\<close>

definition stdio_watch ::
  "bool \<Rightarrow> (bytes \<Rightarrow> string option) \<Rightarrow> stdioRequest \<Rightarrow> watched_store \<Rightarrow> watched_store \<times> stdio_step" where
  "stdio_watch save_ok name_of r s =
     (case name_of (stdioBody (sq_Body r)) of
        None \<Rightarrow> (s, StdioError ''invalid JSON body'')
      | Some raw \<Rightarrow>
          (let name = trim_space raw in
           if \<not> ValidWatchedProcessName name then (s, StdioError ''name must match [A-Za-z0-9][A-Za-z0-9._-]*'')
           else case (if has_suffix ''add'' (sq_Action r) then watched_Add save_ok s name else watched_Remove save_ok s name) of
             (s', None) \<Rightarrow> (s', StdioError ''save failed'')
           | (s', Some names) \<Rightarrow> (s', StdioWatched names)))"

definition stdio_time :: "(string \<Rightarrow> time option) \<Rightarrow> string \<Rightarrow> string \<Rightarrow> stdio_step + time option" where
  "stdio_time rfc3339 what t =
     (if t = [] then Inr None
      else case rfc3339 t of
        None \<Rightarrow> Inl (StdioError (what @ '' must be RFC3339''))
      | Some parsed \<Rightarrow> Inr (Some parsed))"

definition stdio_history ::
  "(string \<Rightarrow> time option) \<Rightarrow> (bytes \<Rightarrow> (string \<times> string \<times> string \<times> int) option) \<Rightarrow> stdioRequest \<Rightarrow> stdio_step" where
  "stdio_history rfc3339 history_of r =
     (case history_of (stdioBody (sq_Body r)) of
        None \<Rightarrow> StdioError ''invalid JSON body''
      | Some (raw, start, stop, limit) \<Rightarrow>
          (let name = trim_space raw in
           if \<not> ValidWatchedProcessName name then StdioError ''name must match [A-Za-z0-9][A-Za-z0-9._-]*''
           else case stdio_time rfc3339 ''from'' start of
             Inl e \<Rightarrow> e
           | Inr a \<Rightarrow>
               (case stdio_time rfc3339 ''to'' stop of
                  Inl e \<Rightarrow> e
                | Inr b \<Rightarrow> StdioHistory name a b limit)))"

definition runStdio ::
  "ways_in \<Rightarrow> bool \<Rightarrow> (bytes \<Rightarrow> string option) \<Rightarrow> (string \<Rightarrow> time option)
     \<Rightarrow> (bytes \<Rightarrow> (string \<times> string \<times> string \<times> int) option) \<Rightarrow> stdioRequest \<Rightarrow> watched_store
     \<Rightarrow> watched_store \<times> stdio_step" where
  "runStdio w save_ok name_of rfc3339 history_of r s =
     (let action = to_lower (trim_space (sq_Action r)); body = stdioBody (sq_Body r) in
      if isFileActionSlug action then (s, StdioFile action body)
      else if isNativeOpSlug action then (s, StdioOp action (params_of w action body))
      else if action = ''health'' then (s, StdioHealth)
      else if action = ''metrics'' then (s, StdioMetrics)
      else if action = ''runtimes'' then (s, StdioRuntimes)
      else if action = ''watched-processes'' then (s, StdioWatched (ws_names s))
      else if action = ''watched-process-add'' \<or> action = ''watched-process-remove'' then stdio_watch save_ok name_of r s
      else if action = ''process-history'' then (s, stdio_history rfc3339 history_of r)
      else if action = ''action'' \<or> action = ''invoke'' then (s, StdioAction (sq_Name r) body)
      else if action = ''shutdown'' then (s, StdioShutdown)
      else (s, StdioUnsupported))"

end
