(* ===== verification/Daemon_Reload.thy ===== *)
theory Daemon_Reload
  imports Daemon_Jobs Daemon_Config_Load
begin

text \<open>
  Start and hot reload (\<open>internal/daemon/app.go\<close>, \<open>reload.go\<close>) and the configuration API
  (\<open>config_api.go\<close>): what a valid configuration sets up, what a reload swaps, and how a PATCH edits the
  file. A file is its text; \<open>Load\<close> of a text is an argument, with the fragments it finds.
\<close>

section \<open>The daemon's reloadable state\<close>

record reloadableConfig =
  rl_actions :: "hook list"
  rl_alarms :: "AlarmConfig list"
  rl_jobs :: "JobConfig list"
  rl_logAlerts :: "LogAlertConfig list"
  rl_runtimes :: "string list"
  rl_watchedProcesses :: "string list"
  rl_processesLimit :: int
  rl_scriptTimeout :: time
  rl_maxBodyBytes :: int
  rl_maxConcurrentRuns :: int
  rl_cloudURL :: string
  rl_cloudSecret :: string
  rl_logsUploadEnabled :: bool
  rl_logsUploadInterval :: time
  rl_logsUploadBatchLines :: int
  rl_managedContainers :: "string list"
  rl_managedComposes :: "string list"
  rl_statusUploadEnabled :: bool
  rl_version :: string
  rl_terminal :: TerminalConfig
  rl_files :: files_config
  rl_compose :: ComposeConfig
  rl_priv :: PrivConfig
  rl_intervals :: reloadableIntervals

definition newReloadableConfig :: "DaemonConfig \<Rightarrow> reloadableConfig" where
  "newReloadableConfig d =
     \<lparr>rl_actions = dc_Actions d, rl_alarms = dc_Alarms d, rl_jobs = dc_Jobs d, rl_logAlerts = dc_LogAlerts d,
      rl_runtimes = dc_Runtimes d, rl_watchedProcesses = dc_WatchedProcesses d, rl_processesLimit = dc_ProcessesLimit d,
      rl_scriptTimeout = dc_ScriptTimeout d, rl_maxBodyBytes = dc_MaxBodyBytes d,
      rl_maxConcurrentRuns = dc_MaxConcurrentRuns d, rl_cloudURL = dc_CloudURL d, rl_cloudSecret = dc_CloudSecret d,
      rl_logsUploadEnabled = dc_LogsUploadEnabled d, rl_logsUploadInterval = dc_LogsUploadInterval d,
      rl_logsUploadBatchLines = (if dc_LogsUploadBatchLines d \<le> 0 then 100 else dc_LogsUploadBatchLines d),
      rl_managedContainers = dc_ManagedContainers d, rl_managedComposes = dc_ManagedComposes d,
      rl_statusUploadEnabled = dc_StatusUploadEnabled d, rl_version = dc_Version d, rl_terminal = dc_Terminal d,
      rl_files = dc_Files d, rl_compose = dc_Compose d, rl_priv = dc_Priv d, rl_intervals = dc_Intervals d\<rparr>"

text \<open>
  The parts of an \<open>App\<close> a reload swaps. \<open>ap_slots\<close> is the capacity of the executor's channel, whose
  steps are those of \<open>slot_step\<close>.
\<close>

record App =
  ap_cfg :: DaemonConfig
  ap_configPath :: string
  ap_hooks :: hook_tables
  ap_scriptTimeout :: time
  ap_maxBodyBytes :: int
  ap_slots :: int
  ap_opTimeout :: time
  ap_policy :: "opPrivPolicy option"
  ap_runtimes :: "string list"
  ap_limit :: int
  ap_watched :: watched_store
  ap_jobs :: job_table
  ap_logAlerts :: "logAlertRule list"
  ap_publisher :: "publisher option"
  ap_rt :: reloadableConfig

text \<open>
  What is outside: the checks' environment, \<open>url.Parse\<close> with the text \<open>String\<close> writes back, the cron
  parser, which patterns compile, whether the list of watched processes can be saved, how root is
  reached, whether the metrics history opens, and the clock.
\<close>

record app_env =
  ae_config :: config_env
  ae_url :: url_parser
  ae_cron :: "string \<Rightarrow> (time \<Rightarrow> time) option"
  ae_compiles :: "string \<Rightarrow> bool"
  ae_save_ok :: bool
  ae_runner :: "string list option"
  ae_history_ok :: bool
  ae_now :: time

text \<open>
  Validation works on a copy of the configuration that shares its lists: the trimmed and filled entries
  stay, the filled number of upload lines does not.
\<close>

definition validated :: "app_env \<Rightarrow> DaemonConfig \<Rightarrow> daemon_config_error + DaemonConfig" where
  "validated ae d =
     rbind (ValidateDaemon (ae_config ae) d) (\<lambda>v. Inr (v\<lparr>dc_LogsUploadBatchLines := dc_LogsUploadBatchLines d\<rparr>))"

definition policy_of :: "app_env \<Rightarrow> PrivConfig \<Rightarrow> opPrivPolicy option" where
  "policy_of ae p = SetPrivilegedPolicy (pc_Helper p) (pc_Systemd p) (pc_Packages p) (pc_Firewall p) (ae_runner ae)"

definition publisher_of :: "app_env \<Rightarrow> DaemonConfig \<Rightarrow> string + publisher option" where
  "publisher_of ae d = NewCloudPublisher (ae_url ae) (dc_ID d) (dc_CloudURL d) (dc_CloudSecret d)"

definition NewApp ::
  "app_env \<Rightarrow> string \<Rightarrow> string list option option \<Rightarrow> DaemonConfig \<Rightarrow> daemon_config_error + App" where
  "NewApp ae watchedPath watchedFile cfg =
     rbind (validated ae cfg) (\<lambda>d.
     rbind (map_err (Bad ''daemon.cloudUrl'') (publisher_of ae d)) (\<lambda>pub.
     rbind (refuse (\<not> ae_history_ok ae) (Bad ''metrics history'' ''cannot be opened'')) (\<lambda>_.
     Inr \<lparr>ap_cfg = d, ap_configPath = [], ap_hooks = SetHooks (dc_Webhooks d) (dc_Actions d),
          ap_scriptTimeout = dc_ScriptTimeout d, ap_maxBodyBytes = dc_MaxBodyBytes d, ap_slots = dc_MaxConcurrentRuns d,
          ap_opTimeout = dc_ScriptTimeout d, ap_policy = policy_of ae (dc_Priv d), ap_runtimes = dc_Runtimes d,
          ap_limit = dc_ProcessesLimit d,
          ap_watched = newWatchedProcessStore (ae_save_ok ae) watchedPath watchedFile (dc_WatchedProcesses d),
          ap_jobs = newJobRunner, ap_logAlerts = SetAlerts (ae_compiles ae) (dc_LogAlerts d), ap_publisher = pub,
          ap_rt = newReloadableConfig d\<rparr>)))"

definition reload_publisher :: "app_env \<Rightarrow> DaemonConfig \<Rightarrow> publisher option \<Rightarrow> publisher option" where
  "reload_publisher ae d pub =
     (case pub of
        Some p \<Rightarrow> Some (publisher_Reload (ae_url ae) p (dc_CloudURL d) (dc_CloudSecret d))
      | None \<Rightarrow>
          if trim_space (dc_CloudURL d) \<noteq> [] \<and> trim_space (dc_CloudSecret d) \<noteq> []
          then (case publisher_of ae d of Inl _ \<Rightarrow> None | Inr created \<Rightarrow> created) else None)"

definition applyReload :: "app_env \<Rightarrow> DaemonConfig \<Rightarrow> App \<Rightarrow> App" where
  "applyReload ae d a = a\<lparr>
     ap_hooks := SetHooks (dc_Webhooks d) (dc_Actions d), ap_scriptTimeout := dc_ScriptTimeout d,
     ap_maxBodyBytes := dc_MaxBodyBytes d, ap_slots := dc_MaxConcurrentRuns d, ap_opTimeout := dc_ScriptTimeout d,
     ap_policy := (if ae_runner ae = None then ap_policy a else policy_of ae (dc_Priv d)),
     ap_runtimes := dc_Runtimes d, ap_limit := dc_ProcessesLimit d,
     ap_watched := watched_Reseed (ae_save_ok ae) (ap_watched a) (dc_WatchedProcesses d),
     ap_jobs := SetJobs (ae_cron ae) (ae_now ae) (dc_Jobs d), ap_logAlerts := SetAlerts (ae_compiles ae) (dc_LogAlerts d),
     ap_publisher := reload_publisher ae d (ap_publisher a), ap_rt := newReloadableConfig d\<rparr>"

text \<open>\<open>load\<close> is \<open>config.Load\<close> of the file's text, with the fragment directories as they are.\<close>

definition Reload ::
  "app_env \<Rightarrow> (bytes \<Rightarrow> daemon_config_error + DaemonConfig) \<Rightarrow> bytes \<Rightarrow> App \<Rightarrow> App \<times> daemon_config_error option" where
  "Reload ae load text a =
     (if trim_space (ap_configPath a) = [] then (a, Some (Bad ''config'' ''no config path is configured''))
      else case load text of
        Inl e \<Rightarrow> (a, Some e)
      | Inr cfg \<Rightarrow> (case validated ae cfg of Inl e \<Rightarrow> (a, Some e) | Inr d \<Rightarrow> (applyReload ae d a, None)))"

section \<open>Values of a patch\<close>

text \<open>A decoded JSON value as the rules look at it; a list has its strings and none for anything else.\<close>

datatype patch_value = PText string | PNumber rat | PBool bool | PList "string option list" | POther

datatype patchRule = DurationRule | IntRule int int | StringListRule | CloudURLRule | SecretRule | BoolRule

definition patchableDaemonKeys :: "(string \<times> patchRule) list" where
  "patchableDaemonKeys =
     [(''metricsInterval'', DurationRule), (''streamInterval'', DurationRule), (''containersInterval'', DurationRule),
      (''imagesInterval'', DurationRule), (''processesInterval'', DurationRule), (''systemdInterval'', DurationRule),
      (''runtimesInterval'', DurationRule), (''databaseMetricsInterval'', DurationRule), (''logsInterval'', DurationRule),
      (''updateCheckInterval'', DurationRule), (''logsUploadInterval'', DurationRule), (''scriptTimeout'', DurationRule),
      (''processesLimit'', IntRule 1 500), (''maxBodyBytes'', IntRule 1 1073741824), (''maxConcurrentRuns'', IntRule 1 256),
      (''logsUploadBatchLines'', IntRule 1 500), (''logsUploadEnabled'', BoolRule), (''statusUploadEnabled'', BoolRule),
      (''managedContainers'', StringListRule), (''managedComposes'', StringListRule), (''runtimes'', StringListRule),
      (''watchedProcesses'', StringListRule), (''cloudUrl'', CloudURLRule), (''cloudSecret'', SecretRule)]"

text \<open>
  \<open>strconv.Quote\<close> on bytes. \<open>isprint\<close> is \<open>unicode.IsPrint\<close> of a rune outside ASCII; a byte that starts
  no rune is written in hexadecimal.
\<close>

fun hex_width :: "nat \<Rightarrow> nat \<Rightarrow> string" where
  "hex_width 0 n = []"
| "hex_width (Suc k) n = hex_width k (n div 16) @ [hex_digit (n mod 16)]"

definition quote_ascii :: "char \<Rightarrow> string" where
  "quote_ascii c =
     (if byte c = 34 \<or> byte c = 92 then [CHR 0x5C, c]
      else if 32 \<le> byte c \<and> byte c < 127 then [c]
      else if byte c = 7 then [CHR 0x5C, CHR ''a'']
      else if byte c = 8 then [CHR 0x5C, CHR ''b'']
      else if byte c = 12 then [CHR 0x5C, CHR ''f'']
      else if byte c = 10 then [CHR 0x5C, CHR ''n'']
      else if byte c = 13 then [CHR 0x5C, CHR ''r'']
      else if byte c = 9 then [CHR 0x5C, CHR ''t'']
      else if byte c = 11 then [CHR 0x5C, CHR ''v'']
      else [CHR 0x5C, CHR ''x''] @ hex_width 2 (byte c))"

text \<open>The bytes of the rune a string starts with, none when it starts with none.\<close>

definition rune_head :: "bytes \<Rightarrow> bytes option" where
  "rune_head s =
     (case s of [] \<Rightarrow> None
      | c # cs \<Rightarrow>
          (case utf8_class (byte c) of
             None \<Rightarrow> None
           | Some (_, _, n) \<Rightarrow> if n < length cs \<and> valid_utf8 (c # take (Suc n) cs) then Some (c # take (Suc n) cs) else None))"

definition rune_value :: "bytes \<Rightarrow> nat" where
  "rune_value r =
     foldl (\<lambda>v c. v * 64 + (byte c - 128)) (byte (hd r) - (if length r = 2 then 192 else if length r = 3 then 224 else 240)) (tl r)"

definition quote_rune :: "(nat \<Rightarrow> bool) \<Rightarrow> bytes \<Rightarrow> string" where
  "quote_rune isprint r =
     (let v = rune_value r in
      if isprint v then r
      else if v < 65536 then [CHR 0x5C, CHR ''u''] @ hex_width 4 v
      else [CHR 0x5C, CHR ''U''] @ hex_width 8 v)"

function quote_body :: "(nat \<Rightarrow> bool) \<Rightarrow> bytes \<Rightarrow> string" where
  "quote_body isprint [] = []"
| "quote_body isprint (c # cs) =
     (if byte c < 128 then quote_ascii c @ quote_body isprint cs
      else case rune_head (c # cs) of
        None \<Rightarrow> [CHR 0x5C, CHR ''x''] @ hex_width 2 (byte c) @ quote_body isprint cs
      | Some r \<Rightarrow> quote_rune isprint r @ quote_body isprint (drop (length r - 1) cs))"
  by pat_completeness auto
termination by (relation "measure (\<lambda>(_, s). length s)") auto

definition Quote :: "(nat \<Rightarrow> bool) \<Rightarrow> bytes \<Rightarrow> string" where
  "Quote isprint s = CHR 0x22 # quote_body isprint s @ [CHR 0x22]"

text \<open>A line feed is replaced by a backslash and an \<open>n\<close> before the quoting.\<close>

definition tomlString :: "(nat \<Rightarrow> bool) \<Rightarrow> bytes \<Rightarrow> string" where
  "tomlString isprint s = Quote isprint (concat (map (\<lambda>c. if byte c = 10 then [CHR 0x5C, CHR ''n''] else [c]) s))"

definition FormatInt :: "int \<Rightarrow> string" where
  "FormatInt n = (if n < 0 then CHR ''-'' # dec_digits (nat (- n)) else dec_digits (nat n))"

text \<open>What a rule makes of a value: the TOML literal, or none. \<open>duration\<close> is \<open>time.ParseDuration\<close>.\<close>

definition run_rule ::
  "config_env \<Rightarrow> (string \<Rightarrow> bool) \<Rightarrow> (nat \<Rightarrow> bool) \<Rightarrow> patchRule \<Rightarrow> patch_value \<Rightarrow> string option" where
  "run_rule ce duration isprint rule v =
     (case rule of
        DurationRule \<Rightarrow> (case v of PText t \<Rightarrow> if duration t then Some (tomlString isprint t) else None | _ \<Rightarrow> None)
      | IntRule lo hi \<Rightarrow>
          (case v of
             PNumber x \<Rightarrow> if x \<noteq> of_int \<lfloor>x\<rfloor> \<or> \<lfloor>x\<rfloor> < lo \<or> hi < \<lfloor>x\<rfloor> then None else Some (FormatInt \<lfloor>x\<rfloor>)
           | _ \<Rightarrow> None)
      | StringListRule \<Rightarrow>
          (case v of
             PList es \<Rightarrow>
               if None \<in> set es then None
               else Some (CHR ''['' # join_with '', '' (map (\<lambda>e. tomlString isprint (the e)) es) @ '']'')
           | _ \<Rightarrow> None)
      | CloudURLRule \<Rightarrow>
          (case v of
             PText t \<Rightarrow>
               if trim_space t = [] \<or> \<not> ValidateCloudURL ce t then None else Some (tomlString isprint (trim_space t))
           | _ \<Rightarrow> None)
      | SecretRule \<Rightarrow> (case v of PText t \<Rightarrow> Some (tomlString isprint t) | _ \<Rightarrow> None)
      | BoolRule \<Rightarrow> (case v of PBool b \<Rightarrow> Some (if b then ''true'' else ''false'') | _ \<Rightarrow> None))"

section \<open>Editing the file\<close>

text \<open>
  The values to write, in the order a range over their map takes. A line sets a key when the key and an
  equals sign follow its leading blanks.
\<close>

definition sets_key :: "string \<Rightarrow> string \<Rightarrow> bool" where
  "sets_key key line =
     (let rest = dropWhile re_space line in
      has_prefix key rest \<and> has_prefix ''='' (dropWhile re_space (drop (length key) rest)))"

definition is_header :: "string \<Rightarrow> bool" where
  "is_header line \<longleftrightarrow> has_prefix ''['' (trim_space line) \<and> has_suffix '']'' (trim_space line)"

definition is_daemon_header :: "string \<Rightarrow> bool" where
  "is_daemon_header line \<longleftrightarrow> trim_space line = ''[daemon]''"

definition key_line :: "string \<times> string \<Rightarrow> string" where
  "key_line kv = fst kv @ '' = '' @ snd kv"

record patch_scan =
  ps_out :: "string list"
  ps_written :: "string list"
  ps_in :: bool
  ps_found :: bool

definition missing_lines :: "(string \<times> string) list \<Rightarrow> string list \<Rightarrow> string list" where
  "missing_lines values written = map key_line (filter (\<lambda>kv. fst kv \<notin> set written) values)"

definition patch_line :: "(string \<times> string) list \<Rightarrow> patch_scan \<Rightarrow> string \<Rightarrow> patch_scan" where
  "patch_line values s line =
     (if is_header line then
        (if is_daemon_header line then s\<lparr>ps_found := True, ps_in := True, ps_out := ps_out s @ [line]\<rparr>
         else s\<lparr>ps_in := False,
                ps_out := ps_out s @ (if ps_in s then missing_lines values (ps_written s) else []) @ [line]\<rparr>)
      else case (if ps_in s then find (\<lambda>(k, _). k \<notin> set (ps_written s) \<and> sets_key k line) values else None) of
        None \<Rightarrow> s\<lparr>ps_out := ps_out s @ [line]\<rparr>
      | Some kv \<Rightarrow> s\<lparr>ps_out := ps_out s @ [takeWhile re_space line @ key_line kv], ps_written := ps_written s @ [fst kv]\<rparr>)"

definition patch_end :: "(string \<times> string) list \<Rightarrow> patch_scan \<Rightarrow> string list" where
  "patch_end values s =
     ps_out s @ (if ps_in s then missing_lines values (ps_written s) else []) @
     (if ps_found s then [] else ''[daemon]'' # missing_lines values (ps_written s))"

definition patch_start :: patch_scan where
  "patch_start = \<lparr>ps_out = [], ps_written = [], ps_in = False, ps_found = False\<rparr>"

definition patchDaemonSection :: "string \<Rightarrow> (string \<times> string) list \<Rightarrow> string" where
  "patchDaemonSection text values =
     join_with [CHR 0x0A] (patch_end values (foldl (patch_line values) patch_start (split_on (CHR 0x0A) text)))"

section \<open>The handler\<close>

text \<open>
  A write of the temporary file may stop after some bytes, and the rename may fail: \<open>cd_tmp\<close> is what
  is then left beside the file.
\<close>

record config_disk =
  cd_text :: bytes
  cd_tmp :: "bytes option"

datatype write_fate = WriteStops nat | RenameFails | Written

definition writeFileAtomic :: "write_fate \<Rightarrow> bytes \<Rightarrow> config_disk \<Rightarrow> config_disk \<times> bool" where
  "writeFileAtomic fate data d =
     (case fate of
        WriteStops n \<Rightarrow> (d\<lparr>cd_tmp := Some (take n data)\<rparr>, False)
      | RenameFails \<Rightarrow> (d\<lparr>cd_tmp := Some data\<rparr>, False)
      | Written \<Rightarrow> (\<lparr>cd_text = data, cd_tmp = None\<rparr>, True))"

datatype signed_body = BodyUnreadable | BodyOf bytes string

definition readSignedBody :: "(string \<Rightarrow> bytes \<Rightarrow> string) \<Rightarrow> string \<Rightarrow> int \<Rightarrow> signed_body \<Rightarrow> (nat \<times> string) + bytes" where
  "readSignedBody mac secret maxBody b =
     (case b of
        BodyUnreadable \<Rightarrow> Inl (400, ''read request body'')
      | BodyOf body signature \<Rightarrow>
          if maxBody < int (length body) then Inl (413, ''request body too large'')
          else if \<not> signatureValid mac secret body signature then Inl (401, ''unauthorized'')
          else Inr body)"

text \<open>The literals of a patch, in the order of the map; the first key that fails ends it.\<close>

definition serialize_step ::
  "config_env \<Rightarrow> (string \<Rightarrow> bool) \<Rightarrow> (nat \<Rightarrow> bool) \<Rightarrow> (string \<times> string) list \<Rightarrow> string \<times> patch_value
     \<Rightarrow> (nat \<times> string) + (string \<times> string) list" where
  "serialize_step ce duration isprint acc kv =
     (case map_of patchableDaemonKeys (fst kv) of
        None \<Rightarrow> Inl (400, ''unsupported config key '' @ Quote isprint (fst kv))
      | Some rule \<Rightarrow>
          (case run_rule ce duration isprint rule (snd kv) of
             None \<Rightarrow> Inl (400, fst kv)
           | Some literal \<Rightarrow> Inr (acc @ [(fst kv, literal)])))"

definition patch_values ::
  "config_env \<Rightarrow> (string \<Rightarrow> bool) \<Rightarrow> (nat \<Rightarrow> bool) \<Rightarrow> (string \<times> patch_value) list
     \<Rightarrow> (nat \<times> string) + (string \<times> string) list" where
  "patch_values ce duration isprint patch = rfold (serialize_step ce duration isprint) [] patch"

text \<open>
  The outside of a PATCH: the decoder of the body, \<open>time.ParseDuration\<close>, \<open>unicode.IsPrint\<close>, the MAC,
  whether the file can be read, and the fates of the write and of the write that restores.
\<close>

record patch_env =
  pt_app :: app_env
  pt_load :: "bytes \<Rightarrow> daemon_config_error + DaemonConfig"
  pt_json :: "bytes \<Rightarrow> (string \<times> patch_value) list option"
  pt_duration :: "string \<Rightarrow> bool"
  pt_isprint :: "nat \<Rightarrow> bool"
  pt_mac :: "string \<Rightarrow> bytes \<Rightarrow> string"
  pt_readable :: bool
  pt_write :: write_fate
  pt_restore :: write_fate

type_synonym patch_answer = "(nat \<times> string) + string list"

definition patch_file ::
  "patch_env \<Rightarrow> (string \<times> string) list \<Rightarrow> config_disk \<Rightarrow> App \<Rightarrow> config_disk \<times> App \<times> patch_answer" where
  "patch_file pe values disk a =
     (if \<not> pt_readable pe then (disk, a, Inl (500, ''read config file''))
      else
        let existing = cd_text disk; (disk1, wrote) = writeFileAtomic (pt_write pe) (patchDaemonSection existing values) disk in
        if \<not> wrote then (disk1, a, Inl (500, ''write config file''))
        else case Reload (pt_app pe) (pt_load pe) (cd_text disk1) a of
          (a', None) \<Rightarrow> (disk1, a', Inr (map fst values))
        | (a', Some _) \<Rightarrow> (fst (writeFileAtomic (pt_restore pe) existing disk1), a', Inl (500, ''config written but reload failed'')))"

definition handlePatchConfig ::
  "patch_env \<Rightarrow> signed_body \<Rightarrow> config_disk \<Rightarrow> App \<Rightarrow> config_disk \<times> App \<times> patch_answer" where
  "handlePatchConfig pe b disk a =
     (if trim_space (ap_configPath a) = [] then (disk, a, Inl (400, ''no config file is configured''))
      else case readSignedBody (pt_mac pe) (dc_MetricsSecret (ap_cfg a)) (rl_maxBodyBytes (ap_rt a)) b of
        Inl e \<Rightarrow> (disk, a, Inl e)
      | Inr body \<Rightarrow>
          if body = [] then (disk, a, Inl (400, ''empty patch''))
          else case pt_json pe body of
            None \<Rightarrow> (disk, a, Inl (400, ''invalid JSON body''))
          | Some patch \<Rightarrow>
              (case patch_values (ae_config (pt_app pe)) (pt_duration pe) (pt_isprint pe) patch of
                 Inl e \<Rightarrow> (disk, a, Inl e)
               | Inr values \<Rightarrow> patch_file pe values disk a))"

end
