(* ===== verification/Daemon_Config_Facts.thy ===== *)
theory Daemon_Config_Facts
  imports Daemon_Reload
begin

text \<open>
  What an accepted configuration guarantees: names that mean one thing, values the code can run with,
  and a validation that changes nothing the second time.
\<close>

section \<open>A configuration\<close>

definition demo_config_env :: config_env where
  "demo_config_env = \<lparr>ce_user = (\<lambda>_. True), ce_stat = (\<lambda>_. None), ce_tcp = (\<lambda>_. Some 8747), ce_regexp = (\<lambda>_. True),
     ce_cron = (\<lambda>_. True), ce_url = (\<lambda>_. Some (''https'', ''mk'', ''mk''))\<rparr>"

definition demo_hook :: "string \<Rightarrow> string \<Rightarrow> hook" where
  "demo_hook name secret = \<lparr>hk_name = name, hk_displayName = [], hk_enabled = True, hk_secret = secret, hk_command = ''/bin/x'',
     hk_args = [], hk_cwd = [], hk_env = [], hk_user = [], hk_script = False, hk_timeout = 0\<rparr>"

definition demo_job :: JobConfig where
  "demo_job = \<lparr>jc_Name = ''nightly'', jc_Schedule = ''@daily'', jc_Action = ''backup'', jc_Body = None, jc_Enabled = None,
     jc_Timeout = 0, jc_NotifyOnFailure = True\<rparr>"

definition demo_alarm :: AlarmConfig where
  "demo_alarm = \<lparr>ac_Kind = ''cpu_percent'', ac_Threshold = 80, ac_Target = [], ac_Enabled = Some True, ac_CooldownSeconds = 60\<rparr>"

definition demo_config :: DaemonConfig where
  "demo_config = \<lparr>dc_ID = ''d1'', dc_HostID = [], dc_Version = [], dc_Transport = ''http'', dc_Listen = ''x'',
     dc_MetricsSecret = ''m'', dc_MetricsRetentionDays = 7, dc_ActionsDir = [], dc_AlarmsDir = [], dc_JobsDir = [],
     dc_LogAlertsDir = [],
     dc_Terminal = \<lparr>tc_Enabled = False, tc_Secret = [], tc_Shells = [], tc_Users = [], tc_Cwd = [], tc_Env = [],
       tc_AllowedOrigins = [], tc_AllowRemote = False, tc_MaxSessions = 2, tc_IdleTimeout = 0, tc_MaxLifetime = 0,
       tc_Relay = \<lparr>tr_Enabled = False, tr_Users = [], tr_PollWait = 0\<rparr>\<rparr>,
     dc_Files = \<lparr>fc_enabled = False, fc_secret = [], fc_roots = [], fc_allowWrite = False, fc_maxRead = 0, fc_maxWrite = 0,
       fc_maxList = 0\<rparr>,
     dc_Compose = \<lparr>cc_StacksPath = [], cc_ScanRoots = [], cc_ScanDepth = 0\<rparr>,
     dc_Priv = \<lparr>pc_Helper = [], pc_Systemd = False, pc_Packages = False, pc_Firewall = False\<rparr>,
     dc_CloudURL = [], dc_CloudSecret = [], dc_LogsUploadEnabled = False, dc_LogsUploadInterval = 0,
     dc_LogsUploadBatchLines = 100, dc_ManagedContainers = [], dc_ManagedComposes = [], dc_StatusUploadEnabled = False,
     dc_Intervals = \<lparr>iv_metrics = 1, iv_stream = 1, iv_containers = 1, iv_images = 1, iv_processes = 1, iv_systemd = 1,
       iv_runtimes = 1, iv_database = 1, iv_logs = 1, iv_updateCheck = 1\<rparr>,
     dc_Runtimes = [''java''], dc_WatchedProcesses = [], dc_ProcessesLimit = 50, dc_RequestTimeout = 1,
     dc_ScriptTimeout = 0, dc_MaxBodyBytes = 1, dc_MaxConcurrentRuns = 4, dc_Webhooks = [demo_hook ''build'' ''s''],
     dc_Actions = [demo_hook ''backup'' []], dc_Alarms = [demo_alarm], dc_Jobs = [demo_job], dc_LogAlerts = []\<rparr>"

definition demo_accepted :: DaemonConfig where
  "demo_accepted = demo_config\<lparr>dc_Jobs := [demo_job\<lparr>jc_Enabled := Some True\<rparr>]\<rparr>"

lemma demo_valid: "ValidateDaemon demo_config_env demo_config = Inr demo_accepted"
  by code_simp

section \<open>Checks in order\<close>

lemma refuse_Inr [simp]: "refuse wrong e = Inr u \<longleftrightarrow> \<not> wrong"
  by (simp add: refuse_def)

lemma in_order_Nil [simp]: "in_order [] = Inr ()"
  by (simp add: in_order_def)

lemma in_order_Cons [simp]: "in_order (c # cs) = rbind c (\<lambda>_. in_order cs)"
  by (simp add: in_order_def)

lemma in_order_append [simp]: "in_order (cs @ ds) = rbind (in_order cs) (\<lambda>_. in_order ds)"
proof (induction cs)
  case (Cons c cs)
  then show ?case by (cases c) simp_all
qed simp

lemma in_order_all: "in_order cs = Inr u \<longleftrightarrow> (\<forall>c \<in> set cs. c = Inr ())"
  by (induction cs) auto

text \<open>The loops only add the key of each entry to what they have seen.\<close>

lemma indexed_snoc: "indexed (xs @ [x]) = indexed xs @ [(length xs, x)]"
  by (simp add: indexed_def)

lemma rfold_seen:
  assumes "rfold step seen (indexed xs) = Inr seen'"
    and "\<And>s i x s'. step s (i, x) = Inr s' \<Longrightarrow> s' = s @ [key x] \<and> key x \<notin> set s \<and> ok x"
  shows "seen' = seen @ map key xs \<and> (distinct seen \<longrightarrow> distinct seen') \<and> list_all ok xs"
  using assms(1)
proof (induction xs arbitrary: seen' rule: rev_induct)
  case Nil
  then show ?case by (simp add: indexed_def)
next
  case (snoc x xs)
  then obtain t where t: "rfold step seen (indexed xs) = Inr t" "step t (length xs, x) = Inr seen'"
    by (auto simp: indexed_snoc rfold_append)
  have x: "seen' = t @ [key x]" "key x \<notin> set t" "ok x" using assms(2) [OF t(2)] by simp_all
  have IH: "t = seen @ map key xs" "distinct seen \<longrightarrow> distinct t" "list_all ok xs" using snoc.IH [OF t(1)] by blast+
  have "distinct seen'" if "distinct seen" using that IH(2) x by simp
  then show ?case using x IH by simp
qed

section \<open>Names\<close>

definition hook_fine :: "config_env \<Rightarrow> hook \<Rightarrow> bool" where
  "hook_fine ce h \<longleftrightarrow> webhookNamePattern (hk_name h) \<and> \<not> isNativeOpSlug (hk_name h) \<and> is_abs (hk_command h) \<and>
     (hk_cwd h = [] \<or> is_abs (hk_cwd h)) \<and> (hk_user h = [] \<or> ce_user ce (hk_user h)) \<and>
     list_all envAssignmentPattern (hk_env h) \<and> 0 \<le> hk_timeout h"

lemma validateHookExecution_ok:
  "validateHookExecution ce h kind i = Inr u \<longleftrightarrow>
     (hk_cwd h = [] \<or> is_abs (hk_cwd h)) \<and> (hk_user h = [] \<or> ce_user ce (hk_user h)) \<and>
     list_all envAssignmentPattern (hk_env h) \<and> 0 \<le> hk_timeout h"
  by (auto simp: validateHookExecution_def in_order_all list_all_iff)

lemma webhook_step_ok:
  "webhook_step ce seen (i, h) = Inr seen' \<Longrightarrow>
     seen' = seen @ [hk_name h] \<and> hk_name h \<notin> set seen \<and> hook_fine ce h \<and> trim_space (hk_secret h) \<noteq> []"
  by (auto simp: webhook_step_def Let_def hook_fine_def validateHookExecution_ok)

lemma action_step_ok:
  "action_step ce hooks seen (i, h) = Inr seen' \<Longrightarrow>
     seen' = seen @ [hk_name h] \<and> hk_name h \<notin> set seen \<and> hook_fine ce h \<and> hk_name h \<notin> set hooks"
  by (auto simp: action_step_def Let_def hook_fine_def validateHookExecution_ok)

lemma ValidateDaemon_hooks:
  assumes "ValidateDaemon ce d = Inr v"
  shows "dc_Webhooks v = dc_Webhooks d \<and> dc_Actions v = dc_Actions d \<and>
    distinct (map hk_name (dc_Webhooks d @ dc_Actions d)) \<and>
    list_all (hook_fine ce) (dc_Webhooks d @ dc_Actions d) \<and>
    list_all (\<lambda>h. trim_space (hk_secret h) \<noteq> []) (dc_Webhooks d)"
proof -
  from assms obtain hooks names where hooks: "rfold (webhook_step ce) [] (indexed (dc_Webhooks d)) = Inr hooks"
    and names: "rfold (action_step ce hooks) [] (indexed (dc_Actions d)) = Inr names"
    and same: "dc_Webhooks v = dc_Webhooks d" "dc_Actions v = dc_Actions d"
    unfolding ValidateDaemon_def by (auto split: prod.splits)
  from rfold_seen [OF hooks, of hk_name "\<lambda>h. hook_fine ce h \<and> trim_space (hk_secret h) \<noteq> []"]
  have h: "hooks = map hk_name (dc_Webhooks d)" "distinct hooks"
      "list_all (\<lambda>h. hook_fine ce h \<and> trim_space (hk_secret h) \<noteq> []) (dc_Webhooks d)"
    by (auto dest: webhook_step_ok)
  from rfold_seen [OF names, of hk_name "\<lambda>h. hook_fine ce h \<and> hk_name h \<notin> set hooks"]
  have a: "names = map hk_name (dc_Actions d)" "distinct names"
      "list_all (\<lambda>h. hook_fine ce h \<and> hk_name h \<notin> set hooks) (dc_Actions d)"
    by (auto dest: action_step_ok)
  have "hk_name ` set (dc_Webhooks d) \<inter> hk_name ` set (dc_Actions d) = {}"
  proof -
    have "\<forall>h \<in> set (dc_Actions d). hk_name h \<notin> hk_name ` set (dc_Webhooks d)"
      using h(1) a(3) by (simp add: list_all_iff)
    then have "n \<notin> hk_name ` set (dc_Webhooks d)" if "n \<in> hk_name ` set (dc_Actions d)" for n
      using that by (elim imageE) simp
    then show ?thesis unfolding disjoint_iff by blast
  qed
  then show ?thesis using h a same by (simp add: list_all_iff ball_Un)
qed

lemma foldl_put_hook:
  "distinct (map hk_name hs) \<Longrightarrow>
     map_of (foldl put_hook m hs) n =
       (case find (\<lambda>h. hk_name h = n) hs of Some h \<Rightarrow> Some h | None \<Rightarrow> map_of m n)"
proof (induction hs arbitrary: m)
  case (Cons h hs)
  have none: "hk_name h = n \<Longrightarrow> find (\<lambda>g. hk_name g = n) hs = None"
    using Cons.prems by (force simp: find_None_iff image_iff)
  show ?case using Cons none by (auto simp: put_hook_def split: option.splits)
qed simp

lemma find_by_name:
  assumes "distinct (map hk_name hs)" "h \<in> set hs"
  shows "find (\<lambda>g. hk_name g = hk_name h) hs = Some h"
  using assms
proof (induction hs)
  case (Cons g hs)
  show ?case
  proof (cases "hk_name g = hk_name h")
    case True
    then have "g = h" using Cons.prems by (force simp: image_iff)
    then show ?thesis by simp
  next
    case False
    then show ?thesis using Cons by auto
  qed
qed simp



section \<open>Validation settles\<close>

lemma default_settled [simp]: "default_true (default_true e) = default_true e" "default_cooldown (default_cooldown n) = default_cooldown n"
  by (auto simp: default_true_def default_cooldown_def split: option.splits)

text \<open>A loop whose step, given the entry it puts out, takes it as it is, settles in one run.\<close>

lemma rfold_settles:
  assumes "rfold step (seen, out) (indexed xs) = Inr (seen', out')"
    and "\<And>s o' i x s' o''. step (s, o') (i, x) = Inr (s', o'') \<Longrightarrow> \<exists>y. o'' = o' @ [y] \<and> step (s, o') (i, y) = Inr (s', o'')"
  shows "\<exists>ys. out' = out @ ys \<and> length ys = length xs \<and> rfold step (seen, out) (indexed ys) = Inr (seen', out')"
  using assms(1)
proof (induction xs arbitrary: seen' out' rule: rev_induct)
  case Nil
  then show ?case by (simp add: indexed_def)
next
  case (snoc x xs)
  then obtain t u where t: "rfold step (seen, out) (indexed xs) = Inr (t, u)" "step (t, u) (length xs, x) = Inr (seen', out')"
    by (auto simp: indexed_snoc rfold_append)
  from snoc.IH [OF t(1)] obtain ys where ys: "u = out @ ys" "length ys = length xs"
    "rfold step (seen, out) (indexed ys) = Inr (t, u)" by blast
  from assms(2) [OF t(2)] obtain y where y: "out' = u @ [y]" "step (t, u) (length xs, y) = Inr (seen', out')" by blast
  have "rfold step (seen, out) (indexed (ys @ [y])) = Inr (seen', out')"
    using ys y by (simp add: indexed_snoc rfold_append)
  then show ?case using ys y by (intro exI [of _ "ys @ [y]"]) simp
qed

lemma name_char_graphic: "name_char c \<Longrightarrow> 32 < byte c \<and> byte c < 128"
  by (auto simp: name_char_def is_alnum_def is_lower_def is_upper_def is_digit_def)

lemma alert_title_trimmed:
  assumes "webhookNamePattern n"
  shows "trim_space (''Container log alert: '' @ n) = ''Container log alert: '' @ n"
proof -
  have "n \<noteq> []" "name_char (last n)" using assms by (auto simp: webhookNamePattern_def list_all_iff)
  then show ?thesis using name_char_graphic [of "last n"] by (intro trim_space_graphic) simp
qed

lemma settled_alert:
  assumes "webhookNamePattern (la_Name (trimmed_alert a))"
  shows "trimmed_alert (filled_alert (trimmed_alert a)) = filled_alert (trimmed_alert a)"
    "filled_alert (filled_alert (trimmed_alert a)) = filled_alert (trimmed_alert a)"
  using alert_title_trimmed [of "trim_space (la_Name a)"] assms
  by (simp_all add: trimmed_alert_def filled_alert_def)

lemma alert_step_settles:
  assumes "alert_step ce (s, out) (i, a) = Inr (s', out')"
  shows "\<exists>y. out' = out @ [y] \<and> alert_step ce (s, out) (i, y) = Inr (s', out')"
proof -
  let ?t = "trimmed_alert a"
  have ok: "la_Name ?t \<noteq> []" "webhookNamePattern (la_Name ?t)" "la_Name ?t \<notin> set s" "la_Pattern ?t \<noteq> []"
      "ce_regexp ce (la_Pattern ?t)"
    and res: "s' = s @ [la_Name ?t]" "out' = out @ [filled_alert ?t]"
    using assms by (auto simp: alert_step_def Let_def)
  have same: "la_Name (filled_alert ?t) = la_Name ?t" "la_Pattern (filled_alert ?t) = la_Pattern ?t"
    by (simp_all add: filled_alert_def)
  have "alert_step ce (s, out) (i, filled_alert ?t) = Inr (s', out')"
    using ok res same by (simp add: alert_step_def Let_def settled_alert [OF ok(2)])
  then show ?thesis using res by blast
qed

lemma job_step_settles:
  "job_step ce (s, out) (i, j) = Inr (s', out') \<Longrightarrow> \<exists>y. out' = out @ [y] \<and> job_step ce (s, out) (i, y) = Inr (s', out')"
  by (rule exI [of _ "j\<lparr>jc_Enabled := default_true (jc_Enabled j)\<rparr>"]) (auto simp: job_step_def Let_def)

lemma settled_alarm:
  "trimmed_alarm (filled_alarm (trimmed_alarm a)) = filled_alarm (trimmed_alarm a)"
  "filled_alarm (filled_alarm (trimmed_alarm a)) = filled_alarm (trimmed_alarm a)"
  "ac_Kind (filled_alarm a) = ac_Kind a" "ac_Threshold (filled_alarm a) = ac_Threshold a"
  "ac_Target (filled_alarm a) = ac_Target a" "alarm_key (filled_alarm a) = alarm_key a"
  by (simp_all add: trimmed_alarm_def filled_alarm_def alarm_key_def)

lemma alarm_config_step_settles:
  assumes "alarm_config_step (s, out) (i, a) = Inr (s', out')"
  shows "\<exists>y. out' = out @ [y] \<and> alarm_config_step (s, out) (i, y) = Inr (s', out')"
proof (rule exI [of _ "filled_alarm (trimmed_alarm a)"], rule conjI)
  show "out' = out @ [filled_alarm (trimmed_alarm a)]"
    using assms by (auto simp: alarm_config_step_def Let_def split: if_split_asm)
  show "alarm_config_step (s, out) (i, filled_alarm (trimmed_alarm a)) = Inr (s', out')"
    using assms by (simp add: alarm_config_step_def Let_def settled_alarm split: if_split_asm)
qed

lemma checks_same:
  assumes "v = d\<lparr>dc_LogsUploadBatchLines := batch_lines (dc_LogsUploadBatchLines d), dc_LogAlerts := la, dc_Jobs := js, dc_Alarms := al\<rparr>"
  shows "check_process ce v = check_process ce d" "check_limits v = check_limits d" "check_uploads v = check_uploads d"
    "check_cloud ce v = check_cloud ce d"
  using assms
  by (simp_all add: check_process_def transport_of_def check_limits_def check_uploads_def check_cloud_def batch_lines_def)

text \<open>C31: Validation settles: the configuration it hands on, with trimmed names and defaults filled in, is accepted
again and comes out unchanged, so a reload that reads back what was validated changes nothing.\<close>

theorem validation_settles:
  assumes "ValidateDaemon ce d = Inr v"
  shows "ValidateDaemon ce v = Inr v"
proof -
  from assms obtain hooks names sa alerts sj jobs sm alarms
    where loops: "rfold (webhook_step ce) [] (indexed (dc_Webhooks d)) = Inr hooks"
      "rfold (action_step ce hooks) [] (indexed (dc_Actions d)) = Inr names"
      "rfold (alert_step ce) ([], []) (indexed (dc_LogAlerts d)) = Inr (sa, alerts)"
      "rfold (job_step ce) ([], []) (indexed (dc_Jobs d)) = Inr (sj, jobs)"
      "rfold alarm_config_step ([], []) (indexed (dc_Alarms d)) = Inr (sm, alarms)"
    and v: "v = d\<lparr>dc_LogsUploadBatchLines := batch_lines (dc_LogsUploadBatchLines d), dc_LogAlerts := alerts,
            dc_Jobs := jobs, dc_Alarms := alarms\<rparr>"
    unfolding ValidateDaemon_def by (auto split: prod.splits)
  have again: "rfold (alert_step ce) ([], []) (indexed alerts) = Inr (sa, alerts)"
      "rfold (job_step ce) ([], []) (indexed jobs) = Inr (sj, jobs)"
      "rfold alarm_config_step ([], []) (indexed alarms) = Inr (sm, alarms)"
    using rfold_settles [OF loops(3) alert_step_settles] rfold_settles [OF loops(4) job_step_settles]
      rfold_settles [OF loops(5) alarm_config_step_settles] by auto
  have lists: "dc_LogAlerts v = alerts" "dc_Jobs v = jobs" "dc_Alarms v = alarms" "batch_lines (dc_LogsUploadBatchLines v) = dc_LogsUploadBatchLines v"
      "dc_Webhooks v = dc_Webhooks d" "dc_Actions v = dc_Actions d" "dc_Intervals v = dc_Intervals d"
      "dc_Runtimes v = dc_Runtimes d" "dc_WatchedProcesses v = dc_WatchedProcesses d" "dc_Terminal v = dc_Terminal d"
      "dc_Files v = dc_Files d" "dc_Compose v = dc_Compose d" "dc_Priv v = dc_Priv d"
    by (simp_all add: v batch_lines_def)
  have same: "v\<lparr>dc_LogsUploadBatchLines := dc_LogsUploadBatchLines v, dc_LogAlerts := alerts, dc_Jobs := jobs, dc_Alarms := alarms\<rparr> = v"
    using lists by simp
  show ?thesis
    using assms unfolding ValidateDaemon_def checks_same [OF v] lists loops again by (auto simp: same)
qed

theorem validation_settles_witness: "ValidateDaemon demo_config_env demo_accepted = Inr demo_accepted"
  by (rule validation_settles [OF demo_valid])

end
