(* ===== verification/Daemon_Reload_Facts.thy ===== *)
theory Daemon_Reload_Facts
  imports Daemon_Config_Facts
begin

text \<open>
  What a reload and a PATCH of the configuration file do: read back, a patched file has the new values of
  the patched keys and the old ones of all others; a failed PATCH leaves file and daemon as they were.
\<close>

section \<open>Reading settings\<close>

text \<open>
  The reader a patch is measured against: what stands after the equals sign of the first line that sets
  a key inside the section, and the lines outside it.
\<close>

definition raw_value :: "string \<Rightarrow> string \<Rightarrow> string" where
  "raw_value key line = drop 1 (dropWhile re_space (drop (length key) (dropWhile re_space line)))"

fun setting_in :: "string \<Rightarrow> bool \<Rightarrow> string list \<Rightarrow> string option" where
  "setting_in key inside [] = None"
| "setting_in key inside (l # ls) =
     (if is_header l then setting_in key (is_daemon_header l) ls
      else if inside \<and> sets_key key l then Some (raw_value key l)
      else setting_in key inside ls)"

fun outside_in :: "bool \<Rightarrow> string list \<Rightarrow> string list" where
  "outside_in inside [] = []"
| "outside_in inside (l # ls) =
     (if is_header l then (if is_daemon_header l then outside_in True ls else l # outside_in False ls)
      else if inside then outside_in True ls else l # outside_in False ls)"

definition daemon_setting :: "string \<Rightarrow> string \<Rightarrow> string option" where
  "daemon_setting text key = setting_in key False (split_on (CHR 0x0A) text)"

definition other_lines :: "string \<Rightarrow> string list" where
  "other_lines text = outside_in False (split_on (CHR 0x0A) text)"

definition bare_key :: "string \<Rightarrow> bool" where
  "bare_key key \<longleftrightarrow> key \<noteq> [] \<and> list_all is_alnum key"

section \<open>Lines\<close>

lemma re_space_bytes: "re_space c \<Longrightarrow> c \<in> {CHR 0x09, CHR 0x0A, CHR 0x0C, CHR 0x0D, CHR 0x20}"
  by (auto simp: re_space_def simp flip: of_char_eq_iff [where 'a = nat])

lemma alnum_graphic: "is_alnum c \<Longrightarrow> 32 < byte c \<and> byte c < 128 \<and> c \<noteq> CHR ''['' \<and> c \<noteq> CHR ''='' \<and> \<not> re_space c"
  by (auto simp: is_alnum_def is_lower_def is_upper_def is_digit_def re_space_def)

lemma trim_blank:
  assumes "re_space c"
  shows "trim_prefixes space_runes (c # s) = trim_prefixes space_runes s"
proof -
  have "find (\<lambda>p. p \<noteq> [] \<and> has_prefix p (c # s)) space_runes = Some [c]"
    using re_space_bytes [OF assms] unfolding insert_iff empty_iff
    by (elim disjE) (simp_all add: space_runes_def has_prefix_def)
  then show ?thesis by (simp add: trim_prefixes.simps [of space_runes "c # s"])
qed

lemma trim_blanks:
  assumes "list_all re_space ws"
  shows "trim_prefixes space_runes (ws @ s) = trim_prefixes space_runes s"
  using assms by (induction ws) (simp_all add: trim_blank)

lemma not_a_header:
  assumes "list_all re_space ws" "32 < byte c" "byte c < 128" "c \<noteq> CHR ''[''"
  shows "\<not> is_header (ws @ c # cs)"
proof -
  have "trim_prefixes space_runes (c # cs) = c # cs"
    using assms space_runes_heads by (intro trim_prefixes_graphic) auto
  then have t: "trim_prefixes space_runes (ws @ c # cs) = c # cs" using trim_blanks [OF assms(1)] by simp
  let ?r = "trim_prefixes (map rev space_runes) (rev (c # cs))"
  obtain u where "rev (c # cs) = u @ ?r" using trim_prefixes_suffix by blast
  then have "c # cs = trim_space (ws @ c # cs) @ rev u" unfolding trim_space_def t by (metis rev_append rev_rev_ident)
  then have "trim_space (ws @ c # cs) = [] \<or> hd (trim_space (ws @ c # cs)) = c"
    by (metis append_Cons append_Nil hd_append2 list.sel(1))
  then show ?thesis using assms(4)
    by (cases "trim_space (ws @ c # cs)") (auto simp: is_header_def has_prefix_def)
qed

lemma key_parts:
  assumes "bare_key k" "list_all re_space ws"
  shows "dropWhile re_space (ws @ k @ r) = k @ r"
proof -
  obtain c cs where "k = c # cs" "\<not> re_space c" using assms(1) alnum_graphic by (cases k) (auto simp: bare_key_def)
  then show ?thesis using assms(2) by (simp add: dropWhile_append3 list_all_iff dropWhile_append1 dropWhile_append2)
qed

lemma key_line_no_header: "bare_key (fst kv) \<Longrightarrow> list_all re_space ws \<Longrightarrow> \<not> is_header (ws @ key_line kv)"
  using not_a_header alnum_graphic by (cases "fst kv") (auto simp: key_line_def bare_key_def)

text \<open>A line sets one bare key at most.\<close>

lemma prefix_keys:
  assumes "bare_key k" "bare_key k'" "k @ a = k' @ b" "a = [] \<or> \<not> is_alnum (hd a)" "b = [] \<or> \<not> is_alnum (hd b)"
  shows "k = k'"
proof -
  have "takeWhile is_alnum (k @ a) = k" "takeWhile is_alnum (k' @ b) = k'"
  proof -
    have "takeWhile is_alnum a = []" "takeWhile is_alnum b = []" using assms(4,5) by (cases a; cases b; simp)+
    then show "takeWhile is_alnum (k @ a) = k" "takeWhile is_alnum (k' @ b) = k'"
      using assms(1,2) by (simp_all add: bare_key_def list_all_iff takeWhile_append2)
  qed
  then show ?thesis using assms(3) by simp
qed

lemma sets_key_split:
  assumes "sets_key k l"
  shows "\<exists>r. dropWhile re_space l = k @ r \<and> (r = [] \<or> \<not> is_alnum (hd r))"
proof -
  let ?d = "dropWhile re_space l" and ?r = "drop (length k) (dropWhile re_space l)"
  from assms have k: "take (length k) ?d = k" "has_prefix ''='' (dropWhile re_space ?r)"
    by (auto simp: sets_key_def Let_def has_prefix_def)
  have "?r = [] \<or> \<not> is_alnum (hd ?r)"
  proof (cases ?r)
    case (Cons c cs)
    then show ?thesis using k(2) alnum_graphic [of c] by (auto simp: has_prefix_def split: if_split_asm)
  qed simp
  moreover have "?d = k @ ?r" using k(1) by (metis append_take_drop_id)
  ultimately show ?thesis by blast
qed

lemma sets_key_unique:
  assumes "sets_key k l" "sets_key k' l" "bare_key k" "bare_key k'"
  shows "k = k'"
  using sets_key_split [OF assms(1)] sets_key_split [OF assms(2)] prefix_keys [OF assms(3,4)] by metis

lemma sets_key_line:
  assumes "bare_key k'" "bare_key (fst kv)" "list_all re_space ws"
  shows "sets_key k' (ws @ key_line kv) \<longleftrightarrow> k' = fst kv"
proof -
  have parts: "dropWhile re_space (ws @ key_line kv) = fst kv @ '' = '' @ snd kv"
    using key_parts [OF assms(2,3)] by (simp add: key_line_def)
  have "sets_key (fst kv) (ws @ key_line kv)"
    unfolding sets_key_def parts by (simp add: has_prefix_def re_space_def Let_def)
  then show ?thesis using sets_key_unique assms(1,2) by blast
qed

lemma raw_value_line:
  assumes "bare_key (fst kv)" "list_all re_space ws"
  shows "raw_value (fst kv) (ws @ key_line kv) = CHR '' '' # snd kv"
proof -
  have "dropWhile re_space (ws @ key_line kv) = fst kv @ '' = '' @ snd kv"
    using key_parts [OF assms] by (simp add: key_line_def)
  then show ?thesis by (simp add: raw_value_def re_space_def)
qed

section \<open>The edit as a recursion\<close>

fun patched_rest :: "(string \<times> string) list \<Rightarrow> string list \<Rightarrow> bool \<Rightarrow> bool \<Rightarrow> string list \<Rightarrow> string list" where
  "patched_rest vs written inside found [] =
     (if inside then missing_lines vs written else []) @ (if found then [] else ''[daemon]'' # missing_lines vs written)"
| "patched_rest vs written inside found (l # ls) =
     (if is_header l then
        (if is_daemon_header l then l # patched_rest vs written True True ls
         else (if inside then missing_lines vs written else []) @ l # patched_rest vs written False found ls)
      else case (if inside then find (\<lambda>(k, _). k \<notin> set written \<and> sets_key k l) vs else None) of
        None \<Rightarrow> l # patched_rest vs written inside found ls
      | Some kv \<Rightarrow> (takeWhile re_space l @ key_line kv) # patched_rest vs (written @ [fst kv]) inside found ls)"

lemma patch_end_rest:
  "patch_end vs (foldl (patch_line vs) s ls) = ps_out s @ patched_rest vs (ps_written s) (ps_in s) (ps_found s) ls"
proof (induction ls arbitrary: s)
  case (Cons l ls)
  show ?case unfolding foldl_Cons Cons.IH by (simp add: patch_line_def split: option.split)
qed (simp add: patch_end_def)

lemma patch_lines: "patch_end vs (foldl (patch_line vs) patch_start ls) = patched_rest vs [] False False ls"
  by (simp add: patch_end_rest patch_start_def)

lemma daemon_header [simp]: "is_header ''[daemon]''" "is_daemon_header ''[daemon]''"
proof -
  have "trim_space ''[daemon]'' = ''[daemon]''" by (rule trim_space_all_graphic) simp
  then show "is_header ''[daemon]''" "is_daemon_header ''[daemon]''"
    by (simp_all add: is_header_def is_daemon_header_def has_prefix_def has_suffix_def)
qed

lemma setting_missing:
  assumes "bare_key k" "\<And>kv. kv \<in> set vs \<Longrightarrow> bare_key (fst kv)" "distinct (map fst vs)"
  shows "setting_in k True (missing_lines vs written @ ls) =
    (case map_of vs k of
       Some v \<Rightarrow> if k \<in> set written then setting_in k True ls else Some (CHR '' '' # v)
     | None \<Rightarrow> setting_in k True ls)"
  using assms(2,3)
proof (induction vs)
  case Nil
  then show ?case by (simp add: missing_lines_def)
next
  case (Cons kv vs)
  have bk: "bare_key (fst kv)" using Cons.prems by simp
  have line: "\<not> is_header (key_line kv)" "sets_key k (key_line kv) \<longleftrightarrow> k = fst kv" "raw_value (fst kv) (key_line kv) = CHR '' '' # snd kv"
    using key_line_no_header [OF bk, of "[]"] sets_key_line [OF assms(1) bk, of "[]"] raw_value_line [OF bk, of "[]"] by simp_all
  have absent: "map_of vs (fst kv) = None" using Cons.prems by (auto simp: map_of_eq_None_iff)
  have IH: "setting_in k True (missing_lines vs written @ ls) =
    (case map_of vs k of Some v \<Rightarrow> if k \<in> set written then setting_in k True ls else Some (CHR '' '' # v)
     | None \<Rightarrow> setting_in k True ls)" using Cons by simp
  show ?case
  proof (cases "fst kv \<in> set written")
    case True
    then have "missing_lines (kv # vs) written = missing_lines vs written" by (simp add: missing_lines_def)
    then show ?thesis using IH True absent by (cases kv) (auto split: option.splits)
  next
    case False
    then have m: "missing_lines (kv # vs) written = key_line kv # missing_lines vs written" by (simp add: missing_lines_def)
    show ?thesis
    proof (cases "k = fst kv")
      case True
      have "map_of (kv # vs) (fst kv) = Some (snd kv)" by (cases kv) simp
      then show ?thesis using False line True by (simp add: m del: map_of.simps)
    next
      case False
      then have "map_of (kv # vs) k = map_of vs k" by (cases kv) simp
      then show ?thesis using IH line False by (simp add: m del: map_of.simps)
    qed
  qed
qed

lemma outside_missing:
  assumes "\<And>kv. kv \<in> set vs \<Longrightarrow> bare_key (fst kv)"
  shows "outside_in True (missing_lines vs written @ ls) = outside_in True ls"
proof -
  have "outside_in True (map key_line ws @ ls) = outside_in True ls" if "\<forall>kv \<in> set ws. bare_key (fst kv)" for ws
    using that key_line_no_header [of _ "[]"] by (induction ws) simp_all
  then show ?thesis using assms by (auto simp: missing_lines_def)
qed

section \<open>A patched file read back\<close>

lemma found_line:
  "(if inside then find (\<lambda>(k, _). k \<notin> set written \<and> sets_key k l) vs else None) = Some kv \<Longrightarrow>
     inside \<and> kv \<in> set vs \<and> fst kv \<notin> set written \<and> sets_key (fst kv) l"
  by (induction vs) (auto split: if_split_asm)

lemma not_found_line:
  "(if inside then find (\<lambda>(k, _). k \<notin> set written \<and> sets_key k l) vs else None) = None \<Longrightarrow>
     (k, v) \<in> set vs \<Longrightarrow> k \<notin> set written \<Longrightarrow> \<not> (inside \<and> sets_key k l)"
  by (induction vs) (auto split: if_split_asm)

lemma all_blank [simp]: "list_all re_space (takeWhile re_space l)"
  by (auto simp: list_all_iff dest: set_takeWhileD)

lemma replaced_line:
  assumes "bare_key k" "bare_key (fst kv)"
  shows "\<not> is_header (takeWhile re_space l @ key_line kv)" "sets_key k (takeWhile re_space l @ key_line kv) \<longleftrightarrow> k = fst kv"
    "raw_value (fst kv) (takeWhile re_space l @ key_line kv) = CHR '' '' # snd kv"
  using key_line_no_header [OF assms(2)] sets_key_line [OF assms] raw_value_line [OF assms(2)] by simp_all

lemma patched_other_key:
  assumes "bare_key k" "\<And>kv. kv \<in> set vs \<Longrightarrow> bare_key (fst kv)" "distinct (map fst vs)" "map_of vs k = None"
  shows "setting_in k inside (patched_rest vs written inside found ls) = setting_in k inside ls"
proof (induction ls arbitrary: written inside found)
  case Nil
  show ?case using setting_missing [OF assms(1-3), of written "[]"] setting_missing [OF assms(1-3), of written "''[daemon]'' # missing_lines vs written"]
    assms(4) by (simp split: if_split)
next
  case (Cons l ls)
  show ?case
  proof (cases "is_header l")
    case True
    then show ?thesis using Cons setting_missing [OF assms(1-3)] assms(4) by (cases inside) simp_all
  next
    case False
    show ?thesis
    proof (cases "if inside then find (\<lambda>(k, _). k \<notin> set written \<and> sets_key k l) vs else None")
      case None
      then show ?thesis using False Cons by simp
    next
      case (Some kv)
      have kv: "inside" "kv \<in> set vs" "sets_key (fst kv) l" using found_line [OF Some] by simp_all
      have ne: "k \<noteq> fst kv" using kv(2) assms(4) by (auto simp: map_of_eq_None_iff)
      moreover have "\<not> sets_key k l" using sets_key_unique [OF _ kv(3) assms(1) assms(2) [OF kv(2)]] ne by blast
      ultimately show ?thesis using False Some Cons kv replaced_line [OF assms(1) assms(2) [OF kv(2)]] by simp
    qed
  qed
qed

lemma patched_key:
  assumes "bare_key k" "\<And>kv. kv \<in> set vs \<Longrightarrow> bare_key (fst kv)" "distinct (map fst vs)" "map_of vs k = Some v"
    and "k \<notin> set written" "inside \<or> \<not> found"
  shows "setting_in k inside (patched_rest vs written inside found ls) = Some (CHR '' '' # v)"
  using assms(5,6)
proof (induction ls arbitrary: written inside found)
  case Nil
  then show ?case using setting_missing [OF assms(1-3), of written "[]"] setting_missing [OF assms(1-3), of written "''[daemon]'' # missing_lines vs written"]
    assms(4) by (cases inside; cases found) simp_all
next
  case (Cons l ls)
  show ?case
  proof (cases "is_header l")
    case True
    then show ?thesis using Cons setting_missing [OF assms(1-3)] assms(4) by (cases inside) simp_all
  next
    case False
    show ?thesis
    proof (cases "if inside then find (\<lambda>(k, _). k \<notin> set written \<and> sets_key k l) vs else None")
      case None
      have "\<not> (inside \<and> sets_key k l)"
        by (rule not_found_line [OF None map_of_SomeD [OF assms(4)] Cons.prems(1)])
      then show ?thesis using False None Cons by auto
    next
      case (Some kv)
      have kv: "inside" "kv \<in> set vs" using found_line [OF Some] by simp_all
      note line = replaced_line [OF assms(1) assms(2) [OF kv(2)], of l]
      show ?thesis
      proof (cases "k = fst kv")
        case True
        then have "snd kv = v" using kv(2) assms(3,4) by (metis map_of_eq_Some_iff option.inject prod.collapse)
        then show ?thesis using False Some kv line True by simp
      next
        case ne: False
        then show ?thesis using False Some kv line Cons by simp
      qed
    qed
  qed
qed

lemma patched_outside:
  assumes "\<And>kv. kv \<in> set vs \<Longrightarrow> bare_key (fst kv)"
  shows "outside_in inside (patched_rest vs written inside found ls) = outside_in inside ls"
proof (induction ls arbitrary: written inside found)
  case Nil
  show ?case using outside_missing [OF assms, where ls = "[]"] outside_missing [OF assms, where ls = "''[daemon]'' # missing_lines vs written"]
    by (simp split: if_split)
next
  case (Cons l ls)
  show ?case
  proof (cases "is_header l")
    case True
    then show ?thesis using Cons outside_missing [OF assms] by (cases inside) simp_all
  next
    case False
    show ?thesis
    proof (cases "if inside then find (\<lambda>(k, _). k \<notin> set written \<and> sets_key k l) vs else None")
      case None
      then show ?thesis using False Cons by simp
    next
      case (Some kv)
      have kv: "inside" "kv \<in> set vs" using found_line [OF Some] by simp_all
      show ?thesis using False Some Cons kv key_line_no_header [OF assms [OF kv(2)], of "takeWhile re_space l"] by simp
    qed
  qed
qed

text \<open>No line of the result holds a line feed, so it splits into the lines it was joined from.\<close>

lemma patched_no_newline:
  assumes "\<And>kv. kv \<in> set vs \<Longrightarrow> CHR 0x0A \<notin> set (key_line kv)" "\<And>l. l \<in> set ls \<Longrightarrow> CHR 0x0A \<notin> set l"
    and "l \<in> set (patched_rest vs written inside found ls)"
  shows "CHR 0x0A \<notin> set l"
proof -
  have miss: "x \<in> set (missing_lines vs w) \<Longrightarrow> CHR 0x0A \<notin> set x" for x w
    using assms(1) by (auto simp: missing_lines_def)
  show ?thesis using assms(2,3)
  proof (induction ls arbitrary: written inside found)
    case Nil
    then show ?case using miss by (auto split: if_split_asm)
  next
    case (Cons m ls)
    have IH: "l \<in> set (patched_rest vs w a b ls) \<Longrightarrow> CHR 0x0A \<notin> set l" for w a b
      using Cons.IH Cons.prems(1) by simp
    have m: "CHR 0x0A \<notin> set m" using Cons.prems(1) by simp
    show ?case
    proof (cases "is_header m")
      case True
      then have "l = m \<or> l \<in> set (missing_lines vs written) \<or> (\<exists>w a b. l \<in> set (patched_rest vs w a b ls))"
        using Cons.prems(2) by (auto split: if_split_asm)
      then show ?thesis using IH miss m by blast
    next
      case False
      show ?thesis
      proof (cases "if inside then find (\<lambda>(k, _). k \<notin> set written \<and> sets_key k m) vs else None")
        case None
        then have "l = m \<or> l \<in> set (patched_rest vs written inside found ls)" using False Cons.prems(2) by simp
        then show ?thesis using IH m by blast
      next
        case (Some kv)
        then have "kv \<in> set vs" using found_line by blast
        then have "CHR 0x0A \<notin> set (takeWhile re_space m @ key_line kv)"
          using assms(1) m by (auto dest: set_takeWhileD)
        moreover have "l = takeWhile re_space m @ key_line kv \<or> l \<in> set (patched_rest vs (written @ [fst kv]) inside found ls)"
          using False Some Cons.prems(2) by simp
        ultimately show ?thesis using IH by blast
      qed
    qed
  qed
qed

lemma patched_nonempty [simp]: "ls \<noteq> [] \<Longrightarrow> patched_rest vs written inside found ls \<noteq> []"
  by (cases ls) (auto split: option.split)

lemma split_patched:
  assumes "\<And>kv. kv \<in> set vs \<Longrightarrow> CHR 0x0A \<notin> set (key_line kv)"
  shows "split_on (CHR 0x0A) (patchDaemonSection text vs) = patched_rest vs [] False False (split_on (CHR 0x0A) text)"
  unfolding patchDaemonSection_def patch_lines
proof (rule split_join)
  show "\<forall>p \<in> set (patched_rest vs [] False False (split_on (CHR 0x0A) text)). CHR 0x0A \<notin> set p"
  proof
    fix p assume p: "p \<in> set (patched_rest vs [] False False (split_on (CHR 0x0A) text))"
    show "CHR 0x0A \<notin> set p" by (rule patched_no_newline [OF assms split_on_no_sep p])
  qed
qed simp

section \<open>Literals hold no line feed\<close>

lemma hex_digit_no_newline: "n < 16 \<Longrightarrow> hex_digit n \<noteq> CHR 0x0A"
  by (auto simp: hex_digit_def simp flip: of_char_eq_iff [where 'a = nat])

lemma hex_width_no_newline: "CHR 0x0A \<notin> set (hex_width k n)"
  using hex_digit_no_newline [of "n mod 16" for n] by (induction k arbitrary: n) (auto dest: sym)

lemma quote_ascii_no_newline: "CHR 0x0A \<notin> set (quote_ascii c)"
proof -
  have "c = CHR 0x0A \<Longrightarrow> byte c = 10" by simp
  then show ?thesis using hex_width_no_newline [of 2 "byte c"] by (auto simp: quote_ascii_def)
qed

lemma rune_head_high:
  assumes "rune_head (c # cs) = Some r" "128 \<le> byte c" "x \<in> set r"
  shows "128 \<le> byte x"
proof -
  from assms(1) obtain lo hi n where cl: "utf8_class (byte c) = Some (lo, hi, n)" and n: "n < length cs"
    and v: "valid_utf8 (c # take (Suc n) cs)" and r: "r = c # take (Suc n) cs"
    by (auto simp: rune_head_def split: option.split_asm if_split_asm)
  from n obtain d ds where cs: "cs = d # ds" by (cases cs) auto
  have "128 \<le> lo" using cl by (auto simp: utf8_class_def split: if_split_asm)
  then have "128 \<le> byte d" "list_all (\<lambda>x. utf8_tail (byte x)) (take n ds)"
    using v cl assms(2) by (auto simp: cs min_def split: if_split_asm)
  then show ?thesis using assms(2,3) by (auto simp: r cs list_all_iff utf8_tail_def)
qed

lemma quote_rune_no_newline:
  assumes "\<And>x. x \<in> set r \<Longrightarrow> 128 \<le> byte x"
  shows "CHR 0x0A \<notin> set (quote_rune isprint r)"
proof -
  have "CHR 0x0A \<notin> set r" using assms [of "CHR 0x0A"] by auto
  then show ?thesis using hex_width_no_newline by (auto simp: quote_rune_def Let_def)
qed

lemma quote_body_no_newline: "CHR 0x0A \<notin> set (quote_body isprint s)"
proof (induction isprint s rule: quote_body.induct)
  case (2 isprint c cs)
  show ?case
  proof (cases "byte c < 128")
    case True
    then show ?thesis using 2(1) quote_ascii_no_newline [of c] by auto
  next
    case False
    show ?thesis
    proof (cases "rune_head (c # cs)")
      case None
      then show ?thesis using False 2(2) hex_width_no_newline [of 2 "byte c"] by auto
    next
      case (Some r)
      have "CHR 0x0A \<notin> set (quote_rune isprint r)"
        using rune_head_high [OF Some] False by (intro quote_rune_no_newline) simp
      then show ?thesis using Some False 2(3) [OF False Some] by auto
    qed
  qed
qed simp

lemma tomlString_no_newline: "CHR 0x0A \<notin> set (tomlString isprint s)"
  using quote_body_no_newline by (auto simp: tomlString_def Quote_def)

lemma dec_digits_no_newline: "CHR 0x0A \<notin> set (dec_digits n)"
proof (induction n rule: dec_digits.induct)
  case (1 n)
  have "char_of (48 + n mod 10) \<noteq> CHR 0x0A" by (simp flip: of_char_eq_iff [where 'a = nat])
  moreover have "n < 10 \<Longrightarrow> char_of (48 + n) \<noteq> CHR 0x0A" by (simp flip: of_char_eq_iff [where 'a = nat])
  ultimately show ?case using 1 by (subst dec_digits.simps) auto
qed

lemma run_rule_no_newline:
  assumes "run_rule ce duration isprint rule v = Some literal"
  shows "CHR 0x0A \<notin> set literal"
proof -
  have join: "CHR 0x0A \<notin> set (join_with '', '' (map (\<lambda>e. tomlString isprint (the e)) es))" for es
    using set_join_with [of "'', ''" "map (\<lambda>e. tomlString isprint (the e)) es"] tomlString_no_newline by fastforce
  show ?thesis using assms join tomlString_no_newline dec_digits_no_newline
    by (auto simp: run_rule_def FormatInt_def split: patchRule.split_asm patch_value.split_asm if_split_asm)
qed

lemma patchable_bare: "map_of patchableDaemonKeys k = Some rule \<Longrightarrow> bare_key k"
proof -
  have "list_all (\<lambda>kv. bare_key (fst kv)) patchableDaemonKeys"
    by (simp add: patchableDaemonKeys_def bare_key_def is_alnum_def is_lower_def is_upper_def)
  then show "map_of patchableDaemonKeys k = Some rule \<Longrightarrow> bare_key k"
    by (auto simp: list_all_iff dest!: map_of_SomeD)
qed

lemma bare_no_newline: "bare_key k \<Longrightarrow> CHR 0x0A \<notin> set k"
  using alnum_graphic [of "CHR 0x0A"] by (auto simp: bare_key_def list_all_iff)

lemma patch_values_shape:
  assumes "rfold (serialize_step ce duration isprint) acc patch = Inr values"
  shows "map fst values = map fst acc @ map fst patch \<and>
    (\<forall>kv \<in> set values. kv \<in> set acc \<or> bare_key (fst kv) \<and> CHR 0x0A \<notin> set (key_line kv) \<and>
       (\<exists>rule x. map_of patchableDaemonKeys (fst kv) = Some rule \<and> (fst kv, x) \<in> set patch \<and>
          run_rule ce duration isprint rule x = Some (snd kv)))"
  using assms
proof (induction patch arbitrary: acc)
  case (Cons kv patch)
  from Cons.prems obtain acc' where step: "serialize_step ce duration isprint acc kv = Inr acc'"
    and rest: "rfold (serialize_step ce duration isprint) acc' patch = Inr values" by auto
  from step obtain rule literal where rule: "map_of patchableDaemonKeys (fst kv) = Some rule"
      "run_rule ce duration isprint rule (snd kv) = Some literal" and acc': "acc' = acc @ [(fst kv, literal)]"
    by (auto simp: serialize_step_def split: option.split_asm)
  have "bare_key (fst kv)" using patchable_bare [OF rule(1)] .
  moreover have "CHR 0x0A \<notin> set (key_line (fst kv, literal))"
    using bare_no_newline [OF patchable_bare [OF rule(1)]] run_rule_no_newline [OF rule(2)] by (auto simp: key_line_def)
  ultimately show ?case using Cons.IH [OF rest] acc' rule by (cases kv) fastforce
qed simp


lemma demo_patch:
  "patch_values demo_config_env (\<lambda>_. True) (\<lambda>_. True) [(''processesLimit'', PNumber 80)] = Inr [(''processesLimit'', ''80'')]"
  by (simp add: patch_values_def serialize_step_def patchableDaemonKeys_def run_rule_def FormatInt_def dec_digits.simps char_of_def bit_0 bit_Suc)


section \<open>A reload as a whole\<close>

lemma Reload_cases:
  "Reload ae load text a =
     (case (if trim_space (ap_configPath a) = [] then Inl (Bad ''config'' ''no config path is configured'')
            else rbind (load text) (validated ae)) of
        Inl e \<Rightarrow> (a, Some e) | Inr d \<Rightarrow> (applyReload ae d a, None))"
  by (simp add: Reload_def rbind_def split: sum.split)

end
