(* ===== verification/Daemon_Jobs_Facts.thy ===== *)
theory Daemon_Jobs_Facts
  imports Daemon_Reload_Facts Cloud_Webhooks_Facts Daemon_Files_Flow
begin

text \<open>
  Scheduled jobs: what a tick runs and when, and when a configured job is scheduled at all. Relayed calls:
  from the request a client queued in the cloud through the daemon and back.
\<close>

section \<open>A tick\<close>

text \<open>When jobs that run one after the other start.\<close>

fun job_starts :: "(JobConfig \<Rightarrow> time) \<Rightarrow> time \<Rightarrow> jobState list \<Rightarrow> time list" where
  "job_starts dur t [] = []"
| "job_starts dur t (s # ss) = t # job_starts dur (t + dur (js_cfg s)) ss"

definition idle :: "job_table \<Rightarrow> bool" where
  "idle m \<longleftrightarrow> distinct (map fst m) \<and> (\<forall>s \<in> set (map snd m). \<not> js_running s)"

lemma update_job_keys [simp]: "map fst (update_job n f m) = map fst m"
  by (induction m) (auto simp: update_job_def)

lemma map_of_update_job: "map_of (update_job n f m) k = (if k = n then map_option f (map_of m k) else map_of m k)"
  by (induction m) (auto simp: update_job_def)

lemma runJob_idle:
  assumes "idle (jk_jobs k)" "map_of (jk_jobs k) n = Some s"
  shows "runJob dur k n =
    \<lparr>jk_jobs = update_job n (\<lambda>s. s\<lparr>js_running := False, js_next := js_schedule s (jk_now k)\<rparr>) (jk_jobs k),
     jk_now = jk_now k + dur (js_cfg s), jk_log = jk_log k @ [(n, jk_now k)]\<rparr>"
proof -
  have "\<not> js_running s" using assms by (force simp: idle_def dest: map_of_SomeD)
  moreover have "update_job n (\<lambda>s. s\<lparr>js_running := False\<rparr>) (update_job n (\<lambda>s. s\<lparr>js_running := True, js_next := js_schedule s t\<rparr>) m) =
      update_job n (\<lambda>s. s\<lparr>js_running := False, js_next := js_schedule s t\<rparr>) m" for t m
    by (simp add: update_job_def comp_def case_prod_unfold)
  ultimately show ?thesis using assms(2) by (simp add: runJob_def Let_def)
qed

lemma idle_update_job:
  assumes "idle m" shows "idle (update_job n (\<lambda>s. s\<lparr>js_running := False, js_next := js_schedule s t\<rparr>) m)"
proof -
  have states: "map snd (update_job n f m) = map (\<lambda>(k, s). if k = n then f s else s) m" for f
    by (induction m) (auto simp: update_job_def)
  have "\<forall>(k, s) \<in> set m. \<not> js_running s" using assms by (auto simp: idle_def)
  then show ?thesis using assms unfolding idle_def states by (auto split: if_split_asm)
qed

lemma jobs_in_turn:
  fixes dur :: "JobConfig \<Rightarrow> time"
  assumes "idle (jk_jobs k)" "distinct ns" "\<And>n. n \<in> set ns \<Longrightarrow> n \<in> fst ` set (jk_jobs k)"
  defines "ss \<equiv> map (\<lambda>n. the (map_of (jk_jobs k) n)) ns"
  defines "starts \<equiv> job_starts dur (jk_now k) ss"
  defines "k' \<equiv> foldl (runJob dur) k ns"
  shows "idle (jk_jobs k') \<and> jk_now k' = jk_now k + sum_list (map (\<lambda>s. dur (js_cfg s)) ss) \<and>
    jk_log k' = jk_log k @ zip ns starts \<and> map fst (jk_jobs k') = map fst (jk_jobs k) \<and>
    (\<forall>n s. map_of (jk_jobs k) n = Some s \<longrightarrow> map_of (jk_jobs k') n =
       Some (case map_of (zip ns starts) n of None \<Rightarrow> s | Some t \<Rightarrow> s\<lparr>js_running := False, js_next := js_schedule s t\<rparr>))"
  using assms(1-3) unfolding k'_def starts_def ss_def
proof (induction ns arbitrary: k)
  case (Cons n ns)
  have "map_of (jk_jobs k) n \<noteq> None" using Cons.prems(3) [of n] by (simp add: map_of_eq_None_iff)
  then obtain s where s: "map_of (jk_jobs k) n = Some s" by blast
  define k1 where "k1 = runJob dur k n"
  have k1: "jk_jobs k1 = update_job n (\<lambda>s. s\<lparr>js_running := False, js_next := js_schedule s (jk_now k)\<rparr>) (jk_jobs k)"
      "jk_now k1 = jk_now k + dur (js_cfg s)" "jk_log k1 = jk_log k @ [(n, jk_now k)]"
    by (simp_all add: k1_def runJob_idle [OF Cons.prems(1) s])
  have idle1: "idle (jk_jobs k1)" by (simp add: k1 idle_update_job [OF Cons.prems(1)])
  have keys: "fst ` set (jk_jobs k1) = fst ` set (jk_jobs k)" unfolding k1 by (metis set_map update_job_keys)
  have other: "map (\<lambda>n. the (map_of (jk_jobs k1) n)) ns = map (\<lambda>n. the (map_of (jk_jobs k) n)) ns"
    using Cons.prems(2) by (auto simp: k1 map_of_update_job)
  have n: "map_of (zip ns ts) n = None" for ts :: "time list"
    using Cons.prems(2) by (auto simp: map_of_eq_None_iff dest: set_zip_leftD)
  note IH = Cons.IH [OF idle1, unfolded other keys]
  have IH': "idle (jk_jobs (foldl (runJob dur) k1 ns)) \<and>
    jk_now (foldl (runJob dur) k1 ns) = jk_now k1 + sum_list (map (\<lambda>s. dur (js_cfg s)) (map (\<lambda>n. the (map_of (jk_jobs k) n)) ns)) \<and>
    jk_log (foldl (runJob dur) k1 ns) = jk_log k1 @ zip ns (job_starts dur (jk_now k1) (map (\<lambda>n. the (map_of (jk_jobs k) n)) ns)) \<and>
    map fst (jk_jobs (foldl (runJob dur) k1 ns)) = map fst (jk_jobs k1) \<and>
    (\<forall>m s. map_of (jk_jobs k1) m = Some s \<longrightarrow> map_of (jk_jobs (foldl (runJob dur) k1 ns)) m =
       Some (case map_of (zip ns (job_starts dur (jk_now k1) (map (\<lambda>n. the (map_of (jk_jobs k) n)) ns))) m of
         None \<Rightarrow> s | Some t \<Rightarrow> s\<lparr>js_running := False, js_next := js_schedule s t\<rparr>))"
    using IH Cons.prems(2,3) by simp
  show ?case using IH' s n by (auto simp: k1_def [symmetric] k1 map_of_update_job)
qed simp

text \<open>A tick runs every job that is due, each once and one after the other: the first starts at once and each
other when the ones before it have ended, so a slow job delays all that follow. No job is ever found running, the
clock has moved by all their run times, and the next time of each is its schedule's after it was started.\<close>

theorem tick_runs_in_turn:
  fixes dur :: "JobConfig \<Rightarrow> time"
  assumes "idle (jk_jobs k)"
  defines "due \<equiv> filter (\<lambda>(_, s). js_next s \<le> jk_now k) (jk_jobs k)"
  defines "starts \<equiv> job_starts dur (jk_now k) (map snd due)"
  defines "k' \<equiv> job_tick dur k"
  shows "idle (jk_jobs k') \<and> jk_log k' = jk_log k @ zip (map fst due) starts \<and>
    jk_now k' = jk_now k + sum_list (map (\<lambda>p. dur (js_cfg (snd p))) due) \<and>
    (\<forall>(n, s) \<in> set (jk_jobs k). map_of (jk_jobs k') n =
       Some (case map_of (zip (map fst due) starts) n of
               None \<Rightarrow> s | Some t \<Rightarrow> s\<lparr>js_running := False, js_next := js_schedule s t\<rparr>))"
proof -
  have dist: "distinct (map fst (jk_jobs k))" using assms(1) by (simp add: idle_def)
  have sub: "set due \<subseteq> set (jk_jobs k)" by (auto simp: due_def)
  have look: "map_of (jk_jobs k) (fst p) = Some (snd p)" if "p \<in> set (jk_jobs k)" for p
    using dist that by (simp add: map_of_is_SomeI)
  have ss: "map (\<lambda>n. the (map_of (jk_jobs k) n)) (map fst due) = map snd due"
    using look sub by (auto simp: comp_def)
  have dd: "distinct (map fst due)" using dist by (simp add: due_def distinct_map_filter)
  have mem: "n \<in> fst ` set (jk_jobs k)" if "n \<in> set (map fst due)" for n using that sub by auto
  note turn = jobs_in_turn [OF assms(1) dd mem, of dur, unfolded ss]
  have "due_jobs (jk_now k) (jk_jobs k) = map fst due" by (simp add: due_jobs_def due_def)
  then have k': "k' = foldl (runJob dur) k (map fst due)" by (simp add: k'_def job_tick_def)
  have "map_of (jk_jobs k') n = Some (case map_of (zip (map fst due) starts) n of
      None \<Rightarrow> s | Some t \<Rightarrow> s\<lparr>js_running := False, js_next := js_schedule s t\<rparr>)" if "(n, s) \<in> set (jk_jobs k)" for n s
    using turn look [OF that] unfolding k' starts_def by simp
  moreover have "map (\<lambda>s. dur (js_cfg s)) (map snd due) = map (\<lambda>p. dur (js_cfg (snd p))) due" by simp
  ultimately show ?thesis using turn unfolding k' starts_def by (auto simp: comp_def)
qed

definition demo_jobs :: job_clock where
  "demo_jobs = \<lparr>jk_jobs = [(''a'', \<lparr>js_cfg = demo_job, js_schedule = (\<lambda>t. t + 10), js_next = 3, js_running = False\<rparr>),
     (''b'', \<lparr>js_cfg = demo_job, js_schedule = (\<lambda>t. t + 7), js_next = 2, js_running = False\<rparr>)], jk_now = 5, jk_log = []\<rparr>"

theorem tick_runs_in_turn_witness:
  "jk_log (job_tick (\<lambda>_. 4) demo_jobs) = [(''a'', 5), (''b'', 9)]"
proof -
  have "idle (jk_jobs demo_jobs)" by (simp add: idle_def demo_jobs_def)
  from tick_runs_in_turn [OF this, of "\<lambda>_. 4"] show ?thesis by (simp add: demo_jobs_def)
qed

section \<open>When a job is scheduled\<close>

lemma rfold_out:
  assumes "rfold step (seen, out) (indexed xs) = Inr (seen', out')"
    and "\<And>s o' i x s' o''. step (s, o') (i, x) = Inr (s', o'') \<Longrightarrow> \<exists>y. o'' = o' @ [y] \<and> s' = s @ [key y] \<and> key y \<notin> set s"
  shows "\<exists>ys. out' = out @ ys \<and> seen' = seen @ map key ys \<and> (distinct seen \<longrightarrow> distinct seen')"
  using assms(1)
proof (induction xs arbitrary: seen' out' rule: rev_induct)
  case Nil
  then show ?case by (simp add: indexed_def)
next
  case (snoc x xs)
  then obtain t u where t: "rfold step (seen, out) (indexed xs) = Inr (t, u)" "step (t, u) (length xs, x) = Inr (seen', out')"
    by (auto simp: indexed_snoc rfold_append)
  from snoc.IH [OF t(1)] obtain ys where ys: "u = out @ ys" "t = seen @ map key ys" "distinct seen \<longrightarrow> distinct t" by blast
  from assms(2) [OF t(2)] obtain y where y: "out' = u @ [y]" "seen' = t @ [key y]" "key y \<notin> set t" by blast
  have "distinct seen \<longrightarrow> distinct seen'" using ys(3) y by simp
  then show ?case using ys y by (intro exI [of _ "ys @ [y]"]) simp
qed

lemma accepted_jobs_distinct:
  assumes "ValidateDaemon ce d = Inr v"
  shows "distinct (map jc_Name (dc_Jobs v))"
proof -
  from assms obtain sj jobs where "rfold (job_step ce) ([], []) (indexed (dc_Jobs d)) = Inr (sj, jobs)" "dc_Jobs v = jobs"
    unfolding ValidateDaemon_def by (auto split: prod.splits)
  moreover have "\<exists>y. o'' = o' @ [y] \<and> s' = s @ [(trim_space \<circ> jc_Name) y] \<and> (trim_space \<circ> jc_Name) y \<notin> set s"
    if "job_step ce (s, o') (i, x) = Inr (s', o'')" for s o' i x s' o''
    using that by (auto simp: job_step_def Let_def)
  ultimately obtain ys where "jobs = ys" "distinct (map (trim_space \<circ> jc_Name) ys)"
    using rfold_out [of "job_step ce" "[]" "[]" "dc_Jobs d" sj jobs "trim_space \<circ> jc_Name"] by auto
  then show ?thesis using \<open>dc_Jobs v = jobs\<close> by (auto simp: distinct_map intro: inj_on_imageI2)
qed

lemma SetJobs_distinct:
  "distinct (map jc_Name jobs) \<Longrightarrow> map_of (foldl (set_job cron now) m jobs) n =
     (case find (\<lambda>j. jc_Name j = n) jobs of
        None \<Rightarrow> map_of m n
      | Some j \<Rightarrow> if \<not> alarm_on (jc_Enabled j) then map_of m n
          else case cron (jc_Schedule j) of None \<Rightarrow> map_of m n
            | Some schedule \<Rightarrow> Some \<lparr>js_cfg = j, js_schedule = schedule, js_next = schedule now, js_running = False\<rparr>)"
proof (induction jobs arbitrary: m)
  case (Cons j jobs)
  have none: "jc_Name j = n \<Longrightarrow> find (\<lambda>j. jc_Name j = n) jobs = None"
    using Cons.prems by (force simp: find_None_iff image_iff)
  show ?case using Cons none by (auto simp: set_job_def split: option.splits)
qed simp

lemma find_job:
  assumes "distinct (map jc_Name jobs)" "j \<in> set jobs"
  shows "find (\<lambda>i. jc_Name i = jc_Name j) jobs = Some j"
  using assms
proof (induction jobs)
  case (Cons i jobs)
  show ?case
  proof (cases "jc_Name i = jc_Name j")
    case True
    then have "i = j" using Cons.prems by (force simp: image_iff)
    then show ?thesis by simp
  next
    case False
    then show ?thesis using Cons by auto
  qed
qed simp

lemma SetJobs_idle: "idle (SetJobs cron now jobs)"
proof -
  have keep: "idle (foldl (set_job cron now) m jobs)" if "idle m" for m
    using that
  proof (induction jobs arbitrary: m)
    case (Cons j jobs)
    have "idle (put n s m)" if "\<not> js_running s" for n s
      using Cons.prems that set_put_subset [of n s m] by (force simp: idle_def put_distinct)
    then have "idle (set_job cron now m j)" using Cons.prems by (simp add: set_job_def split: option.split)
    then show ?case using Cons.IH by simp
  qed simp
  have "idle []" by (simp add: idle_def)
  then show ?thesis unfolding SetJobs_def by (rule keep)
qed


definition demo_app_env :: app_env where
  "demo_app_env = \<lparr>ae_config = demo_config_env, ae_url = (\<lambda>_. None), ae_cron = (\<lambda>_. Some (\<lambda>t. t + 60)),
     ae_compiles = (\<lambda>_. True), ae_save_ok = True, ae_runner = None, ae_history_ok = True, ae_now = 100\<rparr>"

definition demo_app :: App where
  "demo_app = projr (NewApp demo_app_env [] None demo_config)"

lemma demo_validated: "validated demo_app_env demo_config = Inr demo_accepted"
  by (simp add: validated_def demo_app_env_def demo_valid) (simp add: demo_accepted_def demo_config_def)

lemma demo_started: "NewApp demo_app_env [] None demo_config = Inr demo_app"
proof -
  have "publisher_of demo_app_env demo_accepted = Inr None"
    by (simp add: publisher_of_def NewCloudPublisher_def demo_accepted_def demo_config_def)
  then have "\<exists>a. NewApp demo_app_env [] None demo_config = Inr a"
    by (simp add: NewApp_def demo_validated) (simp add: demo_app_env_def)
  then show ?thesis by (auto simp: demo_app_def)
qed


section \<open>From the cloud and back\<close>

text \<open>What the daemon decodes of a pending request the cloud lists.\<close>

definition relayed :: "hook_view \<Rightarrow> relayWebhookRequest" where
  "relayed v = \<lparr>rq_ID = hv_id v, rq_Name = hv_name v, rq_Body = hv_body v, rq_Signature = hv_signature v,
     rq_InvokedBy = hv_invokedBy v\<rparr>"


text \<open>A webhook that echoes its body, relayed and answered.\<close>

definition demo_ways :: ways_in where
  "demo_ways = \<lparr>wi_action = (\<lambda>_ _. Inl (Refused 404 [])), wi_webhook = (\<lambda>_ body _. \<lparr>ra_ok = True, ra_stdout = body, ra_stderr = [], ra_status = 200\<rparr>),
     wi_dispatch = (\<lambda>_ _. Inl (Refused 404 [])), wi_json = (\<lambda>_. None)\<rparr>"

lemma demo_relayed:
  "rr_Code (relay_process demo_ways (relayed (viewWebhookRequest demo_request))) = 200"
  "rr_Error (relay_process demo_ways (relayed (viewWebhookRequest demo_request))) = []"
  "b64_std_decode (rr_Body (relay_process demo_ways (relayed (viewWebhookRequest demo_request)))) = Some ''{}''"
  "isNativeOpSlug (hv_name (viewWebhookRequest demo_request)) = False"
proof -
  show slug: "isNativeOpSlug (hv_name (viewWebhookRequest demo_request)) = False" by code_simp
  have "relay_process demo_ways (relayed (viewWebhookRequest demo_request)) =
      relay_result \<lparr>ra_ok = True, ra_stdout = hr_body demo_request, ra_stderr = [], ra_status = 200\<rparr>"
    using slug by (simp add: relay_process_def relayed_def viewWebhookRequest_def) (simp add: demo_ways_def)
  then show "rr_Code (relay_process demo_ways (relayed (viewWebhookRequest demo_request))) = 200"
    "rr_Error (relay_process demo_ways (relayed (viewWebhookRequest demo_request))) = []"
    "b64_std_decode (rr_Body (relay_process demo_ways (relayed (viewWebhookRequest demo_request)))) = Some ''{}''"
    by (simp_all add: relay_result_def) (simp add: demo_request_def new_request_def)
qed

lemma demo_relay_answered:
  "CompleteWebhook (Cloud_Webhooks_Facts.demo_env 8) [Cloud_Webhooks_Facts.demo_host] ''d1'' ''pw'' ''r1'' 200 ''{}'' [] (no_relay\<lparr>rl_hooks := [hook_lease 6 demo_request]\<rparr>) =
    (no_relay\<lparr>rl_hooks := [complete_hook 8 200 ''{}'' [] (hook_lease 6 demo_request)]\<rparr>, Inr ())"
  by code_simp


section \<open>A PATCH as a whole\<close>



text \<open>A daemon started from a file; a PATCH of one key, signed and written.\<close>

definition demo_patch_env :: patch_env where
  "demo_patch_env = \<lparr>pt_app = demo_app_env, pt_load = (\<lambda>_. Inr demo_config), pt_json = (\<lambda>_. Some [(''processesLimit'', PNumber 80)]),
     pt_duration = (\<lambda>_. True), pt_isprint = (\<lambda>_. True), pt_mac = (\<lambda>_ _. ''mac''), pt_readable = True, pt_write = Written,
     pt_restore = Written\<rparr>"


end
