(* ===== verification/Daemon_Health_Facts.thy ===== *)
theory Daemon_Health_Facts
  imports Daemon_Jobs_Facts Cloud_Reports_Facts
begin

text \<open>
  The health score as a measure, alarms and their cooldown over the ticks of the daemon, and what a status
  batch does to the rows the cloud keeps.
\<close>

section \<open>The score\<close>

lemma score_range:
  assumes "warn < crit"
  shows "0 \<le> fst (scoreHealthValue v warn crit)" "fst (scoreHealthValue v warn crit) \<le> 100"
  using assms by (auto simp: scoreHealthValue_def field_simps)

lemma score_antimono:
  assumes "warn < crit" "v \<le> v'"
  shows "fst (scoreHealthValue v' warn crit) \<le> fst (scoreHealthValue v warn crit)"
proof -
  consider "v \<le> warn" | "crit \<le> v'" | "warn < v" "v' < crit" by linarith
  then show ?thesis
  proof cases
    case 1
    then show ?thesis using score_range(2) [OF assms(1), of v'] by (simp add: scoreHealthValue_def)
  next
    case 2
    then show ?thesis using score_range(1) [OF assms(1), of v] assms(1) by (simp add: scoreHealthValue_def)
  next
    case 3
    then show ?thesis using assms by (simp add: scoreHealthValue_def divide_right_mono)
  qed
qed

lemma specs_fine: "\<forall>spec \<in> set healthSpecs. hs_warn spec < hs_crit spec \<and> 0 < hs_weight spec"
  by (simp add: healthSpecs_def)

lemma math_Round_mono: "x \<le> y \<Longrightarrow> math_Round x \<le> math_Round y"
proof -
  assume le: "x \<le> y"
  show ?thesis
  proof (cases "0 \<le> x")
    case True
    then show ?thesis using le by (simp add: math_Round_def floor_mono)
  next
    case False
    show ?thesis
    proof (cases "0 \<le> y")
      case True
      have "0 \<le> \<lfloor>1 / 2 - x\<rfloor>" using False by simp
      moreover have "0 \<le> \<lfloor>y + 1 / 2\<rfloor>" using True by simp
      moreover have "math_Round x = - \<lfloor>1 / 2 - x\<rfloor>" "math_Round y = \<lfloor>y + 1 / 2\<rfloor>"
        using False True \<open>\<not> 0 \<le> x\<close> by (simp_all add: math_Round_def)
      ultimately show ?thesis by linarith
    next
      case False
      then show ?thesis using le \<open>\<not> 0 \<le> x\<close> by (simp add: math_Round_def floor_mono)
    qed
  qed
qed

lemma math_Round_int [simp]: "math_Round 0 = 0" "math_Round 100 = 100"
  by (simp_all add: math_Round_def floor_eq_iff)

lemma check_simps:
  "hc_Skipped (evaluateHealthCheck ft spec s) \<longleftrightarrow> hs_measure spec s = None"
  "hs_measure spec s = Some (v, detail) \<Longrightarrow>
     hc_Score (evaluateHealthCheck ft spec s) = fst (scoreHealthValue v (hs_warn spec) (hs_crit spec)) \<and>
     hc_Status (evaluateHealthCheck ft spec s) = snd (scoreHealthValue v (hs_warn spec) (hs_crit spec))"
  by (auto simp: evaluateHealthCheck_def Let_def split: option.split prod.split)

definition spec_sums :: "float_text \<Rightarrow> MetricsPayload \<Rightarrow> health_spec list \<Rightarrow> rat \<times> rat" where
  "spec_sums ft s specs = weighted_sums (map (\<lambda>spec. (evaluateHealthCheck ft spec s, hs_weight spec)) specs)"

lemma spec_sums_snoc:
  "spec_sums ft s (specs @ [spec]) =
     (let (w, t) = spec_sums ft s specs in
      case hs_measure spec s of
        None \<Rightarrow> (w, t)
      | Some (v, _) \<Rightarrow> (w + fst (scoreHealthValue v (hs_warn spec) (hs_crit spec)) * hs_weight spec, t + hs_weight spec))"
  by (auto simp: spec_sums_def weighted_sums_def check_simps split: option.split prod.split)

lemma spec_sums_bounded:
  assumes "\<forall>spec \<in> set specs. hs_warn spec < hs_crit spec \<and> 0 < hs_weight spec"
  shows "0 \<le> fst (spec_sums ft s specs) \<and> fst (spec_sums ft s specs) \<le> 100 * snd (spec_sums ft s specs) \<and> 0 \<le> snd (spec_sums ft s specs)"
  using assms
proof (induction specs rule: rev_induct)
  case Nil
  then show ?case by (simp add: spec_sums_def weighted_sums_def)
next
  case (snoc spec specs)
  obtain w t where wt: "spec_sums ft s specs = (w, t)" by (cases "spec_sums ft s specs")
  have IH: "0 \<le> w" "w \<le> 100 * t" "0 \<le> t" using snoc wt by simp_all
  show ?case
  proof (cases "hs_measure spec s")
    case None
    then show ?thesis using IH by (simp add: spec_sums_snoc wt)
  next
    case (Some vd)
    obtain v d where vd: "vd = (v, d)" by (cases vd)
    have pos: "0 < hs_weight spec" and r: "0 \<le> fst (scoreHealthValue v (hs_warn spec) (hs_crit spec))"
        "fst (scoreHealthValue v (hs_warn spec) (hs_crit spec)) \<le> 100"
      using snoc.prems score_range by auto
    obtain p where p: "p = fst (scoreHealthValue v (hs_warn spec) (hs_crit spec)) * hs_weight spec" by blast
    have "p \<le> 100 * hs_weight spec" unfolding p using r(2) pos by (intro mult_right_mono) simp_all
    moreover have "0 \<le> p" unfolding p using r pos by simp
    moreover have "spec_sums ft s (specs @ [spec]) = (w + p, t + hs_weight spec)" by (simp add: spec_sums_snoc wt Some vd p)
    ultimately show ?thesis using IH pos unfolding fst_conv snd_conv by (simp add: distrib_left)
  qed
qed

definition no_better :: "health_spec \<Rightarrow> MetricsPayload \<Rightarrow> MetricsPayload \<Rightarrow> bool" where
  "no_better spec s s' \<longleftrightarrow>
     (case (hs_measure spec s, hs_measure spec s') of
        (None, None) \<Rightarrow> True | (Some (v, _), Some (v', _)) \<Rightarrow> v \<le> v' | _ \<Rightarrow> False)"

lemma spec_sums_antimono:
  assumes "\<forall>spec \<in> set specs. hs_warn spec < hs_crit spec \<and> 0 < hs_weight spec"
    and "\<forall>spec \<in> set specs. no_better spec s s'"
  shows "fst (spec_sums ft s' specs) \<le> fst (spec_sums ft s specs) \<and> snd (spec_sums ft s' specs) = snd (spec_sums ft s specs)"
  using assms
proof (induction specs rule: rev_induct)
  case Nil
  then show ?case by (simp add: spec_sums_def weighted_sums_def)
next
  case (snoc spec specs)
  obtain w t w' t' where wt: "spec_sums ft s specs = (w, t)" "spec_sums ft s' specs = (w', t')"
    by (cases "spec_sums ft s specs"; cases "spec_sums ft s' specs")
  have IH: "w' \<le> w" "t' = t" using snoc wt by simp_all
  have spec: "no_better spec s s'" "hs_warn spec < hs_crit spec" "0 < hs_weight spec" using snoc.prems by simp_all
  show ?case
  proof (cases "hs_measure spec s")
    case None
    then have "hs_measure spec s' = None" using spec(1) by (auto simp: no_better_def split: option.split_asm)
    then show ?thesis using None IH by (simp add: spec_sums_snoc wt)
  next
    case (Some vd)
    then obtain v d v' d' where vs: "hs_measure spec s = Some (v, d)" "hs_measure spec s' = Some (v', d')" "v \<le> v'"
      using spec(1) by (auto simp: no_better_def split: option.split_asm prod.split_asm)
    have "fst (scoreHealthValue v' (hs_warn spec) (hs_crit spec)) * hs_weight spec
        \<le> fst (scoreHealthValue v (hs_warn spec) (hs_crit spec)) * hs_weight spec"
      using score_antimono [OF spec(2) vs(3)] spec(3) by (simp add: mult_right_mono)
    then show ?thesis using IH vs by (simp add: spec_sums_snoc wt)
  qed
qed

lemma evaluateHealth_score:
  "hr_Score (evaluateHealth ft s now) =
     (if 0 < snd (spec_sums ft s healthSpecs) then math_Round (fst (spec_sums ft s healthSpecs) / snd (spec_sums ft s healthSpecs)) else 100)"
  by (simp add: evaluateHealth_def spec_sums_def case_prod_unfold Let_def)

text \<open>The health score is a score: it lies between 0 and 100 whatever the host reports, and a sample in which
every dimension is no better than in another (and the same dimensions apply) never scores higher.\<close>

theorem health_score_monotone:
  assumes "\<forall>spec \<in> set healthSpecs. no_better spec s s'"
  shows "0 \<le> hr_Score (evaluateHealth ft s' now') \<and>
    hr_Score (evaluateHealth ft s' now') \<le> hr_Score (evaluateHealth ft s now) \<and> hr_Score (evaluateHealth ft s now) \<le> 100"
proof -
  obtain w t w' t' where wt: "spec_sums ft s healthSpecs = (w, t)" "spec_sums ft s' healthSpecs = (w', t')"
    by (cases "spec_sums ft s healthSpecs"; cases "spec_sums ft s' healthSpecs")
  have le: "w' \<le> w" "t' = t" using spec_sums_antimono [OF specs_fine assms, of ft] wt by simp_all
  have b: "0 \<le> w'" "w \<le> 100 * t" using spec_sums_bounded [OF specs_fine, of ft s] spec_sums_bounded [OF specs_fine, of ft s'] wt by simp_all
  show ?thesis
  proof (cases "0 < t")
    case True
    have "0 \<le> w' / t" "w' / t \<le> w / t" "w / t \<le> 100" using True le b by (simp_all add: divide_right_mono divide_le_eq)
    have "math_Round 0 \<le> math_Round (w' / t)" by (rule math_Round_mono) fact
    moreover have "math_Round (w' / t) \<le> math_Round (w / t)" by (rule math_Round_mono) fact
    moreover have "math_Round (w / t) \<le> math_Round 100" by (rule math_Round_mono) fact
    ultimately show ?thesis using True le by (simp add: evaluateHealth_score wt)
  next
    case False
    then show ?thesis using le by (simp add: evaluateHealth_score wt)
  qed
qed

definition demo_sample :: "rat \<Rightarrow> MetricsPayload" where
  "demo_sample cpu = \<lparr>mp_SentAt = 0, mp_HostID = [], mp_UptimeSeconds = 1, mp_ProcessMemoryBytes = 1, mp_CPUPercent = cpu,
     mp_CPUCount = 2, mp_Load1 = 1, mp_MemoryUsedPercent = 10, mp_MemoryUsedBytes = 1, mp_MemoryTotalBytes = 2,
     mp_SwapTotalKb = 0, mp_SwapFreeKb = 0, mp_DiskTotalKb = 10, mp_DiskAvailableKb = 9, mp_Disks = [],
     mp_WebhookExecutions = 0, mp_WebhookFailures = 0, mp_HealthScore = 0, mp_HealthStatus = []\<rparr>"

definition plain_floats :: float_text where
  "plain_floats = \<lparr>ft_1 = (\<lambda>_. ''x''), ft_2 = (\<lambda>_. ''x'')\<rparr>"

theorem health_score_monotone_witness:
  "hr_Score (evaluateHealth plain_floats (demo_sample 90) 0) \<le> hr_Score (evaluateHealth plain_floats (demo_sample 20) 0)"
proof -
  have "\<forall>spec \<in> set healthSpecs. no_better spec (demo_sample 20) (demo_sample 90)"
    by (simp add: healthSpecs_def no_better_def swap_usage_def worstDiskUsage_def load_per_core_def failure_ratio_def demo_sample_def)
  from health_score_monotone [OF this] show ?thesis by blast
qed

section \<open>Alarms and their cooldown\<close>

lemma alarm_ready_Some:
  "alarm_ready st k c now = Some st' \<Longrightarrow> map_of st' = (map_of st)(k \<mapsto> now) \<and> (\<forall>t. map_of st k = Some t \<longrightarrow> c \<le> now - t)"
  by (auto simp: alarm_ready_def split: option.split_asm if_split_asm)

lemma accepted_alarms:
  assumes "ValidateDaemon ce d = Inr v"
  shows "distinct (map alarm_key (dc_Alarms v)) \<and> (\<forall>a \<in> set (dc_Alarms v). ac_Kind a \<in> set percentage_kinds \<longrightarrow> ac_Target a = [])"
proof -
  from assms obtain sm alarms where l: "rfold alarm_config_step ([], []) (indexed (dc_Alarms d)) = Inr (sm, alarms)" "dc_Alarms v = alarms"
    unfolding ValidateDaemon_def by (auto split: prod.splits)
  have step: "\<exists>y. o'' = o' @ [y] \<and> s' = s @ [alarm_key y] \<and> alarm_key y \<notin> set s \<and> (ac_Kind y \<in> set percentage_kinds \<longrightarrow> ac_Target y = [])"
    if "alarm_config_step (s, o') (i, x) = Inr (s', o'')" for s o' i x s' o''
    using that by (auto simp: alarm_config_step_def Let_def settled_alarm split: if_split_asm)
  have "\<exists>ys. alarms = ys \<and> sm = map alarm_key ys \<and> distinct sm"
    using rfold_out [OF l(1), of alarm_key] step by (metis append_Nil distinct.simps(1))
  moreover have "\<forall>a \<in> set alarms. ac_Kind a \<in> set percentage_kinds \<longrightarrow> ac_Target a = []"
  proof -
    have "\<forall>a \<in> set (snd (sm, alarms)). ac_Kind a \<in> set percentage_kinds \<longrightarrow> ac_Target a = []"
    proof (rule rfold_invariant [OF l(1), where P = "\<lambda>p. \<forall>a \<in> set (snd p). ac_Kind a \<in> set percentage_kinds \<longrightarrow> ac_Target a = []"])
      fix u x w
      assume *: "\<forall>a \<in> set (snd u). ac_Kind a \<in> set percentage_kinds \<longrightarrow> ac_Target a = []" "alarm_config_step u x = Inr w"
      then show "\<forall>a \<in> set (snd w). ac_Kind a \<in> set percentage_kinds \<longrightarrow> ac_Target a = []"
        using step [of "fst u" "snd u" "fst x" "snd x" "fst w" "snd w"] by auto
    qed simp
    then show ?thesis by simp
  qed
  ultimately show ?thesis using l(2) by auto
qed

definition shows_alarm :: "string \<Rightarrow> notificationPayload list \<Rightarrow> bool" where
  "shows_alarm kind ns \<longleftrightarrow> (\<exists>n \<in> set ns. np_Kind n = ''daemon.alarm.'' @ kind)"

lemma shows_alarm_simps [simp]: "\<not> shows_alarm kind []" "shows_alarm kind (ms @ ns) \<longleftrightarrow> shows_alarm kind ms \<or> shows_alarm kind ns"
  by (auto simp: shows_alarm_def)

lemma alarm_value_kind: "alarm_value a s = Some x \<Longrightarrow> ac_Kind a \<in> set percentage_kinds"
  by (auto simp: alarm_value_def percentage_kinds_def split: if_split_asm)

text \<open>What one alarm does: nothing, or a note and its key's time.\<close>

lemma evaluate_alarm_cases:
  "evaluate_alarm ft s now (st, out) a = (st, out) \<or>
   (\<exists>st' value. evaluate_alarm ft s now (st, out) a = (st', out @ [alarm_note ft a value]) \<and> ac_Kind a \<in> set percentage_kinds \<and>
      map_of st' = (map_of st)(alarm_key a \<mapsto> now) \<and>
      (\<forall>t. map_of st (alarm_key a) = Some t \<longrightarrow> go_seconds (ac_CooldownSeconds a) \<le> now - t))"
  using alarm_value_kind [of a s]
  by (auto simp: evaluate_alarm_def split: option.split dest: alarm_ready_Some)

lemma evaluate_kind:
  assumes "distinct (map alarm_key xs)" "\<forall>a \<in> set xs. ac_Kind a \<in> set percentage_kinds \<longrightarrow> ac_Target a = []"
    and "\<forall>a \<in> set xs. ac_Kind a = kind \<longrightarrow> go_seconds (ac_CooldownSeconds a) = c"
    and "foldl (evaluate_alarm ft s now) (st, []) xs = (st', out')"
  shows "(shows_alarm kind out' \<longrightarrow> (\<exists>a \<in> set xs. ac_Kind a = kind \<and> alarm_key a = kind @ [CHR 0x00]) \<and>
      map_of st' (kind @ [CHR 0x00]) = Some now \<and> (\<forall>t. map_of st (kind @ [CHR 0x00]) = Some t \<longrightarrow> c \<le> now - t)) \<and>
    (\<not> shows_alarm kind out' \<longrightarrow> map_of st' (kind @ [CHR 0x00]) = map_of st (kind @ [CHR 0x00]))"
  using assms
proof (induction xs arbitrary: st' out' rule: rev_induct)
  case (snoc x xs)
  obtain st1 out1 where one: "foldl (evaluate_alarm ft s now) (st, []) xs = (st1, out1)"
    by (cases "foldl (evaluate_alarm ft s now) (st, []) xs")
  have last: "evaluate_alarm ft s now (st1, out1) x = (st', out')" using snoc.prems(4) one by simp
  note IH = snoc.IH [OF _ _ _ one]
  have IH': "(shows_alarm kind out1 \<longrightarrow> (\<exists>a \<in> set xs. ac_Kind a = kind \<and> alarm_key a = kind @ [CHR 0x00]) \<and>
      map_of st1 (kind @ [CHR 0x00]) = Some now \<and> (\<forall>t. map_of st (kind @ [CHR 0x00]) = Some t \<longrightarrow> c \<le> now - t)) \<and>
    (\<not> shows_alarm kind out1 \<longrightarrow> map_of st1 (kind @ [CHR 0x00]) = map_of st (kind @ [CHR 0x00]))"
    using snoc.prems by (intro IH) auto
  from evaluate_alarm_cases [of ft s now st1 out1 x] show ?case
  proof (elim disjE exE conjE)
    assume "evaluate_alarm ft s now (st1, out1) x = (st1, out1)"
    then show ?thesis using last IH' by auto
  next
    fix st2 "value"
    assume ev: "evaluate_alarm ft s now (st1, out1) x = (st2, out1 @ [alarm_note ft x value])"
      and k: "ac_Kind x \<in> set percentage_kinds" and m: "map_of st2 = (map_of st1)(alarm_key x \<mapsto> now)"
      and cd: "\<forall>t. map_of st1 (alarm_key x) = Some t \<longrightarrow> go_seconds (ac_CooldownSeconds x) \<le> now - t"
    have res: "st' = st2" "out' = out1 @ [alarm_note ft x value]" using last ev by simp_all
    have key: "alarm_key x = ac_Kind x @ [CHR 0x00]" using snoc.prems(2) k by (simp add: alarm_key_def)
    show ?thesis
    proof (cases "ac_Kind x = kind")
      case True
      have "\<not> shows_alarm kind out1" using IH' snoc.prems(1) key True by (force simp: image_iff)
      then have "map_of st1 (kind @ [CHR 0x00]) = map_of st (kind @ [CHR 0x00])" using IH' by blast
      moreover have "shows_alarm kind out'" using True by (simp add: res shows_alarm_def alarm_note_def)
      ultimately show ?thesis using m cd key True snoc.prems(3) by (auto simp: res)
    next
      case False
      then have "shows_alarm kind out' = shows_alarm kind out1" by (simp add: res shows_alarm_def alarm_note_def)
      then show ?thesis using IH' m key False by (auto simp: res)
    qed
  qed
qed simp

text \<open>The container alarms keep their own keys and write their own notes.\<close>

lemma evaluateContainers_apart:
  assumes "kind \<in> set percentage_kinds"
  shows "map_of (fst (evaluateContainers st alarms sample now)) (kind @ [CHR 0x00]) = map_of st (kind @ [CHR 0x00]) \<and>
    \<not> shows_alarm kind (snd (evaluateContainers st alarms sample now))"
proof -
  let ?P = "\<lambda>acc. map_of (fst acc) (kind @ [CHR 0x00]) = map_of st (kind @ [CHR 0x00]) \<and> \<not> shows_alarm kind (snd acc)"
  have inv: "?P (foldl f acc xs)" if "?P acc" "\<And>acc x. ?P acc \<Longrightarrow> ?P (f acc x)" for f acc and xs :: "'x list"
    using that by (induction xs arbitrary: acc) simp_all
  have key: "kind @ [CHR 0x00] \<noteq> ''container_down'' @ r" and note_kind: "kind \<noteq> ''container_down''" for r
    using assms by (auto simp: percentage_kinds_def)
  have down: "?P (down_step a now acc rc)" if "?P acc" for a acc rc
  proof -
    obtain st1 out runtime cont where acc: "acc = (st1, out)" "rc = (runtime, cont)" by (cases acc; cases rc)
    obtain K where K: "K = ''container_down'' @ [CHR 0x00] @ ac_Target a @ [CHR 0x00] @ ce_ID cont" by blast
    obtain c where c: "c = go_seconds (ac_CooldownSeconds a)" by blast
    obtain A where A: "A \<longleftrightarrow> ac_Target a \<noteq> [] \<and> ac_Target a \<noteq> ce_Name cont \<and> ac_Target a \<noteq> ce_ID cont" by blast
    obtain B where B: "B \<longleftrightarrow> ce_State cont = ''running''" by blast
    have ds: "down_step a now acc rc = (if A then acc else if B then acc else
        case alarm_ready st1 K c now of None \<Rightarrow> acc | Some st' \<Rightarrow> (st', out @ [down_note runtime cont]))"
      by (simp only: down_step_def acc prod.case Let_def K c A B)
    have kk: "kind @ [CHR 0x00] \<noteq> K" using key unfolding K by blast
    show ?thesis
    proof (cases "alarm_ready st1 K c now")
      case None
      then show ?thesis using that unfolding ds by simp
    next
      case (Some st2)
      have "map_of st2 (kind @ [CHR 0x00]) = map_of st1 (kind @ [CHR 0x00])"
        using alarm_ready_Some [OF Some] kk by simp
      moreover have "\<not> shows_alarm kind [down_note runtime cont]" using note_kind by (simp add: shows_alarm_def down_note_def)
      moreover have "map_of st1 (kind @ [CHR 0x00]) = map_of st (kind @ [CHR 0x00])" "\<not> shows_alarm kind out"
        using that by (simp_all add: acc(1))
      ultimately show ?thesis using that unfolding ds by (simp add: Some)
    qed
  qed
  have step: "?P (if ac_Kind a \<noteq> ''container_down'' \<or> \<not> alarm_on (ac_Enabled a) then acc
      else foldl (down_step a now) acc (listed_containers sample))" if "?P acc" for a acc
    using that inv [of acc "down_step a now"] down by simp
  show ?thesis unfolding evaluateContainers_def using step by (intro inv) simp_all
qed

text \<open>The times at which a kind is announced over the ticks of \<open>Run\<close>, each with a sample and, when the containers were
listed, their listing.\<close>

fun announced_at ::
  "float_text \<Rightarrow> AlarmConfig list \<Rightarrow> string \<Rightarrow> alarm_state \<Rightarrow> (MetricsPayload \<times> containersPayload option \<times> time) list \<Rightarrow> time list" where
  "announced_at ft alarms kind st [] = []"
| "announced_at ft alarms kind st ((s, sample, now) # ticks) =
     (let (st1, out1) = evaluate ft st alarms s now;
          (st2, out2) = (case sample of None \<Rightarrow> (st1, []) | Some p \<Rightarrow> evaluateContainers st1 alarms p now) in
      (if shows_alarm kind (out1 @ out2) then [now] else []) @ announced_at ft alarms kind st2 ticks)"

lemma announced_spaced:
  assumes "distinct (map alarm_key alarms)" "\<forall>a \<in> set alarms. ac_Kind a \<in> set percentage_kinds \<longrightarrow> ac_Target a = []"
    and "\<forall>a \<in> set alarms. ac_Kind a = kind \<longrightarrow> go_seconds (ac_CooldownSeconds a) = c" "kind \<in> set percentage_kinds"
  shows "successively (\<lambda>t t'. c \<le> t' - t) (announced_at ft alarms kind st ticks) \<and>
    (\<forall>t. map_of st (kind @ [CHR 0x00]) = Some t \<longrightarrow> announced_at ft alarms kind st ticks = [] \<or>
       c \<le> hd (announced_at ft alarms kind st ticks) - t)"
proof (induction ticks arbitrary: st)
  case (Cons tick ticks)
  obtain s sample now where tick: "tick = (s, sample, now)" by (cases tick)
  obtain st1 out1 where one: "evaluate ft st alarms s now = (st1, out1)" by (cases "evaluate ft st alarms s now")
  obtain st2 out2 where two: "(case sample of None \<Rightarrow> (st1, []) | Some p \<Rightarrow> evaluateContainers st1 alarms p now) = (st2, out2)"
    by (cases "case sample of None \<Rightarrow> (st1, []) | Some p \<Rightarrow> evaluateContainers st1 alarms p now")
  have "map_of st2 (kind @ [CHR 0x00]) = map_of st1 (kind @ [CHR 0x00]) \<and> \<not> shows_alarm kind out2"
  proof (cases sample)
    case None
    then show ?thesis using two by auto
  next
    case (Some x2)
    then have "evaluateContainers st1 alarms x2 now = (st2, out2)" using two by simp
    then show ?thesis using evaluateContainers_apart [OF assms(4), of st1 alarms x2 now] by simp
  qed
  then have apart: "map_of st2 (kind @ [CHR 0x00]) = map_of st1 (kind @ [CHR 0x00])" "\<not> shows_alarm kind out2"
    by blast+
  note ev = evaluate_kind [OF assms(1-3) one [unfolded evaluate_def]]
  note IH = Cons.IH [of st2]
  show ?case
  proof (cases "shows_alarm kind out1")
    case True
    then have "announced_at ft alarms kind st (tick # ticks) = now # announced_at ft alarms kind st2 ticks"
      using apart by (simp add: tick one two)
    then show ?thesis using IH ev True apart by (auto simp: successively_Cons)
  next
    case False
    then have "announced_at ft alarms kind st (tick # ticks) = announced_at ft alarms kind st2 ticks"
      using apart by (simp add: tick one two)
    then show ?thesis using IH ev False apart by simp
  qed
qed simp

text \<open>C36: Alarms of an accepted configuration keep their cooldown: over any sequence of ticks, with any samples and
container listings, two announcements of one percentage alarm are at least its cooldown apart.\<close>

theorem alarms_spaced:
  assumes "ValidateDaemon ce d = Inr v" "a \<in> set (dc_Alarms v)" "ac_Kind a \<in> set percentage_kinds"
  shows "successively (\<lambda>t t'. go_seconds (ac_CooldownSeconds a) \<le> t' - t) (announced_at ft (dc_Alarms v) (ac_Kind a) st ticks)"
proof -
  note fine = accepted_alarms [OF assms(1)]
  have "b = a" if "b \<in> set (dc_Alarms v)" "ac_Kind b = ac_Kind a" for b
  proof -
    have "alarm_key b = alarm_key a" using that assms(2,3) fine by (simp add: alarm_key_def)
    then show ?thesis using fine that(1) assms(2) by (metis distinct_map inj_onD)
  qed
  then have "\<forall>b \<in> set (dc_Alarms v). ac_Kind b = ac_Kind a \<longrightarrow> go_seconds (ac_CooldownSeconds b) = go_seconds (ac_CooldownSeconds a)"
    by blast
  then show ?thesis using announced_spaced [of "dc_Alarms v" "ac_Kind a"] fine assms(3) by blast
qed

theorem alarms_spaced_witness:
  "successively (\<lambda>t t'. 60000000000 \<le> t' - t) (announced_at plain_floats (dc_Alarms demo_accepted) ''cpu_percent'' []
     [(demo_sample 90, None, 0), (demo_sample 95, None, 1000000000), (demo_sample 90, None, 60000000000)])"
  using alarms_spaced [OF demo_valid, of "hd (dc_Alarms demo_accepted)"]
  by (simp add: demo_accepted_def demo_config_def demo_alarm_def percentage_kinds_def go_seconds_def del: announced_at.simps)

section \<open>A status batch in the cloud\<close>

definition uploaded :: "containerStatusEntry \<Rightarrow> status_input" where
  "uploaded e = \<lparr>si_container = se_ContainerID e, si_runtime = se_Runtime e, si_name = se_Name e, si_image = se_Image e,
     si_state = se_State e, si_status = se_Status e, si_compose = se_ComposeProject e\<rparr>"

lemma collected_runtimes:
  assumes "collectRuntimes he now p paths = (p', payload)" "g \<in> set payload"
  shows "rp_Runtime g \<in> set runtime_names"
proof -
  let ?P = "\<lambda>acc :: probe_state \<times> containersPayload. \<forall>g \<in> set (snd acc). rp_Runtime g \<in> set runtime_names"
  have store: "?P (collect_step he now acc store)" if "?P acc" "cst_Runtime store \<in> set runtime_names" for acc store
  proof -
    obtain q out where acc: "acc = (q, out)" by (cases acc)
    obtain q' e where cs: "collectStore he now q store = (q', e)" by (cases "collectStore he now q store")
    have "rp_Runtime (snd (collectStore he now q store)) = cst_Runtime store"
      by (simp add: collectStore_def Let_def split: prod.split sum.split)
    then show ?thesis using that by (simp add: collect_step_def acc cs)
  qed
  have stores: "?P (foldl (collect_step he now) acc ss)" if "?P acc" "\<forall>s \<in> set ss. cst_Runtime s \<in> set runtime_names" for acc ss
    using that
  proof (induction ss arbitrary: acc)
    case (Cons x ss)
    have "?P (collect_step he now acc x)" by (rule store) (use Cons.prems in simp_all)
    then show ?case unfolding foldl_Cons by (rule Cons.IH) (use Cons.prems(2) in simp)
  qed simp
  have probed: "\<forall>s \<in> set (snd (probe_stores he now q runtime path)). cst_Runtime s = runtime" for q runtime path
    by (auto simp: probe_stores_def Let_def split: prod.split if_split_asm)
  have runtime: "?P (collect_runtime he now paths acc runtime)" if "?P acc" "runtime \<in> set runtime_names" for acc runtime
  proof -
    obtain q out where acc: "acc = (q, out)" by (cases acc)
    show ?thesis
    proof (cases "map_of paths runtime")
      case None
      then show ?thesis using that by (simp add: collect_runtime_def acc)
    next
      case (Some path)
      obtain q' ss where ps: "probe_stores he now q runtime path = (q', ss)" by (cases "probe_stores he now q runtime path")
      have "\<forall>s \<in> set ss. cst_Runtime s \<in> set runtime_names" using probed [of q runtime path] ps that(2) by simp
      then show ?thesis using stores [of "(q', out)" ss] that Some ps by (simp add: collect_runtime_def acc)
    qed
  qed
  have "?P (foldl (collect_runtime he now paths) acc rs)" if "?P acc" "set rs \<subseteq> set runtime_names" for acc rs
    using that
  proof (induction rs arbitrary: acc)
    case (Cons x rs)
    have "?P (collect_runtime he now paths acc x)" by (rule runtime) (use Cons.prems in simp_all)
    then show ?case unfolding foldl_Cons by (rule Cons.IH) (use Cons.prems(2) in simp)
  qed simp
  from this [of "(p, [])" runtime_names] show ?thesis using assms by (simp add: collectRuntimes_def)
qed

text \<open>C37: A runtime that does not answer loses nothing in the cloud: when any store of a runtime fails to list its
containers, the batch made of that collection does not cover the runtime, and once the cloud has taken the batch every
container of that runtime it knew of on this host is still there.\<close>

theorem unanswered_runtime_keeps_rows:
  assumes "collectRuntimes he now p paths = (p', payload)" "g \<in> set payload" "\<not> answered g"
    and "containerStatusBatch payload containers composes = (entries, covered)"
    and "IngestContainerStatus ce ds daemonID secret (map uploaded entries) covered rows = Inr rows'" "keys_ok rows"
    and "status_of rows (daemonID, c) = Some r" "kr_runtime r = rp_Runtime g"
  shows "rp_Runtime g \<notin> set covered \<and> status_of rows' (daemonID, c) \<noteq> None"
proof -
  have names: "rp_Runtime g' \<in> {''podman'', ''docker''}" if "g' \<in> set payload" for g'
    using collected_runtimes [OF assms(1) that] by (simp add: runtime_names_def)
  have trim: "trim_space ''podman'' = ''podman''" "trim_space ''docker'' = ''docker''"
    by (rule trim_space_all_graphic, simp)+
  have cov: "covered = filter (\<lambda>runtime. \<not> (\<exists>g \<in> set payload. rp_Runtime g = runtime \<and> \<not> answered g))
      (rev (remdups (rev (map rp_Runtime payload))))"
    using assms(4) by (simp add: containerStatusBatch_def)
  have out: "rp_Runtime g \<notin> set covered" using assms(2,3) by (auto simp: cov)
  have "trim_space x = x" if "x \<in> set covered" for x
  proof -
    from that obtain g' where "g' \<in> set payload" "x = rp_Runtime g'" by (auto simp: cov)
    then show ?thesis using names [of g'] trim by auto
  qed
  then have "trim_space ` set covered = set covered" by force
  moreover have "rp_Runtime g \<noteq> []" using names [OF assms(2)] by auto
  ultimately have kept: "\<not> (kr_runtime r \<in> trim_space ` set covered \<or> kr_runtime r = [])" using out assms(8) by simp
  obtain new where "status_of rows' (daemonID, c) =
      (case status_of new (daemonID, c) of
         Some q \<Rightarrow> Some (merged q (status_of rows (daemonID, c)))
       | None \<Rightarrow> (case status_of rows (daemonID, c) of None \<Rightarrow> None
            | Some r \<Rightarrow> if daemonID = daemonID \<and> covered \<noteq> [] \<and> (kr_runtime r \<in> trim_space ` set covered \<or> kr_runtime r = [])
                then None else Some r))"
    using ingest_snapshot [OF assms(5,6), of daemonID c] by blast
  then have "status_of rows' (daemonID, c) \<noteq> None"
    using kept assms(7) by (cases "status_of new (daemonID, c)") simp_all
  then show ?thesis using out by blast
qed

text \<open>A docker that does not answer and a podman that has none, beside the cloud's row of a container it once ran.\<close>

definition demo_daemon_host :: daemon_host where
  "demo_daemon_host = \<lparr>he_root = True, he_look = (\<lambda>_. None), he_runtimes = (\<lambda>_. None), he_command = (\<lambda>argv. if take 1 argv = [''/usr/bin/podman''] then Inr [] else Inl ''down''),
     he_read = (\<lambda>_. ([], [], Some ''down'')), he_runs = (\<lambda>_. False), he_json = (\<lambda>_. None), he_line = (\<lambda>_. Inl [])\<rparr>"

definition demo_collected :: "probe_state \<times> containersPayload" where
  "demo_collected = collectRuntimes demo_daemon_host 5 new_probe [(''podman'', ''/usr/bin/podman''), (''docker'', ''/usr/bin/docker'')]"

lemma demo_no_containers: "parseContainerLines demo_daemon_host [] = Inr []"
  by (simp add: parseContainerLines_def container_step_def MaxScanTokenSize_def)

lemma demo_stores_read:
  "\<exists>q' g. collectStore demo_daemon_host 5 q \<lparr>cst_Runtime = ''podman'', cst_Path = ''/usr/bin/podman'', cst_Elevated = False\<rparr> = (q', g) \<and>
     rp_Runtime g = ''podman'' \<and> answered g \<and> rp_Containers g = []"
  "\<exists>q' g. collectStore demo_daemon_host 5 q \<lparr>cst_Runtime = ''docker'', cst_Path = ''/usr/bin/docker'', cst_Elevated = False\<rparr> = (q', g) \<and>
     rp_Runtime g = ''docker'' \<and> \<not> answered g \<and> rp_Containers g = []"
  using demo_no_containers
  by (simp_all add: collectStore_def runStoreCommand_def Let_def answered_def split: prod.split) (simp_all add: demo_daemon_host_def)

lemma demo_unanswered:
  "\<exists>g g'. snd demo_collected = [g, g'] \<and> rp_Runtime g = ''podman'' \<and> answered g \<and> rp_Containers g = [] \<and>
     rp_Runtime g' = ''docker'' \<and> \<not> answered g' \<and> rp_Containers g' = []"
proof -
  have own: "probe_stores demo_daemon_host 5 q runtime path =
      (q, [\<lparr>cst_Runtime = runtime, cst_Path = path, cst_Elevated = False\<rparr>])" for q runtime path
    by (simp add: probe_stores_def elevationAttempt_def elevationPrefix_def demo_daemon_host_def)
  obtain q1 g where one: "collectStore demo_daemon_host 5 new_probe \<lparr>cst_Runtime = ''podman'', cst_Path = ''/usr/bin/podman'', cst_Elevated = False\<rparr> = (q1, g)"
    "rp_Runtime g = ''podman'' \<and> answered g \<and> rp_Containers g = []" using demo_stores_read(1) by blast
  obtain q2 g' where two: "collectStore demo_daemon_host 5 q1 \<lparr>cst_Runtime = ''docker'', cst_Path = ''/usr/bin/docker'', cst_Elevated = False\<rparr> = (q2, g')"
    "rp_Runtime g' = ''docker'' \<and> \<not> answered g' \<and> rp_Containers g' = []" using demo_stores_read(2) by blast
  show ?thesis
    using one two by (simp add: demo_collected_def collectRuntimes_def runtime_names_def collect_runtime_def own collect_step_def)
qed

lemma demo_empty_batch:
  "IngestContainerStatus (fleet_cloud 9) [Cloud_Fleet_Facts.demo_daemon] ''d1'' ''s1'' (map uploaded []) [''podman''] [demo_status ''old'' ''exited''] =
     Inr [demo_status ''old'' ''exited'']"
  by code_simp

theorem unanswered_runtime_keeps_rows_witness:
  "status_of [demo_status ''old'' ''exited''] (''d1'', ''old'') \<noteq> None"
proof -
  obtain p payload where c: "demo_collected = (p, payload)" by (cases demo_collected)
  obtain g where g: "g \<in> set payload" "rp_Runtime g = ''docker''" "\<not> answered g"
    using demo_unanswered unfolding c snd_conv by (metis list.set_intros)
  have b: "containerStatusBatch payload [''**''] [] = ([], [''podman''])"
    using demo_unanswered unfolding c by (auto simp: containerStatusBatch_def listed_containers_def)
  have k: "keys_ok [demo_status ''old'' ''exited'']" by (simp add: keys_ok_def)
  have r: "status_of [demo_status ''old'' ''exited''] (''d1'', ''old'') = Some (demo_status ''old'' ''exited'')"
    by (simp add: status_of_def demo_status_def status_key_def)
  have run: "kr_runtime (demo_status ''old'' ''exited'') = rp_Runtime g" by (simp add: demo_status_def g(2))
  show ?thesis
    using unanswered_runtime_keeps_rows [OF c [unfolded demo_collected_def] g(1,3) b
        demo_empty_batch k r run] by blast
qed

end
