(* ===== verification/Daemon_Terminal.thy ===== *)
theory Daemon_Terminal
  imports Daemon_Config Daemon_Files_Run
begin

text \<open>
  The daemon's interactive terminal up to the moment a shell runs: the policy a request is resolved
  against and the command it becomes (\<open>terminal.go\<close>), the WebSocket endpoint (\<open>terminal_ws.go\<close>), the
  sessions handed over by the cloud (\<open>terminal_relay.go\<close>) and the background tmux sessions
  (\<open>terminal_tmux.go\<close>). The handshake library, the pseudo terminal and the host's commands are
  arguments. What a session does once it runs is in \<open>Daemon_Terminal_Session\<close>.
\<close>

section \<open>Requests\<close>

definition terminalDefaultCols :: int where "terminalDefaultCols = 80"
definition terminalDefaultRows :: int where "terminalDefaultRows = 24"
definition terminalMinCols :: int where "terminalMinCols = 1"
definition terminalMaxCols :: int where "terminalMaxCols = 1000"
definition terminalMinRows :: int where "terminalMinRows = 1"
definition terminalMaxRows :: int where "terminalMaxRows = 500"
definition TerminalDefaultMaxSessions :: int where "TerminalDefaultMaxSessions = 2"

datatype terminal_error =
    ShellNotAllowed
  | UserNotAllowed
  | TooManySessions
  | TmuxInvalid
  | TmuxUnavailable
  | PtyUnsupported
  | ShellStartFailed string

fun terminal_error_text :: "terminal_error \<Rightarrow> string" where
  "terminal_error_text ShellNotAllowed = ''terminal shell not allowed''"
| "terminal_error_text UserNotAllowed = ''terminal user not allowed''"
| "terminal_error_text TooManySessions = ''too many terminal sessions''"
| "terminal_error_text TmuxInvalid = ''terminal tmux name is invalid''"
| "terminal_error_text TmuxUnavailable = ''tmux is not installed on this host''"
| "terminal_error_text PtyUnsupported = ''terminal unsupported on this platform: unsupported''"
| "terminal_error_text (ShellStartFailed e) = ''start shell: '' @ e"

definition tmux_rest :: "char \<Rightarrow> bool" where
  "tmux_rest c \<longleftrightarrow> is_alnum c \<or> c = CHR ''_'' \<or> c = CHR ''.'' \<or> c = CHR ''-''"

definition terminalTmuxName :: "string \<Rightarrow> bool" where
  "terminalTmuxName = re_head_rest is_alnum tmux_rest 39"

record terminalRequest =
  tq_Shell :: string
  tq_User :: string
  tq_Cols :: int
  tq_Rows :: int
  tq_Tmux :: string

definition terminalSessionCap :: "TerminalConfig \<Rightarrow> int" where
  "terminalSessionCap policy =
     (if tc_MaxSessions policy \<le> 0 then TerminalDefaultMaxSessions else tc_MaxSessions policy)"

definition terminal_Resolve :: "TerminalConfig \<Rightarrow> terminalRequest \<Rightarrow> terminal_error + terminalRequest" where
  "terminal_Resolve policy req =
     (let shell = (if tq_Shell req = [] \<and> tc_Shells policy \<noteq> [] then hd (tc_Shells policy) else tq_Shell req) in
      if shell \<notin> set (tc_Shells policy) then Inl ShellNotAllowed
      else if tq_User req \<noteq> [] \<and> tq_User req \<notin> set (tc_Users policy) then Inl UserNotAllowed
      else if tq_Tmux req \<noteq> [] \<and> \<not> terminalTmuxName (tq_Tmux req) then Inl TmuxInvalid
      else Inr (req\<lparr>tq_Shell := shell,
        tq_Cols := (if tq_Cols req = 0 then terminalDefaultCols else tq_Cols req),
        tq_Rows := (if tq_Rows req = 0 then terminalDefaultRows else tq_Rows req)\<rparr>))"

section \<open>The command\<close>

text \<open>
  What the host knows: where tmux is, the daemon's home directory (none when it has none) and those of
  the accounts, the daemon's environment, and how starting a command on a pseudo terminal of a size
  fails. A command without an environment inherits the daemon's.
\<close>

record terminal_command =
  tk_argv :: "string list"
  tk_dir :: string
  tk_env :: "string list option"

record terminal_host =
  th_tmux :: "string option"
  th_home :: string
  th_account :: "string \<Rightarrow> string option"
  th_environ :: "string list"
  th_start :: "terminal_command \<Rightarrow> 16 word \<Rightarrow> 16 word \<Rightarrow> terminal_error option"

definition terminal_cwd :: "terminal_host \<Rightarrow> TerminalConfig \<Rightarrow> string \<Rightarrow> string" where
  "terminal_cwd th policy account =
     (let cwd = (if tc_Cwd policy \<noteq> [] then tc_Cwd policy
                 else if account = [] then th_home th
                 else case th_account th account of None \<Rightarrow> [] | Some home \<Rightarrow> home) in
      if cwd = [] then ''/'' else cwd)"

definition buildTerminalCommand ::
  "terminal_host \<Rightarrow> TerminalConfig \<Rightarrow> terminalRequest \<Rightarrow> terminal_error + terminal_command" where
  "buildTerminalCommand th policy req =
     (let cwd = terminal_cwd th policy (tq_User req); env = ''TERM=xterm-256color'' # tc_Env policy in
      rbind (if tq_Tmux req = [] then Inr [tq_Shell req, ''-l'']
             else case th_tmux th of
               None \<Rightarrow> Inl TmuxUnavailable
             | Some bin \<Rightarrow> Inr ([bin, ''-CC'', ''new-session'', ''-A'', ''-s'', tq_Tmux req] @
                 (if tc_Cwd policy \<noteq> [] then [''-c'', tc_Cwd policy] else []))) (\<lambda>argv.
      Inr (if tq_User req = [] then \<lparr>tk_argv = argv, tk_dir = cwd, tk_env = Some (th_environ th @ env)\<rparr>
           else \<lparr>tk_argv = [''sudo'', ''-H'', ''-u'', tq_User req] @ env @ argv, tk_dir = cwd, tk_env = None\<rparr>)))"

section \<open>Opening a session\<close>

text \<open>
  The manager's table of live sessions, by id; here a session is what it was opened with. The size goes
  to the pseudo terminal as \<open>uint16\<close>, whatever the request holds.
\<close>

record open_session =
  os_id :: string
  os_remote :: string
  os_req :: terminalRequest
  os_cmd :: terminal_command
  os_winsize :: "16 word \<times> 16 word"
  os_started :: time

type_synonym terminal_table = "(string \<times> open_session) list"

definition terminal_Count :: "terminal_table \<Rightarrow> int" where
  "terminal_Count m = int (length m)"

definition terminal_Open ::
  "terminal_host \<Rightarrow> time \<Rightarrow> string \<Rightarrow> TerminalConfig \<Rightarrow> terminalRequest \<Rightarrow> string \<Rightarrow> terminal_table
     \<Rightarrow> terminal_error + open_session \<times> terminal_table" where
  "terminal_Open th now i policy req remote m =
     (if terminalSessionCap policy \<le> int (length m) then Inl TooManySessions
      else rbind (buildTerminalCommand th policy req) (\<lambda>cmd.
        let rows = word_of_int (tq_Rows req); cols = word_of_int (tq_Cols req) in
        case th_start th cmd rows cols of
          Some e \<Rightarrow> Inl e
        | None \<Rightarrow>
            let s = \<lparr>os_id = i, os_remote = remote, os_req = req, os_cmd = cmd, os_winsize = (rows, cols), os_started = now\<rparr>
            in Inr (s, put i s m)))"

section \<open>The credential\<close>

definition terminalSubprotocolPrefix :: string where "terminalSubprotocolPrefix = ''maidcafe.terminal.''"

definition terminal_tokens :: "string \<Rightarrow> string list" where
  "terminal_tokens header =
     filter (has_prefix terminalSubprotocolPrefix) (map trim_space (split_on (CHR '','') header))"

text \<open>The first token with the prefix decides.\<close>

definition terminalSubprotocolSecret :: "string \<Rightarrow> string option" where
  "terminalSubprotocolSecret header =
     (case terminal_tokens header of
        [] \<Rightarrow> None
      | token # _ \<Rightarrow>
          let raw = trim_prefix terminalSubprotocolPrefix token in
          if raw = [] then None else b64_rawurl_decode raw)"

definition offeredSubprotocols :: "string \<Rightarrow> string list" where
  "offeredSubprotocols header = take 1 (terminal_tokens header)"

definition terminalCredential :: "string \<Rightarrow> string \<Rightarrow> string option" where
  "terminalCredential protocols authorization =
     (case terminalSubprotocolSecret protocols of Some s \<Rightarrow> Some s | None \<Rightarrow> bearerSecret authorization)"

definition terminalExpectedSecret :: "TerminalConfig \<Rightarrow> string \<Rightarrow> string" where
  "terminalExpectedSecret policy metricsSecret = (if tc_Secret policy \<noteq> [] then tc_Secret policy else metricsSecret)"

text \<open>The constant-time comparison of two byte strings is their equality.\<close>

definition terminal_authorized :: "TerminalConfig \<Rightarrow> string \<Rightarrow> string option \<Rightarrow> bool" where
  "terminal_authorized policy metricsSecret given =
     (let expected = terminalExpectedSecret policy metricsSecret in
      given \<noteq> None \<and> expected \<noteq> [] \<and> the given = expected)"

section \<open>The peer\<close>

text \<open>\<open>net.SplitHostPort\<close>, reduced to the host.\<close>

definition split_host :: "string \<Rightarrow> string option" where
  "split_host hostport =
     (case cut_last (CHR '':'') hostport of
        None \<Rightarrow> None
      | Some (before, port) \<Rightarrow>
          if hd hostport = CHR ''['' then
            (case cut_first (CHR '']'') hostport of
               None \<Rightarrow> None
             | Some (opened, rest) \<Rightarrow>
                 if rest \<noteq> CHR '':'' # port then None
                 else if CHR ''['' \<in> set (tl opened) \<or> CHR ''['' \<in> set rest \<or> CHR '']'' \<in> set rest then None
                 else Some (tl opened))
          else if CHR '':'' \<in> set before then None
          else if CHR ''['' \<in> set hostport \<or> CHR '']'' \<in> set hostport then None
          else Some before)"

definition trim_brackets :: "string \<Rightarrow> string" where
  "trim_brackets s =
     (let bracket = (\<lambda>c. c = CHR ''['' \<or> c = CHR '']'') in rev (dropWhile bracket (rev (dropWhile bracket s))))"

text \<open>The sixteen bytes of \<open>net.IP\<close>: an IPv4 address is the last four.\<close>

definition ip_v4 :: "nat list \<Rightarrow> nat list option" where
  "ip_v4 bs = (if to4_nil bs then None else Some (drop 12 bs))"

definition ip_loopback :: "nat list \<Rightarrow> bool" where
  "ip_loopback bs = (case ip_v4 bs of Some v \<Rightarrow> v ! 0 = 127 | None \<Rightarrow> bs = replicate 15 0 @ [1])"

definition ip_private :: "nat list \<Rightarrow> bool" where
  "ip_private bs =
     (case ip_v4 bs of
        Some v \<Rightarrow> v ! 0 = 10 \<or> (v ! 0 = 172 \<and> v ! 1 div 16 = 1) \<or> (v ! 0 = 192 \<and> v ! 1 = 168)
      | None \<Rightarrow> bs ! 0 div 2 = 126)"

definition ip_link_local :: "nat list \<Rightarrow> bool" where
  "ip_link_local bs =
     (case ip_v4 bs of Some v \<Rightarrow> v ! 0 = 169 \<and> v ! 1 = 254 | None \<Rightarrow> bs ! 0 = 254 \<and> bs ! 1 div 64 = 2)"

text \<open>\<open>100.64.0.0/10\<close>.\<close>

definition terminalCGNAT :: "nat list \<Rightarrow> bool" where
  "terminalCGNAT bs = (case ip_v4 bs of Some v \<Rightarrow> v ! 0 = 100 \<and> v ! 1 div 64 = 1 | None \<Rightarrow> False)"

definition terminalRemoteAllowed :: "TerminalConfig \<Rightarrow> string \<Rightarrow> bool" where
  "terminalRemoteAllowed policy remoteAddr =
     (if tc_AllowRemote policy then True
      else
        let host = (case split_host remoteAddr of None \<Rightarrow> remoteAddr | Some h \<Rightarrow> h) in
        case ParseIP (trim_brackets host) of
          None \<Rightarrow> False
        | Some ip \<Rightarrow> ip_loopback ip \<or> ip_private ip \<or> ip_link_local ip \<or> terminalCGNAT ip)"

section \<open>The endpoint\<close>

text \<open>
  A handshake: its query parameters, the two headers that may carry the credential, and the peer.
\<close>

record handshake =
  hs_query :: "string \<Rightarrow> string"
  hs_protocols :: string
  hs_authorization :: string
  hs_remoteAddr :: string

definition terminalQueryDimension :: "string \<Rightarrow> int \<Rightarrow> int \<Rightarrow> int option" where
  "terminalQueryDimension raw lo hi =
     (let value = trim_space raw in
      if value = [] then Some 0
      else case atoi value of
        None \<Rightarrow> None
      | Some parsed \<Rightarrow> if parsed < lo \<or> hi < parsed then None else Some parsed)"

definition terminalQueryRequest :: "handshake \<Rightarrow> (nat \<times> string) + terminalRequest" where
  "terminalQueryRequest h =
     (case terminalQueryDimension (hs_query h ''cols'') terminalMinCols terminalMaxCols of
        None \<Rightarrow> Inl (400, ''cols must be an integer between 1 and 1000'')
      | Some cols \<Rightarrow>
          (case terminalQueryDimension (hs_query h ''rows'') terminalMinRows terminalMaxRows of
             None \<Rightarrow> Inl (400, ''rows must be an integer between 1 and 500'')
           | Some rows \<Rightarrow>
               Inr \<lparr>tq_Shell = trim_space (hs_query h ''shell''), tq_User = trim_space (hs_query h ''user''),
                 tq_Cols = cols, tq_Rows = rows, tq_Tmux = trim_space (hs_query h ''tmux'')\<rparr>))"

fun resolve_status :: "terminal_error \<Rightarrow> nat" where
  "resolve_status ShellNotAllowed = 403"
| "resolve_status UserNotAllowed = 403"
| "resolve_status _ = 400"

text \<open>
  How a handshake ends: an HTTP refusal; the library refusing the upgrade, or negotiating no subprotocol
  although a token was offered; a session that could not start, told in a frame on the socket and in the
  audit trail; or a session that runs. \<open>accept\<close> is the library: given the offered subprotocols and the
  origin patterns, the one it negotiated, or none when it refused.
\<close>

datatype terminal_outcome =
    TermRefused nat string
  | UpgradeRefused
  | ConnDropped
  | TermStartFailed terminal_error
  | TermRuns open_session terminal_table

record terminal_env =
  te_host :: terminal_host
  te_accept :: "string list \<Rightarrow> string list \<Rightarrow> string option"
  te_now :: time
  te_id :: string

definition handleTerminal ::
  "terminal_env \<Rightarrow> TerminalConfig \<Rightarrow> string \<Rightarrow> handshake \<Rightarrow> terminal_table \<Rightarrow> terminal_outcome" where
  "handleTerminal te policy metricsSecret h m =
     (if \<not> tc_Enabled policy then TermRefused 403 ''terminal disabled''
      else if \<not> terminalRemoteAllowed policy (hs_remoteAddr h) then TermRefused 403 ''terminal remote access is disabled''
      else if \<not> terminal_authorized policy metricsSecret (terminalCredential (hs_protocols h) (hs_authorization h))
      then TermRefused 401 ''unauthorized''
      else case terminalQueryRequest h of
        Inl (status, e) \<Rightarrow> TermRefused status e
      | Inr asked \<Rightarrow>
      (case terminal_Resolve policy asked of
        Inl e \<Rightarrow> TermRefused (resolve_status e) (terminal_error_text e)
      | Inr req \<Rightarrow>
          if tq_Tmux req \<noteq> [] \<and> th_tmux (te_host te) = None then TermRefused 501 (terminal_error_text TmuxUnavailable)
          else if terminalSessionCap policy \<le> terminal_Count m then TermRefused 429 ''too many terminal sessions''
          else case te_accept te (offeredSubprotocols (hs_protocols h)) (tc_AllowedOrigins policy) of
            None \<Rightarrow> UpgradeRefused
          | Some negotiated \<Rightarrow>
              if terminalSubprotocolSecret (hs_protocols h) \<noteq> None \<and> negotiated = [] then ConnDropped
              else case terminal_Open (te_host te) (te_now te) (te_id te) policy req (hs_remoteAddr h) m of
                Inl e \<Rightarrow> TermStartFailed e
              | Inr (s, m') \<Rightarrow> TermRuns s m'))"

section \<open>Sessions handed over by the cloud\<close>

definition TerminalRelayDefaultPollWait :: time where "TerminalRelayDefaultPollWait = seconds 20"
definition terminalRelayPollBackoff :: time where "terminalRelayPollBackoff = seconds 5"
definition terminalRelayPollGrace :: time where "terminalRelayPollGrace = seconds 15"

definition terminalRelayPollWait :: "TerminalConfig \<Rightarrow> time" where
  "terminalRelayPollWait policy =
     (let wait = tr_PollWait (tc_Relay policy) in if wait \<le> 0 then TerminalRelayDefaultPollWait else wait)"

definition terminalRelayIdentityAllowed :: "TerminalConfig \<Rightarrow> string \<Rightarrow> bool" where
  "terminalRelayIdentityAllowed policy identity \<longleftrightarrow>
     tr_Users (tc_Relay policy) = [] \<or> identity \<in> set (tr_Users (tc_Relay policy))"

record terminalRelaySession =
  ts_ID :: string
  ts_Req :: terminalRequest
  ts_InvokedBy :: string

datatype close_code = PolicyViolation | InternalError

text \<open>
  A handed session is dialed first; then every refusal is a frame with a close code on that socket.
  \<open>reachable\<close> says whether there is a publisher with an agent address and the dial succeeds.
\<close>

datatype relay_outcome =
    RelayUnreachable
  | RelayRejected close_code string
  | RelayRuns open_session terminal_table

definition relay_serve ::
  "terminal_env \<Rightarrow> TerminalConfig \<Rightarrow> bool \<Rightarrow> terminalRelaySession \<Rightarrow> terminal_table \<Rightarrow> relay_outcome" where
  "relay_serve te policy reachable handed m =
     (if \<not> reachable then RelayUnreachable
      else if \<not> tr_Enabled (tc_Relay policy) then RelayRejected PolicyViolation ''terminal relay disabled''
      else if \<not> terminalRelayIdentityAllowed policy (ts_InvokedBy handed)
      then RelayRejected PolicyViolation ''terminal identity not allowed''
      else case terminal_Resolve policy (ts_Req handed) of
        Inl e \<Rightarrow> RelayRejected PolicyViolation (terminal_error_text e)
      | Inr req \<Rightarrow>
          if terminalSessionCap policy \<le> terminal_Count m then RelayRejected PolicyViolation ''too many terminal sessions''
          else case terminal_Open (te_host te) (te_now te) (te_id te) policy req (''cloud:'' @ ts_InvokedBy handed) m of
            Inl e \<Rightarrow> RelayRejected InternalError (terminal_error_text e)
          | Inr (s, m') \<Rightarrow> RelayRuns s m')"

text \<open>
  One turn of \<open>Run\<close>: how long it sleeps, or the sessions it starts a goroutine for. A poll has the
  request timeout it is given and gives nothing when it fails.
\<close>

datatype relay_turn = RelaySleeps time | RelayServes "terminalRelaySession list"

definition relay_turn_of :: "TerminalConfig \<Rightarrow> (time \<Rightarrow> time \<Rightarrow> terminalRelaySession list option) \<Rightarrow> relay_turn" where
  "relay_turn_of policy poll =
     (if \<not> tr_Enabled (tc_Relay policy) then RelaySleeps terminalRelayPollBackoff
      else let wait = terminalRelayPollWait policy in
        case poll wait (wait + terminalRelayPollGrace) of
          None \<Rightarrow> RelaySleeps terminalRelayPollBackoff
        | Some sessions \<Rightarrow> RelayServes sessions)"

section \<open>Background tmux sessions\<close>

definition tmuxCommand :: "terminal_host \<Rightarrow> string \<Rightarrow> string list \<Rightarrow> terminal_error + string list" where
  "tmuxCommand th account args =
     (case th_tmux th of
        None \<Rightarrow> Inl TmuxUnavailable
      | Some bin \<Rightarrow> Inr (if account = [] then bin # args else [''sudo'', ''-H'', ''-u'', account, bin] @ args))"

definition tmuxListFormat :: string where
  "tmuxListFormat = ''#{session_name}'' @ [CHR 0x09] @ ''#{session_windows}'' @ [CHR 0x09] @ ''#{session_created}'' @
     [CHR 0x09] @ ''#{session_attached}''"

record tmuxSessionView =
  tv_Name :: string
  tv_Windows :: int
  tv_Created :: int
  tv_Attached :: int

definition tmux_row :: "string \<Rightarrow> tmuxSessionView option" where
  "tmux_row raw =
     (let line = rev (dropWhile (\<lambda>c. c = CHR 0x0D) (rev raw)) in
      if trim_space line = [] then None
      else case split_on (CHR 0x09) line of
        name # windows # created # attached # _ \<Rightarrow>
          (case (atoi (trim_space windows), atoi (trim_space created), atoi (trim_space attached)) of
             (Some w, Some c, Some a) \<Rightarrow> Some \<lparr>tv_Name = name, tv_Windows = w, tv_Created = c, tv_Attached = a\<rparr>
           | _ \<Rightarrow> None)
      | _ \<Rightarrow> None)"

definition parseTmuxSessions :: "string \<Rightarrow> tmuxSessionView list" where
  "parseTmuxSessions output = List.map_filter tmux_row (split_on (CHR 0x0A) output)"

text \<open>
  A command's end: its output, or its exit status (none when it did not run to one), what it wrote to
  the standard error, and the error's own text.
\<close>

datatype command_end = RanOk bytes | RanBad "int option" bytes string

definition command_message :: "bytes \<Rightarrow> string \<Rightarrow> string" where
  "command_message stderr err = (if trim_space stderr = [] then err else trim_space stderr)"

text \<open>The listing; none when tmux is not installed.\<close>

definition listTmuxSessions ::
  "terminal_host \<Rightarrow> (string list \<Rightarrow> command_end) \<Rightarrow> string \<Rightarrow> string + tmuxSessionView list option" where
  "listTmuxSessions th run account =
     (case tmuxCommand th account [''list-sessions'', ''-F'', tmuxListFormat] of
        Inl _ \<Rightarrow> Inr None
      | Inr argv \<Rightarrow>
          (case run argv of
             RanOk out \<Rightarrow> Inr (Some (parseTmuxSessions out))
           | RanBad code stderr err \<Rightarrow>
               if code = Some 1 \<and> contains ''no server running'' (to_lower stderr) then Inr (Some [])
               else Inl (''list tmux sessions: '' @ command_message stderr err)))"

definition tmuxSessionExists :: "terminal_host \<Rightarrow> (string list \<Rightarrow> command_end) \<Rightarrow> string \<Rightarrow> string \<Rightarrow> bool" where
  "tmuxSessionExists th run account name =
     (case tmuxCommand th account [''has-session'', ''-t'', CHR ''='' # name] of
        Inl _ \<Rightarrow> False
      | Inr argv \<Rightarrow> (case run argv of RanOk _ \<Rightarrow> True | RanBad _ _ _ \<Rightarrow> False))"

definition killTmuxSession :: "terminal_host \<Rightarrow> (string list \<Rightarrow> command_end) \<Rightarrow> string \<Rightarrow> string \<Rightarrow> string + unit" where
  "killTmuxSession th run account name =
     (case tmuxCommand th account [''kill-session'', ''-t'', name] of
        Inl e \<Rightarrow> Inl (terminal_error_text e)
      | Inr argv \<Rightarrow>
          (case run argv of
             RanOk _ \<Rightarrow> Inr ()
           | RanBad _ stderr err \<Rightarrow> Inl (''kill tmux session: '' @ command_message stderr err)))"

definition terminalSessionsGate :: "TerminalConfig \<Rightarrow> string \<Rightarrow> handshake \<Rightarrow> (nat \<times> string) + string" where
  "terminalSessionsGate policy metricsSecret h =
     (let account = trim_space (hs_query h ''user'') in
      if \<not> terminal_authorized policy metricsSecret (bearerSecret (hs_authorization h)) then Inl (401, ''unauthorized'')
      else if \<not> tc_Enabled policy then Inl (403, ''terminal disabled'')
      else if account \<noteq> [] \<and> account \<notin> set (tc_Users policy) then Inl (403, ''terminal user not allowed'')
      else Inr account)"

definition handleTerminalSessions ::
  "terminal_host \<Rightarrow> (string list \<Rightarrow> command_end) \<Rightarrow> TerminalConfig \<Rightarrow> string \<Rightarrow> handshake
     \<Rightarrow> (nat \<times> string) + tmuxSessionView list" where
  "handleTerminalSessions th run policy metricsSecret h =
     rbind (terminalSessionsGate policy metricsSecret h) (\<lambda>account.
       case listTmuxSessions th run account of
         Inl e \<Rightarrow> Inl (500, e)
       | Inr None \<Rightarrow> Inl (501, terminal_error_text TmuxUnavailable)
       | Inr (Some sessions) \<Rightarrow> Inr sessions)"

definition handleTerminalSessionKill ::
  "terminal_host \<Rightarrow> (string list \<Rightarrow> command_end) \<Rightarrow> TerminalConfig \<Rightarrow> string \<Rightarrow> handshake \<Rightarrow> string
     \<Rightarrow> (nat \<times> string) + unit" where
  "handleTerminalSessionKill th run policy metricsSecret h param =
     rbind (terminalSessionsGate policy metricsSecret h) (\<lambda>account.
       let name = trim_space param in
       if \<not> terminalTmuxName name then Inl (400, terminal_error_text TmuxInvalid)
       else if th_tmux th = None then Inl (501, terminal_error_text TmuxUnavailable)
       else if \<not> tmuxSessionExists th run account name then Inl (404, ''no such tmux session'')
       else case killTmuxSession th run account name of Inl e \<Rightarrow> Inl (500, e) | Inr _ \<Rightarrow> Inr ())"

end
