(* ===== verification/Daemon_Terminal_Facts.thy ===== *)
theory Daemon_Terminal_Facts
  imports Daemon_Terminal
begin

text \<open>
  What the gates of the terminal keep: who gets a shell, as whom, and with which command line, over the
  daemon's own endpoint and over the cloud's relay.
\<close>

section \<open>A resolved request\<close>

lemma Resolve_Inr:
  "terminal_Resolve policy req = Inr r \<Longrightarrow>
     tq_Shell r \<in> set (tc_Shells policy) \<and> (tq_User r = [] \<or> tq_User r \<in> set (tc_Users policy)) \<and>
     (tq_Tmux r = [] \<or> terminalTmuxName (tq_Tmux r)) \<and> tq_User r = tq_User req \<and> tq_Tmux r = tq_Tmux req \<and>
     tq_Cols r = (if tq_Cols req = 0 then terminalDefaultCols else tq_Cols req) \<and>
     tq_Rows r = (if tq_Rows req = 0 then terminalDefaultRows else tq_Rows req)"
  by (auto simp: terminal_Resolve_def Let_def split: if_split_asm)

lemma tmux_name_start:
  "terminalTmuxName s \<Longrightarrow> s \<noteq> [] \<and> is_alnum (hd s) \<and> list_all (\<lambda>c. is_alnum c \<or> tmux_rest c) s \<and> length s \<le> 40"
  using re_head_rest_props [of is_alnum tmux_rest 39 s] by (auto simp: terminalTmuxName_def list_all_iff)

text \<open>The parts of a command line: the tools, what the operator wrote, and the name a client may choose.\<close>

definition own_words :: "terminal_host \<Rightarrow> string set" where
  "own_words th = {''-l'', ''-CC'', ''new-session'', ''-A'', ''-s'', ''-c'', ''sudo'', ''-H'', ''-u'', ''TERM=xterm-256color''} \<union>
     (case th_tmux th of None \<Rightarrow> {} | Some bin \<Rightarrow> {bin})"

definition operator_words :: "TerminalConfig \<Rightarrow> string set" where
  "operator_words policy = set (tc_Shells policy) \<union> set (tc_Users policy) \<union> set (tc_Env policy) \<union> {tc_Cwd policy}"

lemma build_words:
  assumes "buildTerminalCommand th policy r = Inr cmd" "tq_Shell r \<in> set (tc_Shells policy)"
    "tq_User r = [] \<or> tq_User r \<in> set (tc_Users policy)" "w \<in> set (tk_argv cmd)"
  shows "w \<in> own_words th \<union> operator_words policy \<or> (w = tq_Tmux r \<and> tq_Tmux r \<noteq> [])"
  using assms by (auto simp: buildTerminalCommand_def Let_def own_words_def operator_words_def split: if_split_asm option.split_asm)

lemma build_sudo:
  "buildTerminalCommand th policy r = Inr cmd \<Longrightarrow> tq_User r \<noteq> [] \<Longrightarrow> take 4 (tk_argv cmd) = [''sudo'', ''-H'', ''-u'', tq_User r]"
  by (auto simp: buildTerminalCommand_def Let_def split: if_split_asm option.split_asm)

lemma Open_Inr:
  assumes "terminal_Open th now i policy req remote m = Inr (s, m')"
  shows "buildTerminalCommand th policy req = Inr (os_cmd s) \<and> os_req s = req \<and> os_remote s = remote \<and> os_id s = i \<and>
    int (length m) < terminalSessionCap policy \<and> m' = put i s m \<and> os_winsize s = (word_of_int (tq_Rows req), word_of_int (tq_Cols req))"
  using assms by (auto simp: terminal_Open_def Let_def split: if_split_asm option.split_asm)

definition granted :: "terminal_host \<Rightarrow> TerminalConfig \<Rightarrow> open_session \<Rightarrow> bool" where
  "granted th policy s \<longleftrightarrow>
     tq_Shell (os_req s) \<in> set (tc_Shells policy) \<and>
     (tq_User (os_req s) = [] \<or> tq_User (os_req s) \<in> set (tc_Users policy)) \<and>
     (tq_User (os_req s) \<noteq> [] \<longrightarrow> take 4 (tk_argv (os_cmd s)) = [''sudo'', ''-H'', ''-u'', tq_User (os_req s)]) \<and>
     (\<forall>w \<in> set (tk_argv (os_cmd s)). w \<in> own_words th \<union> operator_words policy \<or> terminalTmuxName w)"

lemma opened_granted:
  assumes "terminal_Resolve policy asked = Inr req" "terminal_Open th now i policy req remote m = Inr (s, m')"
  shows "granted th policy s"
proof -
  note r = Resolve_Inr [OF assms(1)] and o = Open_Inr [OF assms(2)]
  have "take 4 (tk_argv (os_cmd s)) = [''sudo'', ''-H'', ''-u'', tq_User req]" if "tq_User req \<noteq> []"
    using o that build_sudo by blast
  then show ?thesis using r o build_words [of th policy req "os_cmd s"] unfolding granted_def by blast
qed


text \<open>A member of the workspace, handed a shell through the cloud.\<close>

definition demo_policy :: TerminalConfig where
  "demo_policy = \<lparr>tc_Enabled = False, tc_Secret = [], tc_Shells = [''/bin/sh''], tc_Users = [''deploy''], tc_Cwd = ''/srv'', tc_Env = [],
     tc_AllowedOrigins = [], tc_AllowRemote = False, tc_MaxSessions = 0, tc_IdleTimeout = 0, tc_MaxLifetime = 0,
     tc_Relay = \<lparr>tr_Enabled = True, tr_Users = [''alice''], tr_PollWait = 0\<rparr>\<rparr>"

definition demo_terminal_env :: terminal_env where
  "demo_terminal_env = \<lparr>te_host = \<lparr>th_tmux = None, th_home = [], th_account = (\<lambda>_. None), th_environ = [], th_start = (\<lambda>_ _ _. None)\<rparr>,
     te_accept = (\<lambda>_ _. Some []), te_now = 7, te_id = ''s1''\<rparr>"

definition demo_handed :: terminalRelaySession where
  "demo_handed = \<lparr>ts_ID = ''c1'', ts_Req = \<lparr>tq_Shell = [], tq_User = ''deploy'', tq_Cols = 0, tq_Rows = 30, tq_Tmux = []\<rparr>, ts_InvokedBy = ''alice''\<rparr>"

definition demo_open :: open_session where
  "demo_open = \<lparr>os_id = ''s1'', os_remote = ''cloud:alice'',
     os_req = \<lparr>tq_Shell = ''/bin/sh'', tq_User = ''deploy'', tq_Cols = 80, tq_Rows = 30, tq_Tmux = []\<rparr>,
     os_cmd = \<lparr>tk_argv = [''sudo'', ''-H'', ''-u'', ''deploy'', ''TERM=xterm-256color'', ''/bin/sh'', ''-l''], tk_dir = ''/srv'', tk_env = None\<rparr>,
     os_winsize = (30, 80), os_started = 7\<rparr>"

lemma demo_relay_runs: "relay_serve demo_terminal_env demo_policy True demo_handed [] = RelayRuns demo_open [(''s1'', demo_open)]"
  by (simp add: relay_serve_def demo_policy_def demo_handed_def terminalRelayIdentityAllowed_def terminal_Resolve_def
      terminal_Count_def terminalSessionCap_def TerminalDefaultMaxSessions_def terminalDefaultCols_def terminal_Open_def
      buildTerminalCommand_def terminal_cwd_def demo_terminal_env_def demo_open_def Let_def)


section \<open>Peers with a zone\<close>

text \<open>
  A link-local IPv6 peer is reported with its interface, as in \<open>fe80::1%eth0\<close>. \<open>ParseIP\<close> takes no
  zone, so such a peer is refused although link-local addresses are meant to be admitted.
\<close>

lemma zone_unparsed: "CHR ''%'' \<in> set s \<Longrightarrow> ParseIP s = None"
proof -
  assume z: "CHR ''%'' \<in> set s"
  have "\<not> addr_char (CHR ''%'')" by (simp add: addr_char_def is_hex_def is_digit_def)
  then have "\<not> list_all addr_char s" using z by (auto simp: list_all_iff)
  then show ?thesis using ParseIP_chars by (cases "ParseIP s") auto
qed

lemma link_local_peer_refused:
  "terminalRemoteAllowed demo_policy ''[fe80::1]:50000'' \<and> \<not> terminalRemoteAllowed demo_policy ''[fe80::1%eth0]:50000''"
proof -
  have host: "split_host ''[fe80::1]:50000'' = Some ''fe80::1''" "split_host ''[fe80::1%eth0]:50000'' = Some ''fe80::1%eth0''"
    by (simp_all add: split_host_def cut_first_def cut_last_def)
  have bare: "trim_brackets ''fe80::1'' = ''fe80::1''" "trim_brackets ''fe80::1%eth0'' = ''fe80::1%eth0''"
    by (simp_all add: trim_brackets_def)
  have "v6_groups (Suc (Suc k)) ''fe80::1'' [] None = Some ([254, 128, 0, 1], Some 2, [])" for k
    by (simp add: is_hex_def is_digit_def hex_val_def)
  from this [of 6] have "ParseIP ''fe80::1'' = Some ([254, 128] @ replicate 12 0 @ [0, 1])"
    by (simp add: ParseIP_def parse_addr_def parse_v6_def has_prefix_def)
  moreover have "ParseIP ''fe80::1%eth0'' = None" by (rule zone_unparsed) simp
  moreover have "254 # x \<noteq> replicate 10 0 @ [255, 255 :: nat]" for x
    by (metis hd_append2 hd_replicate list.sel(1) replicate_empty zero_neq_numeral)
  ultimately show ?thesis
    by (simp add: terminalRemoteAllowed_def host bare ip_link_local_def ip_v4_def to4_nil_def) (simp add: demo_policy_def)
qed

end
