(* ===== verification/Daemon_Terminal_Session.thy ===== *)
theory Daemon_Terminal_Session
  imports Daemon_Terminal
begin

text \<open>
  A running terminal session (\<open>terminal.go\<close>, \<open>terminal_ws.go\<close>): the goroutine that reads the pseudo
  terminal, the one that reaps the shell, the pump that writes to the client, the loop that reads from
  it, and whoever closes the session first. They share the session's state; \<open>sstep\<close> is one atomic move
  of any of them. Time is left open: where the code waits for something or a grace to pass, both may
  happen. \<open>Daemon_Terminal_Session_Facts\<close> has what holds of every reachable state.
\<close>

section \<open>State\<close>

definition terminalOutputQueue :: nat where "terminalOutputQueue = 64"

datatype term_frame =
    HelloF
  | ChunkF bytes
  | ErrorF string
  | ExitF int string

text \<open>Where the pump is: not yet greeting, in its loop, inside a \<open>Close\<close> of its own, after the shell's end, gone.\<close>

datatype pump_at = PumpStart | PumpLoop | PumpClosing | PumpExiting | PumpGone

text \<open>How far the first \<open>Close\<close> is: the group signalled, the end released, the session unlisted, recorded.\<close>

datatype closer_at = NotClosing | Signalled | Released | Unlisted | Recorded

text \<open>
  \<open>sn_written\<close> is all the shell has written and \<open>sn_pty\<close> what of it is not yet read; \<open>sn_held\<close> is the
  chunk the reader is about to queue. \<open>sn_done\<close> is the closed channel of the shell's end, \<open>sn_loop\<close>
  whether the client's frames are still read.
\<close>

record term_session =
  sn_written :: "bytes list"
  sn_pty :: "bytes list"
  sn_held :: "bytes option"
  sn_out :: "bytes list"
  sn_readDone :: bool
  sn_waited :: "int option"
  sn_done :: bool
  sn_exit :: int
  sn_closed :: bool
  sn_reason :: string
  sn_closer :: closer_at
  sn_listed :: bool
  sn_audit :: "(bool \<times> int \<times> string) list"
  sn_frames :: "term_frame list"
  sn_pump :: pump_at
  sn_loop :: bool
  sn_size :: "int \<times> int"

definition session_start :: "int \<times> int \<Rightarrow> term_session" where
  "session_start dims =
     \<lparr>sn_written = [], sn_pty = [], sn_held = None, sn_out = [], sn_readDone = False, sn_waited = None, sn_done = False,
      sn_exit = 0, sn_closed = False, sn_reason = [], sn_closer = NotClosing, sn_listed = True, sn_audit = [],
      sn_frames = [], sn_pump = PumpStart, sn_loop = True, sn_size = dims\<rparr>"

section \<open>Operations\<close>

definition session_finish :: "int \<Rightarrow> term_session \<Rightarrow> term_session" where
  "session_finish code s = (if sn_done s then s else s\<lparr>sn_done := True, sn_exit := code\<rparr>)"

text \<open>\<open>closeSession\<close> up to the signal: only the first call does anything.\<close>

definition close_begin :: "string \<Rightarrow> term_session \<Rightarrow> term_session" where
  "close_begin reason s =
     (if sn_closed s then s
      else s\<lparr>sn_closed := True, sn_reason := (if sn_reason s = [] then reason else sn_reason s), sn_closer := Signalled\<rparr>)"

text \<open>Its end: the forced finish, the removal from the table, the audit entry.\<close>

definition close_release :: "term_session \<Rightarrow> term_session" where
  "close_release s = (session_finish (sn_exit s) s)\<lparr>sn_closer := Released\<rparr>"

definition close_unlist :: "term_session \<Rightarrow> term_session" where
  "close_unlist s = s\<lparr>sn_listed := False, sn_closer := Unlisted\<rparr>"

definition close_record :: "term_session \<Rightarrow> term_session" where
  "close_record s =
     s\<lparr>sn_audit := sn_audit s @ [(sn_exit s = 0 \<and> sn_reason s = [], sn_exit s, sn_reason s)], sn_closer := Recorded\<rparr>"

text \<open>
  A receive from the queue. A reader that waits at a full queue hands its chunk over in the same move,
  as a Go channel does.
\<close>

definition queue_rest :: "term_session \<Rightarrow> term_session" where
  "queue_rest s =
     (if length (sn_out s) = terminalOutputQueue
      then s\<lparr>sn_out := tl (sn_out s) @ (case sn_held s of None \<Rightarrow> [] | Some c \<Rightarrow> [c]), sn_held := None\<rparr>
      else s\<lparr>sn_out := tl (sn_out s)\<rparr>)"

definition send_frame :: "term_frame \<Rightarrow> term_session \<Rightarrow> term_session" where
  "send_frame f s = s\<lparr>sn_frames := sn_frames s @ [f]\<rparr>"

text \<open>The exit frame, then the closing of the connection. The second is its close code and reason.\<close>

definition terminalCloseReason :: "string \<Rightarrow> string" where
  "terminalCloseReason reason = (if reason = [] then ''shell exited'' else take 100 reason)"

definition exit_close :: "term_session \<Rightarrow> nat \<times> string" where
  "exit_close s = (if sn_reason s = ''protocol error'' then 1008 else 1000, terminalCloseReason (sn_reason s))"

section \<open>The client's frames\<close>

text \<open>
  A text frame is decoded into its type and its two dimensions, each of which may be missing; nothing
  when it is not such an object.
\<close>

datatype client_message =
    Keys bytes
  | TextFrame "(string \<times> int option \<times> int option) option"
  | OtherFrame

definition terminalResize :: "int option \<Rightarrow> int option \<Rightarrow> string + int \<times> int" where
  "terminalResize cols rows =
     (case cols of
        None \<Rightarrow> Inl ''resize cols must be an integer between 1 and 1000''
      | Some c \<Rightarrow>
          if c < terminalMinCols \<or> terminalMaxCols < c then Inl ''resize cols must be an integer between 1 and 1000''
          else case rows of
            None \<Rightarrow> Inl ''resize rows must be an integer between 1 and 500''
          | Some r \<Rightarrow>
              if r < terminalMinRows \<or> terminalMaxRows < r then Inl ''resize rows must be an integer between 1 and 500''
              else Inr (c, r))"

definition protocol_break :: "string \<Rightarrow> term_session \<Rightarrow> term_session" where
  "protocol_break message s = (close_begin ''protocol error'' (send_frame (ErrorF message) s))\<lparr>sn_loop := False\<rparr>"

text \<open>
  One turn of the read loop. \<open>pty\<close> says whether the write or the resize of the pseudo terminal
  succeeded, or with what error.
\<close>

definition read_turn :: "client_message \<Rightarrow> string option \<Rightarrow> term_session \<Rightarrow> term_session" where
  "read_turn message pty s =
     (case message of
        Keys _ \<Rightarrow> (case pty of None \<Rightarrow> s | Some _ \<Rightarrow> (close_begin ''client unreachable'' s)\<lparr>sn_loop := False\<rparr>)
      | TextFrame (Some (kind, cols, rows)) \<Rightarrow>
          if kind \<noteq> ''resize'' then protocol_break ''unsupported control frame'' s
          else (case terminalResize cols rows of
            Inl e \<Rightarrow> protocol_break e s
          | Inr dims \<Rightarrow>
              (case pty of None \<Rightarrow> s\<lparr>sn_size := dims\<rparr> | Some e \<Rightarrow> protocol_break (''resize terminal: '' @ e) s))
      | TextFrame None \<Rightarrow> protocol_break ''unsupported control frame'' s
      | OtherFrame \<Rightarrow> protocol_break ''unsupported message type'' s)"

text \<open>The loop is over: the session is released, as the client's doing unless the shell has ended.\<close>

definition client_over :: "term_session \<Rightarrow> term_session" where
  "client_over s = (close_begin (if sn_done s then [] else ''client closed'') s)\<lparr>sn_loop := False\<rparr>"

section \<open>Steps\<close>

text \<open>
  The shell writes; the reader reads, queues, gives up when the session closes, or ends; the shell is
  waited for and reaped, after the reader or after the drain grace.
\<close>

inductive shell_step :: "term_session \<Rightarrow> term_session \<Rightarrow> bool" where
  writes: "sn_waited s = None \<Longrightarrow> shell_step s (s\<lparr>sn_written := sn_written s @ [c], sn_pty := sn_pty s @ [c]\<rparr>)"
| reads: "\<not> sn_readDone s \<Longrightarrow> sn_held s = None \<Longrightarrow> sn_pty s = c # cs \<Longrightarrow>
    shell_step s (s\<lparr>sn_pty := cs, sn_held := Some c\<rparr>)"
| queues: "sn_held s = Some c \<Longrightarrow> length (sn_out s) < terminalOutputQueue \<Longrightarrow>
    shell_step s (s\<lparr>sn_out := sn_out s @ [c], sn_held := None\<rparr>)"
| gives_up: "sn_held s = Some c \<Longrightarrow> sn_closed s \<Longrightarrow> shell_step s (s\<lparr>sn_held := None, sn_readDone := True\<rparr>)"
| ends: "\<not> sn_readDone s \<Longrightarrow> sn_held s = None \<Longrightarrow> sn_pty s = [] \<Longrightarrow> sn_waited s \<noteq> None \<Longrightarrow>
    shell_step s (s\<lparr>sn_readDone := True\<rparr>)"
| pty_closed: "\<not> sn_readDone s \<Longrightarrow> sn_held s = None \<Longrightarrow> sn_closer s \<in> {Released, Unlisted, Recorded} \<Longrightarrow>
    shell_step s (s\<lparr>sn_readDone := True\<rparr>)"
| waited: "sn_waited s = None \<Longrightarrow> shell_step s (s\<lparr>sn_waited := Some code\<rparr>)"
| reaped: "sn_waited s = Some code \<Longrightarrow> sn_readDone s \<Longrightarrow> shell_step s (session_finish code s)"
| reaped_late: "sn_waited s = Some code \<Longrightarrow> \<not> sn_readDone s \<Longrightarrow> shell_step s (session_finish code s)"

text \<open>The first \<open>Close\<close>: it waits for the end, or for its two graces, then finishes, unlists and records.\<close>

inductive closer_step :: "term_session \<Rightarrow> term_session \<Rightarrow> bool" where
  released: "sn_closer s = Signalled \<Longrightarrow> closer_step s (close_release s)"
| unlisted: "sn_closer s = Released \<Longrightarrow> closer_step s (close_unlist s)"
| recorded: "sn_closer s = Unlisted \<Longrightarrow> closer_step s (close_record s)"

text \<open>
  The pump greets, forwards, closes a session that is idle, too old or whose client cannot be reached,
  and after the shell's end drains the queue and reports it.
\<close>

inductive pump_step :: "term_session \<Rightarrow> term_session \<Rightarrow> bool" where
  greets: "sn_pump s = PumpStart \<Longrightarrow> pump_step s (send_frame HelloF (s\<lparr>sn_pump := PumpLoop\<rparr>))"
| forwards: "sn_pump s = PumpLoop \<Longrightarrow> sn_out s = c # cs \<Longrightarrow> pump_step s (send_frame (ChunkF c) (queue_rest s))"
| write_fails: "sn_pump s = PumpLoop \<Longrightarrow> sn_out s = c # cs \<Longrightarrow>
    pump_step s (close_begin ''client unreachable'' ((queue_rest s)\<lparr>sn_pump := PumpGone\<rparr>))"
| ping_fails: "sn_pump s = PumpLoop \<Longrightarrow> pump_step s (close_begin ''client unreachable'' (s\<lparr>sn_pump := PumpGone\<rparr>))"
| too_idle: "sn_pump s = PumpLoop \<Longrightarrow> r \<in> {''idle timeout'', ''lifetime exceeded''} \<Longrightarrow>
    pump_step s (close_begin r (if sn_closed s then s else s\<lparr>sn_pump := PumpClosing\<rparr>))"
| resumes: "sn_pump s = PumpClosing \<Longrightarrow> sn_closer s = Recorded \<Longrightarrow> pump_step s (s\<lparr>sn_pump := PumpLoop\<rparr>)"
| cancelled: "sn_pump s = PumpLoop \<Longrightarrow> pump_step s (s\<lparr>sn_pump := PumpGone\<rparr>)"
| sees_end: "sn_pump s = PumpLoop \<Longrightarrow> sn_done s \<Longrightarrow> pump_step s (s\<lparr>sn_pump := PumpExiting\<rparr>)"
| drains: "sn_pump s = PumpExiting \<Longrightarrow> sn_out s = c # cs \<Longrightarrow> pump_step s (send_frame (ChunkF c) (queue_rest s))"
| drain_fails: "sn_pump s = PumpExiting \<Longrightarrow> sn_out s = c # cs \<Longrightarrow> pump_step s ((queue_rest s)\<lparr>sn_pump := PumpGone\<rparr>)"
| reports: "sn_pump s = PumpExiting \<Longrightarrow> sn_out s = [] \<Longrightarrow>
    pump_step s (send_frame (ExitF (sn_exit s) (sn_reason s)) (s\<lparr>sn_pump := PumpGone\<rparr>))"

text \<open>The client's loop, and the daemon's shutdown, which closes what is still listed.\<close>

inductive client_step :: "term_session \<Rightarrow> term_session \<Rightarrow> bool" where
  frame: "sn_loop s \<Longrightarrow> client_step s (read_turn message pty s)"
| over: "client_step s (client_over s)"
| shutdown: "sn_listed s \<Longrightarrow> client_step s (close_begin ''daemon shutdown'' s)"

inductive sstep :: "term_session \<Rightarrow> term_session \<Rightarrow> bool" where
  by_shell: "shell_step s s' \<Longrightarrow> sstep s s'"
| by_closer: "closer_step s s' \<Longrightarrow> sstep s s'"
| by_pump: "pump_step s s' \<Longrightarrow> sstep s s'"
| by_client: "client_step s s' \<Longrightarrow> sstep s s'"

inductive session_reach :: "term_session \<Rightarrow> bool" where
  opened: "session_reach (session_start dims)"
| moves: "session_reach s \<Longrightarrow> sstep s s' \<Longrightarrow> session_reach s'"

end
