(* ===== verification/Daemon_Terminal_Session_Facts.thy ===== *)
theory Daemon_Terminal_Session_Facts
  imports Daemon_Terminal_Session
begin

text \<open>
  What holds of a terminal session in every reachable state: how it is closed, what its exit frame says,
  and what of the shell's output the client gets.
\<close>

section \<open>Moves\<close>

lemmas session_ops =
  session_finish_def close_begin_def close_release_def close_unlist_def close_record_def queue_rest_def send_frame_def
  protocol_break_def client_over_def

lemma read_turn_cases:
  obtains dims where "read_turn m p s = s\<lparr>sn_size := dims\<rparr>"
  | e where "read_turn m p s = protocol_break e s"
  | "read_turn m p s = (close_begin ''client unreachable'' s)\<lparr>sn_loop := False\<rparr>"
proof -
  show ?thesis
  proof (cases m)
    case (Keys ks)
    show ?thesis
    proof (cases p)
      case None
      show ?thesis by (rule that(1) [of "sn_size s"]) (simp add: read_turn_def Keys None)
    next
      case (Some e)
      show ?thesis by (rule that(3)) (simp add: read_turn_def Keys Some)
    qed
  next
    case (TextFrame f)
    show ?thesis
    proof (cases f)
      case None
      then show ?thesis using that TextFrame by (simp add: read_turn_def)
    next
      case (Some g)
      obtain kind cols rows where g: "g = (kind, cols, rows)" by (cases g)
      have turn: "read_turn m p s = (if kind \<noteq> ''resize'' then protocol_break ''unsupported control frame'' s
          else (case terminalResize cols rows of Inl e \<Rightarrow> protocol_break e s
            | Inr dims \<Rightarrow> (case p of None \<Rightarrow> s\<lparr>sn_size := dims\<rparr> | Some e \<Rightarrow> protocol_break (''resize terminal: '' @ e) s)))"
        by (simp add: read_turn_def TextFrame Some g)
      show ?thesis
      proof (cases "kind = ''resize''")
        case False
        then show ?thesis using that(2) turn by simp
      next
        case True
        show ?thesis
        proof (cases "terminalResize cols rows")
          case (Inl e)
          show ?thesis by (rule that(2) [of e]) (simp add: turn True Inl)
        next
          case (Inr dims)
          show ?thesis
          proof (cases p)
            case None
            show ?thesis by (rule that(1) [of dims]) (use turn in \<open>simp add: True Inr None\<close>)
          next
            case (Some e)
            show ?thesis by (rule that(2) [of "''resize terminal: '' @ e"]) (use turn in \<open>simp add: True Inr Some\<close>)
          qed
        qed
      qed
    qed
  next
    case OtherFrame
    then show ?thesis using that by (simp add: read_turn_def)
  qed
qed

lemma client_step_cases:
  assumes "client_step s s'"
  obtains dims where "s' = s\<lparr>sn_size := dims\<rparr>"
  | e where "s' = protocol_break e s"
  | r where "s' = (close_begin r s)\<lparr>sn_loop := False\<rparr>"
  | r where "s' = close_begin r s"
  using assms
proof cases
  case (frame m p)
  show ?thesis using frame that by (cases rule: read_turn_cases [of m p s]) auto
next
  case over
  then show ?thesis using that by (simp add: client_over_def)
next
  case shutdown
  then show ?thesis using that by simp
qed

section \<open>Closing\<close>

definition closing_ok :: "term_session \<Rightarrow> bool" where
  "closing_ok s \<longleftrightarrow>
     (sn_closer s = NotClosing \<longleftrightarrow> \<not> sn_closed s) \<and> (sn_reason s \<noteq> [] \<longrightarrow> sn_closed s) \<and>
     (sn_closer s \<in> {Released, Unlisted, Recorded} \<longrightarrow> sn_done s) \<and>
     (sn_listed s \<longleftrightarrow> sn_closer s \<notin> {Unlisted, Recorded}) \<and>
     sn_audit s = (if sn_closer s = Recorded then [(sn_exit s = 0 \<and> sn_reason s = [], sn_exit s, sn_reason s)] else [])"

lemma closing_start: "closing_ok (session_start dims)"
  by (simp add: closing_ok_def session_start_def)

lemma closing_close: "closing_ok s \<Longrightarrow> closing_ok (close_begin r s)"
  by (auto simp: closing_ok_def close_begin_def)

lemma closing_frame [simp]: "closing_ok (send_frame f s) = closing_ok s" "closing_ok (s\<lparr>sn_loop := b\<rparr>) = closing_ok s"
  "closing_ok (s\<lparr>sn_size := z\<rparr>) = closing_ok s" "closing_ok (s\<lparr>sn_pump := p\<rparr>) = closing_ok s" "closing_ok (queue_rest s) = closing_ok s"
  by (simp_all add: closing_ok_def send_frame_def queue_rest_def)

lemma closing_step: "sstep s s' \<Longrightarrow> closing_ok s \<Longrightarrow> closing_ok s'"
proof (induction rule: sstep.induct)
  case (by_shell s s')
  then show ?case by cases (auto simp: closing_ok_def session_finish_def)
next
  case (by_closer s s')
  then show ?case
    by cases (auto simp: closing_ok_def session_finish_def close_release_def close_unlist_def close_record_def)
next
  case (by_pump s s')
  then show ?case by cases (auto intro!: closing_close)
next
  case (by_client s s')
  from by_client(1) show ?case
    by (cases rule: client_step_cases) (use by_client(2) in \<open>auto intro!: closing_close simp: protocol_break_def\<close>)
qed

lemma closing_reach: "session_reach s \<Longrightarrow> closing_ok s"
  by (induction rule: session_reach.induct) (auto intro: closing_start closing_step)

section \<open>Frames\<close>

definition is_error :: "term_frame \<Rightarrow> bool" where
  "is_error f = (case f of ErrorF _ \<Rightarrow> True | _ \<Rightarrow> False)"

definition is_exit :: "term_frame \<Rightarrow> bool" where
  "is_exit f = (case f of ExitF _ _ \<Rightarrow> True | _ \<Rightarrow> False)"

definition frames_ok :: "term_session \<Rightarrow> bool" where
  "frames_ok s \<longleftrightarrow>
     (if list_ex is_exit (sn_frames s) then
        sn_pump s = PumpGone \<and> sn_done s \<and>
        (\<exists>pre reason errs. sn_frames s = pre @ ExitF (sn_exit s) reason # errs \<and> \<not> list_ex is_exit pre \<and> list_all is_error errs \<and>
           (reason = [] \<or> (reason = sn_reason s \<and> sn_closed s)))
      else sn_pump s = PumpExiting \<longrightarrow> sn_done s)"

lemma frames_start: "frames_ok (session_start dims)"
  by (simp add: frames_ok_def session_start_def)

lemma is_exit_simps [simp]: "is_exit (ExitF c r)" "\<not> is_exit HelloF" "\<not> is_exit (ChunkF b)" "\<not> is_exit (ErrorF e)"
  "is_error (ErrorF e)" by (simp_all add: is_exit_def is_error_def)

lemma frames_okI:
  assumes "sn_frames s = pre @ ExitF (sn_exit s) r # errs" "\<not> list_ex is_exit pre" "list_all is_error errs"
    "r = [] \<or> (r = sn_reason s \<and> sn_closed s)" "sn_pump s = PumpGone" "sn_done s"
  shows "frames_ok s"
proof -
  have "list_ex is_exit (sn_frames s)" by (simp add: assms(1))
  moreover have "\<exists>pre reason errs. sn_frames s = pre @ ExitF (sn_exit s) reason # errs \<and> \<not> list_ex is_exit pre \<and> list_all is_error errs \<and>
      (reason = [] \<or> (reason = sn_reason s \<and> sn_closed s))"
    using assms(1-4) by blast
  ultimately show ?thesis unfolding frames_ok_def using assms(5,6) by simp
qed

text \<open>A move that leaves the frames, the exit code of a finished session and the reason of a closed one.\<close>

lemma frames_keep:
  assumes "frames_ok s" "sn_frames s' = sn_frames s" "sn_pump s = PumpGone \<longrightarrow> sn_pump s' = PumpGone"
    "sn_pump s' = PumpExiting \<longrightarrow> sn_pump s = PumpExiting \<or> sn_done s'"
    "sn_done s \<longrightarrow> sn_done s' \<and> sn_exit s' = sn_exit s" "sn_closed s \<longrightarrow> sn_closed s' \<and> sn_reason s' = sn_reason s"
  shows "frames_ok s'"
  using assms unfolding frames_ok_def by (auto split: if_split_asm) metis

lemma frames_error:
  assumes "frames_ok s"
  shows "frames_ok (send_frame (ErrorF e) s)"
proof (cases "list_ex is_exit (sn_frames s)")
  case True
  with assms obtain pre reason errs where "sn_frames s = pre @ ExitF (sn_exit s) reason # errs" "\<not> list_ex is_exit pre"
      "list_all is_error errs" "reason = [] \<or> (reason = sn_reason s \<and> sn_closed s)" "sn_pump s = PumpGone" "sn_done s"
    by (auto simp: frames_ok_def)
  then show ?thesis
    by (intro frames_okI [of "send_frame (ErrorF e) s" pre reason "errs @ [ErrorF e]"]) (simp_all add: send_frame_def)
next
  case False
  then show ?thesis using assms by (simp add: frames_ok_def send_frame_def)
qed

lemma frames_other:
  assumes "frames_ok s" "sn_pump s \<noteq> PumpGone" "\<not> is_exit f" "sn_frames s' = sn_frames s"
    "sn_pump s' = PumpExiting \<longrightarrow> sn_pump s = PumpExiting \<and> sn_done s' = sn_done s"
  shows "frames_ok (send_frame f s')"
  using assms by (auto simp: frames_ok_def send_frame_def split: if_split_asm)

lemma frames_step: "sstep s s' \<Longrightarrow> closing_ok s \<Longrightarrow> frames_ok s \<Longrightarrow> frames_ok s'"
proof (induction rule: sstep.induct)
  case (by_shell s s')
  then show ?case by cases (auto elim!: frames_keep simp: session_finish_def)
next
  case (by_closer s s')
  then show ?case
    by cases (auto elim!: frames_keep simp: session_finish_def close_release_def close_unlist_def close_record_def)
next
  case (by_pump s s')
  from by_pump(1) show ?case
  proof cases
    case greets
    then show ?thesis using by_pump(3) by (auto intro: frames_other)
  next
    case (forwards c cs)
    then show ?thesis using by_pump(3) by (auto intro: frames_other simp: queue_rest_def)
  next
    case (drains c cs)
    then show ?thesis using by_pump(3) by (auto intro: frames_other simp: queue_rest_def)
  next
    case reports
    have "\<not> list_ex is_exit (sn_frames s)" using reports by_pump(3) by (auto simp: frames_ok_def)
    moreover have "sn_done s" using reports by_pump(3) by (auto simp: frames_ok_def split: if_split_asm)
    moreover have "sn_reason s = [] \<or> sn_closed s" using by_pump(2) by (auto simp: closing_ok_def)
    ultimately show ?thesis unfolding reports(1)
      by (intro frames_okI [of _ "sn_frames s" "sn_reason s" "[]"]) (auto simp: send_frame_def)
  qed (use by_pump(3) in \<open>auto elim!: frames_keep simp: queue_rest_def close_begin_def\<close>)
next
  case (by_client s s')
  from by_client(1) show ?case
  proof (cases rule: client_step_cases)
    case (2 e)
    have "frames_ok (send_frame (ErrorF e) s)" by (rule frames_error [OF by_client(3)])
    then show ?thesis unfolding 2 protocol_break_def by (auto elim!: frames_keep simp: close_begin_def)
  qed (use by_client(3) in \<open>auto elim!: frames_keep simp: close_begin_def\<close>)
qed

lemma frames_reach: "session_reach s \<Longrightarrow> frames_ok s"
proof (induction rule: session_reach.induct)
  case (moves s s')
  then show ?case using frames_step closing_reach by blast
qed (rule frames_start)

section \<open>The shell's output\<close>

definition chunks :: "term_frame list \<Rightarrow> bytes list" where
  "chunks fs = concat (map (\<lambda>f. case f of ChunkF c \<Rightarrow> [c] | _ \<Rightarrow> []) fs)"

lemma chunks_simps [simp]:
  "chunks [] = []" "chunks (fs @ gs) = chunks fs @ chunks gs" "chunks (HelloF # fs) = chunks fs" "chunks (ChunkF c # fs) = c # chunks fs"
  "chunks (ErrorF e # fs) = chunks fs" "chunks (ExitF i r # fs) = chunks fs"
  by (simp_all add: chunks_def)

definition held_chunks :: "term_session \<Rightarrow> bytes list" where
  "held_chunks s = (case sn_held s of None \<Rightarrow> [] | Some c \<Rightarrow> [c])"

text \<open>
  While the pump is there, what the shell has written is what was sent, what is queued, and what the
  reader holds or has not read; only a closed session's reader may leave something behind.
\<close>

definition flow_ok :: "term_session \<Rightarrow> bool" where
  "flow_ok s \<longleftrightarrow>
     length (sn_out s) \<le> terminalOutputQueue \<and> (\<exists>rest. sn_written s = chunks (sn_frames s) @ rest) \<and>
     (sn_readDone s \<longrightarrow> sn_held s = None) \<and> (sn_readDone s \<and> \<not> sn_closed s \<longrightarrow> sn_pty s = [] \<and> sn_waited s \<noteq> None) \<and>
     (sn_pump s \<noteq> PumpGone \<longrightarrow> (\<exists>rest. sn_written s = chunks (sn_frames s) @ sn_out s @ rest \<and>
        (rest = held_chunks s @ sn_pty s \<or> (sn_readDone s \<and> sn_closed s))))"

lemma flow_start: "flow_ok (session_start dims)"
  by (simp add: flow_ok_def session_start_def held_chunks_def)

text \<open>A move that leaves the output alone.\<close>

lemma flow_keep:
  assumes "flow_ok s" "sn_written s' = sn_written s" "sn_pty s' = sn_pty s" "sn_held s' = sn_held s" "sn_out s' = sn_out s"
    "sn_readDone s' = sn_readDone s" "sn_waited s' = sn_waited s" "chunks (sn_frames s') = chunks (sn_frames s)"
    "sn_closed s \<longrightarrow> sn_closed s'" "sn_pump s = PumpGone \<longrightarrow> sn_pump s' = PumpGone"
  shows "flow_ok s'"
  using assms unfolding flow_ok_def held_chunks_def by auto

lemma flow_sent:
  assumes "flow_ok s" "sn_out s = c # cs" "sn_pump s \<noteq> PumpGone"
  shows "flow_ok (send_frame (ChunkF c) (queue_rest s))" and "flow_ok ((queue_rest s)\<lparr>sn_pump := PumpGone\<rparr>)"
proof -
  obtain rest where w: "sn_written s = chunks (sn_frames s) @ c # cs @ rest"
      "rest = held_chunks s @ sn_pty s \<or> (sn_readDone s \<and> sn_closed s)" "sn_readDone s \<longrightarrow> sn_held s = None"
      "length (c # cs) \<le> terminalOutputQueue" "sn_readDone s \<and> \<not> sn_closed s \<longrightarrow> sn_pty s = [] \<and> sn_waited s \<noteq> None"
    using assms by (auto simp: flow_ok_def)
  show "flow_ok ((queue_rest s)\<lparr>sn_pump := PumpGone\<rparr>)"
    using w assms(2) by (auto simp: flow_ok_def queue_rest_def split: option.split)
  show "flow_ok (send_frame (ChunkF c) (queue_rest s))"
  proof (cases "length (sn_out s) = terminalOutputQueue")
    case True
    then show ?thesis using w assms(2)
      by (auto simp: flow_ok_def queue_rest_def send_frame_def held_chunks_def split: option.split)
  next
    case False
    then show ?thesis using w assms(2)
      by (auto simp: flow_ok_def queue_rest_def send_frame_def held_chunks_def split: option.split)
  qed
qed

lemma flow_step: "sstep s s' \<Longrightarrow> closing_ok s \<Longrightarrow> flow_ok s \<Longrightarrow> flow_ok s'"
proof (induction rule: sstep.induct)
  case (by_shell s s')
  from by_shell(1) show ?case
  proof cases
    case (writes c)
    have "\<not> sn_readDone s \<or> sn_closed s" using writes by_shell(3) by (auto simp: flow_ok_def)
    then show ?thesis using by_shell(3) unfolding writes flow_ok_def held_chunks_def by auto
  next
    case (reads c cs)
    then show ?thesis using by_shell(3) unfolding flow_ok_def held_chunks_def by auto
  next
    case (queues c)
    then show ?thesis using by_shell(3) unfolding flow_ok_def held_chunks_def by auto
  next
    case (gives_up c)
    then show ?thesis using by_shell(3) unfolding flow_ok_def held_chunks_def by auto
  next
    case ends
    then show ?thesis using by_shell(3) unfolding flow_ok_def held_chunks_def by auto
  next
    case pty_closed
    have "sn_closed s" using pty_closed by_shell(2) by (auto simp: closing_ok_def)
    then show ?thesis using pty_closed by_shell(3) unfolding flow_ok_def held_chunks_def by auto
  next
    case (waited code)
    then show ?thesis using by_shell(3) unfolding flow_ok_def held_chunks_def by auto
  next
    case (reaped code)
    then show ?thesis using by_shell(3) by (auto elim!: flow_keep simp: session_finish_def)
  next
    case (reaped_late code)
    then show ?thesis using by_shell(3) by (auto elim!: flow_keep simp: session_finish_def)
  qed
next
  case (by_closer s s')
  then show ?case
    by cases (auto elim!: flow_keep simp: session_finish_def close_release_def close_unlist_def close_record_def)
next
  case (by_pump s s')
  from by_pump(1) show ?case
  proof cases
    case (forwards c cs)
    then show ?thesis using flow_sent(1) [OF by_pump(3)] by simp
  next
    case (drains c cs)
    then show ?thesis using flow_sent(1) [OF by_pump(3)] by simp
  next
    case (drain_fails c cs)
    then show ?thesis using flow_sent(2) [OF by_pump(3)] by simp
  next
    case (write_fails c cs)
    then have "flow_ok ((queue_rest s)\<lparr>sn_pump := PumpGone\<rparr>)" using flow_sent(2) [OF by_pump(3)] by simp
    then show ?thesis unfolding write_fails(1) by (auto elim!: flow_keep simp: close_begin_def)
  qed (use by_pump(3) in \<open>auto elim!: flow_keep simp: close_begin_def send_frame_def\<close>)
next
  case (by_client s s')
  from by_client(1) show ?case
    by (cases rule: client_step_cases)
      (use by_client(3) in \<open>auto elim!: flow_keep simp: close_begin_def protocol_break_def send_frame_def\<close>)
qed

lemma flow_reach: "session_reach s \<Longrightarrow> flow_ok s"
proof (induction rule: session_reach.induct)
  case (moves s s')
  then show ?case using flow_step closing_reach by blast
qed (rule flow_start)



section \<open>A tail that is lost\<close>

text \<open>
  The shell writes 66 chunks and exits while the client is slow: the queue is full, the reader waits, and
  the drain grace ends before it. The pump then empties the queue faster than the reader is scheduled, and
  reports a normal exit although the last chunk was never sent.
\<close>

lemma replicate_64: "replicate 64 a = a # replicate 63 a"
  using replicate_Suc [of 63 a] by simp

definition demo_dims :: "int \<times> int" where "demo_dims = (80, 24)"

lemma demo_written: "session_reach ((session_start demo_dims)\<lparr>sn_written := replicate n ''x'', sn_pty := replicate n ''x''\<rparr>)"
proof (induction n)
  case 0
  have "(session_start demo_dims)\<lparr>sn_written := [], sn_pty := []\<rparr> = session_start demo_dims" by (simp add: session_start_def)
  then show ?case using session_reach.opened [of demo_dims] by simp
next
  case (Suc n)
  let ?s = "(session_start demo_dims)\<lparr>sn_written := replicate n ''x'', sn_pty := replicate n ''x''\<rparr>"
  have "shell_step ?s (?s\<lparr>sn_written := sn_written ?s @ [''x''], sn_pty := sn_pty ?s @ [''x'']\<rparr>)"
    by (rule shell_step.writes) (simp add: session_start_def)
  from session_reach.moves [OF Suc.IH sstep.by_shell [OF this]] show ?case by (simp add: replicate_append_same)
qed

definition demo_queued :: "nat \<Rightarrow> nat \<Rightarrow> term_session" where
  "demo_queued n k = (session_start demo_dims)\<lparr>sn_written := replicate n ''x'', sn_pty := replicate (n - k) ''x'', sn_out := replicate k ''x''\<rparr>"

lemma demo_queue: "k \<le> n \<Longrightarrow> k \<le> 64 \<Longrightarrow> session_reach (demo_queued n k)"
proof (induction k)
  case 0
  have "demo_queued n 0 = (session_start demo_dims)\<lparr>sn_written := replicate n ''x'', sn_pty := replicate n ''x''\<rparr>"
    by (simp add: demo_queued_def session_start_def)
  then show ?case using demo_written by simp
next
  case (Suc k)
  let ?s = "demo_queued n k"
  have "sn_pty ?s = ''x'' # replicate (n - Suc k) ''x''"
    using Suc.prems(1) by (simp add: demo_queued_def Suc_diff_Suc flip: replicate_Suc)
  then have 1: "shell_step ?s (?s\<lparr>sn_pty := replicate (n - Suc k) ''x'', sn_held := Some ''x''\<rparr>)" (is "shell_step _ ?t")
    by (intro shell_step.reads) (simp_all add: demo_queued_def session_start_def)
  have 2: "shell_step ?t (?t\<lparr>sn_out := sn_out ?t @ [''x''], sn_held := None\<rparr>)"
    using Suc.prems(2) by (intro shell_step.queues) (simp_all add: demo_queued_def terminalOutputQueue_def)
  have "session_reach (?t\<lparr>sn_out := sn_out ?t @ [''x''], sn_held := None\<rparr>)"
    using session_reach.moves [OF session_reach.moves [OF Suc.IH sstep.by_shell [OF 1]] sstep.by_shell [OF 2]] Suc.prems by simp
  moreover have "?t\<lparr>sn_out := sn_out ?t @ [''x''], sn_held := None\<rparr> = demo_queued n (Suc k)"
    by (simp add: demo_queued_def session_start_def replicate_append_same)
  ultimately show ?case by simp
qed

text \<open>The exited shell, with \<open>k\<close> of the chunks sent.\<close>

definition demo_draining :: "nat \<Rightarrow> term_session" where
  "demo_draining k = (session_start demo_dims)\<lparr>sn_written := replicate 66 ''x'', sn_pty := [''x''], sn_out := replicate (65 - k) ''x'',
     sn_waited := Some 0, sn_done := True, sn_frames := HelloF # replicate k (ChunkF ''x''), sn_pump := PumpExiting\<rparr>"

lemma demo_exit: "session_reach (demo_draining 1)"
proof -
  let ?s = "demo_queued 66 64"
  have pty: "sn_pty ?s = [''x'', ''x'']" by (simp add: demo_queued_def numeral_2_eq_2)
  have 1: "shell_step ?s (?s\<lparr>sn_pty := [''x''], sn_held := Some ''x''\<rparr>)" (is "shell_step _ ?t")
    using pty by (intro shell_step.reads) (simp_all add: demo_queued_def session_start_def)
  have 2: "pump_step ?t (send_frame HelloF (?t\<lparr>sn_pump := PumpLoop\<rparr>))" (is "pump_step _ ?u")
    by (rule pump_step.greets) (simp add: demo_queued_def session_start_def)
  have 3: "shell_step ?u (?u\<lparr>sn_waited := Some 0\<rparr>)" (is "shell_step _ ?v")
    by (rule shell_step.waited) (simp add: demo_queued_def session_start_def send_frame_def)
  have 4: "shell_step ?v (session_finish 0 ?v)" (is "shell_step _ ?w")
    by (rule shell_step.reaped_late) (simp_all add: demo_queued_def session_start_def send_frame_def)
  have 5: "pump_step ?w (?w\<lparr>sn_pump := PumpExiting\<rparr>)" (is "pump_step _ ?x")
    by (rule pump_step.sees_end) (simp_all add: demo_queued_def session_start_def send_frame_def session_finish_def)
  have "sn_out ?x = ''x'' # replicate 63 ''x''" "sn_pump ?x = PumpExiting"
    by (simp_all add: demo_queued_def session_start_def send_frame_def session_finish_def flip: replicate_Suc)
  from pump_step.drains [OF this(2,1)] have 6: "pump_step ?x (send_frame (ChunkF ''x'') (queue_rest ?x))" .
  have "session_reach (send_frame (ChunkF ''x'') (queue_rest ?x))"
    by (rule session_reach.moves [OF _ sstep.by_pump [OF 6]], rule session_reach.moves [OF _ sstep.by_pump [OF 5]],
        rule session_reach.moves [OF _ sstep.by_shell [OF 4]], rule session_reach.moves [OF _ sstep.by_shell [OF 3]],
        rule session_reach.moves [OF _ sstep.by_pump [OF 2]], rule session_reach.moves [OF _ sstep.by_shell [OF 1]],
        rule demo_queue) simp_all
  moreover have "send_frame (ChunkF ''x'') (queue_rest ?x) = demo_draining 1"
    by (simp add: demo_draining_def demo_queued_def session_start_def send_frame_def session_finish_def queue_rest_def
        terminalOutputQueue_def replicate_append_same replicate_64)
  ultimately show ?thesis by simp
qed

lemma demo_drain: "k \<le> 64 \<Longrightarrow> session_reach (demo_draining (Suc k))"
proof (induction k)
  case 0
  show ?case using demo_exit by simp
next
  case (Suc k)
  let ?s = "demo_draining (Suc k)"
  have "sn_out ?s = ''x'' # replicate (64 - Suc k) ''x''" "sn_pump ?s = PumpExiting"
    using Suc.prems by (simp_all add: demo_draining_def Suc_diff_Suc flip: replicate_Suc)
  from pump_step.drains [OF this(2,1)] have "pump_step ?s (send_frame (ChunkF ''x'') (queue_rest ?s))" .
  moreover have "send_frame (ChunkF ''x'') (queue_rest ?s) = demo_draining (Suc (Suc k))"
    using Suc.prems
    by (simp add: demo_draining_def session_start_def send_frame_def queue_rest_def terminalOutputQueue_def replicate_append_same) arith
  ultimately show ?case using session_reach.moves [OF _ sstep.by_pump] Suc by simp
qed

theorem drain_grace_loses_output:
  "\<exists>s. session_reach s \<and> ExitF 0 [] \<in> set (sn_frames s) \<and> \<not> sn_closed s \<and> sn_written s \<noteq> chunks (sn_frames s)"
proof -
  let ?s = "demo_draining 65"
  have r: "session_reach ?s" using demo_drain [of 64] by simp
  have "pump_step ?s (send_frame (ExitF (sn_exit ?s) (sn_reason ?s)) (?s\<lparr>sn_pump := PumpGone\<rparr>))" (is "pump_step _ ?t")
    by (rule pump_step.reports) (simp_all add: demo_draining_def session_start_def)
  from session_reach.moves [OF r sstep.by_pump [OF this]] have "session_reach ?t" .
  moreover have "ExitF 0 [] \<in> set (sn_frames ?t)" "\<not> sn_closed ?t"
    by (simp_all add: demo_draining_def session_start_def send_frame_def)
  moreover have "sn_written ?t \<noteq> chunks (sn_frames ?t)"
  proof
    assume "sn_written ?t = chunks (sn_frames ?t)"
    then have "length (sn_written ?t) = length (chunks (sn_frames ?t))" by simp
    moreover have "length (chunks (replicate k (ChunkF ''x''))) = k" for k by (induction k) simp_all
    ultimately show False by (simp add: demo_draining_def send_frame_def)
  qed
  ultimately show ?thesis by blast
qed



end
