(* ===== verification/Cloud_Routes.thy ===== *)
theory Cloud_Routes
  imports Cloud_Webhooks Cloud_Fleet Cloud_Notify Cloud_Metrics Cloud_Reports
begin

text \<open>
  The HTTP surface of the cloud service (\<open>internal/server/router.go\<close>, \<open>internal/handler/routes.go\<close>):
  who a request is taken to come from, how its body and its query are read, the handler of every
  route over the calls of the other \<open>Cloud_\<close> theories, and the status an error is answered with.
  \<open>gin\<close> matches the path and hands over the request; \<open>dyauth\<close>, the JSON decoder and \<open>time.Parse\<close> are
  fields of the call. The terminal routes are not part of this theory.
\<close>

section \<open>Requests, replies and the state behind them\<close>

text \<open>A missing header, query or path parameter is the empty string, as \<open>gin\<close> has it.\<close>

record http_request =
  hq_token :: "string option" \<comment> \<open>what \<open>dyauth.ExtractToken\<close> finds\<close>
  hq_authorization :: string
  hq_id :: string
  hq_topic :: string
  hq_request :: string \<comment> \<open>\<open>:request_id\<close>\<close>
  hq_query :: "string \<Rightarrow> string"
  hq_body :: bytes

record solar_account =
  sa_id :: string
  sa_nick :: string
  sa_name :: string

text \<open>A strict decoder reads one value from the front of the body and returns what follows it.\<close>

type_synonym 'a decoder = "bytes \<Rightarrow> ('a \<times> bytes) option"

record body_decoders =
  jd_credential :: "(string \<times> string list \<times> string list \<times> string list) decoder"
  jd_daemon :: "(string \<times> string) decoder"
  jd_edit :: "(string option \<times> bool option \<times> bool option) decoder"
  jd_level :: "int decoder"
  jd_scoped_level :: "(string \<times> int) decoder"
  jd_metric :: "metric_input decoder"
  jd_logs :: "log_input list decoder"
  jd_status :: "(status_input list \<times> string list) decoder"
  jd_note :: "note_input decoder"
  jd_actions :: "action_input list decoder"
  jd_hook :: "(string \<times> string \<times> string) decoder"
  jd_result :: "(int \<times> string \<times> string) decoder"

text \<open>What a call mints, and the rest of its surroundings.\<close>

record minted =
  mn_id :: string
  mn_uuid :: "string + string" \<comment> \<open>\<open>uuid.NewRandom\<close>\<close>
  mn_secret :: "string + string" \<comment> \<open>\<open>generateSecret\<close>\<close>
  mn_hashed :: "string + string \<times> string" \<comment> \<open>a secret and its bcrypt hash\<close>
  mn_ids :: "string list"
  mn_topic_ids :: "string \<Rightarrow> string"
  mn_note :: string
  mn_event :: string

record cloud_call =
  cc_auth :: cloud_env \<comment> \<open>the middleware's statement\<close>
  cc_env :: cloud_env \<comment> \<open>the statements of the service call\<close>
  cc_notify :: notify_env
  cc_text :: time_text
  cc_solar :: "(http_request \<Rightarrow> solar_account option) option" \<comment> \<open>\<open>dyauth.AuthenticateRequest\<close>\<close>
  cc_json :: body_decoders
  cc_time :: "string \<Rightarrow> time option" \<comment> \<open>\<open>time.Parse\<close>; both layouts read a fraction\<close>
  cc_new :: minted

record cloud_state =
  cs_fleet :: fleet
  cs_relay :: relay
  cs_prefs :: "pref list"
  cs_actions :: "action_row list"
  cs_logs :: "log_row list"
  cs_status :: "status_row list"
  cs_sent :: "note_event list" \<comment> \<open>what the publisher was given\<close>

abbreviation cs_daemons :: "cloud_state \<Rightarrow> daemon list" where
  "cs_daemons s \<equiv> fl_daemons (cs_fleet s)"

abbreviation cs_notes :: "cloud_state \<Rightarrow> notice list" where
  "cs_notes s \<equiv> fl_notes (cs_fleet s)"

definition with_daemons :: "cloud_state \<Rightarrow> daemon list \<Rightarrow> cloud_state" where
  "with_daemons s ds = s\<lparr>cs_fleet := (cs_fleet s)\<lparr>fl_daemons := ds\<rparr>\<rparr>"

definition with_notes :: "cloud_state \<Rightarrow> notice list \<Rightarrow> note_event list \<Rightarrow> cloud_state" where
  "with_notes s notes events =
     s\<lparr>cs_fleet := (cs_fleet s)\<lparr>fl_notes := notes\<rparr>, cs_sent := cs_sent s @ events\<rparr>"

datatype payload =
    PHealth | PNewDaemon daemon_view string | PDaemon daemon_view | PDaemons "daemon_view list" | PSecret string
  | PMetrics "metric_view list" | PScore health_view | PPrefs "pref_view list" | PTopics "(string \<times> string) list"
  | PNotices "note_view list" | PAccepted string time | PLogs "log_row list" | PContainers "status_row list"
  | PActions "action_view list" | PQuota string "string \<Rightarrow> int" | PNewCredential credential_view string
  | PCredentials "credential_view list" | PQueued string hook_status time | PHook hook_view | PHooks "hook_view list"

text \<open>\<open>Told\<close> is an answer whose text is \<open>err.Error()\<close>.\<close>

datatype route_reply = Reply nat payload | NoContent | Refused nat string | Told nat cloud_error

section \<open>Who is asking\<close>

record cloud_caller =
  ca_account :: string
  ca_handle :: string \<comment> \<open>\<open>userHandle\<close>\<close>
  ca_credential :: "credential option"

text \<open>The token prefix decides which of the two ways is taken; without an authenticator neither is.\<close>

definition userHandle :: "solar_account \<Rightarrow> string" where
  "userHandle a = (if sa_nick a \<noteq> [] then sa_nick a else if sa_name a \<noteq> [] then sa_name a else sa_id a)"

definition userAuth :: "cloud_call \<Rightarrow> http_request \<Rightarrow> relay \<Rightarrow> cloud_caller option" where
  "userAuth cc q r =
     (case (hq_token q, cc_solar cc) of
        (Some token, Some solar) \<Rightarrow>
          if has_prefix CredentialTokenPrefix token then
            (case CredentialByToken (cc_auth cc) token r of
               Inl _ \<Rightarrow> None
             | Inr c \<Rightarrow> Some \<lparr>ca_account = cr_account c, ca_handle = cr_account c, ca_credential = Some c\<rparr>)
          else (case solar q of
            None \<Rightarrow> None
          | Some a \<Rightarrow> Some \<lparr>ca_account = sa_id a, ca_handle = userHandle a, ca_credential = None\<rparr>)
      | _ \<Rightarrow> None)"

definition daemonSecret :: "http_request \<Rightarrow> string option" where
  "daemonSecret q =
     (let v = trim_space (hq_authorization q) in
      if \<not> has_prefix ''Bearer '' v then None
      else let secret = trim_space (trim_prefix ''Bearer '' v) in
        if secret = [] then None else Some secret)"

section \<open>Bodies, queries and errors\<close>

definition json_blank :: "char \<Rightarrow> bool" where
  "json_blank c \<longleftrightarrow> byte c \<in> {9, 10, 13, 32}"

text \<open>Past the limit the reader fails before the decoder can see the end of the body.\<close>

definition parseJSON :: "'a decoder \<Rightarrow> bytes \<Rightarrow> 'a option" where
  "parseJSON dec body =
     (if 1048576 < length body then None
      else case dec body of
        None \<Rightarrow> None
      | Some (v, rest) \<Rightarrow> if list_all json_blank rest then Some v else None)"

fun serviceStatus :: "cloud_error \<Rightarrow> route_reply" where
  "serviceStatus ErrUnauthorized = Refused 401 ''unauthorized''"
| "serviceStatus ErrForbidden = Refused 403 ''forbidden''"
| "serviceStatus ErrNotFound = Refused 404 ''not found''"
| "serviceStatus ErrRateLimited = Refused 429 ''rate limited''"
| "serviceStatus (ErrPublishFailed _) = Refused 502 ''notification publish failed''"
| "serviceStatus _ = Refused 500 ''internal server error''"

text \<open>Some handlers keep the status of a few errors and answer 400 with the text of any other.\<close>

definition status_or_text :: "(cloud_error \<Rightarrow> bool) \<Rightarrow> cloud_error \<Rightarrow> route_reply" where
  "status_or_text keeps e = (if keeps e then serviceStatus e else Told 400 e)"

definition member_errors :: "cloud_error \<Rightarrow> bool" where
  "member_errors e \<longleftrightarrow> e = ErrForbidden \<or> e = ErrNotFound"

definition secret_errors :: "cloud_error \<Rightarrow> bool" where
  "secret_errors e \<longleftrightarrow> e = ErrUnauthorized"

fun publish_errors :: "cloud_error \<Rightarrow> bool" where
  "publish_errors (ErrPublishFailed _) \<longleftrightarrow> True"
| "publish_errors e \<longleftrightarrow> e = ErrUnauthorized"

text \<open>An error is given to \<open>bad\<close>, a value to \<open>good\<close>.\<close>

definition respond :: "(cloud_error \<Rightarrow> route_reply) \<Rightarrow> ('a \<Rightarrow> route_reply) \<Rightarrow> cloud_error + 'a \<Rightarrow> route_reply" where
  "respond bad good r = (case r of Inl e \<Rightarrow> bad e | Inr v \<Rightarrow> good v)"

text \<open>\<open>stored\<close>: a call that returns the new rows, and leaves the old ones when it fails.\<close>

definition stored_or :: "(cloud_error \<Rightarrow> route_reply) \<Rightarrow> ('r \<Rightarrow> cloud_state) \<Rightarrow> cloud_state \<Rightarrow> cloud_error + 'r \<Rightarrow> cloud_state \<times> route_reply" where
  "stored_or bad keep s r = (case r of Inl e \<Rightarrow> (s, bad e) | Inr rows \<Rightarrow> (keep rows, NoContent))"

definition with_body :: "'a decoder \<Rightarrow> http_request \<Rightarrow> cloud_state \<Rightarrow> ('a \<Rightarrow> cloud_state \<times> route_reply) \<Rightarrow> cloud_state \<times> route_reply" where
  "with_body dec q s next =
     (case parseJSON dec (hq_body q) of None \<Rightarrow> (s, Refused 400 ''invalid JSON'') | Some v \<Rightarrow> next v)"

definition with_secret :: "http_request \<Rightarrow> cloud_state \<Rightarrow> (string \<Rightarrow> cloud_state \<times> route_reply) \<Rightarrow> cloud_state \<times> route_reply" where
  "with_secret q s next =
     (case daemonSecret q of None \<Rightarrow> (s, Refused 401 ''unauthorized'') | Some secret \<Rightarrow> next secret)"

text \<open>\<open>None\<close> stands for the answer 400.\<close>

definition query_limit :: "int \<Rightarrow> int \<Rightarrow> http_request \<Rightarrow> int option" where
  "query_limit fallback most q =
     (let raw = hq_query q ''limit'' in
      if raw = [] then Some fallback
      else case atoi raw of None \<Rightarrow> None | Some v \<Rightarrow> if v < 1 \<or> most < v then None else Some v)"

definition query_before :: "cloud_call \<Rightarrow> http_request \<Rightarrow> time option option" where
  "query_before cc q =
     (let raw = hq_query q ''before'' in
      if raw = [] then Some None else case cc_time cc raw of None \<Rightarrow> None | Some t \<Rightarrow> Some (Some t))"

definition query_unread :: "http_request \<Rightarrow> bool option" where
  "query_unread q =
     (let raw = hq_query q ''unread'' in
      if raw \<in> {''1'', ''t'', ''T'', ''TRUE'', ''true'', ''True''} then Some True
      else if raw \<in> {[], ''0'', ''f'', ''F'', ''FALSE'', ''false'', ''False''} then Some False
      else None)"

definition windowed :: "cloud_call \<Rightarrow> int \<Rightarrow> int \<Rightarrow> http_request \<Rightarrow> (int \<Rightarrow> time option \<Rightarrow> route_reply) \<Rightarrow> route_reply" where
  "windowed cc fallback most q list =
     (case query_limit fallback most q of
        None \<Rightarrow> Refused 400 ''invalid limit''
      | Some limit \<Rightarrow>
          (case query_before cc q of
             None \<Rightarrow> Refused 400 ''invalid before''
           | Some before \<Rightarrow> list limit before))"

text \<open>
  \<open>base64.StdEncoding.DecodeString\<close>: line ends are skipped, and the unused bits of the last group
  are not looked at.
\<close>

fun b64_std_groups :: "string \<Rightarrow> bytes option" where
  "b64_std_groups [] = Some []"
| "b64_std_groups (p # q # r # s # rest) =
     (case (b64_value p, b64_value q) of
        (Some vp, Some vq) \<Rightarrow>
          if r = CHR ''='' \<and> s = CHR ''='' \<and> rest = [] then Some [char_of (vp * 4 + vq div 16)]
          else (case b64_value r of
            None \<Rightarrow> None
          | Some vr \<Rightarrow>
              if s = CHR ''='' \<and> rest = []
              then Some [char_of (vp * 4 + vq div 16), char_of (vq mod 16 * 16 + vr div 4)]
              else (case (b64_value s, b64_std_groups rest) of
                (Some vs, Some tail) \<Rightarrow>
                  Some (char_of (vp * 4 + vq div 16) # char_of (vq mod 16 * 16 + vr div 4) #
                        char_of (vr mod 4 * 64 + vs) # tail)
              | _ \<Rightarrow> None))
      | _ \<Rightarrow> None)"
| "b64_std_groups _ = None"

definition decode_std :: "string \<Rightarrow> bytes option" where
  "decode_std s = b64_std_groups (filter (\<lambda>c. byte c \<noteq> 10 \<and> byte c \<noteq> 13) s)"


section \<open>The handlers of members\<close>

abbreviation member_status :: "cloud_error \<Rightarrow> route_reply" where
  "member_status \<equiv> status_or_text member_errors"

definition createCredential :: "cloud_call \<Rightarrow> cloud_caller \<Rightarrow> http_request \<Rightarrow> cloud_state \<Rightarrow> cloud_state \<times> route_reply" where
  "createCredential cc who q s =
     with_body (jd_credential (cc_json cc)) q s (\<lambda>(label, daemons, hosts, actions).
       case CreateCredential (cc_env cc) (ca_account who) label daemons hosts actions
              (mn_id (cc_new cc)) (mn_secret (cc_new cc)) (cs_relay s) of
         (r, res) \<Rightarrow> (s\<lparr>cs_relay := r\<rparr>, respond (Told 400) (\<lambda>(view, token). Reply 201 (PNewCredential view token)) res))"

definition listCredentials :: "cloud_call \<Rightarrow> cloud_caller \<Rightarrow> cloud_state \<Rightarrow> route_reply" where
  "listCredentials cc who s =
     respond serviceStatus (\<lambda>v. Reply 200 (PCredentials v)) (ListCredentials (cc_env cc) (ca_account who) (cs_relay s))"

definition deleteCredential :: "cloud_call \<Rightarrow> cloud_caller \<Rightarrow> http_request \<Rightarrow> cloud_state \<Rightarrow> cloud_state \<times> route_reply" where
  "deleteCredential cc who q s =
     (case DeleteCredential (cc_env cc) (ca_account who) (hq_id q) (cs_relay s) of
        (r, res) \<Rightarrow> (s\<lparr>cs_relay := r\<rparr>, respond serviceStatus (\<lambda>_. NoContent) res))"

definition createDaemon :: "cloud_call \<Rightarrow> cloud_caller \<Rightarrow> http_request \<Rightarrow> cloud_state \<Rightarrow> cloud_state \<times> route_reply" where
  "createDaemon cc who q s =
     with_body (jd_daemon (cc_json cc)) q s (\<lambda>(workspace, name).
       case CreateDaemon (cc_env cc) (ca_account who) workspace name (mn_id (cc_new cc)) (mn_hashed (cc_new cc)) (cs_daemons s) of
         (ds, res) \<Rightarrow> (with_daemons s ds, respond member_status (\<lambda>(view, secret). Reply 201 (PNewDaemon view secret)) res))"

definition listDaemons :: "cloud_call \<Rightarrow> cloud_caller \<Rightarrow> http_request \<Rightarrow> cloud_state \<Rightarrow> route_reply" where
  "listDaemons cc who q s =
     respond member_status (\<lambda>v. Reply 200 (PDaemons v))
       (ListDaemons (cc_env cc) (ca_account who) (hq_query q ''workspace_id'') (cs_daemons s))"

definition getDaemon :: "cloud_call \<Rightarrow> cloud_caller \<Rightarrow> http_request \<Rightarrow> cloud_state \<Rightarrow> route_reply" where
  "getDaemon cc who q s =
     respond serviceStatus (\<lambda>v. Reply 200 (PDaemon v)) (GetDaemon (cc_env cc) (ca_account who) (hq_id q) (cs_daemons s))"

definition updateDaemon :: "cloud_call \<Rightarrow> cloud_caller \<Rightarrow> http_request \<Rightarrow> cloud_state \<Rightarrow> cloud_state \<times> route_reply" where
  "updateDaemon cc who q s =
     with_body (jd_edit (cc_json cc)) q s (\<lambda>(name, enabled, relay).
       case UpdateDaemon (cc_env cc) (ca_account who) (hq_id q) name enabled relay (cs_daemons s) of
         (ds, res) \<Rightarrow> (with_daemons s ds, respond member_status (\<lambda>v. Reply 200 (PDaemon v)) res))"

definition rotateSecret :: "cloud_call \<Rightarrow> cloud_caller \<Rightarrow> http_request \<Rightarrow> cloud_state \<Rightarrow> cloud_state \<times> route_reply" where
  "rotateSecret cc who q s =
     (case RotateSecret (cc_env cc) (ca_account who) (hq_id q) (mn_hashed (cc_new cc)) (cs_daemons s) of
        (ds, res) \<Rightarrow> (with_daemons s ds, respond serviceStatus (\<lambda>v. Reply 200 (PSecret v)) res))"

definition disableDaemon :: "cloud_call \<Rightarrow> cloud_caller \<Rightarrow> http_request \<Rightarrow> cloud_state \<Rightarrow> cloud_state \<times> route_reply" where
  "disableDaemon cc who q s =
     (case DisableDaemon (cc_env cc) (ca_account who) (hq_id q) (cs_daemons s) of
        (ds, res) \<Rightarrow> (with_daemons s ds, respond serviceStatus (\<lambda>_. NoContent) res))"

definition listMetrics :: "cloud_call \<Rightarrow> cloud_caller \<Rightarrow> http_request \<Rightarrow> cloud_state \<Rightarrow> route_reply" where
  "listMetrics cc who q s =
     windowed cc 100 100 q (\<lambda>limit before. respond serviceStatus (\<lambda>v. Reply 200 (PMetrics v))
       (ListMetrics (cc_env cc) (ca_account who) (hq_id q) limit before (cs_fleet s)))"

definition daemonHealth :: "cloud_call \<Rightarrow> cloud_caller \<Rightarrow> http_request \<Rightarrow> cloud_state \<Rightarrow> route_reply" where
  "daemonHealth cc who q s =
     respond serviceStatus (\<lambda>v. Reply 200 (PScore v)) (DaemonHealth (cc_env cc) (ca_account who) (hq_id q) (cs_fleet s))"

definition listDaemonLogs :: "cloud_call \<Rightarrow> cloud_caller \<Rightarrow> http_request \<Rightarrow> cloud_state \<Rightarrow> route_reply" where
  "listDaemonLogs cc who q s =
     windowed cc 100 500 q (\<lambda>limit before. respond serviceStatus (\<lambda>v. Reply 200 (PLogs v))
       (ListLogs (cc_env cc) (cs_daemons s) (ca_account who) (hq_id q) (hq_query q ''container_id'') limit before (cs_logs s)))"

definition listDaemonContainers :: "cloud_call \<Rightarrow> cloud_caller \<Rightarrow> http_request \<Rightarrow> cloud_state \<Rightarrow> route_reply" where
  "listDaemonContainers cc who q s =
     windowed cc 100 500 q (\<lambda>limit before. respond serviceStatus (\<lambda>v. Reply 200 (PContainers v))
       (ListContainerStatus (cc_env cc) (cs_daemons s) (ca_account who) (hq_id q) (hq_query q ''compose'')
          (hq_query q ''state'') limit before (cs_status s)))"

definition listActions :: "cloud_call \<Rightarrow> cloud_caller \<Rightarrow> http_request \<Rightarrow> cloud_state \<Rightarrow> route_reply" where
  "listActions cc who q s =
     respond serviceStatus (\<lambda>v. Reply 200 (PActions v))
       (ListActions (cc_env cc) (cs_daemons s) (ca_account who) (hq_id q) (cs_actions s))"

definition workspaceQuota_route :: "cloud_call \<Rightarrow> cloud_caller \<Rightarrow> http_request \<Rightarrow> route_reply" where
  "workspaceQuota_route cc who q =
     respond member_status (\<lambda>(w, quota). Reply 200 (PQuota w quota)) (GetWorkspaceQuota (cc_env cc) (ca_account who) (hq_id q))"

section \<open>The handlers of members: notifications\<close>

definition listNotifications :: "cloud_call \<Rightarrow> cloud_caller \<Rightarrow> http_request \<Rightarrow> cloud_state \<Rightarrow> route_reply" where
  "listNotifications cc who q s =
     (case query_unread q of
        None \<Rightarrow> Refused 400 ''invalid unread''
      | Some unread \<Rightarrow> windowed cc 50 100 q (\<lambda>limit before. respond member_status (\<lambda>v. Reply 200 (PNotices v))
          (ListNotifications (cc_env cc) (ca_account who) (hq_query q ''workspace_id'') unread
             (hq_query q ''daemon_id'') limit before (cs_notes s))))"

definition markRead :: "cloud_call \<Rightarrow> cloud_caller \<Rightarrow> http_request \<Rightarrow> cloud_state \<Rightarrow> cloud_state \<times> route_reply" where
  "markRead cc who q s =
     stored_or serviceStatus (\<lambda>notes. with_notes s notes []) s
       (MarkNotificationRead (cc_env cc) (ca_account who) (hq_id q) (cs_notes s))"

definition markAllRead :: "cloud_call \<Rightarrow> cloud_caller \<Rightarrow> http_request \<Rightarrow> cloud_state \<Rightarrow> cloud_state \<times> route_reply" where
  "markAllRead cc who q s =
     stored_or serviceStatus (\<lambda>notes. with_notes s notes []) s
       (MarkAllNotificationsRead (cc_env cc) (ca_account who) (hq_query q ''workspace_id'') (cs_notes s))"

definition listNotificationPreferences :: "cloud_call \<Rightarrow> cloud_caller \<Rightarrow> http_request \<Rightarrow> cloud_state \<Rightarrow> route_reply" where
  "listNotificationPreferences cc who q s =
     respond serviceStatus (\<lambda>v. Reply 200 (PPrefs v))
       (ListNotificationPreferences (cc_env cc) (ca_account who) (hq_query q ''workspace_id'') (hq_query q ''daemon_id'') (cs_prefs s))"

definition listNotificationTopics :: "cloud_call \<Rightarrow> cloud_caller \<Rightarrow> http_request \<Rightarrow> cloud_state \<Rightarrow> route_reply" where
  "listNotificationTopics cc who q s =
     respond serviceStatus (\<lambda>v. Reply 200 (PTopics v))
       (ListNotificationTopics (cc_env cc) 0 (ca_account who) (hq_query q ''workspace_id'') (cs_prefs s) (cs_notes s))"

abbreviation keep_prefs :: "cloud_state \<Rightarrow> cloud_error + pref list \<Rightarrow> cloud_state \<times> route_reply" where
  "keep_prefs s \<equiv> stored_or serviceStatus (\<lambda>rows. s\<lparr>cs_prefs := rows\<rparr>) s"

definition setGlobalNotificationPreference :: "cloud_call \<Rightarrow> cloud_caller \<Rightarrow> http_request \<Rightarrow> cloud_state \<Rightarrow> cloud_state \<times> route_reply" where
  "setGlobalNotificationPreference cc who q s =
     with_body (jd_level (cc_json cc)) q s (\<lambda>level. keep_prefs s
       (SetNotificationPreference (cc_env cc) (cs_daemons s) (ca_account who) (hq_query q ''workspace_id'') []
          (hq_topic q) level (mn_id (cc_new cc)) (cs_prefs s)))"

definition deleteGlobalNotificationPreference :: "cloud_call \<Rightarrow> cloud_caller \<Rightarrow> http_request \<Rightarrow> cloud_state \<Rightarrow> cloud_state \<times> route_reply" where
  "deleteGlobalNotificationPreference cc who q s = keep_prefs s
     (DeleteNotificationPreference (cc_env cc) (cs_daemons s) (ca_account who) (hq_query q ''workspace_id'') [] (hq_topic q) (cs_prefs s))"

definition setDaemonNotificationPreference :: "cloud_call \<Rightarrow> cloud_caller \<Rightarrow> http_request \<Rightarrow> cloud_state \<Rightarrow> cloud_state \<times> route_reply" where
  "setDaemonNotificationPreference cc who q s =
     with_body (jd_scoped_level (cc_json cc)) q s (\<lambda>(workspace, level). keep_prefs s
       (SetNotificationPreference (cc_env cc) (cs_daemons s) (ca_account who) workspace (hq_id q)
          (hq_topic q) level (mn_id (cc_new cc)) (cs_prefs s)))"

definition setAllDaemonNotificationPreferences :: "cloud_call \<Rightarrow> cloud_caller \<Rightarrow> http_request \<Rightarrow> cloud_state \<Rightarrow> cloud_state \<times> route_reply" where
  "setAllDaemonNotificationPreferences cc who q s =
     with_body (jd_scoped_level (cc_json cc)) q s (\<lambda>(workspace, level). keep_prefs s
       (SetAllDaemonNotificationPreferences (cc_env cc) (cs_daemons s) (ca_account who) workspace (hq_id q)
          level (mn_topic_ids (cc_new cc)) (cs_notes s) (cs_prefs s)))"

definition deleteAllDaemonNotificationPreferences :: "cloud_call \<Rightarrow> cloud_caller \<Rightarrow> http_request \<Rightarrow> cloud_state \<Rightarrow> cloud_state \<times> route_reply" where
  "deleteAllDaemonNotificationPreferences cc who q s = keep_prefs s
     (DeleteAllDaemonNotificationPreferences (cc_env cc) (cs_daemons s) (ca_account who) (hq_query q ''workspace_id'') (hq_id q) (cs_prefs s))"

definition deleteDaemonNotificationPreference :: "cloud_call \<Rightarrow> cloud_caller \<Rightarrow> http_request \<Rightarrow> cloud_state \<Rightarrow> cloud_state \<times> route_reply" where
  "deleteDaemonNotificationPreference cc who q s = keep_prefs s
     (DeleteNotificationPreference (cc_env cc) (cs_daemons s) (ca_account who) (hq_query q ''workspace_id'') (hq_id q) (hq_topic q) (cs_prefs s))"

section \<open>The handlers of members: the webhook relay\<close>

definition enqueueWebhook :: "cloud_call \<Rightarrow> cloud_caller \<Rightarrow> http_request \<Rightarrow> cloud_state \<Rightarrow> cloud_state \<times> route_reply" where
  "enqueueWebhook cc who q s =
     with_body (jd_hook (cc_json cc)) q s (\<lambda>(name, text, signature).
       case decode_std text of
         None \<Rightarrow> (s, Refused 400 ''invalid body'')
       | Some body \<Rightarrow>
           (case EnqueueWebhook (cc_env cc) (cs_daemons s) (ca_account who) (hq_id q) name body signature
                   (case ca_credential who of None \<Rightarrow> CHR ''@'' # ca_handle who | Some c \<Rightarrow> cr_label c)
                   (ca_credential who) (mn_uuid (cc_new cc)) (cs_relay s) of
              (r, res) \<Rightarrow> (s\<lparr>cs_relay := r\<rparr>,
                 respond member_status (\<lambda>v. Reply 201 (PQueued (hv_id v) (hv_status v) (hv_created v))) res)))"

definition getWebhookResult :: "cloud_call \<Rightarrow> cloud_caller \<Rightarrow> http_request \<Rightarrow> cloud_state \<Rightarrow> route_reply" where
  "getWebhookResult cc who q s =
     respond serviceStatus (\<lambda>v. Reply 200 (PHook v))
       (GetWebhookResult (cc_env cc) (cs_daemons s) (ca_account who) (hq_id q) (hq_request q) (cs_relay s))"

section \<open>The handlers of daemons\<close>

abbreviation secret_status :: "cloud_error \<Rightarrow> route_reply" where
  "secret_status \<equiv> status_or_text secret_errors"

text \<open>A report that comes too early is answered 429 with the error's text.\<close>

definition metric_status :: "cloud_error \<Rightarrow> route_reply" where
  "metric_status e = (if e = ErrRateLimited then Told 429 e else secret_status e)"

definition ingestMetric :: "cloud_call \<Rightarrow> http_request \<Rightarrow> cloud_state \<Rightarrow> cloud_state \<times> route_reply" where
  "ingestMetric cc q s = with_secret q s (\<lambda>secret. with_body (jd_metric (cc_json cc)) q s (\<lambda>metric.
     case IngestMetric (cc_env cc) (cc_notify cc) (cc_text cc) (hq_id q) secret metric (mn_id (cc_new cc))
            (mn_note (cc_new cc)) (mn_event (cc_new cc)) (cs_prefs s) (cs_fleet s) of
       (fl, events, res) \<Rightarrow>
         (s\<lparr>cs_fleet := fl, cs_sent := cs_sent s @ events\<rparr>, respond metric_status (\<lambda>_. NoContent) res)))"

definition daemonQuota :: "cloud_call \<Rightarrow> http_request \<Rightarrow> cloud_state \<Rightarrow> cloud_state \<times> route_reply" where
  "daemonQuota cc q s = with_secret q s (\<lambda>secret.
     (s, respond secret_status (\<lambda>(w, quota). Reply 200 (PQuota w quota))
        (GetDaemonQuota (cc_env cc) (hq_id q) secret (cs_daemons s))))"

definition ingestLogs :: "cloud_call \<Rightarrow> http_request \<Rightarrow> cloud_state \<Rightarrow> cloud_state \<times> route_reply" where
  "ingestLogs cc q s = with_secret q s (\<lambda>secret. with_body (jd_logs (cc_json cc)) q s (\<lambda>entries.
     stored_or secret_status (\<lambda>rows. s\<lparr>cs_logs := rows\<rparr>) s
       (IngestLogs (cc_env cc) (cs_daemons s) (hq_id q) secret entries (mn_ids (cc_new cc)) (cs_logs s))))"

definition ingestContainerStatus :: "cloud_call \<Rightarrow> http_request \<Rightarrow> cloud_state \<Rightarrow> cloud_state \<times> route_reply" where
  "ingestContainerStatus cc q s = with_secret q s (\<lambda>secret. with_body (jd_status (cc_json cc)) q s (\<lambda>(containers, runtimes).
     stored_or secret_status (\<lambda>rows. s\<lparr>cs_status := rows\<rparr>) s
       (IngestContainerStatus (cc_env cc) (cs_daemons s) (hq_id q) secret containers runtimes (cs_status s))))"

definition syncActions :: "cloud_call \<Rightarrow> http_request \<Rightarrow> cloud_state \<Rightarrow> cloud_state \<times> route_reply" where
  "syncActions cc q s = with_secret q s (\<lambda>secret. with_body (jd_actions (cc_json cc)) q s (\<lambda>actions.
     stored_or secret_status (\<lambda>rows. s\<lparr>cs_actions := rows\<rparr>) s
       (SyncActions (cc_env cc) (cs_daemons s) (hq_id q) secret actions (cs_actions s))))"

text \<open>A notification nobody wants has no id and is answered 204.\<close>

definition createNotification :: "cloud_call \<Rightarrow> http_request \<Rightarrow> cloud_state \<Rightarrow> cloud_state \<times> route_reply" where
  "createNotification cc q s = with_secret q s (\<lambda>secret. with_body (jd_note (cc_json cc)) q s (\<lambda>note.
     case CreateNotification (cc_env cc) (cc_notify cc) (cs_daemons s) (hq_id q) secret note (mn_note (cc_new cc))
            (mn_event (cc_new cc)) (cs_prefs s) (cs_notes s) of
       (notes, events, res) \<Rightarrow>
         (with_notes s notes events,
          respond (status_or_text publish_errors)
            (\<lambda>v. case v of None \<Rightarrow> NoContent | Some n \<Rightarrow> Reply 201 (PAccepted (vn_id n) (vn_created n))) res)))"

definition listPendingWebhooks :: "cloud_call \<Rightarrow> http_request \<Rightarrow> cloud_state \<Rightarrow> cloud_state \<times> route_reply" where
  "listPendingWebhooks cc q s = with_secret q s (\<lambda>secret.
     case query_limit 50 50 q of
       None \<Rightarrow> (s, Refused 400 ''invalid limit'')
     | Some limit \<Rightarrow>
         (case ListPendingWebhooks (cc_env cc) (cs_daemons s) (hq_id q) secret limit (cs_relay s) of
            (r, res) \<Rightarrow> (s\<lparr>cs_relay := r\<rparr>, respond serviceStatus (\<lambda>v. Reply 200 (PHooks v)) res)))"

definition completeWebhook :: "cloud_call \<Rightarrow> http_request \<Rightarrow> cloud_state \<Rightarrow> cloud_state \<times> route_reply" where
  "completeWebhook cc q s = with_secret q s (\<lambda>secret. with_body (jd_result (cc_json cc)) q s (\<lambda>(code, text, err).
     case decode_std text of
       None \<Rightarrow> (s, Refused 400 ''invalid body'')
     | Some body \<Rightarrow>
         (case CompleteWebhook (cc_env cc) (cs_daemons s) (hq_id q) secret (hq_request q) code body err (cs_relay s) of
            (r, res) \<Rightarrow> (s\<lparr>cs_relay := r\<rparr>, respond serviceStatus (\<lambda>_. NoContent) res))))"

section \<open>The routes\<close>

datatype member_write =
    PostCredential | DeleteCredentialAt | PostDaemon | PatchDaemon | PostRotateSecret | DeleteDaemon
  | PostMarkRead | PostMarkAllRead | PutTopic | DeleteTopic | PutDaemonTopic | DeleteDaemonTopic
  | PutDaemonTopics | DeleteDaemonTopics | PostWebhook

datatype member_read =
    GetCredentials | GetDaemons | GetDaemonAt | GetLogs | GetContainers | GetMetrics | GetHealth | GetNotifications
  | GetPreferences | GetTopics | GetWebhook | GetActions | GetQuota

datatype daemon_route =
    PostMetrics | PostLogs | PostContainers | PostNotification | PostActions | GetPending | PostResult | GetDaemonQuotaAt

datatype cloud_route = GetAlive | MemberWrite member_write | MemberRead member_read | DaemonRoute daemon_route

fun serve_write :: "cloud_call \<Rightarrow> member_write \<Rightarrow> cloud_caller \<Rightarrow> http_request \<Rightarrow> cloud_state \<Rightarrow> cloud_state \<times> route_reply" where
  "serve_write cc PostCredential = createCredential cc"
| "serve_write cc DeleteCredentialAt = deleteCredential cc"
| "serve_write cc PostDaemon = createDaemon cc"
| "serve_write cc PatchDaemon = updateDaemon cc"
| "serve_write cc PostRotateSecret = rotateSecret cc"
| "serve_write cc DeleteDaemon = disableDaemon cc"
| "serve_write cc PostMarkRead = markRead cc"
| "serve_write cc PostMarkAllRead = markAllRead cc"
| "serve_write cc PutTopic = setGlobalNotificationPreference cc"
| "serve_write cc DeleteTopic = deleteGlobalNotificationPreference cc"
| "serve_write cc PutDaemonTopic = setDaemonNotificationPreference cc"
| "serve_write cc DeleteDaemonTopic = deleteDaemonNotificationPreference cc"
| "serve_write cc PutDaemonTopics = setAllDaemonNotificationPreferences cc"
| "serve_write cc DeleteDaemonTopics = deleteAllDaemonNotificationPreferences cc"
| "serve_write cc PostWebhook = enqueueWebhook cc"

fun serve_read :: "cloud_call \<Rightarrow> member_read \<Rightarrow> cloud_caller \<Rightarrow> http_request \<Rightarrow> cloud_state \<Rightarrow> route_reply" where
  "serve_read cc GetCredentials who q s = listCredentials cc who s"
| "serve_read cc GetDaemons who q s = listDaemons cc who q s"
| "serve_read cc GetDaemonAt who q s = getDaemon cc who q s"
| "serve_read cc GetLogs who q s = listDaemonLogs cc who q s"
| "serve_read cc GetContainers who q s = listDaemonContainers cc who q s"
| "serve_read cc GetMetrics who q s = listMetrics cc who q s"
| "serve_read cc GetHealth who q s = daemonHealth cc who q s"
| "serve_read cc GetNotifications who q s = listNotifications cc who q s"
| "serve_read cc GetPreferences who q s = listNotificationPreferences cc who q s"
| "serve_read cc GetTopics who q s = listNotificationTopics cc who q s"
| "serve_read cc GetWebhook who q s = getWebhookResult cc who q s"
| "serve_read cc GetActions who q s = listActions cc who q s"
| "serve_read cc GetQuota who q s = workspaceQuota_route cc who q"

fun serve_daemon :: "cloud_call \<Rightarrow> daemon_route \<Rightarrow> http_request \<Rightarrow> cloud_state \<Rightarrow> cloud_state \<times> route_reply" where
  "serve_daemon cc PostMetrics = ingestMetric cc"
| "serve_daemon cc PostLogs = ingestLogs cc"
| "serve_daemon cc PostContainers = ingestContainerStatus cc"
| "serve_daemon cc PostNotification = createNotification cc"
| "serve_daemon cc PostActions = syncActions cc"
| "serve_daemon cc GetPending = listPendingWebhooks cc"
| "serve_daemon cc PostResult = completeWebhook cc"
| "serve_daemon cc GetDaemonQuotaAt = daemonQuota cc"

text \<open>The member routes are behind the middleware; the daemon routes look at the secret themselves.\<close>

definition serveRoute :: "cloud_call \<Rightarrow> cloud_route \<Rightarrow> http_request \<Rightarrow> cloud_state \<Rightarrow> cloud_state \<times> route_reply" where
  "serveRoute cc route q s =
     (case route of
        GetAlive \<Rightarrow> (s, Reply 200 PHealth)
      | DaemonRoute r \<Rightarrow> serve_daemon cc r q s
      | MemberWrite r \<Rightarrow>
          (case userAuth cc q (cs_relay s) of
             None \<Rightarrow> (s, Refused 401 ''unauthorized'') | Some who \<Rightarrow> serve_write cc r who q s)
      | MemberRead r \<Rightarrow>
          (case userAuth cc q (cs_relay s) of
             None \<Rightarrow> (s, Refused 401 ''unauthorized'') | Some who \<Rightarrow> (s, serve_read cc r who q s)))"

end
