(* ===== verification/Cloud_Routes_Facts.thy ===== *)
theory Cloud_Routes_Facts
  imports Cloud_Routes Cloud_Webhooks_Facts Cloud_Notify_Facts Cloud_Metrics_Facts Cloud_Reports_Facts
begin

text \<open>
  What the routes of the cloud let through: who must have proved what before anything is read or
  changed, what of the state a daemon's own requests reach, and where credentials reach too far.
\<close>

section \<open>The gates\<close>

definition got_through :: "cloud_state \<Rightarrow> cloud_state \<times> route_reply \<Rightarrow> bool" where
  "got_through s out \<longleftrightarrow> fst out \<noteq> s \<or> (case snd out of Reply _ _ \<Rightarrow> True | NoContent \<Rightarrow> True | _ \<Rightarrow> False)"

lemma serviceStatus_refuses [simp]: "\<exists>n t. serviceStatus e = Refused n t"
  by (cases e) auto

lemma through_simps [simp]:
  "\<not> got_through s (s, Refused n t)" "\<not> got_through s (s, Told n e)" "\<not> got_through s (s, serviceStatus e)"
  "\<not> got_through s (s, status_or_text keeps e)"
  by (cases e; auto simp: got_through_def status_or_text_def)+

lemma refused_respond [simp]:
  "\<not> got_through s (s, respond serviceStatus good (Inl e))" "\<not> got_through s (s, respond (Told n) good (Inl e))"
  "\<not> got_through s (s, respond (status_or_text keeps) good (Inl e))" "\<not> got_through s (s, respond metric_status good (Inl e))"
  by (simp_all add: respond_def metric_status_def)

lemma same_parts [simp]:
  "s\<lparr>cs_relay := cs_relay s\<rparr> = s" "with_daemons s (fl_daemons (cs_fleet s)) = s" "with_notes s (fl_notes (cs_fleet s)) [] = s"
  "s\<lparr>cs_fleet := cs_fleet s, cs_sent := cs_sent s\<rparr> = s"
  by (simp_all add: with_daemons_def with_notes_def)

lemma unauthenticated:
  assumes "authenticateDaemon ce ds i secret = Inl e"
  shows "IngestLogs ce ds i secret entries ids rows = Inl ErrUnauthorized"
    "IngestContainerStatus ce ds i secret cs rts srows = Inl ErrUnauthorized"
    "SyncActions ce ds i secret acts arows = Inl ErrUnauthorized"
    "CreateNotification ce ne ds i secret note ni eid prefs notes = (notes, [], Inl e)"
    "ListPendingWebhooks ce ds i secret limit r = (r, Inl e)"
    "CompleteWebhook ce ds i secret j code body err r = (r, Inl e)"
    "GetDaemonQuota ce i secret ds = Inl ErrUnauthorized"
  using assms
  by (simp_all add: IngestLogs_def IngestContainerStatus_def SyncActions_def CreateNotification_def
      ListPendingWebhooks_def CompleteWebhook_def GetDaemonQuota_def)

lemma unauthenticated_metric:
  assumes "authenticateDaemon ce (fl_daemons fl) i secret = Inl e"
  shows "IngestMetric ce ne tt i secret m j ni eid prefs fl = (fl, [], Inl ErrUnauthorized)"
  using assms by (simp add: IngestMetric_def)

lemma daemon_route_secret:
  assumes "got_through s (serve_daemon cc r q s)"
  shows "\<exists>secret d. daemonSecret q = Some secret \<and> authenticateDaemon (cc_env cc) (cs_daemons s) (hq_id q) secret = Inr d"
proof (cases "daemonSecret q")
  case None
  then show ?thesis using assms
    by (cases r) (simp_all add: ingestMetric_def ingestLogs_def ingestContainerStatus_def createNotification_def
        syncActions_def listPendingWebhooks_def completeWebhook_def daemonQuota_def with_secret_def)
next
  case (Some secret)
  show ?thesis
  proof (cases "authenticateDaemon (cc_env cc) (cs_daemons s) (hq_id q) secret")
    case (Inl e)
    have "\<not> got_through s (serve_daemon cc r q s)"
      using Some by (cases r) (simp_all add: ingestMetric_def ingestLogs_def ingestContainerStatus_def createNotification_def
        syncActions_def listPendingWebhooks_def completeWebhook_def daemonQuota_def with_secret_def with_body_def
        stored_or_def unauthenticated [OF Inl] unauthenticated_metric [OF Inl] split: option.split prod.split)
    then show ?thesis using assms by simp
  qed (use Some in auto)
qed

text \<open>C0:
  Nothing is read or changed through a route of the cloud, the liveness probe aside, by a caller who
  has not proved who it is: a member's route answers with success or changes the state only for a
  caller the middleware recognised, and a daemon's route only for a request that carries a secret
  which the enabled daemon named in the path has.
\<close>
theorem routes_authenticated:
  assumes "got_through s (serveRoute cc route q s)"
  shows "case route of
      GetAlive \<Rightarrow> True
    | DaemonRoute _ \<Rightarrow> (\<exists>secret d. daemonSecret q = Some secret \<and> daemon_row (cs_daemons s) (hq_id q) = Some d \<and>
        d_enabled d \<and> ce_bcrypt (cc_env cc) (d_secretHash d) secret)
    | _ \<Rightarrow> (\<exists>who. userAuth cc q (cs_relay s) = Some who)"
proof (cases route)
  case (DaemonRoute r)
  then show ?thesis using assms daemon_route_secret [of s cc r q] by (auto simp: serveRoute_def authenticateDaemon_ok)
qed (use assms in \<open>auto simp: serveRoute_def split: option.splits\<close>)

section \<open>Where credentials reach\<close>

lemma no_scopes [simp]: "splitCredentialScopes [] = []"
  by code_simp

lemma unscoped_in_scope [simp]: "in_scope [] x"
  by (simp add: in_scope_def)

lemma unscoped_reaches_all:
  assumes "cr_daemonIDs c = []" "cr_hostIDs c = []" "cr_actionNames c = []"
  shows "authorizeCredential ce ds c d action = Inr ()"
  using assms by (simp add: authorizeCredential_def)

text \<open>A request that asks for a credential without scopes, and one that queues an action with it.\<close>

definition asks_unscoped :: "cloud_call \<Rightarrow> http_request \<Rightarrow> string \<Rightarrow> cloud_state \<Rightarrow> bool" where
  "asks_unscoped cc q sec s \<longleftrightarrow>
     (\<exists>label. parseJSON (jd_credential (cc_json cc)) (hq_body q) = Some (label, [], [], []) \<and> trim_space label \<noteq> [] \<and>
        length (trim_space label) \<le> 128 \<and> valid_utf8 (trim_space label)) \<and>
     mn_secret (cc_new cc) = Inr sec \<and> \<not> ce_fault (cc_env cc) 0 \<and>
     mn_id (cc_new cc) \<notin> cr_id ` set (rl_creds (cs_relay s)) \<and>
     ce_sha256 (cc_env cc) (CredentialTokenPrefix @ sec) \<notin> cr_tokenHash ` set (rl_creds (cs_relay s))"

definition queues_with :: "cloud_call \<Rightarrow> http_request \<Rightarrow> string \<Rightarrow> string \<Rightarrow> bytes \<Rightarrow> string \<Rightarrow> cloud_state \<Rightarrow> bool" where
  "queues_with cc q sec name body i s \<longleftrightarrow>
     hq_token q = Some (CredentialTokenPrefix @ sec) \<and> cc_solar cc \<noteq> None \<and>
     (\<exists>text signature. parseJSON (jd_hook (cc_json cc)) (hq_body q) = Some (name, text, signature) \<and> decode_std text = Some body) \<and>
     trim_space name \<noteq> [] \<and> body \<noteq> [] \<and> length body \<le> webhookBodyLimit \<and> mn_uuid (cc_new cc) = Inr i \<and>
     i \<notin> hr_id ` set (rl_hooks (cs_relay s)) \<and>
     \<not> ce_fault (cc_auth cc) 0 \<and> \<not> ce_fault (cc_env cc) 1 \<and> \<not> ce_fault (cc_env cc) 2"

lemma created_unscoped:
  assumes "userAuth cc q (cs_relay s) = Some who" "asks_unscoped cc q sec s"
  shows "\<exists>c view. serveRoute cc (MemberWrite PostCredential) q s =
      (s\<lparr>cs_relay := (cs_relay s)\<lparr>rl_creds := rl_creds (cs_relay s) @ [c]\<rparr>\<rparr>,
       Reply 201 (PNewCredential view (CredentialTokenPrefix @ sec))) \<and>
    cr_tokenHash c = ce_sha256 (cc_env cc) (CredentialTokenPrefix @ sec) \<and>
    cr_daemonIDs c = [] \<and> cr_hostIDs c = [] \<and> cr_actionNames c = []"
proof -
  obtain label where "parseJSON (jd_credential (cc_json cc)) (hq_body q) = Some (label, [], [], [])" "trim_space label \<noteq> []"
    "length (trim_space label) \<le> 128" "valid_utf8 (trim_space label)"
    using assms(2) unfolding asks_unscoped_def by blast
  then show ?thesis using assms
    by (simp add: serveRoute_def createCredential_def with_body_def CreateCredential_def Let_def joinCredentialScopes_def
        asks_unscoped_def insert_row_def respond_def) (rule exI, rule conjI, rule refl, simp)
qed

lemma queued_unscoped:
  assumes "queues_with cc q sec name body i s"
    and "rl_creds (cs_relay s) = creds @ [c]" "cr_tokenHash c = ce_sha256 (cc_auth cc) (CredentialTokenPrefix @ sec)"
    and "cr_tokenHash c \<notin> cr_tokenHash ` set creds"
    and "cr_daemonIDs c = []" "cr_hostIDs c = []" "cr_actionNames c = []"
  shows "\<exists>s' r. serveRoute cc (MemberWrite PostWebhook) q s = (s', Reply 201 (PQueued i HPending (ce_now (cc_env cc)))) \<and>
     r \<in> set (rl_hooks (cs_relay s')) \<and> hr_id r = i \<and> hr_daemon r = hq_id q \<and> hr_name r = trim_space name \<and>
     hr_body r = body \<and> hr_status r = HPending"
proof -
  have none: "find (\<lambda>x. cr_tokenHash x = cr_tokenHash c) creds = None"
    using assms(4) by (auto simp: find_None_iff image_iff)
  have "find (\<lambda>x. cr_tokenHash x = cr_tokenHash c) (creds @ [c]) = Some c"
    using none by (induction creds) (auto split: if_splits)
  then have "CredentialByToken (cc_auth cc) (CredentialTokenPrefix @ sec) (cs_relay s) = Inr c"
    using assms(1-3) by (simp add: CredentialByToken_def queues_with_def)
  moreover have "has_prefix CredentialTokenPrefix (CredentialTokenPrefix @ sec)"
    by (simp add: has_prefix_def)
  ultimately have who: "userAuth cc q (cs_relay s) =
      Some \<lparr>ca_account = cr_account c, ca_handle = cr_account c, ca_credential = Some c\<rparr>"
    using assms(1) by (auto simp: userAuth_def queues_with_def)
  obtain enc sig where "parseJSON (jd_hook (cc_json cc)) (hq_body q) = Some (name, enc, sig)"
    "decode_std enc = Some body"
    using assms(1) unfolding queues_with_def by blast
  then show ?thesis using assms(1,5-7) who
    by (simp add: serveRoute_def enqueueWebhook_def with_body_def EnqueueWebhook_def authorize_caller_def
        unscoped_reaches_all insert_row_def queues_with_def respond_def new_request_def viewWebhookRequest_def) (rule exI, rule conjI, rule disjI1, rule refl, simp)
qed

text \<open>C0:
  Whoever passes the middleware, even with a credential that is limited to one action, and whatever
  the workspace service says of its account, gets a credential without limits for the asking and
  with it queues any action on any daemon: nothing is assumed of the daemon, of its workspace or of
  the scopes of the credential the caller came with.
\<close>
theorem any_caller_reaches_any_daemon:
  assumes "userAuth cc q (cs_relay s) = Some who" "asks_unscoped cc q sec s"
    and "queues_with cc' q' sec name body i s" "ce_sha256 (cc_auth cc') = ce_sha256 (cc_env cc)"
  shows "\<exists>s1 view s2 r. serveRoute cc (MemberWrite PostCredential) q s =
        (s1, Reply 201 (PNewCredential view (CredentialTokenPrefix @ sec))) \<and>
      serveRoute cc' (MemberWrite PostWebhook) q' s1 = (s2, Reply 201 (PQueued i HPending (ce_now (cc_env cc')))) \<and>
      r \<in> set (rl_hooks (cs_relay s2)) \<and> hr_id r = i \<and> hr_daemon r = hq_id q' \<and> hr_name r = trim_space name \<and>
      hr_body r = body \<and> hr_status r = HPending"
proof -
  obtain c view where c: "serveRoute cc (MemberWrite PostCredential) q s =
      (s\<lparr>cs_relay := (cs_relay s)\<lparr>rl_creds := rl_creds (cs_relay s) @ [c]\<rparr>\<rparr>,
       Reply 201 (PNewCredential view (CredentialTokenPrefix @ sec)))"
    "cr_tokenHash c = ce_sha256 (cc_env cc) (CredentialTokenPrefix @ sec)"
    "cr_daemonIDs c = []" "cr_hostIDs c = []" "cr_actionNames c = []"
    using created_unscoped [OF assms(1,2)] by blast
  let ?s1 = "s\<lparr>cs_relay := (cs_relay s)\<lparr>rl_creds := rl_creds (cs_relay s) @ [c]\<rparr>\<rparr>"
  have "queues_with cc' q' sec name body i ?s1" using assms(3) by (simp add: queues_with_def)
  from queued_unscoped [OF this, of "rl_creds (cs_relay s)" c] show ?thesis
    using c assms(2,4) by (simp add: asks_unscoped_def)
qed


section \<open>What a daemon's requests reach\<close>

definition not_of :: "('r \<Rightarrow> string) \<Rightarrow> string \<Rightarrow> 'r list \<Rightarrow> 'r list" where
  "not_of owner d rows = filter (\<lambda>r. owner r \<noteq> d) rows"

lemma not_of_update:
  assumes "\<And>r. P r \<Longrightarrow> owner r = d" "\<And>r. owner (f r) = owner r"
  shows "not_of owner d (update_where P f rows) = not_of owner d rows"
  using assms(1) by (induction rows) (auto simp: not_of_def update_where_def assms(2))

lemma not_of_insert:
  assumes "insert_row key r rows = Some rows'" "owner r = d"
  shows "not_of owner d rows' = not_of owner d rows"
  using assms by (simp add: insert_row_Some not_of_def)

lemma not_of_filter:
  assumes "\<And>r. \<not> P r \<Longrightarrow> owner r = d"
  shows "not_of owner d (filter P rows) = not_of owner d rows"
  using assms by (induction rows) (auto simp: not_of_def)

lemma not_of_append: "not_of owner d (xs @ ys) = not_of owner d xs @ not_of owner d ys"
  by (simp add: not_of_def)

lemma not_of_all: "list_all (\<lambda>r. owner r = d) rows \<Longrightarrow> not_of owner d rows = []"
  by (induction rows) (auto simp: not_of_def)

text \<open>All that is not the daemon's own; the poll memory, which is bounded over all daemons, is left out.\<close>

definition beyond where
  "beyond d s =
     (not_of d_id d (cs_daemons s), not_of mt_daemon d (fl_metrics (cs_fleet s)), not_of nt_daemon d (cs_notes s),
      not_of hr_daemon d (rl_hooks (cs_relay s)), rl_creds (cs_relay s), cs_prefs s,
      not_of ar_daemon d (cs_actions s), not_of lr_daemon d (cs_logs s), not_of kr_daemon d (cs_status s))"

definition only_about :: "string \<Rightarrow> cloud_state \<Rightarrow> cloud_state \<Rightarrow> bool" where
  "only_about d s s' \<longleftrightarrow> beyond d s' = beyond d s \<and>
     (\<exists>events. cs_sent s' = cs_sent s @ events \<and> list_all (\<lambda>e. ev_daemon e = d) events)"

lemma only_about_same [simp]: "only_about d s s"
  by (simp add: only_about_def)

lemma authenticated_id: "authenticateDaemon ce ds i secret = Inr d \<Longrightarrow> d_id d = i"
  by (auto simp: authenticateDaemon_ok dest: daemon_row_Some)

lemma published_about: "publishNotification ne d eid n = (events, r) \<Longrightarrow> nt_daemon n = i \<Longrightarrow> list_all (\<lambda>e. ev_daemon e = i) events"
  by (auto simp: publishNotification_cases note_event_of_def split: option.splits)

lemma reconnected_about:
  assumes "notify_reconnected ce ne tt d i eid prefs s = (s', events, r)"
  shows "list_all (\<lambda>e. ev_daemon e = d_id d) events" "not_of nt_daemon (d_id d) (fl_notes s') = not_of nt_daemon (d_id d) (fl_notes s)"
proof -
  have n: "nt_daemon (reconnected_note ne tt (ce_now ce) d i) = d_id d"
    by (simp add: reconnected_note_def Let_def split: prod.split)
  show "list_all (\<lambda>e. ev_daemon e = d_id d) events"
    using assms by (auto simp: notify_reconnected_def Let_def n published_about split: sum.splits if_splits option.splits prod.splits)
  show "not_of nt_daemon (d_id d) (fl_notes s') = not_of nt_daemon (d_id d) (fl_notes s)"
    using notify_reconnected_tables [OF assms] n by (auto simp: not_of_def)
qed


lemma metric_about:
  assumes "IngestMetric ce ne tt i secret m j ni eid prefs fl = (fl', events, res)"
  shows "not_of d_id i (fl_daemons fl') = not_of d_id i (fl_daemons fl) \<and>
    not_of mt_daemon i (fl_metrics fl') = not_of mt_daemon i (fl_metrics fl) \<and>
    not_of nt_daemon i (fl_notes fl') = not_of nt_daemon i (fl_notes fl) \<and> list_all (\<lambda>e. ev_daemon e = i) events"
proof (cases "authenticateDaemon ce (fl_daemons fl) i secret")
  case (Inl e)
  then show ?thesis using assms by (simp add: unauthenticated_metric)
next
  case (Inr d)
  have i: "d_id d = i" using authenticated_id [OF Inr] .
  have beaten: "not_of d_id i (update_where (is_daemon i) (beat (ce_now ce) d m) ds) = not_of d_id i ds" for ds
    by (rule not_of_update) (simp_all add: is_daemon_def)
  have recon: "not_of d_id i (update_where (silent_daemon i) (reconnect (ce_now ce)) ds) = not_of d_id i ds" for ds
    by (rule not_of_update) (simp_all add: silent_daemon_def)
  have kept: "not_of mt_daemon i rows' = not_of mt_daemon i rows"
    if "insert_row mt_id (new_metric ce d j m) rows = Some rows'" for rows rows'
    using that by (rule not_of_insert) (simp add: new_metric_def i)
  have told: "fl_daemons fl2 = fl_daemons fl1 \<and> fl_metrics fl2 = fl_metrics fl1 \<and>
      not_of nt_daemon i (fl_notes fl2) = not_of nt_daemon i (fl_notes fl1) \<and> list_all (\<lambda>e. ev_daemon e = i) evs"
    if "notify_reconnected ce ne tt d ni eid prefs fl1 = (fl2, evs, r)" for fl1 fl2 evs r
    using notify_reconnected_tables [OF that] reconnected_about [OF that] i by simp
  show ?thesis
    using assms Inr
    by (auto simp: IngestMetric_def Let_def i beaten recon kept dest!: told
        split: sum.splits prod.splits option.splits if_splits)
qed

lemma note_about:
  assumes "CreateNotification ce ne ds i secret note ni eid prefs notes = (notes', events, res)"
  shows "not_of nt_daemon i notes' = not_of nt_daemon i notes \<and> list_all (\<lambda>e. ev_daemon e = i) events"
proof -
  consider "notes' = notes \<and> events = []"
    | d where "d_id d = i" "follows_policy ne d (d_account d) ni eid (trim_space (ni_kind note))
         (effective (policy prefs) (d_account d) (d_workspace d) (d_id d) (trim_space (ni_kind note))) notes (notes', events, res)"
    using CreateNotification_cases [OF assms] authenticated_id by blast
  then show ?thesis
  proof cases
    case 2
    then show ?thesis by (auto simp: follows_policy_def not_of_def note_event_of_def split: pref_level.splits option.splits if_splits)
  qed simp
qed


lemma upsert_about:
  assumes "kr_daemon r = i"
  shows "not_of kr_daemon i (upsert_status r rows) = not_of kr_daemon i rows"
  using assms by (auto simp: upsert_status_def status_key_def refreshed_def not_of_append intro!: not_of_update)
    (simp add: not_of_def)

lemma batch_about:
  assumes "list_all (\<lambda>r. kr_daemon r = i) new" "upsert_batch new rows = Some rows'"
  shows "not_of kr_daemon i rows' = not_of kr_daemon i rows"
proof -
  have "not_of kr_daemon i (fold upsert_status new rows) = not_of kr_daemon i rows"
    using assms(1) by (induction new arbitrary: rows) (simp_all add: upsert_about)
  then show ?thesis using assms(2) by (simp add: upsert_batch_def split: if_splits)
qed

lemma status_about:
  assumes "IngestContainerStatus ce ds i secret cs runtimes rows = Inr rows'"
  shows "not_of kr_daemon i rows' = not_of kr_daemon i rows"
proof -
  obtain d covered where d: "authenticateDaemon ce ds i secret = Inr d"
    and covered: "normalizeCoveredRuntimes runtimes = Inr covered"
    using assms by (auto simp: IngestContainerStatus_def split: sum.splits if_splits)
  obtain new where new: "status_rows (ce_now ce) d cs = Inr new"
    using assms d covered by (auto simp: IngestContainerStatus_def split: if_splits)
  define kept where "kept = (if new = [] then Some rows else if ce_fault ce 1 then None else upsert_batch new rows)"
  have out: "(case kept of None \<Rightarrow> Inl DbError
      | Some rows1 \<Rightarrow> if covered \<noteq> [] \<and> ce_fault ce 2 then Inl DbError else if ce_fault ce 3 then Inl DbError
          else Inr (if covered = [] then rows1
                    else filter (\<lambda>r. \<not> gone (d_id d) covered (map kr_container new) r) rows1)) = Inr rows'"
    using assms d covered new by (simp add: IngestContainerStatus_def kept_def split: if_split_asm)
  obtain rows1 where rows1: "kept = Some rows1" using out by (cases kept) auto
  have rows': "rows' = (if covered = [] then rows1 else filter (\<lambda>r. \<not> gone (d_id d) covered (map kr_container new) r) rows1)"
    using out rows1 by (simp split: if_split_asm)
  have i: "d_id d = i" using authenticated_id [OF d] .
  have "list_all (\<lambda>r. kr_daemon r = i) new"
    using status_rows_shape [OF new [unfolded status_rows_def]] i by simp
  then have "not_of kr_daemon i rows1 = not_of kr_daemon i rows"
    using rows1 batch_about by (auto simp: kept_def split: if_splits)
  moreover have "not_of kr_daemon i (filter (\<lambda>r. \<not> gone (d_id d) covered (map kr_container new) r) rows1) =
      not_of kr_daemon i rows1"
    by (rule not_of_filter) (simp add: gone_def i)
  ultimately show ?thesis unfolding rows' by simp
qed

lemma logs_about:
  assumes "IngestLogs ce ds i secret entries ids rows = Inr rows'"
  shows "not_of lr_daemon i rows' = not_of lr_daemon i rows"
proof -
  obtain d checked where d: "authenticateDaemon ce ds i secret = Inr d"
    and rows': "rows' = rows @ map2 (log_row_of (ce_now ce) (d_id d)) ids checked"
    using assms by (auto simp: IngestLogs_def Let_def split: sum.splits if_splits)
  have "list_all (\<lambda>r. lr_daemon r = i) (map2 (log_row_of (ce_now ce) (d_id d)) ids checked)"
    using authenticated_id [OF d] by (auto simp: list_all_iff log_row_of_def)
  then show ?thesis unfolding rows' by (simp add: not_of_append not_of_all)
qed

lemma actions_about:
  assumes "SyncActions ce ds i secret acts rows = Inr rows'"
  shows "not_of ar_daemon i rows' = not_of ar_daemon i rows"
proof -
  obtain d checked where d: "authenticateDaemon ce ds i secret = Inr d"
    and rows': "rows' = filter (\<lambda>r. ar_daemon r \<noteq> d_id d) rows @ map (action_row_of (ce_now ce) (d_id d)) checked"
    using assms by (auto simp: SyncActions_def split: sum.splits if_splits)
  have i: "d_id d = i" using authenticated_id [OF d] .
  have "list_all (\<lambda>r. ar_daemon r = i) (map (action_row_of (ce_now ce) (d_id d)) checked)"
    by (simp add: list_all_iff action_row_of_def i)
  moreover have "not_of ar_daemon i (filter (\<lambda>r. ar_daemon r \<noteq> d_id d) rows) = not_of ar_daemon i rows"
    by (rule not_of_filter) (simp add: i)
  ultimately show ?thesis unfolding rows' by (simp add: not_of_append not_of_all i)
qed

lemma reclaimed_about: "not_of hr_daemon i (reclaim_hooks now i rows) = not_of hr_daemon i rows"
  unfolding reclaim_hooks_def by (rule not_of_update) (simp_all add: hook_take_back_def)

lemma leased_about: "not_of hr_daemon i (lease_hooks now i ids rows) = not_of hr_daemon i rows"
  unfolding lease_hooks_def by (rule not_of_update) (simp_all add: hook_lease_def)

lemma pending_about:
  assumes "ListPendingWebhooks ce ds i secret limit s = (s', res)"
  shows "not_of hr_daemon i (rl_hooks s') = not_of hr_daemon i (rl_hooks s) \<and> rl_creds s' = rl_creds s"
  using assms by (auto simp: ListPendingWebhooks_def Let_def reclaimed_about leased_about split: sum.splits if_splits)

lemma completed_about:
  assumes "CompleteWebhook ce ds i secret j code body err s = (s', res)"
  shows "not_of hr_daemon i (rl_hooks s') = not_of hr_daemon i (rl_hooks s) \<and> rl_creds s' = rl_creds s"
proof -
  have "not_of hr_daemon i (update_where (\<lambda>r. hr_daemon r = i \<and> hr_id r = j \<and> hr_status r = HLeased)
      (complete_hook now code body err) rows) = not_of hr_daemon i rows" for now rows
    by (rule not_of_update) (simp_all add: complete_hook_def)
  then show ?thesis using assms by (auto simp: CompleteWebhook_def Let_def split: sum.splits if_splits)
qed

text \<open>C0:
  A request on a daemon's route touches nothing of any other daemon: the rows of every table that
  belong to others, all credentials and all delivery preferences are as they were, and what is
  published is about the daemon named in the path.
\<close>
theorem daemon_requests_isolated:
  assumes "serveRoute cc (DaemonRoute r) q s = (s', out)"
  shows "only_about (hq_id q) s s'"
  using assms
  by (cases r)
    (auto simp: serveRoute_def ingestMetric_def ingestLogs_def ingestContainerStatus_def createNotification_def syncActions_def
      listPendingWebhooks_def completeWebhook_def daemonQuota_def with_secret_def with_body_def stored_or_def with_notes_def
      only_about_def beyond_def
      dest!: metric_about note_about status_about logs_about actions_about pending_about completed_about
      split: option.splits prod.splits sum.splits)


section \<open>Members\<close>

text \<open>The workspace a request concerns; none for the routes that only concern the caller's own credentials.\<close>

definition daemons_workspace :: "http_request \<Rightarrow> cloud_state \<Rightarrow> string option" where
  "daemons_workspace q s = map_option d_workspace (daemon_row (cs_daemons s) (hq_id q))"

definition queried_workspace :: "http_request \<Rightarrow> string option" where
  "queried_workspace q = Some (trim_space (hq_query q ''workspace_id''))"

fun written_workspace :: "cloud_call \<Rightarrow> member_write \<Rightarrow> http_request \<Rightarrow> cloud_state \<Rightarrow> string option" where
  "written_workspace cc PostCredential q s = None"
| "written_workspace cc DeleteCredentialAt q s = None"
| "written_workspace cc PostDaemon q s = map_option (\<lambda>(w, _). trim_space w) (parseJSON (jd_daemon (cc_json cc)) (hq_body q))"
| "written_workspace cc PatchDaemon q s = daemons_workspace q s"
| "written_workspace cc PostRotateSecret q s = daemons_workspace q s"
| "written_workspace cc DeleteDaemon q s = daemons_workspace q s"
| "written_workspace cc PostWebhook q s = daemons_workspace q s"
| "written_workspace cc PostMarkRead q s = map_option nt_workspace (find (\<lambda>n. nt_id n = hq_id q) (cs_notes s))"
| "written_workspace cc PutDaemonTopic q s =
     map_option (\<lambda>(w, _). trim_space w) (parseJSON (jd_scoped_level (cc_json cc)) (hq_body q))"
| "written_workspace cc PutDaemonTopics q s =
     map_option (\<lambda>(w, _). trim_space w) (parseJSON (jd_scoped_level (cc_json cc)) (hq_body q))"
| "written_workspace cc _ q s = queried_workspace q"

fun read_workspace :: "member_read \<Rightarrow> http_request \<Rightarrow> cloud_state \<Rightarrow> string option" where
  "read_workspace GetCredentials q s = None"
| "read_workspace GetDaemons q s = queried_workspace q"
| "read_workspace GetNotifications q s = queried_workspace q"
| "read_workspace GetPreferences q s = queried_workspace q"
| "read_workspace GetTopics q s = queried_workspace q"
| "read_workspace GetQuota q s = Some (trim_space (hq_id q))"
| "read_workspace _ q s = daemons_workspace q s"

definition member_of :: "cloud_call \<Rightarrow> string \<Rightarrow> string option \<Rightarrow> bool" where
  "member_of cc account w \<longleftrightarrow>
     (\<exists>wc x. w = Some x \<and> ce_workspaces (cc_env cc) = Some wc \<and> wc_member wc x account = Inr True)"

lemma member_ofI:
  "authorizeWorkspace (cc_env cc) account x = Inr u \<Longrightarrow> w = Some x \<Longrightarrow> member_of cc account w"
  by (auto simp: member_of_def authorizeWorkspace_ok)

lemma member_of_daemon:
  "daemonForAccount (cc_env cc) (cs_daemons s) account (hq_id q) = Inr d \<Longrightarrow> member_of cc account (daemons_workspace q s)"
  by (auto simp: member_of_def daemonForAccount_ok confirmed_member_def daemons_workspace_def)

lemma through_read: "got_through s (s, r) \<longleftrightarrow> (case r of Reply _ _ \<Rightarrow> True | NoContent \<Rightarrow> True | _ \<Rightarrow> False)"
  by (simp add: got_through_def)

lemma through_respond:
  "got_through s (s, respond serviceStatus good r) \<Longrightarrow> \<exists>v. r = Inr v"
  "got_through s (s, respond member_status good r) \<Longrightarrow> \<exists>v. r = Inr v"
  by (cases r; simp)+

lemma read_needs_membership:
  assumes "got_through s (s, serve_read cc r who q s)" "r \<noteq> GetCredentials"
  shows "member_of cc (ca_account who) (read_workspace r q s)"
proof (cases r)
  case GetDaemonAt
  then show ?thesis using assms by (auto simp: getDaemon_def GetDaemon_def dest!: through_respond intro: member_of_daemon)
next
  case GetDaemons
  then show ?thesis using assms
    by (auto simp: listDaemons_def ListDaemons_def Let_def queried_workspace_def dest!: through_respond split: if_splits intro: member_ofI)
next
  case GetLogs
  then show ?thesis using assms
    by (auto simp: listDaemonLogs_def windowed_def ListLogs_def dest!: through_respond split: option.splits intro: member_of_daemon)
next
  case GetContainers
  then show ?thesis using assms
    by (auto simp: listDaemonContainers_def windowed_def ListContainerStatus_def dest!: through_respond split: option.splits
        intro: member_of_daemon)
next
  case GetMetrics
  then show ?thesis using assms
    by (auto simp: listMetrics_def windowed_def ListMetrics_def dest!: through_respond split: option.splits intro: member_of_daemon)
next
  case GetHealth
  then show ?thesis using assms by (auto simp: daemonHealth_def DaemonHealth_def dest!: through_respond intro: member_of_daemon)
next
  case GetNotifications
  then show ?thesis using assms
    by (auto simp: listNotifications_def windowed_def ListNotifications_def Let_def queried_workspace_def dest!: through_respond
        split: option.splits if_splits intro: member_ofI)
next
  case GetPreferences
  then show ?thesis using assms
    by (auto simp: listNotificationPreferences_def ListNotificationPreferences_def Let_def queried_workspace_def
        dest!: through_respond split: if_splits intro: member_ofI)
next
  case GetTopics
  then show ?thesis using assms
    by (auto simp: listNotificationTopics_def ListNotificationTopics_def Let_def queried_workspace_def
        dest!: through_respond split: if_splits intro: member_ofI)
next
  case GetWebhook
  then show ?thesis using assms
    by (auto simp: getWebhookResult_def GetWebhookResult_def dest!: through_respond intro: member_of_daemon)
next
  case GetActions
  then show ?thesis using assms by (auto simp: listActions_def ListActions_def dest!: through_respond intro: member_of_daemon)
next
  case GetQuota
  then show ?thesis using assms
    by (auto simp: workspaceQuota_route_def GetWorkspaceQuota_def Let_def dest!: through_respond split: if_splits intro: member_ofI)
qed (use assms in simp)

lemma through_stored: "got_through s (stored_or serviceStatus keep s r) \<Longrightarrow> \<exists>rows. r = Inr rows"
  by (cases r) (simp_all add: stored_or_def)

lemma through_body:
  "got_through s (with_body dec q s next1) \<Longrightarrow> \<exists>v. parseJSON dec (hq_body q) = Some v \<and> got_through s (next1 v)"
  by (auto simp: with_body_def split: option.splits)

lemma set_preference_member:
  assumes "SetNotificationPreference (cc_env cc) ds account w d topic level i prefs = Inr rows"
  shows "member_of cc account (Some (trim_space w))"
  using assms by (auto simp: SetNotificationPreference_def Let_def split: if_splits intro: member_ofI)

lemma delete_preference_member:
  assumes "DeleteNotificationPreference (cc_env cc) ds account w d topic prefs = Inr rows"
  shows "member_of cc account (Some (trim_space w))"
  using assms by (auto simp: DeleteNotificationPreference_def Let_def split: if_splits intro: member_ofI)

lemma daemon_call_member:
  assumes "got_through s (with_daemons s ds, respond bad good res)" "bad = serviceStatus \<or> bad = member_status"
    and "\<And>e. daemonForAccount (cc_env cc) (cs_daemons s) account (hq_id q) = Inl e \<Longrightarrow> ds = cs_daemons s \<and> res = Inl e"
  shows "member_of cc account (daemons_workspace q s)"
proof (cases "daemonForAccount (cc_env cc) (cs_daemons s) account (hq_id q)")
  case (Inl e)
  then show ?thesis using assms(1,2) assms(3) [OF Inl] by auto
qed (rule member_of_daemon)

lemma write_needs_membership:
  assumes "got_through s (serve_write cc r who q s)" "r \<notin> {PostCredential, DeleteCredentialAt}"
    and "r = PostWebhook \<Longrightarrow> ca_credential who = None"
  shows "member_of cc (ca_account who) (written_workspace cc r q s)"
proof (cases r)
  case PostDaemon
  then obtain w name where v: "parseJSON (jd_daemon (cc_json cc)) (hq_body q) = Some (w, name)"
    using assms(1) by (auto simp: createDaemon_def dest!: through_body)
  have "authorizeWorkspace (cc_env cc) (ca_account who) (trim_space w) = Inr ()"
    using assms(1) PostDaemon v
    by (cases "authorizeWorkspace (cc_env cc) (ca_account who) (trim_space w)")
      (auto simp: createDaemon_def with_body_def CreateDaemon_def Let_def split: if_splits)
  then show ?thesis using PostDaemon v by (auto intro: member_ofI)
next
  case PatchDaemon
  then show ?thesis using assms(1)
    by (auto simp: updateDaemon_def dest!: through_body split: prod.splits)
      (erule daemon_call_member, simp, auto simp: UpdateDaemon_def)
next
  case PostRotateSecret
  then show ?thesis using assms(1)
    by (auto simp: rotateSecret_def split: prod.splits) (erule daemon_call_member, simp, auto simp: RotateSecret_def)
next
  case DeleteDaemon
  then show ?thesis using assms(1)
    by (auto simp: disableDaemon_def split: prod.splits) (erule daemon_call_member, simp, auto simp: DisableDaemon_def)
next
  case PostMarkRead
  then show ?thesis using assms(1)
    by (auto simp: markRead_def MarkNotificationRead_def dest!: through_stored split: if_splits option.splits intro: member_ofI)
next
  case PostMarkAllRead
  then show ?thesis using assms(1)
    by (auto simp: markAllRead_def MarkAllNotificationsRead_def Let_def queried_workspace_def dest!: through_stored
        split: if_splits intro: member_ofI)
next
  case PutTopic
  then show ?thesis using assms(1)
    by (auto simp: setGlobalNotificationPreference_def queried_workspace_def dest!: through_body through_stored set_preference_member)
next
  case DeleteTopic
  then show ?thesis using assms(1)
    by (auto simp: deleteGlobalNotificationPreference_def queried_workspace_def dest!: through_stored delete_preference_member)
next
  case PutDaemonTopic
  then show ?thesis using assms(1)
    by (auto simp: setDaemonNotificationPreference_def dest!: through_body through_stored set_preference_member)
next
  case DeleteDaemonTopic
  then show ?thesis using assms(1)
    by (auto simp: deleteDaemonNotificationPreference_def queried_workspace_def dest!: through_stored delete_preference_member)
next
  case PutDaemonTopics
  then show ?thesis using assms(1)
    by (auto simp: setAllDaemonNotificationPreferences_def SetAllDaemonNotificationPreferences_def Let_def
        dest!: through_body through_stored split: if_splits intro: member_ofI)
next
  case DeleteDaemonTopics
  then show ?thesis using assms(1)
    by (auto simp: deleteAllDaemonNotificationPreferences_def DeleteAllDaemonNotificationPreferences_def Let_def
        queried_workspace_def dest!: through_stored split: if_splits intro: member_ofI)
next
  case PostWebhook
  then obtain name enc sig body where "parseJSON (jd_hook (cc_json cc)) (hq_body q) = Some (name, enc, sig)"
    "decode_std enc = Some body"
    using assms(1) by (auto simp: enqueueWebhook_def dest!: through_body split: option.splits)
  then show ?thesis using assms(1,3) PostWebhook
    by (cases "daemonForAccount (cc_env cc) (cs_daemons s) (ca_account who) (hq_id q)")
      (auto simp: enqueueWebhook_def with_body_def EnqueueWebhook_def authorize_caller_def intro: member_of_daemon)
qed (use assms(2) in simp_all)

text \<open>C0:
  A member's route answers with success or changes the state only for an account that the workspace
  service confirms as a member of the workspace the request concerns: the one of the daemon or the
  notification in the path, or the one named in the query or the body. Exempt are the three routes
  of a caller's own credentials, and queueing an action with a credential, which is checked against
  its scopes instead.
\<close>
theorem member_routes_need_membership:
  assumes "got_through s (serveRoute cc route q s)" "userAuth cc q (cs_relay s) = Some who"
    and "route \<notin> {MemberWrite PostCredential, MemberWrite DeleteCredentialAt, MemberRead GetCredentials}"
    and "route = MemberWrite PostWebhook \<longrightarrow> ca_credential who = None"
  shows "case route of
      MemberWrite r \<Rightarrow> member_of cc (ca_account who) (written_workspace cc r q s)
    | MemberRead r \<Rightarrow> member_of cc (ca_account who) (read_workspace r q s)
    | _ \<Rightarrow> True"
  using assms by (auto simp: serveRoute_def split: cloud_route.split intro: write_needs_membership read_needs_membership)

section \<open>Requests of a small fleet\<close>

definition demo_decoders :: body_decoders where
  "demo_decoders =
     \<lparr>jd_credential = \<lambda>b. Some ((''all'', [], [], []), []), jd_daemon = \<lambda>b. None, jd_edit = \<lambda>b. None, jd_level = \<lambda>b. None,
      jd_scoped_level = \<lambda>b. None, jd_metric = \<lambda>b. None, jd_logs = \<lambda>b. None, jd_status = \<lambda>b. None, jd_note = \<lambda>b. None,
      jd_actions = \<lambda>b. Some ([], b), jd_hook = \<lambda>b. Some ((''backup'', ''e30='', []), []), jd_result = \<lambda>b. None\<rparr>"

text \<open>Nobody is a member of any workspace but alice of the first.\<close>

definition demo_call :: "time \<Rightarrow> cloud_call" where
  "demo_call now =
     \<lparr>cc_auth = demo_env now, cc_env = demo_env now, cc_notify = \<lparr>ne_accounts = None, ne_publisher = None,
        ne_normal = \<lambda>b. None, ne_object = \<lambda>b. None, ne_encode = \<lambda>o1. [], ne_printing = undefined, ne_order = \<lambda>o1. o1\<rparr>,
      cc_text = \<lparr>tt_rfc3339 = \<lambda>t. [], tt_json = \<lambda>t. []\<rparr>, cc_solar = Some (\<lambda>q. if hq_token q = Some ''alice'' then Some \<lparr>sa_id = ''alice'', sa_nick = [], sa_name = []\<rparr> else None),
      cc_json = demo_decoders,
      cc_time = \<lambda>t. None,
      cc_new = \<lparr>mn_id = ''n'', mn_uuid = Inr ''r'', mn_secret = Inr ''x'', mn_hashed = Inl ''none'', mn_ids = [],
        mn_topic_ids = \<lambda>t. t, mn_note = ''n'', mn_event = ''e''\<rparr>\<rparr>"

definition demo_sent :: "string \<Rightarrow> string \<Rightarrow> http_request" where
  "demo_sent token i = \<lparr>hq_token = Some token, hq_authorization = ''Bearer '' @ token, hq_id = i, hq_topic = [],
     hq_request = [], hq_query = \<lambda>_. [], hq_body = []\<rparr>"

text \<open>The state holds one daemon of alice's and one credential of bob's, limited to deploying there.\<close>

definition demo_routed :: cloud_state where
  "demo_routed = \<lparr>cs_fleet = \<lparr>fl_daemons = [demo_host], fl_hits = [], fl_metrics = [], fl_notes = []\<rparr>,
     cs_relay = no_relay\<lparr>rl_creds := [demo_credential]\<rparr>, cs_prefs = [], cs_actions = [], cs_logs = [],
     cs_status = [], cs_sent = []\<rparr>"

lemma demo_bob: "userAuth (demo_call 5) (demo_sent ''mk_s'' []) (cs_relay demo_routed) =
    Some \<lparr>ca_account = ''bob'', ca_handle = ''bob'', ca_credential = Some demo_credential\<rparr>"
  by code_simp

lemma demo_asks: "asks_unscoped (demo_call 5) (demo_sent ''mk_s'' []) ''x'' demo_routed"
proof -
  have "trim_space ''all'' = ''all''" "valid_utf8 ''all''" by code_simp+
  then show ?thesis
    by (simp add: asks_unscoped_def parseJSON_def demo_call_def demo_decoders_def demo_sent_def demo_env_def demo_routed_def
        no_relay_def demo_credential_def CredentialTokenPrefix_def)
qed

lemma demo_queues: "queues_with (demo_call 6) (demo_sent ''mk_x'' ''d1'') ''x'' ''backup'' ''{}'' ''r'' demo_routed"
proof -
  have "trim_space ''backup'' \<noteq> []" "decode_std ''e30='' = Some ''{}''" by code_simp+
  then show ?thesis
    by (simp add: queues_with_def parseJSON_def demo_call_def demo_decoders_def demo_sent_def demo_env_def demo_routed_def
        no_relay_def CredentialTokenPrefix_def webhookBodyLimit_def)
qed

lemma demo_bob_is_no_member: "daemonForAccount (demo_env 6) [demo_host] ''bob'' ''d1'' = Inl ErrForbidden"
  by code_simp

theorem any_caller_reaches_any_daemon_witness:
  "\<exists>s1 view s2 r. serveRoute (demo_call 5) (MemberWrite PostCredential) (demo_sent ''mk_s'' []) demo_routed =
      (s1, Reply 201 (PNewCredential view ''mk_x'')) \<and>
    serveRoute (demo_call 6) (MemberWrite PostWebhook) (demo_sent ''mk_x'' ''d1'') s1 = (s2, Reply 201 (PQueued ''r'' HPending 6)) \<and>
    r \<in> set (rl_hooks (cs_relay s2)) \<and> hr_daemon r = ''d1'' \<and> hr_name r = trim_space ''backup''"
proof -
  have e: "ce_sha256 (cc_auth (demo_call 6)) = ce_sha256 (cc_env (demo_call 5))" "hq_id (demo_sent ''mk_x'' ''d1'') = ''d1''"
    "ce_now (cc_env (demo_call 6)) = 6" "CredentialTokenPrefix @ ''x'' = ''mk_x''"
    by (simp_all add: demo_call_def demo_env_def demo_sent_def CredentialTokenPrefix_def)
  show ?thesis
    using any_caller_reaches_any_daemon [OF demo_bob demo_asks demo_queues e(1)] unfolding e by blast
qed

lemma demo_secret: "daemonSecret (demo_sent ''pw'' ''d1'') = Some ''pw''"
  by code_simp

lemma demo_authentic: "authenticateDaemon (demo_env 5) [demo_host] ''d1'' ''pw'' = Inr demo_host"
  by code_simp

lemma demo_synced: "got_through demo_routed (serveRoute (demo_call 5) (DaemonRoute PostActions) (demo_sent ''pw'' ''d1'') demo_routed)"
proof -
  have parts: "cc_env (demo_call 5) = demo_env 5" "cs_daemons demo_routed = [demo_host]" "cs_actions demo_routed = []"
    "hq_id (demo_sent ''pw'' ''d1'') = ''d1''" "ce_fault (demo_env 5) = (\<lambda>_. False)"
    "parseJSON (jd_actions (cc_json (demo_call 5))) (hq_body (demo_sent ''pw'' ''d1'')) = Some []"
    by (simp_all add: demo_call_def demo_env_def demo_routed_def demo_sent_def demo_decoders_def parseJSON_def)
  show ?thesis
    by (simp add: got_through_def serveRoute_def syncActions_def with_secret_def demo_secret with_body_def stored_or_def
        SyncActions_def parts demo_authentic)
qed

theorem routes_authenticated_witness: "daemonSecret (demo_sent ''pw'' ''d1'') = Some ''pw''"
proof -
  have "\<exists>secret. daemonSecret (demo_sent ''pw'' ''d1'') = Some secret \<and> secret = ''pw''"
    using routes_authenticated [OF demo_synced]
    by (auto simp: demo_call_def demo_env_def demo_routed_def demo_host_def demo_sent_def daemon_row_def)
  then show ?thesis by simp
qed


theorem daemon_requests_isolated_witness:
  "only_about ''d1'' demo_routed (fst (serveRoute (demo_call 5) (DaemonRoute PostActions) (demo_sent ''pw'' ''d1'') demo_routed))"
proof -
  have "hq_id (demo_sent ''pw'' ''d1'') = ''d1''" by (simp add: demo_sent_def)
  then show ?thesis
    using daemon_requests_isolated [OF surjective_pairing
      [of "serveRoute (demo_call 5) (DaemonRoute PostActions) (demo_sent ''pw'' ''d1'') demo_routed"]]
    by simp
qed

lemma demo_alice: "userAuth (demo_call 5) (demo_sent ''alice'' ''d1'') (cs_relay demo_routed) =
    Some \<lparr>ca_account = ''alice'', ca_handle = ''alice'', ca_credential = None\<rparr>"
  by code_simp

lemma demo_member_found: "daemonForAccount (demo_env 5) [demo_host] ''alice'' ''d1'' = Inr demo_host"
  by code_simp

lemma demo_shown: "got_through demo_routed (serveRoute (demo_call 5) (MemberRead GetDaemonAt) (demo_sent ''alice'' ''d1'') demo_routed)"
proof -
  have parts: "cc_env (demo_call 5) = demo_env 5" "cs_daemons demo_routed = [demo_host]" "hq_id (demo_sent ''alice'' ''d1'') = ''d1''"
    by (simp_all add: demo_call_def demo_routed_def demo_sent_def)
  show ?thesis
    by (simp add: got_through_def serveRoute_def demo_alice getDaemon_def GetDaemon_def parts demo_member_found respond_def)
qed

theorem member_routes_need_membership_witness:
  "member_of (demo_call 5) ''alice'' (read_workspace GetDaemonAt (demo_sent ''alice'' ''d1'') demo_routed)"
  using member_routes_need_membership [OF demo_shown demo_alice] by simp

end
