(* ===== verification/Spec2Isabelle.thy ===== *)
theory Spec2Isabelle
  imports Priv_Properties Run_Slots Task_Store Ops_Properties Webhook_Exec
    Cloud_Terminal_Facts Cloud_Terminal_Poll Cloud_Terminal_Races Cloud_Webhooks_Facts Cloud_Disconnect Cloud_Reports_Facts
    Daemon_Files_Copy Image_Ref_Facts Compose_Stacks_Facts Ops_Dispatch
    Daemon_Reload_Facts Daemon_Jobs_Facts Daemon_Health_Facts Daemon_Terminal_Facts
    Daemon_Terminal_Session_Facts Cloud_Routes_Facts
begin

text \<open>
  MaidCafe manages hosts: a daemon on the host runs webhooks and operations, a root helper does
  the few things the daemon may not, and a cloud service relays requests to daemons that poll it.
\<close>

end
